(* ===== verification/Prelude.thy ===== *)
theory Prelude
  imports Main "HOL-Library.Sublist"
begin

section \<open>Shared vocabulary of the development\<close>

text \<open>
  The errors the Python code raises, the result type of fallible code with its sequencing, the
  fragment of Python's \<^verbatim>\<open>str\<close>, \<^verbatim>\<open>dict\<close> and
  \<^verbatim>\<open>list\<close> methods the sources use, and the list lemmas the component
  theories share. Nothing here is specific to one component.
\<close>

named_theorems repo_defs \<open>definitions of the repository operations\<close>
named_theorems resolver_defs \<open>definitions of the permission resolvers\<close>
named_theorems wf_keeps \<open>preservation lemmas: an operation keeps a well-formedness invariant\<close>

subsection \<open>Exceptions as values\<close>

text \<open>
  \<^verbatim>\<open>MlflowException\<close> carries one of the error codes of
  \<^verbatim>\<open>databricks_pb2\<close>; the other constructors are the exceptions of SQLAlchemy,
  of Python's built-in types, of \<^verbatim>\<open>re\<close>, of Werkzeug and of FastAPI (a status and its detail)
  that reach the code.
\<close>

datatype error_code =
    RESOURCE_DOES_NOT_EXIST
  | RESOURCE_ALREADY_EXISTS
  | INVALID_STATE
  | INVALID_PARAMETER_VALUE
  | BAD_REQUEST
  | UNAUTHENTICATED
  | INTERNAL_ERROR

datatype exn =
    MlflowException error_code
  | NoResultFound
  | MultipleResultsFound
  | IntegrityError
  | KeyError
  | ReError
  | ValueError
  | TypeError
  | AttributeError
  | HttpBadRequest
  | HTTPException nat string
  | OtherException

type_synonym 'a res = "exn + 'a"

definition bindE :: "'a res \<Rightarrow> ('a \<Rightarrow> 'b res) \<Rightarrow> 'b res" where
  "bindE m f = (case m of Inl e \<Rightarrow> Inl e | Inr x \<Rightarrow> f x)"

lemma bindE_Inl [simp]: "bindE (Inl e) f = Inl e"
  by (simp add: bindE_def)

lemma bindE_Inr [simp]: "bindE (Inr x) f = f x"
  by (simp add: bindE_def)

lemma bindE_eq_Inr [simp]: "bindE m f = Inr y \<longleftrightarrow> (\<exists>x. m = Inr x \<and> f x = Inr y)"
  by (cases m) auto

lemma bindE_eq_Inl: "bindE m f = Inl e \<longleftrightarrow> m = Inl e \<or> (\<exists>x. m = Inr x \<and> f x = Inl e)"
  by (cases m) auto

lemma bindE_assoc: "bindE (bindE m f) g = bindE m (\<lambda>x. bindE (f x) g)"
  by (cases m) auto

lemma bindE_cong [fundef_cong]:
  "m = m' \<Longrightarrow> (\<And>x. m' = Inr x \<Longrightarrow> f x = f' x) \<Longrightarrow> bindE m f = bindE m' f'"
  by (cases m') auto

text \<open>A comprehension \<^verbatim>\<open>[f(x) for x in xs]\<close> whose body may raise.\<close>

fun mapE :: "('a \<Rightarrow> 'b res) \<Rightarrow> 'a list \<Rightarrow> 'b list res" where
  "mapE f [] = Inr []"
| "mapE f (x # xs) = bindE (f x) (\<lambda>y. bindE (mapE f xs) (\<lambda>ys. Inr (y # ys)))"

lemma mapE_Inr_length: "mapE f xs = Inr ys \<Longrightarrow> length ys = length xs"
  by (induction xs arbitrary: ys) auto

lemma mapE_total: "(\<And>x. x \<in> set xs \<Longrightarrow> f x = Inr (g x)) \<Longrightarrow> mapE f xs = Inr (map g xs)"
  by (induction xs) auto

subsection \<open>Python strings\<close>

text \<open>
  Strings are lists of characters; \<^verbatim>\<open>lower\<close> and
  \<^verbatim>\<open>strip\<close> are modelled on the ASCII range.
\<close>

definition lower_char :: "char \<Rightarrow> char" where
  "lower_char c = (if 65 \<le> (of_char c :: nat) \<and> (of_char c :: nat) \<le> 90 then char_of ((of_char c :: nat) + 32) else c)"

definition py_lower :: "string \<Rightarrow> string" where
  "py_lower s = map lower_char s"

lemma lower_char_idem [simp]: "lower_char (lower_char c) = lower_char c"
proof (cases "65 \<le> (of_char c :: nat) \<and> (of_char c :: nat) \<le> 90")
  case True
  then have "(of_char (char_of ((of_char c :: nat) + 32) :: char) :: nat) = of_char c + 32"
    by simp
  with True show ?thesis by (simp add: lower_char_def)
next
  case False
  then have "lower_char c = c" by (auto simp: lower_char_def)
  then show ?thesis by simp
qed

lemma py_lower_idem [simp]: "py_lower (py_lower s) = py_lower s"
  by (simp add: py_lower_def comp_def)

lemma py_lower_Nil_iff [simp]: "py_lower s = [] \<longleftrightarrow> s = []"
  by (simp add: py_lower_def)

definition is_space :: "char \<Rightarrow> bool" where
  "is_space c = (of_char c \<in> {9::nat, 10, 11, 12, 13, 28, 29, 30, 31, 32})"

definition py_strip :: "string \<Rightarrow> string" where
  "py_strip s = rev (dropWhile is_space (rev (dropWhile is_space s)))"

abbreviation py_startswith :: "string \<Rightarrow> string \<Rightarrow> bool" where
  "py_startswith s p \<equiv> prefix p s"

text \<open>\<^verbatim>\<open>needle in s\<close> and \<^verbatim>\<open>s.split(sep)\<close> on strings, and the ASCII digits.\<close>

definition py_contains :: "string \<Rightarrow> string \<Rightarrow> bool" where
  "py_contains needle s \<longleftrightarrow> (\<exists>i\<in>set [0..<Suc (length s)]. prefix needle (drop i s))"

fun py_split :: "char \<Rightarrow> string \<Rightarrow> string list" where
  "py_split sep [] = [[]]"
| "py_split sep (c # s) =
     (if c = sep then [] # py_split sep s
      else case py_split sep s of [] \<Rightarrow> [[c]] | w # ws \<Rightarrow> (c # w) # ws)"

definition is_digit :: "char \<Rightarrow> bool" where
  "is_digit c \<longleftrightarrow> 48 \<le> (of_char c :: nat) \<and> (of_char c :: nat) \<le> 57"

subsection \<open>Python dictionaries and lists\<close>

text \<open>
  A dictionary literal or comprehension is an association list read with the last binding of a
  key winning; \<^verbatim>\<open>list(dict.fromkeys(xs))\<close> removes repetitions and keeps
  the first occurrences in order.
\<close>

definition dict_of :: "('k \<times> 'v) list \<Rightarrow> 'k \<rightharpoonup> 'v" where
  "dict_of kvs = map_of (rev kvs)"

lemma dict_of_simps [simp]:
  "dict_of [] = Map.empty"
  "dict_of (kvs @ [(k, v)]) = (dict_of kvs)(k \<mapsto> v)"
  by (simp_all add: dict_of_def)

lemma distinct_map_of_rev: "distinct (map fst kvs) \<Longrightarrow> map_of (rev kvs) = map_of kvs"
proof (rule ext)
  fix k
  assume d: "distinct (map fst kvs)"
  then have "distinct (map fst (rev kvs))"
    by (simp add: rev_map [symmetric])
  with d have "map_of (rev kvs) k = Some v \<longleftrightarrow> map_of kvs k = Some v" for v
    by (simp only: map_of_eq_Some_iff set_rev)
  then show "map_of (rev kvs) k = map_of kvs k"
    by (metis not_None_eq)
qed

lemma dict_of_distinct: "distinct (map fst kvs) \<Longrightarrow> dict_of kvs = map_of kvs"
  by (simp add: dict_of_def distinct_map_of_rev)

lemma map_leD: "m \<subseteq>\<^sub>m n \<Longrightarrow> m k = Some v \<Longrightarrow> n k = Some v"
  unfolding map_le_def by (metis domI)

fun dict_fromkeys :: "'a list \<Rightarrow> 'a list" where
  "dict_fromkeys [] = []"
| "dict_fromkeys (x # xs) = x # removeAll x (dict_fromkeys xs)"

lemma set_dict_fromkeys [simp]: "set (dict_fromkeys xs) = set xs"
  by (induction xs) auto

lemma distinct_dict_fromkeys [simp]: "distinct (dict_fromkeys xs)"
  by (induction xs) (auto simp: distinct_removeAll)

text \<open>The first element of a list that satisfies a test (\<^verbatim>\<open>next(...)\<close>).\<close>

lemma find_append: "List.find P (xs @ ys) = (case List.find P xs of None \<Rightarrow> List.find P ys | Some x \<Rightarrow> Some x)"
  by (induction xs) auto

lemma find_SomeD: "List.find P xs = Some x \<Longrightarrow> x \<in> set xs \<and> P x"
  by (induction xs) (auto split: if_splits)

end
