(* ===== verification/Permissions.thy ===== *)
theory Permissions
  imports Prelude
begin

section \<open>Permission levels (permissions.py)\<close>

text \<open>
  The five permission levels, the registry \<^verbatim>\<open>ALL_PERMISSIONS\<close>,
  validation of a permission name and the comparison of two names by priority.
\<close>

record permission =
  name :: string
  priority :: int
  can_read :: bool
  can_use :: bool
  can_update :: bool
  can_delete :: bool
  can_manage :: bool

definition READ :: permission where
  "READ = \<lparr>name = ''READ'', priority = 1, can_read = True, can_use = False,
     can_update = False, can_delete = False, can_manage = False\<rparr>"

definition USE :: permission where
  "USE = \<lparr>name = ''USE'', priority = 2, can_read = True, can_use = True,
     can_update = False, can_delete = False, can_manage = False\<rparr>"

definition EDIT :: permission where
  "EDIT = \<lparr>name = ''EDIT'', priority = 3, can_read = True, can_use = True,
     can_update = True, can_delete = False, can_manage = False\<rparr>"

definition MANAGE :: permission where
  "MANAGE = \<lparr>name = ''MANAGE'', priority = 4, can_read = True, can_use = True,
     can_update = True, can_delete = True, can_manage = True\<rparr>"

definition NO_PERMISSIONS :: permission where
  "NO_PERMISSIONS = \<lparr>name = ''NO_PERMISSIONS'', priority = 100, can_read = False, can_use = False,
     can_update = False, can_delete = False, can_manage = False\<rparr>"

definition ALL_PERMISSIONS :: "(string \<times> permission) list" where
  "ALL_PERMISSIONS =
     [(name READ, READ), (name USE, USE), (name EDIT, EDIT), (name MANAGE, MANAGE),
      (name NO_PERMISSIONS, NO_PERMISSIONS)]"

definition get_permission :: "string \<Rightarrow> permission res" where
  "get_permission p = (case map_of ALL_PERMISSIONS p of None \<Rightarrow> Inl KeyError | Some r \<Rightarrow> Inr r)"

definition validate_permission :: "string \<Rightarrow> unit res" where
  "validate_permission p =
     (if p \<in> fst ` set ALL_PERMISSIONS then Inr () else Inl (MlflowException INVALID_PARAMETER_VALUE))"

definition compare_permissions :: "string \<Rightarrow> string \<Rightarrow> bool res" where
  "compare_permissions p1 p2 =
     bindE (validate_permission p1) (\<lambda>_.
     bindE (validate_permission p2) (\<lambda>_.
     bindE (get_permission p1) (\<lambda>r1.
     bindE (get_permission p2) (\<lambda>r2.
     Inr (priority r1 \<le> priority r2)))))"

lemmas permission_consts = READ_def USE_def EDIT_def MANAGE_def NO_PERMISSIONS_def

text \<open>A permission name as it may be stored: one of the five.\<close>

definition valid_permission :: "string \<Rightarrow> bool" where
  "valid_permission p \<longleftrightarrow> p \<in> {''READ'', ''USE'', ''EDIT'', ''MANAGE'', ''NO_PERMISSIONS''}"

text \<open>The priority of a valid name, the value the folds of the repositories compare.\<close>

definition prio :: "string \<Rightarrow> int" where
  "prio p = (case map_of ALL_PERMISSIONS p of None \<Rightarrow> 0 | Some r \<Rightarrow> priority r)"

lemma map_of_ALL_PERMISSIONS:
  "map_of ALL_PERMISSIONS =
     [''READ'' \<mapsto> READ, ''USE'' \<mapsto> USE, ''EDIT'' \<mapsto> EDIT, ''MANAGE'' \<mapsto> MANAGE,
      ''NO_PERMISSIONS'' \<mapsto> NO_PERMISSIONS]"
  by (rule ext) (simp add: ALL_PERMISSIONS_def permission_consts)

lemma dom_ALL_PERMISSIONS: "p \<in> fst ` set ALL_PERMISSIONS \<longleftrightarrow> valid_permission p"
  by (auto simp: ALL_PERMISSIONS_def valid_permission_def permission_consts)

lemma validate_permission_Inr [simp]: "validate_permission p = Inr () \<longleftrightarrow> valid_permission p"
  by (simp add: validate_permission_def dom_ALL_PERMISSIONS)

lemma validate_permission_valid [simp]: "valid_permission p \<Longrightarrow> validate_permission p = Inr ()"
  by simp

lemma validate_permission_eq:
  "validate_permission p = (if valid_permission p then Inr () else Inl (MlflowException INVALID_PARAMETER_VALUE))"
  by (simp add: validate_permission_def dom_ALL_PERMISSIONS)

lemma valid_permission_cases:
  assumes "valid_permission p"
  obtains "p = ''READ''" | "p = ''USE''" | "p = ''EDIT''" | "p = ''MANAGE''" | "p = ''NO_PERMISSIONS''"
  using assms unfolding valid_permission_def by blast

lemma get_permission_simps [simp]:
  "get_permission ''READ'' = Inr READ"
  "get_permission ''USE'' = Inr USE"
  "get_permission ''EDIT'' = Inr EDIT"
  "get_permission ''MANAGE'' = Inr MANAGE"
  "get_permission ''NO_PERMISSIONS'' = Inr NO_PERMISSIONS"
  by (simp_all add: get_permission_def map_of_ALL_PERMISSIONS)

lemma prio_simps [simp]:
  "prio ''READ'' = 1" "prio ''USE'' = 2" "prio ''EDIT'' = 3" "prio ''MANAGE'' = 4" "prio ''NO_PERMISSIONS'' = 100"
  by (simp_all add: prio_def map_of_ALL_PERMISSIONS permission_consts)

lemma get_permission_valid: "valid_permission p \<Longrightarrow> \<exists>r. get_permission p = Inr r \<and> name r = p"
  by (elim valid_permission_cases; simp add: permission_consts)

lemma get_permission_invalid: "\<not> valid_permission p \<Longrightarrow> get_permission p = Inl KeyError"
  unfolding get_permission_def dom_ALL_PERMISSIONS [symmetric]
  by (metis map_of_eq_None_iff option.simps(4))

lemma get_permission_InrD:
  assumes "get_permission p = Inr r"
  shows "valid_permission p" and "r \<in> {READ, USE, EDIT, MANAGE, NO_PERMISSIONS}" and "priority r = prio p"
proof -
  show v: "valid_permission p"
    using assms get_permission_invalid by fastforce
  show "r \<in> {READ, USE, EDIT, MANAGE, NO_PERMISSIONS}"
    using assms by (cases rule: valid_permission_cases [OF v]) simp_all
  show "priority r = prio p"
    using v assms by (cases rule: valid_permission_cases [OF v]) (simp_all, auto simp: permission_consts)
qed

lemma compare_permissions_valid:
  assumes "valid_permission p" and "valid_permission q"
  shows "compare_permissions p q = Inr (prio p \<le> prio q)"
proof -
  obtain r s where r: "get_permission p = Inr r" and s: "get_permission q = Inr s"
    using assms get_permission_valid by blast
  from r s show ?thesis
    using assms get_permission_InrD(3) [OF r] get_permission_InrD(3) [OF s]
    by (simp add: compare_permissions_def validate_permission_eq)
qed

lemma compare_permissions_invalid:
  "\<not> (valid_permission p \<and> valid_permission q) \<Longrightarrow>
   compare_permissions p q = Inl (MlflowException INVALID_PARAMETER_VALUE)"
  by (auto simp: compare_permissions_def validate_permission_eq)

lemma prio_inj: "valid_permission p \<Longrightarrow> valid_permission q \<Longrightarrow> prio p = prio q \<Longrightarrow> p = q"
  by (elim valid_permission_cases; simp)

lemma prio_bounds: "valid_permission p \<Longrightarrow> 1 \<le> prio p \<and> prio p \<le> 100"
  by (elim valid_permission_cases; simp)

text \<open>
  What one level grants, as the set of its capability flags, and the order of the granting levels.
\<close>

datatype capability = CanRead | CanUse | CanUpdate | CanDelete | CanManage

fun grants :: "permission \<Rightarrow> capability \<Rightarrow> bool" where
  "grants r CanRead = can_read r"
| "grants r CanUse = can_use r"
| "grants r CanUpdate = can_update r"
| "grants r CanDelete = can_delete r"
| "grants r CanManage = can_manage r"

end
