(* ===== verification/Database.thy ===== *)
theory Database
  imports Permissions
begin

section \<open>The permission database: tables, queries and row lookups\<close>

text \<open>
  The tables of \<^verbatim>\<open>db/models\<close> as lists of rows, the SQLAlchemy query
  forms the repositories use (\<^verbatim>\<open>.one()\<close>,
  \<^verbatim>\<open>.one_or_none()\<close>, \<^verbatim>\<open>.order_by()\<close>) and the
  lookups of \<^verbatim>\<open>repository/utils.py\<close>. A permission row is one record
  for the user and the group tables: the column \<open>p_owner\<close> is
  \<^verbatim>\<open>user_id\<close> in the former and \<^verbatim>\<open>group_id\<close> in the
  latter. The registered-model group and regex tables carry the extra column
  \<^verbatim>\<open>prompt\<close> as a record extension. Times are integers (seconds).
\<close>

subsection \<open>Rows\<close>

record user_row =
  u_id :: int
  u_username :: string
  u_display_name :: string
  u_password_hash :: string
  u_password_expiration :: "int option"
  u_is_admin :: bool
  u_is_service_account :: bool
  u_active :: bool
  u_managed_by :: string

record group_row =
  g_id :: int
  g_group_name :: string

record user_group_row =
  ug_id :: int
  ug_user_id :: int
  ug_group_id :: int

record 'r perm_row =
  p_id :: int
  p_resource :: 'r
  p_owner :: int
  p_permission :: string

record 'r model_group_row = "'r perm_row" +
  p_prompt :: bool

record regex_row =
  rx_id :: int
  rx_regex :: string
  rx_priority :: int
  rx_owner :: int
  rx_permission :: string

record model_regex_row = regex_row +
  rx_prompt :: bool

record identity_row =
  i_id :: int
  i_provider_id :: string
  i_subject :: string
  i_user_id :: int
  i_last_login_at :: "int option"

record session_row =
  s_id :: int
  s_session_id :: string
  s_user_id :: int
  s_provider_id :: "string option"
  s_expires_at :: int
  s_revoked_at :: "int option"

record state_row =
  st_id :: int
  st_state :: string
  st_provider_id :: "string option"
  st_relay_state :: "string option"
  st_expires_at :: int

text \<open>The four permission tables of one resource type.\<close>

record ('u, 'g, 'x, 'y) perm_tables =
  t_user :: "'u list"
  t_group :: "'g list"
  t_regex :: "'x list"
  t_group_regex :: "'y list"

type_synonym 'r std_tables = "('r perm_row, 'r perm_row, regex_row, regex_row) perm_tables"
type_synonym model_tables =
  "(string perm_row, string model_group_row, model_regex_row, model_regex_row) perm_tables"

record db =
  users :: "user_row list"
  groups :: "group_row list"
  user_groups :: "user_group_row list"
  experiment_tables :: "string std_tables"
  registered_model_tables :: model_tables
  scorer_tables :: "(string \<times> string) std_tables"
  gateway_endpoint_tables :: "string std_tables"
  gateway_secret_tables :: "string std_tables"
  gateway_model_definition_tables :: "string std_tables"
  workspace_tables :: "string std_tables"
  user_identities :: "identity_row list"
  auth_sessions :: "session_row list"
  auth_states :: "state_row list"

subsection \<open>Query forms\<close>

fun sql_one :: "'a list \<Rightarrow> 'a res" where
  "sql_one [] = Inl NoResultFound"
| "sql_one [x] = Inr x"
| "sql_one (x # y # zs) = Inl MultipleResultsFound"

fun sql_one_or_none :: "'a list \<Rightarrow> 'a option res" where
  "sql_one_or_none [] = Inr None"
| "sql_one_or_none [x] = Inr (Some x)"
| "sql_one_or_none (x # y # zs) = Inl MultipleResultsFound"

text \<open>
  The handler that the lookups wrap around \<^verbatim>\<open>.one()\<close>: an absent row is
  \<^verbatim>\<open>RESOURCE_DOES_NOT_EXIST\<close>, a duplicate one
  \<^verbatim>\<open>INVALID_STATE\<close>.
\<close>

definition one_or_raise :: "'a list \<Rightarrow> 'a res" where
  "one_or_raise xs =
     (case sql_one xs of
        Inl NoResultFound \<Rightarrow> Inl (MlflowException RESOURCE_DOES_NOT_EXIST)
      | Inl MultipleResultsFound \<Rightarrow> Inl (MlflowException INVALID_STATE)
      | r \<Rightarrow> r)"

lemma one_or_raise_simps [simp]:
  "one_or_raise [] = Inl (MlflowException RESOURCE_DOES_NOT_EXIST)"
  "one_or_raise [x] = Inr x"
  "one_or_raise (x # y # zs) = Inl (MlflowException INVALID_STATE)"
  by (simp_all add: one_or_raise_def)

lemma sql_one_Inr [simp]: "sql_one xs = Inr x \<longleftrightarrow> xs = [x]"
  by (cases xs rule: sql_one.cases) auto

lemma one_or_raise_Inr [simp]: "one_or_raise xs = Inr x \<longleftrightarrow> xs = [x]"
  by (cases xs rule: sql_one.cases) auto

lemma one_or_raise_absent:
  "one_or_raise xs = Inl (MlflowException RESOURCE_DOES_NOT_EXIST) \<longleftrightarrow> xs = []"
  by (cases xs rule: sql_one.cases) auto

lemma sql_one_or_none_Inr:
  "sql_one_or_none xs = Inr r \<longleftrightarrow> (xs = [] \<and> r = None) \<or> (\<exists>x. xs = [x] \<and> r = Some x)"
  by (cases xs rule: sql_one.cases) auto

text \<open>The primary key the database assigns to a new row: one that no row of the table has.\<close>

definition next_id :: "('a \<Rightarrow> int) \<Rightarrow> 'a list \<Rightarrow> int" where
  "next_id key rows = foldr max (map key rows) 0 + 1"

lemma foldr_max_ge: "k \<in> set ks \<Longrightarrow> k \<le> foldr max ks (0::int)"
  by (induction ks) auto

lemma next_id_fresh: "next_id key rows \<notin> key ` set rows"
proof
  assume "next_id key rows \<in> key ` set rows"
  then have "next_id key rows \<le> foldr max (map key rows) 0"
    by (auto intro: foldr_max_ge)
  then show False by (simp add: next_id_def)
qed

subsection \<open>Row lookups (repository/utils.py)\<close>

definition get_user :: "user_row list \<Rightarrow> string \<Rightarrow> user_row res" where
  "get_user us uname = one_or_raise [u. u \<leftarrow> us, u_username u = uname]"

definition get_group :: "group_row list \<Rightarrow> string \<Rightarrow> group_row res" where
  "get_group gs gname = one_or_raise [g. g \<leftarrow> gs, g_group_name g = gname]"

definition list_user_groups :: "user_group_row list \<Rightarrow> user_row \<Rightarrow> user_group_row list" where
  "list_user_groups ugs u = [ug. ug \<leftarrow> ugs, ug_user_id ug = u_id u]"

subsection \<open>Uniqueness: what the table constraints guarantee\<close>

text \<open>
  Keys are unique in a table; for such a table a filter on the key has at most one row.
\<close>

definition unique_on :: "('a \<Rightarrow> 'k) \<Rightarrow> 'a list \<Rightarrow> bool" where
  "unique_on key rows \<longleftrightarrow> distinct (map key rows)"

lemma unique_on_simps [simp]:
  "unique_on key []"
  "unique_on key (r # rows) \<longleftrightarrow> key r \<notin> key ` set rows \<and> unique_on key rows"
  by (auto simp: unique_on_def)

lemma unique_on_append_one [simp]:
  "unique_on key (rows @ [r]) \<longleftrightarrow> key r \<notin> key ` set rows \<and> unique_on key rows"
  by (auto simp: unique_on_def)

lemma unique_on_filter: "unique_on key rows \<Longrightarrow> unique_on key (filter P rows)"
  by (auto simp: unique_on_def intro: distinct_map_filter)

lemma unique_on_map_eq:
  "(\<And>r. r \<in> set rows \<Longrightarrow> key (f r) = key r) \<Longrightarrow> unique_on key (map f rows) = unique_on key rows"
  unfolding unique_on_def by (simp add: comp_def cong: map_cong)

lemma unique_onD:
  "unique_on key rows \<Longrightarrow> r \<in> set rows \<Longrightarrow> r' \<in> set rows \<Longrightarrow> key r = key r' \<Longrightarrow> r = r'"
  by (simp add: unique_on_def distinct_map inj_on_def)

lemma distinct_singleton: "distinct xs \<Longrightarrow> set xs = {x} \<Longrightarrow> xs = [x]"
  by (cases xs rule: sql_one.cases) auto

lemma filter_unique_on:
  assumes "unique_on key rows" and "r \<in> set rows" and "P r"
    and "\<And>r'. r' \<in> set rows \<Longrightarrow> P r' \<Longrightarrow> key r' = key r"
  shows "filter P rows = [r]"
proof (rule distinct_singleton)
  from assms(1) show "distinct (filter P rows)"
    by (simp add: unique_on_def distinct_map)
  have "r' = r" if "r' \<in> set rows" "P r'" for r'
    by (rule unique_onD [OF assms(1) that(1) assms(2) assms(4) [OF that]])
  with assms(2,3) show "set (filter P rows) = {r}"
    unfolding set_filter by blast
qed

text \<open>The user and group tables: unique primary keys and unique names.\<close>

definition wf_users :: "user_row list \<Rightarrow> bool" where
  "wf_users us \<longleftrightarrow> unique_on u_id us \<and> unique_on u_username us"

definition wf_groups :: "group_row list \<Rightarrow> bool" where
  "wf_groups gs \<longleftrightarrow> unique_on g_id gs \<and> unique_on g_group_name gs"

definition wf_user_groups :: "user_group_row list \<Rightarrow> bool" where
  "wf_user_groups ugs \<longleftrightarrow> unique_on ug_id ugs \<and> unique_on (\<lambda>r. (ug_user_id r, ug_group_id r)) ugs"

lemma filter_list_comp: "[x. x \<leftarrow> xs, P x] = filter P xs"
  by (induction xs) auto

lemma get_user_Inr_iff:
  assumes "wf_users us"
  shows "get_user us uname = Inr u \<longleftrightarrow> u \<in> set us \<and> u_username u = uname"
proof
  assume "get_user us uname = Inr u"
  then have "filter (\<lambda>u. u_username u = uname) us = [u]"
    by (simp add: get_user_def filter_list_comp)
  then have "u \<in> set (filter (\<lambda>u. u_username u = uname) us)" by simp
  then show "u \<in> set us \<and> u_username u = uname" by simp
next
  assume "u \<in> set us \<and> u_username u = uname"
  with assms have "filter (\<lambda>u. u_username u = uname) us = [u]"
    by (intro filter_unique_on [where key = u_username]) (auto simp: wf_users_def)
  then show "get_user us uname = Inr u"
    by (simp add: get_user_def filter_list_comp)
qed

lemma get_user_absent_iff:
  "get_user us uname = Inl (MlflowException RESOURCE_DOES_NOT_EXIST) \<longleftrightarrow> uname \<notin> u_username ` set us"
  by (auto simp: get_user_def one_or_raise_absent filter_list_comp filter_empty_conv)

lemma get_group_Inr_iff:
  assumes "wf_groups gs"
  shows "get_group gs gname = Inr g \<longleftrightarrow> g \<in> set gs \<and> g_group_name g = gname"
proof
  assume "get_group gs gname = Inr g"
  then have "filter (\<lambda>g. g_group_name g = gname) gs = [g]"
    by (simp add: get_group_def filter_list_comp)
  then have "g \<in> set (filter (\<lambda>g. g_group_name g = gname) gs)" by simp
  then show "g \<in> set gs \<and> g_group_name g = gname" by simp
next
  assume "g \<in> set gs \<and> g_group_name g = gname"
  with assms have "filter (\<lambda>g. g_group_name g = gname) gs = [g]"
    by (intro filter_unique_on [where key = g_group_name]) (auto simp: wf_groups_def)
  then show "get_group gs gname = Inr g"
    by (simp add: get_group_def filter_list_comp)
qed

lemma get_group_absent_iff:
  "get_group gs gname = Inl (MlflowException RESOURCE_DOES_NOT_EXIST) \<longleftrightarrow> gname \<notin> g_group_name ` set gs"
  by (auto simp: get_group_def one_or_raise_absent filter_list_comp filter_empty_conv)

lemma get_group_cases:
  assumes "wf_groups gs"
  obtains (found) g where "get_group gs gname = Inr g" "g \<in> set gs" "g_group_name g = gname"
  | (absent) "get_group gs gname = Inl (MlflowException RESOURCE_DOES_NOT_EXIST)" "gname \<notin> g_group_name ` set gs"
  using assms get_group_Inr_iff get_group_absent_iff by (metis imageE)

lemma get_user_cases:
  assumes "wf_users us"
  obtains (found) u where "get_user us uname = Inr u" "u \<in> set us" "u_username u = uname"
  | (absent) "get_user us uname = Inl (MlflowException RESOURCE_DOES_NOT_EXIST)" "uname \<notin> u_username ` set us"
  using assms get_user_Inr_iff get_user_absent_iff by (metis imageE)

lemma username_unique:
  "wf_users us \<Longrightarrow> u \<in> set us \<Longrightarrow> v \<in> set us \<Longrightarrow> u_username u = u_username v \<Longrightarrow> u = v"
  unfolding wf_users_def using unique_onD [of u_username] by blast

subsection \<open>Joins\<close>

text \<open>
  \<^verbatim>\<open>query(A).join(B, ...).filter(...)\<close>: one result row per pair that
  satisfies the condition. Where every \<open>A\<close> row has at most one partner, that is a filter.
\<close>

definition sql_join :: "'a list \<Rightarrow> 'b list \<Rightarrow> ('a \<Rightarrow> 'b \<Rightarrow> bool) \<Rightarrow> 'a list" where
  "sql_join xs ys C = [x. x \<leftarrow> xs, y \<leftarrow> ys, C x y]"

lemma sql_join_simps [simp]:
  "sql_join [] ys C = []"
  "sql_join (x # xs) ys C = replicate (length (filter (C x) ys)) x @ sql_join xs ys C"
proof -
  have "concat (map (\<lambda>y. if C x y then [x] else []) ys) = replicate (length (filter (C x) ys)) x"
    by (induction ys) auto
  then show "sql_join (x # xs) ys C = replicate (length (filter (C x) ys)) x @ sql_join xs ys C"
    by (simp add: sql_join_def)
qed (simp add: sql_join_def)

lemma set_sql_join: "x \<in> set (sql_join xs ys C) \<longleftrightarrow> x \<in> set xs \<and> (\<exists>y\<in>set ys. C x y)"
  by (auto simp: sql_join_def)

lemma sql_join_filter:
  assumes "\<And>x. x \<in> set xs \<Longrightarrow> length (filter (C x) ys) \<le> 1"
  shows "sql_join xs ys C = filter (\<lambda>x. \<exists>y\<in>set ys. C x y) xs"
  using assms
proof (induction xs)
  case Nil
  then show ?case by simp
next
  case (Cons x xs)
  have "length (filter (C x) ys) = (if \<exists>y\<in>set ys. C x y then 1 else 0)"
  proof (cases "filter (C x) ys")
    case Nil
    then show ?thesis by (auto simp: filter_empty_conv)
  next
    case (Cons y zs)
    then have "y \<in> set (filter (C x) ys)" by simp
    then have "\<exists>y\<in>set ys. C x y" by auto
    moreover have "length (filter (C x) ys) = 1"
      using local.Cons Cons.prems [of x] by simp
    ultimately show ?thesis by simp
  qed
  with Cons show ?case by simp
qed

lemma filter_le1:
  assumes "unique_on key ys" and "\<And>y y'. y \<in> set ys \<Longrightarrow> y' \<in> set ys \<Longrightarrow> P y \<Longrightarrow> P y' \<Longrightarrow> key y = key y'"
  shows "length (filter P ys) \<le> 1"
proof (cases "filter P ys")
  case Nil
  then show ?thesis by simp
next
  case (Cons y zs)
  then have "y \<in> set (filter P ys)" by simp
  then have y: "y \<in> set ys" "P y" by simp_all
  have "filter P ys = [y]"
    by (rule filter_unique_on [where key = key and rows = ys and r = y and P = P, OF assms(1) y])
      (rule assms(2) [OF _ y(1) _ y(2)])
  then show ?thesis by simp
qed

lemma unique_on_product:
  assumes "unique_on key xs" and "unique_on key' ys"
  shows "unique_on (\<lambda>(x, y). (key x, key' y)) (List.product xs ys)"
proof -
  have "distinct xs" "distinct ys" "inj_on key (set xs)" "inj_on key' (set ys)"
    using assms by (auto simp: unique_on_def distinct_map)
  then show ?thesis
    by (auto simp: unique_on_def distinct_map distinct_product inj_on_def)
qed

text \<open>
  A query for columns of both tables: one result row per pair. When the condition determines the
  keys of both, there is at most one.
\<close>

lemma pairs_filter:
  "[(x, y). x \<leftarrow> xs, y \<leftarrow> ys, P x y] = filter (\<lambda>(x, y). P x y) (List.product xs ys)"
proof -
  have "concat (map (\<lambda>y. if P x y then [(x, y)] else []) ys) = filter (\<lambda>(x, y). P x y) (map (Pair x) ys)" for x
    by (induction ys) auto
  then show ?thesis by (induction xs) auto
qed

lemma pairs_map_filter:
  "[f x y. x \<leftarrow> xs, y \<leftarrow> ys, P x y] = map (\<lambda>(x, y). f x y) (filter (\<lambda>(x, y). P x y) (List.product xs ys))"
proof -
  have "concat (map (\<lambda>y. if P x y then [f x y] else []) ys) =
      map (\<lambda>(x, y). f x y) (filter (\<lambda>(x, y). P x y) (map (Pair x) ys))" for x
    by (induction ys) auto
  then show ?thesis by (induction xs) auto
qed

lemma sql_one_or_none_le1: "length xs \<le> 1 \<Longrightarrow> \<exists>r. sql_one_or_none xs = Inr r \<and> set_option r = set xs"
  by (cases xs rule: sql_one.cases) auto

lemma join_pairs_le1:
  assumes "unique_on key xs" and "unique_on key' ys"
    and "\<And>x y x' y'. x \<in> set xs \<Longrightarrow> y \<in> set ys \<Longrightarrow> x' \<in> set xs \<Longrightarrow> y' \<in> set ys \<Longrightarrow> P x y \<Longrightarrow> P x' y' \<Longrightarrow>
      key x = key x' \<and> key' y = key' y'"
  shows "length (filter (\<lambda>(x, y). P x y) (List.product xs ys)) \<le> 1"
proof (rule filter_le1 [OF unique_on_product [OF assms(1,2)]])
  fix p p'
  assume p: "p \<in> set (List.product xs ys)" "case p of (x, y) \<Rightarrow> P x y"
    and p': "p' \<in> set (List.product xs ys)" "case p' of (x, y) \<Rightarrow> P x y"
  obtain x y where xy: "p = (x, y)" by (rule prod.exhaust)
  obtain x' y' where xy': "p' = (x', y')" by (rule prod.exhaust)
  from p p' assms(3) [of x y x' y']
  show "(case p of (x, y) \<Rightarrow> (key x, key' y)) = (case p' of (x, y) \<Rightarrow> (key x, key' y))"
    unfolding xy xy' by simp
qed

text \<open>The join with the users table on a user name, and the one through group memberships.\<close>

lemma join_user:
  assumes "wf_users us"
  shows "sql_join xs us (\<lambda>x u. f x = u_id u \<and> Q x \<and> u_username u = uname) =
     (case get_user us uname of Inl e \<Rightarrow> [] | Inr u \<Rightarrow> filter (\<lambda>x. f x = u_id u \<and> Q x) xs)"
proof -
  have "sql_join xs us (\<lambda>x u. f x = u_id u \<and> Q x \<and> u_username u = uname) =
      filter (\<lambda>x. \<exists>u\<in>set us. f x = u_id u \<and> Q x \<and> u_username u = uname) xs"
    using assms by (intro sql_join_filter filter_le1 [where key = u_username]) (auto simp: wf_users_def)
  also have "\<dots> = (case get_user us uname of Inl e \<Rightarrow> [] | Inr u \<Rightarrow> filter (\<lambda>x. f x = u_id u \<and> Q x) xs)"
    using assms
  proof (cases rule: get_user_cases [where uname = uname])
    case (found u)
    have "(\<exists>v\<in>set us. f x = u_id v \<and> Q x \<and> u_username v = uname) \<longleftrightarrow> f x = u_id u \<and> Q x" for x
      using found username_unique [OF assms] by metis
    with found show ?thesis by simp
  next
    case absent
    then show ?thesis by (auto simp: filter_empty_conv)
  qed
  finally show ?thesis .
qed

lemma join_user_groups:
  assumes us: "wf_users us" and ugs: "wf_user_groups ugs"
  shows "sql_join xs (List.product ugs us)
      (\<lambda>x (ug, u). ug_group_id ug = f x \<and> u_id u = ug_user_id ug \<and> u_username u = uname \<and> Q x) =
     (case get_user us uname of
        Inl e \<Rightarrow> []
      | Inr u \<Rightarrow> filter (\<lambda>x. f x \<in> ug_group_id ` set (list_user_groups ugs u) \<and> Q x) xs)"
    (is "sql_join xs ?ys ?C = _")
proof -
  have uniq: "unique_on (\<lambda>(ug, u). ((ug_user_id ug, ug_group_id ug), u_username u)) ?ys"
    using us ugs by (intro unique_on_product) (auto simp: wf_users_def wf_user_groups_def)
  have key: "((ug_user_id ug, ug_group_id ug), u_username u) = ((ug_user_id ug', ug_group_id ug'), u_username u')"
    if "u \<in> set us" "u' \<in> set us" "?C x (ug, u)" "?C x (ug', u')" for x ug u ug' u'
    using that username_unique [OF us that(1,2)] by simp
  have "sql_join xs ?ys ?C = filter (\<lambda>x. \<exists>y\<in>set ?ys. ?C x y) xs"
    by (intro sql_join_filter filter_le1 [OF uniq]) (use key in fastforce)
  also have "\<dots> = (case get_user us uname of
        Inl e \<Rightarrow> []
      | Inr u \<Rightarrow> filter (\<lambda>x. f x \<in> ug_group_id ` set (list_user_groups ugs u) \<and> Q x) xs)"
    using us
  proof (cases rule: get_user_cases [where uname = uname])
    case (found u)
    have "(\<exists>y\<in>set ?ys. ?C x y) \<longleftrightarrow> (\<exists>ug\<in>set ugs. \<exists>v\<in>set us. ?C x (ug, v))" for x
      by auto
    also have "\<dots> x \<longleftrightarrow> (\<exists>ug\<in>set ugs. ?C x (ug, u))" for x
      using found username_unique [OF us] by (metis (mono_tags, lifting) case_prod_conv)
    also have "\<dots> x \<longleftrightarrow> f x \<in> ug_group_id ` set (list_user_groups ugs u) \<and> Q x" for x
      using found by (force simp: list_user_groups_def)
    finally show ?thesis using found by simp
  next
    case absent
    then show ?thesis by (auto simp: filter_empty_conv)
  qed
  finally show ?thesis .
qed

subsection \<open>Validation of stored patterns (repository/utils.py)\<close>

text \<open>
  What \<^verbatim>\<open>re.compile\<close> reports for a pattern is a parameter: an error, a
  \<^verbatim>\<open>SyntaxWarning\<close>, or success. The nested-quantifier test is the search for
  \<^verbatim>\<open>_NESTED_QUANTIFIER_RE\<close>: an opening parenthesis, a body free of closing
  parentheses that holds one of \<^verbatim>\<open>+*?\<close>, a closing parenthesis and a
  repeating quantifier. The optional group prefix \<^verbatim>\<open>(?:\?[:<>=!])?\<close> of the
  pattern only skips characters that the body may hold as well, so it does not change what matches.
\<close>

datatype compile_outcome = CompileError | CompileWarning | CompileOk

definition is_quantifier :: "char \<Rightarrow> bool" where
  "is_quantifier c \<longleftrightarrow> c = CHR ''+'' \<or> c = CHR ''*'' \<or> c = CHR ''?''"

definition repeats_brace :: "string \<Rightarrow> bool" where
  "repeats_brace s =
     (case s of
        CHR ''{'' # t \<Rightarrow>
          (let ds = takeWhile is_digit t; r = dropWhile is_digit t in
           ds \<noteq> [] \<and>
           (case r of
              CHR '','' # t' \<Rightarrow> (case dropWhile is_digit t' of CHR ''}'' # _ \<Rightarrow> True | _ \<Rightarrow> False)
            | _ \<Rightarrow> False))
      | _ \<Rightarrow> False)"

definition outer_quantifier :: "string \<Rightarrow> bool" where
  "outer_quantifier s =
     (case s of [] \<Rightarrow> False | c # _ \<Rightarrow> c = CHR ''+'' \<or> c = CHR ''*'' \<or> repeats_brace s)"

definition nested_here :: "string \<Rightarrow> bool" where
  "nested_here s =
     (case s of
        CHR ''('' # t \<Rightarrow>
          list_ex is_quantifier (takeWhile (\<lambda>c. c \<noteq> CHR '')'') t) \<and>
          (case dropWhile (\<lambda>c. c \<noteq> CHR '')'') t of [] \<Rightarrow> False | _ # r \<Rightarrow> outer_quantifier r)
      | _ \<Rightarrow> False)"

fun nested_quantifier :: "string \<Rightarrow> bool" where
  "nested_quantifier [] = False"
| "nested_quantifier (c # s) = (nested_here (c # s) \<or> nested_quantifier s)"

definition check_redos_patterns :: "string \<Rightarrow> unit res" where
  "check_redos_patterns rx = (if nested_quantifier rx then Inl (MlflowException INVALID_STATE) else Inr ())"

definition validate_regex :: "(string \<Rightarrow> compile_outcome) \<Rightarrow> string \<Rightarrow> unit res" where
  "validate_regex re_compile rx =
     (if rx = [] then Inl (MlflowException INVALID_STATE)
      else if length rx > 1024 then Inl (MlflowException INVALID_STATE)
      else case re_compile rx of
             CompileError \<Rightarrow> Inl (MlflowException INVALID_STATE)
           | CompileWarning \<Rightarrow> Inl (MlflowException INVALID_STATE)
           | CompileOk \<Rightarrow> check_redos_patterns rx)"

end
