(* ===== verification/Repositories.thy ===== *)
theory Repositories
  imports Database
begin

section \<open>Direct permissions of users and groups (repository/_base.py)\<close>

text \<open>
  \<^verbatim>\<open>BaseUserPermissionRepository\<close> and
  \<^verbatim>\<open>BaseGroupPermissionRepository\<close>: the CRUD operations over one permission
  table, generic in the resource key (\<^verbatim>\<open>resource_id_attr\<close>; a pair for
  scorers) and in the extra columns of the table (\<open>ext\<close>, the column defaults of a new row).
  An operation that raises leaves the table as it was, since the managed session rolls back, so a
  writing operation returns either the error or the new table with the row it reports. The
  interface \<open>permission_repository\<close> states the contract both classes promise, a finite map
  from (resource, principal) to a permission name, and is interpreted on both.
\<close>

subsection \<open>BaseUserPermissionRepository\<close>

definition find_user_permission ::
  "user_row list \<Rightarrow> ('r, 'z) perm_row_scheme list \<Rightarrow> 'r \<Rightarrow> string \<Rightarrow> ('r, 'z) perm_row_scheme res" where
  "find_user_permission us tbl rid uname =
     one_or_raise (sql_join tbl us (\<lambda>p u. p_owner p = u_id u \<and> p_resource p = rid \<and> u_username u = uname))"

text \<open>\<^verbatim>\<open>session.add\<close> and \<^verbatim>\<open>flush\<close>, under the unique constraint on resource and owner.\<close>

definition insert_permission ::
  "'z \<Rightarrow> ('r, 'z) perm_row_scheme list \<Rightarrow> 'r \<Rightarrow> int \<Rightarrow> string \<Rightarrow>
   (('r, 'z) perm_row_scheme list \<times> ('r, 'z) perm_row_scheme) res" where
  "insert_permission ext tbl rid owner perm =
     (if \<exists>p\<in>set tbl. p_resource p = rid \<and> p_owner p = owner then Inl IntegrityError
      else let row = \<lparr>p_id = next_id p_id tbl, p_resource = rid, p_owner = owner, p_permission = perm, \<dots> = ext\<rparr>
           in Inr (tbl @ [row], row))"

definition already_exists :: "'a res \<Rightarrow> 'a res" where
  "already_exists r = (case r of Inl IntegrityError \<Rightarrow> Inl (MlflowException RESOURCE_ALREADY_EXISTS) | _ \<Rightarrow> r)"

definition grant_permission ::
  "user_row list \<Rightarrow> 'z \<Rightarrow> ('r, 'z) perm_row_scheme list \<Rightarrow> 'r \<Rightarrow> string \<Rightarrow> string \<Rightarrow>
   (('r, 'z) perm_row_scheme list \<times> ('r, 'z) perm_row_scheme) res" where
  "grant_permission us ext tbl rid uname perm =
     bindE (validate_permission perm) (\<lambda>_.
     already_exists (bindE (get_user us uname) (\<lambda>u. insert_permission ext tbl rid (u_id u) perm)))"

definition list_permissions_for_user ::
  "user_row list \<Rightarrow> ('r, 'z) perm_row_scheme list \<Rightarrow> string \<Rightarrow> ('r, 'z) perm_row_scheme list" where
  "list_permissions_for_user us tbl uname = sql_join tbl us (\<lambda>p u. p_owner p = u_id u \<and> True \<and> u_username u = uname)"

definition list_permissions_for_resource ::
  "('r, 'z) perm_row_scheme list \<Rightarrow> 'r \<Rightarrow> ('r, 'z) perm_row_scheme list" where
  "list_permissions_for_resource tbl rid = [p. p \<leftarrow> tbl, p_resource p = rid]"

text \<open>\<^verbatim>\<open>perm.permission = permission\<close> and \<^verbatim>\<open>session.delete(perm)\<close> act on the row by its primary key.\<close>

definition set_permission_row ::
  "('r, 'z) perm_row_scheme list \<Rightarrow> ('r, 'z) perm_row_scheme \<Rightarrow> string \<Rightarrow> ('r, 'z) perm_row_scheme list" where
  "set_permission_row tbl row perm = map (\<lambda>p. if p_id p = p_id row then p\<lparr>p_permission := perm\<rparr> else p) tbl"

definition delete_permission_row ::
  "('r, 'z) perm_row_scheme list \<Rightarrow> ('r, 'z) perm_row_scheme \<Rightarrow> ('r, 'z) perm_row_scheme list" where
  "delete_permission_row tbl row = [p. p \<leftarrow> tbl, p_id p \<noteq> p_id row]"

definition update_permission ::
  "user_row list \<Rightarrow> ('r, 'z) perm_row_scheme list \<Rightarrow> 'r \<Rightarrow> string \<Rightarrow> string \<Rightarrow>
   (('r, 'z) perm_row_scheme list \<times> ('r, 'z) perm_row_scheme) res" where
  "update_permission us tbl rid uname perm =
     bindE (validate_permission perm) (\<lambda>_.
     bindE (find_user_permission us tbl rid uname) (\<lambda>row.
     Inr (set_permission_row tbl row perm, row\<lparr>p_permission := perm\<rparr>)))"

definition revoke_permission ::
  "user_row list \<Rightarrow> ('r, 'z) perm_row_scheme list \<Rightarrow> 'r \<Rightarrow> string \<Rightarrow> ('r, 'z) perm_row_scheme list res" where
  "revoke_permission us tbl rid uname =
     bindE (find_user_permission us tbl rid uname) (\<lambda>row. Inr (delete_permission_row tbl row))"

text \<open>
  Renaming rewrites the key of every row of the resource; the flush fails when the new key already
  has a row for one of the owners.
\<close>

definition rename_rows ::
  "('r, 'z) perm_row_scheme list \<Rightarrow> 'r \<Rightarrow> 'r \<Rightarrow> ('r, 'z) perm_row_scheme list" where
  "rename_rows tbl old new = map (\<lambda>p. if p_resource p = old then p\<lparr>p_resource := new\<rparr> else p) tbl"

definition rename_permissions ::
  "('r, 'z) perm_row_scheme list \<Rightarrow> 'r \<Rightarrow> 'r \<Rightarrow> ('r, 'z) perm_row_scheme list res" where
  "rename_permissions tbl old new =
     (if distinct (map (\<lambda>p. (p_resource p, p_owner p)) (rename_rows tbl old new))
      then Inr (rename_rows tbl old new) else Inl IntegrityError)"

text \<open>The registered-model repositories override it: nothing to rename is an error.\<close>

definition rename_model_permissions ::
  "('r, 'z) perm_row_scheme list \<Rightarrow> 'r \<Rightarrow> 'r \<Rightarrow> ('r, 'z) perm_row_scheme list res" where
  "rename_model_permissions tbl old new =
     (if [p. p \<leftarrow> tbl, p_resource p = old] = [] then Inl (MlflowException RESOURCE_DOES_NOT_EXIST)
      else rename_permissions tbl old new)"

definition wipe_permissions :: "('r, 'z) perm_row_scheme list \<Rightarrow> 'r \<Rightarrow> ('r, 'z) perm_row_scheme list" where
  "wipe_permissions tbl rid = [p. p \<leftarrow> tbl, p_resource p \<noteq> rid]"

subsection \<open>BaseGroupPermissionRepository\<close>

definition find_group_permission ::
  "group_row list \<Rightarrow> ('r, 'z) perm_row_scheme list \<Rightarrow> 'r \<Rightarrow> string \<Rightarrow> ('r, 'z) perm_row_scheme res" where
  "find_group_permission gs tbl rid gname =
     one_or_raise (sql_join tbl gs (\<lambda>p g. p_owner p = g_id g \<and> p_resource p = rid \<and> g_group_name g = gname))"

definition find_group_permission_or_none ::
  "group_row list \<Rightarrow> ('r, 'z) perm_row_scheme list \<Rightarrow> 'r \<Rightarrow> string \<Rightarrow> ('r, 'z) perm_row_scheme option res" where
  "find_group_permission_or_none gs tbl rid gname =
     bindE (sql_one_or_none [g. g \<leftarrow> gs, g_group_name g = gname]) (\<lambda>og.
     case og of
       None \<Rightarrow> Inr None
     | Some g \<Rightarrow> sql_one_or_none [p. p \<leftarrow> tbl, p_resource p = rid \<and> p_owner p = g_id g])"

definition grant_group_permission ::
  "group_row list \<Rightarrow> 'z \<Rightarrow> ('r, 'z) perm_row_scheme list \<Rightarrow> string \<Rightarrow> 'r \<Rightarrow> string \<Rightarrow>
   (('r, 'z) perm_row_scheme list \<times> ('r, 'z) perm_row_scheme) res" where
  "grant_group_permission gs ext tbl gname rid perm =
     bindE (validate_permission perm) (\<lambda>_.
     already_exists (bindE (get_group gs gname) (\<lambda>g. insert_permission ext tbl rid (g_id g) perm)))"

definition list_permissions_for_group ::
  "group_row list \<Rightarrow> ('r, 'z) perm_row_scheme list \<Rightarrow> string \<Rightarrow> ('r, 'z) perm_row_scheme list res" where
  "list_permissions_for_group gs tbl gname =
     bindE (get_group gs gname) (\<lambda>g. Inr [p. p \<leftarrow> tbl, p_owner p = g_id g])"

definition list_permissions_for_group_id ::
  "('r, 'z) perm_row_scheme list \<Rightarrow> int \<Rightarrow> ('r, 'z) perm_row_scheme list" where
  "list_permissions_for_group_id tbl gid = [p. p \<leftarrow> tbl, p_owner p = gid]"

definition list_groups_for_resource ::
  "group_row list \<Rightarrow> ('r, 'z) perm_row_scheme list \<Rightarrow> 'r \<Rightarrow> (string \<times> string) list" where
  "list_groups_for_resource gs tbl rid =
     [(g_group_name g, p_permission p). g \<leftarrow> gs, p \<leftarrow> tbl, p_owner p = g_id g \<and> p_resource p = rid]"

text \<open>
  The fold over the candidate rows of a user's groups: a later row replaces the current one when
  \<^verbatim>\<open>compare_permissions(current, row)\<close> holds.
\<close>

fun fold_highest :: "('r, 'z) perm_row_scheme \<Rightarrow> ('r, 'z) perm_row_scheme list \<Rightarrow> ('r, 'z) perm_row_scheme res" where
  "fold_highest cur [] = Inr cur"
| "fold_highest cur (p # ps) =
     bindE (compare_permissions (p_permission cur) (p_permission p)) (\<lambda>le.
     fold_highest (if le then p else cur) ps)"

definition group_candidates ::
  "user_row list \<Rightarrow> user_group_row list \<Rightarrow> ('r, 'z) perm_row_scheme list \<Rightarrow> 'r \<Rightarrow> string \<Rightarrow> ('r, 'z) perm_row_scheme list" where
  "group_candidates us ugs tbl rid uname =
     sort_key p_owner (sql_join tbl (List.product ugs us)
       (\<lambda>p (ug, u). ug_group_id ug = p_owner p \<and> u_id u = ug_user_id ug \<and> u_username u = uname \<and> p_resource p = rid))"

definition get_group_permission_for_user_resource ::
  "user_row list \<Rightarrow> user_group_row list \<Rightarrow> ('r, 'z) perm_row_scheme list \<Rightarrow> 'r \<Rightarrow> string \<Rightarrow> ('r, 'z) perm_row_scheme res" where
  "get_group_permission_for_user_resource us ugs tbl rid uname =
     (case group_candidates us ugs tbl rid uname of
        [] \<Rightarrow> Inl (MlflowException RESOURCE_DOES_NOT_EXIST)
      | p # ps \<Rightarrow> fold_highest p ps)"

definition list_permissions_for_user_groups ::
  "user_row list \<Rightarrow> user_group_row list \<Rightarrow> ('r, 'z) perm_row_scheme list \<Rightarrow> string \<Rightarrow> ('r, 'z) perm_row_scheme list" where
  "list_permissions_for_user_groups us ugs tbl uname =
     sort_key p_owner (sql_join tbl (List.product ugs us)
       (\<lambda>p (ug, u). ug_group_id ug = p_owner p \<and> u_id u = ug_user_id ug \<and> u_username u = uname \<and> True))"

text \<open>Update and revoke read the row with a bare \<^verbatim>\<open>.one()\<close>: its exceptions escape.\<close>

definition update_group_permission ::
  "group_row list \<Rightarrow> ('r, 'z) perm_row_scheme list \<Rightarrow> string \<Rightarrow> 'r \<Rightarrow> string \<Rightarrow>
   (('r, 'z) perm_row_scheme list \<times> ('r, 'z) perm_row_scheme) res" where
  "update_group_permission gs tbl gname rid perm =
     bindE (validate_permission perm) (\<lambda>_.
     bindE (get_group gs gname) (\<lambda>g.
     bindE (sql_one [p. p \<leftarrow> tbl, p_resource p = rid \<and> p_owner p = g_id g]) (\<lambda>row.
     Inr (set_permission_row tbl row perm, row\<lparr>p_permission := perm\<rparr>))))"

definition revoke_group_permission ::
  "group_row list \<Rightarrow> ('r, 'z) perm_row_scheme list \<Rightarrow> string \<Rightarrow> 'r \<Rightarrow> ('r, 'z) perm_row_scheme list res" where
  "revoke_group_permission gs tbl gname rid =
     bindE (get_group gs gname) (\<lambda>g.
     bindE (sql_one [p. p \<leftarrow> tbl, p_resource p = rid \<and> p_owner p = g_id g]) (\<lambda>row.
     Inr (delete_permission_row tbl row)))"

text \<open>
  The gateway repositories' \<^verbatim>\<open>get_group_permission_for_user\<close>: the lookup of one
  group's row, by the group's name.
\<close>

definition get_group_permission_for_user ::
  "group_row list \<Rightarrow> ('r, 'z) perm_row_scheme list \<Rightarrow> 'r \<Rightarrow> string \<Rightarrow> ('r, 'z) perm_row_scheme res" where
  "get_group_permission_for_user gs tbl rid gname = find_group_permission gs tbl rid gname"

subsection \<open>The table as a map\<close>

definition wf_perm_table :: "('r, 'z) perm_row_scheme list \<Rightarrow> bool" where
  "wf_perm_table tbl \<longleftrightarrow>
     unique_on p_id tbl \<and> unique_on (\<lambda>p. (p_resource p, p_owner p)) tbl \<and>
     (\<forall>p\<in>set tbl. valid_permission (p_permission p))"

definition rows_at :: "('r, 'z) perm_row_scheme list \<Rightarrow> 'r \<Rightarrow> int \<Rightarrow> ('r, 'z) perm_row_scheme list" where
  "rows_at tbl rid owner = filter (\<lambda>p. p_owner p = owner \<and> p_resource p = rid) tbl"

definition perm_at :: "('r, 'z) perm_row_scheme list \<Rightarrow> 'r \<times> int \<Rightarrow> string option" where
  "perm_at tbl = (\<lambda>(rid, owner). case rows_at tbl rid owner of [] \<Rightarrow> None | p # _ \<Rightarrow> Some (p_permission p))"

lemma rows_at_comp:
  "[p. p \<leftarrow> tbl, p_resource p = rid \<and> p_owner p = owner] = rows_at tbl rid owner"
  by (simp add: rows_at_def filter_list_comp conj_commute)

lemma rows_at_single:
  assumes "wf_perm_table tbl" and "p \<in> set tbl" and "p_resource p = rid" and "p_owner p = owner"
  shows "rows_at tbl rid owner = [p]"
  using assms unfolding rows_at_def wf_perm_table_def
  by (intro filter_unique_on [where key = "\<lambda>p. (p_resource p, p_owner p)"]) auto

lemma rows_at_cases:
  assumes "wf_perm_table tbl"
  obtains (absent) "rows_at tbl rid owner = []" "perm_at tbl (rid, owner) = None"
  | (row) p where "rows_at tbl rid owner = [p]" "p \<in> set tbl" "p_resource p = rid" "p_owner p = owner"
      "perm_at tbl (rid, owner) = Some (p_permission p)"
proof (cases "rows_at tbl rid owner")
  case Nil
  then show ?thesis by (intro absent) (auto simp: perm_at_def)
next
  case (Cons p ps)
  then have "p \<in> set (rows_at tbl rid owner)" by simp
  then have p: "p \<in> set tbl" "p_resource p = rid" "p_owner p = owner"
    by (auto simp: rows_at_def)
  with assms have "rows_at tbl rid owner = [p]" by (rule rows_at_single)
  with p show ?thesis by (intro row) (auto simp: perm_at_def)
qed

lemma perm_at_None_iff: "perm_at tbl (rid, owner) = None \<longleftrightarrow> (\<forall>p\<in>set tbl. \<not> (p_resource p = rid \<and> p_owner p = owner))"
  by (auto simp: perm_at_def rows_at_def filter_empty_conv split: list.splits)
     (metis (mono_tags, lifting) filter_empty_conv list.distinct(1))+

lemma perm_at_append:
  "perm_at tbl (p_resource row, p_owner row) = None \<Longrightarrow>
   perm_at (tbl @ [row]) = (perm_at tbl)((p_resource row, p_owner row) \<mapsto> p_permission row)"
  by (rule ext) (auto simp: perm_at_def rows_at_def split: list.splits if_splits)

lemma insert_permission_absent:
  assumes "wf_perm_table tbl" and "perm_at tbl (rid, owner) = None" and "valid_permission perm"
  obtains tbl' row where "insert_permission ext tbl rid owner perm = Inr (tbl', row)"
    "wf_perm_table tbl'" "perm_at tbl' = (perm_at tbl)((rid, owner) \<mapsto> perm)"
proof -
  let ?row = "\<lparr>p_id = next_id p_id tbl, p_resource = rid, p_owner = owner, p_permission = perm, \<dots> = ext\<rparr>"
  have free: "\<forall>p\<in>set tbl. \<not> (p_resource p = rid \<and> p_owner p = owner)"
    using assms(2) by (simp add: perm_at_None_iff)
  then have ins: "insert_permission ext tbl rid owner perm = Inr (tbl @ [?row], ?row)"
    by (auto simp: insert_permission_def Let_def)
  have "wf_perm_table (tbl @ [?row])"
    using assms free next_id_fresh [of p_id tbl] by (auto simp: wf_perm_table_def)
  moreover have "perm_at (tbl @ [?row]) = (perm_at tbl)((rid, owner) \<mapsto> perm)"
    using perm_at_append [of tbl ?row] assms(2) by simp
  ultimately show ?thesis using ins that by blast
qed

lemma insert_permission_present:
  "perm_at tbl (rid, owner) \<noteq> None \<Longrightarrow> insert_permission ext tbl rid owner perm = Inl IntegrityError"
  by (auto simp: perm_at_None_iff insert_permission_def)

lemma perm_at_Some_iff:
  assumes "wf_perm_table tbl"
  shows "perm_at tbl (rid, owner) = Some perm \<longleftrightarrow>
    (\<exists>p\<in>set tbl. p_resource p = rid \<and> p_owner p = owner \<and> p_permission p = perm)"
  using assms
proof (cases rule: rows_at_cases [where rid = rid and owner = owner])
  case absent
  then show ?thesis using perm_at_None_iff [of tbl rid owner] by auto
next
  case (row p)
  then show ?thesis
    using rows_at_single [OF assms, of _ rid owner] by (metis list.inject option.inject)
qed

lemma p_id_unique:
  "wf_perm_table tbl \<Longrightarrow> p \<in> set tbl \<Longrightarrow> q \<in> set tbl \<Longrightarrow> p_id p = p_id q \<Longrightarrow> p = q"
  unfolding wf_perm_table_def using unique_onD [of p_id] by blast

lemma set_permission_row_wf:
  assumes "wf_perm_table tbl" and "valid_permission perm"
  shows "wf_perm_table (set_permission_row tbl row perm)"
  using assms by (auto simp: wf_perm_table_def set_permission_row_def unique_on_def comp_def if_distrib cong: if_cong)

lemma perm_at_set_permission_row:
  assumes wf: "wf_perm_table tbl" and row: "row \<in> set tbl"
  shows "perm_at (set_permission_row tbl row perm) = (perm_at tbl)((p_resource row, p_owner row) \<mapsto> perm)"
proof (rule ext, clarify)
  fix rid owner
  have upd: "(if p_id p = p_id row then p\<lparr>p_permission := perm\<rparr> else p) =
      (if p = row then row\<lparr>p_permission := perm\<rparr> else p)" if "p \<in> set tbl" for p
    using p_id_unique [OF wf that row] by auto
  have eq: "rows_at (set_permission_row tbl row perm) rid owner =
      map (\<lambda>p. if p = row then row\<lparr>p_permission := perm\<rparr> else p) (rows_at tbl rid owner)"
    unfolding rows_at_def set_permission_row_def using upd
    by (auto simp: filter_map comp_def intro!: map_cong filter_cong)
  show "perm_at (set_permission_row tbl row perm) (rid, owner) =
      ((perm_at tbl)((p_resource row, p_owner row) \<mapsto> perm)) (rid, owner)"
    using wf
  proof (cases rule: rows_at_cases [where rid = rid and owner = owner])
    case absent
    moreover from absent row have "(p_resource row, p_owner row) \<noteq> (rid, owner)"
      using perm_at_None_iff [of tbl rid owner] by auto
    ultimately show ?thesis using eq by (auto simp: perm_at_def)
  next
    case (row p)
    then show ?thesis
      using eq rows_at_single [OF wf \<open>row \<in> set tbl\<close>] by (auto simp: perm_at_def)
  qed
qed

lemma delete_permission_row_wf: "wf_perm_table tbl \<Longrightarrow> wf_perm_table (delete_permission_row tbl row)"
  by (auto simp: wf_perm_table_def delete_permission_row_def filter_list_comp unique_on_filter)

lemma perm_at_delete_permission_row:
  assumes wf: "wf_perm_table tbl" and row: "row \<in> set tbl"
  shows "perm_at (delete_permission_row tbl row) = (perm_at tbl)((p_resource row, p_owner row) := None)"
proof (rule ext, clarify)
  fix rid owner
  have del: "p_id p \<noteq> p_id row \<longleftrightarrow> p \<noteq> row" if "p \<in> set tbl" for p
    using p_id_unique [OF wf that row] by auto
  then have "rows_at (delete_permission_row tbl row) rid owner = filter (\<lambda>p. p \<noteq> row) (rows_at tbl rid owner)"
    unfolding rows_at_def delete_permission_row_def filter_list_comp by (auto intro!: filter_cong)
  then show "perm_at (delete_permission_row tbl row) (rid, owner) =
      ((perm_at tbl)((p_resource row, p_owner row) := None)) (rid, owner)"
    using rows_at_single [OF wf row] wf
    by (cases rule: rows_at_cases [where rid = rid and owner = owner, OF wf]) (auto simp: perm_at_def)
qed

subsection \<open>The contract of a permission repository\<close>

text \<open>
  What the callers rely on, over names: a partial map from (resource, principal) to a permission.
  \<open>known\<close> says which principals exist. The locale's lemmas are the round trips and frame
  facts every client uses; the two base classes are its interpretations.
\<close>

locale permission_repository =
  fixes invar :: "'t \<Rightarrow> bool"
    and known :: "'t \<Rightarrow> string \<Rightarrow> bool"
    and abs :: "'t \<Rightarrow> 'k \<times> string \<Rightarrow> string option"
    and lookup :: "'t \<Rightarrow> 'k \<Rightarrow> string \<Rightarrow> string res"
    and grant :: "'t \<Rightarrow> 'k \<Rightarrow> string \<Rightarrow> string \<Rightarrow> 't res"
    and update :: "'t \<Rightarrow> 'k \<Rightarrow> string \<Rightarrow> string \<Rightarrow> 't res"
    and revoke :: "'t \<Rightarrow> 'k \<Rightarrow> string \<Rightarrow> 't res"
  assumes lookup_abs: "invar t \<Longrightarrow>
      lookup t k n = (case abs t (k, n) of None \<Rightarrow> Inl (MlflowException RESOURCE_DOES_NOT_EXIST) | Some p \<Rightarrow> Inr p)"
    and abs_known: "invar t \<Longrightarrow> abs t (k, n) \<noteq> None \<Longrightarrow> known t n"
    and grant_invalid: "\<not> valid_permission p \<Longrightarrow> grant t k n p = Inl (MlflowException INVALID_PARAMETER_VALUE)"
    and grant_unknown: "invar t \<Longrightarrow> valid_permission p \<Longrightarrow> \<not> known t n \<Longrightarrow>
      grant t k n p = Inl (MlflowException RESOURCE_DOES_NOT_EXIST)"
    and grant_duplicate: "invar t \<Longrightarrow> valid_permission p \<Longrightarrow> abs t (k, n) \<noteq> None \<Longrightarrow>
      grant t k n p = Inl (MlflowException RESOURCE_ALREADY_EXISTS)"
    and grant_fresh: "invar t \<Longrightarrow> valid_permission p \<Longrightarrow> known t n \<Longrightarrow> abs t (k, n) = None \<Longrightarrow>
      \<exists>t'. grant t k n p = Inr t' \<and> invar t' \<and> known t' = known t \<and> abs t' = (abs t)((k, n) \<mapsto> p)"
    and update_invalid: "\<not> valid_permission p \<Longrightarrow> update t k n p = Inl (MlflowException INVALID_PARAMETER_VALUE)"
    and update_absent: "invar t \<Longrightarrow> abs t (k, n) = None \<Longrightarrow> \<exists>e. update t k n p = Inl e"
    and update_present: "invar t \<Longrightarrow> valid_permission p \<Longrightarrow> abs t (k, n) \<noteq> None \<Longrightarrow>
      \<exists>t'. update t k n p = Inr t' \<and> invar t' \<and> known t' = known t \<and> abs t' = (abs t)((k, n) \<mapsto> p)"
    and revoke_absent: "invar t \<Longrightarrow> abs t (k, n) = None \<Longrightarrow> \<exists>e. revoke t k n = Inl e"
    and revoke_present: "invar t \<Longrightarrow> abs t (k, n) \<noteq> None \<Longrightarrow>
      \<exists>t'. revoke t k n = Inr t' \<and> invar t' \<and> known t' = known t \<and> abs t' = (abs t)((k, n) := None)"
begin

lemma grant_InrD:
  assumes "invar t" and "grant t k n p = Inr t'"
  shows "invar t' \<and> known t' = known t \<and> abs t (k, n) = None \<and> abs t' = (abs t)((k, n) \<mapsto> p)"
proof -
  have v: "valid_permission p" using assms grant_invalid by fastforce
  have kn: "known t n" using assms v grant_unknown by fastforce
  have n: "abs t (k, n) = None" using assms v grant_duplicate by fastforce
  with grant_fresh [OF assms(1) v kn n] assms(2) show ?thesis by auto
qed

lemma update_InrD:
  assumes "invar t" and "update t k n p = Inr t'"
  shows "invar t' \<and> known t' = known t \<and> abs t (k, n) \<noteq> None \<and> abs t' = (abs t)((k, n) \<mapsto> p)"
proof -
  have v: "valid_permission p" using assms update_invalid by fastforce
  have n: "abs t (k, n) \<noteq> None" using assms update_absent [OF assms(1), of k n p] by auto
  with update_present [OF assms(1) v n] assms(2) show ?thesis by auto
qed

lemma revoke_InrD:
  assumes "invar t" and "revoke t k n = Inr t'"
  shows "invar t' \<and> known t' = known t \<and> abs t (k, n) \<noteq> None \<and> abs t' = (abs t)((k, n) := None)"
proof -
  have n: "abs t (k, n) \<noteq> None" using assms revoke_absent [OF assms(1), of k n] by auto
  with revoke_present [OF assms(1) n] assms(2) show ?thesis by auto
qed

lemma grant_then_lookup:
  assumes "invar t" and "grant t k n p = Inr t'"
  shows "lookup t' k n = Inr p"
  using grant_InrD [OF assms] by (simp add: lookup_abs)

lemma update_then_lookup:
  assumes "invar t" and "update t k n p = Inr t'"
  shows "lookup t' k n = Inr p"
  using update_InrD [OF assms] by (simp add: lookup_abs)

lemma revoke_then_lookup:
  assumes "invar t" and "revoke t k n = Inr t'"
  shows "lookup t' k n = Inl (MlflowException RESOURCE_DOES_NOT_EXIST)"
  using revoke_InrD [OF assms] by (simp add: lookup_abs)

lemma write_frame:
  assumes "invar t" and "grant t k n p = Inr t' \<or> update t k n p = Inr t' \<or> revoke t k n = Inr t'"
    and "(k', n') \<noteq> (k, n)"
  shows "lookup t' k' n' = lookup t k' n'"
  using assms(2)
proof (elim disjE)
  assume "grant t k n p = Inr t'"
  from grant_InrD [OF assms(1) this] assms(1,3) show ?thesis by (auto simp: lookup_abs)
next
  assume "update t k n p = Inr t'"
  from update_InrD [OF assms(1) this] assms(1,3) show ?thesis by (auto simp: lookup_abs)
next
  assume "revoke t k n = Inr t'"
  from revoke_InrD [OF assms(1) this] assms(1,3) show ?thesis by (auto simp: lookup_abs)
qed

text \<open>Each write as an update of the lookup function.\<close>

lemma grant_lookups:
  assumes "invar t" and "grant t k n p = Inr t'"
  shows "invar t' \<and> lookup t k n = Inl (MlflowException RESOURCE_DOES_NOT_EXIST) \<and>
    (\<forall>k' n'. lookup t' k' n' = (if (k', n') = (k, n) then Inr p else lookup t k' n'))"
  using grant_InrD [OF assms] grant_then_lookup [OF assms] write_frame [OF assms(1) disjI1, OF assms(2)] lookup_abs [OF assms(1)]
  by simp

lemma update_lookups:
  assumes "invar t" and "update t k n p = Inr t'"
  shows "invar t' \<and> (\<forall>k' n'. lookup t' k' n' = (if (k', n') = (k, n) then Inr p else lookup t k' n'))"
  using update_InrD [OF assms] update_then_lookup [OF assms] write_frame [OF assms(1) disjI2 [OF disjI1], OF assms(2)] by simp

lemma revoke_lookups:
  assumes "invar t" and "revoke t k n = Inr t'"
  shows "invar t' \<and> (\<forall>k' n'. lookup t' k' n' =
    (if (k', n') = (k, n) then Inl (MlflowException RESOURCE_DOES_NOT_EXIST) else lookup t k' n'))"
  using revoke_InrD [OF assms] revoke_then_lookup [OF assms] write_frame [OF assms(1) disjI2 [OF disjI2], OF assms(2)] by simp

lemma grant_revoke_inverse:
  assumes "invar t" and "grant t k n p = Inr t'"
  shows "\<exists>t''. revoke t' k n = Inr t'' \<and> invar t'' \<and> abs t'' = abs t"
proof -
  from grant_InrD [OF assms] have g: "invar t'" "abs t' = (abs t)((k, n) \<mapsto> p)" "abs t (k, n) = None" by auto
  then obtain t'' where "revoke t' k n = Inr t''" "invar t''" "abs t'' = (abs t')((k, n) := None)"
    using revoke_present [of t' k n] by auto
  with g show ?thesis by (auto simp: fun_upd_idem)
qed

end

subsection \<open>Tables owned by named principals\<close>

text \<open>
  The user and the group repository differ in how a name becomes the owner column
  (\<open>own\<close>) and in how an absent row is reported (\<open>pick\<close>). The laws of
  \<open>permission_repository\<close> are proved once for that shape.
\<close>

definition owner_abs :: "(string \<Rightarrow> int res) \<Rightarrow> ('r, 'z) perm_row_scheme list \<Rightarrow> 'r \<times> string \<Rightarrow> string option" where
  "owner_abs own tbl = (\<lambda>(rid, n). case own n of Inl e \<Rightarrow> None | Inr i \<Rightarrow> perm_at tbl (rid, i))"

definition owned_known :: "('s \<Rightarrow> string \<Rightarrow> int res) \<Rightarrow> 's \<times> 't \<Rightarrow> string \<Rightarrow> bool" where
  "owned_known own = (\<lambda>(s, tbl) n. \<exists>i. own s n = Inr i)"

definition owned_lookup :: "('s \<Rightarrow> string \<Rightarrow> int res) \<Rightarrow> 's \<times> ('r, 'z) perm_row_scheme list \<Rightarrow> 'r \<Rightarrow> string \<Rightarrow> string res" where
  "owned_lookup own = (\<lambda>(s, tbl) k n. bindE (own s n) (\<lambda>i. bindE (one_or_raise (rows_at tbl k i)) (\<lambda>p. Inr (p_permission p))))"

definition owned_grant where
  "owned_grant own ext = (\<lambda>(s, tbl) k n perm.
     bindE (validate_permission perm) (\<lambda>_.
     bindE (already_exists (bindE (own s n) (\<lambda>i. insert_permission ext tbl k i perm))) (\<lambda>(tbl', _). Inr (s, tbl'))))"

definition owned_update where
  "owned_update own pick = (\<lambda>(s, tbl) k n perm.
     bindE (validate_permission perm) (\<lambda>_.
     bindE (own s n) (\<lambda>i. bindE (pick (rows_at tbl k i)) (\<lambda>row. Inr (s, set_permission_row tbl row perm)))))"

definition owned_revoke where
  "owned_revoke own pick = (\<lambda>(s, tbl) k n.
     bindE (own s n) (\<lambda>i. bindE (pick (rows_at tbl k i)) (\<lambda>row. Inr (s, delete_permission_row tbl row))))"

lemma owner_abs_upd:
  assumes "own n = Inr i" and "\<And>m. own m = Inr i \<Longrightarrow> m = n"
    and "perm_at tbl' = (perm_at tbl)((rid, i) := v)"
  shows "owner_abs own tbl' = (owner_abs own tbl)((rid, n) := v)"
proof (rule ext, clarify)
  fix r m
  show "owner_abs own tbl' (r, m) = ((owner_abs own tbl)((rid, n) := v)) (r, m)"
  proof (cases "own m")
    case (Inl e)
    with assms(1) have "m \<noteq> n" by auto
    with Inl show ?thesis by (simp add: owner_abs_def)
  next
    case (Inr j)
    then have "j = i \<longleftrightarrow> m = n" using assms(1) assms(2) [of m] by auto
    with Inr assms(3) show ?thesis by (auto simp: owner_abs_def)
  qed
qed

locale owned_table =
  fixes wf_s :: "'s \<Rightarrow> bool"
    and own :: "'s \<Rightarrow> string \<Rightarrow> int res"
    and pick :: "('r, 'z) perm_row_scheme list \<Rightarrow> ('r, 'z) perm_row_scheme res"
    and ext :: 'z
  assumes own_inj: "wf_s s \<Longrightarrow> own s n = Inr i \<Longrightarrow> own s m = Inr i \<Longrightarrow> m = n"
    and own_error: "wf_s s \<Longrightarrow> own s n = Inl e \<Longrightarrow> e = MlflowException RESOURCE_DOES_NOT_EXIST"
    and pick_one: "pick [p] = Inr p"
    and pick_none: "\<exists>e. pick [] = Inl e"
begin

definition invar :: "'s \<times> ('r, 'z) perm_row_scheme list \<Rightarrow> bool" where
  "invar = (\<lambda>(s, tbl). wf_s s \<and> wf_perm_table tbl)"

definition abs :: "'s \<times> ('r, 'z) perm_row_scheme list \<Rightarrow> 'r \<times> string \<Rightarrow> string option" where
  "abs = (\<lambda>(s, tbl). owner_abs (own s) tbl)"

lemma abs_simps: "abs (s, tbl) (k, n) = (case own s n of Inl e \<Rightarrow> None | Inr i \<Rightarrow> perm_at tbl (k, i))"
  by (simp add: abs_def owner_abs_def)

lemma abs_upd:
  assumes "wf_s s" and "own s n = Inr i" and "perm_at tbl' = (perm_at tbl)((k, i) := v)"
  shows "abs (s, tbl') = (abs (s, tbl))((k, n) := v)"
  unfolding abs_def prod.case
  by (rule owner_abs_upd [where own = "own s", OF assms(2) own_inj [OF assms(1,2)] assms(3)])

lemma present:
  assumes "invar (s, tbl)" and "abs (s, tbl) (k, n) \<noteq> None"
  obtains i row where "own s n = Inr i" "rows_at tbl k i = [row]" "row \<in> set tbl"
    "p_resource row = k" "p_owner row = i" "abs (s, tbl) (k, n) = Some (p_permission row)"
proof -
  from assms(2) obtain i where i: "own s n = Inr i" "perm_at tbl (k, i) \<noteq> None"
    by (cases "own s n") (auto simp: abs_simps)
  from assms(1) have "wf_perm_table tbl" by (simp add: invar_def)
  then show ?thesis
  proof (cases rule: rows_at_cases [where rid = k and owner = i])
    case absent
    with i show ?thesis by simp
  next
    case (row p)
    with i show ?thesis by (intro that [of i p]) (simp_all add: abs_simps)
  qed
qed

lemma absent:
  assumes "invar (s, tbl)" and "abs (s, tbl) (k, n) = None" and "own s n = Inr i"
  shows "rows_at tbl k i = []"
  using assms by (auto simp: abs_simps perm_at_def split: list.splits)

lemma lookup_law:
  assumes "invar t"
  shows "owned_lookup own t k n =
    (case abs t (k, n) of None \<Rightarrow> Inl (MlflowException RESOURCE_DOES_NOT_EXIST) | Some p \<Rightarrow> Inr p)"
proof (cases t)
  case (Pair s tbl)
  show ?thesis
  proof (cases "abs t (k, n)")
    case None
    with assms Pair show ?thesis
      using own_error [of s n] absent [of s tbl k n]
      by (cases "own s n") (auto simp: owned_lookup_def invar_def)
  next
    case (Some p)
    then have "abs (s, tbl) (k, n) \<noteq> None" using Pair by simp
    with assms Some Pair present [of s tbl k n] show ?thesis
      by (metis (no_types, lifting) bindE_Inr case_prod_conv one_or_raise_simps(2) option.simps(5) owned_lookup_def)
  qed
qed

lemma grant_fresh_law:
  assumes "invar t" and "valid_permission p" and "owned_known own t n" and "abs t (k, n) = None"
  shows "\<exists>t'. owned_grant own ext t k n p = Inr t' \<and> invar t' \<and> owned_known own t' = owned_known own t \<and>
    abs t' = (abs t)((k, n) \<mapsto> p)"
proof -
  obtain s tbl where t: "t = (s, tbl)" by (cases t)
  with assms obtain i where i: "own s n = Inr i" and wf: "wf_s s" "wf_perm_table tbl"
    by (auto simp: owned_known_def invar_def)
  from assms(4) t i have free: "perm_at tbl (k, i) = None" by (simp add: abs_simps)
  obtain tbl' row where ins: "insert_permission ext tbl k i p = Inr (tbl', row)"
    "wf_perm_table tbl'" "perm_at tbl' = (perm_at tbl)((k, i) \<mapsto> p)"
    by (rule insert_permission_absent [OF wf(2) free assms(2), of ext])
  from ins(1) assms(2) i t have "owned_grant own ext t k n p = Inr (s, tbl')"
    by (simp add: owned_grant_def already_exists_def)
  with t wf ins(2) abs_upd [OF wf(1) i ins(3)] show ?thesis
    by (simp add: invar_def owned_known_def)
qed

lemma update_present_law:
  assumes "invar t" and "valid_permission p" and "abs t (k, n) \<noteq> None"
  shows "\<exists>t'. owned_update own pick t k n p = Inr t' \<and> invar t' \<and> owned_known own t' = owned_known own t \<and>
    abs t' = (abs t)((k, n) \<mapsto> p)"
proof -
  obtain s tbl where t: "t = (s, tbl)" by (cases t)
  with assms have wf: "wf_s s" "wf_perm_table tbl" by (auto simp: invar_def)
  from assms t obtain i row where r: "own s n = Inr i" "rows_at tbl k i = [row]" "row \<in> set tbl"
    "p_resource row = k" "p_owner row = i" using present [of s tbl k n] by metis
  let ?tbl = "set_permission_row tbl row p"
  from r(2) r(1) assms(2) t have "owned_update own pick t k n p = Inr (s, ?tbl)"
    by (simp add: owned_update_def pick_one)
  moreover have "abs (s, ?tbl) = (abs t)((k, n) \<mapsto> p)"
    using abs_upd [OF wf(1) r(1)] perm_at_set_permission_row [OF wf(2) r(3)] r(4,5) t by simp
  ultimately show ?thesis
    using t wf assms(2) set_permission_row_wf by (auto simp: invar_def owned_known_def)
qed

lemma revoke_present_law:
  assumes "invar t" and "abs t (k, n) \<noteq> None"
  shows "\<exists>t'. owned_revoke own pick t k n = Inr t' \<and> invar t' \<and> owned_known own t' = owned_known own t \<and>
    abs t' = (abs t)((k, n) := None)"
proof -
  obtain s tbl where t: "t = (s, tbl)" by (cases t)
  with assms have wf: "wf_s s" "wf_perm_table tbl" by (auto simp: invar_def)
  from assms t obtain i row where r: "own s n = Inr i" "rows_at tbl k i = [row]" "row \<in> set tbl"
    "p_resource row = k" "p_owner row = i" using present [of s tbl k n] by metis
  let ?tbl = "delete_permission_row tbl row"
  from r(2) r(1) t have "owned_revoke own pick t k n = Inr (s, ?tbl)"
    by (simp add: owned_revoke_def pick_one)
  moreover have "abs (s, ?tbl) = (abs t)((k, n) := None)"
    using abs_upd [OF wf(1) r(1)] perm_at_delete_permission_row [OF wf(2) r(3)] r(4,5) t by simp
  ultimately show ?thesis
    using t wf delete_permission_row_wf by (auto simp: invar_def owned_known_def)
qed

lemma absent_laws:
  assumes "invar t" and "abs t (k, n) = None"
  shows "\<exists>e. owned_update own pick t k n p = Inl e" and "\<exists>e. owned_revoke own pick t k n = Inl e"
proof -
  obtain s tbl where t: "t = (s, tbl)" by (cases t)
  have "\<exists>e. bindE (own s n) (\<lambda>i. bindE (pick (rows_at tbl k i)) g) = Inl e" for g :: "('r, 'z) perm_row_scheme \<Rightarrow> 'b res"
    using assms t pick_none by (cases "own s n") (auto simp: absent)
  then show "\<exists>e. owned_update own pick t k n p = Inl e" "\<exists>e. owned_revoke own pick t k n = Inl e"
    using t by (auto simp: owned_update_def owned_revoke_def validate_permission_eq)
qed

lemma grant_error_laws:
  assumes "invar t" and "valid_permission p"
  shows "\<not> owned_known own t n \<Longrightarrow> owned_grant own ext t k n p = Inl (MlflowException RESOURCE_DOES_NOT_EXIST)"
    and "abs t (k, n) \<noteq> None \<Longrightarrow> owned_grant own ext t k n p = Inl (MlflowException RESOURCE_ALREADY_EXISTS)"
proof -
  obtain s tbl where t: "t = (s, tbl)" by (cases t)
  show "owned_grant own ext t k n p = Inl (MlflowException RESOURCE_DOES_NOT_EXIST)" if "\<not> owned_known own t n"
    using assms t that own_error [of s n]
    by (cases "own s n") (auto simp: owned_known_def owned_grant_def already_exists_def invar_def)
  show "owned_grant own ext t k n p = Inl (MlflowException RESOURCE_ALREADY_EXISTS)" if "abs t (k, n) \<noteq> None"
    using assms t that
    by (cases "own s n") (auto simp: abs_simps owned_grant_def already_exists_def insert_permission_present)
qed

sublocale repo: permission_repository invar "owned_known own" abs "owned_lookup own" "owned_grant own ext"
  "owned_update own pick" "owned_revoke own pick"
proof (unfold_locales, goal_cases)
  case (1 t k n) then show ?case by (rule lookup_law)
next
  case (2 t k n) then show ?case by (cases t) (auto simp: abs_simps owned_known_def split: sum.splits)
next
  case (3 p t k n) then show ?case by (cases t) (simp add: owned_grant_def validate_permission_eq)
next
  case (4 t p n k) then show ?case by (intro grant_error_laws(1))
next
  case (5 t p k n) then show ?case by (intro grant_error_laws(2))
next
  case (6 t p n k) then show ?case by (intro grant_fresh_law)
next
  case (7 p t k n) then show ?case by (cases t) (simp add: owned_update_def validate_permission_eq)
next
  case (8 t k n p) then show ?case by (intro absent_laws(1))
next
  case (9 t p k n) then show ?case by (intro update_present_law)
next
  case (10 t k n) then show ?case by (intro absent_laws(2))
next
  case (11 t k n) then show ?case by (intro revoke_present_law)
qed

end

subsection \<open>The two base classes keep the contract\<close>

definition user_own :: "user_row list \<Rightarrow> string \<Rightarrow> int res" where
  "user_own us n = bindE (get_user us n) (\<lambda>u. Inr (u_id u))"

definition group_own :: "group_row list \<Rightarrow> string \<Rightarrow> int res" where
  "group_own gs n = bindE (get_group gs n) (\<lambda>g. Inr (g_id g))"

interpretation user_rows: owned_table wf_users user_own one_or_raise ext for ext
proof (unfold_locales, goal_cases)
  case (1 us n i m)
  then show ?case
    using get_user_Inr_iff [OF 1(1)] unfolding user_own_def bindE_eq_Inr wf_users_def
    by (metis sum.inject(2) unique_onD)
next
  case (2 us n e)
  then show ?case by (auto simp: user_own_def bindE_eq_Inl elim: get_user_cases [where uname = n])
qed auto

interpretation group_rows: owned_table wf_groups group_own sql_one ext for ext
proof (unfold_locales, goal_cases)
  case (1 gs n i m)
  then show ?case
    using get_group_Inr_iff [OF 1(1)] unfolding group_own_def bindE_eq_Inr wf_groups_def
    by (metis sum.inject(2) unique_onD)
next
  case (2 gs n e)
  then show ?case by (auto simp: group_own_def bindE_eq_Inl elim: get_group_cases [where gname = n])
qed auto

type_synonym ('r, 'z) user_repo = "user_row list \<times> ('r, 'z) perm_row_scheme list"
type_synonym ('r, 'z) group_repo = "group_row list \<times> ('r, 'z) perm_row_scheme list"

definition user_invar :: "('r, 'z) user_repo \<Rightarrow> bool" where
  "user_invar = (\<lambda>(us, tbl). wf_users us \<and> wf_perm_table tbl)"

definition user_abs :: "('r, 'z) user_repo \<Rightarrow> 'r \<times> string \<Rightarrow> string option" where
  "user_abs = (\<lambda>(us, tbl). owner_abs (user_own us) tbl)"

definition user_lookup :: "('r, 'z) user_repo \<Rightarrow> 'r \<Rightarrow> string \<Rightarrow> string res" where
  "user_lookup = (\<lambda>(us, tbl) rid n. bindE (find_user_permission us tbl rid n) (\<lambda>p. Inr (p_permission p)))"

definition user_grant :: "'z \<Rightarrow> ('r, 'z) user_repo \<Rightarrow> 'r \<Rightarrow> string \<Rightarrow> string \<Rightarrow> ('r, 'z) user_repo res" where
  "user_grant ext = (\<lambda>(us, tbl) rid n perm. bindE (grant_permission us ext tbl rid n perm) (\<lambda>(tbl', _). Inr (us, tbl')))"

definition user_regrant :: "('r, 'z) user_repo \<Rightarrow> 'r \<Rightarrow> string \<Rightarrow> string \<Rightarrow> ('r, 'z) user_repo res" where
  "user_regrant = (\<lambda>(us, tbl) rid n perm. bindE (update_permission us tbl rid n perm) (\<lambda>(tbl', _). Inr (us, tbl')))"

definition user_revoke :: "('r, 'z) user_repo \<Rightarrow> 'r \<Rightarrow> string \<Rightarrow> ('r, 'z) user_repo res" where
  "user_revoke = (\<lambda>(us, tbl) rid n. bindE (revoke_permission us tbl rid n) (\<lambda>tbl'. Inr (us, tbl')))"

definition group_invar :: "('r, 'z) group_repo \<Rightarrow> bool" where
  "group_invar = (\<lambda>(gs, tbl). wf_groups gs \<and> wf_perm_table tbl)"

definition group_abs :: "('r, 'z) group_repo \<Rightarrow> 'r \<times> string \<Rightarrow> string option" where
  "group_abs = (\<lambda>(gs, tbl). owner_abs (group_own gs) tbl)"

definition group_lookup :: "('r, 'z) group_repo \<Rightarrow> 'r \<Rightarrow> string \<Rightarrow> string res" where
  "group_lookup = (\<lambda>(gs, tbl) rid n. bindE (find_group_permission gs tbl rid n) (\<lambda>p. Inr (p_permission p)))"

definition group_grant :: "'z \<Rightarrow> ('r, 'z) group_repo \<Rightarrow> 'r \<Rightarrow> string \<Rightarrow> string \<Rightarrow> ('r, 'z) group_repo res" where
  "group_grant ext = (\<lambda>(gs, tbl) rid n perm. bindE (grant_group_permission gs ext tbl n rid perm) (\<lambda>(tbl', _). Inr (gs, tbl')))"

definition group_update :: "('r, 'z) group_repo \<Rightarrow> 'r \<Rightarrow> string \<Rightarrow> string \<Rightarrow> ('r, 'z) group_repo res" where
  "group_update = (\<lambda>(gs, tbl) rid n perm. bindE (update_group_permission gs tbl n rid perm) (\<lambda>(tbl', _). Inr (gs, tbl')))"

definition group_revoke :: "('r, 'z) group_repo \<Rightarrow> 'r \<Rightarrow> string \<Rightarrow> ('r, 'z) group_repo res" where
  "group_revoke = (\<lambda>(gs, tbl) rid n. bindE (revoke_group_permission gs tbl n rid) (\<lambda>tbl'. Inr (gs, tbl')))"

text \<open>Each repository operation is the owned-table operation of its base class.\<close>

lemma find_user_permission_eq:
  assumes "wf_users us"
  shows "find_user_permission us tbl rid n = bindE (user_own us n) (\<lambda>i. one_or_raise (rows_at tbl rid i))"
  unfolding find_user_permission_def join_user [OF assms] user_own_def bindE_assoc rows_at_def
  using assms by (cases rule: get_user_cases [where uname = n]) simp_all

lemma find_group_permission_eq:
  assumes "wf_groups gs"
  shows "find_group_permission gs tbl rid n = bindE (group_own gs n) (\<lambda>i. one_or_raise (rows_at tbl rid i))"
proof -
  have "sql_join tbl gs (\<lambda>p g. p_owner p = g_id g \<and> p_resource p = rid \<and> g_group_name g = n) =
      filter (\<lambda>p. \<exists>g\<in>set gs. p_owner p = g_id g \<and> p_resource p = rid \<and> g_group_name g = n) tbl"
    using assms by (intro sql_join_filter filter_le1 [where key = g_group_name]) (auto simp: wf_groups_def)
  also have "one_or_raise \<dots> = bindE (group_own gs n) (\<lambda>i. one_or_raise (rows_at tbl rid i))"
    using assms
  proof (cases rule: get_group_cases [where gname = n])
    case (found g)
    have "(\<exists>h\<in>set gs. p_owner p = g_id h \<and> p_resource p = rid \<and> g_group_name h = n) \<longleftrightarrow>
        p_owner p = g_id g \<and> p_resource p = rid" for p :: "('a, 'b) perm_row_scheme"
      using found get_group_Inr_iff [OF assms] by (metis sum.inject(2))
    with found show ?thesis by (simp add: group_own_def rows_at_def)
  next
    case absent
    then have "filter (\<lambda>p. \<exists>g\<in>set gs. p_owner p = g_id g \<and> p_resource p = rid \<and> g_group_name g = n) tbl = []"
      by (auto simp: filter_empty_conv)
    with absent show ?thesis by (simp add: group_own_def)
  qed
  finally show ?thesis by (simp add: find_group_permission_def)
qed

lemma user_ops_eq:
  "user_grant ext = owned_grant user_own ext"
  "user_invar t \<Longrightarrow> user_lookup t k n = owned_lookup user_own t k n"
  "user_invar t \<Longrightarrow> user_regrant t k n p = owned_update user_own one_or_raise t k n p"
  "user_invar t \<Longrightarrow> user_revoke t k n = owned_revoke user_own one_or_raise t k n"
proof -
  show "user_grant ext = owned_grant user_own ext"
    by (intro ext) (auto simp: user_grant_def owned_grant_def grant_permission_def user_own_def bindE_assoc)
qed (cases t; auto simp: user_invar_def user_lookup_def owned_lookup_def user_regrant_def owned_update_def
    update_permission_def user_revoke_def owned_revoke_def revoke_permission_def find_user_permission_eq bindE_assoc)+

lemma group_ops_eq:
  "group_grant ext = owned_grant group_own ext"
  "group_invar t \<Longrightarrow> group_lookup t k n = owned_lookup group_own t k n"
  "group_update t k n p = owned_update group_own sql_one t k n p"
  "group_revoke t k n = owned_revoke group_own sql_one t k n"
proof -
  show "group_grant ext = owned_grant group_own ext"
    by (intro ext) (auto simp: group_grant_def owned_grant_def grant_group_permission_def group_own_def bindE_assoc)
qed (cases t; auto simp: group_invar_def group_lookup_def owned_lookup_def group_update_def owned_update_def
    update_group_permission_def group_revoke_def owned_revoke_def revoke_group_permission_def find_group_permission_eq
    group_own_def rows_at_comp bindE_assoc)+

lemma owned_views:
  "user_rows.invar = user_invar" "user_rows.abs = user_abs"
  "group_rows.invar = group_invar" "group_rows.abs = group_abs"
  by (simp_all add: user_rows.invar_def user_invar_def user_rows.abs_def user_abs_def
      group_rows.invar_def group_invar_def group_rows.abs_def group_abs_def)

interpretation user_repo: permission_repository user_invar "owned_known user_own" user_abs
  user_lookup "user_grant ext" user_regrant user_revoke for ext
proof (unfold_locales, goal_cases)
  case (1 t k n) then show ?case using user_rows.repo.lookup_abs [of t k n] by (simp add: owned_views user_ops_eq)
next
  case (2 t k n) then show ?case using user_rows.repo.abs_known [of t k n] by (simp add: owned_views)
next
  case (3 p t k n) then show ?case using user_rows.repo.grant_invalid [of p] by (simp add: user_ops_eq)
next
  case (4 t p n k) then show ?case using user_rows.repo.grant_unknown [of t p n] by (simp add: owned_views user_ops_eq)
next
  case (5 t p k n) then show ?case using user_rows.repo.grant_duplicate [of t p k n] by (simp add: owned_views user_ops_eq)
next
  case (6 t p n k) then show ?case using user_rows.repo.grant_fresh [of t p n k] by (simp add: owned_views user_ops_eq)
next
  case (7 p t k n) then show ?case by (cases t) (simp add: user_regrant_def update_permission_def validate_permission_eq)
next
  case (8 t k n p) then show ?case using user_rows.repo.update_absent [of t k n p] by (simp add: owned_views user_ops_eq)
next
  case (9 t p k n) then show ?case using user_rows.repo.update_present [of t p k n] by (simp add: owned_views user_ops_eq)
next
  case (10 t k n) then show ?case using user_rows.repo.revoke_absent [of t k n] by (simp add: owned_views user_ops_eq)
next
  case (11 t k n) then show ?case using user_rows.repo.revoke_present [of t k n] by (simp add: owned_views user_ops_eq)
qed

interpretation group_repo: permission_repository group_invar "owned_known group_own" group_abs
  group_lookup "group_grant ext" group_update group_revoke for ext
proof (unfold_locales, goal_cases)
  case (1 t k n) then show ?case using group_rows.repo.lookup_abs [of t k n] by (simp add: owned_views group_ops_eq)
next
  case (2 t k n) then show ?case using group_rows.repo.abs_known [of t k n] by (simp add: owned_views)
next
  case (3 p t k n) then show ?case using group_rows.repo.grant_invalid [of p] by (simp add: group_ops_eq)
next
  case (4 t p n k) then show ?case using group_rows.repo.grant_unknown [of t p n] by (simp add: owned_views group_ops_eq)
next
  case (5 t p k n) then show ?case using group_rows.repo.grant_duplicate [of t p k n] by (simp add: owned_views group_ops_eq)
next
  case (6 t p n k) then show ?case using group_rows.repo.grant_fresh [of t p n k] by (simp add: owned_views group_ops_eq)
next
  case (7 p t k n) then show ?case by (cases t) (simp add: group_update_def update_group_permission_def validate_permission_eq)
next
  case (8 t k n p) then show ?case using group_rows.repo.update_absent [of t k n p] by (simp add: owned_views group_ops_eq)
next
  case (9 t p k n) then show ?case using group_rows.repo.update_present [of t p k n] by (simp add: owned_views group_ops_eq)
next
  case (10 t k n) then show ?case using group_rows.repo.revoke_absent [of t k n] by (simp add: owned_views group_ops_eq)
next
  case (11 t k n) then show ?case using group_rows.repo.revoke_present [of t k n] by (simp add: owned_views group_ops_eq)
qed

subsection \<open>The fold over a user's groups\<close>

text \<open>
  Over valid rows the fold never raises and returns a row of the greatest priority; since equal
  priorities are equal names, the permission it reports does not depend on the order of the rows.
\<close>

lemma fold_highest_max:
  assumes "valid_permission (p_permission cur)" and "\<forall>p\<in>set ps. valid_permission (p_permission p)"
  shows "\<exists>r. fold_highest cur ps = Inr r \<and> r \<in> set (cur # ps) \<and>
    (\<forall>p\<in>set (cur # ps). prio (p_permission p) \<le> prio (p_permission r))"
  using assms
proof (induction ps arbitrary: cur)
  case Nil
  then show ?case by simp
next
  case (Cons p ps)
  then have v: "valid_permission (p_permission cur)" "valid_permission (p_permission p)"
    "\<forall>q\<in>set ps. valid_permission (p_permission q)" by auto
  show ?case
  proof (cases "prio (p_permission cur) \<le> prio (p_permission p)")
    case True
    with Cons.IH [OF v(2,3)] v show ?thesis by (auto simp: compare_permissions_valid)
  next
    case False
    with Cons.IH [OF v(1,3)] v show ?thesis by (auto simp: compare_permissions_valid)
  qed
qed

definition highest_of :: "string list \<Rightarrow> string \<Rightarrow> bool" where
  "highest_of perms p \<longleftrightarrow> p \<in> set perms \<and> (\<forall>q\<in>set perms. prio q \<le> prio p)"

lemma highest_of_unique:
  "\<forall>q\<in>set perms. valid_permission q \<Longrightarrow> highest_of perms p \<Longrightarrow> highest_of perms p' \<Longrightarrow> p = p'"
  by (meson highest_of_def antisym prio_inj)

lemma fold_highest_perm:
  assumes "\<forall>p\<in>set (cur # ps). valid_permission (p_permission p)"
  obtains r where "fold_highest cur ps = Inr r" "highest_of (map p_permission (cur # ps)) (p_permission r)"
proof -
  obtain r where "fold_highest cur ps = Inr r" "r \<in> set (cur # ps)"
    "\<forall>p\<in>set (cur # ps). prio (p_permission p) \<le> prio (p_permission r)"
    using fold_highest_max [of cur ps] assms by auto
  then show ?thesis by (intro that [of r]) (auto simp: highest_of_def)
qed

subsection \<open>The base repositories through their tables\<close>

text \<open>What \<open>permission_repository\<close> proves of its clients, stated on the operations of the two base classes.\<close>

lemma user_writes_lookup:
  assumes "wf_users us" and "wf_perm_table tbl"
  shows "grant_permission us ext tbl rid uname perm = Inr (tbl', row) \<Longrightarrow> wf_perm_table tbl' \<and>
      user_lookup (us, tbl) rid uname = Inl (MlflowException RESOURCE_DOES_NOT_EXIST) \<and>
      (\<forall>k n. user_lookup (us, tbl') k n = (if (k, n) = (rid, uname) then Inr perm else user_lookup (us, tbl) k n))"
    and "update_permission us tbl rid uname perm = Inr (tbl', row) \<Longrightarrow> wf_perm_table tbl' \<and>
      (\<forall>k n. user_lookup (us, tbl') k n = (if (k, n) = (rid, uname) then Inr perm else user_lookup (us, tbl) k n))"
    and "revoke_permission us tbl rid uname = Inr tbl' \<Longrightarrow> wf_perm_table tbl' \<and>
      (\<forall>k n. user_lookup (us, tbl') k n =
         (if (k, n) = (rid, uname) then Inl (MlflowException RESOURCE_DOES_NOT_EXIST) else user_lookup (us, tbl) k n))"
  using user_repo.grant_lookups [of "(us, tbl)" ext rid uname perm "(us, tbl')"]
    user_repo.update_lookups [of "(us, tbl)" rid uname perm "(us, tbl')"] user_repo.revoke_lookups [of "(us, tbl)" rid uname "(us, tbl')"] assms
  by (simp_all add: user_invar_def user_grant_def user_regrant_def user_revoke_def)

lemma group_writes_lookup:
  assumes "wf_groups gs" and "wf_perm_table tbl"
  shows "grant_group_permission gs ext tbl gname rid perm = Inr (tbl', row) \<Longrightarrow> wf_perm_table tbl' \<and>
      group_lookup (gs, tbl) rid gname = Inl (MlflowException RESOURCE_DOES_NOT_EXIST) \<and>
      (\<forall>k n. group_lookup (gs, tbl') k n = (if (k, n) = (rid, gname) then Inr perm else group_lookup (gs, tbl) k n))"
    and "update_group_permission gs tbl gname rid perm = Inr (tbl', row) \<Longrightarrow> wf_perm_table tbl' \<and>
      (\<forall>k n. group_lookup (gs, tbl') k n = (if (k, n) = (rid, gname) then Inr perm else group_lookup (gs, tbl) k n))"
    and "revoke_group_permission gs tbl gname rid = Inr tbl' \<Longrightarrow> wf_perm_table tbl' \<and>
      (\<forall>k n. group_lookup (gs, tbl') k n =
         (if (k, n) = (rid, gname) then Inl (MlflowException RESOURCE_DOES_NOT_EXIST) else group_lookup (gs, tbl) k n))"
  using group_repo.grant_lookups [of "(gs, tbl)" ext rid gname perm "(gs, tbl')"]
    group_repo.update_lookups [of "(gs, tbl)" rid gname perm "(gs, tbl')"] group_repo.revoke_lookups [of "(gs, tbl)" rid gname "(gs, tbl')"] assms
  by (simp_all add: group_invar_def group_grant_def group_update_def group_revoke_def)

text \<open>Every outcome of a grant.\<close>

lemma grant_outcomes:
  assumes wf: "wf_users us" "wf_perm_table tbl"
  shows "\<not> valid_permission perm \<Longrightarrow> grant_permission us ext tbl rid uname perm = Inl (MlflowException INVALID_PARAMETER_VALUE)"
    and "valid_permission perm \<Longrightarrow> uname \<notin> u_username ` set us \<Longrightarrow>
      grant_permission us ext tbl rid uname perm = Inl (MlflowException RESOURCE_DOES_NOT_EXIST)"
    and "valid_permission perm \<Longrightarrow> user_abs (us, tbl) (rid, uname) \<noteq> None \<Longrightarrow>
      grant_permission us ext tbl rid uname perm = Inl (MlflowException RESOURCE_ALREADY_EXISTS)"
    and "valid_permission perm \<Longrightarrow> uname \<in> u_username ` set us \<Longrightarrow> user_abs (us, tbl) (rid, uname) = None \<Longrightarrow>
      \<exists>tbl' row. grant_permission us ext tbl rid uname perm = Inr (tbl', row)"
proof -
  have inv: "user_invar (us, tbl)" using wf by (simp add: user_invar_def)
  have known: "owned_known user_own (us, tbl) uname \<longleftrightarrow> uname \<in> u_username ` set us"
    using wf(1) by (cases rule: get_user_cases [where uname = uname]) (auto simp: owned_known_def user_own_def)
  have err: "grant_permission us ext tbl rid uname perm = Inl e" if "user_grant ext (us, tbl) rid uname perm = Inl e" for e
    using that by (auto simp: user_grant_def bindE_eq_Inl)
  show "\<not> valid_permission perm \<Longrightarrow> grant_permission us ext tbl rid uname perm = Inl (MlflowException INVALID_PARAMETER_VALUE)"
    by (rule err, rule user_repo.grant_invalid)
  show "valid_permission perm \<Longrightarrow> uname \<notin> u_username ` set us \<Longrightarrow>
      grant_permission us ext tbl rid uname perm = Inl (MlflowException RESOURCE_DOES_NOT_EXIST)"
    using user_repo.grant_unknown [OF inv] known by (intro err) blast
  show "valid_permission perm \<Longrightarrow> user_abs (us, tbl) (rid, uname) \<noteq> None \<Longrightarrow>
      grant_permission us ext tbl rid uname perm = Inl (MlflowException RESOURCE_ALREADY_EXISTS)"
    using user_repo.grant_duplicate [OF inv] by (intro err) blast
  show "\<exists>tbl' row. grant_permission us ext tbl rid uname perm = Inr (tbl', row)"
    if "valid_permission perm" "uname \<in> u_username ` set us" "user_abs (us, tbl) (rid, uname) = None"
    using user_repo.grant_fresh [OF inv that(1) _ that(3), of ext] known that(2) by (auto simp: user_grant_def)
qed

end
