(* ===== verification/Regex_Repositories.thy ===== *)
theory Regex_Repositories
  imports Repositories
begin

section \<open>Pattern permissions of users and groups (repository/_base.py)\<close>

text \<open>
  \<^verbatim>\<open>BaseRegexPermissionRepository\<close> and
  \<^verbatim>\<open>BaseGroupRegexPermissionRepository\<close>, the overrides of the gateway
  repositories and the registered-model repositories with their \<^verbatim>\<open>prompt\<close>
  column. \<open>re_compile\<close> stands for what \<^verbatim>\<open>re.compile\<close> reports.
\<close>

subsection \<open>BaseRegexPermissionRepository\<close>

definition find_regex_permission :: "'z regex_row_scheme list \<Rightarrow> int \<Rightarrow> int \<Rightarrow> 'z regex_row_scheme res" where
  "find_regex_permission tbl uid i = one_or_raise [r. r \<leftarrow> tbl, rx_owner r = uid \<and> rx_id r = i]"

text \<open>The unique constraint of a pattern table, on the key columns of the row.\<close>

definition insert_regex ::
  "('z regex_row_scheme \<Rightarrow> 'k) \<Rightarrow> 'z regex_row_scheme list \<Rightarrow> 'z regex_row_scheme \<Rightarrow>
   ('z regex_row_scheme list \<times> 'z regex_row_scheme) res" where
  "insert_regex key tbl row =
     (if key row \<in> key ` set tbl then Inl IntegrityError
      else let row' = row\<lparr>rx_id := next_id rx_id tbl\<rparr> in Inr (tbl @ [row'], row'))"

definition write_regex_row ::
  "('z regex_row_scheme \<Rightarrow> 'k) \<Rightarrow> 'z regex_row_scheme list \<Rightarrow> 'z regex_row_scheme \<Rightarrow>
   ('z regex_row_scheme list \<times> 'z regex_row_scheme) res" where
  "write_regex_row key tbl row =
     (let tbl' = map (\<lambda>r. if rx_id r = rx_id row then row else r) tbl
      in if distinct (map key tbl') then Inr (tbl', row) else Inl IntegrityError)"

definition delete_regex_row :: "'z regex_row_scheme list \<Rightarrow> 'z regex_row_scheme \<Rightarrow> 'z regex_row_scheme list" where
  "delete_regex_row tbl row = [r. r \<leftarrow> tbl, rx_id r \<noteq> rx_id row]"

abbreviation regex_key :: "'z regex_row_scheme \<Rightarrow> string \<times> int" where
  "regex_key r \<equiv> (rx_regex r, rx_owner r)"

definition regex_grant ::
  "(string \<Rightarrow> compile_outcome) \<Rightarrow> user_row list \<Rightarrow> regex_row list \<Rightarrow> string \<Rightarrow> int \<Rightarrow> string \<Rightarrow> string \<Rightarrow>
   (regex_row list \<times> regex_row) res" where
  "regex_grant re_compile us tbl rx prty perm uname =
     bindE (validate_regex re_compile rx) (\<lambda>_.
     bindE (validate_permission perm) (\<lambda>_.
     already_exists (bindE (get_user us uname) (\<lambda>u.
       insert_regex regex_key tbl
         \<lparr>rx_id = 0, rx_regex = rx, rx_priority = prty, rx_owner = u_id u, rx_permission = perm\<rparr>))))"

definition regex_get :: "user_row list \<Rightarrow> 'z regex_row_scheme list \<Rightarrow> string \<Rightarrow> int \<Rightarrow> 'z regex_row_scheme res" where
  "regex_get us tbl uname i = bindE (get_user us uname) (\<lambda>u. find_regex_permission tbl (u_id u) i)"

definition regex_list :: "'z regex_row_scheme list \<Rightarrow> 'z regex_row_scheme list" where
  "regex_list tbl = tbl"

definition list_regex_for_user :: "user_row list \<Rightarrow> 'z regex_row_scheme list \<Rightarrow> string \<Rightarrow> 'z regex_row_scheme list" where
  "list_regex_for_user us tbl uname =
     sort_key rx_priority (sql_join tbl us (\<lambda>r u. rx_owner r = u_id u \<and> True \<and> u_username u = uname))"

definition regex_update ::
  "(string \<Rightarrow> compile_outcome) \<Rightarrow> user_row list \<Rightarrow> 'z regex_row_scheme list \<Rightarrow>
   string \<Rightarrow> int \<Rightarrow> string \<Rightarrow> string \<Rightarrow> int \<Rightarrow> ('z regex_row_scheme list \<times> 'z regex_row_scheme) res" where
  "regex_update re_compile us tbl rx prty perm uname i =
     bindE (validate_regex re_compile rx) (\<lambda>_.
     bindE (validate_permission perm) (\<lambda>_.
     bindE (get_user us uname) (\<lambda>u.
     bindE (find_regex_permission tbl (u_id u) i) (\<lambda>row.
     write_regex_row regex_key tbl (row\<lparr>rx_priority := prty, rx_permission := perm, rx_regex := rx\<rparr>)))))"

definition regex_revoke ::
  "user_row list \<Rightarrow> 'z regex_row_scheme list \<Rightarrow> string \<Rightarrow> int \<Rightarrow> 'z regex_row_scheme list res" where
  "regex_revoke us tbl uname i =
     bindE (get_user us uname) (\<lambda>u.
     bindE (find_regex_permission tbl (u_id u) i) (\<lambda>row. Inr (delete_regex_row tbl row)))"

text \<open>
  The gateway repositories override \<^verbatim>\<open>update\<close>: the pattern is validated and
  not assigned.
\<close>

definition gateway_regex_update ::
  "(string \<Rightarrow> compile_outcome) \<Rightarrow> user_row list \<Rightarrow> 'z regex_row_scheme list \<Rightarrow>
   int \<Rightarrow> string \<Rightarrow> int \<Rightarrow> string \<Rightarrow> string \<Rightarrow> ('z regex_row_scheme list \<times> 'z regex_row_scheme) res" where
  "gateway_regex_update re_compile us tbl i rx prty perm uname =
     bindE (validate_regex re_compile rx) (\<lambda>_.
     bindE (validate_permission perm) (\<lambda>_.
     bindE (get_user us uname) (\<lambda>u.
     bindE (find_regex_permission tbl (u_id u) i) (\<lambda>row.
     write_regex_row regex_key tbl (row\<lparr>rx_priority := prty, rx_permission := perm\<rparr>)))))"

subsection \<open>BaseGroupRegexPermissionRepository\<close>

definition find_group_regex_permission :: "'z regex_row_scheme list \<Rightarrow> int \<Rightarrow> int \<Rightarrow> 'z regex_row_scheme res" where
  "find_group_regex_permission tbl i gid = one_or_raise [r. r \<leftarrow> tbl, rx_id r = i \<and> rx_owner r = gid]"

definition list_group_permissions :: "'z regex_row_scheme list \<Rightarrow> int list \<Rightarrow> 'z regex_row_scheme list" where
  "list_group_permissions tbl gids = sort_key rx_priority [r. r \<leftarrow> tbl, rx_owner r \<in> set gids]"

definition group_regex_grant ::
  "(string \<Rightarrow> compile_outcome) \<Rightarrow> group_row list \<Rightarrow> regex_row list \<Rightarrow> string \<Rightarrow> string \<Rightarrow> int \<Rightarrow> string \<Rightarrow>
   (regex_row list \<times> regex_row) res" where
  "group_regex_grant re_compile gs tbl gname rx prty perm =
     bindE (validate_permission perm) (\<lambda>_.
     bindE (validate_regex re_compile rx) (\<lambda>_.
     already_exists (bindE (get_group gs gname) (\<lambda>g.
       insert_regex regex_key tbl
         \<lparr>rx_id = 0, rx_regex = rx, rx_priority = prty, rx_owner = g_id g, rx_permission = perm\<rparr>))))"

definition group_regex_get :: "group_row list \<Rightarrow> 'z regex_row_scheme list \<Rightarrow> string \<Rightarrow> int \<Rightarrow> 'z regex_row_scheme res" where
  "group_regex_get gs tbl gname i = bindE (get_group gs gname) (\<lambda>g. find_group_regex_permission tbl i (g_id g))"

definition group_regex_update ::
  "(string \<Rightarrow> compile_outcome) \<Rightarrow> group_row list \<Rightarrow> 'z regex_row_scheme list \<Rightarrow>
   int \<Rightarrow> string \<Rightarrow> string \<Rightarrow> int \<Rightarrow> string \<Rightarrow> ('z regex_row_scheme list \<times> 'z regex_row_scheme) res" where
  "group_regex_update re_compile gs tbl i gname rx prty perm =
     bindE (validate_permission perm) (\<lambda>_.
     bindE (validate_regex re_compile rx) (\<lambda>_.
     bindE (get_group gs gname) (\<lambda>g.
     bindE (find_group_regex_permission tbl i (g_id g)) (\<lambda>row.
     write_regex_row regex_key tbl (row\<lparr>rx_permission := perm, rx_regex := rx, rx_priority := prty\<rparr>)))))"

definition group_regex_revoke ::
  "group_row list \<Rightarrow> 'z regex_row_scheme list \<Rightarrow> string \<Rightarrow> int \<Rightarrow> 'z regex_row_scheme list res" where
  "group_regex_revoke gs tbl gname i =
     bindE (get_group gs gname) (\<lambda>g.
     bindE (find_group_regex_permission tbl i (g_id g)) (\<lambda>row. Inr (delete_regex_row tbl row)))"

definition group_regex_list_for_group ::
  "group_row list \<Rightarrow> 'z regex_row_scheme list \<Rightarrow> string \<Rightarrow> 'z regex_row_scheme list res" where
  "group_regex_list_for_group gs tbl gname =
     bindE (get_group gs gname) (\<lambda>g. Inr (list_group_permissions tbl [g_id g]))"

definition group_regex_list_for_groups ::
  "group_row list \<Rightarrow> 'z regex_row_scheme list \<Rightarrow> string list \<Rightarrow> 'z regex_row_scheme list res" where
  "group_regex_list_for_groups gs tbl gnames =
     bindE (mapE (\<lambda>n. bindE (get_group gs n) (\<lambda>g. Inr (g_id g))) gnames) (\<lambda>gids.
     Inr (list_group_permissions tbl gids))"

definition list_permissions_for_groups_ids :: "'z regex_row_scheme list \<Rightarrow> int list \<Rightarrow> 'z regex_row_scheme list" where
  "list_permissions_for_groups_ids tbl gids = list_group_permissions tbl gids"

definition user_group_ids :: "user_row list \<Rightarrow> user_group_row list \<Rightarrow> string \<Rightarrow> int list" where
  "user_group_ids us ugs uname =
     map ug_group_id (sql_join ugs us (\<lambda>ug u. ug_user_id ug = u_id u \<and> True \<and> u_username u = uname))"

definition group_regex_list_for_user_groups ::
  "user_row list \<Rightarrow> user_group_row list \<Rightarrow> 'z regex_row_scheme list \<Rightarrow> string \<Rightarrow> 'z regex_row_scheme list" where
  "group_regex_list_for_user_groups us ugs tbl uname = list_group_permissions tbl (user_group_ids us ugs uname)"

subsection \<open>Registered models and prompts: the prompt column\<close>

abbreviation model_regex_key :: "model_regex_row \<Rightarrow> string \<times> int \<times> bool" where
  "model_regex_key r \<equiv> (rx_regex r, rx_owner r, rx_prompt r)"

definition find_model_regex :: "model_regex_row list \<Rightarrow> int \<Rightarrow> int \<Rightarrow> bool \<Rightarrow> model_regex_row res" where
  "find_model_regex tbl i owner prompt =
     one_or_raise [r. r \<leftarrow> tbl, rx_id r = i \<and> rx_owner r = owner \<and> rx_prompt r = prompt]"

definition model_regex_grant ::
  "(string \<Rightarrow> compile_outcome) \<Rightarrow> user_row list \<Rightarrow> model_regex_row list \<Rightarrow> string \<Rightarrow> int \<Rightarrow> string \<Rightarrow> string \<Rightarrow> bool \<Rightarrow>
   (model_regex_row list \<times> model_regex_row) res" where
  "model_regex_grant re_compile us tbl rx prty perm uname prompt =
     bindE (validate_regex re_compile rx) (\<lambda>_.
     bindE (validate_permission perm) (\<lambda>_.
     already_exists (bindE (get_user us uname) (\<lambda>u.
       insert_regex model_regex_key tbl
         \<lparr>rx_id = 0, rx_regex = rx, rx_priority = prty, rx_owner = u_id u, rx_permission = perm, rx_prompt = prompt\<rparr>))))"

definition model_regex_get :: "user_row list \<Rightarrow> model_regex_row list \<Rightarrow> int \<Rightarrow> string \<Rightarrow> bool \<Rightarrow> model_regex_row res" where
  "model_regex_get us tbl i uname prompt =
     bindE (get_user us uname) (\<lambda>u. find_model_regex tbl i (u_id u) prompt)"

definition model_list_regex_for_user :: "user_row list \<Rightarrow> model_regex_row list \<Rightarrow> string \<Rightarrow> bool \<Rightarrow> model_regex_row list res" where
  "model_list_regex_for_user us tbl uname prompt =
     bindE (get_user us uname) (\<lambda>u.
     Inr (sort_key rx_priority [r. r \<leftarrow> tbl, rx_owner r = u_id u \<and> rx_prompt r = prompt]))"

definition model_regex_update ::
  "(string \<Rightarrow> compile_outcome) \<Rightarrow> user_row list \<Rightarrow> model_regex_row list \<Rightarrow>
   int \<Rightarrow> string \<Rightarrow> int \<Rightarrow> string \<Rightarrow> string \<Rightarrow> bool \<Rightarrow> (model_regex_row list \<times> model_regex_row) res" where
  "model_regex_update re_compile us tbl i rx prty perm uname prompt =
     bindE (validate_regex re_compile rx) (\<lambda>_.
     bindE (validate_permission perm) (\<lambda>_.
     bindE (get_user us uname) (\<lambda>u.
     bindE (find_model_regex tbl i (u_id u) prompt) (\<lambda>row.
     write_regex_row model_regex_key tbl (row\<lparr>rx_priority := prty, rx_permission := perm\<rparr>)))))"

definition model_regex_revoke :: "user_row list \<Rightarrow> model_regex_row list \<Rightarrow> int \<Rightarrow> string \<Rightarrow> bool \<Rightarrow> model_regex_row list res" where
  "model_regex_revoke us tbl i uname prompt =
     bindE (get_user us uname) (\<lambda>u.
     bindE (find_model_regex tbl i (u_id u) prompt) (\<lambda>row. Inr (delete_regex_row tbl row)))"

text \<open>The group variant validates the permission and not the pattern.\<close>

definition model_group_regex_grant ::
  "group_row list \<Rightarrow> model_regex_row list \<Rightarrow> string \<Rightarrow> string \<Rightarrow> string \<Rightarrow> int \<Rightarrow> bool \<Rightarrow>
   (model_regex_row list \<times> model_regex_row) res" where
  "model_group_regex_grant gs tbl gname rx perm prty prompt =
     bindE (validate_permission perm) (\<lambda>_.
     bindE (get_group gs gname) (\<lambda>g.
       insert_regex model_regex_key tbl
         \<lparr>rx_id = 0, rx_regex = rx, rx_priority = prty, rx_owner = g_id g, rx_permission = perm, rx_prompt = prompt\<rparr>))"

definition model_group_regex_get :: "group_row list \<Rightarrow> model_regex_row list \<Rightarrow> int \<Rightarrow> string \<Rightarrow> bool \<Rightarrow> model_regex_row res" where
  "model_group_regex_get gs tbl i gname prompt =
     bindE (get_group gs gname) (\<lambda>g. find_model_regex tbl i (g_id g) prompt)"

definition model_group_regex_list_for_group ::
  "group_row list \<Rightarrow> model_regex_row list \<Rightarrow> string \<Rightarrow> bool \<Rightarrow> model_regex_row list res" where
  "model_group_regex_list_for_group gs tbl gname prompt =
     bindE (get_group gs gname) (\<lambda>g.
     Inr (sort_key rx_priority [r. r \<leftarrow> tbl, rx_owner r = g_id g \<and> rx_prompt r = prompt]))"

definition model_list_permissions_for_groups_ids :: "model_regex_row list \<Rightarrow> int list \<Rightarrow> bool \<Rightarrow> model_regex_row list" where
  "model_list_permissions_for_groups_ids tbl gids prompt =
     sort_key rx_priority [r. r \<leftarrow> tbl, rx_owner r \<in> set gids \<and> rx_prompt r = prompt]"

definition model_group_regex_update ::
  "group_row list \<Rightarrow> model_regex_row list \<Rightarrow> int \<Rightarrow> string \<Rightarrow> string \<Rightarrow> string \<Rightarrow> int \<Rightarrow> bool \<Rightarrow>
   (model_regex_row list \<times> model_regex_row) res" where
  "model_group_regex_update gs tbl i rx gname perm prty prompt =
     bindE (validate_permission perm) (\<lambda>_.
     bindE (get_group gs gname) (\<lambda>g.
     bindE (find_model_regex tbl i (g_id g) prompt) (\<lambda>row.
     write_regex_row model_regex_key tbl
       (row\<lparr>rx_permission := perm, rx_priority := prty, rx_prompt := prompt, rx_regex := rx\<rparr>))))"

definition model_group_regex_revoke :: "group_row list \<Rightarrow> model_regex_row list \<Rightarrow> int \<Rightarrow> string \<Rightarrow> bool \<Rightarrow> model_regex_row list res" where
  "model_group_regex_revoke gs tbl i gname prompt =
     bindE (get_group gs gname) (\<lambda>g.
     bindE (find_model_regex tbl i (g_id g) prompt) (\<lambda>row. Inr (delete_regex_row tbl row)))"

subsection \<open>Updates that keep the pattern\<close>

lemma one_or_raise_in: "one_or_raise (filter P xs) = Inr q \<Longrightarrow> q \<in> set xs"
  by (auto simp: filter_eq_Cons_iff)

lemma write_keeps_patterns:
  assumes "unique_on rx_id tbl" and "q \<in> set tbl"
    and "write_regex_row key tbl (q\<lparr>rx_priority := prty, rx_permission := perm\<rparr>) = Inr (tbl', row)"
  shows "map rx_regex tbl' = map rx_regex tbl"
proof -
  have "tbl' = map (\<lambda>r. if rx_id r = rx_id q then q\<lparr>rx_priority := prty, rx_permission := perm\<rparr> else r) tbl"
    using assms(3) by (simp add: write_regex_row_def Let_def split: if_splits)
  with unique_onD [OF assms(1)] assms(2) show ?thesis by auto
qed

end
