(* ===== verification/Group_Repository.thy ===== *)
theory Group_Repository
  imports Regex_Repositories
begin

section \<open>Groups and memberships (repository/group.py)\<close>

text \<open>
  \<^verbatim>\<open>GroupRepository\<close> over the tables of users, groups and memberships. The
  lemmas characterise membership after each writing operation, by names: what
  \<^verbatim>\<open>set_groups_for_user\<close> stores is what
  \<^verbatim>\<open>list_groups_for_user\<close> returns, and no other user is affected.
\<close>

subsection \<open>Operations\<close>

definition create_group :: "group_row list \<Rightarrow> string \<Rightarrow> group_row list res" where
  "create_group gs gname =
     (if gname \<in> g_group_name ` set gs then Inl (MlflowException RESOURCE_ALREADY_EXISTS)
      else Inr (gs @ [\<lparr>g_id = next_id g_id gs, g_group_name = gname\<rparr>]))"

text \<open>
  The query for the next name flushes the pending inserts, so a name that occurs twice is found the
  second time.
\<close>

fun create_groups :: "group_row list \<Rightarrow> string list \<Rightarrow> group_row list" where
  "create_groups gs [] = gs"
| "create_groups gs (n # ns) =
     create_groups
       (case List.find (\<lambda>g. g_group_name g = n) gs of
          None \<Rightarrow> gs @ [\<lparr>g_id = next_id g_id gs, g_group_name = n\<rparr>]
        | Some _ \<Rightarrow> gs) ns"

definition list_groups :: "group_row list \<Rightarrow> string list" where
  "list_groups gs = map g_group_name gs"

text \<open>
  Deleting a group also deletes its membership rows (the \<^verbatim>\<open>secondary\<close>
  relationship); whether the database refuses because another table still refers to the group is
  the parameter \<open>fk_refuses\<close>.
\<close>

definition delete_group ::
  "(group_row \<Rightarrow> bool) \<Rightarrow> group_row list \<Rightarrow> user_group_row list \<Rightarrow> string \<Rightarrow> (group_row list \<times> user_group_row list) res" where
  "delete_group fk_refuses gs ugs gname =
     bindE (get_group gs gname) (\<lambda>g.
     if fk_refuses g then Inl IntegrityError
     else Inr ([h. h \<leftarrow> gs, g_id h \<noteq> g_id g], [ug. ug \<leftarrow> ugs, ug_group_id ug \<noteq> g_id g]))"

text \<open>\<^verbatim>\<open>session.add(SqlUserGroup(...))\<close> under the constraint \<^verbatim>\<open>unique_user_group\<close>.\<close>

definition insert_link :: "user_group_row list \<Rightarrow> int \<Rightarrow> int \<Rightarrow> user_group_row list res" where
  "insert_link ugs uid gid =
     (if (uid, gid) \<in> (\<lambda>r. (ug_user_id r, ug_group_id r)) ` set ugs then Inl IntegrityError
      else Inr (ugs @ [\<lparr>ug_id = next_id ug_id ugs, ug_user_id = uid, ug_group_id = gid\<rparr>]))"

definition add_user_to_group ::
  "user_row list \<Rightarrow> group_row list \<Rightarrow> user_group_row list \<Rightarrow> string \<Rightarrow> string \<Rightarrow> user_group_row list res" where
  "add_user_to_group us gs ugs uname gname =
     bindE (get_user us uname) (\<lambda>u.
     bindE (get_group gs gname) (\<lambda>g.
     insert_link ugs (u_id u) (g_id g)))"

definition remove_user_from_group ::
  "user_row list \<Rightarrow> group_row list \<Rightarrow> user_group_row list \<Rightarrow> string \<Rightarrow> string \<Rightarrow> user_group_row list res" where
  "remove_user_from_group us gs ugs uname gname =
     bindE (get_user us uname) (\<lambda>u.
     bindE (get_group gs gname) (\<lambda>g.
     bindE (sql_one [ug. ug \<leftarrow> ugs, ug_user_id ug = u_id u \<and> ug_group_id ug = g_id g]) (\<lambda>ug.
     Inr [r. r \<leftarrow> ugs, ug_id r \<noteq> ug_id ug])))"

definition list_group_members ::
  "user_row list \<Rightarrow> group_row list \<Rightarrow> user_group_row list \<Rightarrow> string \<Rightarrow> user_row list res" where
  "list_group_members us gs ugs gname =
     bindE (get_group gs gname) (\<lambda>g.
     let user_ids = [ug_user_id ug. ug \<leftarrow> ugs, ug_group_id ug = g_id g]
     in Inr [u. u \<leftarrow> us, u_id u \<in> set user_ids])"

definition list_groups_for_user ::
  "user_row list \<Rightarrow> group_row list \<Rightarrow> user_group_row list \<Rightarrow> string \<Rightarrow> string list" where
  "list_groups_for_user us gs ugs uname =
     map g_group_name (sort_key g_id (sql_join gs (List.product ugs us)
       (\<lambda>g (ug, u). ug_group_id ug = g_id g \<and> u_id u = ug_user_id ug \<and> u_username u = uname \<and> True)))"

definition list_group_ids_for_user :: "user_row list \<Rightarrow> user_group_row list \<Rightarrow> string \<Rightarrow> int list" where
  "list_group_ids_for_user us ugs uname = user_group_ids us ugs uname"

fun add_links :: "group_row list \<Rightarrow> user_group_row list \<Rightarrow> int \<Rightarrow> string list \<Rightarrow> user_group_row list res" where
  "add_links gs ugs uid [] = Inr ugs"
| "add_links gs ugs uid (n # ns) =
     bindE (get_group gs n) (\<lambda>g.
     bindE (insert_link ugs uid (g_id g)) (\<lambda>ugs'.
     add_links gs ugs' uid ns))"

definition set_groups_for_user ::
  "user_row list \<Rightarrow> group_row list \<Rightarrow> user_group_row list \<Rightarrow> string \<Rightarrow> string list \<Rightarrow> user_group_row list res" where
  "set_groups_for_user us gs ugs uname names =
     bindE (get_user us uname) (\<lambda>u.
     add_links gs [r. r \<leftarrow> ugs, r \<notin> set (list_user_groups ugs u)] (u_id u) (dict_fromkeys names))"

subsection \<open>Membership\<close>

text \<open>The abstract view: which pairs of user id and group id are linked.\<close>

definition member :: "user_group_row list \<Rightarrow> int \<Rightarrow> int \<Rightarrow> bool" where
  "member ugs uid gid \<longleftrightarrow> (\<exists>ug\<in>set ugs. ug_user_id ug = uid \<and> ug_group_id ug = gid)"

lemma member_simps [simp]:
  "member [] uid gid = False"
  "member (ugs @ [r]) uid gid \<longleftrightarrow> member ugs uid gid \<or> (ug_user_id r = uid \<and> ug_group_id r = gid)"
  by (auto simp: member_def)

lemma insert_link_Inr:
  "insert_link ugs uid gid = Inr ugs' \<longleftrightarrow>
     \<not> member ugs uid gid \<and> ugs' = ugs @ [\<lparr>ug_id = next_id ug_id ugs, ug_user_id = uid, ug_group_id = gid\<rparr>]"
  by (auto simp: insert_link_def member_def)

lemma insert_link_wf: "wf_user_groups ugs \<Longrightarrow> insert_link ugs uid gid = Inr ugs' \<Longrightarrow> wf_user_groups ugs'"
  using next_id_fresh [of ug_id ugs]
  by (auto simp: insert_link_Inr wf_user_groups_def member_def)

lemma set_list_user_groups: "set (list_user_groups ugs u) = {r \<in> set ugs. ug_user_id r = u_id u}"
  by (auto simp: list_user_groups_def)

lemma linked_group_ids: "gid \<in> ug_group_id ` set (list_user_groups ugs u) \<longleftrightarrow> member ugs (u_id u) gid"
  by (auto simp: set_list_user_groups member_def)

lemma add_links_Inr:
  assumes "add_links gs ugs uid ns = Inr ugs'" and "wf_groups gs" and "wf_user_groups ugs"
  shows "wf_user_groups ugs' \<and> (\<forall>n\<in>set ns. n \<in> g_group_name ` set gs) \<and>
    (\<forall>v g. g \<in> set gs \<longrightarrow> (member ugs' v (g_id g) \<longleftrightarrow> member ugs v (g_id g) \<or> (v = uid \<and> g_group_name g \<in> set ns)))"
  using assms
proof (induction ns arbitrary: ugs)
  case Nil
  then show ?case by simp
next
  case (Cons n ns)
  then obtain h ugs1 where h: "h \<in> set gs" "g_group_name h = n" and ins: "insert_link ugs uid (g_id h) = Inr ugs1"
    and rest: "add_links gs ugs1 uid ns = Inr ugs'"
    by (auto simp: get_group_Inr_iff)
  have wf1: "wf_user_groups ugs1" using insert_link_wf [OF Cons.prems(3) ins] .
  have eq: "g_id h = g_id g \<longleftrightarrow> g_group_name g = n" if "g \<in> set gs" for g
    using that h Cons.prems(2) unfolding wf_groups_def by (metis unique_onD)
  show ?case
    using Cons.IH [OF rest Cons.prems(2) wf1] ins h eq by (auto simp: insert_link_Inr)
qed

text \<open>The names and ids a user's listing returns.\<close>

lemma set_list_groups_for_user:
  assumes "wf_users us" and "wf_user_groups ugs"
  shows "set (list_groups_for_user us gs ugs uname) =
    (case get_user us uname of Inl e \<Rightarrow> {} | Inr u \<Rightarrow> g_group_name ` {g \<in> set gs. member ugs (u_id u) (g_id g)})"
  unfolding list_groups_for_user_def join_user_groups [OF assms]
  by (cases "get_user us uname") (simp_all add: linked_group_ids)

lemma set_list_group_ids_for_user:
  assumes "wf_users us"
  shows "set (list_group_ids_for_user us ugs uname) =
    (case get_user us uname of Inl e \<Rightarrow> {} | Inr u \<Rightarrow> {gid. member ugs (u_id u) gid})"
  unfolding list_group_ids_for_user_def user_group_ids_def join_user [OF assms]
  by (cases "get_user us uname") (auto simp: member_def)

lemma set_groups_for_user_Inr:
  assumes us: "wf_users us" and gs: "wf_groups gs" and ugs: "wf_user_groups ugs"
    and run: "set_groups_for_user us gs ugs uname names = Inr ugs'"
  obtains u where "get_user us uname = Inr u" "wf_user_groups ugs'"
    "\<forall>n\<in>set names. n \<in> g_group_name ` set gs"
    "\<And>v g. g \<in> set gs \<Longrightarrow>
       (member ugs' v (g_id g) \<longleftrightarrow> (if v = u_id u then g_group_name g \<in> set names else member ugs v (g_id g)))"
proof -
  obtain u where u: "get_user us uname = Inr u"
    and links: "add_links gs [r. r \<leftarrow> ugs, r \<notin> set (list_user_groups ugs u)] (u_id u) (dict_fromkeys names) = Inr ugs'"
    using run by (auto simp: set_groups_for_user_def)
  let ?keep = "filter (\<lambda>r. r \<notin> set (list_user_groups ugs u)) ugs"
  have wf: "wf_user_groups ?keep"
    using ugs by (simp add: wf_user_groups_def unique_on_filter)
  have keep: "member ?keep v gid \<longleftrightarrow> v \<noteq> u_id u \<and> member ugs v gid" for v gid
    by (auto simp: member_def set_list_user_groups)
  from add_links_Inr [OF links [unfolded filter_list_comp] gs wf] u show ?thesis
    by (intro that [of u]) (auto simp: keep)
qed

lemma add_links_total:
  assumes "wf_groups gs" and "set ns \<subseteq> g_group_name ` set gs" and "distinct ns"
    and "\<And>g. g \<in> set gs \<Longrightarrow> g_group_name g \<in> set ns \<Longrightarrow> \<not> member ugs uid (g_id g)"
  shows "\<exists>ugs'. add_links gs ugs uid ns = Inr ugs'"
  using assms
proof (induction ns arbitrary: ugs)
  case Nil
  then show ?case by simp
next
  case (Cons n ns)
  then obtain h where h: "h \<in> set gs" "g_group_name h = n" by auto
  then have get: "get_group gs n = Inr h" using Cons.prems(1) by (simp add: get_group_Inr_iff)
  let ?ugs1 = "ugs @ [\<lparr>ug_id = next_id ug_id ugs, ug_user_id = uid, ug_group_id = g_id h\<rparr>]"
  have ins: "insert_link ugs uid (g_id h) = Inr ?ugs1"
    using Cons.prems(4) [of h] h by (simp add: insert_link_Inr)
  have "\<not> member ?ugs1 uid (g_id g)" if "g \<in> set gs" "g_group_name g \<in> set ns" for g
  proof -
    have "g_id g \<noteq> g_id h"
      using that h Cons.prems(1,3) unfolding wf_groups_def by (metis distinct.simps(2) unique_onD)
    then show ?thesis using Cons.prems(4) [of g] that by simp
  qed
  then have "\<exists>ugs'. add_links gs ?ugs1 uid ns = Inr ugs'"
    using Cons.prems by (intro Cons.IH) auto
  with get ins show ?case by simp
qed

lemma set_groups_for_user_total:
  assumes "wf_users us" and "wf_groups gs" and "uname \<in> u_username ` set us" and "set names \<subseteq> g_group_name ` set gs"
  shows "\<exists>ugs'. set_groups_for_user us gs ugs uname names = Inr ugs'"
proof -
  obtain u where u: "get_user us uname = Inr u"
    using assms(1,3) get_user_Inr_iff [OF assms(1)] by auto
  have "\<exists>ugs'. add_links gs [r. r \<leftarrow> ugs, r \<notin> set (list_user_groups ugs u)] (u_id u) (dict_fromkeys names) = Inr ugs'"
    using assms by (intro add_links_total) (auto simp: member_def set_list_user_groups)
  with u show ?thesis by (simp add: set_groups_for_user_def)
qed

subsection \<open>Creating groups\<close>

lemma create_groups_wf: "wf_groups gs \<Longrightarrow> wf_groups (create_groups gs ns)"
proof (induction ns arbitrary: gs)
  case Nil
  then show ?case by simp
next
  case (Cons n ns)
  let ?row = "\<lparr>g_id = next_id g_id gs, g_group_name = n\<rparr>"
  have "wf_groups (gs @ [?row])" if "List.find (\<lambda>g. g_group_name g = n) gs = None"
    using that Cons.prems next_id_fresh [of g_id gs]
    by (auto simp: wf_groups_def find_None_iff)
  then show ?case using Cons by (auto split: option.split)
qed

lemma create_groups_names: "g_group_name ` set (create_groups gs ns) = g_group_name ` set gs \<union> set ns"
proof (induction ns arbitrary: gs)
  case (Cons n ns)
  then show ?case by (auto simp: find_None_iff split: option.split dest!: find_SomeD)
qed simp

lemma create_groups_keeps: "set gs \<subseteq> set (create_groups gs ns)"
proof (induction ns arbitrary: gs)
  case (Cons n ns)
  have "set gs \<subseteq> set (case List.find (\<lambda>g. g_group_name g = n) gs of
      None \<Rightarrow> gs @ [\<lparr>g_id = next_id g_id gs, g_group_name = n\<rparr>] | Some _ \<Rightarrow> gs)"
    by (auto split: option.split)
  then show ?case using Cons by force
qed simp

subsection \<open>The grant a user holds through groups\<close>

lemma highest_group_row:
  assumes wf: "wf_users us" "wf_user_groups ugs" "wf_perm_table tbl" and user: "get_user us uname = Inr u"
    and rows: "rows = {p \<in> set tbl. member ugs (u_id u) (p_owner p) \<and> p_resource p = rid}"
  shows "if rows = {} then get_group_permission_for_user_resource us ugs tbl rid uname = Inl (MlflowException RESOURCE_DOES_NOT_EXIST)
    else \<exists>r\<in>rows. get_group_permission_for_user_resource us ugs tbl rid uname = Inr r \<and>
      (\<forall>p\<in>rows. prio (p_permission p) \<le> prio (p_permission r))"
proof -
  have set: "set (group_candidates us ugs tbl rid uname) = rows"
    unfolding group_candidates_def join_user_groups [OF wf(1,2)] rows using user by (auto simp: linked_group_ids)
  have valid: "\<forall>p\<in>rows. valid_permission (p_permission p)" using wf(3) by (auto simp: rows wf_perm_table_def)
  show ?thesis
  proof (cases "group_candidates us ugs tbl rid uname")
    case Nil
    with set show ?thesis by (simp add: get_group_permission_for_user_resource_def)
  next
    case (Cons p ps)
    with set valid fold_highest_max [of p ps] show ?thesis
      by (auto simp: get_group_permission_for_user_resource_def)
  qed
qed

end
