(* ===== verification/Resource_Repositories.thy ===== *)
theory Resource_Repositories
  imports Group_Repository
begin

section \<open>Repositories with their own queries: scorers, models, prompts, workspaces\<close>

text \<open>
  The repositories of \<^verbatim>\<open>repository/\<close> that override the base classes: scorers
  (the key is the pair of experiment id and scorer name), registered models and prompts (one group
  table with the flag \<^verbatim>\<open>prompt\<close>), and workspaces (stand-alone classes whose
  primary key is the pair of workspace and owner; they do not validate the permission name).
\<close>

subsection \<open>ScorerPermissionRepository and ScorerPermissionGroupRepository\<close>

type_synonym scorer_row = "(string \<times> string) perm_row"

definition scorer_find :: "user_row list \<Rightarrow> scorer_row list \<Rightarrow> string \<Rightarrow> string \<Rightarrow> string \<Rightarrow> scorer_row res" where
  "scorer_find us tbl eid sn uname = find_user_permission us tbl (eid, sn) uname"

definition scorer_grant ::
  "user_row list \<Rightarrow> scorer_row list \<Rightarrow> string \<Rightarrow> string \<Rightarrow> string \<Rightarrow> string \<Rightarrow> (scorer_row list \<times> scorer_row) res" where
  "scorer_grant us tbl eid sn uname perm = grant_permission us () tbl (eid, sn) uname perm"

definition scorer_get_permission :: "user_row list \<Rightarrow> scorer_row list \<Rightarrow> string \<Rightarrow> string \<Rightarrow> string \<Rightarrow> scorer_row res" where
  "scorer_get_permission us tbl eid sn uname = scorer_find us tbl eid sn uname"

definition scorer_update ::
  "user_row list \<Rightarrow> scorer_row list \<Rightarrow> string \<Rightarrow> string \<Rightarrow> string \<Rightarrow> string \<Rightarrow> (scorer_row list \<times> scorer_row) res" where
  "scorer_update us tbl eid sn uname perm =
     bindE (validate_permission perm) (\<lambda>_.
     bindE (scorer_find us tbl eid sn uname) (\<lambda>row.
     Inr (set_permission_row tbl row perm, row\<lparr>p_permission := perm\<rparr>)))"

definition scorer_revoke :: "user_row list \<Rightarrow> scorer_row list \<Rightarrow> string \<Rightarrow> string \<Rightarrow> string \<Rightarrow> scorer_row list res" where
  "scorer_revoke us tbl eid sn uname =
     bindE (scorer_find us tbl eid sn uname) (\<lambda>row. Inr (delete_permission_row tbl row))"

text \<open>The group variant does not translate a duplicate row.\<close>

definition scorer_group_grant ::
  "group_row list \<Rightarrow> scorer_row list \<Rightarrow> string \<Rightarrow> string \<Rightarrow> string \<Rightarrow> string \<Rightarrow> (scorer_row list \<times> scorer_row) res" where
  "scorer_group_grant gs tbl gname eid sn perm =
     bindE (validate_permission perm) (\<lambda>_.
     bindE (get_group gs gname) (\<lambda>g. insert_permission () tbl (eid, sn) (g_id g) perm))"

definition scorer_list_groups :: "group_row list \<Rightarrow> scorer_row list \<Rightarrow> string \<Rightarrow> string \<Rightarrow> (string \<times> string) list" where
  "scorer_list_groups gs tbl eid sn = list_groups_for_resource gs tbl (eid, sn)"

definition scorer_group_for_user ::
  "user_row list \<Rightarrow> user_group_row list \<Rightarrow> scorer_row list \<Rightarrow> string \<Rightarrow> string \<Rightarrow> string \<Rightarrow> scorer_row res" where
  "scorer_group_for_user us ugs tbl eid sn uname =
     (case group_candidates us ugs tbl (eid, sn) uname of
        [] \<Rightarrow> Inl (MlflowException RESOURCE_DOES_NOT_EXIST)
      | p # ps \<Rightarrow> fold_highest p ps)"

definition scorer_group_update ::
  "group_row list \<Rightarrow> scorer_row list \<Rightarrow> string \<Rightarrow> string \<Rightarrow> string \<Rightarrow> string \<Rightarrow> (scorer_row list \<times> scorer_row) res" where
  "scorer_group_update gs tbl gname eid sn perm = update_group_permission gs tbl gname (eid, sn) perm"

definition scorer_group_revoke ::
  "group_row list \<Rightarrow> scorer_row list \<Rightarrow> string \<Rightarrow> string \<Rightarrow> string \<Rightarrow> scorer_row list res" where
  "scorer_group_revoke gs tbl gname eid sn = revoke_group_permission gs tbl gname (eid, sn)"

subsection \<open>RegisteredModelPermissionGroupRepository and PromptPermissionGroupRepository\<close>

type_synonym model_group = "string model_group_row"

definition model_groups_for_model :: "group_row list \<Rightarrow> model_group list \<Rightarrow> string \<Rightarrow> (string \<times> string) list" where
  "model_groups_for_model gs tbl nm =
     [(g_group_name g, p_permission p). g \<leftarrow> gs, p \<leftarrow> tbl, p_owner p = g_id g \<and> p_resource p = nm \<and> \<not> p_prompt p]"

definition model_group_get_for_user ::
  "user_row list \<Rightarrow> user_group_row list \<Rightarrow> model_group list \<Rightarrow> string \<Rightarrow> string \<Rightarrow> model_group res" where
  "model_group_get_for_user us ugs tbl nm uname =
     (case group_candidates us ugs tbl nm uname of
        [] \<Rightarrow> Inl (MlflowException RESOURCE_DOES_NOT_EXIST)
      | p # ps \<Rightarrow> fold_highest p ps)"

definition model_group_list_for_user ::
  "user_row list \<Rightarrow> user_group_row list \<Rightarrow> model_group list \<Rightarrow> string \<Rightarrow> model_group list res" where
  "model_group_list_for_user us ugs tbl uname =
     bindE (get_user us uname) (\<lambda>u.
     Inr [p. p \<leftarrow> tbl, p_owner p \<in> set (map ug_group_id (list_user_groups ugs u))])"

definition find_prompt_group :: "model_group list \<Rightarrow> string \<Rightarrow> int \<Rightarrow> model_group res" where
  "find_prompt_group tbl nm gid = one_or_raise [p. p \<leftarrow> tbl, p_resource p = nm \<and> p_owner p = gid \<and> p_prompt p]"

definition prompt_grant_group ::
  "group_row list \<Rightarrow> model_group list \<Rightarrow> string \<Rightarrow> string \<Rightarrow> string \<Rightarrow> (model_group list \<times> model_group) res" where
  "prompt_grant_group gs tbl gname nm perm =
     bindE (validate_permission perm) (\<lambda>_.
     bindE (get_group gs gname) (\<lambda>g. insert_permission \<lparr>p_prompt = True\<rparr> tbl nm (g_id g) perm))"

definition prompt_list_for_group :: "group_row list \<Rightarrow> model_group list \<Rightarrow> string \<Rightarrow> model_group list res" where
  "prompt_list_for_group gs tbl gname =
     bindE (get_group gs gname) (\<lambda>g. Inr [p. p \<leftarrow> tbl, p_owner p = g_id g \<and> p_prompt p])"

definition prompt_groups_for_prompt :: "group_row list \<Rightarrow> model_group list \<Rightarrow> string \<Rightarrow> (string \<times> string) list" where
  "prompt_groups_for_prompt gs tbl nm =
     [(g_group_name g, p_permission p). g \<leftarrow> gs, p \<leftarrow> tbl, p_owner p = g_id g \<and> p_resource p = nm \<and> p_prompt p]"

definition prompt_update_group ::
  "group_row list \<Rightarrow> model_group list \<Rightarrow> string \<Rightarrow> string \<Rightarrow> string \<Rightarrow> (model_group list \<times> model_group) res" where
  "prompt_update_group gs tbl gname nm perm =
     bindE (validate_permission perm) (\<lambda>_.
     bindE (get_group gs gname) (\<lambda>g.
     bindE (find_prompt_group tbl nm (g_id g)) (\<lambda>row.
     Inr (set_permission_row tbl row perm, row\<lparr>p_permission := perm\<rparr>))))"

definition prompt_revoke_group :: "group_row list \<Rightarrow> model_group list \<Rightarrow> string \<Rightarrow> string \<Rightarrow> model_group list res" where
  "prompt_revoke_group gs tbl gname nm =
     bindE (get_group gs gname) (\<lambda>g.
     bindE (find_prompt_group tbl nm (g_id g)) (\<lambda>row. Inr (delete_permission_row tbl row)))"

definition model_group_regex_list_for_groups ::
  "group_row list \<Rightarrow> model_regex_row list \<Rightarrow> string list \<Rightarrow> bool \<Rightarrow> model_regex_row list res" where
  "model_group_regex_list_for_groups gs tbl gnames prompt =
     bindE (mapE (get_group gs) gnames) (\<lambda>hs.
     Inr (sort_key rx_priority [r. r \<leftarrow> tbl, rx_owner r \<in> set (map g_id hs) \<and> rx_prompt r = prompt]))"

subsection \<open>WorkspacePermissionRepository and WorkspaceGroupPermissionRepository\<close>

text \<open>
  A row of a workspace table is identified by its workspace and owner. The lookups translate an
  absent row only: a duplicate would escape as \<^verbatim>\<open>MultipleResultsFound\<close>.
\<close>

type_synonym workspace_row = "string perm_row"

definition one_or_absent :: "'a list \<Rightarrow> 'a res" where
  "one_or_absent xs = (case sql_one xs of Inl NoResultFound \<Rightarrow> Inl (MlflowException RESOURCE_DOES_NOT_EXIST) | r \<Rightarrow> r)"

lemma one_or_absent_simps [simp]:
  "one_or_absent [] = Inl (MlflowException RESOURCE_DOES_NOT_EXIST)"
  "one_or_absent [x] = Inr x"
  "one_or_absent (x # y # zs) = Inl MultipleResultsFound"
  by (simp_all add: one_or_absent_def)

definition workspace_get :: "workspace_row list \<Rightarrow> string \<Rightarrow> int \<Rightarrow> workspace_row res" where
  "workspace_get tbl ws uid = one_or_absent [p. p \<leftarrow> tbl, p_resource p = ws \<and> p_owner p = uid]"

definition workspace_create :: "workspace_row list \<Rightarrow> string \<Rightarrow> int \<Rightarrow> string \<Rightarrow> (workspace_row list \<times> workspace_row) res" where
  "workspace_create tbl ws uid perm = already_exists (insert_permission () tbl ws uid perm)"

definition workspace_update :: "workspace_row list \<Rightarrow> string \<Rightarrow> int \<Rightarrow> string \<Rightarrow> (workspace_row list \<times> workspace_row) res" where
  "workspace_update tbl ws uid perm =
     bindE (one_or_absent [p. p \<leftarrow> tbl, p_resource p = ws \<and> p_owner p = uid]) (\<lambda>row.
     Inr (map (\<lambda>p. if p_resource p = ws \<and> p_owner p = uid then p\<lparr>p_permission := perm\<rparr> else p) tbl,
          row\<lparr>p_permission := perm\<rparr>))"

definition workspace_delete :: "workspace_row list \<Rightarrow> string \<Rightarrow> int \<Rightarrow> workspace_row list res" where
  "workspace_delete tbl ws uid =
     bindE (one_or_absent [p. p \<leftarrow> tbl, p_resource p = ws \<and> p_owner p = uid]) (\<lambda>row.
     Inr [p. p \<leftarrow> tbl, \<not> (p_resource p = ws \<and> p_owner p = uid)])"

definition workspace_list_for_user :: "workspace_row list \<Rightarrow> int \<Rightarrow> workspace_row list" where
  "workspace_list_for_user tbl uid = [p. p \<leftarrow> tbl, p_owner p = uid]"

definition workspace_list_for_workspace :: "workspace_row list \<Rightarrow> string \<Rightarrow> workspace_row list" where
  "workspace_list_for_workspace tbl ws = [p. p \<leftarrow> tbl, p_resource p = ws]"

definition workspace_delete_all :: "workspace_row list \<Rightarrow> string \<Rightarrow> workspace_row list \<times> nat" where
  "workspace_delete_all tbl ws =
     ([p. p \<leftarrow> tbl, p_resource p \<noteq> ws], length [p. p \<leftarrow> tbl, p_resource p = ws])"

definition workspace_group_get :: "workspace_row list \<Rightarrow> string \<Rightarrow> int \<Rightarrow> workspace_row res" where
  "workspace_group_get tbl ws gid = one_or_absent [p. p \<leftarrow> tbl, p_resource p = ws \<and> p_owner p = gid]"

definition workspace_group_create ::
  "workspace_row list \<Rightarrow> string \<Rightarrow> int \<Rightarrow> string \<Rightarrow> (workspace_row list \<times> workspace_row) res" where
  "workspace_group_create tbl ws gid perm = already_exists (insert_permission () tbl ws gid perm)"

definition workspace_group_update ::
  "workspace_row list \<Rightarrow> string \<Rightarrow> int \<Rightarrow> string \<Rightarrow> (workspace_row list \<times> workspace_row) res" where
  "workspace_group_update tbl ws gid perm =
     bindE (one_or_absent [p. p \<leftarrow> tbl, p_resource p = ws \<and> p_owner p = gid]) (\<lambda>row.
     Inr (map (\<lambda>p. if p_resource p = ws \<and> p_owner p = gid then p\<lparr>p_permission := perm\<rparr> else p) tbl,
          row\<lparr>p_permission := perm\<rparr>))"

definition workspace_group_delete :: "workspace_row list \<Rightarrow> string \<Rightarrow> int \<Rightarrow> workspace_row list res" where
  "workspace_group_delete tbl ws gid =
     bindE (one_or_absent [p. p \<leftarrow> tbl, p_resource p = ws \<and> p_owner p = gid]) (\<lambda>row.
     Inr [p. p \<leftarrow> tbl, \<not> (p_resource p = ws \<and> p_owner p = gid)])"

definition workspace_list_for_group :: "workspace_row list \<Rightarrow> int \<Rightarrow> workspace_row list" where
  "workspace_list_for_group tbl gid = [p. p \<leftarrow> tbl, p_owner p = gid]"

definition workspace_group_list_for_workspace :: "workspace_row list \<Rightarrow> string \<Rightarrow> workspace_row list" where
  "workspace_group_list_for_workspace tbl ws = [p. p \<leftarrow> tbl, p_resource p = ws]"

definition workspace_group_delete_all :: "workspace_row list \<Rightarrow> string \<Rightarrow> workspace_row list \<times> nat" where
  "workspace_group_delete_all tbl ws =
     ([p. p \<leftarrow> tbl, p_resource p \<noteq> ws], length [p. p \<leftarrow> tbl, p_resource p = ws])"

definition get_highest_for_user ::
  "user_group_row list \<Rightarrow> workspace_row list \<Rightarrow> string \<Rightarrow> int \<Rightarrow> workspace_row res" where
  "get_highest_for_user ugs tbl ws uid =
     (case sql_join tbl ugs (\<lambda>p ug. p_owner p = ug_group_id ug \<and> p_resource p = ws \<and> ug_user_id ug = uid) of
        [] \<Rightarrow> Inl (MlflowException RESOURCE_DOES_NOT_EXIST)
      | p # ps \<Rightarrow> fold_highest p ps)"

subsection \<open>Well-formed pattern tables\<close>

text \<open>Primary keys and the unique constraint hold, and stored permission names are valid.\<close>

definition wf_regex_table :: "('z regex_row_scheme \<Rightarrow> 'k) \<Rightarrow> 'z regex_row_scheme list \<Rightarrow> bool" where
  "wf_regex_table key tbl \<longleftrightarrow>
     unique_on rx_id tbl \<and> unique_on key tbl \<and> (\<forall>r\<in>set tbl. valid_permission (rx_permission r))"

lemma insert_regex_wf [wf_keeps]:
  assumes "wf_regex_table key tbl" and "valid_permission (rx_permission row)"
    and "\<And>r i. key (r\<lparr>rx_id := i\<rparr>) = key r" and "insert_regex key tbl row = Inr (tbl', row')"
  shows "wf_regex_table key tbl'"
  using assms next_id_fresh [of rx_id tbl]
  by (auto simp: wf_regex_table_def insert_regex_def Let_def split: if_splits)

lemma write_regex_row_wf [wf_keeps]:
  assumes "wf_regex_table key tbl" and "valid_permission (rx_permission row)"
    and "write_regex_row key tbl row = Inr (tbl', row')"
  shows "wf_regex_table key tbl'"
proof -
  from assms(3) have tbl': "tbl' = map (\<lambda>r. if rx_id r = rx_id row then row else r) tbl"
    and d: "distinct (map key tbl')"
    by (auto simp: write_regex_row_def Let_def split: if_splits)
  have "unique_on rx_id tbl'"
    using assms(1) unfolding tbl' wf_regex_table_def by (subst unique_on_map_eq) auto
  with d assms(1,2) show ?thesis
    unfolding wf_regex_table_def tbl' by (auto simp: unique_on_def)
qed

lemma delete_regex_row_wf [wf_keeps]: "wf_regex_table key tbl \<Longrightarrow> wf_regex_table key (delete_regex_row tbl row)"
  by (auto simp: wf_regex_table_def delete_regex_row_def filter_list_comp unique_on_filter)

end
