(* ===== verification/Store.thy ===== *)
theory Store
  imports Resource_Repositories
begin

section \<open>The permission store (sqlalchemy_store.py)\<close>

text \<open>
  The methods of \<^verbatim>\<open>SqlAlchemyStore\<close> for permissions, groups and workspaces,
  over the whole database: each delegates to a repository and writes its table back. The methods
  here are the undecorated ones; the cache invalidation that wraps them is in
  \<^verbatim>\<open>Cached_Store\<close>. The relation \<open>permission_write\<close> lists the
  methods that change permissions, and every one keeps the database well formed.
\<close>

definition put_row :: "('t \<times> 'r) res \<Rightarrow> ('t \<Rightarrow> db) \<Rightarrow> (db \<times> 'r) res" where
  "put_row r put = bindE r (\<lambda>(tbl, row). Inr (put tbl, row))"

definition put_tbl :: "'t res \<Rightarrow> ('t \<Rightarrow> db) \<Rightarrow> db res" where
  "put_tbl r put = bindE r (\<lambda>tbl. Inr (put tbl))"

text \<open>
  The three gateway stores call the group pattern repositories' \<^verbatim>\<open>get\<close> and
  \<^verbatim>\<open>revoke\<close> with the arguments \<^verbatim>\<open>(id, group_name)\<close>,
  while the base class declares \<^verbatim>\<open>(group_name, id)\<close>: the group is looked up by
  the number and the row by the group's name. How the database compares a text column with a
  number, and a number column with a text, is a parameter.
\<close>

record sql_compare =
  text_eq_int :: "string \<Rightarrow> int \<Rightarrow> bool"
  int_eq_text :: "int \<Rightarrow> string \<Rightarrow> bool"

definition swapped_group :: "sql_compare \<Rightarrow> group_row list \<Rightarrow> int \<Rightarrow> group_row res" where
  "swapped_group cmp gs i = one_or_raise [g. g \<leftarrow> gs, text_eq_int cmp (g_group_name g) i]"

definition swapped_regex :: "sql_compare \<Rightarrow> regex_row list \<Rightarrow> string \<Rightarrow> int \<Rightarrow> regex_row res" where
  "swapped_regex cmp tbl gname gid = one_or_raise [r. r \<leftarrow> tbl, int_eq_text cmp (rx_id r) gname \<and> rx_owner r = gid]"

subsection \<open>Experiments\<close>

definition create_experiment_permission ::
  "db \<Rightarrow> string \<Rightarrow> string \<Rightarrow> string \<Rightarrow> (db \<times> string perm_row) res" where
  "create_experiment_permission d rid uname perm =
     put_row (grant_permission (users d) () (t_user (experiment_tables d)) rid uname perm) (\<lambda>tbl. experiment_tables_update (t_user_update (\<lambda>_. tbl)) d)"

definition get_experiment_permission ::
  "db \<Rightarrow> string \<Rightarrow> string \<Rightarrow> string perm_row res" where
  "get_experiment_permission d rid uname =
     find_user_permission (users d) (t_user (experiment_tables d)) rid uname"

definition list_experiment_permissions ::
  "db \<Rightarrow> string \<Rightarrow> string perm_row list" where
  "list_experiment_permissions d uname =
     list_permissions_for_user (users d) (t_user (experiment_tables d)) uname"

definition update_experiment_permission ::
  "db \<Rightarrow> string \<Rightarrow> string \<Rightarrow> string \<Rightarrow> (db \<times> string perm_row) res" where
  "update_experiment_permission d rid uname perm =
     put_row (update_permission (users d) (t_user (experiment_tables d)) rid uname perm) (\<lambda>tbl. experiment_tables_update (t_user_update (\<lambda>_. tbl)) d)"

definition delete_experiment_permission ::
  "db \<Rightarrow> string \<Rightarrow> string \<Rightarrow> db res" where
  "delete_experiment_permission d rid uname =
     put_tbl (revoke_permission (users d) (t_user (experiment_tables d)) rid uname) (\<lambda>tbl. experiment_tables_update (t_user_update (\<lambda>_. tbl)) d)"

definition list_experiment_permissions_for_experiment ::
  "db \<Rightarrow> string \<Rightarrow> string perm_row list" where
  "list_experiment_permissions_for_experiment d rid =
     list_permissions_for_resource (t_user (experiment_tables d)) rid"

definition create_group_experiment_permission ::
  "db \<Rightarrow> string \<Rightarrow> string \<Rightarrow> string \<Rightarrow> (db \<times> string perm_row) res" where
  "create_group_experiment_permission d gname rid perm =
     put_row (grant_group_permission (groups d) () (t_group (experiment_tables d)) gname rid perm) (\<lambda>tbl. experiment_tables_update (t_group_update (\<lambda>_. tbl)) d)"

definition update_group_experiment_permission ::
  "db \<Rightarrow> string \<Rightarrow> string \<Rightarrow> string \<Rightarrow> (db \<times> string perm_row) res" where
  "update_group_experiment_permission d gname rid perm =
     put_row (update_group_permission (groups d) (t_group (experiment_tables d)) gname rid perm) (\<lambda>tbl. experiment_tables_update (t_group_update (\<lambda>_. tbl)) d)"

definition delete_group_experiment_permission ::
  "db \<Rightarrow> string \<Rightarrow> string \<Rightarrow> db res" where
  "delete_group_experiment_permission d gname rid =
     put_tbl (revoke_group_permission (groups d) (t_group (experiment_tables d)) gname rid) (\<lambda>tbl. experiment_tables_update (t_group_update (\<lambda>_. tbl)) d)"

definition list_group_experiment_permissions ::
  "db \<Rightarrow> string \<Rightarrow> string perm_row list res" where
  "list_group_experiment_permissions d gname =
     list_permissions_for_group (groups d) (t_group (experiment_tables d)) gname"

definition get_group_experiments ::
  "db \<Rightarrow> string \<Rightarrow> string perm_row list res" where
  "get_group_experiments d gname =
     list_permissions_for_group (groups d) (t_group (experiment_tables d)) gname"

definition list_group_id_experiment_permissions ::
  "db \<Rightarrow> int \<Rightarrow> string perm_row list" where
  "list_group_id_experiment_permissions d gid =
     list_permissions_for_group_id (t_group (experiment_tables d)) gid"

definition list_user_groups_experiment_permissions ::
  "db \<Rightarrow> string \<Rightarrow> string perm_row list" where
  "list_user_groups_experiment_permissions d uname =
     list_permissions_for_user_groups (users d) (user_groups d) (t_group (experiment_tables d)) uname"

definition get_user_groups_experiment_permission ::
  "db \<Rightarrow> string \<Rightarrow> string \<Rightarrow> string perm_row res" where
  "get_user_groups_experiment_permission d rid uname =
     get_group_permission_for_user_resource (users d) (user_groups d) (t_group (experiment_tables d)) rid uname"

definition create_experiment_regex_permission ::
  "(string \<Rightarrow> compile_outcome) \<Rightarrow> db \<Rightarrow> string \<Rightarrow> int \<Rightarrow> string \<Rightarrow> string \<Rightarrow> (db \<times> regex_row) res" where
  "create_experiment_regex_permission rc d rx prty perm uname =
     put_row (regex_grant rc (users d) (t_regex (experiment_tables d)) rx prty perm uname) (\<lambda>tbl. experiment_tables_update (t_regex_update (\<lambda>_. tbl)) d)"

definition get_experiment_regex_permission ::
  "db \<Rightarrow> string \<Rightarrow> int \<Rightarrow> regex_row res" where
  "get_experiment_regex_permission d uname i =
     regex_get (users d) (t_regex (experiment_tables d)) uname i"

definition list_experiment_regex_permissions ::
  "db \<Rightarrow> string \<Rightarrow> regex_row list" where
  "list_experiment_regex_permissions d uname =
     list_regex_for_user (users d) (t_regex (experiment_tables d)) uname"

definition update_experiment_regex_permission ::
  "(string \<Rightarrow> compile_outcome) \<Rightarrow> db \<Rightarrow> string \<Rightarrow> int \<Rightarrow> string \<Rightarrow> string \<Rightarrow> int \<Rightarrow> (db \<times> regex_row) res" where
  "update_experiment_regex_permission rc d rx prty perm uname i =
     put_row (regex_update rc (users d) (t_regex (experiment_tables d)) rx prty perm uname i) (\<lambda>tbl. experiment_tables_update (t_regex_update (\<lambda>_. tbl)) d)"

definition delete_experiment_regex_permission ::
  "db \<Rightarrow> string \<Rightarrow> int \<Rightarrow> db res" where
  "delete_experiment_regex_permission d uname i =
     put_tbl (regex_revoke (users d) (t_regex (experiment_tables d)) uname i) (\<lambda>tbl. experiment_tables_update (t_regex_update (\<lambda>_. tbl)) d)"

definition create_group_experiment_regex_permission ::
  "(string \<Rightarrow> compile_outcome) \<Rightarrow> db \<Rightarrow> string \<Rightarrow> string \<Rightarrow> int \<Rightarrow> string \<Rightarrow> (db \<times> regex_row) res" where
  "create_group_experiment_regex_permission rc d gname rx prty perm =
     put_row (group_regex_grant rc (groups d) (t_group_regex (experiment_tables d)) gname rx prty perm) (\<lambda>tbl. experiment_tables_update (t_group_regex_update (\<lambda>_. tbl)) d)"

definition list_group_experiment_regex_permissions_for_groups_ids ::
  "db \<Rightarrow> int list \<Rightarrow> regex_row list" where
  "list_group_experiment_regex_permissions_for_groups_ids d gids =
     list_permissions_for_groups_ids (t_group_regex (experiment_tables d)) gids"

definition list_group_experiment_regex_permissions ::
  "db \<Rightarrow> string \<Rightarrow> regex_row list res" where
  "list_group_experiment_regex_permissions d gname =
     group_regex_list_for_group (groups d) (t_group_regex (experiment_tables d)) gname"

definition list_group_experiment_regex_permissions_for_groups ::
  "db \<Rightarrow> string list \<Rightarrow> regex_row list res" where
  "list_group_experiment_regex_permissions_for_groups d gnames =
     group_regex_list_for_groups (groups d) (t_group_regex (experiment_tables d)) gnames"

definition get_group_experiment_regex_permission ::
  "db \<Rightarrow> string \<Rightarrow> int \<Rightarrow> regex_row res" where
  "get_group_experiment_regex_permission d gname i =
     group_regex_get (groups d) (t_group_regex (experiment_tables d)) gname i"

definition update_group_experiment_regex_permission ::
  "(string \<Rightarrow> compile_outcome) \<Rightarrow> db \<Rightarrow> int \<Rightarrow> string \<Rightarrow> string \<Rightarrow> int \<Rightarrow> string \<Rightarrow> (db \<times> regex_row) res" where
  "update_group_experiment_regex_permission rc d i gname rx prty perm =
     put_row (group_regex_update rc (groups d) (t_group_regex (experiment_tables d)) i gname rx prty perm) (\<lambda>tbl. experiment_tables_update (t_group_regex_update (\<lambda>_. tbl)) d)"

definition delete_group_experiment_regex_permission ::
  "db \<Rightarrow> string \<Rightarrow> int \<Rightarrow> db res" where
  "delete_group_experiment_regex_permission d gname i =
     put_tbl (group_regex_revoke (groups d) (t_group_regex (experiment_tables d)) gname i) (\<lambda>tbl. experiment_tables_update (t_group_regex_update (\<lambda>_. tbl)) d)"

subsection \<open>Registered models and prompts\<close>

definition create_registered_model_permission ::
  "db \<Rightarrow> string \<Rightarrow> string \<Rightarrow> string \<Rightarrow> (db \<times> string perm_row) res" where
  "create_registered_model_permission d rid uname perm =
     put_row (grant_permission (users d) () (t_user (registered_model_tables d)) rid uname perm) (\<lambda>tbl. registered_model_tables_update (t_user_update (\<lambda>_. tbl)) d)"

definition get_registered_model_permission ::
  "db \<Rightarrow> string \<Rightarrow> string \<Rightarrow> string perm_row res" where
  "get_registered_model_permission d rid uname =
     find_user_permission (users d) (t_user (registered_model_tables d)) rid uname"

definition list_registered_model_permissions ::
  "db \<Rightarrow> string \<Rightarrow> string perm_row list" where
  "list_registered_model_permissions d uname =
     list_permissions_for_user (users d) (t_user (registered_model_tables d)) uname"

definition update_registered_model_permission ::
  "db \<Rightarrow> string \<Rightarrow> string \<Rightarrow> string \<Rightarrow> (db \<times> string perm_row) res" where
  "update_registered_model_permission d rid uname perm =
     put_row (update_permission (users d) (t_user (registered_model_tables d)) rid uname perm) (\<lambda>tbl. registered_model_tables_update (t_user_update (\<lambda>_. tbl)) d)"

definition delete_registered_model_permission ::
  "db \<Rightarrow> string \<Rightarrow> string \<Rightarrow> db res" where
  "delete_registered_model_permission d rid uname =
     put_tbl (revoke_permission (users d) (t_user (registered_model_tables d)) rid uname) (\<lambda>tbl. registered_model_tables_update (t_user_update (\<lambda>_. tbl)) d)"

definition rename_registered_model_permissions ::
  "db \<Rightarrow> string \<Rightarrow> string \<Rightarrow> db res" where
  "rename_registered_model_permissions d old new =
     put_tbl (rename_model_permissions (t_user (registered_model_tables d)) old new) (\<lambda>tbl. registered_model_tables_update (t_user_update (\<lambda>_. tbl)) d)"

definition wipe_registered_model_permissions ::
  "db \<Rightarrow> string \<Rightarrow> db res" where
  "wipe_registered_model_permissions d rid =
     put_tbl (Inr (wipe_permissions (t_user (registered_model_tables d)) rid)) (\<lambda>tbl. registered_model_tables_update (t_user_update (\<lambda>_. tbl)) d)"

definition get_user_groups_registered_model_permission ::
  "db \<Rightarrow> string \<Rightarrow> string \<Rightarrow> string model_group_row res" where
  "get_user_groups_registered_model_permission d rid uname =
     model_group_get_for_user (users d) (user_groups d) (t_group (registered_model_tables d)) rid uname"

definition list_user_groups_registered_model_permissions ::
  "db \<Rightarrow> string \<Rightarrow> string model_group_row list res" where
  "list_user_groups_registered_model_permissions d uname =
     model_group_list_for_user (users d) (user_groups d) (t_group (registered_model_tables d)) uname"

definition get_group_models ::
  "db \<Rightarrow> string \<Rightarrow> string model_group_row list res" where
  "get_group_models d gname =
     list_permissions_for_group (groups d) (t_group (registered_model_tables d)) gname"

definition create_group_model_permission ::
  "db \<Rightarrow> string \<Rightarrow> string \<Rightarrow> string \<Rightarrow> (db \<times> string model_group_row) res" where
  "create_group_model_permission d gname rid perm =
     put_row (grant_group_permission (groups d) \<lparr>p_prompt = False\<rparr> (t_group (registered_model_tables d)) gname rid perm) (\<lambda>tbl. registered_model_tables_update (t_group_update (\<lambda>_. tbl)) d)"

definition rename_group_model_permissions ::
  "db \<Rightarrow> string \<Rightarrow> string \<Rightarrow> db res" where
  "rename_group_model_permissions d old new =
     put_tbl (rename_model_permissions (t_group (registered_model_tables d)) old new) (\<lambda>tbl. registered_model_tables_update (t_group_update (\<lambda>_. tbl)) d)"

definition delete_group_model_permission ::
  "db \<Rightarrow> string \<Rightarrow> string \<Rightarrow> db res" where
  "delete_group_model_permission d gname rid =
     put_tbl (revoke_group_permission (groups d) (t_group (registered_model_tables d)) gname rid) (\<lambda>tbl. registered_model_tables_update (t_group_update (\<lambda>_. tbl)) d)"

definition wipe_group_model_permissions ::
  "db \<Rightarrow> string \<Rightarrow> db res" where
  "wipe_group_model_permissions d rid =
     put_tbl (Inr (wipe_permissions (t_group (registered_model_tables d)) rid)) (\<lambda>tbl. registered_model_tables_update (t_group_update (\<lambda>_. tbl)) d)"

definition update_group_model_permission ::
  "db \<Rightarrow> string \<Rightarrow> string \<Rightarrow> string \<Rightarrow> (db \<times> string model_group_row) res" where
  "update_group_model_permission d gname rid perm =
     put_row (update_group_permission (groups d) (t_group (registered_model_tables d)) gname rid perm) (\<lambda>tbl. registered_model_tables_update (t_group_update (\<lambda>_. tbl)) d)"

definition create_group_prompt_permission ::
  "db \<Rightarrow> string \<Rightarrow> string \<Rightarrow> string \<Rightarrow> (db \<times> string model_group_row) res" where
  "create_group_prompt_permission d gname nm perm =
     put_row (prompt_grant_group (groups d) (t_group (registered_model_tables d)) gname nm perm) (\<lambda>tbl. registered_model_tables_update (t_group_update (\<lambda>_. tbl)) d)"

definition get_group_prompts ::
  "db \<Rightarrow> string \<Rightarrow> string model_group_row list res" where
  "get_group_prompts d gname =
     prompt_list_for_group (groups d) (t_group (registered_model_tables d)) gname"

definition update_group_prompt_permission ::
  "db \<Rightarrow> string \<Rightarrow> string \<Rightarrow> string \<Rightarrow> (db \<times> string model_group_row) res" where
  "update_group_prompt_permission d gname nm perm =
     put_row (prompt_update_group (groups d) (t_group (registered_model_tables d)) gname nm perm) (\<lambda>tbl. registered_model_tables_update (t_group_update (\<lambda>_. tbl)) d)"

definition delete_group_prompt_permission ::
  "db \<Rightarrow> string \<Rightarrow> string \<Rightarrow> db res" where
  "delete_group_prompt_permission d gname nm =
     put_tbl (prompt_revoke_group (groups d) (t_group (registered_model_tables d)) gname nm) (\<lambda>tbl. registered_model_tables_update (t_group_update (\<lambda>_. tbl)) d)"

definition create_registered_model_regex_permission ::
  "(string \<Rightarrow> compile_outcome) \<Rightarrow> db \<Rightarrow> string \<Rightarrow> int \<Rightarrow> string \<Rightarrow> string \<Rightarrow> (db \<times> model_regex_row) res" where
  "create_registered_model_regex_permission rc d rx prty perm uname =
     put_row (model_regex_grant rc (users d) (t_regex (registered_model_tables d)) rx prty perm uname False) (\<lambda>tbl. registered_model_tables_update (t_regex_update (\<lambda>_. tbl)) d)"

definition get_registered_model_regex_permission ::
  "db \<Rightarrow> int \<Rightarrow> string \<Rightarrow> model_regex_row res" where
  "get_registered_model_regex_permission d i uname =
     model_regex_get (users d) (t_regex (registered_model_tables d)) i uname False"

definition list_registered_model_regex_permissions ::
  "db \<Rightarrow> string \<Rightarrow> model_regex_row list res" where
  "list_registered_model_regex_permissions d uname =
     model_list_regex_for_user (users d) (t_regex (registered_model_tables d)) uname False"

definition update_registered_model_regex_permission ::
  "(string \<Rightarrow> compile_outcome) \<Rightarrow> db \<Rightarrow> int \<Rightarrow> string \<Rightarrow> int \<Rightarrow> string \<Rightarrow> string \<Rightarrow> (db \<times> model_regex_row) res" where
  "update_registered_model_regex_permission rc d i rx prty perm uname =
     put_row (model_regex_update rc (users d) (t_regex (registered_model_tables d)) i rx prty perm uname False) (\<lambda>tbl. registered_model_tables_update (t_regex_update (\<lambda>_. tbl)) d)"

definition delete_registered_model_regex_permission ::
  "db \<Rightarrow> int \<Rightarrow> string \<Rightarrow> db res" where
  "delete_registered_model_regex_permission d i uname =
     put_tbl (model_regex_revoke (users d) (t_regex (registered_model_tables d)) i uname False) (\<lambda>tbl. registered_model_tables_update (t_regex_update (\<lambda>_. tbl)) d)"

definition create_group_registered_model_regex_permission ::
  "db \<Rightarrow> string \<Rightarrow> string \<Rightarrow> int \<Rightarrow> string \<Rightarrow> (db \<times> model_regex_row) res" where
  "create_group_registered_model_regex_permission d gname rx prty perm =
     put_row (model_group_regex_grant (groups d) (t_group_regex (registered_model_tables d)) gname rx perm prty False) (\<lambda>tbl. registered_model_tables_update (t_group_regex_update (\<lambda>_. tbl)) d)"

definition get_group_registered_model_regex_permission ::
  "db \<Rightarrow> int \<Rightarrow> string \<Rightarrow> model_regex_row res" where
  "get_group_registered_model_regex_permission d i gname =
     model_group_regex_get (groups d) (t_group_regex (registered_model_tables d)) i gname False"

definition list_group_registered_model_regex_permissions ::
  "db \<Rightarrow> string \<Rightarrow> model_regex_row list res" where
  "list_group_registered_model_regex_permissions d gname =
     model_group_regex_list_for_group (groups d) (t_group_regex (registered_model_tables d)) gname False"

definition list_group_registered_model_regex_permissions_for_groups ::
  "db \<Rightarrow> string list \<Rightarrow> model_regex_row list res" where
  "list_group_registered_model_regex_permissions_for_groups d gnames =
     model_group_regex_list_for_groups (groups d) (t_group_regex (registered_model_tables d)) gnames False"

definition list_group_registered_model_regex_permissions_for_groups_ids ::
  "db \<Rightarrow> int list \<Rightarrow> model_regex_row list" where
  "list_group_registered_model_regex_permissions_for_groups_ids d gids =
     model_list_permissions_for_groups_ids (t_group_regex (registered_model_tables d)) gids False"

definition update_group_registered_model_regex_permission ::
  "db \<Rightarrow> int \<Rightarrow> string \<Rightarrow> string \<Rightarrow> int \<Rightarrow> string \<Rightarrow> (db \<times> model_regex_row) res" where
  "update_group_registered_model_regex_permission d i gname rx prty perm =
     put_row (model_group_regex_update (groups d) (t_group_regex (registered_model_tables d)) i rx gname perm prty False) (\<lambda>tbl. registered_model_tables_update (t_group_regex_update (\<lambda>_. tbl)) d)"

definition delete_group_registered_model_regex_permission ::
  "db \<Rightarrow> int \<Rightarrow> string \<Rightarrow> db res" where
  "delete_group_registered_model_regex_permission d i gname =
     put_tbl (model_group_regex_revoke (groups d) (t_group_regex (registered_model_tables d)) i gname False) (\<lambda>tbl. registered_model_tables_update (t_group_regex_update (\<lambda>_. tbl)) d)"

text \<open>The prompt variants take the flag as a parameter whose default is true; the delete operations fix it.\<close>

definition create_prompt_regex_permission ::
  "(string \<Rightarrow> compile_outcome) \<Rightarrow> db \<Rightarrow> string \<Rightarrow> int \<Rightarrow> string \<Rightarrow> string \<Rightarrow> bool \<Rightarrow> (db \<times> model_regex_row) res" where
  "create_prompt_regex_permission rc d rx prty perm uname prompt =
     put_row (model_regex_grant rc (users d) (t_regex (registered_model_tables d)) rx prty perm uname prompt) (\<lambda>tbl. registered_model_tables_update (t_regex_update (\<lambda>_. tbl)) d)"

definition get_prompt_regex_permission ::
  "db \<Rightarrow> int \<Rightarrow> string \<Rightarrow> bool \<Rightarrow> model_regex_row res" where
  "get_prompt_regex_permission d i uname prompt =
     model_regex_get (users d) (t_regex (registered_model_tables d)) i uname prompt"

definition list_prompt_regex_permissions ::
  "db \<Rightarrow> string \<Rightarrow> bool \<Rightarrow> model_regex_row list res" where
  "list_prompt_regex_permissions d uname prompt =
     model_list_regex_for_user (users d) (t_regex (registered_model_tables d)) uname prompt"

definition update_prompt_regex_permission ::
  "(string \<Rightarrow> compile_outcome) \<Rightarrow> db \<Rightarrow> int \<Rightarrow> string \<Rightarrow> int \<Rightarrow> string \<Rightarrow> string \<Rightarrow> bool \<Rightarrow> (db \<times> model_regex_row) res" where
  "update_prompt_regex_permission rc d i rx prty perm uname prompt =
     put_row (model_regex_update rc (users d) (t_regex (registered_model_tables d)) i rx prty perm uname prompt) (\<lambda>tbl. registered_model_tables_update (t_regex_update (\<lambda>_. tbl)) d)"

definition delete_prompt_regex_permission ::
  "db \<Rightarrow> int \<Rightarrow> string \<Rightarrow> db res" where
  "delete_prompt_regex_permission d i uname =
     put_tbl (model_regex_revoke (users d) (t_regex (registered_model_tables d)) i uname True) (\<lambda>tbl. registered_model_tables_update (t_regex_update (\<lambda>_. tbl)) d)"

definition create_group_prompt_regex_permission ::
  "db \<Rightarrow> string \<Rightarrow> string \<Rightarrow> int \<Rightarrow> string \<Rightarrow> bool \<Rightarrow> (db \<times> model_regex_row) res" where
  "create_group_prompt_regex_permission d gname rx prty perm prompt =
     put_row (model_group_regex_grant (groups d) (t_group_regex (registered_model_tables d)) gname rx perm prty prompt) (\<lambda>tbl. registered_model_tables_update (t_group_regex_update (\<lambda>_. tbl)) d)"

definition get_group_prompt_regex_permission ::
  "db \<Rightarrow> int \<Rightarrow> string \<Rightarrow> bool \<Rightarrow> model_regex_row res" where
  "get_group_prompt_regex_permission d i gname prompt =
     model_group_regex_get (groups d) (t_group_regex (registered_model_tables d)) i gname prompt"

definition list_group_prompt_regex_permissions ::
  "db \<Rightarrow> string \<Rightarrow> bool \<Rightarrow> model_regex_row list res" where
  "list_group_prompt_regex_permissions d gname prompt =
     model_group_regex_list_for_group (groups d) (t_group_regex (registered_model_tables d)) gname prompt"

definition list_group_prompt_regex_permissions_for_groups ::
  "db \<Rightarrow> string list \<Rightarrow> bool \<Rightarrow> model_regex_row list res" where
  "list_group_prompt_regex_permissions_for_groups d gnames prompt =
     model_group_regex_list_for_groups (groups d) (t_group_regex (registered_model_tables d)) gnames prompt"

definition list_group_prompt_regex_permissions_for_groups_ids ::
  "db \<Rightarrow> int list \<Rightarrow> bool \<Rightarrow> model_regex_row list" where
  "list_group_prompt_regex_permissions_for_groups_ids d gids prompt =
     model_list_permissions_for_groups_ids (t_group_regex (registered_model_tables d)) gids prompt"

definition update_group_prompt_regex_permission ::
  "db \<Rightarrow> int \<Rightarrow> string \<Rightarrow> string \<Rightarrow> int \<Rightarrow> string \<Rightarrow> bool \<Rightarrow> (db \<times> model_regex_row) res" where
  "update_group_prompt_regex_permission d i gname rx prty perm prompt =
     put_row (model_group_regex_update (groups d) (t_group_regex (registered_model_tables d)) i rx gname perm prty prompt) (\<lambda>tbl. registered_model_tables_update (t_group_regex_update (\<lambda>_. tbl)) d)"

definition delete_group_prompt_regex_permission ::
  "db \<Rightarrow> int \<Rightarrow> string \<Rightarrow> db res" where
  "delete_group_prompt_regex_permission d i gname =
     put_tbl (model_group_regex_revoke (groups d) (t_group_regex (registered_model_tables d)) i gname True) (\<lambda>tbl. registered_model_tables_update (t_group_regex_update (\<lambda>_. tbl)) d)"

subsection \<open>Scorers\<close>

definition create_scorer_permission ::
  "db \<Rightarrow> string \<Rightarrow> string \<Rightarrow> string \<Rightarrow> string \<Rightarrow> (db \<times> scorer_row) res" where
  "create_scorer_permission d eid sn uname perm =
     put_row (scorer_grant (users d) (t_user (scorer_tables d)) eid sn uname perm) (\<lambda>tbl. scorer_tables_update (t_user_update (\<lambda>_. tbl)) d)"

definition get_scorer_permission ::
  "db \<Rightarrow> string \<Rightarrow> string \<Rightarrow> string \<Rightarrow> scorer_row res" where
  "get_scorer_permission d eid sn uname =
     scorer_get_permission (users d) (t_user (scorer_tables d)) eid sn uname"

definition list_scorer_permissions ::
  "db \<Rightarrow> string \<Rightarrow> scorer_row list" where
  "list_scorer_permissions d uname =
     list_permissions_for_user (users d) (t_user (scorer_tables d)) uname"

definition update_scorer_permission ::
  "db \<Rightarrow> string \<Rightarrow> string \<Rightarrow> string \<Rightarrow> string \<Rightarrow> (db \<times> scorer_row) res" where
  "update_scorer_permission d eid sn uname perm =
     put_row (scorer_update (users d) (t_user (scorer_tables d)) eid sn uname perm) (\<lambda>tbl. scorer_tables_update (t_user_update (\<lambda>_. tbl)) d)"

definition delete_scorer_permission ::
  "db \<Rightarrow> string \<Rightarrow> string \<Rightarrow> string \<Rightarrow> db res" where
  "delete_scorer_permission d eid sn uname =
     put_tbl (scorer_revoke (users d) (t_user (scorer_tables d)) eid sn uname) (\<lambda>tbl. scorer_tables_update (t_user_update (\<lambda>_. tbl)) d)"

definition delete_scorer_permissions_for_scorer ::
  "db \<Rightarrow> string \<Rightarrow> string \<Rightarrow> db res" where
  "delete_scorer_permissions_for_scorer d eid sn =
     Inr (scorer_tables_update (\<lambda>ts. ts\<lparr>t_user := wipe_permissions (t_user ts) (eid, sn),
        t_group := wipe_permissions (t_group ts) (eid, sn)\<rparr>) d)"

definition create_group_scorer_permission ::
  "db \<Rightarrow> string \<Rightarrow> string \<Rightarrow> string \<Rightarrow> string \<Rightarrow> (db \<times> scorer_row) res" where
  "create_group_scorer_permission d gname eid sn perm =
     put_row (scorer_group_grant (groups d) (t_group (scorer_tables d)) gname eid sn perm) (\<lambda>tbl. scorer_tables_update (t_group_update (\<lambda>_. tbl)) d)"

definition update_group_scorer_permission ::
  "db \<Rightarrow> string \<Rightarrow> string \<Rightarrow> string \<Rightarrow> string \<Rightarrow> (db \<times> scorer_row) res" where
  "update_group_scorer_permission d gname eid sn perm =
     put_row (scorer_group_update (groups d) (t_group (scorer_tables d)) gname eid sn perm) (\<lambda>tbl. scorer_tables_update (t_group_update (\<lambda>_. tbl)) d)"

definition delete_group_scorer_permission ::
  "db \<Rightarrow> string \<Rightarrow> string \<Rightarrow> string \<Rightarrow> db res" where
  "delete_group_scorer_permission d gname eid sn =
     put_tbl (scorer_group_revoke (groups d) (t_group (scorer_tables d)) gname eid sn) (\<lambda>tbl. scorer_tables_update (t_group_update (\<lambda>_. tbl)) d)"

definition list_group_scorer_permissions ::
  "db \<Rightarrow> string \<Rightarrow> scorer_row list res" where
  "list_group_scorer_permissions d gname =
     list_permissions_for_group (groups d) (t_group (scorer_tables d)) gname"

definition get_user_groups_scorer_permission ::
  "db \<Rightarrow> string \<Rightarrow> string \<Rightarrow> string \<Rightarrow> scorer_row res" where
  "get_user_groups_scorer_permission d eid sn uname =
     scorer_group_for_user (users d) (user_groups d) (t_group (scorer_tables d)) eid sn uname"

definition create_scorer_regex_permission ::
  "(string \<Rightarrow> compile_outcome) \<Rightarrow> db \<Rightarrow> string \<Rightarrow> int \<Rightarrow> string \<Rightarrow> string \<Rightarrow> (db \<times> regex_row) res" where
  "create_scorer_regex_permission rc d rx prty perm uname =
     put_row (regex_grant rc (users d) (t_regex (scorer_tables d)) rx prty perm uname) (\<lambda>tbl. scorer_tables_update (t_regex_update (\<lambda>_. tbl)) d)"

definition get_scorer_regex_permission ::
  "db \<Rightarrow> string \<Rightarrow> int \<Rightarrow> regex_row res" where
  "get_scorer_regex_permission d uname i =
     regex_get (users d) (t_regex (scorer_tables d)) uname i"

definition list_scorer_regex_permissions ::
  "db \<Rightarrow> string \<Rightarrow> regex_row list" where
  "list_scorer_regex_permissions d uname =
     list_regex_for_user (users d) (t_regex (scorer_tables d)) uname"

definition update_scorer_regex_permission ::
  "(string \<Rightarrow> compile_outcome) \<Rightarrow> db \<Rightarrow> string \<Rightarrow> int \<Rightarrow> string \<Rightarrow> string \<Rightarrow> int \<Rightarrow> (db \<times> regex_row) res" where
  "update_scorer_regex_permission rc d rx prty perm uname i =
     put_row (regex_update rc (users d) (t_regex (scorer_tables d)) rx prty perm uname i) (\<lambda>tbl. scorer_tables_update (t_regex_update (\<lambda>_. tbl)) d)"

definition delete_scorer_regex_permission ::
  "db \<Rightarrow> string \<Rightarrow> int \<Rightarrow> db res" where
  "delete_scorer_regex_permission d uname i =
     put_tbl (regex_revoke (users d) (t_regex (scorer_tables d)) uname i) (\<lambda>tbl. scorer_tables_update (t_regex_update (\<lambda>_. tbl)) d)"

definition create_group_scorer_regex_permission ::
  "(string \<Rightarrow> compile_outcome) \<Rightarrow> db \<Rightarrow> string \<Rightarrow> string \<Rightarrow> int \<Rightarrow> string \<Rightarrow> (db \<times> regex_row) res" where
  "create_group_scorer_regex_permission rc d gname rx prty perm =
     put_row (group_regex_grant rc (groups d) (t_group_regex (scorer_tables d)) gname rx prty perm) (\<lambda>tbl. scorer_tables_update (t_group_regex_update (\<lambda>_. tbl)) d)"

definition list_group_scorer_regex_permissions_for_groups_ids ::
  "db \<Rightarrow> int list \<Rightarrow> regex_row list" where
  "list_group_scorer_regex_permissions_for_groups_ids d gids =
     list_permissions_for_groups_ids (t_group_regex (scorer_tables d)) gids"

definition list_group_scorer_regex_permissions ::
  "db \<Rightarrow> string \<Rightarrow> regex_row list res" where
  "list_group_scorer_regex_permissions d gname =
     bindE (sql_one_or_none [g. g \<leftarrow> groups d, g_group_name g = gname]) (\<lambda>og.
     case og of None \<Rightarrow> Inr [] | Some g \<Rightarrow> Inr (list_permissions_for_groups_ids (t_group_regex (scorer_tables d)) [g_id g]))"

definition get_group_scorer_regex_permission ::
  "db \<Rightarrow> string \<Rightarrow> int \<Rightarrow> regex_row res" where
  "get_group_scorer_regex_permission d gname i =
     group_regex_get (groups d) (t_group_regex (scorer_tables d)) gname i"

definition update_group_scorer_regex_permission ::
  "(string \<Rightarrow> compile_outcome) \<Rightarrow> db \<Rightarrow> int \<Rightarrow> string \<Rightarrow> string \<Rightarrow> int \<Rightarrow> string \<Rightarrow> (db \<times> regex_row) res" where
  "update_group_scorer_regex_permission rc d i gname rx prty perm =
     put_row (group_regex_update rc (groups d) (t_group_regex (scorer_tables d)) i gname rx prty perm) (\<lambda>tbl. scorer_tables_update (t_group_regex_update (\<lambda>_. tbl)) d)"

definition delete_group_scorer_regex_permission ::
  "db \<Rightarrow> string \<Rightarrow> int \<Rightarrow> db res" where
  "delete_group_scorer_regex_permission d gname i =
     put_tbl (group_regex_revoke (groups d) (t_group_regex (scorer_tables d)) gname i) (\<lambda>tbl. scorer_tables_update (t_group_regex_update (\<lambda>_. tbl)) d)"

subsection \<open>AI gateway endpoints, secrets and model definitions\<close>

definition create_gateway_secret_permission ::
  "db \<Rightarrow> string \<Rightarrow> string \<Rightarrow> string \<Rightarrow> (db \<times> string perm_row) res" where
  "create_gateway_secret_permission d rid uname perm =
     put_row (grant_permission (users d) () (t_user (gateway_secret_tables d)) rid uname perm) (\<lambda>tbl. gateway_secret_tables_update (t_user_update (\<lambda>_. tbl)) d)"

definition get_gateway_secret_permission ::
  "db \<Rightarrow> string \<Rightarrow> string \<Rightarrow> string perm_row res" where
  "get_gateway_secret_permission d rid uname =
     find_user_permission (users d) (t_user (gateway_secret_tables d)) rid uname"

definition list_gateway_secret_permissions ::
  "db \<Rightarrow> string \<Rightarrow> string perm_row list" where
  "list_gateway_secret_permissions d uname =
     list_permissions_for_user (users d) (t_user (gateway_secret_tables d)) uname"

definition update_gateway_secret_permission ::
  "db \<Rightarrow> string \<Rightarrow> string \<Rightarrow> string \<Rightarrow> (db \<times> string perm_row) res" where
  "update_gateway_secret_permission d rid uname perm =
     put_row (update_permission (users d) (t_user (gateway_secret_tables d)) rid uname perm) (\<lambda>tbl. gateway_secret_tables_update (t_user_update (\<lambda>_. tbl)) d)"

definition delete_gateway_secret_permission ::
  "db \<Rightarrow> string \<Rightarrow> string \<Rightarrow> db res" where
  "delete_gateway_secret_permission d rid uname =
     put_tbl (revoke_permission (users d) (t_user (gateway_secret_tables d)) rid uname) (\<lambda>tbl. gateway_secret_tables_update (t_user_update (\<lambda>_. tbl)) d)"

definition wipe_gateway_secret_permissions ::
  "db \<Rightarrow> string \<Rightarrow> db res" where
  "wipe_gateway_secret_permissions d rid =
     Inr (gateway_secret_tables_update (\<lambda>ts. ts\<lparr>t_user := wipe_permissions (t_user ts) rid, t_group := wipe_permissions (t_group ts) rid\<rparr>) d)"

definition create_group_gateway_secret_permission ::
  "db \<Rightarrow> string \<Rightarrow> string \<Rightarrow> string \<Rightarrow> (db \<times> string perm_row) res" where
  "create_group_gateway_secret_permission d gname rid perm =
     put_row (grant_group_permission (groups d) () (t_group (gateway_secret_tables d)) gname rid perm) (\<lambda>tbl. gateway_secret_tables_update (t_group_update (\<lambda>_. tbl)) d)"

definition update_group_gateway_secret_permission ::
  "db \<Rightarrow> string \<Rightarrow> string \<Rightarrow> string \<Rightarrow> (db \<times> string perm_row) res" where
  "update_group_gateway_secret_permission d gname rid perm =
     put_row (update_group_permission (groups d) (t_group (gateway_secret_tables d)) gname rid perm) (\<lambda>tbl. gateway_secret_tables_update (t_group_update (\<lambda>_. tbl)) d)"

definition delete_group_gateway_secret_permission ::
  "db \<Rightarrow> string \<Rightarrow> string \<Rightarrow> db res" where
  "delete_group_gateway_secret_permission d gname rid =
     put_tbl (revoke_group_permission (groups d) (t_group (gateway_secret_tables d)) gname rid) (\<lambda>tbl. gateway_secret_tables_update (t_group_update (\<lambda>_. tbl)) d)"

definition list_group_gateway_secret_permissions ::
  "db \<Rightarrow> string \<Rightarrow> string perm_row list res" where
  "list_group_gateway_secret_permissions d gname =
     list_permissions_for_group (groups d) (t_group (gateway_secret_tables d)) gname"

definition get_user_groups_gateway_secret_permission ::
  "db \<Rightarrow> string \<Rightarrow> string \<Rightarrow> string perm_row res" where
  "get_user_groups_gateway_secret_permission d rid gname =
     get_group_permission_for_user (groups d) (t_group (gateway_secret_tables d)) rid gname"

definition create_gateway_secret_regex_permission ::
  "(string \<Rightarrow> compile_outcome) \<Rightarrow> db \<Rightarrow> string \<Rightarrow> int \<Rightarrow> string \<Rightarrow> string \<Rightarrow> (db \<times> regex_row) res" where
  "create_gateway_secret_regex_permission rc d rx prty perm uname =
     put_row (regex_grant rc (users d) (t_regex (gateway_secret_tables d)) rx prty perm uname) (\<lambda>tbl. gateway_secret_tables_update (t_regex_update (\<lambda>_. tbl)) d)"

definition get_gateway_secret_regex_permission ::
  "db \<Rightarrow> string \<Rightarrow> int \<Rightarrow> regex_row res" where
  "get_gateway_secret_regex_permission d uname i =
     regex_get (users d) (t_regex (gateway_secret_tables d)) uname i"

definition list_gateway_secret_regex_permissions ::
  "db \<Rightarrow> string \<Rightarrow> regex_row list" where
  "list_gateway_secret_regex_permissions d uname =
     list_regex_for_user (users d) (t_regex (gateway_secret_tables d)) uname"

definition update_gateway_secret_regex_permission ::
  "(string \<Rightarrow> compile_outcome) \<Rightarrow> db \<Rightarrow> string \<Rightarrow> int \<Rightarrow> string \<Rightarrow> string \<Rightarrow> int \<Rightarrow> (db \<times> regex_row) res" where
  "update_gateway_secret_regex_permission rc d rx prty perm uname i =
     put_row (gateway_regex_update rc (users d) (t_regex (gateway_secret_tables d)) i rx prty perm uname) (\<lambda>tbl. gateway_secret_tables_update (t_regex_update (\<lambda>_. tbl)) d)"

definition delete_gateway_secret_regex_permission ::
  "db \<Rightarrow> string \<Rightarrow> int \<Rightarrow> db res" where
  "delete_gateway_secret_regex_permission d uname i =
     put_tbl (regex_revoke (users d) (t_regex (gateway_secret_tables d)) uname i) (\<lambda>tbl. gateway_secret_tables_update (t_regex_update (\<lambda>_. tbl)) d)"

definition create_group_gateway_secret_regex_permission ::
  "(string \<Rightarrow> compile_outcome) \<Rightarrow> db \<Rightarrow> string \<Rightarrow> string \<Rightarrow> int \<Rightarrow> string \<Rightarrow> (db \<times> regex_row) res" where
  "create_group_gateway_secret_regex_permission rc d gname rx prty perm =
     put_row (group_regex_grant rc (groups d) (t_group_regex (gateway_secret_tables d)) gname rx prty perm) (\<lambda>tbl. gateway_secret_tables_update (t_group_regex_update (\<lambda>_. tbl)) d)"

definition list_group_gateway_secret_regex_permissions_for_groups_ids ::
  "db \<Rightarrow> int list \<Rightarrow> regex_row list" where
  "list_group_gateway_secret_regex_permissions_for_groups_ids d gids =
     list_permissions_for_groups_ids (t_group_regex (gateway_secret_tables d)) gids"

definition list_group_gateway_secret_regex_permissions ::
  "db \<Rightarrow> string \<Rightarrow> regex_row list res" where
  "list_group_gateway_secret_regex_permissions d gname =
     group_regex_list_for_group (groups d) (t_group_regex (gateway_secret_tables d)) gname"

definition update_group_gateway_secret_regex_permission ::
  "(string \<Rightarrow> compile_outcome) \<Rightarrow> db \<Rightarrow> int \<Rightarrow> string \<Rightarrow> string \<Rightarrow> int \<Rightarrow> string \<Rightarrow> (db \<times> regex_row) res" where
  "update_group_gateway_secret_regex_permission rc d i gname rx prty perm =
     put_row (group_regex_update rc (groups d) (t_group_regex (gateway_secret_tables d)) i gname rx prty perm) (\<lambda>tbl. gateway_secret_tables_update (t_group_regex_update (\<lambda>_. tbl)) d)"

definition get_group_gateway_secret_regex_permission ::
  "sql_compare \<Rightarrow> db \<Rightarrow> int \<Rightarrow> string \<Rightarrow> regex_row res" where
  "get_group_gateway_secret_regex_permission cmp d i gname =
     bindE (swapped_group cmp (groups d) i) (\<lambda>g. swapped_regex cmp (t_group_regex (gateway_secret_tables d)) gname (g_id g))"

definition delete_group_gateway_secret_regex_permission ::
  "sql_compare \<Rightarrow> db \<Rightarrow> int \<Rightarrow> string \<Rightarrow> db res" where
  "delete_group_gateway_secret_regex_permission cmp d i gname =
     put_tbl (bindE (swapped_group cmp (groups d) i) (\<lambda>g.
       bindE (swapped_regex cmp (t_group_regex (gateway_secret_tables d)) gname (g_id g)) (\<lambda>row. Inr (delete_regex_row (t_group_regex (gateway_secret_tables d)) row))))
       (\<lambda>tbl. gateway_secret_tables_update (t_group_regex_update (\<lambda>_. tbl)) d)"

definition create_gateway_endpoint_permission ::
  "db \<Rightarrow> string \<Rightarrow> string \<Rightarrow> string \<Rightarrow> (db \<times> string perm_row) res" where
  "create_gateway_endpoint_permission d rid uname perm =
     put_row (grant_permission (users d) () (t_user (gateway_endpoint_tables d)) rid uname perm) (\<lambda>tbl. gateway_endpoint_tables_update (t_user_update (\<lambda>_. tbl)) d)"

definition get_gateway_endpoint_permission ::
  "db \<Rightarrow> string \<Rightarrow> string \<Rightarrow> string perm_row res" where
  "get_gateway_endpoint_permission d rid uname =
     find_user_permission (users d) (t_user (gateway_endpoint_tables d)) rid uname"

definition list_gateway_endpoint_permissions ::
  "db \<Rightarrow> string \<Rightarrow> string perm_row list" where
  "list_gateway_endpoint_permissions d uname =
     list_permissions_for_user (users d) (t_user (gateway_endpoint_tables d)) uname"

definition update_gateway_endpoint_permission ::
  "db \<Rightarrow> string \<Rightarrow> string \<Rightarrow> string \<Rightarrow> (db \<times> string perm_row) res" where
  "update_gateway_endpoint_permission d rid uname perm =
     put_row (update_permission (users d) (t_user (gateway_endpoint_tables d)) rid uname perm) (\<lambda>tbl. gateway_endpoint_tables_update (t_user_update (\<lambda>_. tbl)) d)"

definition delete_gateway_endpoint_permission ::
  "db \<Rightarrow> string \<Rightarrow> string \<Rightarrow> db res" where
  "delete_gateway_endpoint_permission d rid uname =
     put_tbl (revoke_permission (users d) (t_user (gateway_endpoint_tables d)) rid uname) (\<lambda>tbl. gateway_endpoint_tables_update (t_user_update (\<lambda>_. tbl)) d)"

text \<open>User and group rows are renamed in two transactions, the user rows first.\<close>

definition rename_gateway_endpoint_permissions ::
  "db \<Rightarrow> string \<Rightarrow> string \<Rightarrow> db \<times> unit res" where
  "rename_gateway_endpoint_permissions d old new =
     (case put_tbl (rename_permissions (t_user (gateway_endpoint_tables d)) old new) (\<lambda>tbl. gateway_endpoint_tables_update (t_user_update (\<lambda>_. tbl)) d) of
        Inl e \<Rightarrow> (d, Inl e)
      | Inr d1 \<Rightarrow>
          (case put_tbl (rename_permissions (t_group (gateway_endpoint_tables d1)) old new) (\<lambda>tbl. gateway_endpoint_tables_update (t_group_update (\<lambda>_. tbl)) d1) of
             Inl e \<Rightarrow> (d1, Inl e)
           | Inr d2 \<Rightarrow> (d2, Inr ())))"

definition wipe_gateway_endpoint_permissions ::
  "db \<Rightarrow> string \<Rightarrow> db res" where
  "wipe_gateway_endpoint_permissions d rid =
     Inr (gateway_endpoint_tables_update (\<lambda>ts. ts\<lparr>t_user := wipe_permissions (t_user ts) rid, t_group := wipe_permissions (t_group ts) rid\<rparr>) d)"

definition create_group_gateway_endpoint_permission ::
  "db \<Rightarrow> string \<Rightarrow> string \<Rightarrow> string \<Rightarrow> (db \<times> string perm_row) res" where
  "create_group_gateway_endpoint_permission d gname rid perm =
     put_row (grant_group_permission (groups d) () (t_group (gateway_endpoint_tables d)) gname rid perm) (\<lambda>tbl. gateway_endpoint_tables_update (t_group_update (\<lambda>_. tbl)) d)"

definition update_group_gateway_endpoint_permission ::
  "db \<Rightarrow> string \<Rightarrow> string \<Rightarrow> string \<Rightarrow> (db \<times> string perm_row) res" where
  "update_group_gateway_endpoint_permission d gname rid perm =
     put_row (update_group_permission (groups d) (t_group (gateway_endpoint_tables d)) gname rid perm) (\<lambda>tbl. gateway_endpoint_tables_update (t_group_update (\<lambda>_. tbl)) d)"

definition delete_group_gateway_endpoint_permission ::
  "db \<Rightarrow> string \<Rightarrow> string \<Rightarrow> db res" where
  "delete_group_gateway_endpoint_permission d gname rid =
     put_tbl (revoke_group_permission (groups d) (t_group (gateway_endpoint_tables d)) gname rid) (\<lambda>tbl. gateway_endpoint_tables_update (t_group_update (\<lambda>_. tbl)) d)"

definition list_group_gateway_endpoint_permissions ::
  "db \<Rightarrow> string \<Rightarrow> string perm_row list res" where
  "list_group_gateway_endpoint_permissions d gname =
     list_permissions_for_group (groups d) (t_group (gateway_endpoint_tables d)) gname"

definition get_user_groups_gateway_endpoint_permission ::
  "db \<Rightarrow> string \<Rightarrow> string \<Rightarrow> string perm_row res" where
  "get_user_groups_gateway_endpoint_permission d rid gname =
     get_group_permission_for_user (groups d) (t_group (gateway_endpoint_tables d)) rid gname"

definition create_gateway_endpoint_regex_permission ::
  "(string \<Rightarrow> compile_outcome) \<Rightarrow> db \<Rightarrow> string \<Rightarrow> int \<Rightarrow> string \<Rightarrow> string \<Rightarrow> (db \<times> regex_row) res" where
  "create_gateway_endpoint_regex_permission rc d rx prty perm uname =
     put_row (regex_grant rc (users d) (t_regex (gateway_endpoint_tables d)) rx prty perm uname) (\<lambda>tbl. gateway_endpoint_tables_update (t_regex_update (\<lambda>_. tbl)) d)"

definition get_gateway_endpoint_regex_permission ::
  "db \<Rightarrow> string \<Rightarrow> int \<Rightarrow> regex_row res" where
  "get_gateway_endpoint_regex_permission d uname i =
     regex_get (users d) (t_regex (gateway_endpoint_tables d)) uname i"

definition list_gateway_endpoint_regex_permissions ::
  "db \<Rightarrow> string \<Rightarrow> regex_row list" where
  "list_gateway_endpoint_regex_permissions d uname =
     list_regex_for_user (users d) (t_regex (gateway_endpoint_tables d)) uname"

definition update_gateway_endpoint_regex_permission ::
  "(string \<Rightarrow> compile_outcome) \<Rightarrow> db \<Rightarrow> string \<Rightarrow> int \<Rightarrow> string \<Rightarrow> string \<Rightarrow> int \<Rightarrow> (db \<times> regex_row) res" where
  "update_gateway_endpoint_regex_permission rc d rx prty perm uname i =
     put_row (gateway_regex_update rc (users d) (t_regex (gateway_endpoint_tables d)) i rx prty perm uname) (\<lambda>tbl. gateway_endpoint_tables_update (t_regex_update (\<lambda>_. tbl)) d)"

definition delete_gateway_endpoint_regex_permission ::
  "db \<Rightarrow> string \<Rightarrow> int \<Rightarrow> db res" where
  "delete_gateway_endpoint_regex_permission d uname i =
     put_tbl (regex_revoke (users d) (t_regex (gateway_endpoint_tables d)) uname i) (\<lambda>tbl. gateway_endpoint_tables_update (t_regex_update (\<lambda>_. tbl)) d)"

definition create_group_gateway_endpoint_regex_permission ::
  "(string \<Rightarrow> compile_outcome) \<Rightarrow> db \<Rightarrow> string \<Rightarrow> string \<Rightarrow> int \<Rightarrow> string \<Rightarrow> (db \<times> regex_row) res" where
  "create_group_gateway_endpoint_regex_permission rc d gname rx prty perm =
     put_row (group_regex_grant rc (groups d) (t_group_regex (gateway_endpoint_tables d)) gname rx prty perm) (\<lambda>tbl. gateway_endpoint_tables_update (t_group_regex_update (\<lambda>_. tbl)) d)"

definition list_group_gateway_endpoint_regex_permissions_for_groups_ids ::
  "db \<Rightarrow> int list \<Rightarrow> regex_row list" where
  "list_group_gateway_endpoint_regex_permissions_for_groups_ids d gids =
     list_permissions_for_groups_ids (t_group_regex (gateway_endpoint_tables d)) gids"

definition list_group_gateway_endpoint_regex_permissions ::
  "db \<Rightarrow> string \<Rightarrow> regex_row list res" where
  "list_group_gateway_endpoint_regex_permissions d gname =
     group_regex_list_for_group (groups d) (t_group_regex (gateway_endpoint_tables d)) gname"

definition update_group_gateway_endpoint_regex_permission ::
  "(string \<Rightarrow> compile_outcome) \<Rightarrow> db \<Rightarrow> int \<Rightarrow> string \<Rightarrow> string \<Rightarrow> int \<Rightarrow> string \<Rightarrow> (db \<times> regex_row) res" where
  "update_group_gateway_endpoint_regex_permission rc d i gname rx prty perm =
     put_row (group_regex_update rc (groups d) (t_group_regex (gateway_endpoint_tables d)) i gname rx prty perm) (\<lambda>tbl. gateway_endpoint_tables_update (t_group_regex_update (\<lambda>_. tbl)) d)"

definition get_group_gateway_endpoint_regex_permission ::
  "sql_compare \<Rightarrow> db \<Rightarrow> int \<Rightarrow> string \<Rightarrow> regex_row res" where
  "get_group_gateway_endpoint_regex_permission cmp d i gname =
     bindE (swapped_group cmp (groups d) i) (\<lambda>g. swapped_regex cmp (t_group_regex (gateway_endpoint_tables d)) gname (g_id g))"

definition delete_group_gateway_endpoint_regex_permission ::
  "sql_compare \<Rightarrow> db \<Rightarrow> int \<Rightarrow> string \<Rightarrow> db res" where
  "delete_group_gateway_endpoint_regex_permission cmp d i gname =
     put_tbl (bindE (swapped_group cmp (groups d) i) (\<lambda>g.
       bindE (swapped_regex cmp (t_group_regex (gateway_endpoint_tables d)) gname (g_id g)) (\<lambda>row. Inr (delete_regex_row (t_group_regex (gateway_endpoint_tables d)) row))))
       (\<lambda>tbl. gateway_endpoint_tables_update (t_group_regex_update (\<lambda>_. tbl)) d)"

definition create_gateway_model_definition_permission ::
  "db \<Rightarrow> string \<Rightarrow> string \<Rightarrow> string \<Rightarrow> (db \<times> string perm_row) res" where
  "create_gateway_model_definition_permission d rid uname perm =
     put_row (grant_permission (users d) () (t_user (gateway_model_definition_tables d)) rid uname perm) (\<lambda>tbl. gateway_model_definition_tables_update (t_user_update (\<lambda>_. tbl)) d)"

definition get_gateway_model_definition_permission ::
  "db \<Rightarrow> string \<Rightarrow> string \<Rightarrow> string perm_row res" where
  "get_gateway_model_definition_permission d rid uname =
     find_user_permission (users d) (t_user (gateway_model_definition_tables d)) rid uname"

definition list_gateway_model_definition_permissions ::
  "db \<Rightarrow> string \<Rightarrow> string perm_row list" where
  "list_gateway_model_definition_permissions d uname =
     list_permissions_for_user (users d) (t_user (gateway_model_definition_tables d)) uname"

definition update_gateway_model_definition_permission ::
  "db \<Rightarrow> string \<Rightarrow> string \<Rightarrow> string \<Rightarrow> (db \<times> string perm_row) res" where
  "update_gateway_model_definition_permission d rid uname perm =
     put_row (update_permission (users d) (t_user (gateway_model_definition_tables d)) rid uname perm) (\<lambda>tbl. gateway_model_definition_tables_update (t_user_update (\<lambda>_. tbl)) d)"

definition delete_gateway_model_definition_permission ::
  "db \<Rightarrow> string \<Rightarrow> string \<Rightarrow> db res" where
  "delete_gateway_model_definition_permission d rid uname =
     put_tbl (revoke_permission (users d) (t_user (gateway_model_definition_tables d)) rid uname) (\<lambda>tbl. gateway_model_definition_tables_update (t_user_update (\<lambda>_. tbl)) d)"

definition wipe_gateway_model_definition_permissions ::
  "db \<Rightarrow> string \<Rightarrow> db res" where
  "wipe_gateway_model_definition_permissions d rid =
     Inr (gateway_model_definition_tables_update (\<lambda>ts. ts\<lparr>t_user := wipe_permissions (t_user ts) rid, t_group := wipe_permissions (t_group ts) rid\<rparr>) d)"

definition create_group_gateway_model_definition_permission ::
  "db \<Rightarrow> string \<Rightarrow> string \<Rightarrow> string \<Rightarrow> (db \<times> string perm_row) res" where
  "create_group_gateway_model_definition_permission d gname rid perm =
     put_row (grant_group_permission (groups d) () (t_group (gateway_model_definition_tables d)) gname rid perm) (\<lambda>tbl. gateway_model_definition_tables_update (t_group_update (\<lambda>_. tbl)) d)"

definition update_group_gateway_model_definition_permission ::
  "db \<Rightarrow> string \<Rightarrow> string \<Rightarrow> string \<Rightarrow> (db \<times> string perm_row) res" where
  "update_group_gateway_model_definition_permission d gname rid perm =
     put_row (update_group_permission (groups d) (t_group (gateway_model_definition_tables d)) gname rid perm) (\<lambda>tbl. gateway_model_definition_tables_update (t_group_update (\<lambda>_. tbl)) d)"

definition delete_group_gateway_model_definition_permission ::
  "db \<Rightarrow> string \<Rightarrow> string \<Rightarrow> db res" where
  "delete_group_gateway_model_definition_permission d gname rid =
     put_tbl (revoke_group_permission (groups d) (t_group (gateway_model_definition_tables d)) gname rid) (\<lambda>tbl. gateway_model_definition_tables_update (t_group_update (\<lambda>_. tbl)) d)"

definition list_group_gateway_model_definition_permissions ::
  "db \<Rightarrow> string \<Rightarrow> string perm_row list res" where
  "list_group_gateway_model_definition_permissions d gname =
     list_permissions_for_group (groups d) (t_group (gateway_model_definition_tables d)) gname"

definition get_user_groups_gateway_model_definition_permission ::
  "db \<Rightarrow> string \<Rightarrow> string \<Rightarrow> string perm_row res" where
  "get_user_groups_gateway_model_definition_permission d rid gname =
     get_group_permission_for_user (groups d) (t_group (gateway_model_definition_tables d)) rid gname"

definition create_gateway_model_definition_regex_permission ::
  "(string \<Rightarrow> compile_outcome) \<Rightarrow> db \<Rightarrow> string \<Rightarrow> int \<Rightarrow> string \<Rightarrow> string \<Rightarrow> (db \<times> regex_row) res" where
  "create_gateway_model_definition_regex_permission rc d rx prty perm uname =
     put_row (regex_grant rc (users d) (t_regex (gateway_model_definition_tables d)) rx prty perm uname) (\<lambda>tbl. gateway_model_definition_tables_update (t_regex_update (\<lambda>_. tbl)) d)"

definition get_gateway_model_definition_regex_permission ::
  "db \<Rightarrow> string \<Rightarrow> int \<Rightarrow> regex_row res" where
  "get_gateway_model_definition_regex_permission d uname i =
     regex_get (users d) (t_regex (gateway_model_definition_tables d)) uname i"

definition list_gateway_model_definition_regex_permissions ::
  "db \<Rightarrow> string \<Rightarrow> regex_row list" where
  "list_gateway_model_definition_regex_permissions d uname =
     list_regex_for_user (users d) (t_regex (gateway_model_definition_tables d)) uname"

definition update_gateway_model_definition_regex_permission ::
  "(string \<Rightarrow> compile_outcome) \<Rightarrow> db \<Rightarrow> string \<Rightarrow> int \<Rightarrow> string \<Rightarrow> string \<Rightarrow> int \<Rightarrow> (db \<times> regex_row) res" where
  "update_gateway_model_definition_regex_permission rc d rx prty perm uname i =
     put_row (gateway_regex_update rc (users d) (t_regex (gateway_model_definition_tables d)) i rx prty perm uname) (\<lambda>tbl. gateway_model_definition_tables_update (t_regex_update (\<lambda>_. tbl)) d)"

definition delete_gateway_model_definition_regex_permission ::
  "db \<Rightarrow> string \<Rightarrow> int \<Rightarrow> db res" where
  "delete_gateway_model_definition_regex_permission d uname i =
     put_tbl (regex_revoke (users d) (t_regex (gateway_model_definition_tables d)) uname i) (\<lambda>tbl. gateway_model_definition_tables_update (t_regex_update (\<lambda>_. tbl)) d)"

definition create_group_gateway_model_definition_regex_permission ::
  "(string \<Rightarrow> compile_outcome) \<Rightarrow> db \<Rightarrow> string \<Rightarrow> string \<Rightarrow> int \<Rightarrow> string \<Rightarrow> (db \<times> regex_row) res" where
  "create_group_gateway_model_definition_regex_permission rc d gname rx prty perm =
     put_row (group_regex_grant rc (groups d) (t_group_regex (gateway_model_definition_tables d)) gname rx prty perm) (\<lambda>tbl. gateway_model_definition_tables_update (t_group_regex_update (\<lambda>_. tbl)) d)"

definition list_group_gateway_model_definition_regex_permissions_for_groups_ids ::
  "db \<Rightarrow> int list \<Rightarrow> regex_row list" where
  "list_group_gateway_model_definition_regex_permissions_for_groups_ids d gids =
     list_permissions_for_groups_ids (t_group_regex (gateway_model_definition_tables d)) gids"

definition list_group_gateway_model_definition_regex_permissions ::
  "db \<Rightarrow> string \<Rightarrow> regex_row list res" where
  "list_group_gateway_model_definition_regex_permissions d gname =
     group_regex_list_for_group (groups d) (t_group_regex (gateway_model_definition_tables d)) gname"

definition update_group_gateway_model_definition_regex_permission ::
  "(string \<Rightarrow> compile_outcome) \<Rightarrow> db \<Rightarrow> int \<Rightarrow> string \<Rightarrow> string \<Rightarrow> int \<Rightarrow> string \<Rightarrow> (db \<times> regex_row) res" where
  "update_group_gateway_model_definition_regex_permission rc d i gname rx prty perm =
     put_row (group_regex_update rc (groups d) (t_group_regex (gateway_model_definition_tables d)) i gname rx prty perm) (\<lambda>tbl. gateway_model_definition_tables_update (t_group_regex_update (\<lambda>_. tbl)) d)"

definition get_group_gateway_model_definition_regex_permission ::
  "sql_compare \<Rightarrow> db \<Rightarrow> int \<Rightarrow> string \<Rightarrow> regex_row res" where
  "get_group_gateway_model_definition_regex_permission cmp d i gname =
     bindE (swapped_group cmp (groups d) i) (\<lambda>g. swapped_regex cmp (t_group_regex (gateway_model_definition_tables d)) gname (g_id g))"

definition delete_group_gateway_model_definition_regex_permission ::
  "sql_compare \<Rightarrow> db \<Rightarrow> int \<Rightarrow> string \<Rightarrow> db res" where
  "delete_group_gateway_model_definition_regex_permission cmp d i gname =
     put_tbl (bindE (swapped_group cmp (groups d) i) (\<lambda>g.
       bindE (swapped_regex cmp (t_group_regex (gateway_model_definition_tables d)) gname (g_id g)) (\<lambda>row. Inr (delete_regex_row (t_group_regex (gateway_model_definition_tables d)) row))))
       (\<lambda>tbl. gateway_model_definition_tables_update (t_group_regex_update (\<lambda>_. tbl)) d)"

subsection \<open>Workspaces\<close>

definition get_workspace_permission ::
  "db \<Rightarrow> string \<Rightarrow> string \<Rightarrow> workspace_row res" where
  "get_workspace_permission d ws uname =
     bindE (get_user (users d) uname) (\<lambda>u. workspace_get (t_user (workspace_tables d)) ws (u_id u))"

definition create_workspace_permission ::
  "db \<Rightarrow> string \<Rightarrow> string \<Rightarrow> string \<Rightarrow> (db \<times> workspace_row) res" where
  "create_workspace_permission d ws uname perm =
     put_row (bindE (get_user (users d) uname) (\<lambda>u. workspace_create (t_user (workspace_tables d)) ws (u_id u) perm)) (\<lambda>tbl. workspace_tables_update (t_user_update (\<lambda>_. tbl)) d)"

definition update_workspace_permission ::
  "db \<Rightarrow> string \<Rightarrow> string \<Rightarrow> string \<Rightarrow> (db \<times> workspace_row) res" where
  "update_workspace_permission d ws uname perm =
     put_row (bindE (get_user (users d) uname) (\<lambda>u. workspace_update (t_user (workspace_tables d)) ws (u_id u) perm)) (\<lambda>tbl. workspace_tables_update (t_user_update (\<lambda>_. tbl)) d)"

definition delete_workspace_permission ::
  "db \<Rightarrow> string \<Rightarrow> string \<Rightarrow> db res" where
  "delete_workspace_permission d ws uname =
     put_tbl (bindE (get_user (users d) uname) (\<lambda>u. workspace_delete (t_user (workspace_tables d)) ws (u_id u))) (\<lambda>tbl. workspace_tables_update (t_user_update (\<lambda>_. tbl)) d)"

definition list_workspace_permissions ::
  "db \<Rightarrow> string \<Rightarrow> workspace_row list" where
  "list_workspace_permissions d ws =
     workspace_list_for_workspace (t_user (workspace_tables d)) ws"

definition get_user_groups_workspace_permission ::
  "db \<Rightarrow> string \<Rightarrow> string \<Rightarrow> workspace_row res" where
  "get_user_groups_workspace_permission d ws uname =
     bindE (get_user (users d) uname) (\<lambda>u. get_highest_for_user (user_groups d) (t_group (workspace_tables d)) ws (u_id u))"

definition get_workspace_group_permission ::
  "db \<Rightarrow> string \<Rightarrow> string \<Rightarrow> workspace_row res" where
  "get_workspace_group_permission d ws gname =
     bindE (get_group (groups d) gname) (\<lambda>g. workspace_group_get (t_group (workspace_tables d)) ws (g_id g))"

definition create_workspace_group_permission ::
  "db \<Rightarrow> string \<Rightarrow> string \<Rightarrow> string \<Rightarrow> (db \<times> workspace_row) res" where
  "create_workspace_group_permission d ws gname perm =
     put_row (bindE (get_group (groups d) gname) (\<lambda>g. workspace_group_create (t_group (workspace_tables d)) ws (g_id g) perm)) (\<lambda>tbl. workspace_tables_update (t_group_update (\<lambda>_. tbl)) d)"

definition update_workspace_group_permission ::
  "db \<Rightarrow> string \<Rightarrow> string \<Rightarrow> string \<Rightarrow> (db \<times> workspace_row) res" where
  "update_workspace_group_permission d ws gname perm =
     put_row (bindE (get_group (groups d) gname) (\<lambda>g. workspace_group_update (t_group (workspace_tables d)) ws (g_id g) perm)) (\<lambda>tbl. workspace_tables_update (t_group_update (\<lambda>_. tbl)) d)"

definition delete_workspace_group_permission ::
  "db \<Rightarrow> string \<Rightarrow> string \<Rightarrow> db res" where
  "delete_workspace_group_permission d ws gname =
     put_tbl (bindE (get_group (groups d) gname) (\<lambda>g. workspace_group_delete (t_group (workspace_tables d)) ws (g_id g))) (\<lambda>tbl. workspace_tables_update (t_group_update (\<lambda>_. tbl)) d)"

definition list_workspace_group_permissions ::
  "db \<Rightarrow> string \<Rightarrow> workspace_row list" where
  "list_workspace_group_permissions d ws =
     workspace_group_list_for_workspace (t_group (workspace_tables d)) ws"

definition wipe_workspace_permissions ::
  "db \<Rightarrow> string \<Rightarrow> (db \<times> nat) res" where
  "wipe_workspace_permissions d ws =
     (let (us, n) = workspace_delete_all (t_user (workspace_tables d)) ws; (gs, m) = workspace_group_delete_all (t_group (workspace_tables d)) ws
      in Inr (workspace_tables_update (\<lambda>ts. ts\<lparr>t_user := us, t_group := gs\<rparr>) d, n + m))"

definition create_workspace_regex_permission ::
  "(string \<Rightarrow> compile_outcome) \<Rightarrow> db \<Rightarrow> string \<Rightarrow> int \<Rightarrow> string \<Rightarrow> string \<Rightarrow> (db \<times> regex_row) res" where
  "create_workspace_regex_permission rc d rx prty perm uname =
     put_row (regex_grant rc (users d) (t_regex (workspace_tables d)) rx prty perm uname) (\<lambda>tbl. workspace_tables_update (t_regex_update (\<lambda>_. tbl)) d)"

definition get_workspace_regex_permission ::
  "db \<Rightarrow> string \<Rightarrow> int \<Rightarrow> regex_row res" where
  "get_workspace_regex_permission d uname i =
     regex_get (users d) (t_regex (workspace_tables d)) uname i"

definition list_workspace_regex_permissions ::
  "db \<Rightarrow> string \<Rightarrow> regex_row list" where
  "list_workspace_regex_permissions d uname =
     list_regex_for_user (users d) (t_regex (workspace_tables d)) uname"

definition update_workspace_regex_permission ::
  "(string \<Rightarrow> compile_outcome) \<Rightarrow> db \<Rightarrow> string \<Rightarrow> int \<Rightarrow> string \<Rightarrow> string \<Rightarrow> int \<Rightarrow> (db \<times> regex_row) res" where
  "update_workspace_regex_permission rc d rx prty perm uname i =
     put_row (regex_update rc (users d) (t_regex (workspace_tables d)) rx prty perm uname i) (\<lambda>tbl. workspace_tables_update (t_regex_update (\<lambda>_. tbl)) d)"

definition delete_workspace_regex_permission ::
  "db \<Rightarrow> string \<Rightarrow> int \<Rightarrow> db res" where
  "delete_workspace_regex_permission d uname i =
     put_tbl (regex_revoke (users d) (t_regex (workspace_tables d)) uname i) (\<lambda>tbl. workspace_tables_update (t_regex_update (\<lambda>_. tbl)) d)"

definition create_workspace_group_regex_permission ::
  "(string \<Rightarrow> compile_outcome) \<Rightarrow> db \<Rightarrow> string \<Rightarrow> string \<Rightarrow> int \<Rightarrow> string \<Rightarrow> (db \<times> regex_row) res" where
  "create_workspace_group_regex_permission rc d gname rx prty perm =
     put_row (group_regex_grant rc (groups d) (t_group_regex (workspace_tables d)) gname rx prty perm) (\<lambda>tbl. workspace_tables_update (t_group_regex_update (\<lambda>_. tbl)) d)"

definition list_workspace_group_regex_permissions_for_groups_ids ::
  "db \<Rightarrow> int list \<Rightarrow> regex_row list" where
  "list_workspace_group_regex_permissions_for_groups_ids d gids =
     list_permissions_for_groups_ids (t_group_regex (workspace_tables d)) gids"

definition list_workspace_group_regex_permissions ::
  "db \<Rightarrow> string \<Rightarrow> regex_row list res" where
  "list_workspace_group_regex_permissions d gname =
     group_regex_list_for_group (groups d) (t_group_regex (workspace_tables d)) gname"

definition get_workspace_group_regex_permission ::
  "db \<Rightarrow> string \<Rightarrow> int \<Rightarrow> regex_row res" where
  "get_workspace_group_regex_permission d gname i =
     group_regex_get (groups d) (t_group_regex (workspace_tables d)) gname i"

definition update_workspace_group_regex_permission ::
  "(string \<Rightarrow> compile_outcome) \<Rightarrow> db \<Rightarrow> int \<Rightarrow> string \<Rightarrow> string \<Rightarrow> int \<Rightarrow> string \<Rightarrow> (db \<times> regex_row) res" where
  "update_workspace_group_regex_permission rc d i gname rx prty perm =
     put_row (group_regex_update rc (groups d) (t_group_regex (workspace_tables d)) i gname rx prty perm) (\<lambda>tbl. workspace_tables_update (t_group_regex_update (\<lambda>_. tbl)) d)"

definition delete_workspace_group_regex_permission ::
  "db \<Rightarrow> string \<Rightarrow> int \<Rightarrow> db res" where
  "delete_workspace_group_regex_permission d gname i =
     put_tbl (group_regex_revoke (groups d) (t_group_regex (workspace_tables d)) gname i) (\<lambda>tbl. workspace_tables_update (t_group_regex_update (\<lambda>_. tbl)) d)"

definition list_all_workspace_regex_permissions ::
  "db \<Rightarrow> regex_row list" where
  "list_all_workspace_regex_permissions d =
     regex_list (t_regex (workspace_tables d))"

definition list_all_workspace_group_regex_permissions ::
  "db \<Rightarrow> regex_row list" where
  "list_all_workspace_group_regex_permissions d =
     t_group_regex (workspace_tables d)"

subsection \<open>Groups and memberships\<close>

definition populate_groups ::
  "db \<Rightarrow> string list \<Rightarrow> db" where
  "populate_groups d names =
     d\<lparr>groups := create_groups (groups d) names\<rparr>"

definition get_groups ::
  "db \<Rightarrow> string list" where
  "get_groups d =
     list_groups (groups d)"

definition get_group_users ::
  "db \<Rightarrow> string \<Rightarrow> user_row list res" where
  "get_group_users d gname =
     list_group_members (users d) (groups d) (user_groups d) gname"

definition store_add_user_to_group ::
  "db \<Rightarrow> string \<Rightarrow> string \<Rightarrow> db res" where
  "store_add_user_to_group d uname gname =
     put_tbl (add_user_to_group (users d) (groups d) (user_groups d) uname gname) (\<lambda>tbl. d\<lparr>user_groups := tbl\<rparr>)"

definition store_remove_user_from_group ::
  "db \<Rightarrow> string \<Rightarrow> string \<Rightarrow> db res" where
  "store_remove_user_from_group d uname gname =
     put_tbl (remove_user_from_group (users d) (groups d) (user_groups d) uname gname) (\<lambda>tbl. d\<lparr>user_groups := tbl\<rparr>)"

definition get_groups_for_user ::
  "db \<Rightarrow> string \<Rightarrow> string list" where
  "get_groups_for_user d uname =
     list_groups_for_user (users d) (groups d) (user_groups d) uname"

definition get_groups_ids_for_user ::
  "db \<Rightarrow> string \<Rightarrow> int list" where
  "get_groups_ids_for_user d uname =
     list_group_ids_for_user (users d) (user_groups d) uname"

definition set_user_groups ::
  "db \<Rightarrow> string \<Rightarrow> string list \<Rightarrow> db res" where
  "set_user_groups d uname names =
     put_tbl (set_groups_for_user (users d) (groups d) (user_groups d) uname names) (\<lambda>tbl. d\<lparr>user_groups := tbl\<rparr>)"

subsection \<open>The methods that change permissions\<close>

text \<open>
  The relation of the methods that \<^verbatim>\<open>_PERMISSION_CUD_METHODS\<close> lists, less the
  workspace grants and the group memberships, which also touch the workspace cache.
\<close>

inductive permission_write :: "db \<Rightarrow> db \<Rightarrow> bool" where
  pw_create_experiment_permission: "create_experiment_permission d rid uname perm = Inr (d', row) \<Longrightarrow> permission_write d d'"
| pw_update_experiment_permission: "update_experiment_permission d rid uname perm = Inr (d', row) \<Longrightarrow> permission_write d d'"
| pw_delete_experiment_permission: "delete_experiment_permission d rid uname = Inr d' \<Longrightarrow> permission_write d d'"
| pw_create_group_experiment_permission: "create_group_experiment_permission d gname rid perm = Inr (d', row) \<Longrightarrow> permission_write d d'"
| pw_update_group_experiment_permission: "update_group_experiment_permission d gname rid perm = Inr (d', row) \<Longrightarrow> permission_write d d'"
| pw_delete_group_experiment_permission: "delete_group_experiment_permission d gname rid = Inr d' \<Longrightarrow> permission_write d d'"
| pw_create_experiment_regex_permission: "create_experiment_regex_permission rc d rx prty perm uname = Inr (d', row) \<Longrightarrow> permission_write d d'"
| pw_update_experiment_regex_permission: "update_experiment_regex_permission rc d rx prty perm uname i = Inr (d', row) \<Longrightarrow> permission_write d d'"
| pw_delete_experiment_regex_permission: "delete_experiment_regex_permission d uname i = Inr d' \<Longrightarrow> permission_write d d'"
| pw_create_group_experiment_regex_permission: "create_group_experiment_regex_permission rc d gname rx prty perm = Inr (d', row) \<Longrightarrow> permission_write d d'"
| pw_update_group_experiment_regex_permission: "update_group_experiment_regex_permission rc d i gname rx prty perm = Inr (d', row) \<Longrightarrow> permission_write d d'"
| pw_delete_group_experiment_regex_permission: "delete_group_experiment_regex_permission d gname i = Inr d' \<Longrightarrow> permission_write d d'"
| pw_create_registered_model_permission: "create_registered_model_permission d rid uname perm = Inr (d', row) \<Longrightarrow> permission_write d d'"
| pw_update_registered_model_permission: "update_registered_model_permission d rid uname perm = Inr (d', row) \<Longrightarrow> permission_write d d'"
| pw_delete_registered_model_permission: "delete_registered_model_permission d rid uname = Inr d' \<Longrightarrow> permission_write d d'"
| pw_rename_registered_model_permissions: "rename_registered_model_permissions d old new = Inr d' \<Longrightarrow> permission_write d d'"
| pw_wipe_registered_model_permissions: "wipe_registered_model_permissions d rid = Inr d' \<Longrightarrow> permission_write d d'"
| pw_create_group_model_permission: "create_group_model_permission d gname rid perm = Inr (d', row) \<Longrightarrow> permission_write d d'"
| pw_rename_group_model_permissions: "rename_group_model_permissions d old new = Inr d' \<Longrightarrow> permission_write d d'"
| pw_delete_group_model_permission: "delete_group_model_permission d gname rid = Inr d' \<Longrightarrow> permission_write d d'"
| pw_wipe_group_model_permissions: "wipe_group_model_permissions d rid = Inr d' \<Longrightarrow> permission_write d d'"
| pw_update_group_model_permission: "update_group_model_permission d gname rid perm = Inr (d', row) \<Longrightarrow> permission_write d d'"
| pw_create_group_prompt_permission: "create_group_prompt_permission d gname nm perm = Inr (d', row) \<Longrightarrow> permission_write d d'"
| pw_update_group_prompt_permission: "update_group_prompt_permission d gname nm perm = Inr (d', row) \<Longrightarrow> permission_write d d'"
| pw_delete_group_prompt_permission: "delete_group_prompt_permission d gname nm = Inr d' \<Longrightarrow> permission_write d d'"
| pw_create_registered_model_regex_permission: "create_registered_model_regex_permission rc d rx prty perm uname = Inr (d', row) \<Longrightarrow> permission_write d d'"
| pw_update_registered_model_regex_permission: "update_registered_model_regex_permission rc d i rx prty perm uname = Inr (d', row) \<Longrightarrow> permission_write d d'"
| pw_delete_registered_model_regex_permission: "delete_registered_model_regex_permission d i uname = Inr d' \<Longrightarrow> permission_write d d'"
| pw_create_group_registered_model_regex_permission: "create_group_registered_model_regex_permission d gname rx prty perm = Inr (d', row) \<Longrightarrow> permission_write d d'"
| pw_update_group_registered_model_regex_permission: "update_group_registered_model_regex_permission d i gname rx prty perm = Inr (d', row) \<Longrightarrow> permission_write d d'"
| pw_delete_group_registered_model_regex_permission: "delete_group_registered_model_regex_permission d i gname = Inr d' \<Longrightarrow> permission_write d d'"
| pw_create_prompt_regex_permission: "create_prompt_regex_permission rc d rx prty perm uname prompt = Inr (d', row) \<Longrightarrow> permission_write d d'"
| pw_update_prompt_regex_permission: "update_prompt_regex_permission rc d i rx prty perm uname prompt = Inr (d', row) \<Longrightarrow> permission_write d d'"
| pw_delete_prompt_regex_permission: "delete_prompt_regex_permission d i uname = Inr d' \<Longrightarrow> permission_write d d'"
| pw_create_group_prompt_regex_permission: "create_group_prompt_regex_permission d gname rx prty perm prompt = Inr (d', row) \<Longrightarrow> permission_write d d'"
| pw_update_group_prompt_regex_permission: "update_group_prompt_regex_permission d i gname rx prty perm prompt = Inr (d', row) \<Longrightarrow> permission_write d d'"
| pw_delete_group_prompt_regex_permission: "delete_group_prompt_regex_permission d i gname = Inr d' \<Longrightarrow> permission_write d d'"
| pw_create_scorer_permission: "create_scorer_permission d eid sn uname perm = Inr (d', row) \<Longrightarrow> permission_write d d'"
| pw_update_scorer_permission: "update_scorer_permission d eid sn uname perm = Inr (d', row) \<Longrightarrow> permission_write d d'"
| pw_delete_scorer_permission: "delete_scorer_permission d eid sn uname = Inr d' \<Longrightarrow> permission_write d d'"
| pw_delete_scorer_permissions_for_scorer: "delete_scorer_permissions_for_scorer d eid sn = Inr d' \<Longrightarrow> permission_write d d'"
| pw_create_group_scorer_permission: "create_group_scorer_permission d gname eid sn perm = Inr (d', row) \<Longrightarrow> permission_write d d'"
| pw_update_group_scorer_permission: "update_group_scorer_permission d gname eid sn perm = Inr (d', row) \<Longrightarrow> permission_write d d'"
| pw_delete_group_scorer_permission: "delete_group_scorer_permission d gname eid sn = Inr d' \<Longrightarrow> permission_write d d'"
| pw_create_scorer_regex_permission: "create_scorer_regex_permission rc d rx prty perm uname = Inr (d', row) \<Longrightarrow> permission_write d d'"
| pw_update_scorer_regex_permission: "update_scorer_regex_permission rc d rx prty perm uname i = Inr (d', row) \<Longrightarrow> permission_write d d'"
| pw_delete_scorer_regex_permission: "delete_scorer_regex_permission d uname i = Inr d' \<Longrightarrow> permission_write d d'"
| pw_create_group_scorer_regex_permission: "create_group_scorer_regex_permission rc d gname rx prty perm = Inr (d', row) \<Longrightarrow> permission_write d d'"
| pw_update_group_scorer_regex_permission: "update_group_scorer_regex_permission rc d i gname rx prty perm = Inr (d', row) \<Longrightarrow> permission_write d d'"
| pw_delete_group_scorer_regex_permission: "delete_group_scorer_regex_permission d gname i = Inr d' \<Longrightarrow> permission_write d d'"
| pw_create_gateway_secret_permission: "create_gateway_secret_permission d rid uname perm = Inr (d', row) \<Longrightarrow> permission_write d d'"
| pw_update_gateway_secret_permission: "update_gateway_secret_permission d rid uname perm = Inr (d', row) \<Longrightarrow> permission_write d d'"
| pw_delete_gateway_secret_permission: "delete_gateway_secret_permission d rid uname = Inr d' \<Longrightarrow> permission_write d d'"
| pw_wipe_gateway_secret_permissions: "wipe_gateway_secret_permissions d rid = Inr d' \<Longrightarrow> permission_write d d'"
| pw_create_group_gateway_secret_permission: "create_group_gateway_secret_permission d gname rid perm = Inr (d', row) \<Longrightarrow> permission_write d d'"
| pw_update_group_gateway_secret_permission: "update_group_gateway_secret_permission d gname rid perm = Inr (d', row) \<Longrightarrow> permission_write d d'"
| pw_delete_group_gateway_secret_permission: "delete_group_gateway_secret_permission d gname rid = Inr d' \<Longrightarrow> permission_write d d'"
| pw_create_gateway_secret_regex_permission: "create_gateway_secret_regex_permission rc d rx prty perm uname = Inr (d', row) \<Longrightarrow> permission_write d d'"
| pw_update_gateway_secret_regex_permission: "update_gateway_secret_regex_permission rc d rx prty perm uname i = Inr (d', row) \<Longrightarrow> permission_write d d'"
| pw_delete_gateway_secret_regex_permission: "delete_gateway_secret_regex_permission d uname i = Inr d' \<Longrightarrow> permission_write d d'"
| pw_create_group_gateway_secret_regex_permission: "create_group_gateway_secret_regex_permission rc d gname rx prty perm = Inr (d', row) \<Longrightarrow> permission_write d d'"
| pw_update_group_gateway_secret_regex_permission: "update_group_gateway_secret_regex_permission rc d i gname rx prty perm = Inr (d', row) \<Longrightarrow> permission_write d d'"
| pw_delete_group_gateway_secret_regex_permission: "delete_group_gateway_secret_regex_permission cmp d i gname = Inr d' \<Longrightarrow> permission_write d d'"
| pw_create_gateway_endpoint_permission: "create_gateway_endpoint_permission d rid uname perm = Inr (d', row) \<Longrightarrow> permission_write d d'"
| pw_update_gateway_endpoint_permission: "update_gateway_endpoint_permission d rid uname perm = Inr (d', row) \<Longrightarrow> permission_write d d'"
| pw_delete_gateway_endpoint_permission: "delete_gateway_endpoint_permission d rid uname = Inr d' \<Longrightarrow> permission_write d d'"
| pw_rename_gateway_endpoint_permissions: "rename_gateway_endpoint_permissions d old new = (d', Inr ()) \<Longrightarrow> permission_write d d'"
| pw_wipe_gateway_endpoint_permissions: "wipe_gateway_endpoint_permissions d rid = Inr d' \<Longrightarrow> permission_write d d'"
| pw_create_group_gateway_endpoint_permission: "create_group_gateway_endpoint_permission d gname rid perm = Inr (d', row) \<Longrightarrow> permission_write d d'"
| pw_update_group_gateway_endpoint_permission: "update_group_gateway_endpoint_permission d gname rid perm = Inr (d', row) \<Longrightarrow> permission_write d d'"
| pw_delete_group_gateway_endpoint_permission: "delete_group_gateway_endpoint_permission d gname rid = Inr d' \<Longrightarrow> permission_write d d'"
| pw_create_gateway_endpoint_regex_permission: "create_gateway_endpoint_regex_permission rc d rx prty perm uname = Inr (d', row) \<Longrightarrow> permission_write d d'"
| pw_update_gateway_endpoint_regex_permission: "update_gateway_endpoint_regex_permission rc d rx prty perm uname i = Inr (d', row) \<Longrightarrow> permission_write d d'"
| pw_delete_gateway_endpoint_regex_permission: "delete_gateway_endpoint_regex_permission d uname i = Inr d' \<Longrightarrow> permission_write d d'"
| pw_create_group_gateway_endpoint_regex_permission: "create_group_gateway_endpoint_regex_permission rc d gname rx prty perm = Inr (d', row) \<Longrightarrow> permission_write d d'"
| pw_update_group_gateway_endpoint_regex_permission: "update_group_gateway_endpoint_regex_permission rc d i gname rx prty perm = Inr (d', row) \<Longrightarrow> permission_write d d'"
| pw_delete_group_gateway_endpoint_regex_permission: "delete_group_gateway_endpoint_regex_permission cmp d i gname = Inr d' \<Longrightarrow> permission_write d d'"
| pw_create_gateway_model_definition_permission: "create_gateway_model_definition_permission d rid uname perm = Inr (d', row) \<Longrightarrow> permission_write d d'"
| pw_update_gateway_model_definition_permission: "update_gateway_model_definition_permission d rid uname perm = Inr (d', row) \<Longrightarrow> permission_write d d'"
| pw_delete_gateway_model_definition_permission: "delete_gateway_model_definition_permission d rid uname = Inr d' \<Longrightarrow> permission_write d d'"
| pw_wipe_gateway_model_definition_permissions: "wipe_gateway_model_definition_permissions d rid = Inr d' \<Longrightarrow> permission_write d d'"
| pw_create_group_gateway_model_definition_permission: "create_group_gateway_model_definition_permission d gname rid perm = Inr (d', row) \<Longrightarrow> permission_write d d'"
| pw_update_group_gateway_model_definition_permission: "update_group_gateway_model_definition_permission d gname rid perm = Inr (d', row) \<Longrightarrow> permission_write d d'"
| pw_delete_group_gateway_model_definition_permission: "delete_group_gateway_model_definition_permission d gname rid = Inr d' \<Longrightarrow> permission_write d d'"
| pw_create_gateway_model_definition_regex_permission: "create_gateway_model_definition_regex_permission rc d rx prty perm uname = Inr (d', row) \<Longrightarrow> permission_write d d'"
| pw_update_gateway_model_definition_regex_permission: "update_gateway_model_definition_regex_permission rc d rx prty perm uname i = Inr (d', row) \<Longrightarrow> permission_write d d'"
| pw_delete_gateway_model_definition_regex_permission: "delete_gateway_model_definition_regex_permission d uname i = Inr d' \<Longrightarrow> permission_write d d'"
| pw_create_group_gateway_model_definition_regex_permission: "create_group_gateway_model_definition_regex_permission rc d gname rx prty perm = Inr (d', row) \<Longrightarrow> permission_write d d'"
| pw_update_group_gateway_model_definition_regex_permission: "update_group_gateway_model_definition_regex_permission rc d i gname rx prty perm = Inr (d', row) \<Longrightarrow> permission_write d d'"
| pw_delete_group_gateway_model_definition_regex_permission: "delete_group_gateway_model_definition_regex_permission cmp d i gname = Inr d' \<Longrightarrow> permission_write d d'"

text \<open>The workspace pattern methods, and the grants on workspaces.\<close>

inductive workspace_regex_write :: "db \<Rightarrow> db \<Rightarrow> bool" where
  wr_create_workspace_regex_permission: "create_workspace_regex_permission rc d rx prty perm uname = Inr (d', row) \<Longrightarrow> workspace_regex_write d d'"
| wr_update_workspace_regex_permission: "update_workspace_regex_permission rc d rx prty perm uname i = Inr (d', row) \<Longrightarrow> workspace_regex_write d d'"
| wr_delete_workspace_regex_permission: "delete_workspace_regex_permission d uname i = Inr d' \<Longrightarrow> workspace_regex_write d d'"
| wr_create_workspace_group_regex_permission: "create_workspace_group_regex_permission rc d gname rx prty perm = Inr (d', row) \<Longrightarrow> workspace_regex_write d d'"
| wr_update_workspace_group_regex_permission: "update_workspace_group_regex_permission rc d i gname rx prty perm = Inr (d', row) \<Longrightarrow> workspace_regex_write d d'"
| wr_delete_workspace_group_regex_permission: "delete_workspace_group_regex_permission d gname i = Inr d' \<Longrightarrow> workspace_regex_write d d'"

lemmas store_write_defs =
  create_experiment_permission_def
  update_experiment_permission_def
  delete_experiment_permission_def
  create_group_experiment_permission_def
  update_group_experiment_permission_def
  delete_group_experiment_permission_def
  create_experiment_regex_permission_def
  update_experiment_regex_permission_def
  delete_experiment_regex_permission_def
  create_group_experiment_regex_permission_def
  update_group_experiment_regex_permission_def
  delete_group_experiment_regex_permission_def
  create_registered_model_permission_def
  update_registered_model_permission_def
  delete_registered_model_permission_def
  rename_registered_model_permissions_def
  wipe_registered_model_permissions_def
  create_group_model_permission_def
  rename_group_model_permissions_def
  delete_group_model_permission_def
  wipe_group_model_permissions_def
  update_group_model_permission_def
  create_group_prompt_permission_def
  update_group_prompt_permission_def
  delete_group_prompt_permission_def
  create_registered_model_regex_permission_def
  update_registered_model_regex_permission_def
  delete_registered_model_regex_permission_def
  create_group_registered_model_regex_permission_def
  update_group_registered_model_regex_permission_def
  delete_group_registered_model_regex_permission_def
  create_prompt_regex_permission_def
  update_prompt_regex_permission_def
  delete_prompt_regex_permission_def
  create_group_prompt_regex_permission_def
  update_group_prompt_regex_permission_def
  delete_group_prompt_regex_permission_def
  create_scorer_permission_def
  update_scorer_permission_def
  delete_scorer_permission_def
  delete_scorer_permissions_for_scorer_def
  create_group_scorer_permission_def
  update_group_scorer_permission_def
  delete_group_scorer_permission_def
  create_scorer_regex_permission_def
  update_scorer_regex_permission_def
  delete_scorer_regex_permission_def
  create_group_scorer_regex_permission_def
  update_group_scorer_regex_permission_def
  delete_group_scorer_regex_permission_def
  create_gateway_secret_permission_def
  update_gateway_secret_permission_def
  delete_gateway_secret_permission_def
  wipe_gateway_secret_permissions_def
  create_group_gateway_secret_permission_def
  update_group_gateway_secret_permission_def
  delete_group_gateway_secret_permission_def
  create_gateway_secret_regex_permission_def
  update_gateway_secret_regex_permission_def
  delete_gateway_secret_regex_permission_def
  create_group_gateway_secret_regex_permission_def
  update_group_gateway_secret_regex_permission_def
  delete_group_gateway_secret_regex_permission_def
  create_gateway_endpoint_permission_def
  update_gateway_endpoint_permission_def
  delete_gateway_endpoint_permission_def
  rename_gateway_endpoint_permissions_def
  wipe_gateway_endpoint_permissions_def
  create_group_gateway_endpoint_permission_def
  update_group_gateway_endpoint_permission_def
  delete_group_gateway_endpoint_permission_def
  create_gateway_endpoint_regex_permission_def
  update_gateway_endpoint_regex_permission_def
  delete_gateway_endpoint_regex_permission_def
  create_group_gateway_endpoint_regex_permission_def
  update_group_gateway_endpoint_regex_permission_def
  delete_group_gateway_endpoint_regex_permission_def
  create_gateway_model_definition_permission_def
  update_gateway_model_definition_permission_def
  delete_gateway_model_definition_permission_def
  wipe_gateway_model_definition_permissions_def
  create_group_gateway_model_definition_permission_def
  update_group_gateway_model_definition_permission_def
  delete_group_gateway_model_definition_permission_def
  create_gateway_model_definition_regex_permission_def
  update_gateway_model_definition_regex_permission_def
  delete_gateway_model_definition_regex_permission_def
  create_group_gateway_model_definition_regex_permission_def
  update_group_gateway_model_definition_regex_permission_def
  delete_group_gateway_model_definition_regex_permission_def
  create_workspace_regex_permission_def
  update_workspace_regex_permission_def
  delete_workspace_regex_permission_def
  create_workspace_group_regex_permission_def
  update_workspace_group_regex_permission_def
  delete_workspace_group_regex_permission_def
  create_workspace_permission_def
  update_workspace_permission_def
  delete_workspace_permission_def
  create_workspace_group_permission_def
  update_workspace_group_permission_def
  delete_workspace_group_permission_def
  wipe_workspace_permissions_def
  store_add_user_to_group_def store_remove_user_from_group_def set_user_groups_def populate_groups_def

subsection \<open>Well-formedness of the database\<close>

definition wf_std :: "'r std_tables \<Rightarrow> bool" where
  "wf_std ts \<longleftrightarrow> wf_perm_table (t_user ts) \<and> wf_perm_table (t_group ts) \<and>
     wf_regex_table regex_key (t_regex ts) \<and> wf_regex_table regex_key (t_group_regex ts)"

definition wf_model :: "model_tables \<Rightarrow> bool" where
  "wf_model ts \<longleftrightarrow> wf_perm_table (t_user ts) \<and> wf_perm_table (t_group ts) \<and>
     wf_regex_table model_regex_key (t_regex ts) \<and> wf_regex_table model_regex_key (t_group_regex ts)"

text \<open>The workspace grants: the primary key is unique; the stored name is whatever the caller gave.\<close>

definition wf_workspace :: "string std_tables \<Rightarrow> bool" where
  "wf_workspace ts \<longleftrightarrow> unique_on (\<lambda>p. (p_resource p, p_owner p)) (t_user ts) \<and>
     unique_on (\<lambda>p. (p_resource p, p_owner p)) (t_group ts) \<and>
     wf_regex_table regex_key (t_regex ts) \<and> wf_regex_table regex_key (t_group_regex ts)"

definition wf_db :: "db \<Rightarrow> bool" where
  "wf_db d \<longleftrightarrow> wf_users (users d) \<and> wf_groups (groups d) \<and> wf_user_groups (user_groups d) \<and>
     wf_std (experiment_tables d) \<and> wf_model (registered_model_tables d) \<and> wf_std (scorer_tables d) \<and>
     wf_std (gateway_endpoint_tables d) \<and> wf_std (gateway_secret_tables d) \<and>
     wf_std (gateway_model_definition_tables d) \<and> wf_workspace (workspace_tables d)"

lemma wf_dbD:
  assumes "wf_db d"
  shows "wf_users (users d)" "wf_groups (groups d)" "wf_user_groups (user_groups d)"
    "wf_std (experiment_tables d)" "wf_model (registered_model_tables d)" "wf_std (scorer_tables d)"
    "wf_std (gateway_endpoint_tables d)" "wf_std (gateway_secret_tables d)"
    "wf_std (gateway_model_definition_tables d)" "wf_workspace (workspace_tables d)"
  using assms by (simp_all add: wf_db_def)

text \<open>Each repository operation keeps its table well formed.\<close>

lemma insert_permission_wf:
  assumes "insert_permission ext tbl rid owner perm = Inr (tbl', row)" and "wf_perm_table tbl" and "valid_permission perm"
  shows "wf_perm_table tbl'"
proof (cases "perm_at tbl (rid, owner) = None")
  case True
  from insert_permission_absent [OF assms(2) True assms(3), of ext] assms(1) show ?thesis
    by (metis Pair_inject sum.inject(2))
next
  case False
  with assms(1) show ?thesis by (simp add: insert_permission_present)
qed

lemma already_exists_Inr [simp]: "already_exists r = Inr x \<longleftrightarrow> r = Inr x"
  by (auto simp: already_exists_def split: sum.splits exn.splits)

lemma rename_rows_wf:
  assumes "wf_perm_table tbl" and "rename_permissions tbl old new = Inr tbl'"
  shows "wf_perm_table tbl'"
proof -
  from assms(2) have t: "tbl' = rename_rows tbl old new"
    and d: "distinct (map (\<lambda>p. (p_resource p, p_owner p)) tbl')"
    by (auto simp: rename_permissions_def split: if_splits)
  have "unique_on p_id tbl'"
    using assms(1) unfolding t rename_rows_def wf_perm_table_def by (subst unique_on_map_eq) auto
  with d assms(1) show ?thesis
    unfolding wf_perm_table_def t rename_rows_def by (auto simp: unique_on_def)
qed

lemma wipe_permissions_wf [simp]: "wf_perm_table tbl \<Longrightarrow> wf_perm_table (wipe_permissions tbl rid)"
  by (auto simp: wf_perm_table_def wipe_permissions_def filter_list_comp unique_on_filter)

lemma user_writes_wf:
  assumes "wf_perm_table tbl"
  shows "grant_permission us ext tbl rid uname perm = Inr (tbl', row) \<Longrightarrow> wf_perm_table tbl'"
    and "update_permission us tbl rid uname perm = Inr (tbl', row) \<Longrightarrow> wf_perm_table tbl'"
    and "revoke_permission us tbl rid uname = Inr tbl' \<Longrightarrow> wf_perm_table tbl'"
    and "rename_model_permissions tbl old new = Inr tbl' \<Longrightarrow> wf_perm_table tbl'"
  using assms
  by (auto simp: grant_permission_def update_permission_def revoke_permission_def rename_model_permissions_def
      set_permission_row_wf delete_permission_row_wf split: if_splits dest: insert_permission_wf rename_rows_wf)

lemma group_writes_wf:
  assumes "wf_perm_table tbl"
  shows "grant_group_permission gs ext tbl gname rid perm = Inr (tbl', row) \<Longrightarrow> wf_perm_table tbl'"
    and "update_group_permission gs tbl gname rid perm = Inr (tbl', row) \<Longrightarrow> wf_perm_table tbl'"
    and "revoke_group_permission gs tbl gname rid = Inr tbl' \<Longrightarrow> wf_perm_table tbl'"
  using assms
  by (auto simp: grant_group_permission_def update_group_permission_def revoke_group_permission_def
      set_permission_row_wf delete_permission_row_wf dest: insert_permission_wf)

lemma scorer_writes_wf:
  assumes "wf_perm_table tbl"
  shows "scorer_grant us tbl eid sn uname perm = Inr (tbl', row) \<Longrightarrow> wf_perm_table tbl'"
    and "scorer_update us tbl eid sn uname perm = Inr (tbl', row) \<Longrightarrow> wf_perm_table tbl'"
    and "scorer_revoke us tbl eid sn uname = Inr tbl' \<Longrightarrow> wf_perm_table tbl'"
    and "scorer_group_grant gs tbl gname eid sn perm = Inr (tbl', row) \<Longrightarrow> wf_perm_table tbl'"
    and "scorer_group_update gs tbl gname eid sn perm = Inr (tbl', row) \<Longrightarrow> wf_perm_table tbl'"
    and "scorer_group_revoke gs tbl gname eid sn = Inr tbl' \<Longrightarrow> wf_perm_table tbl'"
  using assms
  by (auto simp: scorer_grant_def scorer_update_def scorer_revoke_def scorer_group_grant_def scorer_group_update_def
      scorer_group_revoke_def set_permission_row_wf delete_permission_row_wf
      dest: insert_permission_wf user_writes_wf group_writes_wf)

lemma prompt_writes_wf:
  assumes "wf_perm_table tbl"
  shows "prompt_grant_group gs tbl gname nm perm = Inr (tbl', row) \<Longrightarrow> wf_perm_table tbl'"
    and "prompt_update_group gs tbl gname nm perm = Inr (tbl', row) \<Longrightarrow> wf_perm_table tbl'"
    and "prompt_revoke_group gs tbl gname nm = Inr tbl' \<Longrightarrow> wf_perm_table tbl'"
  using assms
  by (auto simp: prompt_grant_group_def prompt_update_group_def prompt_revoke_group_def
      set_permission_row_wf delete_permission_row_wf dest: insert_permission_wf)

lemma regex_writes_wf:
  assumes "wf_regex_table regex_key tbl"
  shows "regex_grant rc us tbl rx prty perm uname = Inr (tbl', row) \<Longrightarrow> wf_regex_table regex_key tbl'"
    and "regex_update rc us tbl rx prty perm uname i = Inr (tbl', row) \<Longrightarrow> wf_regex_table regex_key tbl'"
    and "gateway_regex_update rc us tbl i rx prty perm uname = Inr (tbl', row) \<Longrightarrow> wf_regex_table regex_key tbl'"
    and "regex_revoke us tbl uname i = Inr tbl' \<Longrightarrow> wf_regex_table regex_key tbl'"
    and "group_regex_grant rc gs tbl gname rx prty perm = Inr (tbl', row) \<Longrightarrow> wf_regex_table regex_key tbl'"
    and "group_regex_update rc gs tbl i gname rx prty perm = Inr (tbl', row) \<Longrightarrow> wf_regex_table regex_key tbl'"
    and "group_regex_revoke gs tbl gname i = Inr tbl' \<Longrightarrow> wf_regex_table regex_key tbl'"
  using assms
  by (auto simp: regex_grant_def regex_update_def gateway_regex_update_def regex_revoke_def
      group_regex_grant_def group_regex_update_def group_regex_revoke_def delete_regex_row_wf
      dest: insert_regex_wf [rotated -1] write_regex_row_wf [rotated -1])

lemma model_regex_writes_wf:
  assumes "wf_regex_table model_regex_key tbl"
  shows "model_regex_grant rc us tbl rx prty perm uname prompt = Inr (tbl', row) \<Longrightarrow> wf_regex_table model_regex_key tbl'"
    and "model_regex_update rc us tbl i rx prty perm uname prompt = Inr (tbl', row) \<Longrightarrow> wf_regex_table model_regex_key tbl'"
    and "model_regex_revoke us tbl i uname prompt = Inr tbl' \<Longrightarrow> wf_regex_table model_regex_key tbl'"
    and "model_group_regex_grant gs tbl gname rx perm prty prompt = Inr (tbl', row) \<Longrightarrow> wf_regex_table model_regex_key tbl'"
    and "model_group_regex_update gs tbl i rx gname perm prty prompt = Inr (tbl', row) \<Longrightarrow> wf_regex_table model_regex_key tbl'"
    and "model_group_regex_revoke gs tbl i gname prompt = Inr tbl' \<Longrightarrow> wf_regex_table model_regex_key tbl'"
  using assms
  by (auto simp: model_regex_grant_def model_regex_update_def model_regex_revoke_def
      model_group_regex_grant_def model_group_regex_update_def model_group_regex_revoke_def delete_regex_row_wf
      dest: insert_regex_wf [rotated -1] write_regex_row_wf [rotated -1])

lemmas repository_writes_wf = user_writes_wf group_writes_wf scorer_writes_wf prompt_writes_wf
  regex_writes_wf model_regex_writes_wf rename_rows_wf

lemma put_row_Inr [simp]: "put_row r put = Inr (d', row) \<longleftrightarrow> (\<exists>tbl. r = Inr (tbl, row) \<and> d' = put tbl)"
  by (auto simp: put_row_def)

lemma put_tbl_Inr [simp]: "put_tbl r put = Inr d' \<longleftrightarrow> (\<exists>tbl. r = Inr tbl \<and> d' = put tbl)"
  by (auto simp: put_tbl_def)

text \<open>A permission write changes permission tables only, and keeps them well formed.\<close>

definition same_principals :: "db \<Rightarrow> db \<Rightarrow> bool" where
  "same_principals d d' \<longleftrightarrow> users d' = users d \<and> groups d' = groups d \<and> user_groups d' = user_groups d \<and>
     user_identities d' = user_identities d \<and> auth_sessions d' = auth_sessions d \<and> auth_states d' = auth_states d"

lemma rename_gateway_endpoint_wf:
  assumes "rename_gateway_endpoint_permissions d old new = (d', r)" and "wf_db d"
  shows "wf_db d' \<and> same_principals d d'"
  using assms
  by (auto simp: rename_gateway_endpoint_permissions_def put_tbl_def bindE_def wf_db_def wf_std_def same_principals_def
      split: sum.splits dest: rename_rows_wf)

lemma wf_db_tables [simp]:
  "wf_db d \<Longrightarrow> wf_perm_table (t_user (experiment_tables d))"
  "wf_db d \<Longrightarrow> wf_perm_table (t_group (experiment_tables d))"
  "wf_db d \<Longrightarrow> wf_regex_table regex_key (t_regex (experiment_tables d))"
  "wf_db d \<Longrightarrow> wf_regex_table regex_key (t_group_regex (experiment_tables d))"
  "wf_db d \<Longrightarrow> wf_perm_table (t_user (scorer_tables d))"
  "wf_db d \<Longrightarrow> wf_perm_table (t_group (scorer_tables d))"
  "wf_db d \<Longrightarrow> wf_regex_table regex_key (t_regex (scorer_tables d))"
  "wf_db d \<Longrightarrow> wf_regex_table regex_key (t_group_regex (scorer_tables d))"
  "wf_db d \<Longrightarrow> wf_perm_table (t_user (gateway_endpoint_tables d))"
  "wf_db d \<Longrightarrow> wf_perm_table (t_group (gateway_endpoint_tables d))"
  "wf_db d \<Longrightarrow> wf_regex_table regex_key (t_regex (gateway_endpoint_tables d))"
  "wf_db d \<Longrightarrow> wf_regex_table regex_key (t_group_regex (gateway_endpoint_tables d))"
  "wf_db d \<Longrightarrow> wf_perm_table (t_user (gateway_secret_tables d))"
  "wf_db d \<Longrightarrow> wf_perm_table (t_group (gateway_secret_tables d))"
  "wf_db d \<Longrightarrow> wf_regex_table regex_key (t_regex (gateway_secret_tables d))"
  "wf_db d \<Longrightarrow> wf_regex_table regex_key (t_group_regex (gateway_secret_tables d))"
  "wf_db d \<Longrightarrow> wf_perm_table (t_user (gateway_model_definition_tables d))"
  "wf_db d \<Longrightarrow> wf_perm_table (t_group (gateway_model_definition_tables d))"
  "wf_db d \<Longrightarrow> wf_regex_table regex_key (t_regex (gateway_model_definition_tables d))"
  "wf_db d \<Longrightarrow> wf_regex_table regex_key (t_group_regex (gateway_model_definition_tables d))"
  "wf_db d \<Longrightarrow> wf_perm_table (t_user (registered_model_tables d))"
  "wf_db d \<Longrightarrow> wf_perm_table (t_group (registered_model_tables d))"
  "wf_db d \<Longrightarrow> wf_regex_table model_regex_key (t_regex (registered_model_tables d))"
  "wf_db d \<Longrightarrow> wf_regex_table model_regex_key (t_group_regex (registered_model_tables d))"
  "wf_db d \<Longrightarrow> unique_on (\<lambda>p. (p_resource p, p_owner p)) (t_user (workspace_tables d))"
  "wf_db d \<Longrightarrow> unique_on (\<lambda>p. (p_resource p, p_owner p)) (t_group (workspace_tables d))"
  "wf_db d \<Longrightarrow> wf_regex_table regex_key (t_regex (workspace_tables d))"
  "wf_db d \<Longrightarrow> wf_regex_table regex_key (t_group_regex (workspace_tables d))"
  by (simp_all add: wf_db_def wf_std_def wf_model_def wf_workspace_def)

lemma wf_db_update:
  "wf_db d \<Longrightarrow> wf_std (f (experiment_tables d)) \<Longrightarrow> wf_db (experiment_tables_update f d)"
  "wf_db d \<Longrightarrow> wf_std (h (scorer_tables d)) \<Longrightarrow> wf_db (scorer_tables_update h d)"
  "wf_db d \<Longrightarrow> wf_std (f (gateway_endpoint_tables d)) \<Longrightarrow> wf_db (gateway_endpoint_tables_update f d)"
  "wf_db d \<Longrightarrow> wf_std (f (gateway_secret_tables d)) \<Longrightarrow> wf_db (gateway_secret_tables_update f d)"
  "wf_db d \<Longrightarrow> wf_std (f (gateway_model_definition_tables d)) \<Longrightarrow> wf_db (gateway_model_definition_tables_update f d)"
  "wf_db d \<Longrightarrow> wf_model (m (registered_model_tables d)) \<Longrightarrow> wf_db (registered_model_tables_update m d)"
  "wf_db d \<Longrightarrow> wf_workspace (w (workspace_tables d)) \<Longrightarrow> wf_db (workspace_tables_update w d)"
  by (simp_all add: wf_db_def)

lemma wf_std_update:
  "wf_std ts \<Longrightarrow> wf_perm_table tbl \<Longrightarrow> wf_std (t_user_update (\<lambda>_. tbl) ts)"
  "wf_std ts \<Longrightarrow> wf_perm_table tbl \<Longrightarrow> wf_std (t_group_update (\<lambda>_. tbl) ts)"
  "wf_std ts \<Longrightarrow> wf_regex_table regex_key tbl' \<Longrightarrow> wf_std (t_regex_update (\<lambda>_. tbl') ts)"
  "wf_std ts \<Longrightarrow> wf_regex_table regex_key tbl' \<Longrightarrow> wf_std (t_group_regex_update (\<lambda>_. tbl') ts)"
  by (simp_all add: wf_std_def)

lemma wf_model_update:
  "wf_model ts \<Longrightarrow> wf_perm_table tu \<Longrightarrow> wf_model (t_user_update (\<lambda>_. tu) ts)"
  "wf_model ts \<Longrightarrow> wf_perm_table tg \<Longrightarrow> wf_model (t_group_update (\<lambda>_. tg) ts)"
  "wf_model ts \<Longrightarrow> wf_regex_table model_regex_key tr \<Longrightarrow> wf_model (t_regex_update (\<lambda>_. tr) ts)"
  "wf_model ts \<Longrightarrow> wf_regex_table model_regex_key tr \<Longrightarrow> wf_model (t_group_regex_update (\<lambda>_. tr) ts)"
  by (simp_all add: wf_model_def)

lemma wf_workspace_update:
  "wf_workspace ts \<Longrightarrow> wf_regex_table regex_key tr \<Longrightarrow> wf_workspace (t_regex_update (\<lambda>_. tr) ts)"
  "wf_workspace ts \<Longrightarrow> wf_regex_table regex_key tr \<Longrightarrow> wf_workspace (t_group_regex_update (\<lambda>_. tr) ts)"
  "wf_workspace ts \<Longrightarrow> unique_on (\<lambda>p. (p_resource p, p_owner p)) tbl \<Longrightarrow> wf_workspace (t_user_update (\<lambda>_. tbl) ts)"
  "wf_workspace ts \<Longrightarrow> unique_on (\<lambda>p. (p_resource p, p_owner p)) tbl \<Longrightarrow> wf_workspace (t_group_update (\<lambda>_. tbl) ts)"
  by (simp_all add: wf_workspace_def)

lemma same_principals_update [simp]:
  "same_principals d d"
  "same_principals d (experiment_tables_update f d)"
  "same_principals d (scorer_tables_update h d)"
  "same_principals d (gateway_endpoint_tables_update f d)"
  "same_principals d (gateway_secret_tables_update f d)"
  "same_principals d (gateway_model_definition_tables_update f d)"
  "same_principals d (registered_model_tables_update m d)"
  "same_principals d (workspace_tables_update f d)"
  by (simp_all add: same_principals_def)

lemmas wf_db_intros = wf_db_update wf_std_update wf_model_update wf_dbD
lemmas repository_wf_elims = repository_writes_wf [rotated -1]

lemma permission_write_principals: "permission_write d d' \<Longrightarrow> same_principals d d'"
proof (induction rule: permission_write.induct)
  case (pw_rename_gateway_endpoint_permissions d old new d')
  then show ?case
    by (auto simp: rename_gateway_endpoint_permissions_def put_tbl_def bindE_def same_principals_def split: sum.splits)
qed (auto simp only: store_write_defs put_row_Inr put_tbl_Inr same_principals_update sum.inject)

lemma permission_write_workspaces: "permission_write d d' \<Longrightarrow> workspace_tables d' = workspace_tables d"
proof (induction rule: permission_write.induct)
  case (pw_rename_gateway_endpoint_permissions d old new d')
  then show ?case
    by (auto simp: rename_gateway_endpoint_permissions_def put_tbl_def bindE_def split: sum.splits)
qed (simp only: store_write_defs put_row_Inr put_tbl_Inr sum.inject, (elim exE conjE)?, hypsubst, simp)+

lemma wipe_methods_wf:
  "wipe_registered_model_permissions d rid = Inr d' \<Longrightarrow> wf_db d \<Longrightarrow> wf_db d'"
  "wipe_group_model_permissions d rid = Inr d' \<Longrightarrow> wf_db d \<Longrightarrow> wf_db d'"
  "delete_scorer_permissions_for_scorer d eid sn = Inr d' \<Longrightarrow> wf_db d \<Longrightarrow> wf_db d'"
  "wipe_gateway_secret_permissions d rid = Inr d' \<Longrightarrow> wf_db d \<Longrightarrow> wf_db d'"
  "wipe_gateway_endpoint_permissions d rid = Inr d' \<Longrightarrow> wf_db d \<Longrightarrow> wf_db d'"
  "wipe_gateway_model_definition_permissions d rid = Inr d' \<Longrightarrow> wf_db d \<Longrightarrow> wf_db d'"
  by (simp only: store_write_defs put_tbl_Inr sum.inject, (elim exE conjE)?, hypsubst, intro wf_db_update;
      simp add: wf_std_def wf_model_def)+

lemma swapped_deletes_wf:
  "delete_group_gateway_secret_regex_permission cmp d i gname = Inr d' \<Longrightarrow> wf_db d \<Longrightarrow> wf_db d'"
  "delete_group_gateway_endpoint_regex_permission cmp d i gname = Inr d' \<Longrightarrow> wf_db d \<Longrightarrow> wf_db d'"
  "delete_group_gateway_model_definition_regex_permission cmp d i gname = Inr d' \<Longrightarrow> wf_db d \<Longrightarrow> wf_db d'"
  by (simp only: store_write_defs put_tbl_Inr bindE_eq_Inr sum.inject, elim exE conjE, hypsubst,
      intro wf_db_intros; simp add: delete_regex_row_wf)+

lemma permission_write_wf:
  assumes "permission_write d d'" and "wf_db d"
  shows "wf_db d'"
  using assms
proof (induction rule: permission_write.induct)
  case (pw_rename_gateway_endpoint_permissions d old new d')
  then show ?case using rename_gateway_endpoint_wf by blast
qed ((erule (1) wipe_methods_wf swapped_deletes_wf)
    | (simp only: store_write_defs put_row_Inr put_tbl_Inr, elim exE conjE, hypsubst,
       intro wf_db_intros; (assumption | erule repository_wf_elims; simp)))+

lemma workspace_regex_write_wf:
  assumes "workspace_regex_write d d'" and "wf_db d"
  shows "wf_db d' \<and> same_principals d d'"
  using assms
  by (induction rule: workspace_regex_write.induct)
    (simp only: store_write_defs put_row_Inr put_tbl_Inr, elim exE conjE, hypsubst,
      intro conjI same_principals_update wf_db_intros wf_workspace_update;
      (assumption | erule regex_writes_wf [rotated -1]; simp))+

text \<open>The grants on workspaces, and memberships.\<close>

lemma workspace_table_writes:
  assumes "unique_on (\<lambda>p. (p_resource p, p_owner p)) tbl"
  shows "workspace_create tbl ws uid perm = Inr (tbl', row) \<Longrightarrow> unique_on (\<lambda>p. (p_resource p, p_owner p)) tbl'"
    and "workspace_update tbl ws uid perm = Inr (tbl', row) \<Longrightarrow> unique_on (\<lambda>p. (p_resource p, p_owner p)) tbl'"
    and "workspace_delete tbl ws uid = Inr tbl' \<Longrightarrow> unique_on (\<lambda>p. (p_resource p, p_owner p)) tbl'"
    and "workspace_group_create tbl ws uid perm = Inr (tbl', row) \<Longrightarrow> unique_on (\<lambda>p. (p_resource p, p_owner p)) tbl'"
    and "workspace_group_update tbl ws uid perm = Inr (tbl', row) \<Longrightarrow> unique_on (\<lambda>p. (p_resource p, p_owner p)) tbl'"
    and "workspace_group_delete tbl ws uid = Inr tbl' \<Longrightarrow> unique_on (\<lambda>p. (p_resource p, p_owner p)) tbl'"
    and "unique_on (\<lambda>p. (p_resource p, p_owner p)) (fst (workspace_delete_all tbl ws))"
    and "unique_on (\<lambda>p. (p_resource p, p_owner p)) (fst (workspace_group_delete_all tbl ws))"
  using assms
  by (auto simp: workspace_create_def workspace_update_def workspace_delete_def workspace_group_create_def
      workspace_group_update_def workspace_group_delete_def workspace_delete_all_def workspace_group_delete_all_def
      insert_permission_def Let_def filter_list_comp unique_on_filter unique_on_map_eq split: if_splits)

lemma workspace_writes_wf:
  "create_workspace_permission d ws uname perm = Inr (d', row) \<Longrightarrow> wf_db d \<Longrightarrow> wf_db d'"
  "update_workspace_permission d ws uname perm = Inr (d', row) \<Longrightarrow> wf_db d \<Longrightarrow> wf_db d'"
  "delete_workspace_permission d ws uname = Inr d' \<Longrightarrow> wf_db d \<Longrightarrow> wf_db d'"
  "create_workspace_group_permission d ws gname perm = Inr (d', row) \<Longrightarrow> wf_db d \<Longrightarrow> wf_db d'"
  "update_workspace_group_permission d ws gname perm = Inr (d', row) \<Longrightarrow> wf_db d \<Longrightarrow> wf_db d'"
  "delete_workspace_group_permission d ws gname = Inr d' \<Longrightarrow> wf_db d \<Longrightarrow> wf_db d'"
  by (simp only: store_write_defs put_row_Inr put_tbl_Inr bindE_eq_Inr, elim exE conjE, hypsubst,
      intro wf_db_intros wf_workspace_update; (assumption | erule workspace_table_writes(1-6) [rotated -1]; simp))+

lemma wipe_workspace_permissions_wf:
  "wipe_workspace_permissions d ws = Inr (d', n) \<Longrightarrow> wf_db d \<Longrightarrow> wf_db d'"
  by (simp only: wipe_workspace_permissions_def Let_def case_prod_unfold sum.inject prod.inject, elim conjE, hypsubst,
      intro wf_db_intros) (simp_all add: wf_workspace_def workspace_table_writes(7,8))

lemma membership_writes_wf:
  "store_add_user_to_group d uname gname = Inr d' \<Longrightarrow> wf_db d \<Longrightarrow> wf_db d'"
  "store_remove_user_from_group d uname gname = Inr d' \<Longrightarrow> wf_db d \<Longrightarrow> wf_db d'"
  "set_user_groups d uname names = Inr d' \<Longrightarrow> wf_db d \<Longrightarrow> wf_db d'"
  "wf_db d \<Longrightarrow> wf_db (populate_groups d names)"
proof -
  show "wf_db d'" if "store_add_user_to_group d uname gname = Inr d'" "wf_db d"
    using that by (auto simp: store_add_user_to_group_def add_user_to_group_def wf_db_def dest: insert_link_wf [rotated])
  show "wf_db d'" if "store_remove_user_from_group d uname gname = Inr d'" "wf_db d"
    using that by (auto simp: store_remove_user_from_group_def remove_user_from_group_def wf_db_def wf_user_groups_def
        filter_list_comp unique_on_filter)
  show "wf_db d'" if "set_user_groups d uname names = Inr d'" "wf_db d"
    using that by (auto simp: set_user_groups_def wf_db_def elim: set_groups_for_user_Inr [rotated 3])
  show "wf_db (populate_groups d names)" if "wf_db d"
    using that by (simp add: populate_groups_def wf_db_def create_groups_wf)
qed

lemma set_user_groups_sync:
  assumes wf: "wf_db d" and user: "get_user (users d) uname = Inr u" and names: "set names \<subseteq> g_group_name ` set (groups d)"
  shows "\<exists>d'. set_user_groups d uname names = Inr d' \<and> wf_db d' \<and> set (get_groups_for_user d' uname) = set names \<and>
    (\<forall>n. n \<noteq> uname \<longrightarrow> set (get_groups_for_user d' n) = set (get_groups_for_user d n))"
proof -
  note us = wf_dbD(1) [OF wf] and gs = wf_dbD(2) [OF wf] and ugs = wf_dbD(3) [OF wf]
  have u: "u \<in> set (users d)" "u_username u = uname" using user get_user_Inr_iff [OF us] by auto
  obtain ugs' where run: "set_groups_for_user (users d) (groups d) (user_groups d) uname names = Inr ugs'"
    using set_groups_for_user_total [OF us gs, of uname names "user_groups d"] u names by auto
  then have op: "set_user_groups d uname names = Inr (d\<lparr>user_groups := ugs'\<rparr>)" by (simp add: set_user_groups_def)
  obtain v where v: "get_user (users d) uname = Inr v" "wf_user_groups ugs'"
    "\<And>w g. g \<in> set (groups d) \<Longrightarrow>
       (member ugs' w (g_id g) \<longleftrightarrow> (if w = u_id v then g_group_name g \<in> set names else member (user_groups d) w (g_id g)))"
    by (rule set_groups_for_user_Inr [OF us gs ugs run]) (rule that)
  have "v = u" using v(1) user by simp
  have "set (get_groups_for_user (d\<lparr>user_groups := ugs'\<rparr>) uname) = set names"
    using user v(3) names by (auto simp: get_groups_for_user_def set_list_groups_for_user [OF us v(2)] \<open>v = u\<close>)
  moreover have "set (get_groups_for_user (d\<lparr>user_groups := ugs'\<rparr>) n) = set (get_groups_for_user d n)" if "n \<noteq> uname" for n
  proof (cases "get_user (users d) n")
    case (Inr w)
    then have "w \<in> set (users d)" "u_username w = n" using get_user_Inr_iff [OF us] by auto
    with u that have "u_id w \<noteq> u_id u" using us unfolding wf_users_def by (metis unique_onD)
    with Inr v(3) show ?thesis
      by (auto simp: get_groups_for_user_def set_list_groups_for_user [OF us v(2)] set_list_groups_for_user [OF us ugs] \<open>v = u\<close>)
  qed (simp add: get_groups_for_user_def set_list_groups_for_user [OF us v(2)] set_list_groups_for_user [OF us ugs])
  ultimately show ?thesis using op membership_writes_wf(3) [OF op wf] by blast
qed

end
