(* ===== verification/Ownership.thy ===== *)
theory Ownership
  imports Database
begin

section \<open>Row ownership (ownership.py)\<close>

text \<open>
  Who may write a user row that another source owns: the enforcement modes, the reading of the
  configured mode and the decision \<^verbatim>\<open>evaluate_write\<close>. The explanatory strings of
  a decision are constructors that carry the values the source formats into them. The lemmas say
  when a write is refused and when a conflict is recorded.
\<close>

definition MANUAL :: string where
  "MANUAL = ''manual''"

datatype enforcement = OFF | REPORT | ENFORCE

definition Enforcement :: "string \<Rightarrow> enforcement option" where
  "Enforcement s =
     (if s = ''off'' then Some OFF
      else if s = ''report'' then Some REPORT
      else if s = ''enforce'' then Some ENFORCE
      else None)"

datatype ownership_reason =
    NoReason
  | AdministratorOverride (override_owner: string) (override_writer: string)
  | MayNotWrite (refused_writer: string) (refused_owner: string)
  | MayNotWriteReported (reported_writer: string) (reported_owner: string)

record ownership_decision =
  allowed :: bool
  conflict :: bool
  od_reason :: ownership_reason
  od_owner :: "string option"

definition parse_enforcement :: "string option \<Rightarrow> enforcement" where
  "parse_enforcement value =
     (case value of
        None \<Rightarrow> REPORT
      | Some s \<Rightarrow> (case Enforcement (py_lower (py_strip s)) of Some m \<Rightarrow> m | None \<Rightarrow> REPORT))"

text \<open>\<^verbatim>\<open>x or MANUAL\<close>: neither \<^verbatim>\<open>None\<close> nor the empty string names a source.\<close>

definition or_manual :: "string option \<Rightarrow> string" where
  "or_manual v = (case v of None \<Rightarrow> MANUAL | Some s \<Rightarrow> if s = [] then MANUAL else s)"

definition evaluate_write :: "string option \<Rightarrow> string option \<Rightarrow> enforcement \<Rightarrow> bool \<Rightarrow> ownership_decision" where
  "evaluate_write current_owner written_by enf admin_override =
     (let writer = or_manual written_by; owner = or_manual current_owner in
      if owner = writer \<or> owner = MANUAL
      then \<lparr>allowed = True, conflict = False, od_reason = NoReason, od_owner = None\<rparr>
      else if admin_override
      then \<lparr>allowed = True, conflict = True, od_reason = AdministratorOverride owner writer, od_owner = Some owner\<rparr>
      else if enf = ENFORCE
      then \<lparr>allowed = False, conflict = True, od_reason = MayNotWrite writer owner, od_owner = Some owner\<rparr>
      else if enf = OFF
      then \<lparr>allowed = True, conflict = False, od_reason = NoReason, od_owner = None\<rparr>
      else \<lparr>allowed = True, conflict = True, od_reason = MayNotWriteReported writer owner, od_owner = Some owner\<rparr>)"

text \<open>The truth value of an optional string.\<close>

definition is_given :: "string option \<Rightarrow> bool" where
  "is_given v = (case v of None \<Rightarrow> False | Some s \<Rightarrow> s \<noteq> [])"

text \<open>A write crosses ownership when another source than \<^verbatim>\<open>manual\<close> owns the row.\<close>

definition crosses :: "string option \<Rightarrow> string option \<Rightarrow> bool" where
  "crosses current_owner written_by \<longleftrightarrow> or_manual current_owner \<notin> {or_manual written_by, MANUAL}"

lemma evaluate_write_allowed:
  "allowed (evaluate_write owner writer enf override) \<longleftrightarrow> crosses owner writer \<longrightarrow> enf \<noteq> ENFORCE \<or> override"
  by (auto simp: evaluate_write_def crosses_def Let_def)

lemma evaluate_write_conflict:
  "conflict (evaluate_write owner writer enf override) \<longleftrightarrow> crosses owner writer \<and> (override \<or> enf \<noteq> OFF)"
  by (cases enf) (auto simp: evaluate_write_def crosses_def Let_def)

lemma evaluate_write_refused:
  "\<not> allowed (evaluate_write owner writer enf override) \<longleftrightarrow> crosses owner writer \<and> enf = ENFORCE \<and> \<not> override"
  by (auto simp: evaluate_write_allowed)

lemma refused_is_conflict:
  "\<not> allowed (evaluate_write owner writer enf override) \<Longrightarrow> conflict (evaluate_write owner writer enf override)"
  by (auto simp: evaluate_write_refused evaluate_write_conflict)

text \<open>Only the three spellings change the mode; anything else reports.\<close>

lemma parse_enforcement_ENFORCE:
  "parse_enforcement value = ENFORCE \<longleftrightarrow> (\<exists>s. value = Some s \<and> py_lower (py_strip s) = ''enforce'')"
  by (auto simp: parse_enforcement_def Enforcement_def split: option.splits)

lemma parse_enforcement_OFF:
  "parse_enforcement value = OFF \<longleftrightarrow> (\<exists>s. value = Some s \<and> py_lower (py_strip s) = ''off'')"
  by (auto simp: parse_enforcement_def Enforcement_def split: option.splits)

end
