(* ===== verification/Users.thy ===== *)
theory Users
  imports Store Ownership
begin

section \<open>Accounts (repository/user.py, user.py)\<close>

text \<open>
  The methods of \<^verbatim>\<open>UserRepository\<close> over the whole database, the store methods that
  delegate to them and \<^verbatim>\<open>create_user\<close> of \<^verbatim>\<open>user.py\<close>. MLflow's
  user name validation, Werkzeug's hashing and the clock are fields of an environment. An operation
  that writes audit records returns them beside its result, since a refused write is recorded too.
  The lemmas: an active administrator always remains, deactivation revokes every live session,
  deletion leaves no row of the user, and what \<^verbatim>\<open>authenticate\<close> accepts.
\<close>

record user_env =
  validate_username :: "string \<Rightarrow> unit res"
  generate_password_hash :: "string \<Rightarrow> string"
  check_password_hash :: "string \<Rightarrow> string \<Rightarrow> bool"
  now :: int
  MANAGED_BY_ENFORCEMENT :: enforcement

datatype audit_event =
    OwnershipConflict (oc_username: string) (oc_owner: "string option") (oc_written_by: string)
      (oc_reason: ownership_reason) (oc_permitted: bool)
  | SessionsRevoked (sr_username: string) (sr_count: nat) (sr_reason: string)

definition normalize_username :: "string \<Rightarrow> string" where
  "normalize_username uname = py_lower uname"

subsection \<open>The user entity\<close>

record user_entity =
  ue_id :: int
  ue_username :: string
  ue_display_name :: string
  ue_password_hash :: string
  ue_password_expiration :: "int option"
  ue_is_admin :: bool
  ue_is_service_account :: bool
  ue_active :: bool
  ue_managed_by :: string
  ue_experiment_permissions :: "string perm_row list"
  ue_registered_model_permissions :: "string perm_row list"
  ue_scorer_permissions :: "(string \<times> string) perm_row list"
  ue_gateway_endpoint_permissions :: "string perm_row list"
  ue_gateway_model_definition_permissions :: "string perm_row list"
  ue_gateway_secret_permissions :: "string perm_row list"
  ue_groups :: "group_row list"

definition owned :: "int \<Rightarrow> ('r, 'z) perm_row_scheme list \<Rightarrow> ('r, 'z) perm_row_scheme list" where
  "owned uid tbl = [p. p \<leftarrow> tbl, p_owner p = uid]"

text \<open>The relationship \<^verbatim>\<open>SqlUser.groups\<close>, through \<^verbatim>\<open>user_groups\<close>.\<close>

definition groups_of :: "db \<Rightarrow> int \<Rightarrow> group_row list" where
  "groups_of d uid = [g. ug \<leftarrow> user_groups d, g \<leftarrow> groups d, ug_user_id ug = uid \<and> ug_group_id ug = g_id g]"

definition to_mlflow_entity :: "db \<Rightarrow> user_row \<Rightarrow> user_entity" where
  "to_mlflow_entity d u =
     \<lparr>ue_id = u_id u, ue_username = u_username u, ue_display_name = u_display_name u,
      ue_password_hash = u_password_hash u, ue_password_expiration = u_password_expiration u,
      ue_is_admin = u_is_admin u, ue_is_service_account = u_is_service_account u,
      ue_active = u_active u, ue_managed_by = u_managed_by u,
      ue_experiment_permissions = owned (u_id u) (t_user (experiment_tables d)),
      ue_registered_model_permissions = owned (u_id u) (t_user (registered_model_tables d)),
      ue_scorer_permissions = owned (u_id u) (t_user (scorer_tables d)),
      ue_gateway_endpoint_permissions = owned (u_id u) (t_user (gateway_endpoint_tables d)),
      ue_gateway_model_definition_permissions = owned (u_id u) (t_user (gateway_model_definition_tables d)),
      ue_gateway_secret_permissions = owned (u_id u) (t_user (gateway_secret_tables d)),
      ue_groups = groups_of d (u_id u)\<rparr>"

subsection \<open>The repository\<close>

definition assert_not_last_active_admin :: "user_row list \<Rightarrow> user_row \<Rightarrow> unit res" where
  "assert_not_last_active_admin us u =
     (if \<not> (u_is_admin u \<and> u_active u) then Inr ()
      else if length [v. v \<leftarrow> us, u_is_admin v \<and> u_active v \<and> u_id v \<noteq> u_id u] = 0
      then Inl (MlflowException INVALID_STATE)
      else Inr ())"

definition user_create :: "user_env \<Rightarrow> db \<Rightarrow> string \<Rightarrow> string \<Rightarrow> string \<Rightarrow> bool \<Rightarrow> bool \<Rightarrow> (db \<times> user_entity) res" where
  "user_create env d uname password display is_admin is_sa =
     (let uname' = normalize_username uname in
      bindE (validate_username env uname') (\<lambda>_.
      if uname' \<in> u_username ` set (users d) then Inl (MlflowException RESOURCE_ALREADY_EXISTS)
      else let u = \<lparr>u_id = next_id u_id (users d), u_username = uname', u_display_name = display,
                    u_password_hash = generate_password_hash env password, u_password_expiration = None,
                    u_is_admin = is_admin, u_is_service_account = is_sa, u_active = True, u_managed_by = MANUAL\<rparr>;
               d' = d\<lparr>users := users d @ [u]\<rparr>
           in Inr (d', to_mlflow_entity d' u)))"

text \<open>\<^verbatim>\<open>query(SqlUser).filter(username == ...).one_or_none()\<close>, refused when empty.\<close>

definition user_get :: "db \<Rightarrow> string \<Rightarrow> user_entity res" where
  "user_get d uname =
     bindE (sql_one_or_none [u. u \<leftarrow> users d, u_username u = normalize_username uname]) (\<lambda>r.
     case r of None \<Rightarrow> Inl (MlflowException RESOURCE_DOES_NOT_EXIST) | Some u \<Rightarrow> Inr (to_mlflow_entity d u))"

definition user_get_profile :: "db \<Rightarrow> string \<Rightarrow> user_entity res" where
  "user_get_profile d uname =
     bindE (sql_one_or_none [u. u \<leftarrow> users d, u_username u = normalize_username uname]) (\<lambda>r.
     case r of
       None \<Rightarrow> Inl (MlflowException RESOURCE_DOES_NOT_EXIST)
     | Some u \<Rightarrow> Inr
         \<lparr>ue_id = u_id u, ue_username = u_username u, ue_display_name = u_display_name u,
          ue_password_hash = ''REDACTED'', ue_password_expiration = u_password_expiration u,
          ue_is_admin = u_is_admin u, ue_is_service_account = u_is_service_account u,
          ue_active = u_active u, ue_managed_by = u_managed_by u,
          ue_experiment_permissions = [], ue_registered_model_permissions = [], ue_scorer_permissions = [],
          ue_gateway_endpoint_permissions = [], ue_gateway_model_definition_permissions = [],
          ue_gateway_secret_permissions = [], ue_groups = groups_of d (u_id u)\<rparr>)"

definition user_exist :: "db \<Rightarrow> string \<Rightarrow> bool" where
  "user_exist d uname = ([u. u \<leftarrow> users d, u_username u = normalize_username uname] \<noteq> [])"

definition user_list :: "db \<Rightarrow> bool \<Rightarrow> bool \<Rightarrow> user_entity list" where
  "user_list d is_sa all_users = map (to_mlflow_entity d) [u. u \<leftarrow> users d, all_users \<or> u_is_service_account u = is_sa]"

definition user_list_usernames :: "db \<Rightarrow> bool \<Rightarrow> string list" where
  "user_list_usernames d is_sa = [u_username u. u \<leftarrow> users d, u_is_service_account u = is_sa]"

text \<open>
  The optional arguments of \<^verbatim>\<open>update\<close> but for the two that only the ownership guard
  reads. A new password always sets the expiration, an expiration alone only when given.
\<close>

record user_changes =
  ch_password :: "string option"
  ch_password_expiration :: "int option"
  ch_is_admin :: "bool option"
  ch_is_service_account :: "bool option"
  ch_active :: "bool option"
  ch_managed_by :: "string option"

definition given :: "'a \<Rightarrow> 'a option \<Rightarrow> 'a" where
  "given old v = (case v of None \<Rightarrow> old | Some x \<Rightarrow> x)"

definition change_row :: "user_env \<Rightarrow> user_changes \<Rightarrow> user_row \<Rightarrow> user_row" where
  "change_row env ch u =
     u\<lparr>u_password_hash := (case ch_password ch of None \<Rightarrow> u_password_hash u | Some p \<Rightarrow> generate_password_hash env p),
       u_password_expiration :=
         (if ch_password ch \<noteq> None then ch_password_expiration ch
          else if ch_password_expiration ch \<noteq> None then ch_password_expiration ch
          else u_password_expiration u),
       u_is_admin := given (u_is_admin u) (ch_is_admin ch),
       u_is_service_account := given (u_is_service_account u) (ch_is_service_account ch),
       u_active := given (u_active u) (ch_active ch),
       u_managed_by := given (u_managed_by u) (ch_managed_by ch)\<rparr>"

definition put_user :: "user_row list \<Rightarrow> user_row \<Rightarrow> user_row list" where
  "put_user us u = map (\<lambda>v. if u_id v = u_id u then u else v) us"

text \<open>
  \<^verbatim>\<open>query(SqlAuthSession).filter(user_id == ..., revoked_at IS NULL).update(...)\<close>.
\<close>

definition is_live_of :: "int \<Rightarrow> session_row \<Rightarrow> bool" where
  "is_live_of uid s \<longleftrightarrow> s_user_id s = uid \<and> s_revoked_at s = None"

definition revoke_live :: "int \<Rightarrow> int \<Rightarrow> session_row list \<Rightarrow> session_row list" where
  "revoke_live t uid ss = map (\<lambda>s. if is_live_of uid s then s\<lparr>s_revoked_at := Some t\<rparr> else s) ss"

definition user_update ::
  "user_env \<Rightarrow> db \<Rightarrow> string \<Rightarrow> user_changes \<Rightarrow> string option \<Rightarrow> bool \<Rightarrow> (db \<times> user_entity) res \<times> audit_event list" where
  "user_update env d uname ch written_by admin_override =
     (let uname' = normalize_username uname in
      case get_user (users d) uname' of
        Inl e \<Rightarrow> (Inl e, [])
      | Inr u \<Rightarrow>
          (let decision = evaluate_write (Some (u_managed_by u)) written_by (MANAGED_BY_ENFORCEMENT env) admin_override;
               conflict_event = (\<lambda>ok. if conflict decision
                  then [OwnershipConflict uname' (od_owner decision) (or_manual written_by) (od_reason decision) ok] else [])
           in if \<not> allowed decision then (Inl (MlflowException INVALID_PARAMETER_VALUE), conflict_event False)
              else case (if ch_active ch = Some False \<or> ch_is_admin ch = Some False
                         then assert_not_last_active_admin (users d) u else Inr ()) of
                     Inl e \<Rightarrow> (Inl e, [])
                   | Inr _ \<Rightarrow>
                       (let u' = change_row env ch u;
                            deactivated = (ch_active ch = Some False);
                            revoked = (if deactivated then length (filter (is_live_of (u_id u)) (auth_sessions d)) else 0);
                            d' = d\<lparr>users := put_user (users d) u',
                                   auth_sessions := (if deactivated then revoke_live (now env) (u_id u) (auth_sessions d)
                                                     else auth_sessions d)\<rparr>
                        in (Inr (d', to_mlflow_entity d' u'),
                            conflict_event True @
                            (if revoked > 0 then [SessionsRevoked uname' revoked ''user_deactivated''] else [])))))"

text \<open>
  Deletion: every dependent row goes first, each table by its own statement, then the user. The
  final flush fails when a row still refers to the user.
\<close>

definition drop_owner :: "int \<Rightarrow> ('r, 'z) perm_row_scheme list \<Rightarrow> ('r, 'z) perm_row_scheme list" where
  "drop_owner uid tbl = [p. p \<leftarrow> tbl, p_owner p \<noteq> uid]"

definition drop_regex_owner :: "int \<Rightarrow> 'z regex_row_scheme list \<Rightarrow> 'z regex_row_scheme list" where
  "drop_regex_owner uid tbl = [r. r \<leftarrow> tbl, rx_owner r \<noteq> uid]"

definition drop_user_rows :: "int \<Rightarrow> (('r, 'a) perm_row_scheme, 'g, 'b regex_row_scheme, 'y) perm_tables \<Rightarrow>
    (('r, 'a) perm_row_scheme, 'g, 'b regex_row_scheme, 'y) perm_tables" where
  "drop_user_rows uid ts = ts\<lparr>t_user := drop_owner uid (t_user ts), t_regex := drop_regex_owner uid (t_regex ts)\<rparr>"

definition user_refs :: "db \<Rightarrow> int list" where
  "user_refs d =
     map p_owner (t_user (experiment_tables d)) @ map rx_owner (t_regex (experiment_tables d)) @
     map p_owner (t_user (registered_model_tables d)) @ map rx_owner (t_regex (registered_model_tables d)) @
     map p_owner (t_user (scorer_tables d)) @ map rx_owner (t_regex (scorer_tables d)) @
     map p_owner (t_user (gateway_endpoint_tables d)) @ map rx_owner (t_regex (gateway_endpoint_tables d)) @
     map p_owner (t_user (gateway_secret_tables d)) @ map rx_owner (t_regex (gateway_secret_tables d)) @
     map p_owner (t_user (gateway_model_definition_tables d)) @ map rx_owner (t_regex (gateway_model_definition_tables d)) @
     map p_owner (t_user (workspace_tables d)) @ map rx_owner (t_regex (workspace_tables d)) @
     map ug_user_id (user_groups d) @ map i_user_id (user_identities d) @ map s_user_id (auth_sessions d)"

definition drop_dependents :: "int \<Rightarrow> db \<Rightarrow> db" where
  "drop_dependents uid d =
     d\<lparr>auth_sessions := [s. s \<leftarrow> auth_sessions d, s_user_id s \<noteq> uid],
       user_identities := [i. i \<leftarrow> user_identities d, i_user_id i \<noteq> uid],
       experiment_tables := drop_user_rows uid (experiment_tables d),
       registered_model_tables := drop_user_rows uid (registered_model_tables d),
       scorer_tables := drop_user_rows uid (scorer_tables d),
       gateway_endpoint_tables := drop_user_rows uid (gateway_endpoint_tables d),
       gateway_secret_tables := drop_user_rows uid (gateway_secret_tables d),
       gateway_model_definition_tables := drop_user_rows uid (gateway_model_definition_tables d),
       workspace_tables := drop_user_rows uid (workspace_tables d),
       user_groups := [ug. ug \<leftarrow> user_groups d, ug_user_id ug \<noteq> uid]\<rparr>"

definition delete_user_row :: "int \<Rightarrow> db \<Rightarrow> db res" where
  "delete_user_row uid d =
     (if uid \<in> set (user_refs d) then Inl IntegrityError
      else Inr (d\<lparr>users := [u. u \<leftarrow> users d, u_id u \<noteq> uid]\<rparr>))"

definition user_delete :: "db \<Rightarrow> string \<Rightarrow> db res \<times> audit_event list" where
  "user_delete d uname =
     (let uname' = normalize_username uname in
      case get_user (users d) uname' of
        Inl e \<Rightarrow> (Inl e, [])
      | Inr u \<Rightarrow>
          (case assert_not_last_active_admin (users d) u of
             Inl e \<Rightarrow> (Inl e, [])
           | Inr _ \<Rightarrow>
               (let deleted = length (filter (is_live_of (u_id u)) (auth_sessions d)) in
                case delete_user_row (u_id u) (drop_dependents (u_id u) d) of
                  Inl e \<Rightarrow> (Inl e, [])
                | Inr d' \<Rightarrow> (Inr d', if deleted > 0 then [SessionsRevoked uname' deleted ''user_deleted''] else []))))"

definition user_authenticate :: "user_env \<Rightarrow> db \<Rightarrow> string \<Rightarrow> string \<Rightarrow> bool res" where
  "user_authenticate env d uname password =
     (case get_user (users d) (normalize_username uname) of
        Inl (MlflowException c) \<Rightarrow> Inr False
      | Inl e \<Rightarrow> Inl e
      | Inr u \<Rightarrow>
          (case u_password_expiration u of
             Some t \<Rightarrow> if t < now env then Inr False else Inr (check_password_hash env (u_password_hash u) password)
           | None \<Rightarrow> Inr (check_password_hash env (u_password_hash u) password)))"

subsection \<open>The store methods (sqlalchemy_store.py)\<close>

definition authenticate_user :: "user_env \<Rightarrow> db \<Rightarrow> string \<Rightarrow> string \<Rightarrow> bool res" where
  "authenticate_user env d uname password = user_authenticate env d uname password"

definition store_create_user :: "user_env \<Rightarrow> db \<Rightarrow> string \<Rightarrow> string \<Rightarrow> string \<Rightarrow> bool \<Rightarrow> bool \<Rightarrow> (db \<times> user_entity) res" where
  "store_create_user env d uname password display is_admin is_sa = user_create env d uname password display is_admin is_sa"

definition has_user :: "db \<Rightarrow> string \<Rightarrow> bool" where
  "has_user d uname = user_exist d uname"

definition store_get_user :: "db \<Rightarrow> string \<Rightarrow> user_entity res" where
  "store_get_user d uname = user_get d uname"

definition get_user_profile :: "db \<Rightarrow> string \<Rightarrow> user_entity res" where
  "get_user_profile d uname = user_get_profile d uname"

definition list_users :: "db \<Rightarrow> bool \<Rightarrow> bool \<Rightarrow> user_entity list" where
  "list_users d is_sa all_users = user_list d is_sa all_users"

definition list_usernames :: "db \<Rightarrow> bool \<Rightarrow> string list" where
  "list_usernames d is_sa = user_list_usernames d is_sa"

definition update_user ::
  "user_env \<Rightarrow> db \<Rightarrow> string \<Rightarrow> user_changes \<Rightarrow> string option \<Rightarrow> bool \<Rightarrow> (db \<times> user_entity) res \<times> audit_event list" where
  "update_user env d uname ch written_by admin_override = user_update env d uname ch written_by admin_override"

definition delete_user :: "db \<Rightarrow> string \<Rightarrow> db res \<times> audit_event list" where
  "delete_user d uname = user_delete d uname"

subsection \<open>Provisioning (user.py)\<close>

text \<open>
  \<^verbatim>\<open>create_user\<close> refreshes an existing account and creates an absent one with a fresh
  token; only the error that says the user is absent leads to creation. The result tells whether
  the account is new.
\<close>

definition no_changes :: user_changes where
  "no_changes = \<lparr>ch_password = None, ch_password_expiration = None, ch_is_admin = None,
     ch_is_service_account = None, ch_active = None, ch_managed_by = None\<rparr>"

definition create_user ::
  "user_env \<Rightarrow> string \<Rightarrow> db \<Rightarrow> string \<Rightarrow> string \<Rightarrow> bool \<Rightarrow> bool \<Rightarrow> string option \<Rightarrow> bool \<Rightarrow> (db \<times> bool) res \<times> audit_event list" where
  "create_user env token d uname display is_admin is_sa written_by admin_override =
     (let (r, audits) =
        (case get_user_profile d uname of
           Inl e \<Rightarrow> (Inl e, [])
         | Inr _ \<Rightarrow> update_user env d uname
             (no_changes\<lparr>ch_is_admin := Some is_admin, ch_is_service_account := Some is_sa\<rparr>) written_by admin_override)
      in case r of
           Inr (d', _) \<Rightarrow> (Inr (d', False), audits)
         | Inl e \<Rightarrow>
             if e = MlflowException RESOURCE_DOES_NOT_EXIST
             then (bindE (store_create_user env d uname token display is_admin is_sa) (\<lambda>(d', _). Inr (d', True)), audits)
             else (Inl e, audits))"

subsection \<open>Row lemmas\<close>

lemma normalize_idem [simp]: "normalize_username (normalize_username uname) = normalize_username uname"
  by (simp add: normalize_username_def)

lemma change_row_simps [simp]:
  "u_id (change_row env ch u) = u_id u"
  "u_username (change_row env ch u) = u_username u"
  "u_active (change_row env ch u) = given (u_active u) (ch_active ch)"
  "u_is_admin (change_row env ch u) = given (u_is_admin u) (ch_is_admin ch)"
  "u_managed_by (change_row env ch u) = given (u_managed_by u) (ch_managed_by ch)"
  by (simp_all add: change_row_def)

lemma given_simps [simp]: "given x None = x" "given x (Some y) = y"
  by (simp_all add: given_def)

lemma put_user_wf [wf_keeps]:
  assumes "wf_users us" and "u \<in> set us" and "u_id u' = u_id u" and "u_username u' = u_username u"
  shows "wf_users (put_user us u')"
proof -
  have "u_id (if u_id v = u_id u' then u' else v) = u_id v" for v by simp
  moreover have "u_username (if u_id v = u_id u' then u' else v) = u_username v" if "v \<in> set us" for v
    using that assms unique_onD [of u_id us v u] by (auto simp: wf_users_def)
  ultimately show ?thesis
    using assms(1) unfolding wf_users_def put_user_def by (simp add: unique_on_map_eq)
qed

lemma set_put_user:
  assumes "wf_users us" and "u \<in> set us" and "u_id u' = u_id u"
  shows "set (put_user us u') = insert u' (set us - {u})"
proof -
  have "u_id v = u_id u \<longleftrightarrow> v = u" if "v \<in> set us" for v
    using that assms(1,2) unique_onD [of u_id us v u] by (auto simp: wf_users_def)
  with assms(2,3) show ?thesis by (auto simp: put_user_def image_iff)
qed

lemma get_put_user:
  assumes "wf_users us" and "u \<in> set us" and "u_id u' = u_id u" and "u_username u' = u_username u"
  shows "get_user (put_user us u') (u_username u) = Inr u'"
  using assms put_user_wf [OF assms] by (simp add: get_user_Inr_iff set_put_user)

lemma one_or_raise_error:
  "one_or_raise xs = Inl e \<Longrightarrow> e = MlflowException RESOURCE_DOES_NOT_EXIST \<or> e = MlflowException INVALID_STATE"
  by (cases xs rule: sql_one.cases) auto

lemma get_user_error:
  "get_user us uname = Inl e \<Longrightarrow> e = MlflowException RESOURCE_DOES_NOT_EXIST \<or> e = MlflowException INVALID_STATE"
  unfolding get_user_def by (rule one_or_raise_error)

text \<open>Storing a new account.\<close>

lemma user_create_Inr:
  "user_create env d uname password display is_admin is_sa = Inr (d', ent) \<longleftrightarrow>
     validate_username env (normalize_username uname) = Inr () \<and>
     normalize_username uname \<notin> u_username ` set (users d) \<and>
     (\<exists>u. u = \<lparr>u_id = next_id u_id (users d), u_username = normalize_username uname, u_display_name = display,
               u_password_hash = generate_password_hash env password, u_password_expiration = None,
               u_is_admin = is_admin, u_is_service_account = is_sa, u_active = True, u_managed_by = MANUAL\<rparr> \<and>
          d' = d\<lparr>users := users d @ [u]\<rparr> \<and> ent = to_mlflow_entity d' u)"
  by (auto simp: user_create_def Let_def)

text \<open>The successful update and deletion, taken apart.\<close>

lemma user_update_Inr:
  assumes "user_update env d uname ch written_by override = (Inr (d', ent), audits)"
  obtains u where "get_user (users d) (normalize_username uname) = Inr u"
    "allowed (evaluate_write (Some (u_managed_by u)) written_by (MANAGED_BY_ENFORCEMENT env) override)"
    "ch_active ch = Some False \<or> ch_is_admin ch = Some False \<Longrightarrow> assert_not_last_active_admin (users d) u = Inr ()"
    "d' = d\<lparr>users := put_user (users d) (change_row env ch u),
       auth_sessions := (if ch_active ch = Some False then revoke_live (now env) (u_id u) (auth_sessions d)
                         else auth_sessions d)\<rparr>"
    "ent = to_mlflow_entity d' (change_row env ch u)"
  using assms by (auto simp: user_update_def Let_def split: sum.splits if_splits)

lemma user_delete_Inr:
  assumes "user_delete d uname = (Inr d', audits)"
  obtains u where "get_user (users d) (normalize_username uname) = Inr u"
    "assert_not_last_active_admin (users d) u = Inr ()"
    "d' = (drop_dependents (u_id u) d)\<lparr>users := [v. v \<leftarrow> users d, u_id v \<noteq> u_id u]\<rparr>"
  using assms
  by (auto simp: user_delete_def Let_def delete_user_row_def drop_dependents_def split: sum.splits if_splits)

subsection \<open>An active administrator remains\<close>

definition has_active_admin :: "db \<Rightarrow> bool" where
  "has_active_admin d \<longleftrightarrow> (\<exists>u\<in>set (users d). u_is_admin u \<and> u_active u)"

lemma not_last_active_admin:
  assumes "assert_not_last_active_admin us u = Inr ()" and "u_is_admin u" and "u_active u"
  shows "\<exists>v\<in>set us. u_is_admin v \<and> u_active v \<and> u_id v \<noteq> u_id u"
  using assms by (auto simp: assert_not_last_active_admin_def filter_list_comp filter_empty_conv split: if_splits)

lemma create_keeps_admin [wf_keeps]:
  "user_create env d uname password display is_admin is_sa = Inr (d', ent) \<Longrightarrow> has_active_admin d \<Longrightarrow> has_active_admin d'"
  by (auto simp: user_create_Inr has_active_admin_def)

lemma update_keeps_admin [wf_keeps]:
  assumes "wf_users (users d)" and "has_active_admin d"
    and "user_update env d uname ch written_by override = (Inr (d', ent), audits)"
  shows "has_active_admin d'"
  using assms(3)
proof (rule user_update_Inr)
  fix u
  assume u: "get_user (users d) (normalize_username uname) = Inr u"
    and guard: "ch_active ch = Some False \<or> ch_is_admin ch = Some False \<Longrightarrow> assert_not_last_active_admin (users d) u = Inr ()"
    and d': "d' = d\<lparr>users := put_user (users d) (change_row env ch u),
       auth_sessions := (if ch_active ch = Some False then revoke_live (now env) (u_id u) (auth_sessions d)
                         else auth_sessions d)\<rparr>"
  from u assms(1) have mem: "u \<in> set (users d)" by (simp add: get_user_Inr_iff)
  have users': "set (users d') = insert (change_row env ch u) (set (users d) - {u})"
    unfolding d' by (simp add: set_put_user [OF assms(1) mem])
  from assms(2) obtain v where v: "v \<in> set (users d)" "u_is_admin v" "u_active v"
    by (auto simp: has_active_admin_def)
  show "has_active_admin d'"
  proof (cases "v = u \<and> (ch_active ch = Some False \<or> ch_is_admin ch = Some False)")
    case True
    then obtain w where "w \<in> set (users d)" "u_is_admin w" "u_active w" "u_id w \<noteq> u_id u"
      using guard not_last_active_admin v(2,3) by blast
    then show ?thesis unfolding has_active_admin_def users' by blast
  next
    case False
    show ?thesis
    proof (cases "v = u")
      case True
      with False v have "given (u_active u) (ch_active ch)" "given (u_is_admin u) (ch_is_admin ch)"
        by (auto simp: given_def split: option.splits)
      then show ?thesis unfolding has_active_admin_def users' by simp
    qed (use v in \<open>auto simp: has_active_admin_def users'\<close>)
  qed
qed

lemma delete_keeps_admin [wf_keeps]:
  assumes "wf_users (users d)" and "has_active_admin d" and "user_delete d uname = (Inr d', audits)"
  shows "has_active_admin d'"
  using assms(3)
proof (rule user_delete_Inr)
  fix u
  assume u: "get_user (users d) (normalize_username uname) = Inr u" and guard: "assert_not_last_active_admin (users d) u = Inr ()"
    and d': "d' = (drop_dependents (u_id u) d)\<lparr>users := [v. v \<leftarrow> users d, u_id v \<noteq> u_id u]\<rparr>"
  from assms(2) obtain v where v: "v \<in> set (users d)" "u_is_admin v" "u_active v"
    by (auto simp: has_active_admin_def)
  from u assms(1) have mem: "u \<in> set (users d)" by (simp add: get_user_Inr_iff)
  have users': "set (users d') = {w \<in> set (users d). u_id w \<noteq> u_id u}"
    unfolding d' by (simp add: filter_list_comp)
  show "has_active_admin d'"
  proof (cases "u_is_admin u \<and> u_active u")
    case True
    with guard not_last_active_admin show ?thesis unfolding has_active_admin_def users' by blast
  next
    case False
    with v mem have "u_id v \<noteq> u_id u"
      using assms(1) unique_onD [of u_id "users d" v u] by (auto simp: wf_users_def)
    with v show ?thesis by (auto simp: has_active_admin_def users')
  qed
qed

subsection \<open>Deactivation, deletion, authentication\<close>

lemma revoke_live_none: "s \<in> set (revoke_live t uid ss) \<Longrightarrow> \<not> is_live_of uid s"
  by (induction ss) (auto simp: revoke_live_def is_live_of_def split: if_splits)

lemma revoke_live_others: "s \<in> set ss \<Longrightarrow> \<not> is_live_of uid s \<Longrightarrow> s \<in> set (revoke_live t uid ss)"
  by (force simp: revoke_live_def)

lemma revoke_live_keys [simp]:
  "map s_session_id (revoke_live t uid ss) = map s_session_id ss"
  "map s_user_id (revoke_live t uid ss) = map s_user_id ss"
  "map s_id (revoke_live t uid ss) = map s_id ss"
  by (induction ss) (auto simp: revoke_live_def)

text \<open>After the dependent rows are gone nothing refers to the user, so the delete cannot be refused.\<close>

lemma drop_dependents_refs: "uid \<notin> set (user_refs (drop_dependents uid d))"
  by (simp add: user_refs_def drop_dependents_def drop_user_rows_def drop_owner_def drop_regex_owner_def
      filter_list_comp image_iff)

lemma image_other: "key ` {x \<in> A. key x \<noteq> k} = key ` A - {k}"
  by auto

lemma drop_dependents_keeps: "set (user_refs (drop_dependents uid d)) = set (user_refs d) - {uid}"
  by (simp add: user_refs_def drop_dependents_def drop_user_rows_def drop_owner_def drop_regex_owner_def
      filter_list_comp Un_Diff image_other)

lemma drop_user_rows_wf [wf_keeps]:
  "wf_std ts \<Longrightarrow> wf_std (drop_user_rows uid ts)"
  "wf_model mts \<Longrightarrow> wf_model (drop_user_rows uid mts)"
  "wf_workspace wts \<Longrightarrow> wf_workspace (drop_user_rows uid wts)"
  by (simp_all add: wf_std_def wf_model_def wf_workspace_def wf_perm_table_def wf_regex_table_def drop_user_rows_def
      drop_owner_def drop_regex_owner_def filter_list_comp unique_on_filter)

lemma delete_user_wf [wf_keeps]:
  assumes "wf_db d" and "user_delete d uname = (Inr d', audits)"
  shows "wf_db d'"
  using assms(2)
proof (rule user_delete_Inr)
  fix u
  assume "d' = (drop_dependents (u_id u) d)\<lparr>users := [v. v \<leftarrow> users d, u_id v \<noteq> u_id u]\<rparr>"
  then show ?thesis
    using wf_dbD [OF assms(1)]
    by (simp add: wf_db_def drop_dependents_def drop_user_rows_wf filter_list_comp wf_users_def wf_user_groups_def unique_on_filter)
qed

lemma user_delete_outcome:
  assumes "wf_users (users d)"
  shows "user_delete d uname =
    (case get_user (users d) (normalize_username uname) of
       Inl e \<Rightarrow> (Inl e, [])
     | Inr u \<Rightarrow>
         if u_is_admin u \<and> u_active u \<and> (\<forall>v\<in>set (users d). u_is_admin v \<and> u_active v \<longrightarrow> v = u)
         then (Inl (MlflowException INVALID_STATE), [])
         else (Inr ((drop_dependents (u_id u) d)\<lparr>users := removeAll u (users d)\<rparr>),
               let n = length (filter (is_live_of (u_id u)) (auth_sessions d)) in
               if n > 0 then [SessionsRevoked (normalize_username uname) n ''user_deleted''] else []))"
  using assms
proof (cases rule: get_user_cases [where uname = "normalize_username uname"])
  case (found u)
  have same: "u_id v = u_id u \<longleftrightarrow> v = u" if "v \<in> set (users d)" for v
    using that found(2) assms unique_onD [of u_id "users d" v u] by (auto simp: wf_users_def)
  then have "filter (\<lambda>v. u_id v \<noteq> u_id u) (users d) = removeAll u (users d)"
    by (auto simp: removeAll_filter_not_eq intro!: filter_cong)
  moreover have "filter (\<lambda>v. u_is_admin v \<and> u_active v \<and> u_id v \<noteq> u_id u) (users d) = [] \<longleftrightarrow>
      (\<forall>v\<in>set (users d). u_is_admin v \<and> u_active v \<longrightarrow> v = u)"
    using same by (auto simp: filter_empty_conv)
  moreover have "users (drop_dependents (u_id u) d) = users d"
    by (simp add: drop_dependents_def)
  ultimately show ?thesis
    using found(1)
    by (simp add: user_delete_def Let_def assert_not_last_active_admin_def filter_list_comp delete_user_row_def
        drop_dependents_refs)
qed (simp add: user_delete_def)

lemma user_authenticate_iff:
  assumes "wf_users (users d)"
  shows "user_authenticate env d uname password = Inr
    (\<exists>u\<in>set (users d). u_username u = normalize_username uname \<and>
       (\<forall>t. u_password_expiration u = Some t \<longrightarrow> now env \<le> t) \<and> check_password_hash env (u_password_hash u) password)"
  using assms
proof (cases rule: get_user_cases [where uname = "normalize_username uname"])
  case (found u)
  then have "(\<exists>v\<in>set (users d). u_username v = normalize_username uname \<and> P v) \<longleftrightarrow> P u" for P
    using username_unique [OF assms] by metis
  with found show ?thesis
    by (auto simp: user_authenticate_def split: option.splits)
qed (force simp: user_authenticate_def)

lemma create_user_wf [wf_keeps]:
  "wf_db d \<Longrightarrow> user_create env d uname password display is_admin is_sa = Inr (d', ent) \<Longrightarrow> wf_db d'"
  using next_id_fresh [of u_id "users d"] by (auto simp: user_create_Inr wf_db_def wf_users_def)

lemma update_user_wf [wf_keeps]:
  assumes "wf_db d" and "user_update env d uname ch written_by override = (Inr (d', ent), audits)"
  shows "wf_db d'"
  using assms(2)
proof (rule user_update_Inr)
  fix u
  assume u: "get_user (users d) (normalize_username uname) = Inr u"
    and d': "d' = d\<lparr>users := put_user (users d) (change_row env ch u),
       auth_sessions := (if ch_active ch = Some False then revoke_live (now env) (u_id u) (auth_sessions d)
                         else auth_sessions d)\<rparr>"
  have wf: "wf_users (users d)" using assms(1) by (rule wf_dbD)
  then have "u \<in> set (users d)" using u by (simp add: get_user_Inr_iff)
  then have "wf_users (put_user (users d) (change_row env ch u))"
    by (rule put_user_wf [OF wf]) simp_all
  then show "wf_db d'"
    using assms(1) unfolding d' wf_db_def by simp
qed

text \<open>Every outcome of an update: absent user, refused write, last administrator, or the change.\<close>

lemma user_update_outcome:
  assumes "wf_users (users d)" and "u \<in> set (users d)" and "u_username u = normalize_username uname"
  shows "user_update env d uname ch written_by override =
    (let c = crosses (Some (u_managed_by u)) written_by;
         dec = evaluate_write (Some (u_managed_by u)) written_by (MANAGED_BY_ENFORCEMENT env) override;
         ev = (\<lambda>ok. [OwnershipConflict (u_username u) (od_owner dec) (or_manual written_by) (od_reason dec) ok])
     in if c \<and> MANAGED_BY_ENFORCEMENT env = ENFORCE \<and> \<not> override
        then (Inl (MlflowException INVALID_PARAMETER_VALUE), ev False)
        else if (ch_active ch = Some False \<or> ch_is_admin ch = Some False) \<and> assert_not_last_active_admin (users d) u \<noteq> Inr ()
        then (Inl (MlflowException INVALID_STATE), [])
        else let d' = d\<lparr>users := put_user (users d) (change_row env ch u),
                        auth_sessions := (if ch_active ch = Some False then revoke_live (now env) (u_id u) (auth_sessions d)
                                          else auth_sessions d)\<rparr>;
                 n = length (filter (is_live_of (u_id u)) (auth_sessions d))
             in (Inr (d', to_mlflow_entity d' (change_row env ch u)),
                 (if c \<and> (override \<or> MANAGED_BY_ENFORCEMENT env \<noteq> OFF) then ev True else []) @
                 (if ch_active ch = Some False \<and> n > 0
                  then [SessionsRevoked (u_username u) n ''user_deactivated''] else [])))"
proof -
  have u: "get_user (users d) (normalize_username uname) = Inr u"
    using assms by (simp add: get_user_Inr_iff)
  have guard: "assert_not_last_active_admin (users d) u = Inr () \<or>
      assert_not_last_active_admin (users d) u = Inl (MlflowException INVALID_STATE)"
    by (simp add: assert_not_last_active_admin_def)
  show ?thesis
    unfolding user_update_def u sum.case Let_def evaluate_write_allowed evaluate_write_conflict assms(3)
    using guard by (auto split: if_splits)
qed

end
