(* ===== verification/Sessions.thy ===== *)
theory Sessions
  imports Users
begin

section \<open>Server-side sessions and login attempts (repository/auth_session.py, repository/auth_state.py)\<close>

text \<open>
  The methods of \<^verbatim>\<open>AuthSessionRepository\<close> and \<^verbatim>\<open>AuthStateRepository\<close>
  and the store methods that delegate to them. The clock and the value that
  \<^verbatim>\<open>secrets.token_urlsafe\<close> returns are arguments. \<^verbatim>\<open>consume\<close> is
  two statements, the read and the delete that claims the row; they are separate definitions, so that
  concurrent callbacks can be interleaved between them, and the last section proves that every
  interleaving hands an attempt to one callback at most.
\<close>

subsection \<open>Sessions\<close>

record resolved_session =
  rs_username :: string
  rs_is_admin :: bool
  rs_is_active :: bool
  rs_expires_at :: int

definition session_create :: "string \<Rightarrow> db \<Rightarrow> string \<Rightarrow> int \<Rightarrow> string option \<Rightarrow> (db \<times> string) res" where
  "session_create token d uname expires provider =
     bindE (sql_one_or_none [u. u \<leftarrow> users d, u_username u = normalize_username uname]) (\<lambda>r.
     case r of
       None \<Rightarrow> Inl (MlflowException RESOURCE_DOES_NOT_EXIST)
     | Some u \<Rightarrow>
         if token \<in> s_session_id ` set (auth_sessions d) then Inl IntegrityError
         else Inr (d\<lparr>auth_sessions := auth_sessions d @
                    [\<lparr>s_id = next_id s_id (auth_sessions d), s_session_id = token, s_user_id = u_id u,
                      s_provider_id = provider, s_expires_at = expires, s_revoked_at = None\<rparr>]\<rparr>, token))"

definition session_resolve :: "int \<Rightarrow> db \<Rightarrow> string \<Rightarrow> resolved_session option res" where
  "session_resolve t d sid =
     (if sid = [] then Inr None
      else bindE (sql_one_or_none
             [(u, s). u \<leftarrow> users d, s \<leftarrow> auth_sessions d,
                s_user_id s = u_id u \<and> s_session_id s = sid \<and> s_revoked_at s = None \<and> s_expires_at s > t]) (\<lambda>r.
           Inr (map_option (\<lambda>(u, s). \<lparr>rs_username = u_username u, rs_is_admin = u_is_admin u,
                                       rs_is_active = u_active u, rs_expires_at = s_expires_at s\<rparr>) r)))"

definition session_revoke :: "int \<Rightarrow> db \<Rightarrow> string \<Rightarrow> db \<times> bool" where
  "session_revoke t d sid =
     (let hit = (\<lambda>s. s_session_id s = sid \<and> s_revoked_at s = None);
          updated = length (filter hit (auth_sessions d))
      in (d\<lparr>auth_sessions := map (\<lambda>s. if hit s then s\<lparr>s_revoked_at := Some t\<rparr> else s) (auth_sessions d)\<rparr>, updated > 0))"

definition session_revoke_all_for_user :: "int \<Rightarrow> db \<Rightarrow> string \<Rightarrow> (db \<times> nat) res" where
  "session_revoke_all_for_user t d uname =
     bindE (sql_one_or_none [u. u \<leftarrow> users d, u_username u = normalize_username uname]) (\<lambda>r.
     case r of
       None \<Rightarrow> Inr (d, 0)
     | Some u \<Rightarrow> Inr (d\<lparr>auth_sessions := revoke_live t (u_id u) (auth_sessions d)\<rparr>,
                       length (filter (is_live_of (u_id u)) (auth_sessions d))))"

definition session_list_live_for_user :: "int \<Rightarrow> db \<Rightarrow> string \<Rightarrow> string list" where
  "session_list_live_for_user t d uname =
     [s_session_id s. s \<leftarrow> auth_sessions d, u \<leftarrow> users d,
        s_user_id s = u_id u \<and> u_username u = normalize_username uname \<and> s_revoked_at s = None \<and> s_expires_at s > t]"

definition session_delete_expired :: "int \<Rightarrow> db \<Rightarrow> int option \<Rightarrow> db \<times> nat" where
  "session_delete_expired t d before =
     (let cutoff = (case before of None \<Rightarrow> t | Some b \<Rightarrow> b) in
      (d\<lparr>auth_sessions := [s. s \<leftarrow> auth_sessions d, \<not> s_expires_at s \<le> cutoff]\<rparr>,
       length (filter (\<lambda>s. s_expires_at s \<le> cutoff) (auth_sessions d))))"

subsection \<open>Login attempts\<close>

definition DEFAULT_STATE_LIFETIME_SECONDS :: int where
  "DEFAULT_STATE_LIFETIME_SECONDS = 15 * 60"

record auth_attempt =
  at_state :: string
  at_provider_id :: string
  at_redirect_after_login :: "string option"

definition state_create :: "int \<Rightarrow> string \<Rightarrow> db \<Rightarrow> string \<Rightarrow> string option \<Rightarrow> int \<Rightarrow> (db \<times> string) res" where
  "state_create t token d provider redirect lifetime =
     (if token \<in> st_state ` set (auth_states d) then Inl IntegrityError
      else Inr (d\<lparr>auth_states := auth_states d @
                 [\<lparr>st_id = next_id st_id (auth_states d), st_state = token, st_provider_id = Some provider,
                   st_relay_state = redirect, st_expires_at = t + lifetime\<rparr>]\<rparr>, token))"

text \<open>The first statement of \<^verbatim>\<open>consume\<close>: the attempt and whether it has expired.\<close>

definition consume_read :: "int \<Rightarrow> db \<Rightarrow> string \<Rightarrow> (auth_attempt \<times> bool) option res" where
  "consume_read t d state =
     bindE (sql_one_or_none [r. r \<leftarrow> auth_states d, st_state r = state]) (\<lambda>r.
     Inr (map_option (\<lambda>row.
       (\<lparr>at_state = st_state row,
         at_provider_id = (case st_provider_id row of None \<Rightarrow> [] | Some p \<Rightarrow> p),
         at_redirect_after_login = st_relay_state row\<rparr>,
        st_expires_at row \<le> t)) r))"

text \<open>The second: the delete, and whether it matched a row.\<close>

definition consume_claim :: "db \<Rightarrow> string \<Rightarrow> db \<times> bool" where
  "consume_claim d state =
     (d\<lparr>auth_states := [r. r \<leftarrow> auth_states d, st_state r \<noteq> state]\<rparr>,
      length (filter (\<lambda>r. st_state r = state) (auth_states d)) > 0)"

definition consume_result :: "bool \<Rightarrow> auth_attempt \<times> bool \<Rightarrow> auth_attempt option" where
  "consume_result claimed read = (if \<not> claimed then None else if snd read then None else Some (fst read))"

definition state_consume :: "int \<Rightarrow> db \<Rightarrow> string \<Rightarrow> (db \<times> auth_attempt option) res" where
  "state_consume t d state =
     (if state = [] then Inr (d, None)
      else bindE (consume_read t d state) (\<lambda>r.
           case r of
             None \<Rightarrow> Inr (d, None)
           | Some read \<Rightarrow> (let (d', claimed) = consume_claim d state in Inr (d', consume_result claimed read))))"

definition state_delete_expired :: "int \<Rightarrow> db \<Rightarrow> int option \<Rightarrow> db \<times> nat" where
  "state_delete_expired t d before =
     (let cutoff = (case before of None \<Rightarrow> t | Some b \<Rightarrow> b) in
      (d\<lparr>auth_states := [r. r \<leftarrow> auth_states d, \<not> st_expires_at r \<le> cutoff]\<rparr>,
       length (filter (\<lambda>r. st_expires_at r \<le> cutoff) (auth_states d))))"

subsection \<open>The store methods (sqlalchemy_store.py)\<close>

definition create_auth_session :: "string \<Rightarrow> db \<Rightarrow> string \<Rightarrow> int \<Rightarrow> string option \<Rightarrow> (db \<times> string) res" where
  "create_auth_session token d uname expires provider = session_create token d uname expires provider"

definition create_auth_state :: "int \<Rightarrow> string \<Rightarrow> db \<Rightarrow> string \<Rightarrow> string option \<Rightarrow> int \<Rightarrow> (db \<times> string) res" where
  "create_auth_state t token d provider redirect lifetime = state_create t token d provider redirect lifetime"

definition consume_auth_state :: "int \<Rightarrow> db \<Rightarrow> string \<Rightarrow> (db \<times> auth_attempt option) res" where
  "consume_auth_state t d state = state_consume t d state"

definition resolve_auth_session :: "int \<Rightarrow> db \<Rightarrow> string \<Rightarrow> resolved_session option res" where
  "resolve_auth_session t d sid = session_resolve t d sid"

definition revoke_auth_session :: "int \<Rightarrow> db \<Rightarrow> string \<Rightarrow> db \<times> bool" where
  "revoke_auth_session t d sid = session_revoke t d sid"

definition revoke_all_auth_sessions :: "int \<Rightarrow> db \<Rightarrow> string \<Rightarrow> (db \<times> nat) res" where
  "revoke_all_auth_sessions t d uname = session_revoke_all_for_user t d uname"

subsection \<open>Constraints\<close>

text \<open>
  The unique indexes of the session and attempt tables, and the foreign key of the sessions.
\<close>

definition wf_sessions :: "db \<Rightarrow> bool" where
  "wf_sessions d \<longleftrightarrow> unique_on s_session_id (auth_sessions d) \<and> unique_on st_state (auth_states d) \<and>
     s_user_id ` set (auth_sessions d) \<subseteq> u_id ` set (users d)"

text \<open>When a session row is honoured at a time.\<close>

definition honoured :: "int \<Rightarrow> session_row \<Rightarrow> bool" where
  "honoured t s \<longleftrightarrow> s_revoked_at s = None \<and> s_expires_at s > t"

lemma session_resolve_spec:
  assumes "wf_users (users d)" and "wf_sessions d" and "sid \<noteq> []"
  shows "session_resolve t d sid = Inr (Some r) \<longleftrightarrow>
    (\<exists>u\<in>set (users d). \<exists>s\<in>set (auth_sessions d).
       s_user_id s = u_id u \<and> s_session_id s = sid \<and> honoured t s \<and>
       r = \<lparr>rs_username = u_username u, rs_is_admin = u_is_admin u, rs_is_active = u_active u, rs_expires_at = s_expires_at s\<rparr>)"
    and "\<exists>r. session_resolve t d sid = Inr r"
proof -
  let ?P = "\<lambda>(u, s). s_user_id s = u_id u \<and> s_session_id s = sid \<and> s_revoked_at s = None \<and> s_expires_at s > t"
  let ?rows = "filter ?P (List.product (users d) (auth_sessions d))"
  have session: "s = s'" if "s \<in> set (auth_sessions d)" "s' \<in> set (auth_sessions d)" "s_session_id s = s_session_id s'" for s s'
    using assms(2) that unfolding wf_sessions_def by (intro unique_onD [of s_session_id "auth_sessions d"]) simp_all
  have "length ?rows \<le> 1"
  proof (rule join_pairs_le1 [of u_id _ s_session_id])
    show "unique_on u_id (users d)" "unique_on s_session_id (auth_sessions d)"
      using assms(1,2) by (simp_all add: wf_users_def wf_sessions_def)
    fix u s u' s'
    assume "s \<in> set (auth_sessions d)" "s' \<in> set (auth_sessions d)"
      "s_user_id s = u_id u \<and> s_session_id s = sid \<and> s_revoked_at s = None \<and> s_expires_at s > t"
      "s_user_id s' = u_id u' \<and> s_session_id s' = sid \<and> s_revoked_at s' = None \<and> s_expires_at s' > t"
    with session [of s s'] show "u_id u = u_id u' \<and> s_session_id s = s_session_id s'" by simp
  qed
  then have "\<exists>r. sql_one_or_none ?rows = Inr r \<and> set_option r = set ?rows"
    by (rule sql_one_or_none_le1)
  then obtain o' where o': "sql_one_or_none ?rows = Inr o'" "set_option o' = set ?rows"
    by (elim exE conjE)
  have res: "session_resolve t d sid = Inr (map_option (\<lambda>(u, s). \<lparr>rs_username = u_username u, rs_is_admin = u_is_admin u,
      rs_is_active = u_active u, rs_expires_at = s_expires_at s\<rparr>) o')"
    using assms(3) o'(1) by (simp add: session_resolve_def pairs_filter)
  then show "\<exists>r. session_resolve t d sid = Inr r" by (rule exI)
  have "o' = Some (u, s) \<longleftrightarrow> u \<in> set (users d) \<and> s \<in> set (auth_sessions d) \<and> s_user_id s = u_id u \<and> s_session_id s = sid \<and> honoured t s" for u s
    unfolding elem_set [symmetric] o'(2) by (auto simp: honoured_def)
  then show "session_resolve t d sid = Inr (Some r) \<longleftrightarrow>
    (\<exists>u\<in>set (users d). \<exists>s\<in>set (auth_sessions d).
       s_user_id s = u_id u \<and> s_session_id s = sid \<and> honoured t s \<and>
       r = \<lparr>rs_username = u_username u, rs_is_admin = u_is_admin u, rs_is_active = u_active u, rs_expires_at = s_expires_at s\<rparr>)"
    unfolding res by fastforce
qed

subsection \<open>One callback\<close>

lemma state_consume_db: "state_consume t d state = Inr (d', attempt) \<Longrightarrow> d' = d \<or> d' = fst (consume_claim d state)"
  by (cases "consume_read t d state")
    (auto simp: state_consume_def split: option.splits if_splits prod.splits)

text \<open>What an attempt recorded comes back once, and only in time; the table is as before.\<close>

lemma create_consume:
  assumes wf: "wf_sessions d" and new: "state_create t token d provider redirect lifetime = Inr (d', state)" and "token \<noteq> []"
  shows "state_consume t' d' state = Inr (d, if t' < t + lifetime
      then Some \<lparr>at_state = state, at_provider_id = provider, at_redirect_after_login = redirect\<rparr> else None)"
    and "state_consume t'' d state = Inr (d, None)"
proof -
  from new have fresh: "token \<notin> st_state ` set (auth_states d)" and state: "state = token"
    and d': "d' = d\<lparr>auth_states := auth_states d @
       [\<lparr>st_id = next_id st_id (auth_states d), st_state = token, st_provider_id = Some provider,
         st_relay_state = redirect, st_expires_at = t + lifetime\<rparr>]\<rparr>"
    by (auto simp: state_create_def split: if_splits)
  have none: "filter (\<lambda>r. st_state r = token) (auth_states d) = []" and all_rows: "filter (\<lambda>r. st_state r \<noteq> token) (auth_states d) = auth_states d"
    using fresh by (force simp: filter_empty_conv filter_id_conv)+
  show "state_consume t' d' state = Inr (d, if t' < t + lifetime
      then Some \<lparr>at_state = state, at_provider_id = provider, at_redirect_after_login = redirect\<rparr> else None)"
    using assms(3) by (simp add: state d' state_consume_def consume_read_def consume_claim_def consume_result_def
        filter_list_comp none all_rows)
  show "state_consume t'' d state = Inr (d, None)"
    using assms(3) by (simp add: state state_consume_def consume_read_def filter_list_comp none)
qed

subsection \<open>Interleaved callbacks\<close>

text \<open>
  A login callback runs the two statements of \<^verbatim>\<open>consume\<close> one after the other. Several
  callbacks run at once, and between any two statements other attempts start, expired rows are swept
  and time passes. A state value is drawn from 256 random bits: a new one differs from every value
  issued before, which \<open>ws_issued\<close> remembers.
\<close>

datatype callback =
    Presented string
  | HasRead string "auth_attempt \<times> bool"
  | Finished string "auth_attempt option"

record attempts_world =
  aw_db :: db
  aw_clock :: int
  aw_issued :: "string list"
  aw_callbacks :: "callback list"

inductive attempts_step :: "attempts_world \<Rightarrow> attempts_world \<Rightarrow> bool" where
  start: "state_create (aw_clock w) token (aw_db w) provider redirect lifetime = Inr (d', state) \<Longrightarrow>
    token \<notin> set (aw_issued w) \<Longrightarrow>
    attempts_step w (w\<lparr>aw_db := d', aw_issued := token # aw_issued w\<rparr>)"
| present: "attempts_step w (w\<lparr>aw_callbacks := aw_callbacks w @ [Presented state]\<rparr>)"
| reject: "i < length (aw_callbacks w) \<Longrightarrow> aw_callbacks w ! i = Presented state \<Longrightarrow>
    state = [] \<or> consume_read (aw_clock w) (aw_db w) state = Inr None \<Longrightarrow>
    attempts_step w (w\<lparr>aw_callbacks := (aw_callbacks w)[i := Finished state None]\<rparr>)"
| read: "i < length (aw_callbacks w) \<Longrightarrow> aw_callbacks w ! i = Presented state \<Longrightarrow> state \<noteq> [] \<Longrightarrow>
    consume_read (aw_clock w) (aw_db w) state = Inr (Some r) \<Longrightarrow>
    attempts_step w (w\<lparr>aw_callbacks := (aw_callbacks w)[i := HasRead state r]\<rparr>)"
| claim: "i < length (aw_callbacks w) \<Longrightarrow> aw_callbacks w ! i = HasRead state r \<Longrightarrow>
    consume_claim (aw_db w) state = (d', claimed) \<Longrightarrow>
    attempts_step w (w\<lparr>aw_db := d', aw_callbacks := (aw_callbacks w)[i := Finished state (consume_result claimed r)]\<rparr>)"
| sweep: "state_delete_expired (aw_clock w) (aw_db w) before = (d', n) \<Longrightarrow> attempts_step w (w\<lparr>aw_db := d'\<rparr>)"
| tick: "aw_clock w \<le> t \<Longrightarrow> attempts_step w (w\<lparr>aw_clock := t\<rparr>)"

inductive attempts_run :: "attempts_world \<Rightarrow> attempts_world \<Rightarrow> bool" where
  run_refl: "attempts_run w w"
| run_step: "attempts_run w w' \<Longrightarrow> attempts_step w' w'' \<Longrightarrow> attempts_run w w''"

inductive_cases attempts_stepE: "attempts_step w w'"

text \<open>How many callbacks were handed the attempt of a state, and how many rows still hold it.\<close>

definition got_attempt :: "string \<Rightarrow> callback \<Rightarrow> bool" where
  "got_attempt state c \<longleftrightarrow> (\<exists>a. c = Finished state (Some a))"

definition winners :: "string \<Rightarrow> attempts_world \<Rightarrow> nat" where
  "winners state w = length (filter (got_attempt state) (aw_callbacks w))"

definition rows_of :: "string \<Rightarrow> attempts_world \<Rightarrow> nat" where
  "rows_of state w = length (filter (\<lambda>r. st_state r = state) (auth_states (aw_db w)))"

definition single_use :: "attempts_world \<Rightarrow> bool" where
  "single_use w \<longleftrightarrow> (\<forall>state. winners state w + rows_of state w \<le> 1 \<and>
     (state \<notin> set (aw_issued w) \<longrightarrow> winners state w + rows_of state w = 0))"

lemma winners_update:
  assumes "i < length cs"
  shows "length (filter P (cs[i := c])) + (if P (cs ! i) then 1 else 0) = length (filter P cs) + (if P c then 1 else 0)"
  using assms
proof (induction cs arbitrary: i)
  case (Cons x cs)
  then show ?case by (cases i) auto
qed simp

lemma got_attempt_simps [simp]:
  "\<not> got_attempt state (Presented s)" "\<not> got_attempt state (HasRead s r)" "\<not> got_attempt state (Finished s None)"
  "got_attempt state (Finished s (Some a)) \<longleftrightarrow> s = state"
  by (auto simp: got_attempt_def)

lemma length_filter_filter: "length (filter P (filter Q xs)) \<le> length (filter P xs)"
  by (induction xs) auto

lemma single_use_mono:
  assumes "single_use w" and "aw_issued w' = aw_issued w"
    and "\<And>state. winners state w' + rows_of state w' \<le> winners state w + rows_of state w"
  shows "single_use w'"
  using assms unfolding single_use_def by (metis le_trans le_zero_eq)

lemma winners_kept:
  assumes "i < length (aw_callbacks w)" and "\<not> got_attempt state (aw_callbacks w ! i)"
  shows "winners state (w\<lparr>aw_callbacks := (aw_callbacks w)[i := c]\<rparr>) = winners state w + (if got_attempt state c then 1 else 0)"
  using winners_update [OF assms(1), of "got_attempt state" c] assms(2) by (simp add: winners_def)

lemma step_single_use:
  assumes "single_use w" and "attempts_step w w'"
  shows "single_use w'"
  using assms(2)
proof (cases rule: attempts_step.cases)
  case (start token provider redirect lifetime d' state)
  then have "rows_of s w' = rows_of s w + (if s = token then 1 else 0)" "winners s w' = winners s w" for s
    by (auto simp: state_create_def rows_of_def winners_def split: if_splits)
  with start assms(1) show ?thesis by (auto simp: single_use_def)
next
  case (claim i state r d' claimed)
  let ?c = "Finished state (consume_result claimed r)"
  have d': "auth_states d' = filter (\<lambda>r. st_state r \<noteq> state) (auth_states (aw_db w))"
    and cl: "claimed \<longleftrightarrow> rows_of state w > 0"
    using claim(4) by (auto simp: consume_claim_def rows_of_def filter_list_comp)
  have rows: "rows_of s w' = (if s = state then 0 else rows_of s w)" for s
    unfolding claim(1) rows_of_def by (auto simp: d' intro!: arg_cong [where f = length] filter_cong)
  have "got_attempt s ?c \<Longrightarrow> s = state \<and> claimed" for s
    by (auto simp: got_attempt_def consume_result_def split: if_splits)
  moreover have "winners s w' = winners s w + (if got_attempt s ?c then 1 else 0)" for s
    using winners_update [OF claim(2), of "got_attempt s" ?c] claim(3) unfolding claim(1) winners_def by simp
  ultimately have "winners s w' + rows_of s w' \<le> winners s w + rows_of s w" for s
    using rows [of s] cl by auto
  with claim(1) show ?thesis by (intro single_use_mono [OF assms(1)]) simp_all
next
  case (sweep before d' n)
  then obtain Q where "auth_states (aw_db w') = filter Q (auth_states (aw_db w))"
    by (auto simp: state_delete_expired_def filter_list_comp Let_def)
  then have "rows_of s w' \<le> rows_of s w" for s
    unfolding rows_of_def by (simp only: length_filter_filter)
  with sweep show ?thesis by (intro single_use_mono [OF assms(1)]) (simp_all add: winners_def)
qed (rule single_use_mono [OF assms(1)]; simp add: winners_kept rows_of_def; simp add: winners_def)+

lemma run_single_use: "attempts_run w w' \<Longrightarrow> single_use w \<Longrightarrow> single_use w'"
  by (induction rule: attempts_run.induct) (auto intro: step_single_use)

end
