(* ===== verification/Admin_Cli.thy ===== *)
theory Admin_Cli
  imports Sessions
begin

section \<open>Operator commands (db/cli.py)\<close>

text \<open>
  The commands that repair a deployment from outside: restoring an administrator, pruning expired
  sessions, changing the owner of user rows with a journal and undoing that from the journal. What a
  command prints is its result; the audit records it emits are returned with it. Whether the journal
  path is free is an argument, and the journal written is part of the result.
\<close>

subsection \<open>Break glass: restore-admin\<close>

record admin_restored =
  previous_is_admin :: bool
  previous_active :: bool
  previous_managed_by :: string

definition make_admin :: "user_row \<Rightarrow> user_row" where
  "make_admin u = u\<lparr>u_is_admin := True, u_active := True, u_managed_by := MANUAL\<rparr>"

definition restore_admin :: "db \<Rightarrow> string \<Rightarrow> (db \<times> admin_restored) option" where
  "restore_admin d uname =
     (case [u. u \<leftarrow> users d, u_username u = uname] of
        [] \<Rightarrow> None
      | row # _ \<Rightarrow>
          Some (d\<lparr>users := map (\<lambda>u. if u_username u = uname then make_admin u else u) (users d)\<rparr>,
                \<lparr>previous_is_admin = u_is_admin row, previous_active = u_active row, previous_managed_by = u_managed_by row\<rparr>))"

subsection \<open>prune-sessions\<close>

definition prune_sessions :: "int \<Rightarrow> db \<Rightarrow> bool \<Rightarrow> db \<times> nat" where
  "prune_sessions cutoff d dry_run =
     (let expired = length (filter (\<lambda>s. s_expires_at s \<le> cutoff) (auth_sessions d)) in
      if dry_run then (d, expired)
      else (d\<lparr>auth_sessions := [s. s \<leftarrow> auth_sessions d, \<not> s_expires_at s \<le> cutoff]\<rparr>, expired))"

subsection \<open>reconcile-ownership and restore-ownership\<close>

definition is_provider_char :: "char \<Rightarrow> bool" where
  "is_provider_char c \<longleftrightarrow>
     (let n = (of_char c :: nat) in (65 \<le> n \<and> n \<le> 90) \<or> (97 \<le> n \<and> n \<le> 122) \<or> (48 \<le> n \<and> n \<le> 57)) \<or> c \<in> set ''._-''"

text \<open>\<^verbatim>\<open>re.fullmatch(r"manual|scim|oidc:[A-Za-z0-9._-]+", ...)\<close>.\<close>

definition owner_presented :: "string \<Rightarrow> bool" where
  "owner_presented s \<longleftrightarrow> s = ''manual'' \<or> s = ''scim'' \<or>
     (prefix ''oidc:'' s \<and> length s > 5 \<and> list_all is_provider_char (drop 5 s))"

record ownership_journal =
  j_set_owner :: string
  j_previous :: "(string \<times> string) list"

datatype reconcile_result =
    BadOwner
  | NoFilter
  | NoRowsToChange
  | WouldChange "(string \<times> string) list"
  | JournalExists
  | ChangedRows "(string \<times> string) list" "ownership_journal option"

text \<open>The rows the query and the comprehension select.\<close>

definition reconcile_selects :: "string \<Rightarrow> string option \<Rightarrow> string option \<Rightarrow> user_row \<Rightarrow> bool" where
  "reconcile_selects set_owner from_owner uname u \<longleftrightarrow>
     (case from_owner of Some f \<Rightarrow> f \<noteq> [] \<longrightarrow> u_managed_by u = f | None \<Rightarrow> True) \<and>
     (case uname of Some n \<Rightarrow> n \<noteq> [] \<longrightarrow> u_username u = py_lower (py_strip n) | None \<Rightarrow> True) \<and>
     or_manual (Some (u_managed_by u)) \<noteq> set_owner"

definition own_row :: "string \<Rightarrow> string \<times> string \<Rightarrow> user_row \<Rightarrow> user_row" where
  "own_row set_owner row u = (if u_username u = fst row then u\<lparr>u_managed_by := set_owner\<rparr> else u)"

definition reconcile_ownership ::
  "bool \<Rightarrow> db \<Rightarrow> string \<Rightarrow> string option \<Rightarrow> string option \<Rightarrow> bool \<Rightarrow> bool \<Rightarrow> string option \<Rightarrow> db \<times> reconcile_result" where
  "reconcile_ownership journal_exists d set_owner from_owner uname apply_changes all_rows journal =
     (if \<not> owner_presented set_owner then (d, BadOwner)
      else if \<not> is_given from_owner \<and> \<not> is_given uname \<and> \<not> all_rows then (d, NoFilter)
      else let rows = [(u_username u, u_managed_by u). u \<leftarrow> users d, reconcile_selects set_owner from_owner uname u] in
           if rows = [] then (d, NoRowsToChange)
           else if \<not> apply_changes then (d, WouldChange rows)
           else if is_given journal \<and> journal_exists then (d, JournalExists)
           else (d\<lparr>users := fold (\<lambda>row us. map (own_row set_owner row) us) rows (users d)\<rparr>,
                 ChangedRows rows (if is_given journal then Some \<lparr>j_set_owner = set_owner, j_previous = rows\<rparr> else None)))"

datatype restore_result =
    NoChangesRecorded
  | WouldRestore "(string \<times> string) list"
  | Restored nat "string list"

definition disown_row :: "string \<Rightarrow> string \<times> string \<Rightarrow> user_row \<Rightarrow> user_row" where
  "disown_row set_owner entry u =
     (if u_username u = fst entry \<and> u_managed_by u = set_owner then u\<lparr>u_managed_by := snd entry\<rparr> else u)"

definition restore_one :: "string \<Rightarrow> string \<times> string \<Rightarrow> user_row list \<times> nat \<times> string list \<Rightarrow> user_row list \<times> nat \<times> string list" where
  "restore_one set_owner entry acc =
     (case acc of (us, restored, skipped) \<Rightarrow>
        (let rowcount = length (filter (\<lambda>u. u_username u = fst entry \<and> u_managed_by u = set_owner) us) in
         (map (disown_row set_owner entry) us, restored + rowcount, if rowcount > 0 then skipped else skipped @ [fst entry])))"

definition restore_ownership :: "db \<Rightarrow> ownership_journal \<Rightarrow> bool \<Rightarrow> db \<times> restore_result" where
  "restore_ownership d journal apply_changes =
     (if j_previous journal = [] then (d, NoChangesRecorded)
      else if \<not> apply_changes then (d, WouldRestore (j_previous journal))
      else (case fold (restore_one (j_set_owner journal)) (j_previous journal) (users d, 0, []) of
              (us, restored, skipped) \<Rightarrow> (d\<lparr>users := us\<rparr>, Restored restored skipped)))"

subsection \<open>Row-wise updates\<close>

lemma fold_map_rows: "fold (\<lambda>e us. map (f e) us) es us = map (fold f es) us"
  by (induction es arbitrary: us) (simp_all add: comp_def)

lemma restore_one_rows: "fst (fold (restore_one owner) es acc) = map (fold (disown_row owner) es) (fst acc)"
  by (induction es arbitrary: acc) (auto simp: restore_one_def Let_def comp_def split: prod.splits)

lemma fold_own_row:
  "fold (own_row owner) rows u = (if u_username u \<in> fst ` set rows then u\<lparr>u_managed_by := owner\<rparr> else u)"
  by (induction rows arbitrary: u) (auto simp: own_row_def)

lemma fold_disown_other: "u_username u \<notin> fst ` set es \<Longrightarrow> fold (disown_row owner) es u = u"
  by (induction es) (auto simp: disown_row_def)

lemma fold_disown_row:
  assumes "distinct (map fst es)" and "(u_username u, m) \<in> set es" and "u_managed_by u = owner"
  shows "fold (disown_row owner) es u = u\<lparr>u_managed_by := m\<rparr>"
  using assms
proof (induction es arbitrary: u)
  case (Cons e es)
  show ?case
  proof (cases "fst e = u_username u")
    case True
    with Cons.prems have "e = (u_username u, m)" "u_username u \<notin> fst ` set es"
      by (auto simp: image_iff)
    moreover from this have "disown_row owner e u = u\<lparr>u_managed_by := m\<rparr>"
      using Cons.prems(3) by (simp add: disown_row_def)
    ultimately show ?thesis by (simp add: fold_disown_other)
  next
    case False
    with Cons.prems have "(u_username u, m) \<in> set es" "disown_row owner e u = u"
      by (auto simp: disown_row_def)
    with Cons show ?thesis by simp
  qed
qed simp

text \<open>The fields of a user that the ownership commands touch.\<close>

lemma own_rows_keep [simp]:
  "u_id (fold (own_row owner) rows u) = u_id u" "u_username (fold (own_row owner) rows u) = u_username u"
  "u_is_admin (fold (own_row owner) rows u) = u_is_admin u" "u_active (fold (own_row owner) rows u) = u_active u"
  by (simp_all add: fold_own_row)

lemma disown_rows_keep [simp]:
  "u_id (fold (disown_row owner) es u) = u_id u" "u_username (fold (disown_row owner) es u) = u_username u"
  "u_is_admin (fold (disown_row owner) es u) = u_is_admin u" "u_active (fold (disown_row owner) es u) = u_active u"
  by (induction es arbitrary: u) (auto simp: disown_row_def)

subsection \<open>Undoing a reconciliation\<close>

lemma reconcile_users:
  assumes "wf_users (users d)"
    and "reconcile_ownership journal_exists d owner from_owner uname True all_rows (Some path) = (d', ChangedRows rows (Some j))"
  shows "d' = d\<lparr>users := map (\<lambda>u. if reconcile_selects owner from_owner uname u then u\<lparr>u_managed_by := owner\<rparr> else u) (users d)\<rparr>"
    and "j = \<lparr>j_set_owner = owner, j_previous = rows\<rparr>"
    and "rows = map (\<lambda>u. (u_username u, u_managed_by u)) (filter (reconcile_selects owner from_owner uname) (users d))"
    and "rows \<noteq> []"
proof -
  have comp: "[(u_username u, u_managed_by u). u \<leftarrow> us, P u] = map (\<lambda>u. (u_username u, u_managed_by u)) (filter P us)"
    for us :: "user_row list" and P by (induction us) auto
  show j: "j = \<lparr>j_set_owner = owner, j_previous = rows\<rparr>"
    and rows: "rows = map (\<lambda>u. (u_username u, u_managed_by u)) (filter (reconcile_selects owner from_owner uname) (users d))"
    and "rows \<noteq> []"
    using assms(2) unfolding reconcile_ownership_def Let_def comp by (auto split: if_splits)
  have d': "d' = d\<lparr>users := map (fold (own_row owner) rows) (users d)\<rparr>"
    using assms(2) unfolding reconcile_ownership_def Let_def comp fold_map_rows by (auto split: if_splits)
  have "u_username u \<in> fst ` set rows \<longleftrightarrow> reconcile_selects owner from_owner uname u" if "u \<in> set (users d)" for u
    using that username_unique [OF assms(1)] unfolding rows by (auto simp: image_iff)
  then have "map (fold (own_row owner) rows) (users d) =
      map (\<lambda>u. if reconcile_selects owner from_owner uname u then u\<lparr>u_managed_by := owner\<rparr> else u) (users d)"
    by (auto simp: fold_own_row)
  then show "d' = d\<lparr>users := map (\<lambda>u. if reconcile_selects owner from_owner uname u then u\<lparr>u_managed_by := owner\<rparr> else u) (users d)\<rparr>"
    by (simp add: d')
qed

lemma restore_undoes_reconcile:
  assumes wf: "wf_users (users d)"
    and rec: "reconcile_ownership journal_exists d owner from_owner uname True all_rows (Some path) = (d', ChangedRows rows (Some j))"
  shows "fst (restore_ownership d' j True) = d"
proof -
  let ?P = "reconcile_selects owner from_owner uname"
  note facts = reconcile_users [OF wf rec]
  have dist: "distinct (map fst rows)"
  proof -
    have "map fst rows = map u_username (filter ?P (users d))" by (simp add: facts(3) comp_def)
    then show ?thesis
      using wf unique_on_filter [of u_username "users d" ?P] by (simp add: wf_users_def unique_on_def)
  qed
  have "fold (disown_row owner) rows (if ?P u then u\<lparr>u_managed_by := owner\<rparr> else u) = u" if "u \<in> set (users d)" for u
  proof (cases "?P u")
    case True
    with that have "(u_username u, u_managed_by u) \<in> set rows" by (simp add: facts(3))
    then have "fold (disown_row owner) rows (u\<lparr>u_managed_by := owner\<rparr>) = u\<lparr>u_managed_by := owner\<rparr>\<lparr>u_managed_by := u_managed_by u\<rparr>"
      by (intro fold_disown_row [OF dist]) simp_all
    with True show ?thesis by simp
  next
    case False
    have "u_username u \<notin> fst ` set rows"
    proof
      assume "u_username u \<in> fst ` set rows"
      then obtain v where v: "v \<in> set (users d)" "?P v" "u_username v = u_username u"
        unfolding facts(3) by auto
      from username_unique [OF wf v(1) that v(3)] v(2) False show False by simp
    qed
    with False show ?thesis by (simp add: fold_disown_other)
  qed
  then have "map (fold (disown_row owner) rows \<circ> (\<lambda>u. if ?P u then u\<lparr>u_managed_by := owner\<rparr> else u)) (users d) = users d"
    by (intro map_idI) simp
  then have "users d = fst (fold (restore_one owner) rows (users d', 0, []))"
    unfolding restore_one_rows by (simp add: facts(1))
  then show ?thesis
    unfolding restore_ownership_def facts(2) using facts(4) by (auto simp: facts(1) split: prod.splits)
qed

end
