(* ===== verification/Json.thy ===== *)
theory Json
  imports Prelude
begin

section \<open>Untyped values: parsed JSON, claims and configuration\<close>

text \<open>
  The Python values that \<^verbatim>\<open>json.loads\<close>, a token's claims and the configuration chain
  deliver, with the questions the sources ask of them: \<^verbatim>\<open>dict.get\<close>, truth value and
  \<^verbatim>\<open>isinstance\<close>. A dictionary is an association list with distinct keys. Of a number
  only its truth value and its integer part matter, so it is an integer.
\<close>

datatype json =
    JNull
  | JBool bool
  | JNum int
  | JStr string
  | JList "json list"
  | JObj "(string \<times> json) list"

type_synonym dict = "(string \<times> json) list"

text \<open>\<^verbatim>\<open>d.get(k)\<close> and \<^verbatim>\<open>d.get(k, default)\<close>.\<close>

definition jget :: "dict \<Rightarrow> string \<Rightarrow> json" where
  "jget d k = (case map_of d k of None \<Rightarrow> JNull | Some v \<Rightarrow> v)"

definition jget_or :: "dict \<Rightarrow> string \<Rightarrow> json \<Rightarrow> json" where
  "jget_or d k v = (case map_of d k of None \<Rightarrow> v | Some w \<Rightarrow> w)"

fun truthy :: "json \<Rightarrow> bool" where
  "truthy JNull = False"
| "truthy (JBool b) = b"
| "truthy (JNum n) = (n \<noteq> 0)"
| "truthy (JStr s) = (s \<noteq> [])"
| "truthy (JList xs) = (xs \<noteq> [])"
| "truthy (JObj kvs) = (kvs \<noteq> [])"

fun is_str :: "json \<Rightarrow> bool" where
  "is_str (JStr s) = True"
| "is_str _ = False"

fun is_list :: "json \<Rightarrow> bool" where
  "is_list (JList xs) = True"
| "is_list _ = False"

fun is_obj :: "json \<Rightarrow> bool" where
  "is_obj (JObj kvs) = True"
| "is_obj _ = False"

fun str_of :: "json \<Rightarrow> string option" where
  "str_of (JStr s) = Some s"
| "str_of _ = None"

text \<open>\<^verbatim>\<open>isinstance(v, str) and v.strip()\<close>, and the stripped string.\<close>

definition stripped :: "json \<Rightarrow> string option" where
  "stripped v = map_option py_strip (str_of v)"

definition usable_str :: "json \<Rightarrow> bool" where
  "usable_str v = (case stripped v of None \<Rightarrow> False | Some s \<Rightarrow> s \<noteq> [])"

definition upper_char :: "char \<Rightarrow> char" where
  "upper_char c = (if 97 \<le> (of_char c :: nat) \<and> (of_char c :: nat) \<le> 122 then char_of ((of_char c :: nat) - 32) else c)"

definition py_upper :: "string \<Rightarrow> string" where
  "py_upper s = map upper_char s"

lemma usable_str_iff: "usable_str v \<longleftrightarrow> (\<exists>s. v = JStr s \<and> py_strip s \<noteq> [])"
  by (cases v) (auto simp: usable_str_def stripped_def)

lemma is_str_iff: "is_str v \<longleftrightarrow> (\<exists>s. v = JStr s)"
  by (cases v) auto

end
