(* ===== verification/Kubernetes.thy ===== *)
theory Kubernetes
  imports Json
begin

section \<open>Kubernetes service accounts (kubernetes.py)\<close>

text \<open>
  Reading a projected token's subject, the names derived from it, the namespace allowlist and the
  shape of an inline key set. The two regular expressions are written out, with Python's reading of
  \<^verbatim>\<open>$\<close>: it matches at the end and before a final newline. The lemmas: different service
  accounts have different user names, and what a parsed subject looks like.
\<close>

definition MAX_LABEL_LENGTH :: nat where
  "MAX_LABEL_LENGTH = 63"

definition is_label_char :: "char \<Rightarrow> bool" where
  "is_label_char c \<longleftrightarrow> (97 \<le> (of_char c :: nat) \<and> (of_char c :: nat) \<le> 122) \<or> (48 \<le> (of_char c :: nat) \<and> (of_char c :: nat) \<le> 57)"

text \<open>The strings of \<^verbatim>\<open>[a-z0-9]([-a-z0-9]*[a-z0-9])?\<close>.\<close>

definition label_core :: "string \<Rightarrow> bool" where
  "label_core s \<longleftrightarrow> s \<noteq> [] \<and> is_label_char (hd s) \<and> is_label_char (last s) \<and> list_all (\<lambda>c. is_label_char c \<or> c = CHR ''-'') s"

definition newline :: char where
  "newline = CHR 0x0A"

definition DNS_LABEL :: "string \<Rightarrow> bool" where
  "DNS_LABEL s \<longleftrightarrow> label_core s \<or> (s \<noteq> [] \<and> last s = newline \<and> label_core (butlast s))"

definition valid_dns_label :: "string \<Rightarrow> bool" where
  "valid_dns_label s \<longleftrightarrow> s \<noteq> [] \<and> length s \<le> MAX_LABEL_LENGTH \<and> DNS_LABEL s"

definition SUBJECT_PREFIX :: string where
  "SUBJECT_PREFIX = ''system:serviceaccount:''"

text \<open>
  \<^verbatim>\<open>^system:serviceaccount:(?P<namespace>[^:]+):(?P<name>[^:]+)$\<close>: two parts free of
  colons. The second group is greedy, so it takes a final newline with it.
\<close>

definition SERVICE_ACCOUNT_SUBJECT :: "string \<Rightarrow> (string \<times> string) option" where
  "SERVICE_ACCOUNT_SUBJECT s =
     (if prefix SUBJECT_PREFIX s
      then let rest = drop (length SUBJECT_PREFIX) s;
               ns = takeWhile (\<lambda>c. c \<noteq> CHR '':'') rest
           in case dropWhile (\<lambda>c. c \<noteq> CHR '':'') rest of
                [] \<Rightarrow> None
              | _ # name \<Rightarrow> if ns \<noteq> [] \<and> name \<noteq> [] \<and> CHR '':'' \<notin> set name then Some (ns, name) else None
      else None)"

record service_account =
  sa_namespace :: string
  sa_name :: string

definition sa_username :: "service_account \<Rightarrow> string" where
  "sa_username sa = sa_name sa @ ''.'' @ sa_namespace sa @ ''@serviceaccount.cluster.local''"

definition sa_group :: "service_account \<Rightarrow> string" where
  "sa_group sa = ''k8s:'' @ sa_namespace sa"

datatype service_account_error = SubjectNotAString | NotAServiceAccount | NotDnsLabels

definition parse_service_account :: "json \<Rightarrow> service_account_error + service_account" where
  "parse_service_account subject =
     (case str_of subject of
        None \<Rightarrow> Inl SubjectNotAString
      | Some s \<Rightarrow>
          (case SERVICE_ACCOUNT_SUBJECT s of
             None \<Rightarrow> Inl NotAServiceAccount
           | Some (ns, name) \<Rightarrow>
               if \<not> valid_dns_label ns \<or> \<not> valid_dns_label name then Inl NotDnsLabels
               else Inr \<lparr>sa_namespace = ns, sa_name = name\<rparr>))"

definition namespace_is_allowed :: "string \<Rightarrow> string list \<Rightarrow> bool" where
  "namespace_is_allowed ns allowlist \<longleftrightarrow> ns \<in> set allowlist"

text \<open>\<^verbatim>\<open>json.loads\<close> is a parameter; \<^verbatim>\<open>None\<close> is its decode error.\<close>

definition load_inline_jwks :: "(string \<Rightarrow> json option) \<Rightarrow> json \<Rightarrow> json res" where
  "load_inline_jwks json_loads raw =
     (let parsed = (case str_of raw of Some s \<Rightarrow> json_loads s | None \<Rightarrow> Some raw) in
      case parsed of
        Some (JObj kvs) \<Rightarrow>
          (case jget kvs ''keys'' of
             JList (k # ks) \<Rightarrow> Inr (JObj kvs)
           | _ \<Rightarrow> Inl ValueError)
      | _ \<Rightarrow> Inl ValueError)"

subsection \<open>Names determine accounts\<close>

lemma label_char_not: "is_label_char c \<Longrightarrow> c \<noteq> CHR ''.'' \<and> c \<noteq> CHR '':'' \<and> c \<noteq> CHR ''@''"
  by (auto simp: is_label_char_def)

lemma label_core_chars: "label_core s \<Longrightarrow> CHR ''.'' \<notin> set s \<and> CHR '':'' \<notin> set s \<and> CHR ''@'' \<notin> set s"
  using label_char_not by (auto simp: label_core_def list_all_iff)

lemma set_snoc_last: "s \<noteq> [] \<Longrightarrow> set s = insert (last s) (set (butlast s))"
  by (cases s rule: rev_cases) auto

lemma valid_label_chars:
  assumes "valid_dns_label s"
  shows "CHR ''.'' \<notin> set s" "CHR '':'' \<notin> set s" "CHR ''@'' \<notin> set s"
proof -
  have "CHR ''.'' \<notin> set s \<and> CHR '':'' \<notin> set s \<and> CHR ''@'' \<notin> set s"
  proof (cases "label_core s")
    case True
    then show ?thesis by (rule label_core_chars)
  next
    case False
    with assms have s: "s \<noteq> []" "last s = newline" and core: "label_core (butlast s)"
      by (simp_all add: valid_dns_label_def DNS_LABEL_def)
    show ?thesis
      using label_core_chars [OF core] unfolding set_snoc_last [OF s(1)] s(2) newline_def by simp
  qed
  then show "CHR ''.'' \<notin> set s" "CHR '':'' \<notin> set s" "CHR ''@'' \<notin> set s" by simp_all
qed

lemma split_at_first:
  assumes "xs @ c # ys = xs' @ c # ys'" and "c \<notin> set xs" and "c \<notin> set xs'"
  shows "xs = xs' \<and> ys = ys'"
  using assms
proof (induction xs arbitrary: xs')
  case Nil
  then show ?case by (cases xs') auto
next
  case (Cons x xs)
  then show ?case by (cases xs') auto
qed

lemma parse_service_account_labels:
  "parse_service_account subject = Inr sa \<Longrightarrow> valid_dns_label (sa_namespace sa) \<and> valid_dns_label (sa_name sa)"
  by (auto simp: parse_service_account_def split: option.splits if_splits)

lemma sa_username_inj:
  assumes "valid_dns_label (sa_name sa)" and "valid_dns_label (sa_name sa')"
    and "valid_dns_label (sa_namespace sa)" and "valid_dns_label (sa_namespace sa')"
    and "sa_username sa = sa_username sa'"
  shows "sa = sa'"
proof -
  have "sa_name sa = sa_name sa' \<and> sa_namespace sa @ ''@serviceaccount.cluster.local'' = sa_namespace sa' @ ''@serviceaccount.cluster.local''"
    using assms(5) unfolding sa_username_def
    by (intro split_at_first [of _ "CHR ''.''"]) (simp_all add: valid_label_chars [OF assms(1)] valid_label_chars [OF assms(2)])
  then show ?thesis by simp
qed

text \<open>What the subject expression accepts, and the round trip through it.\<close>

lemma subject_round_trip:
  assumes "valid_dns_label ns" and "valid_dns_label name"
  shows "parse_service_account (JStr (SUBJECT_PREFIX @ ns @ '':'' @ name)) = Inr \<lparr>sa_namespace = ns, sa_name = name\<rparr>"
proof -
  have "takeWhile (\<lambda>c. c \<noteq> CHR '':'') (ns @ '':'' @ name) = ns" "dropWhile (\<lambda>c. c \<noteq> CHR '':'') (ns @ '':'' @ name) = '':'' @ name"
    using valid_label_chars(2) [OF assms(1)] by (auto simp: takeWhile_append dropWhile_append)
  moreover have "ns \<noteq> []" "name \<noteq> []" "CHR '':'' \<notin> set name"
    using assms valid_label_chars(2) [OF assms(2)] by (auto simp: valid_dns_label_def)
  ultimately show ?thesis
    using assms by (simp add: parse_service_account_def SERVICE_ACCOUNT_SUBJECT_def Let_def)
qed

lemma subject_parse_print:
  assumes "parse_service_account subject = Inr sa"
  shows "subject = JStr (SUBJECT_PREFIX @ sa_namespace sa @ '':'' @ sa_name sa)"
proof -
  obtain s where s: "subject = JStr s" "SERVICE_ACCOUNT_SUBJECT s = Some (sa_namespace sa, sa_name sa)"
    using assms by (cases subject) (auto simp: parse_service_account_def split: option.splits if_splits)
  then obtain c where "prefix SUBJECT_PREFIX s" "sa_namespace sa = takeWhile (\<lambda>c. c \<noteq> CHR '':'') (drop (length SUBJECT_PREFIX) s)"
    "dropWhile (\<lambda>c. c \<noteq> CHR '':'') (drop (length SUBJECT_PREFIX) s) = c # sa_name sa"
    by (auto simp: SERVICE_ACCOUNT_SUBJECT_def Let_def split: if_splits list.splits)
  moreover from this(3) have "c = CHR '':''"
    by (metis (mono_tags, lifting) hd_dropWhile list.sel(1) list.distinct(1))
  ultimately have "drop (length SUBJECT_PREFIX) s = sa_namespace sa @ '':'' @ sa_name sa"
    by (metis append_Cons append_Nil takeWhile_dropWhile_id)
  with \<open>prefix SUBJECT_PREFIX s\<close> have "s = SUBJECT_PREFIX @ sa_namespace sa @ '':'' @ sa_name sa"
    by (auto simp: prefix_def)
  with s show ?thesis by simp
qed

end
