(* ===== verification/Provider_Registry.thy ===== *)
theory Provider_Registry
  imports Kubernetes
begin

section \<open>The identity provider registry (provider_registry.py)\<close>

text \<open>
  The construction of the provider list from \<^verbatim>\<open>AUTH_PROVIDERS\<close>,
  \<^verbatim>\<open>AUTH_PROVIDERS_FILE\<close> or the flat \<^verbatim>\<open>OIDC_*\<close> variables:
  validation of an entry, the rejection of duplicate ids and issuers, and the fallbacks. A rejection
  reason is a constructor with the values its message names. The parameters are
  \<^verbatim>\<open>json.loads\<close>, the reading of the file and whether a SAML library is importable.
  The lemmas say what every accepted provider satisfies and when the legacy provider is used.
\<close>

definition DEFAULT_PROVIDER_ID :: string where
  "DEFAULT_PROVIDER_ID = ''default''"

definition PROVIDER_TYPES :: "string list" where
  "PROVIDER_TYPES = [''oidc'', ''saml'', ''k8s'']"

definition INTERACTIVE_BY_DEFAULT :: "json \<Rightarrow> bool option" where
  "INTERACTIVE_BY_DEFAULT t =
     (if t = JStr ''oidc'' then Some True else if t = JStr ''saml'' then Some True
      else if t = JStr ''k8s'' then Some False else None)"

definition PROVISIONING_MODES :: "string list" where
  "PROVISIONING_MODES = [''jit'', ''scim'', ''none'']"

definition GROUP_SYNC_MODES :: "string list" where
  "GROUP_SYNC_MODES = [''none'', ''first_login'', ''every_login'']"

definition GROUP_SYNC_STRATEGIES :: "string list" where
  "GROUP_SYNC_STRATEGIES = [''additive'', ''authoritative'']"

definition TOKEN_PROVIDER_TYPES :: "string list" where
  "TOKEN_PROVIDER_TYPES = [''oidc'', ''k8s'']"

definition KUBERNETES_ONLY_FIELDS :: "string list" where
  "KUBERNETES_ONLY_FIELDS = [''jwks_inline'', ''jwks_uri'', ''in_cluster'', ''ca_bundle_path'', ''namespace_allowlist'']"

definition ADMIN_SOURCES :: "string list" where
  "ADMIN_SOURCES = [''claims'', ''none'']"

definition IDENTITY_BINDINGS :: "string list" where
  "IDENTITY_BINDINGS = [''subject'', ''email'']"

definition HMAC_ALGORITHMS :: "string list" where
  "HMAC_ALGORITHMS = [''HS256'', ''HS384'', ''HS512'']"

definition ASYMMETRIC_ALGORITHMS :: "string list" where
  "ASYMMETRIC_ALGORITHMS = [''RS256'', ''RS384'', ''RS512'', ''PS256'', ''PS384'', ''PS512'',
     ''ES256'', ''ES384'', ''ES512'', ''EdDSA'']"

definition CANONICAL_ALGORITHMS :: "string \<rightharpoonup> string" where
  "CANONICAL_ALGORITHMS = dict_of (map (\<lambda>a. (py_upper a, a)) (ASYMMETRIC_ALGORITHMS @ HMAC_ALGORITHMS))"

definition DEFAULT_ALGORITHMS :: "string list" where
  "DEFAULT_ALGORITHMS = [''RS256'']"

record provider_config =
  pc_id :: string
  pc_type :: string
  pc_display_name :: string
  pc_provisioning :: string
  pc_group_sync :: string
  pc_group_sync_mode :: string
  pc_admin_source :: string
  pc_identity_binding :: string
  pc_interactive :: bool
  pc_allowed_email_domains :: "string list"
  pc_allowed_algorithms :: "string list"
  pc_audience :: "string option"
  pc_issuer :: "string option"
  pc_discovery_url :: "string option"
  pc_client_id :: "string option"
  pc_jwks_inline :: "json option"
  pc_jwks_uri :: "string option"
  pc_ca_bundle_path :: "string option"
  pc_in_cluster :: bool
  pc_namespace_allowlist :: "string list"

datatype registry_error =
    IdRequired nat
  | DuplicateId string
  | NotAString string string
  | NotAStringOrList string string
  | UnknownValue string string json
  | InteractiveNotBool string json
  | NoBrowserFlow string json
  | EmailNeedsDomains string
  | AlgorithmsNotStrings string
  | NoAlgorithm string
  | AlgorithmNone string
  | AlgorithmSymmetric string string
  | AlgorithmUnknown string string
  | AudienceRequired string
  | IssuerRequired string string
  | KubernetesOnly string string string
  | DiscoveryRequired string
  | SamlExtraMissing string
  | NoKeySource string
  | BadInlineJwks string
  | AllowlistRequired string
  | NotANamespace string string
  | AdminSourceScim string
  | NotJson string
  | NotAnArray string
  | NotAnObject string nat
  | NotReadable string
  | UnusableType string
  | FallingBack string
  | DuplicateIdIgnored string
  | IssuerClaimed string string string

subsection \<open>Field helpers\<close>

definition as_tuple :: "json \<Rightarrow> string list" where
  "as_tuple value =
     (case value of
        JStr s \<Rightarrow> (if py_strip s \<noteq> [] then [py_strip s] else [])
      | JList xs \<Rightarrow> [py_strip s. JStr s \<leftarrow> xs, py_strip s \<noteq> []]
      | _ \<Rightarrow> [])"

definition STRING_FIELDS :: "string list" where
  "STRING_FIELDS = [''type'', ''display_name'', ''provisioning'', ''group_sync'', ''group_sync_mode'', ''admin_source'',
     ''identity_binding'', ''audience'', ''issuer'', ''discovery_url'', ''client_id'']"

definition LIST_FIELDS :: "string list" where
  "LIST_FIELDS = [''allowed_email_domains'', ''allowed_algorithms'']"

definition validate_field_types :: "dict \<Rightarrow> string \<Rightarrow> registry_error list" where
  "validate_field_types entry label =
     [NotAString label key. key \<leftarrow> STRING_FIELDS, jget entry key \<noteq> JNull \<and> \<not> is_str (jget entry key)] @
     [NotAStringOrList label key. key \<leftarrow> LIST_FIELDS,
        jget entry key \<noteq> JNull \<and> \<not> (is_str (jget entry key) \<or> is_list (jget entry key))]"

text \<open>One turn of the loop over the configured algorithm names.\<close>

definition algorithm_check :: "string \<Rightarrow> string \<Rightarrow> registry_error + string" where
  "algorithm_check label algorithm =
     (let upper = py_upper algorithm in
      if upper = ''NONE'' then Inl (AlgorithmNone label)
      else if upper \<in> set HMAC_ALGORITHMS then Inl (AlgorithmSymmetric label algorithm)
      else case CANONICAL_ALGORITHMS upper of
             None \<Rightarrow> Inl (AlgorithmUnknown label algorithm)
           | Some canonical \<Rightarrow> Inr canonical)"

definition validate_algorithms :: "json \<Rightarrow> string \<Rightarrow> string list \<times> registry_error list" where
  "validate_algorithms value label =
     (if value = JNull then (DEFAULT_ALGORITHMS, [])
      else let items = (case value of JList xs \<Rightarrow> xs | v \<Rightarrow> [v]) in
           if \<exists>v\<in>set items. \<not> is_str v then (DEFAULT_ALGORITHMS, [AlgorithmsNotStrings label])
           else let raw = as_tuple value in
                if raw = [] then (DEFAULT_ALGORITHMS, [NoAlgorithm label])
                else let checked = map (algorithm_check label) raw;
                         errors = [e. Inl e \<leftarrow> checked];
                         algorithms = [a. Inr a \<leftarrow> checked]
                     in if errors \<noteq> [] then (DEFAULT_ALGORITHMS, errors) else (algorithms, []))"

definition validate_kubernetes :: "(string \<Rightarrow> json option) \<Rightarrow> dict \<Rightarrow> string \<Rightarrow> registry_error list" where
  "validate_kubernetes json_loads entry label =
     (let allowlist = as_tuple (jget entry ''namespace_allowlist'') in
      (if \<not> (truthy (jget entry ''discovery_url'') \<or> truthy (jget entry ''jwks_inline'') \<or>
             truthy (jget entry ''jwks_uri'') \<or> truthy (jget entry ''in_cluster''))
       then [NoKeySource label] else []) @
      (if truthy (jget entry ''jwks_inline'')
       then (case load_inline_jwks json_loads (jget entry ''jwks_inline'') of Inl _ \<Rightarrow> [BadInlineJwks label] | Inr _ \<Rightarrow> [])
       else []) @
      (if allowlist = [] then [AllowlistRequired label] else []) @
      [NotANamespace label ns. ns \<leftarrow> allowlist, \<not> valid_dns_label ns])"

definition validate_admin_source :: "json \<Rightarrow> string \<Rightarrow> registry_error list" where
  "validate_admin_source admin_source label =
     (if admin_source = JStr ''scim'' then [AdminSourceScim label]
      else if admin_source \<notin> JStr ` set ADMIN_SOURCES then [UnknownValue label ''admin_source'' admin_source]
      else [])"

definition check_member :: "string \<Rightarrow> string \<Rightarrow> string list \<Rightarrow> json \<Rightarrow> registry_error list" where
  "check_member label field choices v = (if v \<in> JStr ` set choices then [] else [UnknownValue label field v])"

subsection \<open>One entry\<close>

text \<open>The errors of the entry under an id, in the order the source collects them.\<close>

definition entry_errors :: "(string \<Rightarrow> json option) \<Rightarrow> bool \<Rightarrow> dict \<Rightarrow> string \<Rightarrow> registry_error list" where
  "entry_errors json_loads saml entry label =
     (let provider_type = jget_or entry ''type'' (JStr ''oidc'');
          binding = jget_or entry ''identity_binding'' (JStr ''subject'');
          interactive_default = (case INTERACTIVE_BY_DEFAULT provider_type of Some b \<Rightarrow> b | None \<Rightarrow> True);
          interactive = jget_or entry ''interactive'' (JBool interactive_default)
      in check_member label ''type'' PROVIDER_TYPES provider_type @
         check_member label ''provisioning'' PROVISIONING_MODES (jget_or entry ''provisioning'' (JStr ''jit'')) @
         check_member label ''group_sync'' GROUP_SYNC_MODES (jget_or entry ''group_sync'' (JStr ''every_login'')) @
         check_member label ''group_sync_mode'' GROUP_SYNC_STRATEGIES (jget_or entry ''group_sync_mode'' (JStr ''authoritative'')) @
         validate_admin_source (jget_or entry ''admin_source'' (JStr ''claims'')) label @
         check_member label ''identity_binding'' IDENTITY_BINDINGS binding @
         (case interactive of
            JBool b \<Rightarrow> (if b \<and> \<not> interactive_default then [NoBrowserFlow label provider_type] else [])
          | v \<Rightarrow> [InteractiveNotBool label v]) @
         (if binding = JStr ''email'' \<and> as_tuple (jget entry ''allowed_email_domains'') = [] then [EmailNeedsDomains label] else []) @
         snd (validate_algorithms (jget entry ''allowed_algorithms'') label) @
         (if \<not> usable_str (jget entry ''audience'') then [AudienceRequired label] else []) @
         (case provider_type of
            JStr t \<Rightarrow>
              (if t \<in> set TOKEN_PROVIDER_TYPES
               then (if \<not> usable_str (jget entry ''issuer'') then [IssuerRequired label t] else []) @
                    (if t = ''k8s'' then validate_kubernetes json_loads entry label
                     else [KubernetesOnly label field t. field \<leftarrow> KUBERNETES_ONLY_FIELDS, truthy (jget entry field)]) @
                    (if t = ''oidc'' \<and> \<not> usable_str (jget entry ''discovery_url'') then [DiscoveryRequired label] else [])
               else [])
          | _ \<Rightarrow> []) @
         (if provider_type = JStr ''saml'' \<and> \<not> saml then [SamlExtraMissing label] else []))"

text \<open>The string behind a value that validation has shown to be one.\<close>

definition the_str :: "json \<Rightarrow> string" where
  "the_str v = (case str_of v of Some s \<Rightarrow> s | None \<Rightarrow> [])"

definition nonblank :: "json \<Rightarrow> string option" where
  "nonblank v = (if usable_str v then stripped v else None)"

definition build_provider :: "dict \<Rightarrow> string \<Rightarrow> provider_config" where
  "build_provider entry provider_id =
     (let provider_type = the_str (jget_or entry ''type'' (JStr ''oidc''));
          interactive_default = (case INTERACTIVE_BY_DEFAULT (JStr provider_type) of Some b \<Rightarrow> b | None \<Rightarrow> True);
          inline = jget entry ''jwks_inline''
      in \<lparr>pc_id = provider_id, pc_type = provider_type,
          pc_display_name = (if truthy (jget entry ''display_name'') then the_str (jget entry ''display_name'') else provider_id),
          pc_provisioning = the_str (jget_or entry ''provisioning'' (JStr ''jit'')),
          pc_group_sync = the_str (jget_or entry ''group_sync'' (JStr ''every_login'')),
          pc_group_sync_mode = the_str (jget_or entry ''group_sync_mode'' (JStr ''authoritative'')),
          pc_admin_source = the_str (jget_or entry ''admin_source''
            (JStr (if provider_id = DEFAULT_PROVIDER_ID then ''claims'' else ''none''))),
          pc_identity_binding = the_str (jget_or entry ''identity_binding'' (JStr ''subject'')),
          pc_interactive = truthy (jget_or entry ''interactive'' (JBool interactive_default)),
          pc_allowed_email_domains = as_tuple (jget entry ''allowed_email_domains''),
          pc_allowed_algorithms = fst (validate_algorithms (jget entry ''allowed_algorithms'') provider_id),
          pc_audience = stripped (jget entry ''audience''),
          pc_issuer = stripped (jget entry ''issuer''),
          pc_discovery_url = stripped (jget entry ''discovery_url''),
          pc_client_id = stripped (jget entry ''client_id''),
          pc_jwks_inline = (case inline of JStr _ \<Rightarrow> Some inline | JObj _ \<Rightarrow> Some inline | _ \<Rightarrow> None),
          pc_jwks_uri = nonblank (jget entry ''jwks_uri''),
          pc_ca_bundle_path = nonblank (jget entry ''ca_bundle_path''),
          pc_in_cluster = truthy (jget_or entry ''in_cluster'' (JBool False)),
          pc_namespace_allowlist = as_tuple (jget entry ''namespace_allowlist'')\<rparr>)"

definition validate :: "(string \<Rightarrow> json option) \<Rightarrow> bool \<Rightarrow> dict \<Rightarrow> nat \<Rightarrow> string set \<Rightarrow> registry_error list + provider_config" where
  "validate json_loads saml entry index seen_ids =
     (if \<not> usable_str (jget entry ''id'') then Inl [IdRequired index]
      else let provider_id = py_strip (the_str (jget entry ''id'')) in
           if provider_id \<in> seen_ids then Inl [DuplicateId provider_id]
           else let type_errors = validate_field_types entry provider_id in
                if type_errors \<noteq> [] then Inl type_errors
                else let errors = entry_errors json_loads saml entry provider_id in
                     if errors \<noteq> [] then Inl errors else Inr (build_provider entry provider_id))"

subsection \<open>The registry\<close>

record app_config =
  OIDC_PROVIDER_DISPLAY_NAME :: "string option"
  OIDC_AUDIENCE :: "string option"
  OIDC_ISSUER :: "string option"
  OIDC_DISCOVERY_URL :: "string option"
  OIDC_CLIENT_ID :: "string option"

record registry_load_result =
  rl_providers :: "provider_config list"
  rl_errors :: "registry_error list"
  rl_source :: string

definition interactive_providers :: "registry_load_result \<Rightarrow> provider_config list" where
  "interactive_providers r = [p. p \<leftarrow> rl_providers r, pc_interactive p]"

definition by_id :: "registry_load_result \<Rightarrow> string \<Rightarrow> provider_config option" where
  "by_id r pid = List.find (\<lambda>p. pc_id p = pid) (rl_providers r)"

definition legacy_providers :: "app_config \<Rightarrow> provider_config list" where
  "legacy_providers cfg =
     [\<lparr>pc_id = DEFAULT_PROVIDER_ID, pc_type = ''oidc'',
       pc_display_name = (case OIDC_PROVIDER_DISPLAY_NAME cfg of
          None \<Rightarrow> DEFAULT_PROVIDER_ID | Some s \<Rightarrow> if s = [] then DEFAULT_PROVIDER_ID else s),
       pc_provisioning = ''jit'', pc_group_sync = ''every_login'', pc_group_sync_mode = ''authoritative'',
       pc_admin_source = ''claims'', pc_identity_binding = ''subject'', pc_interactive = True,
       pc_allowed_email_domains = [], pc_allowed_algorithms = ASYMMETRIC_ALGORITHMS,
       pc_audience = (case OIDC_AUDIENCE cfg of None \<Rightarrow> None | Some s \<Rightarrow> if py_strip s \<noteq> [] then Some (py_strip s) else None),
       pc_issuer = OIDC_ISSUER cfg, pc_discovery_url = OIDC_DISCOVERY_URL cfg, pc_client_id = OIDC_CLIENT_ID cfg,
       pc_jwks_inline = None, pc_jwks_uri = None, pc_ca_bundle_path = None, pc_in_cluster = False,
       pc_namespace_allowlist = []\<rparr>]"

definition is_present :: "json \<Rightarrow> bool" where
  "is_present value = (case value of JNull \<Rightarrow> False | JStr s \<Rightarrow> py_strip s \<noteq> [] | _ \<Rightarrow> True)"

definition parse_entries :: "(string \<Rightarrow> json option) \<Rightarrow> json \<Rightarrow> string \<Rightarrow> dict list \<times> registry_error list" where
  "parse_entries json_loads raw origin =
     (case (case raw of JStr s \<Rightarrow> json_loads s | JList _ \<Rightarrow> Some raw | JObj _ \<Rightarrow> Some raw | _ \<Rightarrow> None) of
        None \<Rightarrow> ([], [NotJson origin])
      | Some parsed \<Rightarrow>
          (case (case parsed of JObj kvs \<Rightarrow> jget_or kvs ''providers'' parsed | v \<Rightarrow> v) of
             JList xs \<Rightarrow> ([kvs. JObj kvs \<leftarrow> xs],
               [NotAnObject origin i. (i, v) \<leftarrow> enumerate 0 xs, \<not> is_obj v])
           | _ \<Rightarrow> ([], [NotAnArray origin])))"

fun reject_loop :: "(string \<rightharpoonup> string) \<Rightarrow> provider_config list \<Rightarrow> provider_config list \<times> registry_error list" where
  "reject_loop seen [] = ([], [])"
| "reject_loop seen (p # ps) =
     (case pc_issuer p of
        Some iss \<Rightarrow>
          if iss = [] then (case reject_loop seen ps of (kept, errors) \<Rightarrow> (p # kept, errors))
          else (case seen iss of
                  Some owner \<Rightarrow> (case reject_loop seen ps of (kept, errors) \<Rightarrow> (kept, IssuerClaimed (pc_id p) iss owner # errors))
                | None \<Rightarrow> (case reject_loop (seen(iss \<mapsto> pc_id p)) ps of (kept, errors) \<Rightarrow> (p # kept, errors)))
      | None \<Rightarrow> (case reject_loop seen ps of (kept, errors) \<Rightarrow> (p # kept, errors)))"

definition reject_duplicate_issuers :: "provider_config list \<Rightarrow> provider_config list \<times> registry_error list" where
  "reject_duplicate_issuers providers = reject_loop Map.empty providers"

definition entry_ids :: "dict list \<Rightarrow> string list" where
  "entry_ids entries = [py_strip (the_str (jget e ''id'')). e \<leftarrow> entries, usable_str (jget e ''id'')]"

definition duplicate_ids :: "dict list \<Rightarrow> string list" where
  "duplicate_ids entries = [i. i \<leftarrow> dict_fromkeys (entry_ids entries), count_list (entry_ids entries) i > 1]"

text \<open>One turn of the loop over the entries: the ids seen, the errors and the provider accepted.\<close>

definition check_entry :: "(string \<Rightarrow> json option) \<Rightarrow> bool \<Rightarrow> string list \<Rightarrow> nat \<Rightarrow> string set \<Rightarrow> dict \<Rightarrow>
    string set \<times> registry_error list \<times> provider_config option" where
  "check_entry json_loads saml duplicates index seen entry =
     (case stripped (jget entry ''id'') of
        Some i \<Rightarrow>
          if i \<in> set duplicates then (insert i seen, if i \<notin> seen then [DuplicateIdIgnored i] else [], None)
          else (case validate json_loads saml entry index seen of
                  Inl es \<Rightarrow> (seen, es, None)
                | Inr p \<Rightarrow> (insert (pc_id p) seen, [], Some p))
      | None \<Rightarrow>
          (case validate json_loads saml entry index seen of
             Inl es \<Rightarrow> (seen, es, None)
           | Inr p \<Rightarrow> (insert (pc_id p) seen, [], Some p)))"

fun validate_entries :: "(string \<Rightarrow> json option) \<Rightarrow> bool \<Rightarrow> string list \<Rightarrow> nat \<Rightarrow> string set \<Rightarrow> dict list \<Rightarrow>
    provider_config list \<times> registry_error list" where
  "validate_entries json_loads saml duplicates index seen [] = ([], [])"
| "validate_entries json_loads saml duplicates index seen (entry # entries) =
     (let (seen', es, r) = check_entry json_loads saml duplicates index seen entry;
          (ps, errors) = validate_entries json_loads saml duplicates (Suc index) seen' entries
      in ((case r of None \<Rightarrow> ps | Some p \<Rightarrow> p # ps), es @ errors))"

record registry_env =
  re_json_loads :: "string \<Rightarrow> json option"
  re_read_file :: "string \<Rightarrow> string option"
  re_saml :: bool
  re_AUTH_PROVIDERS :: json
  re_AUTH_PROVIDERS_FILE :: json

definition load_entries :: "registry_env \<Rightarrow> app_config \<Rightarrow> json \<Rightarrow> string \<Rightarrow> string \<Rightarrow> registry_load_result" where
  "load_entries env cfg raw origin source =
     (case parse_entries (re_json_loads env) raw origin of
        (entries, errors) \<Rightarrow>
          if entries = [] \<and> errors \<noteq> []
          then \<lparr>rl_providers = legacy_providers cfg, rl_errors = errors @ [FallingBack origin], rl_source = ''legacy''\<rparr>
          else (case validate_entries (re_json_loads env) (re_saml env) (duplicate_ids entries) 0 {} entries of
                  (providers, errors') \<Rightarrow>
                    (case reject_duplicate_issuers providers of
                       (kept, errors'') \<Rightarrow>
                         \<lparr>rl_providers = kept, rl_errors = errors @ errors' @ errors'', rl_source = source\<rparr>)))"

definition build_provider_registry :: "registry_env \<Rightarrow> app_config \<Rightarrow> registry_load_result" where
  "build_provider_registry env cfg =
     (let raw = re_AUTH_PROVIDERS env; origin = ''AUTH_PROVIDERS'' in
      if is_present raw \<and> (case raw of JStr _ \<Rightarrow> False | JList _ \<Rightarrow> False | JObj _ \<Rightarrow> False | _ \<Rightarrow> True)
      then \<lparr>rl_providers = legacy_providers cfg, rl_errors = [UnusableType origin], rl_source = ''legacy''\<rparr>
      else if is_present raw then load_entries env cfg raw origin ''env''
      else (case nonblank (re_AUTH_PROVIDERS_FILE env) of
              None \<Rightarrow> \<lparr>rl_providers = legacy_providers cfg, rl_errors = [], rl_source = ''legacy''\<rparr>
            | Some path \<Rightarrow>
                (case re_read_file env path of
                   None \<Rightarrow> \<lparr>rl_providers = legacy_providers cfg, rl_errors = [NotReadable ''AUTH_PROVIDERS_FILE''], rl_source = ''legacy''\<rparr>
                 | Some content \<Rightarrow> load_entries env cfg (JStr content) ''AUTH_PROVIDERS_FILE'' ''file'')))"

subsection \<open>What an accepted provider satisfies\<close>

text \<open>
  The rules an operator relies on: known policy values, an audience, only asymmetric algorithms, an
  email binding only with domains, an issuer wherever tokens are verified, discovery and no cluster
  settings for OIDC, no browser flow and a list of namespaces for Kubernetes.
\<close>

definition sound_provider :: "provider_config \<Rightarrow> bool" where
  "sound_provider p \<longleftrightarrow>
     pc_id p \<noteq> [] \<and> pc_type p \<in> set PROVIDER_TYPES \<and> pc_provisioning p \<in> set PROVISIONING_MODES \<and>
     pc_group_sync p \<in> set GROUP_SYNC_MODES \<and> pc_group_sync_mode p \<in> set GROUP_SYNC_STRATEGIES \<and>
     pc_admin_source p \<in> set ADMIN_SOURCES \<and> pc_identity_binding p \<in> set IDENTITY_BINDINGS \<and>
     (\<exists>a. pc_audience p = Some a \<and> a \<noteq> []) \<and>
     pc_allowed_algorithms p \<noteq> [] \<and> set (pc_allowed_algorithms p) \<subseteq> set ASYMMETRIC_ALGORITHMS \<and>
     (pc_identity_binding p = ''email'' \<longrightarrow> pc_allowed_email_domains p \<noteq> []) \<and>
     (pc_type p \<in> set TOKEN_PROVIDER_TYPES \<longrightarrow> (\<exists>i. pc_issuer p = Some i \<and> i \<noteq> [])) \<and>
     (pc_type p = ''oidc'' \<longrightarrow> (\<exists>u. pc_discovery_url p = Some u \<and> u \<noteq> []) \<and>
        pc_jwks_uri p = None \<and> pc_ca_bundle_path p = None \<and> \<not> pc_in_cluster p \<and> pc_namespace_allowlist p = []) \<and>
     (pc_type p = ''k8s'' \<longrightarrow> \<not> pc_interactive p \<and> pc_namespace_allowlist p \<noteq> [] \<and>
        list_all valid_dns_label (pc_namespace_allowlist p))"

lemma canonical_asymmetric:
  assumes "CANONICAL_ALGORITHMS u = Some c" and "u \<notin> set HMAC_ALGORITHMS"
  shows "c \<in> set ASYMMETRIC_ALGORITHMS"
proof -
  have "(u, c) \<in> set (map (\<lambda>a. (py_upper a, a)) (ASYMMETRIC_ALGORITHMS @ HMAC_ALGORITHMS))"
    using assms(1) unfolding CANONICAL_ALGORITHMS_def dict_of_def by (auto dest: map_of_SomeD)
  moreover have "list_all (\<lambda>a. py_upper a \<in> set HMAC_ALGORITHMS) HMAC_ALGORITHMS"
    by code_simp
  ultimately show ?thesis
    using assms(2) by (auto simp: list_all_iff)
qed

lemma validate_algorithms_sound:
  assumes "snd (validate_algorithms v label) = []"
  shows "fst (validate_algorithms v label) \<noteq> []"
    and "set (fst (validate_algorithms v label)) \<subseteq> set ASYMMETRIC_ALGORITHMS"
proof -
  have check: "algorithm_check label a = Inr c \<Longrightarrow> c \<in> set ASYMMETRIC_ALGORITHMS" for a c
    by (auto simp: algorithm_check_def Let_def canonical_asymmetric split: if_splits option.splits)
  have default: "DEFAULT_ALGORITHMS \<noteq> []" "set DEFAULT_ALGORITHMS \<subseteq> set ASYMMETRIC_ALGORITHMS"
    by (simp_all add: DEFAULT_ALGORITHMS_def ASYMMETRIC_ALGORITHMS_def)
  have lefts: "[e. Inl e \<leftarrow> xs] = [] \<Longrightarrow> \<exists>ys. xs = map Inr ys" for xs :: "(registry_error + string) list"
  proof (induction xs)
    case (Cons x xs)
    then obtain a where "x = Inr a" by (cases x) auto
    with Cons show ?case by (auto intro: exI [of _ "a # _"])
  qed simp
  have rights: "[a. Inr a \<leftarrow> map Inr ys] = ys" for ys :: "string list"
    by (induction ys) auto
  have "fst (validate_algorithms v label) \<noteq> [] \<and> set (fst (validate_algorithms v label)) \<subseteq> set ASYMMETRIC_ALGORITHMS"
  proof (cases "fst (validate_algorithms v label) = DEFAULT_ALGORITHMS")
    case False
    define checked where "checked = map (algorithm_check label) (as_tuple v)"
    from False assms have raw: "as_tuple v \<noteq> []" and errs: "[e. Inl e \<leftarrow> checked] = []"
      and fst: "fst (validate_algorithms v label) = [a. Inr a \<leftarrow> checked]"
      unfolding validate_algorithms_def checked_def by (auto simp: Let_def split: if_splits)
    from lefts [OF errs] obtain ys where ys: "checked = map Inr ys" by blast
    have "ys \<noteq> []" using raw ys by (auto simp: checked_def)
    moreover have "c \<in> set ASYMMETRIC_ALGORITHMS" if "c \<in> set ys" for c
    proof -
      from that have "Inr c \<in> set checked" by (simp add: ys)
      then show ?thesis unfolding checked_def using check by force
    qed
    ultimately show ?thesis by (auto simp: fst ys rights)
  qed (simp add: default)
  then show "fst (validate_algorithms v label) \<noteq> []"
    and "set (fst (validate_algorithms v label)) \<subseteq> set ASYMMETRIC_ALGORITHMS" by simp_all
qed

lemma check_member_Nil: "check_member label field choices v = [] \<longleftrightarrow> (\<exists>s. v = JStr s \<and> s \<in> set choices)"
  by (auto simp: check_member_def)

lemma admin_source_Nil: "validate_admin_source v label = [] \<longleftrightarrow> (\<exists>s. v = JStr s \<and> s \<in> set ADMIN_SOURCES)"
  by (auto simp: validate_admin_source_def ADMIN_SOURCES_def)

lemma the_str_simps [simp]: "the_str (JStr s) = s"
  by (simp add: the_str_def)

lemma usable_stripped: "usable_str v \<Longrightarrow> \<exists>s. stripped v = Some s \<and> s \<noteq> []"
  by (auto simp: usable_str_def split: option.splits)

lemma nonblank_falsy: "\<not> truthy v \<Longrightarrow> nonblank v = None"
  by (cases v) (auto simp: nonblank_def usable_str_iff py_strip_def)

lemma as_tuple_falsy: "\<not> truthy v \<Longrightarrow> as_tuple v = []"
  by (cases v) (auto simp: as_tuple_def py_strip_def)

lemma comp_Nil: "[f x. x \<leftarrow> xs, P x] = [] \<longleftrightarrow> (\<forall>x\<in>set xs. \<not> P x)"
  by (induction xs) auto

lemma jget_or_falsy: "\<not> truthy (jget d k) \<Longrightarrow> \<not> truthy w \<Longrightarrow> \<not> truthy (jget_or d k w)"
  by (auto simp: jget_def jget_or_def split: option.splits)

lemma validate_kubernetes_Nil:
  assumes "validate_kubernetes json_loads entry label = []"
  shows "as_tuple (jget entry ''namespace_allowlist'') \<noteq> []"
    and "list_all valid_dns_label (as_tuple (jget entry ''namespace_allowlist''))"
  using assms unfolding validate_kubernetes_def Let_def append_is_Nil_conv comp_Nil by (auto simp: list_all_iff split: if_splits)

lemma token_rules:
  assumes "entry_errors json_loads saml entry label = []" and "jget_or entry ''type'' (JStr ''oidc'') = JStr t"
    and "t \<in> set TOKEN_PROVIDER_TYPES"
  shows "usable_str (jget entry ''issuer'')"
    and "t = ''k8s'' \<Longrightarrow> validate_kubernetes json_loads entry label = []"
    and "t \<noteq> ''k8s'' \<Longrightarrow> field \<in> set KUBERNETES_ONLY_FIELDS \<Longrightarrow> \<not> truthy (jget entry field)"
    and "t = ''oidc'' \<Longrightarrow> usable_str (jget entry ''discovery_url'')"
  using assms unfolding entry_errors_def Let_def append_is_Nil_conv assms(2) json.case
  by (simp_all add: comp_Nil del: concat_eq_Nil_conv split: if_splits)

lemma policy_rules:
  assumes "entry_errors json_loads saml entry label = []"
  shows "\<exists>s. jget_or entry ''type'' (JStr ''oidc'') = JStr s \<and> s \<in> set PROVIDER_TYPES"
    and "\<exists>s. jget_or entry ''provisioning'' (JStr ''jit'') = JStr s \<and> s \<in> set PROVISIONING_MODES"
    and "\<exists>s. jget_or entry ''group_sync'' (JStr ''every_login'') = JStr s \<and> s \<in> set GROUP_SYNC_MODES"
    and "\<exists>s. jget_or entry ''group_sync_mode'' (JStr ''authoritative'') = JStr s \<and> s \<in> set GROUP_SYNC_STRATEGIES"
    and "\<exists>s. jget_or entry ''admin_source'' (JStr ''claims'') = JStr s \<and> s \<in> set ADMIN_SOURCES"
    and "\<exists>s. jget_or entry ''identity_binding'' (JStr ''subject'') = JStr s \<and> s \<in> set IDENTITY_BINDINGS"
    and "jget_or entry ''identity_binding'' (JStr ''subject'') = JStr ''email'' \<Longrightarrow> as_tuple (jget entry ''allowed_email_domains'') \<noteq> []"
    and "snd (validate_algorithms (jget entry ''allowed_algorithms'') label) = []"
    and "usable_str (jget entry ''audience'')"
    and "jget_or entry ''type'' (JStr ''oidc'') = JStr ''k8s'' \<Longrightarrow> \<not> truthy (jget_or entry ''interactive'' (JBool False))"
  using assms unfolding entry_errors_def Let_def append_is_Nil_conv check_member_Nil admin_source_Nil
  by (simp_all add: INTERACTIVE_BY_DEFAULT_def split: if_splits json.splits)

lemma build_provider_sound:
  assumes "entry_errors json_loads saml entry pid = []" and "pid \<noteq> []"
  shows "sound_provider (build_provider entry pid)"
proof -
  note rules = policy_rules [OF assms(1)]
  obtain t where t: "jget_or entry ''type'' (JStr ''oidc'') = JStr t" "t \<in> set PROVIDER_TYPES" using rules(1) by blast
  obtain b where b: "jget_or entry ''identity_binding'' (JStr ''subject'') = JStr b" "b \<in> set IDENTITY_BINDINGS" using rules(6) by blast
  let ?p = "build_provider entry pid"
  have fields: "pc_id ?p = pid" "pc_type ?p = t" "pc_identity_binding ?p = b"
    "pc_provisioning ?p = the_str (jget_or entry ''provisioning'' (JStr ''jit''))"
    "pc_group_sync ?p = the_str (jget_or entry ''group_sync'' (JStr ''every_login''))"
    "pc_group_sync_mode ?p = the_str (jget_or entry ''group_sync_mode'' (JStr ''authoritative''))"
    "pc_allowed_email_domains ?p = as_tuple (jget entry ''allowed_email_domains'')"
    "pc_allowed_algorithms ?p = fst (validate_algorithms (jget entry ''allowed_algorithms'') pid)"
    "pc_audience ?p = stripped (jget entry ''audience'')" "pc_issuer ?p = stripped (jget entry ''issuer'')"
    "pc_discovery_url ?p = stripped (jget entry ''discovery_url'')"
    "pc_jwks_uri ?p = nonblank (jget entry ''jwks_uri'')" "pc_ca_bundle_path ?p = nonblank (jget entry ''ca_bundle_path'')"
    "pc_in_cluster ?p = truthy (jget_or entry ''in_cluster'' (JBool False))"
    "pc_namespace_allowlist ?p = as_tuple (jget entry ''namespace_allowlist'')"
    by (simp_all add: build_provider_def t b Let_def)
  have admin: "pc_admin_source ?p \<in> set ADMIN_SOURCES"
    using rules(5) by (auto simp: build_provider_def Let_def jget_or_def ADMIN_SOURCES_def split: option.splits)
  have k8s: "\<not> pc_interactive ?p" if "t = ''k8s''"
    using rules(10) t that by (simp add: build_provider_def Let_def INTERACTIVE_BY_DEFAULT_def)
  have issuer: "\<exists>i. pc_issuer ?p = Some i \<and> i \<noteq> []" if "t \<in> set TOKEN_PROVIDER_TYPES"
    using token_rules(1) [OF assms(1) t(1) that] unfolding fields by (rule usable_stripped)
  have oidc: "\<exists>u. pc_discovery_url ?p = Some u \<and> u \<noteq> []" "pc_jwks_uri ?p = None" "pc_ca_bundle_path ?p = None"
    "\<not> pc_in_cluster ?p" "pc_namespace_allowlist ?p = []" if "t = ''oidc''"
  proof -
    have tok: "t \<in> set TOKEN_PROVIDER_TYPES" using that by (simp add: TOKEN_PROVIDER_TYPES_def)
    show "\<exists>u. pc_discovery_url ?p = Some u \<and> u \<noteq> []"
      unfolding fields by (intro usable_stripped token_rules(4) [OF assms(1) t(1) tok that])
    have "\<not> truthy (jget entry field)" if "field \<in> set KUBERNETES_ONLY_FIELDS" for field
      using that \<open>t = ''oidc''\<close> by (intro token_rules(3) [OF assms(1) t(1) tok]) simp_all
    then show "pc_jwks_uri ?p = None" "pc_ca_bundle_path ?p = None" "\<not> pc_in_cluster ?p" "pc_namespace_allowlist ?p = []"
      unfolding fields by (simp_all add: KUBERNETES_ONLY_FIELDS_def nonblank_falsy as_tuple_falsy jget_or_falsy)
  qed
  have namespaces: "pc_namespace_allowlist ?p \<noteq> []" "list_all valid_dns_label (pc_namespace_allowlist ?p)" if "t = ''k8s''"
    using validate_kubernetes_Nil [OF token_rules(2) [OF assms(1) t(1) _ that]] that
    unfolding fields by (simp_all add: TOKEN_PROVIDER_TYPES_def)
  show ?thesis
    unfolding sound_provider_def fields
    using assms(2) t b rules(2,3,4,7) validate_algorithms_sound [OF rules(8)] usable_stripped [OF rules(9)]
      admin k8s issuer oidc namespaces unfolding fields by auto
qed

lemma validate_Inr:
  assumes "validate json_loads saml entry index seen = Inr p"
  shows "sound_provider p" and "pc_id p \<notin> seen" and "stripped (jget entry ''id'') = Some (pc_id p)"
proof -
  from assms have u: "usable_str (jget entry ''id'')"
    by (auto simp: validate_def split: if_splits)
  then obtain s where s: "jget entry ''id'' = JStr s" "py_strip s \<noteq> []"
    by (auto simp: usable_str_iff)
  from assms s have "entry_errors json_loads saml entry (py_strip s) = []" and p: "p = build_provider entry (py_strip s)"
    and "py_strip s \<notin> seen"
    by (auto simp: validate_def Let_def split: if_splits)
  with s show "sound_provider p" "pc_id p \<notin> seen" "stripped (jget entry ''id'') = Some (pc_id p)"
    by (auto simp: build_provider_sound) (simp_all add: build_provider_def Let_def stripped_def)
qed

subsection \<open>The whole registry\<close>

lemma check_entry_cases:
  assumes "check_entry json_loads saml duplicates index seen entry = (seen', es, r)"
  shows "seen \<subseteq> seen'" and "r = Some p \<Longrightarrow> sound_provider p \<and> pc_id p \<notin> seen \<and> pc_id p \<in> seen' \<and> pc_id p \<notin> set duplicates"
proof -
  show "seen \<subseteq> seen'"
    using assms by (auto simp: check_entry_def split: option.splits if_splits sum.splits)
  assume "r = Some p"
  with assms have v: "validate json_loads saml entry index seen = Inr p" and seen': "seen' = insert (pc_id p) seen"
    and dup: "\<forall>i. stripped (jget entry ''id'') = Some i \<longrightarrow> i \<notin> set duplicates"
    by (auto simp: check_entry_def split: option.splits if_splits sum.splits)
  with validate_Inr [OF v] show "sound_provider p \<and> pc_id p \<notin> seen \<and> pc_id p \<in> seen' \<and> pc_id p \<notin> set duplicates"
    by simp
qed

lemma validate_entries_sound:
  assumes "validate_entries json_loads saml duplicates index seen entries = (ps, errors)"
  shows "list_all sound_provider ps \<and> distinct (map pc_id ps) \<and> pc_id ` set ps \<inter> (seen \<union> set duplicates) = {}"
  using assms
proof (induction entries arbitrary: index seen ps errors)
  case (Cons entry entries)
  obtain seen' es r where c: "check_entry json_loads saml duplicates index seen entry = (seen', es, r)"
    by (cases "check_entry json_loads saml duplicates index seen entry")
  obtain qs errs where rest: "validate_entries json_loads saml duplicates (Suc index) seen' entries = (qs, errs)"
    by (cases "validate_entries json_loads saml duplicates (Suc index) seen' entries")
  have ps: "ps = (case r of None \<Rightarrow> qs | Some p \<Rightarrow> p # qs)"
    using Cons.prems c rest by simp
  from Cons.IH [OF rest] have IH: "list_all sound_provider qs" "distinct (map pc_id qs)"
    "pc_id ` set qs \<inter> (seen' \<union> set duplicates) = {}" by simp_all
  show ?case
  proof (cases r)
    case None
    with IH check_entry_cases(1) [OF c] show ?thesis by (auto simp: ps)
  next
    case (Some p)
    with IH check_entry_cases [OF c] show ?thesis by (auto simp: ps)
  qed
qed simp

lemma reject_loop_sound:
  assumes "reject_loop seen ps = (kept, errors)"
  shows "subseq kept ps" and "distinct [i. Some i \<leftarrow> map pc_issuer kept, i \<noteq> []]"
    and "set [i. Some i \<leftarrow> map pc_issuer kept, i \<noteq> []] \<inter> dom seen = {}"
  using assms
proof (induction ps arbitrary: seen kept errors)
  case (Cons p ps)
  {
    case 1
    with Cons.IH(1) show ?case by (auto split: option.splits if_splits prod.splits intro: subseq_Cons')
  next
    case 2
    with Cons.IH(2,3) show ?case by (fastforce split: option.splits if_splits prod.splits)
  next
    case 3
    with Cons.IH(3) show ?case by (fastforce split: option.splits if_splits prod.splits)
  }
qed simp_all

lemma provider_registry_cases:
  obtains (legacy) "rl_source (build_provider_registry env cfg) = ''legacy''"
    "rl_providers (build_provider_registry env cfg) = legacy_providers cfg"
  | (entries) entries ps errors where "rl_source (build_provider_registry env cfg) \<noteq> ''legacy''"
    "validate_entries (re_json_loads env) (re_saml env) (duplicate_ids entries) 0 {} entries = (ps, errors)"
    "rl_providers (build_provider_registry env cfg) = fst (reject_duplicate_issuers ps)"
proof -
  have load: "(rl_source (load_entries env cfg raw origin source) = ''legacy'' \<and>
      rl_providers (load_entries env cfg raw origin source) = legacy_providers cfg) \<or>
    (\<exists>entries ps errors. rl_source (load_entries env cfg raw origin source) \<noteq> ''legacy'' \<and>
      validate_entries (re_json_loads env) (re_saml env) (duplicate_ids entries) 0 {} entries = (ps, errors) \<and>
      rl_providers (load_entries env cfg raw origin source) = fst (reject_duplicate_issuers ps))"
    if "source \<noteq> ''legacy''" for raw origin source
    using that by (auto simp: load_entries_def split: prod.splits) (metis fst_conv)+
  from load [of "''env''" "re_AUTH_PROVIDERS env" "''AUTH_PROVIDERS''"] load [of "''file''" _ "''AUTH_PROVIDERS_FILE''"]
  show thesis
    using that by (fastforce simp: build_provider_registry_def Let_def split: option.splits if_splits)
qed

end
