(* ===== verification/Identity.thy ===== *)
theory Identity
  imports Users Provider_Registry
begin

section \<open>External identities (repository/user_identity.py, identity_resolution.py, provisioning_policy.py)\<close>

text \<open>
  The bindings of \<^verbatim>\<open>(provider, subject)\<close> pairs to users, the decision which local user
  an identity reaches, and the policy that turns the decision into a login, a group membership and an
  administrator flag. The explanatory strings are constructors. The resolution takes the repository
  and the user lookup as arguments, as in the source (\<^verbatim>\<open>providers_bound_to\<close> is
  always given, as the login does); the locale \<open>identity_directory\<close> states
  what it relies on, and the repository is shown to provide it.
\<close>

subsection \<open>The repository\<close>

definition get_username_by_identity :: "db \<Rightarrow> string \<Rightarrow> string \<Rightarrow> string option res" where
  "get_username_by_identity d provider_id subject =
     sql_one_or_none [u_username u. u \<leftarrow> users d, i \<leftarrow> user_identities d,
       i_user_id i = u_id u \<and> i_provider_id i = provider_id \<and> i_subject i = subject]"

definition list_providers_for_username :: "db \<Rightarrow> string \<Rightarrow> string list" where
  "list_providers_for_username d uname =
     [i_provider_id i. i \<leftarrow> user_identities d, u \<leftarrow> users d, i_user_id i = u_id u \<and> u_username u = normalize_username uname]"

definition identity_link :: "db \<Rightarrow> string \<Rightarrow> string \<Rightarrow> string \<Rightarrow> bool \<Rightarrow> (db \<times> bool) res" where
  "identity_link d provider_id subject uname allow_additional_provider =
     bindE (sql_one_or_none [u. u \<leftarrow> users d, u_username u = normalize_username uname]) (\<lambda>ru.
     case ru of
       None \<Rightarrow> Inl (MlflowException RESOURCE_DOES_NOT_EXIST)
     | Some u \<Rightarrow>
         bindE (sql_one_or_none [i. i \<leftarrow> user_identities d, i_provider_id i = provider_id \<and> i_subject i = subject]) (\<lambda>existing.
         case existing of
           Some i \<Rightarrow> if i_user_id i \<noteq> u_id u then Inl (MlflowException RESOURCE_ALREADY_EXISTS) else Inr (d, False)
         | None \<Rightarrow>
             if \<not> allow_additional_provider \<and>
                [i. i \<leftarrow> user_identities d, i_user_id i = u_id u \<and> i_provider_id i \<noteq> provider_id] \<noteq> []
             then Inl (MlflowException INVALID_STATE)
             else Inr (d\<lparr>user_identities := user_identities d @
                        [\<lparr>i_id = next_id i_id (user_identities d), i_provider_id = provider_id, i_subject = subject,
                          i_user_id = u_id u, i_last_login_at = None\<rparr>]\<rparr>, True)))"

definition touch_last_login :: "int \<Rightarrow> db \<Rightarrow> string \<Rightarrow> string \<Rightarrow> db res" where
  "touch_last_login t d provider_id subject =
     bindE (sql_one_or_none [i. i \<leftarrow> user_identities d, i_provider_id i = provider_id \<and> i_subject i = subject]) (\<lambda>r.
     case r of
       None \<Rightarrow> Inr d
     | Some identity \<Rightarrow> Inr (d\<lparr>user_identities :=
         map (\<lambda>i. if i_id i = i_id identity then i\<lparr>i_last_login_at := Some t\<rparr> else i) (user_identities d)\<rparr>))"

subsection \<open>Resolution\<close>

datatype resolution = MATCHED | LINK | CREATE | REFUSED

datatype identity_reason =
    NoSubject
  | AlreadyBoundIdentity
  | NoIdentityBound
  | NoUsableEmail
  | EmailNotVerified
  | NotSingleAddress string
  | DomainNotAuthorised string
  | UsernameNotEmail string
  | NoLocalUser
  | OtherProviders "string list"
  | AuthorisedEmail
  | NoSubjectAsserted

record identity_decision =
  id_resolution :: resolution
  id_username :: "string option"
  id_reason :: identity_reason

definition is_allowed :: "identity_decision \<Rightarrow> bool" where
  "is_allowed decision \<longleftrightarrow> id_resolution decision \<noteq> REFUSED"

definition email_from_claims :: "dict \<Rightarrow> string option" where
  "email_from_claims claims =
     (case str_of (jget claims ''email'') of
        None \<Rightarrow> None
      | Some e \<Rightarrow> (let email = py_lower (py_strip e) in if email = [] then None else Some email))"

definition email_is_verified :: "dict \<Rightarrow> bool" where
  "email_is_verified claims \<longleftrightarrow> jget claims ''email_verified'' = JBool True"

definition domain_of :: "string \<Rightarrow> string option" where
  "domain_of email =
     (if count_list email (CHR ''@'') \<noteq> 1 then None
      else let local_part = takeWhile (\<lambda>c. c \<noteq> CHR ''@'') email;
               domain = tl (dropWhile (\<lambda>c. c \<noteq> CHR ''@'') email)
           in if py_strip local_part = [] \<or> py_strip domain = [] then None else Some (py_strip domain))"

definition refuse :: "identity_reason \<Rightarrow> identity_decision" where
  "refuse reason = \<lparr>id_resolution = REFUSED, id_username = None, id_reason = reason\<rparr>"

definition resolve_by_email ::
  "('s \<Rightarrow> string \<Rightarrow> string list) \<Rightarrow> ('s \<Rightarrow> string \<Rightarrow> bool) \<Rightarrow> 's \<Rightarrow> provider_config \<Rightarrow> dict \<Rightarrow> string option \<Rightarrow> identity_decision" where
  "resolve_by_email providers_of known_user d provider claims uname =
     (case email_from_claims claims of
        None \<Rightarrow> refuse NoUsableEmail
      | Some email \<Rightarrow>
          if \<not> email_is_verified claims then refuse EmailNotVerified
          else (case domain_of email of
                  None \<Rightarrow> refuse (NotSingleAddress email)
                | Some domain \<Rightarrow>
                    if domain \<notin> py_lower ` set (pc_allowed_email_domains provider) then refuse (DomainNotAuthorised domain)
                    else let email_username = normalize_username email in
                         if (case uname of None \<Rightarrow> False | Some n \<Rightarrow> normalize_username n \<noteq> email_username)
                         then refuse (UsernameNotEmail email)
                         else if \<not> known_user d email_username
                         then \<lparr>id_resolution = CREATE, id_username = None, id_reason = NoLocalUser\<rparr>
                         else let foreign = [b. b \<leftarrow> providers_of d email_username, b \<noteq> pc_id provider] in
                              if foreign \<noteq> [] then refuse (OtherProviders foreign)
                              else \<lparr>id_resolution = LINK, id_username = Some email_username, id_reason = AuthorisedEmail\<rparr>))"

definition resolve_identity ::
  "('s \<Rightarrow> string \<Rightarrow> string \<Rightarrow> string option res) \<Rightarrow> ('s \<Rightarrow> string \<Rightarrow> string list) \<Rightarrow> ('s \<Rightarrow> string \<Rightarrow> bool) \<Rightarrow> 's \<Rightarrow>
   provider_config \<Rightarrow> json \<Rightarrow> dict \<Rightarrow> string option \<Rightarrow> identity_decision res" where
  "resolve_identity bound providers_of known_user d provider subject claims uname =
     (if \<not> usable_str subject then Inr (refuse NoSubject)
      else bindE (bound d (pc_id provider) (py_strip (the_str subject))) (\<lambda>existing.
           case existing of
             Some u \<Rightarrow>
               (if u \<noteq> [] then Inr \<lparr>id_resolution = MATCHED, id_username = Some u, id_reason = AlreadyBoundIdentity\<rparr>
                else if pc_identity_binding provider = ''email''
                then Inr (resolve_by_email providers_of known_user d provider claims uname)
                else Inr \<lparr>id_resolution = CREATE, id_username = None, id_reason = NoIdentityBound\<rparr>)
           | None \<Rightarrow>
               (if pc_identity_binding provider = ''email''
                then Inr (resolve_by_email providers_of known_user d provider claims uname)
                else Inr \<lparr>id_resolution = CREATE, id_username = None, id_reason = NoIdentityBound\<rparr>)))"

subsection \<open>Provisioning policy\<close>

datatype provisioning_reason =
    Decided identity_reason
  | NoDerivedUsername
  | Adopting
  | NameTaken string string
  | NotCreatedAtLogin string string
  | NewPrincipal

record provisioning_outcome =
  po_allowed :: bool
  po_create :: bool
  po_username :: "string option"
  po_reason :: provisioning_reason

definition apply_provisioning_policy ::
  "provider_config \<Rightarrow> identity_decision \<Rightarrow> string option \<Rightarrow> (string \<Rightarrow> bool) \<Rightarrow> (string \<Rightarrow> string list) \<Rightarrow> provisioning_outcome" where
  "apply_provisioning_policy provider decision derived user_exists providers_bound_to =
     (if \<not> is_allowed decision
      then \<lparr>po_allowed = False, po_create = False, po_username = None, po_reason = Decided (id_reason decision)\<rparr>
      else if id_resolution decision \<in> {MATCHED, LINK}
      then \<lparr>po_allowed = True, po_create = False, po_username = id_username decision, po_reason = Decided (id_reason decision)\<rparr>
      else case derived of
             None \<Rightarrow> \<lparr>po_allowed = False, po_create = False, po_username = None, po_reason = NoDerivedUsername\<rparr>
           | Some uname \<Rightarrow>
               if uname = [] then \<lparr>po_allowed = False, po_create = False, po_username = None, po_reason = NoDerivedUsername\<rparr>
               else if user_exists uname then
                 (let foreign = [b. b \<leftarrow> providers_bound_to uname, b \<noteq> pc_id provider] in
                  if foreign = [] \<and> pc_id provider = DEFAULT_PROVIDER_ID
                  then \<lparr>po_allowed = True, po_create = False, po_username = Some uname, po_reason = Adopting\<rparr>
                  else \<lparr>po_allowed = False, po_create = False, po_username = None, po_reason = NameTaken uname (pc_id provider)\<rparr>)
               else if pc_provisioning provider \<noteq> ''jit''
               then \<lparr>po_allowed = False, po_create = False, po_username = None,
                     po_reason = NotCreatedAtLogin (pc_id provider) (pc_provisioning provider)\<rparr>
               else \<lparr>po_allowed = True, po_create = True, po_username = Some uname, po_reason = NewPrincipal\<rparr>)"

definition local_group_name :: "provider_config \<Rightarrow> string \<Rightarrow> string" where
  "local_group_name provider claimed = (if pc_id provider = DEFAULT_PROVIDER_ID then claimed else pc_id provider @ '':'' @ claimed)"

definition groups_to_apply :: "provider_config \<Rightarrow> string list \<Rightarrow> string list option \<Rightarrow> bool \<Rightarrow> string list option" where
  "groups_to_apply provider claimed_groups current_groups is_new_user =
     (if pc_group_sync provider = ''none'' then None
      else if pc_group_sync provider = ''first_login'' \<and> \<not> is_new_user then None
      else let claimed = [local_group_name provider g. g \<leftarrow> claimed_groups, g \<noteq> []] in
           if pc_group_sync_mode provider = ''authoritative'' then Some (dict_fromkeys claimed)
           else map_option (\<lambda>current. dict_fromkeys (current @ claimed)) current_groups)"

definition admin_from_claims :: "provider_config \<Rightarrow> string list \<Rightarrow> string list \<Rightarrow> bool" where
  "admin_from_claims provider claimed_groups admin_group_names =
     (pc_admin_source provider = ''claims'' \<and> (\<exists>g\<in>set admin_group_names. g \<in> set claimed_groups))"

subsection \<open>The directory the resolution relies on\<close>

text \<open>
  A bound identity names a known user, and its provider is among the providers of that user.
\<close>

locale identity_directory =
  fixes inv :: "'s \<Rightarrow> bool"
    and bound :: "'s \<Rightarrow> string \<Rightarrow> string \<Rightarrow> string option res"
    and providers_of :: "'s \<Rightarrow> string \<Rightarrow> string list"
    and known :: "'s \<Rightarrow> string \<Rightarrow> bool"
  assumes bound_total: "inv d \<Longrightarrow> \<exists>r. bound d p s = Inr r"
    and bound_known: "inv d \<Longrightarrow> bound d p s = Inr (Some u) \<Longrightarrow> known d u \<and> p \<in> set (providers_of d u)"
begin

lemma resolve_total:
  assumes "inv d"
  shows "\<exists>decision. resolve_identity bound providers_of known d provider subject claims uname = Inr decision"
proof -
  obtain r where "bound d (pc_id provider) (py_strip (the_str subject)) = Inr r"
    using bound_total [OF assms] by blast
  then show ?thesis by (cases r) (simp_all add: resolve_identity_def)
qed

text \<open>A user reached by a decision is bound to this identity, or to no other provider.\<close>

lemma decision_owner:
  assumes "inv d" and "resolve_identity bound providers_of known d provider subject claims uname = Inr decision"
    and "id_username decision = Some u"
  shows "known d u \<and> (bound d (pc_id provider) (py_strip (the_str subject)) = Inr (Some u) \<or>
    set (providers_of d u) \<subseteq> {pc_id provider})"
proof -
  obtain r where r: "bound d (pc_id provider) (py_strip (the_str subject)) = Inr r"
    using bound_total [OF assms(1)] by blast
  have email: "known d u \<and> set (providers_of d u) \<subseteq> {pc_id provider}"
    if "decision = resolve_by_email providers_of known d provider claims uname"
    using assms(3) unfolding that
    by (auto simp: resolve_by_email_def refuse_def Let_def filter_list_comp filter_empty_conv split: option.splits if_splits)
  show ?thesis
    using assms(2,3) r email bound_known [OF assms(1)]
    by (auto simp: resolve_identity_def refuse_def split: option.splits if_splits)
qed

lemma decision_resolution:
  assumes "resolve_identity bound providers_of known d provider subject claims uname = Inr decision"
  shows "id_resolution decision \<in> {MATCHED, LINK} \<longleftrightarrow> (\<exists>u. id_username decision = Some u)"
    and "id_resolution decision = CREATE \<Longrightarrow> pc_identity_binding provider = ''email'' \<Longrightarrow>
      \<exists>email. email_from_claims claims = Some email \<and> (\<forall>n. uname = Some n \<longrightarrow> normalize_username n = normalize_username email)"
  using assms
  by (auto simp: resolve_identity_def resolve_by_email_def refuse_def Let_def bindE_def split: option.splits if_splits sum.splits)

text \<open>An account that a login reaches without creating it was not another provider's.\<close>

lemma no_takeover:
  assumes "inv d" and "resolve_identity bound providers_of known d provider subject claims derived = Inr decision"
    and "outcome = apply_provisioning_policy provider decision derived (known d) (providers_of d)"
    and "po_allowed outcome" and "\<not> po_create outcome" and "po_username outcome = Some u"
  shows "known d u \<and> (bound d (pc_id provider) (py_strip (the_str subject)) = Inr (Some u) \<or>
    set (providers_of d u) \<subseteq> {pc_id provider})"
proof (cases "id_resolution decision \<in> {MATCHED, LINK}")
  case True
  then have "id_username decision = Some u"
    using assms(3,4,6) by (auto simp: apply_provisioning_policy_def is_allowed_def)
  then show ?thesis by (rule decision_owner [OF assms(1,2)])
next
  case False
  then have "derived = Some u" "known d u" "[b. b \<leftarrow> providers_of d u, b \<noteq> pc_id provider] = []"
    using assms(3-6) by (auto simp: apply_provisioning_policy_def Let_def split: option.splits if_splits)
  then show ?thesis by (auto simp: filter_list_comp filter_empty_conv)
qed

end

subsection \<open>The repository as a directory\<close>

definition wf_identities :: "db \<Rightarrow> bool" where
  "wf_identities d \<longleftrightarrow> wf_users (users d) \<and> unique_on i_id (user_identities d) \<and>
     unique_on (\<lambda>i. (i_provider_id i, i_subject i)) (user_identities d) \<and>
     i_user_id ` set (user_identities d) \<subseteq> u_id ` set (users d) \<and>
     (\<forall>u\<in>set (users d). normalize_username (u_username u) = u_username u)"

lemma wf_identitiesD:
  assumes "wf_identities d"
  shows "wf_users (users d)" "unique_on i_id (user_identities d)"
    "unique_on (\<lambda>i. (i_provider_id i, i_subject i)) (user_identities d)"
    "i \<in> set (user_identities d) \<Longrightarrow> \<exists>u\<in>set (users d). u_id u = i_user_id i"
    "u \<in> set (users d) \<Longrightarrow> normalize_username (u_username u) = u_username u"
  using assms unfolding wf_identities_def image_subset_iff image_iff by (simp_all add: eq_commute)

lemma identity_unique:
  assumes "wf_identities d" and "i \<in> set (user_identities d)" and "j \<in> set (user_identities d)"
    and "i_provider_id i = i_provider_id j" and "i_subject i = i_subject j"
  shows "i = j"
  by (rule unique_onD [OF wf_identitiesD(3) [OF assms(1)] assms(2,3)]) (simp add: assms(4,5))

lemma user_id_unique: "wf_users us \<Longrightarrow> u \<in> set us \<Longrightarrow> v \<in> set us \<Longrightarrow> u_id u = u_id v \<Longrightarrow> u = v"
  unfolding wf_users_def using unique_onD [of u_id] by blast

lemma get_username_by_identity_spec:
  assumes "wf_identities d"
  shows "\<exists>r. get_username_by_identity d p s = Inr r"
    and "get_username_by_identity d p s = Inr (Some n) \<longleftrightarrow>
      (\<exists>u\<in>set (users d). \<exists>i\<in>set (user_identities d).
         i_user_id i = u_id u \<and> i_provider_id i = p \<and> i_subject i = s \<and> n = u_username u)"
proof -
  let ?rows = "filter (\<lambda>(u, i). i_user_id i = u_id u \<and> i_provider_id i = p \<and> i_subject i = s) (List.product (users d) (user_identities d))"
  have "length ?rows \<le> 1"
  proof (rule join_pairs_le1 [of u_id _ "\<lambda>i. (i_provider_id i, i_subject i)"])
    show "unique_on u_id (users d)" using wf_identitiesD(1) [OF assms] by (simp add: wf_users_def)
    show "unique_on (\<lambda>i. (i_provider_id i, i_subject i)) (user_identities d)" by (rule wf_identitiesD(3) [OF assms])
    fix u i u' i'
    assume "i \<in> set (user_identities d)" "i' \<in> set (user_identities d)"
      "i_user_id i = u_id u \<and> i_provider_id i = p \<and> i_subject i = s"
      "i_user_id i' = u_id u' \<and> i_provider_id i' = p \<and> i_subject i' = s"
    with identity_unique [OF assms, of i i']
    show "u_id u = u_id u' \<and> (i_provider_id i, i_subject i) = (i_provider_id i', i_subject i')" by simp
  qed
  then have "length (map (\<lambda>(u, i). u_username u) ?rows) \<le> 1" by simp
  from sql_one_or_none_le1 [OF this] obtain r where
    r: "sql_one_or_none (map (\<lambda>(u, i). u_username u) ?rows) = Inr r" "set_option r = set (map (\<lambda>(u, i). u_username u) ?rows)"
    by (elim exE conjE)
  have g: "get_username_by_identity d p s = Inr r"
    unfolding get_username_by_identity_def pairs_map_filter by (rule r(1))
  then show "\<exists>r. get_username_by_identity d p s = Inr r" by (rule exI)
  show "get_username_by_identity d p s = Inr (Some n) \<longleftrightarrow>
      (\<exists>u\<in>set (users d). \<exists>i\<in>set (user_identities d).
         i_user_id i = u_id u \<and> i_provider_id i = p \<and> i_subject i = s \<and> n = u_username u)"
    unfolding g sum.inject(2) elem_set [symmetric] r(2) by force
qed

lemma set_list_providers:
  "set (list_providers_for_username d uname) =
     {i_provider_id i |i u. i \<in> set (user_identities d) \<and> u \<in> set (users d) \<and> i_user_id i = u_id u \<and>
        u_username u = normalize_username uname}"
  unfolding list_providers_for_username_def pairs_map_filter by force

lemma has_user_iff: "has_user d uname \<longleftrightarrow> normalize_username uname \<in> u_username ` set (users d)"
  unfolding has_user_def user_exist_def filter_list_comp by (force simp: filter_empty_conv)

interpretation bindings: identity_directory wf_identities get_username_by_identity list_providers_for_username has_user
proof
  fix d p s u
  assume wf: "wf_identities d"
  show "\<exists>r. get_username_by_identity d p s = Inr r" by (rule get_username_by_identity_spec [OF wf])
  assume "get_username_by_identity d p s = Inr (Some u)"
  then obtain r i where "r \<in> set (users d)" "i \<in> set (user_identities d)" "i_user_id i = u_id r" "i_provider_id i = p"
    "u = u_username r"
    unfolding get_username_by_identity_spec(2) [OF wf] by blast
  with wf_identitiesD(5) [OF wf, of r]
  show "has_user d u \<and> p \<in> set (list_providers_for_username d u)"
    unfolding has_user_iff set_list_providers by auto
qed

subsection \<open>Binding an identity\<close>

lemma user_row_query:
  assumes "wf_users us"
  shows "sql_one_or_none [u. u \<leftarrow> us, u_username u = uname] =
    (case get_user us uname of Inr u \<Rightarrow> Inr (Some u) | Inl _ \<Rightarrow> Inr None)"
  using assms
proof (cases rule: get_user_cases [where uname = uname])
  case (found u)
  then show ?thesis by (simp add: get_user_def)
next
  case absent
  then have "filter (\<lambda>u. u_username u = uname) us = []" by (auto simp: filter_empty_conv)
  with absent show ?thesis by (simp add: filter_list_comp)
qed

lemma identity_query:
  assumes "wf_identities d"
  shows "\<exists>r. sql_one_or_none [i. i \<leftarrow> user_identities d, i_provider_id i = p \<and> i_subject i = s] = Inr r \<and>
    (\<forall>i. r = Some i \<longleftrightarrow> i \<in> set (user_identities d) \<and> i_provider_id i = p \<and> i_subject i = s)"
proof -
  let ?rows = "filter (\<lambda>i. i_provider_id i = p \<and> i_subject i = s) (user_identities d)"
  have "length ?rows \<le> 1"
    by (rule filter_le1 [OF wf_identitiesD(3) [OF assms]]) simp
  from sql_one_or_none_le1 [OF this] obtain r where r: "sql_one_or_none ?rows = Inr r" "set_option r = set ?rows"
    by (elim exE conjE)
  moreover have "r = Some i \<longleftrightarrow> i \<in> set (user_identities d) \<and> i_provider_id i = p \<and> i_subject i = s" for i
    unfolding elem_set [symmetric] r(2) by simp
  ultimately show ?thesis unfolding filter_list_comp by blast
qed

text \<open>Every outcome of a binding without \<^verbatim>\<open>allow_additional_provider\<close>.\<close>

lemma identity_link_outcome:
  assumes wf: "wf_identities d" and u: "get_user (users d) (normalize_username uname) = Inr u"
  shows "identity_link d p s uname False =
    (if \<exists>i\<in>set (user_identities d). i_provider_id i = p \<and> i_subject i = s \<and> i_user_id i = u_id u then Inr (d, False)
     else if \<exists>i\<in>set (user_identities d). i_provider_id i = p \<and> i_subject i = s then Inl (MlflowException RESOURCE_ALREADY_EXISTS)
     else if \<exists>i\<in>set (user_identities d). i_user_id i = u_id u \<and> i_provider_id i \<noteq> p then Inl (MlflowException INVALID_STATE)
     else Inr (d\<lparr>user_identities := user_identities d @
            [\<lparr>i_id = next_id i_id (user_identities d), i_provider_id = p, i_subject = s, i_user_id = u_id u, i_last_login_at = None\<rparr>]\<rparr>, True))"
proof -
  have row: "sql_one_or_none (filter (\<lambda>v. u_username v = normalize_username uname) (users d)) = Inr (Some u)"
    using user_row_query [OF wf_identitiesD(1) [OF wf]] u by (simp add: filter_list_comp)
  obtain r where r: "sql_one_or_none (filter (\<lambda>i. i_provider_id i = p \<and> i_subject i = s) (user_identities d)) = Inr r"
    and r_iff: "\<And>i. r = Some i \<longleftrightarrow> i \<in> set (user_identities d) \<and> i_provider_id i = p \<and> i_subject i = s"
    using identity_query [OF wf, of p s] unfolding filter_list_comp by blast
  show ?thesis
  proof (cases r)
    case (Some i)
    have "j = i" if "j \<in> set (user_identities d)" "i_provider_id j = p" "i_subject j = s" for j
      using that r_iff [of j] Some by simp
    then show ?thesis
      using Some r_iff [of i] by (auto simp: identity_link_def filter_list_comp row r)
  next
    case None
    then have "\<not> (\<exists>i\<in>set (user_identities d). i_provider_id i = p \<and> i_subject i = s)"
      using r_iff by fastforce
    with None show ?thesis
      by (simp add: identity_link_def filter_list_comp row r filter_empty_conv) blast
  qed
qed

end
