(* ===== verification/Accounts.thy ===== *)
theory Accounts
  imports Admin_Cli Identity
begin

section \<open>The life of accounts, sessions and identities\<close>

text \<open>
  The operations of the account, session, attempt and identity repositories and the operator
  commands, in any order, as one step relation over the database, the clock and the session values
  issued so far. The invariant gathers the table constraints; along every run an active
  administrator remains, a user answers to one provider, and a session that is not honoured is never
  honoured again.
\<close>

record accounts_world =
  ac_db :: db
  ac_clock :: int
  ac_issued :: "string list"

inductive account_step :: "user_env \<Rightarrow> accounts_world \<Rightarrow> accounts_world \<Rightarrow> bool" for env where
  acc_create: "user_create env (ac_db w) uname password display is_admin is_sa = Inr (d', ent) \<Longrightarrow>
    account_step env w (w\<lparr>ac_db := d'\<rparr>)"
| acc_update: "user_update (env\<lparr>now := ac_clock w\<rparr>) (ac_db w) uname ch written_by override = (Inr (d', ent), audits) \<Longrightarrow>
    account_step env w (w\<lparr>ac_db := d'\<rparr>)"
| acc_delete: "user_delete (ac_db w) uname = (Inr d', audits) \<Longrightarrow> account_step env w (w\<lparr>ac_db := d'\<rparr>)"
| acc_open: "session_create token (ac_db w) uname expires provider = Inr (d', sid) \<Longrightarrow> token \<notin> set (ac_issued w) \<Longrightarrow>
    account_step env w (w\<lparr>ac_db := d', ac_issued := token # ac_issued w\<rparr>)"
| acc_revoke: "session_revoke (ac_clock w) (ac_db w) sid = (d', hit) \<Longrightarrow> account_step env w (w\<lparr>ac_db := d'\<rparr>)"
| acc_revoke_all: "session_revoke_all_for_user (ac_clock w) (ac_db w) uname = Inr (d', n) \<Longrightarrow>
    account_step env w (w\<lparr>ac_db := d'\<rparr>)"
| acc_sweep: "session_delete_expired (ac_clock w) (ac_db w) before = (d', n) \<Longrightarrow> account_step env w (w\<lparr>ac_db := d'\<rparr>)"
| acc_start: "state_create (ac_clock w) token (ac_db w) provider redirect lifetime = Inr (d', state) \<Longrightarrow>
    account_step env w (w\<lparr>ac_db := d'\<rparr>)"
| acc_consume: "state_consume (ac_clock w) (ac_db w) state = Inr (d', attempt) \<Longrightarrow> account_step env w (w\<lparr>ac_db := d'\<rparr>)"
| acc_link: "identity_link (ac_db w) provider subject uname False = Inr (d', new) \<Longrightarrow> account_step env w (w\<lparr>ac_db := d'\<rparr>)"
| acc_touch: "touch_last_login (ac_clock w) (ac_db w) provider subject = Inr d' \<Longrightarrow> account_step env w (w\<lparr>ac_db := d'\<rparr>)"
| acc_restore_admin: "restore_admin (ac_db w) uname = Some (d', info) \<Longrightarrow> account_step env w (w\<lparr>ac_db := d'\<rparr>)"
| acc_prune: "prune_sessions (ac_clock w) (ac_db w) dry_run = (d', n) \<Longrightarrow> account_step env w (w\<lparr>ac_db := d'\<rparr>)"
| acc_reconcile: "reconcile_ownership je (ac_db w) owner from_owner only apply_changes all_rows journal = (d', r) \<Longrightarrow>
    account_step env w (w\<lparr>ac_db := d'\<rparr>)"
| acc_restore_ownership: "restore_ownership (ac_db w) j apply_changes = (d', r') \<Longrightarrow> account_step env w (w\<lparr>ac_db := d'\<rparr>)"
| acc_tick: "ac_clock w \<le> t \<Longrightarrow> account_step env w (w\<lparr>ac_clock := t\<rparr>)"

inductive account_run :: "user_env \<Rightarrow> accounts_world \<Rightarrow> accounts_world \<Rightarrow> bool" for env where
  acc_refl: "account_run env w w"
| acc_trans: "account_run env w w' \<Longrightarrow> account_step env w' w'' \<Longrightarrow> account_run env w w''"

text \<open>A user's identities come from one provider.\<close>

definition single_provider :: "db \<Rightarrow> bool" where
  "single_provider d \<longleftrightarrow> (\<forall>i\<in>set (user_identities d). \<forall>j\<in>set (user_identities d).
     i_user_id i = i_user_id j \<longrightarrow> i_provider_id i = i_provider_id j)"

definition accounts_inv :: "accounts_world \<Rightarrow> bool" where
  "accounts_inv w \<longleftrightarrow> wf_db (ac_db w) \<and> wf_sessions (ac_db w) \<and> wf_identities (ac_db w) \<and> single_provider (ac_db w) \<and>
     has_active_admin (ac_db w) \<and> s_session_id ` set (auth_sessions (ac_db w)) \<subseteq> set (ac_issued w)"

text \<open>The session values that would be honoured at a time.\<close>

definition live_ids :: "int \<Rightarrow> db \<Rightarrow> string set" where
  "live_ids t d = s_session_id ` {s \<in> set (auth_sessions d). honoured t s}"

subsection \<open>What each kind of change keeps\<close>

text \<open>
  A change of user rows that keeps their keys; a filter or a revocation of sessions; a change of the
  attempts only. Every operation is one of these or adds one row.
\<close>

definition rows_touched :: "(user_row \<Rightarrow> user_row) \<Rightarrow> bool" where
  "rows_touched f \<longleftrightarrow> (\<forall>u. u_id (f u) = u_id u \<and> u_username (f u) = u_username u)"

lemma touch_users_wf:
  assumes "rows_touched f" and "wf_db d"
  shows "wf_db (d\<lparr>users := map f (users d)\<rparr>)"
  using assms unfolding wf_db_def wf_users_def rows_touched_def by (simp add: unique_on_map_eq)

lemma touch_users_identities:
  assumes "rows_touched f" and "wf_identities d"
  shows "wf_identities (d\<lparr>users := map f (users d)\<rparr>)"
  using assms unfolding wf_identities_def wf_users_def rows_touched_def
  by (simp add: unique_on_map_eq image_image)

lemma touch_users_sessions:
  assumes "rows_touched f" and "wf_sessions d"
  shows "wf_sessions (d\<lparr>users := map f (users d)\<rparr>)"
  using assms unfolding wf_sessions_def rows_touched_def by (simp add: image_image)

lemmas touch_users = touch_users_wf touch_users_identities touch_users_sessions

definition sessions_fade :: "int \<Rightarrow> session_row list \<Rightarrow> session_row list \<Rightarrow> bool" where
  "sessions_fade t ss ss' \<longleftrightarrow> subseq (map s_session_id ss') (map s_session_id ss) \<and> s_user_id ` set ss' \<subseteq> s_user_id ` set ss \<and>
     s_session_id ` {s \<in> set ss'. honoured t s} \<subseteq> s_session_id ` {s \<in> set ss. honoured t s}"

lemma fade_refl [simp]: "sessions_fade t ss ss"
  by (simp add: sessions_fade_def)

lemma fade_filter: "sessions_fade t ss (filter P ss)"
  unfolding sessions_fade_def by (auto intro: subseq_map subseq_filter)

lemma fade_revoke: "sessions_fade t ss (map (\<lambda>s. if P s then s\<lparr>s_revoked_at := Some t'\<rparr> else s) ss)"
    (is "sessions_fade t ss (map ?f ss)")
proof -
  have keys: "map s_session_id (map ?f ss) = map s_session_id ss" "map s_user_id (map ?f ss) = map s_user_id ss"
    by (induction ss) auto
  have "s_session_id s \<in> s_session_id ` {s \<in> set ss. honoured t s}" if "s \<in> set (map ?f ss)" "honoured t s" for s
  proof -
    from that(1) obtain r where "r \<in> set ss" "s = ?f r" by auto
    with that(2) show ?thesis by (cases "P r") (auto simp: honoured_def)
  qed
  then show ?thesis
    unfolding sessions_fade_def keys(1) set_map [symmetric] keys(2) by blast
qed

lemma fade_revoke_live: "sessions_fade t ss (revoke_live t' uid ss)"
  unfolding revoke_live_def by (rule fade_revoke)

lemma subseq_distinct: "subseq xs ys \<Longrightarrow> distinct ys \<Longrightarrow> distinct xs"
  by (induction rule: list_emb.induct) (auto dest: list_emb_set)

lemma subseq_set: "subseq xs ys \<Longrightarrow> set xs \<subseteq> set ys"
  by (induction rule: list_emb.induct) auto

lemma fade_wf:
  assumes "sessions_fade t (auth_sessions d) ss" and "wf_sessions d"
  shows "wf_sessions (d\<lparr>auth_sessions := ss\<rparr>)" and "s_session_id ` set ss \<subseteq> s_session_id ` set (auth_sessions d)"
    and "live_ids t (d\<lparr>auth_sessions := ss\<rparr>) \<subseteq> live_ids t d"
proof -
  from assms(1) have s: "subseq (map s_session_id ss) (map s_session_id (auth_sessions d))"
    and u: "s_user_id ` set ss \<subseteq> s_user_id ` set (auth_sessions d)"
    and l: "s_session_id ` {r \<in> set ss. honoured t r} \<subseteq> s_session_id ` {r \<in> set (auth_sessions d). honoured t r}"
    by (simp_all add: sessions_fade_def)
  show "wf_sessions (d\<lparr>auth_sessions := ss\<rparr>)"
    using assms(2) subseq_distinct [OF s] u unfolding wf_sessions_def unique_on_def by auto
  show "s_session_id ` set ss \<subseteq> s_session_id ` set (auth_sessions d)"
    using subseq_set [OF s] by simp
  show "live_ids t (d\<lparr>auth_sessions := ss\<rparr>) \<subseteq> live_ids t d"
    using l by (simp add: live_ids_def)
qed

lemma wf_db_accounts [simp]:
  "wf_db (d\<lparr>auth_sessions := ss\<rparr>) = wf_db d" "wf_db (d\<lparr>auth_states := ts\<rparr>) = wf_db d" "wf_db (d\<lparr>user_identities := is\<rparr>) = wf_db d"
  by (simp_all add: wf_db_def)

lemma accounts_frames [simp]:
  "wf_identities (d\<lparr>auth_sessions := ss\<rparr>) = wf_identities d" "wf_identities (d\<lparr>auth_states := ts\<rparr>) = wf_identities d"
  "wf_sessions (d\<lparr>user_identities := is\<rparr>) = wf_sessions d"
  "single_provider (d\<lparr>auth_sessions := ss\<rparr>) = single_provider d" "single_provider (d\<lparr>auth_states := ts\<rparr>) = single_provider d"
  "single_provider (d\<lparr>users := us\<rparr>) = single_provider d"
  "has_active_admin (d\<lparr>auth_sessions := ss\<rparr>) = has_active_admin d" "has_active_admin (d\<lparr>auth_states := ts\<rparr>) = has_active_admin d"
  "has_active_admin (d\<lparr>user_identities := is\<rparr>) = has_active_admin d"
  "live_ids t (d\<lparr>users := us\<rparr>) = live_ids t d" "live_ids t (d\<lparr>auth_states := ts\<rparr>) = live_ids t d"
  "live_ids t (d\<lparr>user_identities := is\<rparr>) = live_ids t d"
  by (simp_all add: wf_identities_def wf_sessions_def single_provider_def has_active_admin_def live_ids_def)

subsection \<open>Every step keeps the invariant\<close>

text \<open>The result of a step on the account tables: well formed, and no session comes back to life.\<close>

definition account_safe :: "int \<Rightarrow> db \<Rightarrow> db \<Rightarrow> bool" where
  "account_safe t d d' \<longleftrightarrow> wf_db d' \<and> wf_sessions d' \<and> wf_identities d' \<and> single_provider d' \<and> has_active_admin d' \<and>
     s_session_id ` set (auth_sessions d') \<subseteq> s_session_id ` set (auth_sessions d) \<and> live_ids t d' \<subseteq> live_ids t d"

definition account_ok :: "db \<Rightarrow> bool" where
  "account_ok d \<longleftrightarrow> wf_db d \<and> wf_sessions d \<and> wf_identities d \<and> single_provider d \<and> has_active_admin d"

lemma safe_refl: "account_ok d \<Longrightarrow> account_safe t d d"
  by (simp add: account_ok_def account_safe_def)

lemma safe_sessions:
  assumes "account_ok d" and "sessions_fade t (auth_sessions d) ss"
  shows "account_safe t d (d\<lparr>auth_sessions := ss\<rparr>)"
  using assms fade_wf [OF assms(2)] by (simp add: account_ok_def account_safe_def)

lemma safe_users:
  assumes "account_ok d" and "rows_touched f" and "has_active_admin (d\<lparr>users := map f (users d)\<rparr>)"
  shows "account_safe t d (d\<lparr>users := map f (users d)\<rparr>)"
  using assms touch_users [OF assms(2), of d] by (simp add: account_ok_def account_safe_def)

lemma safe_states:
  assumes "account_ok d" and "unique_on st_state ts"
  shows "account_safe t d (d\<lparr>auth_states := ts\<rparr>)"
  using assms by (simp add: account_ok_def account_safe_def wf_sessions_def)

lemma create_safe:
  assumes "account_ok d" and "user_create env d uname password display is_admin is_sa = Inr (d', ent)"
  shows "account_safe t d d'"
proof -
  from assms(2) obtain u where d': "d' = d\<lparr>users := users d @ [u]\<rparr>" and u: "u_username u = normalize_username uname"
    by (auto simp: user_create_Inr)
  have "wf_db d'" "has_active_admin d'"
    using assms create_user_wf create_keeps_admin unfolding account_ok_def by blast+
  with assms(1) u show ?thesis
    unfolding account_ok_def account_safe_def d' wf_identities_def wf_sessions_def wf_db_def
    by (auto simp: subset_insertI2)
qed

lemma update_safe:
  assumes ok: "account_ok d" and up: "user_update env d uname ch written_by override = (Inr (d', ent), audits)"
  shows "account_safe t d d'"
  using up
proof (rule user_update_Inr)
  fix u
  assume u: "get_user (users d) (normalize_username uname) = Inr u"
    and d': "d' = d\<lparr>users := put_user (users d) (change_row env ch u),
       auth_sessions := (if ch_active ch = Some False then revoke_live (now env) (u_id u) (auth_sessions d)
                         else auth_sessions d)\<rparr>"
  let ?us = "put_user (users d) (change_row env ch u)"
  let ?ss = "if ch_active ch = Some False then revoke_live (now env) (u_id u) (auth_sessions d) else auth_sessions d"
  have wfu: "wf_users (users d)" using ok by (simp add: account_ok_def wf_db_def)
  then have mem: "u \<in> set (users d)" using u by (simp add: get_user_Inr_iff)
  have admin: "has_active_admin d'" "wf_db d'"
    using update_keeps_admin [OF wfu _ up] update_user_wf [OF _ up] ok by (simp_all add: account_ok_def)
  have set': "set ?us = insert (change_row env ch u) (set (users d) - {u})"
    by (rule set_put_user [OF wfu mem]) simp
  then have ids: "u_id ` set ?us = u_id ` set (users d)" and names: "u_username ` set ?us = u_username ` set (users d)"
    using mem by (auto simp: image_iff)
  have fade: "sessions_fade t (auth_sessions d) ?ss"
    by (simp add: fade_revoke_live)
  have ws: "wf_sessions (d\<lparr>auth_sessions := ?ss\<rparr>)"
    and sub: "s_session_id ` set ?ss \<subseteq> s_session_id ` set (auth_sessions d)"
    and live: "live_ids t (d\<lparr>auth_sessions := ?ss\<rparr>) \<subseteq> live_ids t d"
    using fade_wf [OF fade] ok by (simp_all add: account_ok_def)
  have "wf_sessions d'" using ws unfolding d' wf_sessions_def by (simp add: ids)
  moreover have "wf_identities d'"
  proof -
    have "wf_users (users d')" using admin(2) by (rule wf_dbD)
    moreover have "\<forall>n\<in>u_username ` set (users d'). normalize_username n = n"
      using ok unfolding d' by (simp add: names account_ok_def wf_identities_def)
    ultimately show ?thesis
      using ok unfolding account_ok_def wf_identities_def d' by (simp add: ids)
  qed
  moreover have tables: "user_identities d' = user_identities d" "auth_sessions d' = ?ss" by (simp_all add: d')
  have "single_provider d'"
    using ok unfolding account_ok_def single_provider_def tables by blast
  moreover have "live_ids t d' = live_ids t (d\<lparr>auth_sessions := ?ss\<rparr>)"
    unfolding live_ids_def tables by simp
  ultimately show ?thesis
    using admin sub live unfolding account_safe_def tables by blast
qed

lemma delete_safe:
  assumes ok: "account_ok d" and del: "user_delete d uname = (Inr d', audits)"
  shows "account_safe t d d'"
  using del
proof (rule user_delete_Inr)
  fix u
  assume u: "get_user (users d) (normalize_username uname) = Inr u"
    and d': "d' = (drop_dependents (u_id u) d)\<lparr>users := [v. v \<leftarrow> users d, u_id v \<noteq> u_id u]\<rparr>"
  have wfu: "wf_users (users d)" using ok by (simp add: account_ok_def wf_db_def)
  have admin: "has_active_admin d'" "wf_db d'"
    using delete_keeps_admin [OF wfu _ del] delete_user_wf [OF _ del] ok by (simp_all add: account_ok_def)
  have tables: "users d' = filter (\<lambda>v. u_id v \<noteq> u_id u) (users d)" "user_identities d' = filter (\<lambda>i. i_user_id i \<noteq> u_id u) (user_identities d)"
    "auth_sessions d' = filter (\<lambda>s. s_user_id s \<noteq> u_id u) (auth_sessions d)" "auth_states d' = auth_states d"
    by (simp_all add: d' drop_dependents_def filter_list_comp)
  have "wf_sessions d'"
    using ok unfolding account_ok_def wf_sessions_def tables by (auto intro: unique_on_filter)
  moreover have "wf_identities d'"
    using ok wf_dbD(1) [OF admin(2)] unfolding account_ok_def wf_identities_def
    by (auto simp: tables intro: unique_on_filter)
  moreover have "single_provider d'" "live_ids t d' \<subseteq> live_ids t d"
    "s_session_id ` set (auth_sessions d') \<subseteq> s_session_id ` set (auth_sessions d)"
    using ok unfolding account_ok_def single_provider_def live_ids_def tables by auto
  ultimately show ?thesis using admin unfolding account_safe_def by simp
qed

lemma link_safe:
  assumes ok: "account_ok d" and link: "identity_link d p s uname False = Inr (d', new)"
  shows "account_safe t d d'"
proof -
  have wf: "wf_identities d" using ok by (simp add: account_ok_def)
  have wfu: "wf_users (users d)" by (rule wf_identitiesD(1) [OF wf])
  then have "\<exists>u. get_user (users d) (normalize_username uname) = Inr u \<and> u \<in> set (users d)"
  proof (cases rule: get_user_cases [where uname = "normalize_username uname"])
    case (found u)
    then show ?thesis by blast
  next
    case absent
    with link show ?thesis by (simp add: identity_link_def user_row_query [OF wfu])
  qed
  then obtain u where u: "get_user (users d) (normalize_username uname) = Inr u" "u \<in> set (users d)" by blast
  show ?thesis
  proof (cases new)
    case False
    with link have "d' = d" unfolding identity_link_outcome [OF wf u(1)] by (auto split: if_splits)
    with ok show ?thesis by (simp add: safe_refl)
  next
    case True
    define i where "i = \<lparr>i_id = next_id i_id (user_identities d), i_provider_id = p, i_subject = s, i_user_id = u_id u, i_last_login_at = None\<rparr>"
    from True link have fresh: "\<not> (\<exists>j\<in>set (user_identities d). i_provider_id j = p \<and> i_subject j = s)"
      and own: "\<not> (\<exists>j\<in>set (user_identities d). i_user_id j = u_id u \<and> i_provider_id j \<noteq> p)"
      and d': "d' = d\<lparr>user_identities := user_identities d @ [i]\<rparr>"
      unfolding identity_link_outcome [OF wf u(1)] i_def by (auto split: if_splits)
    have "i_id i \<notin> i_id ` set (user_identities d)" "i_user_id i \<in> u_id ` set (users d)"
      "(i_provider_id i, i_subject i) \<notin> (\<lambda>j. (i_provider_id j, i_subject j)) ` set (user_identities d)"
      using next_id_fresh [of i_id "user_identities d"] u(2) fresh by (auto simp: i_def)
    then have "wf_identities d'"
      using wf unfolding wf_identities_def d' by simp
    moreover have i: "i_provider_id i = p" "i_user_id i = u_id u" by (simp_all add: i_def)
    have "single_provider d'"
    proof -
      have "set (user_identities d') = insert i (set (user_identities d))" by (simp add: d')
      moreover have "single_provider d" using ok by (simp add: account_ok_def)
      ultimately show ?thesis using own i unfolding single_provider_def by (metis insert_iff)
    qed
    ultimately show ?thesis using ok unfolding account_ok_def account_safe_def d' by simp
  qed
qed

lemma touch_safe:
  assumes ok: "account_ok d" and touch: "touch_last_login t' d p s = Inr d'"
  shows "account_safe t d d'"
proof -
  from touch consider "d' = d" | k where "d' = d\<lparr>user_identities := map (\<lambda>i. if i_id i = k then i\<lparr>i_last_login_at := Some t'\<rparr> else i) (user_identities d)\<rparr>"
    by (auto simp: touch_last_login_def split: option.splits)
  then show ?thesis
  proof cases
    case 2
    define f :: "identity_row \<Rightarrow> identity_row" where "f = (\<lambda>i. if i_id i = k then i\<lparr>i_last_login_at := Some t'\<rparr> else i)"
    have d': "d' = d\<lparr>user_identities := map f (user_identities d)\<rparr>" using 2 by (simp add: f_def)
    have row: "i_id (f i) = i_id i" "i_provider_id (f i) = i_provider_id i" "i_subject (f i) = i_subject i" "i_user_id (f i) = i_user_id i" for i
      by (simp_all add: f_def)
    have "wf_identities d'"
      using ok unfolding account_ok_def wf_identities_def d' by (simp add: unique_on_map_eq row image_image)
    moreover have "single_provider d'"
    proof -
      have "set (user_identities d') = f ` set (user_identities d)" by (simp add: d')
      moreover have "single_provider d" using ok by (simp add: account_ok_def)
      ultimately show ?thesis unfolding single_provider_def by (simp only: ball_simps row)
    qed
    ultimately show ?thesis using ok unfolding account_ok_def account_safe_def d' by simp
  qed (use ok in \<open>simp add: safe_refl\<close>)
qed

lemma restore_admin_safe:
  assumes ok: "account_ok d" and "restore_admin d uname = Some (d', info)"
  shows "account_safe t d d'"
proof -
  let ?f = "\<lambda>u. if u_username u = uname then make_admin u else u"
  from assms(2) have d': "d' = d\<lparr>users := map ?f (users d)\<rparr>" and "filter (\<lambda>u. u_username u = uname) (users d) \<noteq> []"
    by (auto simp: restore_admin_def filter_list_comp split: list.splits)
  then obtain u where "u \<in> set (users d)" "u_username u = uname" by (auto simp: filter_empty_conv)
  then have "make_admin u \<in> set (map ?f (users d))" by (auto intro!: rev_image_eqI)
  then have "has_active_admin (d\<lparr>users := map ?f (users d)\<rparr>)"
    unfolding has_active_admin_def by (intro bexI [of _ "make_admin u"]) (simp_all add: make_admin_def)
  then show ?thesis unfolding d' by (intro safe_users [OF ok]) (simp_all add: rows_touched_def make_admin_def)
qed

lemma owner_change_safe:
  assumes ok: "account_ok d" and f: "\<And>u. u_id (f u) = u_id u \<and> u_username (f u) = u_username u \<and> u_is_admin (f u) = u_is_admin u \<and> u_active (f u) = u_active u"
  shows "account_safe t d (d\<lparr>users := map f (users d)\<rparr>)"
proof (rule safe_users [OF ok])
  show "rows_touched f" using f by (simp add: rows_touched_def)
  show "has_active_admin (d\<lparr>users := map f (users d)\<rparr>)"
    using ok f by (auto simp: account_ok_def has_active_admin_def)
qed

lemma reconcile_safe:
  assumes ok: "account_ok d" and "reconcile_ownership je d owner from_owner only apply_changes all_rows journal = (d', r)"
  shows "account_safe t d d'"
proof -
  from assms(2) consider "d' = d" | rows where "d' = d\<lparr>users := map (fold (own_row owner) rows) (users d)\<rparr>"
    by (auto simp: reconcile_ownership_def Let_def fold_map_rows split: if_splits)
  then show ?thesis
  proof cases
    case 2
    show ?thesis unfolding 2 by (rule owner_change_safe [OF ok]) simp
  qed (use ok in \<open>simp add: safe_refl\<close>)
qed

lemma restore_ownership_safe:
  assumes ok: "account_ok d" and "restore_ownership d j apply_changes = (d', r)"
  shows "account_safe t d d'"
proof -
  from assms(2) consider "d' = d" | "d' = d\<lparr>users := map (fold (disown_row (j_set_owner j)) (j_previous j)) (users d)\<rparr>"
    using restore_one_rows [of "j_set_owner j" "j_previous j" "(users d, 0, [])"]
    by (auto simp: restore_ownership_def split: if_splits prod.splits)
  then show ?thesis
  proof cases
    case 2
    show ?thesis unfolding 2 by (rule owner_change_safe [OF ok]) simp
  qed (use ok in \<open>simp add: safe_refl\<close>)
qed

text \<open>
  A step that opens no session is safe; opening one adds a fresh value and the time only moves forward.
\<close>

lemma live_ids_later: "t \<le> t' \<Longrightarrow> live_ids t' d \<subseteq> live_ids t d"
  by (auto simp: live_ids_def honoured_def)

lemma open_session:
  assumes ok: "account_ok d" and op: "session_create token d uname expires provider = Inr (d', sid)"
  shows "account_ok d'" and "s_session_id ` set (auth_sessions d') = insert token (s_session_id ` set (auth_sessions d))"
    and "live_ids t d' \<subseteq> insert token (live_ids t d)"
proof -
  from op obtain u s where d': "d' = d\<lparr>auth_sessions := auth_sessions d @ [s]\<rparr>" and s: "s_session_id s = token" "s_user_id s = u_id u"
    and fresh: "token \<notin> s_session_id ` set (auth_sessions d)"
    and u: "sql_one_or_none [u. u \<leftarrow> users d, u_username u = normalize_username uname] = Inr (Some u)"
    by (auto simp: session_create_def split: option.splits if_splits)
  from u have "filter (\<lambda>u. u_username u = normalize_username uname) (users d) = [u]"
    by (simp add: filter_list_comp sql_one_or_none_Inr)
  then have "u \<in> set (filter (\<lambda>u. u_username u = normalize_username uname) (users d))" by simp
  then have "u \<in> set (users d)" by simp
  then have "wf_sessions d'"
    using ok fresh s unfolding account_ok_def wf_sessions_def d' by auto
  then show "account_ok d'" using ok unfolding account_ok_def d' by simp
  show "s_session_id ` set (auth_sessions d') = insert token (s_session_id ` set (auth_sessions d))"
    "live_ids t d' \<subseteq> insert token (live_ids t d)"
    using s by (auto simp: d' live_ids_def)
qed

lemma states_safe:
  assumes ok: "account_ok d"
  shows "state_create t' token d provider redirect lifetime = Inr (d', state) \<Longrightarrow> account_safe t d d'"
    and "state_consume t' d state' = Inr (d', attempt) \<Longrightarrow> account_safe t d d'"
proof -
  have u: "unique_on st_state (auth_states d)" using ok by (simp add: account_ok_def wf_sessions_def)
  {
    assume "state_create t' token d provider redirect lifetime = Inr (d', state)"
    then obtain r where "d' = d\<lparr>auth_states := auth_states d @ [r]\<rparr>" "st_state r \<notin> st_state ` set (auth_states d)"
      by (auto simp: state_create_def split: if_splits)
    with u show "account_safe t d d'" by (auto intro!: safe_states [OF ok])
  next
    assume "state_consume t' d state' = Inr (d', attempt)"
    then have "d' = d \<or> d' = fst (consume_claim d state')"
      by (rule state_consume_db)
    then show "account_safe t d d'"
    proof
      assume "d' = fst (consume_claim d state')"
      then have "d' = d\<lparr>auth_states := filter (\<lambda>r. st_state r \<noteq> state') (auth_states d)\<rparr>"
        by (simp add: consume_claim_def filter_list_comp)
      with unique_on_filter [OF u] show ?thesis by (simp only: safe_states [OF ok])
    qed (simp only: safe_refl [OF ok])
  }
qed

lemma sessions_safe:
  assumes ok: "account_ok d"
  shows "session_revoke t' d sid = (d', hit) \<Longrightarrow> account_safe t d d'"
    and "session_revoke_all_for_user t' d uname = Inr (d', n) \<Longrightarrow> account_safe t d d'"
    and "session_delete_expired t' d before = (d', n) \<Longrightarrow> account_safe t d d'"
    and "prune_sessions t' d dry_run = (d', n) \<Longrightarrow> account_safe t d d'"
proof -
  have fade: "account_safe t d d'" if "d' = d \<or> (\<exists>ss. d' = d\<lparr>auth_sessions := ss\<rparr> \<and> sessions_fade t (auth_sessions d) ss)" for d'
    using that by (elim disjE exE conjE) (simp_all only: safe_refl [OF ok] safe_sessions [OF ok])
  show "account_safe t d d'" if "session_revoke t' d sid = (d', hit)"
    using that by (intro fade) (auto simp: session_revoke_def Let_def intro: fade_revoke)
  show "account_safe t d d'" if "session_revoke_all_for_user t' d uname = Inr (d', n)"
    using that by (intro fade) (auto simp: session_revoke_all_for_user_def intro: fade_revoke_live split: option.splits)
  show "account_safe t d d'" if "session_delete_expired t' d before = (d', n)"
    using that by (intro fade) (auto simp: session_delete_expired_def Let_def filter_list_comp intro: fade_filter)
  show "account_safe t d d'" if "prune_sessions t' d dry_run = (d', n)"
    using that by (intro fade) (auto simp: prune_sessions_def Let_def filter_list_comp intro: fade_filter split: if_splits)
qed

lemmas account_safes = create_safe update_safe delete_safe link_safe touch_safe restore_admin_safe reconcile_safe
  restore_ownership_safe states_safe sessions_safe

lemma step_kinds:
  assumes "account_step env w w'" and ok: "account_ok (ac_db w)"
  obtains (safe) "account_safe (ac_clock w) (ac_db w) (ac_db w')" "ac_clock w' = ac_clock w" "ac_issued w' = ac_issued w"
  | (opened) token uname expires provider sid where "session_create token (ac_db w) uname expires provider = Inr (ac_db w', sid)"
      "token \<notin> set (ac_issued w)" "ac_clock w' = ac_clock w" "ac_issued w' = token # ac_issued w"
  | (tick) "ac_db w' = ac_db w" "ac_clock w \<le> ac_clock w'" "ac_issued w' = ac_issued w"
  using assms(1)
proof (cases rule: account_step.cases)
  case (acc_open token uname expires provider d' sid)
  then show ?thesis by (intro opened [of token uname expires provider sid]) simp_all
next
  case (acc_tick t)
  then show ?thesis by (intro tick) simp_all
qed (rule safe; auto intro: account_safes [OF ok])+

subsection \<open>Runs\<close>

lemma accounts_inv_ok: "accounts_inv w \<Longrightarrow> account_ok (ac_db w)"
  by (simp add: accounts_inv_def account_ok_def)

lemma safe_ok: "account_safe t d d' \<Longrightarrow> account_ok d'"
  by (simp add: account_safe_def account_ok_def)

lemma step_accounts_inv:
  assumes "accounts_inv w" and "account_step env w w'"
  shows "accounts_inv w'"
  using assms(2) accounts_inv_ok [OF assms(1)]
proof (cases rule: step_kinds)
  case safe
  with assms(1) show ?thesis unfolding accounts_inv_def account_safe_def by (simp only:) (blast intro: order_trans)
next
  case (opened token uname expires provider sid)
  from open_session(1,2) [OF accounts_inv_ok [OF assms(1)] opened(1)] assms(1) opened(4)
  show ?thesis by (auto simp: accounts_inv_def account_ok_def)
next
  case tick
  with assms(1) show ?thesis by (simp add: accounts_inv_def)
qed

lemma run_accounts_inv: "account_run env w w' \<Longrightarrow> accounts_inv w \<Longrightarrow> accounts_inv w'"
  by (induction rule: account_run.induct) (auto intro: step_accounts_inv)

text \<open>A value issued before and not live stays so.\<close>

lemma step_dead:
  assumes "accounts_inv w" and "account_step env w w'" and "sid \<in> set (ac_issued w)" and "sid \<notin> live_ids (ac_clock w) (ac_db w)"
  shows "sid \<in> set (ac_issued w') \<and> sid \<notin> live_ids (ac_clock w') (ac_db w')"
  using assms(2) accounts_inv_ok [OF assms(1)]
proof (cases rule: step_kinds)
  case safe
  with assms(3,4) show ?thesis by (auto simp: account_safe_def)
next
  case (opened token uname expires provider sid')
  from open_session(3) [OF accounts_inv_ok [OF assms(1)] opened(1), of "ac_clock w"] assms(3,4) opened(2-4)
  show ?thesis by auto
next
  case tick
  with assms(3,4) live_ids_later [of "ac_clock w" "ac_clock w'" "ac_db w"] show ?thesis by auto
qed

lemma run_dead:
  assumes "account_run env w w'" and "accounts_inv w" and "sid \<in> set (ac_issued w)" and "sid \<notin> live_ids (ac_clock w) (ac_db w)"
  shows "sid \<in> set (ac_issued w') \<and> sid \<notin> live_ids (ac_clock w') (ac_db w')"
  using assms
proof (induction rule: account_run.induct)
  case (acc_trans w w' w'')
  then show ?case using step_dead [OF run_accounts_inv [OF acc_trans.hyps(1) acc_trans.prems(1)] acc_trans.hyps(2)] by blast
qed blast

lemma resolve_live_iff:
  assumes "wf_users (users d)" and "wf_sessions d" and "sid \<noteq> []"
  shows "resolve_auth_session t d sid = Inr None \<longleftrightarrow> sid \<notin> live_ids t d"
proof -
  obtain r where r: "session_resolve t d sid = Inr r" using session_resolve_spec(2) [OF assms] by blast
  have "(\<exists>x. r = Some x) \<longleftrightarrow> sid \<in> live_ids t d"
  proof
    assume "\<exists>x. r = Some x"
    with r session_resolve_spec(1) [OF assms] show "sid \<in> live_ids t d" by (auto simp: live_ids_def)
  next
    assume "sid \<in> live_ids t d"
    then obtain s where s: "s \<in> set (auth_sessions d)" "s_session_id s = sid" "honoured t s"
      by (auto simp: live_ids_def)
    with assms(2) obtain u where "u \<in> set (users d)" "s_user_id s = u_id u" by (auto simp: wf_sessions_def)
    with s have "\<exists>x. session_resolve t d sid = Inr (Some x)"
      unfolding session_resolve_spec(1) [OF assms] by blast
    with r show "\<exists>x. r = Some x" by simp
  qed
  with r show ?thesis by (cases r) (auto simp: resolve_auth_session_def)
qed

end
