(* ===== verification/Login.thy ===== *)
theory Login
  imports Accounts
begin

section \<open>Browser login (routers/auth.py, authorization_response.py, utils/oidc_field_extraction.py)\<close>

text \<open>
  Starting a login, the callback that completes it, and logout: the state row, the issuer check of
  RFC 9207, the retirement of the previous session, the claims, the identity decision, provisioning,
  binding, group and workspace synchronisation, and the server-side session. The OAuth client, the
  detection plugins, the random tokens and the configuration are fields of an environment; the cookie
  is a record. Every store call is its own transaction, so a failure keeps what was written before it.
  A group claim is a string, a list of strings or an object read by its keys; the membership tests
  raise on anything else. Creating an absent workspace is MLflow's and changes no table here.
\<close>

subsection \<open>Claims\<close>

datatype field_error = NoFieldsConfigured string | FieldNotString string string | FieldMissing string

fun extract_loop :: "dict \<Rightarrow> string \<Rightarrow> string list \<Rightarrow> field_error + string" where
  "extract_loop payload label [] = Inl (FieldMissing label)"
| "extract_loop payload label (field # rest) =
     (case jget payload field of
        JNull \<Rightarrow> extract_loop payload label rest
      | JStr s \<Rightarrow> (if py_strip s \<noteq> [] then Inr (py_strip s) else extract_loop payload label rest)
      | _ \<Rightarrow> Inl (FieldNotString label field))"

definition extract_field_from_payload :: "dict \<Rightarrow> string list \<Rightarrow> string \<Rightarrow> field_error + string" where
  "extract_field_from_payload payload field_list label =
     (if field_list = [] then Inl (NoFieldsConfigured label) else extract_loop payload label field_list)"

definition extract_username :: "string list \<Rightarrow> dict \<Rightarrow> field_error + string" where
  "extract_username username_fields payload =
     (case extract_field_from_payload payload username_fields ''username'' of
        Inl e \<Rightarrow> Inl e
      | Inr v \<Rightarrow> Inr (normalize_username v))"

definition extract_display_name :: "string list \<Rightarrow> dict \<Rightarrow> field_error + string" where
  "extract_display_name display_fields payload = extract_field_from_payload payload display_fields ''display_name''"

subsection \<open>The issuer of the response (RFC 9207)\<close>

datatype issuer_mismatch = SeveralIssuers nat | IssuerNotAString | IssuerMissing | OtherIssuer string

definition validate_response_issuer :: "json \<Rightarrow> string option \<Rightarrow> bool \<Rightarrow> issuer_mismatch option" where
  "validate_response_issuer returned_iss expected_iss iss_parameter_supported =
     (case expected_iss of
        None \<Rightarrow> None
      | Some expected \<Rightarrow>
          (case returned_iss of
             JList (_ # _ # _) \<Rightarrow> Some (SeveralIssuers (case returned_iss of JList xs \<Rightarrow> length xs | _ \<Rightarrow> 0))
           | _ \<Rightarrow>
               (case (case returned_iss of JList [] \<Rightarrow> JNull | JList (v # _) \<Rightarrow> v | v \<Rightarrow> v) of
                  JNull \<Rightarrow> (if iss_parameter_supported then Some IssuerMissing else None)
                | JStr s \<Rightarrow>
                    (if py_strip s = [] then (if iss_parameter_supported then Some IssuerMissing else None)
                     else if s \<noteq> expected then Some (OtherIssuer s) else None)
                | _ \<Rightarrow> Some IssuerNotAString)))"

subsection \<open>The environment and the cookie\<close>

record login_env =
  le_user :: user_env
  le_registry :: registry_load_result
  le_iss_supported :: "provider_config \<Rightarrow> bool"
  le_configured :: "string \<Rightarrow> bool"
  le_client :: "string \<Rightarrow> bool"
  le_exchange :: "string \<Rightarrow> string \<Rightarrow> dict res"
  le_token :: string
  le_session_token :: string
  OIDC_ADMIN_GROUP_NAME :: "string list"
  OIDC_GROUP_NAME :: "string list"
  OIDC_GROUPS_ATTRIBUTE :: string
  OIDC_USERNAME_FIELD :: "string list"
  OIDC_DISPLAY_NAME_FIELD :: "string list"
  OIDC_GROUP_DETECTION_PLUGIN :: "(json \<Rightarrow> json res) option"
  OIDC_USE_REFRESH_TOKEN :: bool
  SESSION_COOKIE_MAX_AGE_SECONDS :: "int option"
  le_workspaces_enabled :: bool
  OIDC_WORKSPACE_DETECTION_PLUGIN :: "(json \<Rightarrow> string list res) option"
  OIDC_WORKSPACE_CLAIM_NAME :: string
  OIDC_WORKSPACE_DEFAULT_PERMISSION :: string
  le_py_str :: "json \<Rightarrow> string"

record cookie =
  ck_session_id :: "string option"
  ck_username :: "string option"
  ck_authenticated :: bool
  ck_refresh_token :: "json option"
  ck_expires_at :: "int option"
  ck_redirect_after_login :: "string option"

definition empty_cookie :: cookie where
  "empty_cookie = \<lparr>ck_session_id = None, ck_username = None, ck_authenticated = False, ck_refresh_token = None,
     ck_expires_at = None, ck_redirect_after_login = None\<rparr>"

record callback_request =
  rq_error :: "string option"
  rq_error_description :: "string option"
  rq_state :: "string option"
  rq_iss :: json
  rq_code :: "string option"

datatype login_error =
    NotConfigured
  | FailedToInitiate
  | ProviderError "string option"
  | InvalidState
  | ProviderGone
  | UnexpectedIssuer
  | NoCode
  | ClientNotInitialized
  | ExchangeFailed
  | NoUserInfo
  | UsernameError field_error
  | NotAllowedToLogin
  | CannotSignInHere
  | CouldNotComplete
  | FailedToUpdateUser
  | FailedToProcess
  | SessionError
  | InternalServerError
  | AuthenticationFailed

subsection \<open>Starting a login\<close>

text \<open>
  The return target: a path that starts with one slash, without backslashes and control characters.
  Of \<^verbatim>\<open>urlparse\<close> the check needs the scheme and the authority, and a string that starts
  with a single slash has neither.
\<close>

definition has_authority :: "string \<Rightarrow> bool" where
  "has_authority v \<longleftrightarrow> prefix ''//'' v"

definition has_scheme :: "string \<Rightarrow> bool" where
  "has_scheme v \<longleftrightarrow>
     (let s = takeWhile (\<lambda>c. c \<noteq> CHR '':'') v;
          letter = (\<lambda>c. let n = (of_char c :: nat) in (65 \<le> n \<and> n \<le> 90) \<or> (97 \<le> n \<and> n \<le> 122))
      in CHR '':'' \<in> set v \<and> s \<noteq> [] \<and> letter (hd s) \<and>
         list_all (\<lambda>c. letter c \<or> (48 \<le> (of_char c :: nat) \<and> (of_char c :: nat) \<le> 57) \<or> c \<in> set ''+-.'') s)"

definition sanitize_next :: "string option \<Rightarrow> string option" where
  "sanitize_next value =
     (case value of
        None \<Rightarrow> None
      | Some v \<Rightarrow>
          if v = [] \<or> \<not> prefix ''/'' v \<or> prefix ''//'' v \<or> CHR 0x5C \<in> set v \<or>
             (\<exists>c\<in>set v. c \<in> {CHR 0x00, CHR 0x09, CHR 0x0A, CHR 0x0D, CHR 0x0B, CHR 0x0C}) \<or>
             has_scheme v \<or> has_authority v
          then None else Some v)"

definition interactive_provider :: "login_env \<Rightarrow> string \<Rightarrow> provider_config option" where
  "interactive_provider env pid = List.find (\<lambda>p. pc_id p = pid) (interactive_providers (le_registry env))"

text \<open>
  The part of \<^verbatim>\<open>_begin_login\<close> that changes state; the redirect itself is the
  client's. A failing store call ends the request with the same status as a missing configuration.
\<close>

definition begin_login :: "login_env \<Rightarrow> string \<Rightarrow> db \<Rightarrow> string \<Rightarrow> string option \<Rightarrow> db \<times> (login_error + string)" where
  "begin_login env state_token d pid next_target =
     (if \<not> le_configured env pid then (d, Inl NotConfigured)
      else case create_auth_state (now (le_user env)) state_token d pid (sanitize_next next_target) DEFAULT_STATE_LIFETIME_SECONDS of
             Inl e \<Rightarrow> (d, Inl FailedToInitiate)
           | Inr (d', state) \<Rightarrow> (d', Inr state))"

subsection \<open>The session cookie\<close>

definition retire_previous_login :: "int \<Rightarrow> db \<Rightarrow> cookie \<Rightarrow> db \<times> cookie" where
  "retire_previous_login t d ck =
     (let ck' = ck\<lparr>ck_session_id := None, ck_username := None, ck_authenticated := False, ck_refresh_token := None,
                   ck_expires_at := None\<rparr>
      in case ck_session_id ck of
           Some sid \<Rightarrow> if sid \<noteq> [] then (fst (revoke_auth_session t d sid), ck') else (d, ck')
         | None \<Rightarrow> (d, ck'))"

definition positive_number :: "json \<Rightarrow> int option" where
  "positive_number v = (case v of JNum n \<Rightarrow> if n > 0 then Some n else None | JBool b \<Rightarrow> if b then Some 1 else None | _ \<Rightarrow> None)"

definition extract_session_expiry :: "int \<Rightarrow> dict \<Rightarrow> int option" where
  "extract_session_expiry t resp =
     (case positive_number (jget resp ''expires_at'') of
        Some n \<Rightarrow> Some n
      | None \<Rightarrow>
          (let userinfo = (case jget resp ''userinfo'' of JObj kvs \<Rightarrow> kvs | _ \<Rightarrow> []) in
           case positive_number (jget userinfo ''exp'') of
             Some n \<Rightarrow> Some n
           | None \<Rightarrow>
               (case positive_number (jget resp ''expires_in'') of
                  Some n \<Rightarrow> Some (t + n)
                | None \<Rightarrow> None)))"

definition persist_session_auth :: "login_env \<Rightarrow> cookie \<Rightarrow> dict \<Rightarrow> cookie" where
  "persist_session_auth env ck resp =
     ck\<lparr>ck_expires_at := extract_session_expiry (now (le_user env)) resp,
        ck_refresh_token :=
          (if OIDC_USE_REFRESH_TOKEN env
           then (if truthy (jget resp ''refresh_token'') then Some (jget resp ''refresh_token'') else ck_refresh_token ck)
           else None)\<rparr>"

definition DEFAULT_SESSION_LIFETIME_SECONDS :: int where
  "DEFAULT_SESSION_LIFETIME_SECONDS = 14 * 24 * 60 * 60"

definition open_server_session :: "login_env \<Rightarrow> db \<Rightarrow> string \<Rightarrow> (db \<times> string) res" where
  "open_server_session env d uname =
     (let max_age = (case SESSION_COOKIE_MAX_AGE_SECONDS env of
                       None \<Rightarrow> DEFAULT_SESSION_LIFETIME_SECONDS
                     | Some n \<Rightarrow> if n = 0 then DEFAULT_SESSION_LIFETIME_SECONDS else n)
      in create_auth_session (le_session_token env) d uname (now (le_user env) + max_age) None)"

subsection \<open>User and group management in the callback\<close>

definition claimed_groups :: "login_env \<Rightarrow> dict \<Rightarrow> json \<Rightarrow> string list res" where
  "claimed_groups env userinfo access_token =
     bindE (case OIDC_GROUP_DETECTION_PLUGIN env of
              Some plugin \<Rightarrow> plugin access_token
            | None \<Rightarrow> Inr (jget_or userinfo (OIDC_GROUPS_ATTRIBUTE env) (JList []))) (\<lambda>v.
     case v of
       JStr s \<Rightarrow> Inr [s]
     | JList xs \<Rightarrow> Inr [s. JStr s \<leftarrow> xs]
     | JObj kvs \<Rightarrow> Inr (map fst kvs)
     | _ \<Rightarrow> Inl ValueError)"

definition decide_login :: "db \<Rightarrow> provider_config \<Rightarrow> json option \<Rightarrow> dict \<Rightarrow> string \<Rightarrow> provisioning_outcome res" where
  "decide_login d provider subject userinfo uname =
     bindE (case subject of
              None \<Rightarrow> Inr \<lparr>id_resolution = CREATE, id_username = None, id_reason = NoSubjectAsserted\<rparr>
            | Some sub \<Rightarrow> resolve_identity get_username_by_identity list_providers_for_username has_user d provider sub userinfo (Some uname)) (\<lambda>decision.
     Inr (apply_provisioning_policy provider decision (Some uname) (has_user d) (list_providers_for_username d)))"

text \<open>\<^verbatim>\<open>outcome.username or username\<close>.\<close>

definition login_name :: "provisioning_outcome \<Rightarrow> string \<Rightarrow> string" where
  "login_name outcome uname = (case po_username outcome of Some n \<Rightarrow> if n = [] then uname else n | None \<Rightarrow> uname)"

definition provision_account ::
  "login_env \<Rightarrow> db \<Rightarrow> provider_config \<Rightarrow> provisioning_outcome \<Rightarrow> string \<Rightarrow> string \<Rightarrow> bool \<Rightarrow> db res" where
  "provision_account env d provider outcome uname display is_admin =
     (if po_create outcome \<or> pc_admin_source provider = ''claims''
      then bindE (fst (create_user (le_user env) (le_token env) d uname display is_admin False
                         (Some (''oidc:'' @ pc_id provider)) False)) (\<lambda>(d', _). Inr d')
      else Inr d)"

definition sync_groups :: "db \<Rightarrow> provider_config \<Rightarrow> string list \<Rightarrow> string \<Rightarrow> bool \<Rightarrow> db res" where
  "sync_groups d provider claimed uname is_new_user =
     (case groups_to_apply provider claimed (Some (get_groups_for_user d uname)) is_new_user of
        None \<Rightarrow> Inr d
      | Some names \<Rightarrow> set_user_groups (populate_groups d names) uname names)"

definition login_workspaces :: "login_env \<Rightarrow> dict \<Rightarrow> json \<Rightarrow> string list" where
  "login_workspaces env userinfo access_token =
     (if \<not> le_workspaces_enabled env then []
      else case OIDC_WORKSPACE_DETECTION_PLUGIN env of
             Some plugin \<Rightarrow> (case plugin access_token of Inr ws \<Rightarrow> ws | Inl _ \<Rightarrow> [])
           | None \<Rightarrow>
               (case jget_or userinfo (OIDC_WORKSPACE_CLAIM_NAME env) (JList []) of
                  JStr s \<Rightarrow> [s]
                | JList xs \<Rightarrow> map (le_py_str env) xs
                | _ \<Rightarrow> []))"

definition assign_workspace :: "login_env \<Rightarrow> string \<Rightarrow> string \<Rightarrow> db \<Rightarrow> db" where
  "assign_workspace env uname ws d =
     (if ws = [] then d
      else case create_workspace_permission d ws uname (OIDC_WORKSPACE_DEFAULT_PERMISSION env) of Inr (d', _) \<Rightarrow> d' | Inl _ \<Rightarrow> d)"

text \<open>
  The management block: each store call commits on its own, and an exception ends the login with
  \<^verbatim>\<open>Failed to update user/groups\<close>.
\<close>

definition manage_login :: "login_env \<Rightarrow> db \<Rightarrow> provider_config \<Rightarrow> dict \<Rightarrow> json \<Rightarrow> string \<Rightarrow> string \<Rightarrow> db \<times> (login_error + string)" where
  "manage_login env d provider userinfo access_token uname display =
     (case claimed_groups env userinfo access_token of
        Inl e \<Rightarrow> (d, Inl FailedToUpdateUser)
      | Inr claimed \<Rightarrow>
          (let is_admin = admin_from_claims provider claimed (OIDC_ADMIN_GROUP_NAME env);
               sub = jget userinfo ''sub''
           in if \<not> is_admin \<and> \<not> (\<exists>g\<in>set (OIDC_GROUP_NAME env). g \<in> set claimed) then (d, Inl NotAllowedToLogin)
              else if \<not> usable_str sub \<and> pc_id provider \<noteq> DEFAULT_PROVIDER_ID then (d, Inl CannotSignInHere)
              else let subject = (if usable_str sub then Some sub else None) in
                   case decide_login d provider subject userinfo uname of
                     Inl e \<Rightarrow> (d, Inl FailedToUpdateUser)
                   | Inr outcome \<Rightarrow>
                       if \<not> po_allowed outcome then (d, Inl CannotSignInHere)
                       else let uname' = login_name outcome uname in
                            case provision_account env d provider outcome uname' display is_admin of
                              Inl e \<Rightarrow> (d, Inl FailedToUpdateUser)
                            | Inr d1 \<Rightarrow>
                                (case (case subject of
                                         None \<Rightarrow> Inr (d1, False)
                                       | Some s \<Rightarrow> identity_link d1 (pc_id provider) (py_strip (the_str s)) uname' False) of
                                   Inl e \<Rightarrow> (d1, Inl CouldNotComplete)
                                 | Inr (d2, _) \<Rightarrow>
                                     (case sync_groups d2 provider claimed uname' (po_create outcome) of
                                        Inl e \<Rightarrow> (d2, Inl FailedToUpdateUser)
                                      | Inr d3 \<Rightarrow>
                                          (fold (assign_workspace env uname') (login_workspaces env userinfo access_token) d3,
                                           Inr uname')))))"

subsection \<open>The callback\<close>

text \<open>The token response: who it names, and the management of that user.\<close>

definition login_with_response ::
  "login_env \<Rightarrow> db \<Rightarrow> cookie \<Rightarrow> provider_config \<Rightarrow> dict \<Rightarrow> db \<times> cookie \<times> (login_error list + string)" where
  "login_with_response env d ck provider resp =
     (if \<not> truthy (jget resp ''userinfo'') then (d, ck, Inl [NoUserInfo])
      else case jget resp ''userinfo'' of
             JObj userinfo \<Rightarrow>
               (case extract_username (OIDC_USERNAME_FIELD env) userinfo of
                  Inl fe \<Rightarrow> (d, ck, Inl [UsernameError fe])
                | Inr uname \<Rightarrow>
                    (let display = (case extract_display_name (OIDC_DISPLAY_NAME_FIELD env) userinfo of Inr v \<Rightarrow> v | Inl _ \<Rightarrow> uname)
                     in case manage_login env d provider userinfo (jget resp ''access_token'') uname display of
                          (d', Inl e) \<Rightarrow> (d', ck, Inl [e])
                        | (d', Inr u) \<Rightarrow> (d', persist_session_auth env ck resp, Inr u)))
           | _ \<Rightarrow> (d, ck, Inl [FailedToProcess]))"

definition exchange_code ::
  "login_env \<Rightarrow> db \<Rightarrow> cookie \<Rightarrow> provider_config \<Rightarrow> string option \<Rightarrow> db \<times> cookie \<times> (login_error list + string)" where
  "exchange_code env d ck provider code =
     (if \<not> is_given code then (d, ck, Inl [NoCode])
      else if \<not> le_client env (pc_id provider) then (d, ck, Inl [ClientNotInitialized])
      else case le_exchange env (pc_id provider) (case code of Some c \<Rightarrow> c | None \<Rightarrow> []) of
             Inl e \<Rightarrow> (d, ck, Inl [FailedToProcess])
           | Inr resp \<Rightarrow> if resp = [] then (d, ck, Inl [ExchangeFailed]) else login_with_response env d ck provider resp)"

definition process_oidc_callback ::
  "login_env \<Rightarrow> db \<Rightarrow> cookie \<Rightarrow> callback_request \<Rightarrow> string option \<Rightarrow> db \<times> cookie \<times> (login_error list + string)" where
  "process_oidc_callback env d ck rq pid =
     (if is_given (rq_error rq) then (d, ck, Inl [ProviderError (rq_error_description rq)])
      else case consume_auth_state (now (le_user env)) d (case rq_state rq of Some s \<Rightarrow> s | None \<Rightarrow> []) of
             Inl e \<Rightarrow> (d, ck, Inl [InternalServerError])
           | Inr (d0, None) \<Rightarrow> (d0, ck, Inl [InvalidState])
           | Inr (d0, Some attempt) \<Rightarrow>
               (case by_id (le_registry env) (at_provider_id attempt) of
                  None \<Rightarrow> (d0, ck, Inl [ProviderGone])
                | Some provider \<Rightarrow>
                    if pc_id provider \<noteq> (case pid of Some p \<Rightarrow> p | None \<Rightarrow> DEFAULT_PROVIDER_ID) then (d0, ck, Inl [InvalidState])
                    else if validate_response_issuer (rq_iss rq) (pc_issuer provider) (le_iss_supported env provider) \<noteq> None
                    then (d0, ck, Inl [UnexpectedIssuer])
                    else (case retire_previous_login (now (le_user env)) d0
                            (ck\<lparr>ck_redirect_after_login := (if is_given (at_redirect_after_login attempt)
                                 then at_redirect_after_login attempt else ck_redirect_after_login ck)\<rparr>) of
                            (d1, ck1) \<Rightarrow> exchange_code env d1 ck1 provider (rq_code rq))))"

text \<open>Completing the login: a server-side session for the user the callback names.\<close>

definition complete_login ::
  "login_env \<Rightarrow> db \<Rightarrow> cookie \<Rightarrow> callback_request \<Rightarrow> string option \<Rightarrow> db \<times> cookie \<times> (login_error list + string)" where
  "complete_login env d ck rq pid =
     (if \<not> le_configured env (case pid of Some p \<Rightarrow> if p = [] then DEFAULT_PROVIDER_ID else p | None \<Rightarrow> DEFAULT_PROVIDER_ID)
      then (d, ck, Inl [NotConfigured])
      else case process_oidc_callback env d ck rq pid of
        (d', ck', Inl es) \<Rightarrow> (d', ck', Inl es)
      | (d', ck', Inr uname) \<Rightarrow>
          if uname = [] then (d', ck', Inl [AuthenticationFailed])
          else (case open_server_session env d' uname of
             Inl e \<Rightarrow> (d', empty_cookie, Inl [SessionError])
           | Inr (d'', sid) \<Rightarrow>
               (d'', ck'\<lparr>ck_session_id := Some sid, ck_authenticated := True, ck_redirect_after_login := None\<rparr>, Inr uname)))"

definition logout :: "int \<Rightarrow> db \<Rightarrow> cookie \<Rightarrow> db \<times> cookie" where
  "logout t d ck =
     ((case ck_session_id ck of Some sid \<Rightarrow> if sid \<noteq> [] then fst (revoke_auth_session t d sid) else d | None \<Rightarrow> d), empty_cookie)"

definition auth_status :: "int \<Rightarrow> db \<Rightarrow> cookie \<Rightarrow> string option res" where
  "auth_status t d ck =
     bindE (resolve_auth_session t d (case ck_session_id ck of Some s \<Rightarrow> s | None \<Rightarrow> [])) (\<lambda>r.
     Inr (case r of Some rs \<Rightarrow> if rs_is_active rs then Some (rs_username rs) else None | None \<Rightarrow> None))"

subsection \<open>What the account stages change\<close>

text \<open>Only the row of one user differs.\<close>

definition others_kept :: "string \<Rightarrow> db \<Rightarrow> db \<Rightarrow> bool" where
  "others_kept uname d d' \<longleftrightarrow> (\<forall>v. u_username v \<noteq> uname \<longrightarrow> (v \<in> set (users d') \<longleftrightarrow> v \<in> set (users d)))"

lemma create_user_cases:
  assumes "fst (create_user env token d uname display is_admin is_sa written_by override) = Inr (d', fresh)"
  obtains (updated) ent audits where "\<not> fresh" "user_update env d uname
      (no_changes\<lparr>ch_is_admin := Some is_admin, ch_is_service_account := Some is_sa\<rparr>) written_by override = (Inr (d', ent), audits)"
  | (created) ent where "fresh" "user_create env d uname token display is_admin is_sa = Inr (d', ent)"
  using assms
  by (cases "get_user_profile d uname")
    (auto simp: create_user_def update_user_def store_create_user_def split: sum.splits prod.splits if_splits)

lemma update_others:
  assumes "wf_users (users d)" and "user_update env d uname ch written_by override = (Inr (d', ent), audits)"
  shows "others_kept (normalize_username uname) d d'" and "user_identities d' = user_identities d"
    and "normalize_username uname \<in> u_username ` set (users d)" and "u_username ` set (users d') = u_username ` set (users d)"
proof -
  obtain u where u: "get_user (users d) (normalize_username uname) = Inr u"
    and d': "users d' = put_user (users d) (change_row env ch u)" "user_identities d' = user_identities d"
    using assms(2) by (rule user_update_Inr) auto
  have mem: "u \<in> set (users d)" "u_username u = normalize_username uname" using u assms(1) by (simp_all add: get_user_Inr_iff)
  have set': "set (users d') = insert (change_row env ch u) (set (users d) - {u})"
    unfolding d'(1) by (rule set_put_user [OF assms(1) mem(1)]) simp
  show "others_kept (normalize_username uname) d d'"
    unfolding others_kept_def set' using mem by auto
  show "user_identities d' = user_identities d" by (rule d'(2))
  show "normalize_username uname \<in> u_username ` set (users d)" using mem by force
  show "u_username ` set (users d') = u_username ` set (users d)"
    unfolding set' using mem by (auto simp: image_iff) metis
qed

lemma create_others:
  assumes "user_create env d uname password display is_admin is_sa = Inr (d', ent)"
  shows "others_kept (normalize_username uname) d d'" and "user_identities d' = user_identities d"
    and "u_username ` set (users d') = insert (normalize_username uname) (u_username ` set (users d))"
  using assms by (auto simp: user_create_Inr others_kept_def)

lemma provision_account_effect:
  assumes ok: "account_ok d" and p: "provision_account env d provider outcome uname display is_admin = Inr d1"
    and norm: "normalize_username uname = uname" and known: "\<not> po_create outcome \<longrightarrow> has_user d uname"
  shows "account_ok d1" and "user_identities d1 = user_identities d" and "others_kept uname d d1"
    and "u_username ` set (users d1) = insert uname (u_username ` set (users d))"
proof -
  have wfu: "wf_users (users d)" using ok by (simp add: account_ok_def wf_db_def)
  have "account_ok d1 \<and> user_identities d1 = user_identities d \<and> others_kept uname d d1 \<and>
    u_username ` set (users d1) = insert uname (u_username ` set (users d))"
  proof (cases "po_create outcome \<or> pc_admin_source provider = ''claims''")
    case True
    with p obtain fresh where c: "fst (create_user (le_user env) (le_token env) d uname display is_admin False
        (Some (''oidc:'' @ pc_id provider)) False) = Inr (d1, fresh)"
      by (auto simp: provision_account_def)
    then show ?thesis
    proof (cases rule: create_user_cases)
      case (updated ent audits)
      from update_others [OF wfu updated(2)] safe_ok [OF update_safe [OF ok updated(2), of 0]] norm show ?thesis by auto
    next
      case (created ent)
      from create_others [OF created(2)] safe_ok [OF create_safe [OF ok created(2), of 0]] norm show ?thesis by auto
    qed
  next
    case False
    with p known ok norm show ?thesis by (auto simp: provision_account_def others_kept_def has_user_iff)
  qed
  then show "account_ok d1" "user_identities d1 = user_identities d" "others_kept uname d d1"
    "u_username ` set (users d1) = insert uname (u_username ` set (users d))" by simp_all
qed

text \<open>The synchronisation of groups and workspaces leaves the account tables alone.\<close>

definition same_accounts :: "db \<Rightarrow> db \<Rightarrow> bool" where
  "same_accounts d d' \<longleftrightarrow> users d' = users d \<and> user_identities d' = user_identities d \<and>
     auth_sessions d' = auth_sessions d \<and> auth_states d' = auth_states d \<and> wf_db d'"

lemma same_accounts_trans: "same_accounts d d' \<Longrightarrow> same_accounts d' d'' \<Longrightarrow> same_accounts d d''"
  by (simp add: same_accounts_def)

lemma same_accounts_ok:
  assumes "same_accounts d d'" and "account_ok d"
  shows "account_ok d'"
proof -
  have eq: "users d' = users d" "user_identities d' = user_identities d" "auth_sessions d' = auth_sessions d"
    "auth_states d' = auth_states d" "wf_db d'"
    using assms(1) by (simp_all add: same_accounts_def)
  then have "wf_sessions d' = wf_sessions d" "wf_identities d' = wf_identities d" "single_provider d' = single_provider d"
    "has_active_admin d' = has_active_admin d"
    by (simp_all only: wf_sessions_def wf_identities_def single_provider_def has_active_admin_def)
  with assms(2) eq(5) show ?thesis by (simp add: account_ok_def)
qed

lemma sync_groups_effect:
  assumes wf: "wf_db d" and user: "get_user (users d) uname = Inr u"
  obtains d' where "sync_groups d provider claimed uname fresh = Inr d'" "same_accounts d d'"
    "case groups_to_apply provider claimed (Some (get_groups_for_user d uname)) fresh of
       None \<Rightarrow> d' = d | Some names \<Rightarrow> set (get_groups_for_user d' uname) = set names"
proof (cases "groups_to_apply provider claimed (Some (get_groups_for_user d uname)) fresh")
  case None
  with that [of d] wf show thesis by (simp add: sync_groups_def same_accounts_def)
next
  case (Some names)
  let ?d = "populate_groups d names"
  have acc: "users ?d = users d" "user_identities ?d = user_identities d" "auth_sessions ?d = auth_sessions d"
    "auth_states ?d = auth_states d" and names: "set names \<subseteq> g_group_name ` set (groups ?d)"
    by (simp_all add: populate_groups_def create_groups_names)
  have "wf_db ?d" using wf by (simp add: populate_groups_def wf_db_def create_groups_wf)
  moreover have "get_user (users ?d) uname = Inr u" using user acc by simp
  ultimately obtain d' where d': "set_user_groups ?d uname names = Inr d'" "wf_db d'" "set (get_groups_for_user d' uname) = set names"
    using set_user_groups_sync [OF _ _ names] by blast
  then have "users d' = users ?d" "user_identities d' = user_identities ?d" "auth_sessions d' = auth_sessions ?d" "auth_states d' = auth_states ?d"
    by (auto simp: set_user_groups_def put_tbl_def)
  with d' acc that [of d'] Some show thesis by (simp add: sync_groups_def same_accounts_def)
qed

lemma assign_workspaces_effect: "wf_db d \<Longrightarrow> same_accounts d (fold (assign_workspace env uname) ws d)"
proof (induction ws arbitrary: d)
  case (Cons w ws)
  have "same_accounts d (assign_workspace env uname w d)"
  proof (cases "create_workspace_permission d w uname (OIDC_WORKSPACE_DEFAULT_PERMISSION env)")
    case (Inr r)
    obtain d' row where r: "r = (d', row)" by (rule prod.exhaust)
    from Inr have "wf_db d'" using workspace_writes_wf(1) Cons.prems unfolding r by blast
    moreover from Inr have "users d' = users d" "user_identities d' = user_identities d" "auth_sessions d' = auth_sessions d"
      "auth_states d' = auth_states d"
      unfolding r by (auto simp: create_workspace_permission_def put_row_def)
    ultimately show ?thesis using Inr Cons.prems r by (simp add: assign_workspace_def same_accounts_def)
  qed (use Cons.prems in \<open>simp add: assign_workspace_def same_accounts_def\<close>)
  with Cons.IH [of "assign_workspace env uname w d"] show ?case
    by (auto simp: same_accounts_def)
qed (simp add: same_accounts_def)

lemma link_effect:
  assumes ok: "account_ok d" and link: "identity_link d p s uname False = Inr (d', new)"
  shows "account_ok d'" and "users d' = users d" and "get_username_by_identity d' p s = Inr (Some (normalize_username uname))"
    and "groups d' = groups d" "user_groups d' = user_groups d"
proof -
  show ok': "account_ok d'" by (rule safe_ok [OF link_safe [OF ok link, of 0]])
  have wf: "wf_identities d" "wf_identities d'" using ok ok' by (simp_all add: account_ok_def)
  note wfu = wf_identitiesD(1) [OF wf(1)]
  from link obtain u where u: "get_user (users d) (normalize_username uname) = Inr u"
    using user_row_query [OF wfu, of "normalize_username uname"]
    by (cases "get_user (users d) (normalize_username uname)") (auto simp: identity_link_def)
  then have mem: "u \<in> set (users d)" "u_username u = normalize_username uname" using wfu by (simp_all add: get_user_Inr_iff)
  have d': "users d' = users d \<and> groups d' = groups d \<and> user_groups d' = user_groups d \<and>
      (\<exists>i\<in>set (user_identities d'). i_provider_id i = p \<and> i_subject i = s \<and> i_user_id i = u_id u)"
    using link unfolding identity_link_outcome [OF wf(1) u] by (auto split: if_splits)
  then show "users d' = users d" "groups d' = groups d" "user_groups d' = user_groups d" by simp_all
  show "get_username_by_identity d' p s = Inr (Some (normalize_username uname))"
    unfolding get_username_by_identity_spec(2) [OF wf(2)] using d' mem by metis
qed

subsection \<open>A completed management block\<close>

lemma manage_login_Inr:
  assumes "manage_login env d provider userinfo access uname display = (d', Inr u)"
  obtains claimed outcome d1 d2 new d3 where
    "claimed_groups env userinfo access = Inr claimed"
    "usable_str (jget userinfo ''sub'') \<or> pc_id provider = DEFAULT_PROVIDER_ID"
    "decide_login d provider (if usable_str (jget userinfo ''sub'') then Some (jget userinfo ''sub'') else None) userinfo uname = Inr outcome"
    "po_allowed outcome" "u = login_name outcome uname"
    "provision_account env d provider outcome u display (admin_from_claims provider claimed (OIDC_ADMIN_GROUP_NAME env)) = Inr d1"
    "(if usable_str (jget userinfo ''sub'')
      then identity_link d1 (pc_id provider) (py_strip (the_str (jget userinfo ''sub''))) u False else Inr (d1, False)) = Inr (d2, new)"
    "sync_groups d2 provider claimed u (po_create outcome) = Inr d3"
    "d' = fold (assign_workspace env u) (login_workspaces env userinfo access) d3"
    "admin_from_claims provider claimed (OIDC_ADMIN_GROUP_NAME env) \<or> (\<exists>g\<in>set (OIDC_GROUP_NAME env). g \<in> set claimed)"
  using assms unfolding manage_login_def
  by (auto simp: Let_def split: sum.splits if_splits prod.splits option.splits) blast+

lemma decision_name:
  assumes wf: "wf_identities d"
    and r: "resolve_identity get_username_by_identity list_providers_for_username has_user d provider sub userinfo uname = Inr decision"
    and n: "id_username decision = Some n"
  shows "n \<noteq> [] \<and> normalize_username n = n"
proof -
  have email: "n \<noteq> [] \<and> normalize_username n = n"
    if dec: "decision = resolve_by_email list_providers_for_username has_user d provider userinfo uname"
  proof -
    obtain email where "email_from_claims userinfo = Some email" "n = normalize_username email"
      using n unfolding dec by (auto simp: resolve_by_email_def refuse_def Let_def split: option.splits if_splits)
    then show ?thesis
      by (auto simp: email_from_claims_def normalize_username_def Let_def split: option.splits if_splits)
  qed
  have matched: "normalize_username v = v" if "get_username_by_identity d q t = Inr (Some v)" for q t v
    using that wf_identitiesD(5) [OF wf] unfolding get_username_by_identity_spec(2) [OF wf] by blast
  show ?thesis
    using r n email matched by (auto simp: resolve_identity_def refuse_def split: option.splits if_splits)
qed

lemma outcome_username:
  assumes wf: "wf_identities d" and decide: "decide_login d provider subject userinfo uname = Inr outcome" and "po_allowed outcome"
    and norm: "normalize_username uname = uname" "uname \<noteq> []"
  shows "po_username outcome = Some (login_name outcome uname)"
    and "normalize_username (login_name outcome uname) = login_name outcome uname"
    and "\<not> po_create outcome \<Longrightarrow> has_user d (login_name outcome uname)"
    and "po_create outcome \<Longrightarrow> login_name outcome uname = uname \<and> \<not> has_user d uname \<and> pc_provisioning provider = ''jit''"
    and "subject = Some sub \<Longrightarrow> \<not> po_create outcome \<Longrightarrow>
      get_username_by_identity d (pc_id provider) (py_strip (the_str sub)) = Inr (Some (login_name outcome uname)) \<or>
      set (list_providers_for_username d (login_name outcome uname)) \<subseteq> {pc_id provider}"
proof -
  let ?P = "\<lambda>decision. apply_provisioning_policy provider decision (Some uname) (has_user d) (list_providers_for_username d)"
  obtain decision where out: "outcome = ?P decision"
    and cases: "(subject = None \<and> id_resolution decision = CREATE) \<or>
      (\<exists>sub. subject = Some sub \<and> resolve_identity get_username_by_identity list_providers_for_username has_user d provider sub userinfo (Some uname) = Inr decision)"
    using decide by (auto simp: decide_login_def split: option.splits)
  have create: "po_username outcome = Some uname \<and> (\<not> po_create outcome \<longrightarrow> has_user d uname) \<and>
      (po_create outcome \<longrightarrow> \<not> has_user d uname \<and> pc_provisioning provider = ''jit'')"
    if "id_resolution decision \<notin> {MATCHED, LINK}"
    using that assms(3) norm(2) unfolding out by (auto simp: apply_provisioning_policy_def Let_def split: if_splits)
  have reached: "\<exists>n. id_username decision = Some n \<and> n \<noteq> [] \<and> normalize_username n = n \<and> has_user d n \<and>
      po_username outcome = Some n \<and> \<not> po_create outcome"
    if res: "id_resolution decision \<in> {MATCHED, LINK}"
  proof -
    from cases res obtain sub where r: "resolve_identity get_username_by_identity list_providers_for_username has_user d provider sub userinfo (Some uname) = Inr decision"
      by auto
    from bindings.decision_resolution(1) [OF r] res obtain n where n: "id_username decision = Some n" by blast
    from decision_name [OF wf r n] bindings.decision_owner [OF wf r n] n res show ?thesis
      unfolding out by (auto simp: apply_provisioning_policy_def is_allowed_def)
  qed
  show name: "po_username outcome = Some (login_name outcome uname)"
    using create reached norm by (cases "id_resolution decision \<in> {MATCHED, LINK}") (auto simp: login_name_def)
  show "normalize_username (login_name outcome uname) = login_name outcome uname"
    using create reached norm by (cases "id_resolution decision \<in> {MATCHED, LINK}") (auto simp: login_name_def)
  show "has_user d (login_name outcome uname)" if "\<not> po_create outcome"
    using create reached norm that by (cases "id_resolution decision \<in> {MATCHED, LINK}") (auto simp: login_name_def)
  show "login_name outcome uname = uname \<and> \<not> has_user d uname \<and> pc_provisioning provider = ''jit''" if "po_create outcome"
    using create reached norm that by (cases "id_resolution decision \<in> {MATCHED, LINK}") (auto simp: login_name_def)
  show "get_username_by_identity d (pc_id provider) (py_strip (the_str sub)) = Inr (Some (login_name outcome uname)) \<or>
      set (list_providers_for_username d (login_name outcome uname)) \<subseteq> {pc_id provider}"
    if "subject = Some sub" "\<not> po_create outcome"
    using bindings.no_takeover [OF wf _ out assms(3) that(2) name] cases that(1) by auto
qed

text \<open>A completed management block keeps the account constraints, with or without a subject.\<close>

lemma manage_login_ok:
  assumes ok: "account_ok d" and login: "manage_login env d provider userinfo access uname display = (d', Inr u)"
    and norm: "normalize_username uname = uname" "uname \<noteq> []"
  shows "account_ok d'"
  using login
proof (rule manage_login_Inr)
  fix claimed outcome d1 d2 new d3
  let ?sub = "jget userinfo ''sub''"
  assume decide: "decide_login d provider (if usable_str ?sub then Some ?sub else None) userinfo uname = Inr outcome"
    and allowed: "po_allowed outcome" and u: "u = login_name outcome uname"
    and prov: "provision_account env d provider outcome u display (admin_from_claims provider claimed (OIDC_ADMIN_GROUP_NAME env)) = Inr d1"
    and link: "(if usable_str ?sub then identity_link d1 (pc_id provider) (py_strip (the_str ?sub)) u False else Inr (d1, False)) = Inr (d2, new)"
    and sync: "sync_groups d2 provider claimed u (po_create outcome) = Inr d3"
    and d': "d' = fold (assign_workspace env u) (login_workspaces env userinfo access) d3"
  have wf: "wf_identities d" using ok by (simp add: account_ok_def)
  note out = outcome_username [OF wf decide allowed norm, folded u]
  have known: "\<not> po_create outcome \<longrightarrow> has_user d u" using out(3) by blast
  note p1 = provision_account_effect [OF ok prov out(2) known]
  have l2: "account_ok d2 \<and> users d2 = users d1"
    using link link_effect(1,2) [OF p1(1)] p1(1) by (cases "usable_str ?sub") auto
  then have wf2: "wf_db d2" by (simp add: account_ok_def)
  have "u \<in> u_username ` set (users d2)" using p1(4) l2 by simp
  then obtain v where "v \<in> set (users d2)" "u_username v = u" by auto
  then have v: "get_user (users d2) u = Inr v" by (simp add: get_user_Inr_iff [OF wf_dbD(1) [OF wf2]])
  obtain d3' where "sync_groups d2 provider claimed u (po_create outcome) = Inr d3'" "same_accounts d2 d3'"
    using sync_groups_effect [OF wf2 v] by blast
  with sync have s3: "same_accounts d2 d3" by simp
  then have "same_accounts d2 d'"
    unfolding d' by (rule same_accounts_trans) (rule assign_workspaces_effect, use s3 in \<open>simp add: same_accounts_def\<close>)
  then show "account_ok d'" by (rule same_accounts_ok) (use l2 in simp)
qed

text \<open>
  What a completed login did: the account was this identity's own, or bound to no other provider, or
  created under the provider's policy; afterwards the identity is bound to it, the membership is the
  policy's, and no other user's row or binding has changed.
\<close>

lemma manage_login_own:
  assumes ok: "account_ok d" and login: "manage_login env d provider userinfo access uname display = (d', Inr u)"
    and norm: "normalize_username uname = uname" "uname \<noteq> []" and sub: "usable_str (jget userinfo ''sub'')"
  defines "s \<equiv> py_strip (the_str (jget userinfo ''sub''))"
  shows "account_ok d'" and "others_kept u d d'"
    and "get_username_by_identity d' (pc_id provider) s = Inr (Some u)"
    and "get_username_by_identity d (pc_id provider) s = Inr (Some u) \<or>
      (has_user d u \<and> set (list_providers_for_username d u) \<subseteq> {pc_id provider}) \<or>
      (\<not> has_user d u \<and> pc_provisioning provider = ''jit'')"
proof -
  obtain claimed outcome d1 d2 new d3 where
    decide: "decide_login d provider (Some (jget userinfo ''sub'')) userinfo uname = Inr outcome"
    and allowed: "po_allowed outcome" and u: "u = login_name outcome uname"
    and prov: "provision_account env d provider outcome u display (admin_from_claims provider claimed (OIDC_ADMIN_GROUP_NAME env)) = Inr d1"
    and link: "identity_link d1 (pc_id provider) s u False = Inr (d2, new)"
    and sync: "sync_groups d2 provider claimed u (po_create outcome) = Inr d3"
    and d': "d' = fold (assign_workspace env u) (login_workspaces env userinfo access) d3"
    using login sub unfolding s_def by (elim manage_login_Inr) simp
  have wf: "wf_identities d" using ok by (simp add: account_ok_def)
  note out = outcome_username [OF wf decide allowed norm, folded u]
  have known: "\<not> po_create outcome \<longrightarrow> has_user d u" using out(3) by blast
  note p1 = provision_account_effect [OF ok prov out(2) known]
  note l2 = link_effect [OF p1(1) link]
  have wf2: "wf_db d2" using l2(1) by (simp add: account_ok_def)
  have "u \<in> u_username ` set (users d2)" using p1(4) l2(2) by simp
  then obtain v where "v \<in> set (users d2)" "u_username v = u" by auto
  then have v: "get_user (users d2) u = Inr v" by (simp add: get_user_Inr_iff [OF wf_dbD(1) [OF wf2]])
  obtain d3' where "sync_groups d2 provider claimed u (po_create outcome) = Inr d3'" "same_accounts d2 d3'"
    using sync_groups_effect [OF wf2 v] by blast
  with sync have s3: "same_accounts d2 d3" by simp
  then have s': "same_accounts d2 d'"
    unfolding d' by (rule same_accounts_trans) (rule assign_workspaces_effect, use s3 in \<open>simp add: same_accounts_def\<close>)
  show ok': "account_ok d'" by (rule same_accounts_ok [OF s' l2(1)])
  from s' have tables: "users d' = users d1" "user_identities d' = user_identities d2" by (simp_all add: same_accounts_def l2(2))
  then show "others_kept u d d'" using p1(3) by (simp add: others_kept_def)
  show "get_username_by_identity d' (pc_id provider) s = Inr (Some u)"
    using l2(3) unfolding get_username_by_identity_def tables out(2) by (simp only: l2(2))
  show "get_username_by_identity d (pc_id provider) s = Inr (Some u) \<or>
      (has_user d u \<and> set (list_providers_for_username d u) \<subseteq> {pc_id provider}) \<or>
      (\<not> has_user d u \<and> pc_provisioning provider = ''jit'')"
  proof (cases "po_create outcome")
    case True
    from out(4) [OF True] show ?thesis by simp
  next
    case False
    from out(3) [OF False] out(5) [OF refl False] show ?thesis unfolding s_def by blast
  qed
qed

subsection \<open>The callback as a whole\<close>

lemma login_with_response_Inr:
  assumes "login_with_response env d ck provider resp = (d', ck', Inr u)"
  obtains userinfo uname display where "jget resp ''userinfo'' = JObj userinfo"
    "extract_username (OIDC_USERNAME_FIELD env) userinfo = Inr uname"
    "manage_login env d provider userinfo (jget resp ''access_token'') uname display = (d', Inr u)"
  using assms
  by (cases "jget resp ''userinfo''") (auto simp: login_with_response_def Let_def split: if_splits sum.splits prod.splits)

lemma exchange_code_Inr:
  assumes "exchange_code env d ck provider code = (d', ck', Inr u)"
  obtains c resp where "code = Some c" "le_exchange env (pc_id provider) c = Inr resp"
    "login_with_response env d ck provider resp = (d', ck', Inr u)"
  using assms by (auto simp: exchange_code_def is_given_def split: if_splits sum.splits option.splits)

lemma process_oidc_callback_Inr:
  assumes "process_oidc_callback env d ck rq pid = (d', ck', Inr u)"
  obtains state attempt provider d0 ck0 d1 ck1 where
    "rq_state rq = Some state" "consume_auth_state (now (le_user env)) d state = Inr (d0, Some attempt)"
    "by_id (le_registry env) (at_provider_id attempt) = Some provider"
    "pc_id provider = (case pid of Some p \<Rightarrow> p | None \<Rightarrow> DEFAULT_PROVIDER_ID)"
    "validate_response_issuer (rq_iss rq) (pc_issuer provider) (le_iss_supported env provider) = None"
    "retire_previous_login (now (le_user env)) d0 ck0 = (d1, ck1)"
    "exchange_code env d1 ck1 provider (rq_code rq) = (d', ck', Inr u)"
proof -
  have empty: "consume_auth_state t d [] = Inr (d, None)" for t
    by (simp add: consume_auth_state_def state_consume_def)
  let ?state = "case rq_state rq of Some s \<Rightarrow> s | None \<Rightarrow> []"
  obtain d0 attempt where c: "consume_auth_state (now (le_user env)) d ?state = Inr (d0, Some attempt)"
    using assms by (auto simp: process_oidc_callback_def split: if_splits sum.splits prod.splits option.splits)
  obtain provider where p: "by_id (le_registry env) (at_provider_id attempt) = Some provider"
    using assms c by (cases "by_id (le_registry env) (at_provider_id attempt)") (auto simp: process_oidc_callback_def split: if_splits)
  define ck0 where "ck0 = ck\<lparr>ck_redirect_after_login := (if is_given (at_redirect_after_login attempt)
      then at_redirect_after_login attempt else ck_redirect_after_login ck)\<rparr>"
  obtain d1 ck1 where ret: "retire_previous_login (now (le_user env)) d0 ck0 = (d1, ck1)" by (rule prod.exhaust)
  have run: "process_oidc_callback env d ck rq pid =
     (if is_given (rq_error rq) then (d, ck, Inl [ProviderError (rq_error_description rq)])
      else if pc_id provider \<noteq> (case pid of Some p \<Rightarrow> p | None \<Rightarrow> DEFAULT_PROVIDER_ID) then (d0, ck, Inl [InvalidState])
      else if validate_response_issuer (rq_iss rq) (pc_issuer provider) (le_iss_supported env provider) \<noteq> None
      then (d0, ck, Inl [UnexpectedIssuer])
      else exchange_code env d1 ck1 provider (rq_code rq))"
    unfolding process_oidc_callback_def c sum.case prod.case option.case p ck0_def [symmetric] ret by (rule refl)
  obtain state where st: "rq_state rq = Some state" using c empty by (cases "rq_state rq") simp_all
  show thesis
  proof (rule that [OF st _ p _ _ ret])
    show "consume_auth_state (now (le_user env)) d state = Inr (d0, Some attempt)" using c st by simp
    show "pc_id provider = (case pid of Some p \<Rightarrow> p | None \<Rightarrow> DEFAULT_PROVIDER_ID)"
      "validate_response_issuer (rq_iss rq) (pc_issuer provider) (le_iss_supported env provider) = None"
      "exchange_code env d1 ck1 provider (rq_code rq) = (d', ck', Inr u)"
      using assms unfolding run by (simp_all split: if_splits)
  qed
qed

text \<open>Consuming the state and retiring the cookie's session touch neither users nor identities.\<close>

lemma consume_effect:
  assumes "account_ok d" and "consume_auth_state t d state = Inr (d0, attempt)"
  shows "account_ok d0" "users d0 = users d" "user_identities d0 = user_identities d"
proof -
  show "account_ok d0"
    by (rule safe_ok [OF states_safe(2) [OF assms(1) assms(2) [unfolded consume_auth_state_def], of 0]])
  from assms(2) have "d0 = d \<or> d0 = fst (consume_claim d state)"
    unfolding consume_auth_state_def by (rule state_consume_db)
  then show "users d0 = users d" "user_identities d0 = user_identities d"
    by (auto simp: consume_claim_def)
qed

lemma retire_effect:
  assumes "account_ok d" and "retire_previous_login t d ck = (d1, ck1)"
  shows "account_ok d1" "users d1 = users d" "user_identities d1 = user_identities d" "ck_session_id ck1 = None" "ck_refresh_token ck1 = None"
proof -
  have "d1 = d \<or> (\<exists>sid. d1 = fst (session_revoke t d sid))"
    using assms(2) by (auto simp: retire_previous_login_def revoke_auth_session_def Let_def split: option.splits if_splits)
  then show "account_ok d1"
  proof (elim disjE exE)
    fix sid
    assume d1: "d1 = fst (session_revoke t d sid)"
    obtain d2 hit where r: "session_revoke t d sid = (d2, hit)" by (rule prod.exhaust)
    with d1 have "d1 = d2" by simp
    then show ?thesis using safe_ok [OF sessions_safe(1) [OF assms(1) r, of 0]] by simp
  qed (use assms(1) in simp)
  show "users d1 = users d" "user_identities d1 = user_identities d" "ck_session_id ck1 = None" "ck_refresh_token ck1 = None"
    using assms(2) by (auto simp: retire_previous_login_def revoke_auth_session_def session_revoke_def Let_def split: option.splits if_splits)
qed

lemma extract_loop_nonempty: "extract_loop payload label names = Inr v \<Longrightarrow> v \<noteq> []"
  by (induction names) (auto split: json.splits if_splits)

lemma extract_username_normal: "extract_username names payload = Inr n \<Longrightarrow> normalize_username n = n \<and> n \<noteq> []"
  by (auto simp: extract_username_def extract_field_from_payload_def normalize_username_def dest: extract_loop_nonempty
      split: sum.splits if_splits)

text \<open>A login that completes, from the browser's request to the account.\<close>

lemma process_login_own:
  assumes ok: "account_ok d" and run: "process_oidc_callback env d ck rq pid = (d', ck', Inr u)"
  obtains provider state attempt d0 userinfo where
    "rq_state rq = Some state" "consume_auth_state (now (le_user env)) d state = Inr (d0, Some attempt)"
    "by_id (le_registry env) (at_provider_id attempt) = Some provider"
    "pc_id provider = (case pid of Some p \<Rightarrow> p | None \<Rightarrow> DEFAULT_PROVIDER_ID)"
    "usable_str (jget userinfo ''sub'') \<or> pc_id provider = DEFAULT_PROVIDER_ID"
    "usable_str (jget userinfo ''sub'') \<Longrightarrow> account_ok d' \<and> others_kept u d d' \<and>
       get_username_by_identity d' (pc_id provider) (py_strip (the_str (jget userinfo ''sub''))) = Inr (Some u) \<and>
       (get_username_by_identity d (pc_id provider) (py_strip (the_str (jget userinfo ''sub''))) = Inr (Some u) \<or>
        (has_user d u \<and> set (list_providers_for_username d u) \<subseteq> {pc_id provider}) \<or>
        (\<not> has_user d u \<and> pc_provisioning provider = ''jit''))"
  using run
proof (rule process_oidc_callback_Inr)
  fix state attempt provider d0 ck0 d1 ck1
  assume st: "rq_state rq = Some state" "consume_auth_state (now (le_user env)) d state = Inr (d0, Some attempt)"
    "by_id (le_registry env) (at_provider_id attempt) = Some provider"
    "pc_id provider = (case pid of Some p \<Rightarrow> p | None \<Rightarrow> DEFAULT_PROVIDER_ID)"
    and ret: "retire_previous_login (now (le_user env)) d0 ck0 = (d1, ck1)"
    and ex: "exchange_code env d1 ck1 provider (rq_code rq) = (d', ck', Inr u)"
  from ex obtain resp where "login_with_response env d1 ck1 provider resp = (d', ck', Inr u)"
    by (rule exchange_code_Inr)
  then obtain userinfo uname display where un: "extract_username (OIDC_USERNAME_FIELD env) userinfo = Inr uname"
    and m: "manage_login env d1 provider userinfo (jget resp ''access_token'') uname display = (d', Inr u)"
    by (rule login_with_response_Inr)
  note c = consume_effect [OF ok st(2)]
  note r = retire_effect [OF c(1) ret]
  have norm: "normalize_username uname = uname" "uname \<noteq> []" using extract_username_normal [OF un] by simp_all
  have same: "get_username_by_identity d1 = get_username_by_identity d" "list_providers_for_username d1 = list_providers_for_username d"
    "has_user d1 = has_user d"
    by (intro ext; simp only: get_username_by_identity_def list_providers_for_username_def has_user_def user_exist_def r(2,3) c(2,3))+
  have others: "others_kept u d d' = others_kept u d1 d'" by (simp only: others_kept_def r(2) c(2))
  show thesis
  proof (rule that [OF st, of userinfo])
    show "usable_str (jget userinfo ''sub'') \<or> pc_id provider = DEFAULT_PROVIDER_ID"
      using m by (rule manage_login_Inr)
    assume sub: "usable_str (jget userinfo ''sub'')"
    show "account_ok d' \<and> others_kept u d d' \<and>
       get_username_by_identity d' (pc_id provider) (py_strip (the_str (jget userinfo ''sub''))) = Inr (Some u) \<and>
       (get_username_by_identity d (pc_id provider) (py_strip (the_str (jget userinfo ''sub''))) = Inr (Some u) \<or>
        (has_user d u \<and> set (list_providers_for_username d u) \<subseteq> {pc_id provider}) \<or>
        (\<not> has_user d u \<and> pc_provisioning provider = ''jit''))"
      using manage_login_own [OF r(1) m norm sub] unfolding same others by blast
  qed
qed

lemma process_login_ok:
  assumes ok: "account_ok d" and run: "process_oidc_callback env d ck rq pid = (d', ck', Inr u)"
  shows "account_ok d'"
  using run
proof (rule process_oidc_callback_Inr)
  fix state attempt provider d0 ck0 d1 ck1
  assume st: "consume_auth_state (now (le_user env)) d state = Inr (d0, Some attempt)"
    and ret: "retire_previous_login (now (le_user env)) d0 ck0 = (d1, ck1)"
    and ex: "exchange_code env d1 ck1 provider (rq_code rq) = (d', ck', Inr u)"
  from ex obtain resp where "login_with_response env d1 ck1 provider resp = (d', ck', Inr u)"
    by (rule exchange_code_Inr)
  then obtain userinfo uname display where un: "extract_username (OIDC_USERNAME_FIELD env) userinfo = Inr uname"
    and m: "manage_login env d1 provider userinfo (jget resp ''access_token'') uname display = (d', Inr u)"
    by (rule login_with_response_Inr)
  from extract_username_normal [OF un] show ?thesis
    by (intro manage_login_ok [OF retire_effect(1) [OF consume_effect(1) [OF ok st] ret] m]) simp_all
qed

text \<open>The session a login opens resolves to its user until it expires, and logging out ends it.\<close>

lemma session_create_token: "session_create token d uname expires provider = Inr (d', sid) \<Longrightarrow> sid = token"
  by (cases "sql_one_or_none [u. u \<leftarrow> users d, u_username u = normalize_username uname]")
    (auto simp: session_create_def split: option.splits if_splits)

lemma complete_login_Inr:
  assumes "complete_login env d ck rq pid = (d', ck', Inr u)"
  obtains d1 ck1 where "process_oidc_callback env d ck rq pid = (d1, ck1, Inr u)"
    "open_server_session env d1 u = Inr (d', le_session_token env)" "ck_session_id ck' = Some (le_session_token env)"
proof -
  obtain d1 ck1 r where p: "process_oidc_callback env d ck rq pid = (d1, ck1, r)" by (metis prod.collapse)
  with assms have r: "r = Inr u" by (cases r) (simp_all add: complete_login_def split: if_splits sum.splits prod.splits option.splits)
  with assms p obtain sid where o: "open_server_session env d1 u = Inr (d', sid)" and ck': "ck_session_id ck' = Some sid"
    by (cases "open_server_session env d1 u") (auto simp: complete_login_def split: if_splits option.splits)
  have "sid = le_session_token env"
    using o unfolding open_server_session_def create_auth_session_def Let_def by (rule session_create_token)
  with p r o ck' show thesis by (intro that [of d1 ck1]) simp_all
qed

lemma revoked_not_live: "sid \<notin> live_ids t' (fst (session_revoke t d sid))"
proof -
  define f where "f = (\<lambda>s :: session_row. if s_session_id s = sid \<and> s_revoked_at s = None then s\<lparr>s_revoked_at := Some t\<rparr> else s)"
  have rows: "auth_sessions (fst (session_revoke t d sid)) = map f (auth_sessions d)"
    by (simp add: session_revoke_def f_def Let_def)
  have "\<not> honoured t' (f s) \<or> s_session_id (f s) \<noteq> sid" for s
    by (auto simp: f_def honoured_def)
  then show ?thesis unfolding live_ids_def rows set_map by blast
qed

lemma logout_revokes:
  assumes "account_ok d" and "ck_session_id ck = Some sid" and "sid \<noteq> []" and "logout t d ck = (d', ck')"
  shows "account_ok d'" and "resolve_auth_session t' d' sid = Inr None" and "ck' = empty_cookie"
proof -
  from assms(2-4) have d': "d' = fst (session_revoke t d sid)" and "ck' = empty_cookie"
    by (auto simp: logout_def revoke_auth_session_def)
  obtain hit where r: "session_revoke t d sid = (d', hit)" unfolding d' by (metis prod.collapse)
  show ok: "account_ok d'" by (rule safe_ok [OF sessions_safe(1) [OF assms(1) r, of 0]])
  have "sid \<notin> live_ids t' d'" unfolding d' by (rule revoked_not_live)
  then show "resolve_auth_session t' d' sid = Inr None"
    using ok resolve_live_iff [of d' sid t'] assms(3) by (simp add: account_ok_def wf_db_def)
  show "ck' = empty_cookie" by fact
qed

lemma login_session_resolves:
  assumes ok: "account_ok d1" and op: "open_server_session env d1 u = Inr (d', sid)" and "sid \<noteq> []"
    and t: "t < now (le_user env) + (case SESSION_COOKIE_MAX_AGE_SECONDS env of
        None \<Rightarrow> DEFAULT_SESSION_LIFETIME_SECONDS | Some n \<Rightarrow> if n = 0 then DEFAULT_SESSION_LIFETIME_SECONDS else n)"
  shows "\<exists>rs. resolve_auth_session t d' sid = Inr (Some rs) \<and> rs_username rs = normalize_username u"
proof -
  let ?exp = "now (le_user env) + (case SESSION_COOKIE_MAX_AGE_SECONDS env of
        None \<Rightarrow> DEFAULT_SESSION_LIFETIME_SECONDS | Some n \<Rightarrow> if n = 0 then DEFAULT_SESSION_LIFETIME_SECONDS else n)"
  have sc: "session_create (le_session_token env) d1 u ?exp None = Inr (d', sid)"
    using op by (simp add: open_server_session_def create_auth_session_def)
  then have ok': "account_ok d'" by (rule open_session(1) [OF ok])
  have wf: "wf_users (users d')" "wf_sessions d'" using ok' by (simp_all add: account_ok_def wf_db_def)
  have wfu: "wf_users (users d1)" using ok by (simp add: account_ok_def wf_db_def)
  obtain v where v: "get_user (users d1) (normalize_username u) = Inr v"
    using sc user_row_query [OF wfu, of "normalize_username u"]
    by (cases "get_user (users d1) (normalize_username u)") (auto simp: session_create_def)
  then have row: "sql_one_or_none [x. x \<leftarrow> users d1, u_username x = normalize_username u] = Inr (Some v)"
    using user_row_query [OF wfu] by simp
  define s where "s = \<lparr>s_id = next_id s_id (auth_sessions d1), s_session_id = le_session_token env, s_user_id = u_id v,
      s_provider_id = None, s_expires_at = ?exp, s_revoked_at = None\<rparr>"
  have d': "d' = d1\<lparr>auth_sessions := auth_sessions d1 @ [s]\<rparr>" "sid = le_session_token env"
    using sc row unfolding session_create_def s_def by (auto split: if_splits)
  have "v \<in> set (users d')" "u_username v = normalize_username u"
    using v wfu by (simp_all add: d' get_user_Inr_iff)
  moreover have "s \<in> set (auth_sessions d')" "s_user_id s = u_id v" "s_session_id s = sid" "honoured t s"
    using t by (simp_all add: d') (simp_all add: s_def honoured_def)
  ultimately show ?thesis
    unfolding resolve_auth_session_def session_resolve_spec(1) [OF wf assms(3)] by fastforce
qed

end
