(* ===== verification/Cache.thy ===== *)
theory Cache
  imports Prelude
begin

section \<open>Cache backends (cache/)\<close>

text \<open>
  The protocol \<^verbatim>\<open>CacheBackend\<close> as a record of operations and the contract
  its clients rely on, and the local backend of \<^verbatim>\<open>cache/local_backend.py\<close>.
  Entries may vanish at any time (expiry, eviction by size), so the contract only promises that
  what a cache returns was put there: it is a lossy map. The class
  \<^verbatim>\<open>cachetools.TTLCache\<close> is not part of the repository and is a record of
  operations with the laws \<open>ttl_cache\<close>.
\<close>

subsection \<open>The protocol\<close>

record ('c, 'v) cache_ops =
  c_get :: "'c \<Rightarrow> string \<Rightarrow> 'v option"
  c_set :: "'c \<Rightarrow> string \<Rightarrow> 'v \<Rightarrow> 'c"
  c_delete :: "'c \<Rightarrow> string \<Rightarrow> 'c"
  c_delete_prefix :: "'c \<Rightarrow> string \<Rightarrow> 'c"
  c_clear :: "'c \<Rightarrow> 'c"

text \<open>
  Each operation leaves a part of the map it would leave without loss.
\<close>

locale cache_backend =
  fixes ops :: "('c, 'v) cache_ops"
  assumes set_sub: "c_get ops (c_set ops c k v) \<subseteq>\<^sub>m (c_get ops c)(k \<mapsto> v)"
    and delete_sub: "c_get ops (c_delete ops c k) \<subseteq>\<^sub>m (c_get ops c)(k := None)"
    and delete_prefix_sub:
      "c_get ops (c_delete_prefix ops c p) \<subseteq>\<^sub>m c_get ops c |` {k. \<not> py_startswith k p}"
    and clear_empty: "c_get ops (c_clear ops c) = Map.empty"
begin

lemma get_setD: "c_get ops (c_set ops c k v) k' = Some w \<Longrightarrow> (k' = k \<and> w = v) \<or> c_get ops c k' = Some w"
  by (drule map_leD [OF set_sub]) (simp split: if_splits)

lemma get_deleteD: "c_get ops (c_delete ops c k) k' = Some w \<Longrightarrow> k' \<noteq> k \<and> c_get ops c k' = Some w"
  by (drule map_leD [OF delete_sub]) (simp split: if_splits)

lemma get_delete_prefixD:
  "c_get ops (c_delete_prefix ops c p) k = Some w \<Longrightarrow> \<not> py_startswith k p \<and> c_get ops c k = Some w"
  by (drule map_leD [OF delete_prefix_sub]) (simp add: restrict_map_def split: if_splits)

lemma get_clear [simp]: "c_get ops (c_clear ops c) k = None"
  by (simp add: clear_empty)

lemma fold_deleteD:
  "c_get ops (fold (\<lambda>k c. c_delete ops c k) ks c) k' = Some w \<Longrightarrow> k' \<notin> set ks \<and> c_get ops c k' = Some w"
  by (induction ks arbitrary: c) (auto dest: get_deleteD)

end

subsection \<open>LocalTTLCacheBackend\<close>

text \<open>
  The operations of a \<^verbatim>\<open>TTLCache\<close> object: \<^verbatim>\<open>get\<close>,
  item assignment, \<^verbatim>\<open>pop(key, None)\<close>, the key listing and
  \<^verbatim>\<open>clear\<close>.
\<close>

record ('t, 'v) ttl_ops =
  t_get :: "'t \<Rightarrow> string \<Rightarrow> 'v option"
  t_setitem :: "'t \<Rightarrow> string \<Rightarrow> 'v \<Rightarrow> 't"
  t_pop :: "'t \<Rightarrow> string \<Rightarrow> 't"
  t_keys :: "'t \<Rightarrow> string list"
  t_clear :: "'t \<Rightarrow> 't"

definition local_get :: "('t, 'v) ttl_ops \<Rightarrow> 't \<Rightarrow> string \<Rightarrow> 'v option" where
  "local_get ttl t k = t_get ttl t k"

definition local_set :: "('t, 'v) ttl_ops \<Rightarrow> 't \<Rightarrow> string \<Rightarrow> 'v \<Rightarrow> 't" where
  "local_set ttl t k v = t_setitem ttl t k v"

definition local_delete :: "('t, 'v) ttl_ops \<Rightarrow> 't \<Rightarrow> string \<Rightarrow> 't" where
  "local_delete ttl t k = t_pop ttl t k"

definition local_delete_prefix :: "('t, 'v) ttl_ops \<Rightarrow> 't \<Rightarrow> string \<Rightarrow> 't" where
  "local_delete_prefix ttl t p = fold (\<lambda>k t. t_pop ttl t k) [k. k \<leftarrow> t_keys ttl t, py_startswith k p] t"

definition local_clear :: "('t, 'v) ttl_ops \<Rightarrow> 't \<Rightarrow> 't" where
  "local_clear ttl t = t_clear ttl t"

definition LocalTTLCacheBackend :: "('t, 'v) ttl_ops \<Rightarrow> ('t, 'v) cache_ops" where
  "LocalTTLCacheBackend ttl =
     \<lparr>c_get = local_get ttl, c_set = local_set ttl, c_delete = local_delete ttl,
      c_delete_prefix = local_delete_prefix ttl, c_clear = local_clear ttl\<rparr>"

lemmas local_backend_defs = LocalTTLCacheBackend_def local_get_def local_set_def local_delete_def
  local_delete_prefix_def local_clear_def

text \<open>The laws of the class: an assignment, \<^verbatim>\<open>pop\<close> and \<^verbatim>\<open>clear\<close> never bring back an entry, and the key listing holds every live key.\<close>

locale ttl_cache =
  fixes ttl :: "('t, 'v) ttl_ops"
  assumes setitem_law: "t_get ttl (t_setitem ttl t k v) \<subseteq>\<^sub>m (t_get ttl t)(k \<mapsto> v)"
    and pop_law: "t_get ttl (t_pop ttl t k) \<subseteq>\<^sub>m (t_get ttl t)(k := None)"
    and keys_law: "t_get ttl t k \<noteq> None \<Longrightarrow> k \<in> set (t_keys ttl t)"
    and clear_law: "t_get ttl (t_clear ttl t) = Map.empty"
begin

lemma get_popD: "t_get ttl (t_pop ttl t k) k' = Some w \<Longrightarrow> k' \<noteq> k \<and> t_get ttl t k' = Some w"
  by (drule map_leD [OF pop_law]) (simp split: if_splits)

lemma fold_popD:
  "t_get ttl (fold (\<lambda>k t. t_pop ttl t k) ks t) k' = Some w \<Longrightarrow> k' \<notin> set ks \<and> t_get ttl t k' = Some w"
  by (induction ks arbitrary: t) (auto dest: get_popD)

lemma delete_prefixD:
  assumes "t_get ttl (local_delete_prefix ttl t p) k = Some w"
  shows "\<not> py_startswith k p \<and> t_get ttl t k = Some w"
proof -
  from fold_popD [OF assms [unfolded local_delete_prefix_def]]
  have "k \<notin> set [k. k \<leftarrow> t_keys ttl t, py_startswith k p]" and w: "t_get ttl t k = Some w" by auto
  moreover from w have "k \<in> set (t_keys ttl t)" using keys_law [of t k] by simp
  ultimately show ?thesis by auto
qed

lemma local_ops [simp]:
  "c_get (LocalTTLCacheBackend ttl) = t_get ttl"
  "c_set (LocalTTLCacheBackend ttl) = t_setitem ttl"
  "c_delete (LocalTTLCacheBackend ttl) = t_pop ttl"
  "c_delete_prefix (LocalTTLCacheBackend ttl) = local_delete_prefix ttl"
  "c_clear (LocalTTLCacheBackend ttl) = t_clear ttl"
  by (intro ext; simp add: local_backend_defs)+

sublocale backend: cache_backend "LocalTTLCacheBackend ttl"
proof (unfold_locales, goal_cases)
  case (3 c p)
  then show ?case
    using delete_prefixD [of c p] by (auto simp: map_le_def dom_def restrict_map_def)
qed (simp_all add: setitem_law pop_law clear_law)

lemma backend_law: "cache_backend (LocalTTLCacheBackend ttl)"
  by unfold_locales

end

subsection \<open>A bounded cache with expiry\<close>

text \<open>
  An instance of the laws of the class: entries with the time of their insertion, a clock, a
  lifetime and a capacity. It makes every hypothesis \<open>ttl_cache\<close> of the development
  satisfiable and evaluates.
\<close>

record 'v timed =
  t_clock :: nat
  t_size :: nat
  t_life :: nat
  t_items :: "(string \<times> nat \<times> 'v) list"

definition live :: "'v timed \<Rightarrow> (string \<times> nat \<times> 'v) list" where
  "live t = [(k, i, v). (k, i, v) \<leftarrow> t_items t, t_clock t \<le> i + t_life t]"

definition timed_get :: "'v timed \<Rightarrow> string \<Rightarrow> 'v option" where
  "timed_get t k = map_option snd (map_of (live t) k)"

definition timed_pop :: "'v timed \<Rightarrow> string \<Rightarrow> 'v timed" where
  "timed_pop t k = t\<lparr>t_items := filter (\<lambda>e. fst e \<noteq> k) (live t)\<rparr>"

definition timed_setitem :: "'v timed \<Rightarrow> string \<Rightarrow> 'v \<Rightarrow> 'v timed" where
  "timed_setitem t k v =
     t\<lparr>t_items := take (t_size t) ((k, t_clock t, v) # filter (\<lambda>e. fst e \<noteq> k) (live t))\<rparr>"

definition timed_ops :: "('v timed, 'v) ttl_ops" where
  "timed_ops =
     \<lparr>t_get = timed_get, t_setitem = timed_setitem, t_pop = timed_pop,
      t_keys = (\<lambda>t. map fst (live t)), t_clear = (\<lambda>t. t\<lparr>t_items := []\<rparr>)\<rparr>"

lemma live_filter: "live t = filter (\<lambda>(k, i, v). t_clock t \<le> i + t_life t) (t_items t)"
proof -
  have "[(k, i, v). (k, i, v) \<leftarrow> xs, t_clock t \<le> i + t_life t] = filter (\<lambda>(k, i, v). t_clock t \<le> i + t_life t) xs"
    for xs :: "(string \<times> nat \<times> 'a) list"
    by (induction xs) auto
  then show ?thesis by (simp add: live_def)
qed

lemma live_live:
  assumes "set xs \<subseteq> set (live t)"
  shows "live (t\<lparr>t_items := xs\<rparr>) = xs"
  using assms by (auto simp: live_filter filter_id_conv)

lemma map_of_take_le: "map_of (take n xs) \<subseteq>\<^sub>m map_of xs"
proof -
  have "map_of (take n xs) k = Some v \<Longrightarrow> map_of xs k = Some v" for k v
    by (induction xs arbitrary: n) (auto simp: take_Cons split: nat.splits if_splits)
  then show ?thesis by (auto simp: map_le_def dom_def)
qed

lemma map_of_filter_key: "map_of (filter (\<lambda>e. fst e \<noteq> k) xs) = (map_of xs)(k := None)"
  by (induction xs) auto

lemma timed_get_pop: "timed_get (timed_pop t k) = (timed_get t)(k := None)"
proof -
  have "live (timed_pop t k) = filter (\<lambda>e. fst e \<noteq> k) (live t)"
    unfolding timed_pop_def by (rule live_live) auto
  then show ?thesis by (auto simp: timed_get_def map_of_filter_key)
qed

lemma timed_get_setitem: "timed_get (timed_setitem t k v) \<subseteq>\<^sub>m (timed_get t)(k \<mapsto> v)"
proof -
  let ?xs = "(k, t_clock t, v) # filter (\<lambda>e. fst e \<noteq> k) (live t)"
  have "\<forall>(k, i, v)\<in>set ?xs. t_clock t \<le> i + t_life t"
    by (auto simp: live_filter)
  then have "live (timed_setitem t k v) = take (t_size t) ?xs"
    by (force simp: live_filter timed_setitem_def filter_id_conv dest!: in_set_takeD)
  moreover have "map_of (take (t_size t) ?xs) \<subseteq>\<^sub>m map_of ?xs" by (rule map_of_take_le)
  ultimately have "map_of (live (timed_setitem t k v)) \<subseteq>\<^sub>m (map_of (live t))(k \<mapsto> (t_clock t, v))"
    by (simp add: map_of_filter_key)
  then show ?thesis
    unfolding timed_get_def map_le_def by (auto simp: dom_def split: if_splits)
qed

interpretation timed: ttl_cache timed_ops
proof (unfold_locales, goal_cases)
  case (3 t k)
  then show ?case
    by (auto simp: timed_ops_def timed_get_def dest: map_of_SomeD intro: rev_image_eqI)
qed (auto simp: timed_ops_def timed_get_setitem timed_get_pop timed_get_def live_filter)

end
