(* ===== verification/Workspace_Cache.thy ===== *)
theory Workspace_Cache
  imports Store Cache
begin

section \<open>Workspace permissions and their cache (utils/workspace\_cache.py)\<close>

text \<open>
  The permission of a user on a workspace: the four sources in the configured order, each with its
  own error handling (every error of a source counts as \<^verbatim>\<open>None\<close>), and the cache in
  front of them. \<open>re_match\<close> stands for \<^verbatim>\<open>re.match\<close>, which raises on a
  stored pattern that no longer compiles. Logging is not modelled.
\<close>

subsection \<open>Configuration\<close>

record config =
  DEFAULT_MLFLOW_PERMISSION :: string
  PERMISSION_SOURCE_ORDER :: "string list"
  MLFLOW_ENABLE_WORKSPACES :: bool

type_synonym re_match = "string \<Rightarrow> string \<Rightarrow> bool res"

subsection \<open>Sources\<close>

text \<open>
  The loop of \<^verbatim>\<open>_match_workspace_regex_permission\<close>; \<open>best\<close> holds
  \<^verbatim>\<open>best_perm\<close> and \<^verbatim>\<open>best_priority\<close>, which are set together.
\<close>

fun match_workspace_loop ::
  "re_match \<Rightarrow> string \<Rightarrow> (permission \<times> int) option \<Rightarrow> 'z regex_row_scheme list \<Rightarrow> permission option res" where
  "match_workspace_loop re_match ws best [] = Inr (map_option fst best)"
| "match_workspace_loop re_match ws best (r # rs) =
     (if (case best of None \<Rightarrow> False | Some (_, bp) \<Rightarrow> rx_priority r > bp) then Inr (map_option fst best)
      else bindE (re_match (rx_regex r) ws) (\<lambda>hit.
        if hit then
          bindE (get_permission (rx_permission r)) (\<lambda>perm.
          match_workspace_loop re_match ws
            (case best of
               None \<Rightarrow> Some (perm, rx_priority r)
             | Some (bperm, bp) \<Rightarrow> if priority perm > priority bperm then Some (perm, bp) else Some (bperm, bp)) rs)
        else match_workspace_loop re_match ws best rs))"

definition match_workspace_regex_permission ::
  "re_match \<Rightarrow> 'z regex_row_scheme list \<Rightarrow> string \<Rightarrow> permission option res" where
  "match_workspace_regex_permission re_match regexes ws = match_workspace_loop re_match ws None regexes"

definition resolve_user_direct :: "db \<Rightarrow> string \<Rightarrow> string \<Rightarrow> permission option" where
  "resolve_user_direct d uname ws =
     (case bindE (get_workspace_permission d ws uname) (\<lambda>p. get_permission (p_permission p)) of
        Inl _ \<Rightarrow> None | Inr perm \<Rightarrow> Some perm)"

definition resolve_group_direct :: "db \<Rightarrow> string \<Rightarrow> string \<Rightarrow> permission option" where
  "resolve_group_direct d uname ws =
     (case bindE (get_user_groups_workspace_permission d ws uname) (\<lambda>p. get_permission (p_permission p)) of
        Inl _ \<Rightarrow> None | Inr perm \<Rightarrow> Some perm)"

definition resolve_user_regex :: "re_match \<Rightarrow> db \<Rightarrow> string \<Rightarrow> string \<Rightarrow> permission option" where
  "resolve_user_regex re_match d uname ws =
     (let regexes = list_workspace_regex_permissions d uname
      in if regexes = [] then None
         else case match_workspace_regex_permission re_match regexes ws of Inl _ \<Rightarrow> None | Inr r \<Rightarrow> r)"

definition resolve_group_regex :: "re_match \<Rightarrow> db \<Rightarrow> string \<Rightarrow> string \<Rightarrow> permission option" where
  "resolve_group_regex re_match d uname ws =
     (let group_ids = get_groups_ids_for_user d uname
      in if group_ids = [] then None
         else let regexes = list_workspace_group_regex_permissions_for_groups_ids d group_ids
              in if regexes = [] then None
                 else case match_workspace_regex_permission re_match regexes ws of Inl _ \<Rightarrow> None | Inr r \<Rightarrow> r)"

definition workspace_sources ::
  "re_match \<Rightarrow> db \<Rightarrow> string \<Rightarrow> string \<Rightarrow> (string \<times> (unit \<Rightarrow> permission option)) list" where
  "workspace_sources re_match d uname ws =
     [(''user'', \<lambda>_. resolve_user_direct d uname ws),
      (''group'', \<lambda>_. resolve_group_direct d uname ws),
      (''regex'', \<lambda>_. resolve_user_regex re_match d uname ws),
      (''group-regex'', \<lambda>_. resolve_group_regex re_match d uname ws)]"

fun first_workspace_source :: "(string \<times> (unit \<Rightarrow> permission option)) list \<Rightarrow> string list \<Rightarrow> permission option" where
  "first_workspace_source srcs [] = None"
| "first_workspace_source srcs (s # ss) =
     (case map_of srcs s of
        None \<Rightarrow> first_workspace_source srcs ss
      | Some resolver \<Rightarrow>
          (case resolver () of None \<Rightarrow> first_workspace_source srcs ss | Some perm \<Rightarrow> Some perm))"

definition lookup_workspace_permission :: "config \<Rightarrow> re_match \<Rightarrow> db \<Rightarrow> string \<Rightarrow> string \<Rightarrow> permission option" where
  "lookup_workspace_permission cfg re_match d uname ws =
     first_workspace_source (workspace_sources re_match d uname ws) (PERMISSION_SOURCE_ORDER cfg)"

subsection \<open>The cache\<close>

definition workspace_cache_key :: "string \<Rightarrow> string \<Rightarrow> string" where
  "workspace_cache_key uname ws = uname @ '':'' @ ws"

definition get_workspace_permission_cached ::
  "config \<Rightarrow> ('c, permission) cache_ops \<Rightarrow> re_match \<Rightarrow> db \<Rightarrow> 'c \<Rightarrow> string \<Rightarrow> string \<Rightarrow> permission option \<times> 'c" where
  "get_workspace_permission_cached cfg wc re_match d c uname ws =
     (if \<not> MLFLOW_ENABLE_WORKSPACES cfg then (None, c)
      else let key = workspace_cache_key uname ws
           in case c_get wc c key of
                Some perm \<Rightarrow> (Some perm, c)
              | None \<Rightarrow>
                  (case lookup_workspace_permission cfg re_match d uname ws of
                     None \<Rightarrow> (None, c)
                   | Some perm \<Rightarrow> (Some perm, c_set wc c key perm)))"

definition invalidate_workspace_permission :: "('c, permission) cache_ops \<Rightarrow> 'c \<Rightarrow> string \<Rightarrow> string \<Rightarrow> 'c" where
  "invalidate_workspace_permission wc c uname ws = c_delete wc c (workspace_cache_key uname ws)"

definition invalidate_user_workspace_entries :: "config \<Rightarrow> ('c, permission) cache_ops \<Rightarrow> 'c \<Rightarrow> string \<Rightarrow> 'c" where
  "invalidate_user_workspace_entries cfg wc c uname =
     (if \<not> MLFLOW_ENABLE_WORKSPACES cfg then c else c_delete_prefix wc c (uname @ '':''))"

definition flush_workspace_cache :: "('c, permission) cache_ops \<Rightarrow> 'c \<Rightarrow> 'c" where
  "flush_workspace_cache wc c = c_clear wc c"

definition invalidate_group_workspace_permission ::
  "config \<Rightarrow> ('c, permission) cache_ops \<Rightarrow> db \<Rightarrow> 'c \<Rightarrow> string \<Rightarrow> string \<Rightarrow> 'c" where
  "invalidate_group_workspace_permission cfg wc d c gname ws =
     (if \<not> MLFLOW_ENABLE_WORKSPACES cfg then c
      else case get_group_users d gname of
             Inl _ \<Rightarrow> flush_workspace_cache wc c
           | Inr members \<Rightarrow> fold (\<lambda>u c. c_delete wc c (workspace_cache_key (u_username u) ws)) members c)"

subsection \<open>Keys\<close>

text \<open>A workspace name holds no colon, so the key determines the user and the workspace.\<close>

lemma append_colon_inj:
  assumes "CHR '':'' \<notin> set b" and "CHR '':'' \<notin> set b'" and "a @ '':'' @ b = a' @ '':'' @ b'"
  shows "a = a' \<and> b = b'"
proof -
  have "takeWhile (\<lambda>c. c \<noteq> CHR '':'') (rev (x @ '':'' @ y)) = rev y" if "CHR '':'' \<notin> set y" for x y
    using that by (auto simp: takeWhile_append takeWhile_eq_all_conv)
  from this [OF assms(1), of a] this [OF assms(2), of a'] assms(3) have "rev b = rev b'" by metis
  with assms(3) show ?thesis by simp
qed

lemma workspace_cache_key_inj:
  "CHR '':'' \<notin> set ws \<Longrightarrow> CHR '':'' \<notin> set ws' \<Longrightarrow>
   workspace_cache_key uname ws = workspace_cache_key uname' ws' \<longleftrightarrow> uname = uname' \<and> ws = ws'"
  unfolding workspace_cache_key_def using append_colon_inj by blast

lemma workspace_cache_key_prefix [simp]: "py_startswith (workspace_cache_key uname ws) (uname @ '':'')"
  by (simp add: workspace_cache_key_def prefix_def)

subsection \<open>First match in the configured order\<close>

definition source_value :: "(string \<times> (unit \<Rightarrow> permission option)) list \<Rightarrow> string \<Rightarrow> permission option" where
  "source_value srcs s = Option.bind (map_of srcs s) (\<lambda>f. f ())"

lemma first_workspace_source_find:
  "first_workspace_source srcs order =
     Option.bind (List.find (\<lambda>s. source_value srcs s \<noteq> None) order) (source_value srcs)"
  by (induction order) (auto simp: source_value_def split: option.splits)

subsection \<open>The patterns of the first matching tier\<close>

text \<open>
  Over rows sorted by priority, with valid permission names and patterns that match without error,
  the loop reports a permission of greatest priority among the matching rows of the first matching
  tier.
\<close>

definition first_tier :: "('z regex_row_scheme \<Rightarrow> bool) \<Rightarrow> 'z regex_row_scheme list \<Rightarrow> 'z regex_row_scheme list" where
  "first_tier hit rows = [r. r \<leftarrow> rows, hit r \<and> (\<forall>q\<in>set rows. hit q \<longrightarrow> rx_priority r \<le> rx_priority q)]"

lemma match_workspace_loop_best:
  assumes "sorted (map rx_priority rows)" and "\<forall>r\<in>set rows. valid_permission (rx_permission r)"
    and "\<forall>r\<in>set rows. re_match (rx_regex r) ws = Inr (hit r)"
    and "\<forall>r\<in>set rows. bp \<le> rx_priority r"
  shows "\<exists>p. match_workspace_loop re_match ws (Some (bperm, bp)) rows = Inr (Some p) \<and>
    (p = bperm \<or> (\<exists>r\<in>set rows. hit r \<and> rx_priority r = bp \<and> get_permission (rx_permission r) = Inr p)) \<and>
    priority bperm \<le> priority p \<and>
    (\<forall>r\<in>set rows. hit r \<and> rx_priority r = bp \<longrightarrow> prio (rx_permission r) \<le> priority p)"
  using assms
proof (induction rows arbitrary: bperm)
  case Nil
  then show ?case by simp
next
  case (Cons r rs)
  show ?case
  proof (cases "rx_priority r > bp")
    case True
    with Cons.prems(1) have "\<forall>q\<in>set (r # rs). rx_priority q \<noteq> bp" by auto
    with True show ?thesis by auto
  next
    case False
    with Cons.prems(4) have eq: "rx_priority r = bp" by auto
    have IH: "\<exists>p. match_workspace_loop re_match ws (Some (b, bp)) rs = Inr (Some p) \<and>
      (p = b \<or> (\<exists>r\<in>set rs. hit r \<and> rx_priority r = bp \<and> get_permission (rx_permission r) = Inr p)) \<and>
      priority b \<le> priority p \<and>
      (\<forall>r\<in>set rs. hit r \<and> rx_priority r = bp \<longrightarrow> prio (rx_permission r) \<le> priority p)" for b
      using Cons.prems by (intro Cons.IH) auto
    obtain perm where perm: "get_permission (rx_permission r) = Inr perm" "priority perm = prio (rx_permission r)"
      using Cons.prems(2) get_permission_valid get_permission_InrD(3) by (metis list.set_intros(1))
    show ?thesis
    proof (cases "hit r \<and> priority perm > priority bperm")
      case True
      then have "match_workspace_loop re_match ws (Some (bperm, bp)) (r # rs) =
          match_workspace_loop re_match ws (Some (perm, bp)) rs"
        using Cons.prems(3) eq perm by simp
      moreover obtain p where p: "match_workspace_loop re_match ws (Some (perm, bp)) rs = Inr (Some p)"
        "p = perm \<or> (\<exists>r\<in>set rs. hit r \<and> rx_priority r = bp \<and> get_permission (rx_permission r) = Inr p)"
        "priority perm \<le> priority p"
        "\<forall>r\<in>set rs. hit r \<and> rx_priority r = bp \<longrightarrow> prio (rx_permission r) \<le> priority p"
        using IH [of perm] by blast
      ultimately show ?thesis
        using perm eq True by (intro exI [of _ p] conjI) (simp, force, simp, simp)
    next
      case no: False
      then have "match_workspace_loop re_match ws (Some (bperm, bp)) (r # rs) =
          match_workspace_loop re_match ws (Some (bperm, bp)) rs"
        using Cons.prems(3) eq perm by auto
      moreover obtain p where p: "match_workspace_loop re_match ws (Some (bperm, bp)) rs = Inr (Some p)"
        "p = bperm \<or> (\<exists>r\<in>set rs. hit r \<and> rx_priority r = bp \<and> get_permission (rx_permission r) = Inr p)"
        "priority bperm \<le> priority p"
        "\<forall>r\<in>set rs. hit r \<and> rx_priority r = bp \<longrightarrow> prio (rx_permission r) \<le> priority p"
        using IH [of bperm] by blast
      ultimately show ?thesis
        using perm eq no by (intro exI [of _ p] conjI) (simp, force, simp, auto)
    qed
  qed
qed

lemma match_workspace_regex_tier:
  assumes "sorted (map rx_priority rows)" and "\<forall>r\<in>set rows. valid_permission (rx_permission r)"
    and "\<forall>r\<in>set rows. re_match (rx_regex r) ws = Inr (hit r)"
  shows "if first_tier hit rows = [] then match_workspace_regex_permission re_match rows ws = Inr None
    else \<exists>p. match_workspace_regex_permission re_match rows ws = Inr (Some p) \<and>
        (\<exists>r\<in>set (first_tier hit rows). get_permission (rx_permission r) = Inr p) \<and>
        (\<forall>r\<in>set (first_tier hit rows). prio (rx_permission r) \<le> priority p)"
  using assms unfolding match_workspace_regex_permission_def
proof (induction rows)
  case Nil
  then show ?case by (simp add: first_tier_def)
next
  case (Cons r rs)
  show ?case
  proof (cases "hit r")
    case True
    obtain perm where perm: "get_permission (rx_permission r) = Inr perm" "priority perm = prio (rx_permission r)"
      using Cons.prems(2) get_permission_valid get_permission_InrD(3) by (metis list.set_intros(1))
    have tier: "q \<in> set (first_tier hit (r # rs)) \<longleftrightarrow> q \<in> set (r # rs) \<and> hit q \<and> rx_priority q = rx_priority r" for q
      using True Cons.prems(1) by (fastforce simp: first_tier_def)
    then have "first_tier hit (r # rs) \<noteq> []" using True by (metis list.set_intros(1) empty_iff list.set(1))
    moreover have "match_workspace_loop re_match ws None (r # rs) =
        match_workspace_loop re_match ws (Some (perm, rx_priority r)) rs"
      using True perm Cons.prems(3) by simp
    moreover obtain p where "match_workspace_loop re_match ws (Some (perm, rx_priority r)) rs = Inr (Some p)"
      and p: "p = perm \<or> (\<exists>q\<in>set rs. hit q \<and> rx_priority q = rx_priority r \<and> get_permission (rx_permission q) = Inr p)"
        "priority perm \<le> priority p"
        "\<forall>q\<in>set rs. hit q \<and> rx_priority q = rx_priority r \<longrightarrow> prio (rx_permission q) \<le> priority p"
      using match_workspace_loop_best [of rs re_match ws hit "rx_priority r" perm] Cons.prems by auto
    moreover have "\<exists>q\<in>set (first_tier hit (r # rs)). get_permission (rx_permission q) = Inr p"
      using p(1) perm True by (auto simp: tier Bex_def)
    moreover have "\<forall>q\<in>set (first_tier hit (r # rs)). prio (rx_permission q) \<le> priority p"
      using p(2,3) perm by (auto simp: tier)
    ultimately show ?thesis by (simp only: if_False) metis
  next
    case False
    then have "first_tier hit (r # rs) = first_tier hit rs" by (simp add: first_tier_def)
    with False Cons show ?thesis by simp
  qed
qed

end
