(* ===== verification/Resolver.thy ===== *)
theory Resolver
  imports Workspace_Cache
begin

section \<open>Permission resolution (utils/permissions.py)\<close>

text \<open>
  One entry point, \<^verbatim>\<open>resolve_permission\<close>, for the seven resource types: a
  registry of builders gives each type its four sources, the sources are tried in the configured
  order, a miss falls back to the configured default and then to the workspace, and the decision is
  cached. The state is the database, the two caches and the process-wide counters. Parameters are
  \<^verbatim>\<open>re.match\<close>, the tracking store's experiment names and the workspace of the
  request.
\<close>

subsection \<open>State and environment\<close>

record permission_result =
  pr_permission :: permission
  kind :: string

record ('c, 'w) env =
  e_config :: config
  e_re_match :: re_match
  e_experiment_name :: "string \<Rightarrow> string res"
  e_workspace :: "string option"
  e_pc :: "('c, permission_result) cache_ops"
  e_wc :: "('w, permission) cache_ops"

record ('c, 'w) app =
  a_db :: db
  a_pc :: 'c
  a_wc :: 'w
  a_counts :: "string \<rightharpoonup> nat"
  a_samples :: "string \<rightharpoonup> string list"

abbreviation EXPERIMENT :: string where "EXPERIMENT \<equiv> ''experiment''"
abbreviation REGISTERED_MODEL :: string where "REGISTERED_MODEL \<equiv> ''registered_model''"
abbreviation PROMPT :: string where "PROMPT \<equiv> ''prompt''"
abbreviation SCORER :: string where "SCORER \<equiv> ''scorer''"
abbreviation GATEWAY_ENDPOINT :: string where "GATEWAY_ENDPOINT \<equiv> ''gateway_endpoint''"
abbreviation GATEWAY_SECRET :: string where "GATEWAY_SECRET \<equiv> ''gateway_secret''"
abbreviation GATEWAY_MODEL_DEFINITION :: string where "GATEWAY_MODEL_DEFINITION \<equiv> ''gateway_model_definition''"

subsection \<open>Cache keys\<close>

definition NO_WORKSPACE_CACHE_MARKER :: string where
  "NO_WORKSPACE_CACHE_MARKER = ''::no-workspace''"

text \<open>\<^verbatim>\<open>get_request_workspace() or _NO_WORKSPACE_CACHE_MARKER\<close>: an absent and an empty name are both false.\<close>

definition get_cache_workspace :: "config \<Rightarrow> string option \<Rightarrow> string option" where
  "get_cache_workspace cfg ws =
     (if \<not> MLFLOW_ENABLE_WORKSPACES cfg then None
      else case ws of
             None \<Rightarrow> Some NO_WORKSPACE_CACHE_MARKER
           | Some w \<Rightarrow> Some (if w = [] then NO_WORKSPACE_CACHE_MARKER else w))"

definition make_cache_key :: "string \<Rightarrow> string \<Rightarrow> string \<Rightarrow> string option \<Rightarrow> string" where
  "make_cache_key rtype rid uname ws =
     (case ws of
        Some w \<Rightarrow> w @ '':'' @ rtype @ '':'' @ rid @ '':'' @ uname
      | None \<Rightarrow> rtype @ '':'' @ rid @ '':'' @ uname)"

definition invalidate_permission_cache ::
  "('c, 'w) env \<Rightarrow> ('c, 'w) app \<Rightarrow> string \<Rightarrow> string \<Rightarrow> string \<Rightarrow> string option \<Rightarrow> ('c, 'w) app" where
  "invalidate_permission_cache env s rtype rid uname ws =
     s\<lparr>a_pc := c_delete (e_pc env) (a_pc s) (make_cache_key rtype rid uname
        (case ws of None \<Rightarrow> get_cache_workspace (e_config env) (e_workspace env) | Some w \<Rightarrow> Some w))\<rparr>"

definition flush_permission_cache :: "('c, 'w) env \<Rightarrow> ('c, 'w) app \<Rightarrow> ('c, 'w) app" where
  "flush_permission_cache env s = s\<lparr>a_pc := c_clear (e_pc env) (a_pc s)\<rparr>"

subsection \<open>Matching a name against patterns\<close>

fun match_regex_permission :: "re_match \<Rightarrow> 'z regex_row_scheme list \<Rightarrow> string \<Rightarrow> string res" where
  "match_regex_permission re_match [] nm = Inl (MlflowException RESOURCE_DOES_NOT_EXIST)"
| "match_regex_permission re_match (r # rs) nm =
     bindE (re_match (rx_regex r) nm) (\<lambda>hit.
     if hit then Inr (rx_permission r) else match_regex_permission re_match rs nm)"

definition get_experiment_permission_from_regex ::
  "('c, 'w) env \<Rightarrow> 'z regex_row_scheme list \<Rightarrow> string \<Rightarrow> string res" where
  "get_experiment_permission_from_regex env regexes eid =
     bindE (e_experiment_name env eid) (\<lambda>nm. match_regex_permission (e_re_match env) regexes nm)"

definition get_experiment_group_permission_from_regex ::
  "('c, 'w) env \<Rightarrow> 'z regex_row_scheme list \<Rightarrow> string \<Rightarrow> string res" where
  "get_experiment_group_permission_from_regex env regexes eid =
     bindE (e_experiment_name env eid) (\<lambda>nm. match_regex_permission (e_re_match env) regexes nm)"

subsection \<open>Builders\<close>

type_synonym sources = "(string \<times> (unit \<Rightarrow> string res)) list"

abbreviation perm_of :: "('r, 'z) perm_row_scheme res \<Rightarrow> string res" where
  "perm_of r \<equiv> bindE r (\<lambda>p. Inr (p_permission p))"

definition build_experiment_sources :: "('c, 'w) env \<Rightarrow> db \<Rightarrow> string \<Rightarrow> string \<Rightarrow> sources" where
  "build_experiment_sources env d eid uname =
     [(''user'', \<lambda>_. perm_of (get_experiment_permission d eid uname)),
      (''group'', \<lambda>_. perm_of (get_user_groups_experiment_permission d eid uname)),
      (''regex'', \<lambda>_. get_experiment_permission_from_regex env (list_experiment_regex_permissions d uname) eid),
      (''group-regex'', \<lambda>_. get_experiment_group_permission_from_regex env
         (list_group_experiment_regex_permissions_for_groups_ids d (get_groups_ids_for_user d uname)) eid)]"

definition build_registered_model_sources :: "('c, 'w) env \<Rightarrow> db \<Rightarrow> string \<Rightarrow> string \<Rightarrow> sources" where
  "build_registered_model_sources env d nm uname =
     [(''user'', \<lambda>_. perm_of (get_registered_model_permission d nm uname)),
      (''group'', \<lambda>_. perm_of (get_user_groups_registered_model_permission d nm uname)),
      (''regex'', \<lambda>_. bindE (list_registered_model_regex_permissions d uname) (\<lambda>rs.
         match_regex_permission (e_re_match env) rs nm)),
      (''group-regex'', \<lambda>_. match_regex_permission (e_re_match env)
         (list_group_registered_model_regex_permissions_for_groups_ids d (get_groups_ids_for_user d uname)) nm)]"

definition build_prompt_sources :: "('c, 'w) env \<Rightarrow> db \<Rightarrow> string \<Rightarrow> string \<Rightarrow> sources" where
  "build_prompt_sources env d nm uname =
     [(''user'', \<lambda>_. perm_of (get_registered_model_permission d nm uname)),
      (''group'', \<lambda>_. perm_of (get_user_groups_registered_model_permission d nm uname)),
      (''regex'', \<lambda>_. bindE (list_prompt_regex_permissions d uname True) (\<lambda>rs.
         match_regex_permission (e_re_match env) rs nm)),
      (''group-regex'', \<lambda>_. match_regex_permission (e_re_match env)
         (list_group_prompt_regex_permissions_for_groups_ids d (get_groups_ids_for_user d uname) True) nm)]"

definition build_scorer_sources :: "('c, 'w) env \<Rightarrow> db \<Rightarrow> string \<Rightarrow> string \<Rightarrow> string \<Rightarrow> sources" where
  "build_scorer_sources env d eid sn uname =
     [(''user'', \<lambda>_. perm_of (get_scorer_permission d eid sn uname)),
      (''group'', \<lambda>_. perm_of (get_user_groups_scorer_permission d eid sn uname)),
      (''regex'', \<lambda>_. match_regex_permission (e_re_match env) (list_scorer_regex_permissions d uname) sn),
      (''group-regex'', \<lambda>_. match_regex_permission (e_re_match env)
         (list_group_scorer_regex_permissions_for_groups_ids d (get_groups_ids_for_user d uname)) sn)]"

text \<open>
  The gateway builders pass the user name to a store method whose second parameter is a group name.
\<close>

definition build_gateway_endpoint_sources :: "('c, 'w) env \<Rightarrow> db \<Rightarrow> string \<Rightarrow> string \<Rightarrow> sources" where
  "build_gateway_endpoint_sources env d nm uname =
     [(''user'', \<lambda>_. perm_of (get_gateway_endpoint_permission d nm uname)),
      (''group'', \<lambda>_. perm_of (get_user_groups_gateway_endpoint_permission d nm uname)),
      (''regex'', \<lambda>_. match_regex_permission (e_re_match env) (list_gateway_endpoint_regex_permissions d uname) nm),
      (''group-regex'', \<lambda>_. match_regex_permission (e_re_match env)
         (list_group_gateway_endpoint_regex_permissions_for_groups_ids d (get_groups_ids_for_user d uname)) nm)]"

definition build_gateway_secret_sources :: "('c, 'w) env \<Rightarrow> db \<Rightarrow> string \<Rightarrow> string \<Rightarrow> sources" where
  "build_gateway_secret_sources env d nm uname =
     [(''user'', \<lambda>_. perm_of (get_gateway_secret_permission d nm uname)),
      (''group'', \<lambda>_. perm_of (get_user_groups_gateway_secret_permission d nm uname)),
      (''regex'', \<lambda>_. match_regex_permission (e_re_match env) (list_gateway_secret_regex_permissions d uname) nm),
      (''group-regex'', \<lambda>_. match_regex_permission (e_re_match env)
         (list_group_gateway_secret_regex_permissions_for_groups_ids d (get_groups_ids_for_user d uname)) nm)]"

definition build_gateway_model_definition_sources :: "('c, 'w) env \<Rightarrow> db \<Rightarrow> string \<Rightarrow> string \<Rightarrow> sources" where
  "build_gateway_model_definition_sources env d nm uname =
     [(''user'', \<lambda>_. perm_of (get_gateway_model_definition_permission d nm uname)),
      (''group'', \<lambda>_. perm_of (get_user_groups_gateway_model_definition_permission d nm uname)),
      (''regex'', \<lambda>_. match_regex_permission (e_re_match env) (list_gateway_model_definition_regex_permissions d uname) nm),
      (''group-regex'', \<lambda>_. match_regex_permission (e_re_match env)
         (list_group_gateway_model_definition_regex_permissions_for_groups_ids d (get_groups_ids_for_user d uname)) nm)]"

text \<open>
  The registry. The keyword \<^verbatim>\<open>scorer_name\<close> is read by the scorer builder only,
  which raises without it.
\<close>

definition PERMISSION_REGISTRY ::
  "(string \<times> (('c, 'w) env \<Rightarrow> db \<Rightarrow> string \<Rightarrow> string \<Rightarrow> string option \<Rightarrow> sources res)) list" where
  "PERMISSION_REGISTRY =
     [(EXPERIMENT, \<lambda>env d rid uname kw. Inr (build_experiment_sources env d rid uname)),
      (REGISTERED_MODEL, \<lambda>env d rid uname kw. Inr (build_registered_model_sources env d rid uname)),
      (PROMPT, \<lambda>env d rid uname kw. Inr (build_prompt_sources env d rid uname)),
      (SCORER, \<lambda>env d rid uname kw.
         (case kw of None \<Rightarrow> Inl KeyError | Some sn \<Rightarrow> Inr (build_scorer_sources env d rid sn uname))),
      (GATEWAY_ENDPOINT, \<lambda>env d rid uname kw. Inr (build_gateway_endpoint_sources env d rid uname)),
      (GATEWAY_SECRET, \<lambda>env d rid uname kw. Inr (build_gateway_secret_sources env d rid uname)),
      (GATEWAY_MODEL_DEFINITION, \<lambda>env d rid uname kw. Inr (build_gateway_model_definition_sources env d rid uname))]"

subsection \<open>The core resolution loop\<close>

fun permission_from_sources :: "sources \<Rightarrow> string \<Rightarrow> string list \<Rightarrow> permission_result res" where
  "permission_from_sources srcs dflt [] =
     bindE (get_permission dflt) (\<lambda>p. Inr \<lparr>pr_permission = p, kind = ''fallback''\<rparr>)"
| "permission_from_sources srcs dflt (s # ss) =
     (case map_of srcs s of
        None \<Rightarrow> permission_from_sources srcs dflt ss
      | Some f \<Rightarrow>
          (case bindE (f ()) get_permission of
             Inr p \<Rightarrow> Inr \<lparr>pr_permission = p, kind = s\<rparr>
           | Inl e \<Rightarrow>
               if e = MlflowException RESOURCE_DOES_NOT_EXIST then permission_from_sources srcs dflt ss else Inl e))"

definition get_permission_from_store_or_default :: "config \<Rightarrow> sources \<Rightarrow> permission_result res" where
  "get_permission_from_store_or_default cfg srcs =
     permission_from_sources srcs (DEFAULT_MLFLOW_PERMISSION cfg) (PERMISSION_SOURCE_ORDER cfg)"

subsection \<open>Workspace fallback\<close>

definition apply_workspace_fallback ::
  "('c, 'w) env \<Rightarrow> db \<Rightarrow> 'w \<Rightarrow> permission_result \<Rightarrow> string \<Rightarrow> permission_result \<times> 'w" where
  "apply_workspace_fallback env d w result uname =
     (if kind result \<noteq> ''fallback'' \<or> \<not> MLFLOW_ENABLE_WORKSPACES (e_config env) then (result, w)
      else case e_workspace env of
             None \<Rightarrow> (result, w)
           | Some ws \<Rightarrow>
               if ws = [] then (result, w)
               else let (ws_perm, w') = get_workspace_permission_cached (e_config env) (e_wc env) (e_re_match env) d w uname ws
                    in case ws_perm of
                         Some p \<Rightarrow> (\<lparr>pr_permission = p, kind = ''workspace''\<rparr>, w')
                       | None \<Rightarrow> (\<lparr>pr_permission = NO_PERMISSIONS, kind = ''workspace-deny''\<rparr>, w'))"

subsection \<open>Counting fallbacks\<close>

definition FALLBACK_SAMPLE_LIMIT :: nat where
  "FALLBACK_SAMPLE_LIMIT = 50"

definition FALLBACK_WARN_EVERY :: nat where
  "FALLBACK_WARN_EVERY = 10000"

definition get_permission_fallback_counts :: "('c, 'w) app \<Rightarrow> string \<rightharpoonup> nat" where
  "get_permission_fallback_counts s = a_counts s"

definition get_permission_fallback_samples :: "('c, 'w) app \<Rightarrow> string \<rightharpoonup> string list" where
  "get_permission_fallback_samples s = a_samples s"

definition reset_permission_fallback_counts :: "('c, 'w) app \<Rightarrow> ('c, 'w) app" where
  "reset_permission_fallback_counts s = s\<lparr>a_counts := Map.empty, a_samples := Map.empty\<rparr>"

text \<open>The second component says whether the occurrence is logged as a warning.\<close>

definition record_permission_fallback ::
  "('c, 'w) app \<Rightarrow> string \<Rightarrow> string \<Rightarrow> permission \<Rightarrow> ('c, 'w) app \<times> bool" where
  "record_permission_fallback s rtype rid perm =
     (let count = (case a_counts s rtype of None \<Rightarrow> 0 | Some n \<Rightarrow> n) + 1;
          samples = (case a_samples s rtype of None \<Rightarrow> [] | Some xs \<Rightarrow> xs);
          samples' = (if length samples < FALLBACK_SAMPLE_LIMIT \<and> rid \<notin> set samples then samples @ [rid] else samples)
      in (s\<lparr>a_counts := (a_counts s)(rtype \<mapsto> count), a_samples := (a_samples s)(rtype \<mapsto> samples')\<rparr>,
          can_read perm \<and> (count \<in> {1, 10, 100, 1000} \<or> count mod FALLBACK_WARN_EVERY = 0)))"

subsection \<open>The entry point\<close>

definition resolve_permission ::
  "('c, 'w) env \<Rightarrow> ('c, 'w) app \<Rightarrow> string \<Rightarrow> string \<Rightarrow> string \<Rightarrow> string option \<Rightarrow>
   permission_result res \<times> ('c, 'w) app" where
  "resolve_permission env s rtype rid uname kw =
     (let key = make_cache_key rtype rid uname (get_cache_workspace (e_config env) (e_workspace env))
      in case c_get (e_pc env) (a_pc s) key of
           Some result \<Rightarrow> (Inr result, s)
         | None \<Rightarrow>
             (case map_of PERMISSION_REGISTRY rtype of
                None \<Rightarrow> (Inl KeyError, s)
              | Some builder \<Rightarrow>
                  (case bindE (builder env (a_db s) rid uname kw) (get_permission_from_store_or_default (e_config env)) of
                     Inl e \<Rightarrow> (Inl e, s)
                   | Inr r \<Rightarrow>
                       (let (result, w) = apply_workspace_fallback env (a_db s) (a_wc s) r uname;
                            s1 = s\<lparr>a_wc := w\<rparr>;
                            s2 = (if kind result = ''fallback''
                                  then fst (record_permission_fallback s1 rtype rid (pr_permission result)) else s1)
                        in (Inr result, s2\<lparr>a_pc := c_set (e_pc env) (a_pc s2) key result\<rparr>)))))"

subsection \<open>The public wrappers\<close>

definition effective_experiment_permission ::
  "('c, 'w) env \<Rightarrow> ('c, 'w) app \<Rightarrow> string \<Rightarrow> string \<Rightarrow> permission_result res \<times> ('c, 'w) app" where
  "effective_experiment_permission env s eid uname = resolve_permission env s EXPERIMENT eid uname None"

definition effective_registered_model_permission ::
  "('c, 'w) env \<Rightarrow> ('c, 'w) app \<Rightarrow> string \<Rightarrow> string \<Rightarrow> permission_result res \<times> ('c, 'w) app" where
  "effective_registered_model_permission env s nm uname = resolve_permission env s REGISTERED_MODEL nm uname None"

definition effective_prompt_permission ::
  "('c, 'w) env \<Rightarrow> ('c, 'w) app \<Rightarrow> string \<Rightarrow> string \<Rightarrow> permission_result res \<times> ('c, 'w) app" where
  "effective_prompt_permission env s nm uname = resolve_permission env s PROMPT nm uname None"

definition effective_scorer_permission ::
  "('c, 'w) env \<Rightarrow> ('c, 'w) app \<Rightarrow> string \<Rightarrow> string \<Rightarrow> string \<Rightarrow> permission_result res \<times> ('c, 'w) app" where
  "effective_scorer_permission env s eid sn uname = resolve_permission env s SCORER eid uname (Some sn)"

definition effective_gateway_endpoint_permission ::
  "('c, 'w) env \<Rightarrow> ('c, 'w) app \<Rightarrow> string \<Rightarrow> string \<Rightarrow> permission_result res \<times> ('c, 'w) app" where
  "effective_gateway_endpoint_permission env s nm uname = resolve_permission env s GATEWAY_ENDPOINT nm uname None"

definition effective_gateway_secret_permission ::
  "('c, 'w) env \<Rightarrow> ('c, 'w) app \<Rightarrow> string \<Rightarrow> string \<Rightarrow> permission_result res \<times> ('c, 'w) app" where
  "effective_gateway_secret_permission env s nm uname = resolve_permission env s GATEWAY_SECRET nm uname None"

definition effective_gateway_model_definition_permission ::
  "('c, 'w) env \<Rightarrow> ('c, 'w) app \<Rightarrow> string \<Rightarrow> string \<Rightarrow> permission_result res \<times> ('c, 'w) app" where
  "effective_gateway_model_definition_permission env s nm uname = resolve_permission env s GATEWAY_MODEL_DEFINITION nm uname None"

text \<open>One flag of the effective permission.\<close>

definition flag_of ::
  "(permission \<Rightarrow> bool) \<Rightarrow> permission_result res \<times> ('c, 'w) app \<Rightarrow> bool res \<times> ('c, 'w) app" where
  "flag_of f = (\<lambda>(r, s). (bindE r (\<lambda>x. Inr (f (pr_permission x))), s))"

definition can_read_experiment :: "('c, 'w) env \<Rightarrow> ('c, 'w) app \<Rightarrow> string \<Rightarrow> string \<Rightarrow> bool res \<times> ('c, 'w) app" where
  "can_read_experiment env s eid uname = flag_of can_read (effective_experiment_permission env s eid uname)"

definition can_read_registered_model :: "('c, 'w) env \<Rightarrow> ('c, 'w) app \<Rightarrow> string \<Rightarrow> string \<Rightarrow> bool res \<times> ('c, 'w) app" where
  "can_read_registered_model env s nm uname = flag_of can_read (effective_registered_model_permission env s nm uname)"

definition can_manage_experiment :: "('c, 'w) env \<Rightarrow> ('c, 'w) app \<Rightarrow> string \<Rightarrow> string \<Rightarrow> bool res \<times> ('c, 'w) app" where
  "can_manage_experiment env s eid uname = flag_of can_manage (effective_experiment_permission env s eid uname)"

definition can_manage_registered_model :: "('c, 'w) env \<Rightarrow> ('c, 'w) app \<Rightarrow> string \<Rightarrow> string \<Rightarrow> bool res \<times> ('c, 'w) app" where
  "can_manage_registered_model env s nm uname = flag_of can_manage (effective_registered_model_permission env s nm uname)"

definition can_read_gateway_endpoint :: "('c, 'w) env \<Rightarrow> ('c, 'w) app \<Rightarrow> string \<Rightarrow> string \<Rightarrow> bool res \<times> ('c, 'w) app" where
  "can_read_gateway_endpoint env s nm uname = flag_of can_read (effective_gateway_endpoint_permission env s nm uname)"

definition can_use_gateway_endpoint :: "('c, 'w) env \<Rightarrow> ('c, 'w) app \<Rightarrow> string \<Rightarrow> string \<Rightarrow> bool res \<times> ('c, 'w) app" where
  "can_use_gateway_endpoint env s nm uname = flag_of can_use (effective_gateway_endpoint_permission env s nm uname)"

definition can_update_gateway_endpoint :: "('c, 'w) env \<Rightarrow> ('c, 'w) app \<Rightarrow> string \<Rightarrow> string \<Rightarrow> bool res \<times> ('c, 'w) app" where
  "can_update_gateway_endpoint env s nm uname = flag_of can_update (effective_gateway_endpoint_permission env s nm uname)"

definition can_manage_gateway_endpoint :: "('c, 'w) env \<Rightarrow> ('c, 'w) app \<Rightarrow> string \<Rightarrow> string \<Rightarrow> bool res \<times> ('c, 'w) app" where
  "can_manage_gateway_endpoint env s nm uname = flag_of can_manage (effective_gateway_endpoint_permission env s nm uname)"

definition can_read_gateway_secret :: "('c, 'w) env \<Rightarrow> ('c, 'w) app \<Rightarrow> string \<Rightarrow> string \<Rightarrow> bool res \<times> ('c, 'w) app" where
  "can_read_gateway_secret env s nm uname = flag_of can_read (effective_gateway_secret_permission env s nm uname)"

definition can_use_gateway_secret :: "('c, 'w) env \<Rightarrow> ('c, 'w) app \<Rightarrow> string \<Rightarrow> string \<Rightarrow> bool res \<times> ('c, 'w) app" where
  "can_use_gateway_secret env s nm uname = flag_of can_use (effective_gateway_secret_permission env s nm uname)"

definition can_update_gateway_secret :: "('c, 'w) env \<Rightarrow> ('c, 'w) app \<Rightarrow> string \<Rightarrow> string \<Rightarrow> bool res \<times> ('c, 'w) app" where
  "can_update_gateway_secret env s nm uname = flag_of can_update (effective_gateway_secret_permission env s nm uname)"

definition can_manage_gateway_secret :: "('c, 'w) env \<Rightarrow> ('c, 'w) app \<Rightarrow> string \<Rightarrow> string \<Rightarrow> bool res \<times> ('c, 'w) app" where
  "can_manage_gateway_secret env s nm uname = flag_of can_manage (effective_gateway_secret_permission env s nm uname)"

definition can_read_gateway_model_definition :: "('c, 'w) env \<Rightarrow> ('c, 'w) app \<Rightarrow> string \<Rightarrow> string \<Rightarrow> bool res \<times> ('c, 'w) app" where
  "can_read_gateway_model_definition env s nm uname = flag_of can_read (effective_gateway_model_definition_permission env s nm uname)"

definition can_use_gateway_model_definition :: "('c, 'w) env \<Rightarrow> ('c, 'w) app \<Rightarrow> string \<Rightarrow> string \<Rightarrow> bool res \<times> ('c, 'w) app" where
  "can_use_gateway_model_definition env s nm uname = flag_of can_use (effective_gateway_model_definition_permission env s nm uname)"

definition can_update_gateway_model_definition :: "('c, 'w) env \<Rightarrow> ('c, 'w) app \<Rightarrow> string \<Rightarrow> string \<Rightarrow> bool res \<times> ('c, 'w) app" where
  "can_update_gateway_model_definition env s nm uname = flag_of can_update (effective_gateway_model_definition_permission env s nm uname)"

definition can_manage_gateway_model_definition :: "('c, 'w) env \<Rightarrow> ('c, 'w) app \<Rightarrow> string \<Rightarrow> string \<Rightarrow> bool res \<times> ('c, 'w) app" where
  "can_manage_gateway_model_definition env s nm uname = flag_of can_manage (effective_gateway_model_definition_permission env s nm uname)"

definition can_manage_scorer :: "('c, 'w) env \<Rightarrow> ('c, 'w) app \<Rightarrow> string \<Rightarrow> string \<Rightarrow> string \<Rightarrow> bool res \<times> ('c, 'w) app" where
  "can_manage_scorer env s eid sn uname = flag_of can_manage (effective_scorer_permission env s eid sn uname)"

subsection \<open>Resolvers at creation time\<close>

definition permission_new_experiment_sources_config :: "('c, 'w) env \<Rightarrow> db \<Rightarrow> string \<Rightarrow> string \<Rightarrow> sources" where
  "permission_new_experiment_sources_config env d nm uname =
     [(''regex'', \<lambda>_. match_regex_permission (e_re_match env) (list_experiment_regex_permissions d uname) nm),
      (''group-regex'', \<lambda>_. match_regex_permission (e_re_match env)
         (list_group_experiment_regex_permissions_for_groups_ids d (get_groups_ids_for_user d uname)) nm)]"

definition permission_new_registered_model_sources_config :: "('c, 'w) env \<Rightarrow> db \<Rightarrow> string \<Rightarrow> string \<Rightarrow> sources" where
  "permission_new_registered_model_sources_config env d nm uname =
     [(''regex'', \<lambda>_. bindE (list_registered_model_regex_permissions d uname) (\<lambda>rs.
         match_regex_permission (e_re_match env) rs nm)),
      (''group-regex'', \<lambda>_. match_regex_permission (e_re_match env)
         (list_group_registered_model_regex_permissions_for_groups_ids d (get_groups_ids_for_user d uname)) nm)]"

text \<open>Uncached: the workspace cache is the only state they change.\<close>

definition effective_new_experiment_permission ::
  "('c, 'w) env \<Rightarrow> ('c, 'w) app \<Rightarrow> string \<Rightarrow> string \<Rightarrow> permission_result res \<times> ('c, 'w) app" where
  "effective_new_experiment_permission env s nm uname =
     (case get_permission_from_store_or_default (e_config env) (permission_new_experiment_sources_config env (a_db s) nm uname) of
        Inl e \<Rightarrow> (Inl e, s)
      | Inr r \<Rightarrow> (let (result, w) = apply_workspace_fallback env (a_db s) (a_wc s) r uname in (Inr result, s\<lparr>a_wc := w\<rparr>)))"

definition effective_new_registered_model_permission ::
  "('c, 'w) env \<Rightarrow> ('c, 'w) app \<Rightarrow> string \<Rightarrow> string \<Rightarrow> permission_result res \<times> ('c, 'w) app" where
  "effective_new_registered_model_permission env s nm uname =
     (case get_permission_from_store_or_default (e_config env) (permission_new_registered_model_sources_config env (a_db s) nm uname) of
        Inl e \<Rightarrow> (Inl e, s)
      | Inr r \<Rightarrow> (let (result, w) = apply_workspace_fallback env (a_db s) (a_wc s) r uname in (Inr result, s\<lparr>a_wc := w\<rparr>)))"

subsection \<open>The first source that answers decides\<close>

text \<open>
  A source is passed over when it is not configured for the resource type, or when it reports that
  there is no grant; any other outcome is final, an error included.
\<close>

definition skips :: "sources \<Rightarrow> string \<Rightarrow> bool" where
  "skips srcs s \<longleftrightarrow>
     (case map_of srcs s of
        None \<Rightarrow> True
      | Some f \<Rightarrow> bindE (f ()) get_permission = Inl (MlflowException RESOURCE_DOES_NOT_EXIST))"

definition answer :: "sources \<Rightarrow> string \<Rightarrow> permission_result res" where
  "answer srcs s =
     (case map_of srcs s of
        None \<Rightarrow> Inl KeyError
      | Some f \<Rightarrow> bindE (bindE (f ()) get_permission) (\<lambda>p. Inr \<lparr>pr_permission = p, kind = s\<rparr>))"

definition default_result :: "string \<Rightarrow> permission_result res" where
  "default_result dflt = bindE (get_permission dflt) (\<lambda>p. Inr \<lparr>pr_permission = p, kind = ''fallback''\<rparr>)"

lemma permission_from_sources_dropWhile:
  "permission_from_sources srcs dflt order =
     (case dropWhile (skips srcs) order of [] \<Rightarrow> default_result dflt | s # _ \<Rightarrow> answer srcs s)"
  by (induction order) (auto simp: skips_def answer_def default_result_def split: option.splits sum.splits)

lemma match_regex_permission_first:
  assumes "\<forall>r\<in>set rows. re_match (rx_regex r) nm = Inr (hit r)"
  shows "match_regex_permission re_match rows nm =
    (case List.find hit rows of
       None \<Rightarrow> Inl (MlflowException RESOURCE_DOES_NOT_EXIST)
     | Some r \<Rightarrow> Inr (rx_permission r))"
  using assms by (induction rows) auto

subsection \<open>Keys determine requests\<close>

abbreviation colon_free :: "string \<Rightarrow> bool" where
  "colon_free s \<equiv> CHR '':'' \<notin> set s"

definition resource_types :: "string list" where
  "resource_types =
     [EXPERIMENT, REGISTERED_MODEL, PROMPT, SCORER, GATEWAY_ENDPOINT, GATEWAY_SECRET, GATEWAY_MODEL_DEFINITION]"

lemma registry_types: "map_of PERMISSION_REGISTRY rtype \<noteq> None \<longleftrightarrow> rtype \<in> set resource_types"
proof -
  have "map fst PERMISSION_REGISTRY = resource_types"
    by (simp add: PERMISSION_REGISTRY_def resource_types_def)
  then show ?thesis by (metis list.set_map map_of_eq_None_iff)
qed

lemma resource_types_colon_free: "\<forall>t\<in>set resource_types. colon_free t"
  by (simp add: resource_types_def)

lemma colon_split:
  assumes "colon_free a" and "colon_free a'" and "a @ '':'' @ x = a' @ '':'' @ x'"
  shows "a = a' \<and> x = x'"
proof -
  have "takeWhile (\<lambda>c. c \<noteq> CHR '':'') (b @ '':'' @ y) = b" if "colon_free b" for b y
    using that by (auto simp: takeWhile_append takeWhile_eq_all_conv)
  from this [OF assms(1), of x] this [OF assms(2), of x'] assms(3) have "a = a'" by metis
  with assms(3) show ?thesis by simp
qed

text \<open>The key with the workspace part of a request.\<close>

definition request_key :: "config \<Rightarrow> string option \<Rightarrow> string \<Rightarrow> string \<Rightarrow> string \<Rightarrow> string" where
  "request_key cfg ws rtype rid uname = make_cache_key rtype rid uname (get_cache_workspace cfg ws)"

definition plain_workspace :: "string option \<Rightarrow> bool" where
  "plain_workspace ws \<longleftrightarrow> (case ws of None \<Rightarrow> True | Some w \<Rightarrow> colon_free w)"

text \<open>What a decision depends on of the workspace: nothing when workspaces are off, and the name when there is one.\<close>

definition workspace_view :: "config \<Rightarrow> string option \<Rightarrow> string option" where
  "workspace_view cfg ws =
     (if \<not> MLFLOW_ENABLE_WORKSPACES cfg then None
      else case ws of None \<Rightarrow> None | Some w \<Rightarrow> if w = [] then None else Some w)"

lemma request_key_inj:
  assumes "plain_workspace ws" and "plain_workspace ws'"
    and "colon_free rt" and "colon_free rt'" and "colon_free rid" and "colon_free rid'"
    and eq: "request_key cfg ws rt rid u = request_key cfg ws' rt' rid' u'"
  shows "rt = rt' \<and> rid = rid' \<and> u = u' \<and> workspace_view cfg ws = workspace_view cfg ws'"
proof -
  have tail: "rt = rt' \<and> rid = rid' \<and> u = u'" if "rt @ '':'' @ rid @ '':'' @ u = rt' @ '':'' @ rid' @ '':'' @ u'"
    using colon_split [OF assms(3,4) that] colon_split [OF assms(5,6)] by blast
  show ?thesis
  proof (cases "MLFLOW_ENABLE_WORKSPACES cfg")
    case False
    with eq tail show ?thesis
      by (simp add: request_key_def make_cache_key_def get_cache_workspace_def workspace_view_def)
  next
    case True
    let ?part = "\<lambda>ws. case ws of None \<Rightarrow> NO_WORKSPACE_CACHE_MARKER | Some w \<Rightarrow> if w = [] then NO_WORKSPACE_CACHE_MARKER else w"
    have parts: "?part ws @ '':'' @ rt @ '':'' @ rid @ '':'' @ u = ?part ws' @ '':'' @ rt' @ '':'' @ rid' @ '':'' @ u'"
      using eq True by (auto simp: request_key_def make_cache_key_def get_cache_workspace_def split: option.splits)
    have marker: "\<not> (NO_WORKSPACE_CACHE_MARKER @ '':'' @ x = w @ '':'' @ y)" if "colon_free w" "w \<noteq> []" for w x y
      using that by (cases w) (auto simp: NO_WORKSPACE_CACHE_MARKER_def)
    consider (both) w w' where "workspace_view cfg ws = Some w" "workspace_view cfg ws' = Some w'"
      | (none) "workspace_view cfg ws = None" "workspace_view cfg ws' = None"
      | (left) w where "workspace_view cfg ws = Some w" "workspace_view cfg ws' = None"
      | (right) w where "workspace_view cfg ws = None" "workspace_view cfg ws' = Some w"
      by (cases "workspace_view cfg ws"; cases "workspace_view cfg ws'") auto
    then show ?thesis
    proof cases
      case both
      with True assms(1,2) have w: "ws = Some w" "ws' = Some w'" "colon_free w" "colon_free w'" "w \<noteq> []" "w' \<noteq> []"
        by (auto simp: workspace_view_def plain_workspace_def split: option.splits if_splits)
      with parts have "w @ '':'' @ rt @ '':'' @ rid @ '':'' @ u = w' @ '':'' @ rt' @ '':'' @ rid' @ '':'' @ u'" by simp
      from colon_split [OF w(3,4) this] tail both show ?thesis by auto
    next
      case none
      with True have "?part ws = NO_WORKSPACE_CACHE_MARKER" "?part ws' = NO_WORKSPACE_CACHE_MARKER"
        by (auto simp: workspace_view_def split: option.splits if_splits)
      with parts tail none show ?thesis by simp
    next
      case left
      with True assms(1) have "?part ws = w" "?part ws' = NO_WORKSPACE_CACHE_MARKER" "colon_free w" "w \<noteq> []"
        by (auto simp: workspace_view_def plain_workspace_def split: option.splits if_splits)
      with parts marker [of w] show ?thesis by (metis (no_types, lifting))
    next
      case right
      with True assms(2) have "?part ws' = w" "?part ws = NO_WORKSPACE_CACHE_MARKER" "colon_free w" "w \<noteq> []"
        by (auto simp: workspace_view_def plain_workspace_def split: option.splits if_splits)
      with parts marker [of w] show ?thesis by (metis (no_types, lifting))
    qed
  qed
qed

subsection \<open>Decisions without caches\<close>

text \<open>The specification of the resolver: the same sources and fallbacks, read from the database.\<close>

definition workspace_decision :: "('c, 'w) env \<Rightarrow> db \<Rightarrow> permission_result \<Rightarrow> string \<Rightarrow> permission_result" where
  "workspace_decision env d result uname =
     (if kind result \<noteq> ''fallback'' then result
      else case workspace_view (e_config env) (e_workspace env) of
             None \<Rightarrow> result
           | Some ws \<Rightarrow>
               (case lookup_workspace_permission (e_config env) (e_re_match env) d uname ws of
                  Some p \<Rightarrow> \<lparr>pr_permission = p, kind = ''workspace''\<rparr>
                | None \<Rightarrow> \<lparr>pr_permission = NO_PERMISSIONS, kind = ''workspace-deny''\<rparr>))"

definition decide ::
  "('c, 'w) env \<Rightarrow> db \<Rightarrow> string \<Rightarrow> string \<Rightarrow> string \<Rightarrow> string option \<Rightarrow> permission_result res" where
  "decide env d rtype rid uname kw =
     (case map_of PERMISSION_REGISTRY rtype of
        None \<Rightarrow> Inl KeyError
      | Some builder \<Rightarrow>
          bindE (bindE (builder env d rid uname kw) (get_permission_from_store_or_default (e_config env))) (\<lambda>r.
          Inr (workspace_decision env d r uname)))"

lemma registry_cases:
  assumes "map_of PERMISSION_REGISTRY rtype = Some b"
  obtains "rtype = EXPERIMENT" "b = (\<lambda>env d rid uname kw. Inr (build_experiment_sources env d rid uname))"
  | "rtype = REGISTERED_MODEL" "b = (\<lambda>env d rid uname kw. Inr (build_registered_model_sources env d rid uname))"
  | "rtype = PROMPT" "b = (\<lambda>env d rid uname kw. Inr (build_prompt_sources env d rid uname))"
  | "rtype = SCORER" "b = (\<lambda>env d rid uname kw.
         (case kw of None \<Rightarrow> Inl KeyError | Some sn \<Rightarrow> Inr (build_scorer_sources env d rid sn uname)))"
  | "rtype = GATEWAY_ENDPOINT" "b = (\<lambda>env d rid uname kw. Inr (build_gateway_endpoint_sources env d rid uname))"
  | "rtype = GATEWAY_SECRET" "b = (\<lambda>env d rid uname kw. Inr (build_gateway_secret_sources env d rid uname))"
  | "rtype = GATEWAY_MODEL_DEFINITION"
      "b = (\<lambda>env d rid uname kw. Inr (build_gateway_model_definition_sources env d rid uname))"
proof -
  from map_of_SomeD [OF assms] have "(rtype, b) \<in> set PERMISSION_REGISTRY" .
  then show thesis
    unfolding PERMISSION_REGISTRY_def list.set insert_iff prod.inject empty_iff
    by (elim disjE conjE FalseE) (rule that, assumption, assumption)+
qed

lemmas build_defs = build_experiment_sources_def build_registered_model_sources_def build_prompt_sources_def
  build_scorer_sources_def build_gateway_endpoint_sources_def build_gateway_secret_sources_def
  build_gateway_model_definition_sources_def

lemma build_workspace [simp]:
  assumes "map_of PERMISSION_REGISTRY rtype = Some b"
  shows "b (env\<lparr>e_workspace := ws\<rparr>) d rid uname kw = b env d rid uname kw"
proof -
  have same: "build_experiment_sources (env\<lparr>e_workspace := ws\<rparr>) d rid uname = build_experiment_sources env d rid uname"
    "build_registered_model_sources (env\<lparr>e_workspace := ws\<rparr>) d rid uname = build_registered_model_sources env d rid uname"
    "build_prompt_sources (env\<lparr>e_workspace := ws\<rparr>) d rid uname = build_prompt_sources env d rid uname"
    "build_scorer_sources (env\<lparr>e_workspace := ws\<rparr>) d rid sn uname = build_scorer_sources env d rid sn uname"
    "build_gateway_endpoint_sources (env\<lparr>e_workspace := ws\<rparr>) d rid uname = build_gateway_endpoint_sources env d rid uname"
    "build_gateway_secret_sources (env\<lparr>e_workspace := ws\<rparr>) d rid uname = build_gateway_secret_sources env d rid uname"
    "build_gateway_model_definition_sources (env\<lparr>e_workspace := ws\<rparr>) d rid uname =
       build_gateway_model_definition_sources env d rid uname" for sn
    by (simp_all add: build_defs get_experiment_permission_from_regex_def get_experiment_group_permission_from_regex_def)
  show ?thesis
    by (rule registry_cases [OF assms]; simp only: same)
qed

lemma decide_workspace_view:
  assumes "workspace_view (e_config env) ws = workspace_view (e_config env) ws'"
  shows "decide (env\<lparr>e_workspace := ws\<rparr>) d rtype rid uname kw = decide (env\<lparr>e_workspace := ws'\<rparr>) d rtype rid uname kw"
proof -
  have "workspace_decision (env\<lparr>e_workspace := ws\<rparr>) d r uname = workspace_decision (env\<lparr>e_workspace := ws'\<rparr>) d r uname" for r
    using assms by (cases "kind r = ''fallback''") (simp_all add: workspace_decision_def split: option.split)
  then show ?thesis by (simp add: decide_def split: option.split)
qed

lemma first_source_kind:
  assumes "get_permission_from_store_or_default cfg srcs = Inr r"
  shows "kind r = ''fallback'' \<or> kind r \<in> fst ` set srcs"
proof -
  have "permission_from_sources srcs dflt order = Inr r \<Longrightarrow> kind r = ''fallback'' \<or> kind r \<in> fst ` set srcs" for dflt order
    by (induction order) (auto split: option.splits sum.splits if_splits dest!: map_of_SomeD intro: rev_image_eqI)
  with assms show ?thesis by (simp add: get_permission_from_store_or_default_def)
qed

lemma builder_keys:
  assumes "map_of PERMISSION_REGISTRY rtype = Some b" and "b env d rid uname kw = Inr srcs"
  shows "map fst srcs = [''user'', ''group'', ''regex'', ''group-regex'']"
  using assms(2) by (cases rule: registry_cases [OF assms(1)]) (auto simp: build_defs split: option.splits)

subsection \<open>Coherence of the caches\<close>

text \<open>
  A cache is coherent when each of its entries is the decision the database gives now. Scorers are
  left out: their key does not name the scorer.
\<close>

definition ws_coherent :: "config \<Rightarrow> re_match \<Rightarrow> ('w, permission) cache_ops \<Rightarrow> db \<Rightarrow> 'w \<Rightarrow> bool" where
  "ws_coherent cfg re_match wc d w \<longleftrightarrow>
     (\<forall>uname ws p. MLFLOW_ENABLE_WORKSPACES cfg \<and> ws \<noteq> [] \<and> colon_free ws \<and>
        c_get wc w (workspace_cache_key uname ws) = Some p \<longrightarrow>
        lookup_workspace_permission cfg re_match d uname ws = Some p)"

definition pc_coherent :: "('c, 'w) env \<Rightarrow> db \<Rightarrow> 'c \<Rightarrow> bool" where
  "pc_coherent env d c \<longleftrightarrow>
     (\<forall>ws rtype rid uname r. plain_workspace ws \<and> rtype \<in> set resource_types \<and> rtype \<noteq> SCORER \<and> colon_free rid \<and>
        c_get (e_pc env) c (request_key (e_config env) ws rtype rid uname) = Some r \<longrightarrow>
        decide (env\<lparr>e_workspace := ws\<rparr>) d rtype rid uname None = Inr r)"

definition coherent :: "('c, 'w) env \<Rightarrow> ('c, 'w) app \<Rightarrow> bool" where
  "coherent env s \<longleftrightarrow> pc_coherent env (a_db s) (a_pc s) \<and>
     ws_coherent (e_config env) (e_re_match env) (e_wc env) (a_db s) (a_wc s)"

lemma ws_coherentI:
  assumes "\<And>uname ws p. MLFLOW_ENABLE_WORKSPACES cfg \<Longrightarrow> ws \<noteq> [] \<Longrightarrow> colon_free ws \<Longrightarrow>
      c_get wc w (workspace_cache_key uname ws) = Some p \<Longrightarrow> lookup_workspace_permission cfg re_match d uname ws = Some p"
  shows "ws_coherent cfg re_match wc d w"
  using assms unfolding ws_coherent_def by blast

lemma ws_coherentD:
  "ws_coherent cfg re_match wc d w \<Longrightarrow> MLFLOW_ENABLE_WORKSPACES cfg \<Longrightarrow> ws \<noteq> [] \<Longrightarrow> colon_free ws \<Longrightarrow>
   c_get wc w (workspace_cache_key uname ws) = Some p \<Longrightarrow> lookup_workspace_permission cfg re_match d uname ws = Some p"
  unfolding ws_coherent_def by blast

lemma pc_coherentI:
  assumes "\<And>ws rtype rid uname r. plain_workspace ws \<Longrightarrow> rtype \<in> set resource_types \<Longrightarrow> rtype \<noteq> SCORER \<Longrightarrow> colon_free rid \<Longrightarrow>
      c_get (e_pc env) c (request_key (e_config env) ws rtype rid uname) = Some r \<Longrightarrow>
      decide (env\<lparr>e_workspace := ws\<rparr>) d rtype rid uname None = Inr r"
  shows "pc_coherent env d c"
  using assms unfolding pc_coherent_def by blast

lemma pc_coherentD:
  "pc_coherent env d c \<Longrightarrow> plain_workspace ws \<Longrightarrow> rtype \<in> set resource_types \<Longrightarrow> rtype \<noteq> SCORER \<Longrightarrow> colon_free rid \<Longrightarrow>
   c_get (e_pc env) c (request_key (e_config env) ws rtype rid uname) = Some r \<Longrightarrow>
   decide (env\<lparr>e_workspace := ws\<rparr>) d rtype rid uname None = Inr r"
  unfolding pc_coherent_def by blast

lemma decide_kw:
  assumes "rtype \<noteq> SCORER"
  shows "decide env d rtype rid uname kw = decide env d rtype rid uname None"
proof (cases "map_of PERMISSION_REGISTRY rtype :: (('a, 'b) env \<Rightarrow> _) option")
  case (Some b)
  have "b env d rid uname kw = b env d rid uname None"
    using assms by (rule_tac registry_cases [OF Some]; simp)
  with Some show ?thesis by (simp add: decide_def)
qed (simp add: decide_def)

lemma env_same_workspace [simp]: "env\<lparr>e_workspace := e_workspace env\<rparr> = (env :: ('c, 'w) env)"
  by simp

lemma record_fallback_state [simp]:
  "a_db (fst (record_permission_fallback s rtype rid perm)) = a_db s"
  "a_pc (fst (record_permission_fallback s rtype rid perm)) = a_pc s"
  "a_wc (fst (record_permission_fallback s rtype rid perm)) = a_wc s"
  by (simp_all add: record_permission_fallback_def Let_def)

text \<open>Fewer entries, or none, keep a cache coherent.\<close>

lemma ws_coherent_le:
  "ws_coherent cfg re_match wc d w \<Longrightarrow> c_get wc w' \<subseteq>\<^sub>m c_get wc w \<Longrightarrow> ws_coherent cfg re_match wc d w'"
  by (rule ws_coherentI) (metis map_leD ws_coherentD)

lemma pc_coherent_le:
  assumes "pc_coherent env d c" and "c_get (e_pc env) c' \<subseteq>\<^sub>m c_get (e_pc env) c"
  shows "pc_coherent env d c'"
  by (rule pc_coherentI) (rule pc_coherentD [OF assms(1)], assumption+, erule map_leD [OF assms(2)])

locale resolver_caches =
  pc: cache_backend pc + wc: cache_backend wc
  for pc :: "('c, permission_result) cache_ops" and wc :: "('w, permission) cache_ops"
begin

lemma cleared_coherent: "e_pc env = pc \<Longrightarrow> pc_coherent env d (c_clear pc c)"
  by (simp add: pc_coherent_def)

lemma ws_set_coherent:
  assumes "ws_coherent cfg re_match wc d w" and "colon_free ws"
    and "lookup_workspace_permission cfg re_match d uname ws = Some p"
  shows "ws_coherent cfg re_match wc d (c_set wc w (workspace_cache_key uname ws) p)"
proof (rule ws_coherentI)
  fix v u q
  assume v: "MLFLOW_ENABLE_WORKSPACES cfg" "v \<noteq> []" "colon_free v"
    and "c_get wc (c_set wc w (workspace_cache_key uname ws) p) (workspace_cache_key u v) = Some q"
  then consider "workspace_cache_key u v = workspace_cache_key uname ws" "q = p"
    | "c_get wc w (workspace_cache_key u v) = Some q"
    using wc.get_setD by blast
  then show "lookup_workspace_permission cfg re_match d u v = Some q"
    using workspace_cache_key_inj [OF v(3) assms(2)] assms(3) ws_coherentD [OF assms(1) v] by cases auto
qed

lemma cached_lookup:
  assumes "ws_coherent cfg re_match wc d w" and "MLFLOW_ENABLE_WORKSPACES cfg" and "ws \<noteq> []" and "colon_free ws"
    and "get_workspace_permission_cached cfg wc re_match d w uname ws = (r, w')"
  shows "r = lookup_workspace_permission cfg re_match d uname ws \<and> ws_coherent cfg re_match wc d w'"
  using assms ws_coherentD [OF assms(1-4), of uname] ws_set_coherent [OF assms(1,4), of uname]
  by (auto simp: get_workspace_permission_cached_def Let_def split: option.splits)

lemma fallback_decision:
  assumes "e_wc env = wc" and "plain_workspace (e_workspace env)"
    and "ws_coherent (e_config env) (e_re_match env) wc d w"
    and "apply_workspace_fallback env d w r uname = (r', w')"
  shows "r' = workspace_decision env d r uname \<and> ws_coherent (e_config env) (e_re_match env) wc d w'"
proof (cases "kind r = ''fallback'' \<and> (\<exists>ws. workspace_view (e_config env) (e_workspace env) = Some ws)")
  case True
  then obtain ws where ws: "e_workspace env = Some ws" "ws \<noteq> []" "MLFLOW_ENABLE_WORKSPACES (e_config env)" "kind r = ''fallback''"
    by (auto simp: workspace_view_def split: if_splits option.splits)
  with assms(2) have "colon_free ws" by (simp add: plain_workspace_def)
  from cached_lookup [OF assms(3) ws(3,2) this, of uname] assms(1,4) ws show ?thesis
    by (cases "get_workspace_permission_cached (e_config env) wc (e_re_match env) d w uname ws")
      (auto simp: apply_workspace_fallback_def workspace_decision_def workspace_view_def split: option.splits)
next
  case False
  then have "apply_workspace_fallback env d w r uname = (r, w)" "workspace_decision env d r uname = r"
    by (auto simp: apply_workspace_fallback_def workspace_decision_def workspace_view_def split: option.splits if_splits)
  with assms(3,4) show ?thesis by simp
qed

text \<open>What one request to the resolver returns and leaves.\<close>

lemma pc_set_coherent:
  assumes "e_pc env = pc" and "pc_coherent env d c" and "plain_workspace ws" and "colon_free rid" and "rtype \<in> set resource_types"
    and "rtype \<noteq> SCORER \<Longrightarrow> decide (env\<lparr>e_workspace := ws\<rparr>) d rtype rid uname None = Inr r"
  shows "pc_coherent env d (c_set pc c (request_key (e_config env) ws rtype rid uname) r)"
proof (rule pc_coherentI)
  fix v t i u q
  assume v: "plain_workspace v" "t \<in> set resource_types" "t \<noteq> SCORER" "colon_free i"
    and "c_get (e_pc env) (c_set pc c (request_key (e_config env) ws rtype rid uname) r)
      (request_key (e_config env) v t i u) = Some q"
  then consider "request_key (e_config env) v t i u = request_key (e_config env) ws rtype rid uname" "q = r"
    | "c_get (e_pc env) c (request_key (e_config env) v t i u) = Some q"
    using pc.get_setD assms(1) by metis
  then show "decide (env\<lparr>e_workspace := v\<rparr>) d t i u None = Inr q"
  proof cases
    case 1
    have "colon_free t" "colon_free rtype" using v(2) assms(5) resource_types_colon_free by auto
    from request_key_inj [OF v(1) assms(3) this v(4) assms(4) 1(1)] decide_workspace_view [of env v ws] v(3) assms(6) 1(2)
    show ?thesis by simp
  next
    case 2
    then show ?thesis by (rule pc_coherentD [OF assms(2) v])
  qed
qed

lemma resolve_decision:
  assumes env: "e_pc env = pc" "e_wc env = wc" and ws: "plain_workspace (e_workspace env)"
    and rid: "colon_free rid" and rtype: "rtype \<in> set resource_types" and coh: "coherent env s"
    and run: "resolve_permission env s rtype rid uname kw = (result, s')"
  shows "a_db s' = a_db s \<and> coherent env s' \<and>
    (rtype \<noteq> SCORER \<longrightarrow> result = decide env (a_db s) rtype rid uname None)"
proof -
  define key where "key = request_key (e_config env) (e_workspace env) rtype rid uname"
  have pcc: "pc_coherent env (a_db s) (a_pc s)"
    and wsc: "ws_coherent (e_config env) (e_re_match env) wc (a_db s) (a_wc s)"
    using coh env by (auto simp: coherent_def)
  note run' = run [unfolded resolve_permission_def, folded request_key_def, folded key_def, unfolded Let_def env]
  show ?thesis
  proof (cases "c_get pc (a_pc s) key")
    case (Some r)
    with run' have r: "result = Inr r" "s' = s" by auto
    with r coh pc_coherentD [OF pcc ws rtype _ rid, of uname r] Some env show ?thesis
      by (auto simp: key_def)
  next
    case None
    show ?thesis
    proof (cases "map_of PERMISSION_REGISTRY rtype :: (('c, 'w) env \<Rightarrow> _) option")
      case no: None
      with None run' coh show ?thesis by (auto simp: decide_def)
    next
      case (Some b)
      show ?thesis
      proof (cases "bindE (b env (a_db s) rid uname kw) (get_permission_from_store_or_default (e_config env))")
        case (Inl e)
        then have "decide env (a_db s) rtype rid uname kw = Inl e" using Some by (simp add: decide_def)
        with None Some Inl run' coh decide_kw [of rtype env "a_db s" rid uname kw] show ?thesis by auto
      next
        case (Inr r)
        obtain res w where fb: "apply_workspace_fallback env (a_db s) (a_wc s) r uname = (res, w)" by fastforce
        from fallback_decision [OF env(2) ws wsc fb] have res: "res = workspace_decision env (a_db s) r uname"
          and w: "ws_coherent (e_config env) (e_re_match env) wc (a_db s) w" by auto
        have "decide env (a_db s) rtype rid uname kw = Inr res"
          by (simp only: decide_def Some option.case Inr bindE_Inr res)
        then have dec: "rtype \<noteq> SCORER \<Longrightarrow> decide env (a_db s) rtype rid uname None = Inr res"
          using decide_kw [of rtype env "a_db s" rid uname kw] by simp
        from None Some Inr fb run' have s': "result = Inr res" "a_db s' = a_db s" "a_wc s' = w"
          "a_pc s' = c_set pc (a_pc s) key res"
          by (auto split: if_splits)
        have "pc_coherent env (a_db s) (c_set pc (a_pc s) key res)"
          unfolding key_def using dec by (intro pc_set_coherent [OF env(1) pcc ws rid rtype]) simp
        with s' w dec env show ?thesis by (simp add: coherent_def)
      qed
    qed
  qed
qed

end

end
