(* ===== verification/Cached_Store.thy ===== *)
theory Cached_Store
  imports Resolver
begin

section \<open>Store methods with cache invalidation (sqlalchemy\_store.py, workspace routers)\<close>

text \<open>
  The decorators that wrap the store's methods, the decorated methods that touch the workspace
  cache, and the handlers of the two workspace routers. A method is a function of the application
  state; one that raises leaves the state as it was and invalidates nothing. The audit events and
  response bodies of the handlers are not modelled, and the dependency that authorises a handler is
  its first argument.
\<close>

type_synonym ('c, 'w, 'r) handler = "('c, 'w) app \<Rightarrow> 'r res \<times> ('c, 'w) app"

subsection \<open>Decorators\<close>

definition store_method :: "(db \<Rightarrow> (db \<times> 'r) res) \<Rightarrow> ('c, 'w, 'r) handler" where
  "store_method m s = (case m (a_db s) of Inl e \<Rightarrow> (Inl e, s) | Inr (d', r) \<Rightarrow> (Inr r, s\<lparr>a_db := d'\<rparr>))"

definition store_procedure :: "(db \<Rightarrow> db res) \<Rightarrow> ('c, 'w, unit) handler" where
  "store_procedure m s = (case m (a_db s) of Inl e \<Rightarrow> (Inl e, s) | Inr d' \<Rightarrow> (Inr (), s\<lparr>a_db := d'\<rparr>))"

definition after_success :: "(('c, 'w) app \<Rightarrow> ('c, 'w) app) \<Rightarrow> ('c, 'w, 'r) handler \<Rightarrow> ('c, 'w, 'r) handler" where
  "after_success f m s = (case m s of (Inl e, s') \<Rightarrow> (Inl e, s') | (Inr r, s') \<Rightarrow> (Inr r, f s'))"

definition wrap_with_cache_flush :: "('c, 'w) env \<Rightarrow> ('c, 'w, 'r) handler \<Rightarrow> ('c, 'w, 'r) handler" where
  "wrap_with_cache_flush env m = after_success (flush_permission_cache env) m"

definition wrap_with_membership_invalidation ::
  "('c, 'w) env \<Rightarrow> string \<Rightarrow> ('c, 'w, 'r) handler \<Rightarrow> ('c, 'w, 'r) handler" where
  "wrap_with_membership_invalidation env uname m =
     after_success (\<lambda>s. if uname = [] then s
        else s\<lparr>a_wc := invalidate_user_workspace_entries (e_config env) (e_wc env) (a_wc s) uname\<rparr>) m"

definition wrap_with_workspace_group_invalidation ::
  "('c, 'w) env \<Rightarrow> string \<Rightarrow> string \<Rightarrow> ('c, 'w, 'r) handler \<Rightarrow> ('c, 'w, 'r) handler" where
  "wrap_with_workspace_group_invalidation env ws gname m =
     after_success (\<lambda>s. if ws = [] \<or> gname = [] then s
        else s\<lparr>a_wc := invalidate_group_workspace_permission (e_config env) (e_wc env) (a_db s) (a_wc s) gname ws\<rparr>) m"

definition wrap_with_workspace_user_invalidation ::
  "('c, 'w) env \<Rightarrow> string \<Rightarrow> string \<Rightarrow> ('c, 'w, 'r) handler \<Rightarrow> ('c, 'w, 'r) handler" where
  "wrap_with_workspace_user_invalidation env ws uname m =
     after_success (\<lambda>s. if ws = [] \<or> uname = [] then s
        else s\<lparr>a_wc := invalidate_workspace_permission (e_wc env) (a_wc s) uname ws\<rparr>) m"

definition wrap_with_workspace_flush :: "('c, 'w) env \<Rightarrow> ('c, 'w, 'r) handler \<Rightarrow> ('c, 'w, 'r) handler" where
  "wrap_with_workspace_flush env m = after_success (\<lambda>s. s\<lparr>a_wc := flush_workspace_cache (e_wc env) (a_wc s)\<rparr>) m"

subsection \<open>Decorated methods\<close>

definition cached_set_user_groups :: "('c, 'w) env \<Rightarrow> string \<Rightarrow> string list \<Rightarrow> ('c, 'w, unit) handler" where
  "cached_set_user_groups env uname names =
     wrap_with_membership_invalidation env uname (wrap_with_cache_flush env
       (store_procedure (\<lambda>d. set_user_groups d uname names)))"

definition cached_add_user_to_group :: "('c, 'w) env \<Rightarrow> string \<Rightarrow> string \<Rightarrow> ('c, 'w, unit) handler" where
  "cached_add_user_to_group env uname gname =
     wrap_with_membership_invalidation env uname (wrap_with_cache_flush env
       (store_procedure (\<lambda>d. store_add_user_to_group d uname gname)))"

definition cached_remove_user_from_group :: "('c, 'w) env \<Rightarrow> string \<Rightarrow> string \<Rightarrow> ('c, 'w, unit) handler" where
  "cached_remove_user_from_group env uname gname =
     wrap_with_membership_invalidation env uname (wrap_with_cache_flush env
       (store_procedure (\<lambda>d. store_remove_user_from_group d uname gname)))"

definition cached_create_workspace_permission ::
  "('c, 'w) env \<Rightarrow> string \<Rightarrow> string \<Rightarrow> string \<Rightarrow> ('c, 'w, workspace_row) handler" where
  "cached_create_workspace_permission env ws uname perm =
     wrap_with_workspace_user_invalidation env ws uname (wrap_with_cache_flush env
       (store_method (\<lambda>d. create_workspace_permission d ws uname perm)))"

definition cached_update_workspace_permission ::
  "('c, 'w) env \<Rightarrow> string \<Rightarrow> string \<Rightarrow> string \<Rightarrow> ('c, 'w, workspace_row) handler" where
  "cached_update_workspace_permission env ws uname perm =
     wrap_with_workspace_user_invalidation env ws uname (wrap_with_cache_flush env
       (store_method (\<lambda>d. update_workspace_permission d ws uname perm)))"

definition cached_delete_workspace_permission :: "('c, 'w) env \<Rightarrow> string \<Rightarrow> string \<Rightarrow> ('c, 'w, unit) handler" where
  "cached_delete_workspace_permission env ws uname =
     wrap_with_workspace_user_invalidation env ws uname (wrap_with_cache_flush env
       (store_procedure (\<lambda>d. delete_workspace_permission d ws uname)))"

definition cached_create_workspace_group_permission ::
  "('c, 'w) env \<Rightarrow> string \<Rightarrow> string \<Rightarrow> string \<Rightarrow> ('c, 'w, workspace_row) handler" where
  "cached_create_workspace_group_permission env ws gname perm =
     wrap_with_workspace_group_invalidation env ws gname (wrap_with_cache_flush env
       (store_method (\<lambda>d. create_workspace_group_permission d ws gname perm)))"

definition cached_update_workspace_group_permission ::
  "('c, 'w) env \<Rightarrow> string \<Rightarrow> string \<Rightarrow> string \<Rightarrow> ('c, 'w, workspace_row) handler" where
  "cached_update_workspace_group_permission env ws gname perm =
     wrap_with_workspace_group_invalidation env ws gname (wrap_with_cache_flush env
       (store_method (\<lambda>d. update_workspace_group_permission d ws gname perm)))"

definition cached_delete_workspace_group_permission :: "('c, 'w) env \<Rightarrow> string \<Rightarrow> string \<Rightarrow> ('c, 'w, unit) handler" where
  "cached_delete_workspace_group_permission env ws gname =
     wrap_with_workspace_group_invalidation env ws gname (wrap_with_cache_flush env
       (store_procedure (\<lambda>d. delete_workspace_group_permission d ws gname)))"

definition cached_wipe_workspace_permissions :: "('c, 'w) env \<Rightarrow> string \<Rightarrow> ('c, 'w, nat) handler" where
  "cached_wipe_workspace_permissions env ws =
     wrap_with_workspace_flush env (wrap_with_cache_flush env (store_method (\<lambda>d. wipe_workspace_permissions d ws)))"

lemmas wrap_defs = wrap_with_cache_flush_def wrap_with_membership_invalidation_def
  wrap_with_workspace_group_invalidation_def wrap_with_workspace_user_invalidation_def wrap_with_workspace_flush_def

subsection \<open>Routers: grants on workspaces\<close>

text \<open>
  \<open>guard\<close> is what the dependency of the handler returns: the current user, or the error
  with which the request ends.
\<close>

definition guarded :: "string res \<Rightarrow> ('c, 'w, 'r) handler \<Rightarrow> ('c, 'w, 'r) handler" where
  "guarded guard m s = (case guard of Inl e \<Rightarrow> (Inl e, s) | Inr _ \<Rightarrow> m s)"

definition validated :: "string \<Rightarrow> ('c, 'w, 'r) handler \<Rightarrow> ('c, 'w, 'r) handler" where
  "validated perm m s = (case validate_permission perm of Inl e \<Rightarrow> (Inl e, s) | Inr _ \<Rightarrow> m s)"

definition list_workspace_users :: "string res \<Rightarrow> string \<Rightarrow> ('c, 'w, workspace_row list) handler" where
  "list_workspace_users guard ws = guarded guard (\<lambda>s. (Inr (list_workspace_permissions (a_db s) ws), s))"

definition list_workspace_groups :: "string res \<Rightarrow> string \<Rightarrow> ('c, 'w, workspace_row list) handler" where
  "list_workspace_groups guard ws = guarded guard (\<lambda>s. (Inr (list_workspace_group_permissions (a_db s) ws), s))"

definition create_workspace_user_permission ::
  "string res \<Rightarrow> ('c, 'w) env \<Rightarrow> string \<Rightarrow> string \<Rightarrow> string \<Rightarrow> ('c, 'w, workspace_row) handler" where
  "create_workspace_user_permission guard env ws uname perm =
     guarded guard (validated perm
       (after_success (\<lambda>s. s\<lparr>a_wc := invalidate_workspace_permission (e_wc env) (a_wc s) uname ws\<rparr>)
         (cached_create_workspace_permission env ws uname perm)))"

definition router_create_workspace_group_permission ::
  "string res \<Rightarrow> ('c, 'w) env \<Rightarrow> string \<Rightarrow> string \<Rightarrow> string \<Rightarrow> ('c, 'w, workspace_row) handler" where
  "router_create_workspace_group_permission guard env ws gname perm =
     guarded guard (validated perm (cached_create_workspace_group_permission env ws gname perm))"

definition update_workspace_user_permission ::
  "string res \<Rightarrow> ('c, 'w) env \<Rightarrow> string \<Rightarrow> string \<Rightarrow> string \<Rightarrow> ('c, 'w, workspace_row) handler" where
  "update_workspace_user_permission guard env ws uname perm =
     guarded guard (validated perm
       (after_success (\<lambda>s. s\<lparr>a_wc := invalidate_workspace_permission (e_wc env) (a_wc s) uname ws\<rparr>)
         (cached_update_workspace_permission env ws uname perm)))"

definition router_update_workspace_group_permission ::
  "string res \<Rightarrow> ('c, 'w) env \<Rightarrow> string \<Rightarrow> string \<Rightarrow> string \<Rightarrow> ('c, 'w, workspace_row) handler" where
  "router_update_workspace_group_permission guard env ws gname perm =
     guarded guard (validated perm (cached_update_workspace_group_permission env ws gname perm))"

definition delete_workspace_user_permission ::
  "string res \<Rightarrow> ('c, 'w) env \<Rightarrow> string \<Rightarrow> string \<Rightarrow> ('c, 'w, unit) handler" where
  "delete_workspace_user_permission guard env ws uname =
     guarded guard
       (after_success (\<lambda>s. s\<lparr>a_wc := invalidate_workspace_permission (e_wc env) (a_wc s) uname ws\<rparr>)
         (cached_delete_workspace_permission env ws uname))"

definition router_delete_workspace_group_permission ::
  "string res \<Rightarrow> ('c, 'w) env \<Rightarrow> string \<Rightarrow> string \<Rightarrow> ('c, 'w, unit) handler" where
  "router_delete_workspace_group_permission guard env ws gname =
     guarded guard (cached_delete_workspace_group_permission env ws gname)"

subsection \<open>Routers: workspace patterns\<close>

text \<open>
  The store method flushes the permission cache; the handler then flushes the workspace cache.
\<close>

definition flush_after :: "('c, 'w) env \<Rightarrow> ('c, 'w, 'r) handler \<Rightarrow> ('c, 'w, 'r) handler" where
  "flush_after env m = after_success (\<lambda>s. s\<lparr>a_wc := flush_workspace_cache (e_wc env) (a_wc s)\<rparr>) m"

definition create_user_regex_permission ::
  "(string \<Rightarrow> compile_outcome) \<Rightarrow> string res \<Rightarrow> ('c, 'w) env \<Rightarrow> string \<Rightarrow> int \<Rightarrow> string \<Rightarrow> string \<Rightarrow> ('c, 'w, regex_row) handler" where
  "create_user_regex_permission rc guard env rx prty perm uname =
     guarded guard (validated perm (flush_after env (wrap_with_cache_flush env
       (store_method (\<lambda>d. create_workspace_regex_permission rc d rx prty perm uname)))))"

definition list_user_regex_permissions :: "string res \<Rightarrow> ('c, 'w, regex_row list) handler" where
  "list_user_regex_permissions guard = guarded guard (\<lambda>s. (Inr (list_all_workspace_regex_permissions (a_db s)), s))"

definition update_user_regex_permission ::
  "(string \<Rightarrow> compile_outcome) \<Rightarrow> string res \<Rightarrow> ('c, 'w) env \<Rightarrow> string \<Rightarrow> int \<Rightarrow> string \<Rightarrow> string \<Rightarrow> int \<Rightarrow> ('c, 'w, regex_row) handler" where
  "update_user_regex_permission rc guard env rx prty perm uname i =
     guarded guard (validated perm (flush_after env (wrap_with_cache_flush env
       (store_method (\<lambda>d. update_workspace_regex_permission rc d rx prty perm uname i)))))"

definition delete_user_regex_permission :: "string res \<Rightarrow> ('c, 'w) env \<Rightarrow> string \<Rightarrow> int \<Rightarrow> ('c, 'w, unit) handler" where
  "delete_user_regex_permission guard env uname i =
     guarded guard (flush_after env (wrap_with_cache_flush env
       (store_procedure (\<lambda>d. delete_workspace_regex_permission d uname i))))"

definition create_group_regex_permission ::
  "(string \<Rightarrow> compile_outcome) \<Rightarrow> string res \<Rightarrow> ('c, 'w) env \<Rightarrow> string \<Rightarrow> string \<Rightarrow> int \<Rightarrow> string \<Rightarrow> ('c, 'w, regex_row) handler" where
  "create_group_regex_permission rc guard env gname rx prty perm =
     guarded guard (validated perm (flush_after env (wrap_with_cache_flush env
       (store_method (\<lambda>d. create_workspace_group_regex_permission rc d gname rx prty perm)))))"

definition list_group_regex_permissions :: "string res \<Rightarrow> ('c, 'w, regex_row list) handler" where
  "list_group_regex_permissions guard =
     guarded guard (\<lambda>s. (Inr (list_all_workspace_group_regex_permissions (a_db s)), s))"

definition update_group_regex_permission ::
  "(string \<Rightarrow> compile_outcome) \<Rightarrow> string res \<Rightarrow> ('c, 'w) env \<Rightarrow> int \<Rightarrow> string \<Rightarrow> string \<Rightarrow> int \<Rightarrow> string \<Rightarrow> ('c, 'w, regex_row) handler" where
  "update_group_regex_permission rc guard env i gname rx prty perm =
     guarded guard (validated perm (flush_after env (wrap_with_cache_flush env
       (store_method (\<lambda>d. update_workspace_group_regex_permission rc d i gname rx prty perm)))))"

definition delete_group_regex_permission :: "string res \<Rightarrow> ('c, 'w) env \<Rightarrow> string \<Rightarrow> int \<Rightarrow> ('c, 'w, unit) handler" where
  "delete_group_regex_permission guard env gname i =
     guarded guard (flush_after env (wrap_with_cache_flush env
       (store_procedure (\<lambda>d. delete_workspace_group_regex_permission d gname i))))"

lemmas router_defs = create_user_regex_permission_def update_user_regex_permission_def delete_user_regex_permission_def
  create_group_regex_permission_def update_group_regex_permission_def delete_group_regex_permission_def
  create_workspace_user_permission_def update_workspace_user_permission_def delete_workspace_user_permission_def
  router_create_workspace_group_permission_def router_update_workspace_group_permission_def
  router_delete_workspace_group_permission_def

subsection \<open>What a workspace lookup reads\<close>

lemma sql_join_restrict:
  assumes "filter Q xs = filter Q xs'" and "\<And>x y. y \<in> set ys \<Longrightarrow> C x y \<Longrightarrow> Q x"
  shows "sql_join xs ys C = sql_join xs' ys C"
proof -
  have "sql_join zs ys C = sql_join (filter Q zs) ys C" for zs
  proof (induction zs)
    case (Cons x zs)
    have "filter (C x) ys = []" if "\<not> Q x" using that assms(2) by (auto simp: filter_empty_conv)
    with Cons show ?case by auto
  qed simp
  with assms(1) show ?thesis by metis
qed

lemma sql_join_cong:
  assumes "filter P ys = filter P ys'" and "\<And>x y. C x y \<Longrightarrow> P y"
  shows "sql_join xs ys C = sql_join xs ys' C"
proof -
  have "filter (C x) zs = filter (C x) (filter P zs)" for x zs
    using assms(2) by (auto intro!: filter_cong)
  with assms(1) have "filter (C x) ys = filter (C x) ys'" for x by metis
  then show ?thesis by (induction xs) auto
qed

text \<open>The rows of one owner, and the links of one user.\<close>

definition same_for :: "db \<Rightarrow> db \<Rightarrow> string \<Rightarrow> string \<Rightarrow> bool" where
  "same_for d d' uname ws \<longleftrightarrow>
     users d' = users d \<and>
     t_regex (workspace_tables d') = t_regex (workspace_tables d) \<and>
     t_group_regex (workspace_tables d') = t_group_regex (workspace_tables d) \<and>
     (\<forall>u\<in>set (users d). u_username u = uname \<longrightarrow>
        filter (\<lambda>ug. ug_user_id ug = u_id u) (user_groups d') = filter (\<lambda>ug. ug_user_id ug = u_id u) (user_groups d) \<and>
        filter (\<lambda>p. p_resource p = ws \<and> p_owner p = u_id u) (t_user (workspace_tables d')) =
          filter (\<lambda>p. p_resource p = ws \<and> p_owner p = u_id u) (t_user (workspace_tables d)) \<and>
        filter (\<lambda>p. p_resource p = ws \<and> member (user_groups d) (u_id u) (p_owner p)) (t_group (workspace_tables d')) =
          filter (\<lambda>p. p_resource p = ws \<and> member (user_groups d) (u_id u) (p_owner p)) (t_group (workspace_tables d)))"

lemma lookup_same_for:
  assumes wf: "wf_users (users d)" and same: "same_for d d' uname ws"
  shows "lookup_workspace_permission cfg re_match d' uname ws = lookup_workspace_permission cfg re_match d uname ws"
proof -
  have us: "users d' = users d" using same by (simp add: same_for_def)
  have links: "filter (\<lambda>ug. ug_user_id ug = u_id u) (user_groups d') = filter (\<lambda>ug. ug_user_id ug = u_id u) (user_groups d)"
    and own: "filter (\<lambda>p. p_resource p = ws \<and> p_owner p = u_id u) (t_user (workspace_tables d')) =
          filter (\<lambda>p. p_resource p = ws \<and> p_owner p = u_id u) (t_user (workspace_tables d))"
    and grp: "filter (\<lambda>p. p_resource p = ws \<and> member (user_groups d) (u_id u) (p_owner p)) (t_group (workspace_tables d')) =
          filter (\<lambda>p. p_resource p = ws \<and> member (user_groups d) (u_id u) (p_owner p)) (t_group (workspace_tables d))"
    if "get_user (users d) uname = Inr u" for u
    using that same get_user_Inr_iff [OF wf] by (auto simp: same_for_def)
  have ids: "get_groups_ids_for_user d' uname = get_groups_ids_for_user d uname"
    unfolding get_groups_ids_for_user_def list_group_ids_for_user_def user_group_ids_def us join_user [OF wf]
    using links by (auto split: sum.splits)
  have "get_workspace_permission d' ws uname = get_workspace_permission d ws uname"
    unfolding get_workspace_permission_def us workspace_get_def filter_list_comp
    using own by (cases "get_user (users d) uname") auto
  moreover have "get_user_groups_workspace_permission d' ws uname = get_user_groups_workspace_permission d ws uname"
  proof (cases "get_user (users d) uname")
    case (Inl e)
    then show ?thesis by (simp add: get_user_groups_workspace_permission_def us)
  next
    case (Inr u)
    let ?C = "\<lambda>p ug. p_owner p = ug_group_id ug \<and> p_resource p = ws \<and> ug_user_id ug = u_id u"
    let ?in = "\<lambda>ug. ug_user_id ug = u_id u"
    have "sql_join (t_group (workspace_tables d')) (user_groups d') ?C =
        sql_join (t_group (workspace_tables d')) (filter ?in (user_groups d)) ?C"
      by (rule sql_join_cong [where P = ?in]) (simp_all add: links [OF Inr])
    also have "\<dots> = sql_join (t_group (workspace_tables d)) (filter ?in (user_groups d)) ?C"
    proof (rule sql_join_restrict [where Q = "\<lambda>p. p_resource p = ws \<and> member (user_groups d) (u_id u) (p_owner p)"])
      show "filter (\<lambda>p. p_resource p = ws \<and> member (user_groups d) (u_id u) (p_owner p)) (t_group (workspace_tables d')) =
          filter (\<lambda>p. p_resource p = ws \<and> member (user_groups d) (u_id u) (p_owner p)) (t_group (workspace_tables d))"
        by (rule grp [OF Inr])
    qed (auto simp: member_def)
    also have "\<dots> = sql_join (t_group (workspace_tables d)) (user_groups d) ?C"
      by (rule sql_join_cong [where P = ?in]) simp_all
    finally show ?thesis
      using Inr by (simp add: get_user_groups_workspace_permission_def us get_highest_for_user_def)
  qed
  moreover have "list_workspace_regex_permissions d' uname = list_workspace_regex_permissions d uname"
    using same by (simp add: list_workspace_regex_permissions_def same_for_def)
  moreover have "list_workspace_group_regex_permissions_for_groups_ids d' gids =
      list_workspace_group_regex_permissions_for_groups_ids d gids" for gids
    using same by (simp add: list_workspace_group_regex_permissions_for_groups_ids_def same_for_def)
  ultimately show ?thesis
    by (simp add: lookup_workspace_permission_def workspace_sources_def resolve_user_direct_def resolve_group_direct_def
        resolve_user_regex_def resolve_group_regex_def ids Let_def cong: if_cong)
qed

lemma same_for_tables:
  "users d' = users d \<Longrightarrow> user_groups d' = user_groups d \<Longrightarrow> workspace_tables d' = workspace_tables d \<Longrightarrow> same_for d d' uname ws"
  by (simp add: same_for_def)

subsection \<open>What each write leaves alone\<close>

lemma insert_link_others:
  "insert_link ugs uid gid = Inr ugs' \<Longrightarrow> v \<noteq> uid \<Longrightarrow>
   filter (\<lambda>ug. ug_user_id ug = v) ugs' = filter (\<lambda>ug. ug_user_id ug = v) ugs"
  by (auto simp: insert_link_Inr)

lemma add_links_others:
  "add_links gs ugs uid ns = Inr ugs' \<Longrightarrow> v \<noteq> uid \<Longrightarrow>
   filter (\<lambda>ug. ug_user_id ug = v) ugs' = filter (\<lambda>ug. ug_user_id ug = v) ugs"
  by (induction ns arbitrary: ugs) (auto dest: insert_link_others)

lemma user_id_inj:
  "wf_users us \<Longrightarrow> u \<in> set us \<Longrightarrow> v \<in> set us \<Longrightarrow> u_username u \<noteq> u_username v \<Longrightarrow> u_id u \<noteq> u_id v"
  unfolding wf_users_def using unique_onD [of u_id us u v] by blast

lemma links_same_for:
  assumes wf: "wf_db d" and r: "get_user (users d) uname = Inr r" and other: "u \<noteq> uname"
    and links: "\<And>v. v \<noteq> u_id r \<Longrightarrow>
      filter (\<lambda>ug. ug_user_id ug = v) ugs = filter (\<lambda>ug. ug_user_id ug = v) (user_groups d)"
  shows "same_for d (d\<lparr>user_groups := ugs\<rparr>) u ws"
proof -
  have "u_id v \<noteq> u_id r" if "v \<in> set (users d)" "u_username v = u" for v
    using user_id_inj [OF wf_dbD(1) [OF wf] that(1), of r] that(2) other r get_user_Inr_iff [OF wf_dbD(1) [OF wf]] by auto
  with links show ?thesis by (simp add: same_for_def)
qed

lemma membership_same_for:
  assumes wf: "wf_db d" and other: "u \<noteq> uname"
  shows "set_user_groups d uname names = Inr d' \<Longrightarrow> same_for d d' u ws"
    and "store_add_user_to_group d uname gname = Inr d' \<Longrightarrow> same_for d d' u ws"
    and "store_remove_user_from_group d uname gname = Inr d' \<Longrightarrow> same_for d d' u ws"
proof -
  assume "set_user_groups d uname names = Inr d'"
  then obtain r ugs where r: "get_user (users d) uname = Inr r" "d' = d\<lparr>user_groups := ugs\<rparr>"
    and add: "add_links (groups d) (filter (\<lambda>x. x \<notin> set (list_user_groups (user_groups d) r)) (user_groups d)) (u_id r)
        (dict_fromkeys names) = Inr ugs"
    by (auto simp: set_user_groups_def set_groups_for_user_def filter_list_comp)
  have "filter (\<lambda>ug. ug_user_id ug = v) ugs = filter (\<lambda>ug. ug_user_id ug = v) (user_groups d)" if "v \<noteq> u_id r" for v
    using add_links_others [OF add that] that by (auto simp: set_list_user_groups intro!: filter_cong)
  with r show "same_for d d' u ws" using links_same_for [OF wf r(1) other] by blast
next
  assume "store_add_user_to_group d uname gname = Inr d'"
  then show "same_for d d' u ws"
    using links_same_for [OF wf _ other] insert_link_others
    by (fastforce simp: store_add_user_to_group_def add_user_to_group_def)
next
  assume "store_remove_user_from_group d uname gname = Inr d'"
  then obtain r and g :: group_row and ug where r: "get_user (users d) uname = Inr r"
    and one: "sql_one (filter (\<lambda>ug. ug_user_id ug = u_id r \<and> ug_group_id ug = g_id g) (user_groups d)) = Inr ug"
    and d': "d' = d\<lparr>user_groups := filter (\<lambda>x. ug_id x \<noteq> ug_id ug) (user_groups d)\<rparr>"
    unfolding store_remove_user_from_group_def remove_user_from_group_def put_tbl_def filter_list_comp bindE_eq_Inr sum.inject
    by blast
  have ug: "ug \<in> set (user_groups d)" "ug_user_id ug = u_id r" using one by (auto simp: filter_eq_Cons_iff)
  have "ug_id x \<noteq> ug_id ug" if "x \<in> set (user_groups d)" "ug_user_id x \<noteq> u_id r" for x
    using that ug wf_dbD(3) [OF wf] unfolding wf_user_groups_def by (metis unique_onD)
  then have "filter (\<lambda>ug. ug_user_id ug = v) (filter (\<lambda>x. ug_id x \<noteq> ug_id ug) (user_groups d)) =
      filter (\<lambda>ug. ug_user_id ug = v) (user_groups d)" if "v \<noteq> u_id r" for v
    using that by (auto intro!: filter_cong)
  with r d' show "same_for d d' u ws" using links_same_for [OF wf r(1) other] by blast
qed

text \<open>A grant on a workspace changes the rows of its key only.\<close>

lemma workspace_rows_others:
  assumes "\<not> Q ws uid"
  shows "workspace_create tbl ws uid perm = Inr (tbl', row) \<Longrightarrow>
      filter (\<lambda>p. Q (p_resource p) (p_owner p)) tbl' = filter (\<lambda>p. Q (p_resource p) (p_owner p)) tbl"
    and "workspace_update tbl ws uid perm = Inr (tbl', row) \<Longrightarrow>
      filter (\<lambda>p. Q (p_resource p) (p_owner p)) tbl' = filter (\<lambda>p. Q (p_resource p) (p_owner p)) tbl"
    and "workspace_delete tbl ws uid = Inr tbl' \<Longrightarrow>
      filter (\<lambda>p. Q (p_resource p) (p_owner p)) tbl' = filter (\<lambda>p. Q (p_resource p) (p_owner p)) tbl"
proof -
  have upd: "filter (\<lambda>p. Q (p_resource p) (p_owner p))
      (map (\<lambda>p. if p_resource p = ws \<and> p_owner p = uid then p\<lparr>p_permission := perm\<rparr> else p) xs) =
    filter (\<lambda>p. Q (p_resource p) (p_owner p)) xs" for xs :: "workspace_row list"
    using assms by (induction xs) auto
  show "workspace_create tbl ws uid perm = Inr (tbl', row) \<Longrightarrow>
      filter (\<lambda>p. Q (p_resource p) (p_owner p)) tbl' = filter (\<lambda>p. Q (p_resource p) (p_owner p)) tbl"
    using assms by (auto simp: workspace_create_def insert_permission_def Let_def split: if_splits)
  show "workspace_update tbl ws uid perm = Inr (tbl', row) \<Longrightarrow>
      filter (\<lambda>p. Q (p_resource p) (p_owner p)) tbl' = filter (\<lambda>p. Q (p_resource p) (p_owner p)) tbl"
    using upd by (auto simp: workspace_update_def)
  have del: "filter (\<lambda>p. Q (p_resource p) (p_owner p)) (filter (\<lambda>p. \<not> (p_resource p = ws \<and> p_owner p = uid)) xs) =
    filter (\<lambda>p. Q (p_resource p) (p_owner p)) xs" for xs :: "workspace_row list"
    using assms by (induction xs) auto
  show "workspace_delete tbl ws uid = Inr tbl' \<Longrightarrow>
      filter (\<lambda>p. Q (p_resource p) (p_owner p)) tbl' = filter (\<lambda>p. Q (p_resource p) (p_owner p)) tbl"
    by (auto simp only: workspace_delete_def filter_list_comp bindE_eq_Inr sum.inject del)
qed

lemma workspace_group_ops:
  "workspace_group_create = workspace_create" "workspace_group_update = workspace_update"
  "workspace_group_delete = workspace_delete"
  by (intro ext; simp add: workspace_group_create_def workspace_create_def workspace_group_update_def workspace_update_def
      workspace_group_delete_def workspace_delete_def)+

lemma user_grant_same_for:
  assumes wf: "wf_db d" and other: "(u, v) \<noteq> (uname, ws)"
    and op: "create_workspace_permission d ws uname perm = Inr (d', row) \<or>
      update_workspace_permission d ws uname perm = Inr (d', row) \<or> delete_workspace_permission d ws uname = Inr d'"
  shows "same_for d d' u v"
proof -
  obtain r tbl where r: "get_user (users d) uname = Inr r" and d': "d' = workspace_tables_update (t_user_update (\<lambda>_. tbl)) d"
    and rows: "\<And>Q. \<not> Q ws (u_id r) \<Longrightarrow>
      filter (\<lambda>p. Q (p_resource p) (p_owner p)) tbl = filter (\<lambda>p. Q (p_resource p) (p_owner p)) (t_user (workspace_tables d))"
    using op workspace_rows_others [of _ ws]
    by (auto simp: create_workspace_permission_def update_workspace_permission_def delete_workspace_permission_def)
  have "\<not> (ws = v \<and> u_id r = u_id q)" if "q \<in> set (users d)" "u_username q = u" for q
    using user_id_inj [OF wf_dbD(1) [OF wf] that(1), of r] that(2) other r get_user_Inr_iff [OF wf_dbD(1) [OF wf]] by auto
  then have "filter (\<lambda>p. p_resource p = v \<and> p_owner p = u_id q) tbl =
      filter (\<lambda>p. p_resource p = v \<and> p_owner p = u_id q) (t_user (workspace_tables d))"
    if "q \<in> set (users d)" "u_username q = u" for q
    using rows [of "\<lambda>a b. a = v \<and> b = u_id q"] that by blast
  with d' show ?thesis by (simp add: same_for_def)
qed

lemma group_grant_same_for:
  assumes wf: "wf_db d" and g: "get_group (groups d) gname = Inr g"
    and other: "v \<noteq> ws \<or> (\<forall>q\<in>set (users d). u_username q = u \<longrightarrow> \<not> member (user_groups d) (u_id q) (g_id g))"
    and op: "create_workspace_group_permission d ws gname perm = Inr (d', row) \<or>
      update_workspace_group_permission d ws gname perm = Inr (d', row) \<or> delete_workspace_group_permission d ws gname = Inr d'"
  shows "same_for d d' u v"
proof -
  obtain tbl where d': "d' = workspace_tables_update (t_group_update (\<lambda>_. tbl)) d"
    and rows: "\<And>Q. \<not> Q ws (g_id g) \<Longrightarrow>
      filter (\<lambda>p. Q (p_resource p) (p_owner p)) tbl = filter (\<lambda>p. Q (p_resource p) (p_owner p)) (t_group (workspace_tables d))"
    using op g workspace_rows_others [of _ ws]
    by (auto simp: create_workspace_group_permission_def update_workspace_group_permission_def
        delete_workspace_group_permission_def workspace_group_ops)
  have "filter (\<lambda>p. p_resource p = v \<and> member (user_groups d) (u_id q) (p_owner p)) tbl =
      filter (\<lambda>p. p_resource p = v \<and> member (user_groups d) (u_id q) (p_owner p)) (t_group (workspace_tables d))"
    if "q \<in> set (users d)" "u_username q = u" for q
    using rows [of "\<lambda>a b. a = v \<and> member (user_groups d) (u_id q) b"] that other by blast
  with d' show ?thesis by (simp add: same_for_def)
qed

end
