(* ===== verification/Cache_Coherence.thy ===== *)
theory Cache_Coherence
  imports Cached_Store
begin

section \<open>Coherence of the permission caches under every decorated write\<close>

text \<open>
  The state machine of one worker: requests to the resolvers, the decorated writes of the store, the
  handlers of the workspace routers, and the loss of cache entries, in any order. The invariant is
  that the database is well formed and both caches are coherent with it, so that a cached answer is
  the answer the database gives now. Users and groups are created and deleted outside this machine:
  the store does not decorate those methods.
\<close>

subsection \<open>Results of decorated methods\<close>

lemma after_store_method:
  assumes "after_success f (wrap_with_cache_flush env (store_method m)) s = (r, s')"
  obtains (raised) e where "r = Inl e" "s' = s"
  | (returned) d' x where "m (a_db s) = Inr (d', x)" "r = Inr x" "s' = f (flush_permission_cache env (s\<lparr>a_db := d'\<rparr>))"
  using assms by (auto simp: after_success_def wrap_with_cache_flush_def store_method_def split: sum.splits prod.splits)

lemma after_store_procedure:
  assumes "after_success f (wrap_with_cache_flush env (store_procedure m)) s = (r, s')"
  obtains (raised) e where "r = Inl e" "s' = s"
  | (returned) d' where "m (a_db s) = Inr d'" "r = Inr ()" "s' = f (flush_permission_cache env (s\<lparr>a_db := d'\<rparr>))"
  using assms by (auto simp: after_success_def wrap_with_cache_flush_def store_procedure_def split: sum.splits prod.splits)

lemma after_success_twice:
  "after_success f (after_success g m) = after_success (\<lambda>s. f (g s)) m"
  by (rule ext) (auto simp: after_success_def split: prod.splits sum.splits)

lemma guardedE:
  assumes "guarded guard m s = (r, s')"
  obtains (denied) "s' = s" | (allowed) "m s = (r, s')"
  using assms by (auto simp: guarded_def split: sum.splits)

lemma validatedE:
  assumes "validated perm m s = (r, s')"
  obtains (refused) "s' = s" | (accepted) "m s = (r, s')"
  using assms by (auto simp: validated_def split: sum.splits)

text \<open>A decorated write that raises changes nothing, and one that returns has flushed the permission cache.\<close>

lemma flush_after_wrap:
  "flush_after env (wrap_with_cache_flush env m) = wrap_with_workspace_flush env (wrap_with_cache_flush env m)"
  by (simp add: flush_after_def wrap_with_workspace_flush_def)

subsection \<open>Steps\<close>

inductive app_step :: "('c, 'w) env \<Rightarrow> ('c, 'w) app \<Rightarrow> ('c, 'w) app \<Rightarrow> bool" for env where
  st_resolve: "resolve_permission (env\<lparr>e_workspace := ws\<rparr>) s rtype rid uname kw = (pr, s') \<Longrightarrow> plain_workspace ws \<Longrightarrow>
     colon_free rid \<Longrightarrow> rtype \<in> set resource_types \<Longrightarrow> app_step env s s'"
| st_new_experiment: "effective_new_experiment_permission (env\<lparr>e_workspace := ws\<rparr>) s nm uname = (pr, s') \<Longrightarrow>
     plain_workspace ws \<Longrightarrow> app_step env s s'"
| st_new_model: "effective_new_registered_model_permission (env\<lparr>e_workspace := ws\<rparr>) s nm uname = (pr, s') \<Longrightarrow>
     plain_workspace ws \<Longrightarrow> app_step env s s'"
| st_invalidate: "app_step env s (invalidate_permission_cache (env\<lparr>e_workspace := ws\<rparr>) s rtype rid uname w)"
| st_flush: "app_step env s (flush_permission_cache env s)"
| st_lost: "c_get (e_pc env) c \<subseteq>\<^sub>m c_get (e_pc env) (a_pc s) \<Longrightarrow> c_get (e_wc env) w \<subseteq>\<^sub>m c_get (e_wc env) (a_wc s) \<Longrightarrow>
     app_step env s (s\<lparr>a_pc := c, a_wc := w\<rparr>)"
| st_permission_write: "permission_write (a_db s) d' \<Longrightarrow> app_step env s (flush_permission_cache env (s\<lparr>a_db := d'\<rparr>))"
| st_set_user_groups: "cached_set_user_groups env uname names s = (r, s') \<Longrightarrow> uname \<noteq> [] \<Longrightarrow> app_step env s s'"
| st_add_user_to_group: "cached_add_user_to_group env uname gname s = (r, s') \<Longrightarrow> uname \<noteq> [] \<Longrightarrow> app_step env s s'"
| st_remove_user_from_group: "cached_remove_user_from_group env uname gname s = (r, s') \<Longrightarrow> uname \<noteq> [] \<Longrightarrow> app_step env s s'"
| st_wipe_workspace: "cached_wipe_workspace_permissions env ws s = (n, s') \<Longrightarrow> app_step env s s'"
| st_create_workspace_user: "create_workspace_user_permission guard env ws uname perm s = (rr, s') \<Longrightarrow> uname \<noteq> [] \<Longrightarrow> app_step env s s'"
| st_update_workspace_user: "update_workspace_user_permission guard env ws uname perm s = (rr, s') \<Longrightarrow> uname \<noteq> [] \<Longrightarrow> app_step env s s'"
| st_delete_workspace_user: "delete_workspace_user_permission guard env ws uname s = (r, s') \<Longrightarrow> uname \<noteq> [] \<Longrightarrow> app_step env s s'"
| st_create_workspace_group: "router_create_workspace_group_permission guard env ws gname perm s = (rr, s') \<Longrightarrow> gname \<noteq> [] \<Longrightarrow> app_step env s s'"
| st_update_workspace_group: "router_update_workspace_group_permission guard env ws gname perm s = (rr, s') \<Longrightarrow> gname \<noteq> [] \<Longrightarrow> app_step env s s'"
| st_delete_workspace_group: "router_delete_workspace_group_permission guard env ws gname s = (r, s') \<Longrightarrow> gname \<noteq> [] \<Longrightarrow> app_step env s s'"
| st_create_user_regex: "create_user_regex_permission rc guard env rx prty perm uname s = (rx_row, s') \<Longrightarrow> app_step env s s'"
| st_update_user_regex: "update_user_regex_permission rc guard env rx prty perm uname i s = (rx_row, s') \<Longrightarrow> app_step env s s'"
| st_delete_user_regex: "delete_user_regex_permission guard env uname i s = (r, s') \<Longrightarrow> app_step env s s'"
| st_create_group_regex: "create_group_regex_permission rc guard env gname rx prty perm s = (rx_row, s') \<Longrightarrow> app_step env s s'"
| st_update_group_regex: "update_group_regex_permission rc guard env i gname rx prty perm s = (rx_row, s') \<Longrightarrow> app_step env s s'"
| st_delete_group_regex: "delete_group_regex_permission guard env gname i s = (r, s') \<Longrightarrow> app_step env s s'"

inductive reachable :: "('c, 'w) env \<Rightarrow> ('c, 'w) app \<Rightarrow> ('c, 'w) app \<Rightarrow> bool" for env s0 where
  reach_start: "reachable env s0 s0"
| reach_step: "reachable env s0 s \<Longrightarrow> app_step env s s' \<Longrightarrow> reachable env s0 s'"

definition app_inv :: "('c, 'w) env \<Rightarrow> ('c, 'w) app \<Rightarrow> bool" where
  "app_inv env s \<longleftrightarrow> wf_db (a_db s) \<and> coherent env s"

lemma coherent_workspace [simp]: "coherent (env\<lparr>e_workspace := ws\<rparr>) s = coherent env s"
  by (simp add: coherent_def pc_coherent_def)

lemma app_inv_simps [simp]:
  "a_db (flush_permission_cache env s) = a_db s"
  "a_wc (flush_permission_cache env s) = a_wc s"
  "a_pc (flush_permission_cache env s) = c_clear (e_pc env) (a_pc s)"
  by (simp_all add: flush_permission_cache_def)

subsection \<open>What the invalidations leave\<close>

context resolver_caches
begin

lemma ws_keep:
  assumes "ws_coherent cfg re_match wc d w" and "wf_db d" and "c_get wc w' \<subseteq>\<^sub>m c_get wc w"
    and "\<And>u v p. MLFLOW_ENABLE_WORKSPACES cfg \<Longrightarrow> v \<noteq> [] \<Longrightarrow> colon_free v \<Longrightarrow>
      c_get wc w' (workspace_cache_key u v) = Some p \<Longrightarrow> same_for d d' u v"
  shows "ws_coherent cfg re_match wc d' w'"
proof (rule ws_coherentI)
  fix u v p
  assume v: "MLFLOW_ENABLE_WORKSPACES cfg" "v \<noteq> []" "colon_free v" and hit: "c_get wc w' (workspace_cache_key u v) = Some p"
  from ws_coherentD [OF assms(1) v map_leD [OF assms(3) hit]] lookup_same_for [OF wf_dbD(1) [OF assms(2)] assms(4) [OF v hit]]
  show "lookup_workspace_permission cfg re_match d' u v = Some p" by metis
qed

lemma get_leI: "(\<And>k p. c_get wc w' k = Some p \<Longrightarrow> c_get wc w k = Some p) \<Longrightarrow> c_get wc w' \<subseteq>\<^sub>m c_get wc w"
  by (auto simp: map_le_def dom_def)

lemma ws_user_entries:
  assumes "ws_coherent cfg re_match wc d w" and "wf_db d" and "\<And>u v. u \<noteq> uname \<Longrightarrow> same_for d d' u v"
  shows "ws_coherent cfg re_match wc d' (invalidate_user_workspace_entries cfg wc w uname)"
proof (rule ws_keep [OF assms(1,2)])
  show "c_get wc (invalidate_user_workspace_entries cfg wc w uname) \<subseteq>\<^sub>m c_get wc w"
    by (rule get_leI) (auto simp: invalidate_user_workspace_entries_def dest: wc.get_delete_prefixD split: if_splits)
next
  fix u v p
  assume "MLFLOW_ENABLE_WORKSPACES cfg"
    and "c_get wc (invalidate_user_workspace_entries cfg wc w uname) (workspace_cache_key u v) = Some p"
  then have "u \<noteq> uname"
    using workspace_cache_key_prefix by (auto simp: invalidate_user_workspace_entries_def dest: wc.get_delete_prefixD)
  then show "same_for d d' u v" by (rule assms(3))
qed

lemma ws_entry:
  assumes "ws_coherent cfg re_match wc d w" and "wf_db d" and "\<And>u v. (u, v) \<noteq> (uname, ws) \<Longrightarrow> same_for d d' u v"
  shows "ws_coherent cfg re_match wc d' (invalidate_workspace_permission wc w uname ws)"
proof (rule ws_keep [OF assms(1,2)])
  show "c_get wc (invalidate_workspace_permission wc w uname ws) \<subseteq>\<^sub>m c_get wc w"
    by (rule get_leI) (auto simp: invalidate_workspace_permission_def dest: wc.get_deleteD)
next
  fix u v p
  assume "c_get wc (invalidate_workspace_permission wc w uname ws) (workspace_cache_key u v) = Some p"
  then have "(u, v) \<noteq> (uname, ws)" by (auto simp: invalidate_workspace_permission_def dest: wc.get_deleteD)
  then show "same_for d d' u v" by (rule assms(3))
qed

lemma ws_flushed: "ws_coherent cfg re_match wc d (flush_workspace_cache wc w)"
  by (simp add: ws_coherent_def flush_workspace_cache_def)

text \<open>A grant to a group is forgotten for every member of the group.\<close>

lemma ws_group_entries:
  assumes "ws_coherent cfg re_match wc d w" and "wf_db d" and "same_principals d d'" and "get_group (groups d) gname = Inr g"
    and "\<And>u v. v \<noteq> ws \<or> (\<forall>q\<in>set (users d). u_username q = u \<longrightarrow> \<not> member (user_groups d) (u_id q) (g_id g)) \<Longrightarrow>
      same_for d d' u v"
  shows "ws_coherent cfg re_match wc d' (invalidate_group_workspace_permission cfg wc d' w gname ws)"
proof -
  define members where "members = filter (\<lambda>u. u_id u \<in> set [ug_user_id ug. ug \<leftarrow> user_groups d, ug_group_id ug = g_id g]) (users d)"
  have users: "get_group_users d' gname = Inr members"
    using assms(3,4) by (simp add: get_group_users_def list_group_members_def same_principals_def members_def filter_list_comp)
  have fold: "fold (\<lambda>u c. c_delete wc c (workspace_cache_key (u_username u) ws)) members w =
      fold (\<lambda>k c. c_delete wc c k) (map (\<lambda>u. workspace_cache_key (u_username u) ws) members) w"
    by (simp add: fold_map comp_def)
  show ?thesis
  proof (rule ws_keep [OF assms(1,2)])
    show "c_get wc (invalidate_group_workspace_permission cfg wc d' w gname ws) \<subseteq>\<^sub>m c_get wc w"
      by (rule get_leI) (auto simp: invalidate_group_workspace_permission_def users fold dest: wc.fold_deleteD split: if_splits)
  next
    fix u v p
    assume "MLFLOW_ENABLE_WORKSPACES cfg"
      and "c_get wc (invalidate_group_workspace_permission cfg wc d' w gname ws) (workspace_cache_key u v) = Some p"
    then have "workspace_cache_key u v \<notin> set (map (\<lambda>u. workspace_cache_key (u_username u) ws) members)"
      by (auto simp: invalidate_group_workspace_permission_def users fold dest: wc.fold_deleteD)
    then have "v \<noteq> ws \<or> (\<forall>q\<in>set (users d). u_username q = u \<longrightarrow> \<not> member (user_groups d) (u_id q) (g_id g))"
      by (force simp: members_def member_def)
    then show "same_for d d' u v" by (rule assms(5))
  qed
qed

text \<open>After a decorated write: the permission cache is empty, so only the workspace cache is left to check.\<close>

lemma flushed_inv:
  assumes "e_pc env = pc" and "e_wc env = wc" and "wf_db d'"
    and "ws_coherent (e_config env) (e_re_match env) wc d' w"
  shows "app_inv env ((flush_permission_cache env (s\<lparr>a_db := d'\<rparr>))\<lparr>a_wc := w\<rparr>)"
  using assms cleared_coherent [OF assms(1)] by (simp add: app_inv_def coherent_def flush_permission_cache_def)

lemma invalidated_le: "c_get wc (invalidate_workspace_permission wc w uname ws) \<subseteq>\<^sub>m c_get wc w"
  by (rule get_leI) (auto simp: invalidate_workspace_permission_def dest: wc.get_deleteD)

lemma membership_inv:
  assumes "e_pc env = pc" and "e_wc env = wc" and "app_inv env s" and "uname \<noteq> []"
    and run: "wrap_with_membership_invalidation env uname (wrap_with_cache_flush env (store_procedure m)) s = (r, s')"
    and op: "\<And>d'. m (a_db s) = Inr d' \<Longrightarrow> wf_db d' \<and> (\<forall>u v. u \<noteq> uname \<longrightarrow> same_for (a_db s) d' u v)"
  shows "app_inv env s'"
  using run unfolding wrap_with_membership_invalidation_def
proof (cases rule: after_store_procedure)
  case (returned d')
  have "ws_coherent (e_config env) (e_re_match env) wc d' (invalidate_user_workspace_entries (e_config env) wc (a_wc s) uname)"
    using assms(2,3) op [OF returned(1)] by (intro ws_user_entries) (auto simp: app_inv_def coherent_def)
  with op [OF returned(1)] flushed_inv [OF assms(1,2)] returned(3) assms(2,4) show ?thesis by (simp add: flush_permission_cache_def)
qed (use assms(3) in simp)

text \<open>\<open>result\<close> is the row of a grant or the unit of a removal.\<close>

lemma user_grant_inv:
  assumes "e_pc env = pc" and "e_wc env = wc" and "app_inv env s"
    and s': "s' = (let t = flush_permission_cache env (s\<lparr>a_db := d'\<rparr>);
        t' = (if ws = [] \<or> uname = [] then t else t\<lparr>a_wc := invalidate_workspace_permission wc (a_wc t) uname ws\<rparr>)
      in t'\<lparr>a_wc := invalidate_workspace_permission wc (a_wc t') uname ws\<rparr>)"
    and "wf_db d'" and "\<And>u v. (u, v) \<noteq> (uname, ws) \<Longrightarrow> same_for (a_db s) d' u v"
  shows "app_inv env s'"
proof -
  define w where "w = (if ws = [] \<or> uname = [] then a_wc s else invalidate_workspace_permission wc (a_wc s) uname ws)"
  have wsc: "ws_coherent (e_config env) (e_re_match env) wc (a_db s) (a_wc s)" and "wf_db (a_db s)"
    using assms(2,3) by (auto simp: app_inv_def coherent_def)
  then have "ws_coherent (e_config env) (e_re_match env) wc (a_db s) w" "wf_db (a_db s)"
    using ws_coherent_le [OF wsc invalidated_le] by (simp_all add: w_def)
  from ws_entry [OF this assms(6)]
  have "app_inv env ((flush_permission_cache env (s\<lparr>a_db := d'\<rparr>))\<lparr>a_wc := invalidate_workspace_permission wc w uname ws\<rparr>)"
    using flushed_inv [OF assms(1,2,5)] by blast
  with s' show ?thesis by (cases "ws = [] \<or> uname = []") (simp_all add: w_def flush_permission_cache_def Let_def)
qed

lemma group_grant_inv:
  assumes "e_pc env = pc" and "e_wc env = wc" and "app_inv env s" and "gname \<noteq> []"
    and s': "s' = (let t = flush_permission_cache env (s\<lparr>a_db := d'\<rparr>)
      in if ws = [] \<or> gname = [] then t
         else t\<lparr>a_wc := invalidate_group_workspace_permission (e_config env) wc (a_db t) (a_wc t) gname ws\<rparr>)"
    and "wf_db d'" and "same_principals (a_db s) d'" and g: "get_group (groups (a_db s)) gname = Inr g"
    and same: "\<And>u v. v \<noteq> ws \<or> (\<forall>q\<in>set (users (a_db s)). u_username q = u \<longrightarrow> \<not> member (user_groups (a_db s)) (u_id q) (g_id g)) \<Longrightarrow>
      same_for (a_db s) d' u v"
  shows "app_inv env s'"
proof -
  have wsc: "ws_coherent (e_config env) (e_re_match env) wc (a_db s) (a_wc s)" "wf_db (a_db s)"
    using assms(2,3) by (auto simp: app_inv_def coherent_def)
  define w where "w = (if ws = [] then a_wc s else invalidate_group_workspace_permission (e_config env) wc d' (a_wc s) gname ws)"
  have "ws_coherent (e_config env) (e_re_match env) wc d' w"
  proof (cases "ws = []")
    case True
    then show ?thesis using same by (auto simp: w_def intro!: ws_keep [OF wsc])
  next
    case False
    with ws_group_entries [OF wsc assms(7) g same] show ?thesis by (simp add: w_def)
  qed
  from flushed_inv [OF assms(1,2,6) this, of s] s' assms(4) show ?thesis
    by (cases "ws = []"; cases s) (simp_all add: w_def flush_permission_cache_def Let_def)
qed

lemma flush_both_inv:
  assumes "e_pc env = pc" and "e_wc env = wc" and "wf_db d'"
  shows "app_inv env ((flush_permission_cache env (s\<lparr>a_db := d'\<rparr>))\<lparr>a_wc := flush_workspace_cache wc w\<rparr>)"
  by (rule flushed_inv [OF assms ws_flushed])

text \<open>Each step keeps the invariant.\<close>

lemma resolver_step_inv:
  assumes env: "e_pc env = pc" "e_wc env = wc" and inv: "app_inv env s" and ws: "plain_workspace ws"
  shows "resolve_permission (env\<lparr>e_workspace := ws\<rparr>) s rtype rid uname kw = (r, s') \<Longrightarrow> colon_free rid \<Longrightarrow>
      rtype \<in> set resource_types \<Longrightarrow> app_inv env s'"
    and "effective_new_experiment_permission (env\<lparr>e_workspace := ws\<rparr>) s nm uname = (r, s') \<Longrightarrow> app_inv env s'"
    and "effective_new_registered_model_permission (env\<lparr>e_workspace := ws\<rparr>) s nm uname = (r, s') \<Longrightarrow> app_inv env s'"
proof -
  assume "resolve_permission (env\<lparr>e_workspace := ws\<rparr>) s rtype rid uname kw = (r, s')" "colon_free rid" "rtype \<in> set resource_types"
  from resolve_decision [OF _ _ _ this(2,3) _ this(1)] env ws inv show "app_inv env s'" by (simp add: app_inv_def)
next
  have new: "app_inv env s'"
    if "(case x of Inl e \<Rightarrow> (Inl e, s) | Inr q \<Rightarrow>
        (let (result, w) = apply_workspace_fallback (env\<lparr>e_workspace := ws\<rparr>) (a_db s) (a_wc s) q uname in (Inr result, s\<lparr>a_wc := w\<rparr>))) = (r, s')"
    for x
  proof (cases x)
    case (Inr q)
    obtain result w where run: "apply_workspace_fallback (env\<lparr>e_workspace := ws\<rparr>) (a_db s) (a_wc s) q uname = (result, w)" by fastforce
    from fallback_decision [OF _ _ _ run] env ws inv have "ws_coherent (e_config env) (e_re_match env) wc (a_db s) w"
      by (simp add: app_inv_def coherent_def)
    with that Inr run inv env show ?thesis by (auto simp: app_inv_def coherent_def)
  qed (use that inv in simp)
  show "effective_new_experiment_permission (env\<lparr>e_workspace := ws\<rparr>) s nm uname = (r, s') \<Longrightarrow> app_inv env s'"
    unfolding effective_new_experiment_permission_def by (rule new)
  show "effective_new_registered_model_permission (env\<lparr>e_workspace := ws\<rparr>) s nm uname = (r, s') \<Longrightarrow> app_inv env s'"
    unfolding effective_new_registered_model_permission_def by (rule new)
qed

lemma cache_step_inv:
  assumes env: "e_pc env = pc" "e_wc env = wc" and inv: "app_inv env s"
  shows "app_inv env (invalidate_permission_cache (env\<lparr>e_workspace := ws\<rparr>) s rtype rid uname w)"
    and "app_inv env (flush_permission_cache env s)"
    and "c_get (e_pc env) c \<subseteq>\<^sub>m c_get (e_pc env) (a_pc s) \<Longrightarrow> c_get (e_wc env) w' \<subseteq>\<^sub>m c_get (e_wc env) (a_wc s) \<Longrightarrow>
      app_inv env (s\<lparr>a_pc := c, a_wc := w'\<rparr>)"
proof -
  have "c_get pc (c_delete pc (a_pc s) k) \<subseteq>\<^sub>m c_get pc (a_pc s)" for k
    by (auto simp: map_le_def dom_def) (metis pc.get_deleteD)
  with inv env show "app_inv env (invalidate_permission_cache (env\<lparr>e_workspace := ws\<rparr>) s rtype rid uname w)"
    unfolding app_inv_def coherent_def invalidate_permission_cache_def by (auto intro: pc_coherent_le)
  show "app_inv env (flush_permission_cache env s)"
    using inv cleared_coherent [OF env(1)] env by (simp add: app_inv_def coherent_def flush_permission_cache_def)
  show "app_inv env (s\<lparr>a_pc := c, a_wc := w'\<rparr>)"
    if "c_get (e_pc env) c \<subseteq>\<^sub>m c_get (e_pc env) (a_pc s)" "c_get (e_wc env) w' \<subseteq>\<^sub>m c_get (e_wc env) (a_wc s)"
    using inv that unfolding app_inv_def coherent_def by (auto intro: pc_coherent_le ws_coherent_le)
qed

lemma permission_write_inv:
  assumes "e_pc env = pc" "e_wc env = wc" and "app_inv env s" and "permission_write (a_db s) d'"
  shows "app_inv env (flush_permission_cache env (s\<lparr>a_db := d'\<rparr>))"
proof -
  have same: "same_for (a_db s) d' u v" for u v
    using permission_write_principals [OF assms(4)] permission_write_workspaces [OF assms(4)]
    unfolding same_principals_def by (intro same_for_tables) blast+
  have "ws_coherent (e_config env) (e_re_match env) wc (a_db s) (a_wc s)" "wf_db (a_db s)"
    using assms(2,3) by (auto simp: app_inv_def coherent_def)
  then have "ws_coherent (e_config env) (e_re_match env) wc d' (a_wc s)"
    by (rule ws_keep) (rule map_le_refl, rule same)
  from flushed_inv [OF assms(1,2) _ this, of s] permission_write_wf [OF assms(4)] assms(3) show ?thesis
    by (cases s) (simp add: app_inv_def flush_permission_cache_def)
qed

lemma membership_step_inv:
  assumes "e_pc env = pc" "e_wc env = wc" and inv: "app_inv env s" and "uname \<noteq> []"
  shows "cached_set_user_groups env uname names s = (r, s') \<Longrightarrow> app_inv env s'"
    and "cached_add_user_to_group env uname gname s = (r, s') \<Longrightarrow> app_inv env s'"
    and "cached_remove_user_from_group env uname gname s = (r, s') \<Longrightarrow> app_inv env s'"
proof -
  from inv have wf: "wf_db (a_db s)" by (simp add: app_inv_def)
  note step = membership_inv [OF assms]
  show "cached_set_user_groups env uname names s = (r, s') \<Longrightarrow> app_inv env s'"
    unfolding cached_set_user_groups_def using wf membership_writes_wf(3) membership_same_for(1) by (elim step) blast
  show "cached_add_user_to_group env uname gname s = (r, s') \<Longrightarrow> app_inv env s'"
    unfolding cached_add_user_to_group_def using wf membership_writes_wf(1) membership_same_for(2) by (elim step) blast
  show "cached_remove_user_from_group env uname gname s = (r, s') \<Longrightarrow> app_inv env s'"
    unfolding cached_remove_user_from_group_def using wf membership_writes_wf(2) membership_same_for(3) by (elim step) blast
qed

lemma wipe_step_inv:
  assumes "e_pc env = pc" "e_wc env = wc" and "app_inv env s" and run: "cached_wipe_workspace_permissions env ws s = (r, s')"
  shows "app_inv env s'"
  using run unfolding cached_wipe_workspace_permissions_def wrap_with_workspace_flush_def
proof (cases rule: after_store_method)
  case (returned d' n)
  with flush_both_inv [OF assms(1,2) wipe_workspace_permissions_wf [OF returned(1)], where s = s] assms(2,3) show ?thesis
    by (simp add: app_inv_def)
qed (use assms(3) in simp)

text \<open>The handlers: a denied or refused request changes nothing.\<close>

lemma router_method_inv:
  assumes "guarded guard (validated perm (after_success f (wrap_with_cache_flush env (store_method m)))) s = (r, s')"
    and "app_inv env s"
    and "\<And>d' x. m (a_db s) = Inr (d', x) \<Longrightarrow> app_inv env (f (flush_permission_cache env (s\<lparr>a_db := d'\<rparr>)))"
  shows "app_inv env s'"
  using assms(1)
proof (cases rule: guardedE)
  case allowed
  then show ?thesis
  proof (cases rule: validatedE)
    case accepted
    then show ?thesis using assms(2,3) by (cases rule: after_store_method) auto
  qed (use assms(2) in simp)
qed (use assms(2) in simp)

lemma router_procedure_inv:
  assumes "guarded guard (after_success f (wrap_with_cache_flush env (store_procedure m))) s = (r, s')"
    and "app_inv env s"
    and "\<And>d'. m (a_db s) = Inr d' \<Longrightarrow> app_inv env (f (flush_permission_cache env (s\<lparr>a_db := d'\<rparr>)))"
  shows "app_inv env s'"
  using assms(1)
proof (cases rule: guardedE)
  case allowed
  then show ?thesis using assms(2,3) by (cases rule: after_store_procedure) auto
qed (use assms(2) in simp)

lemma workspace_regex_step_inv:
  assumes env: "e_pc env = pc" "e_wc env = wc" and inv: "app_inv env s"
  shows "create_user_regex_permission rc guard env rx prty perm uname s = (row, s') \<Longrightarrow> app_inv env s'"
    and "update_user_regex_permission rc guard env rx prty perm uname i s = (row, s') \<Longrightarrow> app_inv env s'"
    and "delete_user_regex_permission guard env uname i s = (r, s') \<Longrightarrow> app_inv env s'"
    and "create_group_regex_permission rc guard env gname rx prty perm s = (row, s') \<Longrightarrow> app_inv env s'"
    and "update_group_regex_permission rc guard env i gname rx prty perm s = (row, s') \<Longrightarrow> app_inv env s'"
    and "delete_group_regex_permission guard env gname i s = (r, s') \<Longrightarrow> app_inv env s'"
proof -
  from inv have wf: "wf_db (a_db s)" by (simp add: app_inv_def)
  have flush: "app_inv env ((flush_permission_cache env (s\<lparr>a_db := d'\<rparr>))
      \<lparr>a_wc := flush_workspace_cache (e_wc env) (a_wc (flush_permission_cache env (s\<lparr>a_db := d'\<rparr>)))\<rparr>)"
    if "workspace_regex_write (a_db s) d'" for d'
    using flush_both_inv [OF env, where d' = d' and s = s] workspace_regex_write_wf [OF that wf] env(2) by simp
  note m = router_method_inv [OF _ inv] and p = router_procedure_inv [OF _ inv]
  show "create_user_regex_permission rc guard env rx prty perm uname s = (row, s') \<Longrightarrow> app_inv env s'"
    unfolding create_user_regex_permission_def flush_after_def by (erule m) (rule flush, erule workspace_regex_write.intros)
  show "update_user_regex_permission rc guard env rx prty perm uname i s = (row, s') \<Longrightarrow> app_inv env s'"
    unfolding update_user_regex_permission_def flush_after_def by (erule m) (rule flush, erule workspace_regex_write.intros)
  show "delete_user_regex_permission guard env uname i s = (r, s') \<Longrightarrow> app_inv env s'"
    unfolding delete_user_regex_permission_def flush_after_def by (erule p) (rule flush, erule workspace_regex_write.intros)
  show "create_group_regex_permission rc guard env gname rx prty perm s = (row, s') \<Longrightarrow> app_inv env s'"
    unfolding create_group_regex_permission_def flush_after_def by (erule m) (rule flush, erule workspace_regex_write.intros)
  show "update_group_regex_permission rc guard env i gname rx prty perm s = (row, s') \<Longrightarrow> app_inv env s'"
    unfolding update_group_regex_permission_def flush_after_def by (erule m) (rule flush, erule workspace_regex_write.intros)
  show "delete_group_regex_permission guard env gname i s = (r, s') \<Longrightarrow> app_inv env s'"
    unfolding delete_group_regex_permission_def flush_after_def by (erule p) (rule flush, erule workspace_regex_write.intros)
qed

lemma workspace_user_step_inv:
  assumes env: "e_pc env = pc" "e_wc env = wc" and inv: "app_inv env s"
  shows "create_workspace_user_permission guard env ws uname perm s = (row, s') \<Longrightarrow> app_inv env s'"
    and "update_workspace_user_permission guard env ws uname perm s = (row, s') \<Longrightarrow> app_inv env s'"
    and "delete_workspace_user_permission guard env ws uname s = (r, s') \<Longrightarrow> app_inv env s'"
proof -
  from inv have wf: "wf_db (a_db s)" by (simp add: app_inv_def)
  note defs = wrap_with_workspace_user_invalidation_def after_success_twice
  note grant = user_grant_inv [OF env inv, where ws = ws and uname = uname]
  show "create_workspace_user_permission guard env ws uname perm s = (row, s') \<Longrightarrow> app_inv env s'"
    unfolding create_workspace_user_permission_def cached_create_workspace_permission_def defs
    using workspace_writes_wf(1) wf user_grant_same_for [OF wf]
    by (elim router_method_inv [OF _ inv], intro grant) (simp add: Let_def env(2), blast+)
  show "update_workspace_user_permission guard env ws uname perm s = (row, s') \<Longrightarrow> app_inv env s'"
    unfolding update_workspace_user_permission_def cached_update_workspace_permission_def defs
    using workspace_writes_wf(2) wf user_grant_same_for [OF wf]
    by (elim router_method_inv [OF _ inv], intro grant) (simp add: Let_def env(2), blast+)
  show "delete_workspace_user_permission guard env ws uname s = (r, s') \<Longrightarrow> app_inv env s'"
    unfolding delete_workspace_user_permission_def cached_delete_workspace_permission_def defs
    using workspace_writes_wf(3) wf user_grant_same_for [OF wf]
    by (elim router_procedure_inv [OF _ inv], intro grant) (simp add: Let_def env(2), blast+)
qed

lemma group_write_facts:
  assumes "create_workspace_group_permission d ws gname perm = Inr (d', row) \<or>
      update_workspace_group_permission d ws gname perm = Inr (d', row) \<or> delete_workspace_group_permission d ws gname = Inr d'"
    and "wf_db d"
  shows "wf_db d' \<and> same_principals d d' \<and> (\<exists>g. get_group (groups d) gname = Inr g)"
proof -
  have "wf_db d'" using assms workspace_writes_wf(4-6) by blast
  moreover have "same_principals d d' \<and> (\<exists>g. get_group (groups d) gname = Inr g)"
    using assms(1)
    by (auto simp: create_workspace_group_permission_def update_workspace_group_permission_def delete_workspace_group_permission_def)
  ultimately show ?thesis by blast
qed

lemma workspace_group_write_inv:
  assumes env: "e_pc env = pc" "e_wc env = wc" and inv: "app_inv env s" and "gname \<noteq> []"
    and op: "create_workspace_group_permission (a_db s) ws gname perm = Inr (d', row) \<or>
      update_workspace_group_permission (a_db s) ws gname perm = Inr (d', row) \<or>
      delete_workspace_group_permission (a_db s) ws gname = Inr d'"
  shows "app_inv env (let t = flush_permission_cache env (s\<lparr>a_db := d'\<rparr>)
      in if ws = [] \<or> gname = [] then t
         else t\<lparr>a_wc := invalidate_group_workspace_permission (e_config env) wc (a_db t) (a_wc t) gname ws\<rparr>)"
proof -
  from inv have wf: "wf_db (a_db s)" by (simp add: app_inv_def)
  from group_write_facts [OF op wf] obtain g where g: "get_group (groups (a_db s)) gname = Inr g"
    and facts: "wf_db d'" "same_principals (a_db s) d'" by blast
  show ?thesis
    by (rule group_grant_inv [OF env inv assms(4) refl facts g]) (rule group_grant_same_for [OF wf g _ op])
qed

lemma workspace_group_step_inv:
  assumes env: "e_pc env = pc" "e_wc env = wc" and inv: "app_inv env s" and "gname \<noteq> []"
  shows "router_create_workspace_group_permission guard env ws gname perm s = (row, s') \<Longrightarrow> app_inv env s'"
    and "router_update_workspace_group_permission guard env ws gname perm s = (row, s') \<Longrightarrow> app_inv env s'"
    and "router_delete_workspace_group_permission guard env ws gname s = (r, s') \<Longrightarrow> app_inv env s'"
proof -
  note grant = workspace_group_write_inv [OF assms, of ws, unfolded Let_def env(2) [symmetric]]
  show "router_create_workspace_group_permission guard env ws gname perm s = (row, s') \<Longrightarrow> app_inv env s'"
    unfolding router_create_workspace_group_permission_def cached_create_workspace_group_permission_def
      wrap_with_workspace_group_invalidation_def
    by (erule router_method_inv [OF _ inv]) (rule grant, blast)
  show "router_update_workspace_group_permission guard env ws gname perm s = (row, s') \<Longrightarrow> app_inv env s'"
    unfolding router_update_workspace_group_permission_def cached_update_workspace_group_permission_def
      wrap_with_workspace_group_invalidation_def
    by (erule router_method_inv [OF _ inv]) (rule grant, blast)
  show "router_delete_workspace_group_permission guard env ws gname s = (r, s') \<Longrightarrow> app_inv env s'"
    unfolding router_delete_workspace_group_permission_def cached_delete_workspace_group_permission_def
      wrap_with_workspace_group_invalidation_def
    by (erule router_procedure_inv [OF _ inv]) (rule grant, blast)
qed

lemmas step_invs = resolver_step_inv cache_step_inv permission_write_inv membership_step_inv wipe_step_inv
  workspace_user_step_inv workspace_group_step_inv workspace_regex_step_inv

lemma app_step_inv:
  assumes "app_step env s s'" and "e_pc env = pc" and "e_wc env = wc" and "app_inv env s"
  shows "app_inv env s'"
  using assms by (cases rule: app_step.cases) (blast intro: step_invs [OF assms(2-4)])+

lemma reachable_inv:
  assumes "reachable env s0 s" and "e_pc env = pc" and "e_wc env = wc" and "app_inv env s0"
  shows "app_inv env s"
  using assms by (induction rule: reachable.induct) (auto intro: app_step_inv)

lemma reachable_decision:
  assumes "reachable env s0 s" and "e_pc env = pc" and "e_wc env = wc" and "app_inv env s0"
    and "plain_workspace ws" and "colon_free rid" and "rtype \<in> set resource_types" and "rtype \<noteq> SCORER"
  shows "fst (resolve_permission (env\<lparr>e_workspace := ws\<rparr>) s rtype rid uname kw) =
    decide (env\<lparr>e_workspace := ws\<rparr>) (a_db s) rtype rid uname None"
proof -
  obtain r s' where run: "resolve_permission (env\<lparr>e_workspace := ws\<rparr>) s rtype rid uname kw = (r, s')" by fastforce
  from reachable_inv [OF assms(1-4)] have "coherent (env\<lparr>e_workspace := ws\<rparr>) s" by (simp add: app_inv_def)
  from resolve_decision [OF _ _ _ assms(6,7) this run] assms run show ?thesis by simp
qed

end

subsection \<open>The local backends\<close>

locale local_caches =
  p: ttl_cache pttl + w: ttl_cache wttl
  for pttl :: "('c, permission_result) ttl_ops" and wttl :: "('w, permission) ttl_ops"

sublocale local_caches \<subseteq> resolver_caches "LocalTTLCacheBackend pttl" "LocalTTLCacheBackend wttl"
  by unfold_locales

lemma local_resolver_caches:
  "ttl_cache pttl \<Longrightarrow> ttl_cache wttl \<Longrightarrow> resolver_caches (LocalTTLCacheBackend pttl) (LocalTTLCacheBackend wttl)"
  by (intro resolver_caches.intro ttl_cache.backend_law)

interpretation timed_caches: local_caches timed_ops timed_ops
  by unfold_locales

end
