(* ===== verification/Batch.thy ===== *)
theory Batch
  imports Cache_Coherence
begin

section \<open>Batch permission resolution (utils/batch\_permissions.py)\<close>

text \<open>
  The listing endpoints resolve many resources of one user from a context fetched once. The loops
  thread the application state (the workspace cache and the counters) and the memo of the context.
  An experiment is its id and name, a model or prompt its name, a gateway object its dictionary of
  strings.
\<close>

record user_permission_context =
  ctx_username :: string
  ctx_group_ids :: "int list"
  user_experiment_permissions :: "string \<rightharpoonup> string"
  group_experiment_permissions :: "string \<rightharpoonup> string"
  experiment_regex_permissions :: "regex_row list"
  group_experiment_regex_permissions :: "regex_row list"
  user_model_permissions :: "string \<rightharpoonup> string"
  group_model_permissions :: "string \<rightharpoonup> string"
  model_regex_permissions :: "model_regex_row list"
  group_model_regex_permissions :: "model_regex_row list"
  prompt_regex_permissions :: "model_regex_row list"
  group_prompt_regex_permissions :: "model_regex_row list"
  workspace_permission_memo :: "string \<rightharpoonup> permission option"

record mlflow_experiment =
  exp_id :: string
  exp_name :: string

subsection \<open>Building the context\<close>

fun collapse_loop :: "(string \<rightharpoonup> string) \<Rightarrow> (string, 'z) perm_row_scheme list \<Rightarrow> (string \<rightharpoonup> string) res" where
  "collapse_loop collapsed [] = Inr collapsed"
| "collapse_loop collapsed (p # ps) =
     (case collapsed (p_resource p) of
        None \<Rightarrow> collapse_loop (collapsed(p_resource p \<mapsto> p_permission p)) ps
      | Some current \<Rightarrow>
          bindE (compare_permissions current (p_permission p)) (\<lambda>le.
          collapse_loop (if le then collapsed(p_resource p \<mapsto> p_permission p) else collapsed) ps))"

definition collapse_group_permissions :: "(string, 'z) perm_row_scheme list \<Rightarrow> (string \<rightharpoonup> string) res" where
  "collapse_group_permissions permissions = collapse_loop Map.empty permissions"

definition build_user_permission_context :: "db \<Rightarrow> string \<Rightarrow> user_permission_context res" where
  "build_user_permission_context d uname =
     (let group_ids = get_groups_ids_for_user d uname
      in bindE (collapse_group_permissions (list_user_groups_experiment_permissions d uname)) (\<lambda>group_exp.
         bindE (list_user_groups_registered_model_permissions d uname) (\<lambda>group_model_perms.
         bindE (collapse_group_permissions group_model_perms) (\<lambda>group_model.
         bindE (list_registered_model_regex_permissions d uname) (\<lambda>model_regex.
         bindE (list_prompt_regex_permissions d uname True) (\<lambda>prompt_regex.
         Inr \<lparr>ctx_username = uname, ctx_group_ids = group_ids,
           user_experiment_permissions = dict_of [(p_resource p, p_permission p). p \<leftarrow> list_experiment_permissions d uname],
           group_experiment_permissions = group_exp,
           experiment_regex_permissions = list_experiment_regex_permissions d uname,
           group_experiment_regex_permissions =
             (if group_ids \<noteq> [] then list_group_experiment_regex_permissions_for_groups_ids d group_ids else []),
           user_model_permissions = dict_of [(p_resource p, p_permission p). p \<leftarrow> list_registered_model_permissions d uname],
           group_model_permissions = group_model,
           model_regex_permissions = model_regex,
           group_model_regex_permissions =
             (if group_ids \<noteq> [] then list_group_registered_model_regex_permissions_for_groups_ids d group_ids else []),
           prompt_regex_permissions = prompt_regex,
           group_prompt_regex_permissions =
             (if group_ids \<noteq> [] then list_group_prompt_regex_permissions_for_groups_ids d group_ids True else []),
           workspace_permission_memo = Map.empty\<rparr>))))))"

subsection \<open>Resolving one resource\<close>

fun source_order_loop :: "(string \<times> string option) list \<Rightarrow> string \<Rightarrow> string list \<Rightarrow> permission_result res" where
  "source_order_loop source_map dflt [] =
     bindE (get_permission dflt) (\<lambda>p. Inr \<lparr>pr_permission = p, kind = ''fallback''\<rparr>)"
| "source_order_loop source_map dflt (s # ss) =
     (case map_of source_map s of
        Some (Some perm) \<Rightarrow> bindE (get_permission perm) (\<lambda>p. Inr \<lparr>pr_permission = p, kind = s\<rparr>)
      | _ \<Rightarrow> source_order_loop source_map dflt ss)"

definition resolve_permission_from_context ::
  "config \<Rightarrow> string option \<Rightarrow> string option \<Rightarrow> string option \<Rightarrow> string option \<Rightarrow> permission_result res" where
  "resolve_permission_from_context cfg user_direct group_direct user_regex_match group_regex_match =
     source_order_loop
       [(''user'', user_direct), (''group'', group_direct), (''regex'', user_regex_match), (''group-regex'', group_regex_match)]
       (DEFAULT_MLFLOW_PERMISSION cfg) (PERMISSION_SOURCE_ORDER cfg)"

definition record_if_fallback ::
  "('c, 'w) app \<Rightarrow> permission_result \<Rightarrow> string \<Rightarrow> string \<Rightarrow> ('c, 'w) app" where
  "record_if_fallback s result rtype rid =
     (if kind result = ''fallback'' then fst (record_permission_fallback s rtype rid (pr_permission result)) else s)"

definition batch_apply_workspace_fallback ::
  "('c, 'w) env \<Rightarrow> ('c, 'w) app \<Rightarrow> permission_result \<Rightarrow> user_permission_context \<Rightarrow>
   permission_result \<times> ('c, 'w) app \<times> user_permission_context" where
  "batch_apply_workspace_fallback env s result ctx =
     (if kind result \<noteq> ''fallback'' \<or> \<not> MLFLOW_ENABLE_WORKSPACES (e_config env) then (result, s, ctx)
      else case e_workspace env of
             None \<Rightarrow> (result, s, ctx)
           | Some ws \<Rightarrow>
               if ws = [] then (result, s, ctx)
               else let (ws_perm, s', ctx') =
                      (case workspace_permission_memo ctx ws of
                         Some ws_perm \<Rightarrow> (ws_perm, s, ctx)
                       | None \<Rightarrow>
                           (let (ws_perm, w) = get_workspace_permission_cached (e_config env) (e_wc env) (e_re_match env)
                                  (a_db s) (a_wc s) (ctx_username ctx) ws
                            in (ws_perm, s\<lparr>a_wc := w\<rparr>,
                                ctx\<lparr>workspace_permission_memo := (workspace_permission_memo ctx)(ws \<mapsto> ws_perm)\<rparr>)))
                    in case ws_perm of
                         Some p \<Rightarrow> (\<lparr>pr_permission = p, kind = ''workspace''\<rparr>, s', ctx')
                       | None \<Rightarrow> (\<lparr>pr_permission = NO_PERMISSIONS, kind = ''workspace-deny''\<rparr>, s', ctx'))"

fun batch_find_regex_permission :: "re_match \<Rightarrow> 'z regex_row_scheme list \<Rightarrow> string \<Rightarrow> string option res" where
  "batch_find_regex_permission re_match [] nm = Inr None"
| "batch_find_regex_permission re_match (r # rs) nm =
     bindE (re_match (rx_regex r) nm) (\<lambda>hit.
     if hit then Inr (Some (rx_permission r)) else batch_find_regex_permission re_match rs nm)"

text \<open>The common tail of the three resolvers, from the four values looked up in the context.\<close>

definition finish_batch_result ::
  "('c, 'w) env \<Rightarrow> ('c, 'w) app \<Rightarrow> user_permission_context \<Rightarrow> string \<Rightarrow> string \<Rightarrow> permission_result res \<Rightarrow>
   permission_result res \<times> ('c, 'w) app \<times> user_permission_context" where
  "finish_batch_result env s ctx rtype rid result =
     (case result of
        Inl e \<Rightarrow> (Inl e, s, ctx)
      | Inr r \<Rightarrow> (let (r', s', ctx') = batch_apply_workspace_fallback env (record_if_fallback s r rtype rid) r ctx
                 in (Inr r', s', ctx')))"

definition resolve_experiment_permission_from_context ::
  "('c, 'w) env \<Rightarrow> ('c, 'w) app \<Rightarrow> user_permission_context \<Rightarrow> string \<Rightarrow> string option \<Rightarrow>
   permission_result res \<times> ('c, 'w) app \<times> user_permission_context" where
  "resolve_experiment_permission_from_context env s ctx eid ename =
     finish_batch_result env s ctx EXPERIMENT eid
       (bindE (case ename of None \<Rightarrow> e_experiment_name env eid | Some nm \<Rightarrow> Inr nm) (\<lambda>nm.
        bindE (batch_find_regex_permission (e_re_match env) (experiment_regex_permissions ctx) nm) (\<lambda>user_regex.
        bindE (batch_find_regex_permission (e_re_match env) (group_experiment_regex_permissions ctx) nm) (\<lambda>group_regex.
        resolve_permission_from_context (e_config env) (user_experiment_permissions ctx eid)
          (group_experiment_permissions ctx eid) user_regex group_regex))))"

definition resolve_model_permission_from_context ::
  "('c, 'w) env \<Rightarrow> ('c, 'w) app \<Rightarrow> user_permission_context \<Rightarrow> string \<Rightarrow>
   permission_result res \<times> ('c, 'w) app \<times> user_permission_context" where
  "resolve_model_permission_from_context env s ctx nm =
     finish_batch_result env s ctx REGISTERED_MODEL nm
       (bindE (batch_find_regex_permission (e_re_match env) (model_regex_permissions ctx) nm) (\<lambda>user_regex.
        bindE (batch_find_regex_permission (e_re_match env) (group_model_regex_permissions ctx) nm) (\<lambda>group_regex.
        resolve_permission_from_context (e_config env) (user_model_permissions ctx nm)
          (group_model_permissions ctx nm) user_regex group_regex)))"

definition resolve_prompt_permission_from_context ::
  "('c, 'w) env \<Rightarrow> ('c, 'w) app \<Rightarrow> user_permission_context \<Rightarrow> string \<Rightarrow>
   permission_result res \<times> ('c, 'w) app \<times> user_permission_context" where
  "resolve_prompt_permission_from_context env s ctx nm =
     finish_batch_result env s ctx PROMPT nm
       (bindE (batch_find_regex_permission (e_re_match env) (prompt_regex_permissions ctx) nm) (\<lambda>user_regex.
        bindE (batch_find_regex_permission (e_re_match env) (group_prompt_regex_permissions ctx) nm) (\<lambda>group_regex.
        resolve_permission_from_context (e_config env) (user_model_permissions ctx nm)
          (group_model_permissions ctx nm) user_regex group_regex)))"

subsection \<open>Batches\<close>

text \<open>The dictionary comprehension over the listed objects: \<open>key\<close> is the object's id, \<open>one\<close> its resolver.\<close>

fun batch_loop ::
  "('o \<Rightarrow> string) \<Rightarrow> (('c, 'w) app \<Rightarrow> user_permission_context \<Rightarrow> 'o \<Rightarrow>
     permission_result res \<times> ('c, 'w) app \<times> user_permission_context) \<Rightarrow>
   ('c, 'w) app \<Rightarrow> user_permission_context \<Rightarrow> 'o list \<Rightarrow> (string \<times> permission_result) list res \<times> ('c, 'w) app" where
  "batch_loop key one s ctx [] = (Inr [], s)"
| "batch_loop key one s ctx (x # xs) =
     (case one s ctx x of
        (Inl e, s', ctx') \<Rightarrow> (Inl e, s')
      | (Inr r, s', ctx') \<Rightarrow>
          (case batch_loop key one s' ctx' xs of
             (Inl e, s'') \<Rightarrow> (Inl e, s'')
           | (Inr rs, s'') \<Rightarrow> (Inr ((key x, r) # rs), s'')))"

definition batch_resolve ::
  "('o \<Rightarrow> string) \<Rightarrow> (('c, 'w) app \<Rightarrow> user_permission_context \<Rightarrow> 'o \<Rightarrow>
     permission_result res \<times> ('c, 'w) app \<times> user_permission_context) \<Rightarrow>
   ('c, 'w) app \<Rightarrow> string \<Rightarrow> 'o list \<Rightarrow> (string \<rightharpoonup> permission_result) res \<times> ('c, 'w) app" where
  "batch_resolve key one s uname objs =
     (case build_user_permission_context (a_db s) uname of
        Inl e \<Rightarrow> (Inl e, s)
      | Inr ctx \<Rightarrow>
          (case batch_loop key one s ctx objs of
             (Inl e, s') \<Rightarrow> (Inl e, s')
           | (Inr rs, s') \<Rightarrow> (Inr (dict_of rs), s')))"

definition batch_resolve_experiment_permissions ::
  "('c, 'w) env \<Rightarrow> ('c, 'w) app \<Rightarrow> string \<Rightarrow> mlflow_experiment list \<Rightarrow> (string \<rightharpoonup> permission_result) res \<times> ('c, 'w) app" where
  "batch_resolve_experiment_permissions env s uname experiments =
     batch_resolve exp_id (\<lambda>s ctx e. resolve_experiment_permission_from_context env s ctx (exp_id e) (Some (exp_name e)))
       s uname experiments"

definition batch_resolve_model_permissions ::
  "('c, 'w) env \<Rightarrow> ('c, 'w) app \<Rightarrow> string \<Rightarrow> string list \<Rightarrow> (string \<rightharpoonup> permission_result) res \<times> ('c, 'w) app" where
  "batch_resolve_model_permissions env s uname models =
     batch_resolve (\<lambda>m. m) (resolve_model_permission_from_context env) s uname models"

definition batch_resolve_prompt_permissions ::
  "('c, 'w) env \<Rightarrow> ('c, 'w) app \<Rightarrow> string \<Rightarrow> string list \<Rightarrow> (string \<rightharpoonup> permission_result) res \<times> ('c, 'w) app" where
  "batch_resolve_prompt_permissions env s uname prompts =
     batch_resolve (\<lambda>m. m) (resolve_prompt_permission_from_context env) s uname prompts"

subsection \<open>Filters\<close>

fun filterE :: "('a \<Rightarrow> bool res) \<Rightarrow> 'a list \<Rightarrow> 'a list res" where
  "filterE P [] = Inr []"
| "filterE P (x # xs) = bindE (P x) (\<lambda>b. bindE (filterE P xs) (\<lambda>ys. Inr (if b then x # ys else ys)))"

definition manageable_in :: "(string \<rightharpoonup> permission_result) \<Rightarrow> string \<Rightarrow> bool res" where
  "manageable_in permissions k =
     (case permissions k of None \<Rightarrow> Inl KeyError | Some r \<Rightarrow> Inr (can_manage (pr_permission r)))"

definition filter_manageable_experiments ::
  "('c, 'w) env \<Rightarrow> ('c, 'w) app \<Rightarrow> string \<Rightarrow> mlflow_experiment list \<Rightarrow> mlflow_experiment list res \<times> ('c, 'w) app" where
  "filter_manageable_experiments env s uname experiments =
     (case batch_resolve_experiment_permissions env s uname experiments of
        (Inl e, s') \<Rightarrow> (Inl e, s')
      | (Inr permissions, s') \<Rightarrow> (filterE (\<lambda>e. manageable_in permissions (exp_id e)) experiments, s'))"

definition filter_manageable_models ::
  "('c, 'w) env \<Rightarrow> ('c, 'w) app \<Rightarrow> string \<Rightarrow> string list \<Rightarrow> string list res \<times> ('c, 'w) app" where
  "filter_manageable_models env s uname models =
     (case batch_resolve_model_permissions env s uname models of
        (Inl e, s') \<Rightarrow> (Inl e, s')
      | (Inr permissions, s') \<Rightarrow> (filterE (manageable_in permissions) models, s'))"

definition filter_manageable_prompts ::
  "('c, 'w) env \<Rightarrow> ('c, 'w) app \<Rightarrow> string \<Rightarrow> string list \<Rightarrow> string list res \<times> ('c, 'w) app" where
  "filter_manageable_prompts env s uname prompts =
     (case batch_resolve_prompt_permissions env s uname prompts of
        (Inl e, s') \<Rightarrow> (Inl e, s')
      | (Inr permissions, s') \<Rightarrow> (filterE (manageable_in permissions) prompts, s'))"

text \<open>The gateway filters ask the resolver per object; an error counts as not manageable.\<close>

type_synonym gateway_object = "string \<rightharpoonup> string"

fun gateway_filter_loop ::
  "(gateway_object \<Rightarrow> string) \<Rightarrow> (('c, 'w) app \<Rightarrow> string \<Rightarrow> bool res \<times> ('c, 'w) app) \<Rightarrow>
   ('c, 'w) app \<Rightarrow> gateway_object list \<Rightarrow> gateway_object list \<times> ('c, 'w) app" where
  "gateway_filter_loop name_of ask s [] = ([], s)"
| "gateway_filter_loop name_of ask s (x # xs) =
     (if name_of x = [] then gateway_filter_loop name_of ask s xs
      else case ask s (name_of x) of
             (Inr True, s') \<Rightarrow> (let (ys, s'') = gateway_filter_loop name_of ask s' xs in (x # ys, s''))
           | (Inr False, s') \<Rightarrow> gateway_filter_loop name_of ask s' xs
           | (Inl e, s') \<Rightarrow> gateway_filter_loop name_of ask s' xs)"

definition dict_get :: "gateway_object \<Rightarrow> string \<Rightarrow> string" where
  "dict_get m k = (case m k of None \<Rightarrow> [] | Some v \<Rightarrow> v)"

definition secret_name_of :: "gateway_object \<Rightarrow> string" where
  "secret_name_of m =
     (if dict_get m ''secret_name'' \<noteq> [] then dict_get m ''secret_name''
      else if dict_get m ''name'' \<noteq> [] then dict_get m ''name'' else dict_get m ''key'')"

definition filter_manageable_gateway_endpoints ::
  "('c, 'w) env \<Rightarrow> ('c, 'w) app \<Rightarrow> string \<Rightarrow> gateway_object list \<Rightarrow> gateway_object list \<times> ('c, 'w) app" where
  "filter_manageable_gateway_endpoints env s uname endpoints =
     gateway_filter_loop (\<lambda>m. dict_get m ''name'') (\<lambda>s nm. can_manage_gateway_endpoint env s nm uname) s endpoints"

definition filter_manageable_gateway_secrets ::
  "('c, 'w) env \<Rightarrow> ('c, 'w) app \<Rightarrow> string \<Rightarrow> gateway_object list \<Rightarrow> gateway_object list \<times> ('c, 'w) app" where
  "filter_manageable_gateway_secrets env s uname secrets =
     gateway_filter_loop secret_name_of (\<lambda>s nm. can_manage_gateway_secret env s nm uname) s secrets"

definition filter_manageable_gateway_model_definitions ::
  "('c, 'w) env \<Rightarrow> ('c, 'w) app \<Rightarrow> string \<Rightarrow> gateway_object list \<Rightarrow> gateway_object list \<times> ('c, 'w) app" where
  "filter_manageable_gateway_model_definitions env s uname models =
     gateway_filter_loop (\<lambda>m. dict_get m ''name'') (\<lambda>s nm. can_manage_gateway_model_definition env s nm uname) s models"

subsection \<open>The batch lookups agree with the single lookups\<close>

text \<open>A source without a grant raises in the single path and is \<^verbatim>\<open>None\<close> in the batch.\<close>

definition found :: "string option \<Rightarrow> string res" where
  "found x = (case x of None \<Rightarrow> Inl (MlflowException RESOURCE_DOES_NOT_EXIST) | Some p \<Rightarrow> Inr p)"

lemma found_simps [simp]:
  "found None = Inl (MlflowException RESOURCE_DOES_NOT_EXIST)" "found (Some p) = Inr p"
  by (simp_all add: found_def)

lemma get_permission_not_absent: "get_permission p \<noteq> Inl (MlflowException c)"
  by (simp add: get_permission_def split: option.split)

lemma sources_found:
  "permission_from_sources (map (\<lambda>(s, x). (s, \<lambda>_. found x)) source_map) dflt order = source_order_loop source_map dflt order"
proof (induction order)
  case (Cons s ss)
  have lookup: "map_of (map (\<lambda>(s, x). (s, \<lambda>_ :: unit. found x)) source_map) s = map_option (\<lambda>x _. found x) (map_of source_map s)"
    by (induction source_map) auto
  consider "map_of source_map s = None" | "map_of source_map s = Some None" | p where "map_of source_map s = Some (Some p)"
    by (cases "map_of source_map s") auto
  then show ?case
  proof cases
    case (3 p)
    then show ?thesis
      using get_permission_not_absent [of p] lookup by (cases "get_permission p") auto
  qed (use Cons.IH lookup in auto)
qed simp

text \<open>The stored patterns compile, as they did when they were validated.\<close>

definition matches_all :: "re_match \<Rightarrow> bool" where
  "matches_all re_match \<longleftrightarrow> (\<forall>rx nm. \<exists>b. re_match rx nm = Inr b)"

lemma find_regex_found:
  assumes "matches_all re_match"
  shows "\<exists>x. batch_find_regex_permission re_match rows nm = Inr x \<and> match_regex_permission re_match rows nm = found x"
proof (induction rows)
  case (Cons r rs)
  from assms obtain b where "re_match (rx_regex r) nm = Inr b" unfolding matches_all_def by blast
  with Cons show ?case by (cases b) auto
qed simp

lemma map_of_rows:
  "map_of [(p_resource p, p_permission p). p \<leftarrow> rows] rid =
     (case filter (\<lambda>p. p_resource p = rid) rows of [] \<Rightarrow> None | p # _ \<Rightarrow> Some (p_permission p))"
  by (induction rows) auto

lemma user_direct_found:
  assumes "wf_users us" and "wf_perm_table tbl"
  shows "perm_of (find_user_permission us tbl rid uname) =
    found (dict_of [(p_resource p, p_permission p). p \<leftarrow> list_permissions_for_user us tbl uname] rid)"
  using assms(1)
proof (cases rule: get_user_cases [where uname = uname])
  case (found u)
  let ?rows = "filter (\<lambda>p. p_owner p = u_id u) tbl"
  have rows: "list_permissions_for_user us tbl uname = ?rows"
    unfolding list_permissions_for_user_def join_user [OF assms(1)] using found by simp
  have "unique_on p_resource ?rows"
    using assms(2) unfolding wf_perm_table_def unique_on_def
    by (auto simp: distinct_map inj_on_def)
  then have "dict_of [(p_resource p, p_permission p). p \<leftarrow> ?rows] = map_of [(p_resource p, p_permission p). p \<leftarrow> ?rows]"
    by (intro dict_of_distinct) (simp add: unique_on_def comp_def)
  moreover have "filter (\<lambda>p. p_resource p = rid) ?rows = rows_at tbl rid (u_id u)"
    by (simp add: rows_at_def conj_commute)
  ultimately have "dict_of [(p_resource p, p_permission p). p \<leftarrow> ?rows] rid =
      (case rows_at tbl rid (u_id u) of [] \<Rightarrow> None | p # _ \<Rightarrow> Some (p_permission p))"
    by (simp only: map_of_rows)
  then show ?thesis
    unfolding rows find_user_permission_eq [OF assms(1)] user_own_def using found
    by (cases rule: rows_at_cases [OF assms(2), of rid "u_id u"]) simp_all
next
  case absent
  then show ?thesis
    unfolding list_permissions_for_user_def join_user [OF assms(1)]
    by (simp add: find_user_permission_eq [OF assms(1)] user_own_def)
qed

lemma highest_of_set: "set xs = set ys \<Longrightarrow> highest_of xs p = highest_of ys p"
  by (simp add: highest_of_def)

lemma collapse_loop_spec:
  assumes "\<forall>p\<in>set rows. valid_permission (p_permission p)" and "\<forall>k x. m0 k = Some x \<longrightarrow> valid_permission x"
  shows "\<exists>m. collapse_loop m0 rows = Inr m \<and>
    (\<forall>k. case m k of
       None \<Rightarrow> m0 k = None \<and> filter (\<lambda>p. p_resource p = k) rows = []
     | Some x \<Rightarrow> highest_of ((case m0 k of None \<Rightarrow> [] | Some y \<Rightarrow> [y]) @
         map p_permission (filter (\<lambda>p. p_resource p = k) rows)) x)"
  using assms
proof (induction rows arbitrary: m0)
  case Nil
  then show ?case by (auto simp: highest_of_def split: option.splits)
next
  case (Cons p rows)
  define k where "k = p_resource p"
  have vp: "valid_permission (p_permission p)" using Cons.prems by simp
  define m1 where "m1 = (case m0 k of None \<Rightarrow> m0(k \<mapsto> p_permission p)
    | Some y \<Rightarrow> if prio y \<le> prio (p_permission p) then m0(k \<mapsto> p_permission p) else m0)"
  have loop: "collapse_loop m0 (p # rows) = collapse_loop m1 rows"
    using Cons.prems vp by (auto simp: m1_def k_def compare_permissions_valid split: option.splits)
  have "\<forall>p\<in>set rows. valid_permission (p_permission p)" "\<forall>k x. m1 k = Some x \<longrightarrow> valid_permission x"
    using Cons.prems vp by (auto simp: m1_def split: option.splits if_splits)
  from Cons.IH [OF this] obtain m where m: "collapse_loop m1 rows = Inr m"
    "\<forall>k. case m k of None \<Rightarrow> m1 k = None \<and> filter (\<lambda>p. p_resource p = k) rows = []
     | Some x \<Rightarrow> highest_of ((case m1 k of None \<Rightarrow> [] | Some y \<Rightarrow> [y]) @
         map p_permission (filter (\<lambda>p. p_resource p = k) rows)) x"
    by blast
  have "case m j of None \<Rightarrow> m0 j = None \<and> filter (\<lambda>p. p_resource p = j) (p # rows) = []
     | Some x \<Rightarrow> highest_of ((case m0 j of None \<Rightarrow> [] | Some y \<Rightarrow> [y]) @
         map p_permission (filter (\<lambda>p. p_resource p = j) (p # rows))) x" for j
  proof (cases "j = k")
    case True
    then have "m1 j \<noteq> None" by (auto simp: m1_def split: option.splits)
    with m(2) [rule_format, of j] True show ?thesis
      by (auto simp: m1_def k_def highest_of_def split: option.splits if_splits)
  next
    case False
    then have "m1 j = m0 j" by (auto simp: m1_def split: option.splits)
    with m(2) [rule_format, of j] False show ?thesis by (cases "m j") (simp_all add: k_def)
  qed
  with loop m(1) show ?case by auto
qed

lemma collapse_total: "\<forall>p\<in>set rows. valid_permission (p_permission p) \<Longrightarrow> \<exists>m. collapse_group_permissions rows = Inr m"
  unfolding collapse_group_permissions_def using collapse_loop_spec [of rows Map.empty] by auto

lemma collapse_spec:
  assumes "\<forall>p\<in>set rows. valid_permission (p_permission p)" and "collapse_group_permissions rows = Inr m"
  shows "case m k of None \<Rightarrow> filter (\<lambda>p. p_resource p = k) rows = []
    | Some x \<Rightarrow> highest_of (map p_permission (filter (\<lambda>p. p_resource p = k) rows)) x"
proof -
  from collapse_loop_spec [OF assms(1), of Map.empty]
  have "\<forall>k. case m k of None \<Rightarrow> filter (\<lambda>p. p_resource p = k) rows = []
      | Some x \<Rightarrow> highest_of (map p_permission (filter (\<lambda>p. p_resource p = k) rows)) x"
    using assms(2) unfolding collapse_group_permissions_def by (simp cong: option.case_cong)
  then show ?thesis by blast
qed

lemma collapse_order:
  assumes valid: "\<forall>p\<in>set rows. valid_permission (p_permission p)" and same: "set rows' = set rows"
  shows "collapse_group_permissions rows' = collapse_group_permissions rows"
proof -
  have valid': "\<forall>p\<in>set rows'. valid_permission (p_permission p)" using valid same by simp
  obtain m m' where m: "collapse_group_permissions rows = Inr m" "collapse_group_permissions rows' = Inr m'"
    using collapse_total [OF valid] collapse_total [OF valid'] by blast
  have "m' k = m k" for k
  proof -
    let ?c = "filter (\<lambda>p. p_resource p = k)"
    have sets: "set (map p_permission (?c rows')) = set (map p_permission (?c rows))" using same by simp
    note spec = collapse_spec [OF valid m(1), of k] collapse_spec [OF valid' m(2), of k]
    have none: "?c rows' = [] \<longleftrightarrow> ?c rows = []" using same by (simp add: filter_empty_conv)
    have perms: "\<forall>q\<in>set (map p_permission (?c rows)). valid_permission q" using valid by auto
    show ?thesis
    proof (cases "m k")
      case None
      with spec(1) none have "?c rows' = []" by simp
      with spec(2) None show ?thesis by (cases "m' k") (simp_all add: highest_of_def)
    next
      case (Some x)
      with spec(1) have x: "highest_of (map p_permission (?c rows)) x" by simp
      then have "?c rows \<noteq> []" by (cases "?c rows") (simp_all add: highest_of_def)
      with spec(2) none obtain y where "m' k = Some y" "highest_of (map p_permission (?c rows')) y" by (cases "m' k") auto
      with x Some highest_of_unique [OF perms] highest_of_set [OF sets] show ?thesis by metis
    qed
  qed
  with m show ?thesis by (simp add: fun_eq_iff)
qed

text \<open>The fold of the single path over the rows of one resource, and the entry of the collapsed dictionary.\<close>

lemma group_fold_found:
  assumes "\<forall>p\<in>set rows. valid_permission (p_permission p)" and "collapse_group_permissions rows = Inr m"
    and "set cs = set (filter (\<lambda>p. p_resource p = rid) rows)"
  shows "perm_of (case cs of [] \<Rightarrow> Inl (MlflowException RESOURCE_DOES_NOT_EXIST) | p # ps \<Rightarrow> fold_highest p ps) = found (m rid)"
proof -
  let ?cs = "filter (\<lambda>p. p_resource p = rid) rows"
  have spec: "case m rid of None \<Rightarrow> ?cs = [] | Some x \<Rightarrow> highest_of (map p_permission ?cs) x"
    by (rule collapse_spec [OF assms(1,2)])
  show ?thesis
  proof (cases cs)
    case Nil
    with assms(3) have "?cs = []" by (metis empty_iff list.set(1) last_in_set)
    with spec have "m rid = None" by (auto simp: highest_of_def split: option.splits)
    with Nil show ?thesis by simp
  next
    case (Cons p ps)
    have valid: "\<forall>p\<in>set cs. valid_permission (p_permission p)" using assms(1,3) by auto
    with Cons fold_highest_perm [of p ps] obtain r
      where r: "fold_highest p ps = Inr r" "highest_of (map p_permission cs) (p_permission r)" by metis
    from Cons assms(3) have "?cs \<noteq> []" by (metis list.distinct(1) list.set(1) set_empty)
    with spec obtain x where x: "m rid = Some x" "highest_of (map p_permission ?cs) x" by (auto split: option.splits)
    have "highest_of (map p_permission cs) x"
      using x(2) assms(3) highest_of_set [of "map p_permission cs" "map p_permission ?cs" x] by simp
    with r(2) valid have "x = p_permission r"
      by (intro highest_of_unique [of "map p_permission cs"]) auto
    with Cons r(1) x(1) show ?thesis by simp
  qed
qed

text \<open>The rows a user's groups hold on one resource, among all the rows the groups hold.\<close>

lemma group_candidates_set:
  "set (group_candidates us ugs tbl rid uname) =
     set (filter (\<lambda>p. p_resource p = rid) (list_permissions_for_user_groups us ugs tbl uname))"
  unfolding group_candidates_def list_permissions_for_user_groups_def set_sort set_filter
  by (force simp: set_sql_join)

lemma model_candidates_set:
  assumes "wf_users us" and "wf_user_groups ugs" and "model_group_list_for_user us ugs tbl uname = Inr rows"
  shows "set (group_candidates us ugs tbl rid uname) = set (filter (\<lambda>p. p_resource p = rid) rows)"
  using assms(3) unfolding group_candidates_def join_user_groups [OF assms(1,2)] model_group_list_for_user_def
  by (auto simp: filter_list_comp)

lemma experiment_group_found:
  assumes "wf_db d" and "collapse_group_permissions (list_user_groups_experiment_permissions d uname) = Inr m"
  shows "perm_of (get_user_groups_experiment_permission d rid uname) = found (m rid)"
proof -
  have "\<forall>p\<in>set (list_user_groups_experiment_permissions d uname). valid_permission (p_permission p)"
    using wf_db_tables(2) [OF assms(1)]
    by (auto simp: list_user_groups_experiment_permissions_def list_permissions_for_user_groups_def set_sql_join wf_perm_table_def)
  from group_fold_found [OF this assms(2), OF group_candidates_set [where us = "users d" and ugs = "user_groups d"
      and tbl = "t_group (experiment_tables d)" and uname = uname, folded list_user_groups_experiment_permissions_def]]
  show ?thesis
    by (simp add: get_user_groups_experiment_permission_def get_group_permission_for_user_resource_def)
qed

lemma model_group_found:
  assumes "wf_db d" and "list_user_groups_registered_model_permissions d uname = Inr rows"
    and "collapse_group_permissions rows = Inr m"
  shows "perm_of (get_user_groups_registered_model_permission d rid uname) = found (m rid)"
proof -
  have "\<forall>p\<in>set rows. valid_permission (p_permission p)"
    using wf_db_tables(22) [OF assms(1)] assms(2)
    by (auto simp: list_user_groups_registered_model_permissions_def model_group_list_for_user_def wf_perm_table_def)
  from group_fold_found [OF this assms(3) model_candidates_set [OF wf_dbD(1,3) [OF assms(1)] assms(2)
      [unfolded list_user_groups_registered_model_permissions_def]]]
  show ?thesis
    by (simp add: get_user_groups_registered_model_permission_def model_group_get_for_user_def)
qed

subsection \<open>The context holds the sources of the single path\<close>

lemma no_groups_no_patterns [simp]:
  "list_group_experiment_regex_permissions_for_groups_ids d [] = []"
  "list_group_registered_model_regex_permissions_for_groups_ids d [] = []"
  "list_group_prompt_regex_permissions_for_groups_ids d [] prompt = []"
  unfolding list_group_experiment_regex_permissions_for_groups_ids_def list_permissions_for_groups_ids_def
    list_group_permissions_def list_group_registered_model_regex_permissions_for_groups_ids_def
    list_group_prompt_regex_permissions_for_groups_ids_def model_list_permissions_for_groups_ids_def filter_list_comp
  by simp_all

lemma contextD:
  assumes "build_user_permission_context d uname = Inr ctx"
  obtains rows where
    "ctx_username ctx = uname"
    "user_experiment_permissions ctx = dict_of [(p_resource p, p_permission p). p \<leftarrow> list_experiment_permissions d uname]"
    "collapse_group_permissions (list_user_groups_experiment_permissions d uname) = Inr (group_experiment_permissions ctx)"
    "experiment_regex_permissions ctx = list_experiment_regex_permissions d uname"
    "group_experiment_regex_permissions ctx =
       list_group_experiment_regex_permissions_for_groups_ids d (get_groups_ids_for_user d uname)"
    "user_model_permissions ctx = dict_of [(p_resource p, p_permission p). p \<leftarrow> list_registered_model_permissions d uname]"
    "list_user_groups_registered_model_permissions d uname = Inr rows"
    "collapse_group_permissions rows = Inr (group_model_permissions ctx)"
    "list_registered_model_regex_permissions d uname = Inr (model_regex_permissions ctx)"
    "group_model_regex_permissions ctx =
       list_group_registered_model_regex_permissions_for_groups_ids d (get_groups_ids_for_user d uname)"
    "list_prompt_regex_permissions d uname True = Inr (prompt_regex_permissions ctx)"
    "group_prompt_regex_permissions ctx =
       list_group_prompt_regex_permissions_for_groups_ids d (get_groups_ids_for_user d uname) True"
    "workspace_permission_memo ctx = Map.empty"
  using assms unfolding build_user_permission_context_def Let_def bindE_eq_Inr
  by (elim exE conjE) (rule that; force)

lemma resolve_found:
  "get_permission_from_store_or_default cfg
     [(''user'', \<lambda>_. found a), (''group'', \<lambda>_. found b), (''regex'', \<lambda>_. found c), (''group-regex'', \<lambda>_. found e)] =
   resolve_permission_from_context cfg a b c e"
  using sources_found [of "[(''user'', a), (''group'', b), (''regex'', c), (''group-regex'', e)]"]
  by (simp add: get_permission_from_store_or_default_def resolve_permission_from_context_def)

lemma experiment_context:
  assumes wf: "wf_db d" and ctx: "build_user_permission_context d uname = Inr ctx" and total: "matches_all (e_re_match env)"
    and nm: "e_experiment_name env eid = Inr nm"
  shows "bindE (batch_find_regex_permission (e_re_match env) (experiment_regex_permissions ctx) nm) (\<lambda>user_regex.
      bindE (batch_find_regex_permission (e_re_match env) (group_experiment_regex_permissions ctx) nm) (\<lambda>group_regex.
      resolve_permission_from_context (e_config env) (user_experiment_permissions ctx eid)
        (group_experiment_permissions ctx eid) user_regex group_regex)) =
    get_permission_from_store_or_default (e_config env) (build_experiment_sources env d eid uname)"
proof -
  obtain c where c: "batch_find_regex_permission (e_re_match env) (experiment_regex_permissions ctx) nm = Inr c"
    "match_regex_permission (e_re_match env) (experiment_regex_permissions ctx) nm = found c"
    using find_regex_found [OF total] by blast
  obtain e where e: "batch_find_regex_permission (e_re_match env) (group_experiment_regex_permissions ctx) nm = Inr e"
    "match_regex_permission (e_re_match env) (group_experiment_regex_permissions ctx) nm = found e"
    using find_regex_found [OF total] by blast
  from ctx show ?thesis
  proof (cases rule: contextD)
    case (1 rows)
    have "build_experiment_sources env d eid uname =
        [(''user'', \<lambda>_. found (user_experiment_permissions ctx eid)), (''group'', \<lambda>_. found (group_experiment_permissions ctx eid)),
         (''regex'', \<lambda>_. found c), (''group-regex'', \<lambda>_. found e)]"
      unfolding build_experiment_sources_def get_experiment_permission_from_regex_def
        get_experiment_group_permission_from_regex_def nm bindE_Inr c(2) [unfolded 1] e(2) [unfolded 1]
        experiment_group_found [OF wf 1(3)] get_experiment_permission_def
        user_direct_found [OF wf_dbD(1) [OF wf] wf_db_tables(1) [OF wf]] 1(2) list_experiment_permissions_def
      by (rule refl)
    with c(1) e(1) show ?thesis by (simp add: resolve_found)
  qed
qed

lemma model_context:
  assumes wf: "wf_db d" and ctx: "build_user_permission_context d uname = Inr ctx" and total: "matches_all (e_re_match env)"
  shows "bindE (batch_find_regex_permission (e_re_match env) (model_regex_permissions ctx) nm) (\<lambda>user_regex.
      bindE (batch_find_regex_permission (e_re_match env) (group_model_regex_permissions ctx) nm) (\<lambda>group_regex.
      resolve_permission_from_context (e_config env) (user_model_permissions ctx nm)
        (group_model_permissions ctx nm) user_regex group_regex)) =
    get_permission_from_store_or_default (e_config env) (build_registered_model_sources env d nm uname)"
proof -
  obtain c where c: "batch_find_regex_permission (e_re_match env) (model_regex_permissions ctx) nm = Inr c"
    "match_regex_permission (e_re_match env) (model_regex_permissions ctx) nm = found c"
    using find_regex_found [OF total] by blast
  obtain e where e: "batch_find_regex_permission (e_re_match env) (group_model_regex_permissions ctx) nm = Inr e"
    "match_regex_permission (e_re_match env) (group_model_regex_permissions ctx) nm = found e"
    using find_regex_found [OF total] by blast
  from ctx show ?thesis
  proof (cases rule: contextD)
    case (1 rows)
    have "build_registered_model_sources env d nm uname =
        [(''user'', \<lambda>_. found (user_model_permissions ctx nm)), (''group'', \<lambda>_. found (group_model_permissions ctx nm)),
         (''regex'', \<lambda>_. found c), (''group-regex'', \<lambda>_. found e)]"
      unfolding build_registered_model_sources_def 1(9) bindE_Inr c(2) e(2) [unfolded 1(10)]
        model_group_found [OF wf 1(7,8)] get_registered_model_permission_def
        user_direct_found [OF wf_dbD(1) [OF wf] wf_db_tables(21) [OF wf]] 1(6) list_registered_model_permissions_def
      by (rule refl)
    with c(1) e(1) show ?thesis by (simp add: resolve_found)
  qed
qed

lemma prompt_context:
  assumes wf: "wf_db d" and ctx: "build_user_permission_context d uname = Inr ctx" and total: "matches_all (e_re_match env)"
  shows "bindE (batch_find_regex_permission (e_re_match env) (prompt_regex_permissions ctx) nm) (\<lambda>user_regex.
      bindE (batch_find_regex_permission (e_re_match env) (group_prompt_regex_permissions ctx) nm) (\<lambda>group_regex.
      resolve_permission_from_context (e_config env) (user_model_permissions ctx nm)
        (group_model_permissions ctx nm) user_regex group_regex)) =
    get_permission_from_store_or_default (e_config env) (build_prompt_sources env d nm uname)"
proof -
  obtain c where c: "batch_find_regex_permission (e_re_match env) (prompt_regex_permissions ctx) nm = Inr c"
    "match_regex_permission (e_re_match env) (prompt_regex_permissions ctx) nm = found c"
    using find_regex_found [OF total] by blast
  obtain e where e: "batch_find_regex_permission (e_re_match env) (group_prompt_regex_permissions ctx) nm = Inr e"
    "match_regex_permission (e_re_match env) (group_prompt_regex_permissions ctx) nm = found e"
    using find_regex_found [OF total] by blast
  from ctx show ?thesis
  proof (cases rule: contextD)
    case (1 rows)
    have "build_prompt_sources env d nm uname =
        [(''user'', \<lambda>_. found (user_model_permissions ctx nm)), (''group'', \<lambda>_. found (group_model_permissions ctx nm)),
         (''regex'', \<lambda>_. found c), (''group-regex'', \<lambda>_. found e)]"
      unfolding build_prompt_sources_def 1(11) bindE_Inr c(2) e(2) [unfolded 1(12)]
        model_group_found [OF wf 1(7,8)] get_registered_model_permission_def
        user_direct_found [OF wf_dbD(1) [OF wf] wf_db_tables(21) [OF wf]] 1(6) list_registered_model_permissions_def
      by (rule refl)
    with c(1) e(1) show ?thesis by (simp add: resolve_found)
  qed
qed

lemma context_total:
  assumes wf: "wf_db d" and user: "get_user (users d) uname = Inr u"
  obtains ctx where "build_user_permission_context d uname = Inr ctx"
proof -
  have "\<forall>p\<in>set (list_user_groups_experiment_permissions d uname). valid_permission (p_permission p)"
    using wf_db_tables(2) [OF wf]
    by (auto simp: list_user_groups_experiment_permissions_def list_permissions_for_user_groups_def set_sql_join wf_perm_table_def)
  then obtain m where m: "collapse_group_permissions (list_user_groups_experiment_permissions d uname) = Inr m"
    using collapse_total by blast
  obtain rows where rows: "list_user_groups_registered_model_permissions d uname = Inr rows" "set rows \<subseteq> set (t_group (registered_model_tables d))"
    using user by (auto simp: list_user_groups_registered_model_permissions_def model_group_list_for_user_def)
  then have "\<forall>p\<in>set rows. valid_permission (p_permission p)"
    using wf_db_tables(22) [OF wf] by (auto simp: wf_perm_table_def)
  then obtain m' where "collapse_group_permissions rows = Inr m'" using collapse_total by blast
  moreover obtain a b where "list_registered_model_regex_permissions d uname = Inr a" "list_prompt_regex_permissions d uname True = Inr b"
    using user by (simp add: list_registered_model_regex_permissions_def list_prompt_regex_permissions_def model_list_regex_for_user_def)
  ultimately show thesis
    using m rows(1) by (intro that) (simp add: build_user_permission_context_def Let_def)
qed

subsection \<open>Batches give the decisions of the single path\<close>

text \<open>The memo of a context holds what the database says of the user in a workspace.\<close>

definition memo_ok :: "('c, 'w) env \<Rightarrow> db \<Rightarrow> user_permission_context \<Rightarrow> bool" where
  "memo_ok env d ctx \<longleftrightarrow>
     (\<forall>ws x. workspace_permission_memo ctx ws = Some x \<longrightarrow>
        x = lookup_workspace_permission (e_config env) (e_re_match env) d (ctx_username ctx) ws)"

text \<open>A context for the database \<open>d\<close>, up to its memo.\<close>

definition context_of :: "('c, 'w) env \<Rightarrow> db \<Rightarrow> string \<Rightarrow> user_permission_context \<Rightarrow> bool" where
  "context_of env d uname ctx \<longleftrightarrow> memo_ok env d ctx \<and>
     build_user_permission_context d uname = Inr (ctx\<lparr>workspace_permission_memo := Map.empty\<rparr>)"

lemma context_of_username: "context_of env d uname ctx \<Longrightarrow> ctx_username ctx = uname"
  unfolding context_of_def by (elim conjE contextD) simp

lemma record_if_fallback_state [simp]:
  "a_db (record_if_fallback s r rtype rid) = a_db s"
  "a_wc (record_if_fallback s r rtype rid) = a_wc s"
  by (simp_all add: record_if_fallback_def)

text \<open>Every permission name in a context of a well-formed database is valid, so resolution does not raise.\<close>

lemma source_order_loop_total:
  assumes "valid_permission dflt" and "\<And>s p. map_of source_map s = Some (Some p) \<Longrightarrow> valid_permission p"
  shows "\<exists>r. source_order_loop source_map dflt order = Inr r"
proof (induction order)
  case Nil
  then show ?case using get_permission_valid [OF assms(1)] by auto
next
  case (Cons s ss)
  consider p where "map_of source_map s = Some (Some p)" | "map_of source_map s = None \<or> map_of source_map s = Some None"
    by (cases "map_of source_map s") auto
  then show ?case
  proof cases
    case 1
    then show ?thesis using get_permission_valid [OF assms(2) [OF 1]] by auto
  qed (use Cons in auto)
qed

lemma dict_of_SomeD: "dict_of kvs k = Some v \<Longrightarrow> (k, v) \<in> set kvs"
  unfolding dict_of_def by (drule map_of_SomeD) simp

lemma find_regex_in:
  "batch_find_regex_permission re_match rows nm = Inr (Some p) \<Longrightarrow> \<exists>r\<in>set rows. rx_permission r = p"
  by (induction rows) (auto split: if_splits)

lemma collapse_in:
  assumes "\<forall>p\<in>set rows. valid_permission (p_permission p)" and "collapse_group_permissions rows = Inr m" and "m k = Some x"
  shows "valid_permission x"
proof -
  have "perm_of (case filter (\<lambda>p. p_resource p = k) rows of [] \<Rightarrow> Inl (MlflowException RESOURCE_DOES_NOT_EXIST) | p # ps \<Rightarrow> fold_highest p ps)
      = Inr x"
    using group_fold_found [OF assms(1,2) refl, of k] assms(3) by simp
  then obtain p ps r where ps: "filter (\<lambda>p. p_resource p = k) rows = p # ps" "fold_highest p ps = Inr r" "x = p_permission r"
    by (auto split: list.splits)
  then have "set (p # ps) \<subseteq> set rows" by (metis filter_is_subset)
  with assms(1) have v: "\<forall>q\<in>set (p # ps). valid_permission (p_permission q)" by blast
  with fold_highest_max [of p ps] ps(2) have "r \<in> set (p # ps)" by auto
  with v ps(3) show ?thesis by blast
qed

definition valid_context :: "user_permission_context \<Rightarrow> bool" where
  "valid_context ctx \<longleftrightarrow>
     (\<forall>k x. user_experiment_permissions ctx k = Some x \<or> group_experiment_permissions ctx k = Some x \<or>
        user_model_permissions ctx k = Some x \<or> group_model_permissions ctx k = Some x \<longrightarrow> valid_permission x) \<and>
     (\<forall>r\<in>set (experiment_regex_permissions ctx) \<union> set (group_experiment_regex_permissions ctx). valid_permission (rx_permission r)) \<and>
     (\<forall>r\<in>set (model_regex_permissions ctx) \<union> set (group_model_regex_permissions ctx) \<union>
        set (prompt_regex_permissions ctx) \<union> set (group_prompt_regex_permissions ctx). valid_permission (rx_permission r))"

lemma listed_valid:
  assumes "wf_db d"
  shows "p \<in> set (list_experiment_permissions d uname) \<Longrightarrow> valid_permission (p_permission p)"
    and "p \<in> set (list_user_groups_experiment_permissions d uname) \<Longrightarrow> valid_permission (p_permission p)"
    and "p \<in> set (list_registered_model_permissions d uname) \<Longrightarrow> valid_permission (p_permission p)"
    and "list_user_groups_registered_model_permissions d uname = Inr rows \<Longrightarrow> q \<in> set rows \<Longrightarrow> valid_permission (p_permission q)"
  using wf_db_tables(1,2,21,22) [OF assms]
  by (auto simp: list_experiment_permissions_def list_permissions_for_user_def list_user_groups_experiment_permissions_def
      list_permissions_for_user_groups_def list_registered_model_permissions_def set_sql_join wf_perm_table_def
      list_user_groups_registered_model_permissions_def model_group_list_for_user_def)

lemma listed_patterns_valid:
  assumes "wf_db d"
  shows "r \<in> set (list_experiment_regex_permissions d uname) \<Longrightarrow> valid_permission (rx_permission r)"
    and "r \<in> set (list_group_experiment_regex_permissions_for_groups_ids d gids) \<Longrightarrow> valid_permission (rx_permission r)"
    and "list_registered_model_regex_permissions d uname = Inr rows \<Longrightarrow> q \<in> set rows \<Longrightarrow> valid_permission (rx_permission q)"
    and "q \<in> set (list_group_registered_model_regex_permissions_for_groups_ids d gids) \<Longrightarrow> valid_permission (rx_permission q)"
    and "list_prompt_regex_permissions d uname prompt = Inr rows \<Longrightarrow> q \<in> set rows \<Longrightarrow> valid_permission (rx_permission q)"
    and "q \<in> set (list_group_prompt_regex_permissions_for_groups_ids d gids prompt) \<Longrightarrow> valid_permission (rx_permission q)"
  using wf_db_tables(3,4,23,24) [OF assms]
  by (auto simp: list_experiment_regex_permissions_def list_regex_for_user_def set_sql_join wf_regex_table_def
      list_group_experiment_regex_permissions_for_groups_ids_def list_permissions_for_groups_ids_def list_group_permissions_def
      list_registered_model_regex_permissions_def list_prompt_regex_permissions_def model_list_regex_for_user_def
      list_group_registered_model_regex_permissions_for_groups_ids_def list_group_prompt_regex_permissions_for_groups_ids_def
      model_list_permissions_for_groups_ids_def)

lemma context_valid:
  assumes wf: "wf_db d" and "build_user_permission_context d uname = Inr ctx"
  shows "valid_context ctx"
  using assms(2)
proof (cases rule: contextD)
  case (1 rows)
  have "valid_permission x" if "user_experiment_permissions ctx k = Some x" for k x
    using that listed_valid(1) [OF wf] unfolding 1(2) by (auto dest!: dict_of_SomeD)
  moreover have "valid_permission x" if "user_model_permissions ctx k = Some x" for k x
    using that listed_valid(3) [OF wf] unfolding 1(6) by (auto dest!: dict_of_SomeD)
  moreover have "valid_permission x" if "group_experiment_permissions ctx k = Some x" for k x
    using collapse_in [OF _ 1(3) that] listed_valid(2) [OF wf] by blast
  moreover have "valid_permission x" if "group_model_permissions ctx k = Some x" for k x
    using collapse_in [OF _ 1(8) that] listed_valid(4) [OF wf 1(7)] by blast
  ultimately show ?thesis
    unfolding valid_context_def 1(4,5,10,12)
    using listed_patterns_valid(1,2,4,6) [OF wf] listed_patterns_valid(3) [OF wf 1(9)] listed_patterns_valid(5) [OF wf 1(11)]
    by blast
qed

lemma resolve_from_context_total:
  assumes "valid_permission (DEFAULT_MLFLOW_PERMISSION cfg)"
    and "\<And>p. Some p \<in> {a, b, c, e} \<Longrightarrow> valid_permission p"
  shows "\<exists>r. resolve_permission_from_context cfg a b c e = Inr r"
  unfolding resolve_permission_from_context_def
  using assms by (intro source_order_loop_total) (auto split: if_splits)

lemma find_regex_valid:
  assumes "matches_all re_match" and "\<forall>r\<in>set rows. valid_permission (rx_permission r)"
  obtains x where "batch_find_regex_permission re_match rows nm = Inr x" "\<And>p. x = Some p \<Longrightarrow> valid_permission p"
proof -
  obtain x where "batch_find_regex_permission re_match rows nm = Inr x" using find_regex_found [OF assms(1)] by blast
  then show ?thesis using find_regex_in [of re_match rows nm] assms(2) by (intro that) auto
qed

lemma lookups_total:
  assumes "valid_context ctx" and "matches_all re_match" and "valid_permission (DEFAULT_MLFLOW_PERMISSION cfg)"
  shows "\<exists>r. bindE (batch_find_regex_permission re_match (experiment_regex_permissions ctx) nm) (\<lambda>c.
      bindE (batch_find_regex_permission re_match (group_experiment_regex_permissions ctx) nm) (\<lambda>e.
      resolve_permission_from_context cfg (user_experiment_permissions ctx k) (group_experiment_permissions ctx k) c e)) = Inr r"
    and "\<exists>r. bindE (batch_find_regex_permission re_match (model_regex_permissions ctx) nm) (\<lambda>c.
      bindE (batch_find_regex_permission re_match (group_model_regex_permissions ctx) nm) (\<lambda>e.
      resolve_permission_from_context cfg (user_model_permissions ctx k) (group_model_permissions ctx k) c e)) = Inr r"
    and "\<exists>r. bindE (batch_find_regex_permission re_match (prompt_regex_permissions ctx) nm) (\<lambda>c.
      bindE (batch_find_regex_permission re_match (group_prompt_regex_permissions ctx) nm) (\<lambda>e.
      resolve_permission_from_context cfg (user_model_permissions ctx k) (group_model_permissions ctx k) c e)) = Inr r"
proof -
  have general: "\<exists>r. bindE (batch_find_regex_permission re_match rs nm) (\<lambda>c. bindE (batch_find_regex_permission re_match gs nm) (\<lambda>e.
      resolve_permission_from_context cfg a b c e)) = Inr r"
    if rs: "\<forall>r\<in>set rs. valid_permission (rx_permission r)" and gs: "\<forall>r\<in>set gs. valid_permission (rx_permission r)"
      and ab: "\<And>p. Some p \<in> {a, b} \<Longrightarrow> valid_permission p" for rs gs :: "'z regex_row_scheme list" and a b
  proof -
    obtain c where c: "batch_find_regex_permission re_match rs nm = Inr c" "\<And>p. c = Some p \<Longrightarrow> valid_permission p"
      using find_regex_valid [OF assms(2) rs] by blast
    obtain e where e: "batch_find_regex_permission re_match gs nm = Inr e" "\<And>p. e = Some p \<Longrightarrow> valid_permission p"
      using find_regex_valid [OF assms(2) gs] by blast
    have "\<exists>r. resolve_permission_from_context cfg a b c e = Inr r"
      using ab c(2) e(2) by (intro resolve_from_context_total [OF assms(3)]) blast
    with c(1) e(1) show ?thesis by simp
  qed
  show "\<exists>r. bindE (batch_find_regex_permission re_match (experiment_regex_permissions ctx) nm) (\<lambda>c.
      bindE (batch_find_regex_permission re_match (group_experiment_regex_permissions ctx) nm) (\<lambda>e.
      resolve_permission_from_context cfg (user_experiment_permissions ctx k) (group_experiment_permissions ctx k) c e)) = Inr r"
    using assms(1) unfolding valid_context_def by (intro general) force+
  show "\<exists>r. bindE (batch_find_regex_permission re_match (model_regex_permissions ctx) nm) (\<lambda>c.
      bindE (batch_find_regex_permission re_match (group_model_regex_permissions ctx) nm) (\<lambda>e.
      resolve_permission_from_context cfg (user_model_permissions ctx k) (group_model_permissions ctx k) c e)) = Inr r"
    using assms(1) unfolding valid_context_def by (intro general) force+
  show "\<exists>r. bindE (batch_find_regex_permission re_match (prompt_regex_permissions ctx) nm) (\<lambda>c.
      bindE (batch_find_regex_permission re_match (group_prompt_regex_permissions ctx) nm) (\<lambda>e.
      resolve_permission_from_context cfg (user_model_permissions ctx k) (group_model_permissions ctx k) c e)) = Inr r"
    using assms(1) unfolding valid_context_def by (intro general) force+
qed

lemma decide_builders:
  "decide env d EXPERIMENT rid uname kw =
     bindE (get_permission_from_store_or_default (e_config env) (build_experiment_sources env d rid uname))
       (\<lambda>r. Inr (workspace_decision env d r uname))"
  "decide env d REGISTERED_MODEL rid uname kw =
     bindE (get_permission_from_store_or_default (e_config env) (build_registered_model_sources env d rid uname))
       (\<lambda>r. Inr (workspace_decision env d r uname))"
  "decide env d PROMPT rid uname kw =
     bindE (get_permission_from_store_or_default (e_config env) (build_prompt_sources env d rid uname))
       (\<lambda>r. Inr (workspace_decision env d r uname))"
  by (simp_all add: decide_def PERMISSION_REGISTRY_def)

text \<open>What a listing request assumes of the state and the environment.\<close>

definition listing_ok :: "('c, 'w) env \<Rightarrow> ('c, 'w) app \<Rightarrow> string \<Rightarrow> bool" where
  "listing_ok env s uname \<longleftrightarrow> plain_workspace (e_workspace env) \<and> wf_db (a_db s) \<and>
     ws_coherent (e_config env) (e_re_match env) (e_wc env) (a_db s) (a_wc s) \<and> (\<exists>u. get_user (users (a_db s)) uname = Inr u) \<and>
     matches_all (e_re_match env) \<and> valid_permission (DEFAULT_MLFLOW_PERMISSION (e_config env))"

text \<open>The decision on one object allows management; an error does not.\<close>

definition manages :: "('c, 'w) env \<Rightarrow> db \<Rightarrow> string \<Rightarrow> string \<Rightarrow> string \<Rightarrow> bool" where
  "manages env d rtype uname rid = (case decide env d rtype rid uname None of Inl e \<Rightarrow> False | Inr r \<Rightarrow> can_manage (pr_permission r))"

lemma filterE_total: "(\<And>x. x \<in> set xs \<Longrightarrow> P x = Inr (b x)) \<Longrightarrow> filterE P xs = Inr (filter b xs)"
  by (induction xs) auto

lemma manageable_decided:
  assumes "\<forall>x\<in>set xs. \<exists>r. perms (key x) = Some r \<and> decide env d rtype (key x) uname None = Inr r"
  shows "filterE (\<lambda>x. manageable_in perms (key x)) xs = Inr (filter (\<lambda>x. manages env d rtype uname (key x)) xs)"
  by (rule filterE_total) (use assms in \<open>force simp: manageable_in_def manages_def\<close>)

context resolver_caches
begin

definition batch_ok :: "('c, 'w) env \<Rightarrow> db \<Rightarrow> string \<Rightarrow> ('c, 'w) app \<Rightarrow> user_permission_context \<Rightarrow> bool" where
  "batch_ok env d uname s ctx \<longleftrightarrow> a_db s = d \<and>
     ws_coherent (e_config env) (e_re_match env) wc d (a_wc s) \<and> context_of env d uname ctx"

lemma batch_fallback:
  assumes env: "e_wc env = wc" and ws: "plain_workspace (e_workspace env)" and ok: "batch_ok env d uname s ctx"
    and run: "batch_apply_workspace_fallback env s r ctx = (r', s', ctx')"
  shows "r' = workspace_decision env d r uname \<and> batch_ok env d uname s' ctx'"
proof (cases "kind r = ''fallback'' \<and> (\<exists>ws. workspace_view (e_config env) (e_workspace env) = Some ws)")
  case True
  then obtain v where v: "e_workspace env = Some v" "v \<noteq> []" "MLFLOW_ENABLE_WORKSPACES (e_config env)" "kind r = ''fallback''"
    by (auto simp: workspace_view_def split: if_splits option.splits)
  with ws have "colon_free v" by (simp add: plain_workspace_def)
  have uname: "ctx_username ctx = uname" and d: "a_db s = d"
    and wsc: "ws_coherent (e_config env) (e_re_match env) wc d (a_wc s)" and ctx: "context_of env d uname ctx"
    using ok context_of_username by (auto simp: batch_ok_def)
  let ?look = "lookup_workspace_permission (e_config env) (e_re_match env) d uname v"
  have view: "workspace_decision env d r uname =
      (case ?look of Some p \<Rightarrow> \<lparr>pr_permission = p, kind = ''workspace''\<rparr>
       | None \<Rightarrow> \<lparr>pr_permission = NO_PERMISSIONS, kind = ''workspace-deny''\<rparr>)"
    using v by (simp add: workspace_decision_def workspace_view_def)
  show ?thesis
  proof (cases "workspace_permission_memo ctx v")
    case (Some x)
    with ctx uname have "x = ?look" by (auto simp: context_of_def memo_ok_def)
    with Some run v view ok show ?thesis by (auto simp: batch_apply_workspace_fallback_def split: option.splits)
  next
    case None
    obtain x w where get: "get_workspace_permission_cached (e_config env) wc (e_re_match env) d (a_wc s) uname v = (x, w)" by fastforce
    from cached_lookup [OF wsc v(3,2) \<open>colon_free v\<close> get]
    have x: "x = ?look" and w: "ws_coherent (e_config env) (e_re_match env) wc d w" by auto
    have s': "s' = s\<lparr>a_wc := w\<rparr>" "ctx' = ctx\<lparr>workspace_permission_memo := (workspace_permission_memo ctx)(v \<mapsto> x)\<rparr>"
      "r' = workspace_decision env d r uname"
      using run v None get env uname d view x by (auto simp: batch_apply_workspace_fallback_def split: option.splits)
    have "context_of env d uname ctx'"
      using ctx x uname by (auto simp: s'(2) context_of_def memo_ok_def)
    with s' w d show ?thesis by (simp add: batch_ok_def)
  qed
next
  case False
  then have "batch_apply_workspace_fallback env s r ctx = (r, s, ctx)" "workspace_decision env d r uname = r"
    by (auto simp: batch_apply_workspace_fallback_def workspace_decision_def workspace_view_def split: option.splits if_splits)
  with run ok show ?thesis by simp
qed

lemma finish_decision:
  assumes "e_wc env = wc" and "plain_workspace (e_workspace env)" and "batch_ok env d uname s ctx"
  shows "\<exists>s' ctx'. finish_batch_result env s ctx rtype rid (Inr r) = (Inr (workspace_decision env d r uname), s', ctx') \<and>
    batch_ok env d uname s' ctx'"
proof -
  obtain r' s' ctx' where run: "batch_apply_workspace_fallback env (record_if_fallback s r rtype rid) r ctx = (r', s', ctx')"
    using prod_cases3 by blast
  moreover have "batch_ok env d uname (record_if_fallback s r rtype rid) ctx" using assms(3) by (simp add: batch_ok_def)
  from batch_fallback [OF assms(1,2) this run] show ?thesis
    using run by (simp add: finish_batch_result_def)
qed

text \<open>One resource of each kind: the batch returns the decision of the single path and does not raise.\<close>

lemma contexts_of:
  assumes "context_of env d uname ctx" and "wf_db d"
  shows "build_user_permission_context d uname = Inr (ctx\<lparr>workspace_permission_memo := Map.empty\<rparr>)" and "valid_context ctx"
  using assms context_valid [OF assms(2), of uname "ctx\<lparr>workspace_permission_memo := Map.empty\<rparr>"]
  by (auto simp: context_of_def valid_context_def)

lemma batch_one:
  assumes env: "e_wc env = wc" and ws: "plain_workspace (e_workspace env)" and ok: "batch_ok env d uname s ctx"
    and wf: "wf_db d" and total: "matches_all (e_re_match env)"
    and dflt: "valid_permission (DEFAULT_MLFLOW_PERMISSION (e_config env))"
  shows "e_experiment_name env eid = Inr nm \<Longrightarrow> \<exists>r s' ctx'.
      resolve_experiment_permission_from_context env s ctx eid (Some nm) = (Inr r, s', ctx') \<and>
      decide env d EXPERIMENT eid uname None = Inr r \<and> batch_ok env d uname s' ctx'"
    and "\<exists>r s' ctx'. resolve_model_permission_from_context env s ctx nm = (Inr r, s', ctx') \<and>
      decide env d REGISTERED_MODEL nm uname None = Inr r \<and> batch_ok env d uname s' ctx'"
    and "\<exists>r s' ctx'. resolve_prompt_permission_from_context env s ctx nm = (Inr r, s', ctx') \<and>
      decide env d PROMPT nm uname None = Inr r \<and> batch_ok env d uname s' ctx'"
proof -
  have "context_of env d uname ctx" using ok by (simp add: batch_ok_def)
  note ctx = contexts_of [OF this wf]
  have finish: "\<exists>r s' ctx'. finish_batch_result env s ctx t i x = (Inr r, s', ctx') \<and>
      bindE y (\<lambda>r. Inr (workspace_decision env d r uname)) = Inr r \<and> batch_ok env d uname s' ctx'"
    if "\<exists>r. x = Inr r" "x = y" for x y t i
    using that finish_decision [OF env ws ok, of t i] by auto
  note defs = resolve_experiment_permission_from_context_def resolve_model_permission_from_context_def
    resolve_prompt_permission_from_context_def decide_builders option.case bindE_Inr
  show "\<exists>r s' ctx'. resolve_experiment_permission_from_context env s ctx eid (Some nm) = (Inr r, s', ctx') \<and>
      decide env d EXPERIMENT eid uname None = Inr r \<and> batch_ok env d uname s' ctx'"
    if "e_experiment_name env eid = Inr nm"
    unfolding defs using lookups_total(1) [OF ctx(2) total dflt, of nm eid] experiment_context [OF wf ctx(1) total that]
    by (intro finish) (simp_all del: bindE_eq_Inr)
  show "\<exists>r s' ctx'. resolve_model_permission_from_context env s ctx nm = (Inr r, s', ctx') \<and>
      decide env d REGISTERED_MODEL nm uname None = Inr r \<and> batch_ok env d uname s' ctx'"
    unfolding defs using lookups_total(2) [OF ctx(2) total dflt, of nm nm] model_context [OF wf ctx(1) total, of nm]
    by (intro finish) (simp_all del: bindE_eq_Inr)
  show "\<exists>r s' ctx'. resolve_prompt_permission_from_context env s ctx nm = (Inr r, s', ctx') \<and>
      decide env d PROMPT nm uname None = Inr r \<and> batch_ok env d uname s' ctx'"
    unfolding defs using lookups_total(3) [OF ctx(2) total dflt, of nm nm] prompt_context [OF wf ctx(1) total, of nm]
    by (intro finish) (simp_all del: bindE_eq_Inr)
qed

lemma batch_loop_decisions:
  assumes "\<And>s ctx x. x \<in> set xs \<Longrightarrow> batch_ok env d uname s ctx \<Longrightarrow>
      \<exists>r s' ctx'. one s ctx x = (Inr r, s', ctx') \<and> dec x = Inr r \<and> batch_ok env d uname s' ctx'"
    and "batch_ok env d uname s ctx"
  shows "\<exists>rs s' ctx'. batch_loop key one s ctx xs = (Inr (map (\<lambda>x. (key x, rs x)) xs), s') \<and>
    (\<forall>x\<in>set xs. dec x = Inr (rs x)) \<and> batch_ok env d uname s' ctx'"
  using assms
proof (induction xs arbitrary: s ctx)
  case Nil
  then show ?case by auto
next
  case (Cons x xs)
  from Cons.prems obtain r s1 ctx1 where one: "one s ctx x = (Inr r, s1, ctx1)" "dec x = Inr r" "batch_ok env d uname s1 ctx1"
    by (metis list.set_intros(1))
  obtain rs s' ctx' where rest: "batch_loop key one s1 ctx1 xs = (Inr (map (\<lambda>x. (key x, rs x)) xs), s')"
    "\<forall>x\<in>set xs. dec x = Inr (rs x)" "batch_ok env d uname s' ctx'"
    using Cons.IH [OF Cons.prems(1) one(3)] by auto
  define rs' where "rs' = (\<lambda>y. case dec y of Inr q \<Rightarrow> q | Inl e \<Rightarrow> r)"
  have "map (\<lambda>x. (key x, rs x)) xs = map (\<lambda>x. (key x, rs' x)) xs" "rs' x = r" "\<forall>y\<in>set (x # xs). dec y = Inr (rs' y)"
    using rest(2) one(2) by (auto simp: rs'_def)
  with one rest show ?case by (intro exI [of _ rs'] exI [of _ s'] exI [of _ ctx']) simp
qed

lemma dict_of_map:
  assumes "x \<in> set xs" and "\<And>y. y \<in> set xs \<Longrightarrow> key y = key x \<Longrightarrow> v y = v x"
  shows "dict_of (map (\<lambda>x. (key x, v x)) xs) (key x) = Some (v x)"
proof -
  have "key x \<in> fst ` set (rev (map (\<lambda>x. (key x, v x)) xs))" using assms(1) by force
  then obtain w where w: "map_of (rev (map (\<lambda>x. (key x, v x)) xs)) (key x) = Some w"
    by (metis map_of_eq_None_iff not_None_eq)
  from map_of_SomeD [OF this] assms(2) have "w = v x" by auto
  with w show ?thesis by (simp add: dict_of_def)
qed

lemma batch_resolve_decisions:
  assumes wf: "wf_db (a_db s)" and user: "get_user (users (a_db s)) uname = Inr u"
    and wsc: "ws_coherent (e_config env) (e_re_match env) wc (a_db s) (a_wc s)"
    and one: "\<And>s' ctx x. x \<in> set xs \<Longrightarrow> batch_ok env (a_db s) uname s' ctx \<Longrightarrow>
      \<exists>r s'' ctx'. one s' ctx x = (Inr r, s'', ctx') \<and> dec (key x) = Inr r \<and> batch_ok env (a_db s) uname s'' ctx'"
  shows "\<exists>perms s'. batch_resolve key one s uname xs = (Inr perms, s') \<and>
    (\<forall>x\<in>set xs. \<exists>r. perms (key x) = Some r \<and> dec (key x) = Inr r) \<and>
    a_db s' = a_db s \<and> ws_coherent (e_config env) (e_re_match env) wc (a_db s) (a_wc s')"
proof -
  from context_total [OF wf user] obtain ctx where ctx: "build_user_permission_context (a_db s) uname = Inr ctx" .
  then have memo: "workspace_permission_memo ctx = Map.empty" by (auto elim: contextD)
  have "batch_ok env (a_db s) uname s ctx"
    using ctx memo wsc by (simp add: batch_ok_def context_of_def memo_ok_def)
  from batch_loop_decisions [where xs = xs and one = one and dec = "\<lambda>x. dec (key x)" and key = key, OF one this]
  obtain rs s' ctx' where loop: "batch_loop key one s ctx xs = (Inr (map (\<lambda>x. (key x, rs x)) xs), s')"
    "\<forall>x\<in>set xs. dec (key x) = Inr (rs x)" "batch_ok env (a_db s) uname s' ctx'" by auto
  have "dict_of (map (\<lambda>x. (key x, rs x)) xs) (key x) = Some (rs x)" if "x \<in> set xs" for x
    using that loop(2) by (intro dict_of_map) (auto, metis sum.inject(2))
  with loop ctx show ?thesis by (simp add: batch_resolve_def batch_ok_def)
qed

lemma batch_decisions:
  assumes "e_wc (env :: ('c, 'w) env) = wc" and ok: "listing_ok env s uname"
  shows "\<forall>e\<in>set es. e_experiment_name env (exp_id e) = Inr (exp_name e) \<Longrightarrow>
      \<exists>perms s'. batch_resolve_experiment_permissions env s uname es = (Inr perms, s') \<and>
      (\<forall>e\<in>set es. \<exists>r. perms (exp_id e) = Some r \<and> decide env (a_db s) EXPERIMENT (exp_id e) uname None = Inr r)"
    and "\<exists>perms s'. batch_resolve_model_permissions env s uname ns = (Inr perms, s') \<and>
      (\<forall>n\<in>set ns. \<exists>r. perms n = Some r \<and> decide env (a_db s) REGISTERED_MODEL n uname None = Inr r)"
    and "\<exists>perms s'. batch_resolve_prompt_permissions env s uname ns = (Inr perms, s') \<and>
      (\<forall>n\<in>set ns. \<exists>r. perms n = Some r \<and> decide env (a_db s) PROMPT n uname None = Inr r)"
proof -
  obtain u where facts: "e_wc env = wc" "plain_workspace (e_workspace env)" "wf_db (a_db s)"
    "ws_coherent (e_config env) (e_re_match env) wc (a_db s) (a_wc s)" "get_user (users (a_db s)) uname = Inr u"
    "matches_all (e_re_match env)" "valid_permission (DEFAULT_MLFLOW_PERMISSION (e_config env))"
    using assms by (auto simp: listing_ok_def)
  note one = batch_one [OF facts(1,2) _ facts(3,6,7)]
  note batch = batch_resolve_decisions [OF facts(3,5,4)]
  show "\<exists>perms s'. batch_resolve_experiment_permissions env s uname es = (Inr perms, s') \<and>
      (\<forall>e\<in>set es. \<exists>r. perms (exp_id e) = Some r \<and> decide env (a_db s) EXPERIMENT (exp_id e) uname None = Inr r)"
    if "\<forall>e\<in>set es. e_experiment_name env (exp_id e) = Inr (exp_name e)"
    unfolding batch_resolve_experiment_permissions_def
    using batch [of es "\<lambda>s ctx e. resolve_experiment_permission_from_context env s ctx (exp_id e) (Some (exp_name e))"
        "\<lambda>k. decide env (a_db s) EXPERIMENT k uname None" exp_id] one(1) that by blast
  show "\<exists>perms s'. batch_resolve_model_permissions env s uname ns = (Inr perms, s') \<and>
      (\<forall>n\<in>set ns. \<exists>r. perms n = Some r \<and> decide env (a_db s) REGISTERED_MODEL n uname None = Inr r)"
    unfolding batch_resolve_model_permissions_def
    using batch [of ns "resolve_model_permission_from_context env" "\<lambda>k. decide env (a_db s) REGISTERED_MODEL k uname None" "\<lambda>m. m"]
      one(2) by blast
  show "\<exists>perms s'. batch_resolve_prompt_permissions env s uname ns = (Inr perms, s') \<and>
      (\<forall>n\<in>set ns. \<exists>r. perms n = Some r \<and> decide env (a_db s) PROMPT n uname None = Inr r)"
    unfolding batch_resolve_prompt_permissions_def
    using batch [of ns "resolve_prompt_permission_from_context env" "\<lambda>k. decide env (a_db s) PROMPT k uname None" "\<lambda>m. m"]
      one(3) by blast
qed

text \<open>The filters keep exactly the objects whose decision allows management, in their order.\<close>

lemma filters_decide:
  assumes "e_wc (env :: ('c, 'w) env) = wc" and "listing_ok env s uname"
  shows "\<forall>e\<in>set es. e_experiment_name env (exp_id e) = Inr (exp_name e) \<Longrightarrow>
      fst (filter_manageable_experiments env s uname es) =
      Inr (filter (\<lambda>e. manages env (a_db s) EXPERIMENT uname (exp_id e)) es)"
    and "fst (filter_manageable_models env s uname ns) = Inr (filter (manages env (a_db s) REGISTERED_MODEL uname) ns)"
    and "fst (filter_manageable_prompts env s uname ns) = Inr (filter (manages env (a_db s) PROMPT uname) ns)"
proof -
  note dec = batch_decisions [OF assms]
  show "fst (filter_manageable_experiments env s uname es) =
      Inr (filter (\<lambda>e. manages env (a_db s) EXPERIMENT uname (exp_id e)) es)"
    if "\<forall>e\<in>set es. e_experiment_name env (exp_id e) = Inr (exp_name e)"
    using dec(1) [OF that] manageable_decided [of es _ exp_id env "a_db s" EXPERIMENT uname]
    by (auto simp: filter_manageable_experiments_def)
  show "fst (filter_manageable_models env s uname ns) = Inr (filter (manages env (a_db s) REGISTERED_MODEL uname) ns)"
    using dec(2) [of ns] manageable_decided [of ns _ "\<lambda>n. n" env "a_db s" REGISTERED_MODEL uname]
    by (auto simp: filter_manageable_models_def)
  show "fst (filter_manageable_prompts env s uname ns) = Inr (filter (manages env (a_db s) PROMPT uname) ns)"
    using dec(3) [of ns] manageable_decided [of ns _ "\<lambda>n. n" env "a_db s" PROMPT uname]
    by (auto simp: filter_manageable_prompts_def)
qed

text \<open>The gateway filters ask the cached resolver for each object.\<close>

lemma gateway_filter_decides:
  assumes env: "e_pc env = pc" "e_wc env = wc" and ws: "plain_workspace (e_workspace env)" and t: "rtype \<in> set resource_types" "rtype \<noteq> SCORER"
    and "coherent env s" and "\<forall>x\<in>set xs. colon_free (name_of x)"
  shows "fst (gateway_filter_loop name_of (\<lambda>s nm. flag_of can_manage (resolve_permission env s rtype nm uname None)) s xs) =
    filter (\<lambda>x. name_of x \<noteq> [] \<and> manages env (a_db s) rtype uname (name_of x)) xs"
  using assms(6,7)
proof (induction xs arbitrary: s)
  case (Cons x xs)
  show ?case
  proof (cases "name_of x = []")
    case False
    obtain r s' where run: "resolve_permission env s rtype (name_of x) uname None = (r, s')" by fastforce
    from resolve_decision [OF env ws _ t(1) Cons.prems(1) run] Cons.prems(2) t(2)
    have s': "a_db s' = a_db s" "coherent env s'" "decide env (a_db s) rtype (name_of x) uname None = r" by auto
    note IH = Cons.IH [OF s'(2)]
    show ?thesis
    proof (cases r)
      case (Inl e)
      with IH False run s' Cons.prems(2) show ?thesis by (simp add: flag_of_def manages_def)
    next
      case (Inr q)
      with IH False run s' Cons.prems(2) show ?thesis
        by (cases "can_manage (pr_permission q)") (auto simp: flag_of_def manages_def split: prod.split)
    qed
  qed (use Cons in simp)
qed simp

end

end
