(* ===== verification/Examples.thy ===== *)
theory Examples
  imports Batch
begin

section \<open>A sample deployment\<close>

text \<open>
  A small database, configuration and environment on which the hypotheses of the properties are
  shown to hold: two users, two groups of which \<^verbatim>\<open>bob\<close> is a member, grants of
  each kind, the cache \<open>timed_ops\<close> and prefix matching for \<^verbatim>\<open>re.match\<close>.
\<close>

definition alice :: user_row where
  "alice = \<lparr>u_id = 1, u_username = ''alice'', u_display_name = ''Alice'', u_password_hash = ''h1'',
     u_password_expiration = None, u_is_admin = True, u_is_service_account = False, u_active = True, u_managed_by = ''manual''\<rparr>"

definition bob :: user_row where
  "bob = \<lparr>u_id = 2, u_username = ''bob'', u_display_name = ''Bob'', u_password_hash = ''h2'',
     u_password_expiration = None, u_is_admin = False, u_is_service_account = False, u_active = True, u_managed_by = ''oidc''\<rparr>"

definition grant_row :: "int \<Rightarrow> string \<Rightarrow> int \<Rightarrow> string \<Rightarrow> string perm_row" where
  "grant_row i rid owner perm = \<lparr>p_id = i, p_resource = rid, p_owner = owner, p_permission = perm\<rparr>"

definition no_tables :: "('u, 'g, 'x, 'y) perm_tables" where
  "no_tables = \<lparr>t_user = [], t_group = [], t_regex = [], t_group_regex = []\<rparr>"

definition sample_db :: db where
  "sample_db =
     \<lparr>users = [alice, bob],
      groups = [\<lparr>g_id = 1, g_group_name = ''devs''\<rparr>, \<lparr>g_id = 2, g_group_name = ''ops''\<rparr>],
      user_groups = [\<lparr>ug_id = 1, ug_user_id = 2, ug_group_id = 1\<rparr>, \<lparr>ug_id = 2, ug_user_id = 2, ug_group_id = 2\<rparr>],
      experiment_tables =
        \<lparr>t_user = [grant_row 1 ''7'' 1 ''MANAGE''],
         t_group = [grant_row 1 ''7'' 1 ''READ'', grant_row 2 ''7'' 2 ''EDIT''],
         t_regex = [\<lparr>rx_id = 1, rx_regex = ''team'', rx_priority = 1, rx_owner = 2, rx_permission = ''USE''\<rparr>],
         t_group_regex = []\<rparr>,
      registered_model_tables = no_tables\<lparr>t_user := [grant_row 1 ''m'' 2 ''READ'']\<rparr>,
      scorer_tables = no_tables, gateway_endpoint_tables = no_tables,
      gateway_secret_tables = no_tables, gateway_model_definition_tables = no_tables,
      workspace_tables = no_tables\<lparr>t_user := [grant_row 1 ''ws'' 2 ''EDIT'']\<rparr>,
      user_identities = [], auth_sessions = [], auth_states = []\<rparr>"

definition sample_config :: config where
  "sample_config =
     \<lparr>DEFAULT_MLFLOW_PERMISSION = ''NO_PERMISSIONS'', PERMISSION_SOURCE_ORDER = [''user'', ''group'', ''regex'', ''group-regex''],
      MLFLOW_ENABLE_WORKSPACES = True\<rparr>"

definition prefix_match :: re_match where
  "prefix_match rx s = Inr (prefix rx s)"

definition sample_env :: "(permission_result timed, permission timed) env" where
  "sample_env =
     \<lparr>e_config = sample_config, e_re_match = prefix_match, e_experiment_name = (\<lambda>eid. Inr ''team/x''),
      e_workspace = None, e_pc = LocalTTLCacheBackend timed_ops, e_wc = LocalTTLCacheBackend timed_ops\<rparr>"

definition empty_cache :: "'v timed" where
  "empty_cache = \<lparr>t_clock = 0, t_size = 10, t_life = 30, t_items = []\<rparr>"

definition sample_app :: "(permission_result timed, permission timed) app" where
  "sample_app = \<lparr>a_db = sample_db, a_pc = empty_cache, a_wc = empty_cache, a_counts = Map.empty, a_samples = Map.empty\<rparr>"

definition granted_db :: db where
  "granted_db = experiment_tables_update (t_user_update (\<lambda>t. t @ [grant_row 2 ''7'' 2 ''READ''])) sample_db"

text \<open>A grant on scorer \<^verbatim>\<open>a\<close> of experiment 7, and none on scorer \<^verbatim>\<open>b\<close>.\<close>

definition scorer_app :: "(permission_result timed, permission timed) app" where
  "scorer_app = sample_app\<lparr>a_db := sample_db\<lparr>scorer_tables :=
     no_tables\<lparr>t_user := [\<lparr>p_id = 1, p_resource = (''7'', ''a''), p_owner = 2, p_permission = ''MANAGE''\<rparr>]\<rparr>\<rparr>\<rparr>"

definition sample_pattern :: regex_row where
  "sample_pattern = \<lparr>rx_id = 1, rx_regex = ''old'', rx_priority = 1, rx_owner = 1, rx_permission = ''READ''\<rparr>"

definition sample_model_pattern :: model_regex_row where
  "sample_model_pattern =
     \<lparr>rx_id = 1, rx_regex = ''old'', rx_priority = 1, rx_owner = 1, rx_permission = ''READ'', rx_prompt = False\<rparr>"

text \<open>An endpoint of a user and a group whose new name the group has a grant on already.\<close>

definition endpoint_db :: db where
  "endpoint_db = sample_db\<lparr>gateway_endpoint_tables :=
     no_tables\<lparr>t_user := [grant_row 1 ''a'' 1 ''READ''], t_group := [grant_row 1 ''a'' 1 ''READ'', grant_row 2 ''b'' 1 ''EDIT'']\<rparr>\<rparr>"

lemmas sample_defs = sample_db_def alice_def bob_def grant_row_def no_tables_def

lemma sample_db_wf [simp]: "wf_db sample_db"
  by (simp add: sample_defs wf_db_def wf_users_def wf_groups_def wf_user_groups_def wf_std_def wf_model_def wf_workspace_def
      wf_perm_table_def wf_regex_table_def unique_on_def valid_permission_def)

lemma sample_env_sel [simp]:
  "e_config sample_env = sample_config" "e_re_match sample_env = prefix_match" "e_workspace sample_env = None"
  "e_pc sample_env = LocalTTLCacheBackend timed_ops" "e_wc sample_env = LocalTTLCacheBackend timed_ops"
  "e_experiment_name sample_env eid = Inr ''team/x''"
  by (simp_all add: sample_env_def)

lemma sample_app_sel [simp]: "a_db sample_app = sample_db" "a_pc sample_app = empty_cache" "a_wc sample_app = empty_cache"
  by (simp_all add: sample_app_def)

lemma empty_cache_get [simp]: "t_get timed_ops empty_cache k = None"
  by (simp add: timed_ops_def timed_get_def live_filter empty_cache_def)

lemma prefix_match_total [simp]: "matches_all prefix_match"
  by (simp add: matches_all_def prefix_match_def)

lemma sample_inv [simp]: "app_inv sample_env sample_app"
  by (simp add: app_inv_def coherent_def pc_coherent_def ws_coherent_def)

text \<open>A grant of \<^verbatim>\<open>alice\<close> to \<^verbatim>\<open>bob\<close>, as a write of the store.\<close>

lemma granted_write: "permission_write sample_db granted_db"
proof (rule pw_create_experiment_permission)
  show "create_experiment_permission sample_db ''7'' ''bob'' ''READ'' = Inr (granted_db, grant_row 2 ''7'' 2 ''READ'')"
    by (simp add: create_experiment_permission_def grant_permission_def get_user_def already_exists_def granted_db_def sample_defs
        insert_permission_def next_id_def validate_permission_eq valid_permission_def put_row_def perm_row.defs Let_def)
qed

lemma sample_workspace_decision:
  "decide (sample_env\<lparr>e_workspace := Some ''ws''\<rparr>) sample_db GATEWAY_SECRET ''k'' ''bob'' None =
     Inr \<lparr>pr_permission = EDIT, kind = ''workspace''\<rparr>"
  by code_simp

lemma sample_group_decision:
  "decide sample_env sample_db EXPERIMENT ''7'' ''bob'' None = Inr \<lparr>pr_permission = EDIT, kind = ''group''\<rparr>"
  by code_simp

lemma sample_manages:
  "manages sample_env sample_db EXPERIMENT ''alice'' ''7'' \<and> \<not> manages sample_env sample_db GATEWAY_ENDPOINT ''alice'' ''e''"
  by code_simp

lemma sample_users: "get_user (users sample_db) ''bob'' = Inr bob" "get_user (users sample_db) ''alice'' = Inr alice"
  by (simp_all add: get_user_def sample_defs)

lemma sample_listing: "listing_ok sample_env sample_app ''bob''" "listing_ok sample_env sample_app ''alice''"
  using sample_inv sample_users
  by (simp_all add: listing_ok_def app_inv_def coherent_def plain_workspace_def sample_config_def valid_permission_def)

end
