(* ===== verification/Login_Examples.thy ===== *)
theory Login_Examples
  imports Login Examples
begin

section \<open>A sample deployment with accounts and a provider\<close>

text \<open>
  The sample database with a session, an identity and a login attempt of \<^verbatim>\<open>bob\<close>, an
  environment with an injective hash, a registry with one provider, and the environment of a login
  through it. The hypotheses of the account properties are shown to hold here.
\<close>

definition sample_user_env :: user_env where
  "sample_user_env = \<lparr>validate_username = (\<lambda>_. Inr ()), generate_password_hash = (\<lambda>p. CHR ''h'' # p),
     check_password_hash = (\<lambda>h p. h = CHR ''h'' # p), now = 100, MANAGED_BY_ENFORCEMENT = ENFORCE\<rparr>"

definition bob_session :: session_row where
  "bob_session = \<lparr>s_id = 1, s_session_id = ''tok'', s_user_id = 2, s_provider_id = None, s_expires_at = 200, s_revoked_at = None\<rparr>"

definition bob_identity :: identity_row where
  "bob_identity = \<lparr>i_id = 1, i_provider_id = ''corp'', i_subject = ''b1'', i_user_id = 2, i_last_login_at = None\<rparr>"

definition bob_attempt :: state_row where
  "bob_attempt = \<lparr>st_id = 1, st_state = ''st'', st_provider_id = Some ''corp'', st_relay_state = None, st_expires_at = 200\<rparr>"

definition account_db :: db where
  "account_db = sample_db\<lparr>user_identities := [bob_identity], auth_sessions := [bob_session], auth_states := [bob_attempt]\<rparr>"

definition sample_world :: accounts_world where
  "sample_world = \<lparr>ac_db = account_db, ac_clock = 100, ac_issued = [''tok'']\<rparr>"

definition corp :: provider_config where
  "corp = \<lparr>pc_id = ''corp'', pc_type = ''oidc'', pc_display_name = ''Corp'', pc_provisioning = ''jit'',
     pc_group_sync = ''none'', pc_group_sync_mode = ''authoritative'', pc_admin_source = ''none'',
     pc_identity_binding = ''subject'', pc_interactive = True, pc_allowed_email_domains = [],
     pc_allowed_algorithms = [''RS256''], pc_audience = Some ''app'', pc_issuer = Some ''https://corp'',
     pc_discovery_url = Some ''https://corp/d'', pc_client_id = Some ''app'', pc_jwks_inline = None,
     pc_jwks_uri = None, pc_ca_bundle_path = None, pc_in_cluster = False, pc_namespace_allowlist = []\<rparr>"

definition sample_response :: dict where
  "sample_response = [(''access_token'', JStr ''at''),
     (''userinfo'', JObj [(''sub'', JStr ''b1''), (''email'', JStr ''Bob''), (''groups'', JList [JStr ''users''])])]"

definition sample_login_env :: login_env where
  "sample_login_env = \<lparr>le_user = sample_user_env,
     le_registry = \<lparr>rl_providers = [corp], rl_errors = [], rl_source = ''env''\<rparr>,
     le_iss_supported = (\<lambda>_. True), le_configured = (\<lambda>_. True), le_client = (\<lambda>_. True), le_exchange = (\<lambda>_ _. Inr sample_response),
     le_token = ''pw'', le_session_token = ''new'', OIDC_ADMIN_GROUP_NAME = [''admins''], OIDC_GROUP_NAME = [''users''],
     OIDC_GROUPS_ATTRIBUTE = ''groups'', OIDC_USERNAME_FIELD = [''email''], OIDC_DISPLAY_NAME_FIELD = [''name''],
     OIDC_GROUP_DETECTION_PLUGIN = None, OIDC_USE_REFRESH_TOKEN = False, SESSION_COOKIE_MAX_AGE_SECONDS = Some 60,
     le_workspaces_enabled = False, OIDC_WORKSPACE_DETECTION_PLUGIN = None, OIDC_WORKSPACE_CLAIM_NAME = ''ws'',
     OIDC_WORKSPACE_DEFAULT_PERMISSION = ''READ'', le_py_str = (\<lambda>_. [])\<rparr>"

definition bob_cookie :: cookie where
  "bob_cookie = empty_cookie\<lparr>ck_session_id := Some ''tok''\<rparr>"

definition sample_callback :: callback_request where
  "sample_callback = \<lparr>rq_error = None, rq_error_description = None, rq_state = Some ''st'',
     rq_iss = JStr ''https://corp'', rq_code = Some ''c''\<rparr>"

text \<open>
  The database after the login: the attempt is used up, the cookie's session is revoked and a new
  one is open.
\<close>

definition logged_in_db :: db where
  "logged_in_db = sample_db\<lparr>user_identities := [bob_identity],
     auth_sessions := [bob_session\<lparr>s_revoked_at := Some 100\<rparr>,
       \<lparr>s_id = 2, s_session_id = ''new'', s_user_id = 2, s_provider_id = None, s_expires_at = 160, s_revoked_at = None\<rparr>],
     auth_states := []\<rparr>"

lemmas account_defs = account_db_def bob_session_def bob_identity_def bob_attempt_def

lemma account_db_users [simp]: "users account_db = users sample_db" "wf_users (users sample_db)"
  using wf_dbD(1) [OF sample_db_wf] by (simp_all add: account_db_def)

lemma account_db_ok [simp]: "account_ok account_db"
proof -
  have "wf_db account_db" by (simp add: account_db_def)
  moreover have "wf_sessions account_db" "single_provider account_db" "has_active_admin account_db"
    by (simp_all add: account_defs sample_defs wf_sessions_def single_provider_def has_active_admin_def)
  moreover have "\<forall>u\<in>set (users account_db). normalize_username (u_username u) = u_username u"
    unfolding account_db_users by (simp add: sample_defs) code_simp
  then have "wf_identities account_db"
    unfolding wf_identities_def using account_db_users(2) by (simp only: account_db_users) (simp add: account_defs sample_defs)
  ultimately show ?thesis by (simp add: account_ok_def)
qed

lemma sample_world_sel [simp]: "ac_db sample_world = account_db" "ac_clock sample_world = 100" "ac_issued sample_world = [''tok'']"
  by (simp_all add: sample_world_def)

lemma sample_world_inv [simp]: "accounts_inv sample_world"
  using account_db_ok by (simp add: accounts_inv_def account_ok_def) (simp add: account_defs)

lemma sample_callback_run:
  "complete_login sample_login_env account_db bob_cookie sample_callback (Some ''corp'') =
     (logged_in_db, empty_cookie\<lparr>ck_session_id := Some ''new'', ck_authenticated := True\<rparr>, Inr ''bob'')"
  by code_simp

lemma sample_process_run:
  "\<exists>d' ck'. process_oidc_callback sample_login_env account_db bob_cookie sample_callback (Some ''corp'') = (d', ck', Inr ''bob'')"
  using sample_callback_run by (rule complete_login_Inr) blast

end
