(* ===== verification/Account_Properties.thy ===== *)
theory Account_Properties
  imports Login_Examples
begin

section \<open>Accounts\<close>

text \<open>
  The properties of the account, session, identity, ownership, registry and login components, each
  with its instance on the sample deployment.
\<close>

text \<open>
  C22: Whatever sequence of account, session, identity and operator operations runs, an active
  administrator remains.
\<close>

theorem an_active_admin_remains:
  assumes "accounts_inv w" and "account_run env w w'"
  shows "\<exists>u\<in>set (users (ac_db w')). u_is_admin u \<and> u_active u"
  using run_accounts_inv [OF assms(2,1)] by (simp add: accounts_inv_def has_active_admin_def)

text \<open>The run of the witness deletes \<^verbatim>\<open>bob\<close>.\<close>

definition world_without_bob :: accounts_world where
  "world_without_bob = sample_world\<lparr>ac_db := (drop_dependents 2 account_db)\<lparr>users := [alice]\<rparr>\<rparr>"

lemma bob_deleted:
  "user_delete account_db ''bob'' = (Inr ((drop_dependents 2 account_db)\<lparr>users := [alice]\<rparr>), [SessionsRevoked ''bob'' 1 ''user_deleted''])"
  by code_simp

lemma run_without_bob: "account_run sample_user_env sample_world world_without_bob"
proof (rule acc_trans [OF acc_refl])
  have "account_step sample_user_env sample_world (sample_world\<lparr>ac_db := (drop_dependents 2 account_db)\<lparr>users := [alice]\<rparr>\<rparr>)"
    by (rule acc_delete [of _ "''bob''"]) (simp add: bob_deleted)
  then show "account_step sample_user_env sample_world world_without_bob"
    by (simp only: world_without_bob_def)
qed

theorem an_active_admin_remains_witness:
  "\<exists>u\<in>set (users (ac_db world_without_bob)). u_is_admin u \<and> u_active u"
  by (rule an_active_admin_remains [OF sample_world_inv run_without_bob])


text \<open>The run of the witness binds a second subject of the same provider to \<^verbatim>\<open>bob\<close>.\<close>

definition second_identity :: identity_row where
  "second_identity = \<lparr>i_id = 2, i_provider_id = ''corp'', i_subject = ''b2'', i_user_id = 2, i_last_login_at = None\<rparr>"

definition world_with_second :: accounts_world where
  "world_with_second = sample_world\<lparr>ac_db := account_db\<lparr>user_identities := [bob_identity, second_identity]\<rparr>\<rparr>"

lemma run_with_second: "account_run sample_user_env sample_world world_with_second"
proof (rule acc_trans [OF acc_refl])
  have "identity_link account_db ''corp'' ''b2'' ''bob'' False =
      Inr (account_db\<lparr>user_identities := [bob_identity, second_identity]\<rparr>, True)" by code_simp
  then show "account_step sample_user_env sample_world world_with_second"
    unfolding world_with_second_def by (intro acc_link [of _ "''corp''" "''b2''" "''bob''" _ True]) simp
qed


text \<open>
  C24: A session value that has been issued and is not honoured any more, because it was revoked,
  expired or swept, is never honoured again, whatever runs later.
\<close>

theorem dead_sessions_stay_dead:
  assumes "accounts_inv w" and "account_run env w w'" and "sid \<in> set (ac_issued w)" and "sid \<noteq> []"
    and "resolve_auth_session (ac_clock w) (ac_db w) sid = Inr None"
  shows "resolve_auth_session (ac_clock w') (ac_db w') sid = Inr None"
proof -
  have wf: "wf_users (users (ac_db v)) \<and> wf_sessions (ac_db v)" if "accounts_inv v" for v
    using that by (simp add: accounts_inv_def wf_db_def)
  have "sid \<notin> live_ids (ac_clock w) (ac_db w)"
    using assms(4,5) wf [OF assms(1)] resolve_live_iff by blast
  then have "sid \<notin> live_ids (ac_clock w') (ac_db w')"
    using run_dead [OF assms(2,1,3)] by blast
  then show ?thesis
    using assms(4) wf [OF run_accounts_inv [OF assms(2,1)]] resolve_live_iff by blast
qed

theorem dead_sessions_stay_dead_witness:
  "resolve_auth_session 300 account_db ''tok'' = Inr None"
proof -
  let ?w = "sample_world\<lparr>ac_clock := 250\<rparr>"
  have "account_step sample_user_env ?w (?w\<lparr>ac_clock := 300\<rparr>)" by (rule acc_tick) simp
  then have "account_run sample_user_env ?w (?w\<lparr>ac_clock := 300\<rparr>)" by (rule acc_trans [OF acc_refl])
  moreover have "accounts_inv ?w" using sample_world_inv by (simp add: accounts_inv_def)
  moreover have "resolve_auth_session 250 account_db ''tok'' = Inr None" by code_simp
  ultimately show ?thesis using dead_sessions_stay_dead [of ?w sample_user_env "?w\<lparr>ac_clock := 300\<rparr>" "''tok''"] by simp
qed

text \<open>
  Deactivating a user ends every session of that user at once and leaves the sessions of all
  other users as they were.
\<close>

lemma revoke_live_unrevoked:
  "s_revoked_at s = None \<Longrightarrow> s \<in> set (revoke_live t uid ss) \<longleftrightarrow> s \<in> set ss \<and> s_user_id s \<noteq> uid"
proof
  assume none: "s_revoked_at s = None" and "s \<in> set (revoke_live t uid ss)"
  then obtain r where r: "r \<in> set ss" "s = (if is_live_of uid r then r\<lparr>s_revoked_at := Some t\<rparr> else r)"
    unfolding revoke_live_def by auto
  then show "s \<in> set ss \<and> s_user_id s \<noteq> uid"
    using none by (auto simp: is_live_of_def split: if_splits)
next
  assume "s \<in> set ss \<and> s_user_id s \<noteq> uid"
  then show "s \<in> set (revoke_live t uid ss)"
    by (intro revoke_live_others) (simp_all add: is_live_of_def)
qed

theorem deactivation_ends_sessions:
  assumes ok: "account_ok d" and up: "update_user env d uname ch written_by override = (Inr (d', ent), audits)"
    and off: "ch_active ch = Some False" and "sid \<noteq> []"
  shows "resolve_auth_session t d' sid = Inr (Some r) \<longleftrightarrow>
    resolve_auth_session t d sid = Inr (Some r) \<and> rs_username r \<noteq> normalize_username uname"
proof -
  note up' = up [unfolded update_user_def]
  have ok': "account_ok d'" by (rule safe_ok [OF update_safe [OF ok up', of 0]])
  have wf: "wf_users (users d)" "wf_sessions d" "wf_users (users d')" "wf_sessions d'"
    using ok ok' by (simp_all add: account_ok_def wf_db_def)
  from up' obtain u where u: "get_user (users d) (normalize_username uname) = Inr u"
    and d': "users d' = put_user (users d) (change_row env ch u)" "auth_sessions d' = revoke_live (now env) (u_id u) (auth_sessions d)"
    by (rule user_update_Inr) (simp add: off)
  have mem: "u \<in> set (users d)" "u_username u = normalize_username uname" using u wf(1) by (simp_all add: get_user_Inr_iff)
  have users': "set (users d') = insert (change_row env ch u) (set (users d) - {u})"
    unfolding d'(1) by (rule set_put_user [OF wf(1) mem(1)]) simp
  have other: "v \<in> set (users d') \<and> u_id v \<noteq> u_id u \<longleftrightarrow> v \<in> set (users d) \<and> u_username v \<noteq> u_username u" for v
    using user_id_unique [OF wf(1) mem(1), of v] username_unique [OF wf(1) _ mem(1), of v] mem(1)
    unfolding users' by auto
  let ?rs = "\<lambda>v s. \<lparr>rs_username = u_username v, rs_is_admin = u_is_admin v, rs_is_active = u_active v, rs_expires_at = s_expires_at s\<rparr>"
  have row: "v \<in> set (users d') \<and> s \<in> set (auth_sessions d') \<and> s_user_id s = u_id v \<and> honoured t s \<longleftrightarrow>
      v \<in> set (users d) \<and> s \<in> set (auth_sessions d) \<and> s_user_id s = u_id v \<and> honoured t s \<and> u_username v \<noteq> u_username u" for v s
    using other [of v] revoke_live_unrevoked [of s "now env" "u_id u" "auth_sessions d"] unfolding d'(2) honoured_def by argo
  have name: "r = ?rs v s \<Longrightarrow> rs_username r = u_username v" for v s by simp
  show ?thesis
    unfolding resolve_auth_session_def session_resolve_spec(1) [OF wf(1,2) assms(4)] session_resolve_spec(1) [OF wf(3,4) assms(4)]
      mem(2) [symmetric]
  proof (intro iffI; (elim conjE bexE)?)
    fix v s
    assume v: "v \<in> set (users d')" "s \<in> set (auth_sessions d')" "s_user_id s = u_id v" "s_session_id s = sid" "honoured t s" "r = ?rs v s"
    with row [of v s] show "(\<exists>v\<in>set (users d). \<exists>s\<in>set (auth_sessions d). s_user_id s = u_id v \<and> s_session_id s = sid \<and> honoured t s \<and> r = ?rs v s) \<and>
        rs_username r \<noteq> u_username u"
      unfolding name [OF v(6)] by blast
  next
    fix v s
    assume "rs_username r \<noteq> u_username u" and v: "v \<in> set (users d)" "s \<in> set (auth_sessions d)" "s_user_id s = u_id v"
      "s_session_id s = sid" "honoured t s" "r = ?rs v s"
    with row [of v s] show "\<exists>v\<in>set (users d'). \<exists>s\<in>set (auth_sessions d'). s_user_id s = u_id v \<and> s_session_id s = sid \<and> honoured t s \<and> r = ?rs v s"
      unfolding name [OF v(6)] by blast
  qed
qed

theorem deactivation_ends_sessions_witness:
  "\<exists>d' ent. update_user sample_user_env account_db ''bob'' (no_changes\<lparr>ch_active := Some False\<rparr>) (Some ''oidc'') False =
     (Inr (d', ent), [SessionsRevoked ''bob'' 1 ''user_deactivated'']) \<and>
   \<not> (\<exists>r. resolve_auth_session 100 d' ''tok'' = Inr (Some r))"
proof -
  let ?r = "update_user sample_user_env account_db ''bob'' (no_changes\<lparr>ch_active := Some False\<rparr>) (Some ''oidc'') False"
  have "(case fst ?r of Inr _ \<Rightarrow> snd ?r = [SessionsRevoked ''bob'' 1 ''user_deactivated''] | Inl _ \<Rightarrow> False)" by code_simp
  then obtain d' ent where run: "?r = (Inr (d', ent), [SessionsRevoked ''bob'' 1 ''user_deactivated''])"
    by (cases ?r) (auto split: sum.splits)
  have "normalize_username ''bob'' = ''bob''" by code_simp
  moreover have "case resolve_auth_session 100 account_db ''tok'' of Inr (Some r) \<Rightarrow> rs_username r = ''bob'' | _ \<Rightarrow> False" by code_simp
  ultimately have "\<not> (\<exists>r. resolve_auth_session 100 d' ''tok'' = Inr (Some r))"
    using deactivation_ends_sessions [OF account_db_ok run, of "''tok''" 100] by (auto simp: no_changes_def)
  with run show ?thesis by blast
qed



text \<open>
  The ownership modes. A write by a source that does not own the row is refused, and recorded,
  under \<^verbatim>\<open>enforce\<close> without override; reporting stores the same database as switching
  the guard off and only adds the record; an administrator's override always goes through as if the
  guard were off, and is recorded.
\<close>

definition with_mode :: "enforcement \<Rightarrow> user_env \<Rightarrow> user_env" where
  "with_mode m env = env\<lparr>MANAGED_BY_ENFORCEMENT := m\<rparr>"

definition conflicts :: "audit_event list \<Rightarrow> (string \<times> string option \<times> string \<times> bool) list" where
  "conflicts audits = [(n, own, wr, ok). OwnershipConflict n own wr reason ok \<leftarrow> audits]"

lemma change_row_mode [simp]: "change_row (with_mode m env) ch u = change_row env ch u" "now (with_mode m env) = now env"
  "MANAGED_BY_ENFORCEMENT (with_mode m env) = m"
  by (cases "ch_password ch"; simp add: change_row_def with_mode_def)+

theorem ownership_modes:
  fixes env :: user_env and ch :: user_changes and written_by :: "string option"
  assumes wf: "wf_users (users d)" and u: "u \<in> set (users d)" "u_username u = normalize_username uname"
  defines "run \<equiv> \<lambda>m. update_user (with_mode m env) d uname ch written_by"
  shows "fst (run REPORT False) = fst (run OFF override) \<and> fst (run m True) = fst (run OFF override) \<and>
    conflicts (snd (run OFF False)) = [] \<and>
    (if crosses (Some (u_managed_by u)) written_by
     then run ENFORCE False =
            (Inl (MlflowException INVALID_PARAMETER_VALUE),
             [OwnershipConflict (u_username u) (Some (u_managed_by u)) (or_manual written_by)
                (MayNotWrite (or_manual written_by) (u_managed_by u)) False]) \<and>
          (\<forall>r. fst (run m True) = Inr r \<longrightarrow>
             conflicts (snd (run m True)) = [(u_username u, Some (u_managed_by u), or_manual written_by, True)])
     else \<forall>m' o'. run m' o' = run OFF override)"
proof -
  have own: "or_manual (Some (u_managed_by u)) = u_managed_by u" if "crosses (Some (u_managed_by u)) written_by"
    using that by (auto simp: crosses_def or_manual_def split: if_splits)
  note outcome = user_update_outcome [OF wf u]
  show ?thesis
    unfolding run_def update_user_def outcome Let_def change_row_mode
    using own by (auto simp: conflicts_def evaluate_write_def Let_def crosses_def split: if_splits)
qed

theorem ownership_modes_witness:
  "update_user sample_user_env account_db ''bob'' no_changes (Some ''scim'') False =
     (Inl (MlflowException INVALID_PARAMETER_VALUE),
      [OwnershipConflict ''bob'' (Some ''oidc'') ''scim'' (MayNotWrite ''scim'' ''oidc'') False])"
proof -
  have u: "bob \<in> set (users account_db)" "u_username bob = normalize_username ''bob''"
    by (simp add: sample_db_def) code_simp
  have "crosses (Some (u_managed_by bob)) (Some ''scim'')" "or_manual (Some ''scim'') = ''scim''" by code_simp+
  moreover have "u_username bob = ''bob''" "u_managed_by bob = ''oidc''" by (simp_all add: bob_def)
  moreover have "with_mode ENFORCE sample_user_env = sample_user_env" by (simp add: with_mode_def sample_user_env_def)
  ultimately show ?thesis
    using ownership_modes [of account_db bob "''bob''" sample_user_env no_changes "Some ''scim''", OF _ u] by simp
qed

text \<open>
  A password set by an update authenticates its user, in any case of the user name, until it
  expires, and no longer afterwards. Werkzeug's check is assumed to accept the hash of the same
  password.
\<close>

theorem new_password_authenticates:
  assumes hash: "\<forall>p. check_password_hash env (generate_password_hash env p) p" and wf: "wf_users (users d)"
    and up: "update_user env d uname ch written_by override = (Inr (d', ent), audits)"
    and pw: "ch_password ch = Some p" and same: "normalize_username uname' = normalize_username uname"
  shows "authenticate_user (env\<lparr>now := t\<rparr>) d' uname' p =
    Inr (case ch_password_expiration ch of None \<Rightarrow> True | Some e \<Rightarrow> t \<le> e)"
proof -
  from up [unfolded update_user_def] obtain u where u: "get_user (users d) (normalize_username uname) = Inr u"
    and d': "users d' = put_user (users d) (change_row env ch u)"
    by (rule user_update_Inr) simp
  have mem: "u \<in> set (users d)" "u_username u = normalize_username uname'" using u wf same by (simp_all add: get_user_Inr_iff)
  have "get_user (users d') (normalize_username uname') = Inr (change_row env ch u)"
    unfolding d' mem(2) [symmetric] by (rule get_put_user [OF wf mem(1)]) simp_all
  then show ?thesis
    using hash pw by (simp add: authenticate_user_def user_authenticate_def change_row_def split: option.splits)
qed

theorem new_password_authenticates_witness:
  "\<exists>d' ent audits. update_user sample_user_env account_db ''bob'' (no_changes\<lparr>ch_password := Some ''x''\<rparr>) (Some ''oidc'') False = (Inr (d', ent), audits) \<and>
     authenticate_user (sample_user_env\<lparr>now := 500\<rparr>) d' ''BOB'' ''x'' = Inr True"
proof -
  let ?r = "update_user sample_user_env account_db ''bob'' (no_changes\<lparr>ch_password := Some ''x''\<rparr>) (Some ''oidc'') False"
  have "case fst ?r of Inr _ \<Rightarrow> True | Inl _ \<Rightarrow> False" by code_simp
  then obtain d' ent audits where run: "?r = (Inr (d', ent), audits)" by (cases ?r) (auto split: sum.splits)
  have "normalize_username ''BOB'' = normalize_username ''bob''" by code_simp
  with new_password_authenticates [OF _ _ run, of "''x''" "''BOB''" 500] run show ?thesis
    by (simp add: sample_user_env_def no_changes_def)
qed

section \<open>Login attempts\<close>

text \<open>
  C26: However the callbacks of a login attempt interleave, also between the read and the delete of
  one of them, and whatever attempts start, expire or are swept meanwhile, at most one callback is
  handed the attempt of a state, and after that no row of it is left.
\<close>

theorem state_single_use:
  assumes "aw_callbacks w = []" and "auth_states (aw_db w) = []" and "attempts_run w w'"
  shows "winners state w' + rows_of state w' \<le> 1"
proof -
  have "single_use w" using assms(1,2) by (simp add: single_use_def winners_def rows_of_def)
  with run_single_use [OF assms(3)] show ?thesis by (simp add: single_use_def)
qed

text \<open>The witness: two callbacks read the same row before either deletes it.\<close>

definition race_start :: attempts_world where
  "race_start = \<lparr>aw_db = sample_db, aw_clock = 100, aw_issued = [], aw_callbacks = []\<rparr>"

definition race_read :: "auth_attempt \<times> bool" where
  "race_read = (\<lparr>at_state = ''s'', at_provider_id = ''corp'', at_redirect_after_login = None\<rparr>, False)"

definition race_end :: attempts_world where
  "race_end = \<lparr>aw_db = sample_db, aw_clock = 100, aw_issued = [''s''],
     aw_callbacks = [Finished ''s'' (Some (fst race_read)), Finished ''s'' None]\<rparr>"

lemma race_run: "attempts_run race_start race_end"
proof -
  define d where "d = sample_db\<lparr>auth_states := [\<lparr>st_id = 1, st_state = ''s'', st_provider_id = Some ''corp'', st_relay_state = None, st_expires_at = 200\<rparr>]\<rparr>"
  let ?w = "\<lambda>d cs. \<lparr>aw_db = d, aw_clock = 100, aw_issued = [''s''], aw_callbacks = cs\<rparr>"
  have new: "state_create 100 ''s'' sample_db ''corp'' None 100 = Inr (d, ''s'')"
    by (simp add: state_create_def d_def sample_db_def next_id_def)
  have read: "consume_read 100 d ''s'' = Inr (Some race_read)"
    by (simp add: consume_read_def d_def race_read_def)
  have claims: "consume_claim d ''s'' = (sample_db, True)" "consume_claim sample_db ''s'' = (sample_db, False)"
    by (simp_all add: consume_claim_def d_def sample_db_def)
  have result: "consume_result True race_read = Some (fst race_read)" "consume_result False race_read = None"
    by (simp_all add: consume_result_def race_read_def)
  have "attempts_step race_start (?w d [])"
    using start [of race_start "''s''" "''corp''" None 100 d "''s''"] new by (simp add: race_start_def)
  moreover have "attempts_step (?w d []) (?w d [Presented ''s''])" "attempts_step (?w d [Presented ''s'']) (?w d [Presented ''s'', Presented ''s''])"
    using present [of "?w d []" "''s''"] present [of "?w d [Presented ''s'']" "''s''"] by simp_all
  moreover have "attempts_step (?w d [Presented ''s'', Presented ''s'']) (?w d [HasRead ''s'' race_read, Presented ''s''])"
    using attempts_step.read [of 0 "?w d [Presented ''s'', Presented ''s'']" "''s''" race_read] read by simp
  moreover have "attempts_step (?w d [HasRead ''s'' race_read, Presented ''s'']) (?w d [HasRead ''s'' race_read, HasRead ''s'' race_read])"
    using attempts_step.read [of 1 "?w d [HasRead ''s'' race_read, Presented ''s'']" "''s''" race_read] read by simp
  moreover have "attempts_step (?w d [HasRead ''s'' race_read, HasRead ''s'' race_read])
      (?w sample_db [Finished ''s'' (Some (fst race_read)), HasRead ''s'' race_read])"
    using claim [of 0 "?w d [HasRead ''s'' race_read, HasRead ''s'' race_read]" "''s''" race_read sample_db True] claims(1) result
    by simp
  moreover have "attempts_step (?w sample_db [Finished ''s'' (Some (fst race_read)), HasRead ''s'' race_read]) race_end"
    using claim [of 1 "?w sample_db [Finished ''s'' (Some (fst race_read)), HasRead ''s'' race_read]" "''s''" race_read sample_db False] claims(2) result
    by (simp add: race_end_def)
  ultimately show ?thesis
    by (rule run_step [OF run_step [OF run_step [OF run_step [OF run_step [OF run_step [OF run_step [OF run_refl]]]]]]])
qed

theorem state_single_use_witness:
  "winners ''s'' race_end + rows_of ''s'' race_end \<le> 1"
  by (rule state_single_use [OF _ _ race_run]) (simp_all add: race_start_def sample_db_def)

text \<open>
  The round trip of an attempt: what a login recorded comes back to a callback that presents its
  state in time, the table is then as it was before, and a second presentation gets nothing; an
  expired attempt is used up without being handed out.
\<close>

theorem attempt_round_trip:
  assumes "wf_sessions d" and "token \<noteq> []"
    and "create_auth_state t token d provider redirect lifetime = Inr (d', state)"
  shows "consume_auth_state t' d' state = Inr (d, if t' < t + lifetime
      then Some \<lparr>at_state = state, at_provider_id = provider, at_redirect_after_login = redirect\<rparr> else None) \<and>
    consume_auth_state t'' d state = Inr (d, None)"
  using create_consume [OF assms(1) assms(3) [unfolded create_auth_state_def] assms(2)]
  by (simp add: consume_auth_state_def)

theorem attempt_round_trip_witness:
  "\<exists>d'. create_auth_state 100 ''s2'' account_db ''corp'' (Some ''/x'') DEFAULT_STATE_LIFETIME_SECONDS = Inr (d', ''s2'') \<and>
     consume_auth_state 999 d' ''s2'' = Inr (account_db,
       Some \<lparr>at_state = ''s2'', at_provider_id = ''corp'', at_redirect_after_login = Some ''/x''\<rparr>)"
proof -
  let ?r = "create_auth_state 100 ''s2'' account_db ''corp'' (Some ''/x'') DEFAULT_STATE_LIFETIME_SECONDS"
  have "case ?r of Inr (d', s) \<Rightarrow> s = ''s2'' | Inl _ \<Rightarrow> False" by code_simp
  then obtain d' where run: "?r = Inr (d', ''s2'')" by (auto split: sum.splits)
  have "wf_sessions account_db" using account_db_ok by (simp add: account_ok_def)
  from attempt_round_trip [OF this _ run, of 999] run show ?thesis
    by (simp add: DEFAULT_STATE_LIFETIME_SECONDS_def)
qed

section \<open>Providers\<close>


text \<open>
  C28: The user names of service accounts: a subject that parses is exactly the one printed from the
  account, so two tokens whose user names agree name the same service account.
\<close>

theorem service_account_names:
  assumes "parse_service_account s = Inr sa" and "parse_service_account s' = Inr sa'"
  shows "s = JStr (SUBJECT_PREFIX @ sa_namespace sa @ '':'' @ sa_name sa) \<and> (sa_username sa = sa_username sa' \<longrightarrow> s = s')"
  using subject_parse_print [OF assms(1)] subject_parse_print [OF assms(2)]
    sa_username_inj [of sa sa'] parse_service_account_labels [OF assms(1)] parse_service_account_labels [OF assms(2)]
  by auto

theorem service_account_names_witness:
  "parse_service_account (JStr ''system:serviceaccount:ml:trainer'') = Inr \<lparr>sa_namespace = ''ml'', sa_name = ''trainer''\<rparr> \<and>
   JStr ''system:serviceaccount:ml:trainer'' = JStr (SUBJECT_PREFIX @ ''ml'' @ '':'' @ ''trainer'')"
proof -
  have run: "parse_service_account (JStr ''system:serviceaccount:ml:trainer'') = Inr \<lparr>sa_namespace = ''ml'', sa_name = ''trainer''\<rparr>"
    by code_simp
  from service_account_names [OF run run] run show ?thesis by simp
qed

text \<open>
  A subject whose last label is followed by a newline is accepted: Python's
  \<^verbatim>\<open>$\<close> matches before a final newline, so the newline becomes part of the name.
\<close>

theorem newline_subject_accepted:
  assumes "valid_dns_label ns" and "label_core sa" and "length sa < MAX_LABEL_LENGTH"
  shows "parse_service_account (JStr (SUBJECT_PREFIX @ ns @ '':'' @ sa @ [newline])) =
    Inr \<lparr>sa_namespace = ns, sa_name = sa @ [newline]\<rparr>"
proof -
  have "valid_dns_label (sa @ [newline])"
    using assms(2,3) by (simp add: valid_dns_label_def DNS_LABEL_def)
  then show ?thesis using subject_round_trip [OF assms(1)] by simp
qed

theorem newline_subject_accepted_witness:
  "parse_service_account (JStr (''system:serviceaccount:ml:trainer'' @ [newline])) =
     Inr \<lparr>sa_namespace = ''ml'', sa_name = ''trainer'' @ [newline]\<rparr>"
proof -
  have "valid_dns_label ''ml''" "label_core ''trainer''" "length ''trainer'' < MAX_LABEL_LENGTH" by code_simp+
  from newline_subject_accepted [OF this] show ?thesis by (simp add: SUBJECT_PREFIX_def)
qed

text \<open>
  The key source of a Kubernetes provider. An entry whose only key source is a discovery URL of
  blanks is accepted, and the provider built from it has no key source at all.
\<close>

definition keyless_entry :: dict where
  "keyless_entry = [(''id'', JStr ''cluster''), (''type'', JStr ''k8s''), (''audience'', JStr ''app''), (''issuer'', JStr ''https://k''),
     (''discovery_url'', JStr '' ''), (''namespace_allowlist'', JList [JStr ''ml''])]"

theorem blank_key_source_accepted:
  "case validate json_loads saml keyless_entry 0 {} of
     Inr p \<Rightarrow> pc_type p = ''k8s'' \<and> pc_discovery_url p = Some [] \<and> pc_jwks_inline p = None \<and> pc_jwks_uri p = None \<and> \<not> pc_in_cluster p
   | Inl errors \<Rightarrow> False"
  by code_simp

section \<open>Operator commands\<close>

text \<open>
  C29: Restoring from the journal of a reconciliation undoes it: every user row is as it was before.
\<close>

theorem reconcile_round_trip:
  assumes "wf_users (users d)"
    and "reconcile_ownership journal_exists d owner from_owner uname True all_rows (Some path) = (d', ChangedRows rows (Some j))"
  shows "fst (restore_ownership d' j True) = d"
  by (rule restore_undoes_reconcile [OF assms])

theorem reconcile_round_trip_witness:
  "\<exists>d' rows j. reconcile_ownership False account_db ''scim'' (Some ''oidc'') None True False (Some ''j.json'') = (d', ChangedRows rows (Some j)) \<and>
     rows = [(''bob'', ''oidc'')] \<and> fst (restore_ownership d' j True) = account_db"
proof -
  let ?r = "reconcile_ownership False account_db ''scim'' (Some ''oidc'') None True False (Some ''j.json'')"
  have "snd ?r = ChangedRows [(''bob'', ''oidc'')] (Some \<lparr>j_set_owner = ''scim'', j_previous = [(''bob'', ''oidc'')]\<rparr>)" by code_simp
  then obtain d' where run: "?r = (d', ChangedRows [(''bob'', ''oidc'')] (Some \<lparr>j_set_owner = ''scim'', j_previous = [(''bob'', ''oidc'')]\<rparr>))"
    by (metis prod.collapse)
  from reconcile_round_trip [OF _ run] run show ?thesis by simp
qed

section \<open>Login\<close>



text \<open>
  C31: The life of a login session. A completed login puts a session value into the cookie that
  resolves to its user at every time before its expiry, and after a logout with that cookie the value
  does not resolve at any time and the cookie is empty.
\<close>

theorem login_session_lifetime:
  assumes ok: "account_ok d" and login: "complete_login env d ck rq pid = (d', ck', Inr u)" and tok: "le_session_token env \<noteq> []"
    and t: "t < now (le_user env) + (case SESSION_COOKIE_MAX_AGE_SECONDS env of
        None \<Rightarrow> DEFAULT_SESSION_LIFETIME_SECONDS | Some n \<Rightarrow> if n = 0 then DEFAULT_SESSION_LIFETIME_SECONDS else n)"
    and out: "logout t1 d' ck' = (d'', ck'')"
  shows "ck_session_id ck' = Some (le_session_token env) \<and>
    (\<exists>rs. resolve_auth_session t d' (le_session_token env) = Inr (Some rs) \<and> rs_username rs = normalize_username u) \<and>
    resolve_auth_session t2 d'' (le_session_token env) = Inr None \<and> ck'' = empty_cookie"
  using login
proof (rule complete_login_Inr)
  fix d1 ck1
  assume run: "process_oidc_callback env d ck rq pid = (d1, ck1, Inr u)"
    and op: "open_server_session env d1 u = Inr (d', le_session_token env)" and ck': "ck_session_id ck' = Some (le_session_token env)"
  have ok1: "account_ok d1" by (rule process_login_ok [OF ok run])
  have ok': "account_ok d'"
    using op unfolding open_server_session_def create_auth_session_def Let_def by (rule open_session(1) [OF ok1])
  show ?thesis
    using ck' login_session_resolves [OF ok1 op tok t] logout_revokes [OF ok' ck' tok out] by simp
qed

theorem login_session_lifetime_witness:
  "\<exists>rs. resolve_auth_session 159 logged_in_db ''new'' = Inr (Some rs) \<and> rs_username rs = normalize_username ''bob''"
proof -
  let ?ck = "empty_cookie\<lparr>ck_session_id := Some ''new'', ck_authenticated := True\<rparr>"
  obtain d'' ck'' where out: "logout 150 logged_in_db ?ck = (d'', ck'')" by (rule prod.exhaust)
  have "le_session_token sample_login_env = ''new''" "SESSION_COOKIE_MAX_AGE_SECONDS sample_login_env = Some 60"
    "now (le_user sample_login_env) = 100"
    by (simp_all add: sample_login_env_def sample_user_env_def)
  then show ?thesis
    using login_session_lifetime [OF account_db_ok sample_callback_run _ _ out, of 159 0] by simp
qed

text \<open>
  Deleting a user removes the grants but not the cached decisions: a decision of a user that was
  taken before is served after the deletion, while the sources give that user nothing any more.
\<close>

theorem deleted_user_served_from_cache:
  "case delete_user sample_db ''bob'' of
     (Inr d', _) \<Rightarrow>
       fst (resolve_permission sample_env ((snd (resolve_permission sample_env sample_app EXPERIMENT ''7'' ''bob'' None))\<lparr>a_db := d'\<rparr>)
              EXPERIMENT ''7'' ''bob'' None) = Inr \<lparr>pr_permission = EDIT, kind = ''group''\<rparr> \<and>
       decide sample_env d' EXPERIMENT ''7'' ''bob'' None = Inr \<lparr>pr_permission = NO_PERMISSIONS, kind = ''fallback''\<rparr>
   | _ \<Rightarrow> False"
  by code_simp

text \<open>
  The break-glass command compares the name as typed: for a name in another case it reports
  that there is no such user and changes nothing, although every login accepts that name.
\<close>

theorem restore_admin_is_case_sensitive:
  assumes "wf_identities d" and "normalize_username uname \<noteq> uname"
  shows "restore_admin d uname = None"
proof -
  have "[u. u \<leftarrow> users d, u_username u = uname] = []"
    using wf_identitiesD(5) [OF assms(1)] assms(2) unfolding filter_list_comp by (auto simp: filter_empty_conv)
  then show ?thesis unfolding restore_admin_def by (simp only: list.case)
qed

theorem restore_admin_is_case_sensitive_witness:
  "restore_admin account_db ''Alice'' = None \<and> has_user account_db ''Alice''"
proof -
  have "wf_identities account_db" using account_db_ok by (simp add: account_ok_def)
  moreover have "normalize_username ''Alice'' \<noteq> ''Alice''" "has_user account_db ''Alice''" by code_simp+
  ultimately show ?thesis using restore_admin_is_case_sensitive [of account_db "''Alice''"] by simp
qed

end
