(* ===== verification/Tokens.thy ===== *)
theory Tokens
  imports Provider_Registry
begin

section \<open>Token validation (auth.py)\<close>

text \<open>
  The choice of the provider for a bearer token, the fetching and caching of signing keys, and the
  validation with one retry after a refresh. HTTP, the base64 and JSON decoding of a token, the hash,
  the mounted credentials and authlib's decoder are fields of an environment; successive HTTP requests
  may be answered differently, so they are numbered. \<^verbatim>\<open>cachetools.TTLCache\<close> is a record
  of operations with the laws \<open>keyed_cache\<close>. The lemmas: an accepted token was verified with keys of
  the provider it was matched to, under that provider's algorithms, audience and issuer.
\<close>

subsection \<open>The cache of key sets\<close>

datatype jwks_key =
    JWKS_CACHE_KEY
  | InlineKey (ik_provider: string) (ik_digest: string)
  | SourceKey (sk_provider: string) (sk_url: string)

record ('t, 'k, 'v) keyed_ops =
  k_get :: "'t \<Rightarrow> 'k \<Rightarrow> 'v option"
  k_setitem :: "'t \<Rightarrow> 'k \<Rightarrow> 'v \<Rightarrow> 't"
  k_pop :: "'t \<Rightarrow> 'k \<Rightarrow> 't"

text \<open>Entries may vanish at any time, but what a cache returns was put there.\<close>

locale keyed_cache =
  fixes ops :: "('t, 'k, 'v) keyed_ops"
  assumes setitem_sub: "k_get ops (k_setitem ops t k v) \<subseteq>\<^sub>m (k_get ops t)(k \<mapsto> v)"
    and pop_sub: "k_get ops (k_pop ops t k) \<subseteq>\<^sub>m (k_get ops t)(k := None)"
begin

lemma setitemD: "k_get ops (k_setitem ops t k v) k' = Some w \<Longrightarrow> (k' = k \<and> w = v) \<or> k_get ops t k' = Some w"
  by (drule map_leD [OF setitem_sub]) (simp split: if_splits)

lemma popD: "k_get ops (k_pop ops t k) k' = Some w \<Longrightarrow> k' \<noteq> k \<and> k_get ops t k' = Some w"
  by (drule map_leD [OF pop_sub]) (simp split: if_splits)

end

text \<open>A cache that keeps the latest entries up to a number of them, as \<^verbatim>\<open>maxsize\<close> does.\<close>

definition bounded_ops :: "nat \<Rightarrow> (('k \<times> 'v) list, 'k, 'v) keyed_ops" where
  "bounded_ops maxsize =
     \<lparr>k_get = map_of, k_setitem = (\<lambda>t k v. take maxsize ((k, v) # [e. e \<leftarrow> t, fst e \<noteq> k])), k_pop = (\<lambda>t k. [e. e \<leftarrow> t, fst e \<noteq> k])\<rparr>"

lemma map_of_take: "map_of (take n t) \<subseteq>\<^sub>m map_of t"
proof -
  have "map_of (take n t) \<subseteq>\<^sub>m map_of (take n t @ drop n t)" unfolding map_of_append by (rule map_le_map_add)
  then show ?thesis by simp
qed

lemma map_of_other: "map_of [e. e \<leftarrow> t, fst e \<noteq> k] = (map_of t)(k := None)"
  by (induction t) auto

interpretation bounded: keyed_cache "bounded_ops maxsize" for maxsize
proof
  fix t :: "('k \<times> 'v) list" and k v
  show "k_get (bounded_ops maxsize) (k_setitem (bounded_ops maxsize) t k v) \<subseteq>\<^sub>m (k_get (bounded_ops maxsize) t)(k \<mapsto> v)"
    using map_of_take [of maxsize "(k, v) # [e. e \<leftarrow> t, fst e \<noteq> k]"]
    unfolding bounded_ops_def keyed_ops.simps by (simp only: map_of.simps map_of_other fst_conv snd_conv fun_upd_upd)
  show "k_get (bounded_ops maxsize) (k_pop (bounded_ops maxsize) t k) \<subseteq>\<^sub>m (k_get (bounded_ops maxsize) t)(k := None)"
    unfolding bounded_ops_def keyed_ops.simps map_of_other by simp
qed

subsection \<open>The environment\<close>

datatype verify = VerifyFlag bool | CaBundle string

datatype token_error = TokenValueError | BadSignatureError | RequestError

record claims_options =
  co_aud :: "string option"
  co_iss :: "string option"

record 't token_env =
  tk_cache :: "('t, jwks_key, json) keyed_ops"
  tk_http_get :: "nat \<Rightarrow> string \<Rightarrow> verify \<Rightarrow> string option \<Rightarrow> token_error + json"
  tk_sha256 :: "json \<Rightarrow> string"
  tk_in_cluster_credentials :: "string option \<times> string option"
  tk_json_loads :: "string \<Rightarrow> json option"
  tk_payload_json :: "string \<Rightarrow> json option"
  tk_decode :: "string list \<Rightarrow> string \<Rightarrow> json \<Rightarrow> claims_options option \<Rightarrow> token_error + dict"
  tk_providers :: "provider_config list"
  tk_discovery_url :: "string option"
  tk_verify_ssl :: bool

record 't token_state =
  ts_jwks :: 't
  ts_provider_jwks :: 't
  ts_requests :: nat

subsection \<open>Fetching keys\<close>

text \<open>
  \<^verbatim>\<open>_load_jwks\<close> reads and writes one of the two caches, which is passed in and returned.
\<close>

definition fetch_keys ::
  "'t token_env \<Rightarrow> nat \<Rightarrow> string \<Rightarrow> bool \<Rightarrow> verify \<Rightarrow> string option \<Rightarrow> nat \<times> (token_error + json)" where
  "fetch_keys env n url direct verify auth_token =
     (if direct then (Suc n, tk_http_get env n url verify auth_token)
      else case tk_http_get env n url verify auth_token of
             Inl e \<Rightarrow> (Suc n, Inl e)
           | Inr (JObj metadata) \<Rightarrow>
               (case jget metadata ''jwks_uri'' of
                  JStr uri \<Rightarrow> if uri = [] then (Suc n, Inl TokenValueError)
                              else (Suc (Suc n), tk_http_get env (Suc n) uri verify auth_token)
                | v \<Rightarrow> (Suc n, Inl (if truthy v then RequestError else TokenValueError)))
           | Inr _ \<Rightarrow> (Suc n, Inl RequestError))"

definition load_jwks ::
  "'t token_env \<Rightarrow> 't \<Rightarrow> nat \<Rightarrow> string \<Rightarrow> jwks_key \<Rightarrow> bool \<Rightarrow> bool \<Rightarrow> verify \<Rightarrow> string option \<Rightarrow> 't \<times> nat \<times> (token_error + json)" where
  "load_jwks env cache n url key force_refresh direct verify auth_token =
     (let cache1 = (if force_refresh then k_pop (tk_cache env) cache key else cache) in
      case k_get (tk_cache env) cache1 key of
        Some cached \<Rightarrow>
          if cached \<noteq> JNull then (cache1, n, Inr cached)
          else (case fetch_keys env n url direct verify auth_token of
                  (n', Inl e) \<Rightarrow> (cache1, n', Inl e)
                | (n', Inr jwks) \<Rightarrow> (k_setitem (tk_cache env) cache1 key jwks, n', Inr jwks))
      | None \<Rightarrow>
          (case fetch_keys env n url direct verify auth_token of
             (n', Inl e) \<Rightarrow> (cache1, n', Inl e)
           | (n', Inr jwks) \<Rightarrow> (k_setitem (tk_cache env) cache1 key jwks, n', Inr jwks)))"

definition get_oidc_jwks :: "'t token_env \<Rightarrow> 't token_state \<Rightarrow> bool \<Rightarrow> 't token_state \<times> (token_error + json)" where
  "get_oidc_jwks env st force_refresh =
     (case tk_discovery_url env of
        None \<Rightarrow> (st, Inl TokenValueError)
      | Some url \<Rightarrow>
          (case load_jwks env (ts_jwks st) (ts_requests st) url JWKS_CACHE_KEY force_refresh False (VerifyFlag (tk_verify_ssl env)) None of
             (cache, n, r) \<Rightarrow> (st\<lparr>ts_jwks := cache, ts_requests := n\<rparr>, r)))"

definition opt_str :: "string option \<Rightarrow> string option" where
  "opt_str v = (case v of Some s \<Rightarrow> if s = [] then None else Some s | None \<Rightarrow> None)"

definition verify_for :: "'t token_env \<Rightarrow> provider_config \<Rightarrow> token_error + verify" where
  "verify_for env p =
     (case opt_str (pc_ca_bundle_path p) of
        Some b \<Rightarrow> Inr (CaBundle b)
      | None \<Rightarrow>
          if pc_in_cluster p
          then (case opt_str (snd (tk_in_cluster_credentials env)) of Some ca \<Rightarrow> Inr (CaBundle ca) | None \<Rightarrow> Inl TokenValueError)
          else Inr (VerifyFlag (tk_verify_ssl env)))"

definition in_cluster_token :: "'t token_env \<Rightarrow> provider_config \<Rightarrow> string option" where
  "in_cluster_token env p = (if \<not> pc_in_cluster p then None else fst (tk_in_cluster_credentials env))"

text \<open>An inline key set is present when it is a truthy value.\<close>

definition inline_of :: "provider_config \<Rightarrow> json option" where
  "inline_of p = (case pc_jwks_inline p of Some v \<Rightarrow> if truthy v then Some v else None | None \<Rightarrow> None)"

definition load_provider_source ::
  "'t token_env \<Rightarrow> 't token_state \<Rightarrow> provider_config \<Rightarrow> string \<Rightarrow> bool \<Rightarrow> bool \<Rightarrow> string option \<Rightarrow> 't token_state \<times> (token_error + json)" where
  "load_provider_source env st p url force_refresh direct auth_token =
     (case verify_for env p of
        Inl e \<Rightarrow> (st, Inl e)
      | Inr verify \<Rightarrow>
          (case load_jwks env (ts_provider_jwks st) (ts_requests st) url (SourceKey (pc_id p) url) force_refresh direct verify auth_token of
             (cache, n, r) \<Rightarrow> (st\<lparr>ts_provider_jwks := cache, ts_requests := n\<rparr>, r)))"

definition get_provider_jwks :: "'t token_env \<Rightarrow> 't token_state \<Rightarrow> provider_config \<Rightarrow> bool \<Rightarrow> 't token_state \<times> (token_error + json)" where
  "get_provider_jwks env st p force_refresh =
     (case inline_of p of
        Some inline \<Rightarrow>
          (let key = InlineKey (pc_id p) (tk_sha256 env inline) in
           case k_get (tk_cache env) (ts_provider_jwks st) key of
             Some cached \<Rightarrow>
               if cached \<noteq> JNull then (st, Inr cached)
               else (case load_inline_jwks (tk_json_loads env) inline of
                       Inl _ \<Rightarrow> (st, Inl TokenValueError)
                     | Inr parsed \<Rightarrow> (st\<lparr>ts_provider_jwks := k_setitem (tk_cache env) (ts_provider_jwks st) key parsed\<rparr>, Inr parsed))
           | None \<Rightarrow>
               (case load_inline_jwks (tk_json_loads env) inline of
                  Inl _ \<Rightarrow> (st, Inl TokenValueError)
                | Inr parsed \<Rightarrow> (st\<lparr>ts_provider_jwks := k_setitem (tk_cache env) (ts_provider_jwks st) key parsed\<rparr>, Inr parsed)))
      | None \<Rightarrow>
          (case opt_str (pc_jwks_uri p) of
             Some uri \<Rightarrow> load_provider_source env st p uri force_refresh True (in_cluster_token env p)
           | None \<Rightarrow>
               (case opt_str (pc_discovery_url p) of
                  None \<Rightarrow> get_oidc_jwks env st force_refresh
                | Some url \<Rightarrow> load_provider_source env st p url force_refresh False None)))"

subsection \<open>Choosing the provider\<close>

definition unverified_issuer :: "'t token_env \<Rightarrow> string \<Rightarrow> string option" where
  "unverified_issuer env token =
     (case py_split (CHR ''.'') token of
        _ # payload # _ \<Rightarrow>
          (case tk_payload_json env payload of
             Some (JObj kvs) \<Rightarrow> str_of (jget kvs ''iss'')
           | _ \<Rightarrow> None)
      | _ \<Rightarrow> None)"

definition token_providers :: "'t token_env \<Rightarrow> provider_config list" where
  "token_providers env = [p. p \<leftarrow> tk_providers env, pc_type p \<in> set TOKEN_PROVIDER_TYPES]"

definition resolve_provider :: "'t token_env \<Rightarrow> string \<Rightarrow> token_error + provider_config" where
  "resolve_provider env token =
     (case token_providers env of
        [] \<Rightarrow> Inl TokenValueError
      | [p] \<Rightarrow> Inr p
      | ps \<Rightarrow>
          (case opt_str (unverified_issuer env token) of
             None \<Rightarrow> Inl TokenValueError
           | Some issuer \<Rightarrow>
               (case List.find (\<lambda>p. pc_issuer p = Some issuer) ps of
                  Some p \<Rightarrow> Inr p
                | None \<Rightarrow> Inl TokenValueError)))"

definition resolve_token_provider :: "'t token_env \<Rightarrow> string \<Rightarrow> token_error + provider_config" where
  "resolve_token_provider env token = resolve_provider env token"

definition claims_options_for :: "provider_config \<Rightarrow> claims_options option" where
  "claims_options_for p =
     (let options = \<lparr>co_aud = opt_str (pc_audience p), co_iss = opt_str (pc_issuer p)\<rparr> in
      if co_aud options = None \<and> co_iss options = None then None else Some options)"

definition jwt_for :: "provider_config \<Rightarrow> token_error + string list" where
  "jwt_for p =
     (let algorithms = [a. a \<leftarrow> pc_allowed_algorithms p, a \<in> set ASYMMETRIC_ALGORITHMS] in
      if algorithms = [] then Inl TokenValueError else Inr algorithms)"

subsection \<open>Validation\<close>

definition validate_token :: "'t token_env \<Rightarrow> 't token_state \<Rightarrow> string \<Rightarrow> 't token_state \<times> (token_error + dict)" where
  "validate_token env st token =
     (case resolve_provider env token of
        Inl e \<Rightarrow> (st, Inl e)
      | Inr p \<Rightarrow>
          (case jwt_for p of
             Inl e \<Rightarrow> (st, Inl e)
           | Inr algorithms \<Rightarrow>
               (let options = claims_options_for p in
                case get_provider_jwks env st p False of
                  (st1, Inl e) \<Rightarrow> (st1, Inl e)
                | (st1, Inr jwks) \<Rightarrow>
                    (case tk_decode env algorithms token jwks options of
                       Inr payload \<Rightarrow> (st1, Inr payload)
                     | Inl BadSignatureError \<Rightarrow>
                         (case get_provider_jwks env st1 p True of
                            (st2, Inl e) \<Rightarrow> (st2, Inl e)
                          | (st2, Inr jwks') \<Rightarrow> (st2, tk_decode env algorithms token jwks' options))
                     | Inl e \<Rightarrow> (st1, Inl e)))))"

subsection \<open>Whose keys a validation uses\<close>

text \<open>
  A key set that a source delivered: by one request to it, or by the request that its discovery
  document names. The pod's credential goes only to a URL of the configuration.
\<close>

definition direct_keys :: "'t token_env \<Rightarrow> string \<Rightarrow> verify \<Rightarrow> string option \<Rightarrow> json \<Rightarrow> bool" where
  "direct_keys env url v tok j \<longleftrightarrow> (\<exists>n. tk_http_get env n url v tok = Inr j)"

definition discovered_keys :: "'t token_env \<Rightarrow> string \<Rightarrow> verify \<Rightarrow> json \<Rightarrow> bool" where
  "discovered_keys env url v j \<longleftrightarrow> (\<exists>n metadata uri. tk_http_get env n url v None = Inr (JObj metadata) \<and>
     jget metadata ''jwks_uri'' = JStr uri \<and> tk_http_get env (Suc n) uri v None = Inr j)"

definition deployment_keys :: "'t token_env \<Rightarrow> json \<Rightarrow> bool" where
  "deployment_keys env j \<longleftrightarrow> (\<exists>url. tk_discovery_url env = Some url \<and> discovered_keys env url (VerifyFlag (tk_verify_ssl env)) j)"

definition source_keys :: "'t token_env \<Rightarrow> provider_config \<Rightarrow> string \<Rightarrow> json \<Rightarrow> bool" where
  "source_keys env p url j \<longleftrightarrow> (\<exists>v. verify_for env p = Inr v \<and>
     (case opt_str (pc_jwks_uri p) of
        Some uri \<Rightarrow> url = uri \<and> direct_keys env uri v (in_cluster_token env p) j
      | None \<Rightarrow> opt_str (pc_discovery_url p) = Some url \<and> discovered_keys env url v j))"

definition inline_keys :: "'t token_env \<Rightarrow> string \<Rightarrow> json \<Rightarrow> bool" where
  "inline_keys env digest j \<longleftrightarrow> (\<exists>raw. tk_sha256 env raw = digest \<and> load_inline_jwks (tk_json_loads env) raw = Inr j)"

definition own_keys :: "'t token_env \<Rightarrow> provider_config \<Rightarrow> json \<Rightarrow> bool" where
  "own_keys env p j \<longleftrightarrow>
     (case inline_of p of
        Some inline \<Rightarrow> inline_keys env (tk_sha256 env inline) j
      | None \<Rightarrow>
          if opt_str (pc_jwks_uri p) = None \<and> opt_str (pc_discovery_url p) = None then deployment_keys env j
          else \<exists>url. source_keys env p url j)"

definition keys_inv :: "'t token_env \<Rightarrow> 't token_state \<Rightarrow> bool" where
  "keys_inv env st \<longleftrightarrow>
     (\<forall>pid digest j. k_get (tk_cache env) (ts_provider_jwks st) (InlineKey pid digest) = Some j \<longrightarrow> inline_keys env digest j) \<and>
     (\<forall>pid url j. k_get (tk_cache env) (ts_provider_jwks st) (SourceKey pid url) = Some j \<longrightarrow>
        (\<exists>p\<in>set (tk_providers env). pc_id p = pid \<and> source_keys env p url j)) \<and>
     (\<forall>j. k_get (tk_cache env) (ts_jwks st) JWKS_CACHE_KEY = Some j \<longrightarrow> deployment_keys env j)"

lemma keys_invD:
  assumes "keys_inv env st"
  shows "k_get (tk_cache env) (ts_provider_jwks st) (InlineKey pid digest) = Some j \<Longrightarrow> inline_keys env digest j"
    and "k_get (tk_cache env) (ts_provider_jwks st) (SourceKey pid url) = Some j \<Longrightarrow> \<exists>p\<in>set (tk_providers env). pc_id p = pid \<and> source_keys env p url j"
    and "k_get (tk_cache env) (ts_jwks st) JWKS_CACHE_KEY = Some j \<Longrightarrow> deployment_keys env j"
  using assms unfolding keys_inv_def by blast+

lemma fetch_keys_direct: "fetch_keys env n url True v tok = (n', Inr j) \<Longrightarrow> direct_keys env url v tok j"
  by (auto simp: fetch_keys_def direct_keys_def)

lemma fetch_keys_discovered: "fetch_keys env n url False v None = (n', Inr j) \<Longrightarrow> discovered_keys env url v j"
  unfolding fetch_keys_def discovered_keys_def
  by (auto split: sum.splits json.splits if_splits)

text \<open>What a load returns and leaves in the cache was there before or was fetched.\<close>

lemma load_jwks_step:
  assumes "load_jwks env cache n url key force direct v tok = (cache', n', r)"
  obtains (hit) c1 j where "c1 = (if force then k_pop (tk_cache env) cache key else cache)"
      "k_get (tk_cache env) c1 key = Some j" "cache' = c1" "r = Inr j"
  | (failed) c1 e where "c1 = (if force then k_pop (tk_cache env) cache key else cache)" "cache' = c1" "r = Inl e"
  | (fetched) c1 j where "c1 = (if force then k_pop (tk_cache env) cache key else cache)"
      "fetch_keys env n url direct v tok = (n', Inr j)" "cache' = k_setitem (tk_cache env) c1 key j" "r = Inr j"
proof -
  obtain c1 where c1: "c1 = (if force then k_pop (tk_cache env) cache key else cache)" by blast
  obtain m r1 where f: "fetch_keys env n url direct v tok = (m, r1)" by (rule prod.exhaust)
  have run: "(case k_get (tk_cache env) c1 key of
         Some cached \<Rightarrow> if cached \<noteq> JNull then (c1, n, Inr cached)
           else (case r1 of Inl e \<Rightarrow> (c1, m, Inl e) | Inr j \<Rightarrow> (k_setitem (tk_cache env) c1 key j, m, Inr j))
       | None \<Rightarrow> (case r1 of Inl e \<Rightarrow> (c1, m, Inl e) | Inr j \<Rightarrow> (k_setitem (tk_cache env) c1 key j, m, Inr j))) = (cache', n', r)"
    using assms unfolding load_jwks_def Let_def f c1 [symmetric] prod.case .
  show thesis
  proof (cases "\<exists>j. k_get (tk_cache env) c1 key = Some j \<and> j \<noteq> JNull")
    case True
    with run c1 show thesis by (elim exE conjE) (auto intro: hit)
  next
    case False
    then have "(case r1 of Inl e \<Rightarrow> (c1, m, Inl e) | Inr j \<Rightarrow> (k_setitem (tk_cache env) c1 key j, m, Inr j)) = (cache', n', r)"
      using run by (cases "k_get (tk_cache env) c1 key") simp_all
    then show thesis using f by (cases r1) (auto intro: failed [OF c1] fetched [OF c1])
  qed
qed

lemma load_jwks_cases:
  assumes ops: "keyed_cache (tk_cache env)" and run: "load_jwks env cache n url key force direct v tok = (cache', n', r)"
  shows "r = Inr j \<Longrightarrow> k_get (tk_cache env) cache key = Some j \<or> (\<exists>n1 n2. fetch_keys env n1 url direct v tok = (n2, Inr j))"
    and "k_get (tk_cache env) cache' k = Some w \<Longrightarrow>
      k_get (tk_cache env) cache k = Some w \<or> (k = key \<and> (\<exists>n1 n2. fetch_keys env n1 url direct v tok = (n2, Inr w)))"
proof -
  have old: "k_get (tk_cache env) cache k = Some w"
    if "c1 = (if force then k_pop (tk_cache env) cache key else cache)" "k_get (tk_cache env) c1 k = Some w" for c1 k w
    using that keyed_cache.popD [OF ops, of cache key k w] by (cases force) simp_all
  show "k_get (tk_cache env) cache key = Some j \<or> (\<exists>n1 n2. fetch_keys env n1 url direct v tok = (n2, Inr j))" if "r = Inr j"
    using run
  proof (cases rule: load_jwks_step)
    case (hit c1 j')
    with that old [OF hit(1)] show ?thesis by simp
  qed (use that in auto)
  show "k_get (tk_cache env) cache k = Some w \<or> (k = key \<and> (\<exists>n1 n2. fetch_keys env n1 url direct v tok = (n2, Inr w)))"
    if w: "k_get (tk_cache env) cache' k = Some w"
    using run
  proof (cases rule: load_jwks_step)
    case (hit c1 j)
    with w old [OF hit(1)] show ?thesis by simp
  next
    case (failed c1 e)
    with w old [OF failed(1)] show ?thesis by simp
  next
    case (fetched c1 j)
    from w have "(k = key \<and> w = j) \<or> k_get (tk_cache env) c1 k = Some w"
      unfolding fetched(3) by (rule keyed_cache.setitemD [OF ops])
    with old [OF fetched(1)] fetched(2) show ?thesis by blast
  qed
qed

lemma load_provider_source_keys:
  assumes ops: "keyed_cache (tk_cache env)" and inv: "keys_inv env st" and p: "p \<in> set (tk_providers env)"
    and dist: "distinct (map pc_id (tk_providers env))"
    and source: "if direct then opt_str (pc_jwks_uri p) = Some url \<and> tok = in_cluster_token env p
      else opt_str (pc_jwks_uri p) = None \<and> opt_str (pc_discovery_url p) = Some url \<and> tok = None"
    and run: "load_provider_source env st p url force direct tok = (st', r)"
  shows "keys_inv env st'" and "r = Inr j \<Longrightarrow> source_keys env p url j"
proof -
  have fetched: "source_keys env p url j" if "verify_for env p = Inr v" "fetch_keys env n1 url direct v tok = (n2, Inr j)" for v n1 n2 j
    using that source fetch_keys_direct fetch_keys_discovered unfolding source_keys_def by (cases direct) (auto split: option.splits)
  have cached: "source_keys env p url j" if "k_get (tk_cache env) (ts_provider_jwks st) (SourceKey (pc_id p) url) = Some j" for j
  proof -
    from keys_invD(2) [OF inv that]
    obtain q where "q \<in> set (tk_providers env)" "pc_id q = pc_id p" "source_keys env q url j" by blast
    moreover from this p dist have "q = p" by (auto simp: distinct_map inj_on_def)
    ultimately show ?thesis by simp
  qed
  have "keys_inv env st' \<and> (r = Inr j \<longrightarrow> source_keys env p url j)"
  proof (cases "verify_for env p")
    case (Inl e)
    with run inv show ?thesis by (auto simp: load_provider_source_def)
  next
    case (Inr v)
    obtain cache n r' where l: "load_jwks env (ts_provider_jwks st) (ts_requests st) url (SourceKey (pc_id p) url) force direct v tok = (cache, n, r')"
      by (metis prod.collapse)
    with run Inr have st': "ts_provider_jwks st' = cache" "ts_jwks st' = ts_jwks st" "r' = r"
      by (auto simp: load_provider_source_def)
    have result: "r = Inr j \<longrightarrow> source_keys env p url j"
      using load_jwks_cases(1) [OF ops l] fetched [OF Inr] cached unfolding st'(3) by blast
    have entry: "k_get (tk_cache env) (ts_provider_jwks st) k = Some w \<or> (k = SourceKey (pc_id p) url \<and> source_keys env p url w)"
      if "k_get (tk_cache env) cache k = Some w" for k w
      using load_jwks_cases(2) [OF ops l that] fetched [OF Inr] by blast
    have "keys_inv env st'"
      unfolding keys_inv_def st'
    proof (intro conjI allI impI)
      fix pid url' w
      assume "k_get (tk_cache env) cache (SourceKey pid url') = Some w"
      from entry [OF this] keys_invD(2) [OF inv] p show "\<exists>p\<in>set (tk_providers env). pc_id p = pid \<and> source_keys env p url' w" by auto
    qed (use entry keys_invD(1,3) [OF inv] in fastforce)+
    with result show ?thesis by blast
  qed
  then show "keys_inv env st'" "r = Inr j \<Longrightarrow> source_keys env p url j" by blast+
qed

lemma get_provider_jwks_own:
  assumes ops: "keyed_cache (tk_cache env)" and inv: "keys_inv env st" and p: "p \<in> set (tk_providers env)"
    and dist: "distinct (map pc_id (tk_providers env))" and run: "get_provider_jwks env st p force = (st', r)"
  shows "keys_inv env st'" and "r = Inr j \<Longrightarrow> own_keys env p j"
proof -
  have "keys_inv env st' \<and> (r = Inr j \<longrightarrow> own_keys env p j)"
  proof (cases "inline_of p")
    case (Some inline)
    let ?key = "InlineKey (pc_id p) (tk_sha256 env inline)"
    consider (hit) j' where "k_get (tk_cache env) (ts_provider_jwks st) ?key = Some j'" "st' = st" "r = Inr j'"
      | (failed) e where "st' = st" "r = Inl e"
      | (parsed) j' where "load_inline_jwks (tk_json_loads env) inline = Inr j'" "r = Inr j'"
          "st' = st\<lparr>ts_provider_jwks := k_setitem (tk_cache env) (ts_provider_jwks st) ?key j'\<rparr>"
      using run Some unfolding get_provider_jwks_def Let_def by (auto split: option.splits if_splits sum.splits)
    then show ?thesis
    proof cases
      case (parsed j')
      have keys: "inline_keys env (tk_sha256 env inline) j'" using parsed(1) by (auto simp: inline_keys_def)
      have entry: "k_get (tk_cache env) (ts_provider_jwks st) k = Some w \<or> (k = ?key \<and> w = j')"
        if "k_get (tk_cache env) (ts_provider_jwks st') k = Some w" for k w
        using keyed_cache.setitemD [OF ops, of _ ?key j' k w] that unfolding parsed(3) by auto
      have "keys_inv env st'"
        unfolding keys_inv_def
      proof (intro conjI allI impI)
        fix pid digest w
        assume "k_get (tk_cache env) (ts_provider_jwks st') (InlineKey pid digest) = Some w"
        from entry [OF this] keys_invD(1) [OF inv] keys show "inline_keys env digest w" by auto
      next
        fix pid url w
        assume "k_get (tk_cache env) (ts_provider_jwks st') (SourceKey pid url) = Some w"
        from entry [OF this] keys_invD(2) [OF inv] show "\<exists>p\<in>set (tk_providers env). pc_id p = pid \<and> source_keys env p url w" by auto
      next
        fix w
        assume "k_get (tk_cache env) (ts_jwks st') JWKS_CACHE_KEY = Some w"
        then show "deployment_keys env w" using keys_invD(3) [OF inv] by (simp add: parsed(3))
      qed
      with keys parsed(2) Some show ?thesis by (auto simp: own_keys_def)
    qed (use inv keys_invD(1) [OF inv] Some in \<open>auto simp: own_keys_def\<close>)
  next
    case None
    show ?thesis
    proof (cases "opt_str (pc_jwks_uri p)")
      case (Some uri)
      with None run have "load_provider_source env st p uri force True (in_cluster_token env p) = (st', r)"
        by (simp add: get_provider_jwks_def)
      from load_provider_source_keys [OF ops inv p dist _ this] None Some show ?thesis by (auto simp: own_keys_def)
    next
      case uri: None
      show ?thesis
      proof (cases "opt_str (pc_discovery_url p)")
        case (Some url)
        with None uri run have "load_provider_source env st p url force False None = (st', r)"
          by (simp add: get_provider_jwks_def)
        from load_provider_source_keys [OF ops inv p dist _ this] None uri Some show ?thesis by (auto simp: own_keys_def)
      next
        case no_url: None
        with None uri run have g: "get_oidc_jwks env st force = (st', r)" by (simp add: get_provider_jwks_def)
        show ?thesis
        proof (cases "tk_discovery_url env")
          case (Some url)
          obtain cache n r' where l: "load_jwks env (ts_jwks st) (ts_requests st) url JWKS_CACHE_KEY force False (VerifyFlag (tk_verify_ssl env)) None = (cache, n, r')"
            by (metis prod.collapse)
          with g Some have st': "ts_provider_jwks st' = ts_provider_jwks st" "ts_jwks st' = cache" "r' = r"
            by (auto simp: get_oidc_jwks_def)
          have fetched: "deployment_keys env w" if "fetch_keys env n1 url False (VerifyFlag (tk_verify_ssl env)) None = (n2, Inr w)" for n1 n2 w
            using fetch_keys_discovered [OF that] Some by (auto simp: deployment_keys_def)
          have "k_get (tk_cache env) cache JWKS_CACHE_KEY = Some w \<longrightarrow> deployment_keys env w" for w
            using load_jwks_cases(2) [OF ops l] fetched keys_invD(3) [OF inv] by blast
          then have "keys_inv env st'" using inv unfolding keys_inv_def st' by blast
          moreover have "r = Inr j \<longrightarrow> deployment_keys env j"
            using load_jwks_cases(1) [OF ops l] fetched keys_invD(3) [OF inv] unfolding st'(3) by blast
          ultimately show ?thesis using None uri no_url by (simp add: own_keys_def)
        qed (use g inv in \<open>auto simp: get_oidc_jwks_def\<close>)
      qed
    qed
  qed
  then show "keys_inv env st'" "r = Inr j \<Longrightarrow> own_keys env p j" by blast+
qed

subsection \<open>An accepted token\<close>

lemma resolve_provider_Inr:
  assumes "resolve_provider env token = Inr p"
  shows "p \<in> set (tk_providers env)" "pc_type p \<in> set TOKEN_PROVIDER_TYPES"
    "length (token_providers env) \<noteq> 1 \<Longrightarrow> \<exists>i. unverified_issuer env token = Some i \<and> i \<noteq> [] \<and> pc_issuer p = Some i"
proof -
  have "p \<in> set (token_providers env) \<and>
      (length (token_providers env) \<noteq> 1 \<longrightarrow> (\<exists>i. unverified_issuer env token = Some i \<and> i \<noteq> [] \<and> pc_issuer p = Some i))"
    using assms unfolding resolve_provider_def opt_str_def
    by (auto split: list.splits option.splits if_splits simp: find_Some_iff)
  then show "p \<in> set (tk_providers env)" "pc_type p \<in> set TOKEN_PROVIDER_TYPES"
    "length (token_providers env) \<noteq> 1 \<Longrightarrow> \<exists>i. unverified_issuer env token = Some i \<and> i \<noteq> [] \<and> pc_issuer p = Some i"
    by (auto simp: token_providers_def)
qed

lemma jwt_for_Inr: "jwt_for p = Inr algs \<Longrightarrow> algs \<noteq> [] \<and> set algs \<subseteq> set (pc_allowed_algorithms p) \<inter> set ASYMMETRIC_ALGORITHMS"
  by (auto simp: jwt_for_def Let_def simp del: concat_eq_Nil_conv split: if_splits)

lemma validate_token_own:
  assumes ops: "keyed_cache (tk_cache env)" and inv: "keys_inv env st" and dist: "distinct (map pc_id (tk_providers env))"
    and run: "validate_token env st token = (st', r)"
  shows "keys_inv env st'"
    and "r = Inr payload \<Longrightarrow> \<exists>p algs jwks. resolve_provider env token = Inr p \<and> jwt_for p = Inr algs \<and> own_keys env p jwks \<and>
      tk_decode env algs token jwks (claims_options_for p) = Inr payload"
proof -
  have "keys_inv env st' \<and> (r = Inr payload \<longrightarrow> (\<exists>p algs jwks. resolve_provider env token = Inr p \<and> jwt_for p = Inr algs \<and>
      own_keys env p jwks \<and> tk_decode env algs token jwks (claims_options_for p) = Inr payload))"
  proof (cases "resolve_provider env token")
    case (Inr p)
    note p = Inr
    note own = get_provider_jwks_own [OF ops _ resolve_provider_Inr(1) [OF p] dist]
    show ?thesis
    proof (cases "jwt_for p")
      case (Inr algs)
      obtain st1 r1 where g1: "get_provider_jwks env st p False = (st1, r1)" by (rule prod.exhaust)
      obtain st2 r2 where g2: "get_provider_jwks env st1 p True = (st2, r2)" by (rule prod.exhaust)
      note k1 = own [OF inv g1] note k2 = own [OF k1(1) g2]
      have "st' = st1 \<or> st' = st2" "r = Inr payload \<longrightarrow> (\<exists>jwks. (r1 = Inr jwks \<or> r2 = Inr jwks) \<and>
          tk_decode env algs token jwks (claims_options_for p) = Inr payload)"
        using run p Inr g1 g2 unfolding validate_token_def Let_def
        by (auto split: sum.splits token_error.splits)
      with k1 k2 p Inr show ?thesis by blast
    qed (use run p inv in \<open>auto simp: validate_token_def\<close>)
  qed (use run inv in \<open>auto simp: validate_token_def\<close>)
  then show "keys_inv env st'"
    "r = Inr payload \<Longrightarrow> \<exists>p algs jwks. resolve_provider env token = Inr p \<and> jwt_for p = Inr algs \<and> own_keys env p jwks \<and>
      tk_decode env algs token jwks (claims_options_for p) = Inr payload" by blast+
qed

end
