(* ===== verification/Authentication.thy ===== *)
theory Authentication
  imports Login Tokens
begin

section \<open>Request authentication (middleware/auth_middleware.py)\<close>

text \<open>
  What the authentication middleware does with a request: unprotected routes, basic, bearer and
  session credentials, the provisioning of accounts from bearer tokens, the check that the account
  exists and is active, and the denial. The redirect carries its target before URL quoting. Events
  of the audit log are appended to the state. The lemmas: a request proceeds only for an account that
  exists and is active, with its own administrator flag, and authentication never changes an existing
  account.
\<close>

record ('t, 's) auth_env =
  au_login :: login_env
  au_token :: "'t token_env"
  au_seen :: "('s, string \<times> string, bool) keyed_ops"
  au_b64decode :: "string \<Rightarrow> string option"
  au_fetch_access_token :: "json \<Rightarrow> dict option"
  au_api_path_prefixes :: "string list"
  OIDC_PROVISION_ON_BEARER_AUTH :: bool
  OIDC_TRUST_BEARER_GROUP_CLAIMS :: bool
  OIDC_SESSION_EXPIRY_LEEWAY_SECONDS :: int
  AUTOMATIC_LOGIN_REDIRECT :: bool

datatype auth_event =
    DeniedUser (ae_reason: string) (ae_username: string)
  | DeniedNamespace (dn_username: string) (dn_provider: string) (dn_namespace: string)
  | ProvisionedServiceAccount (ps_username: string) (ps_provider: string)

record ('t, 's) auth_world =
  ah_db :: db
  ah_tokens :: "'t token_state"
  ah_denied :: 's
  ah_cookie :: cookie
  ah_audit :: "auth_event list"

record http_request =
  hr_path :: string
  hr_query :: string
  hr_authorization :: "string option"
  hr_workspace :: "string option"
  hr_sec_fetch_dest :: string
  hr_accept :: string

datatype auth_failure =
    InvalidBasicCredentials
  | InvalidBasicFormat
  | InvalidServiceAccount
  | NamespaceNotAllowed
  | InvalidUsernameClaim field_error
  | InvalidToken
  | NoSessionAuthentication
  | SessionNotRecognised
  | SessionExpired
  | SessionAccessFailed

subsection \<open>Denials\<close>

definition DENIAL_UNKNOWN_USER :: string where "DENIAL_UNKNOWN_USER = ''unknown_user''"

definition DENIAL_INACTIVE :: string where "DENIAL_INACTIVE = ''inactive''"

definition DENIAL_LOOKUP_ERROR :: string where "DENIAL_LOOKUP_ERROR = ''lookup_error''"

definition should_audit_denial :: "('t, 's) auth_env \<Rightarrow> 's \<Rightarrow> string \<Rightarrow> string \<Rightarrow> 's \<times> bool" where
  "should_audit_denial env seen uname reason =
     (case k_get (au_seen env) seen (uname, reason) of
        Some _ \<Rightarrow> (seen, False)
      | None \<Rightarrow> (k_setitem (au_seen env) seen (uname, reason) True, True))"

definition audit_denial :: "('t, 's) auth_env \<Rightarrow> ('t, 's) auth_world \<Rightarrow> string \<Rightarrow> string \<Rightarrow> auth_event \<Rightarrow> ('t, 's) auth_world" where
  "audit_denial env w uname reason event =
     (case should_audit_denial env (ah_denied w) uname reason of
        (seen, emit) \<Rightarrow> w\<lparr>ah_denied := seen, ah_audit := (if emit then ah_audit w @ [event] else ah_audit w)\<rparr>)"

definition normalize_workspace_header :: "string option \<Rightarrow> string option" where
  "normalize_workspace_header raw = (case opt_str raw of None \<Rightarrow> None | Some s \<Rightarrow> opt_str (Some (py_strip s)))"

definition unprotected_prefixes :: "string list" where
  "unprotected_prefixes = [''/health'', ''/login'', ''/callback'', ''/oidc/static'', ''/metrics'', ''/docs'', ''/redoc'',
     ''/openapi.json'', ''/oidc/ui'', ''/static-files'']"

definition is_unprotected_route :: "string \<Rightarrow> bool" where
  "is_unprotected_route path \<longleftrightarrow> (\<exists>p\<in>set unprotected_prefixes. py_startswith path p)"

subsection \<open>Basic credentials\<close>

text \<open>\<^verbatim>\<open>s.split(sep, 1)\<close>: the two sides of the first separator.\<close>

definition split_once :: "char \<Rightarrow> string \<Rightarrow> (string \<times> string) option" where
  "split_once sep s =
     (case dropWhile (\<lambda>c. c \<noteq> sep) s of [] \<Rightarrow> None | _ # rest \<Rightarrow> Some (takeWhile (\<lambda>c. c \<noteq> sep) s, rest))"

definition authenticate_basic_auth :: "('t, 's) auth_env \<Rightarrow> db \<Rightarrow> string \<Rightarrow> auth_failure + string" where
  "authenticate_basic_auth env d header =
     (case split_once (CHR '' '') header of
        None \<Rightarrow> Inl InvalidBasicFormat
      | Some (_, encoded) \<Rightarrow>
          (case au_b64decode env encoded of
             None \<Rightarrow> Inl InvalidBasicFormat
           | Some decoded \<Rightarrow>
               (case split_once (CHR '':'') decoded of
                  None \<Rightarrow> Inl InvalidBasicFormat
                | Some (uname, password) \<Rightarrow>
                    (case authenticate_user (le_user (au_login env)) d (py_lower uname) password of
                       Inl e \<Rightarrow> Inl InvalidBasicFormat
                     | Inr ok \<Rightarrow> if ok then Inr (py_lower uname) else Inl InvalidBasicCredentials))))"

subsection \<open>Bearer tokens\<close>

text \<open>
  Creating an account and its memberships, each store call on its own; an exception ends the sequence
  and is swallowed. The flag says whether all of it completed.
\<close>

definition provision_user :: "login_env \<Rightarrow> db \<Rightarrow> string \<Rightarrow> string \<Rightarrow> bool \<Rightarrow> bool \<Rightarrow> string list \<Rightarrow> db \<times> bool" where
  "provision_user env d uname display is_admin is_sa names =
     (case fst (create_user (le_user env) (le_token env) d uname display is_admin is_sa None False) of
        Inl e \<Rightarrow> (d, False)
      | Inr (d1, _) \<Rightarrow>
          (let d2 = populate_groups d1 names in
           case set_user_groups d2 uname names of
             Inl e \<Rightarrow> (d2, False)
           | Inr d3 \<Rightarrow> (d3, True)))"

text \<open>The values \<^verbatim>\<open>group in user_groups\<close> is defined on, as lists of strings.\<close>

definition group_list :: "json \<Rightarrow> string list option" where
  "group_list v = (case v of JStr s \<Rightarrow> Some [s] | JList xs \<Rightarrow> Some [s. JStr s \<leftarrow> xs] | JObj kvs \<Rightarrow> Some (map fst kvs) | _ \<Rightarrow> None)"

definition token_groups :: "login_env \<Rightarrow> string \<Rightarrow> dict \<Rightarrow> json res" where
  "token_groups env token payload =
     (case OIDC_GROUP_DETECTION_PLUGIN env of
        Some plugin \<Rightarrow> plugin (JStr token)
      | None \<Rightarrow> Inr (jget_or payload (OIDC_GROUPS_ATTRIBUTE env) (JList [])))"

text \<open>An exception that leaves this function makes the token invalid; \<open>None\<close> stands for it.\<close>

definition maybe_provision_bearer_user ::
  "('t, 's) auth_env \<Rightarrow> db \<Rightarrow> string \<Rightarrow> string \<Rightarrow> dict \<Rightarrow> db option" where
  "maybe_provision_bearer_user env d uname token payload =
     (let le = au_login env in
      if \<not> OIDC_PROVISION_ON_BEARER_AUTH env \<or> has_user d uname then Some d
      else case resolve_token_provider (au_token env) token of
             Inl e \<Rightarrow> Some d
           | Inr p \<Rightarrow>
               if opt_str (pc_audience p) = None \<or> opt_str (pc_issuer p) = None \<or> pc_type p = ''k8s'' then Some d
               else case token_groups le token payload of
                      Inl e \<Rightarrow> Some d
                    | Inr v \<Rightarrow>
                        (case group_list v of
                           None \<Rightarrow> if OIDC_ADMIN_GROUP_NAME le = [] \<and> OIDC_GROUP_NAME le = [] then Some d else None
                         | Some names \<Rightarrow>
                             (let is_admin_claim = (\<exists>g\<in>set (OIDC_ADMIN_GROUP_NAME le). g \<in> set names) in
                              if \<not> is_admin_claim \<and> \<not> (\<exists>g\<in>set (OIDC_GROUP_NAME le). g \<in> set names) then Some d
                              else let is_admin = (is_admin_claim \<and> OIDC_TRUST_BEARER_GROUP_CLAIMS env \<and>
                                                   admin_from_claims p names (OIDC_ADMIN_GROUP_NAME le));
                                       display = (case extract_display_name (OIDC_DISPLAY_NAME_FIELD le) payload of Inr v \<Rightarrow> v | Inl _ \<Rightarrow> uname)
                                   in Some (fst (provision_user le d uname display is_admin False names)))))"

definition provision_service_account ::
  "('t, 's) auth_env \<Rightarrow> ('t, 's) auth_world \<Rightarrow> service_account \<Rightarrow> provider_config \<Rightarrow> ('t, 's) auth_world" where
  "provision_service_account env w sa p =
     (if has_user (ah_db w) (sa_username sa) then w
      else case provision_user (au_login env) (ah_db w) (sa_username sa)
                  (sa_namespace sa @ ''/'' @ sa_name sa @ '' (service account)'') False True [sa_group sa] of
             (d, complete) \<Rightarrow>
               w\<lparr>ah_db := d,
                 ah_audit := (if complete then ah_audit w @ [ProvisionedServiceAccount (sa_username sa) (pc_id p)] else ah_audit w)\<rparr>)"

definition authenticate_service_account ::
  "('t, 's) auth_env \<Rightarrow> ('t, 's) auth_world \<Rightarrow> dict \<Rightarrow> provider_config \<Rightarrow> ('t, 's) auth_world \<times> (auth_failure + string)" where
  "authenticate_service_account env w payload p =
     (case parse_service_account (jget payload ''sub'') of
        Inl e \<Rightarrow> (w, Inl InvalidServiceAccount)
      | Inr sa \<Rightarrow>
          if \<not> namespace_is_allowed (sa_namespace sa) (pc_namespace_allowlist p)
          then (audit_denial env w (sa_username sa) ''namespace_not_allowed''
                  (DeniedNamespace (sa_username sa) (pc_id p) (sa_namespace sa)), Inl NamespaceNotAllowed)
          else (provision_service_account env w sa p, Inr (sa_username sa)))"

definition provider_for :: "('t, 's) auth_env \<Rightarrow> string \<Rightarrow> provider_config option" where
  "provider_for env token = (case resolve_token_provider (au_token env) token of Inl e \<Rightarrow> None | Inr p \<Rightarrow> Some p)"

definition authenticate_bearer_token ::
  "('t, 's) auth_env \<Rightarrow> ('t, 's) auth_world \<Rightarrow> string \<Rightarrow> ('t, 's) auth_world \<times> (auth_failure + string)" where
  "authenticate_bearer_token env w header =
     (case split_once (CHR '' '') header of
        None \<Rightarrow> (w, Inl InvalidToken)
      | Some (_, token) \<Rightarrow>
          (case validate_token (au_token env) (ah_tokens w) token of
             (ts, Inl e) \<Rightarrow> (w\<lparr>ah_tokens := ts\<rparr>, Inl InvalidToken)
           | (ts, Inr payload) \<Rightarrow>
               (let w1 = w\<lparr>ah_tokens := ts\<rparr>; other =
                  (case extract_username (OIDC_USERNAME_FIELD (au_login env)) payload of
                     Inl fe \<Rightarrow> (w1, Inl (InvalidUsernameClaim fe))
                   | Inr uname \<Rightarrow>
                       (case maybe_provision_bearer_user env (ah_db w1) uname token payload of
                          None \<Rightarrow> (w1, Inl InvalidToken)
                        | Some d \<Rightarrow> (w1\<lparr>ah_db := d\<rparr>, Inr uname)))
                in case provider_for env token of
                     Some p \<Rightarrow> if pc_type p = ''k8s'' then authenticate_service_account env w1 payload p else other
                   | None \<Rightarrow> other)))"

subsection \<open>Sessions\<close>

definition is_session_expired :: "('t, 's) auth_env \<Rightarrow> cookie \<Rightarrow> bool" where
  "is_session_expired env ck =
     (case ck_expires_at ck of
        None \<Rightarrow> False
      | Some e \<Rightarrow> now (le_user (au_login env)) \<ge> e - max 0 (OIDC_SESSION_EXPIRY_LEEWAY_SECONDS env))"

text \<open>
  \<^verbatim>\<open>refresh_session_with_idp\<close> of \<^verbatim>\<open>routers/auth.py\<close>; a missing client, a failing
  exchange and an empty answer are all no answer. The client asked is always the default one.
\<close>

definition refresh_session_with_idp :: "('t, 's) auth_env \<Rightarrow> cookie \<Rightarrow> cookie \<times> bool" where
  "refresh_session_with_idp env ck =
     (if \<not> OIDC_USE_REFRESH_TOKEN (au_login env) then (ck, False)
      else case ck_refresh_token ck of
             None \<Rightarrow> (ck, False)
           | Some tok \<Rightarrow>
               if \<not> truthy tok then (ck, False)
               else case au_fetch_access_token env tok of
                      None \<Rightarrow> (ck, False)
                    | Some answer \<Rightarrow> if answer = [] then (ck, False) else (persist_session_auth (au_login env) ck answer, True))"

definition authenticate_session ::
  "('t, 's) auth_env \<Rightarrow> ('t, 's) auth_world \<Rightarrow> ('t, 's) auth_world \<times> (auth_failure + resolved_session)" where
  "authenticate_session env w =
     (case opt_str (ck_session_id (ah_cookie w)) of
        None \<Rightarrow> (w, Inl NoSessionAuthentication)
      | Some sid \<Rightarrow>
          (case resolve_auth_session (now (le_user (au_login env))) (ah_db w) sid of
             Inl e \<Rightarrow> (w, Inl SessionAccessFailed)
           | Inr None \<Rightarrow> (w\<lparr>ah_cookie := empty_cookie\<rparr>, Inl SessionNotRecognised)
           | Inr (Some resolved) \<Rightarrow>
               if is_session_expired env (ah_cookie w)
               then (case refresh_session_with_idp env (ah_cookie w) of
                       (ck, refreshed) \<Rightarrow>
                         if refreshed then (w\<lparr>ah_cookie := ck\<rparr>, Inr resolved)
                         else (w\<lparr>ah_cookie := empty_cookie\<rparr>, Inl SessionExpired))
               else (w, Inr resolved)))"

subsection \<open>Dispatch\<close>

text \<open>The user name with the session row, when the session path found one.\<close>

definition authenticate_request ::
  "('t, 's) auth_env \<Rightarrow> ('t, 's) auth_world \<Rightarrow> http_request \<Rightarrow> ('t, 's) auth_world \<times> (auth_failure + string \<times> resolved_session option)" where
  "authenticate_request env w rq =
     (let session = (case authenticate_session env w of
                       (w', Inl e) \<Rightarrow> (w', Inl e)
                     | (w', Inr rs) \<Rightarrow> (w', Inr (rs_username rs, Some rs)))
      in case opt_str (hr_authorization rq) of
           None \<Rightarrow> session
         | Some header \<Rightarrow>
             if py_startswith header ''Basic ''
             then (w, map_sum id (\<lambda>u. (u, None)) (authenticate_basic_auth env (ah_db w) header))
             else if py_startswith header ''Bearer ''
             then (case authenticate_bearer_token env w header of (w', r) \<Rightarrow> (w', map_sum id (\<lambda>u. (u, None)) r))
             else session)"

definition get_user_auth_state :: "db \<Rightarrow> string \<Rightarrow> bool \<times> bool \<times> string" where
  "get_user_auth_state d uname =
     (case get_user_profile d uname of
        Inl e \<Rightarrow> (False, False, if e = MlflowException RESOURCE_DOES_NOT_EXIST then DENIAL_UNKNOWN_USER else DENIAL_LOOKUP_ERROR)
      | Inr u \<Rightarrow> if \<not> ue_active u then (ue_is_admin u, False, DENIAL_INACTIVE) else (ue_is_admin u, True, []))"

definition get_user_admin_status :: "db \<Rightarrow> string \<Rightarrow> bool" where
  "get_user_admin_status d uname = (case get_user_auth_state d uname of (is_admin, is_active, _) \<Rightarrow> is_admin \<and> is_active)"

record auth_context =
  cx_username :: string
  cx_is_admin :: bool
  cx_workspace :: "string option"

datatype auth_response =
    PassThrough
  | Proceed auth_context
  | AuthenticationRequired
  | AdministratorRequired
  | RedirectToLogin string
  | RedirectToUi

definition is_document_request :: "http_request \<Rightarrow> bool" where
  "is_document_request rq =
     (let dest = py_lower (hr_sec_fetch_dest rq) in
      if dest \<noteq> [] then dest = ''document'' else py_contains ''text/html'' (py_lower (hr_accept rq)))"

definition handle_auth_redirect :: "('t, 's) auth_env \<Rightarrow> http_request \<Rightarrow> auth_response" where
  "handle_auth_redirect env rq =
     (if AUTOMATIC_LOGIN_REDIRECT env
      then RedirectToLogin (if hr_query rq \<noteq> [] then hr_path rq @ ''?'' @ hr_query rq else hr_path rq)
      else RedirectToUi)"

definition deny :: "('t, 's) auth_env \<Rightarrow> http_request \<Rightarrow> auth_response" where
  "deny env rq =
     (if \<exists>p\<in>set (au_api_path_prefixes env). py_startswith (hr_path rq) p then AuthenticationRequired
      else if py_startswith (hr_path rq) ''/oidc/trash'' then AdministratorRequired
      else if \<not> is_document_request rq then AuthenticationRequired
      else handle_auth_redirect env rq)"

definition dispatch :: "('t, 's) auth_env \<Rightarrow> ('t, 's) auth_world \<Rightarrow> http_request \<Rightarrow> ('t, 's) auth_world \<times> auth_response" where
  "dispatch env w rq =
     (if is_unprotected_route (hr_path rq) then (w, PassThrough)
      else case authenticate_request env w rq of
             (w1, Inl e) \<Rightarrow> (w1, deny env rq)
           | (w1, Inr (uname, resolved)) \<Rightarrow>
               if uname = [] then (w1, deny env rq)
               else (let (is_admin, is_active, reason) =
                       (case resolved of
                          Some rs \<Rightarrow> (rs_is_admin rs, rs_is_active rs, if rs_is_active rs then [] else DENIAL_INACTIVE)
                        | None \<Rightarrow> get_user_auth_state (ah_db w1) uname)
                     in if \<not> is_active then (audit_denial env w1 uname reason (DeniedUser reason uname), deny env rq)
                        else (w1, Proceed \<lparr>cx_username = uname, cx_is_admin = is_admin,
                                   cx_workspace = (if le_workspaces_enabled (au_login env)
                                                   then normalize_workspace_header (hr_workspace rq) else None)\<rparr>)))"

subsection \<open>Authentication adds an account at most\<close>

text \<open>
  The account tables after a request: the same, or one active account more, which is an administrator
  only when \<open>admin\<close> holds.
\<close>

definition adds_account :: "bool \<Rightarrow> db \<Rightarrow> db \<Rightarrow> bool" where
  "adds_account admin d d' \<longleftrightarrow> account_ok d' \<and> user_identities d' = user_identities d \<and> auth_sessions d' = auth_sessions d \<and>
     auth_states d' = auth_states d \<and>
     (users d' = users d \<or> (\<exists>u. users d' = users d @ [u] \<and> u_active u \<and> (u_is_admin u \<longrightarrow> admin)))"

lemma adds_none: "account_ok d \<Longrightarrow> adds_account admin d d"
  by (simp add: adds_account_def)

lemma adds_mono: "adds_account admin d d' \<Longrightarrow> (admin \<Longrightarrow> admin') \<Longrightarrow> adds_account admin' d d'"
  unfolding adds_account_def by blast

lemma adds_same:
  assumes "adds_account admin d d1" and "same_accounts d1 d2"
  shows "adds_account admin d d2"
proof -
  have "account_ok d2" using assms same_accounts_ok unfolding adds_account_def by blast
  with assms show ?thesis unfolding adds_account_def same_accounts_def by simp
qed

lemma membership_same_accounts:
  assumes "wf_db d"
  shows "same_accounts d (populate_groups d names)" and "set_user_groups d uname names = Inr d' \<Longrightarrow> same_accounts d d'"
  using assms membership_writes_wf(3,4) by (auto simp: same_accounts_def populate_groups_def set_user_groups_def)

lemma create_absent_user:
  assumes ok: "account_ok d" and absent: "\<not> has_user d uname"
    and run: "fst (create_user env token d uname display is_admin is_sa written_by override) = Inr (d1, fresh)"
  shows "adds_account is_admin d d1"
  using run
proof (cases rule: create_user_cases)
  case (updated ent audits)
  have "wf_users (users d)" using ok by (simp add: account_ok_def wf_db_def)
  from update_others(3) [OF this updated(2)] absent show ?thesis by (simp add: has_user_iff)
next
  case (created ent)
  from safe_ok [OF create_safe [OF ok created(2), of 0]] created(2) show ?thesis
    by (auto simp: adds_account_def user_create_Inr)
qed

lemma provision_user_adds:
  assumes ok: "account_ok d" and absent: "\<not> has_user d uname"
  shows "adds_account is_admin d (fst (provision_user env d uname display is_admin is_sa names))"
proof (cases "fst (create_user (le_user env) (le_token env) d uname display is_admin is_sa None False)")
  case (Inl e)
  then show ?thesis using ok by (simp add: provision_user_def adds_none)
next
  case (Inr r)
  obtain d1 fresh where r: "r = (d1, fresh)" by (rule prod.exhaust)
  have a1: "adds_account is_admin d d1" by (rule create_absent_user [OF ok absent Inr [unfolded r]])
  then have "wf_db d1" by (simp add: adds_account_def account_ok_def)
  note s2 = membership_same_accounts(1) [OF this, of names]
  have "wf_db (populate_groups d1 names)" using s2 by (simp add: same_accounts_def)
  note s3 = membership_same_accounts(2) [OF this, of uname names]
  show ?thesis
    using adds_same [OF a1 s2] adds_same [OF adds_same [OF a1 s2] s3] Inr r
    by (cases "set_user_groups (populate_groups d1 names) uname names") (simp_all add: provision_user_def Let_def)
qed

lemma maybe_provision_adds:
  assumes ok: "account_ok d" and run: "maybe_provision_bearer_user env d uname token payload = Some d'"
  shows "adds_account (OIDC_TRUST_BEARER_GROUP_CLAIMS env) d d'"
proof -
  have prov: "adds_account (OIDC_TRUST_BEARER_GROUP_CLAIMS env) d
      (fst (provision_user le d uname display (a \<and> OIDC_TRUST_BEARER_GROUP_CLAIMS env \<and> b) False names))"
    if "\<not> has_user d uname" for le display a b names
    using provision_user_adds [OF ok that] by (rule adds_mono) simp
  show ?thesis
    using run ok unfolding maybe_provision_bearer_user_def Let_def
    by (auto split: if_splits sum.splits option.splits intro!: prov adds_none)
qed

lemma audit_denial_db [simp]: "ah_db (audit_denial env w uname reason event) = ah_db w"
  by (simp add: audit_denial_def split: prod.splits)

lemma service_account_adds:
  assumes ok: "account_ok (ah_db w)" and run: "authenticate_service_account env w payload p = (w', r)"
  shows "adds_account False (ah_db w) (ah_db w')"
    and "r = Inr uname \<Longrightarrow> \<exists>sa. parse_service_account (jget payload ''sub'') = Inr sa \<and>
      sa_namespace sa \<in> set (pc_namespace_allowlist p) \<and> uname = sa_username sa"
proof -
  show "r = Inr uname \<Longrightarrow> \<exists>sa. parse_service_account (jget payload ''sub'') = Inr sa \<and>
      sa_namespace sa \<in> set (pc_namespace_allowlist p) \<and> uname = sa_username sa"
    using run by (auto simp: authenticate_service_account_def namespace_is_allowed_def split: sum.splits if_splits)
  have "ah_db w' = ah_db w \<or> (\<exists>sa. w' = provision_service_account env w sa p)"
    using run by (auto simp: authenticate_service_account_def split: sum.splits if_splits)
  then show "adds_account False (ah_db w) (ah_db w')"
  proof (elim disjE exE)
    fix sa
    assume w': "w' = provision_service_account env w sa p"
    show ?thesis
    proof (cases "has_user (ah_db w) (sa_username sa)")
      case False
      from provision_user_adds [OF ok this, of False] show ?thesis
        unfolding w' provision_service_account_def using False by (auto split: prod.splits) (metis fst_conv)
    qed (simp add: w' provision_service_account_def adds_none ok)
  qed (simp add: adds_none ok)
qed

lemma bearer_adds:
  assumes ok: "account_ok (ah_db w)" and run: "authenticate_bearer_token env w header = (w', r)"
  shows "adds_account (OIDC_TRUST_BEARER_GROUP_CLAIMS env) (ah_db w) (ah_db w')"
proof (cases "split_once (CHR '' '') header")
  case None
  with run ok show ?thesis by (simp add: authenticate_bearer_token_def adds_none)
next
  case (Some parts)
  obtain a token where parts: "parts = (a, token)" by (rule prod.exhaust)
  obtain ts v where v: "validate_token (au_token env) (ah_tokens w) token = (ts, v)" by (rule prod.exhaust)
  let ?w1 = "w\<lparr>ah_tokens := ts\<rparr>"
  consider (kept) "ah_db w' = ah_db w"
    | (service) payload p where "authenticate_service_account env ?w1 payload p = (w', r)"
    | (user) uname payload where "maybe_provision_bearer_user env (ah_db w) uname token payload = Some (ah_db w')"
    using run Some parts v unfolding authenticate_bearer_token_def Let_def
    by (auto split: sum.splits option.splits if_splits)
  then show ?thesis
  proof cases
    case kept
    with adds_none [OF ok] show ?thesis by simp
  next
    case service
    from service_account_adds(1) [OF _ service] ok show ?thesis by (auto intro: adds_mono)
  next
    case user
    from maybe_provision_adds [OF ok user] show ?thesis .
  qed
qed

lemma session_db: "authenticate_session env w = (w', r) \<Longrightarrow> ah_db w' = ah_db w"
  by (auto simp: authenticate_session_def split: option.splits sum.splits if_splits prod.splits)

lemma authenticate_request_adds:
  assumes ok: "account_ok (ah_db w)" and run: "authenticate_request env w rq = (w', r)"
  shows "adds_account (OIDC_TRUST_BEARER_GROUP_CLAIMS env) (ah_db w) (ah_db w')"
proof -
  obtain ws rs where s: "authenticate_session env w = (ws, rs)" by (rule prod.exhaust)
  consider (kept) "ah_db w' = ah_db w" | (bearer) header b where "authenticate_bearer_token env w header = (w', b)"
    using run s session_db [OF s] unfolding authenticate_request_def Let_def
    by (cases rs) (auto split: option.splits if_splits prod.splits)
  then show ?thesis
  proof cases
    case kept
    with adds_none [OF ok] show ?thesis by simp
  next
    case bearer
    then show ?thesis by (rule bearer_adds [OF ok])
  qed
qed

lemma dispatch_adds:
  assumes ok: "account_ok (ah_db w)" and run: "dispatch env w rq = (w', r)"
  shows "adds_account (OIDC_TRUST_BEARER_GROUP_CLAIMS env) (ah_db w) (ah_db w')"
proof -
  obtain w1 a where a: "authenticate_request env w rq = (w1, a)" by (rule prod.exhaust)
  have "ah_db w' = ah_db w1 \<or> ah_db w' = ah_db w"
    using run a unfolding dispatch_def Let_def by (auto split: if_splits sum.splits option.splits prod.splits)
  with authenticate_request_adds [OF ok a] adds_none [OF ok] show ?thesis by auto
qed

subsection \<open>Who proceeds\<close>

lemma auth_state_active:
  assumes "wf_users (users d)" and "get_user_auth_state d uname = (is_admin, True, reason)"
  shows "\<exists>u\<in>set (users d). u_username u = normalize_username uname \<and> u_active u \<and> u_is_admin u = is_admin"
  using assms(1)
proof (cases rule: get_user_cases [where uname = "normalize_username uname"])
  case (found u)
  then have "sql_one_or_none [v. v \<leftarrow> users d, u_username v = normalize_username uname] = Inr (Some u)"
    using user_row_query [OF assms(1)] by simp
  with assms(2) have "u_active u" "u_is_admin u = is_admin"
    by (auto simp: get_user_auth_state_def get_user_profile_def user_get_profile_def split: if_splits)
  with found show ?thesis by blast
next
  case absent
  then have "sql_one_or_none [v. v \<leftarrow> users d, u_username v = normalize_username uname] = Inr None"
    using user_row_query [OF assms(1)] by simp
  with assms(2) show ?thesis by (simp add: get_user_auth_state_def get_user_profile_def user_get_profile_def)
qed

lemma session_row:
  assumes ok: "account_ok (ah_db w)" and run: "authenticate_session env w = (w', Inr rs)"
  shows "\<exists>u\<in>set (users (ah_db w)). u_username u = rs_username rs \<and> u_is_admin u = rs_is_admin rs \<and> u_active u = rs_is_active rs"
proof -
  from run obtain sid where sid: "sid \<noteq> []" "resolve_auth_session (now (le_user (au_login env))) (ah_db w) sid = Inr (Some rs)"
    unfolding authenticate_session_def opt_str_def by (auto split: option.splits sum.splits if_splits prod.splits)
  have wf: "wf_users (users (ah_db w))" "wf_sessions (ah_db w)" using ok by (simp_all add: account_ok_def wf_db_def)
  from sid(2) show ?thesis
    unfolding resolve_auth_session_def session_resolve_spec(1) [OF wf sid(1)] by auto
qed

lemma proceed_cases:
  assumes "dispatch env w rq = (w', Proceed cx)"
  obtains (session) rs where "authenticate_session env w = (w', Inr rs)" "rs_is_active rs"
      "cx_username cx = rs_username rs" "cx_is_admin cx = rs_is_admin rs"
  | (basic) header where "hr_authorization rq = Some header" "w' = w" "authenticate_basic_auth env (ah_db w) header = Inr (cx_username cx)"
      "get_user_auth_state (ah_db w') (cx_username cx) = (cx_is_admin cx, True, [])"
  | (bearer) header where "hr_authorization rq = Some header" "py_startswith header ''Bearer ''"
      "authenticate_bearer_token env w header = (w', Inr (cx_username cx))"
      "get_user_auth_state (ah_db w') (cx_username cx) = (cx_is_admin cx, True, [])"
proof -
  have no_deny: "deny env rq \<noteq> Proceed cx"
    by (simp add: deny_def handle_auth_redirect_def)
  obtain w1 a where a: "authenticate_request env w rq = (w1, a)" by (rule prod.exhaust)
  with assms no_deny obtain uname resolved where inr: "a = Inr (uname, resolved)"
    by (cases a) (auto simp: dispatch_def split: if_splits)
  have last: "reason = []" if "get_user_auth_state d n = (adm, True, reason)" for d n adm reason
    using that by (auto simp: get_user_auth_state_def split: sum.splits if_splits)
  have st: "w' = w1" "cx_username cx = uname" "case resolved of
      Some rs \<Rightarrow> rs_is_active rs \<and> cx_is_admin cx = rs_is_admin rs
    | None \<Rightarrow> get_user_auth_state (ah_db w1) uname = (cx_is_admin cx, True, [])"
    using assms a inr no_deny last unfolding dispatch_def Let_def
    by (auto split: if_splits option.splits prod.splits)
  obtain ws rs where s: "authenticate_session env w = (ws, rs)" by (rule prod.exhaust)
  have via_session: thesis if "(case rs of Inl e \<Rightarrow> (ws, Inl e) | Inr r \<Rightarrow> (ws, Inr (rs_username r, Some r))) = (w1, Inr (uname, resolved))"
    using that st s by (cases rs) (auto intro: session)
  have "thesis" if none: "opt_str (hr_authorization rq) = None"
    using a inr s none via_session unfolding authenticate_request_def by (cases rs) auto
  moreover have thesis if h: "opt_str (hr_authorization rq) = Some header" for header
  proof -
    have auth: "hr_authorization rq = Some header" using h by (auto simp: opt_str_def split: option.splits if_splits)
    show thesis
    proof (cases "py_startswith header ''Basic ''")
      case True
      with a inr h have "w1 = w" "resolved = None" "authenticate_basic_auth env (ah_db w) header = Inr uname"
        by (cases "authenticate_basic_auth env (ah_db w) header"; auto simp: authenticate_request_def Let_def)+
      with st auth show thesis by (intro basic) simp_all
    next
      case False
      show thesis
      proof (cases "py_startswith header ''Bearer ''")
        case True
        obtain wb b where b: "authenticate_bearer_token env w header = (wb, b)" by (rule prod.exhaust)
        with a inr h False True have "w1 = wb" "resolved = None" "b = Inr uname"
          by (cases b; auto simp: authenticate_request_def Let_def)+
        with st auth True b show thesis by (intro bearer) simp_all
      next
        case no_bearer: False
        with a inr h False s show thesis using via_session by (cases rs) (auto simp: authenticate_request_def Let_def)
      qed
    qed
  qed
  ultimately show thesis by (cases "opt_str (hr_authorization rq)") auto
qed

lemma proceed_active:
  assumes ok: "account_ok (ah_db w)" and run: "dispatch env w rq = (w', Proceed cx)"
  shows "\<exists>u\<in>set (users (ah_db w')). u_username u = normalize_username (cx_username cx) \<and> u_active u \<and> u_is_admin u = cx_is_admin cx"
proof -
  have ok': "account_ok (ah_db w')" using dispatch_adds [OF ok run] by (simp add: adds_account_def)
  then have wf: "wf_users (users (ah_db w'))" by (simp add: account_ok_def wf_db_def)
  show ?thesis
    using run
  proof (cases rule: proceed_cases)
    case (session rs)
    from session_row [OF ok session(1)] obtain u where u: "u \<in> set (users (ah_db w))" "u_username u = rs_username rs"
      "u_is_admin u = rs_is_admin rs" "u_active u = rs_is_active rs" by blast
    moreover have "normalize_username (u_username u) = u_username u"
      using ok u(1) by (auto simp: account_ok_def intro: wf_identitiesD(5))
    ultimately show ?thesis using session session_db [OF session(1)] by (intro bexI [of _ u]) simp_all
  next
    case (basic header)
    from auth_state_active [OF wf basic(4)] show ?thesis .
  next
    case (bearer header)
    from auth_state_active [OF wf bearer(4)] show ?thesis .
  qed
qed

text \<open>What a bearer token was accepted for.\<close>

lemma bearer_Inr:
  assumes ops: "keyed_cache (tk_cache (au_token env))" and inv: "keys_inv (au_token env) (ah_tokens w)"
    and dist: "distinct (map pc_id (tk_providers (au_token env)))" and ok: "account_ok (ah_db w)"
    and run: "authenticate_bearer_token env w header = (w', Inr uname)"
  shows "\<exists>scheme token p algs jwks payload. split_once (CHR '' '') header = Some (scheme, token) \<and>
    resolve_provider (au_token env) token = Inr p \<and> jwt_for p = Inr algs \<and> own_keys (au_token env) p jwks \<and>
    tk_decode (au_token env) algs token jwks (claims_options_for p) = Inr payload \<and>
    (if pc_type p = ''k8s''
     then \<exists>sa. parse_service_account (jget payload ''sub'') = Inr sa \<and> sa_namespace sa \<in> set (pc_namespace_allowlist p) \<and>
       uname = sa_username sa
     else extract_username (OIDC_USERNAME_FIELD (au_login env)) payload = Inr uname)"
proof -
  obtain scheme token where h: "split_once (CHR '' '') header = Some (scheme, token)"
    using run by (auto simp: authenticate_bearer_token_def split: option.splits)
  obtain ts v where v: "validate_token (au_token env) (ah_tokens w) token = (ts, v)" by (rule prod.exhaust)
  with run h obtain payload where payload: "v = Inr payload"
    by (cases v) (auto simp: authenticate_bearer_token_def)
  from validate_token_own(2) [OF ops inv dist v payload] obtain p algs jwks where
    own: "resolve_provider (au_token env) token = Inr p" "jwt_for p = Inr algs" "own_keys (au_token env) p jwks"
      "tk_decode (au_token env) algs token jwks (claims_options_for p) = Inr payload"
    by blast
  then have "provider_for env token = Some p" by (simp add: provider_for_def resolve_token_provider_def)
  with run h v payload have "if pc_type p = ''k8s'' then authenticate_service_account env (w\<lparr>ah_tokens := ts\<rparr>) payload p = (w', Inr uname)
      else extract_username (OIDC_USERNAME_FIELD (au_login env)) payload = Inr uname"
    by (auto simp: authenticate_bearer_token_def Let_def split: sum.splits option.splits if_splits)
  with service_account_adds(2) [of "w\<lparr>ah_tokens := ts\<rparr>" env payload p w' "Inr uname"] ok h own show ?thesis
    by (cases "pc_type p = ''k8s''") auto
qed

end
