(* ===== verification/Request_Properties.thy ===== *)
theory Request_Properties
  imports Account_Properties Authentication
begin

section \<open>Requests\<close>

text \<open>
  The properties of request authentication and of the authorisation of requests, with a deployment of
  two token providers: \<^verbatim>\<open>corp\<close>, to which \<^verbatim>\<open>bob\<close> is bound, and
  \<^verbatim>\<open>partner\<close>.
\<close>

definition partner :: provider_config where
  "partner = corp\<lparr>pc_id := ''partner'', pc_issuer := Some ''https://partner'', pc_discovery_url := Some ''https://partner/d''\<rparr>"

definition cluster :: provider_config where
  "cluster = corp\<lparr>pc_id := ''cluster'', pc_type := ''k8s'', pc_issuer := Some ''https://k'', pc_discovery_url := None,
     pc_interactive := False, pc_jwks_uri := Some ''https://k/keys'', pc_namespace_allowlist := [''ml'']\<rparr>"

text \<open>A token is \<^verbatim>\<open>h.issuer.s\<close>; the payload is the issuer, and its claims depend on it.\<close>

definition sample_claims :: "string \<Rightarrow> dict" where
  "sample_claims token =
     (if token = ''h.https://partner.s'' then [(''sub'', JStr ''p9''), (''email'', JStr ''Bob'')]
      else [(''sub'', JStr ''system:serviceaccount:ml:trainer'')])"

definition sample_token_env :: "(jwks_key \<times> json) list token_env" where
  "sample_token_env =
     \<lparr>tk_cache = bounded_ops 32,
      tk_http_get = (\<lambda>n url v tok. Inr (JObj [(''jwks_uri'', JStr ''k''), (''keys'', JStr url)])),
      tk_sha256 = (\<lambda>j. ''d''), tk_in_cluster_credentials = (None, None), tk_json_loads = (\<lambda>s. None),
      tk_payload_json = (\<lambda>s. Some (JObj [(''iss'', JStr s)])),
      tk_decode = (\<lambda>algs token jwks options. Inr (sample_claims token)),
      tk_providers = [corp, partner, cluster], tk_discovery_url = None, tk_verify_ssl = True\<rparr>"

definition sample_auth_env :: "((jwks_key \<times> json) list, ((string \<times> string) \<times> bool) list) auth_env" where
  "sample_auth_env =
     \<lparr>au_login = sample_login_env, au_token = sample_token_env, au_seen = bounded_ops 1024, au_b64decode = Some,
      au_fetch_access_token = (\<lambda>j. None), au_api_path_prefixes = [''/api'', ''/ajax-api''],
      OIDC_PROVISION_ON_BEARER_AUTH = True, OIDC_TRUST_BEARER_GROUP_CLAIMS = False,
      OIDC_SESSION_EXPIRY_LEEWAY_SECONDS = 0, AUTOMATIC_LOGIN_REDIRECT = True\<rparr>"

definition sample_auth_world :: "((jwks_key \<times> json) list, ((string \<times> string) \<times> bool) list) auth_world" where
  "sample_auth_world =
     \<lparr>ah_db = account_db, ah_tokens = \<lparr>ts_jwks = [], ts_provider_jwks = [], ts_requests = 0\<rparr>, ah_denied = [],
      ah_cookie = bob_cookie, ah_audit = []\<rparr>"

definition api_request :: "string option \<Rightarrow> http_request" where
  "api_request header = \<lparr>hr_path = ''/api/x'', hr_query = [], hr_authorization = header, hr_workspace = None,
     hr_sec_fetch_dest = [], hr_accept = []\<rparr>"

lemma sample_auth_world_sel [simp]: "ah_db sample_auth_world = account_db"
  by (simp add: sample_auth_world_def)

lemma sample_keys: "keyed_cache (tk_cache (au_token sample_auth_env))" "keys_inv (au_token sample_auth_env) (ah_tokens sample_auth_world)"
  "distinct (map pc_id (tk_providers (au_token sample_auth_env)))"
proof -
  show "keyed_cache (tk_cache (au_token sample_auth_env))"
    using bounded.keyed_cache_axioms by (simp add: sample_auth_env_def sample_token_env_def)
  show "keys_inv (au_token sample_auth_env) (ah_tokens sample_auth_world)"
    by (simp add: keys_inv_def sample_auth_env_def sample_token_env_def sample_auth_world_def bounded_ops_def)
  show "distinct (map pc_id (tk_providers (au_token sample_auth_env)))"
    by (simp add: sample_auth_env_def sample_token_env_def corp_def partner_def cluster_def)
qed

subsection \<open>Authentication\<close>

text \<open>
  C32: A request proceeds only for an account that exists and is active, with the administrator flag
  of its row, whichever credential it carries; so a deleted or deactivated user is turned away at the
  next request.
\<close>

theorem requests_proceed_for_active_accounts:
  assumes "account_ok (ah_db w)" and "dispatch env w rq = (w', Proceed cx)"
  shows "\<exists>u\<in>set (users (ah_db w')). u_username u = normalize_username (cx_username cx) \<and> u_active u \<and> u_is_admin u = cx_is_admin cx"
  by (rule proceed_active [OF assms])

lemma cookie_request:
  "\<exists>w'. dispatch sample_auth_env sample_auth_world (api_request None) =
     (w', Proceed \<lparr>cx_username = ''bob'', cx_is_admin = False, cx_workspace = None\<rparr>)"
proof -
  have "snd (dispatch sample_auth_env sample_auth_world (api_request None)) = Proceed \<lparr>cx_username = ''bob'', cx_is_admin = False, cx_workspace = None\<rparr>"
    by code_simp
  then show ?thesis by (metis prod.collapse)
qed

theorem requests_proceed_for_active_accounts_witness:
  "\<exists>w'. dispatch sample_auth_env sample_auth_world (api_request None) =
     (w', Proceed \<lparr>cx_username = ''bob'', cx_is_admin = False, cx_workspace = None\<rparr>) \<and>
   (\<exists>u\<in>set (users (ah_db w')). u_username u = normalize_username ''bob'' \<and> u_active u \<and> \<not> u_is_admin u)"
proof -
  obtain w' where run: "dispatch sample_auth_env sample_auth_world (api_request None) =
     (w', Proceed \<lparr>cx_username = ''bob'', cx_is_admin = False, cx_workspace = None\<rparr>)"
    using cookie_request by blast
  from requests_proceed_for_active_accounts [OF _ run] run show ?thesis by auto
qed

text \<open>
  C33: Authenticating a request never changes an existing account, binding or session. At most it
  adds one active account, which is an administrator only where the deployment trusts the group
  claims of tokens; the constraints of the account tables are kept.
\<close>

theorem authentication_adds_an_account_at_most:
  assumes "account_ok (ah_db w)" and "dispatch env w rq = (w', r)"
  shows "account_ok (ah_db w') \<and> user_identities (ah_db w') = user_identities (ah_db w) \<and>
    auth_sessions (ah_db w') = auth_sessions (ah_db w) \<and>
    (users (ah_db w') = users (ah_db w) \<or>
     (\<exists>u. users (ah_db w') = users (ah_db w) @ [u] \<and> u_active u \<and> (u_is_admin u \<longrightarrow> OIDC_TRUST_BEARER_GROUP_CLAIMS env)))"
  using dispatch_adds [OF assms] by (simp add: adds_account_def)

theorem authentication_adds_an_account_at_most_witness:
  "\<exists>w' cx. dispatch sample_auth_env sample_auth_world (api_request (Some ''Bearer h.https://k.s'')) = (w', Proceed cx) \<and>
     cx_username cx = ''trainer.ml@serviceaccount.cluster.local'' \<and> account_ok (ah_db w')"
proof -
  let ?r = "dispatch sample_auth_env sample_auth_world (api_request (Some ''Bearer h.https://k.s''))"
  have "case snd ?r of Proceed cx \<Rightarrow> cx_username cx = ''trainer.ml@serviceaccount.cluster.local'' | _ \<Rightarrow> False" by code_simp
  then obtain w' cx where run: "?r = (w', Proceed cx)" "cx_username cx = ''trainer.ml@serviceaccount.cluster.local''"
    by (cases ?r) (auto split: auth_response.splits)
  from authentication_adds_an_account_at_most [OF _ run(1)] run show ?thesis by auto
qed



text \<open>
  Bearer authentication does not consult the bindings: a token of the second provider whose
  claim names \<^verbatim>\<open>bob\<close> proceeds as \<^verbatim>\<open>bob\<close>, although his account is bound to
  the first provider and the same claims would be refused at a browser login.
\<close>

theorem bearer_tokens_ignore_bindings:
  "list_providers_for_username account_db ''bob'' = [''corp''] \<and>
   snd (dispatch sample_auth_env sample_auth_world (api_request (Some ''Bearer h.https://partner.s''))) =
     Proceed \<lparr>cx_username = ''bob'', cx_is_admin = False, cx_workspace = None\<rparr> \<and>
   decide_login account_db partner (Some (JStr ''p9'')) (sample_claims ''h.https://partner.s'') ''bob'' =
     Inr \<lparr>po_allowed = False, po_create = False, po_username = None, po_reason = NameTaken ''bob'' ''partner''\<rparr>"
  by (intro conjI; code_simp)

end
