(* ===== verification/Http_Request.thy ===== *)
theory Http_Request
  imports Json "HOL-Library.AList"
begin

section \<open>Flask requests, MLflow's routes and the parameters of a request\<close>

text \<open>
  Models \<^verbatim>\<open>hooks/dual_spelling_guard.py\<close> and \<^verbatim>\<open>utils/request_helpers.py\<close>.
  MLflow's service registry, its routing table and its request parsing are parameters, in the record
  \<open>mlflow_server\<close>; a Flask request is a record of what the code reads of it. A Python dictionary that
  is read in order is an association list updated with \<open>AList.update\<close>, which keeps the position of a key.
\<close>

subsection \<open>Requests\<close>

text \<open>
  The query string and the form are lists of pairs, read at the first occurrence of a name.
  \<open>fq_body\<close> is the body parsed as JSON whatever the content type says, and \<open>None\<close> when it is none;
  \<open>fq_is_json\<close> is the verdict on the content type.
\<close>

record flask_request =
  fq_path :: string
  fq_method :: string
  fq_args :: "(string \<times> string) list"
  fq_is_json :: bool
  fq_body :: "json option"
  fq_form :: "(string \<times> string) list"
  fq_view_args :: "(string \<times> string) list option"

definition getlist :: "(string \<times> string) list \<Rightarrow> string \<Rightarrow> string list" where
  "getlist args k = [snd a. a \<leftarrow> args, fst a = k]"

text \<open>
  \<^verbatim>\<open>get_json(silent=True)\<close> and \<^verbatim>\<open>get_json(force=True, silent=True)\<close> give
  \<^verbatim>\<open>None\<close> where \<^verbatim>\<open>request.json\<close> raises.
\<close>

definition get_json_silent :: "flask_request \<Rightarrow> json" where
  "get_json_silent rq = (if fq_is_json rq then (case fq_body rq of Some v \<Rightarrow> v | None \<Rightarrow> JNull) else JNull)"

definition get_json_force :: "flask_request \<Rightarrow> json" where
  "get_json_force rq = (case fq_body rq of Some v \<Rightarrow> v | None \<Rightarrow> JNull)"

definition request_json :: "flask_request \<Rightarrow> json res" where
  "request_json rq = (if fq_is_json rq then (case fq_body rq of Some v \<Rightarrow> Inr v | None \<Rightarrow> Inl HttpBadRequest) else Inl HttpBadRequest)"

text \<open>\<^verbatim>\<open>key in v\<close> and \<^verbatim>\<open>v[key]\<close> on a value of any type.\<close>

fun key_in :: "string \<Rightarrow> json \<Rightarrow> bool res" where
  "key_in k (JObj kvs) = Inr (k \<in> fst ` set kvs)"
| "key_in k (JList xs) = Inr (JStr k \<in> set xs)"
| "key_in k (JStr s) = Inr (py_contains k s)"
| "key_in k _ = Inl TypeError"

fun item_of :: "json \<Rightarrow> string \<Rightarrow> json res" where
  "item_of (JObj kvs) k = (case map_of kvs k of Some v \<Rightarrow> Inr v | None \<Rightarrow> Inl KeyError)"
| "item_of _ k = Inl TypeError"

definition args_dict :: "(string \<times> string) list \<Rightarrow> json" where
  "args_dict args = JObj (map (\<lambda>(k, v). (k, JStr v)) args)"

subsection \<open>Paths with parameters\<close>

text \<open>
  \<^verbatim>\<open>_re_compile_path\<close> turns every \<^verbatim>\<open><name>\<close> of a path into
  \<^verbatim>\<open>([^/]+)\<close>; the rest of the path is the rest of the expression, in which a dot
  matches every character but a newline. Routes hold no other special character.
\<close>

datatype path_item = Literal char | Dot | Segment

function re_compile_path :: "string \<Rightarrow> path_item list" where
  "re_compile_path [] = []"
| "re_compile_path (c # s) =
     (let name = takeWhile (\<lambda>x. x \<noteq> CHR ''>'') s; rest = dropWhile (\<lambda>x. x \<noteq> CHR ''>'') s in
      if c = CHR ''<'' \<and> name \<noteq> [] \<and> rest \<noteq> [] then Segment # re_compile_path (tl rest)
      else (if c = CHR ''.'' then Dot else Literal c) # re_compile_path s)"
  by pat_completeness auto
termination
  by (relation "measure length") (auto simp: less_Suc_eq_le intro: order_trans [OF diff_le_self length_dropWhile_le])

fun fullmatch :: "path_item list \<Rightarrow> string \<Rightarrow> bool" where
  "fullmatch [] s = (s = [])"
| "fullmatch (p # ps) [] = False"
| "fullmatch (Literal c # ps) (x # s) = (x = c \<and> fullmatch ps s)"
| "fullmatch (Dot # ps) (x # s) = (x \<noteq> CHR 0x0A \<and> fullmatch ps s)"
| "fullmatch (Segment # ps) (x # s) = (x \<noteq> CHR ''/'' \<and> (fullmatch ps s \<or> fullmatch (Segment # ps) s))"

subsection \<open>MLflow's server\<close>

text \<open>
  A route of the service registry is served for a request class or by a plain function. \<open>ms_fields\<close> gives
  the fields of a request class with their \<^verbatim>\<open>json_name\<close>; \<open>ms_normalized_json\<close> is
  \<^verbatim>\<open>_get_normalized_request_json\<close>, \<open>None\<close> when it raises. The budget policy classes exist
  only in some releases of MLflow.
\<close>

datatype endpoint = Rpc string | Plain string

record mlflow_server =
  ms_endpoints :: "(string \<times> endpoint \<times> string list) list"
  ms_rules :: "(string \<times> string list) list"
  ms_fields :: "string \<Rightarrow> (string \<times> string) list"
  ms_normalized_json :: "flask_request \<Rightarrow> json option"
  ms_ajax_path :: "string \<Rightarrow> nat \<Rightarrow> string"
  ms_rest_path :: "string \<Rightarrow> nat \<Rightarrow> string"
  ms_static_prefix :: "string \<Rightarrow> string"
  ms_budget_policy_classes :: "string list"

subsection \<open>The dual-spelling guard\<close>

record guard_maps =
  gm_exact_collidable :: "((string \<times> string) \<times> (string \<times> string) list) list"
  gm_pattern_collidable :: "(path_item list \<times> string \<times> (string \<times> string) list) list"
  gm_exact_proto :: "(string \<times> string) list"
  gm_pattern_proto :: "(path_item list \<times> string) list"

definition NON_REGISTRY_PROTO_ROUTES :: "(string \<times> string \<times> string) list" where
  "NON_REGISTRY_PROTO_ROUTES = [(''mlflow/experiments/search-datasets'', ''POST'', ''SearchDatasets'')]"

definition collidable_pairs :: "(string \<times> string) list \<Rightarrow> (string \<times> string) list" where
  "collidable_pairs fs = [f. f \<leftarrow> fs, fst f \<noteq> snd f]"

definition register_method ::
  "string \<Rightarrow> (string \<times> string) list \<Rightarrow> string \<Rightarrow> guard_maps \<Rightarrow> guard_maps" where
  "register_method path collidable m gm =
     (if CHR ''<'' \<in> set path
      then gm\<lparr>gm_pattern_proto := gm_pattern_proto gm @ [(re_compile_path path, m)],
              gm_pattern_collidable := gm_pattern_collidable gm @ (if collidable \<noteq> [] then [(re_compile_path path, m, collidable)] else [])\<rparr>
      else gm\<lparr>gm_exact_proto := List.insert (path, m) (gm_exact_proto gm),
              gm_exact_collidable := (if collidable \<noteq> [] then AList.update (path, m) collidable (gm_exact_collidable gm)
                                      else gm_exact_collidable gm)\<rparr>)"

definition register_route :: "string \<Rightarrow> string list \<Rightarrow> (string \<times> string) list \<Rightarrow> guard_maps \<Rightarrow> guard_maps" where
  "register_route path ms fs gm = fold (register_method path (collidable_pairs fs)) ms gm"

definition bind_non_registry_proto_routes :: "mlflow_server \<Rightarrow> guard_maps \<Rightarrow> guard_maps" where
  "bind_non_registry_proto_routes srv gm =
     fold (\<lambda>(sfx, m, cls). fold (\<lambda>(path, ms). if suffix sfx path \<and> m \<in> set ms then register_route path [m] (ms_fields srv cls) else id)
        (ms_rules srv)) NON_REGISTRY_PROTO_ROUTES gm"

definition build_proto_route_maps :: "mlflow_server \<Rightarrow> guard_maps" where
  "build_proto_route_maps srv =
     bind_non_registry_proto_routes srv
       (fold (\<lambda>(path, e, ms). case e of Rpc cls \<Rightarrow> register_route path ms (ms_fields srv cls) | Plain _ \<Rightarrow> id) (ms_endpoints srv)
          \<lparr>gm_exact_collidable = [], gm_pattern_collidable = [], gm_exact_proto = [], gm_pattern_proto = []\<rparr>)"

text \<open>The module refuses to load when this is false.\<close>

definition assert_maps_populated :: "guard_maps \<Rightarrow> bool" where
  "assert_maps_populated gm \<longleftrightarrow> gm_exact_collidable gm \<noteq> [] \<or> gm_pattern_collidable gm \<noteq> []"

definition collidable_fields_for :: "guard_maps \<Rightarrow> string \<Rightarrow> string \<Rightarrow> (string \<times> string) list option" where
  "collidable_fields_for gm path m =
     (case map_of (gm_exact_collidable gm) (path, m) of
        Some fs \<Rightarrow> Some fs
      | None \<Rightarrow> map_option (\<lambda>(_, _, fs). fs) (List.find (\<lambda>(p, m', _). m' = m \<and> fullmatch p path) (gm_pattern_collidable gm)))"

definition is_proto_route :: "guard_maps \<Rightarrow> string \<Rightarrow> string \<Rightarrow> bool" where
  "is_proto_route gm path m =
     (let m' = (if m = ''HEAD'' then ''GET'' else m) in
      (path, m') \<in> set (gm_exact_proto gm) \<or> (\<exists>(p, m2)\<in>set (gm_pattern_proto gm). m2 = m' \<and> fullmatch p path))"

definition request_body :: "mlflow_server \<Rightarrow> flask_request \<Rightarrow> dict option" where
  "request_body srv rq = (case ms_normalized_json srv rq of Some (JObj kvs) \<Rightarrow> Some kvs | _ \<Rightarrow> None)"

definition mlflow_reads_args :: "flask_request \<Rightarrow> bool" where
  "mlflow_reads_args rq \<longleftrightarrow> fq_method rq = ''GET'' \<and> fq_args rq \<noteq> []"

definition find_dual_spelling_collision :: "mlflow_server \<Rightarrow> flask_request \<Rightarrow> string option" where
  "find_dual_spelling_collision srv rq =
     (case collidable_fields_for (build_proto_route_maps srv) (fq_path rq) (fq_method rq) of
        None \<Rightarrow> None
      | Some collidable \<Rightarrow>
          if mlflow_reads_args rq then None
          else case request_body srv rq of
                 None \<Rightarrow> None
               | Some kvs \<Rightarrow> map_option fst (List.find (\<lambda>(snake, camel). snake \<in> fst ` set kvs \<and> camel \<in> fst ` set kvs) collidable))"

definition capital :: "string \<Rightarrow> string" where
  "capital w = (case w of [] \<Rightarrow> [] | c # cs \<Rightarrow> upper_char c # cs)"

definition snake_to_camel :: "string \<Rightarrow> string" where
  "snake_to_camel name = (case py_split (CHR ''_'') name of [] \<Rightarrow> [] | head # rest \<Rightarrow> head @ concat (map capital rest))"

definition proto_request_value :: "mlflow_server \<Rightarrow> flask_request \<Rightarrow> string \<Rightarrow> bool \<times> json option" where
  "proto_request_value srv rq field =
     (if \<not> is_proto_route (build_proto_route_maps srv) (fq_path rq) (fq_method rq) then (False, None)
      else if mlflow_reads_args rq then (True, map_option JStr (map_of (fq_args rq) field))
      else case request_body srv rq of
             None \<Rightarrow> (True, None)
           | Some kvs \<Rightarrow>
               (case map_of kvs field of
                  Some v \<Rightarrow> (True, Some v)
                | None \<Rightarrow> (True, map_of kvs (snake_to_camel field))))"

definition has_unexpected_get_body :: "mlflow_server \<Rightarrow> flask_request \<Rightarrow> bool" where
  "has_unexpected_get_body srv rq =
     (if fq_method rq \<notin> {''GET'', ''HEAD''} then False
      else if fq_method rq = ''GET'' \<and> fq_args rq \<noteq> [] then False
      else if \<not> is_proto_route (build_proto_route_maps srv) (fq_path rq) (fq_method rq) then False
      else case request_body srv rq of None \<Rightarrow> False | Some kvs \<Rightarrow> kvs \<noteq> [])"

subsection \<open>Parameters of a request\<close>

definition get_url_param :: "flask_request \<Rightarrow> string \<Rightarrow> string res" where
  "get_url_param rq param =
     (case fq_view_args rq of
        None \<Rightarrow> Inl (MlflowException INVALID_PARAMETER_VALUE)
      | Some va \<Rightarrow> (case map_of va param of Some v \<Rightarrow> Inr v | None \<Rightarrow> Inl (MlflowException INVALID_PARAMETER_VALUE)))"

definition get_optional_url_param :: "flask_request \<Rightarrow> string \<Rightarrow> string option" where
  "get_optional_url_param rq param = (case fq_view_args rq of None \<Rightarrow> None | Some va \<Rightarrow> map_of va param)"

text \<open>The arguments that \<^verbatim>\<open>get_request_param\<close> reads, and one lookup in them.\<close>

definition request_args :: "flask_request \<Rightarrow> json res" where
  "request_args rq =
     (if fq_method rq \<in> {''GET'', ''HEAD''} then Inr (args_dict (fq_args rq))
      else if fq_method rq \<in> {''POST'', ''PATCH'', ''DELETE''}
      then (if fq_is_json rq then request_json rq else Inr (args_dict (fq_form rq)))
      else Inl (MlflowException BAD_REQUEST))"

definition arg_value :: "flask_request \<Rightarrow> string \<Rightarrow> json option res" where
  "arg_value rq param =
     bindE (request_args rq) (\<lambda>args.
       if \<not> truthy args then Inr None
       else bindE (key_in param args) (\<lambda>present. if present then bindE (item_of args param) (\<lambda>v. Inr (Some v)) else Inr None))"

definition nonempty_value :: "json \<Rightarrow> json res" where
  "nonempty_value v =
     (if \<not> truthy v \<or> (case v of JStr s \<Rightarrow> py_strip s = [] | _ \<Rightarrow> False)
      then Inl (MlflowException INVALID_PARAMETER_VALUE) else Inr v)"

definition get_request_param :: "flask_request \<Rightarrow> string \<Rightarrow> json res" where
  "get_request_param rq param =
     bindE (arg_value rq param) (\<lambda>found.
       case found of
         Some v \<Rightarrow> nonempty_value v
       | None \<Rightarrow>
           if param = ''run_id''
           then bindE (arg_value rq ''run_uuid'') (\<lambda>alias.
                  case alias of Some v \<Rightarrow> nonempty_value v | None \<Rightarrow> Inl (MlflowException INVALID_PARAMETER_VALUE))
           else Inl (MlflowException INVALID_PARAMETER_VALUE))"

definition get_optional_request_param :: "flask_request \<Rightarrow> string \<Rightarrow> json option res" where
  "get_optional_request_param rq param = arg_value rq param"

text \<open>On a route that is not parsed as a message, the query string and then the body are searched.\<close>

definition scan_param :: "flask_request \<Rightarrow> string \<Rightarrow> json option" where
  "scan_param rq param =
     (case map_of (fq_args rq) param of
        Some v \<Rightarrow> Some (JStr v)
      | None \<Rightarrow>
          (case get_json_silent rq of
             JObj kvs \<Rightarrow> map_of kvs param
           | _ \<Rightarrow> None))"

definition present :: "json option \<Rightarrow> json option" where
  "present v = (case v of Some JNull \<Rightarrow> None | _ \<Rightarrow> v)"

definition extract_param_from_all_sources :: "mlflow_server \<Rightarrow> flask_request \<Rightarrow> string \<Rightarrow> json option res" where
  "extract_param_from_all_sources srv rq param =
     (let is_proto = fst (proto_request_value srv rq param);
          proto_value = present (snd (proto_request_value srv rq param));
          path_value = map_option JStr (get_optional_url_param rq param)
      in if is_proto \<and> path_value \<noteq> None \<and> proto_value \<noteq> None \<and> path_value \<noteq> proto_value
         then Inl (MlflowException INVALID_PARAMETER_VALUE)
         else if path_value \<noteq> None then Inr path_value
         else if is_proto then Inr proto_value
         else Inr (present (scan_param rq param)))"

text \<open>\<^verbatim>\<open>by_name\<close> is the tracking store's lookup of an experiment by its name.\<close>

definition experiment_id_from_name :: "(json \<Rightarrow> string option res) \<Rightarrow> json \<Rightarrow> json res" where
  "experiment_id_from_name by_name nm =
     (case by_name nm of
        Inr (Some eid) \<Rightarrow> Inr (JStr eid)
      | Inr None \<Rightarrow> Inl (MlflowException INVALID_PARAMETER_VALUE)
      | Inl (MlflowException c) \<Rightarrow> Inl (MlflowException c)
      | Inl _ \<Rightarrow> Inl (MlflowException INVALID_PARAMETER_VALUE))"

definition get_experiment_id :: "mlflow_server \<Rightarrow> (json \<Rightarrow> string option res) \<Rightarrow> flask_request \<Rightarrow> json res" where
  "get_experiment_id srv by_name rq =
     bindE (extract_param_from_all_sources srv rq ''experiment_id'') (\<lambda>eid.
       case eid of
         Some v \<Rightarrow> Inr v
       | None \<Rightarrow>
           bindE (extract_param_from_all_sources srv rq ''experiment_name'') (\<lambda>nm.
             case nm of Some v \<Rightarrow> experiment_id_from_name by_name v | None \<Rightarrow> Inl (MlflowException INVALID_PARAMETER_VALUE)))"

definition required_param :: "mlflow_server \<Rightarrow> flask_request \<Rightarrow> string \<Rightarrow> json res" where
  "required_param srv rq param =
     bindE (extract_param_from_all_sources srv rq param) (\<lambda>v.
       case v of Some x \<Rightarrow> Inr x | None \<Rightarrow> Inl (MlflowException INVALID_PARAMETER_VALUE))"

definition get_model_id :: "mlflow_server \<Rightarrow> flask_request \<Rightarrow> json res" where
  "get_model_id srv rq = required_param srv rq ''model_id''"

definition get_model_name :: "mlflow_server \<Rightarrow> flask_request \<Rightarrow> json res" where
  "get_model_name srv rq = required_param srv rq ''name''"

end
