(* ===== verification/Validators.thy ===== *)
theory Validators
  imports Http_Request Authentication Cached_Store
begin

section \<open>Validators\<close>

text \<open>
  Models \<^verbatim>\<open>validators/*.py\<close>: the checks that run before a request of MLflow's API is
  served. Each names the resources of the request, resolves the user's permission on them and asks for
  one capability. A check threads the application state, since a resolution fills the caches.
\<close>

subsection \<open>Checks\<close>

type_synonym ('c, 'w, 'a) check = "('c, 'w) app \<Rightarrow> 'a res \<times> ('c, 'w) app"

definition lift_res :: "'a res \<Rightarrow> 's \<Rightarrow> 'a res \<times> 's" where
  "lift_res r s = (r, s)"

definition bind_check :: "('s \<Rightarrow> 'a res \<times> 's) \<Rightarrow> ('a \<Rightarrow> 's \<Rightarrow> 'b res \<times> 's) \<Rightarrow> 's \<Rightarrow> 'b res \<times> 's" where
  "bind_check m f s = (case m s of (Inl e, s') \<Rightarrow> (Inl e, s') | (Inr x, s') \<Rightarrow> f x s')"

text \<open>A loop that returns \<^verbatim>\<open>False\<close> at the first failing element, and \<^verbatim>\<open>all\<close>; a list comprehension with a condition.\<close>

fun all_check :: "('x \<Rightarrow> 's \<Rightarrow> bool res \<times> 's) \<Rightarrow> 'x list \<Rightarrow> 's \<Rightarrow> bool res \<times> 's" where
  "all_check f [] = lift_res (Inr True)"
| "all_check f (x # xs) = bind_check (f x) (\<lambda>ok. if ok then all_check f xs else lift_res (Inr False))"

fun filter_check :: "('x \<Rightarrow> 's \<Rightarrow> bool res \<times> 's) \<Rightarrow> 'x list \<Rightarrow> 's \<Rightarrow> 'x list res \<times> 's" where
  "filter_check f [] = lift_res (Inr [])"
| "filter_check f (x # xs) =
     bind_check (f x) (\<lambda>ok. bind_check (filter_check f xs) (\<lambda>ys. lift_res (Inr (if ok then x # ys else ys))))"

definition allowed :: "(permission \<Rightarrow> bool) \<Rightarrow> ('c, 'w, permission) check \<Rightarrow> ('c, 'w, bool) check" where
  "allowed can m = bind_check m (\<lambda>p. lift_res (Inr (can p)))"

definition permission_of :: "('c, 'w, permission_result) check \<Rightarrow> ('c, 'w, permission) check" where
  "permission_of m = bind_check m (\<lambda>r. lift_res (Inr (pr_permission r)))"

text \<open>
  The environment of a request: the resolver's, MLflow's server, the authentication context of the
  request, the tracking store's lookups and the configuration. An identifier of the body that is not a
  string is read by its text, \<open>qe_str\<close>. \<open>qe_safe_path\<close> is MLflow's \<^verbatim>\<open>validate_path_is_safe\<close>,
  \<open>qe_job_params\<close> the parsed parameters of a job.
\<close>

record ('c, 'w) request_env =
  qe_env :: "('c, 'w) env"
  qe_server :: mlflow_server
  qe_context :: "auth_context option"
  qe_str :: "json \<Rightarrow> string"
  qe_run_experiment :: "json \<Rightarrow> string res"
  qe_logged_model_experiment :: "json \<Rightarrow> string res"
  qe_trace_experiment :: "json \<Rightarrow> string res"
  qe_experiment_by_name :: "json \<Rightarrow> string option res"
  qe_job_params :: "string \<Rightarrow> json res"
  qe_endpoint_name :: "json \<Rightarrow> string res"
  qe_secret_name :: "json \<Rightarrow> string res"
  qe_model_definition_name :: "json \<Rightarrow> string res"
  qe_safe_path :: "string \<Rightarrow> string option"
  qe_default_workspace :: string
  RESTRICT_RESOURCE_CREATION :: bool
  OIDC_WORKSPACE_REQUIRE_CREATION_CONTEXT :: bool
  OIDC_WORKSPACE_DENY_DEFAULT_CREATION :: bool

definition get_auth_context :: "('c, 'w) request_env \<Rightarrow> auth_context res" where
  "get_auth_context env = (case qe_context env of Some cx \<Rightarrow> Inr cx | None \<Rightarrow> Inl OtherException)"

definition get_fastapi_username :: "('c, 'w) request_env \<Rightarrow> string res" where
  "get_fastapi_username env =
     (case get_auth_context env of Inr cx \<Rightarrow> if cx_username cx \<noteq> [] then Inr (cx_username cx) else Inl OtherException | Inl _ \<Rightarrow> Inl OtherException)"

definition get_fastapi_admin_status :: "('c, 'w) request_env \<Rightarrow> bool" where
  "get_fastapi_admin_status env = (case get_auth_context env of Inr cx \<Rightarrow> cx_is_admin cx | Inl _ \<Rightarrow> False)"

definition get_request_workspace :: "('c, 'w) request_env \<Rightarrow> string option" where
  "get_request_workspace env = (case get_auth_context env of Inr cx \<Rightarrow> cx_workspace cx | Inl _ \<Rightarrow> None)"

definition resolver_env :: "('c, 'w) request_env \<Rightarrow> ('c, 'w) env" where
  "resolver_env env = (qe_env env)\<lparr>e_workspace := get_request_workspace env\<rparr>"

definition text_of :: "('c, 'w) request_env \<Rightarrow> json \<Rightarrow> string" where
  "text_of env v = (case v of JStr s \<Rightarrow> s | _ \<Rightarrow> qe_str env v)"

definition experiment_permission :: "('c, 'w) request_env \<Rightarrow> string \<Rightarrow> string \<Rightarrow> ('c, 'w, permission) check" where
  "experiment_permission env eid uname = permission_of (\<lambda>s. effective_experiment_permission (resolver_env env) s eid uname)"

definition registered_model_permission :: "('c, 'w) request_env \<Rightarrow> string \<Rightarrow> string \<Rightarrow> ('c, 'w, permission) check" where
  "registered_model_permission env nm uname = permission_of (\<lambda>s. effective_registered_model_permission (resolver_env env) s nm uname)"

subsection \<open>Experiments\<close>

definition get_permission_from_experiment_id :: "('c, 'w) request_env \<Rightarrow> flask_request \<Rightarrow> string \<Rightarrow> ('c, 'w, permission) check" where
  "get_permission_from_experiment_id env rq uname =
     bind_check (lift_res (get_experiment_id (qe_server env) (qe_experiment_by_name env) rq)) (\<lambda>eid.
       experiment_permission env (text_of env eid) uname)"

definition get_permission_from_experiment_name :: "('c, 'w) request_env \<Rightarrow> flask_request \<Rightarrow> string \<Rightarrow> ('c, 'w, permission) check" where
  "get_permission_from_experiment_name env rq uname =
     bind_check (lift_res (get_request_param rq ''experiment_name'')) (\<lambda>nm.
     bind_check (lift_res (qe_experiment_by_name env nm)) (\<lambda>found.
       case found of
         None \<Rightarrow> lift_res (get_permission ''MANAGE'')
       | Some eid \<Rightarrow> experiment_permission env eid uname))"

text \<open>
  The components of \<^verbatim>\<open>posixpath.normpath\<close>: empty ones and dots are dropped, and
  \<^verbatim>\<open>..\<close> removes the component before it unless there is none to remove.
\<close>

fun norm_components :: "bool \<Rightarrow> string list \<Rightarrow> string list \<Rightarrow> string list" where
  "norm_components absolute acc [] = rev acc"
| "norm_components absolute acc (c # cs) =
     (if c = [] \<or> c = ''.'' then norm_components absolute acc cs
      else if c \<noteq> ''..'' \<or> (\<not> absolute \<and> acc = []) \<or> (acc \<noteq> [] \<and> hd acc = ''..'') then norm_components absolute (c # acc) cs
      else norm_components absolute (tl acc) cs)"

definition isdigit :: "string \<Rightarrow> bool" where
  "isdigit s \<longleftrightarrow> s \<noteq> [] \<and> list_all is_digit s"

definition experiment_id_from_artifact_path :: "('c, 'w) request_env \<Rightarrow> string \<Rightarrow> string option" where
  "experiment_id_from_artifact_path env path =
     (let p = (case qe_safe_path env path of Some q \<Rightarrow> q | None \<Rightarrow> path);
          segments = norm_components (prefix ''/'' p) [] (py_split (CHR ''/'') p)
      in case segments of
           [] \<Rightarrow> None
         | first # rest \<Rightarrow>
             if first = ''workspaces''
             then (case rest of _ # eid # _ \<Rightarrow> if isdigit eid then Some eid else None | _ \<Rightarrow> None)
             else if isdigit first then Some first else None)"

definition get_experiment_id_from_view_args :: "('c, 'w) request_env \<Rightarrow> flask_request \<Rightarrow> string option" where
  "get_experiment_id_from_view_args env rq =
     (case get_optional_url_param rq ''artifact_path'' of
        Some (c # cs) \<Rightarrow> experiment_id_from_artifact_path env (c # cs)
      | _ \<Rightarrow>
          (case map_of (fq_args rq) ''path'' of
             Some (c # cs) \<Rightarrow> experiment_id_from_artifact_path env (c # cs)
           | _ \<Rightarrow> None))"

definition get_permission_from_experiment_id_artifact_proxy ::
  "('c, 'w) request_env \<Rightarrow> flask_request \<Rightarrow> string \<Rightarrow> ('c, 'w, permission) check" where
  "get_permission_from_experiment_id_artifact_proxy env rq uname =
     (case get_experiment_id_from_view_args env rq of
        Some eid \<Rightarrow> experiment_permission env eid uname
      | None \<Rightarrow> lift_res (get_permission (DEFAULT_MLFLOW_PERMISSION (e_config (qe_env env)))))"

definition validate_can_read_experiment :: "('c, 'w) request_env \<Rightarrow> flask_request \<Rightarrow> string \<Rightarrow> ('c, 'w, bool) check" where
  "validate_can_read_experiment env rq uname = allowed can_read (get_permission_from_experiment_id env rq uname)"

definition validate_can_read_experiment_by_name :: "('c, 'w) request_env \<Rightarrow> flask_request \<Rightarrow> string \<Rightarrow> ('c, 'w, bool) check" where
  "validate_can_read_experiment_by_name env rq uname = allowed can_read (get_permission_from_experiment_name env rq uname)"

definition validate_can_update_experiment :: "('c, 'w) request_env \<Rightarrow> flask_request \<Rightarrow> string \<Rightarrow> ('c, 'w, bool) check" where
  "validate_can_update_experiment env rq uname = allowed can_update (get_permission_from_experiment_id env rq uname)"

definition validate_can_delete_experiment :: "('c, 'w) request_env \<Rightarrow> flask_request \<Rightarrow> string \<Rightarrow> ('c, 'w, bool) check" where
  "validate_can_delete_experiment env rq uname = allowed can_delete (get_permission_from_experiment_id env rq uname)"

definition validate_can_manage_experiment :: "('c, 'w) request_env \<Rightarrow> flask_request \<Rightarrow> string \<Rightarrow> ('c, 'w, bool) check" where
  "validate_can_manage_experiment env rq uname = allowed can_manage (get_permission_from_experiment_id env rq uname)"

definition validate_can_read_experiment_artifact_proxy :: "('c, 'w) request_env \<Rightarrow> flask_request \<Rightarrow> string \<Rightarrow> ('c, 'w, bool) check" where
  "validate_can_read_experiment_artifact_proxy env rq uname = allowed can_read (get_permission_from_experiment_id_artifact_proxy env rq uname)"

definition validate_can_update_experiment_artifact_proxy :: "('c, 'w) request_env \<Rightarrow> flask_request \<Rightarrow> string \<Rightarrow> ('c, 'w, bool) check" where
  "validate_can_update_experiment_artifact_proxy env rq uname = allowed can_update (get_permission_from_experiment_id_artifact_proxy env rq uname)"

definition validate_can_delete_experiment_artifact_proxy :: "('c, 'w) request_env \<Rightarrow> flask_request \<Rightarrow> string \<Rightarrow> ('c, 'w, bool) check" where
  "validate_can_delete_experiment_artifact_proxy env rq uname = allowed can_delete (get_permission_from_experiment_id_artifact_proxy env rq uname)"

text \<open>\<^verbatim>\<open>body.get(key)\<close> on a body that may be no dictionary.\<close>

fun body_get :: "json \<Rightarrow> string \<Rightarrow> json res" where
  "body_get (JObj kvs) k = Inr (jget kvs k)"
| "body_get _ k = Inl AttributeError"

definition json_body :: "flask_request \<Rightarrow> json" where
  "json_body rq = (if truthy (get_json_silent rq) then get_json_silent rq else JObj [])"

fun list_value :: "json \<Rightarrow> json list" where
  "list_value (JList xs) = xs"
| "list_value _ = []"

definition requested_experiment_ids :: "flask_request \<Rightarrow> json list res" where
  "requested_experiment_ids rq =
     (if fq_method rq = ''POST'' \<and> fq_is_json rq
      then bindE (body_get (json_body rq) ''experiment_ids'') (\<lambda>a.
           bindE (body_get (json_body rq) ''experimentIds'') (\<lambda>b. Inr (list_value a @ list_value b)))
      else Inr (map JStr (getlist (fq_args rq) ''experiment_ids'')))"

definition can_on_experiment :: "(permission \<Rightarrow> bool) \<Rightarrow> ('c, 'w) request_env \<Rightarrow> string \<Rightarrow> json \<Rightarrow> ('c, 'w, bool) check" where
  "can_on_experiment can env uname eid = allowed can (experiment_permission env (text_of env eid) uname)"

definition validate_can_read_experiments_from_experiment_ids :: "('c, 'w) request_env \<Rightarrow> flask_request \<Rightarrow> string \<Rightarrow> ('c, 'w, bool) check" where
  "validate_can_read_experiments_from_experiment_ids env rq uname =
     bind_check (lift_res (requested_experiment_ids rq)) (all_check (can_on_experiment can_read env uname))"

definition validate_can_update_experiment_from_experiment_id :: "('c, 'w) request_env \<Rightarrow> flask_request \<Rightarrow> string \<Rightarrow> ('c, 'w, bool) check" where
  "validate_can_update_experiment_from_experiment_id env rq uname =
     bind_check (lift_res (get_request_param rq ''experiment_id'')) (can_on_experiment can_update env uname)"

definition validate_can_create_experiment :: "('c, 'w) request_env \<Rightarrow> flask_request \<Rightarrow> string \<Rightarrow> ('c, 'w, bool) check" where
  "validate_can_create_experiment env rq uname =
     (if \<not> RESTRICT_RESOURCE_CREATION env then lift_res (Inr True)
      else bind_check (lift_res (get_request_param rq ''name'')) (\<lambda>nm.
        allowed can_update (permission_of (\<lambda>s. effective_new_experiment_permission (resolver_env env) s (text_of env nm) uname))))"

subsection \<open>Registered models, logged models and model artifacts\<close>

definition get_permission_from_registered_model_name :: "('c, 'w) request_env \<Rightarrow> flask_request \<Rightarrow> string \<Rightarrow> ('c, 'w, permission) check" where
  "get_permission_from_registered_model_name env rq uname =
     bind_check (lift_res (get_model_name (qe_server env) rq)) (\<lambda>nm. registered_model_permission env (text_of env nm) uname)"

definition get_permission_from_model_id :: "('c, 'w) request_env \<Rightarrow> flask_request \<Rightarrow> string \<Rightarrow> ('c, 'w, permission) check" where
  "get_permission_from_model_id env rq uname =
     bind_check (lift_res (bindE (get_model_id (qe_server env) rq) (qe_logged_model_experiment env))) (\<lambda>eid. experiment_permission env eid uname)"

definition get_permission_from_model_version :: "('c, 'w) request_env \<Rightarrow> flask_request \<Rightarrow> string \<Rightarrow> ('c, 'w, permission) check" where
  "get_permission_from_model_version env rq uname = get_permission_from_registered_model_name env rq uname"

definition get_permission_from_trace_request_id :: "('c, 'w) request_env \<Rightarrow> flask_request \<Rightarrow> string \<Rightarrow> ('c, 'w, permission) check" where
  "get_permission_from_trace_request_id env rq uname =
     bind_check (lift_res (bindE (get_request_param rq ''request_id'') (qe_trace_experiment env))) (\<lambda>eid. experiment_permission env eid uname)"

definition validate_can_read_registered_model :: "('c, 'w) request_env \<Rightarrow> flask_request \<Rightarrow> string \<Rightarrow> ('c, 'w, bool) check" where
  "validate_can_read_registered_model env rq uname = allowed can_read (get_permission_from_registered_model_name env rq uname)"

definition validate_can_update_registered_model :: "('c, 'w) request_env \<Rightarrow> flask_request \<Rightarrow> string \<Rightarrow> ('c, 'w, bool) check" where
  "validate_can_update_registered_model env rq uname = allowed can_update (get_permission_from_registered_model_name env rq uname)"

definition validate_can_delete_registered_model :: "('c, 'w) request_env \<Rightarrow> flask_request \<Rightarrow> string \<Rightarrow> ('c, 'w, bool) check" where
  "validate_can_delete_registered_model env rq uname = allowed can_delete (get_permission_from_registered_model_name env rq uname)"

definition validate_can_manage_registered_model :: "('c, 'w) request_env \<Rightarrow> flask_request \<Rightarrow> string \<Rightarrow> ('c, 'w, bool) check" where
  "validate_can_manage_registered_model env rq uname = allowed can_manage (get_permission_from_registered_model_name env rq uname)"

definition validate_can_read_logged_model :: "('c, 'w) request_env \<Rightarrow> flask_request \<Rightarrow> string \<Rightarrow> ('c, 'w, bool) check" where
  "validate_can_read_logged_model env rq uname = allowed can_read (get_permission_from_model_id env rq uname)"

definition validate_can_update_logged_model :: "('c, 'w) request_env \<Rightarrow> flask_request \<Rightarrow> string \<Rightarrow> ('c, 'w, bool) check" where
  "validate_can_update_logged_model env rq uname = allowed can_update (get_permission_from_model_id env rq uname)"

definition validate_can_delete_logged_model :: "('c, 'w) request_env \<Rightarrow> flask_request \<Rightarrow> string \<Rightarrow> ('c, 'w, bool) check" where
  "validate_can_delete_logged_model env rq uname = allowed can_delete (get_permission_from_model_id env rq uname)"

definition validate_can_manage_logged_model :: "('c, 'w) request_env \<Rightarrow> flask_request \<Rightarrow> string \<Rightarrow> ('c, 'w, bool) check" where
  "validate_can_manage_logged_model env rq uname = allowed can_manage (get_permission_from_model_id env rq uname)"

definition validate_can_read_model_version_artifact :: "('c, 'w) request_env \<Rightarrow> flask_request \<Rightarrow> string \<Rightarrow> ('c, 'w, bool) check" where
  "validate_can_read_model_version_artifact env rq uname = allowed can_read (get_permission_from_model_version env rq uname)"

definition validate_can_read_trace_artifact :: "('c, 'w) request_env \<Rightarrow> flask_request \<Rightarrow> string \<Rightarrow> ('c, 'w, bool) check" where
  "validate_can_read_trace_artifact env rq uname = allowed can_read (get_permission_from_trace_request_id env rq uname)"

definition validate_can_create_registered_model :: "('c, 'w) request_env \<Rightarrow> flask_request \<Rightarrow> string \<Rightarrow> ('c, 'w, bool) check" where
  "validate_can_create_registered_model env rq uname =
     (if \<not> RESTRICT_RESOURCE_CREATION env then lift_res (Inr True)
      else bind_check (lift_res (get_model_name (qe_server env) rq)) (\<lambda>nm.
        allowed can_update (permission_of (\<lambda>s. effective_new_registered_model_permission (resolver_env env) s (text_of env nm) uname))))"

subsection \<open>Runs\<close>

definition permission_for_run :: "('c, 'w) request_env \<Rightarrow> json \<Rightarrow> string \<Rightarrow> ('c, 'w, permission) check" where
  "permission_for_run env run_id uname =
     bind_check (lift_res (qe_run_experiment env run_id)) (\<lambda>eid. experiment_permission env eid uname)"

definition get_permission_from_run_id :: "('c, 'w) request_env \<Rightarrow> flask_request \<Rightarrow> string \<Rightarrow> ('c, 'w, permission) check" where
  "get_permission_from_run_id env rq uname =
     bind_check (lift_res (get_request_param rq ''run_id'')) (\<lambda>run_id. permission_for_run env run_id uname)"

definition validate_can_read_run :: "('c, 'w) request_env \<Rightarrow> flask_request \<Rightarrow> string \<Rightarrow> ('c, 'w, bool) check" where
  "validate_can_read_run env rq uname = allowed can_read (get_permission_from_run_id env rq uname)"

definition validate_can_update_run :: "('c, 'w) request_env \<Rightarrow> flask_request \<Rightarrow> string \<Rightarrow> ('c, 'w, bool) check" where
  "validate_can_update_run env rq uname = allowed can_update (get_permission_from_run_id env rq uname)"

definition validate_can_delete_run :: "('c, 'w) request_env \<Rightarrow> flask_request \<Rightarrow> string \<Rightarrow> ('c, 'w, bool) check" where
  "validate_can_delete_run env rq uname = allowed can_delete (get_permission_from_run_id env rq uname)"

definition validate_can_manage_run :: "('c, 'w) request_env \<Rightarrow> flask_request \<Rightarrow> string \<Rightarrow> ('c, 'w, bool) check" where
  "validate_can_manage_run env rq uname = allowed can_manage (get_permission_from_run_id env rq uname)"

definition validate_can_read_run_artifact :: "('c, 'w) request_env \<Rightarrow> flask_request \<Rightarrow> string \<Rightarrow> ('c, 'w, bool) check" where
  "validate_can_read_run_artifact env rq uname = allowed can_read (get_permission_from_run_id env rq uname)"

definition validate_can_update_run_artifact :: "('c, 'w) request_env \<Rightarrow> flask_request \<Rightarrow> string \<Rightarrow> ('c, 'w, bool) check" where
  "validate_can_update_run_artifact env rq uname =
     (case map_of (fq_args rq) ''run_uuid'' of
        Some (c # cs) \<Rightarrow> allowed can_update (permission_for_run env (JStr (c # cs)) uname)
      | _ \<Rightarrow> lift_res (Inr False))"

definition validate_can_read_metric_history_bulk_interval :: "('c, 'w) request_env \<Rightarrow> flask_request \<Rightarrow> string \<Rightarrow> ('c, 'w, bool) check" where
  "validate_can_read_metric_history_bulk_interval env rq uname =
     (let run_ids = getlist (fq_args rq) ''run_ids'';
          run_ids' = (if run_ids = [] then getlist (fq_args rq) ''run_id'' else run_ids)
      in all_check (\<lambda>run_id. allowed can_read (permission_for_run env (JStr run_id) uname)) run_ids')"

definition validate_can_read_metric_history_bulk :: "('c, 'w) request_env \<Rightarrow> flask_request \<Rightarrow> string \<Rightarrow> ('c, 'w, bool) check" where
  "validate_can_read_metric_history_bulk env rq uname =
     (let run_ids = getlist (fq_args rq) ''run_id'' in
      if run_ids = [] then lift_res (Inl (MlflowException INVALID_PARAMETER_VALUE))
      else all_check (\<lambda>run_id. allowed can_read (permission_for_run env (JStr run_id) uname)) run_ids)"

subsection \<open>Data sets, prompt runs, gateway proxy and scorer invocation\<close>

text \<open>Iterating over a value: a string gives its characters, a dictionary its keys.\<close>

fun iter_value :: "json \<Rightarrow> json list res" where
  "iter_value (JList xs) = Inr xs"
| "iter_value (JObj kvs) = Inr (map (\<lambda>kv. JStr (fst kv)) kvs)"
| "iter_value (JStr s) = Inr (map (\<lambda>c. JStr [c]) s)"
| "iter_value _ = Inl TypeError"

definition dataset_experiment_ids :: "flask_request \<Rightarrow> json list res" where
  "dataset_experiment_ids rq =
     (if fq_method rq = ''POST'' \<and> fq_is_json rq
      then bindE (body_get (json_body rq) ''experiment_ids'') (\<lambda>v. if truthy v then iter_value v else Inr [])
      else Inr (map JStr (getlist (fq_args rq) ''experiment_ids'')))"

definition validate_can_search_datasets :: "('c, 'w) request_env \<Rightarrow> flask_request \<Rightarrow> string \<Rightarrow> ('c, 'w, bool) check" where
  "validate_can_search_datasets env rq uname =
     bind_check (lift_res (dataset_experiment_ids rq)) (\<lambda>ids.
       if ids = [] then lift_res (Inl (MlflowException INVALID_PARAMETER_VALUE))
       else all_check (can_on_experiment can_read env uname) ids)"

definition validate_can_create_promptlab_run :: "('c, 'w) request_env \<Rightarrow> flask_request \<Rightarrow> string \<Rightarrow> ('c, 'w, bool) check" where
  "validate_can_create_promptlab_run env rq uname =
     (case get_request_param rq ''experiment_id'' of
        Inl (MlflowException c) \<Rightarrow> lift_res (Inl (MlflowException INVALID_PARAMETER_VALUE))
      | Inl e \<Rightarrow> lift_res (Inl e)
      | Inr eid \<Rightarrow> can_on_experiment can_update env uname eid)"

definition validate_can_create_gateway :: "('c, 'w) request_env \<Rightarrow> flask_request \<Rightarrow> string \<Rightarrow> ('c, 'w, bool) check" where
  "validate_can_create_gateway env rq uname = lift_res (Inr True)"

definition strip_slashes :: "string \<Rightarrow> string" where
  "strip_slashes s = rev (dropWhile (\<lambda>c. c = CHR ''/'') (rev (dropWhile (\<lambda>c. c = CHR ''/'') s)))"

definition extract_gateway_name :: "('c, 'w) request_env \<Rightarrow> flask_request \<Rightarrow> string option" where
  "extract_gateway_name env rq =
     (let v = (if fq_method rq = ''GET'' then (case map_of (fq_args rq) ''gateway_path'' of Some s \<Rightarrow> JStr s | None \<Rightarrow> JNull)
               else case get_json_silent rq of JObj kvs \<Rightarrow> jget kvs ''gateway_path'' | _ \<Rightarrow> JNull)
      in if \<not> truthy v then None
         else case py_split (CHR ''/'') (strip_slashes (text_of env v)) of
                [a, nm, b] \<Rightarrow> if a = ''gateway'' \<and> nm \<noteq> [] \<and> b = ''invocations'' then Some nm else None
              | _ \<Rightarrow> None)"

fun any_use :: "string perm_row list \<Rightarrow> bool res" where
  "any_use [] = Inr False"
| "any_use (p # ps) = bindE (get_permission (p_permission p)) (\<lambda>perm. if can_use perm then Inr True else any_use ps)"

definition validate_gateway_proxy :: "('c, 'w) request_env \<Rightarrow> flask_request \<Rightarrow> string \<Rightarrow> ('c, 'w, bool) check" where
  "validate_gateway_proxy env rq uname =
     (if fq_method rq = ''GET''
      then (case extract_gateway_name env rq of
              Some nm \<Rightarrow> (\<lambda>s. can_use_gateway_endpoint (resolver_env env) s nm uname)
            | None \<Rightarrow> (\<lambda>s. (any_use (list_gateway_endpoint_permissions (a_db s) uname), s)))
      else (case extract_gateway_name env rq of
              Some nm \<Rightarrow> (\<lambda>s. can_update_gateway_endpoint (resolver_env env) s nm uname)
            | None \<Rightarrow> lift_res (Inr False)))"

definition validate_can_invoke_scorer :: "('c, 'w) request_env \<Rightarrow> flask_request \<Rightarrow> string \<Rightarrow> ('c, 'w, bool) check" where
  "validate_can_invoke_scorer env rq uname =
     (let args = (case get_json_silent rq of JObj kvs \<Rightarrow> kvs | _ \<Rightarrow> []); eid = jget args ''experiment_id'' in
      if \<not> truthy eid then lift_res (Inr False)
      else can_on_experiment (if truthy (jget args ''log_assessments'') then can_update else can_read) env uname eid)"

subsection \<open>Traces\<close>

definition field_values :: "json \<Rightarrow> string \<Rightarrow> string \<Rightarrow> json list" where
  "field_values container snake camel =
     (case container of
        JObj kvs \<Rightarrow> [v. v \<leftarrow> [jget kvs snake, jget kvs camel], v \<noteq> JNull]
      | _ \<Rightarrow> [])"

definition location_experiments :: "json \<Rightarrow> json list" where
  "location_experiments location =
     concat (map (\<lambda>e. field_values e ''experiment_id'' ''experimentId'') (field_values location ''mlflow_experiment'' ''mlflowExperiment''))"

definition all_experiment_ids_from_search :: "flask_request \<Rightarrow> json list res" where
  "all_experiment_ids_from_search rq =
     (let body = json_body rq;
          ids = map JStr (getlist (fq_args rq) ''experiment_ids'') @
                concat (map list_value (field_values body ''experiment_ids'' ''experimentIds''))
      in bindE (mapE (\<lambda>locations. if truthy locations then iter_value locations else Inr []) (field_values body ''locations'' ''locations'')) (\<lambda>ls.
           Inr [i. i \<leftarrow> ids @ concat (map location_experiments (concat ls)), truthy i]))"

definition all_trace_ids_from_batch :: "flask_request \<Rightarrow> json list" where
  "all_trace_ids_from_batch rq =
     [i. i \<leftarrow> map JStr (getlist (fq_args rq) ''trace_ids'') @
          concat (map list_value (field_values (json_body rq) ''trace_ids'' ''traceIds'')), truthy i]"

fun hashable :: "json \<Rightarrow> bool" where
  "hashable (JList xs) = False"
| "hashable (JObj kvs) = False"
| "hashable v = True"

definition distinct_values :: "json list \<Rightarrow> json list res" where
  "distinct_values vs = (if list_all hashable vs then Inr (dict_fromkeys vs) else Inl TypeError)"

definition trace_id_keys :: "string list" where
  "trace_id_keys = [''trace_id'', ''traceId'', ''request_id'', ''requestId'']"

definition all_single_trace_ids :: "flask_request \<Rightarrow> json list res" where
  "all_single_trace_ids rq =
     bindE (mapE (body_get (json_body rq)) trace_id_keys) (\<lambda>bodies.
       distinct_values
         ([JStr v. Some v \<leftarrow> map (get_optional_url_param rq) [''trace_id'', ''request_id''], v \<noteq> []] @
          [JStr v. Some v \<leftarrow> map (map_of (fq_args rq)) trace_id_keys, v \<noteq> []] @
          [v. v \<leftarrow> bodies, truthy v]))"

definition require_read_on_all :: "('c, 'w) request_env \<Rightarrow> string \<Rightarrow> json list \<Rightarrow> ('c, 'w, bool) check" where
  "require_read_on_all env uname ids =
     (if ids = [] then lift_res (Inr False) else all_check (can_on_experiment can_read env uname) ids)"

definition require_on_all_traces :: "('c, 'w) request_env \<Rightarrow> flask_request \<Rightarrow> string \<Rightarrow> (permission \<Rightarrow> bool) \<Rightarrow> ('c, 'w, bool) check" where
  "require_on_all_traces env rq uname can =
     bind_check (lift_res (all_single_trace_ids rq)) (\<lambda>ids.
       if ids = [] then lift_res (Inr False)
       else all_check (\<lambda>tid. case qe_trace_experiment env tid of
                               Inl _ \<Rightarrow> lift_res (Inr False)
                             | Inr eid \<Rightarrow> allowed can (experiment_permission env eid uname)) ids)"

definition validate_can_read_traces_from_experiment_ids :: "('c, 'w) request_env \<Rightarrow> flask_request \<Rightarrow> string \<Rightarrow> ('c, 'w, bool) check" where
  "validate_can_read_traces_from_experiment_ids env rq uname =
     bind_check (lift_res (all_experiment_ids_from_search rq)) (require_read_on_all env uname)"

definition validate_can_read_traces_from_trace_ids :: "('c, 'w) request_env \<Rightarrow> flask_request \<Rightarrow> string \<Rightarrow> ('c, 'w, bool) check" where
  "validate_can_read_traces_from_trace_ids env rq uname =
     (let ids = all_trace_ids_from_batch rq in
      if ids = [] then lift_res (Inr False)
      else case mapE (qe_trace_experiment env) ids of
             Inl _ \<Rightarrow> lift_res (Inr False)
           | Inr eids \<Rightarrow> require_read_on_all env uname (map JStr eids))"

definition validate_can_read_trace :: "('c, 'w) request_env \<Rightarrow> flask_request \<Rightarrow> string \<Rightarrow> ('c, 'w, bool) check" where
  "validate_can_read_trace env rq uname = require_on_all_traces env rq uname can_read"

definition validate_can_update_trace :: "('c, 'w) request_env \<Rightarrow> flask_request \<Rightarrow> string \<Rightarrow> ('c, 'w, bool) check" where
  "validate_can_update_trace env rq uname = require_on_all_traces env rq uname can_update"

definition trace_experiment_ids :: "flask_request \<Rightarrow> json list" where
  "trace_experiment_ids rq =
     field_values (json_body rq) ''experiment_id'' ''experimentId'' @
     (case map_of (fq_args rq) ''experiment_id'' of Some (c # cs) \<Rightarrow> [JStr (c # cs)] | _ \<Rightarrow> [])"

definition validate_can_update_trace_from_experiment_id :: "('c, 'w) request_env \<Rightarrow> flask_request \<Rightarrow> string \<Rightarrow> ('c, 'w, bool) check" where
  "validate_can_update_trace_from_experiment_id env rq uname =
     (let ids = trace_experiment_ids rq in
      if ids = [] then lift_res (Inr False) else all_check (can_on_experiment can_update env uname) ids)"

definition validate_can_delete_traces_from_experiment_id :: "('c, 'w) request_env \<Rightarrow> flask_request \<Rightarrow> string \<Rightarrow> ('c, 'w, bool) check" where
  "validate_can_delete_traces_from_experiment_id env rq uname =
     (let ids = trace_experiment_ids rq in
      if ids = [] then lift_res (Inr False) else all_check (can_on_experiment can_delete env uname) ids)"

definition linked_run_ids :: "flask_request \<Rightarrow> json list res" where
  "linked_run_ids rq =
     bindE (mapE (\<lambda>k. bindE (body_get (json_body rq) k) (\<lambda>v.
         Inr (if truthy v then v else case map_of (fq_args rq) k of Some s \<Rightarrow> JStr s | None \<Rightarrow> JNull))) [''run_id'', ''runId'', ''run_uuid''])
       (\<lambda>vs. distinct_values [v. v \<leftarrow> vs, truthy v])"

definition validate_can_update_trace_from_run_id :: "('c, 'w) request_env \<Rightarrow> flask_request \<Rightarrow> string \<Rightarrow> ('c, 'w, bool) check" where
  "validate_can_update_trace_from_run_id env rq uname =
     bind_check (lift_res (linked_run_ids rq)) (\<lambda>ids.
       if ids = [] then lift_res (Inr False)
       else all_check (\<lambda>rid. case qe_run_experiment env rid of
                               Inl _ \<Rightarrow> lift_res (Inr False)
                             | Inr eid \<Rightarrow> allowed can_update (experiment_permission env eid uname)) ids)"

subsection \<open>Scorers\<close>

definition get_permission_from_scorer_name :: "('c, 'w) request_env \<Rightarrow> flask_request \<Rightarrow> string \<Rightarrow> ('c, 'w, permission) check" where
  "get_permission_from_scorer_name env rq uname =
     bind_check (lift_res (get_request_param rq ''experiment_id'')) (\<lambda>eid.
     bind_check (lift_res (get_request_param rq ''name'')) (\<lambda>nm.
       permission_of (\<lambda>s. effective_scorer_permission (resolver_env env) s (text_of env eid) (text_of env nm) uname)))"

definition get_permission_from_scorer_permission_request :: "('c, 'w) request_env \<Rightarrow> flask_request \<Rightarrow> string \<Rightarrow> ('c, 'w, permission) check" where
  "get_permission_from_scorer_permission_request env rq uname =
     bind_check (lift_res (get_request_param rq ''experiment_id'')) (\<lambda>eid.
     bind_check (lift_res (get_request_param rq ''scorer_name'')) (\<lambda>nm.
       permission_of (\<lambda>s. effective_scorer_permission (resolver_env env) s (text_of env eid) (text_of env nm) uname)))"

definition validate_can_read_scorer :: "('c, 'w) request_env \<Rightarrow> flask_request \<Rightarrow> string \<Rightarrow> ('c, 'w, bool) check" where
  "validate_can_read_scorer env rq uname = allowed can_read (get_permission_from_scorer_name env rq uname)"

definition validate_can_update_scorer :: "('c, 'w) request_env \<Rightarrow> flask_request \<Rightarrow> string \<Rightarrow> ('c, 'w, bool) check" where
  "validate_can_update_scorer env rq uname = allowed can_update (get_permission_from_scorer_name env rq uname)"

definition validate_can_delete_scorer :: "('c, 'w) request_env \<Rightarrow> flask_request \<Rightarrow> string \<Rightarrow> ('c, 'w, bool) check" where
  "validate_can_delete_scorer env rq uname = allowed can_delete (get_permission_from_scorer_name env rq uname)"

definition validate_can_manage_scorer :: "('c, 'w) request_env \<Rightarrow> flask_request \<Rightarrow> string \<Rightarrow> ('c, 'w, bool) check" where
  "validate_can_manage_scorer env rq uname = allowed can_manage (get_permission_from_scorer_name env rq uname)"

definition validate_can_manage_scorer_permission :: "('c, 'w) request_env \<Rightarrow> flask_request \<Rightarrow> string \<Rightarrow> ('c, 'w, bool) check" where
  "validate_can_manage_scorer_permission env rq uname = allowed can_manage (get_permission_from_scorer_permission_request env rq uname)"

subsection \<open>Prompt optimization jobs\<close>

definition get_permission_from_prompt_optimization_job_id ::
  "('c, 'w) request_env \<Rightarrow> flask_request \<Rightarrow> string \<Rightarrow> ('c, 'w, permission) check" where
  "get_permission_from_prompt_optimization_job_id env rq uname =
     bind_check (lift_res (bindE (get_url_param rq ''job_id'') (\<lambda>job. bindE (qe_job_params env job) (\<lambda>params.
         body_get params ''experiment_id'')))) (\<lambda>eid. experiment_permission env (text_of env eid) uname)"

definition validate_can_read_prompt_optimization_job :: "('c, 'w) request_env \<Rightarrow> flask_request \<Rightarrow> string \<Rightarrow> ('c, 'w, bool) check" where
  "validate_can_read_prompt_optimization_job env rq uname = allowed can_read (get_permission_from_prompt_optimization_job_id env rq uname)"

definition validate_can_update_prompt_optimization_job :: "('c, 'w) request_env \<Rightarrow> flask_request \<Rightarrow> string \<Rightarrow> ('c, 'w, bool) check" where
  "validate_can_update_prompt_optimization_job env rq uname = allowed can_update (get_permission_from_prompt_optimization_job_id env rq uname)"

definition validate_can_delete_prompt_optimization_job :: "('c, 'w) request_env \<Rightarrow> flask_request \<Rightarrow> string \<Rightarrow> ('c, 'w, bool) check" where
  "validate_can_delete_prompt_optimization_job env rq uname = allowed can_delete (get_permission_from_prompt_optimization_job_id env rq uname)"

subsection \<open>Gateway resources\<close>

definition resolve_endpoint_name_from_id :: "('c, 'w) request_env \<Rightarrow> json \<Rightarrow> string option" where
  "resolve_endpoint_name_from_id env v = (case qe_endpoint_name env v of Inr nm \<Rightarrow> Some nm | Inl _ \<Rightarrow> None)"

definition resolve_secret_name_from_id :: "('c, 'w) request_env \<Rightarrow> json \<Rightarrow> string option" where
  "resolve_secret_name_from_id env v = (case qe_secret_name env v of Inr nm \<Rightarrow> Some nm | Inl _ \<Rightarrow> None)"

definition resolve_model_definition_name_from_id :: "('c, 'w) request_env \<Rightarrow> json \<Rightarrow> string option" where
  "resolve_model_definition_name_from_id env v = (case qe_model_definition_name env v of Inr nm \<Rightarrow> Some nm | Inl _ \<Rightarrow> None)"

definition safe_param :: "flask_request \<Rightarrow> string \<Rightarrow> json option" where
  "safe_param rq param = (case get_request_param rq param of Inl _ \<Rightarrow> None | Inr v \<Rightarrow> if truthy v then Some v else None)"

text \<open>The names a request gives directly and by an identifier, without repetitions.\<close>

definition referenced_names :: "(json \<Rightarrow> string option) \<Rightarrow> flask_request \<Rightarrow> string \<Rightarrow> string \<Rightarrow> json list res" where
  "referenced_names resolve rq name_param id_param =
     distinct_values
       ((case safe_param rq name_param of Some v \<Rightarrow> [v] | None \<Rightarrow> []) @
        (case safe_param rq id_param of
           Some v \<Rightarrow> (case resolve v of Some (c # cs) \<Rightarrow> [JStr (c # cs)] | _ \<Rightarrow> [])
         | None \<Rightarrow> []))"

definition name_for_update :: "(json \<Rightarrow> string option) \<Rightarrow> flask_request \<Rightarrow> string \<Rightarrow> string option" where
  "name_for_update resolve rq id_param = (case safe_param rq id_param of Some v \<Rightarrow> resolve v | None \<Rightarrow> None)"

definition all_gateway_endpoint_names :: "('c, 'w) request_env \<Rightarrow> flask_request \<Rightarrow> json list res" where
  "all_gateway_endpoint_names env rq = referenced_names (resolve_endpoint_name_from_id env) rq ''name'' ''endpoint_id''"

definition get_gateway_endpoint_name_for_update :: "('c, 'w) request_env \<Rightarrow> flask_request \<Rightarrow> string option" where
  "get_gateway_endpoint_name_for_update env rq = name_for_update (resolve_endpoint_name_from_id env) rq ''endpoint_id''"

definition all_gateway_secret_names :: "('c, 'w) request_env \<Rightarrow> flask_request \<Rightarrow> json list res" where
  "all_gateway_secret_names env rq = referenced_names (resolve_secret_name_from_id env) rq ''secret_name'' ''secret_id''"

definition get_gateway_secret_name_for_update :: "('c, 'w) request_env \<Rightarrow> flask_request \<Rightarrow> string option" where
  "get_gateway_secret_name_for_update env rq = name_for_update (resolve_secret_name_from_id env) rq ''secret_id''"

definition all_gateway_model_definition_names :: "('c, 'w) request_env \<Rightarrow> flask_request \<Rightarrow> json list res" where
  "all_gateway_model_definition_names env rq =
     referenced_names (resolve_model_definition_name_from_id env) rq ''name'' ''model_definition_id''"

definition get_gateway_model_definition_name_for_update :: "('c, 'w) request_env \<Rightarrow> flask_request \<Rightarrow> string option" where
  "get_gateway_model_definition_name_for_update env rq =
     name_for_update (resolve_model_definition_name_from_id env) rq ''model_definition_id''"

text \<open>Every name must pass, and there must be one; for an update the one name must be known.\<close>

definition on_all_names :: "(('c, 'w) app \<Rightarrow> string \<Rightarrow> string \<Rightarrow> bool res \<times> ('c, 'w) app) \<Rightarrow>
    ('c, 'w) request_env \<Rightarrow> json list res \<Rightarrow> string \<Rightarrow> ('c, 'w, bool) check" where
  "on_all_names can env names uname =
     bind_check (lift_res names) (\<lambda>ns.
       if ns = [] then lift_res (Inr False) else all_check (\<lambda>nm s. can s (text_of env nm) uname) ns)"

definition on_current_name :: "(('c, 'w) app \<Rightarrow> string \<Rightarrow> string \<Rightarrow> bool res \<times> ('c, 'w) app) \<Rightarrow>
    string option \<Rightarrow> string \<Rightarrow> ('c, 'w, bool) check" where
  "on_current_name can nm uname =
     (case nm of Some (c # cs) \<Rightarrow> (\<lambda>s. can s (c # cs) uname) | _ \<Rightarrow> lift_res (Inr False))"

definition validate_can_read_gateway_endpoint :: "('c, 'w) request_env \<Rightarrow> flask_request \<Rightarrow> string \<Rightarrow> ('c, 'w, bool) check" where
  "validate_can_read_gateway_endpoint env rq uname =
     on_all_names (can_read_gateway_endpoint (resolver_env env)) env (all_gateway_endpoint_names env rq) uname"

definition validate_can_update_gateway_endpoint :: "('c, 'w) request_env \<Rightarrow> flask_request \<Rightarrow> string \<Rightarrow> ('c, 'w, bool) check" where
  "validate_can_update_gateway_endpoint env rq uname =
     on_current_name (can_update_gateway_endpoint (resolver_env env)) (get_gateway_endpoint_name_for_update env rq) uname"

definition validate_can_delete_gateway_endpoint :: "('c, 'w) request_env \<Rightarrow> flask_request \<Rightarrow> string \<Rightarrow> ('c, 'w, bool) check" where
  "validate_can_delete_gateway_endpoint env rq uname =
     on_all_names (can_manage_gateway_endpoint (resolver_env env)) env (all_gateway_endpoint_names env rq) uname"

definition validate_can_manage_gateway_endpoint_validator :: "('c, 'w) request_env \<Rightarrow> flask_request \<Rightarrow> string \<Rightarrow> ('c, 'w, bool) check" where
  "validate_can_manage_gateway_endpoint_validator env rq uname =
     on_all_names (can_manage_gateway_endpoint (resolver_env env)) env (all_gateway_endpoint_names env rq) uname"

definition validate_can_read_gateway_secret :: "('c, 'w) request_env \<Rightarrow> flask_request \<Rightarrow> string \<Rightarrow> ('c, 'w, bool) check" where
  "validate_can_read_gateway_secret env rq uname =
     on_all_names (can_read_gateway_secret (resolver_env env)) env (all_gateway_secret_names env rq) uname"

definition validate_can_update_gateway_secret :: "('c, 'w) request_env \<Rightarrow> flask_request \<Rightarrow> string \<Rightarrow> ('c, 'w, bool) check" where
  "validate_can_update_gateway_secret env rq uname =
     on_current_name (can_update_gateway_secret (resolver_env env)) (get_gateway_secret_name_for_update env rq) uname"

definition validate_can_delete_gateway_secret :: "('c, 'w) request_env \<Rightarrow> flask_request \<Rightarrow> string \<Rightarrow> ('c, 'w, bool) check" where
  "validate_can_delete_gateway_secret env rq uname =
     on_all_names (can_manage_gateway_secret (resolver_env env)) env (all_gateway_secret_names env rq) uname"

definition validate_can_read_gateway_model_definition :: "('c, 'w) request_env \<Rightarrow> flask_request \<Rightarrow> string \<Rightarrow> ('c, 'w, bool) check" where
  "validate_can_read_gateway_model_definition env rq uname =
     on_all_names (can_read_gateway_model_definition (resolver_env env)) env (all_gateway_model_definition_names env rq) uname"

definition validate_can_update_gateway_model_definition :: "('c, 'w) request_env \<Rightarrow> flask_request \<Rightarrow> string \<Rightarrow> ('c, 'w, bool) check" where
  "validate_can_update_gateway_model_definition env rq uname =
     on_current_name (can_update_gateway_model_definition (resolver_env env)) (get_gateway_model_definition_name_for_update env rq) uname"

definition validate_can_delete_gateway_model_definition :: "('c, 'w) request_env \<Rightarrow> flask_request \<Rightarrow> string \<Rightarrow> ('c, 'w, bool) check" where
  "validate_can_delete_gateway_model_definition env rq uname =
     on_all_names (can_manage_gateway_model_definition (resolver_env env)) env (all_gateway_model_definition_names env rq) uname"

subsection \<open>Workspaces\<close>

text \<open>\<^verbatim>\<open>s.split(sep)\<close> for a separator of several characters.\<close>

function split_on :: "string \<Rightarrow> string \<Rightarrow> string list" where
  "split_on sep s =
     (if sep = [] then [s]
      else case List.find (\<lambda>i. prefix sep (drop i s)) [0..<length s] of
             None \<Rightarrow> [s]
           | Some i \<Rightarrow> take i s # split_on sep (drop (i + length sep) s))"
  by pat_completeness auto
termination
  by (relation "measure (\<lambda>(sep, s). length s)") (auto dest!: find_SomeD simp: neq_Nil_conv)

declare split_on.simps [simp del]

definition rstrip_slashes :: "string \<Rightarrow> string" where
  "rstrip_slashes s = rev (dropWhile (\<lambda>c. c = CHR ''/'') (rev s))"

definition extract_workspace_name_from_path :: "flask_request \<Rightarrow> string option" where
  "extract_workspace_name_from_path rq =
     (case split_on ''/mlflow/workspaces/'' (fq_path rq) of
        [_, tail] \<Rightarrow> if tail = [] then None else Some (hd (py_split (CHR ''/'') (rstrip_slashes tail)))
      | _ \<Rightarrow> None)"

definition cached_workspace_permission :: "('c, 'w) request_env \<Rightarrow> string \<Rightarrow> string \<Rightarrow> ('c, 'w) app \<Rightarrow> permission option \<times> ('c, 'w) app" where
  "cached_workspace_permission env uname ws s =
     (let renv = resolver_env env in
      case get_workspace_permission_cached (e_config renv) (e_wc renv) (e_re_match renv) (a_db s) (a_wc s) uname ws of
        (perm, w) \<Rightarrow> (perm, s\<lparr>a_wc := w\<rparr>))"

definition on_workspace :: "(permission \<Rightarrow> bool) \<Rightarrow> ('c, 'w) request_env \<Rightarrow> flask_request \<Rightarrow> ('c, 'w, bool) check" where
  "on_workspace can env rq =
     (if \<not> MLFLOW_ENABLE_WORKSPACES (e_config (qe_env env)) then lift_res (Inr False)
      else bind_check (lift_res (get_auth_context env)) (\<lambda>cx.
        if cx_is_admin cx then lift_res (Inr True)
        else case extract_workspace_name_from_path rq of
               None \<Rightarrow> lift_res (Inr False)
             | Some ws \<Rightarrow> (\<lambda>s. case cached_workspace_permission env (cx_username cx) ws s of
                                 (perm, s') \<Rightarrow> (Inr (case perm of Some p \<Rightarrow> can p | None \<Rightarrow> False), s'))))"

definition validate_can_create_workspace :: "('c, 'w) request_env \<Rightarrow> flask_request \<Rightarrow> string \<Rightarrow> ('c, 'w, bool) check" where
  "validate_can_create_workspace env rq uname =
     (if \<not> MLFLOW_ENABLE_WORKSPACES (e_config (qe_env env)) then lift_res (Inr False)
      else lift_res (bindE (get_auth_context env) (\<lambda>cx. Inr (cx_is_admin cx))))"

definition validate_can_read_workspace :: "('c, 'w) request_env \<Rightarrow> flask_request \<Rightarrow> string \<Rightarrow> ('c, 'w, bool) check" where
  "validate_can_read_workspace env rq uname = on_workspace can_read env rq"

definition validate_can_update_workspace :: "('c, 'w) request_env \<Rightarrow> flask_request \<Rightarrow> string \<Rightarrow> ('c, 'w, bool) check" where
  "validate_can_update_workspace env rq uname = on_workspace can_manage env rq"

definition validate_can_delete_workspace :: "('c, 'w) request_env \<Rightarrow> flask_request \<Rightarrow> string \<Rightarrow> ('c, 'w, bool) check" where
  "validate_can_delete_workspace env rq uname = on_workspace can_manage env rq"

definition validate_can_list_workspaces :: "('c, 'w) request_env \<Rightarrow> flask_request \<Rightarrow> string \<Rightarrow> ('c, 'w, bool) check" where
  "validate_can_list_workspaces env rq uname =
     lift_res (Inr (MLFLOW_ENABLE_WORKSPACES (e_config (qe_env env))))"

end
