(* ===== verification/After_Request.thy ===== *)
theory After_Request
  imports Validators
begin

section \<open>After a request\<close>

text \<open>
  Models \<^verbatim>\<open>hooks/after_request.py\<close>: the grants that follow a creation, the cascades that
  follow a deletion or a rename, and the filters of the listing and search answers, which fetch further
  pages until the answer is full. MLflow's stores and page tokens are parameters. The state is the
  application state with the memo that \<^verbatim>\<open>flask.g\<close> keeps for the request.
\<close>

subsection \<open>State and environment\<close>

record flask_g =
  g_deleting_workspace_name :: "string option"
  g_updating_gateway_endpoint_old_name :: "string option"
  g_deleting_gateway_endpoint_name :: "string option"
  g_deleting_gateway_secret_name :: "string option"
  g_deleting_gateway_model_definition_name :: "string option"

definition empty_g :: flask_g where
  "empty_g = \<lparr>g_deleting_workspace_name = None, g_updating_gateway_endpoint_old_name = None,
     g_deleting_gateway_endpoint_name = None, g_deleting_gateway_secret_name = None,
     g_deleting_gateway_model_definition_name = None\<rparr>"

record ('c, 'w) after_state =
  as_app :: "('c, 'w) app"
  as_memo :: "(string \<times> string \<times> string) \<rightharpoonup> bool"

text \<open>
  A search at one of MLflow's stores: the request's own parameters are fixed, a page is a list of
  entities as messages with their workspace. For logged models a page says whether it is the last.
\<close>

record search_store =
  ss_max_results :: nat
  ss_search :: "string \<Rightarrow> (json \<times> string option) list res"
  ss_search_logged :: "string \<Rightarrow> (json list \<times> bool) res"
  ss_workspace :: "string \<Rightarrow> string option res"

record page_tokens =
  pt_offset :: "string \<Rightarrow> nat"
  pt_create :: "nat \<Rightarrow> string"

record flask_response =
  rp_status :: nat
  rp_json :: json

record ('c, 'w) after_env =
  ae_request :: "('c, 'w) request_env"
  ae_tokens :: page_tokens
  ae_experiments :: search_store
  ae_registered_models :: search_store
  ae_model_versions :: search_store
  ae_logged_models :: search_store

text \<open>Fields of a message: an absent string is empty, an absent list is empty.\<close>

fun msg_field :: "json \<Rightarrow> string \<Rightarrow> json" where
  "msg_field (JObj kvs) k = jget kvs k"
| "msg_field _ k = JNull"

definition msg_str :: "json \<Rightarrow> string \<Rightarrow> string" where
  "msg_str m k = (case msg_field m k of JStr s \<Rightarrow> s | _ \<Rightarrow> [])"

definition msg_list :: "json \<Rightarrow> string \<Rightarrow> json list" where
  "msg_list m k = list_value (msg_field m k)"

fun set_field :: "string \<Rightarrow> json \<Rightarrow> json \<Rightarrow> json" where
  "set_field k v (JObj kvs) = JObj (AList.update k v kvs)"
| "set_field k v m = m"

subsection \<open>The memo of a request\<close>

definition memoized :: "string \<times> string \<times> string \<Rightarrow> (('c, 'w) app \<Rightarrow> bool res \<times> ('c, 'w) app) \<Rightarrow>
    ('c, 'w) after_state \<Rightarrow> bool res \<times> ('c, 'w) after_state" where
  "memoized key m st =
     (case as_memo st key of
        Some b \<Rightarrow> (Inr b, st)
      | None \<Rightarrow>
          (case m (as_app st) of
             (Inl e, s) \<Rightarrow> (Inl e, st\<lparr>as_app := s\<rparr>)
           | (Inr b, s) \<Rightarrow> (Inr b, st\<lparr>as_app := s, as_memo := (as_memo st)(key \<mapsto> b)\<rparr>)))"

definition cached_can_read_experiment ::
  "('c, 'w) after_env \<Rightarrow> string \<Rightarrow> string \<Rightarrow> ('c, 'w) after_state \<Rightarrow> bool res \<times> ('c, 'w) after_state" where
  "cached_can_read_experiment env eid uname =
     memoized (''exp'', eid, uname) (\<lambda>s. can_read_experiment (resolver_env (ae_request env)) s eid uname)"

definition cached_can_read_registered_model ::
  "('c, 'w) after_env \<Rightarrow> string \<Rightarrow> string \<Rightarrow> ('c, 'w) after_state \<Rightarrow> bool res \<times> ('c, 'w) after_state" where
  "cached_can_read_registered_model env nm uname =
     memoized (''rm'', nm, uname) (\<lambda>s. can_read_registered_model (resolver_env (ae_request env)) s nm uname)"

definition cached_can_read_gateway_endpoint ::
  "('c, 'w) after_env \<Rightarrow> string \<Rightarrow> string \<Rightarrow> ('c, 'w) after_state \<Rightarrow> bool res \<times> ('c, 'w) after_state" where
  "cached_can_read_gateway_endpoint env nm uname =
     memoized (''gw_ep'', nm, uname) (\<lambda>s. can_read_gateway_endpoint (resolver_env (ae_request env)) s nm uname)"

definition cached_can_read_gateway_secret ::
  "('c, 'w) after_env \<Rightarrow> string \<Rightarrow> string \<Rightarrow> ('c, 'w) after_state \<Rightarrow> bool res \<times> ('c, 'w) after_state" where
  "cached_can_read_gateway_secret env nm uname =
     memoized (''gw_secret'', nm, uname) (\<lambda>s. can_read_gateway_secret (resolver_env (ae_request env)) s nm uname)"

definition cached_can_read_gateway_model_definition ::
  "('c, 'w) after_env \<Rightarrow> string \<Rightarrow> string \<Rightarrow> ('c, 'w) after_state \<Rightarrow> bool res \<times> ('c, 'w) after_state" where
  "cached_can_read_gateway_model_definition env nm uname =
     memoized (''gw_md'', nm, uname) (\<lambda>s. can_read_gateway_model_definition (resolver_env (ae_request env)) s nm uname)"

definition can_access_workspace ::
  "('c, 'w) after_env \<Rightarrow> string \<Rightarrow> string option \<Rightarrow> ('c, 'w) after_state \<Rightarrow> bool res \<times> ('c, 'w) after_state" where
  "can_access_workspace env uname ws =
     (if \<not> MLFLOW_ENABLE_WORKSPACES (e_config (qe_env (ae_request env))) then lift_res (Inr True)
      else case ws of
             Some (c # cs) \<Rightarrow>
               memoized (''ws'', c # cs, uname) (\<lambda>s.
                 case cached_workspace_permission (ae_request env) uname (c # cs) s of
                   (perm, s') \<Rightarrow> (Inr (case perm of Some p \<Rightarrow> can_read p | None \<Rightarrow> False), s'))
           | _ \<Rightarrow> lift_res (Inr True))"

subsection \<open>Grants to the creator\<close>

definition grant_write :: "('c, 'w) after_env \<Rightarrow> (db \<Rightarrow> (db \<times> 'r) res) \<Rightarrow> ('c, 'w) after_state \<Rightarrow> unit res \<times> ('c, 'w) after_state" where
  "grant_write env m st =
     (case wrap_with_cache_flush (resolver_env (ae_request env)) (store_method m) (as_app st) of
        (Inl e, s) \<Rightarrow> (Inl e, st\<lparr>as_app := s\<rparr>)
      | (Inr _, s) \<Rightarrow> (Inr (), st\<lparr>as_app := s\<rparr>))"

definition grant_wipe :: "('c, 'w) after_env \<Rightarrow> (db \<Rightarrow> db res) \<Rightarrow> ('c, 'w) after_state \<Rightarrow> unit res \<times> ('c, 'w) after_state" where
  "grant_wipe env m = grant_write env (\<lambda>d. bindE (m d) (\<lambda>d'. Inr (d', ())))"

text \<open>\<^verbatim>\<open>try: ... except Exception: log\<close>\<close>

definition swallow :: "('s \<Rightarrow> unit res \<times> 's) \<Rightarrow> 's \<Rightarrow> unit res \<times> 's" where
  "swallow m s = (case m s of (_, s') \<Rightarrow> (Inr (), s'))"

definition set_can_manage_experiment_permission ::
  "('c, 'w) after_env \<Rightarrow> flask_response \<Rightarrow> ('c, 'w) after_state \<Rightarrow> unit res \<times> ('c, 'w) after_state" where
  "set_can_manage_experiment_permission env resp =
     bind_check (lift_res (get_fastapi_username (ae_request env))) (\<lambda>uname.
       grant_write env (\<lambda>d. create_experiment_permission d (msg_str (rp_json resp) ''experiment_id'') uname (name MANAGE)))"

definition set_can_manage_registered_model_permission ::
  "('c, 'w) after_env \<Rightarrow> flask_response \<Rightarrow> ('c, 'w) after_state \<Rightarrow> unit res \<times> ('c, 'w) after_state" where
  "set_can_manage_registered_model_permission env resp =
     bind_check (lift_res (get_fastapi_username (ae_request env))) (\<lambda>uname.
       grant_write env (\<lambda>d. create_registered_model_permission d
         (msg_str (msg_field (rp_json resp) ''registered_model'') ''name'') uname (name MANAGE)))"

definition set_can_manage_scorer_permission ::
  "('c, 'w) after_env \<Rightarrow> flask_response \<Rightarrow> ('c, 'w) after_state \<Rightarrow> unit res \<times> ('c, 'w) after_state" where
  "set_can_manage_scorer_permission env resp =
     bind_check (lift_res (get_fastapi_username (ae_request env))) (\<lambda>uname.
       grant_write env (\<lambda>d. create_scorer_permission d (msg_str (rp_json resp) ''experiment_id'')
         (msg_str (rp_json resp) ''name'') uname (name MANAGE)))"

definition set_can_manage_gateway_endpoint_permission ::
  "('c, 'w) after_env \<Rightarrow> flask_response \<Rightarrow> ('c, 'w) after_state \<Rightarrow> unit res \<times> ('c, 'w) after_state" where
  "set_can_manage_gateway_endpoint_permission env resp =
     bind_check (lift_res (get_fastapi_username (ae_request env))) (\<lambda>uname.
       grant_write env (\<lambda>d. create_gateway_endpoint_permission d
         (msg_str (msg_field (rp_json resp) ''endpoint'') ''name'') uname (name MANAGE)))"

definition set_can_manage_gateway_secret_permission ::
  "('c, 'w) after_env \<Rightarrow> flask_response \<Rightarrow> ('c, 'w) after_state \<Rightarrow> unit res \<times> ('c, 'w) after_state" where
  "set_can_manage_gateway_secret_permission env resp =
     bind_check (lift_res (get_fastapi_username (ae_request env))) (\<lambda>uname.
       grant_write env (\<lambda>d. create_gateway_secret_permission d
         (msg_str (msg_field (rp_json resp) ''secret'') ''secret_name'') uname (name MANAGE)))"

definition set_can_manage_gateway_model_definition_permission ::
  "('c, 'w) after_env \<Rightarrow> flask_response \<Rightarrow> ('c, 'w) after_state \<Rightarrow> unit res \<times> ('c, 'w) after_state" where
  "set_can_manage_gateway_model_definition_permission env resp =
     bind_check (lift_res (get_fastapi_username (ae_request env))) (\<lambda>uname.
       grant_write env (\<lambda>d. create_gateway_model_definition_permission d
         (msg_str (msg_field (rp_json resp) ''model_definition'') ''name'') uname (name MANAGE)))"

definition flush_workspaces :: "('c, 'w) after_env \<Rightarrow> ('c, 'w) after_state \<Rightarrow> ('c, 'w) after_state" where
  "flush_workspaces env st =
     st\<lparr>as_app := (as_app st)\<lparr>a_wc := flush_workspace_cache (e_wc (qe_env (ae_request env))) (a_wc (as_app st))\<rparr>\<rparr>"

definition auto_grant_workspace_manage_permission ::
  "('c, 'w) after_env \<Rightarrow> flask_response \<Rightarrow> ('c, 'w) after_state \<Rightarrow> unit res \<times> ('c, 'w) after_state" where
  "auto_grant_workspace_manage_permission env resp st =
     (if \<not> MLFLOW_ENABLE_WORKSPACES (e_config (qe_env (ae_request env))) \<or> rp_status resp \<ge> 300 \<or> \<not> truthy (rp_json resp) then (Inr (), st)
      else let ws = msg_field (rp_json resp) ''workspace''; nm = msg_str ws ''name'' in
        if \<not> is_obj ws \<or> nm = [] then (Inr (), st)
        else case get_auth_context (ae_request env) of
               Inl e \<Rightarrow> (Inl e, st)
             | Inr cx \<Rightarrow>
                 (case cached_create_workspace_permission (resolver_env (ae_request env)) nm (cx_username cx) (name MANAGE) (as_app st) of
                    (_, s) \<Rightarrow> (Inr (), flush_workspaces env (st\<lparr>as_app := s\<rparr>))))"

subsection \<open>Cascades\<close>

definition delete_can_manage_registered_model_permission ::
  "('c, 'w) after_env \<Rightarrow> flask_request \<Rightarrow> ('c, 'w) after_state \<Rightarrow> unit res \<times> ('c, 'w) after_state" where
  "delete_can_manage_registered_model_permission env rq =
     bind_check (lift_res (get_model_name (qe_server (ae_request env)) rq)) (\<lambda>nm.
       if \<not> truthy nm then lift_res (Inr ())
       else bind_check (grant_wipe env (\<lambda>d. wipe_group_model_permissions d (text_of (ae_request env) nm))) (\<lambda>_.
         grant_wipe env (\<lambda>d. wipe_registered_model_permissions d (text_of (ae_request env) nm))))"

text \<open>Two store calls, each committed on its own.\<close>

definition rename_registered_model_permission ::
  "('c, 'w) after_env \<Rightarrow> flask_request \<Rightarrow> ('c, 'w) after_state \<Rightarrow> unit res \<times> ('c, 'w) after_state" where
  "rename_registered_model_permission env rq =
     (let data = get_json_force rq in
      bind_check (lift_res (if truthy data then body_get data ''name'' else Inr JNull)) (\<lambda>old.
      bind_check (lift_res (if truthy data then body_get data ''new_name'' else Inr JNull)) (\<lambda>new.
        if \<not> truthy old \<or> \<not> truthy new then lift_res (Inr ())
        else bind_check (grant_wipe env (\<lambda>d. rename_registered_model_permissions d (text_of (ae_request env) old) (text_of (ae_request env) new))) (\<lambda>_.
          grant_wipe env (\<lambda>d. rename_group_model_permissions d (text_of (ae_request env) old) (text_of (ae_request env) new))))))"

definition delete_scorer_permissions_cascade ::
  "('c, 'w) after_env \<Rightarrow> flask_request \<Rightarrow> ('c, 'w) after_state \<Rightarrow> unit res \<times> ('c, 'w) after_state" where
  "delete_scorer_permissions_cascade env rq =
     (let data = (if truthy (get_json_force rq) then get_json_force rq else JObj []) in
      bind_check (lift_res (body_get data ''experiment_id'')) (\<lambda>eid.
      bind_check (lift_res (body_get data ''name'')) (\<lambda>nm.
        if truthy eid \<and> truthy nm
        then grant_wipe env (\<lambda>d. delete_scorer_permissions_for_scorer d (text_of (ae_request env) eid) (text_of (ae_request env) nm))
        else lift_res (Inr ()))))"

text \<open>
  The renaming of a gateway endpoint is two transactions; the second may fail after the first, and the
  cache is flushed only when both succeeded.
\<close>

definition rename_gateway_endpoint_permission ::
  "('c, 'w) after_env \<Rightarrow> flask_g \<Rightarrow> flask_response \<Rightarrow> ('c, 'w) after_state \<Rightarrow> unit res \<times> ('c, 'w) after_state" where
  "rename_gateway_endpoint_permission env g resp st =
     (case g_updating_gateway_endpoint_old_name g of
        Some (c # cs) \<Rightarrow>
          (let new = msg_str (msg_field (rp_json resp) ''endpoint'') ''name'' in
           if new = [] \<or> new = c # cs then (Inr (), st)
           else case rename_gateway_endpoint_permissions (a_db (as_app st)) (c # cs) new of
                  (d, Inl e) \<Rightarrow> (Inr (), st\<lparr>as_app := (as_app st)\<lparr>a_db := d\<rparr>\<rparr>)
                | (d, Inr _) \<Rightarrow> (Inr (), st\<lparr>as_app := flush_permission_cache (resolver_env (ae_request env)) ((as_app st)\<lparr>a_db := d\<rparr>)\<rparr>))
      | _ \<Rightarrow> (Inr (), st))"

definition wipe_stashed ::
  "('c, 'w) after_env \<Rightarrow> (db \<Rightarrow> string \<Rightarrow> db res) \<Rightarrow> string option \<Rightarrow> ('c, 'w) after_state \<Rightarrow> unit res \<times> ('c, 'w) after_state" where
  "wipe_stashed env wipe nm =
     (case nm of Some (c # cs) \<Rightarrow> swallow (grant_wipe env (\<lambda>d. wipe d (c # cs))) | _ \<Rightarrow> lift_res (Inr ()))"

definition delete_gateway_endpoint_permissions_cascade ::
  "('c, 'w) after_env \<Rightarrow> flask_g \<Rightarrow> ('c, 'w) after_state \<Rightarrow> unit res \<times> ('c, 'w) after_state" where
  "delete_gateway_endpoint_permissions_cascade env g =
     wipe_stashed env wipe_gateway_endpoint_permissions (g_deleting_gateway_endpoint_name g)"

definition delete_gateway_secret_permissions_cascade ::
  "('c, 'w) after_env \<Rightarrow> flask_g \<Rightarrow> ('c, 'w) after_state \<Rightarrow> unit res \<times> ('c, 'w) after_state" where
  "delete_gateway_secret_permissions_cascade env g =
     wipe_stashed env wipe_gateway_secret_permissions (g_deleting_gateway_secret_name g)"

definition delete_gateway_model_definition_permissions_cascade ::
  "('c, 'w) after_env \<Rightarrow> flask_g \<Rightarrow> ('c, 'w) after_state \<Rightarrow> unit res \<times> ('c, 'w) after_state" where
  "delete_gateway_model_definition_permissions_cascade env g =
     wipe_stashed env wipe_gateway_model_definition_permissions (g_deleting_gateway_model_definition_name g)"

definition cascade_delete_workspace_permissions ::
  "('c, 'w) after_env \<Rightarrow> flask_g \<Rightarrow> flask_response \<Rightarrow> ('c, 'w) after_state \<Rightarrow> unit res \<times> ('c, 'w) after_state" where
  "cascade_delete_workspace_permissions env g resp st =
     (if \<not> MLFLOW_ENABLE_WORKSPACES (e_config (qe_env (ae_request env))) \<or> rp_status resp \<ge> 300 then (Inr (), st)
      else case g_deleting_workspace_name g of
             Some (c # cs) \<Rightarrow>
               (case cached_wipe_workspace_permissions (resolver_env (ae_request env)) (c # cs) (as_app st) of
                  (_, s) \<Rightarrow> (Inr (), flush_workspaces env (st\<lparr>as_app := s\<rparr>)))
           | _ \<Rightarrow> (Inr (), st))"

end
