(* ===== verification/Search_Filters.thy ===== *)
theory Search_Filters
  imports After_Request
begin

section \<open>Filtering the answers of searches, and the hook after a request\<close>

text \<open>
  The second half of \<^verbatim>\<open>hooks/after_request.py\<close>: what a user may not read is removed
  from a page, and further pages are fetched until the answer is full or the store has no more. The loop
  may run for ever when the store's pages never end, so it is a partial function, whose \<open>None\<close> is not
  returning.
\<close>

subsection \<open>Filters over one page\<close>

definition and_check :: "('s \<Rightarrow> bool res \<times> 's) \<Rightarrow> ('s \<Rightarrow> bool res \<times> 's) \<Rightarrow> 's \<Rightarrow> bool res \<times> 's" where
  "and_check m n = bind_check m (\<lambda>a. if a then n else lift_res (Inr False))"

definition workspace_or_none :: "search_store \<Rightarrow> string \<Rightarrow> string option" where
  "workspace_or_none ss i = (case ss_workspace ss i of Inr w \<Rightarrow> w | Inl _ \<Rightarrow> None)"

text \<open>
  The first page comes without workspaces, which are looked up; the entities of further pages carry
  theirs.
\<close>

definition filter_first_page ::
  "('c, 'w) after_env \<Rightarrow> search_store \<Rightarrow> (json \<Rightarrow> string) \<Rightarrow> (string \<Rightarrow> ('c, 'w) after_state \<Rightarrow> bool res \<times> ('c, 'w) after_state) \<Rightarrow>
   string \<Rightarrow> json list \<Rightarrow> ('c, 'w) after_state \<Rightarrow> json list res \<times> ('c, 'w) after_state" where
  "filter_first_page env ss ident can uname items =
     bind_check (filter_check (\<lambda>x. can (ident x)) items) (\<lambda>kept.
       if MLFLOW_ENABLE_WORKSPACES (e_config (qe_env (ae_request env)))
       then filter_check (\<lambda>x. can_access_workspace env uname (workspace_or_none ss (ident x))) kept
       else lift_res (Inr kept))"

partial_function (option) refetch ::
  "(string \<Rightarrow> (json \<times> string option) list res) \<Rightarrow> page_tokens \<Rightarrow>
   (json \<times> string option \<Rightarrow> ('c, 'w) after_state \<Rightarrow> bool res \<times> ('c, 'w) after_state) \<Rightarrow> nat \<Rightarrow> json list \<Rightarrow> string \<Rightarrow>
   ('c, 'w) after_state \<Rightarrow> ((json list \<times> string) res \<times> ('c, 'w) after_state) option" where
  "refetch search pt keep max_results items token st =
     (if length items < max_results \<and> token \<noteq> []
      then (case search token of
              Inl e \<Rightarrow> Some (Inl e, st)
            | Inr page \<Rightarrow>
                (let refetched = take (max_results - length items) page in
                 if refetched = [] then Some (Inr (items, []), st)
                 else case filter_check keep refetched st of
                        (Inl e, st') \<Rightarrow> Some (Inl e, st')
                      | (Inr readable, st') \<Rightarrow>
                          refetch search pt keep max_results (items @ map fst readable) (pt_create pt (pt_offset pt token + length refetched)) st'))
      else Some (Inr (items, token), st))"

text \<open>The answer with the kept items and the next page token.\<close>

definition with_page :: "string \<Rightarrow> flask_response \<Rightarrow> json list \<times> string \<Rightarrow> flask_response" where
  "with_page field resp pg =
     resp\<lparr>rp_json := set_field ''next_page_token'' (JStr (snd pg)) (set_field field (JList (fst pg)) (rp_json resp))\<rparr>"

definition filter_search ::
  "('c, 'w) after_env \<Rightarrow> search_store \<Rightarrow> string \<Rightarrow> (json \<Rightarrow> string) \<Rightarrow>
   (string \<Rightarrow> string \<Rightarrow> ('c, 'w) after_state \<Rightarrow> bool res \<times> ('c, 'w) after_state) \<Rightarrow> flask_response \<Rightarrow> ('c, 'w) after_state \<Rightarrow>
   (flask_response res \<times> ('c, 'w) after_state) option" where
  "filter_search env ss field ident can resp st =
     (if get_fastapi_admin_status (ae_request env) then Some (Inr resp, st)
      else case get_fastapi_username (ae_request env) of
             Inl e \<Rightarrow> Some (Inl e, st)
           | Inr uname \<Rightarrow>
               (case filter_first_page env ss ident (\<lambda>i. can i uname) uname (msg_list (rp_json resp) field) st of
                  (Inl e, st') \<Rightarrow> Some (Inl e, st')
                | (Inr items, st') \<Rightarrow>
                    map_option (\<lambda>(r, st2). (bindE r (\<lambda>pg. Inr (with_page field resp pg)), st2))
                      (refetch (ss_search ss) (ae_tokens env)
                         (\<lambda>e. and_check (can (ident (fst e)) uname) (can_access_workspace env uname (snd e)))
                         (ss_max_results ss) items (msg_str (rp_json resp) ''next_page_token'') st')))"

definition filter_search_experiments ::
  "('c, 'w) after_env \<Rightarrow> flask_response \<Rightarrow> ('c, 'w) after_state \<Rightarrow> (flask_response res \<times> ('c, 'w) after_state) option" where
  "filter_search_experiments env =
     filter_search env (ae_experiments env) ''experiments'' (\<lambda>e. msg_str e ''experiment_id'') (cached_can_read_experiment env)"

definition filter_search_registered_models ::
  "('c, 'w) after_env \<Rightarrow> flask_response \<Rightarrow> ('c, 'w) after_state \<Rightarrow> (flask_response res \<times> ('c, 'w) after_state) option" where
  "filter_search_registered_models env =
     filter_search env (ae_registered_models env) ''registered_models'' (\<lambda>m. msg_str m ''name'') (cached_can_read_registered_model env)"

definition filter_search_model_versions ::
  "('c, 'w) after_env \<Rightarrow> flask_response \<Rightarrow> ('c, 'w) after_state \<Rightarrow> (flask_response res \<times> ('c, 'w) after_state) option" where
  "filter_search_model_versions env =
     filter_search env (ae_model_versions env) ''model_versions'' (\<lambda>m. msg_str m ''name'') (cached_can_read_registered_model env)"

subsection \<open>Logged models\<close>

definition logged_experiment :: "json \<Rightarrow> string" where
  "logged_experiment m = msg_str (msg_field m ''info'') ''experiment_id''"

definition keep_logged ::
  "('c, 'w) after_env \<Rightarrow> string \<Rightarrow> json \<Rightarrow> ('c, 'w) after_state \<Rightarrow> bool res \<times> ('c, 'w) after_state" where
  "keep_logged env uname m =
     and_check (cached_can_read_experiment env (logged_experiment m) uname)
       (if MLFLOW_ENABLE_WORKSPACES (e_config (qe_env (ae_request env)))
        then can_access_workspace env uname (workspace_or_none (ae_logged_models env) (logged_experiment m)) else lift_res (Inr True))"

text \<open>
  The loop over one page: it stops at the model that fills the answer and returns its position, or
  \<open>None\<close> when the page was used up.
\<close>

fun take_logged ::
  "(json \<Rightarrow> 's \<Rightarrow> bool res \<times> 's) \<Rightarrow> nat \<Rightarrow> json list \<Rightarrow> nat \<Rightarrow> json list \<Rightarrow> 's \<Rightarrow> (json list \<times> nat option) res \<times> 's" where
  "take_logged keep max_results items index [] = lift_res (Inr (items, None))"
| "take_logged keep max_results items index (m # ms) =
     bind_check (keep m) (\<lambda>ok.
       if \<not> ok then take_logged keep max_results items (Suc index) ms
       else if length (items @ [m]) \<ge> max_results then lift_res (Inr (items @ [m], Some index))
       else take_logged keep max_results (items @ [m]) (Suc index) ms)"

partial_function (option) refetch_logged ::
  "(string \<Rightarrow> (json list \<times> bool) res) \<Rightarrow> page_tokens \<Rightarrow>
   (json \<Rightarrow> ('c, 'w) after_state \<Rightarrow> bool res \<times> ('c, 'w) after_state) \<Rightarrow> nat \<Rightarrow> json list \<Rightarrow> string option \<Rightarrow>
   ('c, 'w) after_state \<Rightarrow> ((json list \<times> string option) res \<times> ('c, 'w) after_state) option" where
  "refetch_logged search pt keep max_results items token st =
     (case token of
        None \<Rightarrow> Some (Inr (items, None), st)
      | Some t \<Rightarrow>
          if length items \<ge> max_results then Some (Inr (items, Some t), st)
          else case search t of
                 Inl e \<Rightarrow> Some (Inl e, st)
               | Inr (batch, is_last_page) \<Rightarrow>
                   (case take_logged keep max_results items 0 batch st of
                      (Inl e, st') \<Rightarrow> Some (Inl e, st')
                    | (Inr (items', Some index), st') \<Rightarrow>
                        refetch_logged search pt keep max_results items'
                          (if is_last_page \<and> index = length batch - 1 then None else Some (pt_create pt (pt_offset pt t + index + 1))) st'
                    | (Inr (items', None), st') \<Rightarrow>
                        refetch_logged search pt keep max_results items'
                          (if is_last_page then None else Some (pt_create pt (pt_offset pt t + max_results))) st'))"

definition filter_search_logged_models ::
  "('c, 'w) after_env \<Rightarrow> flask_response \<Rightarrow> ('c, 'w) after_state \<Rightarrow> (flask_response res \<times> ('c, 'w) after_state) option" where
  "filter_search_logged_models env resp st =
     (if get_fastapi_admin_status (ae_request env) then Some (Inr resp, st)
      else case get_fastapi_username (ae_request env) of
             Inl e \<Rightarrow> Some (Inl e, st)
           | Inr uname \<Rightarrow>
               (case filter_first_page env (ae_logged_models env) logged_experiment (\<lambda>i. cached_can_read_experiment env i uname) uname
                       (msg_list (rp_json resp) ''models'') st of
                  (Inl e, st') \<Rightarrow> Some (Inl e, st')
                | (Inr items, st') \<Rightarrow>
                    (let t = msg_str (rp_json resp) ''next_page_token'' in
                     map_option (\<lambda>(r, st2). (bindE r (\<lambda>(ms, tok). Inr (with_page ''models'' resp (ms, case tok of Some u \<Rightarrow> u | None \<Rightarrow> []))), st2))
                       (refetch_logged (ss_search_logged (ae_logged_models env)) (ae_tokens env) (keep_logged env uname)
                          (ss_max_results (ae_logged_models env)) items (if t = [] then None else Some t) st'))))"

subsection \<open>Lists of gateway resources and workspaces\<close>

definition filter_list ::
  "('c, 'w) after_env \<Rightarrow> string \<Rightarrow> string \<Rightarrow> (string \<Rightarrow> string \<Rightarrow> ('c, 'w) after_state \<Rightarrow> bool res \<times> ('c, 'w) after_state) \<Rightarrow>
   flask_response \<Rightarrow> ('c, 'w) after_state \<Rightarrow> flask_response res \<times> ('c, 'w) after_state" where
  "filter_list env field key can resp =
     (if get_fastapi_admin_status (ae_request env) then lift_res (Inr resp)
      else bind_check (lift_res (get_fastapi_username (ae_request env))) (\<lambda>uname.
           bind_check (filter_check (\<lambda>x. can (msg_str x key) uname) (msg_list (rp_json resp) field)) (\<lambda>kept.
             lift_res (Inr (resp\<lparr>rp_json := set_field field (JList kept) (rp_json resp)\<rparr>)))))"

definition filter_list_gateway_endpoints ::
  "('c, 'w) after_env \<Rightarrow> flask_response \<Rightarrow> ('c, 'w) after_state \<Rightarrow> flask_response res \<times> ('c, 'w) after_state" where
  "filter_list_gateway_endpoints env = filter_list env ''endpoints'' ''name'' (cached_can_read_gateway_endpoint env)"

definition filter_list_gateway_secrets ::
  "('c, 'w) after_env \<Rightarrow> flask_response \<Rightarrow> ('c, 'w) after_state \<Rightarrow> flask_response res \<times> ('c, 'w) after_state" where
  "filter_list_gateway_secrets env = filter_list env ''secrets'' ''secret_name'' (cached_can_read_gateway_secret env)"

definition filter_list_gateway_model_definitions ::
  "('c, 'w) after_env \<Rightarrow> flask_response \<Rightarrow> ('c, 'w) after_state \<Rightarrow> flask_response res \<times> ('c, 'w) after_state" where
  "filter_list_gateway_model_definitions env =
     filter_list env ''model_definitions'' ''name'' (cached_can_read_gateway_model_definition env)"

definition may_list_workspace :: "('c, 'w) after_env \<Rightarrow> string \<Rightarrow> json \<Rightarrow> ('c, 'w) after_state \<Rightarrow> bool res \<times> ('c, 'w) after_state" where
  "may_list_workspace env uname ws st =
     (case cached_workspace_permission (ae_request env) uname (msg_str ws ''name'') (as_app st) of
        (perm, s) \<Rightarrow> (Inr (case perm of Some p \<Rightarrow> can_read p | None \<Rightarrow> False), st\<lparr>as_app := s\<rparr>))"

definition filter_list_workspaces ::
  "('c, 'w) after_env \<Rightarrow> flask_response \<Rightarrow> ('c, 'w) after_state \<Rightarrow> flask_response res \<times> ('c, 'w) after_state" where
  "filter_list_workspaces env resp =
     (if \<not> MLFLOW_ENABLE_WORKSPACES (e_config (qe_env (ae_request env))) \<or> rp_status resp \<noteq> 200 then lift_res (Inr resp)
      else bind_check (lift_res (get_auth_context (ae_request env))) (\<lambda>cx.
        if cx_is_admin cx \<or> \<not> is_list (msg_field (rp_json resp) ''workspaces'') then lift_res (Inr resp)
        else bind_check (filter_check (may_list_workspace env (cx_username cx)) (msg_list (rp_json resp) ''workspaces'')) (\<lambda>kept.
          lift_res (Inr (resp\<lparr>rp_json := set_field ''workspaces'' (JList kept) (rp_json resp)\<rparr>)))))"

subsection \<open>The hook\<close>

datatype after_handler =
    Set_can_manage_experiment_permission
  | Set_can_manage_registered_model_permission
  | Delete_can_manage_registered_model_permission
  | Filter_search_experiments
  | Filter_search_logged_models
  | Filter_search_registered_models
  | Filter_search_model_versions
  | Rename_registered_model_permission
  | Set_can_manage_scorer_permission
  | Delete_scorer_permissions_cascade
  | Set_can_manage_gateway_endpoint_permission
  | Set_can_manage_gateway_secret_permission
  | Set_can_manage_gateway_model_definition_permission
  | Rename_gateway_endpoint_permission
  | Delete_gateway_endpoint_permissions_cascade
  | Delete_gateway_secret_permissions_cascade
  | Delete_gateway_model_definition_permissions_cascade
  | Filter_list_gateway_endpoints
  | Filter_list_gateway_secrets
  | Filter_list_gateway_model_definitions
  | Filter_list_workspaces
  | Auto_grant_workspace_manage_permission
  | Cascade_delete_workspace_permissions

definition AFTER_REQUEST_PATH_HANDLERS :: "(string \<times> after_handler) list" where
  "AFTER_REQUEST_PATH_HANDLERS =
     [(''CreateExperiment'', Set_can_manage_experiment_permission),
      (''CreateRegisteredModel'', Set_can_manage_registered_model_permission),
      (''DeleteRegisteredModel'', Delete_can_manage_registered_model_permission),
      (''SearchExperiments'', Filter_search_experiments),
      (''SearchLoggedModels'', Filter_search_logged_models),
      (''SearchRegisteredModels'', Filter_search_registered_models),
      (''SearchModelVersions'', Filter_search_model_versions),
      (''RenameRegisteredModel'', Rename_registered_model_permission),
      (''RegisterScorer'', Set_can_manage_scorer_permission),
      (''DeleteScorer'', Delete_scorer_permissions_cascade),
      (''CreateGatewayEndpoint'', Set_can_manage_gateway_endpoint_permission),
      (''CreateGatewaySecret'', Set_can_manage_gateway_secret_permission),
      (''CreateGatewayModelDefinition'', Set_can_manage_gateway_model_definition_permission),
      (''UpdateGatewayEndpoint'', Rename_gateway_endpoint_permission),
      (''DeleteGatewayEndpoint'', Delete_gateway_endpoint_permissions_cascade),
      (''DeleteGatewaySecret'', Delete_gateway_secret_permissions_cascade),
      (''DeleteGatewayModelDefinition'', Delete_gateway_model_definition_permissions_cascade),
      (''ListGatewayEndpoints'', Filter_list_gateway_endpoints),
      (''ListGatewaySecretInfos'', Filter_list_gateway_secrets),
      (''ListGatewayModelDefinitions'', Filter_list_gateway_model_definitions),
      (''ListWorkspaces'', Filter_list_workspaces),
      (''CreateWorkspace'', Auto_grant_workspace_manage_permission),
      (''DeleteWorkspace'', Cascade_delete_workspace_permissions)]"

definition CREATOR_GRANT_HANDLERS :: "after_handler list" where
  "CREATOR_GRANT_HANDLERS =
     [Set_can_manage_experiment_permission, Set_can_manage_registered_model_permission, Set_can_manage_scorer_permission,
      Set_can_manage_gateway_endpoint_permission, Set_can_manage_gateway_secret_permission,
      Set_can_manage_gateway_model_definition_permission, Auto_grant_workspace_manage_permission]"

definition CREATOR_GRANT_REQUEST_CLASSES :: "string list" where
  "CREATOR_GRANT_REQUEST_CLASSES = [fst ph. ph \<leftarrow> AFTER_REQUEST_PATH_HANDLERS, snd ph \<in> set CREATOR_GRANT_HANDLERS]"

text \<open>The routes of MLflow's registry, each pair of path and verb bound to what a table says of its request class.\<close>

definition bound_routes :: "mlflow_server \<Rightarrow> (string \<times> 'h) list \<Rightarrow> ((string \<times> string) \<times> 'h) list" where
  "bound_routes srv handlers =
     concat (map (\<lambda>(path, e, ms).
       case e of
         Rpc cls \<Rightarrow> (case map_of handlers cls of Some h \<Rightarrow> map (\<lambda>m. ((path, m), h)) ms | None \<Rightarrow> [])
       | Plain _ \<Rightarrow> []) (ms_endpoints srv))"

definition AFTER_REQUEST_HANDLERS :: "mlflow_server \<Rightarrow> (string \<times> string) \<rightharpoonup> after_handler" where
  "AFTER_REQUEST_HANDLERS srv =
     dict_of [ph. ph \<leftarrow> bound_routes srv AFTER_REQUEST_PATH_HANDLERS, \<not> py_contains ''/graphql'' (fst (fst ph))]"

definition unchanged :: "flask_response \<Rightarrow> unit res \<times> 's \<Rightarrow> (flask_response res \<times> 's) option" where
  "unchanged resp r = Some (bindE (fst r) (\<lambda>_. Inr resp), snd r)"

fun run_after_handler ::
  "('c, 'w) after_env \<Rightarrow> after_handler \<Rightarrow> flask_request \<Rightarrow> flask_g \<Rightarrow> flask_response \<Rightarrow> ('c, 'w) after_state \<Rightarrow>
   (flask_response res \<times> ('c, 'w) after_state) option" where
  "run_after_handler env Set_can_manage_experiment_permission rq g resp st = unchanged resp (set_can_manage_experiment_permission env resp st)"
| "run_after_handler env Set_can_manage_registered_model_permission rq g resp st = unchanged resp (set_can_manage_registered_model_permission env resp st)"
| "run_after_handler env Delete_can_manage_registered_model_permission rq g resp st = unchanged resp (delete_can_manage_registered_model_permission env rq st)"
| "run_after_handler env Filter_search_experiments rq g resp st = filter_search_experiments env resp st"
| "run_after_handler env Filter_search_logged_models rq g resp st = filter_search_logged_models env resp st"
| "run_after_handler env Filter_search_registered_models rq g resp st = filter_search_registered_models env resp st"
| "run_after_handler env Filter_search_model_versions rq g resp st = filter_search_model_versions env resp st"
| "run_after_handler env Rename_registered_model_permission rq g resp st = unchanged resp (rename_registered_model_permission env rq st)"
| "run_after_handler env Set_can_manage_scorer_permission rq g resp st = unchanged resp (set_can_manage_scorer_permission env resp st)"
| "run_after_handler env Delete_scorer_permissions_cascade rq g resp st = unchanged resp (delete_scorer_permissions_cascade env rq st)"
| "run_after_handler env Set_can_manage_gateway_endpoint_permission rq g resp st = unchanged resp (set_can_manage_gateway_endpoint_permission env resp st)"
| "run_after_handler env Set_can_manage_gateway_secret_permission rq g resp st = unchanged resp (set_can_manage_gateway_secret_permission env resp st)"
| "run_after_handler env Set_can_manage_gateway_model_definition_permission rq g resp st =
     unchanged resp (set_can_manage_gateway_model_definition_permission env resp st)"
| "run_after_handler env Rename_gateway_endpoint_permission rq g resp st = unchanged resp (rename_gateway_endpoint_permission env g resp st)"
| "run_after_handler env Delete_gateway_endpoint_permissions_cascade rq g resp st = unchanged resp (delete_gateway_endpoint_permissions_cascade env g st)"
| "run_after_handler env Delete_gateway_secret_permissions_cascade rq g resp st = unchanged resp (delete_gateway_secret_permissions_cascade env g st)"
| "run_after_handler env Delete_gateway_model_definition_permissions_cascade rq g resp st =
     unchanged resp (delete_gateway_model_definition_permissions_cascade env g st)"
| "run_after_handler env Filter_list_gateway_endpoints rq g resp st = Some (filter_list_gateway_endpoints env resp st)"
| "run_after_handler env Filter_list_gateway_secrets rq g resp st = Some (filter_list_gateway_secrets env resp st)"
| "run_after_handler env Filter_list_gateway_model_definitions rq g resp st = Some (filter_list_gateway_model_definitions env resp st)"
| "run_after_handler env Filter_list_workspaces rq g resp st = Some (filter_list_workspaces env resp st)"
| "run_after_handler env Auto_grant_workspace_manage_permission rq g resp st = unchanged resp (auto_grant_workspace_manage_permission env resp st)"
| "run_after_handler env Cascade_delete_workspace_permissions rq g resp st = unchanged resp (cascade_delete_workspace_permissions env g resp st)"

text \<open>The hook; an \<^verbatim>\<open>MlflowException\<close> becomes an error answer, here the value \<open>Inl\<close>.\<close>

definition after_request_hook ::
  "('c, 'w) after_env \<Rightarrow> flask_request \<Rightarrow> flask_g \<Rightarrow> flask_response \<Rightarrow> ('c, 'w) app \<Rightarrow> (flask_response res \<times> ('c, 'w) app) option" where
  "after_request_hook env rq g resp s =
     (if 400 \<le> rp_status resp \<and> rp_status resp < 600 then Some (Inr resp, s)
      else let m = (if fq_method rq = ''HEAD'' then ''GET'' else fq_method rq) in
        case AFTER_REQUEST_HANDLERS (qe_server (ae_request env)) (fq_path rq, m) of
          None \<Rightarrow> Some (Inr resp, s)
        | Some h \<Rightarrow> map_option (\<lambda>(r, st). (r, as_app st))
            (run_after_handler env h rq g resp \<lparr>as_app = s, as_memo = Map.empty\<rparr>))"

end
