(* ===== verification/Before_Request.thy ===== *)
theory Before_Request
  imports Search_Filters
begin

section \<open>Before a request\<close>

text \<open>
  Models \<^verbatim>\<open>hooks/before_request.py\<close>: the tables that bind MLflow's routes to
  validators, the lookup of the validator of a request, and the hook that runs it. Validators are
  compared and looked up as values, so they are a datatype, run by \<open>run_validator\<close>. The routes come from
  MLflow's service registry and its routing table.
\<close>

subsection \<open>Tables\<close>

datatype validator =
    Validate_can_create_experiment
  | Validate_can_create_registered_model
  | Validate_can_read_experiment
  | Validate_can_read_experiment_by_name
  | Validate_can_delete_experiment
  | Validate_can_update_experiment
  | Validate_can_read_run
  | Validate_can_delete_run
  | Validate_can_update_run
  | Validate_can_read_experiments_from_experiment_ids
  | Validate_can_read_traces_from_experiment_ids
  | Validate_can_read_trace
  | Validate_can_read_traces_from_trace_ids
  | Validate_can_update_trace
  | Validate_can_update_trace_from_run_id
  | Validate_can_delete_traces_from_experiment_id
  | Validate_can_read_registered_model
  | Validate_can_delete_registered_model
  | Validate_can_update_registered_model
  | Validate_can_read_scorer
  | Validate_can_delete_scorer
  | Validate_can_read_prompt_optimization_job
  | Validate_can_delete_prompt_optimization_job
  | Validate_can_update_prompt_optimization_job
  | Validate_can_create_gateway
  | Validate_can_read_gateway_endpoint
  | Validate_can_update_gateway_endpoint
  | Validate_can_delete_gateway_endpoint
  | Validate_can_read_gateway_secret
  | Validate_can_update_gateway_secret
  | Validate_can_delete_gateway_secret
  | Validate_can_read_gateway_model_definition
  | Validate_can_update_gateway_model_definition
  | Validate_can_delete_gateway_model_definition
  | Validate_can_read_logged_model
  | Validate_can_delete_logged_model
  | Validate_can_update_logged_model
  | Validate_can_create_workspace
  | Validate_can_read_workspace
  | Validate_can_list_workspaces
  | Validate_can_update_workspace
  | Validate_can_delete_workspace
  | Validate_can_read_run_artifact
  | Validate_can_update_run_artifact
  | Validate_can_read_model_version_artifact
  | Validate_can_read_trace_artifact
  | Validate_can_read_metric_history_bulk
  | Validate_can_read_metric_history_bulk_interval
  | Validate_can_search_datasets
  | Validate_can_create_promptlab_run
  | Validate_gateway_proxy
  | Validate_can_invoke_scorer
  | Deny_non_admin
  | Validate_can_read_experiment_artifact_proxy
  | Validate_can_update_experiment_artifact_proxy
  | Validate_can_delete_experiment_artifact_proxy

definition BEFORE_REQUEST_HANDLERS :: "(string \<times> validator) list" where
  "BEFORE_REQUEST_HANDLERS =
     [(''CreateExperiment'', Validate_can_create_experiment),
      (''CreateRegisteredModel'', Validate_can_create_registered_model),
      (''GetExperiment'', Validate_can_read_experiment),
      (''GetExperimentByName'', Validate_can_read_experiment_by_name),
      (''DeleteExperiment'', Validate_can_delete_experiment),
      (''RestoreExperiment'', Validate_can_delete_experiment),
      (''UpdateExperiment'', Validate_can_update_experiment),
      (''SetExperimentTag'', Validate_can_update_experiment),
      (''DeleteExperimentTag'', Validate_can_update_experiment),
      (''CreateRun'', Validate_can_update_experiment),
      (''GetRun'', Validate_can_read_run),
      (''DeleteRun'', Validate_can_delete_run),
      (''RestoreRun'', Validate_can_delete_run),
      (''UpdateRun'', Validate_can_update_run),
      (''LogMetric'', Validate_can_update_run),
      (''LogBatch'', Validate_can_update_run),
      (''LogModel'', Validate_can_update_run),
      (''SetTag'', Validate_can_update_run),
      (''DeleteTag'', Validate_can_update_run),
      (''LogParam'', Validate_can_update_run),
      (''GetMetricHistory'', Validate_can_read_run),
      (''ListArtifacts'', Validate_can_read_run),
      (''SearchRuns'', Validate_can_read_experiments_from_experiment_ids),
      (''SearchTraces'', Validate_can_read_traces_from_experiment_ids),
      (''SearchTracesV3'', Validate_can_read_traces_from_experiment_ids),
      (''QueryTraceMetrics'', Validate_can_read_traces_from_experiment_ids),
      (''CalculateTraceFilterCorrelation'', Validate_can_read_traces_from_experiment_ids),
      (''GetTraceInfo'', Validate_can_read_trace),
      (''GetTraceInfoV3'', Validate_can_read_trace),
      (''GetTrace'', Validate_can_read_trace),
      (''GetAssessmentRequest'', Validate_can_read_trace),
      (''BatchGetTraces'', Validate_can_read_traces_from_trace_ids),
      (''BatchGetTraceInfos'', Validate_can_read_traces_from_trace_ids),
      (''SetTraceTag'', Validate_can_update_trace),
      (''SetTraceTagV3'', Validate_can_update_trace),
      (''DeleteTraceTag'', Validate_can_update_trace),
      (''DeleteTraceTagV3'', Validate_can_update_trace),
      (''CreateAssessment'', Validate_can_update_trace),
      (''UpdateAssessment'', Validate_can_update_trace),
      (''DeleteAssessment'', Validate_can_update_trace),
      (''LinkPromptsToTrace'', Validate_can_update_trace),
      (''LinkTracesToRun'', Validate_can_update_trace_from_run_id),
      (''DeleteTraces'', Validate_can_delete_traces_from_experiment_id),
      (''DeleteTracesV3'', Validate_can_delete_traces_from_experiment_id),
      (''GetRegisteredModel'', Validate_can_read_registered_model),
      (''DeleteRegisteredModel'', Validate_can_delete_registered_model),
      (''UpdateRegisteredModel'', Validate_can_update_registered_model),
      (''RenameRegisteredModel'', Validate_can_update_registered_model),
      (''GetLatestVersions'', Validate_can_read_registered_model),
      (''CreateModelVersion'', Validate_can_update_registered_model),
      (''GetModelVersion'', Validate_can_read_registered_model),
      (''DeleteModelVersion'', Validate_can_delete_registered_model),
      (''UpdateModelVersion'', Validate_can_update_registered_model),
      (''TransitionModelVersionStage'', Validate_can_update_registered_model),
      (''GetModelVersionDownloadUri'', Validate_can_read_registered_model),
      (''SetRegisteredModelTag'', Validate_can_update_registered_model),
      (''DeleteRegisteredModelTag'', Validate_can_update_registered_model),
      (''SetModelVersionTag'', Validate_can_update_registered_model),
      (''DeleteModelVersionTag'', Validate_can_delete_registered_model),
      (''SetRegisteredModelAlias'', Validate_can_update_registered_model),
      (''DeleteRegisteredModelAlias'', Validate_can_delete_registered_model),
      (''GetModelVersionByAlias'', Validate_can_read_registered_model),
      (''RegisterScorer'', Validate_can_update_experiment),
      (''ListScorers'', Validate_can_read_experiment),
      (''GetScorer'', Validate_can_read_scorer),
      (''DeleteScorer'', Validate_can_delete_scorer),
      (''ListScorerVersions'', Validate_can_read_scorer),
      (''CreatePromptOptimizationJob'', Validate_can_update_experiment),
      (''GetPromptOptimizationJob'', Validate_can_read_prompt_optimization_job),
      (''SearchPromptOptimizationJobs'', Validate_can_read_experiment),
      (''DeletePromptOptimizationJob'', Validate_can_delete_prompt_optimization_job),
      (''CancelPromptOptimizationJob'', Validate_can_update_prompt_optimization_job),
      (''CreateGatewayEndpoint'', Validate_can_create_gateway),
      (''GetGatewayEndpoint'', Validate_can_read_gateway_endpoint),
      (''UpdateGatewayEndpoint'', Validate_can_update_gateway_endpoint),
      (''DeleteGatewayEndpoint'', Validate_can_delete_gateway_endpoint),
      (''CreateGatewaySecret'', Validate_can_create_gateway),
      (''GetGatewaySecretInfo'', Validate_can_read_gateway_secret),
      (''UpdateGatewaySecret'', Validate_can_update_gateway_secret),
      (''DeleteGatewaySecret'', Validate_can_delete_gateway_secret),
      (''CreateGatewayModelDefinition'', Validate_can_create_gateway),
      (''GetGatewayModelDefinition'', Validate_can_read_gateway_model_definition),
      (''UpdateGatewayModelDefinition'', Validate_can_update_gateway_model_definition),
      (''DeleteGatewayModelDefinition'', Validate_can_delete_gateway_model_definition),
      (''AttachModelToGatewayEndpoint'', Validate_can_update_gateway_endpoint),
      (''DetachModelFromGatewayEndpoint'', Validate_can_update_gateway_endpoint),
      (''CreateGatewayEndpointBinding'', Validate_can_update_gateway_endpoint),
      (''DeleteGatewayEndpointBinding'', Validate_can_update_gateway_endpoint),
      (''ListGatewayEndpointBindings'', Validate_can_read_gateway_endpoint),
      (''SetGatewayEndpointTag'', Validate_can_update_gateway_endpoint),
      (''DeleteGatewayEndpointTag'', Validate_can_update_gateway_endpoint)]"

text \<open>The budget policy classes of the installed release are added for administrators only.\<close>

definition before_request_handlers :: "mlflow_server \<Rightarrow> (string \<times> validator) list" where
  "before_request_handlers srv =
     fold (\<lambda>cls. AList.update cls Deny_non_admin) (ms_budget_policy_classes srv) BEFORE_REQUEST_HANDLERS"

definition GATEWAY_GUARDRAIL_OPERATIONS :: "string list" where
  "GATEWAY_GUARDRAIL_OPERATIONS =
     [''create'', ''get'', ''list'', ''delete'', ''add-to-endpoint'', ''remove-from-endpoint'', ''list-for-endpoint'', ''update-config'']"

definition flask_routes :: "mlflow_server \<Rightarrow> ((string \<times> string) \<times> validator) list" where
  "flask_routes srv =
     [((ms_static_prefix srv ''/get-artifact'', ''GET''), Validate_can_read_run_artifact),
      ((ms_ajax_path srv ''/mlflow/upload-artifact'' 2, ''POST''), Validate_can_update_run_artifact),
      ((ms_static_prefix srv ''/model-versions/get-artifact'', ''GET''), Validate_can_read_model_version_artifact),
      ((ms_ajax_path srv ''/mlflow/get-trace-artifact'' 2, ''GET''), Validate_can_read_trace_artifact),
      ((ms_ajax_path srv ''/mlflow/metrics/get-history-bulk'' 2, ''GET''), Validate_can_read_metric_history_bulk),
      ((ms_ajax_path srv ''/mlflow/metrics/get-history-bulk-interval'' 2, ''GET''), Validate_can_read_metric_history_bulk_interval),
      ((ms_rest_path srv ''/mlflow/metrics/get-history-bulk-interval'' 2, ''GET''), Validate_can_read_metric_history_bulk_interval),
      ((ms_ajax_path srv ''/mlflow/experiments/search-datasets'' 2, ''POST''), Validate_can_search_datasets),
      ((ms_ajax_path srv ''/mlflow/runs/create-promptlab-run'' 2, ''POST''), Validate_can_create_promptlab_run),
      ((ms_ajax_path srv ''/mlflow/gateway-proxy'' 2, ''GET''), Validate_gateway_proxy),
      ((ms_ajax_path srv ''/mlflow/gateway-proxy'' 2, ''POST''), Validate_gateway_proxy),
      ((ms_ajax_path srv ''/mlflow/scorer/invoke'' 3, ''POST''), Validate_can_invoke_scorer),
      ((ms_ajax_path srv ''/mlflow/gateway/supported-providers'' 3, ''GET''), Validate_gateway_proxy),
      ((ms_ajax_path srv ''/mlflow/gateway/supported-models'' 3, ''GET''), Validate_gateway_proxy),
      ((ms_ajax_path srv ''/mlflow/gateway/provider-config'' 3, ''GET''), Deny_non_admin),
      ((ms_ajax_path srv ''/mlflow/gateway/secrets/config'' 3, ''GET''), Deny_non_admin)]"

definition guardrail_routes :: "mlflow_server \<Rightarrow> ((string \<times> string) \<times> validator) list" where
  "guardrail_routes srv =
     [((path, m), Deny_non_admin).
        op \<leftarrow> GATEWAY_GUARDRAIL_OPERATIONS,
        path \<leftarrow> [ms_ajax_path srv (''/mlflow/gateway/guardrails/'' @ op) 3, ms_rest_path srv (''/mlflow/gateway/guardrails/'' @ op) 3],
        m \<leftarrow> [''GET'', ''POST'', ''PUT'', ''PATCH'', ''DELETE'']]"

definition NON_PROTO_ROUTES :: "(string \<times> string \<times> validator) list" where
  "NON_PROTO_ROUTES =
     [(''mlflow/experiments/search-datasets'', ''POST'', Validate_can_search_datasets),
      (''mlflow/get-trace-artifact'', ''GET'', Validate_can_read_trace_artifact),
      (''mlflow/metrics/get-history-bulk'', ''GET'', Validate_can_read_metric_history_bulk),
      (''mlflow/metrics/get-history-bulk-interval'', ''GET'', Validate_can_read_metric_history_bulk_interval),
      (''mlflow/upload-artifact'', ''POST'', Validate_can_update_run_artifact),
      (''mlflow/runs/create-promptlab-run'', ''POST'', Validate_can_create_promptlab_run),
      (''mlflow/gateway-proxy'', ''GET'', Validate_gateway_proxy),
      (''mlflow/gateway-proxy'', ''POST'', Validate_gateway_proxy)]"

definition bind_non_proto_route :: "mlflow_server \<Rightarrow> string \<times> string \<times> validator \<Rightarrow> ((string \<times> string) \<times> validator) list" where
  "bind_non_proto_route srv = (\<lambda>(sfx, m, v). [((fst rule, m), v). rule \<leftarrow> ms_rules srv, suffix sfx (fst rule) \<and> m \<in> set (snd rule)])"

definition dict_updates :: "('k \<times> 'v) list \<Rightarrow> ('k \<times> 'v) list \<Rightarrow> ('k \<times> 'v) list" where
  "dict_updates kvs d = fold (\<lambda>(k, v). AList.update k v) kvs d"

definition BEFORE_REQUEST_VALIDATORS :: "mlflow_server \<Rightarrow> ((string \<times> string) \<times> validator) list" where
  "BEFORE_REQUEST_VALIDATORS srv =
     dict_updates (concat (map (bind_non_proto_route srv) NON_PROTO_ROUTES))
       (dict_updates (guardrail_routes srv)
          (dict_updates (flask_routes srv)
             (dict_updates (bound_routes srv (before_request_handlers srv)) [])))"

definition PARAMETERIZED_BEFORE_REQUEST_VALIDATORS :: "mlflow_server \<Rightarrow> ((path_item list \<times> string) \<times> validator) list" where
  "PARAMETERIZED_BEFORE_REQUEST_VALIDATORS srv =
     dict_updates [((re_compile_path (fst (fst pv)), snd (fst pv)), snd pv). pv \<leftarrow> BEFORE_REQUEST_VALIDATORS srv, CHR ''<'' \<in> set (fst (fst pv))] []"

definition LOGGED_MODEL_BEFORE_REQUEST_HANDLERS :: "(string \<times> validator) list" where
  "LOGGED_MODEL_BEFORE_REQUEST_HANDLERS =
     [(''CreateLoggedModel'', Validate_can_update_experiment),
      (''GetLoggedModel'', Validate_can_read_logged_model),
      (''DeleteLoggedModel'', Validate_can_delete_logged_model),
      (''FinalizeLoggedModel'', Validate_can_update_logged_model),
      (''DeleteLoggedModelTag'', Validate_can_delete_logged_model),
      (''SetLoggedModelTags'', Validate_can_update_logged_model),
      (''LogLoggedModelParamsRequest'', Validate_can_update_logged_model)]"

definition WORKSPACE_BEFORE_REQUEST_HANDLERS :: "(string \<times> validator) list" where
  "WORKSPACE_BEFORE_REQUEST_HANDLERS =
     [(''CreateWorkspace'', Validate_can_create_workspace),
      (''GetWorkspace'', Validate_can_read_workspace),
      (''ListWorkspaces'', Validate_can_list_workspaces),
      (''UpdateWorkspace'', Validate_can_update_workspace),
      (''DeleteWorkspace'', Validate_can_delete_workspace)]"

text \<open>
  What the two tables with patterns hold for a route: a validator, nothing, or MLflow's own function
  for a route that has no request class.
\<close>

datatype bound_handler = Bound validator | Unbound | Foreign string

definition pattern_routes :: "mlflow_server \<Rightarrow> (string \<times> validator) list \<Rightarrow> ((path_item list \<times> string) \<times> bound_handler) list" where
  "pattern_routes srv handlers =
     concat (map (\<lambda>(path, e, ms).
       map (\<lambda>m. ((re_compile_path path, m),
                 case e of Rpc cls \<Rightarrow> (case map_of handlers cls of Some v \<Rightarrow> Bound v | None \<Rightarrow> Unbound) | Plain f \<Rightarrow> Foreign f)) ms) (ms_endpoints srv))"

definition LOGGED_MODEL_BEFORE_REQUEST_VALIDATORS :: "mlflow_server \<Rightarrow> ((path_item list \<times> string) \<times> bound_handler) list" where
  "LOGGED_MODEL_BEFORE_REQUEST_VALIDATORS srv = dict_updates (pattern_routes srv LOGGED_MODEL_BEFORE_REQUEST_HANDLERS) []"

definition WORKSPACE_BEFORE_REQUEST_VALIDATORS :: "mlflow_server \<Rightarrow> ((path_item list \<times> string) \<times> bound_handler) list" where
  "WORKSPACE_BEFORE_REQUEST_VALIDATORS srv =
     dict_updates [ph. ph \<leftarrow> pattern_routes srv WORKSPACE_BEFORE_REQUEST_HANDLERS, snd ph \<noteq> Unbound] []"

subsection \<open>Creations\<close>

definition paths_of :: "mlflow_server \<Rightarrow> string list \<Rightarrow> (string \<times> string) list" where
  "paths_of srv classes = map fst (bound_routes srv (map (\<lambda>c. (c, ())) classes))"

definition get_workspace_gated_creation_paths :: "mlflow_server \<Rightarrow> (string \<times> string) list" where
  "get_workspace_gated_creation_paths srv =
     paths_of srv [''CreateExperiment'', ''CreateRegisteredModel'', ''CreateGatewayEndpoint'', ''CreateGatewaySecret'', ''CreateGatewayModelDefinition'']"

definition get_create_grant_paths :: "mlflow_server \<Rightarrow> (string \<times> string) list" where
  "get_create_grant_paths srv = paths_of srv CREATOR_GRANT_REQUEST_CLASSES"

definition requires_existing_user :: "mlflow_server \<Rightarrow> string \<Rightarrow> string \<Rightarrow> bool" where
  "requires_existing_user srv path m \<longleftrightarrow> (path, m) \<in> set (get_create_grant_paths srv)"

definition is_workspace_gated_creation :: "mlflow_server \<Rightarrow> string \<Rightarrow> string \<Rightarrow> bool" where
  "is_workspace_gated_creation srv path m \<longleftrightarrow> (path, m) \<in> set (get_workspace_gated_creation_paths srv)"

subsection \<open>The artifact proxy\<close>

definition ARTIFACT_PROXY_MARKER :: string where
  "ARTIFACT_PROXY_MARKER = ''/mlflow-artifacts/''"

text \<open>The module refuses to load when there is no prefix; their order does not matter.\<close>

definition build_artifact_proxy_prefixes :: "mlflow_server \<Rightarrow> string list" where
  "build_artifact_proxy_prefixes srv =
     [take (i + length ARTIFACT_PROXY_MARKER) (fst rule).
        rule \<leftarrow> ms_rules srv,
        Some i \<leftarrow> [List.find (\<lambda>i. prefix ARTIFACT_PROXY_MARKER (drop i (fst rule))) [0..<length (fst rule)]]]"

definition artifact_proxy_family :: "mlflow_server \<Rightarrow> string \<Rightarrow> string option" where
  "artifact_proxy_family srv path =
     (case List.find (\<lambda>p. prefix p path) (build_artifact_proxy_prefixes srv) of
        None \<Rightarrow> None
      | Some p \<Rightarrow> (let first = hd (py_split (CHR ''/'') (drop (length p) path)) in if first = [] then None else Some first))"

definition get_proxy_artifact_validator :: "mlflow_server \<Rightarrow> string \<Rightarrow> string \<Rightarrow> validator option" where
  "get_proxy_artifact_validator srv m0 path =
     (let family = artifact_proxy_family srv path; m = (if m0 = ''HEAD'' then ''GET'' else m0) in
      if family = Some ''mpu'' then (if m = ''POST'' then Some Validate_can_update_experiment_artifact_proxy else None)
      else if family = Some ''presigned'' then (if m = ''GET'' then Some Validate_can_read_experiment_artifact_proxy else None)
      else if family \<notin> {None, Some ''artifacts''} then None
      else map_of [(''GET'', Validate_can_read_experiment_artifact_proxy), (''PUT'', Validate_can_update_experiment_artifact_proxy),
                   (''DELETE'', Validate_can_delete_experiment_artifact_proxy)] m)"

definition is_proxy_artifact_path :: "mlflow_server \<Rightarrow> string \<Rightarrow> bool" where
  "is_proxy_artifact_path srv path \<longleftrightarrow> (\<exists>p\<in>set (build_artifact_proxy_prefixes srv). prefix p path)"

subsection \<open>Finding and running the validator\<close>

definition deny_non_admin :: "string \<Rightarrow> ('c, 'w, bool) check" where
  "deny_non_admin uname = lift_res (Inr False)"

fun run_validator :: "('c, 'w) request_env \<Rightarrow> validator \<Rightarrow> flask_request \<Rightarrow> string \<Rightarrow> ('c, 'w, bool) check" where
  "run_validator env Validate_can_create_experiment rq uname = validate_can_create_experiment env rq uname"
| "run_validator env Validate_can_create_registered_model rq uname = validate_can_create_registered_model env rq uname"
| "run_validator env Validate_can_read_experiment rq uname = validate_can_read_experiment env rq uname"
| "run_validator env Validate_can_read_experiment_by_name rq uname = validate_can_read_experiment_by_name env rq uname"
| "run_validator env Validate_can_delete_experiment rq uname = validate_can_delete_experiment env rq uname"
| "run_validator env Validate_can_update_experiment rq uname = validate_can_update_experiment env rq uname"
| "run_validator env Validate_can_read_run rq uname = validate_can_read_run env rq uname"
| "run_validator env Validate_can_delete_run rq uname = validate_can_delete_run env rq uname"
| "run_validator env Validate_can_update_run rq uname = validate_can_update_run env rq uname"
| "run_validator env Validate_can_read_experiments_from_experiment_ids rq uname = validate_can_read_experiments_from_experiment_ids env rq uname"
| "run_validator env Validate_can_read_traces_from_experiment_ids rq uname = validate_can_read_traces_from_experiment_ids env rq uname"
| "run_validator env Validate_can_read_trace rq uname = validate_can_read_trace env rq uname"
| "run_validator env Validate_can_read_traces_from_trace_ids rq uname = validate_can_read_traces_from_trace_ids env rq uname"
| "run_validator env Validate_can_update_trace rq uname = validate_can_update_trace env rq uname"
| "run_validator env Validate_can_update_trace_from_run_id rq uname = validate_can_update_trace_from_run_id env rq uname"
| "run_validator env Validate_can_delete_traces_from_experiment_id rq uname = validate_can_delete_traces_from_experiment_id env rq uname"
| "run_validator env Validate_can_read_registered_model rq uname = validate_can_read_registered_model env rq uname"
| "run_validator env Validate_can_delete_registered_model rq uname = validate_can_delete_registered_model env rq uname"
| "run_validator env Validate_can_update_registered_model rq uname = validate_can_update_registered_model env rq uname"
| "run_validator env Validate_can_read_scorer rq uname = validate_can_read_scorer env rq uname"
| "run_validator env Validate_can_delete_scorer rq uname = validate_can_delete_scorer env rq uname"
| "run_validator env Validate_can_read_prompt_optimization_job rq uname = validate_can_read_prompt_optimization_job env rq uname"
| "run_validator env Validate_can_delete_prompt_optimization_job rq uname = validate_can_delete_prompt_optimization_job env rq uname"
| "run_validator env Validate_can_update_prompt_optimization_job rq uname = validate_can_update_prompt_optimization_job env rq uname"
| "run_validator env Validate_can_create_gateway rq uname = validate_can_create_gateway env rq uname"
| "run_validator env Validate_can_read_gateway_endpoint rq uname = validate_can_read_gateway_endpoint env rq uname"
| "run_validator env Validate_can_update_gateway_endpoint rq uname = validate_can_update_gateway_endpoint env rq uname"
| "run_validator env Validate_can_delete_gateway_endpoint rq uname = validate_can_delete_gateway_endpoint env rq uname"
| "run_validator env Validate_can_read_gateway_secret rq uname = validate_can_read_gateway_secret env rq uname"
| "run_validator env Validate_can_update_gateway_secret rq uname = validate_can_update_gateway_secret env rq uname"
| "run_validator env Validate_can_delete_gateway_secret rq uname = validate_can_delete_gateway_secret env rq uname"
| "run_validator env Validate_can_read_gateway_model_definition rq uname = validate_can_read_gateway_model_definition env rq uname"
| "run_validator env Validate_can_update_gateway_model_definition rq uname = validate_can_update_gateway_model_definition env rq uname"
| "run_validator env Validate_can_delete_gateway_model_definition rq uname = validate_can_delete_gateway_model_definition env rq uname"
| "run_validator env Validate_can_read_logged_model rq uname = validate_can_read_logged_model env rq uname"
| "run_validator env Validate_can_delete_logged_model rq uname = validate_can_delete_logged_model env rq uname"
| "run_validator env Validate_can_update_logged_model rq uname = validate_can_update_logged_model env rq uname"
| "run_validator env Validate_can_create_workspace rq uname = validate_can_create_workspace env rq uname"
| "run_validator env Validate_can_read_workspace rq uname = validate_can_read_workspace env rq uname"
| "run_validator env Validate_can_list_workspaces rq uname = validate_can_list_workspaces env rq uname"
| "run_validator env Validate_can_update_workspace rq uname = validate_can_update_workspace env rq uname"
| "run_validator env Validate_can_delete_workspace rq uname = validate_can_delete_workspace env rq uname"
| "run_validator env Validate_can_read_run_artifact rq uname = validate_can_read_run_artifact env rq uname"
| "run_validator env Validate_can_update_run_artifact rq uname = validate_can_update_run_artifact env rq uname"
| "run_validator env Validate_can_read_model_version_artifact rq uname = validate_can_read_model_version_artifact env rq uname"
| "run_validator env Validate_can_read_trace_artifact rq uname = validate_can_read_trace_artifact env rq uname"
| "run_validator env Validate_can_read_metric_history_bulk rq uname = validate_can_read_metric_history_bulk env rq uname"
| "run_validator env Validate_can_read_metric_history_bulk_interval rq uname = validate_can_read_metric_history_bulk_interval env rq uname"
| "run_validator env Validate_can_search_datasets rq uname = validate_can_search_datasets env rq uname"
| "run_validator env Validate_can_create_promptlab_run rq uname = validate_can_create_promptlab_run env rq uname"
| "run_validator env Validate_gateway_proxy rq uname = validate_gateway_proxy env rq uname"
| "run_validator env Validate_can_invoke_scorer rq uname = validate_can_invoke_scorer env rq uname"
| "run_validator env Deny_non_admin rq uname = deny_non_admin uname"
| "run_validator env Validate_can_read_experiment_artifact_proxy rq uname = validate_can_read_experiment_artifact_proxy env rq uname"
| "run_validator env Validate_can_update_experiment_artifact_proxy rq uname = validate_can_update_experiment_artifact_proxy env rq uname"
| "run_validator env Validate_can_delete_experiment_artifact_proxy rq uname = validate_can_delete_experiment_artifact_proxy env rq uname"

definition first_match :: "((path_item list \<times> string) \<times> 'h) list \<Rightarrow> string \<Rightarrow> string \<Rightarrow> 'h option" where
  "first_match table path m = map_option snd (List.find (\<lambda>((pat, m'), _). fullmatch pat path \<and> m' = m) table)"

text \<open>The validator of a request, and the workspace name that is kept for the cascade after a deletion.\<close>

definition find_validator :: "mlflow_server \<Rightarrow> flask_request \<Rightarrow> flask_g \<Rightarrow> bound_handler \<times> flask_g" where
  "find_validator srv rq g =
     (let m = (if fq_method rq = ''HEAD'' then ''GET'' else fq_method rq); path = fq_path rq in
      if py_contains ''/mlflow/workspaces'' path
      then (case first_match (WORKSPACE_BEFORE_REQUEST_VALIDATORS srv) path m of
              None \<Rightarrow> (Unbound, g)
            | Some h \<Rightarrow>
                (h, if m = ''DELETE'' then (case extract_workspace_name_from_path rq of
                                             Some (c # cs) \<Rightarrow> g\<lparr>g_deleting_workspace_name := Some (c # cs)\<rparr> | _ \<Rightarrow> g)
                    else g))
      else if py_contains ''/mlflow/logged-models'' path
      then (case first_match (LOGGED_MODEL_BEFORE_REQUEST_VALIDATORS srv) path m of None \<Rightarrow> (Unbound, g) | Some h \<Rightarrow> (h, g))
      else (case map_of (BEFORE_REQUEST_VALIDATORS srv) (path, m) of
              Some v \<Rightarrow> (Bound v, g)
            | None \<Rightarrow> (case first_match (PARAMETERIZED_BEFORE_REQUEST_VALIDATORS srv) path m of Some v \<Rightarrow> (Bound v, g) | None \<Rightarrow> (Unbound, g))))"

text \<open>The names that the cascades after the request need; \<open>None\<close> is the exception of a body that is no dictionary.\<close>

definition stash_gateway_context :: "('c, 'w) request_env \<Rightarrow> flask_request \<Rightarrow> bound_handler \<Rightarrow> flask_g \<Rightarrow> flask_g res" where
  "stash_gateway_context env rq h g =
     (let data = (if truthy (get_json_force rq) then get_json_force rq else JObj []);
          by_name_or_id = (\<lambda>name_key id_key resolve.
            bindE (body_get data name_key) (\<lambda>nm.
              if truthy nm then Inr (Some (text_of env nm))
              else bindE (body_get data id_key) (\<lambda>i. Inr (if truthy i then resolve i else None))))
      in if h = Bound Validate_can_update_gateway_endpoint \<or> h = Bound Validate_can_delete_gateway_endpoint
         then bindE (body_get data ''endpoint_id'') (\<lambda>i.
           if \<not> truthy i then Inr g
           else case resolve_endpoint_name_from_id env i of
                  Some (c # cs) \<Rightarrow>
                    Inr (if h = Bound Validate_can_update_gateway_endpoint then g\<lparr>g_updating_gateway_endpoint_old_name := Some (c # cs)\<rparr>
                         else g\<lparr>g_deleting_gateway_endpoint_name := Some (c # cs)\<rparr>)
                | _ \<Rightarrow> Inr g)
         else if h = Bound Validate_can_delete_gateway_secret
         then bindE (by_name_or_id ''secret_name'' ''secret_id'' (resolve_secret_name_from_id env)) (\<lambda>nm.
           Inr (case nm of Some (c # cs) \<Rightarrow> g\<lparr>g_deleting_gateway_secret_name := Some (c # cs)\<rparr> | _ \<Rightarrow> g))
         else if h = Bound Validate_can_delete_gateway_model_definition
         then bindE (by_name_or_id ''name'' ''model_definition_id'' (resolve_model_definition_name_from_id env)) (\<lambda>nm.
           Inr (case nm of Some (c # cs) \<Rightarrow> g\<lparr>g_deleting_gateway_model_definition_name := Some (c # cs)\<rparr> | _ \<Rightarrow> g))
         else Inr g)"

subsection \<open>The hook\<close>

text \<open>
  What the hook answers: it lets the request continue to MLflow, or answers itself. \<open>Raised\<close> is an
  exception, which becomes an error answer.
\<close>

datatype hook_response = Continue | AuthRequired | AmbiguousSpelling string | UnexpectedGetBody | Forbidden | Raised exn

definition hook_unprotected_prefixes :: "string list" where
  "hook_unprotected_prefixes = [''/static'', ''/favicon.ico'', ''/health'', ''/metrics'', ''/docs'', ''/redoc'', ''/openapi.json'']"

definition is_unprotected_path :: "string \<Rightarrow> bool" where
  "is_unprotected_path path \<longleftrightarrow> (\<exists>p\<in>set hook_unprotected_prefixes. prefix p path)"

definition hook_auth_context :: "('c, 'w) request_env \<Rightarrow> string option \<times> bool" where
  "hook_auth_context env =
     (case get_fastapi_username env of Inr u \<Rightarrow> Some u | Inl _ \<Rightarrow> None, get_fastapi_admin_status env)"

text \<open>Whether a creation in a workspace is refused, and the state after the lookup.\<close>

definition workspace_creation_refused :: "('c, 'w) request_env \<Rightarrow> string \<Rightarrow> ('c, 'w) app \<Rightarrow> bool \<times> ('c, 'w) app" where
  "workspace_creation_refused env uname s =
     (let ws = get_request_workspace env;
          effective = (case ws of Some (c # cs) \<Rightarrow> c # cs | _ \<Rightarrow> qe_default_workspace env)
      in if ws = None \<and> OIDC_WORKSPACE_REQUIRE_CREATION_CONTEXT env then (True, s)
         else if effective = qe_default_workspace env \<and> OIDC_WORKSPACE_DENY_DEFAULT_CREATION env then (True, s)
         else case ws of
                None \<Rightarrow> (False, s)
              | Some w \<Rightarrow>
                  (case cached_workspace_permission env uname w s of
                     (perm, s') \<Rightarrow> (case perm of Some p \<Rightarrow> \<not> can_manage p | None \<Rightarrow> True, s')))"

definition verdict :: "bool res \<times> ('c, 'w) app \<Rightarrow> hook_response \<times> ('c, 'w) app" where
  "verdict r = (case fst r of Inl e \<Rightarrow> Raised e | Inr ok \<Rightarrow> if ok then Continue else Forbidden, snd r)"

definition authorize :: "('c, 'w) request_env \<Rightarrow> flask_request \<Rightarrow> string \<Rightarrow> bound_handler \<Rightarrow> ('c, 'w) app \<Rightarrow> hook_response \<times> ('c, 'w) app" where
  "authorize env rq uname h s =
     (case h of
        Bound v \<Rightarrow> verdict (run_validator env v rq uname s)
      | Foreign f \<Rightarrow> (Raised TypeError, s)
      | Unbound \<Rightarrow>
          if is_proxy_artifact_path (qe_server env) (fq_path rq)
          then (if fq_method rq = ''OPTIONS'' then (Continue, s)
                else case get_proxy_artifact_validator (qe_server env) (fq_method rq) (fq_path rq) of
                       None \<Rightarrow> (Forbidden, s)
                     | Some v \<Rightarrow> verdict (run_validator env v rq uname s))
          else (Continue, s))"

definition before_request_hook ::
  "('c, 'w) request_env \<Rightarrow> flask_request \<Rightarrow> ('c, 'w) app \<Rightarrow> hook_response \<times> flask_g \<times> ('c, 'w) app" where
  "before_request_hook env rq s =
     (let srv = qe_server env in
      if is_unprotected_path (fq_path rq) then (Continue, empty_g, s)
      else case hook_auth_context env of
             (None, _) \<Rightarrow> (AuthRequired, empty_g, s)
           | (Some uname, is_admin) \<Rightarrow>
               (case find_validator srv rq empty_g of (h, g0) \<Rightarrow>
                (case stash_gateway_context env rq h g0 of
                   Inl e \<Rightarrow> (Raised e, g0, s)
                 | Inr g \<Rightarrow>
                     (case find_dual_spelling_collision srv rq of
                        Some field \<Rightarrow> (AmbiguousSpelling field, g, s)
                      | None \<Rightarrow>
                          if has_unexpected_get_body srv rq then (UnexpectedGetBody, g, s)
                          else if requires_existing_user srv (fq_path rq) (fq_method rq) \<and> \<not> has_user (a_db s) uname then (Forbidden, g, s)
                          else if is_admin then (Continue, g, s)
                          else case (if MLFLOW_ENABLE_WORKSPACES (e_config (qe_env env)) \<and> is_workspace_gated_creation srv (fq_path rq) (fq_method rq)
                                     then workspace_creation_refused env uname s else (False, s)) of
                                 (True, s1) \<Rightarrow> (Forbidden, g, s1)
                               | (False, s1) \<Rightarrow> (case authorize env rq uname h s1 of (r, s2) \<Rightarrow> (r, g, s2))))))"

text \<open>Routes of the table that no request can reach.\<close>

definition find_dead_validator_paths :: "mlflow_server \<Rightarrow> string list" where
  "find_dead_validator_paths srv =
     (let registered = map fst (ms_rules srv);
          reachable = map (fst \<circ> fst) (PARAMETERIZED_BEFORE_REQUEST_VALIDATORS srv)
      in dict_fromkeys [fst (fst pv). pv \<leftarrow> BEFORE_REQUEST_VALIDATORS srv,
           (prefix ''/api/'' (fst (fst pv)) \<or> prefix ''/ajax-api/'' (fst (fst pv))) \<and>
           (fst (fst pv) \<notin> set registered \<or> (CHR ''<'' \<in> set (fst (fst pv)) \<and> re_compile_path (fst (fst pv)) \<notin> set reachable))])"

end
