(* ===== verification/Authorization.thy ===== *)
theory Authorization
  imports Before_Request
begin

section \<open>What a request must hold to be let through\<close>

text \<open>
  A specification of the validators: \<open>needs\<close> lists the resources a request names, each with the
  capability its route asks for, and \<open>meets\<close> says on the current database whether the user has it. The
  theorem of this theory is that a validator answers \<^verbatim>\<open>True\<close> exactly when the request
  resolves and every need is met, whatever the caches hold.
\<close>

datatype need =
    On_resource string string "permission \<Rightarrow> bool"
  | On_new_experiment string
  | On_new_registered_model string
  | On_workspace string "permission \<Rightarrow> bool"
  | On_any_endpoint

fun meets :: "('c, 'w) env \<Rightarrow> db \<Rightarrow> string \<Rightarrow> need \<Rightarrow> bool" where
  "meets env d uname (On_resource rtype rid can) =
     (case decide env d rtype rid uname None of Inr r \<Rightarrow> can (pr_permission r) | Inl _ \<Rightarrow> False)"
| "meets env d uname (On_new_experiment nm) =
     (case get_permission_from_store_or_default (e_config env) (permission_new_experiment_sources_config env d nm uname) of
        Inr r \<Rightarrow> can_update (pr_permission (workspace_decision env d r uname)) | Inl _ \<Rightarrow> False)"
| "meets env d uname (On_new_registered_model nm) =
     (case get_permission_from_store_or_default (e_config env) (permission_new_registered_model_sources_config env d nm uname) of
        Inr r \<Rightarrow> can_update (pr_permission (workspace_decision env d r uname)) | Inl _ \<Rightarrow> False)"
| "meets env d uname (On_workspace ws can) =
     (case lookup_workspace_permission (e_config env) (e_re_match env) d uname ws of Some p \<Rightarrow> can p | None \<Rightarrow> False)"
| "meets env d uname On_any_endpoint = (any_use (list_gateway_endpoint_permissions d uname) = Inr True)"

text \<open>The names that the cache keys tell apart.\<close>

fun plain_need :: "need \<Rightarrow> bool" where
  "plain_need (On_resource rtype rid can) = colon_free rid"
| "plain_need (On_workspace ws can) = (ws \<noteq> [] \<and> colon_free ws)"
| "plain_need _ = True"

subsection \<open>The needs of a request\<close>

definition res_needs :: "'a res \<Rightarrow> ('a \<Rightarrow> need list option) \<Rightarrow> need list option" where
  "res_needs r f = (case r of Inl _ \<Rightarrow> None | Inr x \<Rightarrow> f x)"

fun all_needs :: "('x \<Rightarrow> need list option) \<Rightarrow> 'x list \<Rightarrow> need list option" where
  "all_needs f [] = Some []"
| "all_needs f (x # xs) = (case f x of None \<Rightarrow> None | Some l \<Rightarrow> map_option (append l) (all_needs f xs))"

definition some_needs :: "('x \<Rightarrow> need list option) \<Rightarrow> 'x list \<Rightarrow> need list option" where
  "some_needs f xs = (if xs = [] then None else all_needs f xs)"

definition on_experiment :: "(permission \<Rightarrow> bool) \<Rightarrow> string \<Rightarrow> need list option" where
  "on_experiment can eid = Some [On_resource EXPERIMENT eid can]"

definition experiment_needs :: "(permission \<Rightarrow> bool) \<Rightarrow> ('c, 'w) request_env \<Rightarrow> flask_request \<Rightarrow> need list option" where
  "experiment_needs can env rq =
     res_needs (get_experiment_id (qe_server env) (qe_experiment_by_name env) rq) (\<lambda>v. on_experiment can (text_of env v))"

definition proxy_needs :: "(permission \<Rightarrow> bool) \<Rightarrow> ('c, 'w) request_env \<Rightarrow> flask_request \<Rightarrow> need list option" where
  "proxy_needs can env rq =
     (case get_experiment_id_from_view_args env rq of
        Some eid \<Rightarrow> on_experiment can eid
      | None \<Rightarrow> res_needs (get_permission (DEFAULT_MLFLOW_PERMISSION (e_config (qe_env env)))) (\<lambda>p. if can p then Some [] else None))"

definition model_needs :: "(permission \<Rightarrow> bool) \<Rightarrow> ('c, 'w) request_env \<Rightarrow> flask_request \<Rightarrow> need list option" where
  "model_needs can env rq =
     res_needs (get_model_name (qe_server env) rq) (\<lambda>v. Some [On_resource REGISTERED_MODEL (text_of env v) can])"

definition logged_model_needs :: "(permission \<Rightarrow> bool) \<Rightarrow> ('c, 'w) request_env \<Rightarrow> flask_request \<Rightarrow> need list option" where
  "logged_model_needs can env rq =
     res_needs (bindE (get_model_id (qe_server env) rq) (qe_logged_model_experiment env)) (on_experiment can)"

definition run_needs :: "(permission \<Rightarrow> bool) \<Rightarrow> ('c, 'w) request_env \<Rightarrow> json \<Rightarrow> need list option" where
  "run_needs can env run_id = res_needs (qe_run_experiment env run_id) (on_experiment can)"

definition run_param_needs :: "(permission \<Rightarrow> bool) \<Rightarrow> ('c, 'w) request_env \<Rightarrow> flask_request \<Rightarrow> need list option" where
  "run_param_needs can env rq = res_needs (get_request_param rq ''run_id'') (run_needs can env)"

definition trace_needs :: "(permission \<Rightarrow> bool) \<Rightarrow> ('c, 'w) request_env \<Rightarrow> flask_request \<Rightarrow> need list option" where
  "trace_needs can env rq =
     res_needs (all_single_trace_ids rq) (some_needs (\<lambda>tid. res_needs (qe_trace_experiment env tid) (on_experiment can)))"

definition job_needs :: "(permission \<Rightarrow> bool) \<Rightarrow> ('c, 'w) request_env \<Rightarrow> flask_request \<Rightarrow> need list option" where
  "job_needs can env rq =
     res_needs (bindE (get_url_param rq ''job_id'') (\<lambda>job. bindE (qe_job_params env job) (\<lambda>params. body_get params ''experiment_id'')))
       (\<lambda>v. on_experiment can (text_of env v))"

definition names_needs :: "string \<Rightarrow> (permission \<Rightarrow> bool) \<Rightarrow> ('c, 'w) request_env \<Rightarrow> json list res \<Rightarrow> need list option" where
  "names_needs rtype can env names = res_needs names (some_needs (\<lambda>v. Some [On_resource rtype (text_of env v) can]))"

definition current_name_needs :: "string \<Rightarrow> (permission \<Rightarrow> bool) \<Rightarrow> string option \<Rightarrow> need list option" where
  "current_name_needs rtype can nm = (case nm of Some (c # cs) \<Rightarrow> Some [On_resource rtype (c # cs) can] | _ \<Rightarrow> None)"

definition workspace_needs :: "(permission \<Rightarrow> bool) \<Rightarrow> ('c, 'w) request_env \<Rightarrow> flask_request \<Rightarrow> need list option" where
  "workspace_needs can env rq =
     (if \<not> MLFLOW_ENABLE_WORKSPACES (e_config (qe_env env)) then None
      else res_needs (get_auth_context env) (\<lambda>cx.
        if cx_is_admin cx then Some []
        else case extract_workspace_name_from_path rq of None \<Rightarrow> None | Some ws \<Rightarrow> Some [On_workspace ws can]))"

text \<open>The scorer validators are left out: their decisions are cached without the scorer.\<close>

fun needs :: "('c, 'w) request_env \<Rightarrow> validator \<Rightarrow> flask_request \<Rightarrow> need list option" where
  "needs env Validate_can_create_experiment rq =
     (if \<not> RESTRICT_RESOURCE_CREATION env then Some []
      else res_needs (get_request_param rq ''name'') (\<lambda>v. Some [On_new_experiment (text_of env v)]))"
| "needs env Validate_can_create_registered_model rq =
     (if \<not> RESTRICT_RESOURCE_CREATION env then Some []
      else res_needs (get_model_name (qe_server env) rq) (\<lambda>v. Some [On_new_registered_model (text_of env v)]))"
| "needs env Validate_can_read_experiment rq = experiment_needs can_read env rq"
| "needs env Validate_can_read_experiment_by_name rq =
     res_needs (get_request_param rq ''experiment_name'') (\<lambda>nm. res_needs (qe_experiment_by_name env nm) (\<lambda>found.
       case found of None \<Rightarrow> Some [] | Some eid \<Rightarrow> on_experiment can_read eid))"
| "needs env Validate_can_delete_experiment rq = experiment_needs can_delete env rq"
| "needs env Validate_can_update_experiment rq = experiment_needs can_update env rq"
| "needs env Validate_can_read_run rq = run_param_needs can_read env rq"
| "needs env Validate_can_delete_run rq = run_param_needs can_delete env rq"
| "needs env Validate_can_update_run rq = run_param_needs can_update env rq"
| "needs env Validate_can_read_experiments_from_experiment_ids rq =
     res_needs (requested_experiment_ids rq) (all_needs (\<lambda>v. on_experiment can_read (text_of env v)))"
| "needs env Validate_can_read_traces_from_experiment_ids rq =
     res_needs (all_experiment_ids_from_search rq) (some_needs (\<lambda>v. on_experiment can_read (text_of env v)))"
| "needs env Validate_can_read_trace rq = trace_needs can_read env rq"
| "needs env Validate_can_read_traces_from_trace_ids rq =
     (if all_trace_ids_from_batch rq = [] then None
      else res_needs (mapE (qe_trace_experiment env) (all_trace_ids_from_batch rq)) (some_needs (on_experiment can_read)))"
| "needs env Validate_can_update_trace rq = trace_needs can_update env rq"
| "needs env Validate_can_update_trace_from_run_id rq = res_needs (linked_run_ids rq) (some_needs (run_needs can_update env))"
| "needs env Validate_can_delete_traces_from_experiment_id rq =
     some_needs (\<lambda>v. on_experiment can_delete (text_of env v)) (trace_experiment_ids rq)"
| "needs env Validate_can_read_registered_model rq = model_needs can_read env rq"
| "needs env Validate_can_delete_registered_model rq = model_needs can_delete env rq"
| "needs env Validate_can_update_registered_model rq = model_needs can_update env rq"
| "needs env Validate_can_read_prompt_optimization_job rq = job_needs can_read env rq"
| "needs env Validate_can_delete_prompt_optimization_job rq = job_needs can_delete env rq"
| "needs env Validate_can_update_prompt_optimization_job rq = job_needs can_update env rq"
| "needs env Validate_can_create_gateway rq = Some []"
| "needs env Validate_can_read_gateway_endpoint rq = names_needs GATEWAY_ENDPOINT can_read env (all_gateway_endpoint_names env rq)"
| "needs env Validate_can_update_gateway_endpoint rq =
     current_name_needs GATEWAY_ENDPOINT can_update (get_gateway_endpoint_name_for_update env rq)"
| "needs env Validate_can_delete_gateway_endpoint rq = names_needs GATEWAY_ENDPOINT can_manage env (all_gateway_endpoint_names env rq)"
| "needs env Validate_can_read_gateway_secret rq = names_needs GATEWAY_SECRET can_read env (all_gateway_secret_names env rq)"
| "needs env Validate_can_update_gateway_secret rq =
     current_name_needs GATEWAY_SECRET can_update (get_gateway_secret_name_for_update env rq)"
| "needs env Validate_can_delete_gateway_secret rq = names_needs GATEWAY_SECRET can_manage env (all_gateway_secret_names env rq)"
| "needs env Validate_can_read_gateway_model_definition rq =
     names_needs GATEWAY_MODEL_DEFINITION can_read env (all_gateway_model_definition_names env rq)"
| "needs env Validate_can_update_gateway_model_definition rq =
     current_name_needs GATEWAY_MODEL_DEFINITION can_update (get_gateway_model_definition_name_for_update env rq)"
| "needs env Validate_can_delete_gateway_model_definition rq =
     names_needs GATEWAY_MODEL_DEFINITION can_manage env (all_gateway_model_definition_names env rq)"
| "needs env Validate_can_read_logged_model rq = logged_model_needs can_read env rq"
| "needs env Validate_can_delete_logged_model rq = logged_model_needs can_delete env rq"
| "needs env Validate_can_update_logged_model rq = logged_model_needs can_update env rq"
| "needs env Validate_can_create_workspace rq =
     (if \<not> MLFLOW_ENABLE_WORKSPACES (e_config (qe_env env)) then None
      else res_needs (get_auth_context env) (\<lambda>cx. if cx_is_admin cx then Some [] else None))"
| "needs env Validate_can_read_workspace rq = workspace_needs can_read env rq"
| "needs env Validate_can_list_workspaces rq = (if MLFLOW_ENABLE_WORKSPACES (e_config (qe_env env)) then Some [] else None)"
| "needs env Validate_can_update_workspace rq = workspace_needs can_manage env rq"
| "needs env Validate_can_delete_workspace rq = workspace_needs can_manage env rq"
| "needs env Validate_can_read_run_artifact rq = run_param_needs can_read env rq"
| "needs env Validate_can_update_run_artifact rq =
     (case map_of (fq_args rq) ''run_uuid'' of Some (c # cs) \<Rightarrow> run_needs can_update env (JStr (c # cs)) | _ \<Rightarrow> None)"
| "needs env Validate_can_read_model_version_artifact rq = model_needs can_read env rq"
| "needs env Validate_can_read_trace_artifact rq =
     res_needs (bindE (get_request_param rq ''request_id'') (qe_trace_experiment env)) (on_experiment can_read)"
| "needs env Validate_can_read_metric_history_bulk rq =
     some_needs (\<lambda>r. run_needs can_read env (JStr r)) (getlist (fq_args rq) ''run_id'')"
| "needs env Validate_can_read_metric_history_bulk_interval rq =
     all_needs (\<lambda>r. run_needs can_read env (JStr r))
       (if getlist (fq_args rq) ''run_ids'' = [] then getlist (fq_args rq) ''run_id'' else getlist (fq_args rq) ''run_ids'')"
| "needs env Validate_can_search_datasets rq =
     res_needs (dataset_experiment_ids rq) (some_needs (\<lambda>v. on_experiment can_read (text_of env v)))"
| "needs env Validate_can_create_promptlab_run rq =
     res_needs (get_request_param rq ''experiment_id'') (\<lambda>v. on_experiment can_update (text_of env v))"
| "needs env Validate_gateway_proxy rq =
     (case extract_gateway_name env rq of
        Some nm \<Rightarrow> Some [On_resource GATEWAY_ENDPOINT nm (if fq_method rq = ''GET'' then can_use else can_update)]
      | None \<Rightarrow> if fq_method rq = ''GET'' then Some [On_any_endpoint] else None)"
| "needs env Validate_can_invoke_scorer rq =
     (let args = (case get_json_silent rq of JObj kvs \<Rightarrow> kvs | _ \<Rightarrow> []); eid = jget args ''experiment_id'' in
      if \<not> truthy eid then None
      else on_experiment (if truthy (jget args ''log_assessments'') then can_update else can_read) (text_of env eid))"
| "needs env Deny_non_admin rq = None"
| "needs env Validate_can_read_experiment_artifact_proxy rq = proxy_needs can_read env rq"
| "needs env Validate_can_update_experiment_artifact_proxy rq = proxy_needs can_update env rq"
| "needs env Validate_can_delete_experiment_artifact_proxy rq = proxy_needs can_delete env rq"
| "needs env Validate_can_read_scorer rq = None"
| "needs env Validate_can_delete_scorer rq = None"

definition scorer_validators :: "validator list" where
  "scorer_validators = [Validate_can_read_scorer, Validate_can_delete_scorer]"

definition authorised :: "('c, 'w) request_env \<Rightarrow> db \<Rightarrow> string \<Rightarrow> validator \<Rightarrow> flask_request \<Rightarrow> bool" where
  "authorised env d uname v rq =
     (case needs env v rq of None \<Rightarrow> False | Some l \<Rightarrow> list_all (meets (resolver_env env) d uname) l)"

text \<open>The rule of creations in workspaces: the workspace must be known and managed, or be none.\<close>

definition creation_allowed :: "('c, 'w) request_env \<Rightarrow> db \<Rightarrow> string \<Rightarrow> bool" where
  "creation_allowed env d uname =
     (case get_request_workspace env of
        None \<Rightarrow> \<not> OIDC_WORKSPACE_REQUIRE_CREATION_CONTEXT env \<and> \<not> OIDC_WORKSPACE_DENY_DEFAULT_CREATION env
      | Some ws \<Rightarrow> meets (resolver_env env) d uname (On_workspace ws can_manage) \<and>
          (ws = qe_default_workspace env \<longrightarrow> \<not> OIDC_WORKSPACE_DENY_DEFAULT_CREATION env))"

subsection \<open>Checks that agree with needs\<close>

definition agrees :: "('c, 'w) env \<Rightarrow> db \<Rightarrow> string \<Rightarrow> ('c, 'w, bool) check \<Rightarrow> need list option \<Rightarrow> bool" where
  "agrees env d uname m ns \<longleftrightarrow>
     (ns = None \<longrightarrow> (\<forall>s. fst (m s) \<noteq> Inr True)) \<and>
     (\<forall>l. ns = Some l \<and> list_all plain_need l \<longrightarrow>
        (\<forall>s. coherent env s \<and> a_db s = d \<longrightarrow>
           (fst (m s) = Inr True \<longleftrightarrow> list_all (meets env d uname) l) \<and> coherent env (snd (m s)) \<and> a_db (snd (m s)) = d))"

lemma agrees_NoneI: "(\<And>s. fst (m s) \<noteq> Inr True) \<Longrightarrow> agrees env d uname m None"
  by (simp add: agrees_def)

lemma agrees_SomeI:
  assumes "\<And>s. list_all plain_need l \<Longrightarrow> coherent env s \<Longrightarrow> a_db s = d \<Longrightarrow>
      (fst (m s) = Inr True \<longleftrightarrow> list_all (meets env d uname) l) \<and> coherent env (snd (m s)) \<and> a_db (snd (m s)) = d"
  shows "agrees env d uname m (Some l)"
  using assms by (simp add: agrees_def)

lemma agreesD:
  assumes "agrees env d uname m ns" and "\<forall>l. ns = Some l \<longrightarrow> list_all plain_need l" and "coherent env s" and "a_db s = d"
  shows "fst (m s) = Inr True \<longleftrightarrow> (\<exists>l. ns = Some l \<and> list_all (meets env d uname) l)"
  using assms by (cases ns) (auto simp: agrees_def)

lemma allowed_bind [simp]: "allowed can (bind_check m f) = bind_check m (\<lambda>x. allowed can (f x))"
  by (auto simp: allowed_def bind_check_def fun_eq_iff split: prod.splits sum.splits)

lemma allowed_lift [simp]: "allowed can (lift_res r) = lift_res (bindE r (\<lambda>p. Inr (can p)))"
  by (auto simp: allowed_def bind_check_def lift_res_def fun_eq_iff bindE_def split: sum.splits)

lemma bind_lift [simp]: "bind_check (lift_res (Inr x)) f = f x" "bind_check (lift_res (Inl e)) f = lift_res (Inl e)"
  by (simp_all add: bind_check_def lift_res_def fun_eq_iff)

lemma allowed_permission [simp]:
  "fst (allowed can (permission_of m) s) = bindE (fst (m s)) (\<lambda>r. Inr (can (pr_permission r)))"
  "snd (allowed can (permission_of m) s) = snd (m s)"
  by (auto simp: permission_of_def allowed_def bind_check_def lift_res_def split: prod.splits sum.splits)

lemma flag_of_sel [simp]:
  "fst (flag_of can r) = bindE (fst r) (\<lambda>x. Inr (can (pr_permission x)))" "snd (flag_of can r) = snd r"
  by (simp_all add: flag_of_def case_prod_beta)

lemma agrees_true: "agrees env d uname (lift_res (Inr True)) (Some [])"
  by (rule agrees_SomeI) (simp add: lift_res_def)

lemma agrees_false: "agrees env d uname (lift_res (Inr False)) None" "agrees env d uname (lift_res (Inl e)) None"
  by (rule agrees_NoneI, simp add: lift_res_def)+

lemma agrees_bind:
  assumes "\<And>x. r = Inr x \<Longrightarrow> agrees env d uname (f x) (ns x)"
  shows "agrees env d uname (bind_check (lift_res r) f) (res_needs r ns)"
  using assms by (cases r) (simp_all add: res_needs_def agrees_false)

lemma agrees_lift_bool: "agrees env d uname (lift_res (bindE r (\<lambda>p. Inr (can p)))) (res_needs r (\<lambda>p. if can p then Some [] else None))"
  by (cases r) (simp_all add: res_needs_def agrees_false agrees_true)

lemma all_check_cons:
  "fst (all_check f (x # xs) s) = Inr True \<longleftrightarrow> fst (f x s) = Inr True \<and> fst (all_check f xs (snd (f x s))) = Inr True"
  by (auto simp: bind_check_def lift_res_def split: prod.splits sum.splits)

lemma all_check_state:
  "snd (all_check f (x # xs) s) = (if fst (f x s) = Inr True then snd (all_check f xs (snd (f x s))) else snd (f x s))"
  by (auto simp: bind_check_def lift_res_def split: prod.splits sum.splits)

lemma agrees_all:
  assumes "\<And>x. x \<in> set xs \<Longrightarrow> agrees env d uname (f x) (ns x)"
  shows "agrees env d uname (all_check f xs) (all_needs ns xs)"
  using assms
proof (induction xs)
  case Nil
  then show ?case by (simp add: agrees_true)
next
  case (Cons x xs)
  then have x: "agrees env d uname (f x) (ns x)" and xs: "agrees env d uname (all_check f xs) (all_needs ns xs)" by auto
  show ?case
  proof (cases "ns x")
    case None
    with x show ?thesis by (auto simp: agrees_def all_check_cons simp del: all_check.simps)
  next
    case l: (Some l)
    show ?thesis
    proof (cases "all_needs ns xs")
      case None
      with xs l show ?thesis by (auto simp: agrees_def all_check_cons simp del: all_check.simps)
    next
      case (Some ls)
      with l x xs show ?thesis by (simp add: agrees_def all_check_cons all_check_state del: all_check.simps)
    qed
  qed
qed

lemma agrees_some:
  assumes "\<And>x. x \<in> set xs \<Longrightarrow> agrees env d uname (f x) (ns x)" and "\<And>s. fst (m s) \<noteq> Inr True"
  shows "agrees env d uname (if xs = [] then m else all_check f xs) (some_needs ns xs)"
  using agrees_all [OF assms(1), of xs id] assms(2) by (cases xs) (simp_all add: some_needs_def agrees_NoneI)

lemma some_needs_map: "some_needs f (map g xs) = some_needs (\<lambda>x. f (g x)) xs"
proof -
  have "all_needs f (map g xs) = all_needs (\<lambda>x. f (g x)) xs" by (induction xs) (simp_all split: option.splits)
  then show ?thesis by (simp add: some_needs_def)
qed

lemma text_of_string [simp]: "text_of env (JStr x) = x"
  by (simp add: text_of_def)

subsection \<open>Every validator agrees with its needs\<close>

locale authorization = resolver_caches pc wc
  for pc :: "('c, permission_result) cache_ops" and wc :: "('w, permission) cache_ops" +
  fixes env :: "('c, 'w) request_env" and cx :: auth_context
  assumes caches: "e_pc (qe_env env) = pc" "e_wc (qe_env env) = wc"
    and request_context: "qe_context env = Some cx"
    and plain: "plain_workspace (cx_workspace cx)"
begin

lemma renv: "e_pc (resolver_env env) = pc" "e_wc (resolver_env env) = wc" "plain_workspace (e_workspace (resolver_env env))"
  using caches request_context plain by (simp_all add: resolver_env_def get_request_workspace_def get_auth_context_def)

lemma agrees_resource:
  assumes "rtype \<in> set resource_types" and "rtype \<noteq> SCORER"
  shows "agrees (resolver_env env) d uname (allowed can (permission_of (\<lambda>s. resolve_permission (resolver_env env) s rtype rid uname None)))
      (Some [On_resource rtype rid can])"
    and "agrees (resolver_env env) d uname (\<lambda>s. flag_of can (resolve_permission (resolver_env env) s rtype rid uname None))
      (Some [On_resource rtype rid can])"
proof -
  have run: "fst (resolve_permission (resolver_env env) s rtype rid uname None) = decide (resolver_env env) d rtype rid uname None"
    "coherent (resolver_env env) (snd (resolve_permission (resolver_env env) s rtype rid uname None))"
    "a_db (snd (resolve_permission (resolver_env env) s rtype rid uname None)) = d"
    if "colon_free rid" "coherent (resolver_env env) s" "a_db s = d" for s
    using resolve_decision [OF renv that(1) assms(1) that(2) prod.collapse [symmetric]] assms(2) that(3) by auto
  show "agrees (resolver_env env) d uname (allowed can (permission_of (\<lambda>s. resolve_permission (resolver_env env) s rtype rid uname None)))
      (Some [On_resource rtype rid can])"
    by (rule agrees_SomeI) (simp add: run split: sum.splits)
  show "agrees (resolver_env env) d uname (\<lambda>s. flag_of can (resolve_permission (resolver_env env) s rtype rid uname None))
      (Some [On_resource rtype rid can])"
    by (rule agrees_SomeI) (simp add: run split: sum.splits)
qed

lemma experiment_agrees:
  "agrees (resolver_env env) d uname (allowed can (experiment_permission env eid uname)) (on_experiment can eid)"
  using agrees_resource(1) [of EXPERIMENT]
  by (simp add: experiment_permission_def effective_experiment_permission_def on_experiment_def resource_types_def)

lemma model_agrees:
  "agrees (resolver_env env) d uname (allowed can (registered_model_permission env nm uname)) (Some [On_resource REGISTERED_MODEL nm can])"
  using agrees_resource(1) [of REGISTERED_MODEL]
  by (simp add: registered_model_permission_def effective_registered_model_permission_def resource_types_def)

lemma gateway_agrees:
  "agrees (resolver_env env) d uname (\<lambda>s. flag_of can (effective_gateway_endpoint_permission (resolver_env env) s nm uname))
     (Some [On_resource GATEWAY_ENDPOINT nm can])"
  "agrees (resolver_env env) d uname (\<lambda>s. flag_of can (effective_gateway_secret_permission (resolver_env env) s nm uname))
     (Some [On_resource GATEWAY_SECRET nm can])"
  "agrees (resolver_env env) d uname (\<lambda>s. flag_of can (effective_gateway_model_definition_permission (resolver_env env) s nm uname))
     (Some [On_resource GATEWAY_MODEL_DEFINITION nm can])"
  using agrees_resource(2) [of GATEWAY_ENDPOINT] agrees_resource(2) [of GATEWAY_SECRET] agrees_resource(2) [of GATEWAY_MODEL_DEFINITION]
  by (simp_all add: effective_gateway_endpoint_permission_def effective_gateway_secret_permission_def
      effective_gateway_model_definition_permission_def resource_types_def)

lemma new_resource_agrees:
  "agrees (resolver_env env) d uname
     (allowed can_update (permission_of (\<lambda>s. effective_new_experiment_permission (resolver_env env) s nm uname))) (Some [On_new_experiment nm])"
  "agrees (resolver_env env) d uname
     (allowed can_update (permission_of (\<lambda>s. effective_new_registered_model_permission (resolver_env env) s nm uname)))
     (Some [On_new_registered_model nm])"
proof -
  have fb: "fst (apply_workspace_fallback (resolver_env env) (a_db s) (a_wc s) r uname) = workspace_decision (resolver_env env) (a_db s) r uname"
    "coherent (resolver_env env) (s\<lparr>a_wc := snd (apply_workspace_fallback (resolver_env env) (a_db s) (a_wc s) r uname)\<rparr>)"
    if "coherent (resolver_env env) s" for s r
    using fallback_decision [OF renv(2,3) _ prod.collapse [symmetric], of "a_db s" "a_wc s" r uname] that renv(1,2)
    by (auto simp: coherent_def)
  show "agrees (resolver_env env) d uname
     (allowed can_update (permission_of (\<lambda>s. effective_new_experiment_permission (resolver_env env) s nm uname))) (Some [On_new_experiment nm])"
    by (rule agrees_SomeI) (use fb in \<open>auto simp: effective_new_experiment_permission_def case_prod_beta Let_def split: sum.splits\<close>)
  show "agrees (resolver_env env) d uname
     (allowed can_update (permission_of (\<lambda>s. effective_new_registered_model_permission (resolver_env env) s nm uname)))
     (Some [On_new_registered_model nm])"
    by (rule agrees_SomeI) (use fb in \<open>auto simp: effective_new_registered_model_permission_def case_prod_beta Let_def split: sum.splits\<close>)
qed

lemma cached_workspace_decides:
  assumes "MLFLOW_ENABLE_WORKSPACES (e_config (qe_env env))" and "ws \<noteq> []" and "colon_free ws" and "coherent (resolver_env env) s"
  shows "fst (cached_workspace_permission env uname ws s) =
      lookup_workspace_permission (e_config (resolver_env env)) (e_re_match (resolver_env env)) (a_db s) uname ws"
    and "coherent (resolver_env env) (snd (cached_workspace_permission env uname ws s))"
    and "a_db (snd (cached_workspace_permission env uname ws s)) = a_db s"
proof -
  have en: "MLFLOW_ENABLE_WORKSPACES (e_config (resolver_env env))" using assms(1) by (simp add: resolver_env_def)
  have wsc: "ws_coherent (e_config (resolver_env env)) (e_re_match (resolver_env env)) wc (a_db s) (a_wc s)"
    using assms(4) renv(2) by (simp add: coherent_def)
  note look = cached_lookup [OF wsc en assms(2,3) prod.collapse [symmetric], of uname]
  show "fst (cached_workspace_permission env uname ws s) =
      lookup_workspace_permission (e_config (resolver_env env)) (e_re_match (resolver_env env)) (a_db s) uname ws"
    using look by (simp add: cached_workspace_permission_def Let_def case_prod_beta renv(2))
  show "coherent (resolver_env env) (snd (cached_workspace_permission env uname ws s))"
    using look assms(4) by (simp add: cached_workspace_permission_def Let_def case_prod_beta renv(1,2) coherent_def)
  show "a_db (snd (cached_workspace_permission env uname ws s)) = a_db s"
    by (simp add: cached_workspace_permission_def Let_def case_prod_beta)
qed

lemma workspace_agrees:
  "agrees (resolver_env env) d (cx_username cx) (on_workspace can env rq) (workspace_needs can env rq)"
proof (cases "MLFLOW_ENABLE_WORKSPACES (e_config (qe_env env)) \<and> \<not> cx_is_admin cx")
  case True
  then have ctx: "get_auth_context env = Inr cx" using request_context by (simp add: get_auth_context_def)
  show ?thesis
  proof (cases "extract_workspace_name_from_path rq")
    case None
    with True ctx show ?thesis by (simp add: on_workspace_def workspace_needs_def res_needs_def agrees_false)
  next
    case (Some ws)
    have "agrees (resolver_env env) d (cx_username cx)
        (\<lambda>s. case cached_workspace_permission env (cx_username cx) ws s of
               (perm, s') \<Rightarrow> (Inr (case perm of Some p \<Rightarrow> can p | None \<Rightarrow> False), s')) (Some [On_workspace ws can])"
      by (rule agrees_SomeI) (use True cached_workspace_decides [of ws _ "cx_username cx"] in \<open>auto simp: case_prod_beta split: option.splits\<close>)
    with True ctx Some show ?thesis by (simp add: on_workspace_def workspace_needs_def res_needs_def)
  qed
next
  case False
  then show ?thesis using request_context
    by (auto simp: on_workspace_def workspace_needs_def res_needs_def get_auth_context_def agrees_false agrees_true)
qed

lemma param_agrees:
  "agrees (resolver_env env) d uname (allowed can (get_permission_from_experiment_id env rq uname)) (experiment_needs can env rq)"
  "agrees (resolver_env env) d uname (allowed can (get_permission_from_registered_model_name env rq uname)) (model_needs can env rq)"
  "agrees (resolver_env env) d uname (allowed can (get_permission_from_model_id env rq uname)) (logged_model_needs can env rq)"
  "agrees (resolver_env env) d uname (allowed can (permission_for_run env run_id uname)) (run_needs can env run_id)"
  "agrees (resolver_env env) d uname (allowed can (get_permission_from_run_id env rq uname)) (run_param_needs can env rq)"
  "agrees (resolver_env env) d uname (allowed can (get_permission_from_prompt_optimization_job_id env rq uname)) (job_needs can env rq)"
  unfolding get_permission_from_experiment_id_def experiment_needs_def get_permission_from_registered_model_name_def model_needs_def
    get_permission_from_model_id_def logged_model_needs_def permission_for_run_def run_needs_def get_permission_from_run_id_def
    run_param_needs_def get_permission_from_prompt_optimization_job_id_def job_needs_def allowed_bind
  by (intro agrees_bind experiment_agrees model_agrees)+

lemma proxy_agrees:
  "agrees (resolver_env env) d uname (allowed can (get_permission_from_experiment_id_artifact_proxy env rq uname)) (proxy_needs can env rq)"
  unfolding get_permission_from_experiment_id_artifact_proxy_def proxy_needs_def
  by (cases "get_experiment_id_from_view_args env rq") (simp_all add: experiment_agrees agrees_lift_bool)

lemma list_agrees:
  "agrees (resolver_env env) d uname (can_on_experiment can env uname v) (on_experiment can (text_of env v))"
  unfolding can_on_experiment_def by (rule experiment_agrees)

lemma resolved_agrees:
  "agrees (resolver_env env) d uname
     (case r of Inl e \<Rightarrow> lift_res (Inr False) | Inr eid \<Rightarrow> allowed can (experiment_permission env eid uname)) (res_needs r (on_experiment can))"
  by (cases r) (simp_all add: res_needs_def agrees_false experiment_agrees)

lemma trace_agrees: "agrees (resolver_env env) d uname (require_on_all_traces env rq uname can) (trace_needs can env rq)"
  unfolding require_on_all_traces_def trace_needs_def
  by (intro agrees_bind agrees_some resolved_agrees) (simp add: lift_res_def)

lemma read_all_agrees:
  "agrees (resolver_env env) d uname (require_read_on_all env uname ids) (some_needs (\<lambda>v. on_experiment can_read (text_of env v)) ids)"
  unfolding require_read_on_all_def by (intro agrees_some list_agrees) (simp add: lift_res_def)

lemma names_agrees:
  assumes "\<And>nm. agrees (resolver_env env) d uname (\<lambda>s. can s nm uname) (Some [On_resource rtype nm c])"
  shows "agrees (resolver_env env) d uname (on_all_names can env names uname) (names_needs rtype c env names)"
    and "agrees (resolver_env env) d uname (on_current_name can nm uname) (current_name_needs rtype c nm)"
proof -
  show "agrees (resolver_env env) d uname (on_all_names can env names uname) (names_needs rtype c env names)"
    unfolding on_all_names_def names_needs_def by (intro agrees_bind agrees_some assms) (simp add: lift_res_def)
  show "agrees (resolver_env env) d uname (on_current_name can nm uname) (current_name_needs rtype c nm)"
    using assms by (auto simp: on_current_name_def current_name_needs_def agrees_false split: option.splits list.splits)
qed

lemma by_name_agrees:
  "agrees (resolver_env env) d uname (validate_can_read_experiment_by_name env rq uname) (needs env Validate_can_read_experiment_by_name rq)"
  unfolding validate_can_read_experiment_by_name_def get_permission_from_experiment_name_def allowed_bind needs.simps
proof (intro agrees_bind)
  fix nm found
  have "get_permission ''MANAGE'' = Inr MANAGE" "can_read MANAGE" by code_simp+
  then show "agrees (resolver_env env) d uname
      (allowed can_read (case found of None \<Rightarrow> lift_res (get_permission ''MANAGE'') | Some eid \<Rightarrow> experiment_permission env eid uname))
      (case found of None \<Rightarrow> Some [] | Some eid \<Rightarrow> on_experiment can_read eid)"
    by (cases found) (simp_all add: agrees_true experiment_agrees)
qed

lemma gateway_proxy_agrees:
  "agrees (resolver_env env) d uname (validate_gateway_proxy env rq uname) (needs env Validate_gateway_proxy rq)"
proof -
  have any: "agrees (resolver_env env) d uname (\<lambda>s. (any_use (list_gateway_endpoint_permissions (a_db s) uname), s)) (Some [On_any_endpoint])"
    by (rule agrees_SomeI) simp
  show ?thesis
    by (cases "extract_gateway_name env rq") (simp_all add: validate_gateway_proxy_def can_use_gateway_endpoint_def
        can_update_gateway_endpoint_def any gateway_agrees agrees_false)
qed

lemma trace_ids_agrees:
  "agrees (resolver_env env) d uname (validate_can_read_traces_from_trace_ids env rq uname) (needs env Validate_can_read_traces_from_trace_ids rq)"
proof (cases "mapE (qe_trace_experiment env) (all_trace_ids_from_batch rq)")
  case (Inr eids)
  have "agrees (resolver_env env) d uname (require_read_on_all env uname (map JStr eids)) (some_needs (on_experiment can_read) eids)"
    using read_all_agrees [of d uname "map JStr eids"] by (simp add: some_needs_map)
  with Inr show ?thesis by (simp add: validate_can_read_traces_from_trace_ids_def Let_def res_needs_def agrees_false)
qed (simp add: validate_can_read_traces_from_trace_ids_def Let_def res_needs_def agrees_false)

lemma promptlab_agrees:
  "agrees (resolver_env env) d uname (validate_can_create_promptlab_run env rq uname) (needs env Validate_can_create_promptlab_run rq)"
proof (cases "get_request_param rq ''experiment_id''")
  case (Inl e)
  then show ?thesis by (cases e) (simp_all add: validate_can_create_promptlab_run_def res_needs_def agrees_false)
next
  case (Inr v)
  then show ?thesis by (simp add: validate_can_create_promptlab_run_def res_needs_def list_agrees)
qed

lemma list_validators_agree:
  "agrees (resolver_env env) d uname (validate_can_read_experiments_from_experiment_ids env rq uname)
     (needs env Validate_can_read_experiments_from_experiment_ids rq)"
  "agrees (resolver_env env) d uname (validate_can_read_traces_from_experiment_ids env rq uname)
     (needs env Validate_can_read_traces_from_experiment_ids rq)"
  "agrees (resolver_env env) d uname (validate_can_delete_traces_from_experiment_id env rq uname)
     (needs env Validate_can_delete_traces_from_experiment_id rq)"
  "agrees (resolver_env env) d uname (validate_can_update_trace_from_run_id env rq uname) (needs env Validate_can_update_trace_from_run_id rq)"
  "agrees (resolver_env env) d uname (validate_can_search_datasets env rq uname) (needs env Validate_can_search_datasets rq)"
  "agrees (resolver_env env) d uname (validate_can_read_metric_history_bulk env rq uname) (needs env Validate_can_read_metric_history_bulk rq)"
  "agrees (resolver_env env) d uname (validate_can_read_metric_history_bulk_interval env rq uname)
     (needs env Validate_can_read_metric_history_bulk_interval rq)"
  unfolding validate_can_read_experiments_from_experiment_ids_def validate_can_read_traces_from_experiment_ids_def
    validate_can_delete_traces_from_experiment_id_def validate_can_update_trace_from_run_id_def validate_can_search_datasets_def
    validate_can_read_metric_history_bulk_def validate_can_read_metric_history_bulk_interval_def needs.simps Let_def
       apply (intro agrees_bind agrees_all list_agrees)
      apply (intro agrees_bind read_all_agrees)
     apply (intro agrees_some list_agrees, simp add: lift_res_def)
    apply (intro agrees_bind agrees_some, unfold run_needs_def, rule resolved_agrees, simp add: lift_res_def)
   apply (intro agrees_bind agrees_some list_agrees, simp add: lift_res_def)
  apply (intro agrees_some, fold run_needs_def, rule param_agrees, simp add: lift_res_def)
  by (intro agrees_all param_agrees)

lemma artifact_validators_agree:
  "agrees (resolver_env env) d uname (validate_can_update_run_artifact env rq uname) (needs env Validate_can_update_run_artifact rq)"
  "agrees (resolver_env env) d uname (validate_can_read_trace_artifact env rq uname) (needs env Validate_can_read_trace_artifact rq)"
  "agrees (resolver_env env) d uname (validate_can_invoke_scorer env rq uname) (needs env Validate_can_invoke_scorer rq)"
proof -
  show "agrees (resolver_env env) d uname (validate_can_update_run_artifact env rq uname) (needs env Validate_can_update_run_artifact rq)"
    by (auto simp: validate_can_update_run_artifact_def agrees_false param_agrees split: option.splits list.splits)
  show "agrees (resolver_env env) d uname (validate_can_read_trace_artifact env rq uname) (needs env Validate_can_read_trace_artifact rq)"
    unfolding validate_can_read_trace_artifact_def get_permission_from_trace_request_id_def needs.simps allowed_bind
    by (intro agrees_bind experiment_agrees)
  show "agrees (resolver_env env) d uname (validate_can_invoke_scorer env rq uname) (needs env Validate_can_invoke_scorer rq)"
    by (simp add: validate_can_invoke_scorer_def Let_def agrees_false list_agrees)
qed

lemma workspace_validators_agree:
  "agrees (resolver_env env) d (cx_username cx) (validate_can_create_workspace env rq (cx_username cx)) (needs env Validate_can_create_workspace rq)"
  "agrees (resolver_env env) d uname (validate_can_list_workspaces env rq uname) (needs env Validate_can_list_workspaces rq)"
  using request_context
  by (auto simp: validate_can_create_workspace_def validate_can_list_workspaces_def get_auth_context_def res_needs_def agrees_true agrees_false)

lemma creation_validators_agree:
  "agrees (resolver_env env) d uname (validate_can_create_experiment env rq uname) (needs env Validate_can_create_experiment rq)"
  "agrees (resolver_env env) d uname (validate_can_create_registered_model env rq uname) (needs env Validate_can_create_registered_model rq)"
  unfolding validate_can_create_experiment_def validate_can_create_registered_model_def needs.simps
  by (auto intro!: agrees_bind new_resource_agrees agrees_true)

lemma gateway_validators_agree:
  "agrees (resolver_env env) d uname (validate_can_read_gateway_endpoint env rq uname) (needs env Validate_can_read_gateway_endpoint rq)"
  "agrees (resolver_env env) d uname (validate_can_update_gateway_endpoint env rq uname) (needs env Validate_can_update_gateway_endpoint rq)"
  "agrees (resolver_env env) d uname (validate_can_delete_gateway_endpoint env rq uname) (needs env Validate_can_delete_gateway_endpoint rq)"
  "agrees (resolver_env env) d uname (validate_can_read_gateway_secret env rq uname) (needs env Validate_can_read_gateway_secret rq)"
  "agrees (resolver_env env) d uname (validate_can_update_gateway_secret env rq uname) (needs env Validate_can_update_gateway_secret rq)"
  "agrees (resolver_env env) d uname (validate_can_delete_gateway_secret env rq uname) (needs env Validate_can_delete_gateway_secret rq)"
  "agrees (resolver_env env) d uname (validate_can_read_gateway_model_definition env rq uname)
     (needs env Validate_can_read_gateway_model_definition rq)"
  "agrees (resolver_env env) d uname (validate_can_update_gateway_model_definition env rq uname)
     (needs env Validate_can_update_gateway_model_definition rq)"
  "agrees (resolver_env env) d uname (validate_can_delete_gateway_model_definition env rq uname)
     (needs env Validate_can_delete_gateway_model_definition rq)"
  unfolding validate_can_read_gateway_endpoint_def validate_can_update_gateway_endpoint_def validate_can_delete_gateway_endpoint_def
    validate_can_read_gateway_secret_def validate_can_update_gateway_secret_def validate_can_delete_gateway_secret_def
    validate_can_read_gateway_model_definition_def validate_can_update_gateway_model_definition_def
    validate_can_delete_gateway_model_definition_def can_read_gateway_endpoint_def can_update_gateway_endpoint_def
    can_manage_gateway_endpoint_def can_read_gateway_secret_def can_update_gateway_secret_def can_manage_gateway_secret_def
    can_read_gateway_model_definition_def can_update_gateway_model_definition_def can_manage_gateway_model_definition_def needs.simps
  by (intro names_agrees gateway_agrees)+

theorem validator_agrees:
  assumes "v \<notin> set scorer_validators"
  shows "agrees (resolver_env env) d (cx_username cx) (run_validator env v rq (cx_username cx)) (needs env v rq)"
  using assms
  by (cases v) (simp_all only: run_validator.simps by_name_agrees gateway_proxy_agrees trace_ids_agrees promptlab_agrees list_validators_agree
      artifact_validators_agree workspace_validators_agree creation_validators_agree gateway_validators_agree,
    simp_all add: validate_can_read_experiment_def validate_can_update_experiment_def validate_can_delete_experiment_def
      validate_can_read_registered_model_def validate_can_update_registered_model_def validate_can_delete_registered_model_def
      validate_can_read_logged_model_def validate_can_update_logged_model_def validate_can_delete_logged_model_def
      validate_can_read_run_def validate_can_update_run_def validate_can_delete_run_def validate_can_read_run_artifact_def
      validate_can_read_model_version_artifact_def get_permission_from_model_version_def
      validate_can_read_prompt_optimization_job_def validate_can_update_prompt_optimization_job_def validate_can_delete_prompt_optimization_job_def
      validate_can_read_experiment_artifact_proxy_def validate_can_update_experiment_artifact_proxy_def
      validate_can_delete_experiment_artifact_proxy_def validate_can_read_trace_def validate_can_update_trace_def
      validate_can_read_workspace_def validate_can_update_workspace_def validate_can_delete_workspace_def validate_can_create_gateway_def
      deny_non_admin_def param_agrees proxy_agrees trace_agrees workspace_agrees agrees_true agrees_false scorer_validators_def)

lemma creation_checked:
  assumes "MLFLOW_ENABLE_WORKSPACES (e_config (qe_env env))" and "cx_workspace cx \<noteq> Some []" and "coherent (resolver_env env) s"
    and "workspace_creation_refused env uname s = (False, s')"
  shows "creation_allowed env (a_db s) uname" and "coherent (resolver_env env) s'" and "a_db s' = a_db s"
proof -
  have ws: "get_request_workspace env = cx_workspace cx"
    using request_context by (simp add: get_request_workspace_def get_auth_context_def)
  have "creation_allowed env (a_db s) uname \<and> coherent (resolver_env env) s' \<and> a_db s' = a_db s"
  proof (cases "cx_workspace cx")
    case None
    with assms(3,4) ws show ?thesis by (auto simp: workspace_creation_refused_def creation_allowed_def Let_def split: if_splits)
  next
    case (Some w)
    with assms(2) obtain c cs where w: "w = c # cs" by (cases w) auto
    have "colon_free w" using plain Some by (simp add: plain_workspace_def)
    note look = cached_workspace_decides [OF assms(1) _ this assms(3), of uname]
    from assms(4) Some w ws look show ?thesis
      by (auto simp: workspace_creation_refused_def creation_allowed_def Let_def case_prod_beta split: if_splits option.splits)
  qed
  then show "creation_allowed env (a_db s) uname" "coherent (resolver_env env) s'" "a_db s' = a_db s" by auto
qed

lemma run_checked:
  assumes "v \<notin> set scorer_validators" and "\<forall>l. needs env v rq = Some l \<longrightarrow> list_all plain_need l"
    and "coherent (resolver_env env) s" and "fst (verdict (run_validator env v rq (cx_username cx) s)) = Continue"
  shows "authorised env (a_db s) (cx_username cx) v rq"
  using agreesD [OF validator_agrees [OF assms(1)] assms(2,3) refl] assms(4)
  by (auto simp: verdict_def authorised_def split: sum.splits if_splits)

lemma proxy_validators: "get_proxy_artifact_validator srv m path = Some v \<Longrightarrow> v \<notin> set scorer_validators"
  by (auto simp: get_proxy_artifact_validator_def Let_def scorer_validators_def split: if_splits)

lemma authorize_checked:
  assumes "\<forall>v. h = Bound v \<longrightarrow> v \<notin> set scorer_validators" and "\<forall>v l. (h = Bound v \<or> get_proxy_artifact_validator (qe_server env) (fq_method rq) (fq_path rq) = Some v) \<and> needs env v rq = Some l \<longrightarrow> list_all plain_need l"
    and "coherent (resolver_env env) s" and "fst (authorize env rq (cx_username cx) h s) = Continue"
  shows "case h of Bound v \<Rightarrow> authorised env (a_db s) (cx_username cx) v rq | Foreign f \<Rightarrow> False
    | Unbound \<Rightarrow> is_proxy_artifact_path (qe_server env) (fq_path rq) \<longrightarrow> fq_method rq = ''OPTIONS'' \<or>
        (\<exists>v. get_proxy_artifact_validator (qe_server env) (fq_method rq) (fq_path rq) = Some v \<and> authorised env (a_db s) (cx_username cx) v rq)"
proof (cases h)
  case (Bound v)
  then have "\<forall>l. needs env v rq = Some l \<longrightarrow> list_all plain_need l" using assms(2) by blast
  with Bound assms(1,3,4) run_checked [of v rq s] show ?thesis by (simp add: authorize_def)
next
  case Unbound
  show ?thesis
  proof (cases "get_proxy_artifact_validator (qe_server env) (fq_method rq) (fq_path rq)")
    case None
    with Unbound assms(4) show ?thesis by (auto simp: authorize_def split: if_splits)
  next
    case (Some v)
    then have "\<forall>l. needs env v rq = Some l \<longrightarrow> list_all plain_need l" using assms(2) by blast
    with Some Unbound assms(3,4) run_checked [OF proxy_validators [OF Some], of rq s] show ?thesis by (auto simp: authorize_def split: if_splits)
  qed
next
  case (Foreign f)
  with assms(4) show ?thesis by (simp add: authorize_def)
qed

theorem continue_checked:
  assumes ctx: "cx_username cx \<noteq> []" "\<not> cx_is_admin cx" "cx_workspace cx \<noteq> Some []" and path: "\<not> is_unprotected_path (fq_path rq)"
    and scorers: "\<forall>v. h = Bound v \<longrightarrow> v \<notin> set scorer_validators" and names: "\<forall>v l. (h = Bound v \<or> get_proxy_artifact_validator (qe_server env) (fq_method rq) (fq_path rq) = Some v) \<and> needs env v rq = Some l \<longrightarrow> list_all plain_need l"
    and coh: "coherent (resolver_env env) s" and h: "h = fst (find_validator (qe_server env) rq empty_g)"
    and run: "before_request_hook env rq s = (Continue, g, s')"
  shows "find_dual_spelling_collision (qe_server env) rq = None \<and> \<not> has_unexpected_get_body (qe_server env) rq \<and>
    (requires_existing_user (qe_server env) (fq_path rq) (fq_method rq) \<longrightarrow> has_user (a_db s) (cx_username cx)) \<and>
    (MLFLOW_ENABLE_WORKSPACES (e_config (qe_env env)) \<and> is_workspace_gated_creation (qe_server env) (fq_path rq) (fq_method rq) \<longrightarrow>
       creation_allowed env (a_db s) (cx_username cx)) \<and>
    (case h of Bound v \<Rightarrow> authorised env (a_db s) (cx_username cx) v rq | Foreign f \<Rightarrow> False
     | Unbound \<Rightarrow> is_proxy_artifact_path (qe_server env) (fq_path rq) \<longrightarrow> fq_method rq = ''OPTIONS'' \<or>
        (\<exists>v. get_proxy_artifact_validator (qe_server env) (fq_method rq) (fq_path rq) = Some v \<and> authorised env (a_db s) (cx_username cx) v rq))"
proof -
  let ?gated = "MLFLOW_ENABLE_WORKSPACES (e_config (qe_env env)) \<and> is_workspace_gated_creation (qe_server env) (fq_path rq) (fq_method rq)"
  have who: "hook_auth_context env = (Some (cx_username cx), False)"
    using ctx request_context by (simp add: hook_auth_context_def get_fastapi_username_def get_fastapi_admin_status_def get_auth_context_def)
  obtain g0 where fv: "find_validator (qe_server env) rq empty_g = (h, g0)" using h by (metis prod.collapse)
  note run' = run [unfolded before_request_hook_def Let_def who fv prod.case option.case if_not_P [OF path] if_False]
  obtain g1 where stash: "stash_gateway_context env rq h g0 = Inr g1"
    using run' by (cases "stash_gateway_context env rq h g0") simp_all
  have clean: "find_dual_spelling_collision (qe_server env) rq = None" "\<not> has_unexpected_get_body (qe_server env) rq"
    "requires_existing_user (qe_server env) (fq_path rq) (fq_method rq) \<longrightarrow> has_user (a_db s) (cx_username cx)"
    using run' unfolding stash sum.case by (simp_all split: option.splits if_split_asm)
  obtain b s1 where gate: "(if ?gated then workspace_creation_refused env (cx_username cx) s else (False, s)) = (b, s1)"
    by (rule prod.exhaust)
  from run' clean have "\<not> b \<and> fst (authorize env rq (cx_username cx) h s1) = Continue"
    unfolding stash sum.case gate by (cases b; cases "authorize env rq (cx_username cx) h s1") (simp_all split: if_split_asm)
  with gate have gate: "(if ?gated then workspace_creation_refused env (cx_username cx) s else (False, s)) = (False, s1)"
    and auth: "fst (authorize env rq (cx_username cx) h s1) = Continue" by simp_all
  have s1: "coherent (resolver_env env) s1 \<and> a_db s1 = a_db s \<and> (?gated \<longrightarrow> creation_allowed env (a_db s) (cx_username cx))"
  proof (cases ?gated)
    case True
    then have "workspace_creation_refused env (cx_username cx) s = (False, s1)" using gate by simp
    from creation_checked [OF _ ctx(3) coh this] True show ?thesis by simp
  next
    case False
    with gate coh show ?thesis by auto
  qed
  from authorize_checked [OF scorers names conjunct1 [OF s1] auth] conjunct2 [OF s1] clean show ?thesis by (simp only: simp_thms) blast
qed

end

end
