(* ===== verification/Pagination.thy ===== *)
theory Pagination
  imports Authorization
begin

section \<open>Searches answer exactly what the user may read\<close>

text \<open>
  The loop of \<^verbatim>\<open>hooks/after_request.py\<close> that refills an answer: over a store that
  serves consecutive slices of one listing it terminates, it keeps every readable entity of the slice it
  consumed, and the token it leaves starts where it stopped, so no entity is lost between two answers.
\<close>

subsection \<open>Filters that decide\<close>

definition decides_on :: "('s \<Rightarrow> bool) \<Rightarrow> ('x \<Rightarrow> 's \<Rightarrow> bool res \<times> 's) \<Rightarrow> ('x \<Rightarrow> bool) \<Rightarrow> 'x \<Rightarrow> bool" where
  "decides_on I f P x \<longleftrightarrow> (\<forall>st. I st \<longrightarrow> fst (f x st) = Inr (P x) \<and> I (snd (f x st)))"

lemma decides_onD: "decides_on I f P x \<Longrightarrow> I st \<Longrightarrow> \<exists>st'. f x st = (Inr (P x), st') \<and> I st'"
  unfolding decides_on_def by (metis prod.collapse)

lemma filter_check_decides:
  assumes "\<forall>x\<in>set xs. decides_on I f P x" and "I st"
  shows "\<exists>st'. filter_check f xs st = (Inr (filter P xs), st') \<and> I st'"
  using assms
proof (induction xs arbitrary: st)
  case Nil
  then show ?case by (simp add: lift_res_def)
next
  case (Cons x xs)
  then obtain st1 where x: "f x st = (Inr (P x), st1)" "I st1" using decides_onD [of I f P x st] by auto
  with Cons.IH [of st1] Cons.prems(1) obtain st2 where "filter_check f xs st1 = (Inr (filter P xs), st2)" "I st2" by auto
  with x show ?case by (simp add: bind_check_def lift_res_def)
qed

lemma and_check_decides:
  assumes "decides_on I f P x" and "decides_on I g Q y"
  shows "decides_on I (\<lambda>_. and_check (f x) (g y)) (\<lambda>_. P x \<and> Q y) z"
  unfolding decides_on_def
proof (intro allI impI)
  fix st
  assume "I st"
  then obtain st1 where f: "f x st = (Inr (P x), st1)" "I st1" using decides_onD [OF assms(1)] by blast
  obtain st2 where "g y st1 = (Inr (Q y), st2)" "I st2" using decides_onD [OF assms(2) f(2)] by blast
  with f show "fst (and_check (f x) (g y) st) = Inr (P x \<and> Q y) \<and> I (snd (and_check (f x) (g y) st))"
    by (simp add: and_check_def bind_check_def lift_res_def)
qed

subsection \<open>The refill loop\<close>

text \<open>The store serves slices of one listing, and the tokens are the offsets.\<close>

locale paged_store =
  fixes search :: "string \<Rightarrow> (json \<times> string option) list res" and pt :: page_tokens
    and entities :: "(json \<times> string option) list" and page_size :: nat
  assumes slices: "search (pt_create pt n) = Inr (take page_size (drop n entities))"
    and offsets: "pt_offset pt (pt_create pt n) = n" and tokens: "pt_create pt n \<noteq> []" and page_size: "0 < page_size"
begin

lemma refill_exact:
  assumes "\<forall>e\<in>set entities. decides_on I keep P e" and "I st" and "length items \<le> max_results"
  shows "\<exists>m tok st'. refetch search pt keep max_results items (pt_create pt n) st =
      Some (Inr (items @ map fst (filter P (take m (drop n entities))), tok), st') \<and> I st' \<and>
      (tok = [] \<and> length entities \<le> n + m \<or>
       tok = pt_create pt (n + m) \<and> length (items @ map fst (filter P (take m (drop n entities)))) = max_results)"
  using assms(2,3)
proof (induction "length entities - n" arbitrary: n items st rule: less_induct)
  case less
  show ?case
  proof (cases "length items < max_results")
    case False
    then have "refetch search pt keep max_results items (pt_create pt n) st = Some (Inr (items, pt_create pt n), st)"
      by (subst refetch.simps) simp
    with False less.prems show ?thesis by (intro exI [of _ 0] exI [of _ "pt_create pt n"] exI [of _ st]) simp
  next
    case True
    define got where "got = take (max_results - length items) (take page_size (drop n entities))"
    show ?thesis
    proof (cases "got = []")
      case empty: True
      with True page_size have "length entities \<le> n" by (auto simp: got_def min_def split: if_splits)
      moreover have "refetch search pt keep max_results items (pt_create pt n) st = Some (Inr (items, []), st)"
        by (subst refetch.simps) (simp add: True tokens slices got_def [symmetric] empty Let_def del: take_take)
      ultimately show ?thesis using less.prems by (intro exI [of _ 0] exI [of _ "[]"] exI [of _ st]) simp
    next
      case False
      have got: "got = take (length got) (drop n entities)" "length got \<le> max_results - length items" "set got \<subseteq> set entities"
        unfolding got_def by (auto simp: min_def dest: in_set_takeD in_set_dropD)
      obtain st1 where fl: "filter_check keep got st = (Inr (filter P got), st1)" "I st1"
        using filter_check_decides [of got I keep P st] assms(1) got(3) less.prems(1) by auto
      let ?items = "items @ map fst (filter P got)"
      have len: "length ?items \<le> max_results"
        using got(2) True order_trans [OF length_filter_le [of P got] got(2)] by (simp del: length_filter_le)
      have n: "n < length entities" using False by (auto simp: got_def)
      have "length entities - (n + length got) < length entities - n" using n False by (cases got) simp_all
      from less.hyps [OF this fl(2) len] obtain m tok st' where rec:
        "refetch search pt keep max_results ?items (pt_create pt (n + length got)) st1 =
           Some (Inr (?items @ map fst (filter P (take m (drop (n + length got) entities))), tok), st')" "I st'"
        "tok = [] \<and> length entities \<le> n + length got + m \<or>
         tok = pt_create pt (n + length got + m) \<and> length (?items @ map fst (filter P (take m (drop (n + length got) entities)))) = max_results"
        by blast
      have step: "refetch search pt keep max_results items (pt_create pt n) st =
          refetch search pt keep max_results ?items (pt_create pt (n + length got)) st1"
        by (subst refetch.simps) (simp add: True tokens slices got_def [symmetric] False Let_def fl offsets del: take_take)
      have join: "?items @ map fst (filter P (take m (drop (n + length got) entities))) =
          items @ map fst (filter P (take (length got + m) (drop n entities)))"
      proof -
        have "take (length got + m) (drop n entities) = got @ take m (drop (n + length got) entities)"
          unfolding take_add drop_drop add.commute [of n] by (subst got(1) [symmetric]) (rule refl)
        then show ?thesis by simp
      qed
      show ?thesis
        using rec unfolding step join
        by (intro exI [of _ "length got + m"] exI [of _ tok] exI [of _ st']) (simp add: add.assoc)
    qed
  qed
qed

end

subsection \<open>The memo of a request\<close>

text \<open>What each key of the memo stands for.\<close>

definition memo_value :: "('c, 'w) env \<Rightarrow> db \<Rightarrow> string \<times> string \<times> string \<Rightarrow> bool" where
  "memo_value env d = (\<lambda>(what, i, uname).
     if what = ''exp'' then meets env d uname (On_resource EXPERIMENT i can_read)
     else if what = ''rm'' then meets env d uname (On_resource REGISTERED_MODEL i can_read)
     else if what = ''gw_ep'' then meets env d uname (On_resource GATEWAY_ENDPOINT i can_read)
     else if what = ''gw_secret'' then meets env d uname (On_resource GATEWAY_SECRET i can_read)
     else if what = ''gw_md'' then meets env d uname (On_resource GATEWAY_MODEL_DEFINITION i can_read)
     else meets env d uname (On_workspace i can_read))"

definition listing_inv :: "('c, 'w) env \<Rightarrow> db \<Rightarrow> ('c, 'w) after_state \<Rightarrow> bool" where
  "listing_inv env d st \<longleftrightarrow> coherent env (as_app st) \<and> a_db (as_app st) = d \<and>
     (\<forall>k b. as_memo st k = Some b \<longrightarrow> b = memo_value env d k)"

lemma memoized_decides:
  assumes "\<And>s. coherent env s \<Longrightarrow> a_db s = d \<Longrightarrow>
      fst (m s) = Inr (memo_value env d k) \<and> coherent env (snd (m s)) \<and> a_db (snd (m s)) = d"
    and "listing_inv env d st"
  shows "fst (memoized k m st) = Inr (memo_value env d k) \<and> listing_inv env d (snd (memoized k m st))"
proof (cases "as_memo st k")
  case (Some b)
  then have "b = memo_value env d k" using assms(2) unfolding listing_inv_def by blast
  with Some assms(2) show ?thesis by (simp add: memoized_def)
next
  case None
  obtain s' where "m (as_app st) = (Inr (memo_value env d k), s')" "coherent env s'" "a_db s' = d"
    using assms(1) [of "as_app st"] assms(2) by (cases "m (as_app st)") (auto simp: listing_inv_def)
  with None assms(2) show ?thesis by (auto simp: memoized_def listing_inv_def)
qed

text \<open>A workspace that the user may see: none, or one on which he holds a permission to read.\<close>

definition workspace_visible :: "('c, 'w) env \<Rightarrow> db \<Rightarrow> string \<Rightarrow> string option \<Rightarrow> bool" where
  "workspace_visible env d uname ws =
     (if \<not> MLFLOW_ENABLE_WORKSPACES (e_config env) then True
      else case ws of Some (c # cs) \<Rightarrow> meets env d uname (On_workspace (c # cs) can_read) | _ \<Rightarrow> True)"

definition settled :: "('c, 'w) env \<Rightarrow> db \<Rightarrow> string \<Rightarrow> string \<Rightarrow> string \<Rightarrow> bool" where
  "settled env d uname rtype i \<longleftrightarrow> colon_free i \<and> (\<exists>r. decide env d rtype i uname None = Inr r)"

context authorization
begin

lemma resource_memo:
  assumes "rtype \<in> set resource_types" and "rtype \<noteq> SCORER" and "settled (resolver_env env) d uname rtype i"
    and "memo_value (resolver_env env) d k = meets (resolver_env env) d uname (On_resource rtype i can_read)"
    and "listing_inv (resolver_env env) d st"
  shows "fst (memoized k (\<lambda>s. flag_of can_read (resolve_permission (resolver_env env) s rtype i uname None)) st) =
      Inr (meets (resolver_env env) d uname (On_resource rtype i can_read)) \<and>
    listing_inv (resolver_env env) d (snd (memoized k (\<lambda>s. flag_of can_read (resolve_permission (resolver_env env) s rtype i uname None)) st))"
  unfolding assms(4) [symmetric]
proof (rule memoized_decides [OF _ assms(5)])
  fix s :: "('c, 'w) app"
  assume s: "coherent (resolver_env env) s" "a_db s = d"
  obtain r where i: "colon_free i" and r: "decide (resolver_env env) d rtype i uname None = Inr r"
    using assms(3) by (auto simp: settled_def)
  show "fst (flag_of can_read (resolve_permission (resolver_env env) s rtype i uname None)) = Inr (memo_value (resolver_env env) d k) \<and>
      coherent (resolver_env env) (snd (flag_of can_read (resolve_permission (resolver_env env) s rtype i uname None))) \<and>
      a_db (snd (flag_of can_read (resolve_permission (resolver_env env) s rtype i uname None))) = d"
    using resolve_decision [OF renv i assms(1) s(1) prod.collapse [symmetric], of uname None] assms(2,4) s(2) r by simp
qed

lemma workspace_memo:
  assumes "ae_request aenv = env" and "case ws of Some w \<Rightarrow> colon_free w | None \<Rightarrow> True"
  shows "decides_on (listing_inv (resolver_env env) d) (can_access_workspace aenv uname) (workspace_visible (resolver_env env) d uname) ws"
proof (cases "MLFLOW_ENABLE_WORKSPACES (e_config (qe_env env)) \<and> (\<exists>c cs. ws = Some (c # cs))")
  case True
  then obtain c cs where ws: "ws = Some (c # cs)" and en: "MLFLOW_ENABLE_WORKSPACES (e_config (qe_env env))" by auto
  have "colon_free (c # cs)" using assms(2) ws by simp
  note look = cached_workspace_decides [OF en _ this, where uname = uname]
  have "fst (memoized (''ws'', c # cs, uname) (\<lambda>s. case cached_workspace_permission env uname (c # cs) s of
            (perm, s') \<Rightarrow> (Inr (case perm of Some p \<Rightarrow> can_read p | None \<Rightarrow> False), s')) st) =
          Inr (memo_value (resolver_env env) d (''ws'', c # cs, uname)) \<and>
        listing_inv (resolver_env env) d (snd (memoized (''ws'', c # cs, uname) (\<lambda>s. case cached_workspace_permission env uname (c # cs) s of
            (perm, s') \<Rightarrow> (Inr (case perm of Some p \<Rightarrow> can_read p | None \<Rightarrow> False), s')) st))"
    if "listing_inv (resolver_env env) d st" for st
    by (rule memoized_decides [OF _ that]) (use look in \<open>auto simp: case_prod_beta memo_value_def split: option.splits\<close>)
  moreover have "MLFLOW_ENABLE_WORKSPACES (e_config (resolver_env env))" using en by (simp add: resolver_env_def)
  ultimately show ?thesis
    using en by (simp add: decides_on_def can_access_workspace_def workspace_visible_def ws assms(1) memo_value_def)
next
  case False
  then show ?thesis
    by (auto simp: decides_on_def can_access_workspace_def workspace_visible_def assms(1) lift_res_def resolver_env_def split: option.splits list.splits)
qed

lemma can_read_decides:
  assumes "ae_request aenv = env"
  shows "settled (resolver_env env) d uname EXPERIMENT i \<Longrightarrow>
      decides_on (listing_inv (resolver_env env) d) (\<lambda>i. cached_can_read_experiment aenv i uname)
        (\<lambda>i. meets (resolver_env env) d uname (On_resource EXPERIMENT i can_read)) i"
    and "settled (resolver_env env) d uname REGISTERED_MODEL i \<Longrightarrow>
      decides_on (listing_inv (resolver_env env) d) (\<lambda>i. cached_can_read_registered_model aenv i uname)
        (\<lambda>i. meets (resolver_env env) d uname (On_resource REGISTERED_MODEL i can_read)) i"
  using resource_memo [of EXPERIMENT d uname i "(''exp'', i, uname)"] resource_memo [of REGISTERED_MODEL d uname i "(''rm'', i, uname)"]
  by (simp_all add: decides_on_def cached_can_read_experiment_def cached_can_read_registered_model_def assms can_read_experiment_def
      can_read_registered_model_def effective_experiment_permission_def effective_registered_model_permission_def resource_types_def memo_value_def)

text \<open>The first page: what the user may read, in a workspace he may see.\<close>

lemma first_page_exact:
  assumes "ae_request aenv = env" and "listing_inv (resolver_env env) d st"
    and "\<forall>x\<in>set items. decides_on (listing_inv (resolver_env env) d) can R (ident x) \<and>
      (case workspace_or_none ss (ident x) of Some w \<Rightarrow> colon_free w | None \<Rightarrow> True)"
  shows "\<exists>st'. filter_first_page aenv ss ident can uname items st =
      (Inr (filter (\<lambda>x. R (ident x) \<and> workspace_visible (resolver_env env) d uname (workspace_or_none ss (ident x))) items), st') \<and>
    listing_inv (resolver_env env) d st'"
proof -
  let ?I = "listing_inv (resolver_env env) d"
  have "\<forall>x\<in>set items. decides_on ?I (\<lambda>x. can (ident x)) (\<lambda>x. R (ident x)) x" using assms(3) by (simp add: decides_on_def)
  from filter_check_decides [OF this assms(2)] obtain st1 where
    read: "filter_check (\<lambda>x. can (ident x)) items st = (Inr (filter (\<lambda>x. R (ident x)) items), st1)" "?I st1" by blast
  show ?thesis
  proof (cases "MLFLOW_ENABLE_WORKSPACES (e_config (qe_env env))")
    case False
    then have "workspace_visible (resolver_env env) d uname ws" for ws by (simp add: workspace_visible_def resolver_env_def)
    with False read show ?thesis by (simp add: filter_first_page_def bind_check_def lift_res_def assms(1))
  next
    case True
    have "\<forall>x\<in>set (filter (\<lambda>x. R (ident x)) items).
        decides_on ?I (\<lambda>x. can_access_workspace aenv uname (workspace_or_none ss (ident x)))
          (\<lambda>x. workspace_visible (resolver_env env) d uname (workspace_or_none ss (ident x))) x"
      using workspace_memo [OF assms(1), of _ d uname] assms(3) by (simp add: decides_on_def)
    from filter_check_decides [OF this read(2)] True read show ?thesis
      by (auto simp: filter_first_page_def bind_check_def assms(1) conj_commute)
  qed
qed

theorem filter_search_exact:
  assumes store: "paged_store (ss_search ss) (ae_tokens aenv) entities page_size" and req: "ae_request aenv = env"
    and user: "\<not> cx_is_admin cx" "cx_username cx = uname" "uname \<noteq> []" and inv: "listing_inv (resolver_env env) d st"
    and page: "length (msg_list (rp_json resp) field) \<le> ss_max_results ss" "msg_str (rp_json resp) ''next_page_token'' = pt_create (ae_tokens aenv) n"
    and first: "\<forall>x\<in>set (msg_list (rp_json resp) field). decides_on (listing_inv (resolver_env env) d) (\<lambda>i. can i uname) R (ident x) \<and>
      (case workspace_or_none ss (ident x) of Some w \<Rightarrow> colon_free w | None \<Rightarrow> True)"
    and rest: "\<forall>e\<in>set entities. decides_on (listing_inv (resolver_env env) d) (\<lambda>i. can i uname) R (ident (fst e)) \<and>
      (case snd e of Some w \<Rightarrow> colon_free w | None \<Rightarrow> True)"
  shows "\<exists>m tok st' items. filter_search aenv ss field ident can resp st = Some (Inr (with_page field resp (items, tok)), st') \<and>
    listing_inv (resolver_env env) d st' \<and>
    items = filter (\<lambda>x. R (ident x) \<and> workspace_visible (resolver_env env) d uname (workspace_or_none ss (ident x))) (msg_list (rp_json resp) field) @
      map fst (filter (\<lambda>e. R (ident (fst e)) \<and> workspace_visible (resolver_env env) d uname (snd e)) (take m (drop n entities))) \<and>
    (tok = [] \<and> length entities \<le> n + m \<or> tok = pt_create (ae_tokens aenv) (n + m) \<and> length items = ss_max_results ss)"
proof -
  let ?I = "listing_inv (resolver_env env) d"
  let ?keep = "\<lambda>e. and_check (can (ident (fst e)) uname) (can_access_workspace aenv uname (snd e))"
  let ?P = "\<lambda>e. R (ident (fst e)) \<and> workspace_visible (resolver_env env) d uname (snd e)"
  let ?first = "filter (\<lambda>x. R (ident x) \<and> workspace_visible (resolver_env env) d uname (workspace_or_none ss (ident x))) (msg_list (rp_json resp) field)"
  from first_page_exact [OF req inv first] obtain st1 where
    one: "filter_first_page aenv ss ident (\<lambda>i. can i uname) uname (msg_list (rp_json resp) field) st = (Inr ?first, st1)" "?I st1" by blast
  have keep: "\<forall>e\<in>set entities. decides_on ?I ?keep ?P e"
  proof
    fix e
    assume "e \<in> set entities"
    with rest have "decides_on ?I (\<lambda>i. can i uname) R (ident (fst e))" "case snd e of Some w \<Rightarrow> colon_free w | None \<Rightarrow> True" by auto
    from and_check_decides [OF this(1) workspace_memo [OF req this(2)]] show "decides_on ?I ?keep ?P e" by (simp add: decides_on_def)
  qed
  have len: "length ?first \<le> ss_max_results ss" using page(1) length_filter_le order_trans by blast
  from paged_store.refill_exact [OF store keep one(2) len, of n] obtain m tok st' where
    "refetch (ss_search ss) (ae_tokens aenv) ?keep (ss_max_results ss) ?first (pt_create (ae_tokens aenv) n) st1 =
       Some (Inr (?first @ map fst (filter ?P (take m (drop n entities))), tok), st')" "?I st'"
    "tok = [] \<and> length entities \<le> n + m \<or>
       tok = pt_create (ae_tokens aenv) (n + m) \<and> length (?first @ map fst (filter ?P (take m (drop n entities)))) = ss_max_results ss"
    by blast
  moreover have "get_fastapi_username env = Inr uname" "\<not> get_fastapi_admin_status env"
    using request_context user by (auto simp: get_fastapi_username_def get_fastapi_admin_status_def get_auth_context_def)
  ultimately show ?thesis using one(1) page(2) req
    by (intro exI [of _ m] exI [of _ tok] exI [of _ st'] exI [of _ "?first @ map fst (filter ?P (take m (drop n entities)))"])
      (simp add: filter_search_def)
qed

end

subsection \<open>What an answer must be\<close>

definition listing_ready ::
  "('c, 'w) env \<Rightarrow> db \<Rightarrow> string \<Rightarrow> string \<Rightarrow> page_tokens \<Rightarrow> search_store \<Rightarrow> (json \<times> string option) list \<Rightarrow> nat \<Rightarrow> string \<Rightarrow>
   (json \<Rightarrow> string) \<Rightarrow> flask_response \<Rightarrow> nat \<Rightarrow> bool" where
  "listing_ready env d uname rtype pt ss entities page_size field ident resp n \<longleftrightarrow>
     paged_store (ss_search ss) pt entities page_size \<and>
     length (msg_list (rp_json resp) field) \<le> ss_max_results ss \<and> msg_str (rp_json resp) ''next_page_token'' = pt_create pt n \<and>
     (\<forall>x\<in>set (msg_list (rp_json resp) field). settled env d uname rtype (ident x) \<and> plain_workspace (workspace_or_none ss (ident x))) \<and>
     (\<forall>e\<in>set entities. settled env d uname rtype (ident (fst e)) \<and> plain_workspace (snd e))"

text \<open>
  The readable entities of the first page and of the next \<open>m\<close> of the listing; the answer ends the
  listing, or it is full and the token continues after those \<open>m\<close>.
\<close>

definition exact_answer ::
  "('c, 'w) env \<Rightarrow> db \<Rightarrow> string \<Rightarrow> string \<Rightarrow> page_tokens \<Rightarrow> search_store \<Rightarrow> (json \<times> string option) list \<Rightarrow> string \<Rightarrow>
   (json \<Rightarrow> string) \<Rightarrow> flask_response \<Rightarrow> nat \<Rightarrow> json list \<Rightarrow> string \<Rightarrow> bool" where
  "exact_answer env d uname rtype pt ss entities field ident resp n items tok \<longleftrightarrow>
     (\<exists>m. items =
        filter (\<lambda>x. meets env d uname (On_resource rtype (ident x) can_read) \<and>
            workspace_visible env d uname (workspace_or_none ss (ident x))) (msg_list (rp_json resp) field) @
        map fst (filter (\<lambda>e. meets env d uname (On_resource rtype (ident (fst e)) can_read) \<and> workspace_visible env d uname (snd e))
            (take m (drop n entities))) \<and>
      (tok = [] \<and> length entities \<le> n + m \<or> tok = pt_create pt (n + m) \<and> length items = ss_max_results ss))"

context authorization
begin

lemma listing_exact:
  assumes ready: "listing_ready (resolver_env env) d (cx_username cx) rtype (ae_tokens aenv) ss entities page_size field ident resp n"
    and req: "ae_request aenv = env" and user: "\<not> cx_is_admin cx" "cx_username cx \<noteq> []" and inv: "listing_inv (resolver_env env) d st"
    and can: "\<And>i. settled (resolver_env env) d (cx_username cx) rtype i \<Longrightarrow>
      decides_on (listing_inv (resolver_env env) d) (\<lambda>i. can i (cx_username cx))
        (\<lambda>i. meets (resolver_env env) d (cx_username cx) (On_resource rtype i can_read)) i"
  shows "\<exists>items tok st'. filter_search aenv ss field ident can resp st = Some (Inr (with_page field resp (items, tok)), st') \<and>
    exact_answer (resolver_env env) d (cx_username cx) rtype (ae_tokens aenv) ss entities field ident resp n items tok"
proof -
  have plain: "plain_workspace ws \<longleftrightarrow> (case ws of Some w \<Rightarrow> colon_free w | None \<Rightarrow> True)" for ws
    by (cases ws) (simp_all add: plain_workspace_def)
  note parts = ready [unfolded listing_ready_def plain]
  have first: "\<forall>x\<in>set (msg_list (rp_json resp) field).
      decides_on (listing_inv (resolver_env env) d) (\<lambda>i. can i (cx_username cx))
        (\<lambda>i. meets (resolver_env env) d (cx_username cx) (On_resource rtype i can_read)) (ident x) \<and>
      (case workspace_or_none ss (ident x) of Some w \<Rightarrow> colon_free w | None \<Rightarrow> True)" using parts can by blast
  have rest: "\<forall>e\<in>set entities.
      decides_on (listing_inv (resolver_env env) d) (\<lambda>i. can i (cx_username cx))
        (\<lambda>i. meets (resolver_env env) d (cx_username cx) (On_resource rtype i can_read)) (ident (fst e)) \<and>
      (case snd e of Some w \<Rightarrow> colon_free w | None \<Rightarrow> True)" using parts can by blast
  have store: "paged_store (ss_search ss) (ae_tokens aenv) entities page_size"
    and page: "length (msg_list (rp_json resp) field) \<le> ss_max_results ss" "msg_str (rp_json resp) ''next_page_token'' = pt_create (ae_tokens aenv) n"
    using parts by blast+
  show ?thesis
    using filter_search_exact [where ident = ident and field = field and resp = resp and can = can and n = n
        and R = "\<lambda>i. meets (resolver_env env) d (cx_username cx) (On_resource rtype i can_read)",
        OF store req user(1) refl user(2) inv page first rest]
    unfolding exact_answer_def by blast
qed

end

end
