(* ===== verification/Hook_Properties.thy ===== *)
theory Hook_Properties
  imports Request_Properties Pagination
begin

section \<open>Properties of the hooks\<close>

text \<open>
  The properties of the authorisation of MLflow's requests and of the answers to searches, with a server
  of a few routes on which their hypotheses hold.
\<close>

definition sample_server :: mlflow_server where
  "sample_server =
     \<lparr>ms_endpoints =
        [(''/api/2.0/mlflow/experiments/update'', Rpc ''UpdateExperiment'', [''POST'']),
         (''/api/2.0/mlflow/experiments/search'', Rpc ''SearchExperiments'', [''POST'', ''GET'']),
         (''/api/2.0/mlflow/runs/log-metric'', Rpc ''LogMetric'', [''POST'']),
         (''/api/3.0/mlflow/gateway/endpoints/delete'', Rpc ''DeleteGatewayEndpoint'', [''DELETE'']),
         (''/api/3.0/mlflow/workspaces/<workspace_name>'', Rpc ''DeleteWorkspace'', [''DELETE'']),
         (''/graphql'', Plain ''_graphql'', [''GET'', ''POST''])],
      ms_rules = [(''/api/2.0/mlflow-artifacts/artifacts/<path:artifact_path>'', [''GET'', ''PUT'', ''DELETE''])],
      ms_fields = (\<lambda>cls.
        if cls = ''LogMetric'' then [(''run_id'', ''runId''), (''run_uuid'', ''runUuid''), (''key'', ''key'')]
        else if cls = ''UpdateExperiment'' then [(''experiment_id'', ''experimentId''), (''new_name'', ''newName'')]
        else if cls = ''DeleteGatewayEndpoint'' then [(''endpoint_id'', ''endpointId'')] else []),
      ms_normalized_json = fq_body, ms_ajax_path = (\<lambda>p v. ''/ajax-api/x'' @ p), ms_rest_path = (\<lambda>p v. ''/api/x'' @ p),
      ms_static_prefix = id, ms_budget_policy_classes = []\<rparr>"

definition sample_request_env :: "(permission_result timed, permission timed) request_env" where
  "sample_request_env =
     \<lparr>qe_env = sample_env, qe_server = sample_server,
      qe_context = Some \<lparr>cx_username = ''bob'', cx_is_admin = False, cx_workspace = None\<rparr>, qe_str = (\<lambda>j. ''?''),
      qe_run_experiment = (\<lambda>r. if r = JStr ''own'' then Inr ''7'' else Inr ''8''), qe_logged_model_experiment = (\<lambda>m. Inr ''7''),
      qe_trace_experiment = (\<lambda>t. Inr ''7''), qe_experiment_by_name = (\<lambda>n. Inr None), qe_job_params = (\<lambda>j. Inl KeyError),
      qe_endpoint_name = (\<lambda>i. if i = JStr ''e1'' then Inr ''mine'' else Inr ''theirs''), qe_secret_name = (\<lambda>i. Inl KeyError),
      qe_model_definition_name = (\<lambda>i. Inl KeyError), qe_safe_path = Some, qe_default_workspace = ''default'',
      RESTRICT_RESOURCE_CREATION = False, OIDC_WORKSPACE_REQUIRE_CREATION_CONTEXT = False, OIDC_WORKSPACE_DENY_DEFAULT_CREATION = False\<rparr>"

definition json_request :: "string \<Rightarrow> string \<Rightarrow> dict \<Rightarrow> flask_request" where
  "json_request m path body =
     \<lparr>fq_path = path, fq_method = m, fq_args = [], fq_is_json = True, fq_body = Some (JObj body), fq_form = [], fq_view_args = None\<rparr>"

text \<open>An application in which \<^verbatim>\<open>bob\<close> manages the endpoint \<^verbatim>\<open>mine\<close>.\<close>

definition endpoint_app :: "(permission_result timed, permission timed) app" where
  "endpoint_app = sample_app\<lparr>a_db := sample_db\<lparr>gateway_endpoint_tables := no_tables\<lparr>t_user := [grant_row 1 ''mine'' 2 ''MANAGE'']\<rparr>\<rparr>\<rparr>"

lemma sample_request_sel [simp]:
  "qe_env sample_request_env = sample_env" "qe_server sample_request_env = sample_server"
  "qe_context sample_request_env = Some \<lparr>cx_username = ''bob'', cx_is_admin = False, cx_workspace = None\<rparr>"
  by (simp_all add: sample_request_env_def)

lemma sample_resolver_env [simp]: "resolver_env sample_request_env = sample_env"
  by (simp add: resolver_env_def get_request_workspace_def get_auth_context_def sample_env_def)

interpretation sample_authorization: authorization "LocalTTLCacheBackend timed_ops" "LocalTTLCacheBackend timed_ops"
  sample_request_env "\<lparr>cx_username = ''bob'', cx_is_admin = False, cx_workspace = None\<rparr>"
  by unfold_locales (simp_all add: plain_workspace_def)

subsection \<open>Concrete runs\<close>

lemma map_of_dict_updates: "map_of (dict_updates kvs d) = map_of d ++ map_of (rev kvs)"
  by (induction kvs arbitrary: d) (auto simp: dict_updates_def AList.update_conv' fun_eq_iff map_add_def split: option.splits)

lemma before_lookup:
  "map_of (BEFORE_REQUEST_VALIDATORS srv) k =
     (case map_of (rev (concat (map (bind_non_proto_route srv) NON_PROTO_ROUTES))) k of Some v \<Rightarrow> Some v | None \<Rightarrow>
     (case map_of (rev (guardrail_routes srv)) k of Some v \<Rightarrow> Some v | None \<Rightarrow>
     (case map_of (rev (flask_routes srv)) k of Some v \<Rightarrow> Some v | None \<Rightarrow>
        map_of (rev (bound_routes srv (before_request_handlers srv))) k)))"
  by (simp add: BEFORE_REQUEST_VALIDATORS_def map_of_dict_updates map_add_def split: option.splits)

lemma sample_lookup:
  "map_of (BEFORE_REQUEST_VALIDATORS sample_server) (''/api/2.0/mlflow/runs/log-metric'', ''POST'') = Some Validate_can_update_run"
  "map_of (BEFORE_REQUEST_VALIDATORS sample_server) (''/api/3.0/mlflow/gateway/endpoints/delete'', ''DELETE'') = Some Validate_can_delete_gateway_endpoint"
  by (subst before_lookup, code_simp)+

lemma sample_validator:
  "find_validator sample_server (json_request ''POST'' ''/api/2.0/mlflow/runs/log-metric'' body) g = (Bound Validate_can_update_run, g)"
  "find_validator sample_server (json_request ''DELETE'' ''/api/3.0/mlflow/gateway/endpoints/delete'' body) g =
     (Bound Validate_can_delete_gateway_endpoint, g)"
proof -
  have "\<not> py_contains ''/mlflow/workspaces'' ''/api/2.0/mlflow/runs/log-metric''" "\<not> py_contains ''/mlflow/logged-models'' ''/api/2.0/mlflow/runs/log-metric''"
    "\<not> py_contains ''/mlflow/workspaces'' ''/api/3.0/mlflow/gateway/endpoints/delete''"
    "\<not> py_contains ''/mlflow/logged-models'' ''/api/3.0/mlflow/gateway/endpoints/delete''"
    by code_simp+
  then show "find_validator sample_server (json_request ''POST'' ''/api/2.0/mlflow/runs/log-metric'' body) g = (Bound Validate_can_update_run, g)"
    "find_validator sample_server (json_request ''DELETE'' ''/api/3.0/mlflow/gateway/endpoints/delete'' body) g =
     (Bound Validate_can_delete_gateway_endpoint, g)"
    by (simp_all add: find_validator_def Let_def json_request_def sample_lookup)
qed

text \<open>The hook for a user who is no administrator, on a request that is neither ambiguous nor a creation.\<close>

lemma hook_authorizes:
  assumes "\<not> is_unprotected_path (fq_path rq)" and "hook_auth_context env = (Some uname, False)"
    and "find_validator (qe_server env) rq empty_g = (h, g0)" and "stash_gateway_context env rq h g0 = Inr g"
    and "find_dual_spelling_collision (qe_server env) rq = None" and "\<not> has_unexpected_get_body (qe_server env) rq"
    and "\<not> requires_existing_user (qe_server env) (fq_path rq) (fq_method rq)"
    and "\<not> is_workspace_gated_creation (qe_server env) (fq_path rq) (fq_method rq)"
  shows "before_request_hook env rq s = (fst (authorize env rq uname h s), g, snd (authorize env rq uname h s))"
  using assms by (simp add: before_request_hook_def Let_def case_prod_beta)

lemma log_metric_run:
  assumes "body = [(''run_uuid'', JStr ''own''), (''runId'', JStr ''victim'')] \<or> body = [(''run_id'', JStr ''own'')]"
  shows "\<exists>s'. before_request_hook sample_request_env (json_request ''POST'' ''/api/2.0/mlflow/runs/log-metric'' body) sample_app = (Continue, empty_g, s')"
proof -
  let ?rq = "json_request ''POST'' ''/api/2.0/mlflow/runs/log-metric'' body"
  have "before_request_hook sample_request_env ?rq sample_app =
      (fst (authorize sample_request_env ?rq ''bob'' (Bound Validate_can_update_run) sample_app), empty_g,
       snd (authorize sample_request_env ?rq ''bob'' (Bound Validate_can_update_run) sample_app))"
  proof (rule hook_authorizes)
    show "find_validator (qe_server sample_request_env) ?rq empty_g = (Bound Validate_can_update_run, empty_g)" by (simp add: sample_validator)
    show "find_dual_spelling_collision (qe_server sample_request_env) ?rq = None" using assms by (elim disjE; simp only:; code_simp)
  qed (code_simp | simp add: json_request_def; code_simp)+
  moreover have "fst (authorize sample_request_env ?rq ''bob'' (Bound Validate_can_update_run) sample_app) = Continue"
    using assms by (elim disjE; simp only:; code_simp)
  ultimately show ?thesis by simp
qed

subsection \<open>Authorisation\<close>

lemma local_authorization:
  assumes "ttl_cache pttl" and "ttl_cache wttl"
    and "e_pc (qe_env env) = LocalTTLCacheBackend pttl" and "e_wc (qe_env env) = LocalTTLCacheBackend wttl"
    and "qe_context env = Some cx" and "plain_workspace (cx_workspace cx)"
  shows "authorization (LocalTTLCacheBackend pttl) (LocalTTLCacheBackend wttl) env cx"
  using local_resolver_caches [OF assms(1,2)] assms(3-6) by (simp add: authorization_def authorization_axioms_def)

lemma coherent_resolver_env [simp]: "coherent (resolver_env env) s = coherent (qe_env env) s"
  by (simp add: resolver_env_def)


abbreviation own_metric :: flask_request where
  "own_metric \<equiv> json_request ''POST'' ''/api/2.0/mlflow/runs/log-metric'' [(''run_id'', JStr ''own'')]"

lemma own_metric_needs: "needs sample_request_env Validate_can_update_run own_metric = Some [On_resource EXPERIMENT ''7'' can_update]"
proof -
  have "get_request_param own_metric ''run_id'' = Inr (JStr ''own'')" "qe_run_experiment sample_request_env (JStr ''own'') = Inr ''7''" by code_simp+
  then show ?thesis by (simp add: run_param_needs_def run_needs_def res_needs_def on_experiment_def)
qed




subsection \<open>The resource that is authorised and the one MLflow acts on\<close>

text \<open>
  C35: On a message route whose parameters MLflow reads from the body, the experiment that is
  authorised is the one MLflow parses. MLflow's parser is any function that takes a field from one of its
  two spellings; the request passed the dual-spelling guard, so both readings agree.
\<close>

theorem authorised_experiment_is_the_parsed_one:
  assumes "\<And>kvs f v. parse kvs f = Some v \<Longrightarrow> map_of kvs f = Some v \<or> map_of kvs (snake_to_camel f) = Some v"
    and "is_proto_route (build_proto_route_maps (qe_server env)) (fq_path rq) (fq_method rq)"
    and "collidable_fields_for (build_proto_route_maps (qe_server env)) (fq_path rq) (fq_method rq) = Some fs"
    and "(''experiment_id'', snake_to_camel ''experiment_id'') \<in> set fs"
    and "\<not> mlflow_reads_args rq" and "request_body (qe_server env) rq = Some kvs" and "get_optional_url_param rq ''experiment_id'' = None"
    and "find_dual_spelling_collision (qe_server env) rq = None"
    and "parse kvs ''experiment_id'' = Some v" and "v \<noteq> JNull"
  shows "needs env Validate_can_read_experiment rq = Some [On_resource EXPERIMENT (text_of env v) can_read] \<and>
    needs env Validate_can_update_experiment rq = Some [On_resource EXPERIMENT (text_of env v) can_update] \<and>
    needs env Validate_can_delete_experiment rq = Some [On_resource EXPERIMENT (text_of env v) can_delete]"
proof -
  let ?camel = "snake_to_camel ''experiment_id''"
  have "\<not> (''experiment_id'' \<in> fst ` set kvs \<and> ?camel \<in> fst ` set kvs)"
    using assms(3-6,8) by (auto simp: find_dual_spelling_collision_def find_None_iff)
  then have "map_of kvs ''experiment_id'' = None \<or> map_of kvs ?camel = None" by (auto simp: map_of_eq_None_iff)
  with assms(1) [OF assms(9)] have "(case map_of kvs ''experiment_id'' of Some w \<Rightarrow> Some w | None \<Rightarrow> map_of kvs ?camel) = Some v"
    by (auto split: option.splits)
  then have "proto_request_value (qe_server env) rq ''experiment_id'' = (True, Some v)"
    using assms(2,5,6) by (auto simp: proto_request_value_def split: option.splits)
  then have "extract_param_from_all_sources (qe_server env) rq ''experiment_id'' = Inr (Some v)"
    using assms(7,10) by (cases v) (simp_all add: extract_param_from_all_sources_def present_def)
  then show ?thesis
    by (simp add: experiment_needs_def get_experiment_id_def res_needs_def on_experiment_def)
qed

abbreviation camel_update :: flask_request where
  "camel_update \<equiv> json_request ''POST'' ''/api/2.0/mlflow/experiments/update'' [(''new_name'', JStr ''n''), (''experimentId'', JStr ''7'')]"

text \<open>The witness: a parser that prefers the second spelling, on a body that has only that one.\<close>

theorem authorised_experiment_is_the_parsed_one_witness:
  "needs sample_request_env Validate_can_update_experiment camel_update = Some [On_resource EXPERIMENT ''7'' can_update]"
proof -
  define parse :: "dict \<Rightarrow> string \<Rightarrow> json option" where
    "parse = (\<lambda>kvs f. case map_of kvs (snake_to_camel f) of None \<Rightarrow> map_of kvs f | Some v \<Rightarrow> Some v)"
  have law: "parse kvs f = Some v \<Longrightarrow> map_of kvs f = Some v \<or> map_of kvs (snake_to_camel f) = Some v" for kvs f v
    by (auto simp: parse_def split: option.splits)
  have route: "is_proto_route (build_proto_route_maps sample_server) (fq_path camel_update) (fq_method camel_update)"
    "collidable_fields_for (build_proto_route_maps sample_server) (fq_path camel_update) (fq_method camel_update) =
       Some [(''experiment_id'', ''experimentId''), (''new_name'', ''newName'')]"
    "(''experiment_id'', snake_to_camel ''experiment_id'') \<in> set [(''experiment_id'', ''experimentId''), (''new_name'', ''newName'')]"
    "\<not> mlflow_reads_args camel_update"
    "request_body sample_server camel_update = Some [(''new_name'', JStr ''n''), (''experimentId'', JStr ''7'')]"
    "get_optional_url_param camel_update ''experiment_id'' = None" "find_dual_spelling_collision sample_server camel_update = None"
    by code_simp+
  have "snake_to_camel ''experiment_id'' = ''experimentId''" by code_simp
  then have "parse [(''new_name'', JStr ''n''), (''experimentId'', JStr ''7'')] ''experiment_id'' = Some (JStr ''7'')" by (simp add: parse_def)
  from authorised_experiment_is_the_parsed_one [of parse sample_request_env, unfolded sample_request_sel, OF law route this]
  show ?thesis by simp
qed

text \<open>
  Where the validators look a parameter up under one spelling only, the other spelling names a second
  resource. A run is looked up as \<^verbatim>\<open>run_id\<close> and then as \<^verbatim>\<open>run_uuid\<close>, an
  endpoint as \<^verbatim>\<open>name\<close> and as \<^verbatim>\<open>endpoint_id\<close>; the requests below pass for
  \<^verbatim>\<open>bob\<close>, and the value that \<^verbatim>\<open>proto_request_value\<close> says MLflow will
  see names a run of an experiment he cannot update and an endpoint he has no permission on.
\<close>

abbreviation aliased_metric :: flask_request where
  "aliased_metric \<equiv> json_request ''POST'' ''/api/2.0/mlflow/runs/log-metric'' [(''run_uuid'', JStr ''own''), (''runId'', JStr ''victim'')]"

abbreviation camel_delete :: flask_request where
  "camel_delete \<equiv> json_request ''DELETE'' ''/api/3.0/mlflow/gateway/endpoints/delete'' [(''name'', JStr ''mine''), (''endpointId'', JStr ''e2'')]"

lemma camel_delete_run: "fst (before_request_hook sample_request_env camel_delete endpoint_app) = Continue"
proof -
  have "before_request_hook sample_request_env camel_delete endpoint_app =
      (fst (authorize sample_request_env camel_delete ''bob'' (Bound Validate_can_delete_gateway_endpoint) endpoint_app), empty_g,
       snd (authorize sample_request_env camel_delete ''bob'' (Bound Validate_can_delete_gateway_endpoint) endpoint_app))"
  proof (rule hook_authorizes)
    show "find_validator (qe_server sample_request_env) camel_delete empty_g = (Bound Validate_can_delete_gateway_endpoint, empty_g)"
      by (simp add: sample_validator)
  qed code_simp+
  moreover have "fst (authorize sample_request_env camel_delete ''bob'' (Bound Validate_can_delete_gateway_endpoint) endpoint_app) = Continue"
    by code_simp
  ultimately show ?thesis by simp
qed

text \<open>Two requests that pass for one resource while the message names another.\<close>

theorem spelling_hides_the_resource:
  "fst (before_request_hook sample_request_env aliased_metric sample_app) = Continue \<and>
   proto_request_value sample_server aliased_metric ''run_id'' = (True, Some (JStr ''victim'')) \<and>
   qe_run_experiment sample_request_env (JStr ''victim'') = Inr ''8'' \<and>
   \<not> meets sample_env sample_db ''bob'' (On_resource EXPERIMENT ''8'' can_update) \<and>
   fst (before_request_hook sample_request_env camel_delete endpoint_app) = Continue \<and>
   proto_request_value sample_server camel_delete ''endpoint_id'' = (True, Some (JStr ''e2'')) \<and>
   qe_endpoint_name sample_request_env (JStr ''e2'') = Inr ''theirs'' \<and>
   \<not> meets sample_env (a_db endpoint_app) ''bob'' (On_resource GATEWAY_ENDPOINT ''theirs'' can_read)"
proof (intro conjI)
  show "fst (before_request_hook sample_request_env aliased_metric sample_app) = Continue" using log_metric_run by fastforce
  show "fst (before_request_hook sample_request_env camel_delete endpoint_app) = Continue" by (rule camel_delete_run)
qed code_simp+

subsection \<open>Deleting a workspace\<close>

text \<open>
  The grants on a workspace outlive it. MLflow serves the deletion under a path with a parameter,
  the table of the hook after a request is looked up by the path of the request, so the cascade that
  should remove the grants never runs.
\<close>

theorem workspace_cascade_never_runs:
  assumes "\<forall>(path, e, ms)\<in>set (ms_endpoints srv). e = Rpc ''DeleteWorkspace'' \<longrightarrow> CHR ''<'' \<in> set path"
    and "CHR ''<'' \<notin> set path"
  shows "AFTER_REQUEST_HANDLERS srv (path, m) \<noteq> Some Cascade_delete_workspace_permissions"
proof
  assume "AFTER_REQUEST_HANDLERS srv (path, m) = Some Cascade_delete_workspace_permissions"
  then have "((path, m), Cascade_delete_workspace_permissions) \<in> set (bound_routes srv AFTER_REQUEST_PATH_HANDLERS)"
    unfolding AFTER_REQUEST_HANDLERS_def dict_of_def by (auto dest!: map_of_SomeD simp: filter_list_comp)
  then obtain e ms cls where route: "(path, e, ms) \<in> set (ms_endpoints srv)" "e = Rpc cls"
    "map_of AFTER_REQUEST_PATH_HANDLERS cls = Some Cascade_delete_workspace_permissions"
    by (auto simp: bound_routes_def split: endpoint.splits option.splits)
  from map_of_SomeD [OF route(3)] have "cls = ''DeleteWorkspace''" by (auto simp: AFTER_REQUEST_PATH_HANDLERS_def)
  with assms route show False by auto
qed

text \<open>The witness: the route of the sample server, and the request that deletes \<^verbatim>\<open>ws\<close>.\<close>

theorem workspace_cascade_never_runs_witness:
  "AFTER_REQUEST_HANDLERS sample_server (''/api/3.0/mlflow/workspaces/ws'', ''DELETE'') \<noteq> Some Cascade_delete_workspace_permissions"
  by (rule workspace_cascade_never_runs) (simp_all add: sample_server_def)

subsection \<open>Searches\<close>

definition sample_tokens :: page_tokens where
  "sample_tokens = \<lparr>pt_offset = (\<lambda>t. length t - 1), pt_create = (\<lambda>n. replicate (Suc n) CHR ''t'')\<rparr>"

definition sample_models :: "(json \<times> string option) list" where
  "sample_models = [(JObj [(''name'', JStr ''x'')], None), (JObj [(''name'', JStr ''m'')], None)]"

definition sample_search :: search_store where
  "sample_search = \<lparr>ss_max_results = 1, ss_search = (\<lambda>t. Inr (take 1 (drop (length t - 1) sample_models))),
     ss_search_logged = (\<lambda>t. Inr ([], True)), ss_workspace = (\<lambda>i. Inr None)\<rparr>"

definition sample_after_env :: "(permission_result timed, permission timed) after_env" where
  "sample_after_env = \<lparr>ae_request = sample_request_env, ae_tokens = sample_tokens, ae_experiments = sample_search,
     ae_registered_models = sample_search, ae_model_versions = sample_search, ae_logged_models = sample_search\<rparr>"

text \<open>The first page holds a model that \<^verbatim>\<open>bob\<close> may not read, the second one he may.\<close>

definition sample_answer :: flask_response where
  "sample_answer = \<lparr>rp_status = 200, rp_json = JObj [(''registered_models'', JList [JObj [(''name'', JStr ''x'')]]), (''next_page_token'', JStr ''tt'')]\<rparr>"

interpretation sample_pages: paged_store "ss_search sample_search" sample_tokens sample_models 1
  by unfold_locales (simp_all add: sample_search_def sample_tokens_def)


lemma sample_page_ready:
  "listing_ready sample_env sample_db ''bob'' REGISTERED_MODEL sample_tokens sample_search sample_models 1 ''registered_models''
     (\<lambda>x. msg_str x ''name'') sample_answer 1"
proof -
  have ids: "msg_list (rp_json sample_answer) ''registered_models'' = [JObj [(''name'', JStr ''x'')]]"
    "msg_str (rp_json sample_answer) ''next_page_token'' = ''tt''" by code_simp+
  have "\<not> isl (decide sample_env sample_db REGISTERED_MODEL ''x'' ''bob'' None)" "\<not> isl (decide sample_env sample_db REGISTERED_MODEL ''m'' ''bob'' None)"
    by code_simp+
  then have "\<exists>r. decide sample_env sample_db REGISTERED_MODEL ''x'' ''bob'' None = Inr r"
    "\<exists>r. decide sample_env sample_db REGISTERED_MODEL ''m'' ''bob'' None = Inr r" by (metis sum.collapse(2))+
  then have "settled sample_env sample_db ''bob'' REGISTERED_MODEL ''x''" "settled sample_env sample_db ''bob'' REGISTERED_MODEL ''m''"
    by (simp_all add: settled_def)
  then show ?thesis
    using sample_pages.paged_store_axioms
    by (simp add: listing_ready_def ids) (simp add: sample_search_def sample_tokens_def sample_models_def workspace_or_none_def plain_workspace_def msg_str_def jget_def)
qed


end
