(* ===== verification/Dependencies.thy ===== *)
theory Dependencies
  imports Batch Validators
begin

section \<open>Requests to the plugin's own API (dependencies.py, request\_helpers\_fastapi.py, audit.py, exceptions.py)\<close>

text \<open>
  The FastAPI side: who a request acts as, the dependencies that authorise a handler, the audit log and
  the status of an error. A handler is a function of the request and of the state of a worker, the
  application and its audit log. Outside Flask \<^verbatim>\<open>bridge.user.get_request_workspace\<close> finds
  no request and answers \<^verbatim>\<open>None\<close>, so the resolver of a dependency knows no workspace,
  while the batch resolvers read the one of MLflow's context variable.
\<close>

subsection \<open>Requests and state\<close>

text \<open>
  \<open>hq_state_username\<close> is what the authentication middleware left in \<^verbatim>\<open>request.state\<close>,
  \<open>hq_session\<close> the session identifier (\<open>None\<close> when the session cannot be read), \<open>hq_id\<close> the path
  parameter \<^verbatim>\<open>id\<close> where FastAPI parses it as an integer; the last three are the fields of
  a validated body.
\<close>

record route_request =
  hq_method :: string
  hq_state_username :: "string option"
  hq_session :: "string option"
  hq_path_params :: "(string \<times> string) list"
  hq_query_params :: "(string \<times> string) list"
  hq_json :: "json option"
  hq_id :: int
  hq_permission :: string
  hq_regex :: string
  hq_priority :: int

definition path_param :: "route_request \<Rightarrow> string \<Rightarrow> string" where
  "path_param rq k = (case map_of (hq_path_params rq) k of Some v \<Rightarrow> v | None \<Rightarrow> [])"

record api_event =
  ev_event :: string
  ev_actor :: "string option"
  ev_resource_type :: string
  ev_resource_id :: string
  ev_detail :: dict
  ev_status :: string

record ('c, 'w) api_state =
  ap_app :: "('c, 'w) app"
  ap_log :: "api_event list"

record ('c, 'w) api_env =
  pe_resolver :: "('c, 'w) env"
  pe_workspace :: "string option"
  pe_compile :: "string \<Rightarrow> compile_outcome"
  pe_compare :: sql_compare
  pe_clock :: int
  pe_str :: "json \<Rightarrow> string"
  pe_constant :: "error_code \<Rightarrow> int"
  pe_experiments :: "mlflow_experiment list res"
  pe_registered_models :: "string list res"
  pe_prompts :: "string list res"
  pe_gateway_endpoints :: "gateway_object list res"
  pe_gateway_model_definitions :: "gateway_object list res"
  pe_gateway_secrets :: "gateway_object list res"
  pe_experiment_name :: "string \<Rightarrow> string res"
  pe_scorers :: "string \<Rightarrow> string list res"
  AUDIT_LOG_ENABLED :: bool

type_synonym ('c, 'w, 'r) api = "('c, 'w) api_state \<Rightarrow> 'r res \<times> ('c, 'w) api_state"

text \<open>The environment of a single lookup, outside Flask, and of a batch.\<close>

definition single_env :: "('c, 'w) api_env \<Rightarrow> ('c, 'w) env" where
  "single_env env = (pe_resolver env)\<lparr>e_workspace := None\<rparr>"

definition batch_env :: "('c, 'w) api_env \<Rightarrow> ('c, 'w) env" where
  "batch_env env = (pe_resolver env)\<lparr>e_workspace := pe_workspace env\<rparr>"

definition on_app :: "(('c, 'w) app \<Rightarrow> 'r res \<times> ('c, 'w) app) \<Rightarrow> ('c, 'w, 'r) api" where
  "on_app m s = (case m (ap_app s) of (r, a) \<Rightarrow> (r, s\<lparr>ap_app := a\<rparr>))"

definition reading :: "(db \<Rightarrow> 'r res) \<Rightarrow> ('c, 'w, 'r) api" where
  "reading f s = (f (a_db (ap_app s)), s)"

text \<open>\<^verbatim>\<open>try ... except\<close>, where the handler raises another exception.\<close>

definition rescue :: "(exn \<Rightarrow> exn) \<Rightarrow> ('c, 'w, 'r) api \<Rightarrow> ('c, 'w, 'r) api" where
  "rescue f m s = (case m s of (Inl e, s') \<Rightarrow> (Inl (f e), s') | (Inr r, s') \<Rightarrow> (Inr r, s'))"

text \<open>A decorated store method that writes.\<close>

definition stored :: "('c, 'w) api_env \<Rightarrow> (db \<Rightarrow> (db \<times> 'r) res) \<Rightarrow> ('c, 'w, 'r) api" where
  "stored env m = on_app (wrap_with_cache_flush (pe_resolver env) (store_method m))"

definition stored_unit :: "('c, 'w) api_env \<Rightarrow> (db \<Rightarrow> db res) \<Rightarrow> ('c, 'w, unit) api" where
  "stored_unit env m = on_app (wrap_with_cache_flush (pe_resolver env) (store_procedure m))"

subsection \<open>The audit log\<close>

definition emit_audit_event :: "('c, 'w) api_env \<Rightarrow> string \<Rightarrow> string option \<Rightarrow> string \<Rightarrow> string \<Rightarrow> dict \<Rightarrow> ('c, 'w, unit) api" where
  "emit_audit_event env event actor rtype rid detail s =
     (Inr (), if AUDIT_LOG_ENABLED env
        then s\<lparr>ap_log := ap_log s @ [\<lparr>ev_event = event, ev_actor = actor, ev_resource_type = rtype, ev_resource_id = rid, ev_detail = detail,
            ev_status = ''success''\<rparr>]\<rparr>
        else s)"

subsection \<open>Who a request acts as\<close>

definition get_username_from_session :: "int \<Rightarrow> route_request \<Rightarrow> db \<Rightarrow> string option" where
  "get_username_from_session t rq d =
     (case hq_state_username rq of
        Some (c # cs) \<Rightarrow> Some (c # cs)
      | _ \<Rightarrow>
          (case hq_session rq of
             None \<Rightarrow> None
           | Some sid \<Rightarrow>
               (case resolve_auth_session t d sid of
                  Inr (Some r) \<Rightarrow> (if rs_is_active r then Some (rs_username r) else None)
                | _ \<Rightarrow> None)))"

definition get_username_from_basic_auth :: "db \<Rightarrow> string option \<Rightarrow> string option" where
  "get_username_from_basic_auth d credentials =
     (case credentials of
        None \<Rightarrow> None
      | Some uname \<Rightarrow>
          (case get_user_profile d uname of
             Inr user \<Rightarrow> (if ue_username user \<noteq> [] then Some (ue_username user) else None)
           | Inl _ \<Rightarrow> None))"

definition get_username_from_bearer_token :: "(string \<Rightarrow> dict option) \<Rightarrow> string list \<Rightarrow> string option \<Rightarrow> string option" where
  "get_username_from_bearer_token verify username_fields credentials =
     (case credentials of
        None \<Rightarrow> None
      | Some token \<Rightarrow>
          (case verify token of
             None \<Rightarrow> None
           | Some claims \<Rightarrow>
               (case extract_username username_fields claims of
                  Inr uname \<Rightarrow> (if uname \<noteq> [] then Some uname else None)
                | Inl _ \<Rightarrow> None)))"

definition falsy_name :: "string option \<Rightarrow> bool" where
  "falsy_name u \<longleftrightarrow> u = None \<or> u = Some []"

definition get_authenticated_username ::
  "int \<Rightarrow> route_request \<Rightarrow> string option \<Rightarrow> string option \<Rightarrow> db \<Rightarrow> string res" where
  "get_authenticated_username t rq basic_username bearer_username d =
     (let u0 = get_username_from_session t rq d;
          u1 = (if falsy_name u0 \<and> \<not> falsy_name basic_username then basic_username else u0);
          u2 = (if falsy_name u1 \<and> \<not> falsy_name bearer_username then bearer_username else u1) in
      case u2 of
        Some (c # cs) \<Rightarrow> Inr (c # cs)
      | _ \<Rightarrow> Inl (HTTPException 401 ''Authentication required. Please provide valid credentials.''))"

definition get_username :: "int \<Rightarrow> route_request \<Rightarrow> db \<Rightarrow> string res" where
  "get_username t rq d =
     (case get_authenticated_username t rq (get_username_from_basic_auth d None)
         (get_username_from_bearer_token (\<lambda>_. None) [] None) d of
        Inl (HTTPException status detail) \<Rightarrow>
          Inl (MlflowException (if py_contains ''Authentication'' detail \<or> py_contains ''credentials'' detail
            then UNAUTHENTICATED else INVALID_PARAMETER_VALUE))
      | r \<Rightarrow> r)"

definition get_is_admin :: "int \<Rightarrow> route_request \<Rightarrow> db \<Rightarrow> bool res" where
  "get_is_admin t rq d = bindE (get_username t rq d) (\<lambda>uname. bindE (get_user_profile d uname) (\<lambda>user. Inr (ue_is_admin user)))"

definition is_authenticated :: "int \<Rightarrow> route_request \<Rightarrow> db \<Rightarrow> bool res" where
  "is_authenticated t rq d =
     (case get_authenticated_username t rq (get_username_from_basic_auth d None)
         (get_username_from_bearer_token (\<lambda>_. None) [] None) d of
        Inl (HTTPException status detail) \<Rightarrow> Inr False
      | Inl e \<Rightarrow> Inl e
      | Inr uname \<Rightarrow> Inr (uname \<noteq> []))"

text \<open>The two dependencies most handlers share, in the order FastAPI resolves them.\<close>

definition caller :: "('c, 'w) api_env \<Rightarrow> route_request \<Rightarrow> ('c, 'w, string \<times> bool) api" where
  "caller env rq =
     reading (\<lambda>d. bindE (get_username (pe_clock env) rq d) (\<lambda>uname.
       bindE (get_is_admin (pe_clock env) rq d) (\<lambda>is_admin. Inr (uname, is_admin))))"

subsection \<open>Authorising a handler\<close>

definition check_admin_permission :: "('c, 'w) api_env \<Rightarrow> route_request \<Rightarrow> ('c, 'w, string option) api" where
  "check_admin_permission env rq =
     bind_check (rescue (\<lambda>_. HTTPException 403 ''Administrator privileges required for this operation'') (caller env rq))
       (\<lambda>(uname, is_admin). lift_res (if is_admin then Inr (Some uname)
          else Inl (HTTPException 403 ''Administrator privileges required for this operation'')))"

text \<open>
  The dependencies that ask the resolver. They return \<^verbatim>\<open>None\<close>, which is what a handler
  that binds the result to \<^verbatim>\<open>current_username\<close> then records as the actor.
\<close>

definition check_manage ::
  "('c, 'w) api_env \<Rightarrow> route_request \<Rightarrow> (('c, 'w) app \<Rightarrow> string \<Rightarrow> bool res \<times> ('c, 'w) app) \<Rightarrow> string \<Rightarrow> ('c, 'w, string option) api" where
  "check_manage env rq ask detail =
     bind_check (caller env rq) (\<lambda>(uname, is_admin).
       if is_admin then lift_res (Inr None)
       else bind_check (on_app (\<lambda>a. ask a uname)) (\<lambda>ok. lift_res (if ok then Inr None else Inl (HTTPException 403 detail))))"

definition check_experiment_manage_permission :: "('c, 'w) api_env \<Rightarrow> route_request \<Rightarrow> ('c, 'w, string option) api" where
  "check_experiment_manage_permission env rq =
     (let experiment_id = path_param rq ''experiment_id'' in
      check_manage env rq (\<lambda>a uname. can_manage_experiment (single_env env) a experiment_id uname)
        (''Insufficient permissions to manage experiment '' @ experiment_id))"

definition check_registered_model_manage_permission :: "('c, 'w) api_env \<Rightarrow> route_request \<Rightarrow> ('c, 'w, string option) api" where
  "check_registered_model_manage_permission env rq =
     (let nm = path_param rq ''name'' in
      check_manage env rq (\<lambda>a uname. can_manage_registered_model (single_env env) a nm uname)
        (''Insufficient permissions to manage '' @ nm))"

definition check_prompt_manage_permission :: "('c, 'w) api_env \<Rightarrow> route_request \<Rightarrow> ('c, 'w, string option) api" where
  "check_prompt_manage_permission env rq =
     (let nm = path_param rq ''prompt_name'' in
      check_manage env rq (\<lambda>a uname. can_manage_registered_model (single_env env) a nm uname)
        (''Insufficient permissions to manage '' @ nm))"

definition check_gateway_endpoint_manage_permission :: "('c, 'w) api_env \<Rightarrow> route_request \<Rightarrow> ('c, 'w, string option) api" where
  "check_gateway_endpoint_manage_permission env rq =
     (let nm = path_param rq ''name'' in
      check_manage env rq (\<lambda>a uname. can_manage_gateway_endpoint (single_env env) a nm uname)
        (''Insufficient permissions to manage endpoint '' @ nm))"

definition check_gateway_secret_manage_permission :: "('c, 'w) api_env \<Rightarrow> route_request \<Rightarrow> ('c, 'w, string option) api" where
  "check_gateway_secret_manage_permission env rq =
     (let nm = path_param rq ''name'' in
      check_manage env rq (\<lambda>a uname. can_manage_gateway_secret (single_env env) a nm uname)
        (''Insufficient permissions to manage secret '' @ nm))"

definition check_gateway_model_definition_manage_permission :: "('c, 'w) api_env \<Rightarrow> route_request \<Rightarrow> ('c, 'w, string option) api" where
  "check_gateway_model_definition_manage_permission env rq =
     (let nm = path_param rq ''name'' in
      check_manage env rq (\<lambda>a uname. can_manage_gateway_model_definition (single_env env) a nm uname)
        (''Insufficient permissions to manage model definition '' @ nm))"

text \<open>
  The scorer's dependency reads its parameters from the query, then from the path, then from the body.
  A value of the body that is not a string is read by its text, \<open>pe_str\<close>.
\<close>

definition first_truthy :: "json \<Rightarrow> json \<Rightarrow> json" where
  "first_truthy a b = (if truthy a then a else b)"

definition text_value :: "('c, 'w) api_env \<Rightarrow> json \<Rightarrow> string" where
  "text_value env j = (case j of JStr s \<Rightarrow> s | _ \<Rightarrow> pe_str env j)"

definition query_or_path :: "route_request \<Rightarrow> string \<Rightarrow> json" where
  "query_or_path rq k =
     first_truthy (jget (map (\<lambda>(k, v). (k, JStr v)) (hq_query_params rq)) k) (jget (map (\<lambda>(k, v). (k, JStr v)) (hq_path_params rq)) k)"

definition scorer_param :: "route_request \<Rightarrow> string \<Rightarrow> json" where
  "scorer_param rq k =
     (let v = query_or_path rq k in
      if hq_method rq \<in> {''POST'', ''PATCH'', ''DELETE''}
      then case hq_json rq of Some (JObj body) \<Rightarrow> first_truthy v (jget body k) | _ \<Rightarrow> v
      else v)"

definition check_scorer_manage_permission :: "('c, 'w) api_env \<Rightarrow> route_request \<Rightarrow> ('c, 'w, string option) api" where
  "check_scorer_manage_permission env rq =
     bind_check (caller env rq) (\<lambda>(uname, is_admin).
       let experiment_id = scorer_param rq ''experiment_id''; scorer_name = scorer_param rq ''scorer_name'' in
       if \<not> truthy experiment_id \<or> \<not> truthy scorer_name
       then lift_res (Inl (HTTPException 400 ''Missing required parameters: experiment_id and scorer_name''))
       else if is_admin then lift_res (Inr None)
       else bind_check (on_app (\<lambda>a. can_manage_scorer (single_env env) a (text_value env experiment_id) (text_value env scorer_name) uname))
         (\<lambda>ok. lift_res (if ok then Inr None
            else Inl (HTTPException 403 (''Insufficient permissions to manage scorer '' @ text_value env scorer_name)))))"

definition check_workspace ::
  "('c, 'w) api_env \<Rightarrow> route_request \<Rightarrow> (permission \<Rightarrow> bool) \<Rightarrow> string \<Rightarrow> ('c, 'w, string) api" where
  "check_workspace env rq can detail =
     bind_check (rescue (\<lambda>_. HTTPException 403 ''Authentication required'') (caller env rq)) (\<lambda>(uname, is_admin).
       if is_admin then lift_res (Inr uname)
       else if \<not> MLFLOW_ENABLE_WORKSPACES (e_config (pe_resolver env))
       then lift_res (Inl (HTTPException 403 ''Workspaces are not enabled''))
       else bind_check (on_app (\<lambda>a. case get_workspace_permission_cached (e_config (pe_resolver env)) (e_wc (pe_resolver env))
              (e_re_match (pe_resolver env)) (a_db a) (a_wc a) uname (path_param rq ''workspace'') of (perm, w) \<Rightarrow> (Inr perm, a\<lparr>a_wc := w\<rparr>)))
         (\<lambda>perm. lift_res (case perm of Some p \<Rightarrow> if can p then Inr uname else Inl (HTTPException 403 detail)
            | None \<Rightarrow> Inl (HTTPException 403 detail))))"

definition check_workspace_manage_permission :: "('c, 'w) api_env \<Rightarrow> route_request \<Rightarrow> ('c, 'w, string) api" where
  "check_workspace_manage_permission env rq =
     check_workspace env rq can_manage (''MANAGE permission required on workspace '' @ CHR 39 # path_param rq ''workspace'' @ [CHR 39])"

definition check_workspace_read_permission :: "('c, 'w) api_env \<Rightarrow> route_request \<Rightarrow> ('c, 'w, string) api" where
  "check_workspace_read_permission env rq =
     check_workspace env rq can_read (''READ permission required on workspace '' @ CHR 39 # path_param rq ''workspace'' @ [CHR 39])"

subsection \<open>Errors as answers\<close>

text \<open>
  \<^verbatim>\<open>MlflowException.error_code\<close> is the name of the code; the constants that the handlers
  compare it with are the numbers of \<^verbatim>\<open>databricks_pb2\<close>.
\<close>

fun error_name :: "error_code \<Rightarrow> string" where
  "error_name RESOURCE_DOES_NOT_EXIST = ''RESOURCE_DOES_NOT_EXIST''"
| "error_name RESOURCE_ALREADY_EXISTS = ''RESOURCE_ALREADY_EXISTS''"
| "error_name INVALID_STATE = ''INVALID_STATE''"
| "error_name INVALID_PARAMETER_VALUE = ''INVALID_PARAMETER_VALUE''"
| "error_name BAD_REQUEST = ''BAD_REQUEST''"
| "error_name UNAUTHENTICATED = ''UNAUTHENTICATED''"
| "error_name INTERNAL_ERROR = ''INTERNAL_ERROR''"

definition code_is :: "('c, 'w) api_env \<Rightarrow> error_code \<Rightarrow> error_code \<Rightarrow> bool" where
  "code_is env c const \<longleftrightarrow> JStr (error_name c) = JNum (pe_constant env const)"

text \<open>The handler for MLflow's exceptions, and the status of an answer.\<close>

definition handle_mlflow_exception :: "string \<Rightarrow> nat" where
  "handle_mlflow_exception error_code =
     (if error_code = ''RESOURCE_ALREADY_EXISTS'' then 409
      else if error_code = ''RESOURCE_DOES_NOT_EXIST'' then 404
      else if error_code = ''INVALID_PARAMETER_VALUE'' then 400
      else if error_code = ''UNAUTHORIZED'' then 401
      else if error_code = ''UNAUTHENTICATED'' then 401
      else if error_code = ''PERMISSION_DENIED'' then 403
      else if error_code = ''INVALID_STATE'' then 400 else 500)"

fun error_status :: "exn \<Rightarrow> nat" where
  "error_status (MlflowException c) = handle_mlflow_exception (error_name c)"
| "error_status (HTTPException status detail) = status"
| "error_status _ = 500"

text \<open>\<^verbatim>\<open>int(s)\<close>: white space around, a sign, digits with single underscores between.\<close>

fun digits_value :: "int \<Rightarrow> bool \<Rightarrow> string \<Rightarrow> int option" where
  "digits_value acc ok [] = (if ok then Some acc else None)"
| "digits_value acc ok (c # s) =
     (if is_digit c then digits_value (10 * acc + (of_char c - 48)) True s
      else if c = CHR ''_'' \<and> ok then digits_value acc False s else None)"

definition py_int :: "string \<Rightarrow> int res" where
  "py_int s =
     (case (case py_strip s of
              CHR ''-'' # ds \<Rightarrow> map_option uminus (digits_value 0 False ds)
            | CHR ''+'' # ds \<Rightarrow> digits_value 0 False ds
            | ds \<Rightarrow> digits_value 0 False ds) of
        Some n \<Rightarrow> Inr n | None \<Rightarrow> Inl ValueError)"

text \<open>The shapes of the \<^verbatim>\<open>except\<close> clauses.\<close>

definition failed :: "nat \<Rightarrow> string \<Rightarrow> exn \<Rightarrow> exn" where
  "failed status detail e = HTTPException status detail"

definition bad_id_or :: "nat \<Rightarrow> string \<Rightarrow> exn \<Rightarrow> exn" where
  "bad_id_or status detail e =
     (if e = ValueError then HTTPException 400 ''Invalid pattern ID format. Expected an integer.'' else HTTPException status detail)"

definition conflict_or ::
  "('c, 'w) api_env \<Rightarrow> error_code \<Rightarrow> nat \<Rightarrow> string \<Rightarrow> string \<Rightarrow> exn \<Rightarrow> exn" where
  "conflict_or env const status detail otherwise e =
     (case e of
        MlflowException c \<Rightarrow>
          (if code_is env c const then HTTPException status detail
           else if code_is env c INVALID_PARAMETER_VALUE then HTTPException 400 (error_name c)
           else MlflowException c)
      | _ \<Rightarrow> HTTPException 500 otherwise)"

subsection \<open>Answers\<close>

text \<open>The response models: messages, records of grants and patterns, and the items of the listings.\<close>

datatype api_answer =
    Message string
  | Status_message string
  | Status_only
  | Experiment_summaries "(string \<times> string \<times> string \<times> string) list"
  | Named_summaries "(string \<times> string \<times> string) list"
  | Named_summary string string string
  | Grant_record "string perm_row"
  | Scorer_record "(string \<times> string) perm_row"
  | Scorer_records "(string \<times> string) perm_row list"
  | Pattern_record regex_row
  | Pattern_records "regex_row list"
  | Model_pattern_record model_regex_row
  | Model_pattern_records "model_regex_row list"
  | Group_names "string list"
  | Group_members "(string \<times> bool) list"
  | Group_experiments "(string \<times> string \<times> string) list"
  | Group_items "(string \<times> string) list"
  | User_items "(string \<times> string \<times> string) list"
  | Experiments "mlflow_experiment list"
  | Names "string list"
  | Gateway_objects "(string \<times> string) list list"

end
