(* ===== verification/User_Permissions.thy ===== *)
theory User_Permissions
  imports Dependencies
begin

section \<open>The permissions of a user (routers/user\_permissions.py)\<close>

text \<open>
  One definition per handler, in the order of the file, and the routes under which they are served: the
  listings, which show what the caller may see, the grants, which need the management of the resource or an
  administrator, and the patterns, which need an administrator. A handler that only answers reads the
  database; one that writes calls one decorated method of the store and records one event.
\<close>

subsection \<open>Listings\<close>

definition result_of :: "(string \<rightharpoonup> permission_result) \<Rightarrow> string \<Rightarrow> permission_result res" where
  "result_of permissions k = (case permissions k of None \<Rightarrow> Inl KeyError | Some r \<Rightarrow> Inr r)"

text \<open>
  An administrator sees everything, a user what he has any permission on, and on behalf of somebody else
  what he manages himself.
\<close>

definition shown_to ::
  "string \<Rightarrow> bool \<Rightarrow> string \<Rightarrow> ('x \<Rightarrow> string) \<Rightarrow> (('c, 'w) app \<Rightarrow> (string \<rightharpoonup> permission_result) res \<times> ('c, 'w) app) \<Rightarrow>
   (string \<rightharpoonup> permission_result) \<Rightarrow> 'x list \<Rightarrow> ('c, 'w, 'x list) api" where
  "shown_to current_username is_admin uname key resolve_own permissions all =
     (if is_admin then lift_res (Inr all)
      else if current_username = uname
      then lift_res (filterE (\<lambda>x. bindE (result_of permissions (key x)) (\<lambda>r. Inr (name (pr_permission r) \<noteq> name NO_PERMISSIONS))) all)
      else bind_check (on_app resolve_own) (\<lambda>own. lift_res (filterE (\<lambda>x. manageable_in own (key x)) all)))"

definition manages_experiment :: "('c, 'w) api_env \<Rightarrow> string \<Rightarrow> string \<Rightarrow> ('c, 'w, bool) api" where
  "manages_experiment env eid uname = on_app (\<lambda>a. flag_of can_manage (effective_experiment_permission (single_env env) a eid uname))"

fun gateway_listing ::
  "(gateway_object \<Rightarrow> string) \<Rightarrow> (('c, 'w) app \<Rightarrow> string \<Rightarrow> string \<Rightarrow> permission_result res \<times> ('c, 'w) app) \<Rightarrow>
   string \<Rightarrow> bool \<Rightarrow> string \<Rightarrow> gateway_object list \<Rightarrow> ('c, 'w, (string \<times> string \<times> string) list) api" where
  "gateway_listing name_of resolve current_username is_admin uname [] = lift_res (Inr [])"
| "gateway_listing name_of resolve current_username is_admin uname (x # xs) =
     (if name_of x = [] then gateway_listing name_of resolve current_username is_admin uname xs
      else bind_check (on_app (\<lambda>a. resolve a (name_of x) uname)) (\<lambda>perm.
        bind_check (if is_admin then lift_res (Inr True)
          else if current_username = uname then lift_res (Inr (name (pr_permission perm) \<noteq> name NO_PERMISSIONS))
          else on_app (\<lambda>a. flag_of can_manage (resolve a (name_of x) current_username))) (\<lambda>show_it.
        bind_check (gateway_listing name_of resolve current_username is_admin uname xs) (\<lambda>rest.
        lift_res (Inr (if show_it then (name_of x, name (pr_permission perm), kind perm) # rest else rest))))))"

subsection \<open>Handlers\<close>

definition get_user_experiment_permissions :: "('c, 'w) api_env \<Rightarrow> route_request \<Rightarrow> ('c, 'w, api_answer) api" where
  "get_user_experiment_permissions env rq =
     bind_check (caller env rq) (\<lambda>(current_username, is_admin).
     bind_check (lift_res (pe_experiments env)) (\<lambda>all.
     bind_check (on_app (\<lambda>a. batch_resolve_experiment_permissions (batch_env env) a (path_param rq ''username'') all)) (\<lambda>permissions.
     bind_check (shown_to current_username is_admin (path_param rq ''username'') exp_id
         (\<lambda>a. batch_resolve_experiment_permissions (batch_env env) a current_username all) permissions all) (\<lambda>shown.
     lift_res (bindE (mapE (\<lambda>x. bindE (result_of permissions (exp_id x)) (\<lambda>r. Inr (exp_name x, exp_id x, name (pr_permission r), kind r))) shown) (\<lambda>items. Inr (Experiment_summaries items)))))))"

definition create_user_experiment_permission :: "('c, 'w) api_env \<Rightarrow> route_request \<Rightarrow> ('c, 'w, api_answer) api" where
  "create_user_experiment_permission env rq =
     bind_check (check_experiment_manage_permission env rq) (\<lambda>actor.
     bind_check (stored env (\<lambda>d. create_experiment_permission d (path_param rq ''experiment_id'') (path_param rq ''username'') (hq_permission rq))) (\<lambda>_.
       bind_check (emit_audit_event env ''permission.create'' actor ''experiment_permission'' (path_param rq ''experiment_id'') [(''username'', JStr (path_param rq ''username'')), (''permission'', JStr (hq_permission rq))]) (\<lambda>_.
       lift_res (Inr (Message (''Experiment permission has been created.''))))))"

definition get_user_experiment_permission :: "('c, 'w) api_env \<Rightarrow> route_request \<Rightarrow> ('c, 'w, api_answer) api" where
  "get_user_experiment_permission env rq =
     bind_check (check_experiment_manage_permission env rq) (\<lambda>_.
     bind_check (reading (\<lambda>d. get_experiment_permission d (path_param rq ''experiment_id'') (path_param rq ''username''))) (\<lambda>row. lift_res (Inr (Grant_record row))))"

definition update_user_experiment_permission :: "('c, 'w) api_env \<Rightarrow> route_request \<Rightarrow> ('c, 'w, api_answer) api" where
  "update_user_experiment_permission env rq =
     bind_check (check_experiment_manage_permission env rq) (\<lambda>actor.
     bind_check (stored env (\<lambda>d. update_experiment_permission d (path_param rq ''experiment_id'') (path_param rq ''username'') (hq_permission rq))) (\<lambda>_.
       bind_check (emit_audit_event env ''permission.update'' actor ''experiment_permission'' (path_param rq ''experiment_id'') [(''username'', JStr (path_param rq ''username'')), (''permission'', JStr (hq_permission rq))]) (\<lambda>_.
       lift_res (Inr (Message (''Experiment permission has been changed.''))))))"

definition delete_user_experiment_permission :: "('c, 'w) api_env \<Rightarrow> route_request \<Rightarrow> ('c, 'w, api_answer) api" where
  "delete_user_experiment_permission env rq =
     bind_check (check_experiment_manage_permission env rq) (\<lambda>actor.
     bind_check (stored_unit env (\<lambda>d. delete_experiment_permission d (path_param rq ''experiment_id'') (path_param rq ''username''))) (\<lambda>_.
       bind_check (emit_audit_event env ''permission.delete'' actor ''experiment_permission'' (path_param rq ''experiment_id'') [(''username'', JStr (path_param rq ''username''))]) (\<lambda>_.
       lift_res (Inr (Message (''Experiment permission has been deleted.''))))))"

definition create_user_experiment_pattern_permission :: "('c, 'w) api_env \<Rightarrow> route_request \<Rightarrow> ('c, 'w, api_answer) api" where
  "create_user_experiment_pattern_permission env rq =
     bind_check (check_admin_permission env rq) (\<lambda>actor.
     rescue (failed 500 ''Failed to create experiment pattern permission'')
      (bind_check (stored env (\<lambda>d. create_experiment_regex_permission (pe_compile env) d (hq_regex rq) (hq_priority rq) (hq_permission rq) (path_param rq ''username''))) (\<lambda>_.
       bind_check (emit_audit_event env ''permission.create'' actor ''experiment_regex_permission'' (path_param rq ''username'') [(''regex'', JStr (hq_regex rq)), (''priority'', JNum (hq_priority rq)), (''permission'', JStr (hq_permission rq))]) (\<lambda>_.
       lift_res (Inr (Status_message (''Experiment pattern permission created for '' @ path_param rq ''username'')))))))"

definition list_user_experiment_pattern_permissions :: "('c, 'w) api_env \<Rightarrow> route_request \<Rightarrow> ('c, 'w, api_answer) api" where
  "list_user_experiment_pattern_permissions env rq =
     bind_check (check_admin_permission env rq) (\<lambda>_.
     rescue (failed 500 ''Failed to retrieve experiment pattern permissions'')
      (bind_check (reading (\<lambda>d. Inr (list_experiment_regex_permissions d (path_param rq ''username'')))) (\<lambda>row. lift_res (Inr (Pattern_records row)))))"

definition get_user_experiment_pattern_permission :: "('c, 'w) api_env \<Rightarrow> route_request \<Rightarrow> ('c, 'w, api_answer) api" where
  "get_user_experiment_pattern_permission env rq =
     bind_check (check_admin_permission env rq) (\<lambda>_.
     rescue (bad_id_or 404 ''Experiment pattern permission not found'')
      (bind_check (lift_res (py_int (path_param rq ''id''))) (\<lambda>i.
       bind_check (reading (\<lambda>d. get_experiment_regex_permission d (path_param rq ''username'') i)) (\<lambda>row. lift_res (Inr (Pattern_record row))))))"

definition update_user_experiment_pattern_permission :: "('c, 'w) api_env \<Rightarrow> route_request \<Rightarrow> ('c, 'w, api_answer) api" where
  "update_user_experiment_pattern_permission env rq =
     bind_check (check_admin_permission env rq) (\<lambda>actor.
     rescue (bad_id_or 500 ''Failed to update experiment pattern permission'')
      (bind_check (lift_res (py_int (path_param rq ''id''))) (\<lambda>i.
       bind_check (stored env (\<lambda>d. update_experiment_regex_permission (pe_compile env) d (hq_regex rq) (hq_priority rq) (hq_permission rq) (path_param rq ''username'') i)) (\<lambda>_.
       bind_check (emit_audit_event env ''permission.update'' actor ''experiment_regex_permission'' (path_param rq ''username'') [(''id'', JStr (path_param rq ''id'')), (''regex'', JStr (hq_regex rq)), (''priority'', JNum (hq_priority rq)), (''permission'', JStr (hq_permission rq))]) (\<lambda>_.
       lift_res (Inr (Status_message (''Experiment pattern permission updated for '' @ path_param rq ''username''))))))))"

definition delete_user_experiment_pattern_permission :: "('c, 'w) api_env \<Rightarrow> route_request \<Rightarrow> ('c, 'w, api_answer) api" where
  "delete_user_experiment_pattern_permission env rq =
     bind_check (check_admin_permission env rq) (\<lambda>actor.
     rescue (bad_id_or 500 ''Failed to delete experiment pattern permission'')
      (bind_check (lift_res (py_int (path_param rq ''id''))) (\<lambda>i.
       bind_check (stored_unit env (\<lambda>d. delete_experiment_regex_permission d (path_param rq ''username'') i)) (\<lambda>_.
       bind_check (emit_audit_event env ''permission.delete'' actor ''experiment_regex_permission'' (path_param rq ''username'') [(''id'', JStr (path_param rq ''id''))]) (\<lambda>_.
       lift_res (Inr (Status_message (''Experiment pattern permission deleted for '' @ path_param rq ''username''))))))))"

definition get_user_prompts :: "('c, 'w) api_env \<Rightarrow> route_request \<Rightarrow> ('c, 'w, api_answer) api" where
  "get_user_prompts env rq =
     bind_check (caller env rq) (\<lambda>(current_username, is_admin).
     bind_check (lift_res (pe_prompts env)) (\<lambda>all.
     bind_check (on_app (\<lambda>a. batch_resolve_prompt_permissions (batch_env env) a (path_param rq ''username'') all)) (\<lambda>permissions.
     bind_check (shown_to current_username is_admin (path_param rq ''username'') id
         (\<lambda>a. batch_resolve_prompt_permissions (batch_env env) a current_username all) permissions all) (\<lambda>shown.
     lift_res (bindE (mapE (\<lambda>x. bindE (result_of permissions (id x)) (\<lambda>r. Inr (x, name (pr_permission r), kind r))) shown) (\<lambda>items. Inr (Named_summaries items)))))))"

definition create_user_prompt_permission :: "('c, 'w) api_env \<Rightarrow> route_request \<Rightarrow> ('c, 'w, api_answer) api" where
  "create_user_prompt_permission env rq =
     bind_check (check_registered_model_manage_permission env rq) (\<lambda>actor.
     rescue (conflict_or env RESOURCE_ALREADY_EXISTS 409 ''Prompt permission already exists'' ''Failed to create prompt permission'')
      (bind_check (stored env (\<lambda>d. create_registered_model_permission d (path_param rq ''name'') (path_param rq ''username'') (hq_permission rq))) (\<lambda>_.
       bind_check (emit_audit_event env ''permission.create'' actor ''prompt_permission'' (path_param rq ''name'') [(''username'', JStr (path_param rq ''username'')), (''permission'', JStr (hq_permission rq))]) (\<lambda>_.
       lift_res (Inr (Status_message (''Prompt permission created for '' @ path_param rq ''username'' @ '' on '' @ path_param rq ''name'')))))))"

definition get_user_prompt_permission :: "('c, 'w) api_env \<Rightarrow> route_request \<Rightarrow> ('c, 'w, api_answer) api" where
  "get_user_prompt_permission env rq =
     bind_check (check_registered_model_manage_permission env rq) (\<lambda>_.
     rescue (failed 404 ''Prompt permission not found'')
      (bind_check (reading (\<lambda>d. get_registered_model_permission d (path_param rq ''name'') (path_param rq ''username''))) (\<lambda>row. lift_res (Inr (Grant_record row)))))"

definition update_user_prompt_permission :: "('c, 'w) api_env \<Rightarrow> route_request \<Rightarrow> ('c, 'w, api_answer) api" where
  "update_user_prompt_permission env rq =
     bind_check (check_registered_model_manage_permission env rq) (\<lambda>actor.
     rescue (conflict_or env RESOURCE_DOES_NOT_EXIST 404 ''Prompt permission does not exist'' ''Failed to update prompt permission'')
      (bind_check (stored env (\<lambda>d. update_registered_model_permission d (path_param rq ''name'') (path_param rq ''username'') (hq_permission rq))) (\<lambda>_.
       bind_check (emit_audit_event env ''permission.update'' actor ''prompt_permission'' (path_param rq ''name'') [(''username'', JStr (path_param rq ''username'')), (''permission'', JStr (hq_permission rq))]) (\<lambda>_.
       lift_res (Inr (Status_message (''Prompt permission updated for '' @ path_param rq ''username'' @ '' on '' @ path_param rq ''name'')))))))"

definition delete_user_prompt_permission :: "('c, 'w) api_env \<Rightarrow> route_request \<Rightarrow> ('c, 'w, api_answer) api" where
  "delete_user_prompt_permission env rq =
     bind_check (check_registered_model_manage_permission env rq) (\<lambda>actor.
     rescue (failed 500 ''Failed to delete prompt permission'')
      (bind_check (stored_unit env (\<lambda>d. delete_registered_model_permission d (path_param rq ''name'') (path_param rq ''username''))) (\<lambda>_.
       bind_check (emit_audit_event env ''permission.delete'' actor ''prompt_permission'' (path_param rq ''name'') [(''username'', JStr (path_param rq ''username''))]) (\<lambda>_.
       lift_res (Inr (Status_message (''Prompt permission deleted for '' @ path_param rq ''username'' @ '' on '' @ path_param rq ''name'')))))))"

definition get_user_prompt_pattern_permissions :: "('c, 'w) api_env \<Rightarrow> route_request \<Rightarrow> ('c, 'w, api_answer) api" where
  "get_user_prompt_pattern_permissions env rq =
     bind_check (check_admin_permission env rq) (\<lambda>_.
     rescue (failed 500 ''Failed to retrieve prompt pattern permissions'')
      (bind_check (reading (\<lambda>d. list_prompt_regex_permissions d (path_param rq ''username'') True)) (\<lambda>row. lift_res (Inr (Model_pattern_records row)))))"

definition create_user_prompt_regex_permission :: "('c, 'w) api_env \<Rightarrow> route_request \<Rightarrow> ('c, 'w, api_answer) api" where
  "create_user_prompt_regex_permission env rq =
     bind_check (check_admin_permission env rq) (\<lambda>actor.
     rescue (failed 500 ''Failed to create prompt pattern permission'')
      (bind_check (stored env (\<lambda>d. create_prompt_regex_permission (pe_compile env) d (hq_regex rq) (hq_priority rq) (hq_permission rq) (path_param rq ''username'') True)) (\<lambda>_.
       bind_check (emit_audit_event env ''permission.create'' actor ''prompt_regex_permission'' (path_param rq ''username'') [(''regex'', JStr (hq_regex rq)), (''priority'', JNum (hq_priority rq)), (''permission'', JStr (hq_permission rq))]) (\<lambda>_.
       lift_res (Inr (Status_message (''Prompt pattern permission created for '' @ path_param rq ''username'')))))))"

definition get_user_prompt_regex_permission :: "('c, 'w) api_env \<Rightarrow> route_request \<Rightarrow> ('c, 'w, api_answer) api" where
  "get_user_prompt_regex_permission env rq =
     bind_check (check_admin_permission env rq) (\<lambda>_.
     rescue (bad_id_or 404 ''Prompt pattern permission not found'')
      (bind_check (lift_res (py_int (path_param rq ''id''))) (\<lambda>i.
       bind_check (reading (\<lambda>d. get_prompt_regex_permission d i (path_param rq ''username'') True)) (\<lambda>row. lift_res (Inr (Model_pattern_record row))))))"

definition update_user_prompt_regex_permission :: "('c, 'w) api_env \<Rightarrow> route_request \<Rightarrow> ('c, 'w, api_answer) api" where
  "update_user_prompt_regex_permission env rq =
     bind_check (check_admin_permission env rq) (\<lambda>actor.
     rescue (bad_id_or 500 ''Failed to update prompt pattern permission'')
      (bind_check (lift_res (py_int (path_param rq ''id''))) (\<lambda>i.
       bind_check (stored env (\<lambda>d. update_prompt_regex_permission (pe_compile env) d i (hq_regex rq) (hq_priority rq) (hq_permission rq) (path_param rq ''username'') True)) (\<lambda>row.
       bind_check (emit_audit_event env ''permission.update'' actor ''prompt_regex_permission'' (path_param rq ''username'') [(''id'', JStr (path_param rq ''id'')), (''regex'', JStr (hq_regex rq)), (''priority'', JNum (hq_priority rq)), (''permission'', JStr (hq_permission rq))]) (\<lambda>_.
       lift_res (Inr (Model_pattern_record row)))))))"

definition delete_user_prompt_regex_permission :: "('c, 'w) api_env \<Rightarrow> route_request \<Rightarrow> ('c, 'w, api_answer) api" where
  "delete_user_prompt_regex_permission env rq =
     bind_check (check_admin_permission env rq) (\<lambda>actor.
     rescue (bad_id_or 500 ''Failed to delete prompt pattern permission'')
      (bind_check (lift_res (py_int (path_param rq ''id''))) (\<lambda>i.
       bind_check (stored_unit env (\<lambda>d. delete_prompt_regex_permission d i (path_param rq ''username''))) (\<lambda>_.
       bind_check (emit_audit_event env ''permission.delete'' actor ''prompt_regex_permission'' (path_param rq ''username'') [(''id'', JStr (path_param rq ''id''))]) (\<lambda>_.
       lift_res (Inr (Status_only)))))))"

definition get_user_registered_models :: "('c, 'w) api_env \<Rightarrow> route_request \<Rightarrow> ('c, 'w, api_answer) api" where
  "get_user_registered_models env rq =
     bind_check (caller env rq) (\<lambda>(current_username, is_admin).
     bind_check (lift_res (pe_registered_models env)) (\<lambda>all.
     bind_check (on_app (\<lambda>a. batch_resolve_model_permissions (batch_env env) a (path_param rq ''username'') all)) (\<lambda>permissions.
     bind_check (shown_to current_username is_admin (path_param rq ''username'') id
         (\<lambda>a. batch_resolve_model_permissions (batch_env env) a current_username all) permissions all) (\<lambda>shown.
     lift_res (bindE (mapE (\<lambda>x. bindE (result_of permissions (id x)) (\<lambda>r. Inr (x, name (pr_permission r), kind r))) shown) (\<lambda>items. Inr (Named_summaries items)))))))"

definition create_user_registered_model_permission :: "('c, 'w) api_env \<Rightarrow> route_request \<Rightarrow> ('c, 'w, api_answer) api" where
  "create_user_registered_model_permission env rq =
     bind_check (check_registered_model_manage_permission env rq) (\<lambda>actor.
     rescue (conflict_or env RESOURCE_ALREADY_EXISTS 409 ''Registered model permission already exists'' ''Failed to create registered model permission'')
      (bind_check (stored env (\<lambda>d. create_registered_model_permission d (path_param rq ''name'') (path_param rq ''username'') (hq_permission rq))) (\<lambda>_.
       bind_check (emit_audit_event env ''permission.create'' actor ''registered_model_permission'' (path_param rq ''name'') [(''username'', JStr (path_param rq ''username'')), (''permission'', JStr (hq_permission rq))]) (\<lambda>_.
       lift_res (Inr (Status_message (''Registered model permission created for '' @ path_param rq ''username'' @ '' on '' @ path_param rq ''name'')))))))"

definition get_user_registered_model_permission :: "('c, 'w) api_env \<Rightarrow> route_request \<Rightarrow> ('c, 'w, api_answer) api" where
  "get_user_registered_model_permission env rq =
     bind_check (check_registered_model_manage_permission env rq) (\<lambda>_.
     rescue (failed 404 ''Registered model permission not found'')
      (bind_check (reading (\<lambda>d. get_registered_model_permission d (path_param rq ''name'') (path_param rq ''username''))) (\<lambda>row. lift_res (Inr (Grant_record row)))))"

definition update_user_registered_model_permission :: "('c, 'w) api_env \<Rightarrow> route_request \<Rightarrow> ('c, 'w, api_answer) api" where
  "update_user_registered_model_permission env rq =
     bind_check (check_registered_model_manage_permission env rq) (\<lambda>actor.
     rescue (conflict_or env RESOURCE_DOES_NOT_EXIST 404 ''Registered model permission does not exist'' ''Failed to update registered model permission'')
      (bind_check (stored env (\<lambda>d. update_registered_model_permission d (path_param rq ''name'') (path_param rq ''username'') (hq_permission rq))) (\<lambda>_.
       bind_check (emit_audit_event env ''permission.update'' actor ''registered_model_permission'' (path_param rq ''name'') [(''username'', JStr (path_param rq ''username'')), (''permission'', JStr (hq_permission rq))]) (\<lambda>_.
       lift_res (Inr (Status_message (''Registered model permission updated for '' @ path_param rq ''username'' @ '' on '' @ path_param rq ''name'')))))))"

definition delete_user_registered_model_permission :: "('c, 'w) api_env \<Rightarrow> route_request \<Rightarrow> ('c, 'w, api_answer) api" where
  "delete_user_registered_model_permission env rq =
     bind_check (check_registered_model_manage_permission env rq) (\<lambda>actor.
     rescue (failed 500 ''Failed to delete registered model permission'')
      (bind_check (stored_unit env (\<lambda>d. delete_registered_model_permission d (path_param rq ''name'') (path_param rq ''username''))) (\<lambda>_.
       bind_check (emit_audit_event env ''permission.delete'' actor ''registered_model_permission'' (path_param rq ''name'') [(''username'', JStr (path_param rq ''username''))]) (\<lambda>_.
       lift_res (Inr (Status_message (''Registered model permission deleted for '' @ path_param rq ''username'' @ '' on '' @ path_param rq ''name'')))))))"

definition get_user_scorer_permissions :: "('c, 'w) api_env \<Rightarrow> route_request \<Rightarrow> ('c, 'w, api_answer) api" where
  "get_user_scorer_permissions env rq =
     bind_check (caller env rq) (\<lambda>(current_username, is_admin).
     rescue (failed 500 ''Failed to retrieve scorer permissions'')
       (bind_check (reading (\<lambda>d. Inr (list_scorer_permissions d (path_param rq ''username'')))) (\<lambda>perms.
        bind_check (if is_admin \<or> current_username = path_param rq ''username'' then lift_res (Inr perms)
          else filter_check (\<lambda>sp. manages_experiment env (fst (p_resource sp)) current_username) perms) (\<lambda>shown.
        lift_res (Inr (Scorer_records shown))))))"

definition create_user_scorer_permission :: "('c, 'w) api_env \<Rightarrow> route_request \<Rightarrow> ('c, 'w, api_answer) api" where
  "create_user_scorer_permission env rq =
     bind_check (check_experiment_manage_permission env rq) (\<lambda>actor.
     rescue (conflict_or env RESOURCE_ALREADY_EXISTS 409 ''Scorer permission already exists'' ''Failed to create scorer permission'')
      (bind_check (stored env (\<lambda>d. create_scorer_permission d (path_param rq ''experiment_id'') (path_param rq ''scorer_name'') (path_param rq ''username'') (hq_permission rq))) (\<lambda>row.
       bind_check (emit_audit_event env ''permission.create'' actor ''scorer_permission'' (path_param rq ''scorer_name'') [(''username'', JStr (path_param rq ''username'')), (''experiment_id'', JStr (path_param rq ''experiment_id'')), (''permission'', JStr (hq_permission rq))]) (\<lambda>_.
       lift_res (Inr (Scorer_record row))))))"

definition get_user_scorer_permission :: "('c, 'w) api_env \<Rightarrow> route_request \<Rightarrow> ('c, 'w, api_answer) api" where
  "get_user_scorer_permission env rq =
     bind_check (check_experiment_manage_permission env rq) (\<lambda>_.
     rescue (failed 404 ''Scorer permission not found'')
      (bind_check (reading (\<lambda>d. get_scorer_permission d (path_param rq ''experiment_id'') (path_param rq ''scorer_name'') (path_param rq ''username''))) (\<lambda>row. lift_res (Inr (Scorer_record row)))))"

definition update_user_scorer_permission :: "('c, 'w) api_env \<Rightarrow> route_request \<Rightarrow> ('c, 'w, api_answer) api" where
  "update_user_scorer_permission env rq =
     bind_check (check_experiment_manage_permission env rq) (\<lambda>actor.
     rescue (conflict_or env RESOURCE_DOES_NOT_EXIST 404 ''Scorer permission does not exist'' ''Failed to update scorer permission'')
      (bind_check (stored env (\<lambda>d. update_scorer_permission d (path_param rq ''experiment_id'') (path_param rq ''scorer_name'') (path_param rq ''username'') (hq_permission rq))) (\<lambda>_.
       bind_check (emit_audit_event env ''permission.update'' actor ''scorer_permission'' (path_param rq ''scorer_name'') [(''username'', JStr (path_param rq ''username'')), (''experiment_id'', JStr (path_param rq ''experiment_id'')), (''permission'', JStr (hq_permission rq))]) (\<lambda>_.
       lift_res (Inr (Status_message (''Scorer permission updated for '' @ path_param rq ''username'' @ '' on '' @ path_param rq ''scorer_name'')))))))"

definition delete_user_scorer_permission :: "('c, 'w) api_env \<Rightarrow> route_request \<Rightarrow> ('c, 'w, api_answer) api" where
  "delete_user_scorer_permission env rq =
     bind_check (check_experiment_manage_permission env rq) (\<lambda>actor.
     rescue (failed 500 ''Failed to delete scorer permission'')
      (bind_check (stored_unit env (\<lambda>d. delete_scorer_permission d (path_param rq ''experiment_id'') (path_param rq ''scorer_name'') (path_param rq ''username''))) (\<lambda>_.
       bind_check (emit_audit_event env ''permission.delete'' actor ''scorer_permission'' (path_param rq ''scorer_name'') [(''username'', JStr (path_param rq ''username'')), (''experiment_id'', JStr (path_param rq ''experiment_id''))]) (\<lambda>_.
       lift_res (Inr (Status_message (''Scorer permission deleted for '' @ path_param rq ''username'' @ '' on '' @ path_param rq ''scorer_name'')))))))"

definition get_user_scorer_regex_permissions :: "('c, 'w) api_env \<Rightarrow> route_request \<Rightarrow> ('c, 'w, api_answer) api" where
  "get_user_scorer_regex_permissions env rq =
     bind_check (check_admin_permission env rq) (\<lambda>_.
     rescue (failed 500 ''Failed to retrieve scorer pattern permissions'')
      (bind_check (reading (\<lambda>d. Inr (list_scorer_regex_permissions d (path_param rq ''username'')))) (\<lambda>row. lift_res (Inr (Pattern_records row)))))"

definition create_user_scorer_regex_permission :: "('c, 'w) api_env \<Rightarrow> route_request \<Rightarrow> ('c, 'w, api_answer) api" where
  "create_user_scorer_regex_permission env rq =
     bind_check (check_admin_permission env rq) (\<lambda>actor.
     rescue (conflict_or env RESOURCE_ALREADY_EXISTS 409 ''Scorer pattern permission already exists'' ''Failed to create scorer pattern permission'')
      (bind_check (stored env (\<lambda>d. create_scorer_regex_permission (pe_compile env) d (hq_regex rq) (hq_priority rq) (hq_permission rq) (path_param rq ''username''))) (\<lambda>row.
       bind_check (emit_audit_event env ''permission.create'' actor ''scorer_regex_permission'' (path_param rq ''username'') [(''regex'', JStr (hq_regex rq)), (''priority'', JNum (hq_priority rq)), (''permission'', JStr (hq_permission rq))]) (\<lambda>_.
       lift_res (Inr (Pattern_record row))))))"

definition get_user_scorer_pattern_permission :: "('c, 'w) api_env \<Rightarrow> route_request \<Rightarrow> ('c, 'w, api_answer) api" where
  "get_user_scorer_pattern_permission env rq =
     bind_check (check_admin_permission env rq) (\<lambda>_.
     rescue (failed 404 ''Scorer pattern permission not found'')
      (bind_check (reading (\<lambda>d. get_scorer_regex_permission d (path_param rq ''username'') (hq_id rq))) (\<lambda>row. lift_res (Inr (Pattern_record row)))))"

definition update_user_scorer_pattern_permission :: "('c, 'w) api_env \<Rightarrow> route_request \<Rightarrow> ('c, 'w, api_answer) api" where
  "update_user_scorer_pattern_permission env rq =
     bind_check (check_admin_permission env rq) (\<lambda>actor.
     rescue (failed 500 ''Failed to update scorer pattern permission'')
      (bind_check (stored env (\<lambda>d. update_scorer_regex_permission (pe_compile env) d (hq_regex rq) (hq_priority rq) (hq_permission rq) (path_param rq ''username'') (hq_id rq))) (\<lambda>row.
       bind_check (emit_audit_event env ''permission.update'' actor ''scorer_regex_permission'' (path_param rq ''username'') [(''id'', JNum (hq_id rq)), (''regex'', JStr (hq_regex rq)), (''priority'', JNum (hq_priority rq)), (''permission'', JStr (hq_permission rq))]) (\<lambda>_.
       lift_res (Inr (Pattern_record row))))))"

definition delete_user_scorer_pattern_permission :: "('c, 'w) api_env \<Rightarrow> route_request \<Rightarrow> ('c, 'w, api_answer) api" where
  "delete_user_scorer_pattern_permission env rq =
     bind_check (check_admin_permission env rq) (\<lambda>actor.
     rescue (failed 500 ''Failed to delete scorer pattern permission'')
      (bind_check (stored_unit env (\<lambda>d. delete_scorer_regex_permission d (path_param rq ''username'') (hq_id rq))) (\<lambda>_.
       bind_check (emit_audit_event env ''permission.delete'' actor ''scorer_regex_permission'' (path_param rq ''username'') [(''id'', JNum (hq_id rq))]) (\<lambda>_.
       lift_res (Inr (Status_message (''Scorer pattern permission deleted for '' @ path_param rq ''username'')))))))"

definition get_user_registered_model_regex_permissions :: "('c, 'w) api_env \<Rightarrow> route_request \<Rightarrow> ('c, 'w, api_answer) api" where
  "get_user_registered_model_regex_permissions env rq =
     bind_check (check_admin_permission env rq) (\<lambda>_.
     rescue (failed 500 ''Failed to retrieve registered model pattern permissions'')
      (bind_check (reading (\<lambda>d. list_registered_model_regex_permissions d (path_param rq ''username''))) (\<lambda>row. lift_res (Inr (Model_pattern_records row)))))"

definition create_user_registered_model_regex_permission :: "('c, 'w) api_env \<Rightarrow> route_request \<Rightarrow> ('c, 'w, api_answer) api" where
  "create_user_registered_model_regex_permission env rq =
     bind_check (check_admin_permission env rq) (\<lambda>actor.
     rescue (failed 500 ''Failed to create registered model pattern permission'')
      (bind_check (stored env (\<lambda>d. create_registered_model_regex_permission (pe_compile env) d (hq_regex rq) (hq_priority rq) (hq_permission rq) (path_param rq ''username''))) (\<lambda>_.
       bind_check (emit_audit_event env ''permission.create'' actor ''registered_model_regex_permission'' (path_param rq ''username'') [(''regex'', JStr (hq_regex rq)), (''priority'', JNum (hq_priority rq)), (''permission'', JStr (hq_permission rq))]) (\<lambda>_.
       lift_res (Inr (Status_message (''Registered model pattern permission created for '' @ path_param rq ''username'')))))))"

definition get_user_registered_model_regex_permission :: "('c, 'w) api_env \<Rightarrow> route_request \<Rightarrow> ('c, 'w, api_answer) api" where
  "get_user_registered_model_regex_permission env rq =
     bind_check (check_admin_permission env rq) (\<lambda>_.
     rescue (bad_id_or 404 ''Registered model pattern permission not found'')
      (bind_check (lift_res (py_int (path_param rq ''id''))) (\<lambda>i.
       bind_check (reading (\<lambda>d. get_registered_model_regex_permission d i (path_param rq ''username''))) (\<lambda>row. lift_res (Inr (Model_pattern_record row))))))"

definition update_user_registered_model_regex_permission :: "('c, 'w) api_env \<Rightarrow> route_request \<Rightarrow> ('c, 'w, api_answer) api" where
  "update_user_registered_model_regex_permission env rq =
     bind_check (check_admin_permission env rq) (\<lambda>actor.
     rescue (bad_id_or 500 ''Failed to update registered model pattern permission'')
      (bind_check (lift_res (py_int (path_param rq ''id''))) (\<lambda>i.
       bind_check (stored env (\<lambda>d. update_registered_model_regex_permission (pe_compile env) d i (hq_regex rq) (hq_priority rq) (hq_permission rq) (path_param rq ''username''))) (\<lambda>row.
       bind_check (emit_audit_event env ''permission.update'' actor ''registered_model_regex_permission'' (path_param rq ''username'') [(''id'', JStr (path_param rq ''id'')), (''regex'', JStr (hq_regex rq)), (''priority'', JNum (hq_priority rq)), (''permission'', JStr (hq_permission rq))]) (\<lambda>_.
       lift_res (Inr (Model_pattern_record row)))))))"

definition delete_user_registered_model_regex_permission :: "('c, 'w) api_env \<Rightarrow> route_request \<Rightarrow> ('c, 'w, api_answer) api" where
  "delete_user_registered_model_regex_permission env rq =
     bind_check (check_admin_permission env rq) (\<lambda>actor.
     rescue (bad_id_or 500 ''Failed to delete registered model pattern permission'')
      (bind_check (lift_res (py_int (path_param rq ''id''))) (\<lambda>i.
       bind_check (stored_unit env (\<lambda>d. delete_registered_model_regex_permission d i (path_param rq ''username''))) (\<lambda>_.
       bind_check (emit_audit_event env ''permission.delete'' actor ''registered_model_regex_permission'' (path_param rq ''username'') [(''id'', JStr (path_param rq ''id''))]) (\<lambda>_.
       lift_res (Inr (Status_only)))))))"

definition get_user_gateway_endpoint_permissions :: "('c, 'w) api_env \<Rightarrow> route_request \<Rightarrow> ('c, 'w, api_answer) api" where
  "get_user_gateway_endpoint_permissions env rq =
     bind_check (caller env rq) (\<lambda>(current_username, is_admin).
     rescue (failed 500 ''Failed to retrieve gateway endpoint permissions'')
       (bind_check (lift_res (pe_gateway_endpoints env)) (\<lambda>all.
        bind_check (gateway_listing (\<lambda>m. dict_get m ''name'') (\<lambda>a nm uname. effective_gateway_endpoint_permission (single_env env) a nm uname) current_username is_admin
            (path_param rq ''username'') all) (\<lambda>items.
        lift_res (Inr (Named_summaries items))))))"

definition create_user_gateway_endpoint_permission :: "('c, 'w) api_env \<Rightarrow> route_request \<Rightarrow> ('c, 'w, api_answer) api" where
  "create_user_gateway_endpoint_permission env rq =
     bind_check (check_admin_permission env rq) (\<lambda>actor.
     rescue (failed 500 ''Failed to create gateway endpoint permission'')
      (bind_check (stored env (\<lambda>d. create_gateway_endpoint_permission d (path_param rq ''name'') (path_param rq ''username'') (hq_permission rq))) (\<lambda>row.
       bind_check (emit_audit_event env ''permission.create'' actor ''gateway_endpoint_permission'' (path_param rq ''name'') [(''username'', JStr (path_param rq ''username'')), (''permission'', JStr (hq_permission rq))]) (\<lambda>_.
       lift_res (Inr (Named_summary (p_resource row) (p_permission row) ''user''))))))"

definition get_user_gateway_endpoint_permission :: "('c, 'w) api_env \<Rightarrow> route_request \<Rightarrow> ('c, 'w, api_answer) api" where
  "get_user_gateway_endpoint_permission env rq =
     bind_check (check_admin_permission env rq) (\<lambda>_.
     rescue (failed 404 ''Gateway endpoint permission not found'')
      (bind_check (reading (\<lambda>d. get_gateway_endpoint_permission d (path_param rq ''name'') (path_param rq ''username''))) (\<lambda>row. lift_res (Inr (Named_summary (p_resource row) (p_permission row) ''user'')))))"

definition update_user_gateway_endpoint_permission :: "('c, 'w) api_env \<Rightarrow> route_request \<Rightarrow> ('c, 'w, api_answer) api" where
  "update_user_gateway_endpoint_permission env rq =
     bind_check (check_admin_permission env rq) (\<lambda>actor.
     rescue (failed 500 ''Failed to update gateway endpoint permission'')
      (bind_check (stored env (\<lambda>d. update_gateway_endpoint_permission d (path_param rq ''name'') (path_param rq ''username'') (hq_permission rq))) (\<lambda>_.
       bind_check (emit_audit_event env ''permission.update'' actor ''gateway_endpoint_permission'' (path_param rq ''name'') [(''username'', JStr (path_param rq ''username'')), (''permission'', JStr (hq_permission rq))]) (\<lambda>_.
       lift_res (Inr (Status_message (''Gateway endpoint permission updated for '' @ path_param rq ''username'' @ '' on '' @ path_param rq ''name'')))))))"

definition delete_user_gateway_endpoint_permission :: "('c, 'w) api_env \<Rightarrow> route_request \<Rightarrow> ('c, 'w, api_answer) api" where
  "delete_user_gateway_endpoint_permission env rq =
     bind_check (check_admin_permission env rq) (\<lambda>actor.
     rescue (failed 500 ''Failed to delete gateway endpoint permission'')
      (bind_check (stored_unit env (\<lambda>d. delete_gateway_endpoint_permission d (path_param rq ''name'') (path_param rq ''username''))) (\<lambda>_.
       bind_check (emit_audit_event env ''permission.delete'' actor ''gateway_endpoint_permission'' (path_param rq ''name'') [(''username'', JStr (path_param rq ''username''))]) (\<lambda>_.
       lift_res (Inr (Status_message (''Gateway endpoint permission deleted for '' @ path_param rq ''username'' @ '' on '' @ path_param rq ''name'')))))))"

definition get_user_gateway_endpoint_pattern_permissions :: "('c, 'w) api_env \<Rightarrow> route_request \<Rightarrow> ('c, 'w, api_answer) api" where
  "get_user_gateway_endpoint_pattern_permissions env rq =
     bind_check (check_admin_permission env rq) (\<lambda>_.
     rescue (failed 500 ''Failed to retrieve gateway endpoint pattern permissions'')
      (bind_check (reading (\<lambda>d. Inr (list_gateway_endpoint_regex_permissions d (path_param rq ''username'')))) (\<lambda>row. lift_res (Inr (Pattern_records row)))))"

definition create_user_gateway_endpoint_pattern_permission :: "('c, 'w) api_env \<Rightarrow> route_request \<Rightarrow> ('c, 'w, api_answer) api" where
  "create_user_gateway_endpoint_pattern_permission env rq =
     bind_check (check_admin_permission env rq) (\<lambda>actor.
     rescue (failed 500 ''Failed to create gateway endpoint pattern permission'')
      (bind_check (stored env (\<lambda>d. create_gateway_endpoint_regex_permission (pe_compile env) d (hq_regex rq) (hq_priority rq) (hq_permission rq) (path_param rq ''username''))) (\<lambda>row.
       bind_check (emit_audit_event env ''permission.create'' actor ''gateway_endpoint_regex_permission'' (path_param rq ''username'') [(''regex'', JStr (hq_regex rq)), (''priority'', JNum (hq_priority rq)), (''permission'', JStr (hq_permission rq))]) (\<lambda>_.
       lift_res (Inr (Pattern_record row))))))"

definition get_user_gateway_endpoint_pattern_permission :: "('c, 'w) api_env \<Rightarrow> route_request \<Rightarrow> ('c, 'w, api_answer) api" where
  "get_user_gateway_endpoint_pattern_permission env rq =
     bind_check (check_admin_permission env rq) (\<lambda>_.
     rescue (failed 404 ''Gateway endpoint pattern permission not found'')
      (bind_check (reading (\<lambda>d. get_gateway_endpoint_regex_permission d (path_param rq ''username'') (hq_id rq))) (\<lambda>row. lift_res (Inr (Pattern_record row)))))"

definition update_user_gateway_endpoint_pattern_permission :: "('c, 'w) api_env \<Rightarrow> route_request \<Rightarrow> ('c, 'w, api_answer) api" where
  "update_user_gateway_endpoint_pattern_permission env rq =
     bind_check (check_admin_permission env rq) (\<lambda>actor.
     rescue (failed 500 ''Failed to update gateway endpoint pattern permission'')
      (bind_check (stored env (\<lambda>d. update_gateway_endpoint_regex_permission (pe_compile env) d (hq_regex rq) (hq_priority rq) (hq_permission rq) (path_param rq ''username'') (hq_id rq))) (\<lambda>row.
       bind_check (emit_audit_event env ''permission.update'' actor ''gateway_endpoint_regex_permission'' (path_param rq ''username'') [(''id'', JNum (hq_id rq)), (''regex'', JStr (hq_regex rq)), (''priority'', JNum (hq_priority rq)), (''permission'', JStr (hq_permission rq))]) (\<lambda>_.
       lift_res (Inr (Pattern_record row))))))"

definition delete_user_gateway_endpoint_pattern_permission :: "('c, 'w) api_env \<Rightarrow> route_request \<Rightarrow> ('c, 'w, api_answer) api" where
  "delete_user_gateway_endpoint_pattern_permission env rq =
     bind_check (check_admin_permission env rq) (\<lambda>actor.
     rescue (failed 500 ''Failed to delete gateway endpoint pattern permission'')
      (bind_check (stored_unit env (\<lambda>d. delete_gateway_endpoint_regex_permission d (path_param rq ''username'') (hq_id rq))) (\<lambda>_.
       bind_check (emit_audit_event env ''permission.delete'' actor ''gateway_endpoint_regex_permission'' (path_param rq ''username'') [(''id'', JNum (hq_id rq))]) (\<lambda>_.
       lift_res (Inr (Status_message (''Gateway endpoint pattern permission deleted for '' @ path_param rq ''username'')))))))"

definition get_user_gateway_model_definition_permissions :: "('c, 'w) api_env \<Rightarrow> route_request \<Rightarrow> ('c, 'w, api_answer) api" where
  "get_user_gateway_model_definition_permissions env rq =
     bind_check (caller env rq) (\<lambda>(current_username, is_admin).
     rescue (failed 500 ''Failed to retrieve gateway model definition permissions'')
       (bind_check (lift_res (pe_gateway_model_definitions env)) (\<lambda>all.
        bind_check (gateway_listing (\<lambda>m. dict_get m ''name'') (\<lambda>a nm uname. effective_gateway_model_definition_permission (single_env env) a nm uname) current_username is_admin
            (path_param rq ''username'') all) (\<lambda>items.
        lift_res (Inr (Named_summaries items))))))"

definition create_user_gateway_model_definition_permission :: "('c, 'w) api_env \<Rightarrow> route_request \<Rightarrow> ('c, 'w, api_answer) api" where
  "create_user_gateway_model_definition_permission env rq =
     bind_check (check_admin_permission env rq) (\<lambda>actor.
     rescue (failed 500 ''Failed to create gateway model definition permission'')
      (bind_check (stored env (\<lambda>d. create_gateway_model_definition_permission d (path_param rq ''name'') (path_param rq ''username'') (hq_permission rq))) (\<lambda>row.
       bind_check (emit_audit_event env ''permission.create'' actor ''gateway_model_definition_permission'' (path_param rq ''name'') [(''username'', JStr (path_param rq ''username'')), (''permission'', JStr (hq_permission rq))]) (\<lambda>_.
       lift_res (Inr (Named_summary (p_resource row) (p_permission row) ''user''))))))"

definition get_user_gateway_model_definition_permission :: "('c, 'w) api_env \<Rightarrow> route_request \<Rightarrow> ('c, 'w, api_answer) api" where
  "get_user_gateway_model_definition_permission env rq =
     bind_check (check_admin_permission env rq) (\<lambda>_.
     rescue (failed 404 ''Gateway model definition permission not found'')
      (bind_check (reading (\<lambda>d. get_gateway_model_definition_permission d (path_param rq ''name'') (path_param rq ''username''))) (\<lambda>row. lift_res (Inr (Named_summary (p_resource row) (p_permission row) ''user'')))))"

definition update_user_gateway_model_definition_permission :: "('c, 'w) api_env \<Rightarrow> route_request \<Rightarrow> ('c, 'w, api_answer) api" where
  "update_user_gateway_model_definition_permission env rq =
     bind_check (check_admin_permission env rq) (\<lambda>actor.
     rescue (failed 500 ''Failed to update gateway model definition permission'')
      (bind_check (stored env (\<lambda>d. update_gateway_model_definition_permission d (path_param rq ''name'') (path_param rq ''username'') (hq_permission rq))) (\<lambda>_.
       bind_check (emit_audit_event env ''permission.update'' actor ''gateway_model_definition_permission'' (path_param rq ''name'') [(''username'', JStr (path_param rq ''username'')), (''permission'', JStr (hq_permission rq))]) (\<lambda>_.
       lift_res (Inr (Status_message (''Gateway model definition permission updated for '' @ path_param rq ''username'' @ '' on '' @ path_param rq ''name'')))))))"

definition delete_user_gateway_model_definition_permission :: "('c, 'w) api_env \<Rightarrow> route_request \<Rightarrow> ('c, 'w, api_answer) api" where
  "delete_user_gateway_model_definition_permission env rq =
     bind_check (check_admin_permission env rq) (\<lambda>actor.
     rescue (failed 500 ''Failed to delete gateway model definition permission'')
      (bind_check (stored_unit env (\<lambda>d. delete_gateway_model_definition_permission d (path_param rq ''name'') (path_param rq ''username''))) (\<lambda>_.
       bind_check (emit_audit_event env ''permission.delete'' actor ''gateway_model_definition_permission'' (path_param rq ''name'') [(''username'', JStr (path_param rq ''username''))]) (\<lambda>_.
       lift_res (Inr (Status_message (''Gateway model definition permission deleted for '' @ path_param rq ''username'' @ '' on '' @ path_param rq ''name'')))))))"

definition get_user_gateway_model_definition_pattern_permissions :: "('c, 'w) api_env \<Rightarrow> route_request \<Rightarrow> ('c, 'w, api_answer) api" where
  "get_user_gateway_model_definition_pattern_permissions env rq =
     bind_check (check_admin_permission env rq) (\<lambda>_.
     rescue (failed 500 ''Failed to retrieve gateway model definition pattern permissions'')
      (bind_check (reading (\<lambda>d. Inr (list_gateway_model_definition_regex_permissions d (path_param rq ''username'')))) (\<lambda>row. lift_res (Inr (Pattern_records row)))))"

definition create_user_gateway_model_definition_pattern_permission :: "('c, 'w) api_env \<Rightarrow> route_request \<Rightarrow> ('c, 'w, api_answer) api" where
  "create_user_gateway_model_definition_pattern_permission env rq =
     bind_check (check_admin_permission env rq) (\<lambda>actor.
     rescue (failed 500 ''Failed to create gateway model definition pattern permission'')
      (bind_check (stored env (\<lambda>d. create_gateway_model_definition_regex_permission (pe_compile env) d (hq_regex rq) (hq_priority rq) (hq_permission rq) (path_param rq ''username''))) (\<lambda>row.
       bind_check (emit_audit_event env ''permission.create'' actor ''gateway_model_definition_regex_permission'' (path_param rq ''username'') [(''regex'', JStr (hq_regex rq)), (''priority'', JNum (hq_priority rq)), (''permission'', JStr (hq_permission rq))]) (\<lambda>_.
       lift_res (Inr (Pattern_record row))))))"

definition get_user_gateway_model_definition_pattern_permission :: "('c, 'w) api_env \<Rightarrow> route_request \<Rightarrow> ('c, 'w, api_answer) api" where
  "get_user_gateway_model_definition_pattern_permission env rq =
     bind_check (check_admin_permission env rq) (\<lambda>_.
     rescue (failed 404 ''Gateway model definition pattern permission not found'')
      (bind_check (reading (\<lambda>d. get_gateway_model_definition_regex_permission d (path_param rq ''username'') (hq_id rq))) (\<lambda>row. lift_res (Inr (Pattern_record row)))))"

definition update_user_gateway_model_definition_pattern_permission :: "('c, 'w) api_env \<Rightarrow> route_request \<Rightarrow> ('c, 'w, api_answer) api" where
  "update_user_gateway_model_definition_pattern_permission env rq =
     bind_check (check_admin_permission env rq) (\<lambda>actor.
     rescue (failed 500 ''Failed to update gateway model definition pattern permission'')
      (bind_check (stored env (\<lambda>d. update_gateway_model_definition_regex_permission (pe_compile env) d (hq_regex rq) (hq_priority rq) (hq_permission rq) (path_param rq ''username'') (hq_id rq))) (\<lambda>row.
       bind_check (emit_audit_event env ''permission.update'' actor ''gateway_model_definition_regex_permission'' (path_param rq ''username'') [(''id'', JNum (hq_id rq)), (''regex'', JStr (hq_regex rq)), (''priority'', JNum (hq_priority rq)), (''permission'', JStr (hq_permission rq))]) (\<lambda>_.
       lift_res (Inr (Pattern_record row))))))"

definition delete_user_gateway_model_definition_pattern_permission :: "('c, 'w) api_env \<Rightarrow> route_request \<Rightarrow> ('c, 'w, api_answer) api" where
  "delete_user_gateway_model_definition_pattern_permission env rq =
     bind_check (check_admin_permission env rq) (\<lambda>actor.
     rescue (failed 500 ''Failed to delete gateway model definition pattern permission'')
      (bind_check (stored_unit env (\<lambda>d. delete_gateway_model_definition_regex_permission d (path_param rq ''username'') (hq_id rq))) (\<lambda>_.
       bind_check (emit_audit_event env ''permission.delete'' actor ''gateway_model_definition_regex_permission'' (path_param rq ''username'') [(''id'', JNum (hq_id rq))]) (\<lambda>_.
       lift_res (Inr (Status_message (''Gateway model definition pattern permission deleted for '' @ path_param rq ''username'')))))))"

definition get_user_gateway_secret_permissions :: "('c, 'w) api_env \<Rightarrow> route_request \<Rightarrow> ('c, 'w, api_answer) api" where
  "get_user_gateway_secret_permissions env rq =
     bind_check (caller env rq) (\<lambda>(current_username, is_admin).
     rescue (failed 500 ''Failed to retrieve gateway secret permissions'')
       (bind_check (lift_res (pe_gateway_secrets env)) (\<lambda>all.
        bind_check (gateway_listing secret_name_of (\<lambda>a nm uname. effective_gateway_secret_permission (single_env env) a nm uname) current_username is_admin
            (path_param rq ''username'') all) (\<lambda>items.
        lift_res (Inr (Named_summaries items))))))"

definition create_user_gateway_secret_permission :: "('c, 'w) api_env \<Rightarrow> route_request \<Rightarrow> ('c, 'w, api_answer) api" where
  "create_user_gateway_secret_permission env rq =
     bind_check (check_admin_permission env rq) (\<lambda>actor.
     rescue (failed 500 ''Failed to create gateway secret permission'')
      (bind_check (stored env (\<lambda>d. create_gateway_secret_permission d (path_param rq ''name'') (path_param rq ''username'') (hq_permission rq))) (\<lambda>row.
       bind_check (emit_audit_event env ''permission.create'' actor ''gateway_secret_permission'' (path_param rq ''name'') [(''username'', JStr (path_param rq ''username'')), (''permission'', JStr (hq_permission rq))]) (\<lambda>_.
       lift_res (Inr (Named_summary (p_resource row) (p_permission row) ''user''))))))"

definition get_user_gateway_secret_permission :: "('c, 'w) api_env \<Rightarrow> route_request \<Rightarrow> ('c, 'w, api_answer) api" where
  "get_user_gateway_secret_permission env rq =
     bind_check (check_admin_permission env rq) (\<lambda>_.
     rescue (failed 404 ''Gateway secret permission not found'')
      (bind_check (reading (\<lambda>d. get_gateway_secret_permission d (path_param rq ''name'') (path_param rq ''username''))) (\<lambda>row. lift_res (Inr (Named_summary (p_resource row) (p_permission row) ''user'')))))"

definition update_user_gateway_secret_permission :: "('c, 'w) api_env \<Rightarrow> route_request \<Rightarrow> ('c, 'w, api_answer) api" where
  "update_user_gateway_secret_permission env rq =
     bind_check (check_admin_permission env rq) (\<lambda>actor.
     rescue (failed 500 ''Failed to update gateway secret permission'')
      (bind_check (stored env (\<lambda>d. update_gateway_secret_permission d (path_param rq ''name'') (path_param rq ''username'') (hq_permission rq))) (\<lambda>_.
       bind_check (emit_audit_event env ''permission.update'' actor ''gateway_secret_permission'' (path_param rq ''name'') [(''username'', JStr (path_param rq ''username'')), (''permission'', JStr (hq_permission rq))]) (\<lambda>_.
       lift_res (Inr (Status_message (''Gateway secret permission updated for '' @ path_param rq ''username'' @ '' on '' @ path_param rq ''name'')))))))"

definition delete_user_gateway_secret_permission :: "('c, 'w) api_env \<Rightarrow> route_request \<Rightarrow> ('c, 'w, api_answer) api" where
  "delete_user_gateway_secret_permission env rq =
     bind_check (check_admin_permission env rq) (\<lambda>actor.
     rescue (failed 500 ''Failed to delete gateway secret permission'')
      (bind_check (stored_unit env (\<lambda>d. delete_gateway_secret_permission d (path_param rq ''name'') (path_param rq ''username''))) (\<lambda>_.
       bind_check (emit_audit_event env ''permission.delete'' actor ''gateway_secret_permission'' (path_param rq ''name'') [(''username'', JStr (path_param rq ''username''))]) (\<lambda>_.
       lift_res (Inr (Status_message (''Gateway secret permission deleted for '' @ path_param rq ''username'' @ '' on '' @ path_param rq ''name'')))))))"

definition get_user_gateway_secret_pattern_permissions :: "('c, 'w) api_env \<Rightarrow> route_request \<Rightarrow> ('c, 'w, api_answer) api" where
  "get_user_gateway_secret_pattern_permissions env rq =
     bind_check (check_admin_permission env rq) (\<lambda>_.
     rescue (failed 500 ''Failed to retrieve gateway secret pattern permissions'')
      (bind_check (reading (\<lambda>d. Inr (list_gateway_secret_regex_permissions d (path_param rq ''username'')))) (\<lambda>row. lift_res (Inr (Pattern_records row)))))"

definition create_user_gateway_secret_pattern_permission :: "('c, 'w) api_env \<Rightarrow> route_request \<Rightarrow> ('c, 'w, api_answer) api" where
  "create_user_gateway_secret_pattern_permission env rq =
     bind_check (check_admin_permission env rq) (\<lambda>actor.
     rescue (failed 500 ''Failed to create gateway secret pattern permission'')
      (bind_check (stored env (\<lambda>d. create_gateway_secret_regex_permission (pe_compile env) d (hq_regex rq) (hq_priority rq) (hq_permission rq) (path_param rq ''username''))) (\<lambda>row.
       bind_check (emit_audit_event env ''permission.create'' actor ''gateway_secret_regex_permission'' (path_param rq ''username'') [(''regex'', JStr (hq_regex rq)), (''priority'', JNum (hq_priority rq)), (''permission'', JStr (hq_permission rq))]) (\<lambda>_.
       lift_res (Inr (Pattern_record row))))))"

definition get_user_gateway_secret_pattern_permission :: "('c, 'w) api_env \<Rightarrow> route_request \<Rightarrow> ('c, 'w, api_answer) api" where
  "get_user_gateway_secret_pattern_permission env rq =
     bind_check (check_admin_permission env rq) (\<lambda>_.
     rescue (failed 404 ''Gateway secret pattern permission not found'')
      (bind_check (reading (\<lambda>d. get_gateway_secret_regex_permission d (path_param rq ''username'') (hq_id rq))) (\<lambda>row. lift_res (Inr (Pattern_record row)))))"

definition update_user_gateway_secret_pattern_permission :: "('c, 'w) api_env \<Rightarrow> route_request \<Rightarrow> ('c, 'w, api_answer) api" where
  "update_user_gateway_secret_pattern_permission env rq =
     bind_check (check_admin_permission env rq) (\<lambda>actor.
     rescue (failed 500 ''Failed to update gateway secret pattern permission'')
      (bind_check (stored env (\<lambda>d. update_gateway_secret_regex_permission (pe_compile env) d (hq_regex rq) (hq_priority rq) (hq_permission rq) (path_param rq ''username'') (hq_id rq))) (\<lambda>row.
       bind_check (emit_audit_event env ''permission.update'' actor ''gateway_secret_regex_permission'' (path_param rq ''username'') [(''id'', JNum (hq_id rq)), (''regex'', JStr (hq_regex rq)), (''priority'', JNum (hq_priority rq)), (''permission'', JStr (hq_permission rq))]) (\<lambda>_.
       lift_res (Inr (Pattern_record row))))))"

definition delete_user_gateway_secret_pattern_permission :: "('c, 'w) api_env \<Rightarrow> route_request \<Rightarrow> ('c, 'w, api_answer) api" where
  "delete_user_gateway_secret_pattern_permission env rq =
     bind_check (check_admin_permission env rq) (\<lambda>actor.
     rescue (failed 500 ''Failed to delete gateway secret pattern permission'')
      (bind_check (stored_unit env (\<lambda>d. delete_gateway_secret_regex_permission d (path_param rq ''username'') (hq_id rq))) (\<lambda>_.
       bind_check (emit_audit_event env ''permission.delete'' actor ''gateway_secret_regex_permission'' (path_param rq ''username'') [(''id'', JNum (hq_id rq))]) (\<lambda>_.
       lift_res (Inr (Status_message (''Gateway secret pattern permission deleted for '' @ path_param rq ''username'')))))))"

subsection \<open>Routes\<close>

definition user_permissions_router ::
  "(string \<times> string \<times> (('c, 'w) api_env \<Rightarrow> route_request \<Rightarrow> ('c, 'w, api_answer) api)) list" where
  "user_permissions_router =
    [(''GET'', ''/{username}/experiments'', get_user_experiment_permissions),
     (''POST'', ''/{username}/experiments/{experiment_id}'', create_user_experiment_permission),
     (''GET'', ''/{username}/experiments/{experiment_id}'', get_user_experiment_permission),
     (''PATCH'', ''/{username}/experiments/{experiment_id}'', update_user_experiment_permission),
     (''DELETE'', ''/{username}/experiments/{experiment_id}'', delete_user_experiment_permission),
     (''POST'', ''/{username}/experiment-patterns'', create_user_experiment_pattern_permission),
     (''GET'', ''/{username}/experiment-patterns'', list_user_experiment_pattern_permissions),
     (''GET'', ''/{username}/experiment-patterns/{id}'', get_user_experiment_pattern_permission),
     (''PATCH'', ''/{username}/experiment-patterns/{id}'', update_user_experiment_pattern_permission),
     (''DELETE'', ''/{username}/experiment-patterns/{id}'', delete_user_experiment_pattern_permission),
     (''GET'', ''/{username}/prompts'', get_user_prompts),
     (''POST'', ''/{username}/prompts/{name:path}'', create_user_prompt_permission),
     (''GET'', ''/{username}/prompts/{name:path}'', get_user_prompt_permission),
     (''PATCH'', ''/{username}/prompts/{name:path}'', update_user_prompt_permission),
     (''DELETE'', ''/{username}/prompts/{name:path}'', delete_user_prompt_permission),
     (''GET'', ''/{username}/prompts-patterns'', get_user_prompt_pattern_permissions),
     (''POST'', ''/{username}/prompts-patterns'', create_user_prompt_regex_permission),
     (''GET'', ''/{username}/prompts-patterns/{id}'', get_user_prompt_regex_permission),
     (''PATCH'', ''/{username}/prompts-patterns/{id}'', update_user_prompt_regex_permission),
     (''DELETE'', ''/{username}/prompts-patterns/{id}'', delete_user_prompt_regex_permission),
     (''GET'', ''/{username}/registered-models'', get_user_registered_models),
     (''POST'', ''/{username}/registered-models/{name:path}'', create_user_registered_model_permission),
     (''GET'', ''/{username}/registered-models/{name:path}'', get_user_registered_model_permission),
     (''PATCH'', ''/{username}/registered-models/{name:path}'', update_user_registered_model_permission),
     (''DELETE'', ''/{username}/registered-models/{name:path}'', delete_user_registered_model_permission),
     (''GET'', ''/{username}/scorers'', get_user_scorer_permissions),
     (''POST'', ''/{username}/scorers/{experiment_id}/{scorer_name:path}'', create_user_scorer_permission),
     (''GET'', ''/{username}/scorers/{experiment_id}/{scorer_name:path}'', get_user_scorer_permission),
     (''PATCH'', ''/{username}/scorers/{experiment_id}/{scorer_name:path}'', update_user_scorer_permission),
     (''DELETE'', ''/{username}/scorers/{experiment_id}/{scorer_name:path}'', delete_user_scorer_permission),
     (''GET'', ''/{username}/scorer-patterns'', get_user_scorer_regex_permissions),
     (''POST'', ''/{username}/scorer-patterns'', create_user_scorer_regex_permission),
     (''GET'', ''/{username}/scorer-patterns/{id}'', get_user_scorer_pattern_permission),
     (''PATCH'', ''/{username}/scorer-patterns/{id}'', update_user_scorer_pattern_permission),
     (''DELETE'', ''/{username}/scorer-patterns/{id}'', delete_user_scorer_pattern_permission),
     (''GET'', ''/{username}/registered-models-patterns'', get_user_registered_model_regex_permissions),
     (''POST'', ''/{username}/registered-models-patterns'', create_user_registered_model_regex_permission),
     (''GET'', ''/{username}/registered-models-patterns/{id}'', get_user_registered_model_regex_permission),
     (''PATCH'', ''/{username}/registered-models-patterns/{id}'', update_user_registered_model_regex_permission),
     (''DELETE'', ''/{username}/registered-models-patterns/{id}'', delete_user_registered_model_regex_permission),
     (''GET'', ''/{username}/gateways/endpoints'', get_user_gateway_endpoint_permissions),
     (''POST'', ''/{username}/gateways/endpoints/{name:path}'', create_user_gateway_endpoint_permission),
     (''GET'', ''/{username}/gateways/endpoints/{name:path}'', get_user_gateway_endpoint_permission),
     (''PATCH'', ''/{username}/gateways/endpoints/{name:path}'', update_user_gateway_endpoint_permission),
     (''DELETE'', ''/{username}/gateways/endpoints/{name:path}'', delete_user_gateway_endpoint_permission),
     (''GET'', ''/{username}/gateways/endpoints-patterns'', get_user_gateway_endpoint_pattern_permissions),
     (''POST'', ''/{username}/gateways/endpoints-patterns'', create_user_gateway_endpoint_pattern_permission),
     (''GET'', ''/{username}/gateways/endpoints-patterns/{id}'', get_user_gateway_endpoint_pattern_permission),
     (''PATCH'', ''/{username}/gateways/endpoints-patterns/{id}'', update_user_gateway_endpoint_pattern_permission),
     (''DELETE'', ''/{username}/gateways/endpoints-patterns/{id}'', delete_user_gateway_endpoint_pattern_permission),
     (''GET'', ''/{username}/gateways/model-definitions'', get_user_gateway_model_definition_permissions),
     (''POST'', ''/{username}/gateways/model-definitions/{name:path}'', create_user_gateway_model_definition_permission),
     (''GET'', ''/{username}/gateways/model-definitions/{name:path}'', get_user_gateway_model_definition_permission),
     (''PATCH'', ''/{username}/gateways/model-definitions/{name:path}'', update_user_gateway_model_definition_permission),
     (''DELETE'', ''/{username}/gateways/model-definitions/{name:path}'', delete_user_gateway_model_definition_permission),
     (''GET'', ''/{username}/gateways/model-definitions-patterns'', get_user_gateway_model_definition_pattern_permissions),
     (''POST'', ''/{username}/gateways/model-definitions-patterns'', create_user_gateway_model_definition_pattern_permission),
     (''GET'', ''/{username}/gateways/model-definitions-patterns/{id}'', get_user_gateway_model_definition_pattern_permission),
     (''PATCH'', ''/{username}/gateways/model-definitions-patterns/{id}'', update_user_gateway_model_definition_pattern_permission),
     (''DELETE'', ''/{username}/gateways/model-definitions-patterns/{id}'', delete_user_gateway_model_definition_pattern_permission),
     (''GET'', ''/{username}/gateways/secrets'', get_user_gateway_secret_permissions),
     (''POST'', ''/{username}/gateways/secrets/{name:path}'', create_user_gateway_secret_permission),
     (''GET'', ''/{username}/gateways/secrets/{name:path}'', get_user_gateway_secret_permission),
     (''PATCH'', ''/{username}/gateways/secrets/{name:path}'', update_user_gateway_secret_permission),
     (''DELETE'', ''/{username}/gateways/secrets/{name:path}'', delete_user_gateway_secret_permission),
     (''GET'', ''/{username}/gateways/secrets-patterns'', get_user_gateway_secret_pattern_permissions),
     (''POST'', ''/{username}/gateways/secrets-patterns'', create_user_gateway_secret_pattern_permission),
     (''GET'', ''/{username}/gateways/secrets-patterns/{id}'', get_user_gateway_secret_pattern_permission),
     (''PATCH'', ''/{username}/gateways/secrets-patterns/{id}'', update_user_gateway_secret_pattern_permission),
     (''DELETE'', ''/{username}/gateways/secrets-patterns/{id}'', delete_user_gateway_secret_pattern_permission)]"

lemmas user_permissions_router_handlers =
  get_user_experiment_permissions_def
  create_user_experiment_permission_def
  get_user_experiment_permission_def
  update_user_experiment_permission_def
  delete_user_experiment_permission_def
  create_user_experiment_pattern_permission_def
  list_user_experiment_pattern_permissions_def
  get_user_experiment_pattern_permission_def
  update_user_experiment_pattern_permission_def
  delete_user_experiment_pattern_permission_def
  get_user_prompts_def
  create_user_prompt_permission_def
  get_user_prompt_permission_def
  update_user_prompt_permission_def
  delete_user_prompt_permission_def
  get_user_prompt_pattern_permissions_def
  create_user_prompt_regex_permission_def
  get_user_prompt_regex_permission_def
  update_user_prompt_regex_permission_def
  delete_user_prompt_regex_permission_def
  get_user_registered_models_def
  create_user_registered_model_permission_def
  get_user_registered_model_permission_def
  update_user_registered_model_permission_def
  delete_user_registered_model_permission_def
  get_user_scorer_permissions_def
  create_user_scorer_permission_def
  get_user_scorer_permission_def
  update_user_scorer_permission_def
  delete_user_scorer_permission_def
  get_user_scorer_regex_permissions_def
  create_user_scorer_regex_permission_def
  get_user_scorer_pattern_permission_def
  update_user_scorer_pattern_permission_def
  delete_user_scorer_pattern_permission_def
  get_user_registered_model_regex_permissions_def
  create_user_registered_model_regex_permission_def
  get_user_registered_model_regex_permission_def
  update_user_registered_model_regex_permission_def
  delete_user_registered_model_regex_permission_def
  get_user_gateway_endpoint_permissions_def
  create_user_gateway_endpoint_permission_def
  get_user_gateway_endpoint_permission_def
  update_user_gateway_endpoint_permission_def
  delete_user_gateway_endpoint_permission_def
  get_user_gateway_endpoint_pattern_permissions_def
  create_user_gateway_endpoint_pattern_permission_def
  get_user_gateway_endpoint_pattern_permission_def
  update_user_gateway_endpoint_pattern_permission_def
  delete_user_gateway_endpoint_pattern_permission_def
  get_user_gateway_model_definition_permissions_def
  create_user_gateway_model_definition_permission_def
  get_user_gateway_model_definition_permission_def
  update_user_gateway_model_definition_permission_def
  delete_user_gateway_model_definition_permission_def
  get_user_gateway_model_definition_pattern_permissions_def
  create_user_gateway_model_definition_pattern_permission_def
  get_user_gateway_model_definition_pattern_permission_def
  update_user_gateway_model_definition_pattern_permission_def
  delete_user_gateway_model_definition_pattern_permission_def
  get_user_gateway_secret_permissions_def
  create_user_gateway_secret_permission_def
  get_user_gateway_secret_permission_def
  update_user_gateway_secret_permission_def
  delete_user_gateway_secret_permission_def
  get_user_gateway_secret_pattern_permissions_def
  create_user_gateway_secret_pattern_permission_def
  get_user_gateway_secret_pattern_permission_def
  update_user_gateway_secret_pattern_permission_def
  delete_user_gateway_secret_pattern_permission_def

end
