(* ===== verification/Group_Permissions.thy ===== *)
theory Group_Permissions
  imports User_Permissions
begin

section \<open>The permissions of a group (routers/group\_permissions.py)\<close>

text \<open>
  As for users. The grants on registered models and prompts check the caller in the handler, before the
  \<^verbatim>\<open>try\<close>, and record him as the actor.
\<close>

definition manage_or_refuse ::
  "('c, 'w) api_env \<Rightarrow> route_request \<Rightarrow> (('c, 'w) env \<Rightarrow> ('c, 'w) app \<Rightarrow> string \<Rightarrow> string \<Rightarrow> permission_result res \<times> ('c, 'w) app) \<Rightarrow>
   string \<Rightarrow> string \<Rightarrow> ('c, 'w, string) api" where
  "manage_or_refuse env rq resolve what nm =
     bind_check (caller env rq) (\<lambda>(current_username, is_admin).
       if is_admin then lift_res (Inr current_username)
       else bind_check (on_app (\<lambda>a. flag_of can_manage (resolve (single_env env) a nm current_username))) (\<lambda>ok.
         lift_res (if ok then Inr current_username else Inl (HTTPException 403 (''Insufficient permissions to manage '' @ what @ nm)))))"

fun group_experiment_items ::
  "('c, 'w) api_env \<Rightarrow> string \<Rightarrow> bool \<Rightarrow> string perm_row list \<Rightarrow> ('c, 'w, (string \<times> string \<times> string) list) api" where
  "group_experiment_items env current_username is_admin [] = lift_res (Inr [])"
| "group_experiment_items env current_username is_admin (p # ps) =
     bind_check (if is_admin then lift_res (Inr True) else manages_experiment env (p_resource p) current_username) (\<lambda>ok.
       if \<not> ok then group_experiment_items env current_username is_admin ps
       else bind_check (lift_res (pe_experiment_name env (p_resource p))) (\<lambda>nm.
         bind_check (group_experiment_items env current_username is_admin ps) (\<lambda>rest.
         lift_res (Inr ((p_resource p, nm, p_permission p) # rest)))))"

definition list_groups_route :: "('c, 'w) api_env \<Rightarrow> route_request \<Rightarrow> ('c, 'w, api_answer) api" where
  "list_groups_route env rq =
     bind_check (reading (get_username (pe_clock env) rq)) (\<lambda>_.
     rescue (failed 500 ''Failed to retrieve groups'')
       (bind_check (reading (\<lambda>d. Inr (get_groups d))) (\<lambda>gs. lift_res (Inr (Group_names gs)))))"

definition get_group_users_route :: "('c, 'w) api_env \<Rightarrow> route_request \<Rightarrow> ('c, 'w, api_answer) api" where
  "get_group_users_route env rq =
     bind_check (check_admin_permission env rq) (\<lambda>_.
     rescue (failed 404 ''Group not found or error retrieving users'')
      (bind_check (reading (\<lambda>d. get_group_users d (path_param rq ''group_name''))) (\<lambda>row. lift_res (Inr (Group_members (map (\<lambda>u. (u_username u, u_is_admin u)) row))))))"

definition get_group_experiments_route :: "('c, 'w) api_env \<Rightarrow> route_request \<Rightarrow> ('c, 'w, api_answer) api" where
  "get_group_experiments_route env rq =
     bind_check (caller env rq) (\<lambda>(current_username, is_admin).
     rescue (failed 500 ''Failed to retrieve group experiment permissions'')
       (bind_check (reading (\<lambda>d. get_group_experiments d (path_param rq ''group_name''))) (\<lambda>rows.
        bind_check (group_experiment_items env current_username is_admin rows) (\<lambda>items.
        lift_res (Inr (Group_experiments items))))))"

definition create_group_experiment_permission_route :: "('c, 'w) api_env \<Rightarrow> route_request \<Rightarrow> ('c, 'w, api_answer) api" where
  "create_group_experiment_permission_route env rq =
     bind_check (check_experiment_manage_permission env rq) (\<lambda>actor.
     rescue (failed 500 ''Failed to create group experiment permission'')
      (bind_check (stored env (\<lambda>d. create_group_experiment_permission d (path_param rq ''group_name'') (path_param rq ''experiment_id'') (hq_permission rq))) (\<lambda>_.
       bind_check (emit_audit_event env ''permission.create'' actor ''group_experiment_permission'' (path_param rq ''experiment_id'') [(''group_name'', JStr (path_param rq ''group_name'')), (''permission'', JStr (hq_permission rq))]) (\<lambda>_.
       lift_res (Inr (Status_message (''Experiment permission created for group '' @ path_param rq ''group_name'' @ '' on experiment '' @ path_param rq ''experiment_id'')))))))"

definition update_group_experiment_permission_route :: "('c, 'w) api_env \<Rightarrow> route_request \<Rightarrow> ('c, 'w, api_answer) api" where
  "update_group_experiment_permission_route env rq =
     bind_check (check_experiment_manage_permission env rq) (\<lambda>actor.
     rescue (failed 500 ''Failed to update group experiment permission'')
      (bind_check (stored env (\<lambda>d. update_group_experiment_permission d (path_param rq ''group_name'') (path_param rq ''experiment_id'') (hq_permission rq))) (\<lambda>_.
       bind_check (emit_audit_event env ''permission.update'' actor ''group_experiment_permission'' (path_param rq ''experiment_id'') [(''group_name'', JStr (path_param rq ''group_name'')), (''permission'', JStr (hq_permission rq))]) (\<lambda>_.
       lift_res (Inr (Status_message (''Experiment permission updated for group '' @ path_param rq ''group_name'' @ '' on experiment '' @ path_param rq ''experiment_id'')))))))"

definition delete_group_experiment_permission_route :: "('c, 'w) api_env \<Rightarrow> route_request \<Rightarrow> ('c, 'w, api_answer) api" where
  "delete_group_experiment_permission_route env rq =
     bind_check (check_experiment_manage_permission env rq) (\<lambda>actor.
     rescue (failed 500 ''Failed to delete group experiment permission'')
      (bind_check (stored_unit env (\<lambda>d. delete_group_experiment_permission d (path_param rq ''group_name'') (path_param rq ''experiment_id''))) (\<lambda>_.
       bind_check (emit_audit_event env ''permission.delete'' actor ''group_experiment_permission'' (path_param rq ''experiment_id'') [(''group_name'', JStr (path_param rq ''group_name''))]) (\<lambda>_.
       lift_res (Inr (Status_message (''Experiment permission deleted for group '' @ path_param rq ''group_name'' @ '' on experiment '' @ path_param rq ''experiment_id'')))))))"

definition get_group_registered_models :: "('c, 'w) api_env \<Rightarrow> route_request \<Rightarrow> ('c, 'w, api_answer) api" where
  "get_group_registered_models env rq =
     bind_check (caller env rq) (\<lambda>(current_username, is_admin).
     rescue (failed 500 ''Failed to retrieve group registered model permissions'')
       (bind_check (reading (\<lambda>d. get_group_models d (path_param rq ''group_name''))) (\<lambda>rows.
        bind_check (filter_check (\<lambda>p. if is_admin then lift_res (Inr True)
            else on_app (\<lambda>a. flag_of can_manage (effective_registered_model_permission (single_env env) a (p_resource p) current_username))) rows) (\<lambda>shown.
        lift_res (Inr (Group_items (map (\<lambda>p. (p_resource p, p_permission p)) shown)))))))"

definition create_group_registered_model_permission :: "('c, 'w) api_env \<Rightarrow> route_request \<Rightarrow> ('c, 'w, api_answer) api" where
  "create_group_registered_model_permission env rq =
     bind_check (manage_or_refuse env rq effective_registered_model_permission ''registered model '' (path_param rq ''name'')) (\<lambda>actor.
     rescue (failed 500 ''Failed to create group registered model permission'')
      (bind_check (stored env (\<lambda>d. create_group_model_permission d (path_param rq ''group_name'') (path_param rq ''name'') (hq_permission rq))) (\<lambda>_.
       bind_check (emit_audit_event env ''permission.create'' (Some actor) ''group_registered_model_permission'' (path_param rq ''name'') [(''group_name'', JStr (path_param rq ''group_name'')), (''permission'', JStr (hq_permission rq))]) (\<lambda>_.
       lift_res (Inr (Status_message (''Registered model permission created for group '' @ path_param rq ''group_name'' @ '' on model '' @ path_param rq ''name'')))))))"

definition update_group_registered_model_permission :: "('c, 'w) api_env \<Rightarrow> route_request \<Rightarrow> ('c, 'w, api_answer) api" where
  "update_group_registered_model_permission env rq =
     bind_check (manage_or_refuse env rq effective_registered_model_permission ''registered model '' (path_param rq ''name'')) (\<lambda>actor.
     rescue (failed 500 ''Failed to update group registered model permission'')
      (bind_check (stored env (\<lambda>d. update_group_model_permission d (path_param rq ''group_name'') (path_param rq ''name'') (hq_permission rq))) (\<lambda>_.
       bind_check (emit_audit_event env ''permission.update'' (Some actor) ''group_registered_model_permission'' (path_param rq ''name'') [(''group_name'', JStr (path_param rq ''group_name'')), (''permission'', JStr (hq_permission rq))]) (\<lambda>_.
       lift_res (Inr (Status_message (''Registered model permission updated for group '' @ path_param rq ''group_name'' @ '' on model '' @ path_param rq ''name'')))))))"

definition delete_group_registered_model_permission :: "('c, 'w) api_env \<Rightarrow> route_request \<Rightarrow> ('c, 'w, api_answer) api" where
  "delete_group_registered_model_permission env rq =
     bind_check (manage_or_refuse env rq effective_registered_model_permission ''registered model '' (path_param rq ''name'')) (\<lambda>actor.
     rescue (failed 500 ''Failed to delete group registered model permission'')
      (bind_check (stored_unit env (\<lambda>d. delete_group_model_permission d (path_param rq ''group_name'') (path_param rq ''name''))) (\<lambda>_.
       bind_check (emit_audit_event env ''permission.delete'' (Some actor) ''group_registered_model_permission'' (path_param rq ''name'') [(''group_name'', JStr (path_param rq ''group_name''))]) (\<lambda>_.
       lift_res (Inr (Status_message (''Registered model permission deleted for group '' @ path_param rq ''group_name'' @ '' on model '' @ path_param rq ''name'')))))))"

definition get_group_prompts_route :: "('c, 'w) api_env \<Rightarrow> route_request \<Rightarrow> ('c, 'w, api_answer) api" where
  "get_group_prompts_route env rq =
     bind_check (caller env rq) (\<lambda>(current_username, is_admin).
     rescue (failed 500 ''Failed to get group prompt permissions'')
       (bind_check (reading (\<lambda>d. get_group_prompts d (path_param rq ''group_name''))) (\<lambda>rows.
        bind_check (filter_check (\<lambda>p. if is_admin then lift_res (Inr True)
            else on_app (\<lambda>a. flag_of can_manage (effective_prompt_permission (single_env env) a (p_resource p) current_username))) rows) (\<lambda>shown.
        lift_res (Inr (Group_items (map (\<lambda>p. (p_resource p, p_permission p)) shown)))))))"

definition create_group_prompt_permission_route :: "('c, 'w) api_env \<Rightarrow> route_request \<Rightarrow> ('c, 'w, api_answer) api" where
  "create_group_prompt_permission_route env rq =
     bind_check (manage_or_refuse env rq effective_prompt_permission ''prompt '' (path_param rq ''prompt_name'')) (\<lambda>actor.
     rescue (failed 500 ''Failed to create group prompt permission'')
      (bind_check (stored env (\<lambda>d. create_group_prompt_permission d (path_param rq ''group_name'') (path_param rq ''prompt_name'') (hq_permission rq))) (\<lambda>_.
       bind_check (emit_audit_event env ''permission.create'' (Some actor) ''group_prompt_permission'' (path_param rq ''prompt_name'') [(''group_name'', JStr (path_param rq ''group_name'')), (''permission'', JStr (hq_permission rq))]) (\<lambda>_.
       lift_res (Inr (Status_message (''Prompt permission created for group '' @ path_param rq ''group_name'' @ '' on prompt '' @ path_param rq ''prompt_name'')))))))"

definition update_group_prompt_permission_route :: "('c, 'w) api_env \<Rightarrow> route_request \<Rightarrow> ('c, 'w, api_answer) api" where
  "update_group_prompt_permission_route env rq =
     bind_check (manage_or_refuse env rq effective_prompt_permission ''prompt '' (path_param rq ''prompt_name'')) (\<lambda>actor.
     rescue (failed 500 ''Failed to update group prompt permission'')
      (bind_check (stored env (\<lambda>d. update_group_prompt_permission d (path_param rq ''group_name'') (path_param rq ''prompt_name'') (hq_permission rq))) (\<lambda>_.
       bind_check (emit_audit_event env ''permission.update'' (Some actor) ''group_prompt_permission'' (path_param rq ''prompt_name'') [(''group_name'', JStr (path_param rq ''group_name'')), (''permission'', JStr (hq_permission rq))]) (\<lambda>_.
       lift_res (Inr (Status_message (''Prompt permission updated for group '' @ path_param rq ''group_name'' @ '' on prompt '' @ path_param rq ''prompt_name'')))))))"

definition delete_group_prompt_permission_route :: "('c, 'w) api_env \<Rightarrow> route_request \<Rightarrow> ('c, 'w, api_answer) api" where
  "delete_group_prompt_permission_route env rq =
     bind_check (manage_or_refuse env rq effective_prompt_permission ''prompt '' (path_param rq ''prompt_name'')) (\<lambda>actor.
     rescue (failed 500 ''Failed to delete group prompt permission'')
      (bind_check (stored_unit env (\<lambda>d. delete_group_prompt_permission d (path_param rq ''group_name'') (path_param rq ''prompt_name''))) (\<lambda>_.
       bind_check (emit_audit_event env ''permission.delete'' (Some actor) ''group_prompt_permission'' (path_param rq ''prompt_name'') [(''group_name'', JStr (path_param rq ''group_name''))]) (\<lambda>_.
       lift_res (Inr (Status_message (''Prompt permission deleted for group '' @ path_param rq ''group_name'' @ '' on prompt '' @ path_param rq ''prompt_name'')))))))"

definition get_group_experiment_pattern_permissions :: "('c, 'w) api_env \<Rightarrow> route_request \<Rightarrow> ('c, 'w, api_answer) api" where
  "get_group_experiment_pattern_permissions env rq =
     bind_check (check_admin_permission env rq) (\<lambda>_.
     rescue (failed 500 ''Failed to get group experiment pattern permissions'')
      (bind_check (reading (\<lambda>d. list_group_experiment_regex_permissions d (path_param rq ''group_name''))) (\<lambda>row. lift_res (Inr (Pattern_records row)))))"

definition create_group_experiment_pattern_permission :: "('c, 'w) api_env \<Rightarrow> route_request \<Rightarrow> ('c, 'w, api_answer) api" where
  "create_group_experiment_pattern_permission env rq =
     bind_check (check_admin_permission env rq) (\<lambda>actor.
     rescue (failed 500 ''Failed to create group experiment pattern permission'')
      (bind_check (stored env (\<lambda>d. create_group_experiment_regex_permission (pe_compile env) d (path_param rq ''group_name'') (hq_regex rq) (hq_priority rq) (hq_permission rq))) (\<lambda>_.
       bind_check (emit_audit_event env ''permission.create'' actor ''group_experiment_regex_permission'' (path_param rq ''group_name'') [(''regex'', JStr (hq_regex rq)), (''priority'', JNum (hq_priority rq)), (''permission'', JStr (hq_permission rq))]) (\<lambda>_.
       lift_res (Inr (Status_message (''Experiment pattern permission created for group '' @ path_param rq ''group_name'')))))))"

definition get_group_experiment_pattern_permission :: "('c, 'w) api_env \<Rightarrow> route_request \<Rightarrow> ('c, 'w, api_answer) api" where
  "get_group_experiment_pattern_permission env rq =
     bind_check (check_admin_permission env rq) (\<lambda>_.
     rescue (failed 500 ''Failed to get group experiment pattern permission'')
      (bind_check (reading (\<lambda>d. get_group_experiment_regex_permission d (path_param rq ''group_name'') (hq_id rq))) (\<lambda>row. lift_res (Inr (Pattern_record row)))))"

definition update_group_experiment_pattern_permission :: "('c, 'w) api_env \<Rightarrow> route_request \<Rightarrow> ('c, 'w, api_answer) api" where
  "update_group_experiment_pattern_permission env rq =
     bind_check (check_admin_permission env rq) (\<lambda>actor.
     rescue (failed 500 ''Failed to update group experiment pattern permission'')
      (bind_check (stored env (\<lambda>d. update_group_experiment_regex_permission (pe_compile env) d (hq_id rq) (path_param rq ''group_name'') (hq_regex rq) (hq_priority rq) (hq_permission rq))) (\<lambda>_.
       bind_check (emit_audit_event env ''permission.update'' actor ''group_experiment_regex_permission'' (path_param rq ''group_name'') [(''id'', JNum (hq_id rq)), (''regex'', JStr (hq_regex rq)), (''priority'', JNum (hq_priority rq)), (''permission'', JStr (hq_permission rq))]) (\<lambda>_.
       lift_res (Inr (Status_message (''Experiment pattern permission updated for group '' @ path_param rq ''group_name'')))))))"

definition delete_group_experiment_pattern_permission :: "('c, 'w) api_env \<Rightarrow> route_request \<Rightarrow> ('c, 'w, api_answer) api" where
  "delete_group_experiment_pattern_permission env rq =
     bind_check (check_admin_permission env rq) (\<lambda>actor.
     rescue (failed 500 ''Failed to delete group experiment pattern permission'')
      (bind_check (stored_unit env (\<lambda>d. delete_group_experiment_regex_permission d (path_param rq ''group_name'') (hq_id rq))) (\<lambda>_.
       bind_check (emit_audit_event env ''permission.delete'' actor ''group_experiment_regex_permission'' (path_param rq ''group_name'') [(''id'', JNum (hq_id rq))]) (\<lambda>_.
       lift_res (Inr (Status_message (''Experiment pattern permission deleted for group '' @ path_param rq ''group_name'')))))))"

definition get_group_registered_model_pattern_permissions :: "('c, 'w) api_env \<Rightarrow> route_request \<Rightarrow> ('c, 'w, api_answer) api" where
  "get_group_registered_model_pattern_permissions env rq =
     bind_check (check_admin_permission env rq) (\<lambda>_.
     rescue (failed 500 ''Failed to get group registered model pattern permissions'')
      (bind_check (reading (\<lambda>d. list_group_registered_model_regex_permissions d (path_param rq ''group_name''))) (\<lambda>row. lift_res (Inr (Model_pattern_records row)))))"

definition create_group_registered_model_pattern_permission :: "('c, 'w) api_env \<Rightarrow> route_request \<Rightarrow> ('c, 'w, api_answer) api" where
  "create_group_registered_model_pattern_permission env rq =
     bind_check (check_admin_permission env rq) (\<lambda>actor.
     rescue (failed 500 ''Failed to create group registered model pattern permission'')
      (bind_check (stored env (\<lambda>d. create_group_registered_model_regex_permission d (path_param rq ''group_name'') (hq_regex rq) (hq_priority rq) (hq_permission rq))) (\<lambda>_.
       bind_check (emit_audit_event env ''permission.create'' actor ''group_registered_model_regex_permission'' (path_param rq ''group_name'') [(''regex'', JStr (hq_regex rq)), (''priority'', JNum (hq_priority rq)), (''permission'', JStr (hq_permission rq))]) (\<lambda>_.
       lift_res (Inr (Status_message (''Registered model pattern permission created for group '' @ path_param rq ''group_name'')))))))"

definition get_group_registered_model_pattern_permission :: "('c, 'w) api_env \<Rightarrow> route_request \<Rightarrow> ('c, 'w, api_answer) api" where
  "get_group_registered_model_pattern_permission env rq =
     bind_check (check_admin_permission env rq) (\<lambda>_.
     rescue (failed 500 ''Failed to get group registered model pattern permission'')
      (bind_check (reading (\<lambda>d. get_group_registered_model_regex_permission d (hq_id rq) (path_param rq ''group_name''))) (\<lambda>row. lift_res (Inr (Model_pattern_record row)))))"

definition update_group_registered_model_pattern_permission :: "('c, 'w) api_env \<Rightarrow> route_request \<Rightarrow> ('c, 'w, api_answer) api" where
  "update_group_registered_model_pattern_permission env rq =
     bind_check (check_admin_permission env rq) (\<lambda>actor.
     rescue (failed 500 ''Failed to update group registered model pattern permission'')
      (bind_check (stored env (\<lambda>d. update_group_registered_model_regex_permission d (hq_id rq) (path_param rq ''group_name'') (hq_regex rq) (hq_priority rq) (hq_permission rq))) (\<lambda>_.
       bind_check (emit_audit_event env ''permission.update'' actor ''group_registered_model_regex_permission'' (path_param rq ''group_name'') [(''id'', JNum (hq_id rq)), (''regex'', JStr (hq_regex rq)), (''priority'', JNum (hq_priority rq)), (''permission'', JStr (hq_permission rq))]) (\<lambda>_.
       lift_res (Inr (Status_message (''Registered model pattern permission updated for group '' @ path_param rq ''group_name'')))))))"

definition delete_group_registered_model_pattern_permission :: "('c, 'w) api_env \<Rightarrow> route_request \<Rightarrow> ('c, 'w, api_answer) api" where
  "delete_group_registered_model_pattern_permission env rq =
     bind_check (check_admin_permission env rq) (\<lambda>actor.
     rescue (failed 500 ''Failed to delete group registered model pattern permission'')
      (bind_check (stored_unit env (\<lambda>d. delete_group_registered_model_regex_permission d (hq_id rq) (path_param rq ''group_name''))) (\<lambda>_.
       bind_check (emit_audit_event env ''permission.delete'' actor ''group_registered_model_regex_permission'' (path_param rq ''group_name'') [(''id'', JNum (hq_id rq))]) (\<lambda>_.
       lift_res (Inr (Status_message (''Registered model pattern permission deleted for group '' @ path_param rq ''group_name'')))))))"

definition get_group_prompt_pattern_permissions :: "('c, 'w) api_env \<Rightarrow> route_request \<Rightarrow> ('c, 'w, api_answer) api" where
  "get_group_prompt_pattern_permissions env rq =
     bind_check (check_admin_permission env rq) (\<lambda>_.
     rescue (failed 500 ''Failed to get group prompt pattern permissions'')
      (bind_check (reading (\<lambda>d. list_group_prompt_regex_permissions d (path_param rq ''group_name'') True)) (\<lambda>row. lift_res (Inr (Model_pattern_records row)))))"

definition create_group_prompt_pattern_permission :: "('c, 'w) api_env \<Rightarrow> route_request \<Rightarrow> ('c, 'w, api_answer) api" where
  "create_group_prompt_pattern_permission env rq =
     bind_check (check_admin_permission env rq) (\<lambda>actor.
     rescue (failed 500 ''Failed to create group prompt pattern permission'')
      (bind_check (stored env (\<lambda>d. create_group_prompt_regex_permission d (path_param rq ''group_name'') (hq_regex rq) (hq_priority rq) (hq_permission rq) True)) (\<lambda>_.
       bind_check (emit_audit_event env ''permission.create'' actor ''group_prompt_regex_permission'' (path_param rq ''group_name'') [(''regex'', JStr (hq_regex rq)), (''priority'', JNum (hq_priority rq)), (''permission'', JStr (hq_permission rq))]) (\<lambda>_.
       lift_res (Inr (Status_message (''Prompt pattern permission created for group '' @ path_param rq ''group_name'')))))))"

definition get_group_prompt_pattern_permission :: "('c, 'w) api_env \<Rightarrow> route_request \<Rightarrow> ('c, 'w, api_answer) api" where
  "get_group_prompt_pattern_permission env rq =
     bind_check (check_admin_permission env rq) (\<lambda>_.
     rescue (failed 500 ''Failed to get group prompt pattern permission'')
      (bind_check (reading (\<lambda>d. get_group_prompt_regex_permission d (hq_id rq) (path_param rq ''group_name'') True)) (\<lambda>row. lift_res (Inr (Model_pattern_record row)))))"

definition update_group_prompt_pattern_permission :: "('c, 'w) api_env \<Rightarrow> route_request \<Rightarrow> ('c, 'w, api_answer) api" where
  "update_group_prompt_pattern_permission env rq =
     bind_check (check_admin_permission env rq) (\<lambda>actor.
     rescue (failed 500 ''Failed to update group prompt pattern permission'')
      (bind_check (stored env (\<lambda>d. update_group_prompt_regex_permission d (hq_id rq) (path_param rq ''group_name'') (hq_regex rq) (hq_priority rq) (hq_permission rq) True)) (\<lambda>_.
       bind_check (emit_audit_event env ''permission.update'' actor ''group_prompt_regex_permission'' (path_param rq ''group_name'') [(''id'', JNum (hq_id rq)), (''regex'', JStr (hq_regex rq)), (''priority'', JNum (hq_priority rq)), (''permission'', JStr (hq_permission rq))]) (\<lambda>_.
       lift_res (Inr (Status_message (''Prompt pattern permission updated for group '' @ path_param rq ''group_name'')))))))"

definition delete_group_prompt_pattern_permission :: "('c, 'w) api_env \<Rightarrow> route_request \<Rightarrow> ('c, 'w, api_answer) api" where
  "delete_group_prompt_pattern_permission env rq =
     bind_check (check_admin_permission env rq) (\<lambda>actor.
     rescue (failed 500 ''Failed to delete group prompt pattern permission'')
      (bind_check (stored_unit env (\<lambda>d. delete_group_prompt_regex_permission d (hq_id rq) (path_param rq ''group_name''))) (\<lambda>_.
       bind_check (emit_audit_event env ''permission.delete'' actor ''group_prompt_regex_permission'' (path_param rq ''group_name'') [(''id'', JNum (hq_id rq))]) (\<lambda>_.
       lift_res (Inr (Status_message (''Prompt pattern permission deleted for group '' @ path_param rq ''group_name'')))))))"

definition get_group_scorers :: "('c, 'w) api_env \<Rightarrow> route_request \<Rightarrow> ('c, 'w, api_answer) api" where
  "get_group_scorers env rq =
     bind_check (caller env rq) (\<lambda>(current_username, is_admin).
     rescue (failed 500 ''Failed to retrieve group scorer permissions'')
       (bind_check (reading (\<lambda>d. list_group_scorer_permissions d (path_param rq ''group_name''))) (\<lambda>rows.
        bind_check (if is_admin then lift_res (Inr rows)
          else filter_check (\<lambda>sp. manages_experiment env (fst (p_resource sp)) current_username) rows) (\<lambda>shown.
        lift_res (Inr (Scorer_records shown))))))"

definition create_group_scorer_permission_route :: "('c, 'w) api_env \<Rightarrow> route_request \<Rightarrow> ('c, 'w, api_answer) api" where
  "create_group_scorer_permission_route env rq =
     bind_check (check_experiment_manage_permission env rq) (\<lambda>actor.
     rescue (failed 500 ''Failed to create group scorer permission'')
      (bind_check (stored env (\<lambda>d. create_group_scorer_permission d (path_param rq ''group_name'') (path_param rq ''experiment_id'') (path_param rq ''scorer_name'') (hq_permission rq))) (\<lambda>_.
       bind_check (emit_audit_event env ''permission.create'' actor ''group_scorer_permission'' (path_param rq ''scorer_name'') [(''group_name'', JStr (path_param rq ''group_name'')), (''experiment_id'', JStr (path_param rq ''experiment_id'')), (''permission'', JStr (hq_permission rq))]) (\<lambda>_.
       lift_res (Inr (Status_message (''Scorer permission created for group '' @ path_param rq ''group_name'' @ '' on scorer '' @ path_param rq ''scorer_name'')))))))"

definition update_group_scorer_permission_route :: "('c, 'w) api_env \<Rightarrow> route_request \<Rightarrow> ('c, 'w, api_answer) api" where
  "update_group_scorer_permission_route env rq =
     bind_check (check_experiment_manage_permission env rq) (\<lambda>actor.
     rescue (failed 500 ''Failed to update group scorer permission'')
      (bind_check (stored env (\<lambda>d. update_group_scorer_permission d (path_param rq ''group_name'') (path_param rq ''experiment_id'') (path_param rq ''scorer_name'') (hq_permission rq))) (\<lambda>_.
       bind_check (emit_audit_event env ''permission.update'' actor ''group_scorer_permission'' (path_param rq ''scorer_name'') [(''group_name'', JStr (path_param rq ''group_name'')), (''experiment_id'', JStr (path_param rq ''experiment_id'')), (''permission'', JStr (hq_permission rq))]) (\<lambda>_.
       lift_res (Inr (Status_message (''Scorer permission updated for group '' @ path_param rq ''group_name'' @ '' on scorer '' @ path_param rq ''scorer_name'')))))))"

definition delete_group_scorer_permission_route :: "('c, 'w) api_env \<Rightarrow> route_request \<Rightarrow> ('c, 'w, api_answer) api" where
  "delete_group_scorer_permission_route env rq =
     bind_check (check_experiment_manage_permission env rq) (\<lambda>actor.
     rescue (failed 500 ''Failed to delete group scorer permission'')
      (bind_check (stored_unit env (\<lambda>d. delete_group_scorer_permission d (path_param rq ''group_name'') (path_param rq ''experiment_id'') (path_param rq ''scorer_name''))) (\<lambda>_.
       bind_check (emit_audit_event env ''permission.delete'' actor ''group_scorer_permission'' (path_param rq ''scorer_name'') [(''group_name'', JStr (path_param rq ''group_name'')), (''experiment_id'', JStr (path_param rq ''experiment_id''))]) (\<lambda>_.
       lift_res (Inr (Status_message (''Scorer permission deleted for group '' @ path_param rq ''group_name'' @ '' on scorer '' @ path_param rq ''scorer_name'')))))))"

definition get_group_scorer_pattern_permissions :: "('c, 'w) api_env \<Rightarrow> route_request \<Rightarrow> ('c, 'w, api_answer) api" where
  "get_group_scorer_pattern_permissions env rq =
     bind_check (check_admin_permission env rq) (\<lambda>_.
     rescue (failed 500 ''Failed to get group scorer pattern permissions'')
      (bind_check (reading (\<lambda>d. list_group_scorer_regex_permissions d (path_param rq ''group_name''))) (\<lambda>row. lift_res (Inr (Pattern_records row)))))"

definition create_group_scorer_pattern_permission :: "('c, 'w) api_env \<Rightarrow> route_request \<Rightarrow> ('c, 'w, api_answer) api" where
  "create_group_scorer_pattern_permission env rq =
     bind_check (check_admin_permission env rq) (\<lambda>actor.
     rescue (failed 500 ''Failed to create group scorer pattern permission'')
      (bind_check (stored env (\<lambda>d. create_group_scorer_regex_permission (pe_compile env) d (path_param rq ''group_name'') (hq_regex rq) (hq_priority rq) (hq_permission rq))) (\<lambda>_.
       bind_check (emit_audit_event env ''permission.create'' actor ''group_scorer_regex_permission'' (path_param rq ''group_name'') [(''regex'', JStr (hq_regex rq)), (''priority'', JNum (hq_priority rq)), (''permission'', JStr (hq_permission rq))]) (\<lambda>_.
       lift_res (Inr (Status_message (''Scorer pattern permission created for group '' @ path_param rq ''group_name'')))))))"

definition get_group_scorer_pattern_permission :: "('c, 'w) api_env \<Rightarrow> route_request \<Rightarrow> ('c, 'w, api_answer) api" where
  "get_group_scorer_pattern_permission env rq =
     bind_check (check_admin_permission env rq) (\<lambda>_.
     rescue (failed 500 ''Failed to get group scorer pattern permission'')
      (bind_check (reading (\<lambda>d. get_group_scorer_regex_permission d (path_param rq ''group_name'') (hq_id rq))) (\<lambda>row. lift_res (Inr (Pattern_record row)))))"

definition update_group_scorer_pattern_permission :: "('c, 'w) api_env \<Rightarrow> route_request \<Rightarrow> ('c, 'w, api_answer) api" where
  "update_group_scorer_pattern_permission env rq =
     bind_check (check_admin_permission env rq) (\<lambda>actor.
     rescue (failed 500 ''Failed to update group scorer pattern permission'')
      (bind_check (stored env (\<lambda>d. update_group_scorer_regex_permission (pe_compile env) d (hq_id rq) (path_param rq ''group_name'') (hq_regex rq) (hq_priority rq) (hq_permission rq))) (\<lambda>_.
       bind_check (emit_audit_event env ''permission.update'' actor ''group_scorer_regex_permission'' (path_param rq ''group_name'') [(''id'', JNum (hq_id rq)), (''regex'', JStr (hq_regex rq)), (''priority'', JNum (hq_priority rq)), (''permission'', JStr (hq_permission rq))]) (\<lambda>_.
       lift_res (Inr (Status_message (''Scorer pattern permission updated for group '' @ path_param rq ''group_name'')))))))"

definition delete_group_scorer_pattern_permission :: "('c, 'w) api_env \<Rightarrow> route_request \<Rightarrow> ('c, 'w, api_answer) api" where
  "delete_group_scorer_pattern_permission env rq =
     bind_check (check_admin_permission env rq) (\<lambda>actor.
     rescue (failed 500 ''Failed to delete group scorer pattern permission'')
      (bind_check (stored_unit env (\<lambda>d. delete_group_scorer_regex_permission d (path_param rq ''group_name'') (hq_id rq))) (\<lambda>_.
       bind_check (emit_audit_event env ''permission.delete'' actor ''group_scorer_regex_permission'' (path_param rq ''group_name'') [(''id'', JNum (hq_id rq))]) (\<lambda>_.
       lift_res (Inr (Status_message (''Scorer pattern permission deleted for group '' @ path_param rq ''group_name'')))))))"

definition get_group_gateway_endpoint_permissions :: "('c, 'w) api_env \<Rightarrow> route_request \<Rightarrow> ('c, 'w, api_answer) api" where
  "get_group_gateway_endpoint_permissions env rq =
     bind_check (check_admin_permission env rq) (\<lambda>_.
     rescue (failed 500 ''Failed to retrieve group gateway endpoint permissions'')
      (bind_check (reading (\<lambda>d. list_group_gateway_endpoint_permissions d (path_param rq ''group_name''))) (\<lambda>row. lift_res (Inr (Group_items (map (\<lambda>p. (p_resource p, p_permission p)) row))))))"

definition create_group_gateway_endpoint_permission_route :: "('c, 'w) api_env \<Rightarrow> route_request \<Rightarrow> ('c, 'w, api_answer) api" where
  "create_group_gateway_endpoint_permission_route env rq =
     bind_check (check_admin_permission env rq) (\<lambda>actor.
     rescue (failed 500 ''Failed to create group gateway endpoint permission'')
      (bind_check (stored env (\<lambda>d. create_group_gateway_endpoint_permission d (path_param rq ''group_name'') (path_param rq ''name'') (hq_permission rq))) (\<lambda>row.
       bind_check (emit_audit_event env ''permission.create'' actor ''group_gateway_endpoint_permission'' (path_param rq ''name'') [(''group_name'', JStr (path_param rq ''group_name'')), (''permission'', JStr (hq_permission rq))]) (\<lambda>_.
       lift_res (Inr (Group_items [(p_resource row, p_permission row)]))))))"

definition get_group_gateway_endpoint_permission :: "('c, 'w) api_env \<Rightarrow> route_request \<Rightarrow> ('c, 'w, api_answer) api" where
  "get_group_gateway_endpoint_permission env rq =
     bind_check (check_admin_permission env rq) (\<lambda>_.
     rescue (failed 404 ''Group gateway endpoint permission not found'')
      (bind_check (reading (\<lambda>d. get_user_groups_gateway_endpoint_permission d (path_param rq ''name'') (path_param rq ''group_name''))) (\<lambda>row. lift_res (Inr (Group_items [(p_resource row, p_permission row)])))))"

definition update_group_gateway_endpoint_permission_route :: "('c, 'w) api_env \<Rightarrow> route_request \<Rightarrow> ('c, 'w, api_answer) api" where
  "update_group_gateway_endpoint_permission_route env rq =
     bind_check (check_admin_permission env rq) (\<lambda>actor.
     rescue (failed 500 ''Failed to update group gateway endpoint permission'')
      (bind_check (stored env (\<lambda>d. update_group_gateway_endpoint_permission d (path_param rq ''group_name'') (path_param rq ''name'') (hq_permission rq))) (\<lambda>_.
       bind_check (emit_audit_event env ''permission.update'' actor ''group_gateway_endpoint_permission'' (path_param rq ''name'') [(''group_name'', JStr (path_param rq ''group_name'')), (''permission'', JStr (hq_permission rq))]) (\<lambda>_.
       lift_res (Inr (Status_message (''Gateway endpoint permission updated for group '' @ path_param rq ''group_name'' @ '' on '' @ path_param rq ''name'')))))))"

definition delete_group_gateway_endpoint_permission_route :: "('c, 'w) api_env \<Rightarrow> route_request \<Rightarrow> ('c, 'w, api_answer) api" where
  "delete_group_gateway_endpoint_permission_route env rq =
     bind_check (check_admin_permission env rq) (\<lambda>actor.
     rescue (failed 500 ''Failed to delete group gateway endpoint permission'')
      (bind_check (stored_unit env (\<lambda>d. delete_group_gateway_endpoint_permission d (path_param rq ''group_name'') (path_param rq ''name''))) (\<lambda>_.
       bind_check (emit_audit_event env ''permission.delete'' actor ''group_gateway_endpoint_permission'' (path_param rq ''name'') [(''group_name'', JStr (path_param rq ''group_name''))]) (\<lambda>_.
       lift_res (Inr (Status_message (''Gateway endpoint permission deleted for group '' @ path_param rq ''group_name'' @ '' on '' @ path_param rq ''name'')))))))"

definition get_group_gateway_endpoint_pattern_permissions :: "('c, 'w) api_env \<Rightarrow> route_request \<Rightarrow> ('c, 'w, api_answer) api" where
  "get_group_gateway_endpoint_pattern_permissions env rq =
     bind_check (check_admin_permission env rq) (\<lambda>_.
     rescue (failed 500 ''Failed to retrieve group gateway endpoint pattern permissions'')
      (bind_check (reading (\<lambda>d. list_group_gateway_endpoint_regex_permissions d (path_param rq ''group_name''))) (\<lambda>row. lift_res (Inr (Pattern_records row)))))"

definition create_group_gateway_endpoint_pattern_permission :: "('c, 'w) api_env \<Rightarrow> route_request \<Rightarrow> ('c, 'w, api_answer) api" where
  "create_group_gateway_endpoint_pattern_permission env rq =
     bind_check (check_admin_permission env rq) (\<lambda>actor.
     rescue (failed 500 ''Failed to create group gateway endpoint pattern permission'')
      (bind_check (stored env (\<lambda>d. create_group_gateway_endpoint_regex_permission (pe_compile env) d (path_param rq ''group_name'') (hq_regex rq) (hq_priority rq) (hq_permission rq))) (\<lambda>row.
       bind_check (emit_audit_event env ''permission.create'' actor ''group_gateway_endpoint_regex_permission'' (path_param rq ''group_name'') [(''regex'', JStr (hq_regex rq)), (''priority'', JNum (hq_priority rq)), (''permission'', JStr (hq_permission rq))]) (\<lambda>_.
       lift_res (Inr (Pattern_record row))))))"

definition get_group_gateway_endpoint_pattern_permission :: "('c, 'w) api_env \<Rightarrow> route_request \<Rightarrow> ('c, 'w, api_answer) api" where
  "get_group_gateway_endpoint_pattern_permission env rq =
     bind_check (check_admin_permission env rq) (\<lambda>_.
     rescue (failed 404 ''Group gateway endpoint pattern permission not found'')
      (bind_check (reading (\<lambda>d. get_group_gateway_endpoint_regex_permission (pe_compare env) d (hq_id rq) (path_param rq ''group_name''))) (\<lambda>row. lift_res (Inr (Pattern_record row)))))"

definition update_group_gateway_endpoint_pattern_permission :: "('c, 'w) api_env \<Rightarrow> route_request \<Rightarrow> ('c, 'w, api_answer) api" where
  "update_group_gateway_endpoint_pattern_permission env rq =
     bind_check (check_admin_permission env rq) (\<lambda>actor.
     rescue (failed 500 ''Failed to update group gateway endpoint pattern permission'')
      (bind_check (stored env (\<lambda>d. update_group_gateway_endpoint_regex_permission (pe_compile env) d (hq_id rq) (path_param rq ''group_name'') (hq_regex rq) (hq_priority rq) (hq_permission rq))) (\<lambda>row.
       bind_check (emit_audit_event env ''permission.update'' actor ''group_gateway_endpoint_regex_permission'' (path_param rq ''group_name'') [(''id'', JNum (hq_id rq)), (''regex'', JStr (hq_regex rq)), (''priority'', JNum (hq_priority rq)), (''permission'', JStr (hq_permission rq))]) (\<lambda>_.
       lift_res (Inr (Pattern_record row))))))"

definition delete_group_gateway_endpoint_pattern_permission :: "('c, 'w) api_env \<Rightarrow> route_request \<Rightarrow> ('c, 'w, api_answer) api" where
  "delete_group_gateway_endpoint_pattern_permission env rq =
     bind_check (check_admin_permission env rq) (\<lambda>actor.
     rescue (failed 500 ''Failed to delete group gateway endpoint pattern permission'')
      (bind_check (stored_unit env (\<lambda>d. delete_group_gateway_endpoint_regex_permission (pe_compare env) d (hq_id rq) (path_param rq ''group_name''))) (\<lambda>_.
       bind_check (emit_audit_event env ''permission.delete'' actor ''group_gateway_endpoint_regex_permission'' (path_param rq ''group_name'') [(''id'', JNum (hq_id rq))]) (\<lambda>_.
       lift_res (Inr (Status_message (''Gateway endpoint pattern permission deleted for group '' @ path_param rq ''group_name'')))))))"

definition get_group_gateway_model_definition_permissions :: "('c, 'w) api_env \<Rightarrow> route_request \<Rightarrow> ('c, 'w, api_answer) api" where
  "get_group_gateway_model_definition_permissions env rq =
     bind_check (check_admin_permission env rq) (\<lambda>_.
     rescue (failed 500 ''Failed to retrieve group gateway model definition permissions'')
      (bind_check (reading (\<lambda>d. list_group_gateway_model_definition_permissions d (path_param rq ''group_name''))) (\<lambda>row. lift_res (Inr (Group_items (map (\<lambda>p. (p_resource p, p_permission p)) row))))))"

definition create_group_gateway_model_definition_permission_route :: "('c, 'w) api_env \<Rightarrow> route_request \<Rightarrow> ('c, 'w, api_answer) api" where
  "create_group_gateway_model_definition_permission_route env rq =
     bind_check (check_admin_permission env rq) (\<lambda>actor.
     rescue (failed 500 ''Failed to create group gateway model definition permission'')
      (bind_check (stored env (\<lambda>d. create_group_gateway_model_definition_permission d (path_param rq ''group_name'') (path_param rq ''name'') (hq_permission rq))) (\<lambda>row.
       bind_check (emit_audit_event env ''permission.create'' actor ''group_gateway_model_definition_permission'' (path_param rq ''name'') [(''group_name'', JStr (path_param rq ''group_name'')), (''permission'', JStr (hq_permission rq))]) (\<lambda>_.
       lift_res (Inr (Group_items [(p_resource row, p_permission row)]))))))"

definition get_group_gateway_model_definition_permission :: "('c, 'w) api_env \<Rightarrow> route_request \<Rightarrow> ('c, 'w, api_answer) api" where
  "get_group_gateway_model_definition_permission env rq =
     bind_check (check_admin_permission env rq) (\<lambda>_.
     rescue (failed 404 ''Group gateway model definition permission not found'')
      (bind_check (reading (\<lambda>d. get_user_groups_gateway_model_definition_permission d (path_param rq ''name'') (path_param rq ''group_name''))) (\<lambda>row. lift_res (Inr (Group_items [(p_resource row, p_permission row)])))))"

definition update_group_gateway_model_definition_permission_route :: "('c, 'w) api_env \<Rightarrow> route_request \<Rightarrow> ('c, 'w, api_answer) api" where
  "update_group_gateway_model_definition_permission_route env rq =
     bind_check (check_admin_permission env rq) (\<lambda>actor.
     rescue (failed 500 ''Failed to update group gateway model definition permission'')
      (bind_check (stored env (\<lambda>d. update_group_gateway_model_definition_permission d (path_param rq ''group_name'') (path_param rq ''name'') (hq_permission rq))) (\<lambda>_.
       bind_check (emit_audit_event env ''permission.update'' actor ''group_gateway_model_definition_permission'' (path_param rq ''name'') [(''group_name'', JStr (path_param rq ''group_name'')), (''permission'', JStr (hq_permission rq))]) (\<lambda>_.
       lift_res (Inr (Status_message (''Gateway model definition permission updated for group '' @ path_param rq ''group_name'' @ '' on '' @ path_param rq ''name'')))))))"

definition delete_group_gateway_model_definition_permission_route :: "('c, 'w) api_env \<Rightarrow> route_request \<Rightarrow> ('c, 'w, api_answer) api" where
  "delete_group_gateway_model_definition_permission_route env rq =
     bind_check (check_admin_permission env rq) (\<lambda>actor.
     rescue (failed 500 ''Failed to delete group gateway model definition permission'')
      (bind_check (stored_unit env (\<lambda>d. delete_group_gateway_model_definition_permission d (path_param rq ''group_name'') (path_param rq ''name''))) (\<lambda>_.
       bind_check (emit_audit_event env ''permission.delete'' actor ''group_gateway_model_definition_permission'' (path_param rq ''name'') [(''group_name'', JStr (path_param rq ''group_name''))]) (\<lambda>_.
       lift_res (Inr (Status_message (''Gateway model definition permission deleted for group '' @ path_param rq ''group_name'' @ '' on '' @ path_param rq ''name'')))))))"

definition get_group_gateway_model_definition_pattern_permissions :: "('c, 'w) api_env \<Rightarrow> route_request \<Rightarrow> ('c, 'w, api_answer) api" where
  "get_group_gateway_model_definition_pattern_permissions env rq =
     bind_check (check_admin_permission env rq) (\<lambda>_.
     rescue (failed 500 ''Failed to retrieve group gateway model definition pattern permissions'')
      (bind_check (reading (\<lambda>d. list_group_gateway_model_definition_regex_permissions d (path_param rq ''group_name''))) (\<lambda>row. lift_res (Inr (Pattern_records row)))))"

definition create_group_gateway_model_definition_pattern_permission :: "('c, 'w) api_env \<Rightarrow> route_request \<Rightarrow> ('c, 'w, api_answer) api" where
  "create_group_gateway_model_definition_pattern_permission env rq =
     bind_check (check_admin_permission env rq) (\<lambda>actor.
     rescue (failed 500 ''Failed to create group gateway model definition pattern permission'')
      (bind_check (stored env (\<lambda>d. create_group_gateway_model_definition_regex_permission (pe_compile env) d (path_param rq ''group_name'') (hq_regex rq) (hq_priority rq) (hq_permission rq))) (\<lambda>row.
       bind_check (emit_audit_event env ''permission.create'' actor ''group_gateway_model_definition_regex_permission'' (path_param rq ''group_name'') [(''regex'', JStr (hq_regex rq)), (''priority'', JNum (hq_priority rq)), (''permission'', JStr (hq_permission rq))]) (\<lambda>_.
       lift_res (Inr (Pattern_record row))))))"

definition get_group_gateway_model_definition_pattern_permission :: "('c, 'w) api_env \<Rightarrow> route_request \<Rightarrow> ('c, 'w, api_answer) api" where
  "get_group_gateway_model_definition_pattern_permission env rq =
     bind_check (check_admin_permission env rq) (\<lambda>_.
     rescue (failed 404 ''Group gateway model definition pattern permission not found'')
      (bind_check (reading (\<lambda>d. get_group_gateway_model_definition_regex_permission (pe_compare env) d (hq_id rq) (path_param rq ''group_name''))) (\<lambda>row. lift_res (Inr (Pattern_record row)))))"

definition update_group_gateway_model_definition_pattern_permission :: "('c, 'w) api_env \<Rightarrow> route_request \<Rightarrow> ('c, 'w, api_answer) api" where
  "update_group_gateway_model_definition_pattern_permission env rq =
     bind_check (check_admin_permission env rq) (\<lambda>actor.
     rescue (failed 500 ''Failed to update group gateway model definition pattern permission'')
      (bind_check (stored env (\<lambda>d. update_group_gateway_model_definition_regex_permission (pe_compile env) d (hq_id rq) (path_param rq ''group_name'') (hq_regex rq) (hq_priority rq) (hq_permission rq))) (\<lambda>row.
       bind_check (emit_audit_event env ''permission.update'' actor ''group_gateway_model_definition_regex_permission'' (path_param rq ''group_name'') [(''id'', JNum (hq_id rq)), (''regex'', JStr (hq_regex rq)), (''priority'', JNum (hq_priority rq)), (''permission'', JStr (hq_permission rq))]) (\<lambda>_.
       lift_res (Inr (Pattern_record row))))))"

definition delete_group_gateway_model_definition_pattern_permission :: "('c, 'w) api_env \<Rightarrow> route_request \<Rightarrow> ('c, 'w, api_answer) api" where
  "delete_group_gateway_model_definition_pattern_permission env rq =
     bind_check (check_admin_permission env rq) (\<lambda>actor.
     rescue (failed 500 ''Failed to delete group gateway model definition pattern permission'')
      (bind_check (stored_unit env (\<lambda>d. delete_group_gateway_model_definition_regex_permission (pe_compare env) d (hq_id rq) (path_param rq ''group_name''))) (\<lambda>_.
       bind_check (emit_audit_event env ''permission.delete'' actor ''group_gateway_model_definition_regex_permission'' (path_param rq ''group_name'') [(''id'', JNum (hq_id rq))]) (\<lambda>_.
       lift_res (Inr (Status_message (''Gateway model definition pattern permission deleted for group '' @ path_param rq ''group_name'')))))))"

definition get_group_gateway_secret_permissions :: "('c, 'w) api_env \<Rightarrow> route_request \<Rightarrow> ('c, 'w, api_answer) api" where
  "get_group_gateway_secret_permissions env rq =
     bind_check (check_admin_permission env rq) (\<lambda>_.
     rescue (failed 500 ''Failed to retrieve group gateway secret permissions'')
      (bind_check (reading (\<lambda>d. list_group_gateway_secret_permissions d (path_param rq ''group_name''))) (\<lambda>row. lift_res (Inr (Group_items (map (\<lambda>p. (p_resource p, p_permission p)) row))))))"

definition create_group_gateway_secret_permission_route :: "('c, 'w) api_env \<Rightarrow> route_request \<Rightarrow> ('c, 'w, api_answer) api" where
  "create_group_gateway_secret_permission_route env rq =
     bind_check (check_admin_permission env rq) (\<lambda>actor.
     rescue (failed 500 ''Failed to create group gateway secret permission'')
      (bind_check (stored env (\<lambda>d. create_group_gateway_secret_permission d (path_param rq ''group_name'') (path_param rq ''name'') (hq_permission rq))) (\<lambda>row.
       bind_check (emit_audit_event env ''permission.create'' actor ''group_gateway_secret_permission'' (path_param rq ''name'') [(''group_name'', JStr (path_param rq ''group_name'')), (''permission'', JStr (hq_permission rq))]) (\<lambda>_.
       lift_res (Inr (Group_items [(p_resource row, p_permission row)]))))))"

definition get_group_gateway_secret_permission :: "('c, 'w) api_env \<Rightarrow> route_request \<Rightarrow> ('c, 'w, api_answer) api" where
  "get_group_gateway_secret_permission env rq =
     bind_check (check_admin_permission env rq) (\<lambda>_.
     rescue (failed 404 ''Group gateway secret permission not found'')
      (bind_check (reading (\<lambda>d. get_user_groups_gateway_secret_permission d (path_param rq ''name'') (path_param rq ''group_name''))) (\<lambda>row. lift_res (Inr (Group_items [(p_resource row, p_permission row)])))))"

definition update_group_gateway_secret_permission_route :: "('c, 'w) api_env \<Rightarrow> route_request \<Rightarrow> ('c, 'w, api_answer) api" where
  "update_group_gateway_secret_permission_route env rq =
     bind_check (check_admin_permission env rq) (\<lambda>actor.
     rescue (failed 500 ''Failed to update group gateway secret permission'')
      (bind_check (stored env (\<lambda>d. update_group_gateway_secret_permission d (path_param rq ''group_name'') (path_param rq ''name'') (hq_permission rq))) (\<lambda>_.
       bind_check (emit_audit_event env ''permission.update'' actor ''group_gateway_secret_permission'' (path_param rq ''name'') [(''group_name'', JStr (path_param rq ''group_name'')), (''permission'', JStr (hq_permission rq))]) (\<lambda>_.
       lift_res (Inr (Status_message (''Gateway secret permission updated for group '' @ path_param rq ''group_name'' @ '' on '' @ path_param rq ''name'')))))))"

definition delete_group_gateway_secret_permission_route :: "('c, 'w) api_env \<Rightarrow> route_request \<Rightarrow> ('c, 'w, api_answer) api" where
  "delete_group_gateway_secret_permission_route env rq =
     bind_check (check_admin_permission env rq) (\<lambda>actor.
     rescue (failed 500 ''Failed to delete group gateway secret permission'')
      (bind_check (stored_unit env (\<lambda>d. delete_group_gateway_secret_permission d (path_param rq ''group_name'') (path_param rq ''name''))) (\<lambda>_.
       bind_check (emit_audit_event env ''permission.delete'' actor ''group_gateway_secret_permission'' (path_param rq ''name'') [(''group_name'', JStr (path_param rq ''group_name''))]) (\<lambda>_.
       lift_res (Inr (Status_message (''Gateway secret permission deleted for group '' @ path_param rq ''group_name'' @ '' on '' @ path_param rq ''name'')))))))"

definition get_group_gateway_secret_pattern_permissions :: "('c, 'w) api_env \<Rightarrow> route_request \<Rightarrow> ('c, 'w, api_answer) api" where
  "get_group_gateway_secret_pattern_permissions env rq =
     bind_check (check_admin_permission env rq) (\<lambda>_.
     rescue (failed 500 ''Failed to retrieve group gateway secret pattern permissions'')
      (bind_check (reading (\<lambda>d. list_group_gateway_secret_regex_permissions d (path_param rq ''group_name''))) (\<lambda>row. lift_res (Inr (Pattern_records row)))))"

definition create_group_gateway_secret_pattern_permission :: "('c, 'w) api_env \<Rightarrow> route_request \<Rightarrow> ('c, 'w, api_answer) api" where
  "create_group_gateway_secret_pattern_permission env rq =
     bind_check (check_admin_permission env rq) (\<lambda>actor.
     rescue (failed 500 ''Failed to create group gateway secret pattern permission'')
      (bind_check (stored env (\<lambda>d. create_group_gateway_secret_regex_permission (pe_compile env) d (path_param rq ''group_name'') (hq_regex rq) (hq_priority rq) (hq_permission rq))) (\<lambda>row.
       bind_check (emit_audit_event env ''permission.create'' actor ''group_gateway_secret_regex_permission'' (path_param rq ''group_name'') [(''regex'', JStr (hq_regex rq)), (''priority'', JNum (hq_priority rq)), (''permission'', JStr (hq_permission rq))]) (\<lambda>_.
       lift_res (Inr (Pattern_record row))))))"

definition get_group_gateway_secret_pattern_permission :: "('c, 'w) api_env \<Rightarrow> route_request \<Rightarrow> ('c, 'w, api_answer) api" where
  "get_group_gateway_secret_pattern_permission env rq =
     bind_check (check_admin_permission env rq) (\<lambda>_.
     rescue (failed 404 ''Group gateway secret pattern permission not found'')
      (bind_check (reading (\<lambda>d. get_group_gateway_secret_regex_permission (pe_compare env) d (hq_id rq) (path_param rq ''group_name''))) (\<lambda>row. lift_res (Inr (Pattern_record row)))))"

definition update_group_gateway_secret_pattern_permission :: "('c, 'w) api_env \<Rightarrow> route_request \<Rightarrow> ('c, 'w, api_answer) api" where
  "update_group_gateway_secret_pattern_permission env rq =
     bind_check (check_admin_permission env rq) (\<lambda>actor.
     rescue (failed 500 ''Failed to update group gateway secret pattern permission'')
      (bind_check (stored env (\<lambda>d. update_group_gateway_secret_regex_permission (pe_compile env) d (hq_id rq) (path_param rq ''group_name'') (hq_regex rq) (hq_priority rq) (hq_permission rq))) (\<lambda>row.
       bind_check (emit_audit_event env ''permission.update'' actor ''group_gateway_secret_regex_permission'' (path_param rq ''group_name'') [(''id'', JNum (hq_id rq)), (''regex'', JStr (hq_regex rq)), (''priority'', JNum (hq_priority rq)), (''permission'', JStr (hq_permission rq))]) (\<lambda>_.
       lift_res (Inr (Pattern_record row))))))"

definition delete_group_gateway_secret_pattern_permission :: "('c, 'w) api_env \<Rightarrow> route_request \<Rightarrow> ('c, 'w, api_answer) api" where
  "delete_group_gateway_secret_pattern_permission env rq =
     bind_check (check_admin_permission env rq) (\<lambda>actor.
     rescue (failed 500 ''Failed to delete group gateway secret pattern permission'')
      (bind_check (stored_unit env (\<lambda>d. delete_group_gateway_secret_regex_permission (pe_compare env) d (hq_id rq) (path_param rq ''group_name''))) (\<lambda>_.
       bind_check (emit_audit_event env ''permission.delete'' actor ''group_gateway_secret_regex_permission'' (path_param rq ''group_name'') [(''id'', JNum (hq_id rq))]) (\<lambda>_.
       lift_res (Inr (Status_message (''Gateway secret pattern permission deleted for group '' @ path_param rq ''group_name'')))))))"

subsection \<open>Routes\<close>

definition group_permissions_router ::
  "(string \<times> string \<times> (('c, 'w) api_env \<Rightarrow> route_request \<Rightarrow> ('c, 'w, api_answer) api)) list" where
  "group_permissions_router =
    [(''GET'', '''', list_groups_route),
     (''GET'', ''/{group_name:path}/users'', get_group_users_route),
     (''GET'', ''/{group_name:path}/experiments'', get_group_experiments_route),
     (''POST'', ''/{group_name:path}/experiments/{experiment_id}'', create_group_experiment_permission_route),
     (''PATCH'', ''/{group_name:path}/experiments/{experiment_id}'', update_group_experiment_permission_route),
     (''DELETE'', ''/{group_name:path}/experiments/{experiment_id}'', delete_group_experiment_permission_route),
     (''GET'', ''/{group_name:path}/registered-models'', get_group_registered_models),
     (''POST'', ''/{group_name:path}/registered-models/{name:path}'', create_group_registered_model_permission),
     (''PATCH'', ''/{group_name:path}/registered-models/{name:path}'', update_group_registered_model_permission),
     (''DELETE'', ''/{group_name:path}/registered-models/{name:path}'', delete_group_registered_model_permission),
     (''GET'', ''/{group_name:path}/prompts'', get_group_prompts_route),
     (''POST'', ''/{group_name:path}/prompts/{prompt_name:path}'', create_group_prompt_permission_route),
     (''PATCH'', ''/{group_name:path}/prompts/{prompt_name:path}'', update_group_prompt_permission_route),
     (''DELETE'', ''/{group_name:path}/prompts/{prompt_name:path}'', delete_group_prompt_permission_route),
     (''GET'', ''/{group_name:path}/experiment-patterns'', get_group_experiment_pattern_permissions),
     (''POST'', ''/{group_name:path}/experiment-patterns'', create_group_experiment_pattern_permission),
     (''GET'', ''/{group_name:path}/experiment-patterns/{id}'', get_group_experiment_pattern_permission),
     (''PATCH'', ''/{group_name:path}/experiment-patterns/{id}'', update_group_experiment_pattern_permission),
     (''DELETE'', ''/{group_name:path}/experiment-patterns/{id}'', delete_group_experiment_pattern_permission),
     (''GET'', ''/{group_name:path}/registered-models-patterns'', get_group_registered_model_pattern_permissions),
     (''POST'', ''/{group_name:path}/registered-models-patterns'', create_group_registered_model_pattern_permission),
     (''GET'', ''/{group_name:path}/registered-models-patterns/{id}'', get_group_registered_model_pattern_permission),
     (''PATCH'', ''/{group_name:path}/registered-models-patterns/{id}'', update_group_registered_model_pattern_permission),
     (''DELETE'', ''/{group_name:path}/registered-models-patterns/{id}'', delete_group_registered_model_pattern_permission),
     (''GET'', ''/{group_name:path}/prompts-patterns'', get_group_prompt_pattern_permissions),
     (''POST'', ''/{group_name:path}/prompts-patterns'', create_group_prompt_pattern_permission),
     (''GET'', ''/{group_name:path}/prompts-patterns/{id}'', get_group_prompt_pattern_permission),
     (''PATCH'', ''/{group_name:path}/prompts-patterns/{id}'', update_group_prompt_pattern_permission),
     (''DELETE'', ''/{group_name:path}/prompts-patterns/{id}'', delete_group_prompt_pattern_permission),
     (''GET'', ''/{group_name:path}/scorers'', get_group_scorers),
     (''POST'', ''/{group_name:path}/scorers/{experiment_id}/{scorer_name:path}'', create_group_scorer_permission_route),
     (''PATCH'', ''/{group_name:path}/scorers/{experiment_id}/{scorer_name:path}'', update_group_scorer_permission_route),
     (''DELETE'', ''/{group_name:path}/scorers/{experiment_id}/{scorer_name:path}'', delete_group_scorer_permission_route),
     (''GET'', ''/{group_name:path}/scorer-patterns'', get_group_scorer_pattern_permissions),
     (''POST'', ''/{group_name:path}/scorer-patterns'', create_group_scorer_pattern_permission),
     (''GET'', ''/{group_name:path}/scorer-patterns/{id}'', get_group_scorer_pattern_permission),
     (''PATCH'', ''/{group_name:path}/scorer-patterns/{id}'', update_group_scorer_pattern_permission),
     (''DELETE'', ''/{group_name:path}/scorer-patterns/{id}'', delete_group_scorer_pattern_permission),
     (''GET'', ''/{group_name:path}/gateways/endpoints'', get_group_gateway_endpoint_permissions),
     (''POST'', ''/{group_name:path}/gateways/endpoints/{name:path}'', create_group_gateway_endpoint_permission_route),
     (''GET'', ''/{group_name:path}/gateways/endpoints/{name:path}'', get_group_gateway_endpoint_permission),
     (''PATCH'', ''/{group_name:path}/gateways/endpoints/{name:path}'', update_group_gateway_endpoint_permission_route),
     (''DELETE'', ''/{group_name:path}/gateways/endpoints/{name:path}'', delete_group_gateway_endpoint_permission_route),
     (''GET'', ''/{group_name:path}/gateways/endpoints-patterns'', get_group_gateway_endpoint_pattern_permissions),
     (''POST'', ''/{group_name:path}/gateways/endpoints-patterns'', create_group_gateway_endpoint_pattern_permission),
     (''GET'', ''/{group_name:path}/gateways/endpoints-patterns/{id}'', get_group_gateway_endpoint_pattern_permission),
     (''PATCH'', ''/{group_name:path}/gateways/endpoints-patterns/{id}'', update_group_gateway_endpoint_pattern_permission),
     (''DELETE'', ''/{group_name:path}/gateways/endpoints-patterns/{id}'', delete_group_gateway_endpoint_pattern_permission),
     (''GET'', ''/{group_name:path}/gateways/model-definitions'', get_group_gateway_model_definition_permissions),
     (''POST'', ''/{group_name:path}/gateways/model-definitions/{name:path}'', create_group_gateway_model_definition_permission_route),
     (''GET'', ''/{group_name:path}/gateways/model-definitions/{name:path}'', get_group_gateway_model_definition_permission),
     (''PATCH'', ''/{group_name:path}/gateways/model-definitions/{name:path}'', update_group_gateway_model_definition_permission_route),
     (''DELETE'', ''/{group_name:path}/gateways/model-definitions/{name:path}'', delete_group_gateway_model_definition_permission_route),
     (''GET'', ''/{group_name:path}/gateways/model-definitions-patterns'', get_group_gateway_model_definition_pattern_permissions),
     (''POST'', ''/{group_name:path}/gateways/model-definitions-patterns'', create_group_gateway_model_definition_pattern_permission),
     (''GET'', ''/{group_name:path}/gateways/model-definitions-patterns/{id}'', get_group_gateway_model_definition_pattern_permission),
     (''PATCH'', ''/{group_name:path}/gateways/model-definitions-patterns/{id}'', update_group_gateway_model_definition_pattern_permission),
     (''DELETE'', ''/{group_name:path}/gateways/model-definitions-patterns/{id}'', delete_group_gateway_model_definition_pattern_permission),
     (''GET'', ''/{group_name:path}/gateways/secrets'', get_group_gateway_secret_permissions),
     (''POST'', ''/{group_name:path}/gateways/secrets/{name:path}'', create_group_gateway_secret_permission_route),
     (''GET'', ''/{group_name:path}/gateways/secrets/{name:path}'', get_group_gateway_secret_permission),
     (''PATCH'', ''/{group_name:path}/gateways/secrets/{name:path}'', update_group_gateway_secret_permission_route),
     (''DELETE'', ''/{group_name:path}/gateways/secrets/{name:path}'', delete_group_gateway_secret_permission_route),
     (''GET'', ''/{group_name:path}/gateways/secrets-patterns'', get_group_gateway_secret_pattern_permissions),
     (''POST'', ''/{group_name:path}/gateways/secrets-patterns'', create_group_gateway_secret_pattern_permission),
     (''GET'', ''/{group_name:path}/gateways/secrets-patterns/{id}'', get_group_gateway_secret_pattern_permission),
     (''PATCH'', ''/{group_name:path}/gateways/secrets-patterns/{id}'', update_group_gateway_secret_pattern_permission),
     (''DELETE'', ''/{group_name:path}/gateways/secrets-patterns/{id}'', delete_group_gateway_secret_pattern_permission)]"

lemmas group_permissions_router_handlers =
  list_groups_route_def
  get_group_users_route_def
  get_group_experiments_route_def
  create_group_experiment_permission_route_def
  update_group_experiment_permission_route_def
  delete_group_experiment_permission_route_def
  get_group_registered_models_def
  create_group_registered_model_permission_def
  update_group_registered_model_permission_def
  delete_group_registered_model_permission_def
  get_group_prompts_route_def
  create_group_prompt_permission_route_def
  update_group_prompt_permission_route_def
  delete_group_prompt_permission_route_def
  get_group_experiment_pattern_permissions_def
  create_group_experiment_pattern_permission_def
  get_group_experiment_pattern_permission_def
  update_group_experiment_pattern_permission_def
  delete_group_experiment_pattern_permission_def
  get_group_registered_model_pattern_permissions_def
  create_group_registered_model_pattern_permission_def
  get_group_registered_model_pattern_permission_def
  update_group_registered_model_pattern_permission_def
  delete_group_registered_model_pattern_permission_def
  get_group_prompt_pattern_permissions_def
  create_group_prompt_pattern_permission_def
  get_group_prompt_pattern_permission_def
  update_group_prompt_pattern_permission_def
  delete_group_prompt_pattern_permission_def
  get_group_scorers_def
  create_group_scorer_permission_route_def
  update_group_scorer_permission_route_def
  delete_group_scorer_permission_route_def
  get_group_scorer_pattern_permissions_def
  create_group_scorer_pattern_permission_def
  get_group_scorer_pattern_permission_def
  update_group_scorer_pattern_permission_def
  delete_group_scorer_pattern_permission_def
  get_group_gateway_endpoint_permissions_def
  create_group_gateway_endpoint_permission_route_def
  get_group_gateway_endpoint_permission_def
  update_group_gateway_endpoint_permission_route_def
  delete_group_gateway_endpoint_permission_route_def
  get_group_gateway_endpoint_pattern_permissions_def
  create_group_gateway_endpoint_pattern_permission_def
  get_group_gateway_endpoint_pattern_permission_def
  update_group_gateway_endpoint_pattern_permission_def
  delete_group_gateway_endpoint_pattern_permission_def
  get_group_gateway_model_definition_permissions_def
  create_group_gateway_model_definition_permission_route_def
  get_group_gateway_model_definition_permission_def
  update_group_gateway_model_definition_permission_route_def
  delete_group_gateway_model_definition_permission_route_def
  get_group_gateway_model_definition_pattern_permissions_def
  create_group_gateway_model_definition_pattern_permission_def
  get_group_gateway_model_definition_pattern_permission_def
  update_group_gateway_model_definition_pattern_permission_def
  delete_group_gateway_model_definition_pattern_permission_def
  get_group_gateway_secret_permissions_def
  create_group_gateway_secret_permission_route_def
  get_group_gateway_secret_permission_def
  update_group_gateway_secret_permission_route_def
  delete_group_gateway_secret_permission_route_def
  get_group_gateway_secret_pattern_permissions_def
  create_group_gateway_secret_pattern_permission_def
  get_group_gateway_secret_pattern_permission_def
  update_group_gateway_secret_pattern_permission_def
  delete_group_gateway_secret_pattern_permission_def

end
