(* ===== verification/Permission_Listings.thy ===== *)
theory Permission_Listings
  imports Group_Permissions
begin

section \<open>Who holds a permission on a resource (the routers of the resources)\<close>

text \<open>
  The routers \<^verbatim>\<open>experiment\_permissions\<close>, \<^verbatim>\<open>registered\_model\_permissions\<close>,
  \<^verbatim>\<open>prompt\_permissions\<close>, \<^verbatim>\<open>scorers\_permissions\<close> and
  \<^verbatim>\<open>gateway\_*\_permissions\<close>: the users and the groups that hold a grant on a resource, for
  those who manage it, and the resources the caller manages. They only read. Of an MLflow object an answer
  shows the fields the model has; its tags, descriptions and times are passed on as they are.
\<close>

text \<open>\<^verbatim>\<open>if key in dict: append\<close> over the users; a later grant of the same user replaces an earlier one.\<close>

definition users_holding :: "(user_entity \<Rightarrow> 'r perm_row list) \<Rightarrow> 'r \<Rightarrow> user_entity list \<Rightarrow> (string \<times> string \<times> string) list" where
  "users_holding perms_of k us =
     concat (map (\<lambda>u. case dict_of (map (\<lambda>p. (p_resource p, p_permission p)) (perms_of u)) k of
         None \<Rightarrow> []
       | Some perm \<Rightarrow> [(ue_username u, perm, if ue_is_service_account u then ''service-account'' else ''user'')]) us)"

text \<open>Two methods of the group repositories that the store does not wrap: the shared table is split by its flag.\<close>

definition list_groups_for_model :: "group_row list \<Rightarrow> string model_group_row list \<Rightarrow> string \<Rightarrow> (string \<times> string) list" where
  "list_groups_for_model gs tbl nm =
     [(g_group_name g, p_permission p). g \<leftarrow> gs, p \<leftarrow> tbl, p_owner p = g_id g \<and> p_resource p = nm \<and> \<not> p_prompt p]"

definition list_groups_for_prompt :: "group_row list \<Rightarrow> string model_group_row list \<Rightarrow> string \<Rightarrow> (string \<times> string) list" where
  "list_groups_for_prompt gs tbl nm =
     [(g_group_name g, p_permission p). g \<leftarrow> gs, p \<leftarrow> tbl, p_owner p = g_id g \<and> p_resource p = nm \<and> p_prompt p]"

subsection \<open>Handlers\<close>

definition get_experiment_users :: "('c, 'w) api_env \<Rightarrow> route_request \<Rightarrow> ('c, 'w, api_answer) api" where
  "get_experiment_users env rq =
     bind_check (check_experiment_manage_permission env rq) (\<lambda>_.
     bind_check (reading (\<lambda>d. Inr (list_users d False True))) (\<lambda>all_users.
     lift_res (Inr (User_items (users_holding ue_experiment_permissions (path_param rq ''experiment_id'') all_users)))))"

definition get_experiment_groups :: "('c, 'w) api_env \<Rightarrow> route_request \<Rightarrow> ('c, 'w, api_answer) api" where
  "get_experiment_groups env rq =
     bind_check (check_experiment_manage_permission env rq) (\<lambda>_.
     rescue (failed 500 ''Failed to retrieve experiment group permissions'')
       (bind_check (reading (\<lambda>d. Inr (list_groups_for_resource (groups d) (t_group (experiment_tables d)) (path_param rq ''experiment_id'')))) (\<lambda>gs. lift_res (Inr (Group_items gs)))))"

definition list_experiments :: "('c, 'w) api_env \<Rightarrow> route_request \<Rightarrow> ('c, 'w, api_answer) api" where
  "list_experiments env rq =
     bind_check (caller env rq) (\<lambda>(uname, is_admin).
     bind_check (lift_res (pe_experiments env)) (\<lambda>all.
     bind_check (if is_admin then lift_res (Inr all) else on_app (\<lambda>a. filter_manageable_experiments (batch_env env) a uname all)) (\<lambda>shown.
     lift_res (Inr (Experiments shown)))))"

definition get_registered_model_users :: "('c, 'w) api_env \<Rightarrow> route_request \<Rightarrow> ('c, 'w, api_answer) api" where
  "get_registered_model_users env rq =
     bind_check (check_registered_model_manage_permission env rq) (\<lambda>_.
     bind_check (reading (\<lambda>d. Inr (list_users d False True))) (\<lambda>all_users.
     lift_res (Inr (User_items (users_holding ue_registered_model_permissions (path_param rq ''name'') all_users)))))"

definition get_registered_model_groups :: "('c, 'w) api_env \<Rightarrow> route_request \<Rightarrow> ('c, 'w, api_answer) api" where
  "get_registered_model_groups env rq =
     bind_check (check_registered_model_manage_permission env rq) (\<lambda>_.
     rescue (failed 500 ''Failed to retrieve registered model group permissions'')
       (bind_check (reading (\<lambda>d. Inr (list_groups_for_model (groups d) (t_group (registered_model_tables d)) (path_param rq ''name'')))) (\<lambda>gs. lift_res (Inr (Group_items gs)))))"

definition list_models :: "('c, 'w) api_env \<Rightarrow> route_request \<Rightarrow> ('c, 'w, api_answer) api" where
  "list_models env rq =
     bind_check (caller env rq) (\<lambda>(uname, is_admin).
     bind_check (lift_res (pe_registered_models env)) (\<lambda>all.
     bind_check (if is_admin then lift_res (Inr all) else on_app (\<lambda>a. filter_manageable_models (batch_env env) a uname all)) (\<lambda>shown.
     lift_res (Inr (Names shown)))))"

definition get_prompt_users :: "('c, 'w) api_env \<Rightarrow> route_request \<Rightarrow> ('c, 'w, api_answer) api" where
  "get_prompt_users env rq =
     bind_check (check_prompt_manage_permission env rq) (\<lambda>_.
     bind_check (reading (\<lambda>d. Inr (list_users d False True))) (\<lambda>all_users.
     lift_res (Inr (User_items (users_holding ue_registered_model_permissions (path_param rq ''prompt_name'') all_users)))))"

definition get_prompt_groups :: "('c, 'w) api_env \<Rightarrow> route_request \<Rightarrow> ('c, 'w, api_answer) api" where
  "get_prompt_groups env rq =
     bind_check (check_prompt_manage_permission env rq) (\<lambda>_.
     rescue (failed 500 ''Failed to retrieve prompt group permissions'')
       (bind_check (reading (\<lambda>d. Inr (list_groups_for_prompt (groups d) (t_group (registered_model_tables d)) (path_param rq ''prompt_name'')))) (\<lambda>gs. lift_res (Inr (Group_items gs)))))"

definition list_prompts :: "('c, 'w) api_env \<Rightarrow> route_request \<Rightarrow> ('c, 'w, api_answer) api" where
  "list_prompts env rq =
     bind_check (caller env rq) (\<lambda>(uname, is_admin).
     bind_check (lift_res (pe_prompts env)) (\<lambda>all.
     bind_check (if is_admin then lift_res (Inr all) else on_app (\<lambda>a. filter_manageable_prompts (batch_env env) a uname all)) (\<lambda>shown.
     lift_res (Inr (Names shown)))))"

definition list_scorers :: "('c, 'w) api_env \<Rightarrow> route_request \<Rightarrow> ('c, 'w, api_answer) api" where
  "list_scorers env rq =
     bind_check (caller env rq) (\<lambda>(uname, is_admin).
     bind_check (rescue (failed 500 ''Failed to retrieve scorers'') (lift_res (pe_scorers env (path_param rq ''experiment_id'')))) (\<lambda>all.
     bind_check (if is_admin then lift_res (Inr all)
       else filter_check (\<lambda>sn. on_app (\<lambda>a. can_manage_scorer (single_env env) a (path_param rq ''experiment_id'') sn uname)) all) (\<lambda>shown.
     lift_res (Inr (Names shown)))))"

definition get_scorer_users :: "('c, 'w) api_env \<Rightarrow> route_request \<Rightarrow> ('c, 'w, api_answer) api" where
  "get_scorer_users env rq =
     bind_check (check_scorer_manage_permission env rq) (\<lambda>_.
     bind_check (rescue (failed 500 ''Failed to retrieve scorer user permissions'') (reading (\<lambda>d. Inr (list_users d False True)))) (\<lambda>all_users.
     lift_res (Inr (User_items (users_holding ue_scorer_permissions (path_param rq ''experiment_id'', path_param rq ''scorer_name'') all_users)))))"

definition get_scorer_groups :: "('c, 'w) api_env \<Rightarrow> route_request \<Rightarrow> ('c, 'w, api_answer) api" where
  "get_scorer_groups env rq =
     bind_check (check_scorer_manage_permission env rq) (\<lambda>_.
     rescue (failed 500 ''Failed to retrieve scorer group permissions'')
       (bind_check (reading (\<lambda>d. Inr (scorer_list_groups (groups d) (t_group (scorer_tables d)) (path_param rq ''experiment_id'') (path_param rq ''scorer_name'')))) (\<lambda>gs. lift_res (Inr (Group_items gs)))))"

definition get_gateway_endpoint_users :: "('c, 'w) api_env \<Rightarrow> route_request \<Rightarrow> ('c, 'w, api_answer) api" where
  "get_gateway_endpoint_users env rq =
     bind_check (check_gateway_endpoint_manage_permission env rq) (\<lambda>_.
     bind_check (reading (\<lambda>d. Inr (list_users d False True))) (\<lambda>all_users.
     lift_res (Inr (User_items (users_holding ue_gateway_endpoint_permissions (path_param rq ''name'') all_users)))))"

definition get_gateway_endpoint_groups :: "('c, 'w) api_env \<Rightarrow> route_request \<Rightarrow> ('c, 'w, api_answer) api" where
  "get_gateway_endpoint_groups env rq =
     bind_check (check_gateway_endpoint_manage_permission env rq) (\<lambda>_.
     rescue (failed 500 ''Failed to retrieve gateway endpoint group permissions'')
       (bind_check (reading (\<lambda>d. Inr (list_groups_for_resource (groups d) (t_group (gateway_endpoint_tables d)) (path_param rq ''name'')))) (\<lambda>gs. lift_res (Inr (Group_items gs)))))"

definition list_gateway_endpoints :: "('c, 'w) api_env \<Rightarrow> route_request \<Rightarrow> ('c, 'w, api_answer) api" where
  "list_gateway_endpoints env rq =
     bind_check (caller env rq) (\<lambda>(uname, is_admin).
     rescue (failed 500 ''Failed to retrieve gateway endpoints'')
       (bind_check (lift_res (pe_gateway_endpoints env)) (\<lambda>all.
        bind_check (if is_admin then lift_res (Inr all)
          else on_app (\<lambda>a. case filter_manageable_gateway_endpoints (single_env env) a uname all of (xs, a') \<Rightarrow> (Inr xs, a'))) (\<lambda>shown.
        lift_res (Inr (Gateway_objects (map (\<lambda>x. [(''name'', dict_get x ''name''), (''type'', dict_get x ''endpoint_type''), (''description'', dict_get x ''description''),
            (''route_type'', dict_get x ''route_type''), (''auth_type'', dict_get x ''auth_type'')]) shown)))))))"

definition get_gateway_secret_users :: "('c, 'w) api_env \<Rightarrow> route_request \<Rightarrow> ('c, 'w, api_answer) api" where
  "get_gateway_secret_users env rq =
     bind_check (check_gateway_secret_manage_permission env rq) (\<lambda>_.
     bind_check (reading (\<lambda>d. Inr (list_users d False True))) (\<lambda>all_users.
     lift_res (Inr (User_items (users_holding ue_gateway_secret_permissions (path_param rq ''name'') all_users)))))"

definition get_gateway_secret_groups :: "('c, 'w) api_env \<Rightarrow> route_request \<Rightarrow> ('c, 'w, api_answer) api" where
  "get_gateway_secret_groups env rq =
     bind_check (check_gateway_secret_manage_permission env rq) (\<lambda>_.
     rescue (failed 500 ''Failed to retrieve gateway secret group permissions'')
       (bind_check (reading (\<lambda>d. Inr (list_groups_for_resource (groups d) (t_group (gateway_secret_tables d)) (path_param rq ''name'')))) (\<lambda>gs. lift_res (Inr (Group_items gs)))))"

definition list_gateway_secrets :: "('c, 'w) api_env \<Rightarrow> route_request \<Rightarrow> ('c, 'w, api_answer) api" where
  "list_gateway_secrets env rq =
     bind_check (caller env rq) (\<lambda>(uname, is_admin).
     rescue (failed 500 ''Failed to retrieve gateway secrets'')
       (bind_check (lift_res (pe_gateway_secrets env)) (\<lambda>all.
        bind_check (if is_admin then lift_res (Inr all)
          else on_app (\<lambda>a. case filter_manageable_gateway_secrets (single_env env) a uname all of (xs, a') \<Rightarrow> (Inr xs, a'))) (\<lambda>shown.
        lift_res (Inr (Gateway_objects (map (\<lambda>x. [(''key'', secret_name_of x)]) shown)))))))"

definition get_gateway_model_definition_users :: "('c, 'w) api_env \<Rightarrow> route_request \<Rightarrow> ('c, 'w, api_answer) api" where
  "get_gateway_model_definition_users env rq =
     bind_check (check_gateway_model_definition_manage_permission env rq) (\<lambda>_.
     bind_check (reading (\<lambda>d. Inr (list_users d False True))) (\<lambda>all_users.
     lift_res (Inr (User_items (users_holding ue_gateway_model_definition_permissions (path_param rq ''name'') all_users)))))"

definition get_gateway_model_definition_groups :: "('c, 'w) api_env \<Rightarrow> route_request \<Rightarrow> ('c, 'w, api_answer) api" where
  "get_gateway_model_definition_groups env rq =
     bind_check (check_gateway_model_definition_manage_permission env rq) (\<lambda>_.
     rescue (failed 500 ''Failed to retrieve gateway model definition group permissions'')
       (bind_check (reading (\<lambda>d. Inr (list_groups_for_resource (groups d) (t_group (gateway_model_definition_tables d)) (path_param rq ''name'')))) (\<lambda>gs. lift_res (Inr (Group_items gs)))))"

definition list_gateway_model_definitions :: "('c, 'w) api_env \<Rightarrow> route_request \<Rightarrow> ('c, 'w, api_answer) api" where
  "list_gateway_model_definitions env rq =
     bind_check (caller env rq) (\<lambda>(uname, is_admin).
     rescue (failed 500 ''Failed to retrieve gateway model definitions'')
       (bind_check (lift_res (pe_gateway_model_definitions env)) (\<lambda>all.
        bind_check (if is_admin then lift_res (Inr all)
          else on_app (\<lambda>a. case filter_manageable_gateway_model_definitions (single_env env) a uname all of (xs, a') \<Rightarrow> (Inr xs, a'))) (\<lambda>shown.
        lift_res (Inr (Gateway_objects (map (\<lambda>x. [(''name'', dict_get x ''name''), (''source'', if dict_get x ''source'' \<noteq> [] then dict_get x ''source'' else dict_get x ''provider'')]) shown)))))))"

subsection \<open>Routes\<close>

definition experiment_permissions_router ::
  "(string \<times> string \<times> (('c, 'w) api_env \<Rightarrow> route_request \<Rightarrow> ('c, 'w, api_answer) api)) list" where
  "experiment_permissions_router =
    [(''GET'', '''', list_experiments),
     (''GET'', ''/{experiment_id}/users'', get_experiment_users),
     (''GET'', ''/{experiment_id}/groups'', get_experiment_groups)]"

definition registered_model_permissions_router ::
  "(string \<times> string \<times> (('c, 'w) api_env \<Rightarrow> route_request \<Rightarrow> ('c, 'w, api_answer) api)) list" where
  "registered_model_permissions_router =
    [(''GET'', '''', list_models),
     (''GET'', ''/{name:path}/users'', get_registered_model_users),
     (''GET'', ''/{name:path}/groups'', get_registered_model_groups)]"

definition prompt_permissions_router ::
  "(string \<times> string \<times> (('c, 'w) api_env \<Rightarrow> route_request \<Rightarrow> ('c, 'w, api_answer) api)) list" where
  "prompt_permissions_router =
    [(''GET'', '''', list_prompts),
     (''GET'', ''/{prompt_name:path}/users'', get_prompt_users),
     (''GET'', ''/{prompt_name:path}/groups'', get_prompt_groups)]"

definition scorers_permissions_router ::
  "(string \<times> string \<times> (('c, 'w) api_env \<Rightarrow> route_request \<Rightarrow> ('c, 'w, api_answer) api)) list" where
  "scorers_permissions_router =
    [(''GET'', ''/{experiment_id}'', list_scorers),
     (''GET'', ''/{experiment_id}/{scorer_name:path}/users'', get_scorer_users),
     (''GET'', ''/{experiment_id}/{scorer_name:path}/groups'', get_scorer_groups)]"

definition gateway_endpoint_permissions_router ::
  "(string \<times> string \<times> (('c, 'w) api_env \<Rightarrow> route_request \<Rightarrow> ('c, 'w, api_answer) api)) list" where
  "gateway_endpoint_permissions_router =
    [(''GET'', '''', list_gateway_endpoints),
     (''GET'', ''/{name:path}/users'', get_gateway_endpoint_users),
     (''GET'', ''/{name:path}/groups'', get_gateway_endpoint_groups)]"

definition gateway_secret_permissions_router ::
  "(string \<times> string \<times> (('c, 'w) api_env \<Rightarrow> route_request \<Rightarrow> ('c, 'w, api_answer) api)) list" where
  "gateway_secret_permissions_router =
    [(''GET'', '''', list_gateway_secrets),
     (''GET'', ''/{name:path}/users'', get_gateway_secret_users),
     (''GET'', ''/{name:path}/groups'', get_gateway_secret_groups)]"

definition gateway_model_definition_permissions_router ::
  "(string \<times> string \<times> (('c, 'w) api_env \<Rightarrow> route_request \<Rightarrow> ('c, 'w, api_answer) api)) list" where
  "gateway_model_definition_permissions_router =
    [(''GET'', '''', list_gateway_model_definitions),
     (''GET'', ''/{name:path}/users'', get_gateway_model_definition_users),
     (''GET'', ''/{name:path}/groups'', get_gateway_model_definition_groups)]"

lemmas permission_listing_handlers =
  list_experiments_def
  get_experiment_users_def
  get_experiment_groups_def
  list_models_def
  get_registered_model_users_def
  get_registered_model_groups_def
  list_prompts_def
  get_prompt_users_def
  get_prompt_groups_def
  list_scorers_def
  get_scorer_users_def
  get_scorer_groups_def
  list_gateway_endpoints_def
  get_gateway_endpoint_users_def
  get_gateway_endpoint_groups_def
  list_gateway_secrets_def
  get_gateway_secret_users_def
  get_gateway_secret_groups_def
  list_gateway_model_definitions_def
  get_gateway_model_definition_users_def
  get_gateway_model_definition_groups_def

lemmas permission_listing_routers =
  experiment_permissions_router_def
  registered_model_permissions_router_def
  prompt_permissions_router_def
  scorers_permissions_router_def
  gateway_endpoint_permissions_router_def
  gateway_secret_permissions_router_def
  gateway_model_definition_permissions_router_def

end
