(* ===== verification/Routes.thy ===== *)
theory Routes
  imports Permission_Listings
begin

section \<open>What the handlers of the permission routers may do\<close>

text \<open>
  A handler that answers a \<^verbatim>\<open>GET\<close> leaves the database and the audit log alone. Any other
  handler first asks its dependency, and then either fails and changes nothing or performs one decorated
  write of the store and records one event. The rules below follow the shape of the handlers, so that the
  tables of routes are checked against the contract entry by entry.
\<close>

subsection \<open>Reading\<close>

definition observes :: "('c, 'w, 'r) api \<Rightarrow> bool" where
  "observes m \<longleftrightarrow> (\<forall>s. a_db (ap_app (snd (m s))) = a_db (ap_app s) \<and> ap_log (snd (m s)) = ap_log s)"

named_theorems observing

lemma observes_lift [observing]: "observes (lift_res r)"
  by (simp add: observes_def lift_res_def)

lemma observes_reading [observing]: "observes (reading f)"
  by (simp add: observes_def reading_def)

lemma observes_on_app [observing]: "(\<And>a. a_db (snd (m a)) = a_db a) \<Longrightarrow> observes (on_app m)"
  by (simp add: observes_def on_app_def split: prod.splits) (metis snd_conv)

lemma observes_bind [observing]:
  assumes "observes m" and "\<And>x. observes (f x)"
  shows "observes (bind_check m f)"
  unfolding observes_def
proof (rule allI)
  fix s
  obtain r s1 where run: "m s = (r, s1)" by (rule prod.exhaust)
  with assms(1) have "a_db (ap_app s1) = a_db (ap_app s)" "ap_log s1 = ap_log s" unfolding observes_def by (metis snd_conv)+
  with assms(2) run show "a_db (ap_app (snd (bind_check m f s))) = a_db (ap_app s) \<and> ap_log (snd (bind_check m f s)) = ap_log s"
    by (cases r) (simp_all add: bind_check_def observes_def)
qed

lemma observes_rescue [observing]: "observes m \<Longrightarrow> observes (rescue f m)"
  by (simp add: observes_def rescue_def split: prod.splits sum.splits) (metis snd_conv)

lemma observes_if [observing]: "observes m \<Longrightarrow> observes n \<Longrightarrow> observes (if b then m else n)"
  by simp

lemma observes_filter [observing]: "(\<And>x. observes (f x)) \<Longrightarrow> observes (filter_check f xs)"
  by (induction xs) (auto intro: observing)

lemma observes_case_prod [observing]: "(\<And>x y. observes (f x y)) \<Longrightarrow> observes (case p of (x, y) \<Rightarrow> f x y)"
  by (cases p) simp

subsection \<open>Resolving keeps the database\<close>

named_theorems keeps_database

lemma resolve_database [keeps_database]: "a_db (snd (resolve_permission env s rtype rid uname kw)) = a_db s"
  by (simp add: resolve_permission_def record_permission_fallback_def Let_def split: option.splits sum.splits prod.splits)

lemma flag_database [keeps_database]: "a_db (snd m) = a_db s \<Longrightarrow> a_db (snd (flag_of f m)) = a_db s"
  by (cases m) (simp add: flag_of_def)

lemma workspace_fallback_database: "a_db (fst (snd (batch_apply_workspace_fallback env s r ctx))) = a_db s"
  by (cases "e_workspace env") (simp_all add: batch_apply_workspace_fallback_def case_prod_beta Let_def split: option.split)

lemma finish_database: "a_db (fst (snd (finish_batch_result env s ctx rtype rid r))) = a_db s"
  by (cases r) (simp_all add: finish_batch_result_def case_prod_beta workspace_fallback_database)

lemma batch_loop_database:
  assumes "\<And>s ctx x. a_db (fst (snd (one s ctx x))) = a_db s"
  shows "a_db (snd (batch_loop key one s ctx xs)) = a_db s"
proof (induction xs arbitrary: s ctx)
  case (Cons x xs)
  obtain r s' ctx' where run: "one s ctx x = (r, s', ctx')" by (metis prod.exhaust)
  with assms [of s ctx x] have "a_db s' = a_db s" by simp
  with Cons.IH [of s' ctx'] run show ?case by (auto split: sum.splits prod.splits)
qed simp

lemma batch_database:
  assumes "\<And>s ctx x. a_db (fst (snd (one s ctx x))) = a_db s"
  shows "a_db (snd (batch_resolve key one s uname xs)) = a_db s"
proof (cases "build_user_permission_context (a_db s) uname")
  case (Inr ctx)
  obtain r s' where run: "batch_loop key one s ctx xs = (r, s')" by (rule prod.exhaust)
  with batch_loop_database [where one = one and key = key and xs = xs and s = s and ctx = ctx, OF assms] have "a_db s' = a_db s" by simp
  with Inr run show ?thesis by (cases r) (simp_all add: batch_resolve_def)
qed (simp add: batch_resolve_def)

lemma batches_database [keeps_database]:
  "a_db (snd (batch_resolve_experiment_permissions env s uname xs)) = a_db s"
  "a_db (snd (batch_resolve_model_permissions env s uname ys)) = a_db s"
  "a_db (snd (batch_resolve_prompt_permissions env s uname ys)) = a_db s"
  unfolding batch_resolve_experiment_permissions_def batch_resolve_model_permissions_def batch_resolve_prompt_permissions_def
    resolve_experiment_permission_from_context_def resolve_model_permission_from_context_def resolve_prompt_permission_from_context_def
  by (rule batch_database, rule finish_database)+

lemma filters_database [keeps_database]:
  "a_db (snd (filter_manageable_experiments env s uname xs)) = a_db s"
  "a_db (snd (filter_manageable_models env s uname ys)) = a_db s"
  "a_db (snd (filter_manageable_prompts env s uname ys)) = a_db s"
  using batches_database [of env s uname]
  by (simp_all add: filter_manageable_experiments_def filter_manageable_models_def filter_manageable_prompts_def split: sum.splits prod.splits)
    (metis snd_conv)+

lemma gateway_loop_database:
  assumes "\<And>s nm. a_db (snd (ask s nm)) = a_db s"
  shows "a_db (snd (gateway_filter_loop name_of ask s xs)) = a_db s"
proof (induction xs arbitrary: s)
  case (Cons x xs)
  obtain r s' where run: "ask s (name_of x) = (r, s')" by (rule prod.exhaust)
  with assms [of s "name_of x"] have "a_db s' = a_db s" by simp
  with Cons.IH run show ?case by (auto split: sum.splits bool.splits prod.splits) (metis snd_conv)+
qed simp

lemmas asks_defs = can_manage_experiment_def can_manage_registered_model_def can_manage_scorer_def can_manage_gateway_endpoint_def
  can_manage_gateway_secret_def can_manage_gateway_model_definition_def effective_experiment_permission_def
  effective_registered_model_permission_def effective_prompt_permission_def effective_scorer_permission_def
  effective_gateway_endpoint_permission_def effective_gateway_secret_permission_def effective_gateway_model_definition_permission_def

lemma gateway_filters_database [keeps_database]:
  "a_db (snd (filter_manageable_gateway_endpoints env s uname xs)) = a_db s"
  "a_db (snd (filter_manageable_gateway_secrets env s uname xs)) = a_db s"
  "a_db (snd (filter_manageable_gateway_model_definitions env s uname xs)) = a_db s"
  unfolding filter_manageable_gateway_endpoints_def filter_manageable_gateway_secrets_def
    filter_manageable_gateway_model_definitions_def asks_defs
  by (rule gateway_loop_database, rule keeps_database, rule keeps_database)+

subsection \<open>Dependencies\<close>

text \<open>
  What a dependency that let the request pass has established: who the caller is, and that he is an
  administrator or, on a route of a resource, that the resolver finds he manages it. \<open>asked\<close> is the state
  the question may leave behind.
\<close>

definition admits :: "('c, 'w) api_env \<Rightarrow> route_request \<Rightarrow> (string \<times> string) option \<Rightarrow> ('c, 'w) api_state \<Rightarrow> string \<Rightarrow> bool" where
  "admits env rq rsrc s uname \<longleftrightarrow>
     (\<exists>is_admin. fst (caller env rq s) = Inr (uname, is_admin) \<and>
       (is_admin \<or> (\<exists>rtype rid. rsrc = Some (rtype, rid) \<and>
          fst (flag_of can_manage (resolve_permission (single_env env) (ap_app s) rtype rid uname None)) = Inr True)))"

definition asked :: "('c, 'w) api_env \<Rightarrow> (string \<times> string) option \<Rightarrow> ('c, 'w) api_state \<Rightarrow> ('c, 'w) api_state \<Rightarrow> bool" where
  "asked env rsrc s s' \<longleftrightarrow> s' = s \<or>
     (\<exists>rtype rid uname. rsrc = Some (rtype, rid) \<and> s' = s\<lparr>ap_app := snd (resolve_permission (single_env env) (ap_app s) rtype rid uname None)\<rparr>)"

definition guards ::
  "('c, 'w) api_env \<Rightarrow> route_request \<Rightarrow> (string \<times> string) option \<Rightarrow> bool \<Rightarrow> ('x \<Rightarrow> string option) \<Rightarrow> ('c, 'w, 'x) api \<Rightarrow> bool" where
  "guards env rq rsrc named actor g \<longleftrightarrow>
     (\<forall>s r s'. g s = (r, s') \<longrightarrow> asked env rsrc s s' \<and>
        (\<forall>x. r = Inr x \<longrightarrow> (\<exists>uname. admits env rq rsrc s uname \<and> actor x = (if named then Some uname else None))))"

lemma caller_state [simp]: "snd (caller env rq s) = s"
  by (simp add: caller_def reading_def)

lemma caller_cases:
  obtains (refused) e where "caller env rq s = (Inl e, s)" | (known) uname is_admin where "caller env rq s = (Inr (uname, is_admin), s)"
  using caller_state [of env rq s] by (cases "caller env rq s"; cases "fst (caller env rq s)") auto

named_theorems guarding

lemma guards_admin [guarding]: "guards env rq rsrc True (\<lambda>x. x) (check_admin_permission env rq)"
  unfolding guards_def
proof (intro allI impI)
  fix s r s'
  assume run: "check_admin_permission env rq s = (r, s')"
  show "asked env rsrc s s' \<and> (\<forall>x. r = Inr x \<longrightarrow> (\<exists>uname. admits env rq rsrc s uname \<and> x = (if True then Some uname else None)))"
  proof (cases rule: caller_cases [of env rq s])
    case (known uname is_admin)
    with run show ?thesis
      by (auto simp: check_admin_permission_def bind_check_def rescue_def lift_res_def asked_def admits_def split: if_splits)
  qed (use run in \<open>auto simp: check_admin_permission_def bind_check_def rescue_def asked_def\<close>)
qed

lemma resolved_flag:
  "snd (flag_of f (resolve_permission env a rtype rid uname kw)) = snd (resolve_permission env a rtype rid uname kw)"
  by (simp add: flag_of_def case_prod_beta)

lemma guards_ask:
  assumes "\<And>a u. ask a u = flag_of can_manage (resolve_permission (single_env env) a rtype rid u None)"
    and "\<And>u. actor (ok u) = (if named then Some u else None)"
  shows "guards env rq (Some (rtype, rid)) named actor
    (bind_check (caller env rq) (\<lambda>(uname, is_admin). if is_admin then lift_res (Inr (ok uname))
       else bind_check (on_app (\<lambda>a. ask a uname)) (\<lambda>b. lift_res (if b then Inr (ok uname) else Inl e))))"
  unfolding guards_def
proof (intro allI impI)
  fix s r s'
  assume run: "bind_check (caller env rq) (\<lambda>(uname, is_admin). if is_admin then lift_res (Inr (ok uname))
    else bind_check (on_app (\<lambda>a. ask a uname)) (\<lambda>b. lift_res (if b then Inr (ok uname) else Inl e))) s = (r, s')"
  show "asked env (Some (rtype, rid)) s s' \<and>
    (\<forall>x. r = Inr x \<longrightarrow> (\<exists>uname. admits env rq (Some (rtype, rid)) s uname \<and> actor x = (if named then Some uname else None)))"
  proof (cases rule: caller_cases [of env rq s])
    case (known uname is_admin)
    obtain b a' where asks: "ask (ap_app s) uname = (b, a')" by (rule prod.exhaust)
    then have "a' = snd (resolve_permission (single_env env) (ap_app s) rtype rid uname None)"
      using assms(1) [of "ap_app s" uname] resolved_flag by (metis snd_conv)
    with known run asks assms show ?thesis
      by (cases b) (auto simp: bind_check_def lift_res_def on_app_def asked_def admits_def split: if_splits)
  qed (use run in \<open>auto simp: bind_check_def asked_def\<close>)
qed

lemma guards_resources [guarding]:
  "guards env rq (Some (EXPERIMENT, path_param rq ''experiment_id'')) False (\<lambda>x. x) (check_experiment_manage_permission env rq)"
  "guards env rq (Some (REGISTERED_MODEL, path_param rq ''name'')) False (\<lambda>x. x) (check_registered_model_manage_permission env rq)"
  unfolding check_experiment_manage_permission_def check_registered_model_manage_permission_def check_manage_def Let_def
  by (rule guards_ask; simp add: asks_defs)+

lemma guards_manages [guarding]:
  "guards env rq (Some (REGISTERED_MODEL, nm)) True Some (manage_or_refuse env rq effective_registered_model_permission what nm)"
  "guards env rq (Some (PROMPT, nm)) True Some (manage_or_refuse env rq effective_prompt_permission what nm)"
  unfolding manage_or_refuse_def by (rule guards_ask; simp add: asks_defs)+

lemma observes_dependencies [observing]:
  "observes (caller env rq)" "observes (check_admin_permission env rq)" "observes (check_experiment_manage_permission env rq)"
  "observes (check_registered_model_manage_permission env rq)" "observes (check_prompt_manage_permission env rq)"
  "observes (check_scorer_manage_permission env rq)" "observes (check_gateway_endpoint_manage_permission env rq)"
  "observes (check_gateway_secret_manage_permission env rq)" "observes (check_gateway_model_definition_manage_permission env rq)"
  unfolding caller_def check_admin_permission_def check_experiment_manage_permission_def check_registered_model_manage_permission_def
    check_prompt_manage_permission_def check_scorer_manage_permission_def check_gateway_endpoint_manage_permission_def
    check_gateway_secret_manage_permission_def check_gateway_model_definition_manage_permission_def check_manage_def Let_def asks_defs
  by (intro observing keeps_database)+

lemma observes_manages_experiment [observing]: "observes (manages_experiment env eid uname)"
  unfolding manages_experiment_def asks_defs by (intro observing keeps_database)

lemma observes_shown [observing]: "(\<And>a. a_db (snd (own a)) = a_db a) \<Longrightarrow> observes (shown_to u is_admin v key own permissions all)"
  unfolding shown_to_def by (intro observing)

lemma observes_gateway_listing [observing]:
  assumes "\<And>a nm u. a_db (snd (resolve a nm u)) = a_db a"
  shows "observes (gateway_listing name_of resolve u is_admin v xs)"
  by (induction xs) (simp_all add: assms keeps_database observing)

lemma observes_group_items [observing]: "observes (group_experiment_items env u is_admin ps)"
  by (induction ps) (simp_all add: observing)

subsection \<open>Writing\<close>

definition writes_once :: "('c, 'w) api_env \<Rightarrow> (db \<Rightarrow> db \<Rightarrow> bool) \<Rightarrow> string \<Rightarrow> string option \<Rightarrow> ('c, 'w, 'r) api \<Rightarrow> bool" where
  "writes_once env W event actor m \<longleftrightarrow>
     (\<forall>s r s'. m s = (r, s') \<longrightarrow> (isl r \<and> s' = s) \<or>
        (\<not> isl r \<and> (\<exists>d' e. W (a_db (ap_app s)) d' \<and> ev_event e = event \<and> ev_actor e = actor \<and>
           s' = s\<lparr>ap_app := flush_permission_cache (pe_resolver env) ((ap_app s)\<lparr>a_db := d'\<rparr>),
                  ap_log := ap_log s @ (if AUDIT_LOG_ENABLED env then [e] else [])\<rparr>)))"

named_theorems writing

lemma writes_stored [writing]:
  assumes "\<And>d d' y. m d = Inr (d', y) \<Longrightarrow> W d d'"
  shows "writes_once env W event actor
    (bind_check (stored env m) (\<lambda>y. bind_check (emit_audit_event env event actor rtype rid detail) (\<lambda>_. lift_res (Inr (a y)))))"
  unfolding writes_once_def
proof (intro allI impI)
  fix s r s'
  assume run: "bind_check (stored env m) (\<lambda>y. bind_check (emit_audit_event env event actor rtype rid detail) (\<lambda>_. lift_res (Inr (a y)))) s = (r, s')"
  let ?e = "\<lparr>ev_event = event, ev_actor = actor, ev_resource_type = rtype, ev_resource_id = rid, ev_detail = detail, ev_status = ''success''\<rparr>"
  show "(isl r \<and> s' = s) \<or> (\<not> isl r \<and> (\<exists>d' e. W (a_db (ap_app s)) d' \<and> ev_event e = event \<and> ev_actor e = actor \<and>
    s' = s\<lparr>ap_app := flush_permission_cache (pe_resolver env) ((ap_app s)\<lparr>a_db := d'\<rparr>),
           ap_log := ap_log s @ (if AUDIT_LOG_ENABLED env then [e] else [])\<rparr>))"
  proof (cases "m (a_db (ap_app s))")
    case (Inl e)
    with run show ?thesis
      by (auto simp: bind_check_def stored_def on_app_def wrap_with_cache_flush_def after_success_def store_method_def)
  next
    case (Inr p)
    obtain d' y where p: "p = (d', y)" by (rule prod.exhaust)
    with Inr run have "W (a_db (ap_app s)) d' \<and> ev_event ?e = event \<and> ev_actor ?e = actor \<and> r = Inr (a y) \<and>
        s' = s\<lparr>ap_app := flush_permission_cache (pe_resolver env) ((ap_app s)\<lparr>a_db := d'\<rparr>),
               ap_log := ap_log s @ (if AUDIT_LOG_ENABLED env then [?e] else [])\<rparr>"
      using assms [of "a_db (ap_app s)"]
      by (auto simp: bind_check_def stored_def on_app_def wrap_with_cache_flush_def after_success_def store_method_def emit_audit_event_def lift_res_def)
    then show ?thesis by force
  qed
qed

lemma stored_unit_stored: "stored_unit env m = stored env (\<lambda>d. bindE (m d) (\<lambda>d'. Inr (d', ())))"
  by (rule ext) (simp add: stored_unit_def stored_def on_app_def wrap_with_cache_flush_def after_success_def store_procedure_def store_method_def split: sum.splits)

lemma writes_stored_unit [writing]:
  assumes "\<And>d d'. m d = Inr d' \<Longrightarrow> W d d'"
  shows "writes_once env W event actor
    (bind_check (stored_unit env m) (\<lambda>y. bind_check (emit_audit_event env event actor rtype rid detail) (\<lambda>_. lift_res (Inr (a y)))))"
  unfolding stored_unit_stored by (rule writes_stored) (use assms in \<open>auto split: sum.splits\<close>)

lemma writes_rescue [writing]: "writes_once env W event actor m \<Longrightarrow> writes_once env W event actor (rescue f m)"
proof -
  assume m: "writes_once env W event actor m"
  have "\<exists>r'. m s = (r', s') \<and> isl r' = isl r" if "rescue f m s = (r, s')" for s r s'
    using that by (cases "m s"; cases "fst (m s)") (auto simp: rescue_def)
  with m show ?thesis unfolding writes_once_def by metis
qed

lemma writes_lift [writing]: "(\<And>i. writes_once env W event actor (f i)) \<Longrightarrow> writes_once env W event actor (bind_check (lift_res r) f)"
  by (cases r) (auto simp: writes_once_def bind_check_def lift_res_def)

subsection \<open>Routes\<close>

definition write_route ::
  "('c, 'w) api_env \<Rightarrow> route_request \<Rightarrow> (db \<Rightarrow> db \<Rightarrow> bool) \<Rightarrow> (string \<times> string) option \<Rightarrow> string \<Rightarrow> bool \<Rightarrow> ('c, 'w, 'r) api \<Rightarrow> bool" where
  "write_route env rq W rsrc event named h \<longleftrightarrow>
     (\<forall>s r s'. h s = (r, s') \<longrightarrow> (\<exists>sg. asked env rsrc s sg \<and>
        (isl r \<and> s' = sg \<or>
         \<not> isl r \<and> (\<exists>uname d' e. admits env rq rsrc s uname \<and> W (a_db (ap_app s)) d' \<and>
           ev_event e = event \<and> ev_actor e = (if named then Some uname else None) \<and>
           s' = sg\<lparr>ap_app := flush_permission_cache (pe_resolver env) ((ap_app sg)\<lparr>a_db := d'\<rparr>),
                   ap_log := ap_log s @ (if AUDIT_LOG_ENABLED env then [e] else [])\<rparr>))))"

lemma asked_same:
  assumes "asked env rsrc s s'"
  shows "a_db (ap_app s') = a_db (ap_app s)" and "ap_log s' = ap_log s"
  using assms resolve_database by (auto simp: asked_def)

lemma write_route_bind:
  assumes "guards env rq rsrc named actor g" and "\<And>x. writes_once env W event (actor x) (body x)"
  shows "write_route env rq W rsrc event named (bind_check g body)"
  unfolding write_route_def
proof (intro allI impI)
  fix s r s'
  assume run: "bind_check g body s = (r, s')"
  obtain x sg where g: "g s = (x, sg)" by (rule prod.exhaust)
  with assms(1) have ask: "asked env rsrc s sg"
    and pass: "x = Inr y \<Longrightarrow> \<exists>uname. admits env rq rsrc s uname \<and> actor y = (if named then Some uname else None)" for y
    unfolding guards_def by blast+
  note same = asked_same [OF ask]
  show "\<exists>sg. asked env rsrc s sg \<and> (isl r \<and> s' = sg \<or>
         \<not> isl r \<and> (\<exists>uname d' e. admits env rq rsrc s uname \<and> W (a_db (ap_app s)) d' \<and>
           ev_event e = event \<and> ev_actor e = (if named then Some uname else None) \<and>
           s' = sg\<lparr>ap_app := flush_permission_cache (pe_resolver env) ((ap_app sg)\<lparr>a_db := d'\<rparr>),
                   ap_log := ap_log s @ (if AUDIT_LOG_ENABLED env then [e] else [])\<rparr>))"
  proof (cases x)
    case (Inl e)
    with run g have "isl r \<and> s' = sg" by (auto simp: bind_check_def)
    with ask show ?thesis by blast
  next
    case (Inr y)
    with run g have "body y sg = (r, s')" by (simp add: bind_check_def)
    with assms(2) [of y] have "isl r \<and> s' = sg \<or> \<not> isl r \<and>
      (\<exists>d' e. W (a_db (ap_app sg)) d' \<and> ev_event e = event \<and> ev_actor e = actor y \<and>
         s' = sg\<lparr>ap_app := flush_permission_cache (pe_resolver env) ((ap_app sg)\<lparr>a_db := d'\<rparr>),
                 ap_log := ap_log sg @ (if AUDIT_LOG_ENABLED env then [e] else [])\<rparr>)"
      unfolding writes_once_def by blast
    with pass [OF Inr] ask show ?thesis unfolding same by metis
  qed
qed

text \<open>
  The policy of the two routers: the resource whose management a route asks for, where it does not ask for
  an administrator, the event of a request, and the routes whose events name the caller.
\<close>

definition resource_of_path :: "string \<Rightarrow> route_request \<Rightarrow> (string \<times> string) option" where
  "resource_of_path path rq =
     (if path \<in> {''/{username}/experiments/{experiment_id}'', ''/{username}/scorers/{experiment_id}/{scorer_name:path}'',
          ''/{group_name:path}/experiments/{experiment_id}'', ''/{group_name:path}/scorers/{experiment_id}/{scorer_name:path}''}
      then Some (EXPERIMENT, path_param rq ''experiment_id'')
      else if path \<in> {''/{username}/registered-models/{name:path}'', ''/{username}/prompts/{name:path}'', ''/{group_name:path}/registered-models/{name:path}''}
      then Some (REGISTERED_MODEL, path_param rq ''name'')
      else if path = ''/{group_name:path}/prompts/{prompt_name:path}'' then Some (PROMPT, path_param rq ''prompt_name'')
      else None)"

definition event_of :: "string \<Rightarrow> string" where
  "event_of m = (if m = ''POST'' then ''permission.create'' else if m = ''PATCH'' then ''permission.update'' else ''permission.delete'')"

definition names_actor :: "string \<Rightarrow> bool" where
  "names_actor path \<longleftrightarrow> path \<notin> {''/{username}/experiments/{experiment_id}'', ''/{username}/scorers/{experiment_id}/{scorer_name:path}'',
     ''/{username}/registered-models/{name:path}'', ''/{username}/prompts/{name:path}'',
     ''/{group_name:path}/experiments/{experiment_id}'', ''/{group_name:path}/scorers/{experiment_id}/{scorer_name:path}''}"

lemma user_routes_write:
  "list_all (\<lambda>(m, path, h). m = ''GET'' \<or> write_route env rq permission_write (resource_of_path path rq) (event_of m) (names_actor path) (h env rq))
     user_permissions_router"
  unfolding user_permissions_router_def list.pred_inject prod.case
  apply (simp add: resource_of_path_def event_of_def names_actor_def)
  unfolding user_permissions_router_handlers
  by (intro conjI guarding [THEN write_route_bind] writing; erule permission_write.intros)

lemma group_routes_write:
  "list_all (\<lambda>(m, path, h). m = ''GET'' \<or> write_route env rq permission_write (resource_of_path path rq) (event_of m) (names_actor path) (h env rq))
     group_permissions_router"
  unfolding group_permissions_router_def list.pred_inject prod.case
  apply (simp add: resource_of_path_def event_of_def names_actor_def)
  unfolding group_permissions_router_handlers
  by (intro conjI guarding [THEN write_route_bind] writing; erule permission_write.intros)

lemma user_routes_observe: "list_all (\<lambda>(m, path, h). m = ''GET'' \<longrightarrow> observes (h env rq)) user_permissions_router"
  unfolding user_permissions_router_def list.pred_inject prod.case
  apply simp
  unfolding user_permissions_router_handlers asks_defs
  by (intro conjI observing keeps_database)

lemma group_routes_observe: "list_all (\<lambda>(m, path, h). m = ''GET'' \<longrightarrow> observes (h env rq)) group_permissions_router"
  unfolding group_permissions_router_def list.pred_inject prod.case
  apply simp
  unfolding group_permissions_router_handlers asks_defs
  by (intro conjI observing keeps_database)

lemma listing_routes_observe:
  "list_all (\<lambda>(m, path, h). m = ''GET'' \<and> observes (h env rq))
     (experiment_permissions_router @ registered_model_permissions_router @ prompt_permissions_router @ scorers_permissions_router @
      gateway_endpoint_permissions_router @ gateway_secret_permissions_router @ gateway_model_definition_permissions_router)"
  unfolding permission_listing_routers append.simps list.pred_inject prod.case permission_listing_handlers
  by (intro conjI observing refl TrueI) (simp_all add: case_prod_beta asks_defs keeps_database)

text \<open>The permission routers, in the order of \<^verbatim>\<open>get\_all\_routers\<close>.\<close>

definition permission_routes ::
  "(string \<times> string \<times> (('c, 'w) api_env \<Rightarrow> route_request \<Rightarrow> ('c, 'w, api_answer) api)) list" where
  "permission_routes =
     experiment_permissions_router @ group_permissions_router @ prompt_permissions_router @ registered_model_permissions_router @
     scorers_permissions_router @ gateway_endpoint_permissions_router @ gateway_secret_permissions_router @
     gateway_model_definition_permissions_router @ user_permissions_router"

lemma route_cases:
  assumes "(m, path, h) \<in> set permission_routes"
  obtains (reads) "m = ''GET''" "observes (h env rq)"
  | (writes) "m \<noteq> ''GET''" "write_route env rq permission_write (resource_of_path path rq) (event_of m) (names_actor path) (h env rq)"
proof -
  let ?small = "experiment_permissions_router @ registered_model_permissions_router @ prompt_permissions_router @ scorers_permissions_router @
      gateway_endpoint_permissions_router @ gateway_secret_permissions_router @ gateway_model_definition_permissions_router"
  consider "(m, path, h) \<in> set user_permissions_router" | "(m, path, h) \<in> set group_permissions_router" | "(m, path, h) \<in> set ?small"
    using assms unfolding permission_routes_def set_append by blast
  then show ?thesis
  proof cases
    case 1
    note bspec [OF user_routes_write [of env rq, unfolded list_all_iff] 1] bspec [OF user_routes_observe [of env rq, unfolded list_all_iff] 1]
    with reads writes show ?thesis unfolding prod.case by (cases "m = ''GET''") iprover+
  next
    case 2
    note bspec [OF group_routes_write [of env rq, unfolded list_all_iff] 2] bspec [OF group_routes_observe [of env rq, unfolded list_all_iff] 2]
    with reads writes show ?thesis unfolding prod.case by (cases "m = ''GET''") iprover+
  next
    case 3
    from bspec [OF listing_routes_observe [of env rq, unfolded list_all_iff] 3] reads show ?thesis unfolding prod.case by iprover
  qed
qed

lemma resource_of_path_type:
  "resource_of_path path rq = Some (rtype, rid) \<Longrightarrow> rtype \<in> set resource_types \<and> rtype \<noteq> SCORER"
  by (auto simp: resource_of_path_def resource_types_def split: if_splits)

end
