(* ===== verification/Route_Properties.thy ===== *)
theory Route_Properties
  imports Hook_Properties Routes
begin

section \<open>Properties of the permission routers\<close>

text \<open>
  Who may change a grant through the plugin's own API, what such a request leaves behind, and that the
  next decision follows it; with a deployment in which the hypotheses hold.
\<close>

subsection \<open>Consequences of the contract\<close>

lemma single_env_sel [simp]:
  "e_pc (single_env env) = e_pc (pe_resolver env)" "e_wc (single_env env) = e_wc (pe_resolver env)" "e_workspace (single_env env) = None"
  "coherent (single_env env) a = coherent (pe_resolver env) a"
  by (simp_all add: single_env_def)

lemma caller_known:
  assumes "fst (caller env rq s) = Inr (uname, is_admin)"
  shows "get_username (pe_clock env) rq (a_db (ap_app s)) = Inr uname" and "get_is_admin (pe_clock env) rq (a_db (ap_app s)) = Inr is_admin"
  using assms by (auto simp: caller_def reading_def bindE_eq_Inr)

lemma admits_decision:
  assumes "resolver_caches pc wc" and "e_pc (pe_resolver env) = pc" and "e_wc (pe_resolver env) = wc"
    and "coherent (pe_resolver env) (ap_app s)" and "admits env rq (resource_of_path path rq) s uname"
    and "\<forall>rtype rid. resource_of_path path rq = Some (rtype, rid) \<longrightarrow> colon_free rid"
  shows "get_username (pe_clock env) rq (a_db (ap_app s)) = Inr uname \<and>
    (get_is_admin (pe_clock env) rq (a_db (ap_app s)) = Inr True \<or>
     (\<exists>rtype rid pr. resource_of_path path rq = Some (rtype, rid) \<and>
        decide (single_env env) (a_db (ap_app s)) rtype rid uname None = Inr pr \<and> can_manage (pr_permission pr)))"
proof -
  from assms(5) obtain is_admin where known: "fst (caller env rq s) = Inr (uname, is_admin)"
    and how: "is_admin \<or> (\<exists>rtype rid. resource_of_path path rq = Some (rtype, rid) \<and>
      fst (flag_of can_manage (resolve_permission (single_env env) (ap_app s) rtype rid uname None)) = Inr True)"
    unfolding admits_def by blast
  from how show ?thesis
  proof (elim disjE exE conjE)
    fix rtype rid
    assume of_path: "resource_of_path path rq = Some (rtype, rid)"
      and ok: "fst (flag_of can_manage (resolve_permission (single_env env) (ap_app s) rtype rid uname None)) = Inr True"
    obtain pr a' where run: "resolve_permission (single_env env) (ap_app s) rtype rid uname None = (pr, a')" by (rule prod.exhaust)
    have "pr = decide (single_env env) (a_db (ap_app s)) rtype rid uname None"
      using resolver_caches.resolve_decision [OF assms(1) _ _ _ _ _ _ run] assms(2-4,6) of_path resource_of_path_type [OF of_path]
      by (simp add: plain_workspace_def)
    with ok run have "\<exists>x. decide (single_env env) (a_db (ap_app s)) rtype rid uname None = Inr x \<and> can_manage (pr_permission x)"
      by (auto simp: flag_of_def bindE_eq_Inr)
    with of_path caller_known [OF known] show ?thesis by blast
  qed (use caller_known [OF known] in simp)
qed

lemma asked_reachable:
  assumes "asked env (resource_of_path path rq) s s'" and "\<forall>rtype rid. resource_of_path path rq = Some (rtype, rid) \<longrightarrow> colon_free rid"
  shows "reachable (pe_resolver env) (ap_app s) (ap_app s')"
  using assms(1) unfolding asked_def
proof (elim disjE exE conjE)
  fix rtype rid uname
  assume of_path: "resource_of_path path rq = Some (rtype, rid)"
    and s': "s' = s\<lparr>ap_app := snd (resolve_permission (single_env env) (ap_app s) rtype rid uname None)\<rparr>"
  obtain pr a' where run: "resolve_permission ((pe_resolver env)\<lparr>e_workspace := None\<rparr>) (ap_app s) rtype rid uname None = (pr, a')"
    by (rule prod.exhaust)
  have "app_step (pe_resolver env) (ap_app s) a'"
    using run assms(2) of_path resource_of_path_type [OF of_path] by (intro st_resolve [OF run]) (auto simp: plain_workspace_def)
  with run s' show ?thesis by (auto simp: single_env_def intro: reach_step [OF reach_start])
qed (simp add: reach_start)

lemma write_route_success:
  assumes "write_route env rq W rsrc event named h" and "h s = (Inr a, s')"
  obtains sg d' uname where "asked env rsrc s sg" "admits env rq rsrc s uname" "W (a_db (ap_app s)) d'"
    "ap_app s' = flush_permission_cache (pe_resolver env) ((ap_app sg)\<lparr>a_db := d'\<rparr>)"
proof -
  from assms obtain sg d' uname l where "asked env rsrc s sg" "admits env rq rsrc s uname" "W (a_db (ap_app s)) d'"
    "s' = sg\<lparr>ap_app := flush_permission_cache (pe_resolver env) ((ap_app sg)\<lparr>a_db := d'\<rparr>), ap_log := l\<rparr>"
    unfolding write_route_def by (metis sum.disc(2))
  with that show ?thesis by simp
qed

lemma write_reachable:
  assumes "write_route env rq permission_write (resource_of_path path rq) event named h" and "h s = (r, s')"
    and "\<forall>rtype rid. resource_of_path path rq = Some (rtype, rid) \<longrightarrow> colon_free rid"
  shows "reachable (pe_resolver env) (ap_app s) (ap_app s')"
proof -
  from assms(1,2) obtain sg where ask: "asked env (resource_of_path path rq) s sg" and
    outcome: "s' = sg \<or> (\<exists>d' l. permission_write (a_db (ap_app s)) d' \<and>
      s' = sg\<lparr>ap_app := flush_permission_cache (pe_resolver env) ((ap_app sg)\<lparr>a_db := d'\<rparr>), ap_log := l\<rparr>)"
    unfolding write_route_def by metis
  note first = asked_reachable [OF ask assms(3)]
  from outcome show ?thesis
  proof (elim disjE exE conjE)
    fix d' l
    assume "permission_write (a_db (ap_app s)) d'"
      and s': "s' = sg\<lparr>ap_app := flush_permission_cache (pe_resolver env) ((ap_app sg)\<lparr>a_db := d'\<rparr>), ap_log := l\<rparr>"
    then have "permission_write (a_db (ap_app sg)) d'" using asked_same(1) [OF ask] by simp
    with first s' show ?thesis by (auto intro: reach_step st_permission_write)
  qed (use first in simp)
qed

subsection \<open>A grant and the decision that follows it\<close>

text \<open>The two routes that set the grant of a user on an experiment, with the write each makes.\<close>

definition sets_experiment_grant :: "route_request \<Rightarrow> db \<Rightarrow> db \<Rightarrow> bool" where
  "sets_experiment_grant rq d d' \<longleftrightarrow>
     (\<exists>row. create_experiment_permission d (path_param rq ''experiment_id'') (path_param rq ''username'') (hq_permission rq) = Inr (d', row) \<or>
        update_experiment_permission d (path_param rq ''experiment_id'') (path_param rq ''username'') (hq_permission rq) = Inr (d', row))"

lemma experiment_grant_routes:
  "write_route env rq (sets_experiment_grant rq) (Some (EXPERIMENT, path_param rq ''experiment_id'')) ''permission.create'' False
     (create_user_experiment_permission env rq)"
  "write_route env rq (sets_experiment_grant rq) (Some (EXPERIMENT, path_param rq ''experiment_id'')) ''permission.update'' False
     (update_user_experiment_permission env rq)"
  unfolding create_user_experiment_permission_def update_user_experiment_permission_def sets_experiment_grant_def
  by (intro guarding [THEN write_route_bind] writing; blast)+

lemma experiment_grant_lookup:
  assumes "wf_db d" and "sets_experiment_grant rq d d'"
  shows "perm_of (get_experiment_permission d' (path_param rq ''experiment_id'') (path_param rq ''username'')) = Inr (hq_permission rq)"
    and "valid_permission (hq_permission rq)" and "permission_write d d'"
proof -
  let ?eid = "path_param rq ''experiment_id''" and ?u = "path_param rq ''username''" and ?tbl = "t_user (experiment_tables d)"
  have wf: "wf_users (users d)" "wf_perm_table ?tbl" using wf_dbD(1) [OF assms(1)] wf_db_tables(1) [OF assms(1)] by this+
  show "permission_write d d'" using assms(2) unfolding sets_experiment_grant_def
    by (elim exE disjE) (rule pw_create_experiment_permission pw_update_experiment_permission, assumption)+
  from assms(2) obtain tbl' row where op: "grant_permission (users d) () ?tbl ?eid ?u (hq_permission rq) = Inr (tbl', row) \<or>
      update_permission (users d) ?tbl ?eid ?u (hq_permission rq) = Inr (tbl', row)"
    and d': "d' = experiment_tables_update (t_user_update (\<lambda>_. tbl')) d"
    unfolding sets_experiment_grant_def create_experiment_permission_def update_experiment_permission_def put_row_def by auto
  from op show "valid_permission (hq_permission rq)" by (auto simp: grant_permission_def update_permission_def)
  from op user_writes_lookup(1,2) [OF wf] have "user_lookup (users d, tbl') ?eid ?u = Inr (hq_permission rq)" by auto
  with d' show "perm_of (get_experiment_permission d' ?eid ?u) = Inr (hq_permission rq)"
    by (simp add: user_lookup_def get_experiment_permission_def)
qed

lemma own_grant_decides:
  assumes "perm_of (get_experiment_permission d eid uname) = Inr perm" and "valid_permission perm"
    and "PERMISSION_SOURCE_ORDER (e_config env) = ''user'' # rest"
  shows "\<exists>p. get_permission perm = Inr p \<and> decide env d EXPERIMENT eid uname None = Inr \<lparr>pr_permission = p, kind = ''user''\<rparr>"
proof -
  from get_permission_valid [OF assms(2)] obtain p where p: "get_permission perm = Inr p" by blast
  from assms(1) obtain row where "get_experiment_permission d eid uname = Inr row" "p_permission row = perm" by auto
  with p assms(3) show ?thesis
    by (simp del: bindE_eq_Inr add: decide_def PERMISSION_REGISTRY_def build_experiment_sources_def get_permission_from_store_or_default_def workspace_decision_def)
qed

text \<open>Each user of the listing holds the grant that a lookup finds.\<close>

lemma users_holding_lookup:
  assumes "wf_users us" and "wf_perm_table tbl" and "\<And>u. perms_of (to_mlflow_entity d u) = owned (u_id u) tbl"
  shows "(n, perm, k) \<in> set (users_holding perms_of rid (map (to_mlflow_entity d) us)) \<longleftrightarrow>
    (\<exists>u. get_user us n = Inr u \<and> perm_of (find_user_permission us tbl rid n) = Inr perm \<and>
       k = (if u_is_service_account u then ''service-account'' else ''user''))"
proof -
  have perms: "dict_of (map (\<lambda>p. (p_resource p, p_permission p)) (owned (u_id u) tbl)) rid = Some perm \<longleftrightarrow>
      perm_of (find_user_permission us tbl rid n) = Inr perm" if "get_user us n = Inr u" for u
  proof -
    have "list_permissions_for_user us tbl n = owned (u_id u) tbl"
      unfolding list_permissions_for_user_def join_user [OF assms(1)] owned_def using that by (simp add: filter_list_comp)
    with user_direct_found [OF assms(1,2), of rid n] show ?thesis by (simp add: found_def split: option.splits)
  qed
  have "(n, perm, k) \<in> set (users_holding perms_of rid (map (to_mlflow_entity d) us)) \<longleftrightarrow>
    (\<exists>u\<in>set us. u_username u = n \<and> dict_of (map (\<lambda>p. (p_resource p, p_permission p)) (owned (u_id u) tbl)) rid = Some perm \<and>
       k = (if u_is_service_account u then ''service-account'' else ''user''))"
  proof -
    have one: "(n, perm, k) \<in> set (case x of None \<Rightarrow> [] | Some p \<Rightarrow> [(a, p, b)]) \<longleftrightarrow> a = n \<and> x = Some perm \<and> k = b" for x a b
      by (cases x) auto
    have sel: "ue_username (to_mlflow_entity d u) = u_username u"
      "ue_is_service_account (to_mlflow_entity d u) = u_is_service_account u" for u
      by (simp_all add: to_mlflow_entity_def)
    show ?thesis unfolding users_holding_def map_map comp_def sel assms(3) set_concat set_map UN_iff image_image one bex_simps by blast
  qed
  with perms show ?thesis unfolding get_user_Inr_iff [OF assms(1)] by blast
qed

subsection \<open>A deployment\<close>

definition sample_api_env :: "(permission_result timed, permission timed) api_env" where
  "sample_api_env =
     \<lparr>pe_resolver = sample_env, pe_workspace = None, pe_compile = (\<lambda>_. CompileOk), pe_compare = \<lparr>text_eq_int = (\<lambda>_ _. False), int_eq_text = (\<lambda>_ _. False)\<rparr>, pe_clock = 0,
      pe_str = (\<lambda>_. ''?''), pe_constant = (\<lambda>_. 0), pe_experiments = Inr [\<lparr>exp_id = ''7'', exp_name = ''team/x''\<rparr>],
      pe_registered_models = Inr [''m''], pe_prompts = Inr [], pe_gateway_endpoints = Inr [], pe_gateway_model_definitions = Inr [],
      pe_gateway_secrets = Inr [], pe_experiment_name = (\<lambda>_. Inr ''team/x''), pe_scorers = (\<lambda>_. Inr [''a'', ''b'']), AUDIT_LOG_ENABLED = True\<rparr>"

text \<open>\<^verbatim>\<open>bob\<close>, who is no administrator, manages experiment 8.\<close>

definition managed_app :: "(permission_result timed, permission timed) app" where
  "managed_app = sample_app\<lparr>a_db := experiment_tables_update (t_user_update (\<lambda>t. t @ [grant_row 2 ''8'' 2 ''MANAGE''])) sample_db\<rparr>"

definition sample_api :: "(permission_result timed, permission timed) api_state" where
  "sample_api = \<lparr>ap_app = managed_app, ap_log = []\<rparr>"

text \<open>A request of \<^verbatim>\<open>bob\<close> that concerns a permission of \<^verbatim>\<open>alice\<close> on an experiment.\<close>

definition experiment_request :: "string \<Rightarrow> string \<Rightarrow> string \<Rightarrow> route_request" where
  "experiment_request m eid perm =
     \<lparr>hq_method = m, hq_state_username = Some ''bob'', hq_session = None,
      hq_path_params = [(''username'', ''alice''), (''experiment_id'', eid)], hq_query_params = [], hq_json = None, hq_id = 0,
      hq_permission = perm, hq_regex = [], hq_priority = 0\<rparr>"

lemma sample_api_sel [simp]:
  "pe_resolver sample_api_env = sample_env" "ap_app sample_api = managed_app" "ap_log sample_api = []"
  by (simp_all add: sample_api_env_def sample_api_def)

lemma managed_inv [simp]: "app_inv sample_env managed_app"
proof -
  have "wf_db (a_db managed_app)"
    by (simp add: managed_app_def sample_defs wf_db_def wf_users_def wf_groups_def wf_user_groups_def wf_std_def wf_model_def wf_workspace_def
        wf_perm_table_def wf_regex_table_def unique_on_def valid_permission_def)
  then show ?thesis by (simp add: managed_app_def app_inv_def coherent_def pc_coherent_def ws_coherent_def)
qed

lemma sample_grant_run:
  "\<exists>a s'. create_user_experiment_permission sample_api_env (experiment_request ''POST'' ''8'' ''READ'') sample_api = (Inr a, s')"
proof -
  have "\<not> isl (fst (create_user_experiment_permission sample_api_env (experiment_request ''POST'' ''8'' ''READ'') sample_api))"
    by code_simp
  then obtain a where "fst (create_user_experiment_permission sample_api_env (experiment_request ''POST'' ''8'' ''READ'') sample_api) = Inr a"
    by (metis sum.collapse(2))
  then show ?thesis by (metis prod.collapse)
qed

lemma sample_route: "(''POST'', ''/{username}/experiments/{experiment_id}'', create_user_experiment_permission) \<in> set permission_routes"
  unfolding permission_routes_def user_permissions_router_def by simp

lemma sample_resource:
  "resource_of_path ''/{username}/experiments/{experiment_id}'' (experiment_request m eid perm) = Some (EXPERIMENT, eid)"
  by (simp add: resource_of_path_def path_param_def experiment_request_def)

lemma sample_params [simp]:
  "path_param (experiment_request m eid perm) ''experiment_id'' = eid" "path_param (experiment_request m eid perm) ''username'' = ''alice''"
  "hq_permission (experiment_request m eid perm) = perm"
  by (simp_all add: path_param_def experiment_request_def)

subsection \<open>Properties\<close>







text \<open>
  C10: When the user's own grants come first, a grant or a change of a grant on an experiment through
  the API is what the resolver decides from then on, with its level, in any workspace.
\<close>

theorem grants_take_effect:
  assumes "ttl_cache pttl" and "ttl_cache wttl"
    and "e_pc (pe_resolver env) = LocalTTLCacheBackend pttl" and "e_wc (pe_resolver env) = LocalTTLCacheBackend wttl"
    and "app_inv (pe_resolver env) (ap_app s)" and "PERMISSION_SOURCE_ORDER (e_config (pe_resolver env)) = ''user'' # rest"
    and "colon_free (path_param rq ''experiment_id'')" and "plain_workspace ws"
    and "create_user_experiment_permission env rq s = (Inr a, s') \<or> update_user_experiment_permission env rq s = (Inr a, s')"
  shows "\<exists>p. get_permission (hq_permission rq) = Inr p \<and>
    fst (resolve_permission ((pe_resolver env)\<lparr>e_workspace := ws\<rparr>) (ap_app s') EXPERIMENT
      (path_param rq ''experiment_id'') (path_param rq ''username'') None) = Inr \<lparr>pr_permission = p, kind = ''user''\<rparr>"
proof -
  let ?eid = "path_param rq ''experiment_id''" and ?path = "''/{username}/experiments/{experiment_id}''"
  have rsrc: "resource_of_path ?path rq = Some (EXPERIMENT, ?eid)" by (simp add: resource_of_path_def)
  obtain event where "write_route env rq (sets_experiment_grant rq) (resource_of_path ?path rq) event False
      (if create_user_experiment_permission env rq s = (Inr a, s') then create_user_experiment_permission env rq else update_user_experiment_permission env rq)"
    unfolding rsrc using experiment_grant_routes [of env rq] by (cases "create_user_experiment_permission env rq s = (Inr a, s')") auto
  then obtain sg d' where ask: "asked env (resource_of_path ?path rq) s sg" and set: "sets_experiment_grant rq (a_db (ap_app s)) d'"
    and app: "ap_app s' = flush_permission_cache (pe_resolver env) ((ap_app sg)\<lparr>a_db := d'\<rparr>)"
    by (rule write_route_success) (use assms(9) in auto)
  have wf: "wf_db (a_db (ap_app s))" using assms(5) by (simp add: app_inv_def)
  note grant = experiment_grant_lookup [OF wf set]
  have "reachable (pe_resolver env) (ap_app s) (ap_app s')"
  proof -
    have "app_step (pe_resolver env) (ap_app sg) (ap_app s')"
      unfolding app using grant(3) asked_same(1) [OF ask] by (intro st_permission_write) simp
    moreover have "reachable (pe_resolver env) (ap_app s) (ap_app sg)" using asked_reachable [OF ask] assms(7) by (simp add: rsrc)
    ultimately show ?thesis by (rule reach_step [rotated])
  qed
  from resolver_caches.reachable_decision [OF local_resolver_caches [OF assms(1,2)] this assms(3-5,8,7), of EXPERIMENT]
  have "fst (resolve_permission ((pe_resolver env)\<lparr>e_workspace := ws\<rparr>) (ap_app s') EXPERIMENT ?eid (path_param rq ''username'') None) =
      decide ((pe_resolver env)\<lparr>e_workspace := ws\<rparr>) (a_db (ap_app s')) EXPERIMENT ?eid (path_param rq ''username'') None"
    by (simp add: resource_types_def)
  moreover have "a_db (ap_app s') = d'" by (simp add: app flush_permission_cache_def)
  ultimately show ?thesis
    using own_grant_decides [OF grant(1,2), of "(pe_resolver env)\<lparr>e_workspace := ws\<rparr>" rest] assms(6) by simp
qed

theorem grants_take_effect_witness:
  "\<exists>s'. snd (create_user_experiment_permission sample_api_env (experiment_request ''POST'' ''8'' ''READ'') sample_api) = s' \<and>
     fst (resolve_permission sample_env (ap_app s') EXPERIMENT ''8'' ''alice'' None) = Inr \<lparr>pr_permission = READ, kind = ''user''\<rparr>"
proof -
  obtain a s' where run: "create_user_experiment_permission sample_api_env (experiment_request ''POST'' ''8'' ''READ'') sample_api = (Inr a, s')"
    using sample_grant_run by blast
  have same: "sample_env\<lparr>e_workspace := None\<rparr> = sample_env" by (simp add: sample_env_def)
  from grants_take_effect [OF timed.ttl_cache_axioms timed.ttl_cache_axioms, of sample_api_env sample_api "[''group'', ''regex'', ''group-regex'']"
      "experiment_request ''POST'' ''8'' ''READ''" None a s'] run same
  show ?thesis by (simp add: sample_config_def plain_workspace_def)
qed

text \<open>
  Who holds a permission on an experiment, as the API lists it to those who manage the experiment:
  exactly the users for whom a lookup of the grant succeeds, with its level and the kind of the account.
\<close>

theorem listed_users_hold_the_grant:
  assumes "wf_db (a_db (ap_app s))" and "fst (get_experiment_users env rq s) = Inr (User_items items)"
  shows "(n, perm, k) \<in> set items \<longleftrightarrow>
    (\<exists>u. get_user (users (a_db (ap_app s))) n = Inr u \<and>
       perm_of (get_experiment_permission (a_db (ap_app s)) (path_param rq ''experiment_id'') n) = Inr perm \<and>
       k = (if u_is_service_account u then ''service-account'' else ''user''))"
proof -
  let ?d = "a_db (ap_app s)"
  have "observes (check_experiment_manage_permission env rq)" by (intro observing)
  with assms(2) have "items = users_holding ue_experiment_permissions (path_param rq ''experiment_id'') (list_users ?d False True)"
    unfolding get_experiment_users_def bind_check_def observes_def reading_def lift_res_def
    by (auto split: prod.splits sum.splits) (metis snd_conv)+
  moreover have "list_users ?d False True = map (to_mlflow_entity ?d) (users ?d)"
    by (simp add: list_users_def user_list_def)
  ultimately show ?thesis
    using users_holding_lookup [OF wf_dbD(1) [OF assms(1)] wf_db_tables(1) [OF assms(1)], of ue_experiment_permissions ?d]
    by (simp add: to_mlflow_entity_def get_experiment_permission_def)
qed

theorem listed_users_hold_the_grant_witness:
  "\<exists>items. fst (get_experiment_users sample_api_env (experiment_request ''GET'' ''8'' []) sample_api) = Inr (User_items items) \<and>
     (''bob'', ''MANAGE'', ''user'') \<in> set items"
proof -
  have run: "fst (get_experiment_users sample_api_env (experiment_request ''GET'' ''8'' []) sample_api) =
      Inr (User_items [(''bob'', ''MANAGE'', ''user'')])" by code_simp
  have "wf_db (a_db (ap_app sample_api))" using managed_inv by (simp add: app_inv_def)
  from listed_users_hold_the_grant [OF this run, of "''bob''" "''MANAGE''" "''user''"] run show ?thesis by simp
qed

subsection \<open>The scorer that is authorised and the one that is listed\<close>

text \<open>
  The dependency of the scorer routes prefers the query to the path. \<^verbatim>\<open>bob\<close> manages
  scorer \<^verbatim>\<open>a\<close> of experiment 7 and has no permission on scorer \<^verbatim>\<open>b\<close> of experiment 9:
  the plain request is refused, and the same path with his own scorer in the query answers who holds
  permissions on the other one.
\<close>

definition scorer_request :: "(string \<times> string) list \<Rightarrow> route_request" where
  "scorer_request query =
     \<lparr>hq_method = ''GET'', hq_state_username = Some ''bob'', hq_session = None,
      hq_path_params = [(''experiment_id'', ''9''), (''scorer_name'', ''b'')], hq_query_params = query, hq_json = None, hq_id = 0,
      hq_permission = [], hq_regex = [], hq_priority = 0\<rparr>"

definition scorer_api :: "(permission_result timed, permission timed) api_state" where
  "scorer_api = \<lparr>ap_app = sample_app\<lparr>a_db := sample_db\<lparr>scorer_tables := no_tables\<lparr>t_user :=
     [\<lparr>p_id = 1, p_resource = (''7'', ''a''), p_owner = 2, p_permission = ''MANAGE''\<rparr>,
      \<lparr>p_id = 2, p_resource = (''9'', ''b''), p_owner = 1, p_permission = ''MANAGE''\<rparr>]\<rparr>\<rparr>\<rparr>, ap_log = []\<rparr>"

theorem scorer_query_overrides_path:
  "fst (get_scorer_users sample_api_env (scorer_request []) scorer_api) =
     Inl (HTTPException 403 ''Insufficient permissions to manage scorer b'') \<and>
   fst (get_scorer_users sample_api_env (scorer_request [(''experiment_id'', ''7''), (''scorer_name'', ''a'')]) scorer_api) =
     Inr (User_items [(''alice'', ''MANAGE'', ''user'')])"
  by (intro conjI; code_simp)

end
