(* ===== verification/User_Routes.thy ===== *)
theory User_Routes
  imports Dependencies
begin

section \<open>Accounts through the API (routers/users.py)\<close>

text \<open>
  Tokens, accounts and their ownership: one definition per handler. The store's methods on accounts are not
  decorated, so no cache is touched; the events the repository emits while it writes precede the one of the
  handler. The token that \<^verbatim>\<open>generate_token\<close> draws, \<^verbatim>\<open>datetime.fromisoformat\<close>
  and the texts of dates and reasons are parameters. A date is the time its digits name and, when it has
  one, its offset; times are seconds.
\<close>

subsection \<open>Requests and state\<close>

record users_env =
  ur_users :: user_env
  ur_token :: string
  ur_fromisoformat :: "string \<Rightarrow> (int \<times> int option) res"
  ur_isoformat :: "int \<Rightarrow> int \<Rightarrow> string"
  ur_reason :: "ownership_reason \<Rightarrow> string"

text \<open>The bodies: \<open>ub_token_request\<close> is the optional one of a rotation, its user and its expiration.\<close>

record users_body =
  ub_token_request :: "(string option \<times> string option) option"
  ub_service :: bool
  ub_username :: string
  ub_display_name :: string
  ub_is_admin :: bool
  ub_is_service_account :: bool
  ub_managed_by :: string

datatype users_answer =
    Token string string
  | Usernames "string list"
  | User_saved bool
  | Ownership_set string string string
  | User_deleted string
  | Profile int string string bool bool "int option" "group_row list"

type_synonym ('c, 'w) users_handler = "('c, 'w) api_env \<Rightarrow> users_env \<Rightarrow> route_request \<Rightarrow> users_body \<Rightarrow> ('c, 'w, users_answer) api"

fun repository_event :: "users_env \<Rightarrow> audit_event \<Rightarrow> api_event" where
  "repository_event ue (OwnershipConflict uname owner written_by reason permitted) =
     \<lparr>ev_event = ''user.ownership_conflict'', ev_actor = Some written_by, ev_resource_type = ''user'', ev_resource_id = uname,
      ev_detail = [(''owner'', case owner of None \<Rightarrow> JNull | Some w \<Rightarrow> JStr w), (''written_by'', JStr written_by),
        (''reason'', JStr (ur_reason ue reason)), (''permitted'', JBool permitted)],
      ev_status = (if permitted then ''success'' else ''denied'')\<rparr>"
| "repository_event ue (SessionsRevoked uname count reason) =
     \<lparr>ev_event = ''session.revoked'', ev_actor = Some uname, ev_resource_type = ''user'', ev_resource_id = uname,
      ev_detail = [(''sessions'', JNum (int count)), (''reason'', JStr reason)], ev_status = ''success''\<rparr>"

definition accounts :: "('c, 'w) api_env \<Rightarrow> users_env \<Rightarrow> (db \<Rightarrow> (db \<times> 'r) res \<times> audit_event list) \<Rightarrow> ('c, 'w, 'r) api" where
  "accounts env ue m s =
     (case m (a_db (ap_app s)) of (r, audits) \<Rightarrow>
        (let s1 = s\<lparr>ap_log := ap_log s @ (if AUDIT_LOG_ENABLED env then map (repository_event ue) audits else [])\<rparr> in
         case r of Inl e \<Rightarrow> (Inl e, s1) | Inr (d', x) \<Rightarrow> (Inr x, s1\<lparr>ap_app := (ap_app s)\<lparr>a_db := d'\<rparr>\<rparr>)))"

text \<open>\<^verbatim>\<open>except HTTPException: raise\<close>, then any other exception.\<close>

definition otherwise :: "nat \<Rightarrow> string \<Rightarrow> exn \<Rightarrow> exn" where
  "otherwise status detail e = (case e of HTTPException st dt \<Rightarrow> HTTPException st dt | _ \<Rightarrow> HTTPException status detail)"

definition missing_user :: "string \<Rightarrow> exn \<Rightarrow> exn" where
  "missing_user uname e = (case e of MlflowException c \<Rightarrow> HTTPException 404 (''User '' @ uname @ '' not found'') | _ \<Rightarrow> e)"

subsection \<open>Rotating a token\<close>

definition expiration_date :: "users_env \<Rightarrow> int \<Rightarrow> string \<Rightarrow> (int \<times> int) res" where
  "expiration_date ue t text =
     (let text' = (if suffix ''Z'' text then butlast text @ ''+00:00'' else text) in
      case ur_fromisoformat ue text' of
        Inl e \<Rightarrow> (if e = ValueError \<or> e = TypeError then Inl (HTTPException 400 ''Invalid expiration date format'') else Inl e)
      | Inr (digits, offset) \<Rightarrow>
          (let off = (case offset of None \<Rightarrow> 0 | Some w \<Rightarrow> w); expires = digits - off in
           if expires < t then Inl (HTTPException 400 ''Expiration date must be in the future'')
           else if expires > t + 366 * 86400 then Inl (HTTPException 400 ''Expiration date must be less than 1 year in the future'')
           else Inr (digits, off)))"

text \<open>Whose token, until when, and the rotation itself.\<close>

definition token_target :: "users_body \<Rightarrow> string \<Rightarrow> bool \<Rightarrow> string res" where
  "token_target body current_username is_admin =
     (case ub_token_request body of
        Some (Some (c # cs), _) \<Rightarrow>
          (if c # cs \<noteq> current_username \<and> \<not> is_admin
           then Inl (HTTPException 403 ''Administrator privileges required for this operation'') else Inr (c # cs))
      | _ \<Rightarrow> Inr current_username)"

definition token_expiration :: "users_env \<Rightarrow> int \<Rightarrow> users_body \<Rightarrow> (int \<times> int) option res" where
  "token_expiration ue t body =
     (case ub_token_request body of
        Some (_, Some (c # cs)) \<Rightarrow> bindE (expiration_date ue t (c # cs)) (\<lambda>date. Inr (Some date))
      | _ \<Rightarrow> Inr None)"

definition instant :: "(int \<times> int) option \<Rightarrow> int option" where
  "instant date = map_option (\<lambda>(digits, off). digits - off) date"

definition rotate_token :: "('c, 'w) api_env \<Rightarrow> users_env \<Rightarrow> string \<Rightarrow> string \<Rightarrow> (int \<times> int) option \<Rightarrow> ('c, 'w, users_answer) api" where
  "rotate_token env ue current_username target date =
     bind_check (rescue (missing_user target) (reading (\<lambda>d. get_user_profile d target))) (\<lambda>user.
     bind_check (accounts env ue (\<lambda>d. update_user (ur_users ue) d target
         (no_changes\<lparr>ch_password := Some (ur_token ue), ch_password_expiration := instant date\<rparr>) (Some ''manual'') True)) (\<lambda>_.
     bind_check (emit_audit_event env ''user.token_rotate'' (Some current_username) ''user'' target
         [(''expiration'', case date of None \<Rightarrow> JNull | Some (digits, off) \<Rightarrow> JStr (ur_isoformat ue digits off)),
          (''expiration_cleared'', JBool (ue_password_expiration user \<noteq> None \<and> date = None))]) (\<lambda>_.
     lift_res (Inr (Token (ur_token ue) (''Token for '' @ target @ '' has been created''))))))"

definition create_access_token :: "('c, 'w) users_handler" where
  "create_access_token env ue rq body =
     bind_check (caller env rq) (\<lambda>(current_username, is_admin).
     rescue (otherwise 500 ''Failed to create access token'')
       (bind_check (lift_res (token_target body current_username is_admin)) (\<lambda>target.
        bind_check (lift_res (token_expiration ue (pe_clock env) body)) (\<lambda>date.
        rotate_token env ue current_username target date))))"

subsection \<open>Accounts\<close>

definition list_users_route :: "('c, 'w) users_handler" where
  "list_users_route env ue rq body =
     bind_check (reading (get_username (pe_clock env) rq)) (\<lambda>_.
     rescue (failed 500 ''Failed to retrieve users'')
       (bind_check (reading (\<lambda>d. Inr (list_usernames d (ub_service body)))) (\<lambda>us. lift_res (Inr (Usernames us)))))"

definition create_new_user :: "('c, 'w) users_handler" where
  "create_new_user env ue rq body =
     bind_check (check_admin_permission env rq) (\<lambda>actor.
     rescue (failed 500 ''Failed to create user'')
       (bind_check (accounts env ue (\<lambda>d. create_user (ur_users ue) (ur_token ue) d (ub_username body) (ub_display_name body)
            (ub_is_admin body) (ub_is_service_account body) None False)) (\<lambda>created.
        if created
        then bind_check (emit_audit_event env ''user.create'' actor ''user'' (ub_username body)
            [(''is_admin'', JBool (ub_is_admin body)), (''is_service_account'', JBool (ub_is_service_account body))]) (\<lambda>_.
          lift_res (Inr (User_saved True)))
        else lift_res (Inr (User_saved False)))))"

text \<open>\<^verbatim>\<open>re.fullmatch\<close> of the owners.\<close>

definition provider_char :: "char \<Rightarrow> bool" where
  "provider_char c \<longleftrightarrow> is_digit c \<or> (of_char c :: nat) \<in> {65..90} \<union> {97..122} \<or> c \<in> {CHR ''.'', CHR ''_'', CHR ''-''}"

definition valid_owner :: "string \<Rightarrow> bool" where
  "valid_owner w \<longleftrightarrow> w = ''manual'' \<or> w = ''scim'' \<or>
     (prefix ''oidc:'' w \<and> drop 5 w \<noteq> [] \<and> list_all provider_char (drop 5 w))"

definition set_user_ownership :: "('c, 'w) users_handler" where
  "set_user_ownership env ue rq body =
     bind_check (check_admin_permission env rq) (\<lambda>actor.
     if \<not> valid_owner (ub_managed_by body)
     then lift_res (Inl (HTTPException 400 (''managed_by must be '' @ CHR 39 # ''manual'' @ CHR 39 # '', '' @ CHR 39 # ''scim'' @ CHR 39 # '', or '' @
       CHR 39 # ''oidc:<provider-id>'' @ [CHR 39])))
     else bind_check (rescue (missing_user (ub_username body)) (reading (\<lambda>d. get_user_profile d (ub_username body)))) (\<lambda>_.
       bind_check (reading (\<lambda>d. get_user_profile d (ub_username body))) (\<lambda>user.
       bind_check (accounts env ue (\<lambda>d. update_user (ur_users ue) d (ub_username body)
           (no_changes\<lparr>ch_managed_by := Some (ub_managed_by body)\<rparr>) (Some ''manual'') True)) (\<lambda>_.
       bind_check (emit_audit_event env ''user.ownership_set'' actor ''user'' (ub_username body)
           [(''from'', JStr (ue_managed_by user)), (''to'', JStr (ub_managed_by body))]) (\<lambda>_.
       lift_res (Inr (Ownership_set (ub_username body) (ub_managed_by body) (ue_managed_by user))))))))"

text \<open>\<^verbatim>\<open>get\_user\_profile\<close> raises for an absent user, so its result is never false.\<close>

definition delete_user_route :: "('c, 'w) users_handler" where
  "delete_user_route env ue rq body =
     bind_check (check_admin_permission env rq) (\<lambda>actor.
     rescue (otherwise 500 ''Failed to delete user'')
       (bind_check (reading (\<lambda>d. get_user_profile d (ub_username body))) (\<lambda>_.
        bind_check (accounts env ue (\<lambda>d. case delete_user d (ub_username body) of (r, audits) \<Rightarrow> (bindE r (\<lambda>d'. Inr (d', ())), audits))) (\<lambda>_.
        bind_check (emit_audit_event env ''user.delete'' actor ''user'' (ub_username body) []) (\<lambda>_.
        lift_res (Inr (User_deleted (''User '' @ ub_username body @ '' has been successfully deleted''))))))))"

definition profile_of :: "user_entity \<Rightarrow> users_answer" where
  "profile_of u = Profile (ue_id u) (ue_username u) (ue_display_name u) (ue_is_admin u) (ue_is_service_account u)
     (ue_password_expiration u) (ue_groups u)"

definition get_current_user_information :: "('c, 'w) users_handler" where
  "get_current_user_information env ue rq body =
     bind_check (reading (get_username (pe_clock env) rq)) (\<lambda>current_username.
     rescue (failed 404 ''User not found'')
       (bind_check (reading (\<lambda>d. get_user_profile d current_username)) (\<lambda>user. lift_res (Inr (profile_of user)))))"

definition get_user_information :: "('c, 'w) users_handler" where
  "get_user_information env ue rq body =
     bind_check (check_admin_permission env rq) (\<lambda>_.
     rescue (failed 404 ''User not found'')
       (bind_check (reading (\<lambda>d. get_user_profile d (path_param rq ''username''))) (\<lambda>user. lift_res (Inr (profile_of user)))))"

definition users_router :: "(string \<times> string \<times> ('c, 'w) users_handler) list" where
  "users_router =
    [(''PATCH'', ''/access-token'', create_access_token),
     (''GET'', [], list_users_route),
     (''POST'', [], create_new_user),
     (''PATCH'', ''/ownership'', set_user_ownership),
     (''DELETE'', [], delete_user_route),
     (''GET'', ''/current'', get_current_user_information),
     (''GET'', ''/{username}'', get_user_information)]"

end
