(* ===== verification/User_Route_Properties.thy ===== *)
theory User_Route_Properties
  imports Route_Properties User_Routes
begin

section \<open>Properties of the account routes\<close>

text \<open>
  Which requests change accounts, that they are runs of the accounts' machine, so that its invariants hold
  along them, and what a rotated token is good for.
\<close>

subsection \<open>One write of the repository\<close>

definition changes :: "(db \<Rightarrow> db \<Rightarrow> bool) \<Rightarrow> ('c, 'w, 'r) api \<Rightarrow> bool" where
  "changes W m \<longleftrightarrow> (\<forall>s. a_db (ap_app (snd (m s))) = a_db (ap_app s) \<or> W (a_db (ap_app s)) (a_db (ap_app (snd (m s)))))"

named_theorems changing

lemma changes_observes: "observes m \<Longrightarrow> changes W m"
  by (simp add: changes_def observes_def)

lemma changes_then [changing]:
  assumes "changes W m" and "\<And>x s. a_db (ap_app (snd (f x s))) = a_db (ap_app s)"
  shows "changes W (bind_check m f)"
  unfolding changes_def
proof (rule allI)
  fix s
  obtain r s1 where run: "m s = (r, s1)" by (rule prod.exhaust)
  with assms(1) have "a_db (ap_app s1) = a_db (ap_app s) \<or> W (a_db (ap_app s)) (a_db (ap_app s1))" unfolding changes_def by (metis snd_conv)
  with assms(2) run show "a_db (ap_app (snd (bind_check m f s))) = a_db (ap_app s) \<or> W (a_db (ap_app s)) (a_db (ap_app (snd (bind_check m f s))))"
    by (cases r) (simp_all add: bind_check_def)
qed

lemma after_observing [changing]:
  assumes "observes m" and "\<And>x. changes W (f x)"
  shows "changes W (bind_check m f)"
  unfolding changes_def
proof (rule allI)
  fix s
  obtain r s1 where run: "m s = (r, s1)" by (rule prod.exhaust)
  with assms(1) have "a_db (ap_app s1) = a_db (ap_app s)" unfolding observes_def by (metis snd_conv)
  moreover have "a_db (ap_app (snd (f x s1))) = a_db (ap_app s1) \<or> W (a_db (ap_app s1)) (a_db (ap_app (snd (f x s1))))" for x
    using assms(2) unfolding changes_def by blast
  ultimately show "a_db (ap_app (snd (bind_check m f s))) = a_db (ap_app s) \<or> W (a_db (ap_app s)) (a_db (ap_app (snd (bind_check m f s))))"
    using run by (cases r) (simp_all add: bind_check_def)
qed

lemma changes_rescue [changing]: "changes W m \<Longrightarrow> changes W (rescue g m)"
proof -
  assume m: "changes W m"
  have "snd (rescue g m s) = snd (m s)" for s by (simp add: rescue_def split: prod.splits sum.splits)
  with m show ?thesis by (simp add: changes_def)
qed

lemma changes_accounts:
  assumes "\<And>d d' x audits. m d = (Inr (d', x), audits) \<Longrightarrow> W d d'"
  shows "changes W (accounts env ue m :: ('a, 'b, 'x) api)"
  unfolding changes_def
proof (rule allI)
  fix s :: "('a, 'b) api_state"
  obtain r audits where run: "m (a_db (ap_app s)) = (r, audits)" by (rule prod.exhaust)
  with assms show "a_db (ap_app (snd (accounts env ue m s))) = a_db (ap_app s) \<or> W (a_db (ap_app s)) (a_db (ap_app (snd (accounts env ue m s))))"
    by (cases r) (auto simp: accounts_def)
qed

lemma emit_database [simp]: "a_db (ap_app (snd (emit_audit_event env event actor rtype rid detail s))) = a_db (ap_app s)"
  by (simp add: emit_audit_event_def)

lemma recorded_database [simp]:
  "a_db (ap_app (snd (bind_check (emit_audit_event env event actor rtype rid detail) (\<lambda>_. lift_res r) s))) = a_db (ap_app s)"
  by (simp add: bind_check_def emit_audit_event_def lift_res_def)

lemma changes_lift: "(\<And>x. r = Inr x \<Longrightarrow> changes W (f x)) \<Longrightarrow> changes W (bind_check (lift_res r) f)"
  by (cases r) (simp_all add: changes_def bind_check_def lift_res_def)

lemma changes_unless: "changes W m \<Longrightarrow> changes W (if b then lift_res r else m)"
  by (simp add: changes_observes observing)

text \<open>A handler of this router: it leaves the database alone, or its caller is known and stands in \<open>W\<close> to the change.\<close>

definition account_route :: "('c, 'w) api_env \<Rightarrow> route_request \<Rightarrow> (string \<Rightarrow> bool \<Rightarrow> db \<Rightarrow> db \<Rightarrow> bool) \<Rightarrow> ('c, 'w, 'r) api \<Rightarrow> bool" where
  "account_route env rq W h \<longleftrightarrow>
     (\<forall>s. a_db (ap_app (snd (h s))) = a_db (ap_app s) \<or>
        (\<exists>uname is_admin. fst (caller env rq s) = Inr (uname, is_admin) \<and> W uname is_admin (a_db (ap_app s)) (a_db (ap_app (snd (h s))))))"

lemma account_routeD:
  assumes "account_route env rq W h" and "h s = (r, s')" and "a_db (ap_app s') \<noteq> a_db (ap_app s)"
  obtains uname is_admin where "fst (caller env rq s) = Inr (uname, is_admin)" "W uname is_admin (a_db (ap_app s)) (a_db (ap_app s'))"
  using assms(1) [unfolded account_route_def, rule_format, of s] assms(2,3) that by auto

lemma route_of_caller:
  assumes "\<And>u adm. changes (W u adm) (f (u, adm))"
  shows "account_route env rq W (bind_check (caller env rq) f)"
  unfolding account_route_def
proof (rule allI)
  fix s
  show "a_db (ap_app (snd (bind_check (caller env rq) f s))) = a_db (ap_app s) \<or> (\<exists>uname is_admin. fst (caller env rq s) = Inr (uname, is_admin) \<and>
    W uname is_admin (a_db (ap_app s)) (a_db (ap_app (snd (bind_check (caller env rq) f s)))))"
  proof (cases rule: caller_cases [of env rq s])
    case (known u adm)
    with assms [of u adm] show ?thesis unfolding changes_def by (simp add: bind_check_def)
  qed (simp add: bind_check_def)
qed

lemma admin_binds:
  "bind_check (check_admin_permission env rq) f =
     bind_check (rescue (\<lambda>_. HTTPException 403 ''Administrator privileges required for this operation'') (caller env rq))
       (\<lambda>(u, adm). if adm then f (Some u) else lift_res (Inl (HTTPException 403 ''Administrator privileges required for this operation'')))"
  by (rule ext) (simp add: check_admin_permission_def bind_check_def lift_res_def split: prod.splits sum.splits)

lemma route_of_admin:
  assumes "\<And>x. changes V (f x)"
  shows "account_route env rq (\<lambda>u adm d d'. adm \<and> V d d') (bind_check (check_admin_permission env rq) f)"
  unfolding account_route_def admin_binds
proof (rule allI)
  fix s
  let ?h = "bind_check (rescue (\<lambda>_. HTTPException 403 ''Administrator privileges required for this operation'') (caller env rq))
       (\<lambda>(u, adm). if adm then f (Some u) else lift_res (Inl (HTTPException 403 ''Administrator privileges required for this operation'')))"
  show "a_db (ap_app (snd (?h s))) = a_db (ap_app s) \<or> (\<exists>uname is_admin. fst (caller env rq s) = Inr (uname, is_admin) \<and>
    is_admin \<and> V (a_db (ap_app s)) (a_db (ap_app (snd (?h s)))))"
  proof (cases rule: caller_cases [of env rq s])
    case (known u adm)
    with assms [of "Some u"] show ?thesis unfolding changes_def by (simp add: bind_check_def rescue_def lift_res_def)
  qed (simp add: bind_check_def rescue_def)
qed

lemma route_of_reader: "observes h \<Longrightarrow> account_route env rq W h"
  by (simp add: account_route_def observes_def)

lemma account_route_mono:
  "account_route env rq V h \<Longrightarrow> (\<And>u adm d d'. V u adm d d' \<Longrightarrow> W u adm d d') \<Longrightarrow> account_route env rq W h"
  unfolding account_route_def by blast

subsection \<open>The writes of the router\<close>

definition rotates :: "users_env \<Rightarrow> int \<Rightarrow> string \<Rightarrow> db \<Rightarrow> db \<Rightarrow> bool" where
  "rotates ue t target d d' \<longleftrightarrow>
     (\<exists>e ent audits. (\<forall>x. e = Some x \<longrightarrow> t \<le> x \<and> x \<le> t + 366 * 86400) \<and>
        update_user (ur_users ue) d target (no_changes\<lparr>ch_password := Some (ur_token ue), ch_password_expiration := e\<rparr>) (Some ''manual'') True =
          (Inr (d', ent), audits))"

definition saves :: "users_env \<Rightarrow> users_body \<Rightarrow> db \<Rightarrow> db \<Rightarrow> bool" where
  "saves ue body d d' \<longleftrightarrow>
     (\<exists>new audits. create_user (ur_users ue) (ur_token ue) d (ub_username body) (ub_display_name body)
        (ub_is_admin body) (ub_is_service_account body) None False = (Inr (d', new), audits)) \<or>
     (\<exists>ent audits. update_user (ur_users ue) d (ub_username body) (no_changes\<lparr>ch_managed_by := Some (ub_managed_by body)\<rparr>)
        (Some ''manual'') True = (Inr (d', ent), audits)) \<or>
     (\<exists>audits. delete_user d (ub_username body) = (Inr d', audits))"

lemma expiration_bounds:
  assumes "expiration_date ue t text = Inr (digits, off)"
  shows "t \<le> digits - off \<and> digits - off \<le> t + 366 * 86400"
  using assms by (auto simp: expiration_date_def Let_def split: sum.splits prod.splits if_splits)

lemma token_target_who: "token_target body u adm = Inr target \<Longrightarrow> target = u \<or> adm"
  by (auto simp: token_target_def split: option.splits prod.splits list.splits if_splits)

lemma token_expiration_bounds:
  "token_expiration ue t body = Inr date \<Longrightarrow> instant date = Some x \<Longrightarrow> t \<le> x \<and> x \<le> t + 366 * 86400"
  using expiration_bounds [of ue t] by (auto simp: token_expiration_def instant_def split: option.splits prod.splits list.splits)

lemma rotation:
  assumes "token_expiration ue t body = Inr date"
    and "update_user (ur_users ue) d target (no_changes\<lparr>ch_password := Some (ur_token ue), ch_password_expiration := instant date\<rparr>)
      (Some ''manual'') True = (Inr (d', ent), audits)"
  shows "rotates ue t target d d'"
  unfolding rotates_def using token_expiration_bounds [OF assms(1)] assms(2) by blast

lemma access_token_route:
  "account_route env rq (\<lambda>u adm d d'. \<exists>target. (target = u \<or> adm) \<and> rotates ue (pe_clock env) target d d') (create_access_token env ue rq body)"
  unfolding create_access_token_def rotate_token_def
proof (rule route_of_caller, unfold prod.case, rule changes_rescue, rule changes_lift, rule changes_lift, rule after_observing)
  fix u adm target date user
  assume target: "token_target body u adm = Inr target" and date: "token_expiration ue (pe_clock env) body = Inr date"
  show "observes (rescue (missing_user target) (reading (\<lambda>d. get_user_profile d target)))" by (intro observing)
  have "changes (\<lambda>d d'. \<exists>target. (target = u \<or> adm) \<and> rotates ue (pe_clock env) target d d')
      (accounts env ue (\<lambda>d. update_user (ur_users ue) d target
         (no_changes\<lparr>ch_password := Some (ur_token ue), ch_password_expiration := instant date\<rparr>) (Some ''manual'') True))"
    using token_target_who [OF target] rotation [OF date] by (intro changes_accounts) blast
  then show "changes (\<lambda>d d'. \<exists>target. (target = u \<or> adm) \<and> rotates ue (pe_clock env) target d d')
     (bind_check (accounts env ue (\<lambda>d. update_user (ur_users ue) d target
         (no_changes\<lparr>ch_password := Some (ur_token ue), ch_password_expiration := instant date\<rparr>) (Some ''manual'') True)) (\<lambda>_.
      bind_check (emit_audit_event env ''user.token_rotate'' (Some u) ''user'' target
         [(''expiration'', case date of None \<Rightarrow> JNull | Some (digits, off) \<Rightarrow> JStr (ur_isoformat ue digits off)),
          (''expiration_cleared'', JBool (ue_password_expiration user \<noteq> None \<and> date = None))]) (\<lambda>_.
      lift_res (Inr (Token (ur_token ue) (''Token for '' @ target @ '' has been created''))))))"
    by (rule changes_then) simp
qed

lemma admin_routes:
  "account_route env rq (\<lambda>u adm d d'. adm \<and> saves ue body d d') (create_new_user env ue rq body)"
  "account_route env rq (\<lambda>u adm d d'. adm \<and> saves ue body d d') (set_user_ownership env ue rq body)"
  "account_route env rq (\<lambda>u adm d d'. adm \<and> saves ue body d d') (delete_user_route env ue rq body)"
proof -
  show "account_route env rq (\<lambda>u adm d d'. adm \<and> saves ue body d d') (create_new_user env ue rq body)"
    unfolding create_new_user_def
    by (intro route_of_admin changes_rescue changes_then changes_accounts) (auto simp: saves_def lift_res_def)
  show "account_route env rq (\<lambda>u adm d d'. adm \<and> saves ue body d d') (set_user_ownership env ue rq body)"
    unfolding set_user_ownership_def
    by (intro route_of_admin changes_unless after_observing observing changes_then changes_accounts) (auto simp: saves_def)
  show "account_route env rq (\<lambda>u adm d d'. adm \<and> saves ue body d d') (delete_user_route env ue rq body)"
    unfolding delete_user_route_def
    by (intro route_of_admin changes_rescue after_observing observing changes_then changes_accounts)
      (auto simp: saves_def split: prod.splits)
qed

lemma reading_account_routes:
  "observes (list_users_route env ue rq body)" "observes (get_current_user_information env ue rq body)" "observes (get_user_information env ue rq body)"
  unfolding list_users_route_def get_current_user_information_def get_user_information_def by (intro observing)+

lemma users_router_routes:
  assumes "(m, path, h) \<in> set users_router"
  shows "account_route env rq (\<lambda>u adm d d'. adm \<and> saves ue body d d' \<or>
      path = ''/access-token'' \<and> (\<exists>target. (target = u \<or> adm) \<and> rotates ue (pe_clock env) target d d')) (h env ue rq body)"
proof -
  consider (token) "path = ''/access-token''" "h = create_access_token"
    | (admin) "h = create_new_user \<or> h = set_user_ownership \<or> h = delete_user_route"
    | (reader) "h = list_users_route \<or> h = get_current_user_information \<or> h = get_user_information"
    using assms by (auto simp: users_router_def)
  then show ?thesis
  proof cases
    case token
    from access_token_route [of env rq ue body] show ?thesis unfolding token by (rule account_route_mono) blast
  next
    case admin
    then have "account_route env rq (\<lambda>u adm d d'. adm \<and> saves ue body d d') (h env ue rq body)" using admin_routes by auto
    then show ?thesis by (rule account_route_mono) blast
  next
    case reader
    then have "observes (h env ue rq body)" using reading_account_routes by auto
    then show ?thesis by (rule route_of_reader)
  qed
qed

subsection \<open>Which accounts change, and for whom\<close>

lemma rotated_row:
  assumes "rotates ue t target d d'"
  shows "\<exists>u e. get_user (users d) (normalize_username target) = Inr u \<and>
    d' = d\<lparr>users := put_user (users d) (u\<lparr>u_password_hash := generate_password_hash (ur_users ue) (ur_token ue), u_password_expiration := e\<rparr>)\<rparr>"
proof -
  from assms obtain e ent audits where "user_update (ur_users ue) d target
      (no_changes\<lparr>ch_password := Some (ur_token ue), ch_password_expiration := e\<rparr>) (Some ''manual'') True = (Inr (d', ent), audits)"
    unfolding rotates_def update_user_def by blast
  then obtain u where "get_user (users d) (normalize_username target) = Inr u"
    "d' = d\<lparr>users := put_user (users d) (change_row (ur_users ue) (no_changes\<lparr>ch_password := Some (ur_token ue), ch_password_expiration := e\<rparr>) u),
       auth_sessions := auth_sessions d\<rparr>"
    by (rule user_update_Inr) (simp add: no_changes_def)
  then show ?thesis by (cases d) (auto simp: change_row_def no_changes_def)
qed

text \<open>
  C13: Accounts change through the API only for an administrator, by the row of his account. Anybody
  else changes his own password and its expiration, and nothing else of the database.
\<close>

theorem accounts_change_for_administrators:
  assumes "(m, path, h) \<in> set users_router" and "h env ue rq body s = (r, s')" and "a_db (ap_app s') \<noteq> a_db (ap_app s)"
  shows "\<exists>uname. get_username (pe_clock env) rq (a_db (ap_app s)) = Inr uname \<and>
    (get_is_admin (pe_clock env) rq (a_db (ap_app s)) = Inr True \<or>
     (\<exists>u e. path = ''/access-token'' \<and> get_user (users (a_db (ap_app s))) (normalize_username uname) = Inr u \<and>
        a_db (ap_app s') = (a_db (ap_app s))\<lparr>users := put_user (users (a_db (ap_app s)))
          (u\<lparr>u_password_hash := generate_password_hash (ur_users ue) (ur_token ue), u_password_expiration := e\<rparr>)\<rparr>))"
proof -
  obtain uname adm where known: "fst (caller env rq s) = Inr (uname, adm)"
    and how: "adm \<and> saves ue body (a_db (ap_app s)) (a_db (ap_app s')) \<or> path = ''/access-token'' \<and>
      (\<exists>target. (target = uname \<or> adm) \<and> rotates ue (pe_clock env) target (a_db (ap_app s)) (a_db (ap_app s')))"
    by (rule account_routeD [OF users_router_routes [OF assms(1), of env rq ue body] assms(2,3)])
  show ?thesis
  proof (cases adm)
    case False
    with how have path: "path = ''/access-token''" and "rotates ue (pe_clock env) uname (a_db (ap_app s)) (a_db (ap_app s'))" by blast+
    from rotated_row [OF this(2)] obtain u e where "get_user (users (a_db (ap_app s))) (normalize_username uname) = Inr u \<and>
      a_db (ap_app s') = (a_db (ap_app s))\<lparr>users := put_user (users (a_db (ap_app s)))
        (u\<lparr>u_password_hash := generate_password_hash (ur_users ue) (ur_token ue), u_password_expiration := e\<rparr>)\<rparr>" by (elim exE)
    with path caller_known(1) [OF known] show ?thesis by (intro exI [of _ uname] conjI disjI2 exI [of _ u] exI [of _ e]) iprover+
  next
    case True
    with caller_known [OF known] show ?thesis by (intro exI conjI disjI1) simp_all
  qed
qed

subsection \<open>The invariants of the accounts\<close>

lemma created_or_updated:
  assumes "create_user env token d uname display is_admin is_sa written_by override = (Inr (d', new), audits)"
  obtains ent where "user_create env d uname token display is_admin is_sa = Inr (d', ent)"
  | ch ent where "user_update env d uname ch written_by override = (Inr (d', ent), audits)"
  using assms by (auto simp: create_user_def store_create_user_def update_user_def Let_def split: sum.splits prod.splits if_splits)

lemma saved_step:
  assumes "saves ue body (ac_db w) d' \<or> rotates ue t target (ac_db w) d'" and "now (ur_users ue) = ac_clock w"
  shows "account_step (ur_users ue) w (w\<lparr>ac_db := d'\<rparr>)"
proof -
  have same: "(ur_users ue)\<lparr>now := ac_clock w\<rparr> = ur_users ue" using assms(2) by (cases "ur_users ue") simp
  have up: "user_update (ur_users ue) (ac_db w) n ch by override = (Inr (d', ent), audits) \<Longrightarrow> ?thesis" for n ch "by" override ent audits
    using acc_update [where env = "ur_users ue" and w = w] same by simp
  from assms(1) show ?thesis unfolding saves_def rotates_def update_user_def delete_user_def
    by (elim disjE exE conjE) (blast elim: created_or_updated intro: up acc_create acc_delete)+
qed

text \<open>
  C14: The requests to the account routes are steps of the accounts' machine, so whatever they are, the
  tables keep their constraints, a user answers to one provider and an active administrator remains.
\<close>

theorem account_routes_keep_the_invariant:
  assumes "(m, path, h) \<in> set users_router" and "h env ue rq body s = (r, s')"
    and "accounts_inv w" and "ac_db w = a_db (ap_app s)" and "ac_clock w = now (ur_users ue)"
  shows "account_run (ur_users ue) w (w\<lparr>ac_db := a_db (ap_app s')\<rparr>) \<and> accounts_inv (w\<lparr>ac_db := a_db (ap_app s')\<rparr>) \<and>
    (\<exists>u\<in>set (users (a_db (ap_app s'))). u_is_admin u \<and> u_active u)"
proof -
  have run: "account_run (ur_users ue) w (w\<lparr>ac_db := a_db (ap_app s')\<rparr>)"
  proof (cases "a_db (ap_app s') = a_db (ap_app s)")
    case True
    with assms(4) have "w\<lparr>ac_db := a_db (ap_app s')\<rparr> = w" by (cases w) simp
    then show ?thesis by (simp add: acc_refl)
  next
    case False
    obtain uname adm where "adm \<and> saves ue body (a_db (ap_app s)) (a_db (ap_app s')) \<or> path = ''/access-token'' \<and>
        (\<exists>target. (target = uname \<or> adm) \<and> rotates ue (pe_clock env) target (a_db (ap_app s)) (a_db (ap_app s')))"
      by (rule account_routeD [OF users_router_routes [OF assms(1), of env rq ue body] assms(2) False])
    then obtain target where "saves ue body (ac_db w) (a_db (ap_app s')) \<or> rotates ue (pe_clock env) target (ac_db w) (a_db (ap_app s'))"
      unfolding assms(4) by blast
    from saved_step [OF this assms(5) [symmetric]] show ?thesis by (rule acc_trans [OF acc_refl])
  qed
  from run_accounts_inv [OF run assms(3)] run show ?thesis by (simp add: accounts_inv_def has_active_admin_def)
qed

subsection \<open>Rotated tokens\<close>

lemma bind_check_Inr:
  assumes "bind_check m f s = (Inr y, s')"
  obtains x s1 where "m s = (Inr x, s1)" "f x s1 = (Inr y, s')"
  using assms by (auto simp: bind_check_def split: prod.splits sum.splits)

lemma rescue_Inr [simp]: "rescue g m s = (Inr y, s') \<longleftrightarrow> m s = (Inr y, s')"
  by (auto simp: rescue_def split: prod.splits sum.splits)

lemma accounts_Inr:
  assumes "accounts env ue m s = (Inr x, s')"
  obtains d' audits where "m (a_db (ap_app s)) = (Inr (d', x), audits)" "a_db (ap_app s') = d'"
  using assms by (auto simp: accounts_def Let_def split: prod.splits sum.splits)

lemma rotate_token_success:
  assumes "rotate_token env ue u target date s = (Inr a, s')"
  obtains ent audits where "update_user (ur_users ue) (a_db (ap_app s)) target
      (no_changes\<lparr>ch_password := Some (ur_token ue), ch_password_expiration := instant date\<rparr>) (Some ''manual'') True = (Inr (a_db (ap_app s'), ent), audits)"
    "a = Token (ur_token ue) (''Token for '' @ target @ '' has been created'')"
  using assms [unfolded rotate_token_def] that
  by (elim bind_check_Inr accounts_Inr) (auto simp: lift_res_def reading_def emit_audit_event_def)

lemma access_token_success:
  assumes "create_access_token env ue rq body s = (Inr a, s')"
  obtains uname adm target where "fst (caller env rq s) = Inr (uname, adm)" "target = uname \<or> adm"
    "a = Token (ur_token ue) (''Token for '' @ target @ '' has been created'')" "rotates ue (pe_clock env) target (a_db (ap_app s)) (a_db (ap_app s'))"
proof -
  from assms obtain u adm target date where caller: "caller env rq s = (Inr (u, adm), s)" and target: "token_target body u adm = Inr target"
    and date: "token_expiration ue (pe_clock env) body = Inr date" and run: "rotate_token env ue u target date s = (Inr a, s')"
    unfolding create_access_token_def
    by (cases rule: caller_cases [of env rq s]) (auto simp: bind_check_def [of "caller env rq"] lift_res_def elim!: bind_check_Inr)
  from run obtain ent audits where up: "update_user (ur_users ue) (a_db (ap_app s)) target
      (no_changes\<lparr>ch_password := Some (ur_token ue), ch_password_expiration := instant date\<rparr>) (Some ''manual'') True = (Inr (a_db (ap_app s'), ent), audits)"
    and a: "a = Token (ur_token ue) (''Token for '' @ target @ '' has been created'')" by (rule rotate_token_success)
  from that [OF _ token_target_who [OF target] a rotation [OF date up]] caller show ?thesis by simp
qed


subsection \<open>A deployment\<close>

definition sample_users_env :: users_env where
  "sample_users_env = \<lparr>ur_users = sample_user_env\<lparr>now := 0\<rparr>, ur_token = ''t0k'', ur_fromisoformat = (\<lambda>_. Inr (500, None)),
     ur_isoformat = (\<lambda>_ _. ''date''), ur_reason = (\<lambda>_. ''why'')\<rparr>"

definition sample_body :: users_body where
  "sample_body = \<lparr>ub_token_request = Some (None, Some ''1970-01-01T00:08:20Z''), ub_service = False, ub_username = ''carol'', ub_display_name = ''Carol'',
     ub_is_admin = True, ub_is_service_account = False, ub_managed_by = ''manual''\<rparr>"

definition request_of :: "string \<Rightarrow> route_request" where
  "request_of uname = (experiment_request ''PATCH'' ''7'' [])\<lparr>hq_state_username := Some uname\<rparr>"

definition accounts_api :: "(permission_result timed, permission timed) api_state" where
  "accounts_api = \<lparr>ap_app = sample_app\<lparr>a_db := account_db\<rparr>, ap_log = []\<rparr>"

abbreviation rotation_run :: "users_answer res \<times> (permission_result timed, permission timed) api_state" where
  "rotation_run \<equiv> create_access_token sample_api_env sample_users_env (request_of ''bob'') sample_body accounts_api"

lemma sample_users_sel [simp]:
  "ur_users sample_users_env = sample_user_env\<lparr>now := 0\<rparr>" "ur_token sample_users_env = ''t0k''" "a_db (ap_app accounts_api) = account_db"
  "pe_clock sample_api_env = 0"
  by (simp_all add: sample_users_env_def accounts_api_def sample_api_env_def)

lemma sample_rotation: "rotation_run = (Inr (Token ''t0k'' ''Token for bob has been created''), snd rotation_run)"
proof -
  have "fst rotation_run = Inr (Token ''t0k'' ''Token for bob has been created'')" by code_simp
  then show ?thesis by (simp add: prod_eq_iff)
qed

lemma sample_account_route: "(''PATCH'', ''/access-token'', create_access_token) \<in> set users_router"
  by (simp add: users_router_def)


theorem accounts_change_for_administrators_witness:
  "\<exists>u e. get_user (users account_db) ''bob'' = Inr u \<and>
     a_db (ap_app (snd rotation_run)) = account_db\<lparr>users := put_user (users account_db) (u\<lparr>u_password_hash := ''ht0k'', u_password_expiration := e\<rparr>)\<rparr>"
proof -
  have facts: "get_username 0 (request_of ''bob'') account_db = Inr ''bob''" "get_is_admin 0 (request_of ''bob'') account_db = Inr False" "normalize_username ''bob'' = ''bob''" by code_simp+
  have "map u_password_hash (users (a_db (ap_app (snd rotation_run)))) \<noteq> map u_password_hash (users account_db)" by code_simp
  then have "a_db (ap_app (snd rotation_run)) \<noteq> a_db (ap_app accounts_api)" by auto
  from accounts_change_for_administrators [OF sample_account_route sample_rotation this] facts show ?thesis
    by (auto simp: sample_user_env_def)
qed

theorem account_routes_keep_the_invariant_witness:
  "\<exists>u\<in>set (users (a_db (ap_app (snd rotation_run)))). u_is_admin u \<and> u_active u"
proof -
  have "accounts_inv (sample_world\<lparr>ac_clock := 0\<rparr>)" using sample_world_inv by (simp add: accounts_inv_def)
  from account_routes_keep_the_invariant [OF sample_account_route sample_rotation this] show ?thesis by (simp add: sample_world_def)
qed

subsection \<open>Two answers of the router\<close>

text \<open>
  Deleting an account that does not exist is reported as a failure of the server: the profile lookup raises,
  so the branch that answers 404 is never taken.
\<close>

theorem deleting_an_absent_user_answers_500:
  assumes "fst (caller env rq s) = Inr (uname, True)" and "get_user_profile (a_db (ap_app s)) (ub_username body) = Inl (MlflowException c)"
  shows "fst (delete_user_route env ue rq body s) = Inl (HTTPException 500 ''Failed to delete user'')"
proof -
  have "caller env rq s = (Inr (uname, True), s)" using assms(1) caller_state [of env rq s] by (metis prod.collapse)
  with assms(2) show ?thesis
    by (simp add: delete_user_route_def admin_binds bind_check_def rescue_def reading_def otherwise_def)
qed

text \<open>
  Posting an account that exists sets its administrator flag, without an event: \<^verbatim>\<open>alice\<close>
  makes the manually managed \<^verbatim>\<open>bob\<close> an administrator and the log stays empty.
\<close>

theorem promotion_leaves_no_event:
  "let s = accounts_api\<lparr>ap_app := (ap_app accounts_api)\<lparr>a_db := account_db\<lparr>users := [alice, bob\<lparr>u_managed_by := ''manual''\<rparr>]\<rparr>\<rparr>\<rparr>;
       (r, s') = create_new_user sample_api_env sample_users_env (request_of ''alice'') (sample_body\<lparr>ub_username := ''bob''\<rparr>) s
   in r = Inr (User_saved False) \<and> map u_is_admin (users (a_db (ap_app s'))) = [True, True] \<and> ap_log s' = []"
  by code_simp

end
