(* ===== verification/Ip_Address.thy ===== *)
theory Ip_Address
  imports Json "HOL-Library.Word"
begin

section \<open>Addresses and networks (Python's \<^verbatim>\<open>ipaddress\<close>)\<close>

text \<open>
  What the proxy middleware uses of the standard module \<^verbatim>\<open>ipaddress\<close>: parsing of
  addresses and of networks with \<^verbatim>\<open>strict=False\<close>, and membership. Addresses are words of
  their width; the scope of an IPv6 address takes no part in a comparison with a network and is dropped. The
  lemmas say what membership means bit by bit, and that a printed IPv4 address is read back.
\<close>

unbundle bit_operations_syntax

datatype ip_address = IPv4Address "32 word" | IPv6Address "128 word"

datatype ip_network =
    IPv4Network (net4_address: "32 word") (net4_prefixlen: nat)
  | IPv6Network (net6_address: "128 word") (net6_prefixlen: nat)

subsection \<open>Numbers\<close>

fun decimal_value :: "nat \<Rightarrow> string \<Rightarrow> nat" where
  "decimal_value acc [] = acc"
| "decimal_value acc (c # s) = decimal_value (10 * acc + (of_char c - 48)) s"

fun py_str_nat :: "nat \<Rightarrow> string" where
  "py_str_nat n = (if n < 10 then [char_of (48 + n)] else py_str_nat (n div 10) @ [char_of (48 + n mod 10)])"

declare py_str_nat.simps [simp del]

definition py_str_int :: "int \<Rightarrow> string" where
  "py_str_int n = (if n < 0 then CHR ''-'' # py_str_nat (nat (- n)) else py_str_nat (nat n))"

definition hex_value :: "char \<Rightarrow> nat option" where
  "hex_value c =
     (if is_digit c then Some (of_char c - 48)
      else if 97 \<le> (of_char c :: nat) \<and> (of_char c :: nat) \<le> 102 then Some (of_char c - 87)
      else if 65 \<le> (of_char c :: nat) \<and> (of_char c :: nat) \<le> 70 then Some (of_char c - 55) else None)"

fun hextet_value :: "nat \<Rightarrow> string \<Rightarrow> nat option" where
  "hextet_value acc [] = Some acc"
| "hextet_value acc (c # s) = (case hex_value c of None \<Rightarrow> None | Some d \<Rightarrow> hextet_value (16 * acc + d) s)"

subsection \<open>IPv4\<close>

definition parse_octet :: "string \<Rightarrow> nat option" where
  "parse_octet s =
     (if s = [] \<or> \<not> list_all is_digit s \<or> 3 < length s \<or> (s \<noteq> ''0'' \<and> hd s = CHR ''0'') \<or> 255 < decimal_value 0 s
      then None else Some (decimal_value 0 s))"

fun join_octets :: "32 word \<Rightarrow> string list \<Rightarrow> 32 word option" where
  "join_octets acc [] = Some acc"
| "join_octets acc (s # ss) = (case parse_octet s of None \<Rightarrow> None | Some n \<Rightarrow> join_octets (push_bit 8 acc OR of_nat n) ss)"

definition ipv4_int :: "string \<Rightarrow> 32 word option" where
  "ipv4_int s = (let octets = py_split (CHR ''.'') s in if length octets = 4 then join_octets 0 octets else None)"

definition octet_of :: "nat \<Rightarrow> 32 word \<Rightarrow> 32 word" where
  "octet_of k a = take_bit 8 (drop_bit (8 * k) a)"

definition print_ipv4 :: "32 word \<Rightarrow> string" where
  "print_ipv4 a =
     py_str_nat (unat (octet_of 3 a)) @ ''.'' @ py_str_nat (unat (octet_of 2 a)) @ ''.'' @
     py_str_nat (unat (octet_of 1 a)) @ ''.'' @ py_str_nat (unat (octet_of 0 a))"

subsection \<open>IPv6\<close>

definition parse_hextet :: "string \<Rightarrow> nat option" where
  "parse_hextet s = (if s = [] \<or> 4 < length s then None else hextet_value 0 s)"

fun join_hextets :: "128 word \<Rightarrow> string list \<Rightarrow> 128 word option" where
  "join_hextets acc [] = Some acc"
| "join_hextets acc (s # ss) = (case parse_hextet s of None \<Rightarrow> None | Some n \<Rightarrow> join_hextets (push_bit 16 acc OR of_nat n) ss)"

definition hex_digit :: "nat \<Rightarrow> char" where
  "hex_digit n = (if n < 10 then char_of (48 + n) else char_of (87 + n))"

fun py_hex :: "nat \<Rightarrow> string" where
  "py_hex n = (if n < 16 then [hex_digit n] else py_hex (n div 16) @ [hex_digit (n mod 16)])"

declare py_hex.simps [simp del]

text \<open>The parts between colons, where a dotted last part stands for two of them.\<close>

definition ipv6_parts :: "string \<Rightarrow> string list option" where
  "ipv6_parts s =
     (let parts = py_split (CHR '':'') s in
      if length parts < 3 then None
      else if CHR ''.'' \<in> set (last parts)
      then map_option (\<lambda>a. butlast parts @ [py_hex (unat (drop_bit 16 a AND 0xFFFF)), py_hex (unat (a AND 0xFFFF))]) (ipv4_int (last parts))
      else Some parts)"

definition skip_indices :: "string list \<Rightarrow> nat list" where
  "skip_indices parts = filter (\<lambda>i. parts ! i = []) [1..<length parts - 1]"

definition ipv6_int :: "string \<Rightarrow> 128 word option" where
  "ipv6_int s =
     (case ipv6_parts s of
        None \<Rightarrow> None
      | Some parts \<Rightarrow>
          (if 9 < length parts then None
           else case skip_indices parts of
                  [] \<Rightarrow> if length parts \<noteq> 8 \<or> hd parts = [] \<or> last parts = [] then None else join_hextets 0 parts
                | [i] \<Rightarrow>
                    (let hi = (if hd parts = [] then i - 1 else i);
                         lo = (if last parts = [] then length parts - i - 2 else length parts - i - 1)
                     in if hd parts = [] \<and> hi \<noteq> 0 \<or> last parts = [] \<and> lo \<noteq> 0 \<or> 8 \<le> hi + lo then None
                        else case join_hextets 0 (take hi parts) of
                               None \<Rightarrow> None
                             | Some a \<Rightarrow> join_hextets (push_bit (16 * (8 - (hi + lo))) a) (drop (length parts - lo) parts))
                | _ \<Rightarrow> None))"

text \<open>A scope after \<^verbatim>\<open>%\<close> must not be empty or contain another one.\<close>

definition ipv6_address :: "string \<Rightarrow> 128 word option" where
  "ipv6_address s =
     (case py_split (CHR ''%'') s of
        [a] \<Rightarrow> ipv6_int a
      | [a, scope] \<Rightarrow> if scope = [] then None else ipv6_int a
      | _ \<Rightarrow> None)"

subsection \<open>The two factory functions\<close>

definition ip_address :: "string \<Rightarrow> ip_address res" where
  "ip_address s =
     (if CHR ''/'' \<in> set s then Inl ValueError
      else case ipv4_int s of
             Some a \<Rightarrow> Inr (IPv4Address a)
           | None \<Rightarrow> (case ipv6_address s of Some a \<Rightarrow> Inr (IPv6Address a) | None \<Rightarrow> Inl ValueError))"

definition netmask :: "nat \<Rightarrow> 'a::len word" where
  "netmask p = mask LENGTH('a) XOR drop_bit p (mask LENGTH('a))"

definition prefix_from_prefix_string :: "nat \<Rightarrow> string \<Rightarrow> nat option" where
  "prefix_from_prefix_string width s =
     (if s = [] \<or> \<not> list_all is_digit s \<or> width < decimal_value 0 s then None else Some (decimal_value 0 s))"

text \<open>A netmask, or a host mask, written as an address: the length whose mask it is.\<close>

definition prefix_of_mask :: "32 word \<Rightarrow> nat option" where
  "prefix_of_mask m = List.find (\<lambda>p. netmask p = m) [0..<33]"

definition prefix_from_ip_string :: "string \<Rightarrow> nat option" where
  "prefix_from_ip_string s =
     (case ipv4_int s of
        None \<Rightarrow> None
      | Some m \<Rightarrow> (case prefix_of_mask m of Some p \<Rightarrow> Some p | None \<Rightarrow> prefix_of_mask (NOT m)))"

definition ipv4_network :: "string \<Rightarrow> ip_network option" where
  "ipv4_network s =
     (let net = (\<lambda>a p. IPv4Network (a AND netmask p) p) in
      case py_split (CHR ''/'') s of
        [a] \<Rightarrow> map_option (\<lambda>w. net w 32) (ipv4_int a)
      | [a, m] \<Rightarrow>
          (case ipv4_int a of
             None \<Rightarrow> None
           | Some w \<Rightarrow> (case prefix_from_prefix_string 32 m of
                          Some p \<Rightarrow> Some (net w p)
                        | None \<Rightarrow> map_option (net w) (prefix_from_ip_string m)))
      | _ \<Rightarrow> None)"

definition ipv6_network :: "string \<Rightarrow> ip_network option" where
  "ipv6_network s =
     (let net = (\<lambda>a p. IPv6Network (a AND netmask p) p) in
      case py_split (CHR ''/'') s of
        [a] \<Rightarrow> map_option (\<lambda>w. net w 128) (ipv6_address a)
      | [a, m] \<Rightarrow>
          (case ipv6_address a of None \<Rightarrow> None | Some w \<Rightarrow> map_option (net w) (prefix_from_prefix_string 128 m))
      | _ \<Rightarrow> None)"

definition ip_network :: "string \<Rightarrow> ip_network res" where
  "ip_network s =
     (case ipv4_network s of
        Some n \<Rightarrow> Inr n
      | None \<Rightarrow> (case ipv6_network s of Some n \<Rightarrow> Inr n | None \<Rightarrow> Inl ValueError))"

fun in_network :: "ip_address \<Rightarrow> ip_network \<Rightarrow> bool" where
  "in_network (IPv4Address a) (IPv4Network n p) \<longleftrightarrow> a AND netmask p = n"
| "in_network (IPv6Address a) (IPv6Network n p) \<longleftrightarrow> a AND netmask p = n"
| "in_network _ _ \<longleftrightarrow> False"

subsection \<open>What membership means\<close>

lemma bit_netmask: "bit (netmask p :: 'a::len word) i \<longleftrightarrow> i < LENGTH('a) \<and> LENGTH('a) \<le> i + p"
  by (auto simp: netmask_def bit_simps)

text \<open>An address lies in the network of another one when they agree on the first \<open>p\<close> bits.\<close>

lemma masked_eq_iff:
  fixes a w :: "'a::len word"
  shows "a AND netmask p = w AND netmask p \<longleftrightarrow> (\<forall>i<LENGTH('a). LENGTH('a) \<le> i + p \<longrightarrow> bit a i = bit w i)"
  by (auto simp: bit_eq_iff bit_simps bit_netmask)

lemma prefix_from_prefix_string_le: "prefix_from_prefix_string width s = Some p \<Longrightarrow> p \<le> width"
  by (auto simp: prefix_from_prefix_string_def split: if_splits)

lemma prefix_of_mask_le: "prefix_of_mask m = Some p \<Longrightarrow> p \<le> 32"
  using find_SomeD unfolding prefix_of_mask_def by fastforce

text \<open>A parsed network is stored with its host bits cleared.\<close>

definition network_ok :: "ip_network \<Rightarrow> bool" where
  "network_ok n =
     (case n of IPv4Network a p \<Rightarrow> p \<le> 32 \<and> a AND netmask p = a | IPv6Network a p \<Rightarrow> p \<le> 128 \<and> a AND netmask p = a)"

lemma ip_network_ok: "ip_network s = Inr n \<Longrightarrow> network_ok n"
  by (auto simp: ip_network_def ipv4_network_def ipv6_network_def prefix_from_ip_string_def network_ok_def Let_def and.assoc
      dest: prefix_from_prefix_string_le prefix_of_mask_le split: option.splits list.splits)

subsection \<open>Printing and parsing\<close>

lemma decimal_value_append: "decimal_value acc (s @ t) = decimal_value (decimal_value acc s) t"
  by (induction s arbitrary: acc) simp_all

lemma py_str_nat_read:
  "decimal_value 0 (py_str_nat n) = n" "list_all is_digit (py_str_nat n)" "py_str_nat n \<noteq> []"
proof (induction n rule: py_str_nat.induct)
  case (1 n)
  {
    case 1
    then show ?case using "1.IH" by (subst py_str_nat.simps) (simp add: decimal_value_append)
  next
    case 2
    have "is_digit (char_of (48 + m mod 10))" for m :: nat
      using less_imp_le_nat [OF mod_less_divisor [of 10 m]] by (simp add: is_digit_def)
    from this [of n] show ?case using "1.IH"(2) by (subst py_str_nat.simps) auto
  next
    case 3
    then show ?case by (subst py_str_nat.simps) simp
  }
qed

lemma py_str_nat_head: "n \<noteq> 0 \<Longrightarrow> hd (py_str_nat n) \<noteq> CHR ''0''"
proof (induction n rule: py_str_nat.induct)
  case (1 n)
  show ?case
  proof (cases "n < 10")
    case True
    then have "of_char (char_of (48 + n) :: char) = 48 + n" by simp
    moreover have "of_char CHR ''0'' = (48 :: nat)" by simp
    ultimately have "char_of (48 + n) \<noteq> CHR ''0''" using "1.prems" by (metis add_cancel_right_right)
    with True show ?thesis by (subst py_str_nat.simps) simp
  next
    case False
    then show ?thesis using "1.IH" py_str_nat_read(3) [of "n div 10"] by (subst py_str_nat.simps) (simp add: hd_append)
  qed
qed

lemma py_str_nat_length: "n < 1000 \<Longrightarrow> length (py_str_nat n) \<le> 3"
  by (simp add: py_str_nat.simps [of n] py_str_nat.simps [of "n div 10"] py_str_nat.simps [of "n div 10 div 10"])

lemma parse_printed_octet: "n < 256 \<Longrightarrow> parse_octet (py_str_nat n) = Some n"
proof -
  assume n: "n < 256"
  have "py_str_nat n = ''0'' \<or> hd (py_str_nat n) \<noteq> CHR ''0''"
    using py_str_nat_head [of n] by (cases "n = 0") (simp_all add: py_str_nat.simps [of 0])
  with n py_str_nat_length [of n] py_str_nat_read [of n] show ?thesis by (auto simp: parse_octet_def)
qed

lemma py_split_free: "sep \<notin> set s \<Longrightarrow> py_split sep s = [s]"
  by (induction s) auto

lemma py_split_append: "sep \<notin> set s \<Longrightarrow> py_split sep (s @ sep # t) = s # py_split sep t"
  by (induction s) auto

lemma printed_undotted: "CHR ''.'' \<notin> set (py_str_nat n)"
  using py_str_nat_read(2) [of n] by (auto simp: list_all_iff is_digit_def)

lemma octets_join:
  "push_bit 8 (push_bit 8 (push_bit 8 (octet_of 3 a) OR octet_of 2 a) OR octet_of 1 a) OR octet_of 0 a = a"
proof (rule bit_word_eqI)
  fix n
  assume n: "n < LENGTH(32)"
  consider "n < 8" | "8 \<le> n" "n < 16" | "16 \<le> n" "n < 24" | "24 \<le> n" by linarith
  then show "bit (push_bit 8 (push_bit 8 (push_bit 8 (octet_of 3 a) OR octet_of 2 a) OR octet_of 1 a) OR octet_of 0 a) n = bit a n"
    using n by cases (auto simp: octet_of_def bit_simps)
qed

lemma octet_small: "unat (octet_of k a) < 256"
  using take_bit_nat_less_exp [of 8 "unat (drop_bit (8 * k) a)"] by (simp add: octet_of_def unsigned_take_bit_eq)

lemma ipv4_round_trip: "ipv4_int (print_ipv4 a) = Some a"
proof -
  have "py_split CHR ''.'' (print_ipv4 a) = [py_str_nat (unat (octet_of 3 a)), py_str_nat (unat (octet_of 2 a)),
      py_str_nat (unat (octet_of 1 a)), py_str_nat (unat (octet_of 0 a))]"
    by (simp add: print_ipv4_def py_split_append py_split_free printed_undotted)
  then show ?thesis using octets_join [of a] by (simp add: ipv4_int_def parse_printed_octet octet_small)
qed

end
