(* ===== verification/Transport.thy ===== *)
theory Transport
  imports Dependencies Authentication Ip_Address
begin

section \<open>The middleware around the routes (middleware/, app.py)\<close>

text \<open>
  What happens to a request before a route sees it: the workspace of the request, the authentication of
  theory \<open>Authentication\<close>, the headers of reverse proxies, the permission check of MLflow's routes
  that FastAPI serves without Flask, and the handing over of the caller to Flask. A middleware answers itself
  or hands the request, possibly changed, to the next one. \<open>serve\<close> stacks them in the order of
  \<^verbatim>\<open>app.create_app\<close> around a router, which is a parameter, as are the resolution of
  workspaces by MLflow and the parsing of bodies.
\<close>

subsection \<open>Requests\<close>

text \<open>
  The ASGI scope, with what the middleware keeps in \<^verbatim>\<open>request.state\<close>. Header names are in
  lower case. \<open>sc_hostname\<close> is the host of \<^verbatim>\<open>request.url\<close>, \<open>sc_body\<close> what
  \<^verbatim>\<open>request.json()\<close> returns (\<open>None\<close> when it raises), \<open>sc_context\<close> the entry
  \<^verbatim>\<open>AUTH_CONTEXT_KEY\<close>.
\<close>

record proxy_info =
  px_forwarded_proto :: "string option"
  px_forwarded_host :: "string option"
  px_forwarded_port :: "int option"
  px_forwarded_prefix :: string
  px_real_ip :: "string option"
  px_is_proxied :: bool
  px_original_scheme :: string
  px_original_host :: "string option"
  px_original_path :: string

record asgi_scope =
  sc_method :: string
  sc_scheme :: string
  sc_path :: string
  sc_query :: string
  sc_root_path :: string
  sc_headers :: "(string \<times> string) list"
  sc_hostname :: "string option"
  sc_server :: "(string \<times> int) option"
  sc_client :: "string option"
  sc_body :: "json option"
  sc_username :: "string option"
  sc_is_admin :: bool
  sc_context :: "auth_context option"
  sc_cached_body :: "json option"
  sc_proxy_info :: "proxy_info option"

definition header :: "asgi_scope \<Rightarrow> string \<Rightarrow> string option" where
  "header sc k = map_of (sc_headers sc) k"

datatype answer =
    Json_answer nat string
  | Plain_answer nat string
  | Auth_answer auth_response
  | Mlflow_answer error_code
  | Routed string

subsection \<open>Proxy headers (proxy\_headers\_middleware.py)\<close>

fun parse_trusted_proxies :: "string list \<Rightarrow> ip_network list" where
  "parse_trusted_proxies [] = []"
| "parse_trusted_proxies (cidr # cidrs) =
     (if py_strip cidr = [] then parse_trusted_proxies cidrs
      else case ip_network (py_strip cidr) of
             Inl e \<Rightarrow> parse_trusted_proxies cidrs
           | Inr n \<Rightarrow> n # parse_trusted_proxies cidrs)"

definition is_trusted_proxy :: "ip_network list \<Rightarrow> asgi_scope \<Rightarrow> bool" where
  "is_trusted_proxy networks sc =
     (if networks = [] then True
      else case sc_client sc of
             None \<Rightarrow> False
           | Some host \<Rightarrow> (case ip_address host of Inl e \<Rightarrow> False | Inr ip \<Rightarrow> list_ex (in_network ip) networks))"

definition get_forwarded_proto :: "asgi_scope \<Rightarrow> string option" where
  "get_forwarded_proto sc = header sc ''x-forwarded-proto''"

definition get_forwarded_host :: "asgi_scope \<Rightarrow> string option" where
  "get_forwarded_host sc = header sc ''x-forwarded-host''"

definition get_forwarded_port :: "asgi_scope \<Rightarrow> int option" where
  "get_forwarded_port sc =
     (case opt_str (header sc ''x-forwarded-port'') of
        None \<Rightarrow> None
      | Some s \<Rightarrow> (case py_int s of Inr n \<Rightarrow> Some n | Inl e \<Rightarrow> None))"

definition rstrip_slash :: "string \<Rightarrow> string" where
  "rstrip_slash s = rev (dropWhile (\<lambda>c. c = CHR ''/'') (rev s))"

definition get_forwarded_prefix :: "asgi_scope \<Rightarrow> string" where
  "get_forwarded_prefix sc =
     (let p = (case header sc ''x-forwarded-prefix'' of None \<Rightarrow> [] | Some s \<Rightarrow> s)
      in rstrip_slash (if p \<noteq> [] \<and> \<not> py_startswith p ''/'' then CHR ''/'' # p else p))"

definition get_real_ip :: "asgi_scope \<Rightarrow> string option" where
  "get_real_ip sc =
     (case opt_str (header sc ''x-forwarded-for'') of
        Some s \<Rightarrow> Some (py_strip (hd (py_split (CHR '','') s)))
      | None \<Rightarrow> header sc ''x-real-ip'')"

definition set_host :: "string \<Rightarrow> (string \<times> string) list \<Rightarrow> (string \<times> string) list" where
  "set_host v = map (\<lambda>(k, w). if k \<noteq> ''host'' then (k, w) else (''host'', v))"

text \<open>The branch under \<^verbatim>\<open>if forwarded_host\<close>: the host header and the server entry.\<close>

definition forward_host :: "string option \<Rightarrow> int option \<Rightarrow> string \<Rightarrow> asgi_scope \<Rightarrow> asgi_scope" where
  "forward_host proto port host sc =
     (case port of
        Some n \<Rightarrow>
          (if n \<noteq> 0 \<and> n \<noteq> 80 \<and> n \<noteq> 443
           then sc\<lparr>sc_headers := set_host (host @ '':'' @ py_str_int n) (sc_headers sc), sc_server := Some (host, n)\<rparr>
           else sc\<lparr>sc_headers := set_host host (sc_headers sc),
                   sc_server := Some (host, if n \<noteq> 0 then n else if proto = Some ''https'' then 443 else 80)\<rparr>)
      | None \<Rightarrow> sc\<lparr>sc_headers := set_host host (sc_headers sc),
                   sc_server := Some (host, if proto = Some ''https'' then 443 else 80)\<rparr>)"

definition proxy_headers_dispatch :: "ip_network list \<Rightarrow> asgi_scope \<Rightarrow> asgi_scope" where
  "proxy_headers_dispatch networks sc =
     (if \<not> is_trusted_proxy networks sc then sc
      else
        (let proto = get_forwarded_proto sc; host = get_forwarded_host sc; port = get_forwarded_port sc;
             pre = get_forwarded_prefix sc;
             original_host = (case header sc ''host'' of Some h \<Rightarrow> Some h | None \<Rightarrow> sc_hostname sc);
             sc1 = (case opt_str proto of Some p \<Rightarrow> sc\<lparr>sc_scheme := p\<rparr> | None \<Rightarrow> sc);
             sc2 = (case opt_str host of Some h \<Rightarrow> forward_host proto port h sc1 | None \<Rightarrow> sc1);
             sc3 = (if pre \<noteq> [] then sc2\<lparr>sc_root_path := pre\<rparr> else sc2)
         in sc3\<lparr>sc_proxy_info := Some
              \<lparr>px_forwarded_proto = proto, px_forwarded_host = host, px_forwarded_port = port, px_forwarded_prefix = pre,
               px_real_ip = get_real_ip sc, px_is_proxied = (opt_str proto \<noteq> None \<or> opt_str host \<noteq> None \<or> pre \<noteq> []),
               px_original_scheme = sc_scheme sc, px_original_host = original_host, px_original_path = sc_path sc\<rparr>\<rparr>))"

subsection \<open>Permissions of FastAPI's own routes (fastapi\_permission\_middleware.py)\<close>

definition ROUTES_NEEDING_BODY :: "string list" where
  "ROUTES_NEEDING_BODY = [''/gateway/mlflow/v1/chat/completions'', ''/gateway/openai/v1/chat/completions'',
     ''/gateway/openai/v1/embeddings'', ''/gateway/openai/v1/responses'', ''/gateway/anthropic/v1/messages'']"

definition MCP_SERVER_PREFIXES :: "string list" where
  "MCP_SERVER_PREFIXES = [''/api/3.0/mlflow/mcp-servers'', ''/ajax-api/3.0/mlflow/mcp-servers'']"

text \<open>
  A pattern \<^verbatim>\<open>^lead([^...]+)tail$\<close> whose tail begins with an excluded character: the
  group is the longest run of other characters, and \<^verbatim>\<open>$\<close> also matches before a newline
  at the end.
\<close>

definition match_group :: "string \<Rightarrow> string \<Rightarrow> string \<Rightarrow> string \<Rightarrow> string option" where
  "match_group lead excluded tail path =
     (if \<not> py_startswith path lead then None
      else (let rest = drop (length lead) path;
                grp = takeWhile (\<lambda>c. c \<notin> set excluded) rest;
                after = dropWhile (\<lambda>c. c \<notin> set excluded) rest
            in if grp \<noteq> [] \<and> (after = tail \<or> after = tail @ [CHR 0x0A]) then Some grp else None))"

definition INVOCATIONS_RE :: "string \<Rightarrow> string option" where
  "INVOCATIONS_RE = match_group ''/gateway/'' ''/'' ''/mlflow/invocations''"

definition GEMINI_GENERATE :: "string \<Rightarrow> string option" where
  "GEMINI_GENERATE = match_group ''/gateway/gemini/v1beta/models/'' ''/:'' '':generateContent''"

definition GEMINI_STREAM :: "string \<Rightarrow> string option" where
  "GEMINI_STREAM = match_group ''/gateway/gemini/v1beta/models/'' ''/:'' '':streamGenerateContent''"

definition extract_gateway_endpoint_name :: "string \<Rightarrow> json option \<Rightarrow> json res" where
  "extract_gateway_endpoint_name path body =
     (case INVOCATIONS_RE path of
        Some nm \<Rightarrow> Inr (JStr nm)
      | None \<Rightarrow>
          if path \<in> set ROUTES_NEEDING_BODY
          then (case body of
                  None \<Rightarrow> Inr JNull
                | Some b \<Rightarrow> if truthy b then (case b of JObj kvs \<Rightarrow> Inr (jget kvs ''model'') | _ \<Rightarrow> Inl AttributeError) else Inr JNull)
          else (case GEMINI_GENERATE path of
                  Some nm \<Rightarrow> Inr (JStr nm)
                | None \<Rightarrow> (case GEMINI_STREAM path of Some nm \<Rightarrow> Inr (JStr nm) | None \<Rightarrow> Inr JNull)))"

text \<open>A validator answers for a user and a request, and may keep the parsed body in the request.\<close>

type_synonym ('c, 'w) route_validator = "string \<Rightarrow> asgi_scope \<Rightarrow> ('c, 'w) app \<Rightarrow> bool res \<times> asgi_scope \<times> ('c, 'w) app"

definition get_gateway_validator :: "('c, 'w) api_env \<Rightarrow> string \<Rightarrow> ('c, 'w) route_validator" where
  "get_gateway_validator env path uname sc s =
     (let needs = path \<in> set ROUTES_NEEDING_BODY;
          sc1 = (if needs \<and> sc_body sc \<noteq> None then sc\<lparr>sc_cached_body := sc_body sc\<rparr> else sc)
      in if needs \<and> sc_body sc = None then (Inr False, sc, s)
         else case extract_gateway_endpoint_name path (if needs then sc_body sc else None) of
                Inl e \<Rightarrow> (Inl e, sc1, s)
              | Inr JNull \<Rightarrow> (Inr False, sc1, s)
              | Inr v \<Rightarrow> (case can_use_gateway_endpoint (single_env env) s (text_value env v) uname of (r, s') \<Rightarrow> (r, sc1, s')))"

definition get_otel_validator :: "('c, 'w) api_env \<Rightarrow> ('c, 'w) route_validator" where
  "get_otel_validator env uname sc s =
     (case opt_str (header sc ''x-mlflow-experiment-id'') of
        None \<Rightarrow> (Inr False, sc, s)
      | Some eid \<Rightarrow> (case flag_of can_update (effective_experiment_permission (single_env env) s eid uname) of (r, s') \<Rightarrow> (r, sc, s')))"

definition get_require_authentication_validator :: "('c, 'w) route_validator" where
  "get_require_authentication_validator uname sc s = (Inr True, sc, s)"

definition get_mcp_server_registry_validator :: "('c, 'w) route_validator" where
  "get_mcp_server_registry_validator uname sc s = (Inr (sc_method sc \<in> {''GET'', ''HEAD''}), sc, s)"

definition find_fastapi_validator :: "('c, 'w) api_env \<Rightarrow> string \<Rightarrow> ('c, 'w) route_validator option" where
  "find_fastapi_validator env path =
     (if py_startswith path ''/gateway/'' then Some (get_gateway_validator env path)
      else if py_startswith path ''/v1/traces'' then Some (get_otel_validator env)
      else if py_startswith path ''/ajax-api/3.0/jobs'' then Some get_require_authentication_validator
      else if py_startswith path ''/ajax-api/3.0/mlflow/assistant'' then Some get_require_authentication_validator
      else if \<exists>p\<in>set MCP_SERVER_PREFIXES. py_startswith path p then Some get_mcp_server_registry_validator
      else None)"

definition fastapi_permission_middleware ::
  "('c, 'w) api_env \<Rightarrow> asgi_scope \<Rightarrow> ('c, 'w) app \<Rightarrow> (answer + asgi_scope) \<times> ('c, 'w) app" where
  "fastapi_permission_middleware env sc s =
     (case find_fastapi_validator env (sc_path sc) of
        None \<Rightarrow> (Inr sc, s)
      | Some validator \<Rightarrow>
          (case opt_str (sc_username sc) of
             None \<Rightarrow> (Inl (Json_answer 401 ''Authentication required''), s)
           | Some uname \<Rightarrow>
               if sc_is_admin sc then (Inr sc, s)
               else (case validator uname sc s of
                       (Inr True, sc', s') \<Rightarrow> (Inr sc', s')
                     | (_, sc', s') \<Rightarrow> (Inl (Plain_answer 403 ''Permission denied''), s'))))"

subsection \<open>The caller handed to Flask (auth\_aware\_wsgi\_middleware.py)\<close>

definition AUTH_CONTEXT_KEY :: string where "AUTH_CONTEXT_KEY = ''mlflow_oidc_auth''"

definition inject_auth_context :: "asgi_scope \<Rightarrow> (string \<rightharpoonup> auth_context) \<Rightarrow> (string \<rightharpoonup> auth_context)" where
  "inject_auth_context sc environ =
     (case sc_context sc of Some cx \<Rightarrow> environ(AUTH_CONTEXT_KEY \<mapsto> cx) | None \<Rightarrow> environ)"

subsection \<open>The stack (app.py)\<close>

text \<open>
  The state of a worker: the authentication state, the application with its caches, and MLflow's context
  variable of the workspace. The database is that of the application; authentication works on it.
\<close>

record ('t, 's, 'c, 'w) worker =
  wk_auth :: "('t, 's) auth_world"
  wk_app :: "('c, 'w) app"
  wk_workspace :: "string option"

record ('t, 's, 'c, 'w) stack_env =
  st_auth :: "('t, 's) auth_env"
  st_api :: "('c, 'w) api_env"
  st_trusted_networks :: "ip_network list"
  st_workspaces_enabled :: bool
  st_resolve_workspace :: "string \<Rightarrow> string option \<Rightarrow> string option res"

type_synonym ('t, 's, 'c, 'w) handler =
  "asgi_scope \<Rightarrow> ('t, 's, 'c, 'w) worker \<Rightarrow> answer res \<times> ('t, 's, 'c, 'w) worker"

text \<open>What the authentication middleware reads of the scope, and what it leaves there. A denial is answered as it stands.\<close>

definition auth_request :: "asgi_scope \<Rightarrow> http_request" where
  "auth_request sc =
     \<lparr>hr_path = sc_path sc, hr_query = sc_query sc, hr_authorization = header sc ''authorization'',
      hr_workspace = header sc ''x-mlflow-workspace'',
      hr_sec_fetch_dest = (case header sc ''sec-fetch-dest'' of Some v \<Rightarrow> v | None \<Rightarrow> []),
      hr_accept = (case header sc ''accept'' of Some v \<Rightarrow> v | None \<Rightarrow> [])\<rparr>"

definition authenticated_as :: "auth_context \<Rightarrow> asgi_scope \<Rightarrow> asgi_scope" where
  "authenticated_as cx sc = sc\<lparr>sc_username := Some (cx_username cx), sc_is_admin := cx_is_admin cx, sc_context := Some cx\<rparr>"

definition run_authentication ::
  "('t, 's, 'c, 'w) stack_env \<Rightarrow> asgi_scope \<Rightarrow> ('t, 's, 'c, 'w) worker \<Rightarrow> ('t, 's, 'c, 'w) worker \<times> auth_response" where
  "run_authentication env sc w =
     (case dispatch (st_auth env) ((wk_auth w)\<lparr>ah_db := a_db (wk_app w)\<rparr>) (auth_request sc) of
        (aw, r) \<Rightarrow> (w\<lparr>wk_auth := aw, wk_app := (wk_app w)\<lparr>a_db := ah_db aw\<rparr>\<rparr>, r))"

definition auth_stage :: "('t, 's, 'c, 'w) stack_env \<Rightarrow> ('t, 's, 'c, 'w) handler \<Rightarrow> ('t, 's, 'c, 'w) handler" where
  "auth_stage env call_next sc w =
     (case run_authentication env sc w of
        (w', PassThrough) \<Rightarrow> call_next sc w'
      | (w', Proceed cx) \<Rightarrow> call_next (authenticated_as cx sc) w'
      | (w', denial) \<Rightarrow> (Inr (Auth_answer denial), w'))"

definition proxy_stage :: "('t, 's, 'c, 'w) stack_env \<Rightarrow> ('t, 's, 'c, 'w) handler \<Rightarrow> ('t, 's, 'c, 'w) handler" where
  "proxy_stage env call_next sc = call_next (proxy_headers_dispatch (st_trusted_networks env) sc)"

definition permission_stage :: "('t, 's, 'c, 'w) stack_env \<Rightarrow> ('t, 's, 'c, 'w) handler \<Rightarrow> ('t, 's, 'c, 'w) handler" where
  "permission_stage env call_next sc w =
     (case fastapi_permission_middleware (st_api env) sc (wk_app w) of
        (Inl a, s) \<Rightarrow> (Inr a, w\<lparr>wk_app := s\<rparr>)
      | (Inr sc', s) \<Rightarrow> call_next sc' (w\<lparr>wk_app := s\<rparr>))"

text \<open>The \<^verbatim>\<open>finally\<close> clause clears the context variable whatever the rest of the stack returns or raises.\<close>

definition workspace_context_dispatch :: "('t, 's, 'c, 'w) stack_env \<Rightarrow> ('t, 's, 'c, 'w) handler \<Rightarrow> ('t, 's, 'c, 'w) handler" where
  "workspace_context_dispatch env call_next sc w =
     (if \<not> st_workspaces_enabled env then call_next sc w
      else case st_resolve_workspace env (sc_path sc) (header sc ''x-mlflow-workspace'') of
             Inl (MlflowException c) \<Rightarrow> (Inr (Mlflow_answer c), w)
           | Inl e \<Rightarrow> (Inl e, w)
           | Inr workspace \<Rightarrow>
               (case call_next sc (w\<lparr>wk_workspace := workspace\<rparr>) of (r, w') \<Rightarrow> (r, w'\<lparr>wk_workspace := None\<rparr>)))"

definition serve :: "('t, 's, 'c, 'w) stack_env \<Rightarrow> ('t, 's, 'c, 'w) handler \<Rightarrow> ('t, 's, 'c, 'w) handler" where
  "serve env router = workspace_context_dispatch env (auth_stage env (proxy_stage env (permission_stage env router)))"

subsection \<open>What reaches the router\<close>

text \<open>
  The request and the state the router is called with, if it is called at all; the answer of the stack is
  then the router's, up to the context variable.
\<close>

definition entered :: "('t, 's, 'c, 'w) stack_env \<Rightarrow> asgi_scope \<Rightarrow> ('t, 's, 'c, 'w) worker \<Rightarrow> ('t, 's, 'c, 'w) worker option" where
  "entered env sc w =
     (if \<not> st_workspaces_enabled env then Some w
      else case st_resolve_workspace env (sc_path sc) (header sc ''x-mlflow-workspace'') of
             Inl e \<Rightarrow> None | Inr workspace \<Rightarrow> Some (w\<lparr>wk_workspace := workspace\<rparr>))"

definition identified :: "auth_response \<Rightarrow> asgi_scope \<Rightarrow> asgi_scope option" where
  "identified r sc = (case r of PassThrough \<Rightarrow> Some sc | Proceed cx \<Rightarrow> Some (authenticated_as cx sc) | _ \<Rightarrow> None)"

inductive reaches :: "('t, 's, 'c, 'w) stack_env \<Rightarrow> asgi_scope \<Rightarrow> ('t, 's, 'c, 'w) worker \<Rightarrow> asgi_scope \<Rightarrow> ('t, 's, 'c, 'w) worker \<Rightarrow> bool"
  for env where
  reach_router:
    "entered env sc w = Some w1 \<Longrightarrow> run_authentication env sc w1 = (w2, r) \<Longrightarrow> identified r sc = Some sc1 \<Longrightarrow>
     fastapi_permission_middleware (st_api env) (proxy_headers_dispatch (st_trusted_networks env) sc1) (wk_app w2) = (Inr sc', s) \<Longrightarrow>
     reaches env sc w sc' (w2\<lparr>wk_app := s\<rparr>)"

text \<open>Either the router decides the answer, or it is the same for every router.\<close>

lemma serve_reaches:
  assumes "reaches env sc w sc' w'"
  shows "fst (serve env router sc w) = fst (router sc' w')"
  using assms
proof (cases rule: reaches.cases)
  case (reach_router w1 w2 r sc1 s)
  then show ?thesis
    by (cases r) (auto simp: serve_def workspace_context_dispatch_def entered_def identified_def auth_stage_def proxy_stage_def
        permission_stage_def split: if_splits sum.splits prod.splits)
qed

lemma serve_unreached:
  assumes "\<nexists>sc' w'. reaches env sc w sc' w'"
  shows "serve env router sc w = serve env router' sc w"
proof (cases "entered env sc w")
  case None
  then show ?thesis
    by (auto simp: serve_def workspace_context_dispatch_def entered_def split: if_splits sum.splits exn.splits)
next
  case (Some w1)
  obtain w2 r where run: "run_authentication env sc w1 = (w2, r)" by (rule prod.exhaust)
  have "auth_stage env (proxy_stage env (permission_stage env router)) sc w1 = auth_stage env (proxy_stage env (permission_stage env router')) sc w1"
  proof (cases "identified r sc")
    case None
    with run show ?thesis by (cases r) (simp_all add: auth_stage_def identified_def)
  next
    case (Some sc1)
    obtain a s where mw: "fastapi_permission_middleware (st_api env) (proxy_headers_dispatch (st_trusted_networks env) sc1) (wk_app w2) = (a, s)"
      by (rule prod.exhaust)
    with reach_router [OF \<open>entered env sc w = Some w1\<close> run Some] assms obtain b where "a = Inl b" by (cases a) blast+
    with mw Some run show ?thesis by (cases r) (simp_all add: auth_stage_def identified_def proxy_stage_def permission_stage_def)
  qed
  with Some show ?thesis
    by (auto simp: serve_def workspace_context_dispatch_def entered_def split: if_splits sum.splits)
qed

end
