(* ===== verification/Transport_Properties.thy ===== *)
theory Transport_Properties
  imports Transport Route_Properties Hook_Properties
begin

section \<open>Properties of the middleware\<close>

text \<open>
  Which requests reach a route that FastAPI serves without Flask, what proxy headers may change and for
  whom they count, and the life of the workspace of a request. Starlette's router is a parameter
  \<open>route_path\<close>, the path it matches for a scope: the path of the scope less its root path.
\<close>

subsection \<open>What a native route needs\<close>

definition NATIVE_PREFIXES :: "string list" where
  "NATIVE_PREFIXES = [''/gateway/'', ''/v1/traces'', ''/ajax-api/3.0/jobs'', ''/ajax-api/3.0/mlflow/assistant'',
     ''/api/3.0/mlflow/mcp-servers'', ''/ajax-api/3.0/mlflow/mcp-servers'']"

datatype native_need = Use_endpoint string | Update_experiment string | Read_method | Any_account | Unnamed

definition native_need :: "('c, 'w) api_env \<Rightarrow> string \<Rightarrow> asgi_scope \<Rightarrow> native_need" where
  "native_need env path sc =
     (if prefix ''/gateway/'' path
      then (case extract_gateway_endpoint_name path (sc_body sc) of
              Inr v \<Rightarrow> if v = JNull then Unnamed else Use_endpoint (text_value env v) | Inl e \<Rightarrow> Unnamed)
      else if prefix ''/v1/traces'' path
      then (case opt_str (header sc ''x-mlflow-experiment-id'') of Some eid \<Rightarrow> Update_experiment eid | None \<Rightarrow> Unnamed)
      else if prefix ''/api/3.0/mlflow/mcp-servers'' path \<or> prefix ''/ajax-api/3.0/mlflow/mcp-servers'' path then Read_method
      else Any_account)"

fun named_resource :: "native_need \<Rightarrow> (string \<times> string \<times> (permission \<Rightarrow> bool)) option" where
  "named_resource (Use_endpoint nm) = Some (GATEWAY_ENDPOINT, nm, can_use)"
| "named_resource (Update_experiment eid) = Some (EXPERIMENT, eid, can_update)"
| "named_resource _ = None"

definition met :: "('c, 'w) api_env \<Rightarrow> db \<Rightarrow> string \<Rightarrow> asgi_scope \<Rightarrow> native_need \<Rightarrow> bool" where
  "met env d uname sc need \<longleftrightarrow>
     (case named_resource need of
        Some (rtype, rid, f) \<Rightarrow> \<exists>pr. decide (single_env env) d rtype rid uname None = Inr pr \<and> f (pr_permission pr)
      | None \<Rightarrow> need = Any_account \<or> need = Read_method \<and> sc_method sc \<in> {''GET'', ''HEAD''})"

lemma flag_decision:
  assumes "resolver_caches pc wc" and "e_pc (pe_resolver env) = pc" and "e_wc (pe_resolver env) = wc"
    and "coherent (pe_resolver env) s" and "colon_free rid" and "rtype \<in> set resource_types" and "rtype \<noteq> SCORER"
    and "flag_of f (resolve_permission (single_env env) s rtype rid uname None) = (Inr True, s')"
  shows "\<exists>pr. decide (single_env env) (a_db s) rtype rid uname None = Inr pr \<and> f (pr_permission pr)"
proof -
  obtain pr a' where run: "resolve_permission (single_env env) s rtype rid uname None = (pr, a')" by (rule prod.exhaust)
  have "pr = decide (single_env env) (a_db s) rtype rid uname None"
    using resolver_caches.resolve_decision [OF assms(1) _ _ _ _ _ _ run] assms(2-7) by (simp add: plain_workspace_def)
  with assms(8) run show ?thesis by (auto simp: flag_of_def bindE_eq_Inr)
qed

lemma apart_prefixes: "prefix p path \<Longrightarrow> \<not> prefix p q \<Longrightarrow> \<not> prefix q p \<Longrightarrow> \<not> prefix q path"
  using prefix_same_cases by blast

lemma extract_body_unneeded:
  "path \<notin> set ROUTES_NEEDING_BODY \<Longrightarrow> extract_gateway_endpoint_name path b = extract_gateway_endpoint_name path b'"
  by (simp add: extract_gateway_endpoint_name_def split: option.split)

text \<open>The validators ask for what the route needs.\<close>

lemma native_validators_check:
  assumes "resolver_caches pc wc" and "e_pc (pe_resolver env) = pc" and "e_wc (pe_resolver env) = wc" and "coherent (pe_resolver env) s"
    and "find_fastapi_validator env path = Some validator" and "validator uname sc s = (Inr True, sc', s')"
    and "\<forall>rtype rid f. named_resource (native_need env path sc) = Some (rtype, rid, f) \<longrightarrow> colon_free rid"
  shows "met env (a_db s) uname sc (native_need env path sc)"
proof -
  note decided = flag_decision [OF assms(1-4)]
  consider "prefix ''/gateway/'' path" | "\<not> prefix ''/gateway/'' path" "prefix ''/v1/traces'' path"
    | "\<not> prefix ''/gateway/'' path" "\<not> prefix ''/v1/traces'' path" by blast
  then show ?thesis
  proof cases
    case 1
    then have run: "get_gateway_validator env path uname sc s = (Inr True, sc', s')"
      using assms(5,6) by (simp add: find_fastapi_validator_def)
    have body: "extract_gateway_endpoint_name path (if path \<in> set ROUTES_NEEDING_BODY then sc_body sc else None) =
        extract_gateway_endpoint_name path (sc_body sc)"
      using extract_body_unneeded by (cases "path \<in> set ROUTES_NEEDING_BODY") auto
    from run obtain v where v: "extract_gateway_endpoint_name path (sc_body sc) = Inr v" "v \<noteq> JNull"
      and asked: "can_use_gateway_endpoint (single_env env) s (text_value env v) uname = (Inr True, s')"
      unfolding get_gateway_validator_def Let_def body
      by (cases "extract_gateway_endpoint_name path (sc_body sc)") (auto split: if_splits json.splits prod.splits)
    from v 1 have need: "native_need env path sc = Use_endpoint (text_value env v)" by (simp add: native_need_def)
    with assms(7) decided [of "text_value env v" GATEWAY_ENDPOINT can_use uname s'] asked show ?thesis
      by (simp add: met_def can_use_gateway_endpoint_def effective_gateway_endpoint_permission_def resource_types_def)
  next
    case 2
    then have run: "get_otel_validator env uname sc s = (Inr True, sc', s')"
      using assms(5,6) by (simp add: find_fastapi_validator_def)
    then obtain eid where eid: "opt_str (header sc ''x-mlflow-experiment-id'') = Some eid"
      and asked: "flag_of can_update (effective_experiment_permission (single_env env) s eid uname) = (Inr True, s')"
      by (auto simp: get_otel_validator_def split: option.splits prod.splits)
    from eid 2 have need: "native_need env path sc = Update_experiment eid" by (simp add: native_need_def)
    with assms(7) decided [of eid EXPERIMENT can_update uname s'] asked show ?thesis
      by (simp add: met_def effective_experiment_permission_def resource_types_def)
  next
    case 3
    have apart: "\<not> prefix q path" if "prefix p path" "p \<in> {''/ajax-api/3.0/jobs'', ''/ajax-api/3.0/mlflow/assistant''}"
      "q \<in> set MCP_SERVER_PREFIXES" for p q
      using apart_prefixes [OF that(1)] that(2,3) by (auto simp: MCP_SERVER_PREFIXES_def)
    with 3 assms(5,6) show ?thesis
      by (auto simp: find_fastapi_validator_def MCP_SERVER_PREFIXES_def native_need_def met_def get_mcp_server_registry_validator_def
          split: if_splits)
  qed
qed

subsection \<open>Proxies\<close>

lemma set_host_header: "k \<noteq> ''host'' \<Longrightarrow> map_of (set_host v hs) k = map_of hs k"
  by (induction hs) (auto simp: set_host_def)

lemma proxy_headers_keep:
  "sc_path (proxy_headers_dispatch nets sc) = sc_path sc" "sc_method (proxy_headers_dispatch nets sc) = sc_method sc"
  "sc_body (proxy_headers_dispatch nets sc) = sc_body sc" "sc_client (proxy_headers_dispatch nets sc) = sc_client sc"
  "sc_username (proxy_headers_dispatch nets sc) = sc_username sc" "sc_is_admin (proxy_headers_dispatch nets sc) = sc_is_admin sc"
  "sc_context (proxy_headers_dispatch nets sc) = sc_context sc"
  "k \<noteq> ''host'' \<Longrightarrow> header (proxy_headers_dispatch nets sc) k = header sc k"
  by (simp_all add: proxy_headers_dispatch_def forward_host_def header_def set_host_header Let_def split: option.split)

lemma native_validator: "(\<exists>p\<in>set NATIVE_PREFIXES. prefix p path) \<Longrightarrow> \<exists>v. find_fastapi_validator env path = Some v"
  by (auto simp: NATIVE_PREFIXES_def find_fastapi_validator_def MCP_SERVER_PREFIXES_def)

lemma flag_run_database: "flag_of f (resolve_permission env s rtype rid uname kw) = (r, s') \<Longrightarrow> a_db s' = a_db s"
  using flag_database [OF resolve_database, of f env s rtype rid uname kw] by simp

lemma validator_keeps_request:
  assumes "find_fastapi_validator env path = Some validator" and "validator uname sc s = (r, sc', s')"
  shows "\<exists>b. sc' = sc\<lparr>sc_cached_body := b\<rparr>" and "a_db s' = a_db s"
proof -
  have "sc' = sc \<or> sc' = sc\<lparr>sc_cached_body := sc_body sc\<rparr>"
    using assms
    by (auto simp: find_fastapi_validator_def get_gateway_validator_def get_otel_validator_def get_require_authentication_validator_def
        get_mcp_server_registry_validator_def Let_def split: if_splits sum.splits json.splits option.splits prod.splits)
  then show "\<exists>b. sc' = sc\<lparr>sc_cached_body := b\<rparr>" using exI [of "\<lambda>b. sc = sc\<lparr>sc_cached_body := b\<rparr>" "sc_cached_body sc"] by auto
  show "a_db s' = a_db s"
    using assms
    by (auto simp: find_fastapi_validator_def get_gateway_validator_def get_otel_validator_def get_require_authentication_validator_def
        get_mcp_server_registry_validator_def can_use_gateway_endpoint_def effective_gateway_endpoint_permission_def
        effective_experiment_permission_def Let_def split: if_splits sum.splits json.splits option.splits prod.splits dest: flag_run_database)
qed

lemma permission_stage_passed:
  assumes "fastapi_permission_middleware env sc s = (Inr sc', s')"
  obtains (unguarded) "find_fastapi_validator env (sc_path sc) = None" "sc' = sc" "s' = s"
  | (admin) uname where "sc_username sc = Some uname" "sc_is_admin sc" "sc' = sc" "s' = s"
  | (checked) uname validator where "find_fastapi_validator env (sc_path sc) = Some validator" "sc_username sc = Some uname"
      "validator uname sc s = (Inr True, sc', s')"
  using assms
  by (auto simp: fastapi_permission_middleware_def opt_str_def split: option.splits if_splits prod.splits sum.splits bool.splits)

text \<open>Every middleware leaves the fields the permission check reads.\<close>

lemma permission_stage_keeps:
  assumes "fastapi_permission_middleware env sc s = (Inr sc', s')"
  shows "\<exists>b. sc' = sc\<lparr>sc_cached_body := b\<rparr>" and "a_db s' = a_db s"
  using assms
proof (atomize (full), cases rule: permission_stage_passed)
  case (checked uname validator)
  with validator_keeps_request [OF checked(1,3)] show "(\<exists>b. sc' = sc\<lparr>sc_cached_body := b\<rparr>) \<and> a_db s' = a_db s" by blast
qed (auto intro!: exI [of _ "sc_cached_body sc"])

lemma need_of_request:
  assumes "sc' = sc\<lparr>sc_cached_body := b\<rparr>"
  shows "native_need env path sc' = native_need env path sc" and "met env d uname sc' need = met env d uname sc need"
  unfolding assms by (simp_all add: native_need_def met_def header_def split: option.split)

lemma reached_account:
  assumes "account_ok (a_db (wk_app w))" and "reaches env sc w sc' w'" and "sc_username sc = None" and "sc_username sc' = Some uname"
  obtains u where "u \<in> set (users (a_db (wk_app w')))" "u_username u = normalize_username uname" "u_active u" "u_is_admin u = sc_is_admin sc'"
  using assms(2)
proof (cases rule: reaches.cases)
  case (reach_router w1 w2 r sc1 s)
  from reach_router(2) have app: "wk_app w1 = wk_app w" by (auto simp: entered_def split: if_splits sum.splits)
  from permission_stage_keeps [OF reach_router(5)] have sc': "sc_username sc' = sc_username sc1" "sc_is_admin sc' = sc_is_admin sc1"
    and d: "a_db s = a_db (wk_app w2)" by (auto simp: proxy_headers_keep)
  from sc'(1) assms(3,4) reach_router(4) obtain cx where r: "r = Proceed cx" "sc1 = authenticated_as cx sc"
    by (auto simp: identified_def split: auth_response.splits)
  from reach_router(3) r(1) app obtain aw where
    run: "dispatch (st_auth env) ((wk_auth w1)\<lparr>ah_db := a_db (wk_app w)\<rparr>) (auth_request sc) = (aw, Proceed cx)"
    and w2: "a_db (wk_app w2) = ah_db aw"
    by (auto simp: run_authentication_def split: prod.splits)
  from proceed_active [OF _ run] assms(1) obtain u where "u \<in> set (users (ah_db aw))" "u_username u = normalize_username (cx_username cx)"
    "u_active u" "u_is_admin u = cx_is_admin cx" by auto
  with that [of u] d w2 sc' r(2) assms(4) reach_router(1) show thesis by (simp add: authenticated_as_def)
qed

lemma authentication_app:
  assumes "run_authentication env sc w = (w2, r)" and "a_db (wk_app w2) = a_db (wk_app w)"
  shows "wk_app w2 = wk_app w"
  using assms by (auto simp: run_authentication_def split: prod.splits)

lemma reached_need:
  assumes "resolver_caches pc wc" and "e_pc (pe_resolver (st_api env)) = pc" and "e_wc (pe_resolver (st_api env)) = wc"
    and "coherent (pe_resolver (st_api env)) (wk_app w)" and "reaches env sc w sc' w'" and "a_db (wk_app w') = a_db (wk_app w)"
    and "\<exists>p\<in>set NATIVE_PREFIXES. prefix p (sc_path sc')"
    and "\<forall>rtype rid f. named_resource (native_need (st_api env) (sc_path sc') sc') = Some (rtype, rid, f) \<longrightarrow> colon_free rid"
  shows "\<exists>uname. sc_username sc' = Some uname \<and>
    (sc_is_admin sc' \<or> met (st_api env) (a_db (wk_app w')) uname sc' (native_need (st_api env) (sc_path sc') sc'))"
  using assms(5)
proof (cases rule: reaches.cases)
  case (reach_router w1 w2 r sc1 s)
  let ?px = "proxy_headers_dispatch (st_trusted_networks env) sc1"
  have app: "wk_app w1 = wk_app w" using reach_router(2) by (auto simp: entered_def split: if_splits sum.splits)
  have d: "a_db s = a_db (wk_app w2)" by (rule permission_stage_keeps(2) [OF reach_router(5)])
  with authentication_app [OF reach_router(3)] app reach_router(1) assms(6) have w2: "wk_app w2 = wk_app w" by simp
  obtain b where sc': "sc' = ?px\<lparr>sc_cached_body := b\<rparr>" using permission_stage_keeps(1) [OF reach_router(5)] by blast
  then have path: "sc_path ?px = sc_path sc'" "sc_username ?px = sc_username sc'" "sc_is_admin ?px = sc_is_admin sc'" by simp_all
  from reach_router(5) show ?thesis
  proof (cases rule: permission_stage_passed)
    case unguarded
    from native_validator [OF assms(7), of "st_api env"] unguarded(1) show ?thesis unfolding path by simp
  next
    case (admin uname)
    from admin(1,2) show ?thesis unfolding path by simp
  next
    case (checked uname validator)
    have coh: "coherent (pe_resolver (st_api env)) (wk_app w2)" using assms(4) w2 by simp
    note need = need_of_request [OF sc', of "st_api env"]
    from native_validators_check [OF assms(1-3) coh checked(1,3)] assms(8)
    have "met (st_api env) (a_db (wk_app w2)) uname ?px (native_need (st_api env) (sc_path sc') ?px)" by (simp add: path need)
    with checked(2) path d reach_router(1) show ?thesis by (auto simp: need)
  qed
qed


definition stack_request :: "string \<Rightarrow> string \<Rightarrow> (string \<times> string) list \<Rightarrow> asgi_scope" where
  "stack_request m path hs =
     \<lparr>sc_method = m, sc_scheme = ''http'', sc_path = path, sc_query = [], sc_root_path = [], sc_headers = hs, sc_hostname = None,
      sc_server = None, sc_client = Some ''10.0.0.9'', sc_body = None, sc_username = None, sc_is_admin = False, sc_context = None,
      sc_cached_body = None, sc_proxy_info = None\<rparr>"

definition sample_stack_env where
  "sample_stack_env cidrs =
     \<lparr>st_auth = sample_auth_env, st_api = sample_api_env, st_trusted_networks = parse_trusted_proxies cidrs, st_workspaces_enabled = False,
      st_resolve_workspace = (\<lambda>_ _. Inr None)\<rparr>"

definition sample_worker where
  "sample_worker = \<lparr>wk_auth = sample_auth_world, wk_app = sample_app\<lparr>a_db := account_db\<rparr>, wk_workspace = None\<rparr>"

text \<open>\<^verbatim>\<open>bob\<close>, who may edit experiment 7 through a group, sends traces to it.\<close>

definition traces_request :: asgi_scope where
  "traces_request = stack_request ''POST'' ''/v1/traces'' [(''x-mlflow-experiment-id'', ''7'')]"

lemma sample_worker_sel [simp]:
  "wk_app sample_worker = sample_app\<lparr>a_db := account_db\<rparr>" "st_api (sample_stack_env cidrs) = sample_api_env"
  "st_workspaces_enabled (sample_stack_env cidrs) = False" "st_trusted_networks (sample_stack_env cidrs) = parse_trusted_proxies cidrs"
  by (simp_all add: sample_worker_def sample_stack_env_def)

lemma traces_authenticated:
  "\<exists>w2. run_authentication (sample_stack_env []) traces_request sample_worker =
     (w2, Proceed \<lparr>cx_username = ''bob'', cx_is_admin = False, cx_workspace = None\<rparr>) \<and> wk_app w2 = wk_app sample_worker"
proof -
  let ?r = "run_authentication (sample_stack_env []) traces_request sample_worker"
  have "a_db (wk_app (fst ?r)) = account_db" "snd ?r = Proceed \<lparr>cx_username = ''bob'', cx_is_admin = False, cx_workspace = None\<rparr>"
    by code_simp+
  then show ?thesis using authentication_app [of "sample_stack_env []" traces_request sample_worker "fst ?r" "snd ?r"] by (cases ?r) simp
qed

lemma traces_reach:
  "\<exists>sc' w'. reaches (sample_stack_env []) traces_request sample_worker sc' w' \<and> a_db (wk_app w') = account_db \<and> sc_root_path sc' = [] \<and>
     sc_path sc' = ''/v1/traces'' \<and> sc_username sc' = Some ''bob'' \<and> header sc' ''x-mlflow-experiment-id'' = Some ''7''"
proof -
  let ?cx = "\<lparr>cx_username = ''bob'', cx_is_admin = False, cx_workspace = None\<rparr>"
  let ?px = "proxy_headers_dispatch (parse_trusted_proxies []) (authenticated_as ?cx traces_request)"
  obtain w2 where run: "run_authentication (sample_stack_env []) traces_request sample_worker = (w2, Proceed ?cx)"
    and app: "wk_app w2 = wk_app sample_worker" using traces_authenticated by blast
  have "\<not> isl (fst (fastapi_permission_middleware sample_api_env ?px (wk_app sample_worker)))" by code_simp
  then obtain sc' s where mw: "fastapi_permission_middleware sample_api_env ?px (wk_app w2) = (Inr sc', s)"
    unfolding app by (metis prod.collapse sum.collapse(2))
  have reach: "reaches (sample_stack_env []) traces_request sample_worker sc' (w2\<lparr>wk_app := s\<rparr>)"
    using mw by (intro reach_router [OF _ run]) (simp_all add: entered_def identified_def)
  have px: "sc_root_path ?px = []" "sc_path ?px = ''/v1/traces''" "sc_username ?px = Some ''bob''" "header ?px ''x-mlflow-experiment-id'' = Some ''7''"
    by code_simp+
  from permission_stage_keeps [OF mw] px app reach show ?thesis
    by (intro exI [of _ sc'] exI [of _ "w2\<lparr>wk_app := s\<rparr>"]) (auto simp: header_def)
qed


subsection \<open>Trusted proxies\<close>

text \<open>An address agrees with a network on the bits of the prefix.\<close>

fun shares_prefix :: "ip_address \<Rightarrow> ip_network \<Rightarrow> bool" where
  "shares_prefix (IPv4Address a) (IPv4Network n p) \<longleftrightarrow> (\<forall>i<32. 32 \<le> i + p \<longrightarrow> bit a i = bit n i)"
| "shares_prefix (IPv6Address a) (IPv6Network n p) \<longleftrightarrow> (\<forall>i<128. 128 \<le> i + p \<longrightarrow> bit a i = bit n i)"
| "shares_prefix _ _ \<longleftrightarrow> False"

lemma in_network_shares_prefix: "network_ok n \<Longrightarrow> in_network ip n \<longleftrightarrow> shares_prefix ip n"
proof (cases ip; cases n)
  fix a m p
  assume "network_ok n" "ip = IPv4Address a" "n = IPv4Network m p"
  then show "in_network ip n \<longleftrightarrow> shares_prefix ip n" using masked_eq_iff [of a p m] by (simp add: network_ok_def)
next
  fix a m p
  assume "network_ok n" "ip = IPv6Address a" "n = IPv6Network m p"
  then show "in_network ip n \<longleftrightarrow> shares_prefix ip n" using masked_eq_iff [of a p m] by (simp add: network_ok_def)
qed simp_all

lemma trusted_networks:
  "set (parse_trusted_proxies cidrs) = {n. \<exists>cidr\<in>set cidrs. py_strip cidr \<noteq> [] \<and> ip_network (py_strip cidr) = Inr n}"
  by (induction cidrs) (auto split: sum.splits)


definition forwarded_request :: asgi_scope where
  "forwarded_request = stack_request ''GET'' ''/'' [(''host'', ''inner''), (''x-forwarded-host'', ''mlflow.example''), (''x-forwarded-proto'', ''https'')]"


text \<open>
  A configuration of which no entry is well formed leaves no network, and then every client is trusted:
  the entries are skipped with a warning.
\<close>

theorem malformed_proxies_trust_everyone:
  "is_trusted_proxy (parse_trusted_proxies [''10.0.0.0/33'', ''proxy.internal'']) sc"
proof -
  have "parse_trusted_proxies [''10.0.0.0/33'', ''proxy.internal''] = []" by code_simp
  then show ?thesis by (simp add: is_trusted_proxy_def)
qed

subsection \<open>A prefix hides the route\<close>

text \<open>
  The permission check and the authentication compare the path of the scope, the router matches it less
  the root path, and \<^verbatim>\<open>X-Forwarded-Prefix\<close> sets the root path. With the default
  configuration, which trusts every client, a request for any route under an unprotected prefix that it also
  sends as the header reaches that route with no credentials at all.
\<close>

theorem forwarded_prefix_hides_the_route:
  assumes "st_trusted_networks env = []" and "\<not> st_workspaces_enabled env" and "prefix ''/'' p"
    and "\<forall>x q. sc_path x = sc_root_path x @ q \<and> prefix ''/'' q \<longrightarrow> route_path x = q"
  shows "\<exists>sc' w'. reaches env (stack_request m (''/health'' @ p) [(''x-forwarded-prefix'', ''/health'')]) w sc' w' \<and>
    route_path sc' = p \<and> sc_username sc' = None"
proof -
  define sc where "sc = stack_request m (''/health'' @ p) [(''x-forwarded-prefix'', ''/health'')]"
  define px where "px = proxy_headers_dispatch [] sc"
  have sel: "sc_path sc = ''/health'' @ p" "sc_headers sc = [(''x-forwarded-prefix'', ''/health'')]" "sc_username sc = None"
    by (simp_all add: sc_def stack_request_def)
  have "is_unprotected_route (''/health'' @ p)" by (simp add: is_unprotected_route_def unprotected_prefixes_def)
  then obtain w2 where run: "run_authentication env sc w = (w2, PassThrough)"
    by (simp add: run_authentication_def dispatch_def auth_request_def sel(1))
  have "rstrip_slash ''/health'' = ''/health''" by code_simp
  then have px: "sc_path px = ''/health'' @ p" "sc_root_path px = ''/health''" "sc_username px = None"
    by (simp_all add: px_def proxy_headers_dispatch_def is_trusted_proxy_def get_forwarded_prefix_def get_forwarded_proto_def get_forwarded_host_def
        header_def opt_str_def sel Let_def)
  have "find_fastapi_validator (st_api env) (''/health'' @ p) = None" by (simp add: find_fastapi_validator_def MCP_SERVER_PREFIXES_def)
  then have "fastapi_permission_middleware (st_api env) px (wk_app w2) = (Inr px, wk_app w2)"
    by (simp add: fastapi_permission_middleware_def px(1))
  with run assms(1,2) have "reaches env sc w px (w2\<lparr>wk_app := wk_app w2\<rparr>)"
    by (intro reach_router [where r = PassThrough]) (simp_all add: entered_def identified_def px_def)
  moreover have "route_path px = p" using assms(3,4) px(1,2) by simp
  ultimately show ?thesis using px(3) unfolding sc_def by blast
qed

text \<open>Where the router cuts the root path off, a gateway endpoint is invoked by nobody.\<close>

theorem forwarded_prefix_hides_the_route_witness:
  "\<exists>sc' w'. reaches (sample_stack_env []) (stack_request ''POST'' ''/health/gateway/e/mlflow/invocations'' [(''x-forwarded-prefix'', ''/health'')])
     sample_worker sc' w' \<and> drop (length (sc_root_path sc')) (sc_path sc') = ''/gateway/e/mlflow/invocations'' \<and> sc_username sc' = None"
  using forwarded_prefix_hides_the_route [of "sample_stack_env []" "''/gateway/e/mlflow/invocations''" "\<lambda>x. drop (length (sc_root_path x)) (sc_path x)"
    "''POST''" sample_worker] by simp

subsection \<open>The workspace of a request\<close>


definition sample_workspace_env where
  "sample_workspace_env = (sample_stack_env [])\<lparr>st_workspaces_enabled := True,
     st_resolve_workspace := (\<lambda>path h. if h = Some ''ws'' then Inr (Some ''ws'') else Inl (MlflowException RESOURCE_DOES_NOT_EXIST))\<rparr>"


end
