(* ===== verification/Graphql.thy ===== *)
theory Graphql
  imports Authorization
begin

section \<open>Fields of GraphQL queries (graphql/middleware.py)\<close>

text \<open>
  MLflow serves GraphQL behind one route, so the resources are checked per field: the middleware answers
  \<^verbatim>\<open>null\<close> for a protected field the caller may not read, and narrows searches to the
  experiments he may read. The arguments of a field are a dictionary; the input object under
  \<^verbatim>\<open>input\<close> is one too, or absent. The field \<^verbatim>\<open>modelVersions\<close> hangs
  on a run, whose experiment is the argument \<open>root\<close> (\<open>JNull\<close> when the root has none).
\<close>

subsection \<open>Input objects\<close>

definition get_input_obj :: "dict \<Rightarrow> json" where
  "get_input_obj args = jget args ''input''"

definition get_input_attr :: "json \<Rightarrow> string \<Rightarrow> json \<Rightarrow> json" where
  "get_input_attr obj nm dflt = (case obj of JObj kvs \<Rightarrow> jget_or kvs nm dflt | _ \<Rightarrow> dflt)"

definition set_key :: "string \<Rightarrow> json \<Rightarrow> dict \<Rightarrow> dict" where
  "set_key k v d = (if k \<in> fst ` set d then map (\<lambda>(k', w). (k', if k' = k then v else w)) d else d @ [(k, v)])"

definition set_input_attr :: "json \<Rightarrow> string \<Rightarrow> json \<Rightarrow> json" where
  "set_input_attr obj nm v = (case obj of JObj kvs \<Rightarrow> JObj (set_key nm v kvs) | _ \<Rightarrow> obj)"

definition or_value :: "json \<Rightarrow> json \<Rightarrow> json" where
  "or_value v w = (if truthy v then v else w)"

subsection \<open>The value of a simple filter\<close>

text \<open>
  \<^verbatim>\<open>\b\<close> before a key that begins with a word character holds where no word character
  precedes; the search takes the first position that matches.
\<close>

definition is_word :: "char \<Rightarrow> bool" where
  "is_word c \<longleftrightarrow> is_digit c \<or> c = CHR ''_'' \<or> (97 \<le> (of_char (lower_char c) :: nat) \<and> (of_char (lower_char c) :: nat) \<le> 122)"

definition quotes :: string where "quotes = [CHR 0x27, CHR 0x22]"

fun search_at_word :: "(string \<Rightarrow> 'a option) \<Rightarrow> bool \<Rightarrow> string \<Rightarrow> 'a option" where
  "search_at_word f boundary [] = None"
| "search_at_word f boundary (c # s) =
     (case (if boundary then f (c # s) else None) of Some v \<Rightarrow> Some v | None \<Rightarrow> search_at_word f (\<not> is_word c) s)"

text \<open>What follows the key at the beginning of a string, where the key ends at a word boundary.\<close>

definition after_key :: "(string \<Rightarrow> string) \<Rightarrow> string \<Rightarrow> string \<Rightarrow> string option" where
  "after_key norm key s =
     (if prefix (norm key) (norm s) \<and> (case drop (length key) s of [] \<Rightarrow> True | c # _ \<Rightarrow> \<not> is_word c)
      then Some (drop (length key) s) else None)"

definition equality_at :: "string \<Rightarrow> string \<Rightarrow> string option" where
  "equality_at key s =
     (case map_option (dropWhile is_space) (after_key id key s) of
        Some (e # s1) \<Rightarrow>
          (if e \<noteq> CHR ''='' then None
           else case dropWhile is_space s1 of
                  q # s2 \<Rightarrow>
                    (let v = takeWhile (\<lambda>c. c \<notin> set quotes) s2; rest = dropWhile (\<lambda>c. c \<notin> set quotes) s2
                     in if q \<in> set quotes \<and> v \<noteq> [] \<and> prefix [q] rest then Some v else None)
                | [] \<Rightarrow> None)
      | _ \<Rightarrow> None)"

definition in_list_at :: "string \<Rightarrow> string \<Rightarrow> string option" where
  "in_list_at key s =
     (case after_key py_lower key s of
        None \<Rightarrow> None
      | Some s0 \<Rightarrow>
          (let s1 = dropWhile is_space s0 in
           if s1 = s0 \<or> py_lower (take 2 s1) \<noteq> ''in'' then None
           else case dropWhile is_space (drop 2 s1) of
                  b # s2 \<Rightarrow>
                    (let vals = takeWhile (\<lambda>c. c \<noteq> CHR '')'') s2
                     in if b = CHR ''('' \<and> vals \<noteq> [] \<and> CHR '')'' \<in> set s2 then Some vals else None)
                | [] \<Rightarrow> None))"

definition unquoted :: "string \<Rightarrow> string option" where
  "unquoted token =
     (let t = py_strip token in if 2 \<le> length t \<and> hd t \<in> set quotes \<and> last t = hd t then Some (butlast (tl t)) else None)"

fun first_some :: "('a \<Rightarrow> 'b option) \<Rightarrow> 'a list \<Rightarrow> 'b option" where
  "first_some f [] = None"
| "first_some f (x # xs) = (case f x of Some y \<Rightarrow> Some y | None \<Rightarrow> first_some f xs)"

definition extract_first_filter_value :: "string \<Rightarrow> string \<Rightarrow> string option" where
  "extract_first_filter_value filter_str key =
     (case search_at_word (equality_at key) True filter_str of
        Some v \<Rightarrow> Some v
      | None \<Rightarrow>
          (case search_at_word (in_list_at key) True filter_str of
             Some vals \<Rightarrow> first_some unquoted (py_split (CHR '','') vals)
           | None \<Rightarrow> None))"

subsection \<open>Authorisation of a field\<close>

definition gql_can_read_experiment :: "('c, 'w) request_env \<Rightarrow> string \<Rightarrow> string \<Rightarrow> ('c, 'w, bool) check" where
  "gql_can_read_experiment env eid uname = allowed can_read (experiment_permission env eid uname)"

definition gql_can_read_run :: "('c, 'w) request_env \<Rightarrow> string \<Rightarrow> string \<Rightarrow> ('c, 'w, bool) check" where
  "gql_can_read_run env run_id uname =
     bind_check (lift_res (qe_run_experiment env (JStr run_id))) (\<lambda>eid. gql_can_read_experiment env eid uname)"

definition gql_can_read_model :: "('c, 'w) request_env \<Rightarrow> string \<Rightarrow> string \<Rightarrow> ('c, 'w, bool) check" where
  "gql_can_read_model env nm uname = allowed can_read (registered_model_permission env nm uname)"

definition PROTECTED_FIELDS :: "string list" where
  "PROTECTED_FIELDS = [''mlflowGetExperiment'', ''mlflowGetRun'', ''mlflowListArtifacts'', ''mlflowGetMetricHistoryBulkInterval'',
     ''mlflowSearchRuns'', ''mlflowSearchDatasets'', ''mlflowSearchModelVersions'', ''modelVersions'']"

text \<open>The elements of a list argument, \<^verbatim>\<open>attr or []\<close>, and the check of a search by its filter.\<close>

definition list_attr :: "json \<Rightarrow> string \<Rightarrow> json list res" where
  "list_attr obj nm = (let v = get_input_attr obj nm (JList []) in if truthy v then iter_value v else Inr [])"

definition check_model_versions :: "('c, 'w) request_env \<Rightarrow> json \<Rightarrow> string \<Rightarrow> ('c, 'w, bool) check" where
  "check_model_versions env obj uname =
     (let f = or_value (get_input_attr obj ''filter'' JNull) (get_input_attr obj ''filter_string'' JNull); fs = text_of env f in
      if \<not> truthy f then lift_res (Inr False)
      else case opt_str (extract_first_filter_value fs ''name'') of
             Some nm \<Rightarrow> gql_can_read_model env nm uname
           | None \<Rightarrow>
               (case (case opt_str (extract_first_filter_value fs ''run_id'') of
                        Some r \<Rightarrow> Some r | None \<Rightarrow> opt_str (extract_first_filter_value fs ''run_uuid'')) of
                  Some r \<Rightarrow> gql_can_read_run env r uname
                | None \<Rightarrow> lift_res (Inr False)))"

definition SEARCH_FIELDS :: "string list" where
  "SEARCH_FIELDS = [''mlflowSearchRuns'', ''mlflowSearchDatasets'']"

text \<open>The branches that answer without changing the input, and the whole method.\<close>

definition read_experiment_or_none :: "('c, 'w) request_env \<Rightarrow> json \<Rightarrow> string \<Rightarrow> ('c, 'w, bool) check" where
  "read_experiment_or_none env v uname =
     (if v = JNull then lift_res (Inr True) else gql_can_read_experiment env (text_of env v) uname)"

definition run_of_input :: "json \<Rightarrow> json" where
  "run_of_input obj = or_value (get_input_attr obj ''run_id'' JNull) (get_input_attr obj ''run_uuid'' JNull)"

definition check_plain_field :: "('c, 'w) request_env \<Rightarrow> string \<Rightarrow> json \<Rightarrow> json \<Rightarrow> string \<Rightarrow> ('c, 'w, bool) check" where
  "check_plain_field env field root obj uname =
     (if field = ''mlflowGetExperiment'' then read_experiment_or_none env (get_input_attr obj ''experiment_id'' JNull) uname
      else if field \<in> {''mlflowGetRun'', ''mlflowListArtifacts''}
      then (if run_of_input obj = JNull then lift_res (Inr True) else gql_can_read_run env (text_of env (run_of_input obj)) uname)
      else if field = ''mlflowGetMetricHistoryBulkInterval''
      then bind_check (lift_res (list_attr obj ''run_ids'')) (all_check (\<lambda>v. gql_can_read_run env (text_of env v) uname))
      else if field = ''modelVersions'' then read_experiment_or_none env root uname
      else if field = ''mlflowSearchModelVersions'' then check_model_versions env obj uname
      else lift_res (Inr True))"

definition check_authorization ::
  "('c, 'w) request_env \<Rightarrow> string \<Rightarrow> json \<Rightarrow> json \<Rightarrow> string \<Rightarrow> ('c, 'w, bool \<times> json) check" where
  "check_authorization env field root obj uname =
     (if obj = JNull then lift_res (Inr (True, obj))
      else if field \<in> set SEARCH_FIELDS
      then bind_check (lift_res (list_attr obj ''experiment_ids'')) (\<lambda>ids.
           bind_check (filter_check (\<lambda>eid. gql_can_read_experiment env eid uname) (map (text_of env) ids)) (\<lambda>readable.
             lift_res (Inr (if readable = [] then (False, obj)
                            else (True, set_input_attr obj ''experiment_ids'' (JList (map JStr readable)))))))
      else bind_check (check_plain_field env field root obj uname) (\<lambda>b. lift_res (Inr (b, obj))))"

text \<open>\<open>Next args\<close>: the resolver of the field is called with these arguments. \<open>Null\<close>: the field is \<^verbatim>\<open>null\<close>.\<close>

datatype graphql_result = Null | Next dict

definition gql_auth_context :: "('c, 'w) request_env \<Rightarrow> string option \<times> bool" where
  "gql_auth_context env = (case get_fastapi_username env of Inr u \<Rightarrow> Some u | Inl _ \<Rightarrow> None, get_fastapi_admin_status env)"

definition resolve_field ::
  "('c, 'w) request_env \<Rightarrow> string option \<Rightarrow> json \<Rightarrow> dict \<Rightarrow> ('c, 'w) app \<Rightarrow> graphql_result \<times> ('c, 'w) app" where
  "resolve_field env field root args s =
     (case opt_str field of
        None \<Rightarrow> (Next args, s)
      | Some f \<Rightarrow>
          if f \<notin> set PROTECTED_FIELDS then (Next args, s)
          else case gql_auth_context env of
                 (None, _) \<Rightarrow> (Null, s)
               | (Some uname, True) \<Rightarrow> (Next args, s)
               | (Some uname, False) \<Rightarrow>
                   (case check_authorization env f root (get_input_obj args) uname s of
                      (Inr (True, obj), s') \<Rightarrow>
                        (Next (if obj = get_input_obj args then args else set_key ''input'' obj args), s')
                    | (_, s') \<Rightarrow> (Null, s')))"

subsection \<open>What a field needs\<close>

text \<open>
  The resources of a field, for the input its resolver sees. Of a filter the first name or run counts, which
  is all the middleware looks at.
\<close>

definition read_needs :: "('c, 'w) request_env \<Rightarrow> json \<Rightarrow> need list option" where
  "read_needs env v = (if v = JNull then Some [] else on_experiment can_read (text_of env v))"

definition gql_run_needs :: "('c, 'w) request_env \<Rightarrow> string \<Rightarrow> need list option" where
  "gql_run_needs env r = res_needs (qe_run_experiment env (JStr r)) (on_experiment can_read)"

definition model_version_needs :: "('c, 'w) request_env \<Rightarrow> json \<Rightarrow> need list option" where
  "model_version_needs env obj =
     (let f = or_value (get_input_attr obj ''filter'' JNull) (get_input_attr obj ''filter_string'' JNull); fs = text_of env f in
      if \<not> truthy f then None
      else case opt_str (extract_first_filter_value fs ''name'') of
             Some nm \<Rightarrow> Some [On_resource REGISTERED_MODEL nm can_read]
           | None \<Rightarrow>
               (case (case opt_str (extract_first_filter_value fs ''run_id'') of
                        Some r \<Rightarrow> Some r | None \<Rightarrow> opt_str (extract_first_filter_value fs ''run_uuid'')) of
                  Some r \<Rightarrow> gql_run_needs env r | None \<Rightarrow> None))"

definition plain_field_needs :: "('c, 'w) request_env \<Rightarrow> string \<Rightarrow> json \<Rightarrow> json \<Rightarrow> need list option" where
  "plain_field_needs env field root obj =
     (if field = ''mlflowGetExperiment'' then read_needs env (get_input_attr obj ''experiment_id'' JNull)
      else if field \<in> {''mlflowGetRun'', ''mlflowListArtifacts''}
      then (if run_of_input obj = JNull then Some [] else gql_run_needs env (text_of env (run_of_input obj)))
      else if field = ''mlflowGetMetricHistoryBulkInterval''
      then res_needs (list_attr obj ''run_ids'') (all_needs (\<lambda>v. gql_run_needs env (text_of env v)))
      else if field = ''modelVersions'' then read_needs env root
      else if field = ''mlflowSearchModelVersions'' then model_version_needs env obj
      else Some [])"

definition field_needs :: "('c, 'w) request_env \<Rightarrow> string \<Rightarrow> json \<Rightarrow> json \<Rightarrow> need list option" where
  "field_needs env field root obj =
     (if obj = JNull then Some []
      else if field \<in> set SEARCH_FIELDS
      then res_needs (list_attr obj ''experiment_ids'') (some_needs (\<lambda>v. on_experiment can_read (text_of env v)))
      else plain_field_needs env field root obj)"

lemma agrees_if: "agrees env d uname m ns \<Longrightarrow> agrees env d uname m' ns' \<Longrightarrow> agrees env d uname (if b then m else m') (if b then ns else ns')"
  by simp

lemma all_needs_singletons: "all_needs (\<lambda>x. Some [f x]) xs = Some (map f xs)"
  by (induction xs) auto

lemma set_key_found: "map_of (set_key k v d) k = Some v"
proof -
  have "k \<in> fst ` set d \<Longrightarrow> map_of (map (\<lambda>(k', w). (k', if k' = k then v else w)) d) k = Some v" for d :: dict
    by (induction d) auto
  moreover have "k \<notin> fst ` set d \<Longrightarrow> map_of (d @ [(k, v)]) k = Some v"
    by (simp add: map_add_Some_iff map_of_eq_None_iff)
  ultimately show ?thesis by (simp add: set_key_def)
qed

lemma agrees_run:
  assumes "agrees env d uname m (Some l)" and "list_all plain_need l" and "coherent env s" and "a_db s = d" and "m s = (r, s1)"
  shows "(r = Inr True \<longleftrightarrow> list_all (meets env d uname) l) \<and> coherent env s1 \<and> a_db s1 = d"
  using assms unfolding agrees_def by (metis fst_conv snd_conv)

context authorization
begin

lemma gql_run_agrees: "agrees (resolver_env env) d uname (gql_can_read_run env r uname) (gql_run_needs env r)"
  unfolding gql_can_read_run_def gql_run_needs_def gql_can_read_experiment_def by (intro agrees_bind experiment_agrees)

lemma gql_read_agrees: "agrees (resolver_env env) d uname (read_experiment_or_none env v uname) (read_needs env v)"
  by (simp add: read_experiment_or_none_def gql_can_read_experiment_def read_needs_def agrees_true experiment_agrees)

lemma model_versions_agrees: "agrees (resolver_env env) d uname (check_model_versions env obj uname) (model_version_needs env obj)"
  unfolding check_model_versions_def model_version_needs_def Let_def gql_can_read_model_def
  by (auto simp: agrees_false model_agrees gql_run_agrees split: option.split)

lemma readable_filter:
  assumes "\<forall>x\<in>set xs. colon_free x" and "coherent (resolver_env env) s"
    and "fst (filter_check (\<lambda>eid. gql_can_read_experiment env eid uname) xs s) = Inr ys"
  shows "ys = filter (\<lambda>x. meets (resolver_env env) (a_db s) uname (On_resource EXPERIMENT x can_read)) xs"
  using assms
proof (induction xs arbitrary: s ys)
  case (Cons x xs)
  let ?f = "\<lambda>eid. gql_can_read_experiment env eid uname"
  obtain r s1 where run: "?f x s = (r, s1)" by (rule prod.exhaust)
  have ag: "(r = Inr True \<longleftrightarrow> meets (resolver_env env) (a_db s) uname (On_resource EXPERIMENT x can_read)) \<and>
      coherent (resolver_env env) s1 \<and> a_db s1 = a_db s"
    using agrees_run [OF experiment_agrees [unfolded on_experiment_def] _ Cons.prems(2) refl run [unfolded gql_can_read_experiment_def]]
      Cons.prems(1) by simp
  from Cons.prems(3) run obtain b zs where r: "r = Inr b" and rest: "fst (filter_check ?f xs s1) = Inr zs" and ys: "ys = (if b then x # zs else zs)"
    by (auto simp: bind_check_def lift_res_def split: prod.splits sum.splits)
  from Cons.IH [OF _ _ rest] Cons.prems(1) ag have "zs = filter (\<lambda>x. meets (resolver_env env) (a_db s) uname (On_resource EXPERIMENT x can_read)) xs" by simp
  with ys ag run r show ?case by (cases b) simp_all
qed (simp add: lift_res_def)

lemma plain_field_agrees:
  "agrees (resolver_env env) d uname (check_plain_field env field root obj uname) (plain_field_needs env field root obj)"
  unfolding check_plain_field_def plain_field_needs_def
  by (intro agrees_if agrees_true gql_read_agrees gql_run_agrees model_versions_agrees agrees_bind agrees_all)

lemma search_checked:
  assumes "coherent (resolver_env env) s" and "\<forall>l. field_needs env field root obj = Some l \<longrightarrow> list_all plain_need l"
    and "field \<in> set SEARCH_FIELDS" and "obj \<noteq> JNull" and "check_authorization env field root obj uname s = (Inr (True, obj'), s')"
  obtains ids kvs readable where "list_attr obj ''experiment_ids'' = Inr ids" and "obj = JObj kvs" and "readable \<noteq> []"
    and "readable = filter (\<lambda>x. meets (resolver_env env) (a_db s) uname (On_resource EXPERIMENT x can_read)) (map (text_of env) ids)"
    and "obj' = JObj (set_key ''experiment_ids'' (JList (map JStr readable)) kvs)"
proof -
  obtain ids readable where ids: "list_attr obj ''experiment_ids'' = Inr ids" and readable: "readable \<noteq> []"
    and run: "fst (filter_check (\<lambda>eid. gql_can_read_experiment env eid uname) (map (text_of env) ids) s) = Inr readable"
    and obj': "obj' = set_input_attr obj ''experiment_ids'' (JList (map JStr readable))"
    using assms(3-5) unfolding check_authorization_def
    by (auto simp: bind_check_def lift_res_def split: prod.splits sum.splits if_splits)
  from readable run have "ids \<noteq> []" by (auto simp: lift_res_def)
  with ids obtain kvs where kvs: "obj = JObj kvs" by (cases obj) (auto simp: list_attr_def get_input_attr_def)
  have "\<forall>x\<in>set (map (text_of env) ids). colon_free x"
    using assms(2-4) ids \<open>ids \<noteq> []\<close>
    by (auto simp: field_needs_def res_needs_def some_needs_def on_experiment_def all_needs_singletons list_all_iff)
  from readable_filter [OF this assms(1) run] that [OF ids kvs readable] obj' kvs show thesis by (simp add: set_input_attr_def)
qed

text \<open>A field that passes has its needs met, for the input its resolver sees.\<close>

lemma field_checked:
  assumes "coherent (resolver_env env) s" and "\<forall>l. field_needs env field root obj = Some l \<longrightarrow> list_all plain_need l"
    and "check_authorization env field root obj uname s = (Inr (True, obj'), s')"
  shows "\<exists>l. field_needs env field root obj' = Some l \<and> list_all (meets (resolver_env env) (a_db s) uname) l"
proof (cases "obj \<noteq> JNull \<and> field \<in> set SEARCH_FIELDS")
  case True
  from search_checked [OF assms(1,2) conjunct2 [OF True] conjunct1 [OF True] assms(3)] obtain ids kvs readable where
    r: "readable \<noteq> []" "readable = filter (\<lambda>x. meets (resolver_env env) (a_db s) uname (On_resource EXPERIMENT x can_read)) (map (text_of env) ids)"
    and obj': "obj' = JObj (set_key ''experiment_ids'' (JList (map JStr readable)) kvs)" by metis
  have "list_attr obj' ''experiment_ids'' = Inr (map JStr readable)"
    using r(1) by (simp add: obj' list_attr_def get_input_attr_def jget_or_def set_key_found Let_def)
  with True r(1) have "field_needs env field root obj' = Some (map (\<lambda>x. On_resource EXPERIMENT x can_read) readable)"
    by (simp add: field_needs_def obj' res_needs_def some_needs_map) (simp add: some_needs_def on_experiment_def all_needs_singletons)
  with r(2) show ?thesis by (auto simp: list_all_iff)
next
  case False
  then have "obj = JNull \<or> obj \<noteq> JNull \<and> field \<notin> set SEARCH_FIELDS" by blast
  then show ?thesis
  proof
    assume "obj = JNull"
    with assms(3) show ?thesis by (simp add: check_authorization_def lift_res_def field_needs_def)
  next
    assume plain: "obj \<noteq> JNull \<and> field \<notin> set SEARCH_FIELDS"
    with assms(3) have "fst (check_plain_field env field root obj uname s) = Inr True" "obj' = obj"
      by (auto simp: check_authorization_def bind_check_def lift_res_def split: prod.splits sum.splits)
    moreover have "field_needs env field root obj = plain_field_needs env field root obj" using plain by (simp add: field_needs_def)
    ultimately show ?thesis using agreesD [OF plain_field_agrees _ assms(1) refl] assms(2) by simp
  qed
qed

lemma field_resolved:
  assumes "\<not> cx_is_admin cx" and "field \<in> set PROTECTED_FIELDS" and "resolve_field env (Some field) root args s = (Next args', s')"
  obtains obj' where "check_authorization env field root (get_input_obj args) (cx_username cx) s = (Inr (True, obj'), s')"
    and "get_input_obj args' = obj'"
proof -
  have "opt_str (Some field) = Some field" using assms(2) by (auto simp: PROTECTED_FIELDS_def opt_str_def)
  moreover have "gql_auth_context env = (if cx_username cx = [] then None else Some (cx_username cx), False)"
    using request_context assms(1)
    by (simp add: gql_auth_context_def get_fastapi_username_def get_fastapi_admin_status_def get_auth_context_def)
  ultimately show thesis using assms(2,3) that
    by (auto simp: resolve_field_def get_input_obj_def jget_def set_key_found split: if_splits prod.splits sum.splits bool.splits)
qed

lemma resolved_search:
  assumes "coherent (resolver_env env) s" and "\<forall>l. field_needs env field root obj = Some l \<longrightarrow> list_all plain_need l"
    and "obj \<noteq> JNull \<and> field \<in> set SEARCH_FIELDS" and "check_authorization env field root obj uname s = (Inr (True, obj'), s')"
  shows "\<exists>ids. list_attr obj ''experiment_ids'' = Inr ids \<and> get_input_attr obj' ''experiment_ids'' JNull = JList (map JStr
      (filter (\<lambda>x. meets (resolver_env env) (a_db s) uname (On_resource EXPERIMENT x can_read)) (map (text_of env) ids)))"
proof -
  obtain ids kvs where "list_attr obj ''experiment_ids'' = Inr ids"
    and "obj' = JObj (set_key ''experiment_ids'' (JList (map JStr
      (filter (\<lambda>x. meets (resolver_env env) (a_db s) uname (On_resource EXPERIMENT x can_read)) (map (text_of env) ids)))) kvs)"
    using search_checked [OF assms(1,2) conjunct2 [OF assms(3)] conjunct1 [OF assms(3)] assms(4)] by blast
  then show ?thesis by (simp add: get_input_attr_def jget_or_def set_key_found del: meets.simps)
qed

end

end
