(* ===== verification/Graphql_Properties.thy ===== *)
theory Graphql_Properties
  imports Graphql Hook_Properties
begin

section \<open>Properties of the GraphQL middleware\<close>

text \<open>
  What a caller who is no administrator sees of the protected fields, and two places where the middleware
  checks less than the field returns.
\<close>


text \<open>\<^verbatim>\<open>bob\<close> may read experiment 7 and not experiment 8.\<close>

definition graphql_resolver_env :: "(permission_result timed, permission timed) env" where
  "graphql_resolver_env = sample_env\<lparr>e_experiment_name := (\<lambda>eid. if eid = ''7'' then Inr ''team/x'' else Inr ''other'')\<rparr>"

definition graphql_env :: "(permission_result timed, permission timed) request_env" where
  "graphql_env = sample_request_env\<lparr>qe_env := graphql_resolver_env\<rparr>"

lemma graphql_env_sel [simp]:
  "qe_env graphql_env = graphql_resolver_env" "qe_context graphql_env = Some \<lparr>cx_username = ''bob'', cx_is_admin = False, cx_workspace = None\<rparr>"
  "e_pc graphql_resolver_env = LocalTTLCacheBackend timed_ops" "e_wc graphql_resolver_env = LocalTTLCacheBackend timed_ops"
  by (simp_all add: graphql_env_def graphql_resolver_env_def)

lemma graphql_resolver [simp]: "resolver_env graphql_env = graphql_resolver_env"
  by (simp add: resolver_env_def get_request_workspace_def get_auth_context_def) (simp add: graphql_resolver_env_def sample_env_def)

definition search_args :: dict where
  "search_args = [(''input'', JObj [(''experiment_ids'', JList [JStr ''8'', JStr ''7''])])]"


subsection \<open>Where the check is narrower than the answer\<close>

text \<open>
  Of a list of runs only the first is checked: a filter that begins with a run of one's own is let
  through with the runs of others behind it.
\<close>

definition two_runs_filter :: string where
  "two_runs_filter = ''run_id IN ('' @ [CHR 0x27] @ ''own'' @ [CHR 0x27] @ '','' @ [CHR 0x27] @ ''theirs'' @ [CHR 0x27] @ '')''"

theorem only_the_first_run_is_checked:
  "fst (resolve_field graphql_env (Some ''mlflowSearchModelVersions'') JNull [(''input'', JObj [(''filter'', JStr two_runs_filter)])] sample_app) =
     Next [(''input'', JObj [(''filter'', JStr two_runs_filter)])] \<and>
   qe_run_experiment graphql_env (JStr ''theirs'') = Inr ''8'' \<and>
   \<not> meets graphql_resolver_env sample_db ''bob'' (On_resource EXPERIMENT ''8'' can_read)"
proof (intro conjI)
  show "fst (resolve_field graphql_env (Some ''mlflowSearchModelVersions'') JNull [(''input'', JObj [(''filter'', JStr two_runs_filter)])] sample_app) =
     Next [(''input'', JObj [(''filter'', JStr two_runs_filter)])]" by code_simp
  show "qe_run_experiment graphql_env (JStr ''theirs'') = Inr ''8''" by (simp add: graphql_env_def sample_request_env_def)
  show "\<not> meets graphql_resolver_env sample_db ''bob'' (On_resource EXPERIMENT ''8'' can_read)" by code_simp
qed

text \<open>
  The field \<^verbatim>\<open>modelVersions\<close> of a run takes no input, and without an input the method
  answers before it reaches the branch of the field, so the experiment of the run is never asked about.
\<close>

theorem model_versions_of_a_run_unchecked:
  assumes "get_input_obj args = JNull" and "qe_context env = Some cx" and "cx_username cx \<noteq> []"
  shows "resolve_field env (Some ''modelVersions'') root args s = (Next args, s)"
  using assms
  by (cases "cx_is_admin cx") (simp_all add: resolve_field_def opt_str_def PROTECTED_FIELDS_def gql_auth_context_def get_fastapi_username_def
      get_fastapi_admin_status_def get_auth_context_def check_authorization_def lift_res_def)

theorem model_versions_of_a_run_unchecked_witness:
  "resolve_field graphql_env (Some ''modelVersions'') (JStr ''8'') [] sample_app = (Next [], sample_app)"
  using model_versions_of_a_run_unchecked [of "[]" graphql_env _ "JStr ''8''" sample_app]
  by (simp add: get_input_obj_def jget_def)

end
