(* ===== verification/Data_Fetching.thy ===== *)
theory Data_Fetching
  imports Pagination Batch
begin

section \<open>Fetching whole listings (utils/data\_fetching.py)\<close>

text \<open>
  MLflow's stores answer searches page by page. The functions here follow the page tokens to the end. A
  store whose tokens never end would keep them running, so the loops are partial functions whose \<open>None\<close>
  is not returning; over a store that serves the consecutive slices of one listing they return all of it.
  The stores are parameters.
\<close>

subsection \<open>Stores\<close>

record logged_model =
  lm_model_id :: string
  lm_experiment_id :: string

type_synonym 'x page = "('x list \<times> string option) res"

text \<open>
  The searches take the arguments of the keyword calls: filter, page size, order and token (and the view
  type or the experiments). A page carries the token of the next one, if any. An object of the gateway
  has a method \<^verbatim>\<open>to_dict\<close>, or an attribute dictionary, or is returned as it is.
\<close>

datatype store_object = Has_to_dict dict | Has_attributes dict | Bare json

record fetch_store =
  ft_search_registered_models :: "string option \<Rightarrow> int \<Rightarrow> string list option \<Rightarrow> string option \<Rightarrow> string page"
  ft_search_experiments :: "int \<Rightarrow> int \<Rightarrow> string list option \<Rightarrow> string option \<Rightarrow> string option \<Rightarrow> mlflow_experiment page"
  ft_search_logged_models :: "int \<Rightarrow> string list \<Rightarrow> string option \<Rightarrow> dict list option \<Rightarrow> string option \<Rightarrow> logged_model page"
  ft_gateway_endpoints :: "store_object list res"
  ft_gateway_secrets :: "store_object list res"
  ft_gateway_model_definitions :: "store_object list res"

subsection \<open>Whole listings\<close>

partial_function (option) fetch_pages :: "(string option \<Rightarrow> 'x page) \<Rightarrow> 'x list \<Rightarrow> string option \<Rightarrow> 'x list res option" where
  "fetch_pages search acc page_token =
     (case search page_token of
        Inl e \<Rightarrow> Some (Inl e)
      | Inr (items, token) \<Rightarrow>
          (case opt_str token of
             Some t \<Rightarrow> fetch_pages search (acc @ items) (Some t)
           | None \<Rightarrow> Some (Inr (acc @ items))))"

definition fetch_all_registered_models :: "fetch_store \<Rightarrow> string option \<Rightarrow> string list option \<Rightarrow> int \<Rightarrow> string list res option" where
  "fetch_all_registered_models st filter_string order_by max_results_per_page =
     fetch_pages (ft_search_registered_models st filter_string max_results_per_page order_by) [] None"

definition fetch_all_experiments ::
  "fetch_store \<Rightarrow> int \<Rightarrow> int \<Rightarrow> string list option \<Rightarrow> string option \<Rightarrow> mlflow_experiment list res option" where
  "fetch_all_experiments st view_type max_results_per_page order_by filter_string =
     fetch_pages (ft_search_experiments st view_type max_results_per_page order_by filter_string) [] None"

definition PROMPT_FILTER :: string where
  "PROMPT_FILTER = ''tags.`mlflow.prompt.is_prompt` = '' @ [CHR 0x27] @ ''true'' @ [CHR 0x27]"

definition fetch_all_prompts :: "fetch_store \<Rightarrow> int \<Rightarrow> string list res option" where
  "fetch_all_prompts st max_results_per_page = fetch_all_registered_models st (Some PROMPT_FILTER) None max_results_per_page"

definition fetch_registered_models_paginated :: "fetch_store \<Rightarrow> string option \<Rightarrow> int \<Rightarrow> string list option \<Rightarrow> string option \<Rightarrow> string page" where
  "fetch_registered_models_paginated st filter_string max_results order_by page_token =
     ft_search_registered_models st filter_string max_results order_by page_token"

definition fetch_experiments_paginated ::
  "fetch_store \<Rightarrow> int \<Rightarrow> int \<Rightarrow> string list option \<Rightarrow> string option \<Rightarrow> string option \<Rightarrow> mlflow_experiment page" where
  "fetch_experiments_paginated st view_type max_results order_by filter_string page_token =
     ft_search_experiments st view_type max_results order_by filter_string page_token"

fun object_dict :: "store_object \<Rightarrow> json" where
  "object_dict (Has_to_dict d) = JObj d"
| "object_dict (Has_attributes d) = JObj d"
| "object_dict (Bare v) = v"

definition fetch_all_gateway_endpoints :: "fetch_store \<Rightarrow> json list res" where
  "fetch_all_gateway_endpoints st = bindE (ft_gateway_endpoints st) (\<lambda>result. Inr (map object_dict result))"

definition fetch_all_gateway_secrets :: "fetch_store \<Rightarrow> json list res" where
  "fetch_all_gateway_secrets st = bindE (ft_gateway_secrets st) (\<lambda>result. Inr (map object_dict result))"

definition fetch_all_gateway_model_definitions :: "fetch_store \<Rightarrow> json list res" where
  "fetch_all_gateway_model_definitions st = bindE (ft_gateway_model_definitions st) (\<lambda>result. Inr (map object_dict result))"

subsection \<open>Readable listings\<close>

definition keep_readable :: "('x \<Rightarrow> ('c, 'w, bool) check) \<Rightarrow> 'x list res option \<Rightarrow> ('c, 'w) app \<Rightarrow> ('x list res \<times> ('c, 'w) app) option" where
  "keep_readable can fetched s =
     (case fetched of
        None \<Rightarrow> None
      | Some (Inl e) \<Rightarrow> Some (Inl e, s)
      | Some (Inr xs) \<Rightarrow> Some (filter_check can xs s))"

definition fetch_readable_experiments ::
  "('c, 'w) env \<Rightarrow> fetch_store \<Rightarrow> string \<Rightarrow> int \<Rightarrow> int \<Rightarrow> string list option \<Rightarrow> string option \<Rightarrow> ('c, 'w) app \<Rightarrow>
   (mlflow_experiment list res \<times> ('c, 'w) app) option" where
  "fetch_readable_experiments env st uname view_type max_results_per_page order_by filter_string =
     keep_readable (\<lambda>e s. can_read_experiment env s (exp_id e) uname)
       (fetch_all_experiments st view_type max_results_per_page order_by filter_string)"

definition fetch_readable_registered_models ::
  "('c, 'w) env \<Rightarrow> fetch_store \<Rightarrow> string \<Rightarrow> string option \<Rightarrow> string list option \<Rightarrow> int \<Rightarrow> ('c, 'w) app \<Rightarrow>
   (string list res \<times> ('c, 'w) app) option" where
  "fetch_readable_registered_models env st uname filter_string order_by max_results_per_page =
     keep_readable (\<lambda>m s. can_read_registered_model env s m uname)
       (fetch_all_registered_models st filter_string order_by max_results_per_page)"

text \<open>Logged models are filtered page by page.\<close>

partial_function (option) fetch_readable_pages ::
  "(string option \<Rightarrow> 'x page) \<Rightarrow> ('x \<Rightarrow> 's \<Rightarrow> bool res \<times> 's) \<Rightarrow> 'x list \<Rightarrow> string option \<Rightarrow> 's \<Rightarrow> ('x list res \<times> 's) option" where
  "fetch_readable_pages search can acc page_token s =
     (case search page_token of
        Inl e \<Rightarrow> Some (Inl e, s)
      | Inr (items, token) \<Rightarrow>
          (case filter_check can items s of
             (Inl e, s') \<Rightarrow> Some (Inl e, s')
           | (Inr readable, s') \<Rightarrow>
               (case opt_str token of
                  Some t \<Rightarrow> fetch_readable_pages search can (acc @ readable) (Some t) s'
                | None \<Rightarrow> Some (Inr (acc @ readable), s'))))"

definition fetch_readable_logged_models ::
  "('c, 'w) env \<Rightarrow> fetch_store \<Rightarrow> string \<Rightarrow> string list option \<Rightarrow> string option \<Rightarrow> dict list option \<Rightarrow> int \<Rightarrow> ('c, 'w) app \<Rightarrow>
   (logged_model list res \<times> ('c, 'w) app) option" where
  "fetch_readable_logged_models env st uname experiment_ids filter_string order_by max_results_per_page =
     fetch_readable_pages
       (ft_search_logged_models st max_results_per_page (case experiment_ids of Some ids \<Rightarrow> ids | None \<Rightarrow> []) filter_string order_by)
       (\<lambda>m s. flag_of can_read (effective_experiment_permission env s (lm_experiment_id m) uname)) [] None"

subsection \<open>Stores that serve one listing\<close>

text \<open>The pages are consecutive slices, and the last one has no token.\<close>

definition token_at :: "(nat \<Rightarrow> string) \<Rightarrow> nat \<Rightarrow> string option" where
  "token_at tok n = (if n = 0 then None else Some (tok n))"

locale listing =
  fixes search :: "string option \<Rightarrow> 'x page" and tok :: "nat \<Rightarrow> string" and entities :: "'x list" and size :: nat
  assumes pages: "n \<le> length entities \<Longrightarrow> search (token_at tok n) =
      Inr (take size (drop n entities), if n + size < length entities then Some (tok (n + size)) else None)"
    and tokens: "tok n \<noteq> []" and size: "0 < size"
begin

lemma rest_split: "drop n entities = take size (drop n entities) @ drop (n + size) entities"
  by (metis append_take_drop_id drop_drop add.commute)

lemma fetch_pages_exact: "n \<le> length entities \<Longrightarrow> fetch_pages search acc (token_at tok n) = Some (Inr (acc @ drop n entities))"
proof (induction "length entities - n" arbitrary: n acc rule: less_induct)
  case less
  show ?case
  proof (cases "n + size < length entities")
    case True
    then have step: "length entities - (n + size) < length entities - n" "n + size \<le> length entities" using size by simp_all
    have t: "opt_str (Some (tok (n + size))) = Some (tok (n + size))" using tokens by (simp add: opt_str_def)
    have "fetch_pages search acc (token_at tok n) = fetch_pages search (acc @ take size (drop n entities)) (token_at tok (n + size))"
      using True size by (subst fetch_pages.simps) (simp add: pages [OF less.prems] t, simp add: token_at_def)
    with less.hyps [OF step(1) step(2), of "acc @ take size (drop n entities)"] rest_split [of n] show ?thesis by simp
  next
    case False
    then show ?thesis by (subst fetch_pages.simps) (simp add: pages [OF less.prems] opt_str_def)
  qed
qed

lemma fetch_readable_exact:
  assumes "\<forall>e\<in>set entities. decides_on I can P e"
  shows "n \<le> length entities \<Longrightarrow> I s \<Longrightarrow>
    \<exists>s'. fetch_readable_pages search can acc (token_at tok n) s = Some (Inr (acc @ filter P (drop n entities)), s') \<and> I s'"
proof (induction "length entities - n" arbitrary: n acc s rule: less_induct)
  case less
  have "\<forall>e\<in>set (take size (drop n entities)). decides_on I can P e" using assms by (auto dest: in_set_takeD in_set_dropD)
  from filter_check_decides [OF this less.prems(2)] obtain s1
    where read: "filter_check can (take size (drop n entities)) s = (Inr (filter P (take size (drop n entities))), s1)" "I s1" by blast
  show ?case
  proof (cases "n + size < length entities")
    case True
    then have step: "length entities - (n + size) < length entities - n" "n + size \<le> length entities" using size by simp_all
    have t: "opt_str (Some (tok (n + size))) = Some (tok (n + size))" using tokens by (simp add: opt_str_def)
    have "fetch_readable_pages search can acc (token_at tok n) s =
        fetch_readable_pages search can (acc @ filter P (take size (drop n entities))) (token_at tok (n + size)) s1"
      using True size by (subst fetch_readable_pages.simps) (simp add: pages [OF less.prems(1)] t read, simp add: token_at_def)
    with less.hyps [OF step(1) step(2) read(2), of "acc @ filter P (take size (drop n entities))"] arg_cong [OF rest_split [of n], of "filter P"]
    show ?thesis by (simp del: filter_append add: filter_append [symmetric])
  next
    case False
    then show ?thesis using read by (subst fetch_readable_pages.simps) (simp add: pages [OF less.prems(1)] opt_str_def)
  qed
qed

end

end
