(* ===== verification/Fetching_Properties.thy ===== *)
theory Fetching_Properties
  imports Data_Fetching Hook_Properties
begin

section \<open>Properties of whole listings\<close>

text \<open>
  The loops over the pages of MLflow's stores return, with every entity of the listing once and in its order,
  and the readable variants keep exactly the entities whose decision allows reading.
\<close>

definition state_ok :: "('c, 'w) env \<Rightarrow> db \<Rightarrow> ('c, 'w) app \<Rightarrow> bool" where
  "state_ok env d s \<longleftrightarrow> coherent env s \<and> a_db s = d"

lemma reading_decides:
  assumes "resolver_caches pc wc" and "e_pc env = pc" and "e_wc env = wc" and "plain_workspace (e_workspace env)"
    and "rtype \<in> set resource_types" and "rtype \<noteq> SCORER"
    and "\<forall>x\<in>set xs. colon_free (key x) \<and> (\<exists>pr. decide env d rtype (key x) uname None = Inr pr)"
  shows "\<forall>x\<in>set xs. decides_on (state_ok env d) (\<lambda>x s. flag_of can_read (resolve_permission env s rtype (key x) uname None))
    (\<lambda>x. meets env d uname (On_resource rtype (key x) can_read)) x"
proof
  fix x
  assume "x \<in> set xs"
  with assms(7) obtain pr where x: "colon_free (key x)" "decide env d rtype (key x) uname None = Inr pr" by blast
  have "fst (flag_of can_read (resolve_permission env s rtype (key x) uname None)) = Inr (meets env d uname (On_resource rtype (key x) can_read)) \<and>
      state_ok env d (snd (flag_of can_read (resolve_permission env s rtype (key x) uname None)))" if s: "state_ok env d s" for s
  proof -
    obtain r s' where run: "resolve_permission env s rtype (key x) uname None = (r, s')" by (rule prod.exhaust)
    from resolver_caches.resolve_decision [OF assms(1-4) x(1) assms(5) _ run] s assms(6)
    have "r = decide env d rtype (key x) uname None" "state_ok env d s'" by (auto simp: state_ok_def)
    with run x(2) show ?thesis by (simp add: flag_of_def)
  qed
  then show "decides_on (state_ok env d) (\<lambda>x s. flag_of can_read (resolve_permission env s rtype (key x) uname None))
    (\<lambda>x. meets env d uname (On_resource rtype (key x) can_read)) x" by (simp add: decides_on_def)
qed

lemma keep_readable_exact:
  assumes "\<forall>x\<in>set xs. decides_on I can P x" and "I s"
  shows "\<exists>s'. keep_readable can (Some (Inr xs)) s = Some (Inr (filter P xs), s') \<and> I s'"
  using filter_check_decides [OF assms] by (auto simp: keep_readable_def)

text \<open>
  C37: Over stores that serve their listings page by page the loops terminate: every experiment and
  registered model of the listing is returned once and in its order, and for a user exactly those experiments,
  models and logged models whose decision in the current database allows reading, while the database stays
  as it is.
\<close>

theorem fetching_returns_the_listing:
  assumes "ttl_cache pttl" and "ttl_cache wttl" and "e_pc env = LocalTTLCacheBackend pttl" and "e_wc env = LocalTTLCacheBackend wttl"
    and "plain_workspace (e_workspace env)" and "coherent env s"
    and "listing (ft_search_experiments st view_type k order_by flt) tok es page_size"
    and "listing (ft_search_registered_models st flt k order_by) tok ms page_size"
    and "listing (ft_search_logged_models st k ids flt order_dicts) tok ls page_size"
    and "\<forall>eid\<in>set (map exp_id es) \<union> set (map lm_experiment_id ls). colon_free eid \<and> (\<exists>pr. decide env (a_db s) EXPERIMENT eid uname None = Inr pr)"
    and "\<forall>m\<in>set ms. colon_free m \<and> (\<exists>pr. decide env (a_db s) REGISTERED_MODEL m uname None = Inr pr)"
  shows "fetch_all_experiments st view_type k order_by flt = Some (Inr es) \<and> fetch_all_registered_models st flt order_by k = Some (Inr ms) \<and>
    (\<exists>s'. fetch_readable_experiments env st uname view_type k order_by flt s =
       Some (Inr (filter (\<lambda>e. meets env (a_db s) uname (On_resource EXPERIMENT (exp_id e) can_read)) es), s') \<and> a_db s' = a_db s) \<and>
    (\<exists>s'. fetch_readable_registered_models env st uname flt order_by k s =
       Some (Inr (filter (\<lambda>m. meets env (a_db s) uname (On_resource REGISTERED_MODEL m can_read)) ms), s') \<and> a_db s' = a_db s) \<and>
    (\<exists>s'. fetch_readable_logged_models env st uname (Some ids) flt order_dicts k s =
       Some (Inr (filter (\<lambda>m. meets env (a_db s) uname (On_resource EXPERIMENT (lm_experiment_id m) can_read)) ls), s') \<and> a_db s' = a_db s)"
proof -
  note decides = reading_decides [OF local_resolver_caches [OF assms(1,2)] assms(3-5)]
  have s: "state_ok env (a_db s) s" using assms(6) by (simp add: state_ok_def)
  have es: "fetch_all_experiments st view_type k order_by flt = Some (Inr es)"
    using listing.fetch_pages_exact [OF assms(7), of 0 "[]"] by (simp add: fetch_all_experiments_def token_at_def)
  have ms: "fetch_all_registered_models st flt order_by k = Some (Inr ms)"
    using listing.fetch_pages_exact [OF assms(8), of 0 "[]"] by (simp add: fetch_all_registered_models_def token_at_def)
  have "EXPERIMENT \<in> set resource_types" "EXPERIMENT \<noteq> SCORER" "REGISTERED_MODEL \<in> set resource_types" "REGISTERED_MODEL \<noteq> SCORER"
    by (simp_all add: resource_types_def)
  note decides_experiment = decides [OF this(1,2)] and decides_model = decides [OF this(3,4)]
  have e: "\<forall>e\<in>set es. decides_on (state_ok env (a_db s)) (\<lambda>e s. can_read_experiment env s (exp_id e) uname)
      (\<lambda>e. meets env (a_db s) uname (On_resource EXPERIMENT (exp_id e) can_read)) e"
    unfolding can_read_experiment_def effective_experiment_permission_def by (rule decides_experiment) (use assms(10) in auto)
  have m: "\<forall>m\<in>set ms. decides_on (state_ok env (a_db s)) (\<lambda>m s. can_read_registered_model env s m uname)
      (\<lambda>m. meets env (a_db s) uname (On_resource REGISTERED_MODEL m can_read)) m"
    unfolding can_read_registered_model_def effective_registered_model_permission_def by (rule decides_model) (use assms(11) in auto)
  have l: "\<forall>m\<in>set ls. decides_on (state_ok env (a_db s)) (\<lambda>m s. flag_of can_read (effective_experiment_permission env s (lm_experiment_id m) uname))
      (\<lambda>m. meets env (a_db s) uname (On_resource EXPERIMENT (lm_experiment_id m) can_read)) m"
    unfolding effective_experiment_permission_def by (rule decides_experiment) (use assms(10) in auto)
  from keep_readable_exact [OF e s] keep_readable_exact [OF m s] listing.fetch_readable_exact [OF assms(9) l _ s, of 0 "[]"] es ms
  show ?thesis
    by (simp add: fetch_readable_experiments_def fetch_readable_registered_models_def fetch_readable_logged_models_def token_at_def state_ok_def
        del: meets.simps) blast
qed

text \<open>A store of three experiments, one model and one logged model, in pages of two.\<close>

definition slice_page :: "'x list \<Rightarrow> string option \<Rightarrow> 'x page" where
  "slice_page xs token =
     (let n = (case token of None \<Rightarrow> 0 | Some t \<Rightarrow> length t)
      in Inr (take 2 (drop n xs), if n + 2 < length xs then Some (replicate (n + 2) (CHR ''t'')) else None))"

definition slice_token :: "nat \<Rightarrow> string" where
  "slice_token n = (if n = 0 then ''t'' else replicate n (CHR ''t''))"

interpretation slices: listing "slice_page xs" slice_token xs 2
  by unfold_locales (auto simp: slice_page_def slice_token_def token_at_def Let_def)

definition sample_experiments :: "mlflow_experiment list" where
  "sample_experiments = [\<lparr>exp_id = ''7'', exp_name = ''a''\<rparr>, \<lparr>exp_id = ''8'', exp_name = ''b''\<rparr>, \<lparr>exp_id = ''9'', exp_name = ''c''\<rparr>]"

definition sample_fetch_store :: fetch_store where
  "sample_fetch_store =
     \<lparr>ft_search_registered_models = (\<lambda>_ _ _. slice_page [''m'']), ft_search_experiments = (\<lambda>_ _ _ _. slice_page sample_experiments),
      ft_search_logged_models = (\<lambda>_ _ _ _. slice_page [\<lparr>lm_model_id = ''l'', lm_experiment_id = ''7''\<rparr>]),
      ft_gateway_endpoints = Inr [], ft_gateway_secrets = Inr [], ft_gateway_model_definitions = Inr []\<rparr>"

theorem fetching_returns_the_listing_witness:
  "fetch_all_experiments sample_fetch_store 1 1000 None None = Some (Inr sample_experiments) \<and>
   (\<exists>s'. fetch_readable_registered_models sample_env sample_fetch_store ''bob'' None None 1000 sample_app =
      Some (Inr (filter (\<lambda>m. meets sample_env sample_db ''bob'' (On_resource REGISTERED_MODEL m can_read)) [''m'']), s'))"
proof -
  have coh: "coherent sample_env sample_app" and ws: "plain_workspace (e_workspace sample_env)"
    using sample_inv by (simp_all add: app_inv_def plain_workspace_def sample_env_def)
  have "\<forall>eid\<in>{''7'', ''8'', ''9''}. \<not> isl (decide sample_env sample_db EXPERIMENT eid ''bob'' None)"
    "\<not> isl (decide sample_env sample_db REGISTERED_MODEL ''m'' ''bob'' None)" by code_simp+
  then have total: "\<forall>eid\<in>{''7'', ''8'', ''9''}. \<exists>pr. decide sample_env sample_db EXPERIMENT eid ''bob'' None = Inr pr"
    "\<exists>pr. decide sample_env sample_db REGISTERED_MODEL ''m'' ''bob'' None = Inr pr" by (metis sum.collapse(2))+
  have pc: "e_pc sample_env = LocalTTLCacheBackend timed_ops" "e_wc sample_env = LocalTTLCacheBackend timed_ops" by simp_all
  have lists: "listing (ft_search_experiments sample_fetch_store 1 1000 None None) slice_token sample_experiments 2"
    "listing (ft_search_registered_models sample_fetch_store None 1000 None) slice_token [''m''] 2"
    "listing (ft_search_logged_models sample_fetch_store 1000 [] None None) slice_token [\<lparr>lm_model_id = ''l'', lm_experiment_id = ''7''\<rparr>] 2"
    by (simp_all add: sample_fetch_store_def slices.listing_axioms)
  have eids: "\<forall>eid\<in>set (map exp_id sample_experiments) \<union> set (map lm_experiment_id [\<lparr>lm_model_id = ''l'', lm_experiment_id = ''7''\<rparr>]).
      colon_free eid \<and> (\<exists>pr. decide sample_env (a_db sample_app) EXPERIMENT eid ''bob'' None = Inr pr)"
    using total(1) by (simp add: sample_experiments_def)
  have mids: "\<forall>m\<in>set [''m'']. colon_free m \<and> (\<exists>pr. decide sample_env (a_db sample_app) REGISTERED_MODEL m ''bob'' None = Inr pr)"
    using total(2) by simp
  have db: "a_db sample_app = sample_db" by simp
  from fetching_returns_the_listing [OF timed.ttl_cache_axioms timed.ttl_cache_axioms pc ws coh lists eids mids] show ?thesis
    unfolding db by blast
qed

end
