(* ===== verification/Trash.thy ===== *)
theory Trash
  imports Dependencies Data_Fetching Ip_Address
begin

section \<open>The trash (routers/trash.py)\<close>

text \<open>
  Listing, restoring and permanently deleting what MLflow keeps in its trash, for administrators. MLflow's
  tracking store is a parameter: its operations work on a state \<open>'b\<close> of their own. The numbers of a time
  limit are read exactly; the rounding of floating point is not modelled. An absent resource id of an audit event is the
  empty string.
\<close>

subsection \<open>The store\<close>

datatype stage = Active | Deleted

record trash_experiment =
  te_id :: string
  te_name :: string
  te_stage :: stage
  te_last_update_time :: "int option"

record trash_run =
  tr_id :: string
  tr_experiment_id :: string
  tr_stage :: stage
  tr_artifact_uri :: string

text \<open>
  The three flags say which private methods the store has. \<open>tb_search_experiments\<close> looks for deleted
  experiments, last updated before a time if one is given, \<open>tb_search_runs\<close> for deleted runs of experiments;
  both return a page and a token. Errors of \<open>tb_delete_artifacts\<close> are logged and dropped. \<open>tb_iter\<close> is the order in which a
  set of strings is visited.
\<close>

record 'b trash_backend =
  tb_has_hard_delete_run :: bool
  tb_has_hard_delete_experiment :: bool
  tb_has_get_deleted_runs :: bool
  tb_get_deleted_runs :: "'b \<Rightarrow> int \<Rightarrow> string list res"
  tb_all_experiments :: "'b \<Rightarrow> bool \<Rightarrow> trash_experiment list res"
  tb_get_experiment :: "'b \<Rightarrow> string \<Rightarrow> trash_experiment res"
  tb_search_experiments :: "'b \<Rightarrow> int option \<Rightarrow> string option \<Rightarrow> trash_experiment page"
  tb_search_runs :: "'b \<Rightarrow> string list \<Rightarrow> string option \<Rightarrow> string page"
  tb_get_run :: "'b \<Rightarrow> string \<Rightarrow> trash_run res"
  tb_delete_artifacts :: "'b \<Rightarrow> string \<Rightarrow> 'b"
  tb_hard_delete_run :: "'b \<Rightarrow> string \<Rightarrow> 'b res"
  tb_hard_delete_experiment :: "'b \<Rightarrow> string \<Rightarrow> 'b res"
  tb_restore_experiment :: "'b \<Rightarrow> string \<Rightarrow> 'b res"
  tb_restore_run :: "'b \<Rightarrow> string \<Rightarrow> 'b res"
  tb_iter :: "string list \<Rightarrow> string list"
  tb_now :: int

datatype failure = Run_not_deleted | Run_not_older string | Raised exn

text \<open>The two lists of \<open>Cleaned\<close> that follow the deleted ids are the failures with their reasons.\<close>

datatype trash_answer =
    Trash_error nat string
  | Experiments_not_deleted "string list"
  | Experiments_not_older "string list" string
  | Deleted_experiments "trash_experiment list"
  | Deleted_runs "trash_run list"
  | Cleaned "string list" "string list" "(string \<times> failure) list" "(string \<times> failure) list"
  | Restored_experiment trash_experiment
  | Restored_run trash_run

subsection \<open>Parameters of a request\<close>

definition split_csv :: "string option \<Rightarrow> string list" where
  "split_csv raw =
     (case opt_str raw of None \<Rightarrow> [] | Some s \<Rightarrow> filter (\<lambda>v. v \<noteq> []) (map py_strip (py_split (CHR '','') s)))"

text \<open>
  One optional group \<^verbatim>\<open>([\.\d]+?)u\<close> of the expression: the digits and dots before the unit, and the
  rest of the string.
\<close>

definition unit_group :: "char \<Rightarrow> string \<Rightarrow> string option \<times> string" where
  "unit_group u s =
     (let n = takeWhile (\<lambda>c. is_digit c \<or> c = CHR ''.'') s; rest = dropWhile (\<lambda>c. is_digit c \<or> c = CHR ''.'') s
      in if n \<noteq> [] \<and> prefix [u] rest then (Some n, tl rest) else (None, s))"

text \<open>\<^verbatim>\<open>float(s)\<close> of digits and dots, as the number of its digits and how many of them are decimals.\<close>

definition decimal :: "string \<Rightarrow> (nat \<times> nat) res" where
  "decimal s =
     (case py_split (CHR ''.'') s of
        [a] \<Rightarrow> Inr (decimal_value 0 a, 0)
      | [a, b] \<Rightarrow> if a @ b = [] then Inl ValueError else Inr (decimal_value 0 (a @ b), length b)
      | _ \<Rightarrow> Inl ValueError)"

text \<open>Seconds as a fraction over a power of ten, summed over the groups that are present.\<close>

fun add_groups :: "(string option \<times> nat) list \<Rightarrow> (nat \<times> nat) res" where
  "add_groups [] = Inr (0, 0)"
| "add_groups ((None, u) # gs) = add_groups gs"
| "add_groups ((Some s, u) # gs) =
     bindE (decimal s) (\<lambda>(n, k). bindE (add_groups gs) (\<lambda>(m, j). Inr (n * u * 10 ^ j + m * 10 ^ k, k + j)))"

definition parse_time_delta :: "string \<Rightarrow> int res" where
  "parse_time_delta older_than =
     (let (d, s1) = unit_group (CHR ''d'') older_than; (h, s2) = unit_group (CHR ''h'') s1;
          (m, s3) = unit_group (CHR ''m'') s2; (s, s4) = unit_group (CHR ''s'') s3
      in if s4 \<noteq> [] \<and> s4 \<noteq> [CHR 0x0A] then Inl (MlflowException INVALID_PARAMETER_VALUE)
         else bindE (add_groups [(d, 86400), (h, 3600), (m, 60), (s, 1)]) (\<lambda>(n, k).
                if 86400 * 1000000000 * 10 ^ k \<le> n then Inl OtherException
                else Inr (int (n * 1000000 div 10 ^ k div 1000))))"

subsection \<open>Pages\<close>

text \<open>The recursive \<^verbatim>\<open>fetch_experiments\<close> and \<^verbatim>\<open>fetch_runs\<close>: an error ends the listing.\<close>

partial_function (option) fetch_tolerant :: "(string option \<Rightarrow> 'x page) \<Rightarrow> string option \<Rightarrow> 'x list option" where
  "fetch_tolerant search token =
     (case search token of
        Inl e \<Rightarrow> Some []
      | Inr (items, t) \<Rightarrow>
          (case opt_str t of
             None \<Rightarrow> Some items
           | Some t' \<Rightarrow> Option.bind (fetch_tolerant search (Some t')) (\<lambda>rest. Some (items @ rest))))"

subsection \<open>Listings\<close>

type_synonym ('c, 'w, 'b) trash_state = "('c, 'w) api_state \<times> 'b"

text \<open>A handler behind \<^verbatim>\<open>Depends(check_admin_permission)\<close>; \<open>None\<close> is not returning.\<close>

definition as_admin ::
  "('c, 'w) api_env \<Rightarrow> route_request \<Rightarrow> (string option \<Rightarrow> ('c, 'w, 'b) trash_state \<Rightarrow> (trash_answer res \<times> ('c, 'w, 'b) trash_state) option) \<Rightarrow>
   ('c, 'w, 'b) trash_state \<Rightarrow> (trash_answer res \<times> ('c, 'w, 'b) trash_state) option" where
  "as_admin env rq body st =
     (case check_admin_permission env rq (fst st) of
        (Inl e, s) \<Rightarrow> Some (Inl e, (s, snd st))
      | (Inr admin, s) \<Rightarrow> body admin (s, snd st))"

definition list_deleted_experiments ::
  "('c, 'w) api_env \<Rightarrow> 'b trash_backend \<Rightarrow> route_request \<Rightarrow> ('c, 'w, 'b) trash_state \<Rightarrow> (trash_answer res \<times> ('c, 'w, 'b) trash_state) option" where
  "list_deleted_experiments env bk rq =
     as_admin env rq (\<lambda>admin st.
       Some (case tb_all_experiments bk (snd st) True of
               Inl e \<Rightarrow> Inl (HTTPException 500 ''Failed to retrieve deleted experiments'')
             | Inr es \<Rightarrow> Inr (Deleted_experiments es), st))"

definition listed_runs :: "'b trash_backend \<Rightarrow> 'b \<Rightarrow> string list \<Rightarrow> string list \<Rightarrow> trash_run list" where
  "listed_runs bk b experiment_filter ids =
     concat (map (\<lambda>r. case tb_get_run bk b r of
        Inl e \<Rightarrow> []
      | Inr run \<Rightarrow> if tr_stage run \<noteq> Deleted \<or> (experiment_filter \<noteq> [] \<and> tr_experiment_id run \<notin> set experiment_filter) then [] else [run]) ids)"

definition deleted_run_ids :: "'b trash_backend \<Rightarrow> 'b \<Rightarrow> string list \<Rightarrow> int \<Rightarrow> string list res option" where
  "deleted_run_ids bk b experiment_filter time_delta =
     (if tb_has_get_deleted_runs bk then Some (tb_get_deleted_runs bk b time_delta)
      else case (if experiment_filter \<noteq> [] then Inr experiment_filter
                 else bindE (tb_all_experiments bk b False) (\<lambda>es. Inr (map te_id es))) of
             Inl e \<Rightarrow> Some (Inl e)
           | Inr target \<Rightarrow> map_option Inr (fetch_tolerant (tb_search_runs bk b target) None))"

definition list_deleted_runs ::
  "('c, 'w) api_env \<Rightarrow> 'b trash_backend \<Rightarrow> route_request \<Rightarrow> string option \<Rightarrow> string option \<Rightarrow> ('c, 'w, 'b) trash_state \<Rightarrow>
   (trash_answer res \<times> ('c, 'w, 'b) trash_state) option" where
  "list_deleted_runs env bk rq experiment_ids older_than =
     as_admin env rq (\<lambda>admin st.
       case (case opt_str older_than of Some s \<Rightarrow> parse_time_delta s | None \<Rightarrow> Inr 0) of
         Inl (MlflowException c) \<Rightarrow> Some (Inr (Trash_error 400 ''Invalid time format''), st)
       | Inl e \<Rightarrow> Some (Inl e, st)
       | Inr time_delta \<Rightarrow>
           (case deleted_run_ids bk (snd st) (split_csv experiment_ids) time_delta of
              None \<Rightarrow> None
            | Some (Inl e) \<Rightarrow> Some (Inl (HTTPException 500 ''Failed to retrieve deleted runs''), st)
            | Some (Inr ids) \<Rightarrow> Some (Inr (Deleted_runs (listed_runs bk (snd st) (split_csv experiment_ids) ids)), st)))"

subsection \<open>Permanent deletion\<close>

fun delete_runs ::
  "'b trash_backend \<Rightarrow> string option \<Rightarrow> string list \<Rightarrow> string list \<Rightarrow> 'b \<Rightarrow> string list \<times> (string \<times> failure) list \<times> 'b" where
  "delete_runs bk limit old [] b = ([], [], b)"
| "delete_runs bk limit old (r # rs) b =
     (let failed = (\<lambda>why b'. case delete_runs bk limit old rs b' of (ds, fs, b2) \<Rightarrow> (ds, (r, why) # fs, b2)) in
      case tb_get_run bk b r of
        Inl e \<Rightarrow> failed (Raised e) b
      | Inr run \<Rightarrow>
          if tr_stage run \<noteq> Deleted then failed Run_not_deleted b
          else if limit \<noteq> None \<and> r \<notin> set old then failed (Run_not_older (the limit)) b
          else (let b1 = tb_delete_artifacts bk b (tr_artifact_uri run) in
                case tb_hard_delete_run bk b1 r of
                  Inl e \<Rightarrow> failed (Raised e) b1
                | Inr b2 \<Rightarrow> (case delete_runs bk limit old rs b2 of (ds, fs, b3) \<Rightarrow> (r # ds, fs, b3))))"

fun delete_experiments :: "'b trash_backend \<Rightarrow> string list \<Rightarrow> 'b \<Rightarrow> string list \<times> (string \<times> failure) list \<times> 'b" where
  "delete_experiments bk [] b = ([], [], b)"
| "delete_experiments bk (e # es) b =
     (case tb_hard_delete_experiment bk b e of
        Inl x \<Rightarrow> (case delete_experiments bk es b of (ds, fs, b') \<Rightarrow> (ds, (e, Raised x) # fs, b'))
      | Inr b1 \<Rightarrow> (case delete_experiments bk es b1 of (ds, fs, b') \<Rightarrow> (e # ds, fs, b')))"

text \<open>The experiments to delete: the named ones after the checks, or all deleted ones; a failed check is the answer.\<close>

fun fetch_named :: "'b trash_backend \<Rightarrow> 'b \<Rightarrow> string list \<Rightarrow> trash_answer + trash_experiment list" where
  "fetch_named bk b [] = Inr []"
| "fetch_named bk b (i # is) =
     (case tb_get_experiment bk b i of
        Inl e \<Rightarrow> Inl (Trash_error 404 (''Experiment '' @ i @ '' not found''))
      | Inr x \<Rightarrow> (case fetch_named bk b is of Inl a \<Rightarrow> Inl a | Inr xs \<Rightarrow> Inr (x # xs)))"

definition named_experiments :: "'b trash_backend \<Rightarrow> 'b \<Rightarrow> string option \<Rightarrow> int \<Rightarrow> string list \<Rightarrow> trash_answer + string list" where
  "named_experiments bk b limit threshold ids =
     (case fetch_named bk b ids of
        Inl a \<Rightarrow> Inl a
      | Inr es \<Rightarrow>
          (let active = filter (\<lambda>e. te_stage e \<noteq> Deleted) es;
               young = filter (\<lambda>e. case te_last_update_time e of None \<Rightarrow> True | Some t \<Rightarrow> threshold \<le> t) es
           in if active \<noteq> [] then Inl (Experiments_not_deleted (map te_id active))
              else case limit of
                     Some t \<Rightarrow> if young \<noteq> [] then Inl (Experiments_not_older (map te_id young) t) else Inr ids
                   | None \<Rightarrow> Inr ids))"

definition target_experiments ::
  "'b trash_backend \<Rightarrow> 'b \<Rightarrow> string option \<Rightarrow> int \<Rightarrow> string option \<Rightarrow> (trash_answer + string list) option" where
  "target_experiments bk b limit threshold experiment_ids =
     (if \<not> tb_has_hard_delete_experiment bk then Some (Inr [])
      else if opt_str experiment_ids \<noteq> None then Some (named_experiments bk b limit threshold (split_csv experiment_ids))
      else map_option (\<lambda>es. Inr (map te_id es)) (fetch_tolerant (tb_search_experiments bk b (map_option (\<lambda>_. threshold) limit)) None))"

text \<open>
  When no run is named \<^verbatim>\<open>target_run_ids\<close> is the list of the old runs itself, so extending it
  extends the list the age of a run is checked against.
\<close>

definition run_targets ::
  "'b trash_backend \<Rightarrow> 'b \<Rightarrow> int \<Rightarrow> string option \<Rightarrow> string list \<Rightarrow> (string list \<times> string list) option" where
  "run_targets bk b time_delta run_ids experiments =
     (let old = (if \<not> tb_has_get_deleted_runs bk then []
                 else case tb_get_deleted_runs bk b time_delta of Inl e \<Rightarrow> [] | Inr rs \<Rightarrow> rs);
          target = (if opt_str run_ids \<noteq> None then split_csv run_ids else old)
      in if experiments = [] then Some (target, old)
         else map_option (\<lambda>more. (target @ more, if opt_str run_ids \<noteq> None then old else target @ more))
                (fetch_tolerant (tb_search_runs bk b experiments) None))"

definition permanently_delete_all_trashed_entities ::
  "('c, 'w) api_env \<Rightarrow> 'b trash_backend \<Rightarrow> route_request \<Rightarrow> string option \<Rightarrow> string option \<Rightarrow> string option \<Rightarrow> ('c, 'w, 'b) trash_state \<Rightarrow>
   (trash_answer res \<times> ('c, 'w, 'b) trash_state) option" where
  "permanently_delete_all_trashed_entities env bk rq older_than run_ids experiment_ids =
     as_admin env rq (\<lambda>admin (s, b).
       if \<not> tb_has_hard_delete_run bk then Some (Inr (Trash_error 400 ''Backend store does not support permanent deletion of runs''), (s, b))
       else case (case older_than of None \<Rightarrow> Inr 0 | Some t \<Rightarrow> parse_time_delta t) of
              Inl (MlflowException c) \<Rightarrow> Some (Inr (Trash_error 400 ''Invalid time format''), (s, b))
            | Inl e \<Rightarrow> Some (Inl (HTTPException 500 ''Cleanup operation failed''), (s, b))
            | Inr time_delta \<Rightarrow>
                (let limit = opt_str older_than in
                 case target_experiments bk b limit (tb_now bk - time_delta) experiment_ids of
                   None \<Rightarrow> None
                 | Some (Inl a) \<Rightarrow> Some (Inr a, (s, b))
                 | Some (Inr experiments) \<Rightarrow>
                     (case run_targets bk b time_delta run_ids experiments of
                        None \<Rightarrow> None
                      | Some (targets, old) \<Rightarrow>
                          (case delete_runs bk limit old (tb_iter bk targets) b of
                             (deleted_runs, failed_runs, b1) \<Rightarrow>
                               (case delete_experiments bk experiments b1 of
                                  (deleted_experiments, failed_experiments, b2) \<Rightarrow>
                                    Some (Inr (Cleaned deleted_runs deleted_experiments failed_runs failed_experiments),
                                      (snd (emit_audit_event env ''trash.cleanup'' admin ''trash'' []
                                         [(''deleted_runs_count'', JNum (int (length deleted_runs))),
                                          (''deleted_experiments_count'', JNum (int (length deleted_experiments))),
                                          (''older_than'', case older_than of None \<Rightarrow> JNull | Some t \<Rightarrow> JStr t)] s), b2)))))))"

subsection \<open>Restoring\<close>

definition restore_experiment ::
  "('c, 'w) api_env \<Rightarrow> 'b trash_backend \<Rightarrow> route_request \<Rightarrow> string \<Rightarrow> ('c, 'w, 'b) trash_state \<Rightarrow> (trash_answer res \<times> ('c, 'w, 'b) trash_state) option" where
  "restore_experiment env bk rq eid =
     as_admin env rq (\<lambda>admin (s, b).
       case tb_get_experiment bk b eid of
         Inl e \<Rightarrow> Some (Inr (Trash_error 404 (''Experiment '' @ eid @ '' not found'')), (s, b))
       | Inr x \<Rightarrow>
           if te_stage x \<noteq> Deleted then Some (Inr (Trash_error 400 ''Experiment is not deleted''), (s, b))
           else (case tb_restore_experiment bk b eid of
                   Inl e \<Rightarrow> Some (Inl (HTTPException 500 ''Failed to restore experiment''), (s, b))
                 | Inr b1 \<Rightarrow>
                     (case tb_get_experiment bk b1 eid of
                        Inl e \<Rightarrow> Some (Inl (HTTPException 500 ''Failed to restore experiment''), (s, b1))
                      | Inr restored \<Rightarrow>
                          Some (Inr (Restored_experiment restored), (snd (emit_audit_event env ''trash.restore'' admin ''experiment'' eid [] s), b1)))))"

definition restore_run ::
  "('c, 'w) api_env \<Rightarrow> 'b trash_backend \<Rightarrow> route_request \<Rightarrow> string \<Rightarrow> ('c, 'w, 'b) trash_state \<Rightarrow> (trash_answer res \<times> ('c, 'w, 'b) trash_state) option" where
  "restore_run env bk rq rid =
     as_admin env rq (\<lambda>admin (s, b).
       case tb_get_run bk b rid of
         Inl e \<Rightarrow> Some (Inr (Trash_error 404 (''Run '' @ rid @ '' not found'')), (s, b))
       | Inr x \<Rightarrow>
           if tr_stage x \<noteq> Deleted then Some (Inr (Trash_error 400 ''Run is not deleted''), (s, b))
           else (case tb_restore_run bk b rid of
                   Inl e \<Rightarrow> Some (Inl (HTTPException 500 ''Failed to restore run''), (s, b))
                 | Inr b1 \<Rightarrow>
                     (case tb_get_run bk b1 rid of
                        Inl e \<Rightarrow> Some (Inl (HTTPException 500 ''Failed to restore run''), (s, b1))
                      | Inr restored \<Rightarrow>
                          Some (Inr (Restored_run restored), (snd (emit_audit_event env ''trash.restore'' admin ''run'' rid [] s), b1)))))"

end
