(* ===== verification/Trash_Properties.thy ===== *)
theory Trash_Properties
  imports Trash Route_Properties
begin

section \<open>Properties of the trash\<close>

text \<open>
  Permanent deletion removes nothing that is not in the trash, and returns. What the tracking store promises is a locale: a
  view of its runs and experiments, and what its operations keep of it.
\<close>

locale tracking_store =
  fixes bk :: "'b trash_backend" and runs :: "'b \<Rightarrow> string \<rightharpoonup> trash_run" and exps :: "'b \<Rightarrow> string \<rightharpoonup> trash_experiment"
  assumes get_run: "tb_get_run bk b r = Inr x \<Longrightarrow> runs b r = Some x"
    and get_experiment: "tb_get_experiment bk b e = Inr y \<Longrightarrow> exps b e = Some y"
    and search_deleted: "tb_search_experiments bk b t tok = Inr (ys, tok') \<Longrightarrow> y \<in> set ys \<Longrightarrow> exps b (te_id y) = Some y \<and> te_stage y = Deleted"
    and artifacts: "runs (tb_delete_artifacts bk b uri) = runs b" "exps (tb_delete_artifacts bk b uri) = exps b"
    and hard_delete_run: "tb_hard_delete_run bk b r = Inr b' \<Longrightarrow> r' \<noteq> r \<Longrightarrow> runs b' r' = runs b r'"
      "tb_hard_delete_run bk b r = Inr b' \<Longrightarrow> exps b' = exps b"
    and hard_delete_experiment: "tb_hard_delete_experiment bk b e = Inr b' \<Longrightarrow> e' \<noteq> e \<Longrightarrow> exps b' e' = exps b e'"
      "tb_hard_delete_experiment bk b e = Inr b' \<Longrightarrow> runs b r = Some x \<Longrightarrow> tr_experiment_id x \<noteq> e \<Longrightarrow> runs b' r = Some x"
begin

lemma delete_runs_spares:
  assumes "delete_runs bk limit old rs b = (ds, fs, b')"
  shows "exps b' = exps b" and "runs b r = Some x \<Longrightarrow> tr_stage x = Active \<Longrightarrow> runs b' r = Some x"
proof -
  have "exps b' = exps b \<and> (\<forall>r x. runs b r = Some x \<and> tr_stage x = Active \<longrightarrow> runs b' r = Some x)"
    using assms
  proof (induction rs arbitrary: b ds fs b')
    case (Cons q rs)
    show ?case
    proof (cases "tb_get_run bk b q")
      case (Inl e)
      with Cons show ?thesis by (auto split: prod.splits)
    next
      case (Inr run)
      show ?thesis
      proof (cases "tr_stage run \<noteq> Deleted \<or> limit \<noteq> None \<and> q \<notin> set old")
        case True
        with Cons Inr show ?thesis by (auto split: prod.splits if_splits)
      next
        case False
        let ?b1 = "tb_delete_artifacts bk b (tr_artifact_uri run)"
        show ?thesis
        proof (cases "tb_hard_delete_run bk ?b1 q")
          case (Inl e)
          with Cons.prems \<open>tb_get_run bk b q = Inr run\<close> False obtain ds2 fs2 where "delete_runs bk limit old rs ?b1 = (ds2, fs2, b')"
            by (auto simp: Let_def split: prod.splits if_splits)
          from Cons.IH [OF this] show ?thesis by (simp add: artifacts)
        next
          case del: (Inr b2)
          with Cons.prems Inr False obtain ds2 fs2 where "delete_runs bk limit old rs b2 = (ds2, fs2, b')"
            by (auto simp: Let_def split: prod.splits if_splits)
          note rest = Cons.IH [OF this]
          have "runs b2 r = Some x" if "runs b r = Some x" "tr_stage x = Active" for r x
            using that get_run [OF Inr] False hard_delete_run(1) [OF del, of r] by (cases "r = q") (auto simp: artifacts)
          with rest hard_delete_run(2) [OF del] show ?thesis by (simp add: artifacts)
        qed
      qed
    qed
  qed simp
  then show "exps b' = exps b" and "runs b r = Some x \<Longrightarrow> tr_stage x = Active \<Longrightarrow> runs b' r = Some x" by blast+
qed

lemma delete_experiments_spares:
  assumes "delete_experiments bk es b = (ds, fs, b')"
  shows "e \<notin> set es \<Longrightarrow> exps b' e = exps b e" and "runs b r = Some x \<Longrightarrow> tr_experiment_id x \<notin> set es \<Longrightarrow> runs b' r = Some x"
proof -
  have "(e \<notin> set es \<longrightarrow> exps b' e = exps b e) \<and> (\<forall>r x. runs b r = Some x \<and> tr_experiment_id x \<notin> set es \<longrightarrow> runs b' r = Some x)"
    using assms
  proof (induction es arbitrary: b ds fs b')
    case (Cons i es)
    show ?case
    proof (cases "tb_hard_delete_experiment bk b i")
      case (Inl y)
      with Cons show ?thesis by (auto split: prod.splits)
    next
      case (Inr b1)
      with Cons.prems obtain ds2 fs2 where "delete_experiments bk es b1 = (ds2, fs2, b')" by (auto split: prod.splits)
      note rest = Cons.IH [OF this]
      from rest hard_delete_experiment [OF Inr] show ?thesis by auto
    qed
  qed simp
  then show "e \<notin> set es \<Longrightarrow> exps b' e = exps b e" and "runs b r = Some x \<Longrightarrow> tr_experiment_id x \<notin> set es \<Longrightarrow> runs b' r = Some x" by blast+
qed

end

text \<open>A listing with errors dropped holds only entities that some page held.\<close>

lemma fetch_tolerant_invariant:
  assumes "fetch_tolerant search token = Some xs" and "\<And>tok ys tok' y. search tok = Inr (ys, tok') \<Longrightarrow> y \<in> set ys \<Longrightarrow> P y"
  shows "\<forall>x\<in>set xs. P x"
proof -
  have "\<forall>tok ys tok'. search tok = Inr (ys, tok') \<longrightarrow> (\<forall>y\<in>set ys. P y) \<Longrightarrow> \<forall>x\<in>set xs. P x"
    using assms(1)
  proof (induction rule: fetch_tolerant.raw_induct [rotated, consumes 1, case_names step])
    case (step f search token xs)
    from step(2) show ?case
      using step(1,3) by (auto split: sum.splits prod.splits option.splits simp: bind_eq_Some_conv) blast+
  qed
  with assms(2) show ?thesis by blast
qed

lemma fetch_named_deleted:
  "fetch_named bk b ids = Inr xs \<Longrightarrow> i \<in> set ids \<Longrightarrow> \<exists>x\<in>set xs. tb_get_experiment bk b i = Inr x"
  by (induction ids arbitrary: xs) (auto split: sum.splits)

context tracking_store
begin

lemma targets_deleted:
  assumes "target_experiments bk b limit threshold ids = Some (Inr es)" and "e \<in> set es"
  shows "\<exists>x. exps b e = Some x \<and> te_stage x = Deleted"
proof (cases "tb_has_hard_delete_experiment bk \<and> opt_str ids \<noteq> None")
  case True
  with assms(1) obtain xs where xs: "fetch_named bk b es = Inr xs" "\<forall>x\<in>set xs. te_stage x = Deleted"
    by (auto simp: target_experiments_def named_experiments_def Let_def filter_empty_conv split: sum.splits if_splits option.splits)
  from fetch_named_deleted [OF xs(1) assms(2)] xs(2) get_experiment show ?thesis by blast
next
  case False
  with assms obtain xs where xs: "fetch_tolerant (tb_search_experiments bk b (map_option (\<lambda>_. threshold) limit)) None = Some xs"
    and "es = map te_id xs" by (auto simp: target_experiments_def split: if_splits)
  with fetch_tolerant_invariant [OF xs, where P = "\<lambda>y. exps b (te_id y) = Some y \<and> te_stage y = Deleted"] search_deleted assms(2)
  show ?thesis by auto
qed

end

lemma admin_checked: "check_admin_permission env rq s = (Inr a, s') \<Longrightarrow> get_is_admin (pe_clock env) rq (a_db (ap_app s)) = Inr True"
  by (auto simp: check_admin_permission_def caller_def reading_def rescue_def bind_check_def lift_res_def bindE_def
      split: sum.splits prod.splits if_splits)

lemma cleanup_cases:
  assumes "permanently_delete_all_trashed_entities env bk rq older_than run_ids experiment_ids (s, b) = Some (r, s', b')"
  obtains (same) "b' = b"
  | (deleted) es limit threshold old targets ds fs b1 ds2 fs2 where "get_is_admin (pe_clock env) rq (a_db (ap_app s)) = Inr True"
      "target_experiments bk b limit threshold experiment_ids = Some (Inr es)" "delete_runs bk limit old targets b = (ds, fs, b1)"
      "delete_experiments bk es b1 = (ds2, fs2, b')"
proof -
  obtain ra s1 where ca: "check_admin_permission env rq s = (ra, s1)" by (rule prod.exhaust)
  show thesis
  proof (cases ra)
    case (Inl e)
    with assms ca same show thesis by (simp add: permanently_delete_all_trashed_entities_def as_admin_def)
  next
    case (Inr admin)
    note adm = admin_checked [OF ca [unfolded Inr]]
    from assms ca Inr show thesis
      unfolding permanently_delete_all_trashed_entities_def as_admin_def
      by (auto simp: Let_def split: if_splits sum.splits exn.splits option.splits prod.splits intro: same deleted [OF adm])
  qed
qed

text \<open>
  C40: Permanent deletion spares the living: whatever ages, runs and experiments a request names, no
  active experiment is deleted and no active run of an experiment that is not in the trash; and only the
  request of an administrator deletes anything.
\<close>

theorem cleanup_spares_the_living:
  assumes "tracking_store bk runs exps"
    and "permanently_delete_all_trashed_entities env bk rq older_than run_ids experiment_ids (s, b) = Some (r, s', b')"
  shows "(exps b e = Some x \<and> te_stage x = Active \<longrightarrow> exps b' e = Some x) \<and>
    (runs b q = Some y \<and> tr_stage y = Active \<and> (\<forall>x. exps b (tr_experiment_id y) = Some x \<longrightarrow> te_stage x = Active) \<longrightarrow> runs b' q = Some y) \<and>
    (b' \<noteq> b \<longrightarrow> get_is_admin (pe_clock env) rq (a_db (ap_app s)) = Inr True)"
  using assms(2)
proof (cases rule: cleanup_cases)
  case (deleted es limit threshold old targets ds fs b1 ds2 fs2)

  note trash = tracking_store.targets_deleted [OF assms(1) deleted(2)] and after_runs = tracking_store.delete_runs_spares [OF assms(1) deleted(3)] and after_experiments = tracking_store.delete_experiments_spares [OF assms(1) deleted(4)]
  show ?thesis
  proof (intro conjI impI)
    assume x: "exps b e = Some x \<and> te_stage x = Active"
    with trash [of e] have "e \<notin> set es" by auto
    with after_experiments(1) after_runs(1) x show "exps b' e = Some x" by simp
  next
    assume y: "runs b q = Some y \<and> tr_stage y = Active \<and> (\<forall>x. exps b (tr_experiment_id y) = Some x \<longrightarrow> te_stage x = Active)"
    with trash [of "tr_experiment_id y"] have "tr_experiment_id y \<notin> set es" by auto
    with after_experiments(2) after_runs(2) y show "runs b' q = Some y" by blast
  qed (rule deleted(1))
qed simp

text \<open>The cleanup ends whenever the listings of the store do: some measure of the page token decreases.\<close>

definition pages_end :: "(string option \<Rightarrow> 'x page) \<Rightarrow> bool" where
  "pages_end search \<longleftrightarrow> (\<exists>m :: string option \<Rightarrow> nat. \<forall>tok ys t t'. search tok = Inr (ys, t) \<and> opt_str t = Some t' \<longrightarrow> m (Some t') < m tok)"

lemma fetch_tolerant_returns:
  assumes "pages_end search"
  shows "\<exists>xs. fetch_tolerant search tok = Some xs"
proof -
  from assms obtain m :: "string option \<Rightarrow> nat"
    where m: "\<And>tok ys t t'. search tok = Inr (ys, t) \<Longrightarrow> opt_str t = Some t' \<Longrightarrow> m (Some t') < m tok"
    unfolding pages_end_def by blast
  show ?thesis
  proof (induction tok rule: measure_induct_rule [of m])
    case (less tok)
    from less [OF m] show ?case by (subst fetch_tolerant.simps) (fastforce split: sum.splits option.splits prod.splits)
  qed
qed

lemma cleanup_returns:
  assumes "\<And>t. pages_end (tb_search_experiments bk (snd st) t)" and "\<And>es. pages_end (tb_search_runs bk (snd st) es)"
  shows "permanently_delete_all_trashed_entities env bk rq older_than run_ids experiment_ids st \<noteq> None"
proof -
  have experiments: "target_experiments bk (snd st) limit t ids \<noteq> None" for limit t ids
    using fetch_tolerant_returns [OF assms(1)] by (auto simp: target_experiments_def)
  have runs: "run_targets bk (snd st) d ids es \<noteq> None" for d ids es
    using fetch_tolerant_returns [OF assms(2)] by (auto simp: run_targets_def Let_def)
  show ?thesis
    by (auto simp: permanently_delete_all_trashed_entities_def as_admin_def Let_def experiments runs split: sum.splits exn.splits option.splits prod.splits)
qed

subsection \<open>A store in memory\<close>

text \<open>Runs and experiments by id; an experiment is deleted with its runs.\<close>

type_synonym memory = "(string \<times> trash_run) list \<times> (string \<times> trash_experiment) list"

definition found :: "('k \<times> 'v) list \<Rightarrow> 'k \<Rightarrow> 'v res" where
  "found kvs k = (case map_of kvs k of Some v \<Rightarrow> Inr v | None \<Rightarrow> Inl (MlflowException RESOURCE_DOES_NOT_EXIST))"

definition deleted_in_memory :: "memory \<Rightarrow> trash_experiment list" where
  "deleted_in_memory b = filter (\<lambda>y. map_of (snd b) (te_id y) = Some y \<and> te_stage y = Deleted) (map snd (snd b))"

definition memory_backend :: "memory trash_backend" where
  "memory_backend =
     \<lparr>tb_has_hard_delete_run = True, tb_has_hard_delete_experiment = True, tb_has_get_deleted_runs = True,
      tb_get_deleted_runs = (\<lambda>b t. Inr (map fst (filter (\<lambda>kv. tr_stage (snd kv) = Deleted) (fst b)))),
      tb_all_experiments = (\<lambda>b deleted_only. Inr (if deleted_only then deleted_in_memory b else map snd (snd b))),
      tb_get_experiment = (\<lambda>b. found (snd b)), tb_search_experiments = (\<lambda>b t tok. Inr (deleted_in_memory b, None)),
      tb_search_runs = (\<lambda>b es tok. Inr (map fst (filter (\<lambda>kv. tr_stage (snd kv) = Deleted \<and> tr_experiment_id (snd kv) \<in> set es) (fst b)), None)),
      tb_get_run = (\<lambda>b. found (fst b)), tb_delete_artifacts = (\<lambda>b uri. b),
      tb_hard_delete_run = (\<lambda>b r. Inr (filter (\<lambda>kv. fst kv \<noteq> r) (fst b), snd b)),
      tb_hard_delete_experiment = (\<lambda>b e. Inr (filter (\<lambda>kv. tr_experiment_id (snd kv) \<noteq> e) (fst b), filter (\<lambda>kv. fst kv \<noteq> e) (snd b))),
      tb_restore_experiment = (\<lambda>b e. Inr b), tb_restore_run = (\<lambda>b r. Inr b), tb_iter = remdups, tb_now = 0\<rparr>"

lemma map_of_filter_other: "k \<noteq> k' \<Longrightarrow> map_of (filter (\<lambda>kv. fst kv \<noteq> k') kvs) k = map_of kvs k"
  by (induction kvs) auto

lemma map_of_filter_value: "map_of kvs k = Some v \<Longrightarrow> P v \<Longrightarrow> map_of (filter (\<lambda>kv. P (snd kv)) kvs) k = Some v"
  by (induction kvs) (auto split: if_splits)

interpretation memory: tracking_store memory_backend "\<lambda>b. map_of (fst b)" "\<lambda>b. map_of (snd b)"
  by unfold_locales
    (auto simp: memory_backend_def found_def deleted_in_memory_def map_of_filter_other map_of_filter_value
      [where P = "\<lambda>x. tr_experiment_id x \<noteq> e" for e] split: option.splits)

definition old_experiment :: "string \<Rightarrow> stage \<Rightarrow> string \<times> trash_experiment" where
  "old_experiment i st = (i, \<lparr>te_id = i, te_name = i, te_stage = st, te_last_update_time = None\<rparr>)"

definition run_in :: "string \<Rightarrow> string \<Rightarrow> stage \<Rightarrow> string \<times> trash_run" where
  "run_in i e st = (i, \<lparr>tr_id = i, tr_experiment_id = e, tr_stage = st, tr_artifact_uri = i\<rparr>)"

definition memory_before :: memory where
  "memory_before =
     ([run_in ''r1'' ''kept'' Deleted, run_in ''r2'' ''kept'' Active, run_in ''r3'' ''gone'' Deleted],
      [old_experiment ''kept'' Active, old_experiment ''gone'' Deleted])"

definition admin_request :: route_request where
  "admin_request = (experiment_request ''POST'' ''7'' ''READ'')\<lparr>hq_state_username := Some ''alice''\<rparr>"

text \<open>A request that names the run \<^verbatim>\<open>r1\<close> alone.\<close>

lemma cleanup_of_a_run:
  "\<exists>s'. permanently_delete_all_trashed_entities sample_api_env memory_backend admin_request None (Some ''r1'') None (sample_api, memory_before) =
     Some (Inr (Cleaned [''r1'', ''r3''] [''gone''] [] []), s', ([run_in ''r2'' ''kept'' Active], [old_experiment ''kept'' Active]))"
proof -
  have "\<not> isl (fst (check_admin_permission sample_api_env admin_request sample_api))" by code_simp
  then obtain a s1 where ok: "check_admin_permission sample_api_env admin_request sample_api = (Inr a, s1)"
    by (metis prod.collapse sum.collapse(2))
  have pages: "fetch_tolerant (tb_search_experiments memory_backend memory_before None) None = Some [snd (old_experiment ''gone'' Deleted)]"
    "fetch_tolerant (tb_search_runs memory_backend memory_before [''gone'']) None = Some [''r3'']"
    by (subst fetch_tolerant.simps, simp add: memory_backend_def memory_before_def deleted_in_memory_def old_experiment_def run_in_def opt_str_def)+
  have targets: "target_experiments memory_backend memory_before None t None = Some (Inr [''gone''])" for t
    using pages(1) by (simp add: target_experiments_def opt_str_def) (simp add: memory_backend_def old_experiment_def)
  have csv: "split_csv (Some ''r1'') = [''r1'']" by code_simp
  from pages(2) csv obtain old where runs: "run_targets memory_backend memory_before 0 (Some ''r1'') [''gone''] = Some ([''r1'', ''r3''], old)"
    by (simp add: run_targets_def opt_str_def Let_def)
  have delete: "delete_runs memory_backend None old [''r1'', ''r3''] memory_before =
      ([''r1'', ''r3''], [], [run_in ''r2'' ''kept'' Active], snd memory_before)"
    by (simp add: memory_backend_def memory_before_def run_in_def found_def)
  have delete2: "delete_experiments memory_backend [''gone''] ([run_in ''r2'' ''kept'' Active], snd memory_before) =
      ([''gone''], [], [run_in ''r2'' ''kept'' Active], [old_experiment ''kept'' Active])"
    by (simp add: memory_backend_def memory_before_def run_in_def old_experiment_def)
  have store: "tb_has_hard_delete_run memory_backend" "tb_has_hard_delete_experiment memory_backend"
    "tb_iter memory_backend [''r1'', ''r3''] = [''r1'', ''r3'']" by (simp_all add: memory_backend_def)
  show ?thesis
    by (simp add: permanently_delete_all_trashed_entities_def as_admin_def ok opt_str_def Let_def targets runs delete delete2 store
        del: delete_runs.simps delete_experiments.simps)
qed

theorem cleanup_spares_the_living_witness:
  "\<exists>s' b'. permanently_delete_all_trashed_entities sample_api_env memory_backend admin_request None (Some ''r1'') None (sample_api, memory_before) =
     Some (Inr (Cleaned [''r1'', ''r3''] [''gone''] [] []), s', b') \<and>
   map_of (fst b') ''r2'' = Some (snd (run_in ''r2'' ''kept'' Active))"
proof -
  obtain s' b' where run: "permanently_delete_all_trashed_entities sample_api_env memory_backend admin_request None (Some ''r1'') None
      (sample_api, memory_before) = Some (Inr (Cleaned [''r1'', ''r3''] [''gone''] [] []), s', b')" using cleanup_of_a_run by blast
  from cleanup_spares_the_living [OF memory.tracking_store_axioms run, of _ _ "''r2''" "snd (run_in ''r2'' ''kept'' Active)"] run
  show ?thesis by (auto simp: memory_before_def run_in_def old_experiment_def)
qed

text \<open>
  Naming runs does not keep the experiments in the trash: without a list of experiments all deleted
  ones are purged, here \<^verbatim>\<open>gone\<close> with its run, although the request names the run of another
  experiment.
\<close>

theorem naming_a_run_purges_the_trash:
  "\<exists>s' b'. permanently_delete_all_trashed_entities sample_api_env memory_backend admin_request None (Some ''r1'') None (sample_api, memory_before) =
     Some (Inr (Cleaned [''r1'', ''r3''] [''gone''] [] []), s', b') \<and> map_of (snd b') ''gone'' = None"
  using cleanup_of_a_run by (auto simp: old_experiment_def)

end
