(* ===== verification/Spec2Isabelle.thy ===== *)
theory Spec2Isabelle
  imports User_Route_Properties Transport_Properties Graphql_Properties Fetching_Properties Trash_Properties
begin

text \<open>
  A verification development for \<^verbatim>\<open>mlflow-oidc-auth\<close>, the plugin that puts
  accounts, permissions and single sign-on in front of an MLflow server.

  \<^bold>\<open>The program.\<close> A request is authenticated (a session cookie, a password, a token), the
  user's permission on the resource is resolved, and the request is answered, refused or filtered.
  Permissions are rows of a database: per user, per group, per pattern and per group pattern, for
  each type of resource and for workspaces. The resolver asks these sources in a configured order,
  caches its decisions per worker, and falls back to the workspace or to a default. Accounts come
  from administrators or from logins at external providers; a login binds an external identity to an
  account, synchronises its groups and opens a server-side session.

  \<^bold>\<open>The theories\<close>, each with the files under \<^verbatim>\<open>src/mlflow_oidc_auth\<close> it models:

  \<^item> \<open>Prelude\<close>: results \<open>error + 'a\<close> with the errors the code raises, Python's string
    operations and sets, list and option lemmas, the collections of proof rules.
  \<^item> \<open>Permissions\<close>: \<^verbatim>\<open>permissions.py\<close>. \<open>Database\<close>: \<^verbatim>\<open>db/models\<close> as one record
    \<open>db\<close> of lists of rows with the unique and foreign keys as \<open>wf_db\<close>, SQLAlchemy's query
    results, and \<^verbatim>\<open>repository/utils.py\<close>. Columns that no modelled code reads or
    writes (time stamps, external ids, encrypted tokens, nonces) are left out.
  \<^item> \<open>Repositories\<close>, \<open>Regex_Repositories\<close>, \<open>Resource_Repositories\<close>, \<open>Group_Repository\<close>:
    \<^verbatim>\<open>repository/*\<close>, the base classes and every override. A locale states a table
    of grants as a finite map and is interpreted on the user and the group tables.
  \<^item> \<open>Store\<close>, \<open>Cached_Store\<close>: \<^verbatim>\<open>sqlalchemy_store.py\<close>, its delegating methods and its
    cache invalidation wrappers, and the handlers of the workspace permission routers.
  \<^item> \<open>Cache\<close>, \<open>Workspace_Cache\<close>, \<open>Resolver\<close>, \<open>Batch\<close>, \<open>Cache_Coherence\<close>:
    \<^verbatim>\<open>cache/\<close>, \<^verbatim>\<open>utils/workspace_cache.py\<close>, \<^verbatim>\<open>utils/permissions.py\<close>,
    \<^verbatim>\<open>utils/batch_permissions.py\<close>, and the reachable states of a worker.
  \<^item> \<open>Ownership\<close>, \<open>Users\<close>, \<open>Sessions\<close>, \<open>Json\<close>, \<open>Kubernetes\<close>, \<open>Provider_Registry\<close>,
    \<open>Identity\<close>, \<open>Admin_Cli\<close>, \<open>Accounts\<close>, \<open>Login\<close>: the account side, namely
    \<^verbatim>\<open>ownership.py\<close>, \<^verbatim>\<open>repository/user.py\<close>, \<^verbatim>\<open>user.py\<close>,
    \<^verbatim>\<open>repository/auth_session.py\<close>, \<^verbatim>\<open>repository/auth_state.py\<close>, \<^verbatim>\<open>kubernetes.py\<close>,
    \<^verbatim>\<open>provider_registry.py\<close>, \<^verbatim>\<open>repository/user_identity.py\<close>, \<^verbatim>\<open>identity_resolution.py\<close>,
    \<^verbatim>\<open>provisioning_policy.py\<close>, \<^verbatim>\<open>db/cli.py\<close>, \<^verbatim>\<open>routers/auth.py\<close>,
    \<^verbatim>\<open>authorization_response.py\<close> and \<^verbatim>\<open>utils/oidc_field_extraction.py\<close>.
    \<open>Accounts\<close> puts their operations into one step relation.
  \<^item> \<open>Tokens\<close>, \<open>Authentication\<close>: \<^verbatim>\<open>auth.py\<close> and
    \<^verbatim>\<open>middleware/auth_middleware.py\<close>, from a token or a cookie to the account a
    request acts as.
  \<^item> \<open>Http_Request\<close>, \<open>Validators\<close>, \<open>Before_Request\<close>, \<open>After_Request\<close>, \<open>Search_Filters\<close>:
    the authorisation of MLflow's requests, namely \<^verbatim>\<open>hooks/dual_spelling_guard.py\<close>,
    \<^verbatim>\<open>utils/request_helpers.py\<close>, \<^verbatim>\<open>bridge/user.py\<close>, \<^verbatim>\<open>validators/*\<close>,
    \<^verbatim>\<open>hooks/before_request.py\<close> with its route tables, and \<^verbatim>\<open>hooks/after_request.py\<close>:
    creator grants, renames, cascades and the filtered searches.
  \<^item> \<open>Authorization\<close>: the specification of the hook. \<open>needs\<close> is what a request of each validator needs, a
    list of resources with a capability; a locale shows every validator to decide it. \<open>Pagination\<close>: a locale for a
    paged listing and the exactness of the searches over it.
  \<^item> \<open>Dependencies\<close>: the plugin's own API, namely \<^verbatim>\<open>dependencies.py\<close>,
    \<^verbatim>\<open>utils/request_helpers_fastapi.py\<close>, \<^verbatim>\<open>audit.py\<close> and \<^verbatim>\<open>exceptions.py\<close>: who a request acts as,
    the dependencies that authorise a handler, the audit log. \<open>User_Permissions\<close>, \<open>Group_Permissions\<close>,
    \<open>Permission_Listings\<close>, \<open>User_Routes\<close>: one definition per handler and one table of routes per router of
    \<^verbatim>\<open>routers/user_permissions.py\<close>, \<^verbatim>\<open>routers/group_permissions.py\<close>, the routers of the resources and
    \<^verbatim>\<open>routers/users.py\<close>. \<open>Routes\<close>: the contract of a handler, with rules that follow the handlers' shape;
    the tables are checked against it entry by entry.
  \<^item> \<open>Ip_Address\<close>, \<open>Transport\<close>: what surrounds the routes, namely Python's \<^verbatim>\<open>ipaddress\<close> on words and
    \<^verbatim>\<open>middleware/proxy_headers_middleware.py\<close>, \<^verbatim>\<open>middleware/fastapi_permission_middleware.py\<close>,
    \<^verbatim>\<open>middleware/workspace_context_middleware.py\<close>, \<^verbatim>\<open>middleware/auth_aware_wsgi_middleware.py\<close>, stacked in the
    order of \<^verbatim>\<open>app.py\<close> around a router. \<open>Graphql\<close>: \<^verbatim>\<open>graphql/middleware.py\<close>, specified by \<open>field_needs\<close>.
    \<open>Data_Fetching\<close>: \<^verbatim>\<open>utils/data_fetching.py\<close> over a locale of paged listings. \<open>Trash\<close>:
    \<^verbatim>\<open>routers/trash.py\<close> over the locale \<open>tracking_store\<close>.
  \<^item> \<open>Examples\<close>, \<open>Login_Examples\<close>: a sample deployment. \<open>Account_Properties\<close>,
    \<open>Request_Properties\<close>, \<open>Hook_Properties\<close>, \<open>Route_Properties\<close>, \<open>User_Route_Properties\<close>, \<open>Transport_Properties\<close>,
    \<open>Graphql_Properties\<close>, \<open>Fetching_Properties\<close>, \<open>Trash_Properties\<close> and this theory hold the properties.

  \<^bold>\<open>What is shown.\<close> The resolver returns the decision of the first source with an answer, also
  from the cache and after any interleaving of requests, writes, workspace handlers and cache losses;
  the batch resolvers agree with it; tables of grants behave as maps; group synchronisation is exact;
  an active administrator remains; a session that ended stays ended; a login attempt is used once
  however callbacks interleave; a login never reaches an account of another provider; the provider
  registry obeys its rules; a bearer token is accepted only under the keys of its own provider, and a
  request proceeds only for an active account. A request passes the hook only when its user holds, in the
  current database, the capability of the route on every resource the request names; a search answers
  all of the readable entities and only those, and its refills terminate. Through the plugin's API a
  permission changes only for an administrator or for somebody who manages the resource, every such change
  is a step of the worker's machine, is recorded, and decides the next request; accounts change for
  administrators only, but for one's own token. A route that bypasses Flask is reached only by an active account
  that meets its need, provided no root path hides it; proxy headers count only from trusted addresses; a
  GraphQL field is resolved only for readable input; listings are fetched whole; emptying
  the trash spares what is not in it. Some theorems state what the code does where that is surprising.

  \<^bold>\<open>Parameters.\<close> Code outside the repository is an argument: \<^verbatim>\<open>cachetools.TTLCache\<close> (the
  locale \<open>ttl_cache\<close>), \<^verbatim>\<open>re.match\<close>, MLflow's tracking store, Werkzeug's hashing,
  \<^verbatim>\<open>json.loads\<close>, the OAuth client, the plugins, the clock and random tokens; of MLflow's
  server its routes, the fields of its messages and the searches of its stores. There is no fuel: loops
  are structural recursions over a list, \<open>re_compile_path\<close> and \<open>split_on\<close> have termination proofs, and the
  loops over the pages of a store, which end only when the store does, are partial and shown to return.

  \<^bold>\<open>Not modelled.\<close> Network and file access, the web framework, schemas of requests and answers,
  configuration readers, migrations, logging, the routers for webhooks, health and the web
  interface, and the Redis cache back end.
\<close>

section \<open>Permission resolution\<close>





text \<open>
  C3: A decision comes from the first source in the configured order that has an answer. Sources that
  are not configured for the resource, or that report that no grant exists, are passed over; when all
  are, the configured default is returned and marked \<^verbatim>\<open>fallback\<close>.
\<close>

theorem first_source_decides:
  "get_permission_from_store_or_default cfg srcs =
     (case dropWhile (skips srcs) (PERMISSION_SOURCE_ORDER cfg) of
        [] \<Rightarrow> default_result (DEFAULT_MLFLOW_PERMISSION cfg)
      | s # _ \<Rightarrow> answer srcs s)"
  unfolding get_permission_from_store_or_default_def by (rule permission_from_sources_dropWhile)



section \<open>Listings\<close>

text \<open>
  C16: The batch resolvers of the listing endpoints agree with the single-resource path: for an
  existing user, with patterns that match without error and a valid default, they return for every
  listed experiment, model and prompt the decision the resolver gives for it, and never raise.
\<close>

theorem batch_agrees_with_single:
  assumes "ttl_cache pttl" and "ttl_cache wttl"
    and "e_pc env = LocalTTLCacheBackend pttl" and "e_wc env = LocalTTLCacheBackend wttl" and "listing_ok env s uname"
    and "\<forall>e\<in>set es. e_experiment_name env (exp_id e) = Inr (exp_name e)"
  shows "(\<exists>perms. fst (batch_resolve_experiment_permissions env s uname es) = Inr perms \<and>
      (\<forall>e\<in>set es. \<exists>r. perms (exp_id e) = Some r \<and> decide env (a_db s) EXPERIMENT (exp_id e) uname None = Inr r)) \<and>
    (\<exists>perms. fst (batch_resolve_model_permissions env s uname ms) = Inr perms \<and>
      (\<forall>n\<in>set ms. \<exists>r. perms n = Some r \<and> decide env (a_db s) REGISTERED_MODEL n uname None = Inr r)) \<and>
    (\<exists>perms. fst (batch_resolve_prompt_permissions env s uname ps) = Inr perms \<and>
      (\<forall>n\<in>set ps. \<exists>r. perms n = Some r \<and> decide env (a_db s) PROMPT n uname None = Inr r))"
proof -
  note dec = resolver_caches.batch_decisions [OF local_resolver_caches [OF assms(1,2)] assms(4,5)]
  show ?thesis
    using dec(1) [OF assms(6)] dec(2) [of ms] dec(3) [of ps]
    by (intro conjI; elim exE conjE) (rule exI, rule conjI, simp, assumption)+
qed

theorem batch_agrees_with_single_witness:
  "\<exists>perms. fst (batch_resolve_experiment_permissions sample_env sample_app ''bob'' [\<lparr>exp_id = ''7'', exp_name = ''team/x''\<rparr>]) = Inr perms \<and>
     perms ''7'' = Some \<lparr>pr_permission = EDIT, kind = ''group''\<rparr>"
proof -
  have "decide sample_env sample_db EXPERIMENT ''7'' ''bob'' None = Inr \<lparr>pr_permission = EDIT, kind = ''group''\<rparr>"
    by (rule sample_group_decision)
  with batch_agrees_with_single [OF timed.ttl_cache_axioms timed.ttl_cache_axioms _ _ sample_listing(1),
      of "[\<lparr>exp_id = ''7'', exp_name = ''team/x''\<rparr>]" "[]" "[]"]
  show ?thesis by auto
qed

text \<open>
  C17: The listing filters keep, in order, exactly the objects on which the user's decision allows
  management: experiments, models and prompts through the batch resolvers, gateway endpoints, secrets
  and model definitions through the cached resolver, where an unnamed object or an error is left out.
\<close>

theorem filters_keep_manageable:
  assumes "ttl_cache pttl" and "ttl_cache wttl"
    and "e_pc env = LocalTTLCacheBackend pttl" and "e_wc env = LocalTTLCacheBackend wttl" and "listing_ok env s uname"
    and "coherent env s" and "\<forall>e\<in>set es. e_experiment_name env (exp_id e) = Inr (exp_name e)"
    and "\<forall>x\<in>set gs. colon_free (dict_get x ''name'') \<and> colon_free (secret_name_of x)"
  shows "fst (filter_manageable_experiments env s uname es) = Inr (filter (\<lambda>e. manages env (a_db s) EXPERIMENT uname (exp_id e)) es) \<and>
    fst (filter_manageable_models env s uname ns) = Inr (filter (manages env (a_db s) REGISTERED_MODEL uname) ns) \<and>
    fst (filter_manageable_prompts env s uname ns) = Inr (filter (manages env (a_db s) PROMPT uname) ns) \<and>
    fst (filter_manageable_gateway_endpoints env s uname gs) =
      filter (\<lambda>x. dict_get x ''name'' \<noteq> [] \<and> manages env (a_db s) GATEWAY_ENDPOINT uname (dict_get x ''name'')) gs \<and>
    fst (filter_manageable_gateway_secrets env s uname gs) =
      filter (\<lambda>x. secret_name_of x \<noteq> [] \<and> manages env (a_db s) GATEWAY_SECRET uname (secret_name_of x)) gs \<and>
    fst (filter_manageable_gateway_model_definitions env s uname gs) =
      filter (\<lambda>x. dict_get x ''name'' \<noteq> [] \<and> manages env (a_db s) GATEWAY_MODEL_DEFINITION uname (dict_get x ''name'')) gs"
proof -
  note caches = local_resolver_caches [OF assms(1,2)]
  note batch = resolver_caches.filters_decide [OF caches assms(4,5)]
  have ws: "plain_workspace (e_workspace env)" using assms(5) by (simp add: listing_ok_def)
  have types: "GATEWAY_ENDPOINT \<in> set resource_types" "GATEWAY_SECRET \<in> set resource_types" "GATEWAY_MODEL_DEFINITION \<in> set resource_types"
    by (simp_all add: resource_types_def)
  have names: "\<forall>x\<in>set gs. colon_free (dict_get x ''name'')" "\<forall>x\<in>set gs. colon_free (secret_name_of x)" using assms(8) by auto
  note gateway = resolver_caches.gateway_filter_decides [OF caches assms(3,4) ws _ _ assms(6)]
  show ?thesis
    using batch(1) [OF assms(7)] batch(2,3) [of ns] gateway [OF types(1) _ names(1)] gateway [OF types(2) _ names(2)]
      gateway [OF types(3) _ names(1)]
    by (simp add: filter_manageable_gateway_endpoints_def can_manage_gateway_endpoint_def effective_gateway_endpoint_permission_def
        filter_manageable_gateway_secrets_def can_manage_gateway_secret_def effective_gateway_secret_permission_def
        filter_manageable_gateway_model_definitions_def can_manage_gateway_model_definition_def
        effective_gateway_model_definition_permission_def)
qed

theorem filters_keep_manageable_witness:
  "fst (filter_manageable_experiments sample_env sample_app ''alice'' [\<lparr>exp_id = ''7'', exp_name = ''team/x''\<rparr>]) =
     Inr [\<lparr>exp_id = ''7'', exp_name = ''team/x''\<rparr>] \<and>
   fst (filter_manageable_gateway_endpoints sample_env sample_app ''alice'' [[''name'' \<mapsto> ''e'']]) = []"
proof -
  have "manages sample_env sample_db EXPERIMENT ''alice'' ''7'' \<and> \<not> manages sample_env sample_db GATEWAY_ENDPOINT ''alice'' ''e''"
    by (rule sample_manages)
  with filters_keep_manageable [OF timed.ttl_cache_axioms timed.ttl_cache_axioms _ _ sample_listing(2),
      of "[\<lparr>exp_id = ''7'', exp_name = ''team/x''\<rparr>]" "[[''name'' \<mapsto> ''e'']]" "[]"] sample_inv
  show ?thesis by (simp add: app_inv_def dict_get_def secret_name_of_def)
qed

text \<open>
  Collapsing the group grants of a user does not depend on the order, or the repetition, in which
  the database returns the rows.
\<close>

theorem collapse_ignores_row_order:
  assumes "\<forall>p\<in>set rows. valid_permission (p_permission p)" and "set rows' = set rows"
  shows "collapse_group_permissions rows' = collapse_group_permissions rows"
  by (rule collapse_order [OF assms])

theorem collapse_ignores_row_order_witness:
  "collapse_group_permissions [grant_row 2 ''7'' 2 ''EDIT'', grant_row 1 ''7'' 1 ''READ''] =
   collapse_group_permissions [grant_row 1 ''7'' 1 ''READ'', grant_row 2 ''7'' 2 ''EDIT'']"
  by (rule collapse_ignores_row_order) (auto simp: grant_row_def valid_permission_def)

section \<open>Grants\<close>

text \<open>
  C18: The grants of users on resources are a map. After a successful grant or update the lookup of
  that user and resource returns the permission written, after a revocation it reports that there is
  none, and the lookup of every other pair is unchanged; a grant succeeds only where there was none.
  The table constraints are kept.
\<close>

theorem user_grants_form_a_map:
  assumes "wf_users us" and "wf_perm_table tbl"
  shows "(grant_permission us ext tbl rid uname perm = Inr (tbl1, row1) \<longrightarrow> wf_perm_table tbl1 \<and>
      user_lookup (us, tbl) rid uname = Inl (MlflowException RESOURCE_DOES_NOT_EXIST) \<and>
      (\<forall>k n. user_lookup (us, tbl1) k n = (if (k, n) = (rid, uname) then Inr perm else user_lookup (us, tbl) k n))) \<and>
    (update_permission us tbl rid uname perm = Inr (tbl2, row2) \<longrightarrow> wf_perm_table tbl2 \<and>
      (\<forall>k n. user_lookup (us, tbl2) k n = (if (k, n) = (rid, uname) then Inr perm else user_lookup (us, tbl) k n))) \<and>
    (revoke_permission us tbl rid uname = Inr tbl3 \<longrightarrow> wf_perm_table tbl3 \<and>
      (\<forall>k n. user_lookup (us, tbl3) k n =
         (if (k, n) = (rid, uname) then Inl (MlflowException RESOURCE_DOES_NOT_EXIST) else user_lookup (us, tbl) k n)))"
  using user_writes_lookup [OF assms] by blast

theorem user_grants_form_a_map_witness:
  "user_lookup ([alice, bob], [grant_row 1 ''7'' 1 ''EDIT'']) ''7'' ''alice'' = Inr ''EDIT'' \<and>
   user_lookup ([alice, bob], [] :: string perm_row list) ''7'' ''alice'' = Inl (MlflowException RESOURCE_DOES_NOT_EXIST)"
proof -
  let ?us = "[alice, bob]" and ?tbl = "[grant_row 1 ''7'' 1 ''MANAGE'']"
  have wf: "wf_users ?us" "wf_perm_table ?tbl"
    by (simp_all add: wf_users_def unique_on_def sample_defs wf_perm_table_def valid_permission_def)
  have up: "update_permission ?us ?tbl ''7'' ''alice'' ''EDIT'' = Inr ([grant_row 1 ''7'' 1 ''EDIT''], grant_row 1 ''7'' 1 ''EDIT'')"
    by code_simp
  have re: "revoke_permission ?us ?tbl ''7'' ''alice'' = Inr []"
    by code_simp
  from user_grants_form_a_map [OF wf, of "()" "''7''" "''alice''" "''EDIT''" "[]" "grant_row 1 ''7'' 1 ''EDIT''"
      "[grant_row 1 ''7'' 1 ''EDIT'']" "grant_row 1 ''7'' 1 ''EDIT''" "[]", THEN conjunct2] up re
  show ?thesis by simp
qed

text \<open>
  The grants of groups on resources are a map in the same sense.
\<close>

theorem group_grants_form_a_map:
  assumes "wf_groups gs" and "wf_perm_table tbl"
  shows "(grant_group_permission gs ext tbl gname rid perm = Inr (tbl1, row1) \<longrightarrow> wf_perm_table tbl1 \<and>
      group_lookup (gs, tbl) rid gname = Inl (MlflowException RESOURCE_DOES_NOT_EXIST) \<and>
      (\<forall>k n. group_lookup (gs, tbl1) k n = (if (k, n) = (rid, gname) then Inr perm else group_lookup (gs, tbl) k n))) \<and>
    (update_group_permission gs tbl gname rid perm = Inr (tbl2, row2) \<longrightarrow> wf_perm_table tbl2 \<and>
      (\<forall>k n. group_lookup (gs, tbl2) k n = (if (k, n) = (rid, gname) then Inr perm else group_lookup (gs, tbl) k n))) \<and>
    (revoke_group_permission gs tbl gname rid = Inr tbl3 \<longrightarrow> wf_perm_table tbl3 \<and>
      (\<forall>k n. group_lookup (gs, tbl3) k n =
         (if (k, n) = (rid, gname) then Inl (MlflowException RESOURCE_DOES_NOT_EXIST) else group_lookup (gs, tbl) k n)))"
  using group_writes_lookup [OF assms] by blast

theorem group_grants_form_a_map_witness:
  "group_lookup ([\<lparr>g_id = 1, g_group_name = ''devs''\<rparr>], [grant_row 1 ''7'' 1 ''EDIT'']) ''7'' ''devs'' = Inr ''EDIT''"
proof -
  let ?gs = "[\<lparr>g_id = 1, g_group_name = ''devs''\<rparr>]" and ?tbl = "[grant_row 1 ''7'' 1 ''MANAGE'']"
  have wf: "wf_groups ?gs" "wf_perm_table ?tbl"
    by (simp_all add: wf_groups_def unique_on_def sample_defs wf_perm_table_def valid_permission_def)
  have up: "update_group_permission ?gs ?tbl ''devs'' ''7'' ''EDIT'' = Inr ([grant_row 1 ''7'' 1 ''EDIT''], grant_row 1 ''7'' 1 ''EDIT'')"
    by code_simp
  from group_grants_form_a_map [OF wf, of "()" "''devs''" "''7''" "''EDIT''"] up show ?thesis by simp
qed

text \<open>
  C19: What a refused grant reports. An invalid permission name, an unknown user and a grant that
  exists already are told apart by their error codes, in this order.
\<close>

theorem grant_refusals:
  assumes "wf_users us" and "wf_perm_table tbl"
  shows "(\<not> valid_permission perm \<longrightarrow>
      grant_permission us ext tbl rid uname perm = Inl (MlflowException INVALID_PARAMETER_VALUE)) \<and>
    (valid_permission perm \<and> uname \<notin> u_username ` set us \<longrightarrow>
      grant_permission us ext tbl rid uname perm = Inl (MlflowException RESOURCE_DOES_NOT_EXIST)) \<and>
    (valid_permission perm \<and> uname \<in> u_username ` set us \<and> user_abs (us, tbl) (rid, uname) \<noteq> None \<longrightarrow>
      grant_permission us ext tbl rid uname perm = Inl (MlflowException RESOURCE_ALREADY_EXISTS)) \<and>
    (valid_permission perm \<and> uname \<in> u_username ` set us \<and> user_abs (us, tbl) (rid, uname) = None \<longrightarrow>
      (\<exists>tbl' row. grant_permission us ext tbl rid uname perm = Inr (tbl', row)))"
  using grant_outcomes [OF assms] by blast

theorem grant_refusals_witness:
  "grant_permission [alice, bob] () [grant_row 1 ''7'' 1 ''MANAGE''] ''7'' ''carol'' ''READ'' =
     Inl (MlflowException RESOURCE_DOES_NOT_EXIST)"
proof -
  have wf: "wf_users [alice, bob]" "wf_perm_table [grant_row 1 ''7'' 1 ''MANAGE'']"
    by (simp_all add: wf_users_def unique_on_def sample_defs wf_perm_table_def valid_permission_def)
  from grant_refusals [OF wf, of "''READ''" "()" "''7''" "''carol''"] show ?thesis
    by (simp add: valid_permission_def sample_defs)
qed

text \<open>
  C20: Through his groups a user holds on a resource the grant of greatest priority that any of his
  groups holds, and none when no group holds one.
\<close>

theorem group_grants_highest:
  assumes "wf_users us" and "wf_user_groups ugs" and "wf_perm_table tbl" and "get_user us uname = Inr u"
    and "rows = {p \<in> set tbl. member ugs (u_id u) (p_owner p) \<and> p_resource p = rid}"
  shows "if rows = {} then get_group_permission_for_user_resource us ugs tbl rid uname = Inl (MlflowException RESOURCE_DOES_NOT_EXIST)
    else \<exists>r\<in>rows. get_group_permission_for_user_resource us ugs tbl rid uname = Inr r \<and>
      (\<forall>p\<in>rows. prio (p_permission p) \<le> prio (p_permission r))"
  using highest_group_row [OF assms] by simp

theorem group_grants_highest_witness:
  "\<exists>r. get_group_permission_for_user_resource (users sample_db) (user_groups sample_db) (t_group (experiment_tables sample_db)) ''7'' ''bob'' = Inr r \<and>
     prio (p_permission r) \<ge> prio ''EDIT''"
proof -
  have "grant_row 2 ''7'' 2 ''EDIT'' \<in> {p \<in> set (t_group (experiment_tables sample_db)). member (user_groups sample_db) (u_id bob) (p_owner p) \<and> p_resource p = ''7''}"
    by (simp add: sample_defs member_def)
  moreover from group_grants_highest [OF wf_dbD(1,3) [OF sample_db_wf] wf_db_tables(2) [OF sample_db_wf] sample_users(1) refl, of "''7''"]
  show ?thesis using calculation by (force simp: grant_row_def split: if_splits)
qed

section \<open>Memberships, patterns and keys\<close>

text \<open>
  C21: Synchronising a user's groups is exact: for an existing user and existing groups it succeeds,
  afterwards the user is in the named groups and in no other, and nobody else's groups changed.
\<close>

theorem set_user_groups_exact:
  assumes "wf_db d" and "get_user (users d) uname = Inr u" and "set names \<subseteq> g_group_name ` set (groups d)"
  shows "\<exists>d'. set_user_groups d uname names = Inr d' \<and> wf_db d' \<and> set (get_groups_for_user d' uname) = set names \<and>
    (\<forall>n. n \<noteq> uname \<longrightarrow> set (get_groups_for_user d' n) = set (get_groups_for_user d n))"
  by (rule set_user_groups_sync [OF assms])

theorem set_user_groups_exact_witness:
  "\<exists>d'. set_user_groups sample_db ''bob'' [''ops''] = Inr d' \<and> set (get_groups_for_user d' ''bob'') = {''ops''}"
  using set_user_groups_exact [OF sample_db_wf sample_users(1), of "[''ops'']"] by (auto simp: sample_db_def)

text \<open>
  Workspace patterns: over rows sorted by priority, the loop looks at the lowest priority number
  that matches and returns a permission of greatest rank among the matching rows of that tier, or
  nothing when no pattern matches.
\<close>

theorem workspace_patterns_first_tier:
  assumes "sorted (map rx_priority rows)" and "\<forall>r\<in>set rows. valid_permission (rx_permission r)"
    and "\<forall>r\<in>set rows. re_match (rx_regex r) ws = Inr (hit r)"
  shows "if first_tier hit rows = [] then match_workspace_regex_permission re_match rows ws = Inr None
    else \<exists>p. match_workspace_regex_permission re_match rows ws = Inr (Some p) \<and>
        (\<exists>r\<in>set (first_tier hit rows). get_permission (rx_permission r) = Inr p) \<and>
        (\<forall>r\<in>set (first_tier hit rows). prio (rx_permission r) \<le> priority p)"
  using assms by (rule match_workspace_regex_tier)

theorem workspace_patterns_first_tier_witness:
  "\<exists>p. match_workspace_regex_permission prefix_match
      [\<lparr>rx_id = 1, rx_regex = ''a'', rx_priority = 1, rx_owner = 1, rx_permission = ''READ''\<rparr>,
       \<lparr>rx_id = 2, rx_regex = ''ab'', rx_priority = 1, rx_owner = 1, rx_permission = ''EDIT''\<rparr>,
       \<lparr>rx_id = 3, rx_regex = ''a'', rx_priority = 2, rx_owner = 1, rx_permission = ''MANAGE''\<rparr>] ''abc'' = Inr (Some p) \<and>
     3 \<le> priority p"
  using workspace_patterns_first_tier [of
      "[\<lparr>rx_id = 1, rx_regex = ''a'', rx_priority = 1, rx_owner = 1, rx_permission = ''READ''\<rparr>,
        \<lparr>rx_id = 2, rx_regex = ''ab'', rx_priority = 1, rx_owner = 1, rx_permission = ''EDIT''\<rparr>,
        \<lparr>rx_id = 3, rx_regex = ''a'', rx_priority = 2, rx_owner = 1, rx_permission = ''MANAGE''\<rparr>]"
      prefix_match "''abc''" "\<lambda>r. prefix (rx_regex r) ''abc''"]
  by (auto simp: prefix_match_def valid_permission_def first_tier_def)

text \<open>
  A cache key determines the request: with names of workspaces, resource types and resources
  that hold no colon, two requests share a key only when they agree on the type, the resource, the
  user, whatever characters his name has, and the workspace in effect.
\<close>

theorem cache_keys_determine_requests:
  assumes "plain_workspace ws" and "plain_workspace ws'" and "colon_free rt" and "colon_free rt'"
    and "colon_free rid" and "colon_free rid'"
    and "make_cache_key rt rid u (get_cache_workspace cfg ws) = make_cache_key rt' rid' u' (get_cache_workspace cfg ws')"
  shows "rt = rt' \<and> rid = rid' \<and> u = u' \<and> workspace_view cfg ws = workspace_view cfg ws'"
  using request_key_inj [OF assms(1-6)] assms(7) by (simp add: request_key_def)

theorem cache_keys_determine_requests_witness:
  "workspace_view sample_config (Some []) = workspace_view sample_config None"
  using cache_keys_determine_requests [of "Some []" None EXPERIMENT EXPERIMENT "''7''" "''7''" "''b:ob''" sample_config "''b:ob''"]
  by (simp add: plain_workspace_def get_cache_workspace_def sample_config_def)

text \<open>
  The record of fallbacks stays bounded: each resource type keeps at most fifty sampled ids, all
  different, and its count grows by one.
\<close>

theorem fallback_samples_bounded:
  assumes "\<forall>t xs. a_samples s t = Some xs \<longrightarrow> distinct xs \<and> length xs \<le> 50"
  shows "(\<forall>t xs. a_samples (fst (record_permission_fallback s rtype rid perm)) t = Some xs \<longrightarrow> distinct xs \<and> length xs \<le> 50) \<and>
    get_permission_fallback_counts (fst (record_permission_fallback s rtype rid perm)) rtype =
      Some (case a_counts s rtype of None \<Rightarrow> 1 | Some n \<Rightarrow> n + 1)"
  using assms
  by (auto simp: record_permission_fallback_def get_permission_fallback_counts_def FALLBACK_SAMPLE_LIMIT_def Let_def split: option.splits)

theorem fallback_samples_bounded_witness:
  "get_permission_fallback_counts (fst (record_permission_fallback sample_app EXPERIMENT ''7'' READ)) EXPERIMENT = Some 1"
  using fallback_samples_bounded [of sample_app EXPERIMENT "''7''" READ] by (simp add: sample_app_def)

section \<open>Where the code departs from its intent\<close>

text \<open>
  Two scorers of one experiment share a cache entry: after a decision on one scorer the resolver
  answers a request on another with it, although the database decides otherwise.
\<close>

theorem scorer_requests_share_a_key:
  "fst (resolve_permission sample_env (snd (resolve_permission sample_env scorer_app SCORER ''7'' ''bob'' (Some ''a''))) SCORER ''7'' ''bob'' (Some ''b'')) =
     Inr \<lparr>pr_permission = MANAGE, kind = ''user''\<rparr> \<and>
   decide sample_env (a_db scorer_app) SCORER ''7'' ''bob'' (Some ''b'') = Inr \<lparr>pr_permission = NO_PERMISSIONS, kind = ''fallback''\<rparr>"
  by code_simp

text \<open>
  A grant of a gateway object to a group reaches no member: the group source of the gateway
  builders looks for a group that has the user's name, and reports that there is no grant unless one
  exists.
\<close>

theorem gateway_group_source_ignores_membership:
  assumes "wf_db d" and "uname \<notin> g_group_name ` set (groups d)"
  shows "get_user_groups_gateway_secret_permission d rid uname = Inl (MlflowException RESOURCE_DOES_NOT_EXIST) \<and>
    get_user_groups_gateway_endpoint_permission d rid uname = Inl (MlflowException RESOURCE_DOES_NOT_EXIST) \<and>
    get_user_groups_gateway_model_definition_permission d rid uname = Inl (MlflowException RESOURCE_DOES_NOT_EXIST)"
proof -
  have "get_group_permission_for_user (groups d) tbl rid uname = Inl (MlflowException RESOURCE_DOES_NOT_EXIST)"
    for tbl :: "string perm_row list"
    using wf_dbD(2) [OF assms(1)] assms(2)
    by (cases rule: get_group_cases [where gname = uname])
      (auto simp: get_group_permission_for_user_def find_group_permission_eq [OF wf_dbD(2) [OF assms(1)]] group_own_def)
  then show ?thesis
    by (simp add: get_user_groups_gateway_secret_permission_def get_user_groups_gateway_endpoint_permission_def
        get_user_groups_gateway_model_definition_permission_def)
qed

theorem gateway_group_source_ignores_membership_witness:
  "get_user_groups_gateway_secret_permission sample_db ''k'' ''bob'' = Inl (MlflowException RESOURCE_DOES_NOT_EXIST)"
  using gateway_group_source_ignores_membership [OF sample_db_wf, of "''bob''" "''k''"] by (simp add: sample_db_def)

text \<open>
  A gateway pattern of a group whose name is not a number can be neither read nor deleted
  through the store: the arguments are swapped and the call fails.
\<close>

theorem gateway_group_patterns_unreachable:
  assumes "\<forall>j. \<not> int_eq_text cmp j gname"
  shows "(\<exists>e. delete_group_gateway_secret_regex_permission cmp d i gname = Inl e) \<and>
    (\<exists>e. delete_group_gateway_endpoint_regex_permission cmp d i gname = Inl e) \<and>
    (\<exists>e. delete_group_gateway_model_definition_regex_permission cmp d i gname = Inl e)"
proof -
  have fails: "\<exists>e. swapped_regex cmp tbl gname gid = Inl e" for tbl gid
    using assms unfolding swapped_regex_def filter_list_comp by simp
  have all: "\<exists>e. put_tbl (bindE (swapped_group cmp (groups d) i) (\<lambda>g. bindE (swapped_regex cmp tbl gname (g_id g)) k)) put = Inl e"
    for tbl and k :: "regex_row \<Rightarrow> regex_row list res" and put
  proof (cases "swapped_group cmp (groups d) i")
    case (Inr g)
    from fails [of tbl "g_id g"] obtain e where "swapped_regex cmp tbl gname (g_id g) = Inl e" by blast
    with Inr show ?thesis by (simp add: put_tbl_def)
  qed (simp add: put_tbl_def)
  show ?thesis
    unfolding delete_group_gateway_secret_regex_permission_def delete_group_gateway_endpoint_regex_permission_def
      delete_group_gateway_model_definition_regex_permission_def
    by (intro conjI; rule all)
qed

theorem gateway_group_patterns_unreachable_witness:
  "\<exists>e. delete_group_gateway_secret_regex_permission \<lparr>text_eq_int = (\<lambda>_ _. False), int_eq_text = (\<lambda>_ _. False)\<rparr> sample_db 1 ''devs'' = Inl e"
  using gateway_group_patterns_unreachable [of "\<lparr>text_eq_int = (\<lambda>_ _. False), int_eq_text = (\<lambda>_ _. False)\<rparr>" "''devs''" sample_db 1] by simp

text \<open>
  Updating a gateway pattern or the pattern of a registered model validates the new pattern but
  leaves the stored patterns as they were.
\<close>

theorem pattern_updates_keep_the_pattern:
  assumes "unique_on rx_id tbl" and "gateway_regex_update rc us tbl i rx prty perm uname = Inr (tbl', row)"
    and "unique_on rx_id mtbl" and "model_regex_update rc us mtbl j mrx prty perm uname prompt = Inr (mtbl', mrow)"
  shows "map rx_regex tbl' = map rx_regex tbl \<and> map rx_regex mtbl' = map rx_regex mtbl"
proof -
  have gw: "map rx_regex tbl' = map rx_regex tbl"
    using assms(2) write_keeps_patterns [OF assms(1) one_or_raise_in]
    unfolding gateway_regex_update_def find_regex_permission_def filter_list_comp bindE_eq_Inr by blast
  have md: "map rx_regex mtbl' = map rx_regex mtbl"
    using assms(4) write_keeps_patterns [OF assms(3) one_or_raise_in]
    unfolding model_regex_update_def find_model_regex_def filter_list_comp bindE_eq_Inr by blast
  from gw md show ?thesis ..
qed

theorem pattern_updates_keep_the_pattern_witness:
  "map rx_regex [sample_pattern\<lparr>rx_priority := 5, rx_permission := ''EDIT''\<rparr>] = [''old'']"
proof -
  have gw: "gateway_regex_update (\<lambda>_. CompileOk) [alice] [sample_pattern] 1 ''new'' 5 ''EDIT'' ''alice'' =
      Inr ([sample_pattern\<lparr>rx_priority := 5, rx_permission := ''EDIT''\<rparr>], sample_pattern\<lparr>rx_priority := 5, rx_permission := ''EDIT''\<rparr>)"
    by code_simp
  have md: "model_regex_update (\<lambda>_. CompileOk) [alice] [sample_model_pattern] 1 ''new'' 5 ''EDIT'' ''alice'' False =
      Inr ([sample_model_pattern\<lparr>rx_priority := 5, rx_permission := ''EDIT''\<rparr>], sample_model_pattern\<lparr>rx_priority := 5, rx_permission := ''EDIT''\<rparr>)"
    by code_simp
  show ?thesis
    using pattern_updates_keep_the_pattern [OF _ gw _ md] by (simp add: unique_on_def sample_pattern_def)
qed

text \<open>
  Renaming a gateway endpoint is not atomic: when the grants of groups cannot be renamed the
  call raises, and the grants of users stay renamed.
\<close>

theorem rename_gateway_endpoint_not_atomic:
  "rename_gateway_endpoint_permissions endpoint_db ''a'' ''b'' =
     (gateway_endpoint_tables_update (t_user_update (\<lambda>_. [grant_row 1 ''b'' 1 ''READ''])) endpoint_db, Inl IntegrityError)"
  by code_simp

end
